(* ===== verification/Prelude.thy ===== *)
theory Prelude
  imports
    Main
    "HOL-Library.AList"
    "HOL-Library.Char_ord"
    "HOL-Library.List_Lexorder"
begin

section \<open>Shared vocabulary of the development\<close>

text \<open>
  What every component uses: the result type and its sequencing, JavaScript strings, dynamically
  typed JavaScript values, and insertion-ordered maps.

  A JavaScript string is a \<open>string\<close> holding the UTF-8 bytes of its code points, a lone surrogate
  being written as its own three bytes. Every JavaScript string has exactly one such form, so
  equality, prefixes and searches for ASCII delimiters are those of the byte lists, and
  \<open>Buffer.byteLength(s, "utf8")\<close> is \<open>length s\<close>. What JavaScript counts or reads in UTF-16 units
  (\<open>s.length\<close>, white space beyond ASCII) is written out below.
\<close>

named_theorems result_simps \<open>sequencing of results\<close>
named_theorems map_simps \<open>insertion-ordered maps\<close>

subsection \<open>Results: a thrown error or a value\<close>

definition chain :: "'e + 'a \<Rightarrow> ('a \<Rightarrow> 'e + 'b) \<Rightarrow> 'e + 'b" where
  "chain m f = (case m of Inl e \<Rightarrow> Inl e | Inr x \<Rightarrow> f x)"

definition require :: "bool \<Rightarrow> 'e \<Rightarrow> 'e + unit" where
  "require b e = (if b then Inr () else Inl e)"

definition rethrow :: "('e \<Rightarrow> 'f) \<Rightarrow> 'e + 'a \<Rightarrow> 'f + 'a" where
  "rethrow h m = (case m of Inl e \<Rightarrow> Inl (h e) | Inr x \<Rightarrow> Inr x)"

text \<open>\<open>collect f xs\<close> runs \<open>f\<close> on each element in order and stops at the first error.\<close>

fun collect :: "('a \<Rightarrow> 'e + 'b) \<Rightarrow> 'a list \<Rightarrow> 'e + 'b list" where
  "collect f [] = Inr []"
| "collect f (x # xs) = chain (f x) (\<lambda>y. chain (collect f xs) (\<lambda>ys. Inr (y # ys)))"

lemma chain_Inl [simp]: "chain (Inl e) f = Inl e"
  by (simp add: chain_def)

lemma chain_Inr [simp]: "chain (Inr x) f = f x"
  by (simp add: chain_def)

lemma chain_eq_Inr [result_simps]: "chain m f = Inr y \<longleftrightarrow> (\<exists>x. m = Inr x \<and> f x = Inr y)"
  by (cases m) auto

lemma chain_eq_Inl [result_simps]:
  "chain m f = Inl e \<longleftrightarrow> m = Inl e \<or> (\<exists>x. m = Inr x \<and> f x = Inl e)"
  by (cases m) auto

lemma chain_InrE [elim]:
  assumes "chain m f = Inr y"
  obtains x where "m = Inr x" and "f x = Inr y"
  using assms by (auto simp: chain_eq_Inr)

lemma chain_assoc: "chain (chain m f) g = chain m (\<lambda>x. chain (f x) g)"
  by (cases m) auto

lemma require_eq_Inr [simp]: "require b e = Inr u \<longleftrightarrow> b"
  by (simp add: require_def)

lemma require_eq_Inl [simp]: "require b e = Inl e' \<longleftrightarrow> \<not> b \<and> e' = e"
  by (auto simp: require_def)

lemma require_True [simp]: "require True e = Inr ()"
  by (simp add: require_def)

lemma require_False [simp]: "require False e = Inl e"
  by (simp add: require_def)

lemma rethrow_eq_Inr [simp]: "rethrow h m = Inr x \<longleftrightarrow> m = Inr x"
  by (cases m) (auto simp: rethrow_def)

lemma rethrow_Inl [simp]: "rethrow h (Inl e) = Inl (h e)"
  by (simp add: rethrow_def)

lemma rethrow_Inr [simp]: "rethrow h (Inr x) = Inr x"
  by (simp add: rethrow_def)

lemma collect_Inr_length: "collect f xs = Inr ys \<Longrightarrow> length ys = length xs"
  by (induction xs arbitrary: ys) (auto simp: result_simps)

lemma collect_Inr_nth: "collect f xs = Inr ys \<Longrightarrow> i < length xs \<Longrightarrow> f (xs ! i) = Inr (ys ! i)"
  by (induction xs arbitrary: ys i) (auto simp: result_simps nth_Cons split: nat.splits)

lemma collect_Inr_all: "collect f xs = Inr ys \<Longrightarrow> \<forall>x \<in> set xs. \<exists>y \<in> set ys. f x = Inr y"
  by (induction xs arbitrary: ys) (fastforce simp: result_simps)+

lemma collect_Inr_back: "collect f xs = Inr ys \<Longrightarrow> \<forall>y \<in> set ys. \<exists>x \<in> set xs. f x = Inr y"
  by (induction xs arbitrary: ys) (fastforce simp: result_simps)+

lemma collect_map: "(\<And>x. x \<in> set xs \<Longrightarrow> f x = Inr (g x)) \<Longrightarrow> collect f xs = Inr (map g xs)"
  by (induction xs) auto

lemma chain_cong [fundef_cong]:
  "m = m' \<Longrightarrow> (\<And>x. m' = Inr x \<Longrightarrow> f x = f' x) \<Longrightarrow> chain m f = chain m' f'"
  by (cases m') auto

subsection \<open>Lists used as sets: keep the first occurrence\<close>

definition push_new :: "'a list \<Rightarrow> 'a \<Rightarrow> 'a list" where
  "push_new out x = (if x \<in> set out then out else out @ [x])"

lemma set_push_new [simp]: "set (push_new out x) = insert x (set out)"
  by (auto simp: push_new_def)

lemma distinct_push_new [simp]: "distinct (push_new out x) \<longleftrightarrow> distinct out"
  by (auto simp: push_new_def)

lemma set_foldl_push_new [simp]: "set (foldl push_new out xs) = set out \<union> set xs"
  by (induction xs arbitrary: out) auto

lemma distinct_foldl_push_new [simp]: "distinct (foldl push_new out xs) \<longleftrightarrow> distinct out"
  by (induction xs arbitrary: out) auto

lemma foldl_push_new_distinct:
  "distinct xs \<Longrightarrow> set out \<inter> set xs = {} \<Longrightarrow> foldl push_new out xs = out @ xs"
  by (induction xs arbitrary: out) (auto simp: push_new_def)

subsection \<open>JavaScript strings\<close>

definition byte :: "char \<Rightarrow> nat" where
  "byte c = of_char c"

fun startsWith :: "string \<Rightarrow> string \<Rightarrow> bool" where
  "startsWith s [] = True"
| "startsWith [] (p # ps) = False"
| "startsWith (c # s) (p # ps) = (c = p \<and> startsWith s ps)"

definition endsWith :: "string \<Rightarrow> string \<Rightarrow> bool" where
  "endsWith s p = startsWith (rev s) (rev p)"

text \<open>\<open>s.split(c)\<close> for a one-character separator: never empty, \<open>"".split(c)\<close> is \<open>[""]\<close>.\<close>

fun split_on :: "char \<Rightarrow> string \<Rightarrow> string list" where
  "split_on c [] = [[]]"
| "split_on c (d # s) =
     (if d = c then [] # split_on c s
      else case split_on c s of [] \<Rightarrow> [[d]] | t # ts \<Rightarrow> (d # t) # ts)"

fun join :: "string \<Rightarrow> string list \<Rightarrow> string" where
  "join sep [] = []"
| "join sep [x] = x"
| "join sep (x # y # zs) = x @ sep @ join sep (y # zs)"

text \<open>
  \<open>\s\<close> of a regular expression and the characters \<open>trim\<close> removes: TAB, LF, VT, FF, CR, space,
  U+00A0, U+1680, U+2000 to U+200A, U+2028, U+2029, U+202F, U+205F, U+3000 and U+FEFF.
  \<open>ws_len s\<close> is the number of bytes of the white space character \<open>s\<close> starts with, 0 if it starts
  with none; \<open>rws_len\<close> is the same at the end of a string, read backwards.
\<close>

definition ws1 :: "nat \<Rightarrow> bool" where
  "ws1 a = (9 \<le> a \<and> a \<le> 13 \<or> a = 32)"

definition ws3 :: "nat \<Rightarrow> nat \<Rightarrow> nat \<Rightarrow> bool" where
  "ws3 a b c =
     (a = 0xE1 \<and> b = 0x9A \<and> c = 0x80
      \<or> a = 0xE2 \<and> b = 0x80 \<and> (0x80 \<le> c \<and> c \<le> 0x8A \<or> c = 0xA8 \<or> c = 0xA9 \<or> c = 0xAF)
      \<or> a = 0xE2 \<and> b = 0x81 \<and> c = 0x9F
      \<or> a = 0xE3 \<and> b = 0x80 \<and> c = 0x80
      \<or> a = 0xEF \<and> b = 0xBB \<and> c = 0xBF)"

fun ws_len :: "string \<Rightarrow> nat" where
  "ws_len [] = 0"
| "ws_len [a] = (if ws1 (byte a) then 1 else 0)"
| "ws_len [a, b] =
     (if ws1 (byte a) then 1 else if byte a = 0xC2 \<and> byte b = 0xA0 then 2 else 0)"
| "ws_len (a # b # c # s) =
     (if ws1 (byte a) then 1 else if byte a = 0xC2 \<and> byte b = 0xA0 then 2
      else if ws3 (byte a) (byte b) (byte c) then 3 else 0)"

fun rws_len :: "string \<Rightarrow> nat" where
  "rws_len [] = 0"
| "rws_len [a] = (if ws1 (byte a) then 1 else 0)"
| "rws_len [a, b] =
     (if ws1 (byte a) then 1 else if byte b = 0xC2 \<and> byte a = 0xA0 then 2 else 0)"
| "rws_len (a # b # c # s) =
     (if ws1 (byte a) then 1 else if byte b = 0xC2 \<and> byte a = 0xA0 then 2
      else if ws3 (byte c) (byte b) (byte a) then 3 else 0)"

lemma ws_len_le: "ws_len s \<le> length s"
  by (induction s rule: ws_len.induct) auto

lemma rws_len_le: "rws_len s \<le> length s"
  by (induction s rule: rws_len.induct) auto

lemma ws_len_Nil_drop: "ws_len s \<noteq> 0 \<Longrightarrow> length s - ws_len s < length s"
  using ws_len_le [of s] by (cases s) auto

lemma rws_len_Nil_drop: "rws_len s \<noteq> 0 \<Longrightarrow> length s - rws_len s < length s"
  using rws_len_le [of s] by (cases s) auto

function trim_start :: "string \<Rightarrow> string" where
  "trim_start s = (if ws_len s = 0 then s else trim_start (drop (ws_len s) s))"
  by pat_completeness auto
termination
  by (relation "measure length") (auto simp: ws_len_Nil_drop)

function rtrim_start :: "string \<Rightarrow> string" where
  "rtrim_start s = (if rws_len s = 0 then s else rtrim_start (drop (rws_len s) s))"
  by pat_completeness auto
termination
  by (relation "measure length") (auto simp: rws_len_Nil_drop)

declare trim_start.simps [simp del] rtrim_start.simps [simp del]

definition trim :: "string \<Rightarrow> string" where
  "trim s = rev (rtrim_start (rev (trim_start s)))"

text \<open>
  \<open>s.split(/\s+/)\<close>: the maximal runs of white space separate the pieces; a leading or trailing run
  leaves an empty piece, and the empty string gives \<open>[""]\<close>.
\<close>

function split_ws :: "string \<Rightarrow> string list" where
  "split_ws s =
     (case s of
        [] \<Rightarrow> [[]]
      | c # t \<Rightarrow>
          if ws_len s \<noteq> 0 then [] # split_ws (trim_start (drop (ws_len s) s))
          else case split_ws t of [] \<Rightarrow> [[c]] | u # us \<Rightarrow> (c # u) # us)"
  by pat_completeness auto

lemma length_trim_start: "length (trim_start s) \<le> length s"
proof (induction s rule: trim_start.induct)
  case (1 s)
  show ?case
  proof (cases "ws_len s = 0")
    case True
    then show ?thesis by (simp add: trim_start.simps [of s])
  next
    case False
    with "1.IH" show ?thesis by (simp add: trim_start.simps [of s])
  qed
qed

termination split_ws
proof (relation "measure length")
  fix s :: string and c t
  assume "s = c # t" and "ws_len s \<noteq> 0"
  then show "(trim_start (drop (ws_len s) s), s) \<in> measure length"
    using length_trim_start [of "drop (ws_len s) s"] ws_len_Nil_drop [of s] by simp
qed auto

declare split_ws.simps [simp del]

text \<open>\<open>s.length\<close>: UTF-16 code units, counted from the lead bytes.\<close>

definition utf16_units :: "char \<Rightarrow> nat" where
  "utf16_units c = (if byte c < 0x80 then 1 else if byte c < 0xC0 then 0
                    else if byte c < 0xF0 then 1 else 2)"

definition utf16_length :: "string \<Rightarrow> nat" where
  "utf16_length s = sum_list (map utf16_units s)"

text \<open>Character classes of the regular expressions.\<close>

definition is_digit :: "char \<Rightarrow> bool" where
  "is_digit c = (48 \<le> byte c \<and> byte c \<le> 57)"

definition is_hex_lower :: "char \<Rightarrow> bool" where
  "is_hex_lower c = (is_digit c \<or> 97 \<le> byte c \<and> byte c \<le> 102)"

definition is_hex :: "char \<Rightarrow> bool" where
  "is_hex c = (is_hex_lower c \<or> 65 \<le> byte c \<and> byte c \<le> 70)"

definition is_alpha :: "char \<Rightarrow> bool" where
  "is_alpha c = (65 \<le> byte c \<and> byte c \<le> 90 \<or> 97 \<le> byte c \<and> byte c \<le> 122)"

definition is_base64url :: "char \<Rightarrow> bool" where
  "is_base64url c = (is_alpha c \<or> is_digit c \<or> c = CHR ''-'' \<or> c = CHR ''_'')"

definition is_ascii :: "char \<Rightarrow> bool" where
  "is_ascii c = (byte c < 0x80)"

definition ascii_lower_char :: "char \<Rightarrow> char" where
  "ascii_lower_char c = (if 65 \<le> byte c \<and> byte c \<le> 90 then char_of (byte c + 32) else c)"

text \<open>A natural number in decimal, as a template literal prints it.\<close>

fun decimal :: "nat \<Rightarrow> string" where
  "decimal n = (if n < 10 then [char_of (48 + n)] else decimal (n div 10) @ [char_of (48 + n mod 10)])"

declare decimal.simps [simp del]

subsection \<open>Numbers and dynamically typed values\<close>

text \<open>
  A JavaScript number is a double. It is \<open>Whole i\<close> when its value is the integer \<open>i\<close>, \<open>Fraction t\<close> when
  it is finite with the decimal text \<open>t\<close> and not an integer, and \<open>NotFinite\<close> for NaN and the
  infinities.
  An untyped value (\<open>unknown\<close> in the source) is a \<open>jsval\<close>; \<open>RevokedProxy\<close> is an object whose every
  inspection throws, \<open>Opaque\<close> a function, symbol or bigint. An object lists its own enumerable
  properties.
\<close>

datatype num = Whole int | Fraction string | NotFinite

datatype jsval =
    Undefined | Null | Boolean bool | Number num | Str string
  | Arr "jsval list" | Obj "(string \<times> jsval) list" | RevokedProxy | Opaque

definition MAX_SAFE_INTEGER :: int where
  "MAX_SAFE_INTEGER = 9007199254740991"

definition safe_int :: "int \<Rightarrow> bool" where
  "safe_int i = (- MAX_SAFE_INTEGER \<le> i \<and> i \<le> MAX_SAFE_INTEGER)"

fun isSafeInteger :: "jsval \<Rightarrow> bool" where
  "isSafeInteger (Number (Whole i)) = safe_int i"
| "isSafeInteger _ = False"

subsection \<open>Insertion-ordered maps\<close>

text \<open>
  A JavaScript \<open>Map\<close> with string keys keeps insertion order: \<open>set\<close> on a present key keeps its place
  and on a new one appends, which is \<open>AList.update\<close>; \<open>delete\<close> removes the entry.
\<close>

type_synonym 'v jsmap = "(string \<times> 'v) list"

definition map_set :: "string \<Rightarrow> 'v \<Rightarrow> 'v jsmap \<Rightarrow> 'v jsmap" where
  "map_set k v m = AList.update k v m"

definition map_del :: "string \<Rightarrow> 'v jsmap \<Rightarrow> 'v jsmap" where
  "map_del k m = filter (\<lambda>p. fst p \<noteq> k) m"

definition map_has :: "string \<Rightarrow> 'v jsmap \<Rightarrow> bool" where
  "map_has k m = (map_of m k \<noteq> None)"

abbreviation wf_map :: "'v jsmap \<Rightarrow> bool" where
  "wf_map m \<equiv> distinct (map fst m)"

lemma map_of_map_set [simp]: "map_of (map_set k v m) = (map_of m)(k \<mapsto> v)"
  by (simp add: map_set_def update_conv')

lemma map_of_map_del [simp]: "map_of (map_del k m) = (map_of m)(k := None)"
  by (induction m) (auto simp: map_del_def fun_eq_iff)

lemma map_set_new: "map_of m k = None \<Longrightarrow> map_set k v m = m @ [(k, v)]"
  by (induction m) (auto simp: map_set_def)

lemma wf_map_set [simp, intro]: "wf_map m \<Longrightarrow> wf_map (map_set k v m)"
  by (simp add: map_set_def distinct_update)

lemma wf_map_filter [simp, intro]: "wf_map m \<Longrightarrow> wf_map (filter P m)"
  by (induction m) auto

lemma wf_map_del [simp, intro]: "wf_map m \<Longrightarrow> wf_map (map_del k m)"
  by (simp add: map_del_def)

lemma map_of_filter_key:
  "wf_map m \<Longrightarrow> map_of (filter P m) k =
     (case map_of m k of None \<Rightarrow> None | Some v \<Rightarrow> if P (k, v) then Some v else None)"
proof (induction m)
  case Nil
  then show ?case by simp
next
  case (Cons p m)
  have none: "map_of m (fst p) = None" using Cons.prems by (simp add: map_of_eq_None_iff)
  show ?case
  proof (cases "k = fst p")
    case True
    with none Cons show ?thesis by (cases p) (auto split: option.splits)
  next
    case False
    with Cons show ?thesis by (cases p) (auto split: option.splits)
  qed
qed

lemma map_of_in_set: "wf_map m \<Longrightarrow> (k, v) \<in> set m \<longleftrightarrow> map_of m k = Some v"
  by (metis map_of_SomeD map_of_is_SomeI)

lemma map_has_iff [map_simps]: "map_has k m \<longleftrightarrow> (\<exists>v. map_of m k = Some v)"
  by (auto simp: map_has_def)

subsection \<open>Generic facts on strings\<close>

lemma startsWith_append [simp]: "startsWith (p @ s) p"
  by (induction p) auto

lemma startsWith_iff: "startsWith s p \<longleftrightarrow> (\<exists>t. s = p @ t)"
  by (induction s p rule: startsWith.induct) auto

lemma startsWith_trans_append: "startsWith s p \<Longrightarrow> startsWith (s @ t) p"
  by (auto simp: startsWith_iff)

lemma split_on_nonempty [simp]: "split_on c s \<noteq> []"
  by (cases s) (auto split: list.splits)

lemma split_on_no_sep: "c \<notin> set s \<Longrightarrow> split_on c s = [s]"
  by (induction s) auto

lemma split_on_append: "c \<notin> set s \<Longrightarrow> split_on c (s @ c # t) = s # split_on c t"
  by (induction s) auto

lemma split_on_pieces: "\<forall>p \<in> set (split_on c s). c \<notin> set p"
  by (induction s) (auto split: list.splits)

lemma join_split_on: "join [c] (split_on c s) = s"
proof (induction s)
  case (Cons d s)
  obtain t ts where t: "split_on c s = t # ts" by (cases "split_on c s") auto
  with Cons show ?case by (cases ts) auto
qed simp

lemma split_on_join: "xs \<noteq> [] \<Longrightarrow> \<forall>x \<in> set xs. c \<notin> set x \<Longrightarrow> split_on c (join [c] xs) = xs"
  by (induction "[c]" xs rule: join.induct) (auto simp: split_on_no_sep split_on_append)

lemma length_join:
  "length (join sep xs) = sum_list (map length xs) + (length xs - 1) * length sep"
  by (induction sep xs rule: join.induct) (auto simp: algebra_simps)

text \<open>Lexicographic comparison of equally long prefixes.\<close>

lemma append_less_append:
  fixes xs ys u v :: "char list"
  shows "length xs = length ys \<Longrightarrow> xs @ u < ys @ v \<longleftrightarrow> xs < ys \<or> xs = ys \<and> u < v"
  by (induction xs ys rule: list_induct2) auto

subsection \<open>Printable ASCII text: trimming and splitting do nothing unexpected\<close>

definition graphic :: "char \<Rightarrow> bool" where
  "graphic c = (0x21 \<le> byte c \<and> byte c \<le> 0x7E)"

lemma ws_len_graphic: "graphic c \<Longrightarrow> ws_len (c # s) = 0"
  by (cases s rule: ws_len.cases) (auto simp: graphic_def ws1_def ws3_def split: list.splits)

lemma ws_len_graphic_list: "list_all graphic s \<Longrightarrow> ws_len s = 0"
  by (cases s) (auto simp: ws_len_graphic)

lemma rws_len_graphic: "graphic c \<Longrightarrow> rws_len (c # s) = 0"
  by (cases s rule: ws_len.cases) (auto simp: graphic_def ws1_def ws3_def split: list.splits)

lemma ws_len_space [simp]: "ws_len (CHR '' '' # s) = 1"
  by (cases s rule: ws_len.cases) (auto simp: ws1_def byte_def split: list.splits)

lemma trim_start_graphic: "graphic c \<Longrightarrow> trim_start (c # s) = c # s"
  by (simp add: trim_start.simps [of "c # s"] ws_len_graphic)

lemma trim_start_Nil [simp]: "trim_start [] = []"
  by (simp add: trim_start.simps [of "[]"])

lemma rtrim_start_graphic: "graphic c \<Longrightarrow> rtrim_start (c # s) = c # s"
  by (simp add: rtrim_start.simps [of "c # s"] rws_len_graphic)

lemma rtrim_start_Nil [simp]: "rtrim_start [] = []"
  by (simp add: rtrim_start.simps [of "[]"])

lemma trim_Nil [simp]: "trim [] = []"
  by (simp add: trim_def)

lemma trim_graphic: "list_all graphic s \<Longrightarrow> trim s = s"
proof (cases s)
  case (Cons c t)
  assume g: "list_all graphic s"
  then have s: "trim_start s = s" using Cons by (simp add: trim_start_graphic)
  have "rev s \<noteq> []" using Cons by simp
  then obtain d u where du: "rev s = d # u" by (cases "rev s") auto
  have "d \<in> set s" using du by (metis list.set_intros(1) set_rev)
  with g have "graphic d" by (auto simp: list_all_iff)
  with du have "rtrim_start (rev s) = rev s" by (simp add: rtrim_start_graphic)
  with s show ?thesis by (simp add: trim_def)
qed simp

lemma split_ws_graphic: "list_all graphic s \<Longrightarrow> split_ws s = [s]"
proof (induction s)
  case (Cons c s)
  then show ?case by (simp add: split_ws.simps [of "c # s"] ws_len_graphic)
qed (simp add: split_ws.simps [of "[]"])

lemma split_ws_append_space:
  assumes "list_all graphic s" and "d \<noteq> []" and "graphic (hd d)"
  shows "split_ws (s @ CHR '' '' # d) = s # split_ws d"
  using assms(1)
proof (induction s)
  case Nil
  obtain e u where "d = e # u" using assms(2) by (cases d) auto
  with assms(3) show ?case
    by (simp add: split_ws.simps [of "CHR '' '' # e # u"] trim_start_graphic)
next
  case (Cons c s)
  then show ?case
    by (simp add: split_ws.simps [of "c # s @ CHR '' '' # d"] ws_len_graphic)
qed

text \<open>The round trip of a space-joined list of non-empty printable ASCII tokens.\<close>

lemma split_ws_join:
  assumes "xs \<noteq> []" and "\<forall>x \<in> set xs. x \<noteq> [] \<and> list_all graphic x"
  shows "split_ws (join '' '' xs) = xs"
  using assms
proof (induction "'' ''" xs rule: join.induct)
  case (2 x)
  then show ?case by (simp add: split_ws_graphic)
next
  case (3 x y zs)
  have hd: "join '' '' (y # zs) \<noteq> [] \<and> graphic (hd (join '' '' (y # zs)))"
    using "3.prems" by (cases zs; cases y) auto
  have ih: "split_ws (join '' '' (y # zs)) = y # zs" using 3 by simp
  show ?case using "3.prems" hd ih by (simp add: split_ws_append_space)
qed simp

end
