(* ===== verification/Errors.thy ===== *)
theory Errors
  imports Prelude
begin

section \<open>Errors and the boundary around pluggable ports\<close>

text \<open>
  \<open>src/errors.ts\<close> and \<open>src/port-failure.ts\<close>. A thrown value is a \<open>failure\<close>: the library's own
  \<open>OAuthError\<close>, the \<open>PortFailureError\<close> that \<open>callPort\<close> puts in place of whatever a port threw
  (its \<open>cause\<close>, kept for local logging only, is not modelled), or any other JavaScript error, by
  constructor name and message.
\<close>

record redirect_target =
  rt_redirectUri :: string
  rt_state :: "string option"

record oauth_error =
  code :: string
  message :: string
  status :: int
  redirect :: "redirect_target option"

datatype failure =
    OAuth oauth_error
  | PortFailure string string bool "int option"
    \<comment> \<open>port, operation, \<open>causeIsOAuthError\<close>, \<open>oauthStatusSnapshot\<close>\<close>
  | Thrown string string

type_synonym 'a outcome = "failure + 'a"

definition oauthError :: "string \<Rightarrow> string \<Rightarrow> int \<Rightarrow> failure" where
  "oauthError c m s = OAuth \<lparr>code = c, message = m, status = s, redirect = None\<rparr>"

definition oauth400 :: "string \<Rightarrow> string \<Rightarrow> failure" where
  "oauth400 c m = oauthError c m 400"

definition oauthErrorBody :: "oauth_error \<Rightarrow> string \<times> string" where
  "oauthErrorBody e = (code e, message e)"

definition withRedirect :: "oauth_error \<Rightarrow> string \<Rightarrow> string option \<Rightarrow> oauth_error" where
  "withRedirect e uri st =
     e\<lparr>redirect := Some \<lparr>rt_redirectUri = uri, rt_state = st\<rparr>\<rparr>"

text \<open>
  What \<open>asOAuth\<close> and the audit classify a failure by: the code of an \<open>OAuthError\<close>, the fixed
  \<open>internal_error\<close> otherwise.
\<close>

fun failureCode :: "failure \<Rightarrow> string" where
  "failureCode (OAuth e) = code e"
| "failureCode _ = ''internal_error''"

subsection \<open>\<open>callPort\<close>\<close>

fun snapshotOAuthFailure :: "failure \<Rightarrow> bool \<times> int option" where
  "snapshotOAuthFailure (OAuth e) = (True, Some (status e))"
| "snapshotOAuthFailure _ = (False, None)"

fun asPortFailure :: "string \<Rightarrow> string \<Rightarrow> failure \<Rightarrow> failure" where
  "asPortFailure port op (PortFailure p q c s) = PortFailure p q c s"
| "asPortFailure port op e =
     (let (isOAuth, st) = snapshotOAuthFailure e in PortFailure port op isOAuth st)"

definition callPort :: "string \<Rightarrow> string \<Rightarrow> 'a outcome \<Rightarrow> 'a outcome" where
  "callPort port op m = rethrow (asPortFailure port op) m"

lemma callPort_Inr [simp]: "callPort p q m = Inr x \<longleftrightarrow> m = Inr x"
  by (simp add: callPort_def)

lemma callPort_value [simp]: "callPort p q (Inr x) = Inr x"
  by (simp add: callPort_def)

lemma asPortFailure_form: "\<exists>p q c s. asPortFailure port op e = PortFailure p q c s"
  by (cases e) auto

lemma callPort_Inl_form: "callPort p q m = Inl e \<Longrightarrow> \<exists>p' q' c s. e = PortFailure p' q' c s"
  using asPortFailure_form [of p q] by (cases m) (auto simp: callPort_def)

lemma asPortFailure_idem: "asPortFailure p q (asPortFailure p' q' e) = asPortFailure p' q' e"
  by (cases e) auto

lemma oauthError_OAuth [simp]: "oauthError c m s = OAuth e \<longleftrightarrow>
    e = \<lparr>code = c, message = m, status = s, redirect = None\<rparr>"
  by (auto simp: oauthError_def)

lemma oauthError_inject [simp]:
  "oauthError c m s = oauthError c' m' s' \<longleftrightarrow> c = c' \<and> m = m' \<and> s = s'"
  by (auto simp: oauthError_def)

lemma failureCode_oauthError [simp]: "failureCode (oauthError c m s) = c"
  by (simp add: oauthError_def)

lemma failureCode_oauth400 [simp]: "failureCode (oauth400 c m) = c"
  by (simp add: oauth400_def)

text \<open>
  A pluggable port never selects the public response: whatever the port's operation threw,
  an \<open>OAuthError\<close> included, the failure \<open>callPort\<close> raises is classified \<open>internal_error\<close>; a returned
  value, a sentinel included, passes unchanged; and a failure already wrapped by an inner port
  boundary keeps the port and operation it names.
\<close>

theorem callPort_isolates:
  "(case callPort port op m of
      Inl e \<Rightarrow> failureCode e = ''internal_error'' \<and> (\<nexists>o'. e = OAuth o')
             \<and> callPort port' op' (Inl e :: 'a outcome) = Inl e
    | Inr x \<Rightarrow> m = Inr x)
   \<and> (\<forall>x. m = Inr x \<longrightarrow> callPort port op m = Inr x)"
proof (cases m)
  case (Inl e)
  obtain p q c s where "asPortFailure port op e = PortFailure p q c s"
    using asPortFailure_form by blast
  with Inl show ?thesis by (simp add: callPort_def)
next
  case (Inr x)
  then show ?thesis by simp
qed

theorem callPort_isolates_witness:
  "callPort ''StorePort'' ''consumeAuthCode''
     (Inl (oauth400 ''invalid_grant'' ''leak'') :: unit outcome)
   = Inl (PortFailure ''StorePort'' ''consumeAuthCode'' True (Some 400))"
  using callPort_isolates
    [of "''StorePort''" "''consumeAuthCode''" "Inl (oauth400 ''invalid_grant'' ''leak'') :: unit outcome" "''P''" "''q''"]
  by (simp add: callPort_def oauth400_def oauthError_def)

end
