(* ===== verification/Scope_Hierarchy.thy ===== *)
theory Scope_Hierarchy
  imports Errors
begin

section \<open>The scope-implication policy\<close>

text \<open>
  \<open>src/scope-hierarchy.ts\<close>: the boot-time validation of the implication graph and the reachability
  query \<open>requireScope\<close> makes. The \<open>WeakMap\<close> that brands validated policies is the constructor
  \<open>Branded\<close>; a policy object that was never validated is \<open>Unbranded\<close>. A \<open>Set\<close> of targets is a list
  in insertion order.
\<close>

record scope_implication =
  granted :: string
  implies :: "string list"

record scope_policy =
  policy_resource :: string
  implications :: "scope_implication list"

type_synonym scope_graph = "string list jsmap"

datatype policy_ref = Branded scope_policy scope_graph | Unbranded scope_policy

definition MAX_SCOPE_HIERARCHY_ROWS :: nat where
  "MAX_SCOPE_HIERARCHY_ROWS = 128"

definition MAX_SCOPE_HIERARCHY_EDGES :: nat where
  "MAX_SCOPE_HIERARCHY_EDGES = 4096"

definition targets :: "scope_graph \<Rightarrow> string \<Rightarrow> string list" where
  "targets g s = (case map_of g s of None \<Rightarrow> [] | Some ts \<Rightarrow> ts)"

subsection \<open>Reading the untyped configuration value\<close>

fun safeIsArray :: "jsval \<Rightarrow> string \<Rightarrow> (string \<Rightarrow> failure) \<Rightarrow> bool outcome" where
  "safeIsArray RevokedProxy label mk = Inl (mk (label @ '' could not be classified''))"
| "safeIsArray (Arr xs) label mk = Inr True"
| "safeIsArray v label mk = Inr False"

text \<open>
  \<open>exactRecord\<close> followed by the reads: the own properties of the object when they are exactly
  \<open>keys\<close>.
\<close>

fun exactRecord ::
  "jsval \<Rightarrow> string \<Rightarrow> string list \<Rightarrow> (string \<Rightarrow> failure) \<Rightarrow> (string \<times> jsval) list outcome" where
  "exactRecord (Obj kvs) label keys mk =
     (if length kvs \<noteq> length keys \<or> (\<exists>k \<in> set (map fst kvs). k \<notin> set keys)
      then Inl (mk (label @ '' must contain exactly '' @ join '' and '' keys))
      else Inr kvs)"
| "exactRecord RevokedProxy label keys mk = Inl (mk (label @ '' could not be classified''))"
| "exactRecord v label keys mk = Inl (mk (label @ '' must be an object''))"

definition own :: "(string \<times> jsval) list \<Rightarrow> string \<Rightarrow> jsval" where
  "own kvs k = (case map_of kvs k of None \<Rightarrow> Undefined | Some v \<Rightarrow> v)"

fun snapshotArray ::
  "jsval \<Rightarrow> string \<Rightarrow> nat \<Rightarrow> (string \<Rightarrow> failure) \<Rightarrow> jsval list outcome" where
  "snapshotArray (Arr xs) label mx mk =
     (if length xs > mx
      then Inl (mk (label @ '' must contain at most '' @ decimal mx @ '' entries''))
      else Inr xs)"
| "snapshotArray RevokedProxy label mx mk = Inl (mk (label @ '' could not be classified''))"
| "snapshotArray v label mx mk = Inl (mk (label @ '' must be an array''))"

subsection \<open>The acyclicity check\<close>

text \<open>
  \<open>assertAcyclic\<close> is a depth-first search; \<open>visiting\<close> is the path to the scopes being visited and
  \<open>visited\<close> the finished ones. The two loops of the source (over the keys, over the targets of a
  scope) are the one loop over a list here; finishing \<open>x\<close> removes it from \<open>visiting\<close> and adds it to
  \<open>visited\<close>.
\<close>

function visit_all ::
  "scope_graph \<Rightarrow> (string \<Rightarrow> failure) \<Rightarrow> string list \<Rightarrow> string list \<Rightarrow> string list
   \<Rightarrow> string list outcome" where
  "visit_all g mk visiting visited [] = Inr visited"
| "visit_all g mk visiting visited (x # xs) =
     (if x \<in> set visiting then Inl (mk (''scopeHierarchy contains a cycle at \"'' @ x @ ''\"''))
      else if x \<in> set visited then visit_all g mk visiting visited xs
      else chain (visit_all g mk (x # visiting) visited (targets g x))
             (\<lambda>visited'. visit_all g mk visiting (x # visited') xs))"
  by pat_completeness auto

lemma unvisited_less:
  "x \<notin> set visiting \<Longrightarrow> x \<in> fst ` set g \<Longrightarrow>
   card (fst ` set g - insert x (set visiting)) < card (fst ` set g - set visiting)"
  by (rule psubset_card_mono) auto

lemma targets_Nil: "x \<notin> fst ` set g \<Longrightarrow> targets g x = []"
  by (simp add: targets_def map_of_eq_None_iff [THEN iffD2])

termination visit_all
proof (relation "measures [\<lambda>(g, mk, visiting, visited, xs). card (fst ` set g - set visiting),
    \<lambda>(g, mk, visiting, visited, xs). length xs]", goal_cases)
  case (3 g mk visiting visited x xs)
  then show ?case
  proof (cases "x \<in> fst ` set g")
    case True
    then show ?thesis using 3 unvisited_less [of x visiting g] by simp
  next
    case False
    then have "fst ` set g - insert x (set visiting) = fst ` set g - set visiting" by auto
    then show ?thesis using targets_Nil [OF False] by simp
  qed
qed auto

definition assertAcyclic :: "scope_graph \<Rightarrow> (string \<Rightarrow> failure) \<Rightarrow> unit outcome" where
  "assertAcyclic g mk = chain (visit_all g mk [] [] (map fst g)) (\<lambda>_. Inr ())"

subsection \<open>The rows of the policy\<close>

text \<open>The inner loop of one row: \<open>edges\<close> are the targets accepted so far, \<open>n\<close> the edges of all rows.\<close>

fun read_targets ::
  "string list \<Rightarrow> string \<Rightarrow> string \<Rightarrow> (string \<Rightarrow> failure) \<Rightarrow> nat \<Rightarrow> string list \<Rightarrow> nat \<Rightarrow> jsval list
   \<Rightarrow> (string list \<times> nat) outcome" where
  "read_targets catalog label grant mk i edges n [] = Inr (edges, n)"
| "read_targets catalog label grant mk i edges n (v # vs) =
     (case v of
        Str target \<Rightarrow>
          if target \<notin> set catalog
          then Inl (mk (label @ ''.implies['' @ decimal i @ ''] must be a member of scopeCatalog''))
          else if target = grant
          then Inl (mk (''scopeHierarchy scope \"'' @ grant @ ''\" cannot imply itself''))
          else if target \<in> set edges
          then Inl (mk (label @ ''.implies has duplicate scope \"'' @ target @ ''\"''))
          else if n + 1 > MAX_SCOPE_HIERARCHY_EDGES
          then Inl (mk (''scopeHierarchy must contain at most '' @ decimal MAX_SCOPE_HIERARCHY_EDGES
                        @ '' direct edges''))
          else read_targets catalog label grant mk (i + 1) (edges @ [target]) (n + 1) vs
      | _ \<Rightarrow> Inl (mk (label @ ''.implies['' @ decimal i @ ''] must be a member of scopeCatalog'')))"

definition row_label :: "nat \<Rightarrow> string" where
  "row_label i = ''scopeHierarchy.implications['' @ decimal i @ '']''"

fun read_rows ::
  "string list \<Rightarrow> (string \<Rightarrow> failure) \<Rightarrow> nat \<Rightarrow> scope_graph \<Rightarrow> nat \<Rightarrow> jsval list \<Rightarrow> scope_graph outcome" where
  "read_rows catalog mk i g n [] = Inr g"
| "read_rows catalog mk i g n (v # vs) =
     chain (exactRecord v (row_label i) [''granted'', ''implies''] mk) (\<lambda>row.
     case own row ''granted'' of
       Str grant \<Rightarrow>
         if grant \<notin> set catalog
         then Inl (mk (row_label i @ ''.granted must be a member of scopeCatalog''))
         else if map_has grant g
         then Inl (mk (''scopeHierarchy has duplicate granted scope \"'' @ grant @ ''\"''))
         else
           chain (snapshotArray (own row ''implies'') (row_label i @ ''.implies'')
                    MAX_SCOPE_HIERARCHY_ROWS mk) (\<lambda>ts.
           if ts = [] then Inl (mk (row_label i @ ''.implies must not be empty''))
           else
             chain (read_targets catalog (row_label i) grant mk 0 [] n ts) (\<lambda>(edges, n').
             read_rows catalog mk (i + 1) (map_set grant edges g) n' vs))
     | _ \<Rightarrow> Inl (mk (row_label i @ ''.granted must be a member of scopeCatalog'')))"

definition snapshotScopeHierarchy ::
  "jsval \<Rightarrow> string \<Rightarrow> string list \<Rightarrow> (string \<Rightarrow> failure) \<Rightarrow> policy_ref option outcome" where
  "snapshotScopeHierarchy value resource catalog mk =
     (if value = Undefined then Inr None
      else
        chain (exactRecord value ''scopeHierarchy'' [''resource'', ''implications''] mk) (\<lambda>source.
        if own source ''resource'' \<noteq> Str resource
        then Inl (mk ''scopeHierarchy.resource must equal BridgeConfig.resource byte-for-byte'')
        else
          chain (snapshotArray (own source ''implications'') ''scopeHierarchy.implications''
                   MAX_SCOPE_HIERARCHY_ROWS mk) (\<lambda>rows.
          chain (read_rows catalog mk 0 [] 0 rows) (\<lambda>g.
          chain (assertAcyclic g mk) (\<lambda>_.
          Inr (Some (Branded
            \<lparr>policy_resource = resource,
             implications = map (\<lambda>(s, ts). \<lparr>granted = s, implies = ts\<rparr>) g\<rparr> g)))))))"

subsection \<open>The reachability query\<close>

text \<open>\<open>pending\<close> is a stack, kept with its top first: the source pops and pushes at the end.\<close>

function implies_loop :: "scope_graph \<Rightarrow> string \<Rightarrow> string list \<Rightarrow> string list \<Rightarrow> bool" where
  "implies_loop g required visited [] = False"
| "implies_loop g required visited (x # pending) =
     (if x \<in> set visited then implies_loop g required visited pending
      else if x = required then True
      else implies_loop g required (x # visited) (rev (targets g x) @ pending))"
  by pat_completeness auto

termination implies_loop
proof (relation "measures [\<lambda>(g, required, visited, pending). card (fst ` set g - set visited),
    \<lambda>(g, required, visited, pending). length pending]", goal_cases)
  case (3 g required visited x pending)
  then show ?case
  proof (cases "x \<in> fst ` set g")
    case True
    then show ?thesis using 3 unvisited_less [of x visited g] by simp
  next
    case False
    then have "fst ` set g - insert x (set visited) = fst ` set g - set visited" by auto
    then show ?thesis using targets_Nil [OF False] by simp
  qed
qed auto

fun hierarchyImplies :: "policy_ref option \<Rightarrow> string list \<Rightarrow> string \<Rightarrow> bool" where
  "hierarchyImplies None grantedScopes required = False"
| "hierarchyImplies (Some (Unbranded p)) grantedScopes required = False"
| "hierarchyImplies (Some (Branded p g)) grantedScopes required =
     implies_loop g required [] (rev grantedScopes)"

subsection \<open>The implication relation\<close>

definition implication :: "scope_graph \<Rightarrow> (string \<times> string) set" where
  "implication g = {(a, b). b \<in> set (targets g a)}"

lemma implication_iff [simp]: "(a, b) \<in> implication g \<longleftrightarrow> b \<in> set (targets g a)"
  by (simp add: implication_def)

definition closed_under :: "('a \<times> 'a) set \<Rightarrow> 'a set \<Rightarrow> bool" where
  "closed_under R S = (\<forall>a \<in> S. \<forall>b. (a, b) \<in> R \<longrightarrow> b \<in> S)"

lemma closed_under_trancl: "(a, b) \<in> R\<^sup>+ \<Longrightarrow> closed_under R S \<Longrightarrow> a \<in> S \<Longrightarrow> b \<in> S"
  by (induction rule: trancl.induct) (auto simp: closed_under_def)

lemma closed_under_rtrancl: "(a, b) \<in> R\<^sup>* \<Longrightarrow> closed_under R S \<Longrightarrow> a \<in> S \<Longrightarrow> b \<in> S"
  by (metis closed_under_trancl rtrancl_eq_or_trancl)

text \<open>
  What holds of the finished scopes throughout the search: they are closed under implication, off
  the current path, and none lies on a cycle.
\<close>

definition search_inv :: "scope_graph \<Rightarrow> string set \<Rightarrow> string set \<Rightarrow> bool" where
  "search_inv g visiting visited =
     (closed_under (implication g) visited \<and> visited \<inter> visiting = {}
      \<and> (\<forall>v \<in> visited. (v, v) \<notin> (implication g)\<^sup>+))"

lemma search_inv_finish:
  assumes inv: "search_inv g (insert x visiting) V" and sub: "set (targets g x) \<subseteq> V"
    and x: "x \<notin> visiting"
  shows "search_inv g visiting (insert x V)"
proof -
  have cl: "closed_under (implication g) V" and xV: "x \<notin> V" using inv by (auto simp: search_inv_def)
  have "(x, x) \<notin> (implication g)\<^sup>+"
  proof
    assume "(x, x) \<in> (implication g)\<^sup>+"
    then obtain t where "(x, t) \<in> implication g" and t: "(t, x) \<in> (implication g)\<^sup>*"
      by (meson tranclD)
    then have "t \<in> V" using sub by auto
    then have "x \<in> V" using closed_under_rtrancl [OF t cl] by simp
    with xV show False ..
  qed
  with inv sub x show ?thesis by (auto simp: search_inv_def closed_under_def)
qed

lemma visit_all_sound:
  "visit_all g mk visiting visited xs = Inr V \<Longrightarrow> search_inv g (set visiting) (set visited) \<Longrightarrow>
   set visited \<subseteq> set V \<and> set xs \<subseteq> set V \<and> search_inv g (set visiting) (set V)"
proof (induction g mk visiting visited xs arbitrary: V rule: visit_all.induct)
  case (2 g mk visiting visited x xs)
  show ?case
  proof (cases "x \<in> set visited")
    case True
    with 2 show ?thesis by (auto split: if_splits)
  next
    case False
    have nv: "x \<notin> set visiting" using 2(4) by (auto split: if_splits)
    obtain W where W: "visit_all g mk (x # visiting) visited (targets g x) = Inr W"
      and V: "visit_all g mk visiting (x # W) xs = Inr V"
      using 2(4) nv False by (auto simp: chain_eq_Inr)
    have "search_inv g (set (x # visiting)) (set visited)" using 2(5) False by (auto simp: search_inv_def)
    then have w: "set visited \<subseteq> set W" "set (targets g x) \<subseteq> set W" "search_inv g (insert x (set visiting)) (set W)"
      using "2.IH"(2) [OF nv False W] by auto
    then have "search_inv g (set visiting) (set (x # W))" using search_inv_finish [of g x] nv by auto
    then have "set (x # W) \<subseteq> set V \<and> set xs \<subseteq> set V \<and> search_inv g (set visiting) (set V)"
      using "2.IH"(3) [OF nv False W V] by simp
    with w show ?thesis by auto
  qed
qed auto

lemma visit_all_complete:
  "acyclic (implication g) \<Longrightarrow> \<forall>a \<in> set visiting. \<forall>b \<in> set xs. (a, b) \<in> (implication g)\<^sup>+ \<Longrightarrow>
   \<exists>V. visit_all g mk visiting visited xs = Inr V"
proof (induction g mk visiting visited xs rule: visit_all.induct)
  case (2 g mk visiting visited x xs)
  have nv: "x \<notin> set visiting" using 2(4,5) by (auto simp: acyclic_def)
  show ?case
  proof (cases "x \<in> set visited")
    case True
    with 2 nv show ?thesis by auto
  next
    case False
    have "\<forall>a \<in> set (x # visiting). \<forall>b \<in> set (targets g x). (a, b) \<in> (implication g)\<^sup>+"
      using 2(5) by (auto intro: trancl_into_trancl)
    then obtain W where "visit_all g mk (x # visiting) visited (targets g x) = Inr W"
      using "2.IH"(2) [OF nv False 2(4)] by auto
    with 2 nv False show ?thesis by auto
  qed
qed auto

lemma implication_domain: "(a, b) \<in> implication g \<Longrightarrow> a \<in> fst ` set g"
  by (rule ccontr) (simp add: targets_Nil)

lemma assertAcyclic_iff: "assertAcyclic g mk = Inr () \<longleftrightarrow> acyclic (implication g)"
proof
  assume "assertAcyclic g mk = Inr ()"
  then obtain V where "visit_all g mk [] [] (map fst g) = Inr V"
    by (auto simp: assertAcyclic_def chain_eq_Inr)
  moreover have "search_inv g (set []) (set [])" by (simp add: search_inv_def closed_under_def)
  ultimately have "set (map fst g) \<subseteq> set V" "search_inv g {} (set V)"
    using visit_all_sound by fastforce+
  then have "(a, a) \<notin> (implication g)\<^sup>+" if "a \<in> fst ` set g" for a
    using that by (auto simp: search_inv_def)
  then show "acyclic (implication g)"
    unfolding acyclic_def using implication_domain by (meson tranclD)
next
  assume "acyclic (implication g)"
  then show "assertAcyclic g mk = Inr ()"
    using visit_all_complete [of g "[]" "map fst g" mk "[]"] by (auto simp: assertAcyclic_def)
qed

text \<open>The query loop visits exactly what the pending scopes reach.\<close>

lemma implies_loop_sound:
  "implies_loop g required visited pending \<Longrightarrow> \<exists>s \<in> set pending. (s, required) \<in> (implication g)\<^sup>*"
proof (induction g required visited pending rule: implies_loop.induct)
  case (2 g required visited x pending)
  show ?case
  proof (cases "x \<in> set visited \<or> x = required")
    case True
    with 2 show ?thesis by auto
  next
    case False
    then obtain s where "s \<in> set (targets g x) \<union> set pending" "(s, required) \<in> (implication g)\<^sup>*"
      using 2 by auto
    then show ?thesis by (auto intro: converse_rtrancl_into_rtrancl)
  qed
qed simp

lemma implies_loop_complete:
  "\<not> implies_loop g required visited pending \<Longrightarrow> required \<notin> set visited \<Longrightarrow>
   \<forall>a \<in> set visited. set (targets g a) \<subseteq> set visited \<union> set pending \<Longrightarrow>
   \<exists>S. set visited \<union> set pending \<subseteq> S \<and> closed_under (implication g) S \<and> required \<notin> S"
proof (induction g required visited pending rule: implies_loop.induct)
  case (1 g required visited)
  then show ?case by (intro exI [of _ "set visited"]) (auto simp: closed_under_def)
next
  case (2 g required visited x pending)
  show ?case
  proof (cases "x \<in> set visited")
    case True
    have "\<forall>a \<in> set visited. set (targets g a) \<subseteq> set visited \<union> set pending" using 2(5) True by auto
    then show ?thesis using "2.IH"(1) [OF True] 2(3,4) True by auto
  next
    case False
    then have ne: "x \<noteq> required" using 2(3) by auto
    have "\<forall>a \<in> set (x # visited). set (targets g a) \<subseteq> set (x # visited) \<union> set (rev (targets g x) @ pending)"
      using 2(5) by auto
    then show ?thesis using "2.IH"(2) [OF False ne] 2(3,4) False ne by auto
  qed
qed

lemma implies_loop_iff:
  "implies_loop g required [] pending \<longleftrightarrow> (\<exists>s \<in> set pending. (s, required) \<in> (implication g)\<^sup>*)"
  using implies_loop_sound [of g required "[]" pending] implies_loop_complete [of g required "[]" pending]
  by (auto dest: closed_under_rtrancl)

lemma targets_map_set: "targets (map_set s ts g) x = (if x = s then ts else targets g x)"
  by (simp add: targets_def)

subsection \<open>What a validated policy satisfies\<close>

definition edge_count :: "scope_graph \<Rightarrow> nat" where
  "edge_count g = sum_list (map (\<lambda>p. length (snd p)) g)"

lemma read_targets_sound:
  "read_targets catalog label grant mk i edges n vs = Inr (edges', n') \<Longrightarrow>
   distinct edges \<Longrightarrow> grant \<notin> set edges \<Longrightarrow> set edges \<subseteq> set catalog \<Longrightarrow> n \<le> MAX_SCOPE_HIERARCHY_EDGES \<Longrightarrow>
   length edges' = length edges + length vs \<and> distinct edges' \<and> grant \<notin> set edges'
   \<and> set edges' \<subseteq> set catalog \<and> n' = n + length vs \<and> n' \<le> MAX_SCOPE_HIERARCHY_EDGES"
proof (induction vs arbitrary: i edges n)
  case (Cons v vs)
  show ?case
  proof (cases v)
    case (Str t)
    with Cons.prems(1) have t: "t \<in> set catalog" "t \<noteq> grant" "t \<notin> set edges" "n + 1 \<le> MAX_SCOPE_HIERARCHY_EDGES"
      and r: "read_targets catalog label grant mk (i + 1) (edges @ [t]) (n + 1) vs = Inr (edges', n')"
      by (auto split: if_split_asm)
    show ?thesis using Cons.IH [OF r] Cons.prems(2-4) t Str by auto
  qed (use Cons.prems in auto)
qed auto

definition wf_graph :: "string list \<Rightarrow> scope_graph \<Rightarrow> bool" where
  "wf_graph catalog g =
     (wf_map g \<and> fst ` set g \<subseteq> set catalog
      \<and> (\<forall>(s, ts) \<in> set g. ts \<noteq> [] \<and> distinct ts \<and> s \<notin> set ts \<and> set ts \<subseteq> set catalog))"

lemma read_rows_sound:
  "read_rows catalog mk i g n vs = Inr g' \<Longrightarrow> wf_graph catalog g \<Longrightarrow>
   edge_count g = n \<Longrightarrow> n \<le> MAX_SCOPE_HIERARCHY_EDGES \<Longrightarrow>
   wf_graph catalog g' \<and> length g' = length g + length vs \<and> edge_count g' \<le> MAX_SCOPE_HIERARCHY_EDGES"
proof (induction vs arbitrary: i g n)
  case (Cons v vs)
  from Cons.prems(1) obtain row grant ts edges n' where
    g: "own row ''granted'' = Str grant" "grant \<in> set catalog" "\<not> map_has grant g" "ts \<noteq> []"
    and t: "read_targets catalog (row_label i) grant mk 0 [] n ts = Inr (edges, n')"
    and r: "read_rows catalog mk (i + 1) (map_set grant edges g) n' vs = Inr g'"
    by (auto elim!: chain_InrE split: jsval.split_asm if_split_asm)
  have e: "distinct edges" "grant \<notin> set edges" "set edges \<subseteq> set catalog" "n' = n + length ts"
    "n' \<le> MAX_SCOPE_HIERARCHY_EDGES" "length edges = length ts"
    using read_targets_sound [OF t] Cons.prems(4) by auto
  have new: "map_of g grant = None" using g(3) by (simp add: map_has_def)
  then have ms: "map_set grant edges g = g @ [(grant, edges)]" by (rule map_set_new)
  have "wf_graph catalog (map_set grant edges g)"
    using Cons.prems(2) e g new unfolding ms by (auto simp: wf_graph_def map_of_eq_None_iff)
  moreover have "edge_count (map_set grant edges g) = n'"
    unfolding ms using Cons.prems(3) e by (simp add: edge_count_def)
  ultimately show ?case using Cons.IH [OF r] e(5) by (simp add: ms)
qed auto

text \<open>
  A scope hierarchy that boots is a bounded, acyclic policy over the catalog: at most 128 rows
  and 4096 direct edges, distinct granted scopes, non-empty duplicate-free target lists that stay
  inside the catalog and never repeat the granted scope, no implication cycle, bound to the
  configured resource; and the published rows are the graph the queries run on.
\<close>

theorem snapshotScopeHierarchy_sound:
  assumes "snapshotScopeHierarchy value resource catalog mk = Inr (Some ref)"
  shows "\<exists>p g. ref = Branded p g \<and> policy_resource p = resource
      \<and> map (\<lambda>r. (granted r, implies r)) (implications p) = g
      \<and> wf_graph catalog g \<and> acyclic (implication g)
      \<and> length g \<le> MAX_SCOPE_HIERARCHY_ROWS \<and> edge_count g \<le> MAX_SCOPE_HIERARCHY_EDGES"
proof -
  from assms obtain source rows g where
    rows: "snapshotArray (own source ''implications'') ''scopeHierarchy.implications''
             MAX_SCOPE_HIERARCHY_ROWS mk = Inr rows"
    and g: "read_rows catalog mk 0 [] 0 rows = Inr g" and a: "assertAcyclic g mk = Inr ()"
    and ref: "ref = Branded \<lparr>policy_resource = resource,
        implications = map (\<lambda>(s, ts). \<lparr>granted = s, implies = ts\<rparr>) g\<rparr> g"
    by (auto simp: snapshotScopeHierarchy_def chain_eq_Inr split: if_splits)
  have "length rows \<le> MAX_SCOPE_HIERARCHY_ROWS"
    using rows by (cases "own source ''implications''") (auto split: if_splits)
  moreover have "wf_graph catalog g \<and> length g = length rows \<and> edge_count g \<le> MAX_SCOPE_HIERARCHY_EDGES"
    using read_rows_sound [OF g] by (simp add: wf_graph_def edge_count_def)
  ultimately show ?thesis using a ref by (auto simp: assertAcyclic_iff comp_def case_prod_unfold)
qed

definition example_hierarchy :: jsval where
  "example_hierarchy = Obj [(''resource'', Str ''https://r/''),
     (''implications'', Arr [
        Obj [(''granted'', Str ''admin''), (''implies'', Arr [Str ''write''])],
        Obj [(''granted'', Str ''write''), (''implies'', Arr [Str ''read''])]])]"

theorem snapshotScopeHierarchy_sound_witness:
  "\<exists>p g. Branded \<lparr>policy_resource = ''https://r/'', implications =
        [\<lparr>granted = ''admin'', implies = [''write'']\<rparr>, \<lparr>granted = ''write'', implies = [''read'']\<rparr>]\<rparr>
        [(''admin'', [''write'']), (''write'', [''read''])] = Branded p g
      \<and> policy_resource p = ''https://r/''
      \<and> map (\<lambda>r. (granted r, implies r)) (implications p) = g
      \<and> wf_graph [''read'', ''write'', ''admin''] g \<and> acyclic (implication g)
      \<and> length g \<le> MAX_SCOPE_HIERARCHY_ROWS \<and> edge_count g \<le> MAX_SCOPE_HIERARCHY_EDGES"
  by (rule snapshotScopeHierarchy_sound [of example_hierarchy _ _ "Thrown ''AuthConfigError''"])
     (simp add: snapshotScopeHierarchy_def example_hierarchy_def own_def assertAcyclic_def targets_def
        map_set_def map_has_def MAX_SCOPE_HIERARCHY_ROWS_def MAX_SCOPE_HIERARCHY_EDGES_def)

lemma hierarchyImplies_iff:
  "hierarchyImplies ref scopes required \<longleftrightarrow>
     (\<exists>p g. ref = Some (Branded p g) \<and> (\<exists>s \<in> set scopes. (s, required) \<in> (implication g)\<^sup>*))"
  by (cases "(ref, scopes, required)" rule: hierarchyImplies.cases) (auto simp: implies_loop_iff)

end
