(* ===== verification/Scopes.thy ===== *)
theory Scopes
  imports Scope_Hierarchy
begin

section \<open>The scope contract\<close>

text \<open>
  \<open>src/scopes.ts\<close>: scope tokens, bounded scope lists, the request-time and client-credentials
  resolution, the identity ceiling and the step-up check. Untyped parameters are \<open>jsval\<close>s.
\<close>

datatype credentialKind = Interactive | Machine

record authorizedSubject =
  as_subject :: string
  as_clientId :: string
  as_scopes :: "string list"
  as_credentialKind :: credentialKind

definition MAX_SCOPE_ENTRIES :: nat where
  "MAX_SCOPE_ENTRIES = 128"

definition MAX_SCOPE_TOKEN_BYTES :: nat where
  "MAX_SCOPE_TOKEN_BYTES = 256"

definition MAX_SCOPE_CLAIM_BYTES :: nat where
  "MAX_SCOPE_CLAIM_BYTES = MAX_SCOPE_ENTRIES * MAX_SCOPE_TOKEN_BYTES + MAX_SCOPE_ENTRIES - 1"

definition invalidScope :: failure where
  "invalidScope = oauth400 ''invalid_scope'' ''Requested scope is not supported''"

subsection \<open>Tokens and bounded lists\<close>

definition nqchar :: "char \<Rightarrow> bool" where
  "nqchar c = (byte c = 0x21 \<or> 0x23 \<le> byte c \<and> byte c \<le> 0x5B \<or> 0x5D \<le> byte c \<and> byte c \<le> 0x7E)"

definition isScopeToken :: "string \<Rightarrow> bool" where
  "isScopeToken s = (s \<noteq> [] \<and> list_all nqchar s)"

definition isBoundedScopeToken :: "string \<Rightarrow> bool" where
  "isBoundedScopeToken s = (isScopeToken s \<and> length s \<le> MAX_SCOPE_TOKEN_BYTES)"

text \<open>The loop of \<open>snapshotBoundedScopeList\<close>: \<open>Inl\<close> is a problem text, \<open>Inr\<close> the snapshot.\<close>

fun snapshot_loop :: "nat \<Rightarrow> string list \<Rightarrow> jsval list \<Rightarrow> string + string list" where
  "snapshot_loop claimBytes scopes [] = Inr scopes"
| "snapshot_loop claimBytes scopes (v # vs) =
     (case v of
        Str s \<Rightarrow>
          if \<not> isBoundedScopeToken s
          then Inl (''entries must be RFC 6749 scope tokens of at most ''
                    @ decimal MAX_SCOPE_TOKEN_BYTES @ '' UTF-8 bytes'')
          else if claimBytes + length s > MAX_SCOPE_CLAIM_BYTES
          then Inl ''space-joined value is too large''
          else snapshot_loop (claimBytes + length s) (scopes @ [s]) vs
      | _ \<Rightarrow> Inl (''entries must be RFC 6749 scope tokens of at most ''
                   @ decimal MAX_SCOPE_TOKEN_BYTES @ '' UTF-8 bytes''))"

fun snapshotBoundedScopeList :: "jsval \<Rightarrow> string + string list" where
  "snapshotBoundedScopeList (Arr xs) =
     (if length xs > MAX_SCOPE_ENTRIES
      then Inl (''must contain at most '' @ decimal MAX_SCOPE_ENTRIES @ '' entries'')
      else snapshot_loop (length xs - 1) [] xs)"
| "snapshotBoundedScopeList RevokedProxy = Inl ''could not be read''"
| "snapshotBoundedScopeList v = Inl ''must be an array''"

definition scopeListProblem :: "jsval \<Rightarrow> string option" where
  "scopeListProblem v = (case snapshotBoundedScopeList v of Inl p \<Rightarrow> Some p | Inr _ \<Rightarrow> None)"

subsection \<open>The access-token scope claim\<close>

definition scopeString :: "string list \<Rightarrow> string" where
  "scopeString scopes = join '' '' (sort scopes)"

definition invalid_claim :: failure where
  "invalid_claim = Thrown ''Error'' ''Invalid access-token scope claim''"

definition claim_items :: "string \<Rightarrow> string list" where
  "claim_items s = (if s = [] then [] else take (MAX_SCOPE_ENTRIES + 1) (split_on CHR '' '' s))"

definition incomingAccessScopes :: "jsval \<Rightarrow> string list outcome" where
  "incomingAccessScopes v =
     (case v of
        Str s \<Rightarrow>
          if length s > MAX_SCOPE_CLAIM_BYTES then Inl invalid_claim
          else rethrow (\<lambda>_. invalid_claim)
                 (snapshotBoundedScopeList (Arr (map Str (claim_items s))))
      | _ \<Rightarrow> Inl invalid_claim)"

definition accessScopeString :: "jsval \<Rightarrow> string outcome" where
  "accessScopeString v =
     chain (rethrow (\<lambda>_. invalidScope) (snapshotBoundedScopeList v)) (\<lambda>ss. Inr (scopeString ss))"

subsection \<open>Request-time, stored and ceiling scopes\<close>

fun normalize_loop :: "string list \<Rightarrow> string list \<Rightarrow> jsval list \<Rightarrow> string list outcome" where
  "normalize_loop catalog out [] = Inr out"
| "normalize_loop catalog out (item # items) =
     (case item of
        Str s \<Rightarrow>
          (let value = trim s
           in if value = [] then normalize_loop catalog out items
              else if \<not> isBoundedScopeToken value then Inl invalidScope
              else if value \<notin> set catalog then Inl invalidScope
              else normalize_loop catalog (push_new out value) items)
      | _ \<Rightarrow> Inl invalidScope)"

definition snapshotScopeItems :: "jsval list \<Rightarrow> jsval list outcome" where
  "snapshotScopeItems xs = (if length xs > MAX_SCOPE_ENTRIES then Inl invalidScope else Inr xs)"

text \<open>
  \<open>Array.isArray\<close> of a revoked proxy throws a \<open>TypeError\<close> that \<open>scopeItems\<close> does not catch.
\<close>

definition proxy_type_error :: failure where
  "proxy_type_error =
     Thrown ''TypeError'' ''Cannot perform 'IsArray' on a proxy that has been revoked''"

fun scopeItems :: "jsval \<Rightarrow> string list \<Rightarrow> jsval list outcome" where
  "scopeItems Undefined defaults = snapshotScopeItems (map Str defaults)"
| "scopeItems (Arr xs) defaults = snapshotScopeItems xs"
| "scopeItems (Str s) defaults =
     (if length s \<le> MAX_SCOPE_CLAIM_BYTES
      then (let raw = map Str (split_ws s)
            in if length raw > MAX_SCOPE_ENTRIES then Inl invalidScope else Inr raw)
      else Inl invalidScope)"
| "scopeItems RevokedProxy defaults = Inl proxy_type_error"
| "scopeItems v defaults = Inl invalidScope"

text \<open>
  \<open>normalizeScopes\<close>: nothing but blanks in a present \<open>scope\<close> starts over without one.
\<close>

definition normalizeScopes :: "jsval \<Rightarrow> string list \<Rightarrow> string list \<Rightarrow> string list outcome" where
  "normalizeScopes scope catalog defaults =
     chain (scopeItems scope defaults) (\<lambda>raw.
     chain (normalize_loop catalog [] raw) (\<lambda>out.
     if out \<noteq> [] \<or> scope = Undefined then Inr out
     else chain (scopeItems Undefined defaults) (normalize_loop catalog [])))"

definition storedScopes :: "jsval \<Rightarrow> string list \<Rightarrow> string list outcome" where
  "storedScopes v catalog =
     (case snapshotBoundedScopeList v of
        Inr ss \<Rightarrow>
          if list_all (\<lambda>s. s \<in> set catalog) ss then Inr ss
          else Inl (oauth400 ''invalid_grant'' ''Stored grant scopes are malformed'')
      | Inl _ \<Rightarrow> Inl (oauth400 ''invalid_grant'' ''Stored grant scopes are malformed''))"

definition assertAllowedScopesCeiling :: "jsval \<Rightarrow> string list option outcome" where
  "assertAllowedScopesCeiling v =
     (if v = Undefined then Inr None
      else case snapshotBoundedScopeList v of
        Inr ss \<Rightarrow> Inr (Some ss)
      | Inl _ \<Rightarrow> Inl (oauthError ''access_denied''
                   ''Identity port returned a malformed allowedScopes ceiling'' 401))"

subsection \<open>Client-credentials resolution\<close>

fun resolve_loop :: "string list \<Rightarrow> string list \<Rightarrow> string list \<Rightarrow> string list \<Rightarrow> string list outcome" where
  "resolve_loop ceiling catalog out [] = Inr out"
| "resolve_loop ceiling catalog out (token # tokens) =
     (if \<not> isBoundedScopeToken token then Inl invalidScope
      else if token \<notin> set ceiling
      then Inl (oauth400 ''invalid_scope'' ''Requested scope exceeds the client's allowedScopes'')
      else if token \<notin> set catalog
      then Inl (oauth400 ''invalid_scope'' ''Requested scope is not in the current scopeCatalog'')
      else resolve_loop ceiling catalog (push_new out token) tokens)"

definition resolveClientCredentialsScope ::
  "jsval \<Rightarrow> jsval \<Rightarrow> string list \<Rightarrow> string list outcome" where
  "resolveClientCredentialsScope requested ceiling catalog =
     (case snapshotBoundedScopeList ceiling of
        Inl _ \<Rightarrow> Inl (oauth400 ''invalid_scope'' ''Client allowedScopes are malformed'')
      | Inr checked \<Rightarrow>
          chain
            (case requested of
               Undefined \<Rightarrow> Inr checked
             | Str s \<Rightarrow>
                 if length s > MAX_SCOPE_CLAIM_BYTES then Inl invalidScope
                 else if trim s = [] then Inr checked
                 else Inr (filter (\<lambda>t. t \<noteq> []) (split_ws s))
             | _ \<Rightarrow> Inl invalidScope)
            (\<lambda>requestedList.
               if length requestedList > MAX_SCOPE_ENTRIES then Inl invalidScope
               else resolve_loop checked catalog [] requestedList))"

subsection \<open>The step-up check\<close>

definition requireScope ::
  "authorizedSubject \<Rightarrow> string \<Rightarrow> policy_ref option \<Rightarrow> unit outcome" where
  "requireScope auth required hierarchy =
     (if required \<notin> set (as_scopes auth) \<and> \<not> hierarchyImplies hierarchy (as_scopes auth) required
      then Inl (oauthError ''insufficient_scope'' (''Missing required scope: '' @ required) 403)
      else Inr ())"

subsection \<open>Bounded lists\<close>

lemma nqchar_graphic: "nqchar c \<Longrightarrow> graphic c"
  by (auto simp: nqchar_def graphic_def)

lemma scope_token_graphic: "isScopeToken s \<Longrightarrow> s \<noteq> [] \<and> list_all graphic s"
  by (auto simp: isScopeToken_def list_all_iff nqchar_graphic)

lemma scope_token_no_space: "isScopeToken s \<Longrightarrow> CHR '' '' \<notin> set s"
  by (auto simp: isScopeToken_def list_all_iff nqchar_def byte_def)

lemma snapshot_loop_Inr:
  "snapshot_loop n acc vs = Inr ss \<Longrightarrow>
   \<exists>xs. vs = map Str xs \<and> ss = acc @ xs \<and> list_all isBoundedScopeToken xs"
proof (induction vs arbitrary: n acc)
  case (Cons v vs)
  then obtain s where s: "v = Str s" "isBoundedScopeToken s"
    and r: "snapshot_loop (n + length s) (acc @ [s]) vs = Inr ss"
    by (auto split: jsval.split_asm if_split_asm)
  from Cons.IH [OF r] obtain xs where "vs = map Str xs" "ss = (acc @ [s]) @ xs" "list_all isBoundedScopeToken xs"
    by auto
  with s show ?case by (intro exI [of _ "s # xs"]) simp
qed auto

text \<open>The running byte count cannot pass the bound, because 128 tokens of 256 bytes reach it exactly.\<close>

lemma snapshot_loop_ok:
  "list_all isBoundedScopeToken xs \<Longrightarrow>
   n + length xs * MAX_SCOPE_TOKEN_BYTES \<le> MAX_SCOPE_CLAIM_BYTES \<Longrightarrow>
   snapshot_loop n acc (map Str xs) = Inr (acc @ xs)"
proof (induction xs arbitrary: n acc)
  case (Cons x xs)
  have "length x \<le> MAX_SCOPE_TOKEN_BYTES" using Cons.prems(1) by (simp add: isBoundedScopeToken_def)
  with Cons show ?case by simp
qed simp

lemma bounded_budget:
  "n \<le> MAX_SCOPE_ENTRIES \<Longrightarrow> (n - 1) + n * MAX_SCOPE_TOKEN_BYTES \<le> MAX_SCOPE_CLAIM_BYTES"
  by (auto simp: MAX_SCOPE_ENTRIES_def MAX_SCOPE_TOKEN_BYTES_def MAX_SCOPE_CLAIM_BYTES_def)

lemma snapshotBoundedScopeList_iff:
  "snapshotBoundedScopeList v = Inr ss \<longleftrightarrow>
     v = Arr (map Str ss) \<and> length ss \<le> MAX_SCOPE_ENTRIES \<and> list_all isBoundedScopeToken ss"
proof
  assume r: "snapshotBoundedScopeList v = Inr ss"
  then obtain xs where v: "v = Arr xs" and l: "length xs \<le> MAX_SCOPE_ENTRIES"
    and s: "snapshot_loop (length xs - 1) [] xs = Inr ss"
    by (cases v) (auto split: if_split_asm)
  from snapshot_loop_Inr [OF s] show "v = Arr (map Str ss) \<and> length ss \<le> MAX_SCOPE_ENTRIES
      \<and> list_all isBoundedScopeToken ss"
    using v l by auto
next
  assume a: "v = Arr (map Str ss) \<and> length ss \<le> MAX_SCOPE_ENTRIES \<and> list_all isBoundedScopeToken ss"
  then show "snapshotBoundedScopeList v = Inr ss"
    using snapshot_loop_ok [of ss "length ss - 1" "[]"] bounded_budget [of "length ss"] by simp
qed

declare snapshotBoundedScopeList.simps(1) [simp del]

text \<open>
  A bounded scope list is accepted exactly when it is an array of at most 128 RFC 6749 tokens of
  at most 256 bytes, and the snapshot is that list; the running byte bound of the loop never rejects
  a list the other two checks let through.
\<close>

theorem snapshotBoundedScopeList_exact:
  "(snapshotBoundedScopeList v = Inr ss \<longleftrightarrow>
      v = Arr (map Str ss) \<and> length ss \<le> MAX_SCOPE_ENTRIES \<and> list_all isBoundedScopeToken ss)
   \<and> snapshotBoundedScopeList v \<noteq> Inl ''space-joined value is too large''"
proof -
  have loop: "snapshot_loop n acc vs \<noteq> Inl ''space-joined value is too large''"
    if "n + length vs * MAX_SCOPE_TOKEN_BYTES \<le> MAX_SCOPE_CLAIM_BYTES" for n acc vs
    using that
  proof (induction vs arbitrary: n acc)
    case (Cons v vs)
    then show ?case by (auto simp: isBoundedScopeToken_def split: jsval.splits)
  qed simp
  have "snapshotBoundedScopeList v \<noteq> Inl ''space-joined value is too large''"
  proof (cases v)
    case (Arr xs)
    then show ?thesis using loop [OF bounded_budget]
      by (auto simp: snapshotBoundedScopeList.simps(1) not_less)
  qed auto
  with snapshotBoundedScopeList_iff show ?thesis by blast
qed

subsection \<open>The scope claim round trip\<close>

lemma sum_list_bound: "\<forall>x \<in> set xs. f x \<le> (b::nat) \<Longrightarrow> sum_list (map f xs) \<le> length xs * b"
  by (induction xs) auto

lemma join_bound:
  assumes "list_all isBoundedScopeToken ss" and "length ss \<le> MAX_SCOPE_ENTRIES"
  shows "length (join '' '' ss) \<le> MAX_SCOPE_CLAIM_BYTES"
proof -
  have "sum_list (map length ss) \<le> length ss * MAX_SCOPE_TOKEN_BYTES"
    using assms(1) by (intro sum_list_bound) (auto simp: list_all_iff isBoundedScopeToken_def)
  then show ?thesis using bounded_budget [OF assms(2)] by (simp add: length_join)
qed

lemma join_eq_Nil: "\<forall>x \<in> set xs. x \<noteq> [] \<Longrightarrow> join sep xs = [] \<longleftrightarrow> xs = []"
  by (induction sep xs rule: join.induct) auto

lemma list_all_sort [simp]: "list_all P (sort xs) \<longleftrightarrow> list_all P xs"
  by (simp add: list_all_iff)

lemma incomingAccessScopes_scopeString:
  assumes "list_all isBoundedScopeToken ss" and "length ss \<le> MAX_SCOPE_ENTRIES"
  shows "incomingAccessScopes (Str (scopeString ss)) = Inr (sort ss)"
proof -
  have sep: "\<forall>x \<in> set (sort ss). CHR '' '' \<notin> set x \<and> x \<noteq> []"
    using assms(1) scope_token_no_space by (auto simp: list_all_iff isBoundedScopeToken_def isScopeToken_def)
  have "claim_items (scopeString ss) = sort ss"
    using sep assms(2) join_eq_Nil [of "sort ss" "'' ''"] split_on_join [of "sort ss" "CHR '' ''"]
    by (auto simp: scopeString_def claim_items_def)
  moreover have "snapshotBoundedScopeList (Arr (map Str (sort ss))) = Inr (sort ss)"
    using assms by (simp add: snapshotBoundedScopeList_iff)
  ultimately show ?thesis
    using join_bound [of "sort ss"] assms by (simp add: incomingAccessScopes_def scopeString_def [symmetric])
qed

text \<open>
  The scope claim round-trips: whatever list the signer accepts, the verifier reads back from the
  serialized claim exactly that list, sorted, and the claim respects the byte bound.
\<close>

theorem scope_claim_roundtrip:
  assumes "accessScopeString v = Inr claim"
  shows "\<exists>ss. v = Arr (map Str ss) \<and> incomingAccessScopes (Str claim) = Inr (sort ss)
           \<and> length claim \<le> MAX_SCOPE_CLAIM_BYTES"
proof -
  from assms obtain ss where "snapshotBoundedScopeList v = Inr ss" and c: "claim = scopeString ss"
    by (auto simp: accessScopeString_def)
  then have v: "v = Arr (map Str ss)" and b: "length ss \<le> MAX_SCOPE_ENTRIES" "list_all isBoundedScopeToken ss"
    by (auto simp: snapshotBoundedScopeList_iff)
  then show ?thesis
    using incomingAccessScopes_scopeString [OF b(2,1)] join_bound [of "sort ss"] c
    by (auto simp: scopeString_def)
qed

lemmas scope_evals = snapshotBoundedScopeList.simps(1) isBoundedScopeToken_def isScopeToken_def nqchar_def byte_def
  MAX_SCOPE_ENTRIES_def MAX_SCOPE_TOKEN_BYTES_def MAX_SCOPE_CLAIM_BYTES_def

theorem scope_claim_roundtrip_witness:
  "\<exists>ss. Arr [Str ''mcp:write'', Str ''mcp:read''] = Arr (map Str ss)
      \<and> incomingAccessScopes (Str ''mcp:read mcp:write'') = Inr (sort ss)
      \<and> length ''mcp:read mcp:write'' \<le> MAX_SCOPE_CLAIM_BYTES"
  by (rule scope_claim_roundtrip) (simp add: accessScopeString_def scopeString_def scope_evals)

subsection \<open>Request-time scopes\<close>

lemma normalize_loop_sound:
  "normalize_loop catalog out items = Inr res \<Longrightarrow> distinct out \<Longrightarrow>
   set out \<subseteq> set catalog \<Longrightarrow> list_all isBoundedScopeToken out \<Longrightarrow>
   distinct res \<and> set out \<subseteq> set res \<and> set res \<subseteq> set catalog \<and> list_all isBoundedScopeToken res"
proof (induction items arbitrary: out)
  case (Cons item items)
  then obtain s where s: "item = Str s" by (auto split: jsval.split_asm)
  show ?case
  proof (cases "trim s = []")
    case True
    with Cons s show ?thesis by (simp add: Let_def)
  next
    case False
    with Cons.prems(1) s have t: "isBoundedScopeToken (trim s)" "trim s \<in> set catalog"
      and r: "normalize_loop catalog (push_new out (trim s)) items = Inr res"
      by (auto simp: Let_def split: if_split_asm)
    have "list_all isBoundedScopeToken (push_new out (trim s))"
      using Cons.prems(4) t by (simp add: push_new_def)
    with Cons.IH [OF r] Cons.prems(2,3) t show ?thesis by simp
  qed
qed auto

lemma normalize_loop_tokens:
  "list_all isBoundedScopeToken xs \<Longrightarrow> set xs \<subseteq> set catalog \<Longrightarrow>
   normalize_loop catalog out (map Str xs) = Inr (foldl push_new out xs)"
proof (induction xs arbitrary: out)
  case (Cons x xs)
  then have "trim x = x" "x \<noteq> []" using scope_token_graphic [of x] trim_graphic [of x]
    by (auto simp: isBoundedScopeToken_def)
  with Cons show ?case by (simp add: Let_def)
qed simp

lemma split_ws_tokens:
  "xs \<noteq> [] \<Longrightarrow> list_all isBoundedScopeToken xs \<Longrightarrow> split_ws (join '' '' xs) = xs"
  by (rule split_ws_join) (auto simp: list_all_iff isBoundedScopeToken_def dest!: scope_token_graphic)

lemma normalizeScopes_sound:
  assumes "normalizeScopes scope catalog defaults = Inr out"
  shows "distinct out" and "set out \<subseteq> set catalog" and "list_all isBoundedScopeToken out"
proof -
  from assms obtain raw where "normalize_loop catalog [] raw = Inr out"
    by (auto simp: normalizeScopes_def elim!: chain_InrE split: if_split_asm)
  from normalize_loop_sound [OF this] show "distinct out" "set out \<subseteq> set catalog" "list_all isBoundedScopeToken out"
    by auto
qed

text \<open>
  Request-time normalization is fail-closed and order-preserving: an accepted result is duplicate
  free, inside the catalog and made of bounded tokens; and a space-separated list of catalog tokens
  within the bound is accepted, each kept at its first occurrence.
\<close>

theorem normalizeScopes_correct:
  "(\<forall>out. normalizeScopes scope catalog defaults = Inr out \<longrightarrow>
      distinct out \<and> set out \<subseteq> set catalog \<and> list_all isBoundedScopeToken out)
   \<and> (xs \<noteq> [] \<and> length xs \<le> MAX_SCOPE_ENTRIES \<and> list_all isBoundedScopeToken xs \<and> set xs \<subseteq> set catalog \<longrightarrow>
      normalizeScopes (Str (join '' '' xs)) catalog defaults = Inr (foldl push_new [] xs))"
proof (intro conjI allI impI)
  fix out assume r: "normalizeScopes scope catalog defaults = Inr out"
  from normalizeScopes_sound [OF this] show "distinct out" "set out \<subseteq> set catalog" "list_all isBoundedScopeToken out"
    by auto
next
  assume a: "xs \<noteq> [] \<and> length xs \<le> MAX_SCOPE_ENTRIES \<and> list_all isBoundedScopeToken xs \<and> set xs \<subseteq> set catalog"
  then have "scopeItems (Str (join '' '' xs)) defaults = Inr (map Str xs)"
    using join_bound [of xs] by (simp add: split_ws_tokens Let_def)
  moreover have "foldl push_new [] xs \<noteq> []"
    using a by (metis set_foldl_push_new set_empty sup_bot_left)
  ultimately show "normalizeScopes (Str (join '' '' xs)) catalog defaults = Inr (foldl push_new [] xs)"
    using a by (simp add: normalizeScopes_def normalize_loop_tokens)
qed

theorem normalizeScopes_correct_witness:
  "normalizeScopes (Str (join '' '' [''b'', ''a'', ''b''])) [''a'', ''b''] [] = Inr [''b'', ''a'']"
  using normalizeScopes_correct
    [where catalog = "[''a'', ''b'']" and defaults = "[]" and xs = "[''b'', ''a'', ''b'']"]
  by (simp add: scope_evals push_new_def)

subsection \<open>Client credentials never exceed the ceiling\<close>

lemma resolve_loop_iff:
  "resolve_loop ceiling catalog out tokens = Inr res \<longleftrightarrow>
     list_all isBoundedScopeToken tokens \<and> set tokens \<subseteq> set ceiling \<inter> set catalog
     \<and> res = foldl push_new out tokens"
  by (induction tokens arbitrary: out) auto

lemma resolve_loop_error:
  "resolve_loop ceiling catalog out tokens = Inl e \<Longrightarrow> failureCode e = ''invalid_scope''"
  by (induction tokens arbitrary: out) (auto simp: invalidScope_def split: if_split_asm)

text \<open>
  A machine client is never granted more than its ceiling and the live catalog: the granted list
  is duplicate free and inside both; every refusal is \<open>invalid_scope\<close>; and an omitted scope grants the
  whole ceiling when all of it is still in the catalog and is refused otherwise.
\<close>

theorem resolveClientCredentialsScope_correct:
  "(case resolveClientCredentialsScope requested ceiling catalog of
      Inl e \<Rightarrow> failureCode e = ''invalid_scope''
    | Inr out \<Rightarrow> distinct out \<and> set out \<subseteq> set catalog
        \<and> (\<exists>c. ceiling = Arr (map Str c) \<and> set out \<subseteq> set c))
   \<and> (snapshotBoundedScopeList ceiling = Inr c \<longrightarrow>
      resolveClientCredentialsScope Undefined ceiling catalog
        = (if set c \<subseteq> set catalog then Inr (foldl push_new [] c)
           else Inl (oauth400 ''invalid_scope'' ''Requested scope is not in the current scopeCatalog'')))"
proof (intro conjI impI)
  show "case resolveClientCredentialsScope requested ceiling catalog of
      Inl e \<Rightarrow> failureCode e = ''invalid_scope''
    | Inr out \<Rightarrow> distinct out \<and> set out \<subseteq> set catalog
        \<and> (\<exists>c. ceiling = Arr (map Str c) \<and> set out \<subseteq> set c)"
  proof (cases "snapshotBoundedScopeList ceiling")
    case (Inr ck)
    then have ck: "ceiling = Arr (map Str ck)" by (simp add: snapshotBoundedScopeList_iff)
    show ?thesis
      unfolding resolveClientCredentialsScope_def Inr
      using ck resolve_loop_error [of ck catalog "[]"]
      by (auto simp: resolve_loop_iff invalidScope_def chain_def split: jsval.splits sum.splits)
  qed (simp add: resolveClientCredentialsScope_def)
next
  assume c: "snapshotBoundedScopeList ceiling = Inr c"
  then have b: "length c \<le> MAX_SCOPE_ENTRIES" "list_all isBoundedScopeToken c"
    by (auto simp: snapshotBoundedScopeList_iff)
  have "resolve_loop c' catalog out xs = Inl (oauth400 ''invalid_scope'' ''Requested scope is not in the current scopeCatalog'')"
    if "list_all isBoundedScopeToken xs" "set xs \<subseteq> set c'" "\<not> set xs \<subseteq> set catalog" for c' out xs
    using that by (induction xs arbitrary: out) auto
  then show "resolveClientCredentialsScope Undefined ceiling catalog
        = (if set c \<subseteq> set catalog then Inr (foldl push_new [] c)
           else Inl (oauth400 ''invalid_scope'' ''Requested scope is not in the current scopeCatalog''))"
    using b c by (auto simp: resolveClientCredentialsScope_def resolve_loop_iff)
qed

theorem resolveClientCredentialsScope_correct_witness:
  "resolveClientCredentialsScope Undefined (Arr [Str ''a'', Str ''b'']) [''a''] =
     Inl (oauth400 ''invalid_scope'' ''Requested scope is not in the current scopeCatalog'')"
  using resolveClientCredentialsScope_correct
    [where requested = Undefined and ceiling = "Arr [Str ''a'', Str ''b'']" and catalog = "[''a'']"
       and c = "[''a'', ''b'']"]
  by (simp add: scope_evals)

text \<open>
  The resource server's scope check is reachability in the configured policy: it passes exactly
  when the required scope is granted or, under a validated policy, reached from a granted scope along
  implication edges; otherwise it is the 403 step-up.
\<close>

theorem requireScope_iff:
  "requireScope auth required hierarchy =
     (if required \<in> set (as_scopes auth)
         \<or> (\<exists>p g s. hierarchy = Some (Branded p g) \<and> s \<in> set (as_scopes auth)
              \<and> (s, required) \<in> (implication g)\<^sup>*)
      then Inr ()
      else Inl (oauthError ''insufficient_scope'' (''Missing required scope: '' @ required) 403))"
  by (auto simp: requireScope_def hierarchyImplies_iff)

lemma storedScopes_iff:
  "storedScopes v catalog = Inr ss \<longleftrightarrow>
     snapshotBoundedScopeList v = Inr ss \<and> set ss \<subseteq> set catalog"
  by (auto simp: storedScopes_def list_all_iff split: sum.splits)

lemma storedScopes_Inl: "storedScopes v catalog = Inl e \<Longrightarrow> failureCode e = ''invalid_grant''"
  by (auto simp: storedScopes_def split: sum.splits if_split_asm)

lemma assertAllowedScopesCeiling_Some:
  "assertAllowedScopesCeiling v = Inr (Some c) \<longleftrightarrow> snapshotBoundedScopeList v = Inr c"
  by (cases v) (auto simp: assertAllowedScopesCeiling_def split: sum.splits)

lemma assertAllowedScopesCeiling_None:
  "assertAllowedScopesCeiling v = Inr None \<longleftrightarrow> v = Undefined"
  by (auto simp: assertAllowedScopesCeiling_def split: sum.splits)

end
