(* ===== verification/Identity_Boundary.thy ===== *)
theory Identity_Boundary
  imports Scopes
begin

section \<open>The boundary for verified identities\<close>

text \<open>
  \<open>src/identity-boundary.ts\<close>: what a subject must look like, and the bounded projection of the
  claims an identity port reports. A port's value is untyped. In the byte form of strings a lone
  surrogate is ED followed by A0 to BF, U+FFFD is EF BF BD, and a code point is a byte that is not a
  continuation byte.
\<close>

definition MAX_SUBJECT_SCALARS :: nat where "MAX_SUBJECT_SCALARS = 384"
definition MAX_CLAIM_DEPTH :: nat where "MAX_CLAIM_DEPTH = 4"
definition MAX_CLAIM_ITEMS :: nat where "MAX_CLAIM_ITEMS = 64"
definition MAX_CLAIM_KEY_BYTES :: nat where "MAX_CLAIM_KEY_BYTES = 128"
definition MAX_CLAIM_STRING_BYTES :: nat where "MAX_CLAIM_STRING_BYTES = 4096"
definition MAX_CLAIMS_JSON_BYTES :: nat where "MAX_CLAIMS_JSON_BYTES = 16384"

definition typeError :: "string \<Rightarrow> failure" where
  "typeError m = Thrown ''TypeError'' m"

fun isWellFormed :: "string \<Rightarrow> bool" where
  "isWellFormed (a # b # s) = (\<not> (byte a = 0xED \<and> 0xA0 \<le> byte b) \<and> isWellFormed (b # s))"
| "isWellFormed _ = True"

fun has_replacement_char :: "string \<Rightarrow> bool" where
  "has_replacement_char (a # b # c # s) =
     (byte a = 0xEF \<and> byte b = 0xBF \<and> byte c = 0xBD \<or> has_replacement_char (b # c # s))"
| "has_replacement_char _ = False"

definition scalars :: "string \<Rightarrow> nat" where
  "scalars s = length (filter (\<lambda>c. byte c < 0x80 \<or> 0xC0 \<le> byte c) s)"

definition identitySubject :: "jsval \<Rightarrow> string outcome" where
  "identitySubject v =
     (case v of
        Str s \<Rightarrow>
          if \<not> isWellFormed s \<or> has_replacement_char s \<or> s \<noteq> trim s
          then Inl (typeError ''identity subject is malformed'')
          else if scalars s > MAX_SUBJECT_SCALARS
          then Inl (typeError ''identity subject is too long'')
          else if scalars s = 0 then Inl (typeError ''identity subject is empty'')
          else Inr s
      | _ \<Rightarrow> Inl (typeError ''identity subject is malformed''))"

definition subject_ok :: "string \<Rightarrow> bool" where
  "subject_ok s = (identitySubject (Str s) = Inr s)"

lemma identitySubject_Inr: "identitySubject v = Inr s \<longleftrightarrow> v = Str s \<and> subject_ok s"
  by (auto simp: subject_ok_def identitySubject_def split: jsval.splits if_split_asm)

subsection \<open>Projection of the claims\<close>

text \<open>
  \<open>projectValue\<close>, \<open>projectArray\<close> and \<open>projectRecord\<close> thread the item counter; the cycle check on the
  object stack is vacuous here, because a \<open>jsval\<close> is a finite tree. An undefined record property
  is dropped after it is counted, an undefined array member is refused.
\<close>

definition countItem :: "nat \<Rightarrow> nat outcome" where
  "countItem n = (if n + 1 > MAX_CLAIM_ITEMS
                  then Inl (typeError ''identity claims contain too many items'') else Inr (n + 1))"

fun projectValue :: "nat \<Rightarrow> nat \<Rightarrow> jsval \<Rightarrow> (jsval \<times> nat) outcome"
  and projectMembers :: "nat \<Rightarrow> nat \<Rightarrow> jsval list \<Rightarrow> (jsval list \<times> nat) outcome"
  and projectProps :: "nat \<Rightarrow> nat \<Rightarrow> (string \<times> jsval) list \<Rightarrow> ((string \<times> jsval) list \<times> nat) outcome"
where
  "projectValue depth n Null = Inr (Null, n)"
| "projectValue depth n (Boolean b) = Inr (Boolean b, n)"
| "projectValue depth n (Number x) =
     (if x = NotFinite then Inl (typeError ''identity claim number must be finite'')
      else Inr (Number x, n))"
| "projectValue depth n (Str s) =
     (if \<not> isWellFormed s \<or> length s > MAX_CLAIM_STRING_BYTES
      then Inl (typeError ''identity claim string is malformed or too large'')
      else Inr (Str s, n))"
| "projectValue depth n (Arr xs) =
     (if depth > MAX_CLAIM_DEPTH then Inl (typeError ''identity claims are too deep'')
      else chain (projectMembers (depth + 1) n xs) (\<lambda>(ys, n'). Inr (Arr ys, n')))"
| "projectValue depth n (Obj kvs) =
     (if depth > MAX_CLAIM_DEPTH then Inl (typeError ''identity claims are too deep'')
      else chain (projectProps (depth + 1) n kvs) (\<lambda>(ys, n'). Inr (Obj ys, n')))"
| "projectValue depth n RevokedProxy =
     (if depth > MAX_CLAIM_DEPTH then Inl (typeError ''identity claims are too deep'')
      else Inl proxy_type_error)"
| "projectValue depth n Undefined = Inl (typeError ''identity claim is not JSON data'')"
| "projectValue depth n Opaque = Inl (typeError ''identity claim is not JSON data'')"
| "projectMembers depth n [] = Inr ([], n)"
| "projectMembers depth n (x # xs) =
     chain (countItem n) (\<lambda>n1.
       if x = Undefined then Inl (typeError ''identity claim array member is undefined'')
       else chain (projectValue depth n1 x) (\<lambda>(y, n2).
            chain (projectMembers depth n2 xs) (\<lambda>(ys, n3). Inr (y # ys, n3))))"
| "projectProps depth n [] = Inr ([], n)"
| "projectProps depth n (kv # kvs) =
     chain (countItem n) (\<lambda>n1.
       if length (fst kv) > MAX_CLAIM_KEY_BYTES then Inl (typeError ''identity claim key is too large'')
       else if snd kv = Undefined then projectProps depth n1 kvs
       else chain (projectValue depth n1 (snd kv)) (\<lambda>(y, n2).
            chain (projectProps depth n2 kvs) (\<lambda>(ys, n3). Inr ((fst kv, y) # ys, n3))))"

subsection \<open>The serialized size\<close>

text \<open>
  \<open>JSON.stringify\<close> of a projection, with the text of a number a parameter (\<open>Number.prototype.toString\<close>).
  A lone surrogate, possible in a key, is escaped.
\<close>

definition hex_digit :: "nat \<Rightarrow> char" where
  "hex_digit n = (if n < 10 then char_of (48 + n) else char_of (87 + n))"

definition hex4 :: "nat \<Rightarrow> string" where
  "hex4 n = [hex_digit (n div 4096 mod 16), hex_digit (n div 256 mod 16), hex_digit (n div 16 mod 16),
             hex_digit (n mod 16)]"

definition json_escape_char :: "char \<Rightarrow> string" where
  "json_escape_char c =
     (if byte c = 0x22 then [CHR 0x5C, CHR 0x22] else if byte c = 0x5C then [CHR 0x5C, CHR 0x5C]
      else if byte c = 8 then CHR 0x5C # ''b'' else if byte c = 12 then CHR 0x5C # ''f''
      else if byte c = 10 then CHR 0x5C # ''n'' else if byte c = 13 then CHR 0x5C # ''r''
      else if byte c = 9 then CHR 0x5C # ''t''
      else if byte c < 0x20 then CHR 0x5C # CHR ''u'' # hex4 (byte c) else [c])"

fun json_escape :: "string \<Rightarrow> string" where
  "json_escape (a # b # c # s) =
     (if byte a = 0xED \<and> 0xA0 \<le> byte b
      then CHR 0x5C # CHR ''u'' # hex4 (0xD000 + (byte b mod 64) * 64 + byte c mod 64) @ json_escape s
      else json_escape_char a @ json_escape (b # c # s))"
| "json_escape [a, b] = json_escape_char a @ json_escape_char b"
| "json_escape [a] = json_escape_char a"
| "json_escape [] = []"

definition json_quote :: "string \<Rightarrow> string" where
  "json_quote s = CHR 0x22 # json_escape s @ [CHR 0x22]"

fun json_text :: "(num \<Rightarrow> string) \<Rightarrow> jsval \<Rightarrow> string" where
  "json_text numText (Boolean b) = (if b then ''true'' else ''false'')"
| "json_text numText (Number x) = numText x"
| "json_text numText (Str s) = json_quote s"
| "json_text numText (Arr xs) = ''['' @ join '','' (map (json_text numText) xs) @ '']''"
| "json_text numText (Obj kvs) =
     ''{'' @ join '','' (map (\<lambda>(k, v). json_quote k @ '':'' @ json_text numText v) kvs) @ ''}''"
| "json_text numText _ = ''null''"

definition snapshotVerifiedClaims ::
  "(num \<Rightarrow> string) \<Rightarrow> jsval \<Rightarrow> (string \<times> jsval) list option outcome" where
  "snapshotVerifiedClaims numText v =
     (case v of
        Undefined \<Rightarrow> Inr None
      | Obj kvs \<Rightarrow>
          chain (projectProps 1 0 kvs) (\<lambda>(ps, n).
            if length (json_text numText (Obj ps)) > MAX_CLAIMS_JSON_BYTES
            then Inl (typeError ''identity claims are too large'')
            else Inr (Some ps))
      | RevokedProxy \<Rightarrow> Inl proxy_type_error
      | _ \<Rightarrow> Inl (typeError ''identity claims must be a record''))"

record identityClaims =
  ic_subject :: string
  ic_allowedScopes :: "string list option"
  ic_claims :: "(string \<times> jsval) list option"

definition snapshotIdentityClaims ::
  "(num \<Rightarrow> string) \<Rightarrow> jsval \<Rightarrow> bool \<Rightarrow> identityClaims outcome" where
  "snapshotIdentityClaims numText v includeClaims =
     (case v of
        Obj kvs \<Rightarrow>
          chain (identitySubject (own kvs ''subject'')) (\<lambda>subject.
          chain (assertAllowedScopesCeiling (own kvs ''allowedScopes'')) (\<lambda>allowed.
          chain (if includeClaims \<and> map_has ''claims'' kvs
                 then snapshotVerifiedClaims numText (own kvs ''claims'') else Inr None) (\<lambda>claims.
          Inr \<lparr>ic_subject = subject, ic_allowedScopes = allowed, ic_claims = claims\<rparr>)))
      | RevokedProxy \<Rightarrow> Inl proxy_type_error
      | _ \<Rightarrow> Inl (typeError ''identity must be an object''))"

subsection \<open>What a projection satisfies\<close>

text \<open>\<open>claim_data d v\<close>: plain JSON data of bounded strings and keys, at most \<open>d\<close> containers deep.\<close>

fun claim_data :: "nat \<Rightarrow> jsval \<Rightarrow> bool" where
  "claim_data d Null = True"
| "claim_data d (Boolean b) = True"
| "claim_data d (Number x) = (x \<noteq> NotFinite)"
| "claim_data d (Str s) = (isWellFormed s \<and> length s \<le> MAX_CLAIM_STRING_BYTES)"
| "claim_data 0 (Arr xs) = False"
| "claim_data (Suc d) (Arr xs) = list_all (claim_data d) xs"
| "claim_data 0 (Obj kvs) = False"
| "claim_data (Suc d) (Obj kvs) =
     list_all (\<lambda>kv. length (fst kv) \<le> MAX_CLAIM_KEY_BYTES \<and> claim_data d (snd kv)) kvs"
| "claim_data d _ = False"

fun item_count :: "jsval \<Rightarrow> nat" where
  "item_count (Arr xs) = length xs + sum_list (map item_count xs)"
| "item_count (Obj kvs) = length kvs + sum_list (map (\<lambda>kv. item_count (snd kv)) kvs)"
| "item_count _ = 0"

lemma countItem_Inr: "countItem n = Inr m \<longleftrightarrow> m = n + 1 \<and> n + 1 \<le> MAX_CLAIM_ITEMS"
  by (auto simp: countItem_def)

lemma claim_depth_step:
  assumes "depth \<le> MAX_CLAIM_DEPTH"
  shows "MAX_CLAIM_DEPTH + 1 - depth = Suc (MAX_CLAIM_DEPTH + 1 - (depth + 1))"
  using assms by simp

lemma project_sound:
  "projectValue depth n v = Inr (w, m) \<Longrightarrow> depth \<le> MAX_CLAIM_DEPTH + 1 \<Longrightarrow> n \<le> MAX_CLAIM_ITEMS \<Longrightarrow>
     claim_data (MAX_CLAIM_DEPTH + 1 - depth) w \<and> n + item_count w \<le> m \<and> m \<le> MAX_CLAIM_ITEMS"
  "projectMembers depth n xs = Inr (ys, m) \<Longrightarrow> depth \<le> MAX_CLAIM_DEPTH + 1 \<Longrightarrow> n \<le> MAX_CLAIM_ITEMS \<Longrightarrow>
     list_all (claim_data (MAX_CLAIM_DEPTH + 1 - depth)) ys
     \<and> n + length ys + sum_list (map item_count ys) \<le> m \<and> m \<le> MAX_CLAIM_ITEMS"
  "projectProps depth n kvs = Inr (ps, m) \<Longrightarrow> depth \<le> MAX_CLAIM_DEPTH + 1 \<Longrightarrow> n \<le> MAX_CLAIM_ITEMS \<Longrightarrow>
     list_all (\<lambda>kv. length (fst kv) \<le> MAX_CLAIM_KEY_BYTES
        \<and> claim_data (MAX_CLAIM_DEPTH + 1 - depth) (snd kv)) ps
     \<and> n + length ps + sum_list (map (\<lambda>kv. item_count (snd kv)) ps) \<le> m \<and> m \<le> MAX_CLAIM_ITEMS"
proof (induction depth n v and depth n xs and depth n kvs arbitrary: w m and ys m and ps m
    rule: projectValue_projectMembers_projectProps.induct)
  case (5 depth n xs)
  then show ?case
    by (auto simp: claim_depth_step simp del: Suc_diff_le One_nat_def add_Suc_right split: if_split_asm
        elim!: chain_InrE)
next
  case (6 depth n kvs)
  then show ?case
    by (auto simp: claim_depth_step simp del: Suc_diff_le One_nat_def add_Suc_right split: if_split_asm
        elim!: chain_InrE)
next
  case (11 depth n x xs)
  from "11.prems"(1) obtain y k ys' where ne: "x \<noteq> Undefined" and le: "n + 1 \<le> MAX_CLAIM_ITEMS"
    and y: "projectValue depth (n + 1) x = Inr (y, k)" and r: "projectMembers depth k xs = Inr (ys', m)"
    and ys: "ys = y # ys'"
    by (auto simp: countItem_Inr split: if_split_asm elim!: chain_InrE)
  have c: "countItem n = Inr (n + 1)" using le by (simp add: countItem_Inr)
  note one = "11.IH"(1) [OF c ne y "11.prems"(2) le]
  then have "k \<le> MAX_CLAIM_ITEMS" by simp
  from "11.IH"(2) [OF c ne y refl r "11.prems"(2) this] one ys show ?case by simp
next
  case (13 depth n kv kvs)
  have le: "n + 1 \<le> MAX_CLAIM_ITEMS" and key: "length (fst kv) \<le> MAX_CLAIM_KEY_BYTES"
    using "13.prems"(1) by (auto simp: countItem_Inr split: if_split_asm elim!: chain_InrE)
  have c: "countItem n = Inr (n + 1)" using le by (simp add: countItem_Inr)
  show ?case
  proof (cases "snd kv = Undefined")
    case True
    with "13.prems"(1) key c have r: "projectProps depth (n + 1) kvs = Inr (ps, m)" by simp
    from "13.IH"(1) [OF c _ True r "13.prems"(2) le] key show ?thesis by simp
  next
    case ne: False
    with "13.prems"(1) key c obtain y k ps' where y: "projectValue depth (n + 1) (snd kv) = Inr (y, k)"
      and r: "projectProps depth k kvs = Inr (ps', m)" and ps: "ps = (fst kv, y) # ps'"
      by (auto elim!: chain_InrE)
    have k': "\<not> MAX_CLAIM_KEY_BYTES < length (fst kv)" using key by simp
    note one = "13.IH"(2) [OF c k' ne y "13.prems"(2) le]
    then have "k \<le> MAX_CLAIM_ITEMS" by simp
    from "13.IH"(3) [OF c k' ne y refl r "13.prems"(2) this] one ps key show ?thesis by simp
  qed
qed (auto split: if_split_asm)

subsection \<open>Properties\<close>

text \<open>
  Claims the boundary accepts are bounded plain data: every string is well-formed and at most
  4096 bytes, every key at most 128 bytes, every number finite, no undefined value is left, at most
  five containers are nested, at most 64 members are held in all, and the serialized record takes at
  most 16384 bytes.
\<close>

theorem snapshotVerifiedClaims_bounded:
  assumes "snapshotVerifiedClaims numText v = Inr (Some ps)"
  shows "claim_data (MAX_CLAIM_DEPTH + 1) (Obj ps) \<and> item_count (Obj ps) \<le> MAX_CLAIM_ITEMS
         \<and> length (json_text numText (Obj ps)) \<le> MAX_CLAIMS_JSON_BYTES"
proof -
  from assms obtain kvs n where p: "projectProps 1 0 kvs = Inr (ps, n)"
    and len: "length (json_text numText (Obj ps)) \<le> MAX_CLAIMS_JSON_BYTES"
    by (auto simp: snapshotVerifiedClaims_def elim!: chain_InrE split: jsval.split_asm if_split_asm)
  have "claim_data (Suc MAX_CLAIM_DEPTH) (Obj ps) \<and> item_count (Obj ps) \<le> MAX_CLAIM_ITEMS"
    using project_sound(3) [OF p] by simp
  with len show ?thesis by simp
qed

theorem snapshotVerifiedClaims_bounded_witness:
  "claim_data 5 (Obj [(''team'', Arr [Str ''a'', Null])])"
proof -
  have "snapshotVerifiedClaims (\<lambda>_. ''1'')
      (Obj [(''team'', Arr [Str ''a'', Null]), (''skip'', Undefined)])
    = Inr (Some [(''team'', Arr [Str ''a'', Null])])"
    by (simp add: snapshotVerifiedClaims_def countItem_def MAX_CLAIM_ITEMS_def MAX_CLAIM_KEY_BYTES_def
        MAX_CLAIM_STRING_BYTES_def MAX_CLAIM_DEPTH_def MAX_CLAIMS_JSON_BYTES_def json_quote_def
        json_escape_char_def byte_def)
  from snapshotVerifiedClaims_bounded [OF this] show ?thesis by (simp add: MAX_CLAIM_DEPTH_def)
qed

end
