(* ===== verification/Clock.thy ===== *)
theory Clock
  imports Errors
begin

section \<open>Clock readings and ISO timestamps\<close>

text \<open>
  \<open>src/ports/clock.ts\<close>, \<open>src/numeric-date.ts\<close> and the part of ECMAScript's \<open>Date\<close> they rest on.
  A clock port may throw or return any number at each reading, so a reading is a \<open>clock_reading\<close>
  and an operation that reads the clock \<open>n\<close> times takes \<open>n\<close> readings. The stores compare expiry
  timestamps as strings; the main result of this theory is that this is the comparison of the
  times.
\<close>

datatype clock_reading = Reads num | ClockThrows

definition MIN_CANONICAL_MS :: int where
  "MIN_CANONICAL_MS = -62167219200000"

definition MAX_CANONICAL_MS :: int where
  "MAX_CANONICAL_MS = 253402300799999"

definition clock_range_error :: failure where
  "clock_range_error =
     Thrown ''RangeError'' ''ClockPort.nowMs() must fit the canonical UTC timestamp range''"

fun integerClockSnapshot :: "clock_reading \<Rightarrow> int outcome" where
  "integerClockSnapshot ClockThrows = Inl clock_range_error"
| "integerClockSnapshot (Reads (Whole i)) =
     (if safe_int i then Inr i
      else Inl (Thrown ''RangeError'' ''ClockPort.nowMs() must be a safe-integer millisecond timestamp''))"
| "integerClockSnapshot (Reads _) =
     Inl (Thrown ''RangeError'' ''ClockPort.nowMs() must be a safe-integer millisecond timestamp'')"

definition finiteClockSnapshot :: "clock_reading \<Rightarrow> int \<Rightarrow> int outcome" where
  "finiteClockSnapshot r futureOffsetMs =
     chain (integerClockSnapshot r) (\<lambda>nowMs.
       if \<not> safe_int futureOffsetMs \<or> futureOffsetMs < 0 \<or> nowMs < MIN_CANONICAL_MS
          \<or> nowMs > MAX_CANONICAL_MS - futureOffsetMs
       then Inl clock_range_error
       else Inr nowMs)"

text \<open>A cache reads an unusable clock as NaN, \<open>None\<close> here.\<close>

definition cacheClockObservation :: "clock_reading \<Rightarrow> int option" where
  "cacheClockObservation r = (case finiteClockSnapshot r 0 of Inl _ \<Rightarrow> None | Inr t \<Rightarrow> Some t)"

text \<open>\<open>fixedClockSnapshot\<close>: a clock that returns one validated value for ever.\<close>

definition fixedClockSnapshot :: "int \<Rightarrow> clock_reading" where
  "fixedClockSnapshot t = Reads (Whole t)"

definition canonical :: "int \<Rightarrow> bool" where
  "canonical t = (MIN_CANONICAL_MS \<le> t \<and> t \<le> MAX_CANONICAL_MS)"

lemma finiteClockSnapshot_Inr:
  "finiteClockSnapshot r off = Inr t \<longleftrightarrow>
     r = Reads (Whole t) \<and> safe_int t \<and> safe_int off \<and> 0 \<le> off
     \<and> MIN_CANONICAL_MS \<le> t \<and> t + off \<le> MAX_CANONICAL_MS"
  by (cases r rule: integerClockSnapshot.cases)
     (auto simp: finiteClockSnapshot_def clock_range_error_def split: if_splits)

lemma finiteClockSnapshot_canonical:
  "finiteClockSnapshot r off = Inr t \<Longrightarrow> canonical t \<and> canonical (t + off)"
  by (auto simp: finiteClockSnapshot_Inr canonical_def)

lemma finiteClockSnapshot_Inl: "finiteClockSnapshot r off = Inl e \<Longrightarrow> \<exists>m. e = Thrown ''RangeError'' m"
  by (cases r rule: integerClockSnapshot.cases)
     (auto simp: finiteClockSnapshot_def clock_range_error_def split: if_splits)

lemma canonical_safe: "canonical t \<Longrightarrow> safe_int t"
  by (auto simp: canonical_def safe_int_def MIN_CANONICAL_MS_def MAX_CANONICAL_MS_def MAX_SAFE_INTEGER_def)

lemma fixedClock_finite [simp]: "canonical t \<Longrightarrow> finiteClockSnapshot (fixedClockSnapshot t) 0 = Inr t"
  using canonical_safe [of t]
  by (auto simp: finiteClockSnapshot_Inr fixedClockSnapshot_def canonical_def safe_int_def MAX_SAFE_INTEGER_def)

subsection \<open>Calendar arithmetic of \<open>Date\<close>\<close>

definition DayFromYear :: "int \<Rightarrow> int" where
  "DayFromYear y =
     365 * (y - 1970) + (y - 1969) div 4 - (y - 1901) div 100 + (y - 1601) div 400"

text \<open>
  \<open>YearFromTime\<close> is the largest year whose first day is not after the day. The estimate is at most
  one year off, which the two tests repair.
\<close>

definition YearFromDay :: "int \<Rightarrow> int" where
  "YearFromDay d =
     (let g = 1970 + (400 * d) div 146097
      in if DayFromYear (g + 1) \<le> d then g + 1
         else if DayFromYear g \<le> d then g else g - 1)"

definition InLeapYear :: "int \<Rightarrow> bool" where
  "InLeapYear y = (DayFromYear (y + 1) - DayFromYear y = 366)"

definition MonthStart :: "bool \<Rightarrow> int \<Rightarrow> int" where
  "MonthStart leap m =
     [0, 31, 59, 90, 120, 151, 181, 212, 243, 273, 304, 334] ! nat m
     + (if leap \<and> 2 \<le> m then 1 else 0)"

definition MonthFromDay :: "bool \<Rightarrow> int \<Rightarrow> int" where
  "MonthFromDay leap d =
     (if d < MonthStart leap 1 then 0 else if d < MonthStart leap 2 then 1
      else if d < MonthStart leap 3 then 2 else if d < MonthStart leap 4 then 3
      else if d < MonthStart leap 5 then 4 else if d < MonthStart leap 6 then 5
      else if d < MonthStart leap 7 then 6 else if d < MonthStart leap 8 then 7
      else if d < MonthStart leap 9 then 8 else if d < MonthStart leap 10 then 9
      else if d < MonthStart leap 11 then 10 else 11)"

datatype civil =
  Civil (year: int) (month: int) (day: int) (hour: int) (minute: int) (second: int) (milli: int)

definition msPerDay :: int where
  "msPerDay = 86400000"

definition civil_of_ms :: "int \<Rightarrow> civil" where
  "civil_of_ms t =
     (let d = t div msPerDay; w = t mod msPerDay; y = YearFromDay d;
          dwy = d - DayFromYear y; leap = InLeapYear y; m = MonthFromDay leap dwy
      in Civil y m (dwy - MonthStart leap m)
           (w div 3600000) (w mod 3600000 div 60000) (w mod 60000 div 1000) (w mod 1000))"

definition digit_char :: "int \<Rightarrow> char" where
  "digit_char i = char_of (48 + nat i)"

fun pad :: "nat \<Rightarrow> int \<Rightarrow> string" where
  "pad 0 n = []"
| "pad (Suc k) n = pad k (n div 10) @ [digit_char (n mod 10)]"

definition iso_year :: "int \<Rightarrow> string" where
  "iso_year y =
     (if 0 \<le> y \<and> y \<le> 9999 then pad 4 y
      else (if y < 0 then ''-'' else ''+'') @ pad 6 \<bar>y\<bar>)"

definition toISOString :: "int \<Rightarrow> string" where
  "toISOString t =
     (let c = civil_of_ms t
      in iso_year (year c) @ ''-'' @ pad 2 (month c + 1) @ ''-'' @ pad 2 (day c + 1) @ ''T''
         @ pad 2 (hour c) @ '':'' @ pad 2 (minute c) @ '':'' @ pad 2 (second c) @ ''.''
         @ pad 3 (milli c) @ ''Z'')"

text \<open>\<open>numericDateIso\<close> of \<open>src/numeric-date.ts\<close>.\<close>

definition numericDateIso :: "jsval \<Rightarrow> string \<Rightarrow> string outcome" where
  "numericDateIso v label =
     (case v of
        Number (Whole i) \<Rightarrow>
          if safe_int i
          then chain (finiteClockSnapshot (Reads (Whole (i * 1000))) 0) (\<lambda>ms. Inr (toISOString ms))
          else Inl (Thrown ''Error'' (''invalid '' @ label))
      | _ \<Rightarrow> Inl (Thrown ''Error'' (''invalid '' @ label)))"

subsection \<open>The year and month of a day\<close>

lemma DayFromYear_bounds:
  shows "146097 * (y - 1970) - 506 \<le> 400 * DayFromYear y"
    and "400 * DayFromYear y \<le> 146097 * (y - 1970) + 589"
proof -
  have a: "4 * ((y - 1969) div 4) \<le> y - 1969" "y - 1969 \<le> 4 * ((y - 1969) div 4) + 3" by simp_all
  have b: "100 * ((y - 1901) div 100) \<le> y - 1901" "y - 1901 \<le> 100 * ((y - 1901) div 100) + 99" by simp_all
  have c: "400 * ((y - 1601) div 400) \<le> y - 1601" "y - 1601 \<le> 400 * ((y - 1601) div 400) + 399" by simp_all
  show "146097 * (y - 1970) - 506 \<le> 400 * DayFromYear y"
    and "400 * DayFromYear y \<le> 146097 * (y - 1970) + 589"
    using a b c unfolding DayFromYear_def by (simp_all add: algebra_simps)
qed

lemma div_step:
  fixes n k :: int
  assumes "0 < k"
  shows "(n + 1) div k = n div k + (if k dvd n + 1 then 1 else 0)"
proof (cases "k dvd n + 1")
  case True
  then obtain q where q: "n + 1 = k * q" by auto
  then have n: "n = k * (q - 1) + (k - 1)" by (simp add: algebra_simps)
  have "n div k = q - 1" unfolding n using assms by (simp add: div_pos_pos_trivial)
  moreover have "(n + 1) div k = q" using q assms by simp
  ultimately show ?thesis using True by simp
next
  case False
  have m: "n mod k + 1 \<noteq> k"
    using False by (metis dvd_triv_left mult.commute mult_div_mod_eq add.assoc distrib_left mult.right_neutral)
  have "0 \<le> n mod k" and "n mod k < k" using assms by simp_all
  then have lt: "0 \<le> n mod k + 1" "n mod k + 1 < k" using m by simp_all
  have "n + 1 = k * (n div k) + (n mod k + 1)" by simp
  then have "(n + 1) div k = n div k" using lt assms by (metis div_mult_self4 div_pos_pos_trivial add.commute add.right_neutral less_imp_neq)
  with False show ?thesis by simp
qed

lemma DayFromYear_step:
  shows "DayFromYear y + 365 \<le> DayFromYear (y + 1)" and "DayFromYear (y + 1) \<le> DayFromYear y + 366"
proof -
  have e: "y + 1 - 1969 = (y - 1969) + 1" "y + 1 - 1901 = (y - 1901) + 1" "y + 1 - 1601 = (y - 1601) + 1"
    by simp_all
  have d1: "4 dvd (y - 1969 + 1)" if h: "100 dvd (y - 1901 + 1)"
  proof -
    obtain k where "y - 1901 + 1 = 100 * k" using h unfolding dvd_def by blast
    then have "y - 1969 + 1 = 4 * (25 * k - 17)" by simp
    then show ?thesis by (metis dvd_triv_left)
  qed
  have d2: "100 dvd (y - 1901 + 1)" if h: "400 dvd (y - 1601 + 1)"
  proof -
    obtain k where "y - 1601 + 1 = 400 * k" using h unfolding dvd_def by blast
    then have "y - 1901 + 1 = 100 * (4 * k - 3)" by simp
    then show ?thesis by (metis dvd_triv_left)
  qed
  have "DayFromYear (y + 1) - DayFromYear y =
      365 + (if 4 dvd (y - 1969 + 1) then 1 else 0) - (if 100 dvd (y - 1901 + 1) then 1 else 0)
      + (if 400 dvd (y - 1601 + 1) then 1 else 0)"
    unfolding DayFromYear_def e by (subst (1 2 3) div_step) simp_all
  then show "DayFromYear y + 365 \<le> DayFromYear (y + 1)" and "DayFromYear (y + 1) \<le> DayFromYear y + 366"
    using d1 d2 by (auto split: if_splits)
qed

lemma DayFromYear_mono: "x \<le> y \<Longrightarrow> DayFromYear x \<le> DayFromYear y"
proof (induction "nat (y - x)" arbitrary: y)
  case (Suc n)
  then have "DayFromYear x \<le> DayFromYear (y - 1)" by simp
  then show ?case using DayFromYear_step(1) [of "y - 1"] by simp
qed simp

lemma YearFromDay_bounds:
  "DayFromYear (YearFromDay d) \<le> d \<and> d < DayFromYear (YearFromDay d + 1)"
proof -
  define g where "g = 1970 + (400 * d) div 146097"
  have g: "146097 * (g - 1970) \<le> 400 * d" "400 * d < 146097 * (g - 1970) + 146097"
    unfolding g_def by simp_all
  have lo: "DayFromYear (g - 1) \<le> d" using g DayFromYear_bounds(2) [of "g - 1"] by (simp add: algebra_simps)
  have hi: "d < DayFromYear (g + 2)" using g DayFromYear_bounds(1) [of "g + 2"] by (simp add: algebra_simps)
  have hi': "d < DayFromYear (g + 1 + 1)" using hi by (simp add: add.assoc)
  show ?thesis using lo hi' unfolding YearFromDay_def g_def [symmetric] Let_def by auto
qed

lemma YearFromDay_mono: "a \<le> b \<Longrightarrow> YearFromDay a \<le> YearFromDay b"
  using YearFromDay_bounds [of a] YearFromDay_bounds [of b]
    DayFromYear_mono [of "YearFromDay b + 1" "YearFromDay a"] by linarith

lemma InLeapYear_length:
  "DayFromYear (y + 1) = DayFromYear y + (if InLeapYear y then 366 else 365)"
  using DayFromYear_step [of y] by (auto simp: InLeapYear_def)

lemma MonthStart_simps [simp]:
  "MonthStart l 0 = 0" "MonthStart l 1 = 31" "MonthStart l 2 = 59 + (if l then 1 else 0)"
  "MonthStart l 3 = 90 + (if l then 1 else 0)" "MonthStart l 4 = 120 + (if l then 1 else 0)"
  "MonthStart l 5 = 151 + (if l then 1 else 0)" "MonthStart l 6 = 181 + (if l then 1 else 0)"
  "MonthStart l 7 = 212 + (if l then 1 else 0)" "MonthStart l 8 = 243 + (if l then 1 else 0)"
  "MonthStart l 9 = 273 + (if l then 1 else 0)" "MonthStart l 10 = 304 + (if l then 1 else 0)"
  "MonthStart l 11 = 334 + (if l then 1 else 0)"
  by (auto simp: MonthStart_def)

lemma MonthFromDay_range: "0 \<le> MonthFromDay l d \<and> MonthFromDay l d \<le> 11"
  by (auto simp: MonthFromDay_def)

lemma MonthFromDay_mono: "a \<le> b \<Longrightarrow> MonthFromDay l a \<le> MonthFromDay l b"
  by (auto simp: MonthFromDay_def)

lemma MonthFromDay_day:
  "0 \<le> d \<Longrightarrow> d < (if l then 366 else 365) \<Longrightarrow>
   0 \<le> d - MonthStart l (MonthFromDay l d) \<and> d - MonthStart l (MonthFromDay l d) \<le> 30"
  by (auto simp: MonthFromDay_def split: if_splits)

subsection \<open>Civil dates are ordered field by field\<close>

fun civil_key :: "civil \<Rightarrow> int list" where
  "civil_key (Civil y m d h mi s ms) = [y, m, d, h, mi, s, ms]"

lemma civil_key_inject: "civil_key a = civil_key b \<longleftrightarrow> a = b"
  by (cases a; cases b) auto

instantiation civil :: linorder
begin

definition less_eq_civil :: "civil \<Rightarrow> civil \<Rightarrow> bool" where
  "less_eq_civil a b = (civil_key a \<le> civil_key b)"

definition less_civil :: "civil \<Rightarrow> civil \<Rightarrow> bool" where
  "less_civil a b = (civil_key a < civil_key b)"

instance
  by standard (auto simp: less_eq_civil_def less_civil_def civil_key_inject [symmetric])

end

lemma div_mod_lex:
  fixes a b n :: int
  assumes "a < b" and "0 < n"
  shows "a div n < b div n \<or> a div n = b div n \<and> a mod n < b mod n"
proof -
  have "a div n \<le> b div n" using assms by (simp add: zdiv_mono1)
  moreover have "a mod n < b mod n" if "a div n = b div n"
    using assms(1) that by (metis add_less_cancel_left mult_div_mod_eq)
  ultimately show ?thesis by linarith
qed

lemma mixed_radix_less:
  fixes v w n :: int
  assumes "v < w" and "0 < n" and "v mod n < w mod n \<Longrightarrow> xs < ys"
  shows "v div n # xs < w div n # ys"
  using div_mod_lex [OF assms(1,2)] assms(3) by auto

lemma time_of_day_less:
  assumes "(v::int) < w"
  shows "[v div 3600000, v mod 3600000 div 60000, v mod 60000 div 1000, v mod 1000]
       < [w div 3600000, w mod 3600000 div 60000, w mod 60000 div 1000, w mod 1000]"
proof (rule mixed_radix_less [OF assms])
  have m: "a mod 3600000 mod 60000 = a mod 60000" "a mod 60000 mod 1000 = a mod 1000" for a :: int
    by (simp_all add: mod_mod_cancel)
  assume 1: "v mod 3600000 < w mod 3600000"
  show "[v mod 3600000 div 60000, v mod 60000 div 1000, v mod 1000]
      < [w mod 3600000 div 60000, w mod 60000 div 1000, w mod 1000]"
  proof (rule mixed_radix_less [OF 1])
    assume "v mod 3600000 mod 60000 < w mod 3600000 mod 60000"
    then have 2: "v mod 60000 < w mod 60000" unfolding m .
    show "[v mod 60000 div 1000, v mod 1000] < [w mod 60000 div 1000, w mod 1000]"
      by (rule mixed_radix_less [OF 2]) (simp_all only: m Cons_less_Cons simp_thms zero_less_numeral)
  qed simp
qed simp

definition civil_day :: "int \<Rightarrow> int list" where
  "civil_day d =
     (let y = YearFromDay d; l = InLeapYear y; m = MonthFromDay l (d - DayFromYear y)
      in [y, m, d - DayFromYear y - MonthStart l m])"

lemma civil_day_less:
  assumes "a < b"
  shows "civil_day a < civil_day b"
proof (cases "YearFromDay a = YearFromDay b")
  case True
  define y l where "y = YearFromDay b" and "l = InLeapYear y"
  have lt: "a - DayFromYear y < b - DayFromYear y" using assms by simp
  then have "MonthFromDay l (a - DayFromYear y) \<le> MonthFromDay l (b - DayFromYear y)"
    by (simp add: MonthFromDay_mono)
  then show ?thesis
    unfolding civil_day_def Let_def True y_def [symmetric] l_def [symmetric]
    using lt by (auto simp: le_less)
next
  case False
  then have "YearFromDay a < YearFromDay b" using YearFromDay_mono [of a b] assms by simp
  then show ?thesis by (simp add: civil_day_def Let_def)
qed

lemma civil_key_of_ms:
  "civil_key (civil_of_ms t) =
     civil_day (t div msPerDay)
     @ (let w = t mod msPerDay
        in [w div 3600000, w mod 3600000 div 60000, w mod 60000 div 1000, w mod 1000])"
  by (simp add: civil_of_ms_def civil_day_def Let_def)

lemma append_less_append_int:
  fixes xs ys u v :: "int list"
  shows "length xs = length ys \<Longrightarrow> xs @ u < ys @ v \<longleftrightarrow> xs < ys \<or> xs = ys \<and> u < v"
  by (induction xs ys rule: list_induct2) auto

lemma civil_of_ms_less:
  assumes "s < t"
  shows "civil_of_ms s < civil_of_ms t"
proof -
  have pos: "0 < msPerDay" by (simp add: msPerDay_def)
  have len: "length (civil_day a) = length (civil_day b)" for a b
    by (simp add: civil_day_def Let_def)
  show ?thesis
    using div_mod_lex [OF assms pos] civil_day_less time_of_day_less
    by (auto simp: less_civil_def civil_key_of_ms Let_def append_less_append_int [OF len])
qed

subsection \<open>The ISO form\<close>

lemma byte_digit_char: "0 \<le> i \<Longrightarrow> i \<le> 9 \<Longrightarrow> byte (digit_char i) = 48 + nat i"
  by (simp add: byte_def digit_char_def)

lemma less_char_byte: "c < d \<longleftrightarrow> byte c < byte d"
  by (simp add: less_char_def byte_def)

lemma eq_char_byte: "c = d \<longleftrightarrow> byte c = byte d"
  by (simp add: byte_def of_char_eq_iff)

lemma length_pad [simp]: "length (pad k n) = k"
  by (induction k n rule: pad.induct) auto

lemma pad_digits: "0 \<le> n \<Longrightarrow> list_all is_digit (pad k n)"
proof (induction k n rule: pad.induct)
  case (2 k n)
  have "0 \<le> n mod 10" "n mod 10 \<le> 9" by simp_all
  then have "is_digit (digit_char (n mod 10))" by (simp add: is_digit_def byte_digit_char)
  with 2 show ?case by simp
qed simp

lemma pad_order:
  assumes "0 \<le> m" and "m < n" and "n < 10 ^ k"
  shows "pad k m < pad k n"
  using assms
proof (induction k arbitrary: m n)
  case (Suc k)
  have bound: "n div 10 < 10 ^ k" using Suc.prems(3) by (simp add: div_less_iff_less_mult)
  have r: "0 \<le> m mod 10" "m mod 10 \<le> 9" "0 \<le> n mod 10" "n mod 10 \<le> 9" by simp_all
  have "m div 10 < n div 10 \<or> m div 10 = n div 10 \<and> m mod 10 < n mod 10"
    using div_mod_lex [OF Suc.prems(2), of 10] by simp
  moreover have "pad k (m div 10) < pad k (n div 10)" if "m div 10 < n div 10"
    using Suc.IH [OF _ that bound] Suc.prems(1) by simp
  ultimately show ?case
    using r by (auto simp: append_less_append less_char_byte byte_digit_char)
qed simp

lemma pad_eq_iff:
  assumes "0 \<le> m" and "m < 10 ^ k" and "0 \<le> n" and "n < 10 ^ k"
  shows "pad k m = pad k n \<longleftrightarrow> m = n"
  using pad_order [of m n k] pad_order [of n m k] assms by (metis less_irrefl linorder_cases)

lemma pad_less_iff:
  assumes "0 \<le> m" and "m < 10 ^ k" and "0 \<le> n" and "n < 10 ^ k"
  shows "pad k m < pad k n \<longleftrightarrow> m < n"
  using pad_order [of m n k] pad_order [of n m k] assms by (metis less_asym less_irrefl linorder_cases)

text \<open>Canonical times have years 0 to 9999.\<close>

lemma canonical_day: "canonical t \<Longrightarrow> -719528 \<le> t div msPerDay \<and> t div msPerDay \<le> 2932896"
  using zdiv_mono1 [of MIN_CANONICAL_MS t msPerDay] zdiv_mono1 [of t MAX_CANONICAL_MS msPerDay]
  by (simp add: canonical_def MIN_CANONICAL_MS_def MAX_CANONICAL_MS_def msPerDay_def)

lemma canonical_year:
  assumes "canonical t"
  shows "0 \<le> YearFromDay (t div msPerDay) \<and> YearFromDay (t div msPerDay) \<le> 9999"
proof -
  have "YearFromDay (-719528) = 0" "YearFromDay 2932896 = 9999" by code_simp+
  then show ?thesis
    using canonical_day [OF assms] YearFromDay_mono [of "-719528" "t div msPerDay"]
      YearFromDay_mono [of "t div msPerDay" 2932896] by simp
qed

lemma canonical_fields:
  assumes "canonical t"
  shows "0 \<le> year (civil_of_ms t) \<and> year (civil_of_ms t) < 10 ^ 4"
    and "0 \<le> month (civil_of_ms t) + 1 \<and> month (civil_of_ms t) + 1 < 10 ^ 2"
    and "0 \<le> day (civil_of_ms t) + 1 \<and> day (civil_of_ms t) + 1 < 10 ^ 2"
    and "0 \<le> hour (civil_of_ms t) \<and> hour (civil_of_ms t) < 10 ^ 2"
    and "0 \<le> minute (civil_of_ms t) \<and> minute (civil_of_ms t) < 10 ^ 2"
    and "0 \<le> second (civil_of_ms t) \<and> second (civil_of_ms t) < 10 ^ 2"
    and "0 \<le> milli (civil_of_ms t) \<and> milli (civil_of_ms t) < 10 ^ 3"
proof -
  define d w where "d = t div msPerDay" and "w = t mod msPerDay"
  have w: "0 \<le> w" "w < 86400000" by (simp_all add: w_def msPerDay_def)
  have "0 \<le> d - DayFromYear (YearFromDay d)"
    and "d - DayFromYear (YearFromDay d) < (if InLeapYear (YearFromDay d) then 366 else 365)"
    using YearFromDay_bounds [of d] InLeapYear_length [of "YearFromDay d"] by auto
  note dd = MonthFromDay_day [OF this] MonthFromDay_range
    [of "InLeapYear (YearFromDay d)" "d - DayFromYear (YearFromDay d)"]
  show "0 \<le> year (civil_of_ms t) \<and> year (civil_of_ms t) < 10 ^ 4"
    using canonical_year [OF assms] by (simp add: civil_of_ms_def Let_def)
  show "0 \<le> month (civil_of_ms t) + 1 \<and> month (civil_of_ms t) + 1 < 10 ^ 2"
    and "0 \<le> day (civil_of_ms t) + 1 \<and> day (civil_of_ms t) + 1 < 10 ^ 2"
    using dd by (simp_all add: civil_of_ms_def Let_def d_def)
  show "0 \<le> hour (civil_of_ms t) \<and> hour (civil_of_ms t) < 10 ^ 2"
    using w zdiv_mono1 [of 0 w 3600000] zdiv_mono1 [of w 86399999 3600000]
    by (simp add: civil_of_ms_def Let_def w_def [symmetric])
  show "0 \<le> minute (civil_of_ms t) \<and> minute (civil_of_ms t) < 10 ^ 2"
    and "0 \<le> second (civil_of_ms t) \<and> second (civil_of_ms t) < 10 ^ 2"
    and "0 \<le> milli (civil_of_ms t) \<and> milli (civil_of_ms t) < 10 ^ 3"
    by (auto simp: civil_of_ms_def Let_def div_less_iff_less_mult intro: less_le_trans [OF pos_mod_bound])
qed

lemma toISOString_less:
  assumes "canonical s" and "canonical t" and "s < t"
  shows "toISOString s < toISOString t"
proof -
  obtain y m d h mi sec ms where a: "civil_of_ms s = Civil y m d h mi sec ms" by (cases "civil_of_ms s")
  obtain y' m' d' h' mi' sec' ms' where b: "civil_of_ms t = Civil y' m' d' h' mi' sec' ms'"
    by (cases "civil_of_ms t")
  note fa = canonical_fields [OF assms(1), unfolded a civil.sel]
  note fb = canonical_fields [OF assms(2), unfolded b civil.sel]
  have "[y, m, d, h, mi, sec, ms] < [y', m', d', h', mi', sec', ms']"
    using civil_of_ms_less [OF assms(3)] by (simp add: a b less_civil_def)
  then show ?thesis
    using fa fb
    by (auto simp: toISOString_def a b iso_year_def append_less_append pad_less_iff pad_eq_iff)
qed

lemma toISOString_inject: "canonical s \<Longrightarrow> canonical t \<Longrightarrow> toISOString s = toISOString t \<longleftrightarrow> s = t"
  using toISOString_less [of s t] toISOString_less [of t s] by (metis less_irrefl linorder_cases)

lemma toISOString_less_iff: "canonical s \<Longrightarrow> canonical t \<Longrightarrow> toISOString s < toISOString t \<longleftrightarrow> s < t"
  using toISOString_less [of s t] toISOString_less [of t s] by (metis less_asym less_irrefl linorder_cases)

lemma toISOString_le_iff: "canonical s \<Longrightarrow> canonical t \<Longrightarrow> toISOString s \<le> toISOString t \<longleftrightarrow> s \<le> t"
  using toISOString_less_iff [of t s] by (simp add: not_less [symmetric])

text \<open>
  Comparing two library-written timestamps as strings, as every store does, is comparing the
  instants: on the canonical range (years 0 to 9999), which is the range every clock snapshot is
  checked against, \<open>toISOString\<close> is strictly monotone for the lexicographic order.
\<close>

theorem toISOString_order:
  assumes "finiteClockSnapshot r off = Inr now" and "finiteClockSnapshot r' off' = Inr now'"
  shows "(toISOString (now + off) < toISOString (now' + off') \<longleftrightarrow> now + off < now' + off')
         \<and> (toISOString (now + off) = toISOString (now' + off') \<longleftrightarrow> now + off = now' + off')"
  using finiteClockSnapshot_canonical [OF assms(1)] finiteClockSnapshot_canonical [OF assms(2)]
  by (simp_all add: toISOString_less_iff toISOString_inject)

theorem toISOString_order_witness:
  "toISOString (1783083600000 + 3600000) < toISOString (1783087200001 + 0) \<longleftrightarrow>
     1783083600000 + 3600000 < (1783087200001 + 0 :: int)"
proof -
  have "finiteClockSnapshot (Reads (Whole 1783083600000)) 3600000 = Inr 1783083600000"
    and "finiteClockSnapshot (Reads (Whole 1783087200001)) 0 = Inr 1783087200001"
    by (simp_all add: finiteClockSnapshot_Inr safe_int_def MAX_SAFE_INTEGER_def MIN_CANONICAL_MS_def
        MAX_CANONICAL_MS_def)
  from toISOString_order [OF this] show ?thesis by simp
qed

end
