(* ===== verification/Store_Port.thy ===== *)
theory Store_Port
  imports Identity_Boundary Clock
begin

section \<open>The storage port: records and input checks\<close>

text \<open>
  \<open>src/ports/store.ts\<close>. The records of authorization codes and refresh tokens, and the checks every
  store runs on what callers hand it. The TypeScript types are trusted for the fields the code does
  not re-check; \<open>resource\<close> and \<open>grantGeneration\<close>, which untyped callers may omit or fill with anything,
  are untyped in an input (\<open>jsval\<close>) and \<open>string | null\<close>, \<open>number | null\<close> in a stored row.
\<close>

record 'g auth_code =
  ac_codeHash :: string
  ac_clientId :: string
  ac_subject :: string
  ac_redirectUri :: string
  ac_resource :: string
  ac_scopes :: "string list"
  ac_codeChallenge :: string
  ac_codeChallengeMethod :: string
  ac_expiresAt :: string
  ac_grantGeneration :: 'g

type_synonym SaveAuthCodeInput = "jsval auth_code"
type_synonym AuthCodeRecord = "int option auth_code"

record ('r, 'g) refresh_token =
  tk_tokenHash :: string
  tk_familyId :: string
  tk_previousTokenHash :: "string option"
  tk_clientId :: string
  tk_subject :: string
  tk_resource :: 'r
  tk_scopes :: "string list"
  tk_expiresAt :: string
  tk_grantGeneration :: 'g

type_synonym SaveRefreshTokenInput = "(jsval, jsval) refresh_token"
type_synonym RefreshTokenRecord = "(string option, int option) refresh_token"

datatype ConsentApprovalCommitResult = Stored | Replayed | Binding_mismatch

definition UNBOUND_REFRESH_RESOURCE :: string where
  "UNBOUND_REFRESH_RESOURCE = ''mcp-sso:unbound-refresh-resource''"

definition STORED_DCR_GRANT_GENERATION :: int where
  "STORED_DCR_GRANT_GENERATION = 1"

definition storeInputError :: "string \<Rightarrow> failure" where
  "storeInputError m = Thrown ''StoreInputError'' m"

definition assertStoreSubject :: "jsval \<Rightarrow> string \<Rightarrow> unit outcome" where
  "assertStoreSubject v label =
     (case identitySubject v of
        Inl _ \<Rightarrow> Inl (storeInputError (label @ '' is malformed''))
      | Inr _ \<Rightarrow> Inr ())"

definition is_store_instance_id :: "string \<Rightarrow> bool" where
  "is_store_instance_id s = (22 \<le> length s \<and> length s \<le> 128 \<and> list_all is_base64url s)"

definition assertStoreInstanceId :: "string \<Rightarrow> unit outcome" where
  "assertStoreInstanceId s =
     require (is_store_instance_id s)
       (storeInputError ''store instance id must be 22-128 base64url characters'')"

definition is_sha256_hex :: "string \<Rightarrow> bool" where
  "is_sha256_hex s = (length s = 64 \<and> list_all is_hex s)"

definition assertSha256Hex :: "string \<Rightarrow> string \<Rightarrow> unit outcome" where
  "assertSha256Hex s label =
     require (is_sha256_hex s) (storeInputError (label @ '' must be a SHA-256 hex digest''))"

text \<open>\<open>/^\d{4}-\d{2}-\d{2}T\d{2}:\d{2}:\d{2}\.\d{3}Z$/\<close>: a template with \<open>d\<close> for a digit.\<close>

fun matches_template :: "string \<Rightarrow> string \<Rightarrow> bool" where
  "matches_template [] [] = True"
| "matches_template (t # ts) (c # cs) =
     ((if t = CHR ''d'' then is_digit c else c = t) \<and> matches_template ts cs)"
| "matches_template _ _ = False"

definition is_utc_iso :: "string \<Rightarrow> bool" where
  "is_utc_iso s = matches_template ''dddd-dd-ddTdd:dd:dd.dddZ'' s"

definition assertUtcIsoTimestamp :: "string \<Rightarrow> string \<Rightarrow> unit outcome" where
  "assertUtcIsoTimestamp s label =
     require (is_utc_iso s)
       (storeInputError (label @ '' must be a UTC ISO timestamp with exactly 3 ms digits (e.g. 2026-07-03T13:00:00.000Z)''))"

fun positive_safe_int :: "jsval \<Rightarrow> bool" where
  "positive_safe_int (Number (Whole i)) = (safe_int i \<and> 0 < i)"
| "positive_safe_int _ = False"

definition assertGrantGeneration :: "jsval \<Rightarrow> string \<Rightarrow> unit outcome" where
  "assertGrantGeneration v label =
     require (v = Undefined \<or> v = Null \<or> positive_safe_int v)
       (storeInputError (label @ '' must be a positive safe integer or null''))"

fun refreshResourceFromStored :: "jsval \<Rightarrow> string option" where
  "refreshResourceFromStored (Str s) = (if trim s \<noteq> [] then Some s else None)"
| "refreshResourceFromStored _ = None"

definition assertRefreshResource :: "jsval \<Rightarrow> string \<Rightarrow> string outcome" where
  "assertRefreshResource v label =
     (case v of
        Str s \<Rightarrow> if trim s = [] then Inl (storeInputError (label @ '' must be a non-empty resource string''))
                 else Inr s
      | _ \<Rightarrow> Inl (storeInputError (label @ '' must be a non-empty resource string'')))"

fun grantGenerationFromStored :: "jsval \<Rightarrow> int option" where
  "grantGenerationFromStored (Number (Whole i)) = (if safe_int i \<and> 0 < i then Some i else None)"
| "grantGenerationFromStored _ = None"

definition grantGenerationForWrite :: "jsval \<Rightarrow> int option" where
  "grantGenerationForWrite v =
     (if v = Undefined then Some STORED_DCR_GRANT_GENERATION else grantGenerationFromStored v)"

definition normalizeRefreshTokenWrite :: "SaveRefreshTokenInput \<Rightarrow> SaveRefreshTokenInput outcome" where
  "normalizeRefreshTokenWrite input =
     (if tk_resource input = Undefined then Inr (input\<lparr>tk_resource := Str UNBOUND_REFRESH_RESOURCE\<rparr>)
      else chain (assertRefreshResource (tk_resource input) ''resource'') (\<lambda>r.
           if r = UNBOUND_REFRESH_RESOURCE
           then Inl (storeInputError ''resource is reserved for unbound legacy writes'')
           else Inr input))"

text \<open>The value a stored row's field takes as a caller's input, for the writes a store makes itself.\<close>

definition generation_input :: "int option \<Rightarrow> jsval" where
  "generation_input g = (case g of None \<Rightarrow> Null | Some i \<Rightarrow> Number (Whole i))"

definition resource_input :: "string option \<Rightarrow> jsval" where
  "resource_input r = (case r of None \<Rightarrow> Null | Some s \<Rightarrow> Str s)"

subsection \<open>What passes the checks\<close>

lemma assertStoreSubject_Str [simp]: "assertStoreSubject (Str s) label = Inr u \<longleftrightarrow> subject_ok s"
proof (cases "identitySubject (Str s)")
  case (Inl e)
  then show ?thesis by (simp add: assertStoreSubject_def subject_ok_def)
next
  case (Inr t)
  then show ?thesis using identitySubject_Inr [of "Str s" t] by (simp add: assertStoreSubject_def)
qed

lemma assertRefreshResource_Inr [simp]:
  "assertRefreshResource v label = Inr s \<longleftrightarrow> v = Str s \<and> trim s \<noteq> []"
  by (auto simp: assertRefreshResource_def split: jsval.splits if_splits)

lemma assertSha256Hex_Inr [simp]: "assertSha256Hex s label = Inr u \<longleftrightarrow> is_sha256_hex s"
  by (simp add: assertSha256Hex_def)

lemma assertUtcIsoTimestamp_Inr [simp]: "assertUtcIsoTimestamp s label = Inr u \<longleftrightarrow> is_utc_iso s"
  by (simp add: assertUtcIsoTimestamp_def)

lemma assertGrantGeneration_Inr [simp]:
  "assertGrantGeneration v label = Inr u \<longleftrightarrow> v = Undefined \<or> v = Null \<or> positive_safe_int v"
  by (simp add: assertGrantGeneration_def)

lemma assertStoreInstanceId_Inr [simp]: "assertStoreInstanceId s = Inr u \<longleftrightarrow> is_store_instance_id s"
  by (simp add: assertStoreInstanceId_def)

text \<open>The checks as they simplify once they are known to pass.\<close>

lemma checks_pass [simp]:
  "subject_ok v \<Longrightarrow> assertStoreSubject (Str v) label = Inr ()"
  "is_sha256_hex v \<Longrightarrow> assertSha256Hex v label = Inr ()"
  "is_utc_iso v \<Longrightarrow> assertUtcIsoTimestamp v label = Inr ()"
  by simp_all

lemma normalizeRefreshTokenWrite_Inr:
  "normalizeRefreshTokenWrite input = Inr out \<longleftrightarrow>
     (tk_resource input = Undefined \<and> out = input\<lparr>tk_resource := Str UNBOUND_REFRESH_RESOURCE\<rparr>
      \<or> (\<exists>r. tk_resource input = Str r \<and> trim r \<noteq> [] \<and> r \<noteq> UNBOUND_REFRESH_RESOURCE \<and> out = input))"
  by (auto simp: normalizeRefreshTokenWrite_def result_simps)

lemma positive_safe_int_generation [simp]:
  "positive_safe_int v \<longleftrightarrow> (\<exists>i. v = Number (Whole i) \<and> safe_int i \<and> 0 < i)"
  by (cases v rule: positive_safe_int.cases) auto

definition good_generation :: "int option \<Rightarrow> bool" where
  "good_generation g = (case g of None \<Rightarrow> True | Some i \<Rightarrow> safe_int i \<and> 0 < i)"

lemma grantGenerationForWrite_good [simp]: "good_generation (grantGenerationForWrite v)"
  by (cases v rule: positive_safe_int.cases)
     (auto simp: good_generation_def grantGenerationForWrite_def STORED_DCR_GRANT_GENERATION_def safe_int_def
       MAX_SAFE_INTEGER_def)

lemma grantGenerationForWrite_input [simp]:
  "good_generation g \<Longrightarrow> grantGenerationForWrite (generation_input g) = g"
  by (auto simp: good_generation_def grantGenerationForWrite_def generation_input_def split: option.splits)

lemma assertGrantGeneration_input:
  "good_generation g \<Longrightarrow> generation_input g = Undefined \<or> generation_input g = Null
     \<or> positive_safe_int (generation_input g)"
  by (auto simp: good_generation_def generation_input_def split: option.splits)

lemma matches_template_digits:
  "list_all is_digit s \<Longrightarrow> matches_template ts t \<Longrightarrow> matches_template (replicate (length s) CHR ''d'' @ ts) (s @ t)"
  by (induction s) auto

text \<open>Every timestamp the library writes passes the stores' format check.\<close>

lemma toISOString_utc:
  assumes "canonical t"
  shows "is_utc_iso (toISOString t)"
proof -
  note f = canonical_fields [OF assms]
  have y: "iso_year (year (civil_of_ms t)) = pad 4 (year (civil_of_ms t))"
    using f(1) by (simp add: iso_year_def)
  have tpl: "''dddd-dd-ddTdd:dd:dd.dddZ'' =
      replicate 4 CHR ''d'' @ CHR ''-'' # (replicate 2 CHR ''d'' @ CHR ''-'' # (replicate 2 CHR ''d'' @ CHR ''T''
      # (replicate 2 CHR ''d'' @ CHR '':'' # (replicate 2 CHR ''d'' @ CHR '':'' # (replicate 2 CHR ''d'' @ CHR ''.''
      # (replicate 3 CHR ''d'' @ [CHR ''Z'']))))))"
    by (simp add: numeral_eq_Suc)
  have step: "matches_template ts u \<Longrightarrow> 0 \<le> n \<Longrightarrow> matches_template (replicate k CHR ''d'' @ ts) (pad k n @ u)"
    for ts u k n
    using matches_template_digits [OF pad_digits [of n k], of ts u] by simp
  show ?thesis
    unfolding is_utc_iso_def tpl toISOString_def Let_def y
    using f by (intro step) (auto intro!: step)
qed

end
