(* ===== verification/Memory_Store.thy ===== *)
theory Memory_Store
  imports Store_Port
begin

section \<open>The reference store\<close>

text \<open>
  \<open>src/store/memory.ts\<close>: the in-process reference implementation of the storage port. Every method
  runs to its end without yielding, so a call is one step from a store state to an outcome and a new
  state; the fresh identifier of an instance rotation is an argument. \<open>attempt\<close> runs the checks of a
  method: a failed check throws and leaves the state as it is. The host timer that calls
  \<open>sweepExpired\<close> is not modelled: a history may sweep at any point.
\<close>

named_theorems store_defs \<open>operations of the reference store\<close>

record stored_refresh = "(string option, int option) refresh_token" +
  consumedAt :: "string option"

record stored_family =
  revokedAt :: "string option"
  fam_grantGeneration :: "int option"
  fam_resource :: "string option"

record memory_store =
  closed :: bool
  authCodes :: "AuthCodeRecord jsmap"
  refreshTokens :: "stored_refresh jsmap"
  families :: "stored_family jsmap"
  consentJtis :: "string jsmap"
  sweptThrough :: "string option"
  storeInstanceId :: string

definition createMemoryStore :: "string \<Rightarrow> memory_store" where
  "createMemoryStore fresh =
     \<lparr>closed = False, authCodes = [], refreshTokens = [], families = [], consentJtis = [],
      sweptThrough = None, storeInstanceId = fresh\<rparr>"

text \<open>\<open>if (x)\<close> on a nullable string: null and the empty string are false.\<close>

definition truthy :: "string option \<Rightarrow> bool" where
  "truthy x = (x \<noteq> None \<and> x \<noteq> Some [])"

definition attempt :: "'a outcome \<Rightarrow> 's \<Rightarrow> ('a \<Rightarrow> 'b outcome \<times> 's) \<Rightarrow> 'b outcome \<times> 's" where
  "attempt m s f = (case m of Inl e \<Rightarrow> (Inl e, s) | Inr x \<Rightarrow> f x)"

lemma attempt_Inl [simp]: "attempt (Inl e) s f = (Inl e, s)"
  by (simp add: attempt_def)

lemma attempt_Inr [simp]: "attempt (Inr x) s f = f x"
  by (simp add: attempt_def)

lemma attempt_state:
  "(\<And>x. m = Inr x \<Longrightarrow> P (snd (f x))) \<Longrightarrow> P s \<Longrightarrow> P (snd (attempt m s f))"
  by (cases m) auto

lemma attempt_split:
  "P (attempt m s f) \<longleftrightarrow> (\<forall>e. m = Inl e \<longrightarrow> P (Inl e, s)) \<and> (\<forall>x. m = Inr x \<longrightarrow> P (f x))"
  by (cases m) auto

lemma attempt_split_asm:
  "P (attempt m s f) \<longleftrightarrow> \<not> ((\<exists>e. m = Inl e \<and> \<not> P (Inl e, s)) \<or> (\<exists>x. m = Inr x \<and> \<not> P (f x)))"
  by (cases m) auto

lemma attempt_eq_Inr: "attempt m s f = (Inr y, s') \<longleftrightarrow> (\<exists>x. m = Inr x \<and> f x = (Inr y, s'))"
  by (cases m) auto

lemma fst_attempt_Inr: "fst (attempt m s f) = Inr y \<longleftrightarrow> (\<exists>x. m = Inr x \<and> fst (f x) = Inr y)"
  by (cases m) auto

definition ensureOpen :: "memory_store \<Rightarrow> unit outcome" where
  "ensureOpen s = require (\<not> closed s) (Thrown ''Error'' ''Store is closed'')"

definition validateAuthCode :: "SaveAuthCodeInput \<Rightarrow> unit outcome" where
  "validateAuthCode input =
     chain (assertStoreSubject (Str (ac_subject input)) ''subject'') (\<lambda>_.
     chain (assertSha256Hex (ac_codeHash input) ''codeHash'') (\<lambda>_.
     chain (assertUtcIsoTimestamp (ac_expiresAt input) ''expiresAt'') (\<lambda>_.
     chain (assertGrantGeneration (ac_grantGeneration input) ''grantGeneration'') (\<lambda>_.
     require (ac_codeChallengeMethod input = ''S256'')
       (storeInputError ''codeChallengeMethod must be S256'')))))"

definition validateRefreshToken :: "SaveRefreshTokenInput \<Rightarrow> bool \<Rightarrow> unit outcome" where
  "validateRefreshToken input validateSubject =
     chain (if validateSubject then assertStoreSubject (Str (tk_subject input)) ''subject'' else Inr ()) (\<lambda>_.
     chain (assertSha256Hex (tk_tokenHash input) ''tokenHash'') (\<lambda>_.
     chain (case tk_previousTokenHash input of None \<Rightarrow> Inr ()
            | Some h \<Rightarrow> assertSha256Hex h ''previousTokenHash'') (\<lambda>_.
     chain (assertRefreshResource (tk_resource input) ''resource'') (\<lambda>_.
     chain (assertUtcIsoTimestamp (tk_expiresAt input) ''expiresAt'') (\<lambda>_.
     assertGrantGeneration (tk_grantGeneration input) ''grantGeneration'')))))"

definition validateRotation :: "string \<Rightarrow> SaveRefreshTokenInput \<Rightarrow> string \<Rightarrow> unit outcome" where
  "validateRotation hash next nowIso =
     chain (assertSha256Hex hash ''tokenHash'') (\<lambda>_.
     chain (validateRefreshToken next False) (\<lambda>_.
     chain (assertUtcIsoTimestamp nowIso ''nowIso'') (\<lambda>_.
     require (tk_previousTokenHash next = Some hash)
       (storeInputError ''next.previousTokenHash must match tokenHash''))))"

definition stored_code :: "SaveAuthCodeInput \<Rightarrow> AuthCodeRecord" where
  "stored_code input =
     \<lparr>ac_codeHash = ac_codeHash input, ac_clientId = ac_clientId input, ac_subject = ac_subject input,
      ac_redirectUri = ac_redirectUri input, ac_resource = ac_resource input, ac_scopes = ac_scopes input,
      ac_codeChallenge = ac_codeChallenge input, ac_codeChallengeMethod = ac_codeChallengeMethod input,
      ac_expiresAt = ac_expiresAt input,
      ac_grantGeneration = grantGenerationForWrite (ac_grantGeneration input)\<rparr>"

definition stored_row :: "SaveRefreshTokenInput \<Rightarrow> stored_refresh" where
  "stored_row input =
     \<lparr>tk_tokenHash = tk_tokenHash input, tk_familyId = tk_familyId input,
      tk_previousTokenHash = tk_previousTokenHash input, tk_clientId = tk_clientId input,
      tk_subject = tk_subject input, tk_resource = (case tk_resource input of Str r \<Rightarrow> Some r | _ \<Rightarrow> None),
      tk_scopes = tk_scopes input, tk_expiresAt = tk_expiresAt input,
      tk_grantGeneration = grantGenerationForWrite (tk_grantGeneration input), consumedAt = None\<rparr>"

definition toRecord :: "stored_refresh \<Rightarrow> RefreshTokenRecord" where
  "toRecord t =
     \<lparr>tk_tokenHash = tk_tokenHash t, tk_familyId = tk_familyId t,
      tk_previousTokenHash = tk_previousTokenHash t, tk_clientId = tk_clientId t,
      tk_subject = tk_subject t, tk_resource = tk_resource t, tk_scopes = tk_scopes t,
      tk_expiresAt = tk_expiresAt t, tk_grantGeneration = tk_grantGeneration t\<rparr>"

subsection \<open>Instance identity and authorization codes\<close>

definition getStoreInstanceId :: "memory_store \<Rightarrow> string outcome \<times> memory_store" where
  "getStoreInstanceId s = attempt (ensureOpen s) s (\<lambda>_. (Inr (storeInstanceId s), s))"

definition rotateStoreInstanceId :: "string \<Rightarrow> memory_store \<Rightarrow> string outcome \<times> memory_store" where
  "rotateStoreInstanceId fresh s =
     attempt (ensureOpen s) s (\<lambda>_. (Inr fresh, s\<lparr>storeInstanceId := fresh\<rparr>))"

definition swept_past :: "memory_store \<Rightarrow> string \<Rightarrow> bool" where
  "swept_past s expiresAtIso = (case sweptThrough s of None \<Rightarrow> False | Some t \<Rightarrow> expiresAtIso < t)"

definition commitConsentApproval ::
  "string \<Rightarrow> string \<Rightarrow> string \<Rightarrow> SaveAuthCodeInput \<Rightarrow> memory_store
     \<Rightarrow> ConsentApprovalCommitResult outcome \<times> memory_store" where
  "commitConsentApproval expected jti expiresAtIso authCode s =
     attempt (ensureOpen s) s (\<lambda>_.
     attempt (assertStoreInstanceId expected) s (\<lambda>_.
     attempt (assertUtcIsoTimestamp expiresAtIso ''expiresAtIso'') s (\<lambda>_.
     attempt (validateAuthCode authCode) s (\<lambda>_.
       if expected \<noteq> storeInstanceId s then (Inr Binding_mismatch, s)
       else if map_has jti (consentJtis s) then (Inr Replayed, s)
       else if swept_past s expiresAtIso then (Inr Replayed, s)
       else (Inr Stored,
             s\<lparr>consentJtis := map_set jti expiresAtIso (consentJtis s),
               authCodes := map_set (ac_codeHash authCode) (stored_code authCode) (authCodes s)\<rparr>)))))"

definition saveAuthCode :: "SaveAuthCodeInput \<Rightarrow> memory_store \<Rightarrow> unit outcome \<times> memory_store" where
  "saveAuthCode input s =
     attempt (ensureOpen s) s (\<lambda>_.
     attempt (validateAuthCode input) s (\<lambda>_.
       (Inr (), s\<lparr>authCodes := map_set (ac_codeHash input) (stored_code input) (authCodes s)\<rparr>)))"

definition consumeAuthCode ::
  "string \<Rightarrow> string \<Rightarrow> int option \<Rightarrow> string option \<Rightarrow> memory_store
     \<Rightarrow> AuthCodeRecord option outcome \<times> memory_store" where
  "consumeAuthCode codeHash nowIso expectedGeneration expectedResource s =
     attempt (ensureOpen s) s (\<lambda>_.
     attempt (assertSha256Hex codeHash ''codeHash'') s (\<lambda>_.
     attempt (assertUtcIsoTimestamp nowIso ''nowIso'') s (\<lambda>_.
       case map_of (authCodes s) codeHash of
         None \<Rightarrow> (Inr None, s\<lparr>authCodes := map_del codeHash (authCodes s)\<rparr>)
       | Some r \<Rightarrow>
           if expectedResource \<noteq> None \<and> expectedResource \<noteq> Some (ac_resource r) then (Inr None, s)
           else attempt (assertStoreSubject (Str (ac_subject r)) ''stored subject'') s (\<lambda>_.
             (Inr (if ac_expiresAt r > nowIso
                      \<and> (expectedGeneration = None \<or> ac_grantGeneration r = expectedGeneration)
                   then Some r else None),
              s\<lparr>authCodes := map_del codeHash (authCodes s)\<rparr>)))))"

definition consumeConsentJti ::
  "string \<Rightarrow> string \<Rightarrow> memory_store \<Rightarrow> bool outcome \<times> memory_store" where
  "consumeConsentJti jti expiresAtIso s =
     attempt (ensureOpen s) s (\<lambda>_.
     attempt (assertUtcIsoTimestamp expiresAtIso ''expiresAtIso'') s (\<lambda>_.
       if map_has jti (consentJtis s) then (Inr False, s)
       else if swept_past s expiresAtIso then (Inr False, s)
       else (Inr True, s\<lparr>consentJtis := map_set jti expiresAtIso (consentJtis s)\<rparr>)))"

subsection \<open>Refresh tokens\<close>

definition saveRefreshToken :: "SaveRefreshTokenInput \<Rightarrow> memory_store \<Rightarrow> unit outcome \<times> memory_store" where
  "saveRefreshToken input0 s =
     attempt (ensureOpen s) s (\<lambda>_.
     attempt (normalizeRefreshTokenWrite input0) s (\<lambda>input.
     attempt (validateRefreshToken input True) s (\<lambda>_.
       let row = stored_row input in
       if map_has (tk_tokenHash row) (refreshTokens s)
       then (Inl (storeInputError ''tokenHash already exists''), s)
       else case map_of (families s) (tk_familyId row) of
         Some f \<Rightarrow>
           if fam_grantGeneration f \<noteq> tk_grantGeneration row \<or> fam_resource f \<noteq> tk_resource row
           then (Inl (storeInputError ''family grantGeneration or resource mismatch''), s)
           else (Inr (), s\<lparr>refreshTokens := map_set (tk_tokenHash row) row (refreshTokens s)\<rparr>)
       | None \<Rightarrow>
           (Inr (), s\<lparr>families := map_set (tk_familyId row)
                        \<lparr>revokedAt = None, fam_grantGeneration = tk_grantGeneration row,
                         fam_resource = tk_resource row\<rparr> (families s),
                      refreshTokens := map_set (tk_tokenHash row) row (refreshTokens s)\<rparr>))))"

definition revokeRefreshTokenFamily ::
  "string \<Rightarrow> string \<Rightarrow> string option \<Rightarrow> memory_store \<Rightarrow> unit outcome \<times> memory_store" where
  "revokeRefreshTokenFamily fid revokedAtIso expectedResource s =
     attempt (ensureOpen s) s (\<lambda>_.
     attempt (assertUtcIsoTimestamp revokedAtIso ''revokedAtIso'') s (\<lambda>_.
     attempt (case expectedResource of None \<Rightarrow> Inr []
              | Some r \<Rightarrow> assertRefreshResource (Str r) ''expectedResource'') s (\<lambda>_.
       case map_of (families s) fid of
         None \<Rightarrow> (Inr (), s)
       | Some f \<Rightarrow>
           if revokedAt f = None \<and> (expectedResource = None \<or> fam_resource f = expectedResource)
           then (Inr (), s\<lparr>families := map_set fid (f\<lparr>revokedAt := Some revokedAtIso\<rparr>) (families s)\<rparr>)
           else (Inr (), s))))"

definition backfill :: "SaveRefreshTokenInput \<Rightarrow> stored_refresh \<Rightarrow> SaveRefreshTokenInput" where
  "backfill next current =
     next\<lparr>tk_clientId := tk_clientId current, tk_subject := tk_subject current,
          tk_resource := resource_input (tk_resource current), tk_scopes := tk_scopes current,
          tk_grantGeneration := generation_input (tk_grantGeneration current)\<rparr>"

definition consume_token :: "string \<Rightarrow> stored_refresh \<Rightarrow> string \<Rightarrow> memory_store \<Rightarrow> memory_store" where
  "consume_token hash t nowIso s =
     s\<lparr>refreshTokens := map_set hash (t\<lparr>consumedAt := Some nowIso\<rparr>) (refreshTokens s)\<rparr>"

definition rotateRefreshToken ::
  "string \<Rightarrow> SaveRefreshTokenInput \<Rightarrow> string \<Rightarrow> int option \<Rightarrow> string option \<Rightarrow> memory_store
     \<Rightarrow> RefreshTokenRecord option outcome \<times> memory_store" where
  "rotateRefreshToken hash next0 nowIso expectedGeneration expectedResource s =
     attempt (ensureOpen s) s (\<lambda>_.
     attempt (normalizeRefreshTokenWrite next0) s (\<lambda>next.
     attempt (validateRotation hash next nowIso) s (\<lambda>_.
       case map_of (refreshTokens s) hash of
         None \<Rightarrow> (Inr None, s)
       | Some current \<Rightarrow>
       (case map_of (families s) (tk_familyId current) of
         None \<Rightarrow> (Inr None, s)
       | Some family \<Rightarrow>
       attempt (assertStoreSubject (Str (tk_subject current)) ''stored subject'') s (\<lambda>_.
         if truthy (revokedAt family)
            \<or> (expectedGeneration \<noteq> None
               \<and> (fam_grantGeneration family \<noteq> expectedGeneration
                  \<or> tk_grantGeneration current \<noteq> expectedGeneration))
         then (Inr None, s)
         else if tk_resource current = None \<or> tk_resource current = Some UNBOUND_REFRESH_RESOURCE
            \<or> fam_resource family = None \<or> tk_resource current \<noteq> fam_resource family
            \<or> (expectedResource \<noteq> None \<and> tk_resource current \<noteq> expectedResource)
         then (Inr None, s)
         else if truthy (consumedAt current)
         then (let (r, s') = revokeRefreshTokenFamily (tk_familyId current) nowIso None s
               in attempt r s' (\<lambda>_. (Inr None, s')))
         else if tk_expiresAt current \<le> nowIso \<or> tk_familyId next \<noteq> tk_familyId current
         then (Inr None, s)
         else if map_has (tk_tokenHash next) (refreshTokens s) then (Inr None, s)
         else (let (r, s') = saveRefreshToken (backfill next current) (consume_token hash current nowIso s)
               in attempt r s' (\<lambda>_. (Inr (Some (toRecord current)), s'))))))))"

definition findRefreshToken :: "string \<Rightarrow> memory_store \<Rightarrow> RefreshTokenRecord option outcome \<times> memory_store" where
  "findRefreshToken hash s =
     attempt (ensureOpen s) s (\<lambda>_.
       case map_of (refreshTokens s) hash of
         None \<Rightarrow> (Inr None, s)
       | Some t \<Rightarrow> attempt (assertStoreSubject (Str (tk_subject t)) ''stored subject'') s (\<lambda>_.
                    (Inr (Some (toRecord t)), s)))"

definition contributes ::
  "string \<Rightarrow> string \<Rightarrow> string \<Rightarrow> int option \<Rightarrow> string option \<Rightarrow> memory_store \<Rightarrow> stored_refresh \<Rightarrow> bool" where
  "contributes sub client nowIso expectedGeneration expectedResource s t =
     (case map_of (families s) (tk_familyId t) of
        None \<Rightarrow> False
      | Some f \<Rightarrow>
          tk_subject t = sub \<and> tk_clientId t = client \<and> \<not> truthy (consumedAt t) \<and> tk_expiresAt t > nowIso
          \<and> revokedAt f = None \<and> (expectedGeneration = None \<or> tk_grantGeneration t = expectedGeneration)
          \<and> (expectedResource = None \<or> tk_resource t = expectedResource \<and> fam_resource f = expectedResource))"

definition findGrantedScopes ::
  "string \<Rightarrow> string \<Rightarrow> string \<Rightarrow> int option \<Rightarrow> string option \<Rightarrow> memory_store
     \<Rightarrow> string list outcome \<times> memory_store" where
  "findGrantedScopes sub client nowIso expectedGeneration expectedResource s =
     attempt (ensureOpen s) s (\<lambda>_.
     attempt (assertStoreSubject (Str sub) ''subject'') s (\<lambda>_.
     attempt (assertUtcIsoTimestamp nowIso ''nowIso'') s (\<lambda>_.
       (Inr (foldl (\<lambda>out t. if contributes sub client nowIso expectedGeneration expectedResource s t
                            then foldl push_new out (tk_scopes t) else out) [] (map snd (refreshTokens s))),
        s))))"

subsection \<open>Sweeping and closing\<close>

definition family_valid :: "string \<Rightarrow> stored_refresh list \<Rightarrow> stored_refresh \<Rightarrow> bool" where
  "family_valid nowIso tokens t =
     list_ex (\<lambda>m. tk_familyId m = tk_familyId t \<and> tk_expiresAt m \<ge> nowIso) tokens"

definition sweepExpired :: "string \<Rightarrow> memory_store \<Rightarrow> unit outcome \<times> memory_store" where
  "sweepExpired nowIso s =
     attempt (ensureOpen s) s (\<lambda>_.
     attempt (assertUtcIsoTimestamp nowIso ''nowIso'') s (\<lambda>_.
       let tokens = map snd (refreshTokens s);
           kept = filter (\<lambda>p. family_valid nowIso tokens (snd p)) (refreshTokens s);
           live = map (\<lambda>p. tk_familyId (snd p)) kept
       in (Inr (),
           s\<lparr>sweptThrough := (case sweptThrough s of None \<Rightarrow> Some nowIso
                             | Some t \<Rightarrow> if t < nowIso then Some nowIso else Some t),
             authCodes := filter (\<lambda>p. \<not> ac_expiresAt (snd p) < nowIso) (authCodes s),
             consentJtis := filter (\<lambda>p. \<not> snd p < nowIso) (consentJtis s),
             refreshTokens := kept,
             families := filter (\<lambda>p. fst p \<in> set live) (families s)\<rparr>)))"

definition closeStore :: "memory_store \<Rightarrow> unit outcome \<times> memory_store" where
  "closeStore s = (Inr (), s\<lparr>closed := True\<rparr>)"

lemmas store_ops [store_defs] =
  getStoreInstanceId_def rotateStoreInstanceId_def commitConsentApproval_def saveAuthCode_def
  consumeAuthCode_def consumeConsentJti_def saveRefreshToken_def revokeRefreshTokenFamily_def
  findRefreshToken_def findGrantedScopes_def sweepExpired_def closeStore_def

end
