(* ===== verification/Store_Invariants.thy ===== *)
theory Store_Invariants
  imports Memory_Store
begin

section \<open>Invariants and histories of the reference store\<close>

text \<open>
  The well-formedness of a store and its preservation by every method; histories (sequences of
  calls) and what holds along them: single use of codes and consent identifiers, replay revokes the
  family and revocation is final, a family has at most one live token.
\<close>

subsection \<open>Well-formed stores\<close>

definition row_data :: "string \<Rightarrow> stored_refresh \<Rightarrow> bool" where
  "row_data h t =
     (tk_tokenHash t = h \<and> is_utc_iso (tk_expiresAt t) \<and> subject_ok (tk_subject t)
      \<and> (case tk_resource t of None \<Rightarrow> False | Some r \<Rightarrow> trim r \<noteq> [])
      \<and> good_generation (tk_grantGeneration t)
      \<and> (case consumedAt t of None \<Rightarrow> True | Some u \<Rightarrow> is_utc_iso u))"

definition family_matches :: "stored_refresh \<Rightarrow> stored_family \<Rightarrow> bool" where
  "family_matches t f = (fam_grantGeneration f = tk_grantGeneration t \<and> fam_resource f = tk_resource t)"

definition code_ok :: "string \<Rightarrow> AuthCodeRecord \<Rightarrow> bool" where
  "code_ok h r = (ac_codeHash r = h \<and> is_sha256_hex h \<and> subject_ok (ac_subject r)
                  \<and> is_utc_iso (ac_expiresAt r) \<and> ac_codeChallengeMethod r = ''S256''
                  \<and> good_generation (ac_grantGeneration r))"

definition family_ok :: "stored_family \<Rightarrow> bool" where
  "family_ok f = (case revokedAt f of None \<Rightarrow> True | Some u \<Rightarrow> is_utc_iso u)"

definition all_entries :: "(string \<Rightarrow> 'v \<Rightarrow> bool) \<Rightarrow> 'v jsmap \<Rightarrow> bool" where
  "all_entries P m = (wf_map m \<and> list_all (\<lambda>p. P (fst p) (snd p)) m)"

definition bound_rows :: "stored_family jsmap \<Rightarrow> stored_refresh jsmap \<Rightarrow> bool" where
  "bound_rows fs rows =
     list_all (\<lambda>p. case map_of fs (tk_familyId (snd p)) of None \<Rightarrow> False | Some f \<Rightarrow> family_matches (snd p) f)
       rows"

definition store_wf :: "memory_store \<Rightarrow> bool" where
  "store_wf s =
     (all_entries code_ok (authCodes s) \<and> all_entries row_data (refreshTokens s)
      \<and> all_entries (\<lambda>_. family_ok) (families s) \<and> wf_map (consentJtis s)
      \<and> bound_rows (families s) (refreshTokens s))"

text \<open>The invariant under the map operations.\<close>

lemma all_entries_iff:
  "all_entries P m \<longleftrightarrow> wf_map m \<and> (\<forall>k v. map_of m k = Some v \<longrightarrow> P k v)"
  unfolding all_entries_def list_all_iff by force

lemma all_entries_Nil [simp]: "all_entries P []"
  by (simp add: all_entries_def)

lemma all_entries_set [intro]: "all_entries P m \<Longrightarrow> P k v \<Longrightarrow> all_entries P (map_set k v m)"
  unfolding all_entries_iff by (auto simp del: map_of_eq_Some_iff split: if_split_asm)

lemma all_entries_filter [intro]: "all_entries P m \<Longrightarrow> all_entries P (filter Q m)"
  by (auto simp: all_entries_def list_all_iff)

lemma all_entries_del [intro]: "all_entries P m \<Longrightarrow> all_entries P (map_del k m)"
  by (auto simp: map_del_def)

lemma all_entriesD: "all_entries P m \<Longrightarrow> map_of m k = Some v \<Longrightarrow> P k v"
  unfolding all_entries_iff by blast

lemma bound_rows_iff:
  "wf_map rows \<Longrightarrow> bound_rows fs rows \<longleftrightarrow>
     (\<forall>h t. map_of rows h = Some t \<longrightarrow> (\<exists>f. map_of fs (tk_familyId t) = Some f \<and> family_matches t f))"
proof -
  assume wf: "wf_map rows"
  have "bound_rows fs rows \<longleftrightarrow>
      (\<forall>p \<in> set rows. \<exists>f. map_of fs (tk_familyId (snd p)) = Some f \<and> family_matches (snd p) f)"
    by (simp add: bound_rows_def list_all_iff option.case_eq_if) (metis option.collapse option.sel option.discI)
  then show ?thesis using wf by force
qed

lemma bound_rows_set:
  "wf_map rows \<Longrightarrow> bound_rows fs rows \<Longrightarrow> map_of fs (tk_familyId t) = Some f \<Longrightarrow> family_matches t f
   \<Longrightarrow> bound_rows fs (map_set h t rows)"
  by (simp add: bound_rows_iff del: map_of_eq_Some_iff)

lemma bound_rows_family:
  "wf_map rows \<Longrightarrow> bound_rows fs rows
   \<Longrightarrow> (case map_of fs i of None \<Rightarrow> True
        | Some g \<Rightarrow> fam_grantGeneration g = fam_grantGeneration f \<and> fam_resource g = fam_resource f)
   \<Longrightarrow> bound_rows (map_set i f fs) rows"
  by (fastforce simp: bound_rows_iff family_matches_def simp del: map_of_eq_Some_iff split: option.split_asm)

lemma bound_rows_filter: "bound_rows fs rows \<Longrightarrow> bound_rows fs (filter Q rows)"
  by (auto simp: bound_rows_def list_all_iff)

lemma bound_rows_live:
  "wf_map fs \<Longrightarrow> bound_rows fs rows \<Longrightarrow> (\<And>p. p \<in> set rows \<Longrightarrow> Q (tk_familyId (snd p)))
   \<Longrightarrow> bound_rows (filter (\<lambda>p. Q (fst p)) fs) rows"
  by (fastforce simp: bound_rows_def list_all_iff map_of_filter_key split: option.split_asm)

lemma utc_iso_nonempty: "is_utc_iso s \<Longrightarrow> s \<noteq> []"
  by (auto simp: is_utc_iso_def)

lemma wf_row: "store_wf s \<Longrightarrow> map_of (refreshTokens s) h = Some t \<Longrightarrow> row_data h t"
  unfolding store_wf_def by (blast dest: all_entriesD)

lemma wf_code: "store_wf s \<Longrightarrow> map_of (authCodes s) h = Some r \<Longrightarrow> code_ok h r"
  unfolding store_wf_def by (blast dest: all_entriesD)

lemma wf_family: "store_wf s \<Longrightarrow> map_of (families s) i = Some f \<Longrightarrow> family_ok f"
  unfolding store_wf_def using all_entriesD [of "\<lambda>_. family_ok"] by blast

lemma wf_rows_map: "store_wf s \<Longrightarrow> wf_map (refreshTokens s)"
  by (simp add: store_wf_def all_entries_def)

lemma wf_row_family:
  assumes "store_wf s" and "map_of (refreshTokens s) h = Some t"
  obtains f r where "map_of (families s) (tk_familyId t) = Some f" and "family_matches t f"
    and "tk_resource t = Some r" and "trim r \<noteq> []"
proof -
  obtain f where "map_of (families s) (tk_familyId t) = Some f" "family_matches t f"
    using assms bound_rows_iff [of "refreshTokens s" "families s"]
    by (auto simp: store_wf_def all_entries_def simp del: map_of_eq_Some_iff)
  moreover obtain r where "tk_resource t = Some r" "trim r \<noteq> []"
    using wf_row [OF assms] by (auto simp: row_data_def split: option.split_asm)
  ultimately show ?thesis using that by blast
qed

lemma wf_truthy_consumed:
  "store_wf s \<Longrightarrow> map_of (refreshTokens s) h = Some t \<Longrightarrow> truthy (consumedAt t) \<longleftrightarrow> consumedAt t \<noteq> None"
  using wf_row [of s h t] by (auto simp: row_data_def truthy_def is_utc_iso_def split: option.split_asm)

lemma wf_truthy_revoked:
  "store_wf s \<Longrightarrow> map_of (families s) i = Some f \<Longrightarrow> truthy (revokedAt f) \<longleftrightarrow> revokedAt f \<noteq> None"
  using wf_family [of s i f] by (auto simp: family_ok_def truthy_def is_utc_iso_def split: option.split_asm)

subsection \<open>Every method keeps a store well-formed\<close>

lemmas attempt_wf = attempt_state [where P = store_wf]

lemma createMemoryStore_wf [simp]: "store_wf (createMemoryStore fresh)"
  by (simp add: store_wf_def createMemoryStore_def bound_rows_def)

lemma validateAuthCode_Inr:
  "validateAuthCode input = Inr () \<Longrightarrow> code_ok (ac_codeHash input) (stored_code input)"
  by (auto simp: validateAuthCode_def code_ok_def stored_code_def elim!: chain_InrE)

lemma trim_unbound: "trim UNBOUND_REFRESH_RESOURCE \<noteq> []"
proof -
  have "list_all graphic UNBOUND_REFRESH_RESOURCE"
    by (simp add: UNBOUND_REFRESH_RESOURCE_def graphic_def byte_def)
  then show ?thesis by (simp add: trim_graphic) (simp add: UNBOUND_REFRESH_RESOURCE_def)
qed

lemma saveAuthCode_wf: "store_wf s \<Longrightarrow> store_wf (snd (saveAuthCode input s))"
  unfolding saveAuthCode_def
  by (intro attempt_wf) (auto simp: store_wf_def dest: validateAuthCode_Inr)

lemma commitConsentApproval_wf: "store_wf s \<Longrightarrow> store_wf (snd (commitConsentApproval e j x c s))"
  unfolding commitConsentApproval_def
  by (intro attempt_wf) (auto simp: store_wf_def dest: validateAuthCode_Inr)

lemma consumeConsentJti_wf: "store_wf s \<Longrightarrow> store_wf (snd (consumeConsentJti j x s))"
  unfolding consumeConsentJti_def by (intro attempt_wf) (auto simp: store_wf_def)

lemma consumeAuthCode_wf: "store_wf s \<Longrightarrow> store_wf (snd (consumeAuthCode h n g r s))"
proof -
  assume s: "store_wf s"
  then have "store_wf (s\<lparr>authCodes := map_del h (authCodes s)\<rparr>)" by (auto simp: store_wf_def)
  with s show ?thesis unfolding consumeAuthCode_def by (auto split: attempt_split option.split)
qed

lemma revoke_wf: "store_wf s \<Longrightarrow> store_wf (snd (revokeRefreshTokenFamily fid at er s))"
  unfolding revokeRefreshTokenFamily_def
  by (intro attempt_wf)
     (auto simp: store_wf_def family_ok_def all_entries_def [of row_data] simp del: map_of_eq_Some_iff
       split: option.split intro!: all_entries_set bound_rows_family)

lemma validateRefreshToken_row:
  assumes "validateRefreshToken inp True = Inr ()"
  shows "row_data (tk_tokenHash inp) (stored_row inp)"
  using assms
  by (auto simp: validateRefreshToken_def row_data_def stored_row_def elim!: chain_InrE)

lemma row_ops [simp]:
  "tk_tokenHash (stored_row inp) = tk_tokenHash inp"
  "tk_familyId (stored_row inp) = tk_familyId inp"
  "consumedAt (stored_row inp) = None"
  by (simp_all add: stored_row_def)

lemma saveRefreshToken_wf: "store_wf s \<Longrightarrow> store_wf (snd (saveRefreshToken input s))"
  unfolding saveRefreshToken_def Let_def
proof (intro attempt_wf)
  fix inp :: SaveRefreshTokenInput and u v w
  assume s: "store_wf s" and "validateRefreshToken inp True = Inr w"
  then have row: "row_data (tk_tokenHash inp) (stored_row inp)" by (auto dest: validateRefreshToken_row)
  have wf: "wf_map (refreshTokens s)" using s by (rule wf_rows_map)
  let ?rows = "map_set (tk_tokenHash inp) (stored_row inp) (refreshTokens s)"
  let ?new = "\<lparr>revokedAt = None, fam_grantGeneration = tk_grantGeneration (stored_row inp),
                fam_resource = tk_resource (stored_row inp)\<rparr>"
  have old: "store_wf (s\<lparr>refreshTokens := ?rows\<rparr>)"
    if "map_of (families s) (tk_familyId inp) = Some f" "family_matches (stored_row inp) f" for f
    using s row wf bound_rows_set [of "refreshTokens s" "families s" "stored_row inp" f "tk_tokenHash inp"] that
    by (auto simp: store_wf_def)
  have new: "store_wf (s\<lparr>families := map_set (tk_familyId inp) ?new (families s), refreshTokens := ?rows\<rparr>)"
    if n: "map_of (families s) (tk_familyId inp) = None"
  proof -
    have "bound_rows (map_set (tk_familyId inp) ?new (families s)) (refreshTokens s)"
      using s n wf by (intro bound_rows_family) (auto simp: store_wf_def)
    then have "bound_rows (map_set (tk_familyId inp) ?new (families s)) ?rows"
      using wf by (intro bound_rows_set [where f = ?new]) (auto simp: family_matches_def)
    then show ?thesis using s row by (auto simp: store_wf_def family_ok_def)
  qed
  show "store_wf (snd (if map_has (tk_tokenHash (stored_row inp)) (refreshTokens s)
       then (Inl (storeInputError ''tokenHash already exists''), s)
       else case map_of (families s) (tk_familyId (stored_row inp)) of
         None \<Rightarrow>
           (Inr (), s\<lparr>families := map_set (tk_familyId (stored_row inp)) ?new (families s),
                      refreshTokens := map_set (tk_tokenHash (stored_row inp)) (stored_row inp) (refreshTokens s)\<rparr>)
       | Some f \<Rightarrow>
           if fam_grantGeneration f \<noteq> tk_grantGeneration (stored_row inp) \<or> fam_resource f \<noteq> tk_resource (stored_row inp)
           then (Inl (storeInputError ''family grantGeneration or resource mismatch''), s)
           else (Inr (), s\<lparr>refreshTokens := map_set (tk_tokenHash (stored_row inp)) (stored_row inp) (refreshTokens s)\<rparr>)))"
    using s old new by (auto simp: family_matches_def simp del: map_of_eq_Some_iff split: option.split)
qed

lemma consume_token_wf:
  assumes "store_wf s" and "map_of (refreshTokens s) h = Some t" and "is_utc_iso n"
  shows "store_wf (consume_token h t n s)"
proof -
  obtain f where f: "map_of (families s) (tk_familyId t) = Some f" "family_matches t f"
    using wf_row_family [OF assms(1,2)] by metis
  have "row_data h (t\<lparr>consumedAt := Some n\<rparr>)"
    using wf_row [OF assms(1,2)] assms(3) by (simp add: row_data_def)
  moreover have "bound_rows (families s) (map_set h (t\<lparr>consumedAt := Some n\<rparr>) (refreshTokens s))"
    using assms(1) f by (intro bound_rows_set [where f = f]) (auto simp: store_wf_def all_entries_def family_matches_def)
  ultimately show ?thesis using assms(1) by (auto simp: store_wf_def consume_token_def)
qed

lemma sweepExpired_wf: "store_wf s \<Longrightarrow> store_wf (snd (sweepExpired n s))"
  unfolding sweepExpired_def Let_def
proof (intro attempt_wf)
  fix u v
  assume s: "store_wf s"
  let ?kept = "filter (\<lambda>p. family_valid n (map snd (refreshTokens s)) (snd p)) (refreshTokens s)"
  have "bound_rows (filter (\<lambda>p. fst p \<in> set (map (\<lambda>p. tk_familyId (snd p)) ?kept)) (families s)) ?kept"
    using s
    by (intro bound_rows_live bound_rows_filter) (auto simp: store_wf_def all_entries_def)
  then show "store_wf (snd (Inr (),
           s\<lparr>sweptThrough := (case sweptThrough s of None \<Rightarrow> Some n
                             | Some t \<Rightarrow> if t < n then Some n else Some t),
             authCodes := filter (\<lambda>p. \<not> ac_expiresAt (snd p) < n) (authCodes s),
             consentJtis := filter (\<lambda>p. \<not> snd p < n) (consentJtis s),
             refreshTokens := ?kept,
             families := filter (\<lambda>p. fst p \<in> set (map (\<lambda>p. tk_familyId (snd p)) ?kept)) (families s)\<rparr>))"
    using s by (auto simp: store_wf_def)
qed

subsection \<open>Rotation, branch by branch\<close>

text \<open>
  What a rotation may do on a well-formed store, without the store's own re-validation of the
  successor: it cannot fail between consuming the old token and saving the new one.
\<close>

definition successor :: "SaveRefreshTokenInput \<Rightarrow> stored_refresh \<Rightarrow> stored_refresh" where
  "successor nxt t =
     \<lparr>tk_tokenHash = tk_tokenHash nxt, tk_familyId = tk_familyId nxt,
      tk_previousTokenHash = tk_previousTokenHash nxt, tk_clientId = tk_clientId t,
      tk_subject = tk_subject t, tk_resource = tk_resource t, tk_scopes = tk_scopes t,
      tk_expiresAt = tk_expiresAt nxt, tk_grantGeneration = tk_grantGeneration t, consumedAt = None\<rparr>"

definition rotated :: "string \<Rightarrow> stored_refresh \<Rightarrow> SaveRefreshTokenInput \<Rightarrow> string \<Rightarrow> memory_store \<Rightarrow> memory_store" where
  "rotated hash t nxt nowIso s =
     (let s1 = consume_token hash t nowIso s
      in s1\<lparr>refreshTokens := map_set (tk_tokenHash nxt) (successor nxt t) (refreshTokens s1)\<rparr>)"

definition revoked :: "string \<Rightarrow> stored_family \<Rightarrow> string \<Rightarrow> memory_store \<Rightarrow> memory_store" where
  "revoked fid f at s = s\<lparr>families := map_set fid (f\<lparr>revokedAt := Some at\<rparr>) (families s)\<rparr>"

text \<open>A presented token that may not even signal a replay: its family is revoked or of another binding.\<close>

definition refused :: "int option \<Rightarrow> string option \<Rightarrow> stored_refresh \<Rightarrow> stored_family \<Rightarrow> bool" where
  "refused expectedGeneration expectedResource t f =
     (revokedAt f \<noteq> None
      \<or> (expectedGeneration \<noteq> None \<and> tk_grantGeneration t \<noteq> expectedGeneration)
      \<or> tk_resource t = Some UNBOUND_REFRESH_RESOURCE
      \<or> (expectedResource \<noteq> None \<and> tk_resource t \<noteq> expectedResource))"

definition rotation_spec ::
  "string \<Rightarrow> SaveRefreshTokenInput \<Rightarrow> string \<Rightarrow> int option \<Rightarrow> string option \<Rightarrow> memory_store
     \<Rightarrow> RefreshTokenRecord option \<times> memory_store" where
  "rotation_spec hash nxt nowIso expectedGeneration expectedResource s =
     (case map_of (refreshTokens s) hash of
        None \<Rightarrow> (None, s)
      | Some t \<Rightarrow>
          (case map_of (families s) (tk_familyId t) of
             None \<Rightarrow> (None, s)
           | Some f \<Rightarrow>
               if refused expectedGeneration expectedResource t f then (None, s)
               else if consumedAt t \<noteq> None then (None, revoked (tk_familyId t) f nowIso s)
               else if tk_expiresAt t \<le> nowIso \<or> tk_familyId nxt \<noteq> tk_familyId t
                       \<or> map_has (tk_tokenHash nxt) (refreshTokens s) then (None, s)
               else (Some (toRecord t), rotated hash t nxt nowIso s)))"

lemma ensureOpen_Inr [simp]: "ensureOpen s = Inr u \<longleftrightarrow> \<not> closed s"
  by (simp add: ensureOpen_def)

lemma ensureOpen_open [simp]: "\<not> closed s \<Longrightarrow> ensureOpen s = Inr ()"
  by simp

lemma validateRefreshToken_Inr:
  "validateRefreshToken inp b = Inr () \<longleftrightarrow>
     (b \<longrightarrow> subject_ok (tk_subject inp)) \<and> is_sha256_hex (tk_tokenHash inp)
     \<and> (case tk_previousTokenHash inp of None \<Rightarrow> True | Some h \<Rightarrow> is_sha256_hex h)
     \<and> (\<exists>r. tk_resource inp = Str r \<and> trim r \<noteq> []) \<and> is_utc_iso (tk_expiresAt inp)
     \<and> assertGrantGeneration (tk_grantGeneration inp) ''grantGeneration'' = Inr ()"
  by (auto simp: validateRefreshToken_def result_simps split: option.split)

lemma validateRotation_Inr:
  "validateRotation h nxt n = Inr () \<longleftrightarrow>
     is_sha256_hex h \<and> validateRefreshToken nxt False = Inr () \<and> is_utc_iso n
     \<and> tk_previousTokenHash nxt = Some h"
  by (auto simp: validateRotation_def result_simps)

lemma successor_sel [simp]:
  "tk_tokenHash (successor nxt t) = tk_tokenHash nxt" "tk_familyId (successor nxt t) = tk_familyId nxt"
  "tk_resource (successor nxt t) = tk_resource t" "tk_grantGeneration (successor nxt t) = tk_grantGeneration t"
  "tk_subject (successor nxt t) = tk_subject t" "tk_clientId (successor nxt t) = tk_clientId t"
  "tk_scopes (successor nxt t) = tk_scopes t" "tk_expiresAt (successor nxt t) = tk_expiresAt nxt"
  "consumedAt (successor nxt t) = None"
  by (simp_all add: successor_def)

lemma consume_token_sel [simp]:
  "families (consume_token h t n s) = families s" "closed (consume_token h t n s) = closed s"
  "refreshTokens (consume_token h t n s) = map_set h (t\<lparr>consumedAt := Some n\<rparr>) (refreshTokens s)"
  by (simp_all add: consume_token_def)

lemma backfill_save:
  assumes wf: "store_wf s" and t: "map_of (refreshTokens s) h = Some t"
    and f: "map_of (families s) (tk_familyId t) = Some f" and ub: "tk_resource t \<noteq> Some UNBOUND_REFRESH_RESOURCE"
    and v: "validateRotation h nxt n = Inr ()" and fid: "tk_familyId nxt = tk_familyId t"
    and fresh: "\<not> map_has (tk_tokenHash nxt) (refreshTokens s)" and op: "\<not> closed s"
  shows "saveRefreshToken (backfill nxt t) (consume_token h t n s) = (Inr (), rotated h t nxt n s)"
proof -
  obtain r where r: "tk_resource t = Some r" "trim r \<noteq> []" and m: "family_matches t f"
    by (rule wf_row_family [OF wf t]) (use f in auto)
  have d: "row_data h t" using wf_row [OF wf t] .
  have norm: "normalizeRefreshTokenWrite (backfill nxt t) = Inr (backfill nxt t)"
    using r ub by (simp add: normalizeRefreshTokenWrite_Inr backfill_def resource_input_def)
  have val: "validateRefreshToken (backfill nxt t) True = Inr ()"
    using v r d assertGrantGeneration_input [of "tk_grantGeneration t"]
    by (simp add: validateRotation_Inr validateRefreshToken_Inr backfill_def resource_input_def row_data_def
        del: positive_safe_int_generation)
  have row: "stored_row (backfill nxt t) = successor nxt t"
    using d r by (simp add: stored_row_def backfill_def successor_def row_data_def resource_input_def)
  have miss: "\<not> map_has (tk_tokenHash nxt) (refreshTokens (consume_token h t n s))"
    using fresh t by (auto simp: map_has_def)
  have fam: "map_of (families (consume_token h t n s)) (tk_familyId nxt) = Some f"
    using f fid by simp
  show ?thesis
    using m miss fam op
    by (simp add: saveRefreshToken_def norm val row Let_def family_matches_def rotated_def del: row_ops)
qed

text \<open>The code's rotation is the specification, once the checks on its inputs have passed.\<close>

lemma rotate_is_spec:
  assumes wf: "store_wf s" and op: "\<not> closed s"
    and nx: "normalizeRefreshTokenWrite next0 = Inr nxt" and v: "validateRotation h nxt n = Inr ()"
  shows "rotateRefreshToken h next0 n g er s =
           (let (r, s') = rotation_spec h nxt n g er s in (Inr r, s'))"
proof (cases "map_of (refreshTokens s) h")
  case None
  then show ?thesis using op nx v by (simp add: rotateRefreshToken_def rotation_spec_def)
next
  case t: (Some t)
  obtain f r where f: "map_of (families s) (tk_familyId t) = Some f" "family_matches t f"
    and r: "tk_resource t = Some r" using wf_row_family [OF wf t] by metis
  have sub: "assertStoreSubject (Str (tk_subject t)) ''stored subject'' = Inr ()"
    using wf_row [OF wf t] by (simp add: row_data_def)
  have utc: "assertUtcIsoTimestamp n ''revokedAtIso'' = Inr ()" using v by (simp add: validateRotation_Inr)
  have rv: "revokeRefreshTokenFamily (tk_familyId t) n None s = (Inr (), revoked (tk_familyId t) f n s)"
    if "revokedAt f = None"
    using that op utc f by (simp add: revokeRefreshTokenFamily_def revoked_def)
  note save = backfill_save [OF wf t f(1) _ v _ _ op]
  have base: "rotateRefreshToken h next0 n g er s =
     (if refused g er t f then (Inr None, s)
      else if consumedAt t \<noteq> None
      then (let (r, s') = revokeRefreshTokenFamily (tk_familyId t) n None s in attempt r s' (\<lambda>_. (Inr None, s')))
      else if tk_expiresAt t \<le> n \<or> tk_familyId nxt \<noteq> tk_familyId t then (Inr None, s)
      else if map_has (tk_tokenHash nxt) (refreshTokens s) then (Inr None, s)
      else (let (r, s') = saveRefreshToken (backfill nxt t) (consume_token h t n s)
            in attempt r s' (\<lambda>_. (Inr (Some (toRecord t)), s'))))"
    using op nx v t f r sub wf_truthy_consumed [OF wf t] wf_truthy_revoked [OF wf f(1)]
    by (auto simp: rotateRefreshToken_def refused_def family_matches_def simp del: map_of_eq_Some_iff)
  show ?thesis
    unfolding base rotation_spec_def
    using t f(1) rv save by (auto simp: refused_def simp del: map_of_eq_Some_iff)
qed

lemma rotate_checks:
  "\<not> (\<not> closed s \<and> (\<exists>nxt. normalizeRefreshTokenWrite next0 = Inr nxt \<and> validateRotation h nxt n = Inr ()))
   \<Longrightarrow> \<exists>e. rotateRefreshToken h next0 n g er s = (Inl e, s)"
  by (cases "ensureOpen s"; cases "normalizeRefreshTokenWrite next0")
     (auto simp: rotateRefreshToken_def split: attempt_split)

text \<open>So a rotation is a refusal that changes nothing, or the specification.\<close>

lemma rotateE:
  assumes "store_wf s"
  obtains (check) e where "rotateRefreshToken h next0 n g er s = (Inl e, s)"
  | (run) nxt r s' where "normalizeRefreshTokenWrite next0 = Inr nxt" and "validateRotation h nxt n = Inr ()"
      and "\<not> closed s" and "rotation_spec h nxt n g er s = (r, s')"
      and "rotateRefreshToken h next0 n g er s = (Inr r, s')"
proof (cases "\<not> closed s \<and> (\<exists>nxt. normalizeRefreshTokenWrite next0 = Inr nxt \<and> validateRotation h nxt n = Inr ())")
  case True
  then obtain nxt where x: "\<not> closed s" "normalizeRefreshTokenWrite next0 = Inr nxt" "validateRotation h nxt n = Inr ()"
    by blast
  obtain r s' where "rotation_spec h nxt n g er s = (r, s')" by force
  with rotate_is_spec [OF assms x, of g er] x show ?thesis by (intro run) auto
next
  case False
  with rotate_checks show ?thesis by (metis check)
qed

lemma rotated_wf:
  assumes wf: "store_wf s" and t: "map_of (refreshTokens s) h = Some t"
    and f: "map_of (families s) (tk_familyId t) = Some f" and ub: "tk_resource t \<noteq> Some UNBOUND_REFRESH_RESOURCE"
    and v: "validateRotation h nxt n = Inr ()" and fid: "tk_familyId nxt = tk_familyId t"
    and fresh: "\<not> map_has (tk_tokenHash nxt) (refreshTokens s)" and op: "\<not> closed s"
  shows "store_wf (rotated h t nxt n s)"
proof -
  have "store_wf (consume_token h t n s)" using wf t v by (intro consume_token_wf) (auto simp: validateRotation_Inr)
  from saveRefreshToken_wf [OF this, of "backfill nxt t"] backfill_save [OF assms] show ?thesis by simp
qed

lemma revoked_wf:
  assumes "store_wf s" and "map_of (families s) fid = Some f" and "revokedAt f = None" and "is_utc_iso n" and "\<not> closed s"
  shows "store_wf (revoked fid f n s)"
  using revoke_wf [OF assms(1), of fid n None] assms by (simp add: revokeRefreshTokenFamily_def revoked_def)

lemma rotateRefreshToken_wf:
  assumes wf: "store_wf s"
  shows "store_wf (snd (rotateRefreshToken h next0 n g er s))"
  using wf
proof (rule rotateE [of s h next0 n g er])
  fix e
  assume "rotateRefreshToken h next0 n g er s = (Inl e, s)"
  with wf show ?thesis by simp
next
  fix "nxt" r s'
  assume "validateRotation h nxt n = Inr ()" "\<not> closed s" "rotation_spec h nxt n g er s = (r, s')"
    and rot: "rotateRefreshToken h next0 n g er s = (Inr r, s')"
  then have "store_wf s'" using wf
    by (auto simp: rotation_spec_def refused_def validateRotation_Inr simp del: map_of_eq_Some_iff
        split: option.split_asm if_split_asm intro: rotated_wf revoked_wf)
  with rot show ?thesis by simp
qed

end
