(* ===== verification/Store_History.thy ===== *)
theory Store_History
  imports Store_Invariants
begin

section \<open>Histories of the reference store\<close>

text \<open>
  Sequences of calls on a store and the replies they get, and what no sequence can do: redeem a code
  or a consent identifier twice, rotate a token of a revoked family, or leave a family with more live
  tokens than it was started with.
\<close>

datatype store_call =
    Get_id | Rotate_id string
  | Commit string string string SaveAuthCodeInput
  | Save_code SaveAuthCodeInput
  | Consume_code string string "int option" "string option"
  | Consume_jti string string
  | Save_token SaveRefreshTokenInput
  | Rotate_token string SaveRefreshTokenInput string "int option" "string option"
  | Revoke_family string string "string option"
  | Find_token string
  | Granted string string string "int option" "string option"
  | Sweep string
  | Close

datatype store_reply =
    Identity "string outcome"
  | Committed "ConsentApprovalCommitResult outcome"
  | Done "unit outcome"
  | Redeemed "AuthCodeRecord option outcome"
  | Fresh "bool outcome"
  | Token "RefreshTokenRecord option outcome"
  | Scopes "string list outcome"

fun call :: "store_call \<Rightarrow> memory_store \<Rightarrow> store_reply \<times> memory_store" where
  "call Get_id s = map_prod Identity id (getStoreInstanceId s)"
| "call (Rotate_id x) s = map_prod Identity id (rotateStoreInstanceId x s)"
| "call (Commit e j x c) s = map_prod Committed id (commitConsentApproval e j x c s)"
| "call (Save_code c) s = map_prod Done id (saveAuthCode c s)"
| "call (Consume_code h n g r) s = map_prod Redeemed id (consumeAuthCode h n g r s)"
| "call (Consume_jti j x) s = map_prod Fresh id (consumeConsentJti j x s)"
| "call (Save_token i) s = map_prod Done id (saveRefreshToken i s)"
| "call (Rotate_token h i n g r) s = map_prod Token id (rotateRefreshToken h i n g r s)"
| "call (Revoke_family f n r) s = map_prod Done id (revokeRefreshTokenFamily f n r s)"
| "call (Find_token h) s = map_prod Token id (findRefreshToken h s)"
| "call (Granted u c n g r) s = map_prod Scopes id (findGrantedScopes u c n g r s)"
| "call (Sweep n) s = map_prod Done id (sweepExpired n s)"
| "call Close s = map_prod Done id (closeStore s)"

fun run :: "store_call list \<Rightarrow> memory_store \<Rightarrow> (store_call \<times> store_reply) list \<times> memory_store" where
  "run [] s = ([], s)"
| "run (c # cs) s =
     (let (r, s') = call c s; (rs, s'') = run cs s' in ((c, r) # rs, s''))"

inductive reachable :: "memory_store \<Rightarrow> bool" where
  start: "reachable (createMemoryStore fresh)"
| step: "reachable s \<Longrightarrow> reachable (snd (call c s))"

inductive_cases reachableE: "reachable s"

lemma run_Cons [simp]:
  "fst (run (c # cs) s) = (c, fst (call c s)) # fst (run cs (snd (call c s)))"
  "snd (run (c # cs) s) = snd (run cs (snd (call c s)))"
  by (simp_all add: case_prod_unfold Let_def)

declare run.simps(2) [simp del]

lemma reachable_run: "reachable s \<Longrightarrow> reachable (snd (run cs s))"
  by (induction cs arbitrary: s) (auto intro: step)

text \<open>A counting argument: what each reply adds is paid for by the state or by the call.\<close>

lemma run_count:
  fixes measure_of :: "memory_store \<Rightarrow> nat"
  assumes step: "\<And>c s. keeps s \<Longrightarrow> keeps (snd (call c s)) \<and>
      (if hit c (fst (call c s)) then 1 else 0) + measure_of (snd (call c s)) \<le> measure_of s + cost c"
    and s: "keeps s"
  shows "length (filter (\<lambda>(c, r). hit c r) (fst (run cs s))) + measure_of (snd (run cs s))
         \<le> measure_of s + sum_list (map cost cs)"
  using s
proof (induction cs arbitrary: s)
  case (Cons c cs)
  from step [OF Cons.prems, of c] Cons.IH [of "snd (call c s)"] show ?case by (auto split: if_splits)
qed simp

lemma sum_list_filter: "sum_list (map (\<lambda>c. if P c then 1 else 0) cs) = length (filter P cs)"
  by (induction cs) auto

subsection \<open>Reachable stores are well-formed\<close>

lemma call_wf:
  assumes "store_wf s"
  shows "store_wf (snd (call c s))"
proof (cases c)
  case (Rotate_id x)
  with assms show ?thesis by (auto simp: rotateStoreInstanceId_def store_wf_def split: attempt_split)
next
  case Get_id
  with assms show ?thesis by (auto simp: getStoreInstanceId_def split: attempt_split)
next
  case (Find_token h)
  with assms show ?thesis by (auto simp: findRefreshToken_def split: attempt_split option.split)
next
  case (Granted u cl n g r)
  with assms show ?thesis by (auto simp: findGrantedScopes_def split: attempt_split)
next
  case Close
  with assms show ?thesis by (simp add: closeStore_def store_wf_def)
qed (use assms in \<open>simp_all add: commitConsentApproval_wf saveAuthCode_wf consumeAuthCode_wf consumeConsentJti_wf
      saveRefreshToken_wf rotateRefreshToken_wf revoke_wf sweepExpired_wf\<close>)

lemma reachable_wf: "reachable s \<Longrightarrow> store_wf s"
  by (induction rule: reachable.induct) (auto intro: call_wf)

subsection \<open>Codes and consent identifiers\<close>

fun redeems :: "string \<Rightarrow> store_call \<Rightarrow> store_reply \<Rightarrow> bool" where
  "redeems h (Consume_code h' n g r) (Redeemed (Inr (Some rec))) = (h' = h)"
| "redeems h _ _ = False"

fun issues :: "string \<Rightarrow> store_call \<Rightarrow> bool" where
  "issues h (Save_code c) = (ac_codeHash c = h)"
| "issues h (Commit e j x c) = (ac_codeHash c = h)"
| "issues h _ = False"

definition outstanding :: "string \<Rightarrow> memory_store \<Rightarrow> nat" where
  "outstanding h s = (if map_of (authCodes s) h = None then 0 else 1)"

lemma map_of_filter_SomeD: "map_of (filter P m) k = Some v \<Longrightarrow> \<exists>w. map_of m k = Some w"
  by (induction m) (auto split: if_split_asm)

lemma saveRefreshToken_codes: "authCodes (snd (saveRefreshToken i s)) = authCodes s
    \<and> consentJtis (snd (saveRefreshToken i s)) = consentJtis s
    \<and> sweptThrough (snd (saveRefreshToken i s)) = sweptThrough s"
  by (auto simp: saveRefreshToken_def Let_def split: attempt_split option.split)

lemma revoke_codes: "authCodes (snd (revokeRefreshTokenFamily f n r s)) = authCodes s
    \<and> consentJtis (snd (revokeRefreshTokenFamily f n r s)) = consentJtis s
    \<and> sweptThrough (snd (revokeRefreshTokenFamily f n r s)) = sweptThrough s"
  by (auto simp: revokeRefreshTokenFamily_def split: attempt_split option.split)

lemma rotate_codes: "authCodes (snd (rotateRefreshToken h i n g r s)) = authCodes s
    \<and> consentJtis (snd (rotateRefreshToken h i n g r s)) = consentJtis s
    \<and> sweptThrough (snd (rotateRefreshToken h i n g r s)) = sweptThrough s"
proof -
  have c: "authCodes (consume_token h t n s) = authCodes s" "consentJtis (consume_token h t n s) = consentJtis s"
    "sweptThrough (consume_token h t n s) = sweptThrough s" for t
    by (simp_all add: consume_token_def)
  show ?thesis
    using saveRefreshToken_codes [of _ "consume_token h t n s" for t] revoke_codes [of _ n None s]
    by (auto simp: rotateRefreshToken_def c case_prod_unfold Let_def split: attempt_split option.split)
qed

lemma other_codes:
  "snd (getStoreInstanceId s) = s" "snd (findRefreshToken h s) = s" "snd (findGrantedScopes u cl n g r s) = s"
  "authCodes (snd (rotateStoreInstanceId x s)) = authCodes s"
  "authCodes (snd (consumeConsentJti j e s)) = authCodes s" "authCodes (snd (closeStore s)) = authCodes s"
  by (simp_all add: getStoreInstanceId_def findRefreshToken_def findGrantedScopes_def rotateStoreInstanceId_def
      consumeConsentJti_def closeStore_def split: attempt_split option.split)

lemma save_outstanding:
  "outstanding h (snd (saveAuthCode c s)) \<le> outstanding h s + (if ac_codeHash c = h then 1 else 0)"
  "outstanding h (snd (commitConsentApproval e j x c s)) \<le> outstanding h s + (if ac_codeHash c = h then 1 else 0)"
  by (simp_all add: outstanding_def saveAuthCode_def commitConsentApproval_def split: attempt_split)

lemma consume_outstanding:
  "(if \<exists>rec. fst (consumeAuthCode h' n g r s) = Inr (Some rec) \<and> h' = h then 1 else 0)
   + outstanding h (snd (consumeAuthCode h' n g r s)) \<le> outstanding h s"
  by (simp add: outstanding_def consumeAuthCode_def assertSha256Hex_def del: map_of_eq_Some_iff
      split: attempt_split option.split)

lemma sweep_outstanding: "outstanding h (snd (sweepExpired n s)) \<le> outstanding h s"
  by (auto simp: outstanding_def sweepExpired_def Let_def simp del: map_of_eq_None_iff map_of_eq_Some_iff
      split: attempt_split dest: map_of_filter_SomeD)

lemma redeems_consume:
  "redeems h (Consume_code h' n g r) (Redeemed m) \<longleftrightarrow> (\<exists>rec. m = Inr (Some rec)) \<and> h' = h"
  by (auto elim!: redeems.elims)

lemma call_outstanding:
  "(if redeems h c (fst (call c s)) then 1 else 0) + outstanding h (snd (call c s))
   \<le> outstanding h s + (if issues h c then 1 else 0)"
proof (cases c)
  case (Consume_code h' n g r)
  then show ?thesis using consume_outstanding [of h' n g r s h] by (simp add: redeems_consume)
qed (use save_outstanding sweep_outstanding saveRefreshToken_codes revoke_codes rotate_codes
      in \<open>simp_all add: other_codes outstanding_def\<close>)

text \<open>
  An authorization code is redeemed at most once. Along any sequence of calls, from any state,
  the number of successful redemptions of a code hash is at most the number of times a code was saved
  under it, plus one if it was outstanding at the start; no expiry, resource or generation argument
  and no sweep changes that.
\<close>

theorem auth_code_single_use:
  "length (filter (\<lambda>(c, r). redeems h c r) (fst (run cs s)))
   \<le> outstanding h s + length (filter (issues h) cs)"
  using run_count [of "\<lambda>_. True" "redeems h" "outstanding h" "\<lambda>c. if issues h c then 1 else 0" s cs]
    call_outstanding
  by (simp add: sum_list_filter)

fun accepts :: "string \<Rightarrow> string \<Rightarrow> store_call \<Rightarrow> store_reply \<Rightarrow> bool" where
  "accepts j x (Commit e j' x' c) (Committed (Inr Stored)) = (j' = j \<and> x' = x)"
| "accepts j x (Consume_jti j' x') (Fresh (Inr b)) = (b \<and> j' = j \<and> x' = x)"
| "accepts j x _ _ = False"

text \<open>An identifier is spent once it is recorded, or once a sweep has passed its expiry.\<close>

definition spent :: "string \<Rightarrow> string \<Rightarrow> memory_store \<Rightarrow> bool" where
  "spent j x s = (map_of (consentJtis s) j = Some x \<or> swept_past s x)"

lemma swept_mono:
  "swept_past s x \<Longrightarrow> swept_past (snd (sweepExpired n s)) x"
  by (auto simp: swept_past_def sweepExpired_def Let_def split: attempt_split option.split option.split_asm)

lemma sweep_spent:
  assumes "spent j x s"
  shows "spent j x (snd (sweepExpired n s))"
proof (cases "swept_past s x")
  case True
  then show ?thesis by (simp add: spent_def swept_mono)
next
  case False
  have keep: "map_of (filter (\<lambda>p. \<not> snd p < n) m) j = Some x" if "\<not> x < n" "map_of m j = Some x" for m :: "string jsmap"
    using that by (induction m) (auto split: if_split_asm)
  from False assms show ?thesis
    by (auto simp: spent_def swept_past_def sweepExpired_def Let_def keep simp del: map_of_eq_Some_iff
        split: attempt_split option.split option.split_asm)
qed

lemma commit_cases:
  "snd (commitConsentApproval e j x c s) = s \<and> fst (commitConsentApproval e j x c s) \<noteq> Inr Stored
   \<or> map_of (consentJtis s) j = None \<and> \<not> swept_past s x
     \<and> commitConsentApproval e j x c s =
        (Inr Stored, s\<lparr>consentJtis := map_set j x (consentJtis s),
           authCodes := map_set (ac_codeHash c) (stored_code c) (authCodes s)\<rparr>)"
  by (simp add: commitConsentApproval_def map_has_def split: attempt_split)

lemma jti_cases:
  "snd (consumeConsentJti j x s) = s \<and> fst (consumeConsentJti j x s) \<noteq> Inr True
   \<or> map_of (consentJtis s) j = None \<and> \<not> swept_past s x
     \<and> consumeConsentJti j x s = (Inr True, s\<lparr>consentJtis := map_set j x (consentJtis s)\<rparr>)"
  by (simp add: consumeConsentJti_def map_has_def split: attempt_split)

lemma record_spent:
  assumes "map_of (consentJtis s) j' = None" and "consentJtis s' = map_set j' x' (consentJtis s)"
    and "sweptThrough s' = sweptThrough s" and "\<not> swept_past s x'"
  shows "spent j x s \<Longrightarrow> spent j x s'" and "\<not> spent j' x' s" and "spent j' x' s'"
  using assms by (auto simp: spent_def swept_past_def simp del: map_of_eq_Some_iff)

lemma accept_count:
  "(if fst (commitConsentApproval e j' x' c s) = Inr Stored \<and> j' = j \<and> x' = x then 1 else 0)
   + (if spent j x (snd (commitConsentApproval e j' x' c s)) then 0 else (1::nat)) \<le> (if spent j x s then 0 else 1)"
  "(if fst (consumeConsentJti j' x' s) = Inr True \<and> j' = j \<and> x' = x then 1 else 0)
   + (if spent j x (snd (consumeConsentJti j' x' s)) then 0 else (1::nat)) \<le> (if spent j x s then 0 else 1)"
  subgoal
    by (rule disjE [OF commit_cases [of e j' x' c s]])
       (use record_spent [of s j' "snd (commitConsentApproval e j' x' c s)" x'] in auto)
  subgoal
    by (rule disjE [OF jti_cases [of j' x' s]])
       (use record_spent [of s j' "snd (consumeConsentJti j' x' s)" x'] in auto)
  done

lemma other_spent:
  "consentJtis s' = consentJtis s \<and> sweptThrough s' = sweptThrough s \<Longrightarrow> spent j x s' = spent j x s"
  by (simp add: spent_def swept_past_def)

lemma other_jtis:
  "consentJtis (snd (rotateStoreInstanceId y s)) = consentJtis s \<and> sweptThrough (snd (rotateStoreInstanceId y s)) = sweptThrough s"
  "consentJtis (snd (saveAuthCode c s)) = consentJtis s \<and> sweptThrough (snd (saveAuthCode c s)) = sweptThrough s"
  "consentJtis (snd (consumeAuthCode h n g r s)) = consentJtis s \<and> sweptThrough (snd (consumeAuthCode h n g r s)) = sweptThrough s"
  "consentJtis (snd (closeStore s)) = consentJtis s \<and> sweptThrough (snd (closeStore s)) = sweptThrough s"
  by (simp_all add: rotateStoreInstanceId_def saveAuthCode_def consumeAuthCode_def closeStore_def
      split: attempt_split option.split)

lemma accepts_iff:
  "accepts j x (Commit e j' x' c) (Committed m) \<longleftrightarrow> m = Inr Stored \<and> j' = j \<and> x' = x"
  "accepts j x (Consume_jti j' x') (Fresh m2) \<longleftrightarrow> m2 = Inr True \<and> j' = j \<and> x' = x"
  by (auto elim!: accepts.elims)

lemma call_spent:
  "(if accepts j x c (fst (call c s)) then 1 else 0) + (if spent j x (snd (call c s)) then 0 else (1::nat))
   \<le> (if spent j x s then 0 else 1)"
proof (cases c)
  case (Commit e j' x' c')
  then show ?thesis using accept_count(1) [of e j' x' c' s j x] by (simp add: accepts_iff)
next
  case (Consume_jti j' x')
  then show ?thesis using accept_count(2) [of j' x' s j x] by (simp add: accepts_iff)
next
  case (Sweep n)
  then show ?thesis using sweep_spent [of j x s n] by simp
next
  case (Save_token i)
  then show ?thesis using other_spent [of "snd (saveRefreshToken i s)" s] saveRefreshToken_codes [of i s] by simp
next
  case (Revoke_family f n r)
  then show ?thesis
    using other_spent [of "snd (revokeRefreshTokenFamily f n r s)" s] revoke_codes [of f n r s] by simp
next
  case (Rotate_token h i n g r)
  then show ?thesis
    using other_spent [of "snd (rotateRefreshToken h i n g r s)" s] rotate_codes [of h i n g r s] by simp
qed (simp_all add: other_codes other_jtis [THEN other_spent])

text \<open>
  C4. A consent token is single use, for the whole life of a store. Along any sequence of calls at
  most one call accepts a given consent identifier with its expiry, whether it arrives through
  \<open>commitConsentApproval\<close> or \<open>consumeConsentJti\<close>, and also when expiry sweeps drop the record of the
  first use in between.
\<close>

theorem consent_jti_single_use:
  "length (filter (\<lambda>(c, r). accepts j x c r) (fst (run cs s))) \<le> 1"
  using run_count [of "\<lambda>_. True" "accepts j x" "\<lambda>s. if spent j x s then 0 else 1" "\<lambda>_. 0" s cs] call_spent
  by (simp split: if_split_asm)

end
