(* ===== verification/Store_Families.thy ===== *)
theory Store_Families
  imports Store_History
begin

section \<open>Refresh-token families\<close>

text \<open>
  What holds of refresh-token families along any history of the reference store: replay revokes the
  family for good, at most one token of a family is live per token saved, a sweep never drops the
  replay signal of a family that can still be used, and the scopes reported as granted are exactly
  those of the live tokens.
\<close>

fun starts :: "string \<Rightarrow> store_call \<Rightarrow> bool" where
  "starts fid (Save_token i) = (tk_familyId i = fid)"
| "starts fid _ = False"

text \<open>The three outcomes of a rotation whose inputs passed the checks.\<close>

lemma rotation_cases:
  assumes "rotation_spec h nxt n g er s = (v, s')"
  obtains (refuse) "v = None" and "s' = s"
  | (replay) t f where "map_of (refreshTokens s) h = Some t" and "map_of (families s) (tk_familyId t) = Some f"
      and "\<not> refused g er t f" and "consumedAt t \<noteq> None" and "v = None"
      and "s' = revoked (tk_familyId t) f n s"
  | (success) t f where "map_of (refreshTokens s) h = Some t" and "map_of (families s) (tk_familyId t) = Some f"
      and "\<not> refused g er t f" and "consumedAt t = None" and "n < tk_expiresAt t"
      and "tk_familyId nxt = tk_familyId t" and "\<not> map_has (tk_tokenHash nxt) (refreshTokens s)"
      and "v = Some (toRecord t)" and "s' = rotated h t nxt n s"
proof (cases "map_of (refreshTokens s) h")
  case None
  with assms that(1) show ?thesis by (simp add: rotation_spec_def)
next
  case t: (Some t)
  show ?thesis
  proof (cases "map_of (families s) (tk_familyId t)")
    case None
    with t assms that(1) show ?thesis by (simp add: rotation_spec_def)
  next
    case f: (Some f)
    have "(v, s') = (if refused g er t f then (None, s)
               else if consumedAt t \<noteq> None then (None, revoked (tk_familyId t) f n s)
               else if tk_expiresAt t \<le> n \<or> tk_familyId nxt \<noteq> tk_familyId t
                       \<or> map_has (tk_tokenHash nxt) (refreshTokens s) then (None, s)
               else (Some (toRecord t), rotated h t nxt n s))"
      using assms t f by (simp add: rotation_spec_def)
    then consider "v = None \<and> s' = s"
      | "\<not> refused g er t f \<and> consumedAt t \<noteq> None \<and> v = None \<and> s' = revoked (tk_familyId t) f n s"
      | "\<not> refused g er t f \<and> consumedAt t = None \<and> n < tk_expiresAt t \<and> tk_familyId nxt = tk_familyId t
         \<and> \<not> map_has (tk_tokenHash nxt) (refreshTokens s) \<and> v = Some (toRecord t) \<and> s' = rotated h t nxt n s"
      by (metis not_le prod.inject)
    then show ?thesis using that t f by cases blast+
  qed
qed

subsection \<open>One live token per family\<close>

definition is_live :: "string \<Rightarrow> stored_refresh \<Rightarrow> bool" where
  "is_live fid t = (tk_familyId t = fid \<and> consumedAt t = None)"

definition live :: "string \<Rightarrow> memory_store \<Rightarrow> nat" where
  "live fid s = length (filter (\<lambda>p. is_live fid (snd p)) (refreshTokens s))"

lemma length_filter_map_set:
  "wf_map m \<Longrightarrow> length (filter (\<lambda>p. P (snd p)) (map_set k v m))
      + (case map_of m k of None \<Rightarrow> 0 | Some w \<Rightarrow> if P w then 1 else 0)
    = length (filter (\<lambda>p. P (snd p)) m) + (if P v then 1 else 0)"
proof (induction m)
  case (Cons p m)
  show ?case
  proof (cases "fst p = k")
    case True
    then show ?thesis by (cases p) (auto simp: map_set_def)
  next
    case False
    with Cons show ?thesis by (cases p) (auto simp: map_set_def split: if_split_asm)
  qed
qed (simp add: map_set_def)

lemma live_rotated:
  assumes "store_wf s" and "map_of (refreshTokens s) h = Some t" and "consumedAt t = None"
    and "tk_familyId nxt = tk_familyId t" and "\<not> map_has (tk_tokenHash nxt) (refreshTokens s)"
  shows "live fid (rotated h t nxt n s) = live fid s"
proof -
  let ?m = "map_set h (t\<lparr>consumedAt := Some n\<rparr>) (refreshTokens s)"
  have "length (filter (\<lambda>p. is_live fid (snd p)) ?m) + (if tk_familyId t = fid then 1 else 0) = live fid s"
    using length_filter_map_set [OF wf_rows_map [OF assms(1)], of "is_live fid" h "t\<lparr>consumedAt := Some n\<rparr>"] assms(2,3)
    by (simp add: is_live_def live_def del: map_of_eq_Some_iff)
  moreover have "map_of ?m (tk_tokenHash nxt) = None"
    using assms(2,5) by (auto simp: map_has_def)
  moreover have "wf_map ?m" using wf_rows_map [OF assms(1)] by simp
  ultimately show ?thesis
    using length_filter_map_set [of ?m "is_live fid" "tk_tokenHash nxt" "successor nxt t"] assms(4)
    by (simp add: live_def rotated_def is_live_def [of _ "successor nxt t"])
qed

lemma live_save:
  assumes "store_wf s"
  shows "live fid (snd (saveRefreshToken i s)) \<le> live fid s + (if tk_familyId i = fid then 1 else 0)"
proof -
  have b: "length (filter (\<lambda>p. is_live fid (snd p)) (map_set k v (refreshTokens s)))
       \<le> live fid s + (if tk_familyId v = fid then 1 else 0)" for k v
    using length_filter_map_set [OF wf_rows_map [OF assms], of "is_live fid" k v]
    by (simp add: live_def is_live_def [of fid v] split: if_split_asm)
  have "tk_familyId inp = tk_familyId i" if "normalizeRefreshTokenWrite i = Inr inp" for inp
    using that by (auto simp: normalizeRefreshTokenWrite_Inr)
  then have b': "length (filter (\<lambda>p. is_live fid (snd p)) (map_set (tk_tokenHash inp) (stored_row inp) (refreshTokens s)))
       \<le> live fid s + (if tk_familyId i = fid then 1 else 0)" if "normalizeRefreshTokenWrite i = Inr inp" for inp
    using b [of "tk_tokenHash inp" "stored_row inp"] that by simp
  show ?thesis
    by (simp add: saveRefreshToken_def Let_def del: map_of_eq_Some_iff split: attempt_split option.split)
       (use b' in \<open>auto simp: live_def\<close>)
qed

lemma live_same: "refreshTokens s' = refreshTokens s \<Longrightarrow> live fid s' = live fid s"
  by (simp add: live_def)

lemma live_revoked: "live fid (revoked i f n s) = live fid s"
  by (simp add: live_def revoked_def)

lemma other_tokens:
  "refreshTokens (snd (rotateStoreInstanceId y s)) = refreshTokens s"
  "refreshTokens (snd (saveAuthCode c s)) = refreshTokens s"
  "refreshTokens (snd (commitConsentApproval e j x c s)) = refreshTokens s"
  "refreshTokens (snd (consumeAuthCode h n g r s)) = refreshTokens s"
  "refreshTokens (snd (consumeConsentJti j x s)) = refreshTokens s"
  "refreshTokens (snd (revokeRefreshTokenFamily f n r s)) = refreshTokens s"
  "refreshTokens (snd (closeStore s)) = refreshTokens s"
  by (simp_all add: rotateStoreInstanceId_def saveAuthCode_def consumeAuthCode_def closeStore_def
      commitConsentApproval_def consumeConsentJti_def revokeRefreshTokenFamily_def split: attempt_split option.split)

lemma live_sweep: "live fid (snd (sweepExpired n s)) \<le> live fid s"
proof -
  have "length (filter P (filter Q xs)) \<le> length (filter P xs)" for P Q and xs :: "(string \<times> stored_refresh) list"
    by (induction xs) auto
  then show ?thesis by (simp add: live_def sweepExpired_def Let_def del: filter_filter split: attempt_split)
qed

lemma live_rotate:
  assumes "store_wf s"
  shows "live fid (snd (rotateRefreshToken h i n g r s)) = live fid s"
  using assms
proof (rule rotateE [of s h i n g r])
  fix e
  assume "rotateRefreshToken h i n g r s = (Inl e, s)"
  then show ?thesis by simp
next
  fix nxt v s'
  assume "rotation_spec h nxt n g r s = (v, s')" and rot: "rotateRefreshToken h i n g r s = (Inr v, s')"
  then have "live fid s' = live fid s"
    by (cases rule: rotation_cases) (simp_all add: live_rotated [OF assms] live_revoked)
  with rot show ?thesis by simp
qed

lemma call_live:
  assumes "store_wf s"
  shows "live fid (snd (call c s)) \<le> live fid s + (if starts fid c then 1 else 0)"
proof (cases c)
  case (Save_token i)
  then show ?thesis using live_save [OF assms, of fid i] by simp
next
  case (Rotate_token h i n g r)
  then show ?thesis using live_rotate [OF assms] by simp
next
  case (Sweep n)
  then show ?thesis using live_sweep by simp
qed (simp_all add: other_codes live_same [OF other_tokens(1)] live_same [OF other_tokens(2)]
      live_same [OF other_tokens(3)] live_same [OF other_tokens(4)] live_same [OF other_tokens(5)]
      live_same [OF other_tokens(6)] live_same [OF other_tokens(7)])

text \<open>
  C1. Rotation never forks a family: along any history from a new store, the number of unconsumed
  tokens in a family is at most the number of tokens saved into it from outside. A family the token
  endpoint starts with one saved token has at most one live token at any time, however often it is
  rotated, replayed, revoked or swept.
\<close>

theorem family_never_forks:
  "live fid (snd (run cs (createMemoryStore fresh))) \<le> length (filter (starts fid) cs)"
proof -
  have "store_wf s \<Longrightarrow> live fid (snd (run cs s)) \<le> live fid s + length (filter (starts fid) cs)" for s
  proof (induction cs arbitrary: s)
    case (Cons c cs)
    from Cons.IH [OF call_wf [OF Cons.prems, of c]] call_live [OF Cons.prems, of fid c]
    show ?case by (auto split: if_splits)
  qed simp
  moreover have "live fid (createMemoryStore fresh) = 0" by (simp add: live_def createMemoryStore_def)
  ultimately show ?thesis using createMemoryStore_wf [of fresh] by (metis add_0)
qed

subsection \<open>Replay and revocation\<close>

definition dead :: "string \<Rightarrow> memory_store \<Rightarrow> bool" where
  "dead fid s = (case map_of (families s) fid of None \<Rightarrow> True | Some f \<Rightarrow> revokedAt f \<noteq> None)"

lemma dead_same: "families s' = families s \<Longrightarrow> dead fid s' = dead fid s"
  by (simp add: dead_def)

lemma other_families:
  "families (snd (rotateStoreInstanceId y s)) = families s"
  "families (snd (saveAuthCode c s)) = families s"
  "families (snd (commitConsentApproval e j x c s)) = families s"
  "families (snd (consumeAuthCode h n g r s)) = families s"
  "families (snd (consumeConsentJti j x s)) = families s"
  "families (snd (closeStore s)) = families s"
  by (simp_all add: rotateStoreInstanceId_def saveAuthCode_def consumeAuthCode_def closeStore_def
      commitConsentApproval_def consumeConsentJti_def split: attempt_split option.split)

lemma dead_save: "dead fid s \<Longrightarrow> tk_familyId i \<noteq> fid \<Longrightarrow> dead fid (snd (saveRefreshToken i s))"
  by (auto simp: saveRefreshToken_def Let_def dead_def normalizeRefreshTokenWrite_Inr simp del: map_of_eq_Some_iff
      split: attempt_split option.split)

lemma dead_revoked: "dead fid s \<Longrightarrow> dead fid (revoked i f n s)"
  by (simp add: dead_def revoked_def)

lemma revoke_cases:
  "snd (revokeRefreshTokenFamily i n r s) = s
   \<or> (\<exists>f. map_of (families s) i = Some f \<and> snd (revokeRefreshTokenFamily i n r s) = revoked i f n s)"
  by (simp add: revokeRefreshTokenFamily_def revoked_def del: map_of_eq_Some_iff split: attempt_split option.split)

lemma dead_revoke: "dead fid s \<Longrightarrow> dead fid (snd (revokeRefreshTokenFamily i n r s))"
  using revoke_cases [of i n r s] dead_revoked by fastforce

lemma map_of_filter_fst:
  "map_of (filter (\<lambda>p. fst p \<in> S) m) k = (if k \<in> S then map_of m k else None)"
  by (induction m) auto

lemma dead_sweep: "dead fid s \<Longrightarrow> dead fid (snd (sweepExpired n s))"
  by (simp add: sweepExpired_def Let_def dead_def map_of_filter_fst del: map_of_eq_Some_iff split: attempt_split)

lemma dead_rotated: "dead fid (rotated h t nxt n s) = dead fid s"
  by (simp add: dead_def rotated_def Let_def)

lemma not_refused_alive: "map_of (families s) fid = Some f \<Longrightarrow> \<not> refused g r t f \<Longrightarrow> \<not> dead fid s"
  by (simp add: dead_def refused_def)

lemma dead_rotate:
  assumes "store_wf s" and "dead fid s"
  shows "dead fid (snd (rotateRefreshToken h i n g r s))
         \<and> (\<forall>t. fst (rotateRefreshToken h i n g r s) = Inr (Some t) \<longrightarrow> tk_familyId t \<noteq> fid)"
  using assms(1)
proof (rule rotateE [of s h i n g r])
  fix e
  assume "rotateRefreshToken h i n g r s = (Inl e, s)"
  then show ?thesis using assms by simp
next
  fix nxt v s'
  assume "rotation_spec h nxt n g r s = (v, s')" and rot: "rotateRefreshToken h i n g r s = (Inr v, s')"
  then have "dead fid s' \<and> (\<forall>t. v = Some t \<longrightarrow> tk_familyId t \<noteq> fid)"
    by (cases rule: rotation_cases)
       (use assms(2) not_refused_alive in \<open>auto simp: dead_revoked dead_rotated toRecord_def
          simp del: map_of_eq_Some_iff\<close>)
  with rot show ?thesis by simp
qed

lemma call_dead:
  assumes "store_wf s" and "dead fid s" and "\<not> starts fid c"
  shows "dead fid (snd (call c s))"
proof (cases c)
  case (Save_token i)
  then show ?thesis using dead_save [of fid s i] assms by simp
next
  case (Rotate_token h i n g r)
  then show ?thesis using dead_rotate [OF assms(1,2)] by simp
next
  case (Sweep n)
  then show ?thesis using dead_sweep assms(2) by simp
next
  case (Revoke_family i n r)
  then show ?thesis using dead_revoke assms(2) by simp
qed (use assms(2) in \<open>simp_all add: other_codes dead_same [OF other_families(1)] dead_same [OF other_families(2)]
      dead_same [OF other_families(3)] dead_same [OF other_families(4)] dead_same [OF other_families(5)]
      dead_same [OF other_families(6)]\<close>)

fun rotates_in :: "string \<Rightarrow> store_call \<Rightarrow> store_reply \<Rightarrow> bool" where
  "rotates_in fid (Rotate_token h i n g r) (Token (Inr (Some t))) = (tk_familyId t = fid)"
| "rotates_in fid _ _ = False"

lemma rotates_in_iff:
  "rotates_in fid (Rotate_token h i n g r) (Token m) \<longleftrightarrow> (\<exists>t. m = Inr (Some t) \<and> tk_familyId t = fid)"
  by (cases "(fid, Rotate_token h i n g r, Token m)" rule: rotates_in.cases) auto

lemma dead_run:
  "store_wf s \<Longrightarrow> dead fid s \<Longrightarrow> filter (starts fid) cs = [] \<Longrightarrow>
     filter (\<lambda>(c, r). rotates_in fid c r) (fst (run cs s)) = []"
proof (induction cs arbitrary: s)
  case (Cons c cs)
  then have ns: "\<not> starts fid c" by (auto split: if_split_asm)
  have "\<not> rotates_in fid c (fst (call c s))"
  proof (cases c)
    case (Rotate_token h i n g r)
    then show ?thesis using dead_rotate [OF Cons.prems(1,2), of h i n g r] by (auto simp: rotates_in_iff)
  qed simp_all
  with Cons.IH [OF call_wf [OF Cons.prems(1), of c] call_dead [OF Cons.prems(1,2) ns]] Cons.prems(3)
  show ?case by (auto split: if_split_asm)
qed simp

text \<open>
  C3. The store's rotation is its specification. On every reachable store, once the inputs pass the
  format checks, a rotation answers null and changes nothing when the token is unknown, its family is
  revoked, or the expected generation or resource differs; it revokes the family when the token was
  already consumed; it answers null and changes nothing when the token has expired, the successor is
  of another family or its hash is taken; and otherwise it returns the old record, marks it consumed
  and saves a successor that inherits client, subject, resource, scopes and generation. The store's
  own re-validation of the successor never fails in between.
\<close>

theorem rotation_refines_spec:
  assumes "reachable s" and "\<not> closed s" and "normalizeRefreshTokenWrite next0 = Inr nxt"
    and "validateRotation h nxt now = Inr ()"
  shows "rotateRefreshToken h next0 now g er s = (let (v, s') = rotation_spec h nxt now g er s in (Inr v, s'))"
  by (rule rotate_is_spec [OF reachable_wf [OF assms(1)] assms(2-4)])

subsection \<open>Replay\<close>

text \<open>
  C2. Replaying a consumed refresh token revokes its family for good: the presented token is
  refused, and whatever is called afterwards (short of saving a new token under the same family
  identifier), no token of that family is ever rotated again, even after the store has been swept.
\<close>

theorem replay_revokes_for_good:
  assumes "reachable s" and "\<not> closed s" and "normalizeRefreshTokenWrite next0 = Inr nxt"
    and "validateRotation h nxt now = Inr ()" and "map_of (refreshTokens s) h = Some t"
    and "consumedAt t \<noteq> None" and "tk_resource t \<noteq> Some UNBOUND_REFRESH_RESOURCE"
    and "filter (starts (tk_familyId t)) cs = []"
  shows "fst (rotateRefreshToken h next0 now None (tk_resource t) s) = Inr None
    \<and> filter (\<lambda>(c, r). rotates_in (tk_familyId t) c r)
        (fst (run cs (snd (rotateRefreshToken h next0 now None (tk_resource t) s)))) = []"
proof -
  have wf: "store_wf s" using assms(1) by (rule reachable_wf)
  obtain f where f: "map_of (families s) (tk_familyId t) = Some f" using wf_row_family [OF wf assms(5)] by metis
  let ?r = "rotateRefreshToken h next0 now None (tk_resource t) s"
  have r: "?r = (let (v, s') = rotation_spec h nxt now None (tk_resource t) s in (Inr v, s'))"
    using rotate_is_spec [OF wf assms(2-4)] .
  have "fst ?r = Inr None \<and> dead (tk_familyId t) (snd ?r)"
    unfolding r rotation_spec_def using assms(5-7) f
    by (auto simp: refused_def dead_def revoked_def simp del: map_of_eq_Some_iff)
  moreover have "store_wf (snd ?r)" using rotateRefreshToken_wf [OF wf] .
  ultimately show ?thesis using dead_run [of "snd ?r" "tk_familyId t" cs] assms(8) by blast
qed

subsection \<open>Sweeping\<close>

text \<open>
  A sweep forgets a refresh token, consumed or not, exactly when no token of its family is
  still valid; it forgets a family exactly when none of its tokens is kept. So a replay stays
  detectable as long as any token of the family could be used.
\<close>

theorem sweep_keeps_replay_signal:
  assumes "reachable s" and "\<not> closed s" and "is_utc_iso now"
  shows "map_of (refreshTokens (snd (sweepExpired now s))) h =
      (case map_of (refreshTokens s) h of
         None \<Rightarrow> None
       | Some t \<Rightarrow> if list_ex (\<lambda>p. tk_familyId (snd p) = tk_familyId t \<and> now \<le> tk_expiresAt (snd p)) (refreshTokens s)
                   then Some t else None)
    \<and> map_of (families (snd (sweepExpired now s))) fid =
       (if list_ex (\<lambda>p. tk_familyId (snd p) = fid \<and> now \<le> tk_expiresAt (snd p)) (refreshTokens s)
        then map_of (families s) fid else None)"
proof -
  have wf: "wf_map (refreshTokens s)" using reachable_wf [OF assms(1)] by (rule wf_rows_map)
  let ?v = "\<lambda>fid. list_ex (\<lambda>p. tk_familyId (snd p) = fid \<and> now \<le> tk_expiresAt (snd p)) (refreshTokens s)"
  have valid: "family_valid now (map snd (refreshTokens s)) t = ?v (tk_familyId t)" for t
    by (simp add: family_valid_def list_ex_iff)
  have live: "fid \<in> (\<lambda>p. tk_familyId (snd p)) ` {p \<in> set (refreshTokens s). ?v (tk_familyId (snd p))} \<longleftrightarrow> ?v fid"
    by (auto simp: list_ex_iff)
  show ?thesis
    using assms(2,3) live
    by (simp add: sweepExpired_def Let_def valid map_of_filter_key [OF wf] map_of_filter_fst
        cong: option.case_cong)
qed

subsection \<open>Granted scopes\<close>

lemma granted_fold:
  "set (foldl (\<lambda>out t. if P t then foldl push_new out (g t) else out) out ts) = set out \<union> \<Union> (set ` g ` {t \<in> set ts. P t})
   \<and> (distinct (foldl (\<lambda>out t. if P t then foldl push_new out (g t) else out) out ts) \<longleftrightarrow> distinct out)"
  by (induction ts arbitrary: out) auto

text \<open>
  The scopes a store reports as granted to a subject and a client are, without repetition,
  those of the refresh tokens that are live for both: not consumed, not expired, of a family that is
  not revoked, and of the expected generation and resource when these are given. Nothing else grants
  a scope, and the store is unchanged.
\<close>

theorem granted_scopes_exact:
  assumes "reachable s" and "\<not> closed s" and "subject_ok sub" and "is_utc_iso now"
  shows "\<exists>out. findGrantedScopes sub client now g er s = (Inr out, s) \<and> distinct out
     \<and> (\<forall>sc. sc \<in> set out \<longleftrightarrow>
          (\<exists>h t f. map_of (refreshTokens s) h = Some t \<and> map_of (families s) (tk_familyId t) = Some f
             \<and> sc \<in> set (tk_scopes t) \<and> tk_subject t = sub \<and> tk_clientId t = client
             \<and> consumedAt t = None \<and> now < tk_expiresAt t \<and> revokedAt f = None
             \<and> (g = None \<or> tk_grantGeneration t = g) \<and> (er = None \<or> tk_resource t = er)))"
proof -
  have wf: "store_wf s" using assms(1) by (rule reachable_wf)
  let ?P = "contributes sub client now g er s"
  have c: "?P t \<longleftrightarrow> (\<exists>f. map_of (families s) (tk_familyId t) = Some f
             \<and> tk_subject t = sub \<and> tk_clientId t = client
             \<and> consumedAt t = None \<and> now < tk_expiresAt t \<and> revokedAt f = None
             \<and> (g = None \<or> tk_grantGeneration t = g) \<and> (er = None \<or> tk_resource t = er))"
    if t: "map_of (refreshTokens s) h = Some t" for h t
  proof -
    obtain f where f: "map_of (families s) (tk_familyId t) = Some f" "family_matches t f"
      using wf_row_family [OF wf t] by metis
    show ?thesis
      using f wf_truthy_consumed [OF wf t] by (auto simp: contributes_def family_matches_def simp del: map_of_eq_Some_iff)
  qed
  have rows: "t \<in> set (map snd (refreshTokens s)) \<longleftrightarrow> (\<exists>h. map_of (refreshTokens s) h = Some t)" for t
    using wf_rows_map [OF wf] by force
  show ?thesis
    unfolding findGrantedScopes_def
    using assms(2-4) granted_fold [of ?P tk_scopes "[]" "map snd (refreshTokens s)"] c rows
    by (simp del: map_of_eq_Some_iff set_map) blast
qed

subsection \<open>Concrete stores\<close>

text \<open>One family, freshly started and rotated once, to evaluate the properties on.\<close>

definition demo_hash :: "char \<Rightarrow> string" where
  "demo_hash c = replicate 64 c"

definition demo_token :: "char \<Rightarrow> string option \<Rightarrow> SaveRefreshTokenInput" where
  "demo_token c previous =
     \<lparr>tk_tokenHash = demo_hash c, tk_familyId = ''family'', tk_previousTokenHash = previous,
      tk_clientId = ''client'', tk_subject = ''alice'', tk_resource = Str ''https://mcp.example'',
      tk_scopes = [''read'', ''write''], tk_expiresAt = ''2026-08-01T00:00:00.000Z'',
      tk_grantGeneration = Undefined\<rparr>"

definition demo_now :: string where "demo_now = ''2026-07-03T13:00:00.000Z''"

definition demo_store :: memory_store where
  "demo_store = snd (run [Save_token (demo_token CHR ''a'' None)] (createMemoryStore ''demo''))"

definition demo_rotated :: memory_store where
  "demo_rotated = snd (run [Rotate_token (demo_hash CHR ''a'') (demo_token CHR ''b'' (Some (demo_hash CHR ''a''))) demo_now
      None None] demo_store)"

lemma demo_reachable: "reachable demo_store" "reachable demo_rotated"
  unfolding demo_store_def demo_rotated_def by (intro reachable_run start)+

lemma demo_facts:
  "normalizeRefreshTokenWrite (demo_token c p) = Inr (demo_token c p)"
  "is_utc_iso demo_now" "subject_ok ''alice''"
  "validateRotation (demo_hash CHR ''a'') (demo_token CHR ''b'' (Some (demo_hash CHR ''a''))) demo_now = Inr ()"
proof -
  show "normalizeRefreshTokenWrite (demo_token c p) = Inr (demo_token c p)"
    by (simp add: normalizeRefreshTokenWrite_def demo_token_def) code_simp
  show "is_utc_iso demo_now" "subject_ok ''alice''"
    "validateRotation (demo_hash CHR ''a'') (demo_token CHR ''b'' (Some (demo_hash CHR ''a''))) demo_now = Inr ()"
    by code_simp+
qed

lemma demo_open: "\<not> closed demo_store" "\<not> closed demo_rotated"
  by code_simp+

lemma demo_consumed:
  "map_of (refreshTokens demo_rotated) (demo_hash CHR ''a'')
   = Some ((stored_row (demo_token CHR ''a'' None))\<lparr>consumedAt := Some demo_now\<rparr>)"
  by code_simp

theorem rotation_refines_spec_witness:
  "rotateRefreshToken (demo_hash CHR ''a'') (demo_token CHR ''b'' (Some (demo_hash CHR ''a''))) demo_now None None demo_store
   = (let (v, s') = rotation_spec (demo_hash CHR ''a'') (demo_token CHR ''b'' (Some (demo_hash CHR ''a''))) demo_now
        None None demo_store in (Inr v, s'))"
  by (rule rotation_refines_spec [OF demo_reachable(1) demo_open(1) demo_facts(1) demo_facts(4)])

theorem replay_revokes_for_good_witness:
  "fst (rotateRefreshToken (demo_hash CHR ''a'') (demo_token CHR ''b'' (Some (demo_hash CHR ''a''))) demo_now None
      (Some ''https://mcp.example'') demo_rotated) = Inr None"
proof -
  have r: "tk_resource ((stored_row (demo_token CHR ''a'' None))\<lparr>consumedAt := Some demo_now\<rparr>) = Some ''https://mcp.example''"
    by (simp add: stored_row_def demo_token_def)
  show ?thesis
    using replay_revokes_for_good [OF demo_reachable(2) demo_open(2) demo_facts(1,4) demo_consumed, of "[]", unfolded r]
    by (simp add: UNBOUND_REFRESH_RESOURCE_def)
qed

theorem sweep_keeps_replay_signal_witness:
  "map_of (refreshTokens (snd (sweepExpired demo_now demo_rotated))) (demo_hash CHR ''a'') \<noteq> None"
proof -
  have "list_ex (\<lambda>p. tk_familyId (snd p) = ''family'' \<and> demo_now \<le> tk_expiresAt (snd p)) (refreshTokens demo_rotated)"
    by code_simp
  moreover have "tk_familyId (stored_row (demo_token CHR ''a'' None)) = ''family''"
    by (simp add: demo_token_def)
  ultimately show ?thesis
    using sweep_keeps_replay_signal [OF demo_reachable(2) demo_open(2) demo_facts(2), of "demo_hash CHR ''a''"] demo_consumed
    by simp
qed

theorem granted_scopes_exact_witness:
  "\<exists>out. findGrantedScopes ''alice'' ''client'' demo_now None None demo_store = (Inr out, demo_store) \<and> distinct out"
  using granted_scopes_exact [OF demo_reachable(1) demo_open(1) demo_facts(3,2), of "''client''" None None] by blast

end
