(* ===== verification/Digest.thy ===== *)
theory Digest
  imports Errors "HOL-Library.Word"
begin

section \<open>Digests, encodings and random identifiers\<close>

text \<open>
  The part of Node's \<open>crypto\<close> and \<open>Buffer\<close> the source uses: UTF-8 encoding of a string, SHA-256 (FIPS
  180-4, on 32-bit words), hexadecimal and base64url text. A byte sequence is a \<open>string\<close>, one
  character per byte.
\<close>

unbundle bit_operations_syntax

subsection \<open>UTF-8 bytes of a string\<close>

text \<open>A lone surrogate is encoded as U+FFFD.\<close>

fun utf8 :: "string \<Rightarrow> string" where
  "utf8 (a # b # c # s) =
     (if byte a = 0xED \<and> 0xA0 \<le> byte b then map char_of [0xEF :: nat, 0xBF, 0xBD] @ utf8 s
      else a # utf8 (b # c # s))"
| "utf8 s = s"

subsection \<open>SHA-256\<close>

type_synonym word32 = "32 word"

definition sha256_K :: "word32 list" where
  "sha256_K =
     [1116352408, 1899447441, 3049323471, 3921009573, 961987163, 1508970993, 2453635748, 2870763221,
      3624381080, 310598401, 607225278, 1426881987, 1925078388, 2162078206, 2614888103, 3248222580,
      3835390401, 4022224774, 264347078, 604807628, 770255983, 1249150122, 1555081692, 1996064986,
      2554220882, 2821834349, 2952996808, 3210313671, 3336571891, 3584528711, 113926993, 338241895,
      666307205, 773529912, 1294757372, 1396182291, 1695183700, 1986661051, 2177026350, 2456956037,
      2730485921, 2820302411, 3259730800, 3345764771, 3516065817, 3600352804, 4094571909, 275423344,
      430227734, 506948616, 659060556, 883997877, 958139571, 1322822218, 1537002063, 1747873779,
      1955562222, 2024104815, 2227730452, 2361852424, 2428436474, 2756734187, 3204031479, 3329325298]"

datatype sha_state = Sha word32 word32 word32 word32 word32 word32 word32 word32

definition sha256_init :: sha_state where
  "sha256_init =
     Sha 0x6a09e667 0xbb67ae85 0x3c6ef372 0xa54ff53a
       0x510e527f 0x9b05688c 0x1f83d9ab 0x5be0cd19"

definition big_sigma0 :: "word32 \<Rightarrow> word32" where
  "big_sigma0 x = (word_rotr 2 x XOR word_rotr 13 x) XOR word_rotr 22 x"

definition big_sigma1 :: "word32 \<Rightarrow> word32" where
  "big_sigma1 x = (word_rotr 6 x XOR word_rotr 11 x) XOR word_rotr 25 x"

definition small_sigma0 :: "word32 \<Rightarrow> word32" where
  "small_sigma0 x = (word_rotr 7 x XOR word_rotr 18 x) XOR drop_bit 3 x"

definition small_sigma1 :: "word32 \<Rightarrow> word32" where
  "small_sigma1 x = (word_rotr 17 x XOR word_rotr 19 x) XOR drop_bit 10 x"

fun sha_round :: "sha_state \<Rightarrow> word32 \<times> word32 \<Rightarrow> sha_state" where
  "sha_round (Sha a b c d e f g h) (k, w) =
     (let t1 = h + big_sigma1 e + ((e AND f) XOR (NOT e AND g)) + k + w;
          t2 = big_sigma0 a + (((a AND b) XOR (a AND c)) XOR (b AND c))
      in Sha (t1 + t2) a b c (d + t1) e f g)"

fun sha_add :: "sha_state \<Rightarrow> sha_state \<Rightarrow> sha_state" where
  "sha_add (Sha a b c d e f g h) (Sha a' b' c' d' e' f' g' h') =
     Sha (a + a') (b + b') (c + c') (d + d') (e + e') (f + f') (g + g') (h + h')"

text \<open>The message schedule, newest word first.\<close>

fun sha_schedule :: "nat \<Rightarrow> word32 list \<Rightarrow> word32 list" where
  "sha_schedule 0 ws = ws"
| "sha_schedule (Suc n) ws =
     sha_schedule n ((small_sigma1 (ws ! 1) + ws ! 6 + small_sigma0 (ws ! 14) + ws ! 15) # ws)"

definition sha_block :: "sha_state \<Rightarrow> word32 list \<Rightarrow> sha_state" where
  "sha_block st ws = sha_add st (foldl sha_round st (zip sha256_K (rev (sha_schedule 48 (rev ws)))))"

fun sha_blocks :: "sha_state \<Rightarrow> nat \<Rightarrow> word32 list \<Rightarrow> sha_state" where
  "sha_blocks st 0 ws = st"
| "sha_blocks st (Suc n) ws = sha_blocks (sha_block st (take 16 ws)) n (drop 16 ws)"

fun be_words :: "string \<Rightarrow> word32 list" where
  "be_words (a # b # c # d # s) =
     word_of_nat (byte a * 16777216 + byte b * 65536 + byte c * 256 + byte d) # be_words s"
| "be_words _ = []"

definition be_bytes :: "word32 \<Rightarrow> string" where
  "be_bytes w = map (\<lambda>n. char_of (unat w div n mod 256)) [16777216, 65536, 256, 1]"

definition sha_pad :: "string \<Rightarrow> string" where
  "sha_pad s =
     (let bits = 8 * length s; zeros = (119 - length s mod 64) mod 64
      in s @ [char_of (0x80 :: nat)] @ replicate zeros (char_of (0 :: nat))
         @ map (\<lambda>k. char_of (bits div 256 ^ k mod 256)) (rev [0..<8]))"

fun sha_output :: "sha_state \<Rightarrow> string" where
  "sha_output (Sha a b c d e f g h) = concat (map be_bytes [a, b, c, d, e, f, g, h])"

definition sha256 :: "string \<Rightarrow> string" where
  "sha256 s =
     (let p = sha_pad s in sha_output (sha_blocks sha256_init (length p div 64) (be_words p)))"

subsection \<open>Text encodings of bytes\<close>

definition nibble :: "nat \<Rightarrow> char" where
  "nibble n = (if n < 10 then char_of (48 + n) else char_of (87 + n))"

definition hex_text :: "string \<Rightarrow> string" where
  "hex_text bs = concat (map (\<lambda>b. [nibble (byte b div 16), nibble (byte b mod 16)]) bs)"

definition base64url_char :: "nat \<Rightarrow> char" where
  "base64url_char n =
     (if n < 26 then char_of (65 + n) else if n < 52 then char_of (71 + n)
      else if n < 62 then char_of (n - 4) else if n = 62 then CHR ''-'' else CHR ''_'')"

fun base64url :: "string \<Rightarrow> string" where
  "base64url (a # b # c # s) =
     [base64url_char (byte a div 4), base64url_char (byte a mod 4 * 16 + byte b div 16),
      base64url_char (byte b mod 16 * 4 + byte c div 64), base64url_char (byte c mod 64)] @ base64url s"
| "base64url [a, b] =
     [base64url_char (byte a div 4), base64url_char (byte a mod 4 * 16 + byte b div 16),
      base64url_char (byte b mod 16 * 4)]"
| "base64url [a] = [base64url_char (byte a div 4), base64url_char (byte a mod 4 * 16)]"
| "base64url [] = []"

subsection \<open>Lengths and alphabets\<close>

lemma length_sha256 [simp]: "length (sha256 s) = 32"
proof -
  have "length (sha_output st) = 32" for st by (cases st) (simp add: be_bytes_def)
  then show ?thesis by (simp add: sha256_def Let_def)
qed

lemma byte_char_of [simp]: "byte (char_of (n :: nat)) = n mod 256"
  by (simp add: byte_def)

lemma byte_less: "byte c < 256"
  by (simp add: byte_def)

lemma sextets:
  fixes a b c :: nat
  assumes "a < 256" and "b < 256" and "c < 256"
  shows "a div 16 < 16" and "a div 4 < 64" and "a mod 4 * 16 < 64" and "a mod 4 * 16 + b div 16 < 64"
    and "b mod 16 * 4 < 64" and "b mod 16 * 4 + c div 64 < 64"
proof -
  have a: "a div 4 < 64" and b: "b div 16 < 16" and c: "c div 64 < 4" and a': "a div 16 < 16"
    using assms by (simp_all add: less_mult_imp_div_less)
  have m: "a mod 4 < 4" "b mod 16 < 16" by simp_all
  show "a div 16 < 16" "a div 4 < 64" "a mod 4 * 16 < 64" "a mod 4 * 16 + b div 16 < 64"
    "b mod 16 * 4 < 64" "b mod 16 * 4 + c div 64 < 64"
    using a b c m a' by linarith+
qed

lemma length_hex_text [simp]: "length (hex_text bs) = 2 * length bs"
  by (induction bs) (auto simp: hex_text_def)

lemma nibble_hex: "n < 16 \<Longrightarrow> is_hex_lower (nibble n)"
  by (auto simp: nibble_def is_hex_lower_def is_digit_def)

lemma hex_text_hex: "list_all is_hex_lower (hex_text bs)"
proof (induction bs)
  case (Cons b bs)
  have "byte b div 16 < 16" using sextets(1) byte_less by blast
  with Cons show ?case by (simp add: hex_text_def nibble_hex)
qed (simp add: hex_text_def)

lemma is_hex_lower_hex: "is_hex_lower c \<Longrightarrow> is_hex c"
  by (simp add: is_hex_def)

lemma base64url_char_ok: "n < 64 \<Longrightarrow> is_base64url (base64url_char n)"
  by (auto simp: base64url_char_def is_base64url_def is_alpha_def is_digit_def)

lemma base64url_ok: "list_all is_base64url (base64url bs)"
proof (induction bs rule: base64url.induct)
  case (1 a b c s)
  with sextets [OF byte_less [of a] byte_less [of b] byte_less [of c]] show ?case by (simp add: base64url_char_ok)
next
  case (2 a b)
  with sextets [OF byte_less [of a] byte_less [of b] byte_less [of b]] show ?case by (simp add: base64url_char_ok)
next
  case (3 a)
  with sextets [OF byte_less [of a] byte_less [of a] byte_less [of a]] show ?case by (simp add: base64url_char_ok)
qed simp

lemma length_base64url: "length (base64url bs) = (4 * length bs + 2) div 3"
  by (induction bs rule: base64url.induct) auto

end
