(* ===== verification/Credentials.thy ===== *)
theory Credentials
  imports Digest
begin

section \<open>Opaque credentials, PKCE and Basic authentication\<close>

text \<open>
  \<open>src/ports/random.ts\<close>, the opaque identifiers and PKCE check of \<open>src/crypto.ts\<close>, and
  \<open>src/client-auth.ts\<close>. What a random source answers is an argument; so is Node's lenient base64
  decoding to text.
\<close>

subsection \<open>Random bytes\<close>

datatype random_reply = RandomBytes string | RandomOther | RandomThrows failure

definition randomBytesFrom :: "random_reply \<Rightarrow> nat \<Rightarrow> string outcome" where
  "randomBytesFrom r n =
     (if n = 0 then Inl (Thrown ''RangeError'' ''random byte length must be a positive safe integer'')
      else case r of
        RandomThrows e \<Rightarrow> Inl e
      | RandomOther \<Rightarrow> Inl (Thrown ''TypeError'' ''RandomPort returned the wrong byte count'')
      | RandomBytes bs \<Rightarrow>
          if length bs = n then Inr bs
          else Inl (Thrown ''TypeError'' ''RandomPort returned the wrong byte count''))"

lemma randomBytesFrom_Inr: "randomBytesFrom r n = Inr bs \<longleftrightarrow> r = RandomBytes bs \<and> length bs = n \<and> n \<noteq> 0"
  by (auto simp: randomBytesFrom_def split: random_reply.splits if_splits)

subsection \<open>Identifiers and tokens\<close>

definition sha256Hex :: "string \<Rightarrow> string" where
  "sha256Hex v = hex_text (sha256 (utf8 v))"

definition generateAuthorizationCode :: "random_reply \<Rightarrow> string outcome" where
  "generateAuthorizationCode r = chain (randomBytesFrom r 32) (\<lambda>b. Inr (''ac_'' @ base64url b))"

definition generateRefreshFamilyId :: "random_reply \<Rightarrow> string outcome" where
  "generateRefreshFamilyId r = chain (randomBytesFrom r 18) (\<lambda>b. Inr (base64url b))"

definition generateConsentJti :: "random_reply \<Rightarrow> string outcome" where
  "generateConsentJti r = chain (randomBytesFrom r 18) (\<lambda>b. Inr (base64url b))"

text \<open>A new family takes two draws, the family first; a successor takes one.\<close>

definition refresh_token_text :: "string \<Rightarrow> string \<Rightarrow> string" where
  "refresh_token_text fid b = ''rt.'' @ fid @ ''.'' @ base64url b"

definition generateRefreshToken :: "string option \<Rightarrow> random_reply \<Rightarrow> random_reply \<Rightarrow> string outcome" where
  "generateRefreshToken familyId r_family r_token =
     chain (case familyId of Some f \<Rightarrow> Inr f | None \<Rightarrow> generateRefreshFamilyId r_family) (\<lambda>f.
     chain (randomBytesFrom r_token 32) (\<lambda>b. Inr (refresh_token_text f b)))"

definition is_family_id :: "string \<Rightarrow> bool" where
  "is_family_id f = (16 \<le> length f \<and> list_all is_base64url f)"

definition parseRefreshFamilyId :: "string \<Rightarrow> string option" where
  "parseRefreshFamilyId t =
     (case split_on (CHR ''.'') t of
        [prefix, family, secret] \<Rightarrow>
          if prefix = ''rt'' \<and> is_family_id family then Some family else None
      | _ \<Rightarrow> None)"

subsection \<open>PKCE\<close>

definition is_verifier_char :: "char \<Rightarrow> bool" where
  "is_verifier_char c = (is_alpha c \<or> is_digit c \<or> c \<in> {CHR ''.'', CHR ''_'', CHR ''~'', CHR ''-''})"

definition pkceChallenge :: "string \<Rightarrow> string" where
  "pkceChallenge v = base64url (sha256 (utf8 v))"

definition verifyPkceS256 :: "string \<Rightarrow> string \<Rightarrow> bool" where
  "verifyPkceS256 v challenge =
     (43 \<le> length v \<and> length v \<le> 128 \<and> list_all is_verifier_char v
      \<and> length challenge = 43 \<and> list_all is_base64url challenge
      \<and> length (pkceChallenge v) = length challenge \<and> pkceChallenge v = challenge)"

subsection \<open>Basic authentication\<close>

text \<open>
  \<open>decodeURIComponent\<close>: percent-encoded octets must be the UTF-8 of code points; every other code
  unit stands for itself, and a lone surrogate, which is its own three bytes here, passes through.
\<close>

definition hex_value :: "char \<Rightarrow> nat" where
  "hex_value c = (if is_digit c then byte c - 48 else if 97 \<le> byte c then byte c - 87 else byte c - 55)"

fun pct_octets :: "nat \<Rightarrow> string \<Rightarrow> (nat list \<times> string) option" where
  "pct_octets 0 s = Some ([], s)"
| "pct_octets (Suc n) (p # h # l # s) =
     (if p = CHR ''%'' \<and> is_hex h \<and> is_hex l
      then (case pct_octets n s of None \<Rightarrow> None
            | Some (bs, t) \<Rightarrow> Some ((hex_value h * 16 + hex_value l) # bs, t))
      else None)"
| "pct_octets (Suc n) s = None"

definition continuation :: "nat \<Rightarrow> bool" where
  "continuation b = (0x80 \<le> b \<and> b \<le> 0xBF)"

definition utf8_extra :: "nat \<Rightarrow> nat option" where
  "utf8_extra b = (if b < 0x80 then Some 0 else if 0xC2 \<le> b \<and> b \<le> 0xDF then Some 1
                   else if 0xE0 \<le> b \<and> b \<le> 0xEF then Some 2 else if 0xF0 \<le> b \<and> b \<le> 0xF4 then Some 3 else None)"

definition utf8_tail_ok :: "nat \<Rightarrow> nat list \<Rightarrow> bool" where
  "utf8_tail_ok b bs =
     (list_all continuation bs
      \<and> (case bs of [] \<Rightarrow> True | c # _ \<Rightarrow>
           (b = 0xE0 \<longrightarrow> 0xA0 \<le> c) \<and> (b = 0xED \<longrightarrow> c \<le> 0x9F) \<and> (b = 0xF0 \<longrightarrow> 0x90 \<le> c) \<and> (b = 0xF4 \<longrightarrow> c \<le> 0x8F)))"

lemma pct_octets_length: "pct_octets n s = Some (bs, t) \<Longrightarrow> length t + 3 * n = length s"
  by (induction n s arbitrary: bs t rule: pct_octets.induct) (auto split: if_split_asm option.split_asm)

function decodeURIComponent :: "string \<Rightarrow> string option" where
  "decodeURIComponent s =
     (case s of
        [] \<Rightarrow> Some []
      | c # t \<Rightarrow>
          if c \<noteq> CHR ''%'' then map_option ((#) c) (decodeURIComponent t)
          else (case pct_octets 1 s of
                  Some ([b], t1) \<Rightarrow>
                    (case utf8_extra b of
                       None \<Rightarrow> None
                     | Some k \<Rightarrow>
                         (case pct_octets k t1 of
                            None \<Rightarrow> None
                          | Some (bs, t2) \<Rightarrow>
                              if utf8_tail_ok b bs
                              then map_option ((@) (map char_of (b # bs))) (decodeURIComponent t2) else None))
                | _ \<Rightarrow> None))"
  by pat_completeness auto
termination
  by (relation "measure length") (auto dest!: pct_octets_length)

declare decodeURIComponent.simps [simp del]

definition formUrlDecode :: "string \<Rightarrow> string option" where
  "formUrlDecode v = decodeURIComponent (map (\<lambda>c. if c = CHR ''+'' then CHR '' '' else c) v)"

definition is_base64_text :: "char \<Rightarrow> bool" where
  "is_base64_text c = (is_alpha c \<or> is_digit c \<or> c \<in> {CHR ''+'', CHR ''/'', CHR ''=''})"

text \<open>\<open>/^basic\s+([A-Za-z0-9+/=]+)\s*$/i\<close> on the trimmed header: the payload, if it matches.\<close>

definition basic_payload :: "string \<Rightarrow> string option" where
  "basic_payload h =
     (let t = trim h; rest = drop 5 t; payload = trim_start rest
      in if map ascii_lower_char (take 5 t) = ''basic'' \<and> ws_len rest \<noteq> 0
            \<and> payload \<noteq> [] \<and> list_all is_base64_text payload
         then Some payload else None)"

fun split_first :: "char \<Rightarrow> string \<Rightarrow> (string \<times> string) option" where
  "split_first c [] = None"
| "split_first c (d # s) =
     (if d = c then Some ([], s) else map_option (\<lambda>(a, b). (d # a, b)) (split_first c s))"

definition parseBasicAuth :: "(string \<Rightarrow> string) \<Rightarrow> string option \<Rightarrow> (string \<times> string) option" where
  "parseBasicAuth decodeBase64 header =
     (case header of
        None \<Rightarrow> None
      | Some h \<Rightarrow>
          (case basic_payload h of
             None \<Rightarrow> None
           | Some p \<Rightarrow>
               (case split_first (CHR '':'') (decodeBase64 p) of
                  None \<Rightarrow> None
                | Some (i, sec) \<Rightarrow>
                    (case (formUrlDecode i, formUrlDecode sec) of
                       (Some clientId, Some clientSecret) \<Rightarrow> Some (clientId, clientSecret)
                     | _ \<Rightarrow> None))))"

definition isBasicAttempt :: "string option \<Rightarrow> bool" where
  "isBasicAttempt header =
     (case header of
        None \<Rightarrow> False
      | Some h \<Rightarrow>
          (let t = trim h in
           map ascii_lower_char (take 5 t) = ''basic''
           \<and> (case drop 5 t of [] \<Rightarrow> length t = 5 | c # _ \<Rightarrow> c = CHR '' '' \<or> byte c = 9)))"

subsection \<open>Properties of tokens and PKCE\<close>

lemma length_sha256Hex [simp]: "length (sha256Hex v) = 64"
  by (simp add: sha256Hex_def)

lemma sha256Hex_hex: "list_all is_hex (sha256Hex v)"
  using hex_text_hex [of "sha256 (utf8 v)"] by (auto simp: sha256Hex_def list_all_iff is_hex_def)

lemma base64url_no_dot: "list_all is_base64url s \<Longrightarrow> CHR ''.'' \<notin> set s"
  by (auto simp: list_all_iff is_base64url_def is_alpha_def is_digit_def byte_def dest!: bspec)

lemma parse_refresh_token_text:
  "parseRefreshFamilyId (refresh_token_text f b) = (if is_family_id f then Some f else None)"
  if "CHR ''.'' \<notin> set f"
proof -
  have "split_on (CHR ''.'') (''rt'' @ CHR ''.'' # (f @ CHR ''.'' # base64url b)) = [''rt'', f, base64url b]"
    using that base64url_no_dot [OF base64url_ok [of b]]
      split_on_append [of "CHR ''.''" "''rt''" "f @ CHR ''.'' # base64url b"]
    by (simp add: split_on_append split_on_no_sep)
  then show ?thesis by (simp add: parseRefreshFamilyId_def refresh_token_text_def)
qed

lemma parseRefreshFamilyId_Some: "parseRefreshFamilyId t = Some f \<Longrightarrow> is_family_id f \<and> CHR ''.'' \<notin> set f"
  by (auto simp: parseRefreshFamilyId_def is_family_id_def base64url_no_dot split: list.split_asm if_split_asm)

lemma generateRefreshToken_Inr:
  "generateRefreshToken fo rf rt = Inr t \<longleftrightarrow>
     (\<exists>f b. (case fo of Some f' \<Rightarrow> f = f' | None \<Rightarrow> \<exists>fb. rf = RandomBytes fb \<and> length fb = 18 \<and> f = base64url fb)
        \<and> rt = RandomBytes b \<and> length b = 32 \<and> t = refresh_token_text f b)"
  by (auto simp: generateRefreshToken_def generateRefreshFamilyId_def result_simps randomBytesFrom_Inr split: option.splits)

lemma new_family_parses:
  assumes "generateRefreshToken None rf rt = Inr t"
  shows "\<exists>f. parseRefreshFamilyId t = Some f"
proof -
  from assms obtain fb b where fb: "length fb = 18" and t: "t = refresh_token_text (base64url fb) b"
    by (auto simp: generateRefreshToken_Inr)
  have "is_family_id (base64url fb)" using fb base64url_ok by (simp add: is_family_id_def length_base64url)
  then show ?thesis using base64url_no_dot [OF base64url_ok] by (simp add: t parse_refresh_token_text)
qed

text \<open>
  A refresh token always names its own family: the token of a new family parses to a family
  identifier, and a successor generated for the family a token parses to parses to the same family.
  So the rotation of a token the library issued never loses track of the family to revoke.
\<close>

theorem refresh_token_family_roundtrip:
  "(case generateRefreshToken None rf rt of Inl _ \<Rightarrow> True | Inr t \<Rightarrow> parseRefreshFamilyId t \<noteq> None)
   \<and> (case parseRefreshFamilyId t0 of None \<Rightarrow> True
      | Some f \<Rightarrow> (case generateRefreshToken (Some f) rf rt of Inl _ \<Rightarrow> True
                   | Inr t \<Rightarrow> parseRefreshFamilyId t = Some f))"
  using new_family_parses [of rf rt] parseRefreshFamilyId_Some [of t0]
  by (auto simp: generateRefreshToken_Inr parse_refresh_token_text split: sum.split option.split)

lemma pkceChallenge_form: "length (pkceChallenge v) = 43 \<and> list_all is_base64url (pkceChallenge v)"
  by (simp add: pkceChallenge_def length_base64url base64url_ok)

text \<open>
  PKCE accepts a verifier for a challenge exactly when the verifier is 43 to 128 unreserved
  characters and the challenge is the base64url SHA-256 digest of it. In particular every well-formed
  verifier is accepted for its own challenge, and no other challenge.
\<close>

theorem verifyPkceS256_iff:
  "verifyPkceS256 v challenge \<longleftrightarrow>
     43 \<le> length v \<and> length v \<le> 128 \<and> list_all is_verifier_char v \<and> challenge = base64url (sha256 (utf8 v))"
  using pkceChallenge_form [of v] by (auto simp: verifyPkceS256_def pkceChallenge_def)

lemma decodeURIComponent_plain: "CHR ''%'' \<notin> set s \<Longrightarrow> decodeURIComponent s = Some s"
proof (induction s)
  case (Cons c s)
  then have "c \<noteq> CHR ''%''" by auto
  with Cons show ?case by (simp add: decodeURIComponent.simps [of "c # s"])
qed (simp add: decodeURIComponent.simps [of "[]"])

lemma formUrlDecode_plain:
  assumes "CHR ''%'' \<notin> set s" and "CHR ''+'' \<notin> set s"
  shows "formUrlDecode s = Some s"
proof -
  have "map (\<lambda>c. if c = CHR ''+'' then CHR '' '' else c) s = s"
    using assms(2) by (induction s) auto
  then show ?thesis using assms(1) by (simp add: formUrlDecode_def decodeURIComponent_plain)
qed

lemma split_first_append: "c \<notin> set a \<Longrightarrow> split_first c (a @ c # b) = Some (a, b)"
  by (induction a) auto

lemma base64_text_graphic: "is_base64_text c \<Longrightarrow> graphic c"
  by (auto simp: is_base64_text_def graphic_def is_alpha_def is_digit_def byte_def)

lemma verifier_no_special:
  "list_all is_verifier_char s \<Longrightarrow> CHR ''%'' \<notin> set s \<and> CHR ''+'' \<notin> set s \<and> CHR '':'' \<notin> set s"
proof -
  have "\<not> is_verifier_char (CHR ''%'')" "\<not> is_verifier_char (CHR ''+'')" "\<not> is_verifier_char (CHR '':'')"
    by (simp_all add: is_verifier_char_def is_alpha_def is_digit_def byte_def)
  then show "list_all is_verifier_char s \<Longrightarrow> ?thesis" by (auto simp: list_all_iff)
qed

lemma trim_basic:
  assumes "p \<noteq> []" and "list_all graphic p"
  shows "trim (''Basic '' @ p) = ''Basic '' @ p"
proof -
  have s: "trim_start (''Basic '' @ p) = ''Basic '' @ p"
    by (simp add: trim_start_graphic graphic_def byte_def)
  obtain d u where du: "rev p = d # u" using assms(1) by (cases "rev p") auto
  have "d \<in> set p" using du by (metis list.set_intros(1) set_rev)
  with assms(2) have "graphic d" by (auto simp: list_all_iff)
  then have "rtrim_start (rev p @ rev ''Basic '') = rev p @ rev ''Basic ''"
    using du by (simp add: rtrim_start_graphic)
  with s show ?thesis by (simp add: trim_def)
qed

lemma basic_scheme:
  "map ascii_lower_char ''Basic'' = ''basic''" "take 5 (''Basic '' @ p) = ''Basic''" "drop 5 (''Basic '' @ p) = CHR '' '' # p"
  "take 5 (CHR ''B'' # CHR ''a'' # CHR ''s'' # CHR ''i'' # CHR ''c'' # q) = ''Basic''"
  "drop 5 (CHR ''B'' # CHR ''a'' # CHR ''s'' # CHR ''i'' # CHR ''c'' # q) = q"
  "[ascii_lower_char CHR ''B'', ascii_lower_char CHR ''a'', ascii_lower_char CHR ''s'', ascii_lower_char CHR ''i'',
    ascii_lower_char CHR ''c''] = ''basic''"
proof -
  show "map ascii_lower_char ''Basic'' = ''basic''" by code_simp
  then show "[ascii_lower_char CHR ''B'', ascii_lower_char CHR ''a'', ascii_lower_char CHR ''s'',
     ascii_lower_char CHR ''i'', ascii_lower_char CHR ''c''] = ''basic''" by (simp only: list.map)
qed (simp_all add: numeral_eq_Suc)

lemma basic_payload_header:
  assumes "p \<noteq> []" and "list_all is_base64_text p"
  shows "basic_payload (''Basic '' @ p) = Some p"
proof -
  have g: "list_all graphic p" using assms(2) by (auto simp: list_all_iff base64_text_graphic)
  obtain c q where c: "p = c # q" using assms(1) by (cases p) auto
  have "trim_start (CHR '' '' # p) = p"
    using g by (simp add: c trim_start.simps [of "CHR '' '' # c # q"] trim_start_graphic)
  then show ?thesis
    using assms trim_basic [OF assms(1) g] by (simp add: basic_payload_def Let_def basic_scheme)
qed

text \<open>
  Basic credentials made of unreserved characters survive the header: when the base64 decoder
  gives back \<open>id:secret\<close> for a payload, a header \<open>Basic payload\<close> parses to exactly that pair, and is
  recognised as a Basic attempt. The identifiers and secrets the library mints are of this form.
\<close>

theorem parseBasicAuth_plain:
  assumes "p \<noteq> []" and "list_all is_base64_text p" and "decodeBase64 p = clientId @ CHR '':'' # clientSecret"
    and "list_all is_verifier_char clientId" and "list_all is_verifier_char clientSecret"
  shows "parseBasicAuth decodeBase64 (Some (''Basic '' @ p)) = Some (clientId, clientSecret)
         \<and> isBasicAttempt (Some (''Basic '' @ p))"
proof -
  have g: "list_all graphic p" using assms(2) by (auto simp: list_all_iff base64_text_graphic)
  have "isBasicAttempt (Some (''Basic '' @ p))"
    using trim_basic [OF assms(1) g] basic_scheme by (simp add: isBasicAttempt_def Let_def)
  moreover have "formUrlDecode clientId = Some clientId" "formUrlDecode clientSecret = Some clientSecret"
    using verifier_no_special [OF assms(4)] verifier_no_special [OF assms(5)] by (simp_all add: formUrlDecode_plain)
  ultimately show ?thesis
    using verifier_no_special [OF assms(4)] basic_payload_header [OF assms(1,2)]
    by (simp add: parseBasicAuth_def assms(3) split_first_append)
qed

theorem parseBasicAuth_plain_witness:
  "parseBasicAuth (\<lambda>p. if p = ''bWNjX2E6bWNzX2I='' then ''mcc_a:mcs_b'' else []) (Some ''Basic bWNjX2E6bWNzX2I='')
   = Some (''mcc_a'', ''mcs_b'')"
proof -
  have "list_all is_base64_text ''bWNjX2E6bWNzX2I=''" and "list_all is_verifier_char ''mcc_a''"
    and "list_all is_verifier_char ''mcs_b''"
    by (simp_all add: is_base64_text_def is_verifier_char_def is_alpha_def is_digit_def byte_def)
  from parseBasicAuth_plain [OF _ this(1) _ this(2,3),
      of "\<lambda>p. if p = ''bWNjX2E6bWNzX2I='' then ''mcc_a:mcs_b'' else []"]
  show ?thesis by simp
qed

end
