(* ===== verification/Tasks.thy ===== *)
theory Tasks
  imports Store_Families Credentials
begin

section \<open>Use-cases as programs over ports\<close>

text \<open>
  A use-case awaits its ports: between two awaits other requests run. It is a \<open>task\<close>, a program that
  asks a port and goes on with the reply, so that the interleavings of concurrent requests are the
  schedules of their tasks. A port is any implementation: its reply is an untyped value, or the
  error it threw. Reading the clock and drawing random bytes are effects as well; an audit event is
  a record of the run and never its outcome, which is what \<open>src/audit/best-effort.ts\<close> is for.
\<close>

record mutation_audit =
  ma_occurredAt :: string
  ma_event :: string
  ma_clientId :: string
  ma_scopes :: "string list"
  ma_resource :: string

datatype port_call =
    StorePort store_call
  | FindClient string
  | SaveClient jsval
  | ResolveMutationMethods
  | CreateMachineClient jsval mutation_audit
  | SwapMachineClient int jsval mutation_audit
  | ResolveCimd string string "string option"
  | CheckRate string
  | VerifyIdentity jsval
  | BeginPairing
  | VerifyPairing jsval
  | BuildAuthorizationUrl jsval
  | ExchangeUpstream jsval
  | CompleteIdentity jsval

record audit_event =
  ae_event :: string
  ae_status :: string
  ae_occurredAt :: string
  ae_clientId :: "string option"
  ae_subject :: "string option"
  ae_resource :: "string option"
  ae_scopes :: "string list option"
  ae_redirectHost :: "string option"
  ae_reason :: "string option"
  ae_ip :: "string option"
  ae_selectedClientAuthMethod :: "string option"

datatype 'a task =
    Return 'a
  | Ask port_call "jsval outcome \<Rightarrow> 'a task"
  | Now "clock_reading \<Rightarrow> 'a task"
  | Draw "random_reply \<Rightarrow> 'a task"
  | Audit audit_event "'a task"

type_synonym 'a io = "'a outcome task"

primrec bind_task :: "'a task \<Rightarrow> ('a \<Rightarrow> 'b task) \<Rightarrow> 'b task" where
  "bind_task (Return x) f = f x"
| "bind_task (Ask c k) f = Ask c (\<lambda>r. bind_task (k r) f)"
| "bind_task (Now k) f = Now (\<lambda>r. bind_task (k r) f)"
| "bind_task (Draw k) f = Draw (\<lambda>r. bind_task (k r) f)"
| "bind_task (Audit e t) f = Audit e (bind_task t f)"

text \<open>Sequencing of fallible tasks, \<open>try\<close>/\<open>catch\<close>, and lifting of a computed outcome.\<close>

definition andThen :: "'a io \<Rightarrow> ('a \<Rightarrow> 'b io) \<Rightarrow> 'b io" where
  "andThen m f = bind_task m (\<lambda>r. case r of Inl e \<Rightarrow> Return (Inl e) | Inr x \<Rightarrow> f x)"

definition catch :: "'a io \<Rightarrow> (failure \<Rightarrow> 'a io) \<Rightarrow> 'a io" where
  "catch m h = bind_task m (\<lambda>r. case r of Inl e \<Rightarrow> h e | Inr x \<Rightarrow> Return (Inr x))"

definition pass :: "'a \<Rightarrow> 'a io" where "pass x = Return (Inr x)"

definition fail :: "failure \<Rightarrow> 'a io" where "fail e = Return (Inl e)"

definition check :: "bool \<Rightarrow> failure \<Rightarrow> unit io" where
  "check b e = (if b then pass () else fail e)"

text \<open>
  \<open>callPort(port, operation, async () => read(await call))\<close>: the reply is read inside the boundary, and
  whatever the port or the reading throws is wrapped.
\<close>

definition askPort :: "string \<Rightarrow> string \<Rightarrow> port_call \<Rightarrow> (jsval \<Rightarrow> 'a outcome) \<Rightarrow> 'a io" where
  "askPort port op c read = Ask c (\<lambda>r. Return (callPort port op (chain r read)))"

definition readClock :: "int \<Rightarrow> int io" where
  "readClock futureOffsetMs = Now (\<lambda>r. Return (finiteClockSnapshot r futureOffsetMs))"

lemma andThen_simps [simp]:
  "andThen (Return (Inl e)) f = Return (Inl e)"
  "andThen (Return (Inr x)) f = f x"
  "andThen (Ask c k) f = Ask c (\<lambda>r. andThen (k r) f)"
  "andThen (Now kn) f = Now (\<lambda>r. andThen (kn r) f)"
  "andThen (Draw kd) f = Draw (\<lambda>r. andThen (kd r) f)"
  "andThen (Audit ae t) f = Audit ae (andThen t f)"
  by (simp_all add: andThen_def)

lemma catch_simps [simp]:
  "catch (Return (Inl e)) h = h e"
  "catch (Return (Inr x)) h = Return (Inr x)"
  "catch (Ask c k) h = Ask c (\<lambda>r. catch (k r) h)"
  "catch (Now kn) h = Now (\<lambda>r. catch (kn r) h)"
  "catch (Draw kd) h = Draw (\<lambda>r. catch (kd r) h)"
  "catch (Audit ae t) h = Audit ae (catch t h)"
  by (simp_all add: catch_def)

subsection \<open>Environments and schedules\<close>

text \<open>An environment: how the ports, the clock and the random source answer in a world \<open>'w\<close>.\<close>

record 'w env =
  on_call :: "port_call \<Rightarrow> 'w \<Rightarrow> jsval outcome \<times> 'w"
  on_clock :: "'w \<Rightarrow> clock_reading \<times> 'w"
  on_random :: "'w \<Rightarrow> random_reply \<times> 'w"

type_synonym trace = "(port_call \<times> jsval outcome) list"

text \<open>One effect of a task.\<close>

fun advance :: "'w env \<Rightarrow> 'a task \<Rightarrow> 'w \<Rightarrow> 'a task \<times> trace \<times> 'w" where
  "advance env (Return x) w = (Return x, [], w)"
| "advance env (Ask c k) w = (let (r, w') = on_call env c w in (k r, [(c, r)], w'))"
| "advance env (Now k) w = (let (r, w') = on_clock env w in (k r, [], w'))"
| "advance env (Draw k) w = (let (r, w') = on_random env w in (k r, [], w'))"
| "advance env (Audit e t) w = (t, [], w)"

text \<open>A schedule picks the task to advance at each step.\<close>

fun interleave :: "'w env \<Rightarrow> nat list \<Rightarrow> 'a task list \<Rightarrow> 'w \<Rightarrow> 'a task list \<times> trace \<times> 'w" where
  "interleave env [] ts w = (ts, [], w)"
| "interleave env (i # picks) ts w =
     (if i < length ts
      then (let (t, tr, w') = advance env (ts ! i) w;
                (ts', tr', w'') = interleave env picks (ts[i := t]) w'
            in (ts', tr @ tr', w''))
      else interleave env picks ts w)"

text \<open>Running one task alone to its end; it exists because a task is a finite-depth tree.\<close>

primrec perform :: "'w env \<Rightarrow> 'a task \<Rightarrow> 'w \<Rightarrow> 'a \<times> trace \<times> audit_event list \<times> 'w" where
  "perform env (Return x) w = (x, [], [], w)"
| "perform env (Ask c k) w =
     (let (r, w') = on_call env c w; (x, tr, au, w'') = perform env (k r) w' in (x, (c, r) # tr, au, w''))"
| "perform env (Now k) w = (let (r, w') = on_clock env w in perform env (k r) w')"
| "perform env (Draw k) w = (let (r, w') = on_random env w in perform env (k r) w')"
| "perform env (Audit e t) w = (let (x, tr, au, w') = perform env t w in (x, tr, e # au, w'))"

subsection \<open>Results that cost a call\<close>

text \<open>
  \<open>free_win hit good t\<close>: some replies lead the task to a good result without a call that hits. When a
  task is not free, its good result is paid for by a hit of its own.
\<close>

inductive free_win :: "(port_call \<Rightarrow> jsval outcome \<Rightarrow> bool) \<Rightarrow> ('a \<Rightarrow> bool) \<Rightarrow> 'a task \<Rightarrow> bool"
  for hit good where
  "good x \<Longrightarrow> free_win hit good (Return x)"
| "\<not> hit c r \<Longrightarrow> free_win hit good (k r) \<Longrightarrow> free_win hit good (Ask c k)"
| "free_win hit good (k r) \<Longrightarrow> free_win hit good (Now k)"
| "free_win hit good (k r) \<Longrightarrow> free_win hit good (Draw k)"
| "free_win hit good t \<Longrightarrow> free_win hit good (Audit e t)"

inductive_simps free_win_simps [simp]:
  "free_win hit good (Return x)"
  "free_win hit good (Ask c k)"
  "free_win hit good (Now kn)"
  "free_win hit good (Draw kd)"
  "free_win hit good (Audit e t)"

definition hits :: "(port_call \<Rightarrow> jsval outcome \<Rightarrow> bool) \<Rightarrow> trace \<Rightarrow> nat" where
  "hits hit tr = length (filter (\<lambda>(c, r). hit c r) tr)"

definition frees :: "(port_call \<Rightarrow> jsval outcome \<Rightarrow> bool) \<Rightarrow> ('a \<Rightarrow> bool) \<Rightarrow> 'a task list \<Rightarrow> nat" where
  "frees hit good ts = length (filter (free_win hit good) ts)"

lemma hits_append [simp]: "hits hit (tr @ tr') = hits hit tr + hits hit tr'"
  by (simp add: hits_def)

lemma advance_free:
  "advance env t w = (t', tr, w') \<Longrightarrow>
     (if free_win hit good t' then 1 else 0) \<le> (if free_win hit good t then 1 else 0) + hits hit tr"
  by (cases t) (auto simp: hits_def split: prod.split_asm)

lemma length_filter_update:
  "i < length xs \<Longrightarrow> length (filter P (xs[i := y])) + (if P (xs ! i) then 1 else 0)
     = length (filter P xs) + (if P y then 1 else 0)"
proof (induction xs arbitrary: i)
  case (Cons x xs)
  then show ?case by (cases i) (auto split: if_split_asm)
qed simp

lemma interleave_free:
  "interleave env picks ts w = (ts', tr, w') \<Longrightarrow> frees hit good ts' \<le> frees hit good ts + hits hit tr"
proof (induction picks arbitrary: ts w ts' tr w')
  case (Cons i picks)
  show ?case
  proof (cases "i < length ts")
    case False
    with Cons show ?thesis by simp
  next
    case True
    obtain t tr1 w1 where a: "advance env (ts ! i) w = (t, tr1, w1)" by (metis prod_cases3)
    obtain ts2 tr2 w2 where r: "interleave env picks (ts[i := t]) w1 = (ts2, tr2, w2)" by (metis prod_cases3)
    have eq: "ts' = ts2" "tr = tr1 @ tr2" using Cons.prems True a r by simp_all
    have "frees hit good (ts[i := t]) + (if free_win hit good (ts ! i) then 1 else 0)
        = frees hit good ts + (if free_win hit good t then 1 else 0)"
      unfolding frees_def using length_filter_update [OF True] .
    with Cons.IH [OF r] advance_free [OF a, of hit good] eq show ?thesis by (auto split: if_split_asm)
  qed
qed (simp add: hits_def)

text \<open>The same count for the world: what the calls of a trace add is paid for by the state.\<close>

lemma interleave_count:
  fixes potential :: "'w \<Rightarrow> nat"
  assumes call: "\<And>c w. (if hit c (fst (on_call env c w)) then 1 else 0) + potential (snd (on_call env c w))
      \<le> potential w + cost c"
    and clock: "\<And>w. potential (snd (on_clock env w)) \<le> potential w"
    and random: "\<And>w. potential (snd (on_random env w)) \<le> potential w"
  shows "interleave env picks ts w = (ts', tr, w') \<Longrightarrow>
     hits hit tr + potential w' \<le> potential w + sum_list (map (\<lambda>(c, r). cost c) tr)"
proof (induction picks arbitrary: ts w ts' tr w')
  case (Cons i picks)
  show ?case
  proof (cases "i < length ts")
    case False
    with Cons show ?thesis by simp
  next
    case True
    obtain t tr1 w1 where a: "advance env (ts ! i) w = (t, tr1, w1)" by (metis prod_cases3)
    obtain ts2 tr2 w2 where r: "interleave env picks (ts[i := t]) w1 = (ts2, tr2, w2)" by (metis prod_cases3)
    have eq: "w' = w2" "tr = tr1 @ tr2" using Cons.prems True a r by simp_all
    have "hits hit tr1 + potential w1 \<le> potential w + sum_list (map (\<lambda>(c, r). cost c) tr1)"
    proof (cases "ts ! i")
      case (Ask c k)
      with a call [of c w] show ?thesis by (auto simp: hits_def split: prod.split_asm)
    next
      case (Now k)
      with a clock [of w] show ?thesis by (auto simp: hits_def split: prod.split_asm)
    next
      case (Draw k)
      with a random [of w] show ?thesis by (auto simp: hits_def split: prod.split_asm)
    qed (use a in \<open>auto simp: hits_def\<close>)
    with Cons.IH [OF r] eq show ?thesis by simp
  qed
qed (simp add: hits_def)

end
