(* ===== verification/Port_Results.thy ===== *)
theory Port_Results
  imports Tasks
begin

section \<open>Snapshots of port results\<close>

text \<open>
  \<open>src/port-result.ts\<close>: what a port returns is untyped; each result is read once into a record of the
  library, inside the port boundary. At the end, the reference store as a port: its replies as the
  untyped values a caller sees, in a world that also holds a clock and a random source.
\<close>

definition port_type_error :: "string \<Rightarrow> failure" where
  "port_type_error m = Thrown ''TypeError'' m"

definition snapshotPortScopeCarrier :: "jsval \<Rightarrow> jsval outcome" where
  "snapshotPortScopeCarrier v =
     (case v of
        Arr xs \<Rightarrow> Inr (if length xs > MAX_SCOPE_ENTRIES then Null else Arr xs)
      | RevokedProxy \<Rightarrow> Inl proxy_type_error
      | _ \<Rightarrow> Inr v)"

fun all_strings :: "jsval list \<Rightarrow> string list option" where
  "all_strings [] = Some []"
| "all_strings (Str s # vs) = map_option ((#) s) (all_strings vs)"
| "all_strings (v # vs) = None"

definition snapshotStringArray :: "jsval \<Rightarrow> string list option outcome" where
  "snapshotStringArray v =
     chain (snapshotPortScopeCarrier v) (\<lambda>s.
       Inr (case s of Arr xs \<Rightarrow> all_strings xs | _ \<Rightarrow> None))"

definition requiredRecord :: "jsval \<Rightarrow> string \<Rightarrow> (string \<times> jsval) list outcome" where
  "requiredRecord v label =
     (case v of
        Obj kvs \<Rightarrow> Inr kvs
      | RevokedProxy \<Rightarrow> Inl proxy_type_error
      | _ \<Rightarrow> Inl (port_type_error (label @ '' must be an object'')))"

definition validGrantGeneration :: "jsval \<Rightarrow> bool" where
  "validGrantGeneration v = (v = Undefined \<or> v = Null \<or> positive_safe_int v)"

definition validIdentitySubject :: "jsval \<Rightarrow> bool" where
  "validIdentitySubject v = (case identitySubject v of Inl _ \<Rightarrow> False | Inr _ \<Rightarrow> True)"

definition str_of :: "jsval \<Rightarrow> string" where
  "str_of v = (case v of Str s \<Rightarrow> s | _ \<Rightarrow> [])"

definition nullable_nonempty :: "jsval \<Rightarrow> bool" where
  "nullable_nonempty v = (v = Null \<or> (\<exists>s. v = Str s \<and> s \<noteq> []))"

definition opt_str_of :: "jsval \<Rightarrow> string option" where
  "opt_str_of v = (case v of Str s \<Rightarrow> Some s | _ \<Rightarrow> None)"

definition nonEmptyString :: "jsval \<Rightarrow> bool" where
  "nonEmptyString v = (case v of Str s \<Rightarrow> s \<noteq> [] | _ \<Rightarrow> False)"

lemma nullable_nonempty_code [code]:
  "nullable_nonempty v = (case v of Null \<Rightarrow> True | Str s \<Rightarrow> s \<noteq> [] | _ \<Rightarrow> False)"
  by (cases v) (auto simp: nullable_nonempty_def)

text \<open>A malformed authorization code counts as absent; a malformed refresh token is an error.\<close>

definition snapshotAuthCodeRecord :: "jsval \<Rightarrow> SaveAuthCodeInput option outcome" where
  "snapshotAuthCodeRecord v =
     (if v = Null then Inr None
      else chain (requiredRecord v ''StorePort.consumeAuthCode result'') (\<lambda>kvs.
        chain (snapshotStringArray (own kvs ''scopes'')) (\<lambda>scopes.
        if nonEmptyString (own kvs ''codeHash'') \<and> nonEmptyString (own kvs ''clientId'')
           \<and> validIdentitySubject (own kvs ''subject'') \<and> nonEmptyString (own kvs ''redirectUri'')
           \<and> nonEmptyString (own kvs ''resource'') \<and> scopes \<noteq> None
           \<and> nonEmptyString (own kvs ''codeChallenge'') \<and> own kvs ''codeChallengeMethod'' = Str ''S256''
           \<and> nonEmptyString (own kvs ''expiresAt'') \<and> validGrantGeneration (own kvs ''grantGeneration'')
        then Inr (Some
          \<lparr>ac_codeHash = str_of (own kvs ''codeHash''), ac_clientId = str_of (own kvs ''clientId''),
           ac_subject = str_of (own kvs ''subject''), ac_redirectUri = str_of (own kvs ''redirectUri''),
           ac_resource = str_of (own kvs ''resource''), ac_scopes = the scopes,
           ac_codeChallenge = str_of (own kvs ''codeChallenge''), ac_codeChallengeMethod = ''S256'',
           ac_expiresAt = str_of (own kvs ''expiresAt''), ac_grantGeneration = own kvs ''grantGeneration''\<rparr>)
        else Inr None)))"

type_synonym RefreshSnapshot = "(string option, jsval) refresh_token"

definition snapshotRefreshTokenRecord :: "jsval \<Rightarrow> RefreshSnapshot option outcome" where
  "snapshotRefreshTokenRecord v =
     (if v = Null then Inr None
      else chain (requiredRecord v ''StorePort refresh-token result'') (\<lambda>kvs.
        chain (snapshotStringArray (own kvs ''scopes'')) (\<lambda>scopes.
        if nonEmptyString (own kvs ''tokenHash'') \<and> nonEmptyString (own kvs ''familyId'')
           \<and> nullable_nonempty (own kvs ''previousTokenHash'') \<and> nonEmptyString (own kvs ''clientId'')
           \<and> validIdentitySubject (own kvs ''subject'') \<and> nullable_nonempty (own kvs ''resource'')
           \<and> scopes \<noteq> None \<and> nonEmptyString (own kvs ''expiresAt'')
           \<and> validGrantGeneration (own kvs ''grantGeneration'')
        then Inr (Some
          \<lparr>tk_tokenHash = str_of (own kvs ''tokenHash''), tk_familyId = str_of (own kvs ''familyId''),
           tk_previousTokenHash = opt_str_of (own kvs ''previousTokenHash''),
           tk_clientId = str_of (own kvs ''clientId''), tk_subject = str_of (own kvs ''subject''),
           tk_resource = opt_str_of (own kvs ''resource''), tk_scopes = the scopes,
           tk_expiresAt = str_of (own kvs ''expiresAt''), tk_grantGeneration = own kvs ''grantGeneration''\<rparr>)
        else Inl (port_type_error ''StorePort returned a malformed refresh-token record''))))"

definition snapshotBoolean :: "jsval \<Rightarrow> bool outcome" where
  "snapshotBoolean v =
     (case v of Boolean b \<Rightarrow> Inr b
      | _ \<Rightarrow> Inl (port_type_error ''StorePort.consumeConsentJti must return a boolean''))"

definition consumeConsentJtiSnapshot :: "string \<Rightarrow> string \<Rightarrow> bool io" where
  "consumeConsentJtiSnapshot jti expiresAtIso =
     askPort ''StorePort'' ''consumeConsentJti'' (StorePort (Consume_jti jti expiresAtIso)) snapshotBoolean"

definition readGrantedScopeSnapshot ::
  "string \<Rightarrow> string \<Rightarrow> string \<Rightarrow> int option \<Rightarrow> string \<Rightarrow> jsval io" where
  "readGrantedScopeSnapshot sub client nowIso expected res =
     askPort ''StorePort'' ''findGrantedScopes'' (StorePort (Granted sub client nowIso expected (Some res)))
       snapshotPortScopeCarrier"

text \<open>A rotation whose reply is lost or unreadable may have committed: its family is revoked.\<close>

definition revokeFamily :: "string \<Rightarrow> string \<Rightarrow> string option \<Rightarrow> unit io" where
  "revokeFamily fid at er =
     askPort ''StorePort'' ''revokeRefreshTokenFamily'' (StorePort (Revoke_family fid at er)) (\<lambda>_. Inr ())"

definition rotateRefreshTokenSnapshot ::
  "string \<Rightarrow> SaveRefreshTokenInput \<Rightarrow> string \<Rightarrow> int option \<Rightarrow> string \<Rightarrow> string \<Rightarrow> RefreshSnapshot option io" where
  "rotateRefreshTokenSnapshot hash nxt at expected res fid =
     catch (askPort ''StorePort'' ''rotateRefreshToken'' (StorePort (Rotate_token hash nxt at expected (Some res)))
              snapshotRefreshTokenRecord)
       (\<lambda>e. andThen (revokeFamily fid at None) (\<lambda>_. fail e))"

subsection \<open>Identity results\<close>

datatype identity_result =
    Identified string jsval
  | Refused string

definition reason_of :: "jsval \<Rightarrow> string" where
  "reason_of v = (case v of Str s \<Rightarrow> s | _ \<Rightarrow> ''identity_rejected'')"

definition snapshotIdentityResult :: "jsval \<Rightarrow> identity_result outcome" where
  "snapshotIdentityResult v =
     chain (requiredRecord v ''IdentityPort.verify result'') (\<lambda>r.
       if own r ''ok'' = Boolean False then Inr (Refused (reason_of (own r ''reason'')))
       else if own r ''ok'' \<noteq> Boolean True
       then Inl (port_type_error ''IdentityPort.verify result must have an ok discriminant'')
       else chain (requiredRecord (own r ''identity'') ''IdentityPort.verify identity'') (\<lambda>i.
            chain (identitySubject (own i ''subject'')) (\<lambda>s.
            chain (snapshotPortScopeCarrier (own i ''allowedScopes'')) (\<lambda>a.
            Inr (Identified s a)))))"

datatype exchange_result =
    Exchanged string jsval
  | ExchangedClaims identityClaims
  | ExchangeFailed string string

definition snapshotRedirectExchangeResult ::
  "(num \<Rightarrow> string) \<Rightarrow> jsval \<Rightarrow> bool \<Rightarrow> exchange_result outcome" where
  "snapshotRedirectExchangeResult numText v includeClaims =
     chain (requiredRecord v ''RedirectIdentityPort.exchangeAndVerify result'') (\<lambda>r.
       if own r ''ok'' = Boolean True then
         chain (requiredRecord (own r ''identity'') ''redirect identity result'') (\<lambda>i.
           if includeClaims
           then chain (snapshotIdentityClaims numText (Obj i) True) (\<lambda>c. Inr (ExchangedClaims c))
           else chain (identitySubject (own i ''subject'')) (\<lambda>s.
                chain (snapshotPortScopeCarrier (own i ''allowedScopes'')) (\<lambda>a.
                Inr (Exchanged s a))))
       else if own r ''ok'' \<noteq> Boolean False
               \<or> (own r ''kind'' \<noteq> Str ''exchange_failed'' \<and> own r ''kind'' \<noteq> Str ''identity_rejected'')
       then Inl (port_type_error ''redirect identity result must have a valid discriminant'')
       else Inr (ExchangeFailed (str_of (own r ''kind'')) (reason_of (own r ''reason''))))"

subsection \<open>The reference store as a port\<close>

definition code_value :: "AuthCodeRecord \<Rightarrow> jsval" where
  "code_value r = Obj
     [(''codeHash'', Str (ac_codeHash r)), (''clientId'', Str (ac_clientId r)), (''subject'', Str (ac_subject r)),
      (''redirectUri'', Str (ac_redirectUri r)), (''resource'', Str (ac_resource r)),
      (''scopes'', Arr (map Str (ac_scopes r))), (''codeChallenge'', Str (ac_codeChallenge r)),
      (''codeChallengeMethod'', Str (ac_codeChallengeMethod r)), (''expiresAt'', Str (ac_expiresAt r)),
      (''grantGeneration'', generation_input (ac_grantGeneration r))]"

definition token_value :: "RefreshTokenRecord \<Rightarrow> jsval" where
  "token_value r = Obj
     [(''tokenHash'', Str (tk_tokenHash r)), (''familyId'', Str (tk_familyId r)),
      (''previousTokenHash'', resource_input (tk_previousTokenHash r)), (''clientId'', Str (tk_clientId r)),
      (''subject'', Str (tk_subject r)), (''resource'', resource_input (tk_resource r)),
      (''scopes'', Arr (map Str (tk_scopes r))), (''expiresAt'', Str (tk_expiresAt r)),
      (''grantGeneration'', generation_input (tk_grantGeneration r))]"

definition map_outcome :: "('a \<Rightarrow> 'b) \<Rightarrow> 'a outcome \<Rightarrow> 'b outcome" where
  "map_outcome f m = chain m (\<lambda>x. Inr (f x))"

fun commit_text :: "ConsentApprovalCommitResult \<Rightarrow> string" where
  "commit_text Stored = ''stored''"
| "commit_text Replayed = ''replayed''"
| "commit_text Binding_mismatch = ''binding_mismatch''"

fun reply_value :: "store_reply \<Rightarrow> jsval outcome" where
  "reply_value (Identity m) = map_outcome Str m"
| "reply_value (Committed m) = map_outcome (\<lambda>c. Str (commit_text c)) m"
| "reply_value (Done m) = map_outcome (\<lambda>_. Undefined) m"
| "reply_value (Redeemed m) = map_outcome (\<lambda>r. case r of None \<Rightarrow> Null | Some c \<Rightarrow> code_value c) m"
| "reply_value (Fresh m) = map_outcome Boolean m"
| "reply_value (Token m) = map_outcome (\<lambda>r. case r of None \<Rightarrow> Null | Some t \<Rightarrow> token_value t) m"
| "reply_value (Scopes m) = map_outcome (\<lambda>ss. Arr (map Str ss)) m"

text \<open>
  A world with the reference store: other ports answer by a fixed function, the clock and the random
  source read a list and stay at its last element.
\<close>

record world =
  w_store :: memory_store
  w_clock :: "clock_reading list"
  w_random :: "random_reply list"

definition next_of :: "'a \<Rightarrow> 'a list \<Rightarrow> 'a \<times> 'a list" where
  "next_of d xs = (case xs of [] \<Rightarrow> (d, []) | [x] \<Rightarrow> (x, [x]) | x # ys \<Rightarrow> (x, ys))"

definition memory_env :: "(port_call \<Rightarrow> jsval outcome) \<Rightarrow> world env" where
  "memory_env other =
     \<lparr>on_call = (\<lambda>c w. case c of
         StorePort sc \<Rightarrow> (let (r, s) = call sc (w_store w) in (reply_value r, w\<lparr>w_store := s\<rparr>))
       | _ \<Rightarrow> (other c, w)),
      on_clock = (\<lambda>w. let (r, xs) = next_of ClockThrows (w_clock w) in (r, w\<lparr>w_clock := xs\<rparr>)),
      on_random = (\<lambda>w. let (r, xs) = next_of RandomOther (w_random w) in (r, w\<lparr>w_random := xs\<rparr>))\<rparr>"

lemma all_strings_map [simp]: "all_strings (map Str ss) = Some ss"
  by (induction ss) auto

lemma all_strings_iff: "all_strings vs = Some ss \<longleftrightarrow> vs = map Str ss"
  by (induction vs arbitrary: ss rule: all_strings.induct) auto

lemma askPort_simp:
  "andThen (askPort p op c read) f =
     Ask c (\<lambda>r. case callPort p op (chain r read) of Inl e \<Rightarrow> Return (Inl e) | Inr x \<Rightarrow> f x)"
  by (auto simp: askPort_def andThen_def fun_eq_iff split: sum.split)

end
