(* ===== verification/Redirect_Entry.thy ===== *)
theory Redirect_Entry
  imports Identity_Boundary
begin

section \<open>The grammar of redirect entries\<close>

text \<open>
  \<open>src/redirect-entry.ts\<close>: every configured, registered, stored or presented redirect URI passes this
  one grammar, which decides on the raw bytes and then requires that the WHATWG parser would not
  rewrite them. \<open>new URL\<close> is a parameter \<open>parseUrl\<close>: \<open>None\<close> when it throws, otherwise the components
  of the parsed URL (\<open>protocol\<close> with its colon, \<open>host\<close> with its port, brackets kept around IPv6).
\<close>

record url =
  url_href :: string
  url_protocol :: string
  url_hostname :: string
  url_host :: string
  url_pathname :: string
  url_search :: string
  url_origin :: string

type_synonym url_parser = "string \<Rightarrow> url option"

datatype RedirectEntryForm = Origin_form | Exact_uri

record redirect_entry =
  re_raw :: string
  re_url :: url
  re_form :: RedirectEntryForm
  re_hasExplicitPort :: bool

text \<open>A rejection: the reason and, for a spelling that is only not canonical, the canonical one.\<close>

type_synonym entry_problem = "string \<times> string option"

definition LOOPBACK_HOSTS :: "string list" where
  "LOOPBACK_HOSTS = [''localhost'', ''127.0.0.1'', ''[::1]'']"

definition MAX_ENTRY_BYTES :: nat where
  "MAX_ENTRY_BYTES = 2048"

fun has_whitespace :: "string \<Rightarrow> bool" where
  "has_whitespace [] = False"
| "has_whitespace (c # s) = (ws_len (c # s) \<noteq> 0 \<or> has_whitespace s)"

definition is_control :: "char \<Rightarrow> bool" where
  "is_control c = (byte c \<le> 0x1F \<or> byte c = 0x7F)"

fun malformed_percent :: "string \<Rightarrow> bool" where
  "malformed_percent [] = False"
| "malformed_percent (c # s) =
     (c = CHR ''%'' \<and> (case s of h # l # _ \<Rightarrow> \<not> (is_hex h \<and> is_hex l) | _ \<Rightarrow> True) \<or> malformed_percent s)"

fun percent_control :: "string \<Rightarrow> bool" where
  "percent_control (c # h # l # s) =
     (c = CHR ''%'' \<and> ((h = CHR ''0'' \<or> h = CHR ''1'') \<and> is_hex l \<or> h = CHR ''7'' \<and> ascii_lower_char l = CHR ''f'')
      \<or> percent_control (h # l # s))"
| "percent_control _ = False"

text \<open>\<open>value.indexOf(needle)\<close> from the left: what precedes the first occurrence and what follows it.\<close>

fun split_at :: "string \<Rightarrow> string \<Rightarrow> (string \<times> string) option" where
  "split_at needle [] = (if needle = [] then Some ([], []) else None)"
| "split_at needle (c # s) =
     (if startsWith (c # s) needle then Some ([], drop (length needle) (c # s))
      else map_option (\<lambda>(a, b). (c # a, b)) (split_at needle s))"

text \<open>The text between \<open>://\<close> and the next slash.\<close>

definition authority_of :: "string \<Rightarrow> (string \<times> string) option" where
  "authority_of v =
     (case split_at ''://'' v of
        None \<Rightarrow> None
      | Some (scheme, rest) \<Rightarrow> Some (scheme, takeWhile (\<lambda>c. c \<noteq> CHR ''/'') rest))"

definition is_scheme_char :: "char \<Rightarrow> bool" where
  "is_scheme_char c = (is_alpha c \<or> is_digit c \<or> c \<in> {CHR ''+'', CHR ''.'', CHR ''-''})"

definition port_follows :: "string \<Rightarrow> bool" where
  "port_follows s =
     (case s of
        [] \<Rightarrow> False
      | c # d \<Rightarrow> c = CHR '':'' \<and> takeWhile is_digit d \<noteq> []
                 \<and> (case dropWhile is_digit d of [] \<Rightarrow> True | e # _ \<Rightarrow> e = CHR ''/''))"

definition is_host_char :: "char \<Rightarrow> bool" where
  "is_host_char c = (c \<notin> {CHR '':'', CHR ''/'', CHR ''?'', CHR ''#''} \<and> \<not> ws1 (byte c))"

text \<open>
  \<open>/^[a-z][a-z0-9+.-]*:\/\/(?:\[[^\]]*\]|[^\s:/?#]+):\d+(?=\/|$)/iu\<close>; it is only asked of accepted
  spellings, which hold no white space.
\<close>

definition hasExplicitPort :: "string \<Rightarrow> bool" where
  "hasExplicitPort v =
     (let scheme = takeWhile is_scheme_char v; rest = dropWhile is_scheme_char v; r = drop 3 rest
      in scheme \<noteq> [] \<and> is_alpha (hd scheme) \<and> startsWith rest ''://''
         \<and> (startsWith r ''['' \<and> CHR '']'' \<in> set r \<and> port_follows (drop 1 (dropWhile (\<lambda>c. c \<noteq> CHR '']'') r))
            \<or> takeWhile is_host_char r \<noteq> [] \<and> port_follows (dropWhile is_host_char r)))"

definition classifyPath :: "url \<Rightarrow> entry_problem + RedirectEntryForm" where
  "classifyPath u =
     (if url_pathname u = ''/'' then Inr Origin_form
      else if list_ex (\<lambda>seg. seg \<noteq> []) (split_on (CHR ''/'') (url_pathname u)) then Inr Exact_uri
      else Inl (''path must contain a non-empty segment or be the root path'', None))"

definition reject :: "string \<Rightarrow> entry_problem + 'a" where
  "reject reason = Inl (reason, None)"

definition parseRedirectEntry :: "url_parser \<Rightarrow> bool \<Rightarrow> jsval \<Rightarrow> entry_problem + redirect_entry" where
  "parseRedirectEntry parseUrl allowOmittedRootSlash value =
     (case value of
        Str v \<Rightarrow>
          if length v > MAX_ENTRY_BYTES then reject (''must not exceed 2048 UTF-8 bytes'')
          else if v = [] then reject ''must not be empty''
          else if has_whitespace v then reject ''must not contain whitespace''
          else if list_ex is_control v then reject ''must not contain control characters''
          else if CHR ''*'' \<in> set v then reject (''must not contain '' @ [CHR 0x27, CHR ''*'', CHR 0x27])
          else if CHR 0x5C \<in> set v then reject ''must not contain backslashes''
          else if CHR ''?'' \<in> set v then reject ''must not contain a query delimiter''
          else if CHR ''#'' \<in> set v then reject ''must not contain a fragment delimiter''
          else if malformed_percent v then reject ''must not contain a malformed percent escape''
          else if percent_control v then reject ''must not percent-encode a C0 control or DEL byte''
          else (case authority_of v of
            None \<Rightarrow> reject ''must be an absolute http(s) URL''
          | Some (scheme, authority) \<Rightarrow>
            if scheme = [] then reject ''must be an absolute http(s) URL''
            else if CHR ''@'' \<in> set authority then reject ''must not contain userinfo''
            else (case parseUrl v of
              None \<Rightarrow> reject ''must be a parseable absolute URL''
            | Some u \<Rightarrow>
              if url_protocol u \<noteq> ''https:'' \<and> url_protocol u \<noteq> ''http:''
              then reject ''scheme must be https or loopback http''
              else if url_protocol u = ''http:'' \<and> url_hostname u \<notin> set LOOPBACK_HOSTS
              then reject ''http is allowed only on localhost, 127.0.0.1, or [::1]''
              else if endsWith (url_hostname u) ''.'' then reject ''host must not have a trailing dot''
              else chain (classifyPath u) (\<lambda>form.
                if v \<noteq> url_href u
                   \<and> \<not> (allowOmittedRootSlash \<and> form = Origin_form \<and> v @ ''/'' = url_href u)
                then Inl (''must use canonical WHATWG spelling'', Some (url_href u))
                else Inr \<lparr>re_raw = v, re_url = u, re_form = form, re_hasExplicitPort = hasExplicitPort v\<rparr>)))
      | _ \<Rightarrow> reject ''must be a primitive string'')"

definition redirectEntryProblem :: "url_parser \<Rightarrow> bool \<Rightarrow> jsval \<Rightarrow> entry_problem option" where
  "redirectEntryProblem parseUrl allow v =
     (case parseRedirectEntry parseUrl allow v of Inl p \<Rightarrow> Some p | Inr _ \<Rightarrow> None)"

definition isLoopbackRedirect :: "redirect_entry \<Rightarrow> bool" where
  "isLoopbackRedirect e = (url_hostname (re_url e) \<in> set LOOPBACK_HOSTS)"

subsection \<open>The message of a rejection\<close>

text \<open>\<open>s.slice(0, n)\<close> in UTF-16 units: a pair cut in half leaves its lead surrogate.\<close>

definition lead_surrogate :: "nat \<Rightarrow> nat \<Rightarrow> nat \<Rightarrow> nat \<Rightarrow> string" where
  "lead_surrogate a b c d =
     (let cp = (a mod 8) * 262144 + (b mod 64) * 4096 + (c mod 64) * 64 + d mod 64;
          hi = 0xD800 + (cp - 0x10000) div 1024
      in [char_of (0xED :: nat), char_of (0x80 + hi div 64 mod 64), char_of (0x80 + hi mod 64)])"

fun utf16_take :: "nat \<Rightarrow> string \<Rightarrow> string" where
  "utf16_take n [] = []"
| "utf16_take n (a # s) =
     (if utf16_units a = 0 then a # utf16_take n s
      else if utf16_units a \<le> n then a # utf16_take (n - utf16_units a) s
      else if n = 0 then []
      else (case s of b # c # d # _ \<Rightarrow> lead_surrogate (byte a) (byte b) (byte c) (byte d) | _ \<Rightarrow> []))"

text \<open>A function, symbol or bigint is named \<open>function\<close> here.\<close>

fun js_typeof :: "jsval \<Rightarrow> string" where
  "js_typeof Undefined = ''undefined''"
| "js_typeof (Boolean b) = ''boolean''"
| "js_typeof (Number x) = ''number''"
| "js_typeof (Str s) = ''string''"
| "js_typeof Opaque = ''function''"
| "js_typeof _ = ''object''"

definition ellipsis :: string where
  "ellipsis = map char_of [0xE2 :: nat, 0x80, 0xA6]"

definition messageFor :: "jsval \<Rightarrow> entry_problem \<Rightarrow> string" where
  "messageFor entry p =
     (let named = (case entry of
            Str s \<Rightarrow> json_quote (if utf16_length s \<le> 128 then s
                    else utf16_take 128 s @ ellipsis @ ''('' @ decimal (length s) @ '' bytes)'')
          | Null \<Rightarrow> ''<null>''
          | v \<Rightarrow> ''<'' @ js_typeof v @ ''>'')
      in ''redirect entry '' @ named @ '' '' @ fst p
         @ (case snd p of None \<Rightarrow> [] | Some c \<Rightarrow> ''; use '' @ json_quote c))"

subsection \<open>What the grammar accepts\<close>

definition clean_spelling :: "string \<Rightarrow> bool" where
  "clean_spelling v =
     (length v \<le> MAX_ENTRY_BYTES \<and> v \<noteq> [] \<and> \<not> has_whitespace v \<and> \<not> list_ex is_control v
      \<and> set v \<inter> {CHR ''*'', CHR 0x5C, CHR ''?'', CHR ''#''} = {}
      \<and> \<not> malformed_percent v \<and> \<not> percent_control v
      \<and> (\<exists>scheme authority. authority_of v = Some (scheme, authority) \<and> scheme \<noteq> [] \<and> CHR ''@'' \<notin> set authority))"

definition trusted_url :: "url \<Rightarrow> bool" where
  "trusted_url u =
     ((url_protocol u = ''https:'' \<or> url_protocol u = ''http:'' \<and> url_hostname u \<in> set LOOPBACK_HOSTS)
      \<and> \<not> endsWith (url_hostname u) ''.'')"

lemma parseRedirectEntry_Inr:
  "parseRedirectEntry parseUrl allow v = Inr e \<longleftrightarrow>
     (\<exists>s u form. v = Str s \<and> clean_spelling s \<and> parseUrl s = Some u \<and> trusted_url u
        \<and> classifyPath u = Inr form
        \<and> (s = url_href u \<or> allow \<and> form = Origin_form \<and> s @ ''/'' = url_href u)
        \<and> e = \<lparr>re_raw = s, re_url = u, re_form = form, re_hasExplicitPort = hasExplicitPort s\<rparr>)"
proof (cases v)
  case (Str s)
  show ?thesis
  proof (cases "clean_spelling s")
    case True
    then obtain scheme authority where "authority_of s = Some (scheme, authority)" "scheme \<noteq> []" "CHR ''@'' \<notin> set authority"
      by (auto simp: clean_spelling_def)
    with True Str show ?thesis
      by (auto simp: parseRedirectEntry_def clean_spelling_def reject_def trusted_url_def result_simps
          split: option.splits)
  next
    case False
    then show ?thesis
      using Str by (auto simp: parseRedirectEntry_def clean_spelling_def reject_def split: option.splits)
  qed
qed (simp_all add: parseRedirectEntry_def reject_def)

lemma classifyPath_origin: "classifyPath u = Inr Origin_form \<longleftrightarrow> url_pathname u = ''/''"
  by (auto simp: classifyPath_def)

text \<open>
  An accepted redirect entry is stored as the exact bytes that were checked: they are a
  bounded, clean spelling without white space, controls, wildcard, query, fragment or userinfo, and
  they are the WHATWG parser's own serialization (or that of an origin without its root slash where
  the allowlist permits it), so no later parse can read them differently; the scheme is https, or
  http on a loopback host.
\<close>

theorem redirect_entry_canonical:
  assumes "parseRedirectEntry parseUrl allow v = Inr e"
  shows "v = Str (re_raw e) \<and> clean_spelling (re_raw e) \<and> parseUrl (re_raw e) = Some (re_url e)
     \<and> trusted_url (re_url e)
     \<and> (re_raw e = url_href (re_url e)
        \<or> allow \<and> url_pathname (re_url e) = ''/'' \<and> re_raw e @ ''/'' = url_href (re_url e))
     \<and> (re_raw e = url_href (re_url e) \<longrightarrow> parseRedirectEntry parseUrl False (Str (re_raw e)) = Inr e)"
  using assms by (auto simp: parseRedirectEntry_Inr classifyPath_origin)

text \<open>A tiny parser for the witnesses: one https and one loopback URL.\<close>

definition demo_url :: "string \<Rightarrow> string \<Rightarrow> string \<Rightarrow> string \<Rightarrow> url" where
  "demo_url protocol host hostname path =
     \<lparr>url_href = protocol @ ''//'' @ host @ path, url_protocol = protocol, url_hostname = hostname, url_host = host,
      url_pathname = path, url_search = [], url_origin = protocol @ ''//'' @ host\<rparr>"

definition demo_parser :: url_parser where
  "demo_parser s =
     map_of [(''https://app.example/cb'', demo_url ''https:'' ''app.example'' ''app.example'' ''/cb''),
             (''https://app.example'', demo_url ''https:'' ''app.example'' ''app.example'' ''/''),
             (''https://claude.ai'', demo_url ''https:'' ''claude.ai'' ''claude.ai'' ''/''),
             (''https://chatgpt.com'', demo_url ''https:'' ''chatgpt.com'' ''chatgpt.com'' ''/''),
             (''http://localhost:9/cb'', demo_url ''http:'' ''localhost:9'' ''localhost'' ''/cb''),
             (''http://localhost/cb'', demo_url ''http:'' ''localhost'' ''localhost'' ''/cb'')] s"

theorem redirect_entry_canonical_witness:
  "trusted_url (demo_url ''https:'' ''app.example'' ''app.example'' ''/cb'')"
proof -
  have "parseRedirectEntry demo_parser False (Str ''https://app.example/cb'')
      = Inr \<lparr>re_raw = ''https://app.example/cb'', re_url = demo_url ''https:'' ''app.example'' ''app.example'' ''/cb'',
             re_form = Exact_uri, re_hasExplicitPort = False\<rparr>"
    by code_simp
  from redirect_entry_canonical [OF this] show ?thesis by simp
qed

end
