(* ===== verification/Redirects.thy ===== *)
theory Redirects
  imports Redirect_Entry
begin

section \<open>Redirect policies\<close>

text \<open>
  \<open>src/redirect.ts\<close>, \<open>src/client-registration.ts\<close>, \<open>src/config-url.ts\<close> and \<open>src/allowed-origin.ts\<close>:
  which presented redirect URI a configuration, a stored client or a registration admits, and the
  URL and origin grammars of the configuration.
\<close>

definition DEFAULT_ALLOWED_REDIRECT_ORIGINS :: "string list" where
  "DEFAULT_ALLOWED_REDIRECT_ORIGINS = [''https://claude.ai'', ''https://chatgpt.com'']"

datatype RedirectAllowlistMode = Extend | Replace

datatype ApplicationType = Native_app | Web_app | Machine_app

definition authConfigError :: "string \<Rightarrow> failure" where
  "authConfigError m = Thrown ''AuthConfigError'' m"

definition oauthEntry :: "url_parser \<Rightarrow> bool \<Rightarrow> jsval \<Rightarrow> redirect_entry outcome" where
  "oauthEntry parseUrl allow v =
     (case parseRedirectEntry parseUrl allow v of
        Inl p \<Rightarrow> Inl (oauth400 ''invalid_redirect_uri'' (messageFor v p))
      | Inr e \<Rightarrow> Inr e)"

definition globalMatch :: "redirect_entry \<Rightarrow> redirect_entry \<Rightarrow> bool" where
  "globalMatch entry presented =
     (if re_form entry = Exact_uri then re_raw entry = re_raw presented
      else isLoopbackRedirect entry \<and> \<not> re_hasExplicitPort entry
             \<and> url_protocol (re_url entry) = url_protocol (re_url presented)
             \<and> url_hostname (re_url entry) = url_hostname (re_url presented)
           \<or> url_origin (re_url entry) = url_origin (re_url presented))"

definition assertAllowedRedirectUri ::
  "url_parser \<Rightarrow> jsval \<Rightarrow> jsval list \<Rightarrow> RedirectAllowlistMode \<Rightarrow> string outcome" where
  "assertAllowedRedirectUri parseUrl value allowlist mode =
     chain (oauthEntry parseUrl False value) (\<lambda>presented.
     chain (collect (oauthEntry parseUrl True)
              ((if mode = Replace then [] else map Str DEFAULT_ALLOWED_REDIRECT_ORIGINS) @ allowlist)) (\<lambda>entries.
       if list_ex (\<lambda>e. globalMatch e presented) entries then Inr (re_raw presented)
       else Inl (oauth400 ''invalid_redirect_uri'' ''redirect_uri is not allowed'')))"

definition isNativeEntry :: "redirect_entry \<Rightarrow> bool" where
  "isNativeEntry e =
     (isLoopbackRedirect e \<and> (url_protocol (re_url e) = ''http:'' \<or> url_protocol (re_url e) = ''https:''))"

definition loopbackAnyPortMatch :: "redirect_entry \<Rightarrow> redirect_entry \<Rightarrow> bool" where
  "loopbackAnyPortMatch registered presented =
     (url_protocol (re_url registered) = ''http:'' \<and> url_protocol (re_url presented) = ''http:''
      \<and> url_hostname (re_url registered) = url_hostname (re_url presented)
      \<and> url_pathname (re_url registered) = url_pathname (re_url presented))"

subsection \<open>Stored clients\<close>

record client_registration =
  cr_clientId :: string
  cr_redirectUris :: "jsval list"
  cr_applicationType :: ApplicationType

definition applicationType_of :: "jsval \<Rightarrow> ApplicationType option" where
  "applicationType_of v =
     (if v = Str ''native'' then Some Native_app else if v = Str ''web'' then Some Web_app
      else if v = Str ''machine'' then Some Machine_app else None)"

text \<open>
  \<open>parseAuthorizationClientRegistration\<close>: any exception of an inspection, which is what a revoked
  proxy gives, counts as malformed.
\<close>

definition parseAuthorizationClientRegistration :: "jsval \<Rightarrow> string \<Rightarrow> client_registration option" where
  "parseAuthorizationClientRegistration value expectedClientId =
     (case value of
        Obj kvs \<Rightarrow>
          (case (applicationType_of (own kvs ''applicationType''), own kvs ''redirectUris'') of
             (Some t, Arr uris) \<Rightarrow>
               if own kvs ''clientId'' = Str expectedClientId
                  \<and> (if t = Machine_app then uris = [] else 1 \<le> length uris \<and> length uris \<le> 16)
               then Some \<lparr>cr_clientId = expectedClientId, cr_redirectUris = uris, cr_applicationType = t\<rparr>
               else None
           | _ \<Rightarrow> None)
      | _ \<Rightarrow> None)"

definition assertRedirectAllowedForClient ::
  "url_parser \<Rightarrow> jsval \<Rightarrow> client_registration \<Rightarrow> string outcome" where
  "assertRedirectAllowedForClient parseUrl redirectUri client =
     (if cr_applicationType client = Machine_app
      then Inl (oauthError ''invalid_client'' ''Machine clients cannot use the authorization-code flow'' 401)
      else chain (oauthEntry parseUrl False redirectUri) (\<lambda>presented.
        if length (cr_redirectUris client) < 1 \<or> length (cr_redirectUris client) > 16
        then Inl (oauth400 ''invalid_redirect_uri'' ''stored redirect_uris must contain 1..16 entries'')
        else chain (collect (oauthEntry parseUrl False) (cr_redirectUris client)) (\<lambda>registered.
          if cr_applicationType client = Web_app then
            (if url_protocol (re_url presented) \<noteq> ''https:''
                \<or> \<not> list_all (\<lambda>e. url_protocol (re_url e) = ''https:'') registered
                \<or> \<not> list_ex (\<lambda>e. re_raw e = re_raw presented) registered
             then Inl (oauth400 ''invalid_redirect_uri'' ''redirect_uri is not registered for this web client'')
             else Inr (re_raw presented))
          else if \<not> isNativeEntry presented \<or> \<not> list_all isNativeEntry registered
          then Inl (oauth400 ''invalid_redirect_uri'' ''native redirect_uri must be loopback'')
          else if \<not> list_ex (\<lambda>e. re_raw e = re_raw presented \<or> loopbackAnyPortMatch e presented) registered
          then Inl (oauth400 ''invalid_redirect_uri'' ''redirect_uri is not registered for this native client'')
          else Inr (re_raw presented))))"

definition assertOAuthRedirectEntry :: "url_parser \<Rightarrow> jsval \<Rightarrow> string outcome" where
  "assertOAuthRedirectEntry parseUrl v = chain (oauthEntry parseUrl False v) (\<lambda>e. Inr (re_raw e))"

definition assertRegistrationRedirectPolicy :: "url_parser \<Rightarrow> jsval \<Rightarrow> ApplicationType \<Rightarrow> string outcome" where
  "assertRegistrationRedirectPolicy parseUrl v t =
     chain (oauthEntry parseUrl False v) (\<lambda>entry.
       if t = Web_app \<and> url_protocol (re_url entry) \<noteq> ''https:''
       then Inl (oauth400 ''invalid_redirect_uri''
              (''redirect entry '' @ json_quote (re_raw entry) @ '' must use https for a web client''))
       else if t = Native_app \<and> \<not> isNativeEntry entry
       then Inl (oauth400 ''invalid_redirect_uri''
              (''redirect entry '' @ json_quote (re_raw entry) @ '' must be loopback for a native client''))
       else Inr (re_raw entry))"

subsection \<open>Issuer, resource and origins of a configuration\<close>

definition validateUrl :: "url_parser \<Rightarrow> bool \<Rightarrow> string \<Rightarrow> jsval \<Rightarrow> string outcome" where
  "validateUrl parseUrl allowInsecureLocalhost label value =
     (case value of
        Str v \<Rightarrow>
          (case parseUrl v of
             None \<Rightarrow> Inl (authConfigError (label @ '' must be an absolute URL''))
           | Some u \<Rightarrow>
               if url_protocol u \<noteq> ''https:'' \<and> url_protocol u \<noteq> ''http:''
               then Inl (authConfigError (label @ '' must be https:// or http://''))
               else if allowInsecureLocalhost \<and> url_hostname u \<notin> set LOOPBACK_HOSTS
               then Inl (authConfigError (''dev.allowInsecureLocalhost requires a loopback origin for '' @ label))
               else if \<not> allowInsecureLocalhost \<and> url_protocol u \<noteq> ''https:''
               then Inl (authConfigError (label @ '' must be https:// (use dev.allowInsecureLocalhost for local http)''))
               else if v \<noteq> url_href u \<and> v @ ''/'' \<noteq> url_href u
               then Inl (authConfigError (label @ '' must use canonical WHATWG spelling; use '' @ json_quote (url_href u)))
               else Inr v)
      | _ \<Rightarrow> Inl (authConfigError (label @ '' must be an absolute URL'')))"

definition origin_problem :: "string \<Rightarrow> string \<Rightarrow> failure" where
  "origin_problem v reason =
     authConfigError (''allowedOrigins entry ''
       @ json_quote (if utf16_length v \<le> 128 then v
                     else utf16_take 128 v @ ellipsis @ ''('' @ decimal (length v) @ '' bytes)'') @ '' '' @ reason)"

definition assertAllowedOrigin :: "url_parser \<Rightarrow> string \<Rightarrow> unit outcome" where
  "assertAllowedOrigin parseUrl v =
     (if length v > 2048 then Inl (origin_problem v ''must not exceed 2048 UTF-8 bytes'')
      else if v = ''null'' then Inl (origin_problem v ''must not be the opaque browser origin'')
      else if v = [] then Inl (origin_problem v ''must not be empty'')
      else if list_ex is_control v then Inl (origin_problem v ''must not contain control characters'')
      else if has_whitespace v then Inl (origin_problem v ''must not contain whitespace'')
      else if CHR ''*'' \<in> set v then Inl (origin_problem v (''must not contain '' @ [CHR 0x27, CHR ''*'', CHR 0x27]))
      else if CHR 0x5C \<in> set v then Inl (origin_problem v ''must not contain backslashes'')
      else if CHR ''?'' \<in> set v then Inl (origin_problem v ''must not contain a query delimiter'')
      else if CHR ''#'' \<in> set v then Inl (origin_problem v ''must not contain a fragment delimiter'')
      else (case authority_of v of
        None \<Rightarrow> Inl (origin_problem v ''must be an absolute http(s) origin'')
      | Some (scheme, authority) \<Rightarrow>
        if scheme = [] then Inl (origin_problem v ''must be an absolute http(s) origin'')
        else if CHR ''@'' \<in> set authority then Inl (origin_problem v ''must not contain userinfo'')
        else (case parseUrl v of
          None \<Rightarrow> Inl (origin_problem v ''must be a parseable absolute origin'')
        | Some u \<Rightarrow>
          if url_protocol u \<noteq> ''https:'' \<and> url_protocol u \<noteq> ''http:''
          then Inl (origin_problem v ''scheme must be http or https'')
          else if url_pathname u \<noteq> ''/'' then Inl (origin_problem v ''must not contain a path'')
          else if endsWith v ''/'' then Inl (origin_problem v ''must not contain a trailing slash'')
          else if url_origin u \<noteq> v
          then Inl (origin_problem v (''must use canonical WHATWG origin spelling; use '' @ json_quote (url_origin u)))
          else Inr ())))"

subsection \<open>Properties\<close>

lemma oauthEntry_Inr [simp]:
  "oauthEntry parseUrl allow v = Inr e \<longleftrightarrow> parseRedirectEntry parseUrl allow v = Inr e"
  by (auto simp: oauthEntry_def split: sum.splits)

lemma oauthEntry_Inl: "oauthEntry parseUrl allow v = Inl e \<Longrightarrow> failureCode e = ''invalid_redirect_uri''"
  by (auto simp: oauthEntry_def split: sum.splits)

lemma oauthEntry_url:
  "parseRedirectEntry parseUrl allow v = Inr e \<Longrightarrow> \<exists>s. v = Str s \<and> re_raw e = s \<and> parseUrl s = Some (re_url e) \<and> trusted_url (re_url e)"
  by (auto simp: parseRedirectEntry_Inr)

lemma entry_fields:
  assumes "parseRedirectEntry parseUrl allow v = Inr e"
  shows "re_hasExplicitPort e = hasExplicitPort (re_raw e)
         \<and> (re_form e = Origin_form \<longrightarrow> url_pathname (re_url e) = ''/'')"
proof -
  from assms obtain s u form where "classifyPath u = Inr form"
    and e: "e = \<lparr>re_raw = s, re_url = u, re_form = form, re_hasExplicitPort = hasExplicitPort s\<rparr>"
    unfolding parseRedirectEntry_Inr by blast
  then show ?thesis by (auto simp: classifyPath_origin)
qed

text \<open>
  A redirect URI passes the global allowlist only unchanged and only on trust that was
  configured: it is a canonical https or loopback URL, and some allowlist entry (or, unless the
  mode is replace, a built-in origin) is exactly that URI, or has the same origin, or is a loopback
  origin without an explicit port with the same scheme and host. In replace mode with an empty list
  nothing is accepted.
\<close>

theorem assertAllowedRedirectUri_trusted:
  assumes "assertAllowedRedirectUri parseUrl value allowlist mode = Inr uri"
  shows "\<exists>u. value = Str uri \<and> parseUrl uri = Some u \<and> trusted_url u
     \<and> (\<exists>s su. (Str s \<in> set allowlist \<or> mode = Extend \<and> s \<in> set DEFAULT_ALLOWED_REDIRECT_ORIGINS)
            \<and> parseUrl s = Some su
            \<and> (s = uri \<or> url_pathname su = ''/'' \<and> url_origin su = url_origin u
               \<or> url_pathname su = ''/'' \<and> url_hostname su \<in> set LOOPBACK_HOSTS \<and> \<not> hasExplicitPort s
                 \<and> url_protocol su = url_protocol u \<and> url_hostname su = url_hostname u))"
proof -
  let ?built = "if mode = Replace then [] else map Str DEFAULT_ALLOWED_REDIRECT_ORIGINS"
  from assms obtain p es e where p: "parseRedirectEntry parseUrl False value = Inr p"
    and es: "collect (oauthEntry parseUrl True) (?built @ allowlist) = Inr es"
    and e: "e \<in> set es" "globalMatch e p" and uri: "uri = re_raw p"
    by (auto simp: assertAllowedRedirectUri_def list_ex_iff elim!: chain_InrE split: if_split_asm)
  obtain x where x: "x \<in> set (?built @ allowlist)" "parseRedirectEntry parseUrl True x = Inr e"
    using collect_Inr_back [OF es] e(1) by (metis oauthEntry_Inr)
  obtain s where s: "x = Str s" "re_raw e = s" "parseUrl s = Some (re_url e)"
    using oauthEntry_url [OF x(2)] by blast
  have form: "re_form e = Origin_form \<Longrightarrow> url_pathname (re_url e) = ''/''"
    and port: "re_hasExplicitPort e = hasExplicitPort s"
    using entry_fields [OF x(2)] s(2) by auto
  have match: "s = re_raw p \<or> url_pathname (re_url e) = ''/'' \<and> url_origin (re_url e) = url_origin (re_url p)
      \<or> url_pathname (re_url e) = ''/'' \<and> url_hostname (re_url e) \<in> set LOOPBACK_HOSTS \<and> \<not> hasExplicitPort s
        \<and> url_protocol (re_url e) = url_protocol (re_url p) \<and> url_hostname (re_url e) = url_hostname (re_url p)"
    using e(2) form s(2) port
    by (cases "re_form e") (auto simp: globalMatch_def isLoopbackRedirect_def split: if_split_asm)
  have src: "Str s \<in> set allowlist \<or> mode = Extend \<and> s \<in> set DEFAULT_ALLOWED_REDIRECT_ORIGINS"
    using x(1) s(1) by (cases mode) auto
  from oauthEntry_url [OF p] match src s(3) uri show ?thesis by metis
qed

theorem assertAllowedRedirectUri_trusted_witness:
  "\<exists>u. demo_parser ''https://app.example/cb'' = Some u \<and> trusted_url u"
proof -
  have "assertAllowedRedirectUri demo_parser (Str ''https://app.example/cb'') [Str ''https://app.example''] Extend
      = Inr ''https://app.example/cb''"
    by code_simp
  from assertAllowedRedirectUri_trusted [OF this] show ?thesis by blast
qed

text \<open>
  The redirect URI of a stored client is accepted only if the client registered it: for a web
  client it is https and byte-equal to a registered URI, for a native client it is loopback and
  byte-equal to one or differs from one only in the port of an http loopback URL; machine clients
  never redirect. The accepted URI is the presented one, unchanged.
\<close>

theorem assertRedirectAllowedForClient_registered:
  assumes "assertRedirectAllowedForClient parseUrl value client = Inr uri"
  shows "value = Str uri \<and> cr_applicationType client \<noteq> Machine_app
     \<and> (\<exists>u. parseUrl uri = Some u
        \<and> (cr_applicationType client = Web_app \<longrightarrow> url_protocol u = ''https:'' \<and> Str uri \<in> set (cr_redirectUris client))
        \<and> (cr_applicationType client = Native_app \<longrightarrow> url_hostname u \<in> set LOOPBACK_HOSTS
             \<and> (Str uri \<in> set (cr_redirectUris client)
                \<or> (\<exists>s su. Str s \<in> set (cr_redirectUris client) \<and> parseUrl s = Some su
                     \<and> url_protocol su = ''http:'' \<and> url_protocol u = ''http:''
                     \<and> url_hostname su = url_hostname u \<and> url_pathname su = url_pathname u))))"
proof -
  from assms obtain p es where p: "parseRedirectEntry parseUrl False value = Inr p" and uri: "uri = re_raw p"
    and es: "collect (oauthEntry parseUrl False) (cr_redirectUris client) = Inr es"
    and nm: "cr_applicationType client \<noteq> Machine_app"
    and web: "cr_applicationType client = Web_app \<Longrightarrow>
        url_protocol (re_url p) = ''https:'' \<and> (\<exists>e \<in> set es. re_raw e = re_raw p)"
    and nat: "cr_applicationType client \<noteq> Web_app \<Longrightarrow>
        isNativeEntry p \<and> (\<exists>e \<in> set es. re_raw e = re_raw p \<or> loopbackAnyPortMatch e p)"
    by (auto simp: assertRedirectAllowedForClient_def list_ex_iff elim!: chain_InrE split: if_split_asm)
  have reg: "\<exists>s. Str s \<in> set (cr_redirectUris client) \<and> re_raw e = s \<and> parseUrl s = Some (re_url e)" if "e \<in> set es" for e
    using collect_Inr_back [OF es] that oauthEntry_url by (metis oauthEntry_Inr)
  show ?thesis
    using oauthEntry_url [OF p] uri nm web nat reg
    by (auto simp: isNativeEntry_def isLoopbackRedirect_def loopbackAnyPortMatch_def) metis+
qed

theorem assertRedirectAllowedForClient_registered_witness:
  "\<exists>u. demo_parser ''http://localhost:9/cb'' = Some u \<and> url_hostname u \<in> set LOOPBACK_HOSTS"
proof -
  let ?c = "\<lparr>cr_clientId = ''c'', cr_redirectUris = [Str ''http://localhost/cb''], cr_applicationType = Native_app\<rparr>"
  have "assertRedirectAllowedForClient demo_parser (Str ''http://localhost:9/cb'') ?c = Inr ''http://localhost:9/cb''"
    by code_simp
  from assertRedirectAllowedForClient_registered [OF this] show ?thesis by auto
qed

end
