(* ===== verification/Bridge_Config.thy ===== *)
theory Bridge_Config
  imports Redirects
begin

section \<open>The bridge configuration\<close>

text \<open>
  \<open>src/config.ts\<close>, \<open>src/config-snapshot.ts\<close>, \<open>src/cimd/options.ts\<close> and
  \<open>src/stored-dcr-generation.ts\<close>: the one validated configuration every use-case works with. The
  input is untyped. A client store is an object whose \<open>save\<close> and \<open>find\<close> are functions; the store
  itself is reached through calls, so the validated configuration keeps only that there is one.
  Where a message of the source goes on with advice to the operator, the model keeps its first
  sentence.
\<close>

subsection \<open>CIMD options\<close>

record cimd_options =
  maxDocumentBytes :: "int option"
  fetchTimeoutMs :: "int option"
  cacheTtlCapSeconds :: "int option"
  maxInFlight :: "int option"
  maxWaitersPerFetch :: "int option"

definition CIMD_CAPS :: "(string \<times> int \<times> int) list" where
  "CIMD_CAPS = [(''maxDocumentBytes'', 1024, 65536), (''fetchTimeoutMs'', 1000, 30000),
                (''cacheTtlCapSeconds'', 60, 86400), (''maxInFlight'', 1, 64), (''maxWaitersPerFetch'', 1, 4096)]"

definition KNOWN_CIMD_KEYS :: "string list" where
  "KNOWN_CIMD_KEYS = ''enabled'' # map fst CIMD_CAPS"

definition in_range :: "int \<Rightarrow> int \<Rightarrow> jsval \<Rightarrow> bool" where
  "in_range lo hi v = (case v of Number (Whole i) \<Rightarrow> lo \<le> i \<and> i \<le> hi | _ \<Rightarrow> False)"

definition int_of :: "jsval \<Rightarrow> int option" where
  "int_of v = (case v of Number (Whole i) \<Rightarrow> Some i | _ \<Rightarrow> None)"

fun cap_problem :: "(string \<times> jsval) list \<Rightarrow> (string \<times> int \<times> int) list \<Rightarrow> string option" where
  "cap_problem kvs [] = None"
| "cap_problem kvs ((k, lo, hi) # caps) =
     (if map_has k kvs \<and> \<not> in_range lo hi (own kvs k)
      then Some (''cimd.'' @ k @ '' must be an integer in ['' @ decimal (nat lo) @ '', '' @ decimal (nat hi) @ '']'')
      else cap_problem kvs caps)"

text \<open>\<open>cimdConfigProblem\<close>: \<open>Inl\<close> is the problem text.\<close>

definition cimdConfigProblem :: "jsval \<Rightarrow> string + cimd_options" where
  "cimdConfigProblem cimd =
     (case cimd of
        Obj kvs \<Rightarrow>
          (case filter (\<lambda>k. k \<notin> set KNOWN_CIMD_KEYS) (map fst kvs) of
             k # _ \<Rightarrow> Inl (''unknown cimd key \"'' @ k @ ''\"'')
           | [] \<Rightarrow>
               if own kvs ''enabled'' \<noteq> Boolean True
               then Inl ''cimd.enabled must be true when the cimd block is present (omit the block to disable)''
               else (case cap_problem kvs CIMD_CAPS of
                 Some p \<Rightarrow> Inl p
               | None \<Rightarrow> Inr \<lparr>maxDocumentBytes = int_of (own kvs ''maxDocumentBytes''),
                              fetchTimeoutMs = int_of (own kvs ''fetchTimeoutMs''),
                              cacheTtlCapSeconds = int_of (own kvs ''cacheTtlCapSeconds''),
                              maxInFlight = int_of (own kvs ''maxInFlight''),
                              maxWaitersPerFetch = int_of (own kvs ''maxWaitersPerFetch'')\<rparr>))
      | RevokedProxy \<Rightarrow> Inl ''cimd could not be read''
      | _ \<Rightarrow> Inl ''cimd must be an object'')"

subsection \<open>Snapshots of the input\<close>

datatype DcrMode = Stateless | StoredDcr

definition MAX_CONFIG_ARRAY_ENTRIES :: nat where
  "MAX_CONFIG_ARRAY_ENTRIES = 4096"

definition configArray :: "string \<Rightarrow> jsval \<Rightarrow> jsval list outcome" where
  "configArray label v =
     (case v of
        Arr xs \<Rightarrow> if length xs > MAX_CONFIG_ARRAY_ENTRIES
                  then Inl (authConfigError (label @ '' must have an integer length in [0, 4096]'')) else Inr xs
      | RevokedProxy \<Rightarrow> Inl (authConfigError (label @ '' could not be classified''))
      | _ \<Rightarrow> Inl (authConfigError (label @ '' must be an array'')))"

definition configStringArray :: "string \<Rightarrow> jsval \<Rightarrow> string list outcome" where
  "configStringArray label v =
     chain (configArray label v)
       (collect (\<lambda>x. case x of Str s \<Rightarrow> Inr s | _ \<Rightarrow> Inl (authConfigError (label @ '' entries must be strings''))))"

definition configRecord :: "jsval \<Rightarrow> string \<Rightarrow> (string \<times> jsval) list outcome" where
  "configRecord v label =
     (case v of
        Obj kvs \<Rightarrow> Inr kvs
      | RevokedProxy \<Rightarrow> Inl (authConfigError (label @ '' could not be classified''))
      | _ \<Rightarrow> Inl (authConfigError (label @ '' must be an object'')))"

definition isClientStore :: "jsval \<Rightarrow> bool" where
  "isClientStore v = (case v of Obj kvs \<Rightarrow> own kvs ''save'' = Opaque \<and> own kvs ''find'' = Opaque | _ \<Rightarrow> False)"

definition snapshotDcr :: "jsval \<Rightarrow> DcrMode outcome" where
  "snapshotDcr v =
     chain (configRecord v ''dcr'') (\<lambda>kvs.
       if own kvs ''mode'' = Str ''stateless'' then Inr Stateless
       else if own kvs ''mode'' \<noteq> Str ''stored''
       then Inl (authConfigError (''dcr.mode must be 'stateless' or 'stored'' @ [CHR 0x27]))
       else if \<not> isClientStore (own kvs ''store'')
       then Inl (authConfigError ''dcr.mode 'stored' requires a ClientStore with save and find methods'')
       else Inr StoredDcr)"

definition snapshotFlag :: "jsval \<Rightarrow> string \<Rightarrow> string \<Rightarrow> string \<Rightarrow> bool option outcome" where
  "snapshotFlag v label key problem =
     (if v = Undefined then Inr None
      else chain (configRecord v label) (\<lambda>kvs.
        case own kvs key of Boolean b \<Rightarrow> Inr (Some b) | _ \<Rightarrow> Inl (authConfigError problem)))"

definition snapshotDev :: "jsval \<Rightarrow> bool option outcome" where
  "snapshotDev v = snapshotFlag v ''dev'' ''allowInsecureLocalhost'' ''dev.allowInsecureLocalhost must be a boolean''"

definition snapshotClientCredentials :: "jsval \<Rightarrow> bool option outcome" where
  "snapshotClientCredentials v =
     snapshotFlag v ''clientCredentials'' ''enabled'' ''clientCredentials must be { enabled: boolean }''"

definition JWK_STRING_KEYS :: "string list" where
  "JWK_STRING_KEYS = [''kty'', ''crv'', ''x'', ''y'', ''d'', ''alg'', ''kid'', ''use'']"

definition jwk_string_member :: "(string \<times> jsval) list \<Rightarrow> string \<Rightarrow> (string \<times> jsval) list outcome" where
  "jwk_string_member kvs k =
     (case own kvs k of
        Undefined \<Rightarrow> Inr []
      | Str s \<Rightarrow> Inr [(k, Str s)]
      | _ \<Rightarrow> Inl (authConfigError (''signingPrivateJwk.'' @ k @ '' must be a string'')))"

definition snapshotJwk :: "jsval \<Rightarrow> (string \<times> jsval) list outcome" where
  "snapshotJwk v =
     chain (configRecord v ''signingPrivateJwk'') (\<lambda>kvs.
     chain (collect (jwk_string_member kvs) JWK_STRING_KEYS) (\<lambda>members.
     chain (case own kvs ''ext'' of Undefined \<Rightarrow> Inr [] | Boolean b \<Rightarrow> Inr [(''ext'', Boolean b)]
            | _ \<Rightarrow> Inl (authConfigError ''signingPrivateJwk.ext must be a boolean'')) (\<lambda>ext.
     chain (if own kvs ''key_ops'' = Undefined then Inr []
            else chain (configStringArray ''signingPrivateJwk.key_ops'' (own kvs ''key_ops''))
                   (\<lambda>ops. Inr [(''key_ops'', Arr (map Str ops))])) (\<lambda>ops.
     Inr (concat members @ ext @ ops)))))"

definition nonempty_str :: "jsval \<Rightarrow> bool" where
  "nonempty_str v = (case v of Str s \<Rightarrow> s \<noteq> [] | _ \<Rightarrow> False)"

definition isEcP256PrivateJwk :: "(string \<times> jsval) list \<Rightarrow> bool" where
  "isEcP256PrivateJwk jwk =
     (own jwk ''kty'' = Str ''EC'' \<and> own jwk ''crv'' = Str ''P-256'' \<and> nonempty_str (own jwk ''d'')
      \<and> nonempty_str (own jwk ''x'') \<and> nonempty_str (own jwk ''y''))"

definition snapshotRedirectAllowlist :: "url_parser \<Rightarrow> jsval \<Rightarrow> jsval list outcome" where
  "snapshotRedirectAllowlist parseUrl v =
     chain (configArray ''redirectAllowlist'' v)
       (collect (\<lambda>entry. case parseRedirectEntry parseUrl True entry of
          Inl p \<Rightarrow> Inl (authConfigError (''redirectAllowlist '' @ messageFor entry p))
        | Inr _ \<Rightarrow> Inr entry))"

definition snapshotRedirectAllowlistMode :: "jsval \<Rightarrow> jsval list \<Rightarrow> RedirectAllowlistMode outcome" where
  "snapshotRedirectAllowlistMode v allowlist =
     (if v = Undefined then Inr Extend
      else if v = Str ''replace'' then
        (if allowlist = []
         then Inl (authConfigError ''redirectAllowlistMode \"replace\" requires at least one redirectAllowlist entry; with none, no redirect_uri could ever be accepted'')
         else Inr Replace)
      else if v = Str ''extend'' then Inr Extend
      else Inl (authConfigError ''redirectAllowlistMode must be \"extend\" or \"replace\"''))"

subsection \<open>\<open>createBridgeConfig\<close>\<close>

record bridge_config =
  cfg_issuer :: string
  cfg_resource :: string
  cfg_consentSigningSecret :: string
  cfg_signingPrivateJwk :: "(string \<times> jsval) list"
  cfg_signingKeyId :: "string option"
  cfg_redirectAllowlist :: "jsval list"
  cfg_redirectAllowlistMode :: RedirectAllowlistMode
  cfg_scopeCatalog :: "string list"
  cfg_defaultScopes :: "string list"
  cfg_scopeHierarchy :: "policy_ref option"
  cfg_allowedOrigins :: "string list"
  cfg_dcr :: DcrMode
  cfg_dev :: "bool option"
  cfg_clientCredentials :: "bool option"
  cfg_cimd :: "cimd_options option"
  cfg_accessTokenTtlSeconds :: int
  cfg_refreshTokenTtlSeconds :: int
  cfg_consentTokenTtlSeconds :: int
  cfg_authorizationCodeTtlSeconds :: int

definition KNOWN_CONFIG_KEYS :: "string list" where
  "KNOWN_CONFIG_KEYS =
     [''issuer'', ''resource'', ''consentSigningSecret'', ''signingPrivateJwk'', ''signingKeyId'',
      ''redirectAllowlist'', ''redirectAllowlistMode'', ''scopeCatalog'', ''defaultScopes'', ''scopeHierarchy'',
      ''allowedOrigins'', ''dcr'', ''dev'', ''clientCredentials'', ''cimd'', ''accessTokenTtlSeconds'',
      ''refreshTokenTtlSeconds'', ''consentTokenTtlSeconds'', ''authorizationCodeTtlSeconds'']"

definition validateTtl :: "jsval \<Rightarrow> string \<Rightarrow> int outcome" where
  "validateTtl v label =
     (case v of
        Number (Whole i) \<Rightarrow> if i \<le> 0 then Inl (authConfigError (label @ '' must be a positive integer (seconds)''))
                           else Inr i
      | _ \<Rightarrow> Inl (authConfigError (label @ '' must be a positive integer (seconds)'')))"

definition validSecret :: "jsval \<Rightarrow> string outcome" where
  "validSecret v =
     (case v of
        Str s \<Rightarrow> if utf16_length (trim s) < 32
                 then Inl (authConfigError ''consentSigningSecret must be at least 32 characters'') else Inr s
      | _ \<Rightarrow> Inl (authConfigError ''consentSigningSecret must be at least 32 characters''))"

definition validKeyId :: "jsval \<Rightarrow> string option outcome" where
  "validKeyId v =
     (case v of Undefined \<Rightarrow> Inr None | Str s \<Rightarrow> Inr (Some s)
      | _ \<Rightarrow> Inl (authConfigError ''signingKeyId must be a string when present''))"

definition validCimd :: "jsval \<Rightarrow> cimd_options option outcome" where
  "validCimd v =
     (if v = Undefined then Inr None
      else case cimdConfigProblem v of Inl p \<Rightarrow> Inl (authConfigError p) | Inr o' \<Rightarrow> Inr (Some o'))"

definition createBridgeConfig :: "url_parser \<Rightarrow> jsval \<Rightarrow> bridge_config outcome" where
  "createBridgeConfig parseUrl input =
     chain (configRecord input ''BridgeConfig input'') (\<lambda>kvs.
     chain (case filter (\<lambda>k. k \<notin> set KNOWN_CONFIG_KEYS) (map fst kvs) of
              k # _ \<Rightarrow> Inl (authConfigError (''unknown BridgeConfig key \"'' @ k @ ''\"'')) | [] \<Rightarrow> Inr ()) (\<lambda>_.
     chain (snapshotRedirectAllowlist parseUrl (own kvs ''redirectAllowlist'')) (\<lambda>allowlist.
     chain (snapshotRedirectAllowlistMode (own kvs ''redirectAllowlistMode'') allowlist) (\<lambda>mode.
     chain (snapshotDev (own kvs ''dev'')) (\<lambda>dev.
     chain (validateUrl parseUrl (dev = Some True) ''issuer'' (own kvs ''issuer'')) (\<lambda>issuer.
     chain (validateUrl parseUrl (dev = Some True) ''resource'' (own kvs ''resource'')) (\<lambda>res.
     chain (validSecret (own kvs ''consentSigningSecret'')) (\<lambda>secret.
     chain (validKeyId (own kvs ''signingKeyId'')) (\<lambda>keyId.
     chain (snapshotJwk (own kvs ''signingPrivateJwk'')) (\<lambda>jwk.
     chain (require (isEcP256PrivateJwk jwk)
              (authConfigError ''signingPrivateJwk must be an EC P-256 key with d, x, y'')) (\<lambda>_.
     chain (configStringArray ''scopeCatalog'' (own kvs ''scopeCatalog'')) (\<lambda>catalog.
     chain (require (catalog \<noteq> []) (authConfigError ''scopeCatalog must be a non-empty array'')) (\<lambda>_.
     chain (case scopeListProblem (Arr (map Str catalog)) of
              Some p \<Rightarrow> Inl (authConfigError (''scopeCatalog '' @ p)) | None \<Rightarrow> Inr ()) (\<lambda>_.
     chain (snapshotScopeHierarchy (own kvs ''scopeHierarchy'') res catalog authConfigError) (\<lambda>hierarchy.
     chain (configStringArray ''defaultScopes'' (own kvs ''defaultScopes'')) (\<lambda>defaults.
     chain (case scopeListProblem (Arr (map Str defaults)) of
              Some p \<Rightarrow> Inl (authConfigError (''defaultScopes '' @ p)) | None \<Rightarrow> Inr ()) (\<lambda>_.
     chain (require (list_all (\<lambda>s. s \<in> set catalog) defaults)
              (authConfigError ''defaultScopes must be a subset of scopeCatalog'')) (\<lambda>_.
     chain (configStringArray ''allowedOrigins'' (own kvs ''allowedOrigins'')) (\<lambda>origins.
     chain (collect (assertAllowedOrigin parseUrl) origins) (\<lambda>_.
     chain (validateTtl (own kvs ''accessTokenTtlSeconds'') ''accessTokenTtlSeconds'') (\<lambda>accessTtl.
     chain (validateTtl (own kvs ''refreshTokenTtlSeconds'') ''refreshTokenTtlSeconds'') (\<lambda>refreshTtl.
     chain (validateTtl (own kvs ''consentTokenTtlSeconds'') ''consentTokenTtlSeconds'') (\<lambda>consentTtl.
     chain (validateTtl (own kvs ''authorizationCodeTtlSeconds'') ''authorizationCodeTtlSeconds'') (\<lambda>codeTtl.
     chain (snapshotDcr (own kvs ''dcr'')) (\<lambda>dcr.
     chain (snapshotClientCredentials (own kvs ''clientCredentials'')) (\<lambda>credentials.
     chain (require (\<not> (credentials = Some True \<and> dcr \<noteq> StoredDcr))
              (authConfigError ''clientCredentials.enabled requires dcr.mode 'stored' (machine clients are provisioned into the ClientStore)'')) (\<lambda>_.
     chain (validCimd (own kvs ''cimd'')) (\<lambda>cimd.
     Inr \<lparr>cfg_issuer = issuer, cfg_resource = res, cfg_consentSigningSecret = secret,
          cfg_signingPrivateJwk = jwk, cfg_signingKeyId = keyId, cfg_redirectAllowlist = allowlist,
          cfg_redirectAllowlistMode = mode, cfg_scopeCatalog = catalog, cfg_defaultScopes = defaults,
          cfg_scopeHierarchy = hierarchy, cfg_allowedOrigins = origins, cfg_dcr = dcr, cfg_dev = dev,
          cfg_clientCredentials = credentials, cfg_cimd = cimd, cfg_accessTokenTtlSeconds = accessTtl,
          cfg_refreshTokenTtlSeconds = refreshTtl, cfg_consentTokenTtlSeconds = consentTtl,
          cfg_authorizationCodeTtlSeconds = codeTtl\<rparr>))))))))))))))))))))))))))))"

subsection \<open>The stored-DCR generation\<close>

definition assertStoredDcrGenerationStore :: "bridge_config \<Rightarrow> jsval \<Rightarrow> jsval \<Rightarrow> unit outcome" where
  "assertStoredDcrGenerationStore config grantGeneration resourceBinding =
     require (\<not> (cfg_dcr config = StoredDcr
              \<and> (grantGeneration \<noteq> Number (Whole 1) \<or> resourceBinding \<noteq> Number (Whole 1))))
       (authConfigError ''dcr.mode 'stored' requires a StorePort with storedDcrGrantGeneration 1 and storedDcrResourceBinding 1'')"

definition expectedStoredDcrGrantGeneration :: "bridge_config \<Rightarrow> int option" where
  "expectedStoredDcrGrantGeneration config = (if cfg_dcr config = StoredDcr then Some 1 else None)"

definition newGrantGeneration :: "bridge_config \<Rightarrow> jsval" where
  "newGrantGeneration config =
     (case expectedStoredDcrGrantGeneration config of None \<Rightarrow> Null | Some g \<Rightarrow> Number (Whole g))"

definition hasExpectedGrantGeneration :: "jsval \<Rightarrow> int option \<Rightarrow> bool" where
  "hasExpectedGrantGeneration generation expected =
     (case expected of None \<Rightarrow> True | Some g \<Rightarrow> generation = Number (Whole g))"

subsection \<open>Properties\<close>

lemma in_range_Inr: "in_range lo hi v \<Longrightarrow> \<exists>i. int_of v = Some i \<and> lo \<le> i \<and> i \<le> hi"
  by (auto simp: in_range_def int_of_def split: jsval.split_asm num.split_asm)

lemma cap_problem_None:
  "cap_problem kvs caps = None \<longleftrightarrow> (\<forall>(k, lo, hi) \<in> set caps. map_has k kvs \<longrightarrow> in_range lo hi (own kvs k))"
  by (induction kvs caps rule: cap_problem.induct) auto

definition cap_ok :: "int option \<Rightarrow> int \<Rightarrow> int \<Rightarrow> bool" where
  "cap_ok v lo hi = (case v of None \<Rightarrow> True | Some i \<Rightarrow> lo \<le> i \<and> i \<le> hi)"

lemma cap_ok_own:
  assumes "cap_problem kvs CIMD_CAPS = None" and "(k, lo, hi) \<in> set CIMD_CAPS"
  shows "cap_ok (int_of (own kvs k)) lo hi"
proof (cases "map_has k kvs")
  case True
  with assms have "in_range lo hi (own kvs k)" by (auto simp: cap_problem_None)
  from in_range_Inr [OF this] show ?thesis by (auto simp: cap_ok_def)
next
  case False
  then show ?thesis by (simp add: own_def map_has_def int_of_def cap_ok_def)
qed

definition caps_ok :: "cimd_options \<Rightarrow> bool" where
  "caps_ok o' = (cap_ok (maxDocumentBytes o') 1024 65536 \<and> cap_ok (fetchTimeoutMs o') 1000 30000
     \<and> cap_ok (cacheTtlCapSeconds o') 60 86400 \<and> cap_ok (maxInFlight o') 1 64
     \<and> cap_ok (maxWaitersPerFetch o') 1 4096)"

lemma cimdConfigProblem_caps:
  assumes "cimdConfigProblem v = Inr o'"
  shows "caps_ok o'"
proof -
  from assms obtain kvs where n: "cap_problem kvs CIMD_CAPS = None"
    and o': "o' = \<lparr>maxDocumentBytes = int_of (own kvs ''maxDocumentBytes''),
                   fetchTimeoutMs = int_of (own kvs ''fetchTimeoutMs''),
                   cacheTtlCapSeconds = int_of (own kvs ''cacheTtlCapSeconds''),
                   maxInFlight = int_of (own kvs ''maxInFlight''),
                   maxWaitersPerFetch = int_of (own kvs ''maxWaitersPerFetch'')\<rparr>"
    by (auto simp: cimdConfigProblem_def split: jsval.split_asm list.split_asm if_split_asm option.split_asm)
  show ?thesis
    by (simp add: o' caps_ok_def cap_ok_own [OF n] CIMD_CAPS_def)
qed

lemma validateUrl_Inr:
  "validateUrl parseUrl dev label v = Inr s \<longleftrightarrow>
     (\<exists>u. v = Str s \<and> parseUrl s = Some u \<and> (s = url_href u \<or> s @ ''/'' = url_href u)
        \<and> (if dev then url_hostname u \<in> set LOOPBACK_HOSTS \<and> (url_protocol u = ''https:'' \<or> url_protocol u = ''http:'')
           else url_protocol u = ''https:''))"
  by (auto simp: validateUrl_def split: jsval.splits option.splits if_splits)

lemma validateTtl_Inr: "validateTtl v label = Inr i \<longleftrightarrow> v = Number (Whole i) \<and> 0 < i"
  by (auto simp: validateTtl_def split: jsval.splits num.splits)

lemma snapshotRedirectAllowlistMode_Inr:
  "snapshotRedirectAllowlistMode v allowlist = Inr Replace \<Longrightarrow> allowlist \<noteq> []"
  by (auto simp: snapshotRedirectAllowlistMode_def split: if_split_asm)

lemma snapshotRedirectAllowlist_Inr:
  assumes "snapshotRedirectAllowlist parseUrl v = Inr xs"
  shows "\<forall>x \<in> set xs. \<exists>e. parseRedirectEntry parseUrl True x = Inr e"
proof -
  from assms obtain raw where "collect (\<lambda>entry. case parseRedirectEntry parseUrl True entry of
          Inl p \<Rightarrow> Inl (authConfigError (''redirectAllowlist '' @ messageFor entry p))
        | Inr _ \<Rightarrow> Inr entry) raw = Inr xs"
    by (auto simp: snapshotRedirectAllowlist_def elim!: chain_InrE)
  from collect_Inr_back [OF this] show ?thesis by (fastforce split: sum.split_asm)
qed

text \<open>
  A canonical URL is spelled as the parser writes it, or as that without the slash of an empty path. Under the
  development flag it is on a loopback host, with either web scheme; otherwise it is https.
\<close>

definition config_url_ok :: "url_parser \<Rightarrow> bool option \<Rightarrow> string \<Rightarrow> bool" where
  "config_url_ok parseUrl dev s =
     (case parseUrl s of
        None \<Rightarrow> False
      | Some u \<Rightarrow>
          url_href u \<in> {s, s @ ''/''}
          \<and> (if dev = Some True
             then url_hostname u \<in> set LOOPBACK_HOSTS \<and> url_protocol u \<in> {''https:'', ''http:''}
             else url_protocol u = ''https:''))"

definition hierarchy_ok :: "string \<Rightarrow> policy_ref option \<Rightarrow> bool" where
  "hierarchy_ok r h =
     (case h of None \<Rightarrow> True | Some (Branded p g) \<Rightarrow> policy_resource p = r | Some _ \<Rightarrow> False)"

definition config_ok :: "url_parser \<Rightarrow> bridge_config \<Rightarrow> bool" where
  "config_ok parseUrl c =
     (config_url_ok parseUrl (cfg_dev c) (cfg_issuer c) \<and> config_url_ok parseUrl (cfg_dev c) (cfg_resource c)
      \<and> 32 \<le> utf16_length (trim (cfg_consentSigningSecret c))
      \<and> isEcP256PrivateJwk (cfg_signingPrivateJwk c)
      \<and> cfg_scopeCatalog c \<noteq> [] \<and> list_all isBoundedScopeToken (cfg_scopeCatalog c)
      \<and> list_all (\<lambda>s. s \<in> set (cfg_scopeCatalog c)) (cfg_defaultScopes c)
      \<and> (cfg_redirectAllowlistMode c = Replace \<longrightarrow> cfg_redirectAllowlist c \<noteq> [])
      \<and> list_all (\<lambda>x. redirectEntryProblem parseUrl True x = None) (cfg_redirectAllowlist c)
      \<and> list_all (\<lambda>x. assertAllowedOrigin parseUrl x = Inr ()) (cfg_allowedOrigins c)
      \<and> 0 < cfg_accessTokenTtlSeconds c \<and> 0 < cfg_refreshTokenTtlSeconds c
      \<and> 0 < cfg_consentTokenTtlSeconds c \<and> 0 < cfg_authorizationCodeTtlSeconds c
      \<and> (cfg_clientCredentials c = Some True \<longrightarrow> cfg_dcr c = StoredDcr)
      \<and> hierarchy_ok (cfg_resource c) (cfg_scopeHierarchy c)
      \<and> (case cfg_cimd c of None \<Rightarrow> True | Some o' \<Rightarrow> caps_ok o'))"

lemma snapshotScopeHierarchy_bound:
  assumes "snapshotScopeHierarchy v r catalog mk = Inr h"
  shows "hierarchy_ok r h"
proof (cases "v = Undefined")
  case True
  with assms show ?thesis by (simp add: snapshotScopeHierarchy_def hierarchy_ok_def)
next
  case False
  note d = assms [unfolded snapshotScopeHierarchy_def, unfolded if_not_P [OF False]]
  show ?thesis using d
  proof (rule chain_InrE, goal_cases)
    case (1 source)
    show ?case
    proof (cases "own source ''resource'' = Str r")
      case True
      note d2 = 1(2) [unfolded True, unfolded if_not_P [OF not_not [THEN iffD2, OF refl]]]
      show ?thesis using d2
        by (elim chain_InrE) (simp only: sum.inject hierarchy_ok_def, auto)
    next
      case False
      with 1(2) show ?thesis by (simp only: if_True not_False_eq_True sum.simps simp_thms)
    qed
  qed
qed

lemma collect_unit: "collect f xs = Inr ys \<Longrightarrow> list_all (\<lambda>x. f x = Inr ()) xs"
  using collect_Inr_all [of f xs ys] by (auto simp: list_all_iff)

lemma scopeListProblem_None:
  assumes "scopeListProblem (Arr (map Str ss)) = None"
  shows "list_all isBoundedScopeToken ss"
proof -
  obtain ts where ts: "snapshotBoundedScopeList (Arr (map Str ss)) = Inr ts"
    using assms by (auto simp: scopeListProblem_def split: sum.split_asm)
  then have "map Str ss = map Str ts" and "list_all isBoundedScopeToken ts"
    by (simp_all add: snapshotBoundedScopeList_iff)
  moreover have "inj Str" by (simp add: inj_on_def)
  ultimately show ?thesis using map_injective by metis
qed

lemma validSecret_Inr: "validSecret v = Inr s \<Longrightarrow> 32 \<le> utf16_length (trim s)"
  by (auto simp: validSecret_def split: jsval.split_asm if_split_asm)

lemma validCimd_Inr: "validCimd v = Inr c \<Longrightarrow> (case c of None \<Rightarrow> True | Some o' \<Rightarrow> caps_ok o')"
  by (auto simp: validCimd_def dest!: cimdConfigProblem_caps split: if_split_asm sum.split_asm)

lemma allowlist_ok:
  "snapshotRedirectAllowlist parseUrl v = Inr xs \<Longrightarrow> list_all (\<lambda>x. redirectEntryProblem parseUrl True x = None) xs"
  using snapshotRedirectAllowlist_Inr [of parseUrl v xs]
  by (auto simp: list_all_iff redirectEntryProblem_def split: sum.split)

text \<open>
  C34. A configuration that passes validation is safe to run: issuer and resource are spelled canonically and
  are https URLs (under the development flag they must be on a loopback host, over http or https), the
  consent secret has 32 characters,
  the signing key is an EC P-256 private key, the catalog is non-empty and holds well-formed scope
  tokens, the default scopes are in it, replace mode never leaves the allowlist empty, every allowlist
  entry and origin passed its grammar, the lifetimes are positive, client credentials come only with
  a client store, the scope hierarchy belongs to this resource, and the CIMD caps are in their ranges.
\<close>

theorem createBridgeConfig_safe:
  assumes "createBridgeConfig parseUrl input = Inr c"
  shows "config_ok parseUrl c"
  using assms unfolding createBridgeConfig_def
proof (elim chain_InrE)
  fix kvs u1 allowlist mode dev issuer res secret keyId jwk u2 catalog u3 u4 hierarchy defaults u5 u6 origins u7
    accessTtl refreshTtl consentTtl codeTtl dcr credentials u8 cimd
  assume r: "snapshotRedirectAllowlist parseUrl (own kvs ''redirectAllowlist'') = Inr allowlist"
    and m: "snapshotRedirectAllowlistMode (own kvs ''redirectAllowlistMode'') allowlist = Inr mode"
    and i: "validateUrl parseUrl (dev = Some True) ''issuer'' (own kvs ''issuer'') = Inr issuer"
    and rs: "validateUrl parseUrl (dev = Some True) ''resource'' (own kvs ''resource'') = Inr res"
    and sec: "validSecret (own kvs ''consentSigningSecret'') = Inr secret"
    and jwk: "require (isEcP256PrivateJwk jwk)
              (authConfigError ''signingPrivateJwk must be an EC P-256 key with d, x, y'') = Inr u2"
    and ne: "require (catalog \<noteq> []) (authConfigError ''scopeCatalog must be a non-empty array'') = Inr u3"
    and cat: "(case scopeListProblem (Arr (map Str catalog)) of
              None \<Rightarrow> Inr () | Some p \<Rightarrow> Inl (authConfigError (''scopeCatalog '' @ p))) = Inr u4"
    and h: "snapshotScopeHierarchy (own kvs ''scopeHierarchy'') res catalog authConfigError = Inr hierarchy"
    and d: "require (list_all (\<lambda>s. s \<in> set catalog) defaults)
              (authConfigError ''defaultScopes must be a subset of scopeCatalog'') = Inr u6"
    and o': "collect (assertAllowedOrigin parseUrl) origins = Inr u7"
    and ttl: "validateTtl (own kvs ''accessTokenTtlSeconds'') ''accessTokenTtlSeconds'' = Inr accessTtl"
      "validateTtl (own kvs ''refreshTokenTtlSeconds'') ''refreshTokenTtlSeconds'' = Inr refreshTtl"
      "validateTtl (own kvs ''consentTokenTtlSeconds'') ''consentTokenTtlSeconds'' = Inr consentTtl"
      "validateTtl (own kvs ''authorizationCodeTtlSeconds'') ''authorizationCodeTtlSeconds'' = Inr codeTtl"
    and cc: "require (\<not> (credentials = Some True \<and> dcr \<noteq> StoredDcr))
              (authConfigError ''clientCredentials.enabled requires dcr.mode 'stored' (machine clients are provisioned into the ClientStore)'') = Inr u8"
    and ci: "validCimd (own kvs ''cimd'') = Inr cimd"
    and c: "Inr \<lparr>cfg_issuer = issuer, cfg_resource = res, cfg_consentSigningSecret = secret,
          cfg_signingPrivateJwk = jwk, cfg_signingKeyId = keyId, cfg_redirectAllowlist = allowlist,
          cfg_redirectAllowlistMode = mode, cfg_scopeCatalog = catalog, cfg_defaultScopes = defaults,
          cfg_scopeHierarchy = hierarchy, cfg_allowedOrigins = origins, cfg_dcr = dcr, cfg_dev = dev,
          cfg_clientCredentials = credentials, cfg_cimd = cimd, cfg_accessTokenTtlSeconds = accessTtl,
          cfg_refreshTokenTtlSeconds = refreshTtl, cfg_consentTokenTtlSeconds = consentTtl,
          cfg_authorizationCodeTtlSeconds = codeTtl\<rparr> = Inr c"
  have url: "config_url_ok parseUrl dev s"
    if "validateUrl parseUrl (dev = Some True) label v = Inr s" for label v s
    using that by (auto simp: validateUrl_Inr config_url_ok_def split: if_split_asm)
  have tokens: "list_all isBoundedScopeToken catalog"
    using cat by (auto intro: scopeListProblem_None split: option.split_asm)
  have repl: "mode = Replace \<longrightarrow> allowlist \<noteq> []" using m snapshotRedirectAllowlistMode_Inr by blast
  show "config_ok parseUrl c"
    using c url [OF i] url [OF rs] validSecret_Inr [OF sec] jwk ne tokens d repl allowlist_ok [OF r]
      collect_unit [OF o'] ttl cc snapshotScopeHierarchy_bound [OF h] validCimd_Inr [OF ci]
    by (auto simp: config_ok_def validateTtl_Inr cong: option.case_cong)
qed

definition demo_config_kvs :: "(string \<times> jsval) list" where
  "demo_config_kvs =
     [(''issuer'', Str ''https://app.example''), (''resource'', Str ''https://app.example/cb''),
      (''consentSigningSecret'', Str (replicate 32 CHR ''s'')),
      (''signingPrivateJwk'', Obj [(''kty'', Str ''EC''), (''crv'', Str ''P-256''), (''d'', Str ''d''), (''x'', Str ''x''), (''y'', Str ''y'')]),
      (''redirectAllowlist'', Arr [Str ''https://app.example/cb'']), (''scopeCatalog'', Arr [Str ''read'', Str ''write'']),
      (''defaultScopes'', Arr [Str ''read'']), (''allowedOrigins'', Arr [Str ''https://app.example'']),
      (''dcr'', Obj [(''mode'', Str ''stored''), (''store'', Obj [(''save'', Opaque), (''find'', Opaque)])]),
      (''clientCredentials'', Obj [(''enabled'', Boolean True)]),
      (''accessTokenTtlSeconds'', Number (Whole 600)), (''refreshTokenTtlSeconds'', Number (Whole 86400)),
      (''consentTokenTtlSeconds'', Number (Whole 300)), (''authorizationCodeTtlSeconds'', Number (Whole 60))]"

definition demo_config :: bridge_config where
  "demo_config =
     \<lparr>cfg_issuer = ''https://app.example'', cfg_resource = ''https://app.example/cb'',
      cfg_consentSigningSecret = replicate 32 CHR ''s'',
      cfg_signingPrivateJwk = [(''kty'', Str ''EC''), (''crv'', Str ''P-256''), (''x'', Str ''x''), (''y'', Str ''y''), (''d'', Str ''d'')],
      cfg_signingKeyId = None, cfg_redirectAllowlist = [Str ''https://app.example/cb''],
      cfg_redirectAllowlistMode = Extend, cfg_scopeCatalog = [''read'', ''write''], cfg_defaultScopes = [''read''],
      cfg_scopeHierarchy = None, cfg_allowedOrigins = [''https://app.example''], cfg_dcr = StoredDcr, cfg_dev = None,
      cfg_clientCredentials = Some True, cfg_cimd = None, cfg_accessTokenTtlSeconds = 600,
      cfg_refreshTokenTtlSeconds = 86400, cfg_consentTokenTtlSeconds = 300, cfg_authorizationCodeTtlSeconds = 60\<rparr>"

lemma demo_own:
  "own demo_config_kvs ''issuer'' = Str ''https://app.example''"
  "own demo_config_kvs ''resource'' = Str ''https://app.example/cb''"
  "own demo_config_kvs ''consentSigningSecret'' = Str (replicate 32 CHR ''s'')"
  "own demo_config_kvs ''signingPrivateJwk''
     = Obj [(''kty'', Str ''EC''), (''crv'', Str ''P-256''), (''d'', Str ''d''), (''x'', Str ''x''), (''y'', Str ''y'')]"
  "own demo_config_kvs ''signingKeyId'' = Undefined"
  "own demo_config_kvs ''redirectAllowlist'' = Arr [Str ''https://app.example/cb'']"
  "own demo_config_kvs ''redirectAllowlistMode'' = Undefined"
  "own demo_config_kvs ''scopeCatalog'' = Arr [Str ''read'', Str ''write'']"
  "own demo_config_kvs ''defaultScopes'' = Arr [Str ''read'']"
  "own demo_config_kvs ''scopeHierarchy'' = Undefined"
  "own demo_config_kvs ''allowedOrigins'' = Arr [Str ''https://app.example'']"
  "own demo_config_kvs ''dcr'' = Obj [(''mode'', Str ''stored''), (''store'', Obj [(''save'', Opaque), (''find'', Opaque)])]"
  "own demo_config_kvs ''dev'' = Undefined"
  "own demo_config_kvs ''clientCredentials'' = Obj [(''enabled'', Boolean True)]"
  "own demo_config_kvs ''cimd'' = Undefined"
  "own demo_config_kvs ''accessTokenTtlSeconds'' = Number (Whole 600)"
  "own demo_config_kvs ''refreshTokenTtlSeconds'' = Number (Whole 86400)"
  "own demo_config_kvs ''consentTokenTtlSeconds'' = Number (Whole 300)"
  "own demo_config_kvs ''authorizationCodeTtlSeconds'' = Number (Whole 60)"
  by (simp_all add: demo_config_kvs_def own_def)

lemma demo_steps:
  "filter (\<lambda>k. k \<notin> set KNOWN_CONFIG_KEYS) (map fst demo_config_kvs) = []"
  "snapshotRedirectAllowlist demo_parser (Arr [Str ''https://app.example/cb'']) = Inr [Str ''https://app.example/cb'']"
  "validateUrl demo_parser False ''issuer'' (Str ''https://app.example'') = Inr ''https://app.example''"
  "validateUrl demo_parser False ''resource'' (Str ''https://app.example/cb'') = Inr ''https://app.example/cb''"
  "validSecret (Str (replicate 32 CHR ''s'')) = Inr (replicate 32 CHR ''s'')"
  "snapshotJwk (Obj [(''kty'', Str ''EC''), (''crv'', Str ''P-256''), (''d'', Str ''d''), (''x'', Str ''x''), (''y'', Str ''y'')])
     = Inr (cfg_signingPrivateJwk demo_config)"
  "isEcP256PrivateJwk (cfg_signingPrivateJwk demo_config)"
  "configStringArray ''scopeCatalog'' (Arr [Str ''read'', Str ''write'']) = Inr [''read'', ''write'']"
  "configStringArray ''defaultScopes'' (Arr [Str ''read'']) = Inr [''read'']"
  "configStringArray ''allowedOrigins'' (Arr [Str ''https://app.example'']) = Inr [''https://app.example'']"
  "collect (assertAllowedOrigin demo_parser) [''https://app.example''] = Inr [()]"
  "snapshotDcr (Obj [(''mode'', Str ''stored''), (''store'', Obj [(''save'', Opaque), (''find'', Opaque)])]) = Inr StoredDcr"
  "snapshotClientCredentials (Obj [(''enabled'', Boolean True)]) = Inr (Some True)"
  "snapshotDev Undefined = Inr None"
  by code_simp+

lemma demo_scopes:
  "scopeListProblem (Arr [Str ''read'', Str ''write'']) = None" "scopeListProblem (Arr [Str ''read'']) = None"
  by (simp_all add: scopeListProblem_def scope_evals MAX_SCOPE_ENTRIES_def MAX_SCOPE_TOKEN_BYTES_def
      MAX_SCOPE_CLAIM_BYTES_def)

theorem createBridgeConfig_safe_witness: "config_ok demo_parser demo_config"
proof -
  have "createBridgeConfig demo_parser (Obj demo_config_kvs) = Inr demo_config"
    using demo_steps demo_scopes
    by (simp add: createBridgeConfig_def configRecord_def demo_own snapshotRedirectAllowlistMode_def validKeyId_def
        snapshotScopeHierarchy_def validateTtl_def validCimd_def)
       (simp add: demo_config_def)
  from createBridgeConfig_safe [OF this] show ?thesis .
qed

end
