(* ===== verification/Signed_Tokens.thy ===== *)
theory Signed_Tokens
  imports Port_Results Bridge_Config
begin

section \<open>Consent tokens and access tokens\<close>

text \<open>
  The signed tokens of \<open>src/crypto.ts\<close>, the key selection of \<open>src/crypto-keys.ts\<close> (its caches hold
  what they would compute) and the store binding of \<open>src/consent-store-binding.ts\<close> and
  \<open>src/store-instance.ts\<close>.
  The \<open>jose\<close> library is a parameter: \<open>jose_sign\<close> builds a compact JWT from a key, a protected header
  and a payload, \<open>jose_verify\<close> checks one against a key and options; a failed key import is a
  failure of the call that uses the key. What is relied on is stated in \<open>jose_checks\<close> and
  \<open>jose_roundtrip\<close>.
\<close>

type_synonym members = "(string \<times> jsval) list"

datatype jwt_key = ConsentSecret string | PrivateKey members | PublicKey members

record jwt_options =
  jo_algorithms :: "string list"
  jo_issuer :: string
  jo_audience :: string
  jo_requiredClaims :: "string list"
  jo_currentMs :: int

record jose =
  jose_sign :: "jwt_key \<Rightarrow> members \<Rightarrow> members \<Rightarrow> string outcome"
  jose_verify :: "string \<Rightarrow> jwt_key \<Rightarrow> jwt_options \<Rightarrow> members outcome"

definition CONSENT_AUDIENCE :: string where "CONSENT_AUDIENCE = ''mcp-sso/consent''"

definition CONSENT_TYP :: string where "CONSENT_TYP = ''mcp-sso-consent''"

definition MAX_CONSENT_TOKEN_BYTES :: nat where "MAX_CONSENT_TOKEN_BYTES = 192 * 1024"

record consent_claims =
  cc_clientId :: string
  cc_redirectUri :: string
  cc_resource :: string
  cc_scopes :: "string list"
  cc_codeChallenge :: string
  cc_state :: "string option"
  cc_subject :: string
  cc_allowedScopes :: "string list option"
  cc_cimdVerified :: bool
  cc_storeInstanceId :: "string option"

record verified_consent = consent_claims +
  vc_jti :: string
  vc_expiresAt :: string

record access_claims =
  at_subject :: string
  at_clientId :: string
  at_scopes :: "string list"
  at_machine :: bool

definition opt_value :: "string option \<Rightarrow> jsval" where
  "opt_value o' = (case o' of None \<Rightarrow> Undefined | Some s \<Rightarrow> Str s)"

definition stringClaim :: "jsval \<Rightarrow> string option" where
  "stringClaim v = (case v of Str s \<Rightarrow> if s = [] then None else Some s | _ \<Rightarrow> None)"

definition requiredString :: "jsval \<Rightarrow> string \<Rightarrow> string outcome" where
  "requiredString v label =
     (case v of Str s \<Rightarrow> if s = [] then Inl (Thrown ''Error'' (''missing '' @ label)) else Inr s
      | _ \<Rightarrow> Inl (Thrown ''Error'' (''missing '' @ label)))"

definition primitiveString :: "jsval \<Rightarrow> string \<Rightarrow> string outcome" where
  "primitiveString v label = (case v of Str s \<Rightarrow> Inr s | _ \<Rightarrow> Inl (Thrown ''Error'' (''missing '' @ label)))"

definition keyId :: "bridge_config \<Rightarrow> string option" where
  "keyId config =
     (case cfg_signingKeyId config of Some k \<Rightarrow> Some k | None \<Rightarrow> stringClaim (own (cfg_signingPrivateJwk config) ''kid''))"

definition publicJwk :: "bridge_config \<Rightarrow> members" where
  "publicJwk config =
     (let jwk = cfg_signingPrivateJwk config in
      [(''kty'', own jwk ''kty''), (''crv'', own jwk ''crv''), (''x'', own jwk ''x''), (''y'', own jwk ''y''),
       (''alg'', Str ''ES256''), (''use'', Str ''sig''), (''kid'', opt_value (keyId config))])"

definition signKey :: "bridge_config \<Rightarrow> jwt_key" where
  "signKey config = PrivateKey (cfg_signingPrivateJwk config)"

definition verifyKey :: "bridge_config \<Rightarrow> jwt_key" where
  "verifyKey config = PublicKey (publicJwk config)"

definition consentSecret :: "bridge_config \<Rightarrow> jwt_key" where
  "consentSecret config = ConsentSecret (cfg_consentSigningSecret config)"

text \<open>Both the time of minting and the expiry must be canonical.\<close>

definition nowSeconds :: "clock_reading \<Rightarrow> int \<Rightarrow> int outcome" where
  "nowSeconds clock ttlSeconds =
     chain (finiteClockSnapshot clock (ttlSeconds * 1000)) (\<lambda>ms. Inr (ms div 1000))"

definition expiresAtIso :: "clock_reading \<Rightarrow> int \<Rightarrow> string outcome" where
  "expiresAtIso clock ttlSeconds =
     chain (finiteClockSnapshot clock (ttlSeconds * 1000)) (\<lambda>ms. Inr (toISOString (ms + ttlSeconds * 1000)))"

subsection \<open>Access tokens\<close>

definition access_payload :: "bridge_config \<Rightarrow> access_claims \<Rightarrow> string \<Rightarrow> int \<Rightarrow> members" where
  "access_payload config claims scope now =
     [(''client_id'', Str (at_clientId claims)), (''scope'', Str scope)]
     @ (if at_machine claims then [(''gty'', Str ''client_credentials'')] else [])
     @ [(''iss'', Str (cfg_issuer config)), (''sub'', Str (at_subject claims)), (''aud'', Str (cfg_resource config)),
        (''iat'', Number (Whole now)), (''exp'', Number (Whole (now + cfg_accessTokenTtlSeconds config)))]"

definition access_header :: "bridge_config \<Rightarrow> members" where
  "access_header config = [(''alg'', Str ''ES256''), (''kid'', opt_value (keyId config)), (''typ'', Str ''JWT'')]"

definition signAccessToken :: "jose \<Rightarrow> access_claims \<Rightarrow> bridge_config \<Rightarrow> clock_reading \<Rightarrow> string outcome" where
  "signAccessToken J claims config clock =
     chain (accessScopeString (Arr (map Str (at_scopes claims)))) (\<lambda>scope.
     chain (identitySubject (Str (at_subject claims))) (\<lambda>sub.
     chain (nowSeconds clock (cfg_accessTokenTtlSeconds config)) (\<lambda>now.
     jose_sign J (signKey config) (access_header config) (access_payload config claims scope now))))"

definition credentialKindClaim :: "members \<Rightarrow> string \<Rightarrow> string \<Rightarrow> credentialKind outcome" where
  "credentialKindClaim payload sub clientId =
     (let machineSubject = startsWith sub ''mcc_''; hasGrantType = map_has ''gty'' payload in
      if \<not> machineSubject \<and> \<not> hasGrantType then Inr Interactive
      else if machineSubject \<and> clientId = sub \<and> hasGrantType \<and> own payload ''gty'' = Str ''client_credentials''
      then Inr Machine
      else Inl (Thrown ''Error'' ''partial or conflicting machine credential binding''))"

definition accessClaims :: "members \<Rightarrow> authorizedSubject outcome" where
  "accessClaims payload =
     chain (requiredString (own payload ''sub'') ''sub'') (\<lambda>s.
     chain (identitySubject (Str s)) (\<lambda>sub.
     chain (requiredString (own payload ''client_id'') ''client_id'') (\<lambda>clientId.
     chain (incomingAccessScopes (own payload ''scope'')) (\<lambda>scopes.
     chain (credentialKindClaim payload sub clientId) (\<lambda>kind.
     Inr \<lparr>as_subject = sub, as_clientId = clientId, as_scopes = scopes, as_credentialKind = kind\<rparr>)))))"

definition access_options :: "bridge_config \<Rightarrow> int \<Rightarrow> jwt_options" where
  "access_options config nowMs =
     \<lparr>jo_algorithms = [''ES256''], jo_issuer = cfg_issuer config, jo_audience = cfg_resource config,
      jo_requiredClaims = [''exp''], jo_currentMs = nowMs\<rparr>"

definition invalid_bearer :: failure where
  "invalid_bearer = oauthError ''invalid_token'' ''Bearer token is invalid'' 401"

definition verifyAccessToken ::
  "jose \<Rightarrow> string \<Rightarrow> bridge_config \<Rightarrow> clock_reading \<Rightarrow> authorizedSubject outcome" where
  "verifyAccessToken J token config clock =
     rethrow (\<lambda>_. invalid_bearer)
       (chain (finiteClockSnapshot clock 0) (\<lambda>nowMs.
        chain (jose_verify J token (verifyKey config) (access_options config nowMs)) (\<lambda>payload.
        chain (require (own payload ''aud'' = Str (cfg_resource config))
                 (Thrown ''Error'' ''Access token audience must equal resource'')) (\<lambda>_.
        accessClaims payload))))"

subsection \<open>Consent tokens\<close>

text \<open>
  \<open>str_of\<close> of a value that is not a string is empty, which is no instance id, as the type test of the
  source decides. The caller's instance id wins; otherwise the store the configuration is bound to, if any, is asked.
\<close>

definition readInstanceId :: "jsval \<Rightarrow> string outcome" where
  "readInstanceId v = chain (assertStoreInstanceId (str_of v)) (\<lambda>_. Inr (str_of v))"

definition consentStoreInstanceId :: "bool \<Rightarrow> string option io" where
  "consentStoreInstanceId bound =
     (if \<not> bound then pass None
      else andThen (askPort ''StorePort'' ''getStoreInstanceId'' (StorePort Get_id) Inr) (\<lambda>v.
           case readInstanceId v of Inl e \<Rightarrow> fail e | Inr i \<Rightarrow> pass (Some i)))"

definition consent_payload :: "bridge_config \<Rightarrow> consent_claims \<Rightarrow> string \<Rightarrow> string \<Rightarrow> string option \<Rightarrow> int \<Rightarrow> members" where
  "consent_payload config claims sub jti instance now =
     [(''typ'', Str CONSENT_TYP), (''jti'', Str jti), (''client_id'', Str (cc_clientId claims)),
      (''redirect_uri'', Str (cc_redirectUri claims)), (''resource'', Str (cc_resource claims)),
      (''scope'', Str (scopeString (cc_scopes claims))), (''code_challenge'', Str (cc_codeChallenge claims)),
      (''code_challenge_method'', Str ''S256''), (''state'', opt_value (cc_state claims)),
      (''allowed_scopes'', opt_value (map_option scopeString (cc_allowedScopes claims))),
      (''store_instance'', opt_value instance)]
     @ (if cc_cimdVerified claims then [(''cimd_verified'', Boolean True)] else [])
     @ [(''iss'', Str (cfg_issuer config)), (''aud'', Str CONSENT_AUDIENCE), (''sub'', Str sub),
        (''iat'', Number (Whole now)), (''exp'', Number (Whole (now + cfg_consentTokenTtlSeconds config)))]"

definition consent_header :: members where
  "consent_header = [(''alg'', Str ''HS256''), (''typ'', Str ''JWT'')]"

definition seal_consent ::
  "jose \<Rightarrow> bridge_config \<Rightarrow> consent_claims \<Rightarrow> string \<Rightarrow> string option \<Rightarrow> int \<Rightarrow> random_reply \<Rightarrow> string outcome" where
  "seal_consent J config claims sub instance now r =
     chain (generateConsentJti r) (\<lambda>jti.
     chain (jose_sign J (consentSecret config) consent_header (consent_payload config claims sub jti instance now)) (\<lambda>token.
     if length token > MAX_CONSENT_TOKEN_BYTES
     then Inl (oauth400 ''invalid_request'' ''Authorization request is too large'') else Inr token))"

definition signConsentToken :: "jose \<Rightarrow> bool \<Rightarrow> consent_claims \<Rightarrow> bridge_config \<Rightarrow> clock_reading \<Rightarrow> string io" where
  "signConsentToken J bound claims config clock =
     (case chain (identitySubject (Str (cc_subject claims))) (\<lambda>sub.
           chain (nowSeconds clock (cfg_consentTokenTtlSeconds config)) (\<lambda>now. Inr (sub, now))) of
        Inl e \<Rightarrow> fail e
      | Inr (sub, now) \<Rightarrow>
          andThen (case cc_storeInstanceId claims of Some i \<Rightarrow> pass (Some i) | None \<Rightarrow> consentStoreInstanceId bound)
            (\<lambda>instance. Draw (\<lambda>r. Return (seal_consent J config claims sub instance now r))))"

definition claim_scopes :: "jsval \<Rightarrow> string list" where
  "claim_scopes v = (case v of Str s \<Rightarrow> if s = [] then [] else split_ws s | _ \<Rightarrow> [])"

definition claim_ceiling :: "jsval \<Rightarrow> string list option" where
  "claim_ceiling v =
     (case v of Str s \<Rightarrow> if s = [] then Some [] else if trim s \<noteq> [] then Some (split_ws s) else None | _ \<Rightarrow> None)"

definition cimdVerifiedClaim :: "members \<Rightarrow> bool outcome" where
  "cimdVerifiedClaim payload =
     (if \<not> map_has ''cimd_verified'' payload then Inr False
      else if own payload ''cimd_verified'' \<noteq> Boolean True
      then Inl (Thrown ''Error'' ''cimd_verified must be true when present'') else Inr True)"

definition consentClaims :: "members \<Rightarrow> consent_claims outcome" where
  "consentClaims payload =
     chain (require (own payload ''typ'' = Str CONSENT_TYP) (Thrown ''Error'' ''wrong token type'')) (\<lambda>_.
     chain (requiredString (own payload ''client_id'') ''client_id'') (\<lambda>clientId.
     chain (primitiveString (own payload ''redirect_uri'') ''redirect_uri'') (\<lambda>redirectUri.
     chain (requiredString (own payload ''resource'') ''resource'') (\<lambda>res.
     chain (requiredString (own payload ''code_challenge'') ''code_challenge'') (\<lambda>challenge.
     chain (requiredString (own payload ''sub'') ''sub'') (\<lambda>s.
     chain (identitySubject (Str s)) (\<lambda>sub.
     chain (cimdVerifiedClaim payload) (\<lambda>cimd.
     Inr \<lparr>cc_clientId = clientId, cc_redirectUri = redirectUri, cc_resource = res,
          cc_scopes = claim_scopes (own payload ''scope''), cc_codeChallenge = challenge,
          cc_state = stringClaim (own payload ''state''), cc_subject = sub,
          cc_allowedScopes = claim_ceiling (own payload ''allowed_scopes''), cc_cimdVerified = cimd,
          cc_storeInstanceId = stringClaim (own payload ''store_instance'')\<rparr>))))))))"

definition consent_options :: "bridge_config \<Rightarrow> int \<Rightarrow> jwt_options" where
  "consent_options config nowMs =
     \<lparr>jo_algorithms = [''HS256''], jo_issuer = cfg_issuer config, jo_audience = CONSENT_AUDIENCE,
      jo_requiredClaims = [], jo_currentMs = nowMs\<rparr>"

definition invalid_consent :: failure where
  "invalid_consent = oauth400 ''invalid_consent'' ''Consent token is invalid or expired''"

definition verifyConsentToken ::
  "jose \<Rightarrow> string \<Rightarrow> bridge_config \<Rightarrow> clock_reading \<Rightarrow> verified_consent outcome" where
  "verifyConsentToken J token config clock =
     rethrow (\<lambda>_. invalid_consent)
       (chain (finiteClockSnapshot clock 0) (\<lambda>nowMs.
        chain (jose_verify J token (consentSecret config) (consent_options config nowMs)) (\<lambda>payload.
        chain (consentClaims payload) (\<lambda>claims.
        chain (requiredString (own payload ''jti'') ''jti'') (\<lambda>jti.
        chain (numericDateIso (own payload ''exp'') ''exp'') (\<lambda>expiry.
        Inr (consent_claims.extend claims \<lparr>vc_jti = jti, vc_expiresAt = expiry\<rparr>)))))))"

end
