(* ===== verification/Token_Laws.thy ===== *)
theory Token_Laws
  imports Signed_Tokens
begin

section \<open>What signed tokens guarantee\<close>

text \<open>
  The behaviour of the JWT library that is relied on, and what follows for access and consent tokens:
  round trips, expiry, and a verifier that fails closed.
\<close>

subsection \<open>The JWT library\<close>

text \<open>A key verifies what its partner signed; serialization drops undefined members.\<close>

fun key_pair :: "jwt_key \<Rightarrow> jwt_key \<Rightarrow> bool" where
  "key_pair (ConsentSecret s) (ConsentSecret t) = (s = t)"
| "key_pair (PrivateKey d) (PublicKey p) = list_all (\<lambda>k. own d k = own p k) [''kty'', ''crv'', ''x'', ''y'']"
| "key_pair _ _ = False"

definition json_members :: "members \<Rightarrow> members" where
  "json_members kvs = filter (\<lambda>(k, v). v \<noteq> Undefined) kvs"

definition live_at :: "members \<Rightarrow> int \<Rightarrow> bool" where
  "live_at payload nowMs =
     (case own payload ''exp'' of Number (Whole e) \<Rightarrow> nowMs div 1000 < e | Undefined \<Rightarrow> True | _ \<Rightarrow> False)"

definition jwt_accepts :: "jwt_options \<Rightarrow> members \<Rightarrow> members \<Rightarrow> bool" where
  "jwt_accepts opts header payload =
     (own header ''alg'' \<in> Str ` set (jo_algorithms opts) \<and> own payload ''iss'' = Str (jo_issuer opts)
      \<and> own payload ''aud'' = Str (jo_audience opts) \<and> list_all (\<lambda>k. own payload k \<noteq> Undefined) (jo_requiredClaims opts)
      \<and> live_at payload (jo_currentMs opts) \<and> own payload ''nbf'' = Undefined)"

definition jose_roundtrip :: "jose \<Rightarrow> bool" where
  "jose_roundtrip J =
     (\<forall>sk vk header payload token opts.
        jose_sign J sk header payload = Inr token \<longrightarrow> key_pair sk vk \<longrightarrow> jwt_accepts opts header payload \<longrightarrow>
        jose_verify J token vk opts = Inr (json_members payload))"

definition jose_checks :: "jose \<Rightarrow> bool" where
  "jose_checks J =
     (\<forall>token vk opts payload.
        jose_verify J token vk opts = Inr payload \<longrightarrow>
        own payload ''iss'' = Str (jo_issuer opts) \<and> live_at payload (jo_currentMs opts))"

lemma jose_checksD: "jose_checks J \<Longrightarrow> jose_verify J token vk opts = Inr payload \<Longrightarrow> live_at payload (jo_currentMs opts)"
  by (simp add: jose_checks_def)

text \<open>A library that signs one payload and no other satisfies both.\<close>

definition one_token_jose :: "jwt_key \<Rightarrow> members \<Rightarrow> members \<Rightarrow> jose" where
  "one_token_jose key header payload =
     \<lparr>jose_sign = (\<lambda>k h p. if k = key \<and> h = header \<and> p = payload then Inr ''jwt'' else Inl (Thrown ''Error'' ''other'')),
      jose_verify = (\<lambda>t k opts. if t = ''jwt'' \<and> key_pair key k \<and> jwt_accepts opts header payload
                                then Inr (json_members payload) else Inl (Thrown ''Error'' ''rejected''))\<rparr>"

lemma own_absent: "k \<notin> fst ` set kvs \<Longrightarrow> own kvs k = Undefined"
  by (simp add: own_def map_of_eq_None_iff [THEN iffD2])

lemma own_Cons: "own ((k, v) # kvs) j = (if j = k then v else own kvs j)"
  by (simp add: own_def)

lemma own_json_members:
  "distinct (map fst kvs) \<Longrightarrow> own (json_members kvs) k = own kvs k"
proof (induction kvs)
  case (Cons x kvs)
  obtain j v where x: "x = (j, v)" by (cases x)
  have "j \<notin> fst ` set (json_members kvs)" using Cons.prems by (auto simp: x json_members_def)
  then have "own (json_members kvs) j = Undefined" by (rule own_absent)
  moreover have "json_members (x # kvs) = (if v = Undefined then json_members kvs else x # json_members kvs)"
    by (simp add: x json_members_def)
  ultimately show ?case using Cons by (auto simp: x own_Cons)
qed (simp add: json_members_def)

lemma one_token_jose_roundtrip: "jose_roundtrip (one_token_jose key header payload)"
  by (auto simp: jose_roundtrip_def one_token_jose_def)

lemma one_token_jose_checks:
  "distinct (map fst payload) \<Longrightarrow> jose_checks (one_token_jose key header payload)"
  by (auto simp: jose_checks_def one_token_jose_def jwt_accepts_def live_at_def own_json_members split: if_split_asm)

subsection \<open>Access tokens\<close>

lemma own_append: "own (kvs @ kvs') j = (if map_has j kvs then own kvs j else own kvs' j)"
  by (induction kvs) (auto simp: own_def map_has_def)

lemma own_Nil [simp]: "own [] j = Undefined"
  by (simp add: own_def)

lemma nowSeconds_Inr:
  "nowSeconds clock ttl = Inr n \<longleftrightarrow>
     (\<exists>t. clock = Reads (Whole t) \<and> canonical t \<and> safe_int (ttl * 1000) \<and> 0 \<le> ttl \<and> t + ttl * 1000 \<le> MAX_CANONICAL_MS
        \<and> n = t div 1000)"
  by (auto simp: nowSeconds_def result_simps finiteClockSnapshot_Inr canonical_def safe_int_def MAX_SAFE_INTEGER_def
      MIN_CANONICAL_MS_def MAX_CANONICAL_MS_def)

lemma Str_list_eq: "map Str xs = map Str ys \<longleftrightarrow> xs = ys"
  by (rule inj_map_eq_map) (auto simp: inj_def)

lemma key_pair_access: "key_pair (signKey config) (verifyKey config)"
  by (simp add: signKey_def verifyKey_def publicJwk_def own_Cons Let_def)

lemma signAccessToken_Inr:
  "signAccessToken J claims config clock = Inr token \<longleftrightarrow>
     (\<exists>now. list_all isBoundedScopeToken (at_scopes claims) \<and> length (at_scopes claims) \<le> MAX_SCOPE_ENTRIES
        \<and> subject_ok (at_subject claims) \<and> nowSeconds clock (cfg_accessTokenTtlSeconds config) = Inr now
        \<and> jose_sign J (signKey config) (access_header config)
            (access_payload config claims (scopeString (at_scopes claims)) now) = Inr token)"
  unfolding signAccessToken_def accessScopeString_def
  by (auto simp: result_simps identitySubject_Inr snapshotBoundedScopeList_iff Str_list_eq)

lemmas claim_fields = requiredString_def stringClaim_def primitiveString_def

lemma verifyAccessToken_Inr:
  "verifyAccessToken J token config clock = Inr a \<longleftrightarrow>
     (\<exists>t payload. clock = Reads (Whole t) \<and> canonical t
        \<and> jose_verify J token (verifyKey config) (access_options config t) = Inr payload
        \<and> own payload ''aud'' = Str (cfg_resource config) \<and> accessClaims payload = Inr a)"
  by (auto simp: verifyAccessToken_def result_simps finiteClockSnapshot_Inr canonical_def safe_int_def MAX_SAFE_INTEGER_def
      MIN_CANONICAL_MS_def MAX_CANONICAL_MS_def)

lemma verifyAccessToken_Inl: "verifyAccessToken J token config clock = Inl e \<Longrightarrow> e = invalid_bearer"
  by (simp add: verifyAccessToken_def rethrow_def split: sum.split_asm)

lemma accessClaims_Inr:
  assumes "accessClaims payload = Inr a"
  shows "own payload ''sub'' = Str (as_subject a) \<and> subject_ok (as_subject a)
     \<and> own payload ''client_id'' = Str (as_clientId a) \<and> as_clientId a \<noteq> []
     \<and> incomingAccessScopes (own payload ''scope'') = Inr (as_scopes a)
     \<and> credentialKindClaim payload (as_subject a) (as_clientId a) = Inr (as_credentialKind a)"
  using assms
  by (auto simp: accessClaims_def result_simps claim_fields identitySubject_Inr split: jsval.split_asm if_split_asm)

lemma credentialKindClaim_Inr:
  "credentialKindClaim payload sub clientId = Inr k \<Longrightarrow>
     (k = Machine \<longleftrightarrow> startsWith sub ''mcc_'') \<and> (k = Machine \<longrightarrow> clientId = sub \<and> own payload ''gty'' = Str ''client_credentials'')
     \<and> (k = Interactive \<longrightarrow> \<not> map_has ''gty'' payload)"
  by (auto simp: credentialKindClaim_def Let_def split: if_split_asm)

definition claims_coherent :: "access_claims \<Rightarrow> bool" where
  "claims_coherent c =
     (at_clientId c \<noteq> [] \<and> at_subject c \<noteq> [] \<and> at_machine c = startsWith (at_subject c) ''mcc_''
      \<and> (if at_machine c then at_clientId c = at_subject c else True))"

lemma access_payload_distinct: "distinct (map fst (access_payload config claims scope now))"
  by (simp add: access_payload_def)

lemma map_has_json_members:
  "distinct (map fst kvs) \<Longrightarrow> map_has k (json_members kvs) = (own kvs k \<noteq> Undefined)"
proof (induction kvs)
  case (Cons x kvs)
  obtain j v where x: "x = (j, v)" by (cases x)
  have "map_has k (json_members (x # kvs)) =
      (if v \<noteq> Undefined \<and> j = k then True else map_has k (json_members kvs))"
    by (simp add: x json_members_def map_has_def del: map_of_eq_Some_iff)
  moreover have "own kvs j = Undefined" using Cons.prems by (simp add: x own_absent)
  ultimately show ?case using Cons by (auto simp: x own_Cons)
qed (simp add: json_members_def map_has_def)

lemma access_payload_own:
  "own (access_payload config claims scope now) ''sub'' = Str (at_subject claims)"
  "own (access_payload config claims scope now) ''client_id'' = Str (at_clientId claims)"
  "own (access_payload config claims scope now) ''scope'' = Str scope"
  "own (access_payload config claims scope now) ''gty'' = (if at_machine claims then Str ''client_credentials'' else Undefined)"
  "own (access_payload config claims scope now) ''aud'' = Str (cfg_resource config)"
  "own (access_payload config claims scope now) ''iss'' = Str (cfg_issuer config)"
  "own (access_payload config claims scope now) ''exp'' = Number (Whole (now + cfg_accessTokenTtlSeconds config))"
  "own (access_payload config claims scope now) ''nbf'' = Undefined"
  by (simp_all add: access_payload_def own_Cons own_append map_has_def)

lemma accessClaims_minted:
  assumes "claims_coherent claims" and "subject_ok (at_subject claims)"
    and "list_all isBoundedScopeToken (at_scopes claims)" and "length (at_scopes claims) \<le> MAX_SCOPE_ENTRIES"
  shows "accessClaims (json_members (access_payload config claims (scopeString (at_scopes claims)) now)) =
     Inr \<lparr>as_subject = at_subject claims, as_clientId = at_clientId claims, as_scopes = sort (at_scopes claims),
          as_credentialKind = (if at_machine claims then Machine else Interactive)\<rparr>"
proof -
  let ?p = "access_payload config claims (scopeString (at_scopes claims)) now"
  have o: "own (json_members ?p) k = own ?p k" for k by (rule own_json_members [OF access_payload_distinct])
  have h: "map_has ''gty'' (json_members ?p) = (own ?p ''gty'' \<noteq> Undefined)"
    by (rule map_has_json_members [OF access_payload_distinct])
  show ?thesis
    using assms incomingAccessScopes_scopeString [OF assms(3,4)]
    by (simp add: accessClaims_def o h access_payload_own requiredString_def credentialKindClaim_def
        claims_coherent_def subject_ok_def Let_def split: if_split_asm)
qed

text \<open>
  C35. An access token round-trips until it expires: what the signer accepts for a coherent client and
  subject is, before the time to live has passed, verified as the same subject and client, with the
  same scopes (sorted) and with the credential kind of the grant.
\<close>

theorem access_token_roundtrip:
  assumes "jose_roundtrip J" and "signAccessToken J claims config (Reads (Whole t0)) = Inr token"
    and "claims_coherent claims" and "canonical t"
    and "t div 1000 < t0 div 1000 + cfg_accessTokenTtlSeconds config"
  shows "verifyAccessToken J token config (Reads (Whole t)) =
     Inr \<lparr>as_subject = at_subject claims, as_clientId = at_clientId claims, as_scopes = sort (at_scopes claims),
          as_credentialKind = (if at_machine claims then Machine else Interactive)\<rparr>"
proof -
  let ?p = "access_payload config claims (scopeString (at_scopes claims)) (t0 div 1000)"
  from assms(2) have s: "list_all isBoundedScopeToken (at_scopes claims)" "length (at_scopes claims) \<le> MAX_SCOPE_ENTRIES"
    "subject_ok (at_subject claims)" "jose_sign J (signKey config) (access_header config) ?p = Inr token"
    by (auto simp: signAccessToken_Inr nowSeconds_Inr)
  have "jwt_accepts (access_options config t) (access_header config) ?p"
    using assms(5)
    by (simp add: jwt_accepts_def access_options_def access_header_def access_payload_own own_Cons live_at_def)
  with assms(1) s(4) key_pair_access have "jose_verify J token (verifyKey config) (access_options config t) = Inr (json_members ?p)"
    by (auto simp: jose_roundtrip_def)
  moreover have "own (json_members ?p) ''aud'' = Str (cfg_resource config)"
    by (simp add: own_json_members [OF access_payload_distinct] access_payload_own)
  ultimately show ?thesis
    using accessClaims_minted [OF assms(3) s(3) s(1,2)] assms(4) by (simp add: verifyAccessToken_Inr)
qed

subsection \<open>Consent tokens\<close>

lemma join_ends:
  "xs \<noteq> [] \<Longrightarrow> list_all (\<lambda>x. x \<noteq> []) xs \<Longrightarrow>
   join sep xs \<noteq> [] \<and> hd (join sep xs) = hd (hd xs) \<and> last (join sep xs) = last (last xs)"
  by (induction sep xs rule: join.induct) auto

lemma trim_ends:
  assumes "s \<noteq> []" and "graphic (hd s)" and "graphic (last s)"
  shows "trim s = s"
proof -
  obtain c u where "s = c # u" using assms(1) by (cases s) auto
  then have "trim_start s = s" using assms(2) by (simp add: trim_start_graphic)
  moreover obtain d v where d: "rev s = d # v" using assms(1) by (cases "rev s") auto
  then have "d = last s" by (metis hd_rev list.sel(1))
  with assms(3) have "rtrim_start (d # v) = d # v" by (simp add: rtrim_start_graphic)
  then have "rtrim_start (rev s) = rev s" unfolding d .
  ultimately show ?thesis by (simp add: trim_def)
qed

lemma token_ends: "isBoundedScopeToken x \<Longrightarrow> x \<noteq> [] \<and> graphic (hd x) \<and> graphic (last x)"
  by (cases x) (auto simp: isBoundedScopeToken_def list_all_iff dest!: scope_token_graphic)

lemma join_tokens:
  assumes "xs \<noteq> []" and "list_all isBoundedScopeToken xs"
  shows "join '' '' xs \<noteq> []" and "trim (join '' '' xs) = join '' '' xs"
proof -
  have "list_all (\<lambda>x. x \<noteq> []) xs" using assms(2) by (auto simp: list_all_iff dest: token_ends)
  with assms(1) have j: "join '' '' xs \<noteq> []" "hd (join '' '' xs) = hd (hd xs)" "last (join '' '' xs) = last (last xs)"
    using join_ends [of xs "'' ''"] by auto
  moreover have "isBoundedScopeToken (hd xs)" "isBoundedScopeToken (last xs)"
    using assms by (auto simp: list_all_iff)
  ultimately show "join '' '' xs \<noteq> []" "trim (join '' '' xs) = join '' '' xs"
    using trim_ends [of "join '' '' xs"] by (auto dest: token_ends)
qed

lemma claim_scopes_scopeString:
  assumes "list_all isBoundedScopeToken ss"
  shows "claim_scopes (Str (scopeString ss)) = sort ss" and "claim_ceiling (Str (scopeString ss)) = Some (sort ss)"
proof -
  have "list_all isBoundedScopeToken (sort ss)" using assms by simp
  then show "claim_scopes (Str (scopeString ss)) = sort ss" "claim_ceiling (Str (scopeString ss)) = Some (sort ss)"
    using join_tokens [of "sort ss"] split_ws_tokens [of "sort ss"]
    by (cases "sort ss = []"; simp add: claim_scopes_def claim_ceiling_def scopeString_def)+
qed

definition consent_ok :: "consent_claims \<Rightarrow> bool" where
  "consent_ok c =
     (cc_clientId c \<noteq> [] \<and> cc_resource c \<noteq> [] \<and> cc_codeChallenge c \<noteq> [] \<and> cc_subject c \<noteq> []
      \<and> list_all isBoundedScopeToken (cc_scopes c)
      \<and> (case cc_allowedScopes c of None \<Rightarrow> True | Some ss \<Rightarrow> list_all isBoundedScopeToken ss)
      \<and> cc_state c \<noteq> Some [])"

lemma consent_payload_own:
  "own (consent_payload config c sub jti i now) ''typ'' = Str CONSENT_TYP"
  "own (consent_payload config c sub jti i now) ''jti'' = Str jti"
  "own (consent_payload config c sub jti i now) ''client_id'' = Str (cc_clientId c)"
  "own (consent_payload config c sub jti i now) ''redirect_uri'' = Str (cc_redirectUri c)"
  "own (consent_payload config c sub jti i now) ''resource'' = Str (cc_resource c)"
  "own (consent_payload config c sub jti i now) ''scope'' = Str (scopeString (cc_scopes c))"
  "own (consent_payload config c sub jti i now) ''code_challenge'' = Str (cc_codeChallenge c)"
  "own (consent_payload config c sub jti i now) ''state'' = opt_value (cc_state c)"
  "own (consent_payload config c sub jti i now) ''allowed_scopes'' = opt_value (map_option scopeString (cc_allowedScopes c))"
  "own (consent_payload config c sub jti i now) ''store_instance'' = opt_value i"
  "own (consent_payload config c sub jti i now) ''cimd_verified'' = (if cc_cimdVerified c then Boolean True else Undefined)"
  "own (consent_payload config c sub jti i now) ''iss'' = Str (cfg_issuer config)"
  "own (consent_payload config c sub jti i now) ''aud'' = Str CONSENT_AUDIENCE"
  "own (consent_payload config c sub jti i now) ''sub'' = Str sub"
  "own (consent_payload config c sub jti i now) ''exp'' = Number (Whole (now + cfg_consentTokenTtlSeconds config))"
  "own (consent_payload config c sub jti i now) ''nbf'' = Undefined"
  by (simp_all add: consent_payload_def own_Cons own_append map_has_def)

lemma consent_payload_distinct: "distinct (map fst (consent_payload config c sub jti i now))"
  by (simp add: consent_payload_def)

lemma consentClaims_minted:
  assumes "consent_ok c" and "subject_ok (cc_subject c)" and "i \<noteq> []"
  shows "consentClaims (json_members (consent_payload config c (cc_subject c) jti (Some i) now)) =
     Inr (c\<lparr>cc_scopes := sort (cc_scopes c), cc_allowedScopes := map_option sort (cc_allowedScopes c),
            cc_storeInstanceId := Some i\<rparr>)"
proof -
  let ?p = "consent_payload config c (cc_subject c) jti (Some i) now"
  have o: "own (json_members ?p) k = own ?p k" for k by (rule own_json_members [OF consent_payload_distinct])
  have h: "map_has ''cimd_verified'' (json_members ?p) = (own ?p ''cimd_verified'' \<noteq> Undefined)"
    by (rule map_has_json_members [OF consent_payload_distinct])
  have st: "stringClaim (opt_value (cc_state c)) = cc_state c"
    using assms(1) by (auto simp: consent_ok_def stringClaim_def opt_value_def split: option.splits)
  have ce: "claim_ceiling (opt_value (map_option scopeString (cc_allowedScopes c))) = map_option sort (cc_allowedScopes c)"
    using assms(1) claim_scopes_scopeString(2)
    by (auto simp: consent_ok_def opt_value_def claim_ceiling_def [of Undefined] split: option.splits)
  have sc: "claim_scopes (Str (scopeString (cc_scopes c))) = sort (cc_scopes c)"
    using assms(1) by (auto simp: consent_ok_def intro: claim_scopes_scopeString(1))
  show ?thesis
    using assms by (simp add: consentClaims_def o h st ce sc consent_payload_own requiredString_def primitiveString_def
        cimdVerifiedClaim_def consent_ok_def subject_ok_def stringClaim_def [of "Str _"] opt_value_def [of "Some _"])
qed

lemma verifyConsentToken_Inr:
  "verifyConsentToken J token config clock = Inr vc \<longleftrightarrow>
     (\<exists>t payload c jti expiry. clock = Reads (Whole t) \<and> canonical t
        \<and> jose_verify J token (consentSecret config) (consent_options config t) = Inr payload
        \<and> consentClaims payload = Inr c \<and> requiredString (own payload ''jti'') ''jti'' = Inr jti
        \<and> numericDateIso (own payload ''exp'') ''exp'' = Inr expiry
        \<and> vc = consent_claims.extend c \<lparr>vc_jti = jti, vc_expiresAt = expiry\<rparr>)"
  by (auto simp: verifyConsentToken_def result_simps finiteClockSnapshot_Inr canonical_def safe_int_def
      MAX_SAFE_INTEGER_def MIN_CANONICAL_MS_def MAX_CANONICAL_MS_def)

lemma numericDateIso_Inr:
  "numericDateIso v label = Inr s \<longleftrightarrow> (\<exists>e. v = Number (Whole e) \<and> canonical (e * 1000) \<and> s = toISOString (e * 1000))"
  by (auto simp: numericDateIso_def result_simps finiteClockSnapshot_Inr canonical_def safe_int_def MAX_SAFE_INTEGER_def
      MIN_CANONICAL_MS_def MAX_CANONICAL_MS_def split: jsval.splits num.splits)

text \<open>
  A verified consent token has not expired: whatever the library signed, the expiry the
  verification returns is a timestamp that lies strictly after the clock, as a string and as an instant.
\<close>

theorem consent_token_unexpired:
  assumes "jose_checks J" and "verifyConsentToken J token config (Reads (Whole t)) = Inr vc"
  shows "toISOString t < vc_expiresAt vc \<and> subject_ok (cc_subject vc) \<and> vc_jti vc \<noteq> []"
proof -
  from assms(2) obtain payload c jti expiry where v: "canonical t"
    "jose_verify J token (consentSecret config) (consent_options config t) = Inr payload"
    "consentClaims payload = Inr c" "requiredString (own payload ''jti'') ''jti'' = Inr jti"
    "numericDateIso (own payload ''exp'') ''exp'' = Inr expiry"
    and vc: "vc = consent_claims.extend c \<lparr>vc_jti = jti, vc_expiresAt = expiry\<rparr>"
    by (auto simp: verifyConsentToken_Inr)
  from v(5) obtain e where e: "own payload ''exp'' = Number (Whole e)" "canonical (e * 1000)" "expiry = toISOString (e * 1000)"
    by (auto simp: numericDateIso_Inr)
  have "live_at payload t" using jose_checksD [OF assms(1) v(2)] by (simp add: consent_options_def)
  with e(1) have "t div 1000 < e" by (simp add: live_at_def)
  then have "t < e * 1000" by linarith
  with v(1) e have "toISOString t < expiry" by (simp add: toISOString_less_iff)
  moreover from v(3) have "subject_ok (cc_subject c)"
    by (auto simp: consentClaims_def result_simps identitySubject_Inr)
  moreover from v(4) have "jti \<noteq> []" by (auto simp: requiredString_def split: jsval.split_asm if_split_asm)
  ultimately show ?thesis by (simp add: vc consent_claims.defs)
qed

lemma signConsentToken_perform:
  assumes "cc_storeInstanceId claims = Some i"
    and "perform env (signConsentToken J bound claims config clock) w = (Inr token, tr, au, w')"
  shows "\<exists>now r. subject_ok (cc_subject claims) \<and> nowSeconds clock (cfg_consentTokenTtlSeconds config) = Inr now
     \<and> seal_consent J config claims (cc_subject claims) (Some i) now r = Inr token \<and> tr = []"
  using assms
  by (auto simp: signConsentToken_def pass_def fail_def result_simps identitySubject_Inr
      split: sum.split_asm prod.split_asm)

text \<open>
  A consent token round-trips until it expires: what \<open>prepare\<close> signs for a bound store is, before
  the time to live has passed, verified as the same request, with its scopes and its ceiling sorted, a
  fresh identifier and the expiry that was signed.
\<close>

theorem consent_token_roundtrip:
  assumes "jose_roundtrip J" and "consent_ok claims" and "cc_storeInstanceId claims = Some i" and "i \<noteq> []"
    and "perform env (signConsentToken J bound claims config (Reads (Whole t0))) w = (Inr token, tr, au, w')"
    and "canonical t" and "t div 1000 < t0 div 1000 + cfg_consentTokenTtlSeconds config"
  shows "\<exists>jti. verifyConsentToken J token config (Reads (Whole t)) =
     Inr (consent_claims.extend
            (claims\<lparr>cc_scopes := sort (cc_scopes claims), cc_allowedScopes := map_option sort (cc_allowedScopes claims)\<rparr>)
            \<lparr>vc_jti = jti, vc_expiresAt = toISOString ((t0 div 1000 + cfg_consentTokenTtlSeconds config) * 1000)\<rparr>)"
proof -
  let ?ttl = "cfg_consentTokenTtlSeconds config" and ?now = "t0 div 1000"
  from signConsentToken_perform [OF assms(3,5)] obtain r where s: "subject_ok (cc_subject claims)"
    and n: "nowSeconds (Reads (Whole t0)) ?ttl = Inr ?now"
    and seal: "seal_consent J config claims (cc_subject claims) (Some i) ?now r = Inr token"
    by (auto simp: nowSeconds_Inr)
  from seal obtain jti where j: "generateConsentJti r = Inr jti"
    and sg: "jose_sign J (consentSecret config) consent_header (consent_payload config claims (cc_subject claims) jti (Some i) ?now) = Inr token"
    by (auto simp: seal_consent_def result_simps split: if_split_asm)
  let ?p = "consent_payload config claims (cc_subject claims) jti (Some i) ?now"
  from j obtain b where "jti = base64url b" "length b = 18"
    by (auto simp: generateConsentJti_def result_simps randomBytesFrom_Inr)
  then have "length jti = 24" by (simp add: length_base64url)
  then have jti: "jti \<noteq> []" by auto
  have "jwt_accepts (consent_options config t) consent_header ?p"
    using assms(7) by (simp add: jwt_accepts_def consent_options_def consent_header_def consent_payload_own own_Cons live_at_def)
  moreover have "key_pair (consentSecret config) (consentSecret config)" by (simp add: consentSecret_def)
  ultimately have v: "jose_verify J token (consentSecret config) (consent_options config t) = Inr (json_members ?p)"
    using assms(1) sg by (auto simp: jose_roundtrip_def)
  from n have t0: "-62167219200000 \<le> t0" "0 \<le> ?ttl" "t0 + ?ttl * 1000 \<le> 253402300799999"
    by (auto simp: nowSeconds_Inr canonical_def MIN_CANONICAL_MS_def MAX_CANONICAL_MS_def)
  then have "-62167219200 \<le> ?now" "?now * 1000 \<le> t0" by linarith+
  with t0 have "canonical ((?now + ?ttl) * 1000)"
    by (simp add: distrib_right canonical_def MIN_CANONICAL_MS_def MAX_CANONICAL_MS_def)
  then have "numericDateIso (own ?p ''exp'') ''exp'' = Inr (toISOString ((?now + ?ttl) * 1000))"
    by (simp add: numericDateIso_Inr consent_payload_own)
  moreover have "consentClaims (json_members ?p) =
      Inr (claims\<lparr>cc_scopes := sort (cc_scopes claims), cc_allowedScopes := map_option sort (cc_allowedScopes claims)\<rparr>)"
  proof -
    have "c\<lparr>cc_storeInstanceId := Some i\<rparr> = c" if "cc_storeInstanceId c = Some i" for c :: consent_claims
      using that by simp
    then show ?thesis unfolding consentClaims_minted [OF assms(2) s assms(4)] using assms(3) by simp
  qed
  moreover have "requiredString (own ?p ''jti'') ''jti'' = Inr jti"
    using jti by (simp add: consent_payload_own requiredString_def)
  ultimately show ?thesis
    using v assms(6) unfolding verifyConsentToken_Inr own_json_members [OF consent_payload_distinct]
    by (intro exI [of _ jti]) (fastforce simp: own_json_members [OF consent_payload_distinct])
qed

subsection \<open>Witnesses\<close>

definition demo_access_claims :: access_claims where
  "demo_access_claims =
     \<lparr>at_subject = ''user-1'', at_clientId = ''mcpdc_1'', at_scopes = [''mcp:read''], at_machine = False\<rparr>"

definition demo_access_jose :: jose where
  "demo_access_jose =
     one_token_jose (signKey demo_config) (access_header demo_config)
       (access_payload demo_config demo_access_claims ''mcp:read'' 1700000000)"

lemma demo_subject: "subject_ok ''user-1''"
  by code_simp

lemma demo_scope: "list_all isBoundedScopeToken [''mcp:read'']"
  by (simp add: scope_evals)

lemma demo_config_fields:
  "cfg_accessTokenTtlSeconds demo_config = 600" "cfg_consentTokenTtlSeconds demo_config = 300"
  by (simp_all add: demo_config_def)

lemma demo_access_signed: "signAccessToken demo_access_jose demo_access_claims demo_config (Reads (Whole 1700000000000)) = Inr ''jwt''"
  by (simp add: signAccessToken_Inr nowSeconds_Inr demo_config_fields canonical_def MIN_CANONICAL_MS_def
      MAX_CANONICAL_MS_def safe_int_def MAX_SAFE_INTEGER_def demo_access_jose_def one_token_jose_def
      demo_access_claims_def demo_subject demo_scope [simplified] scopeString_def MAX_SCOPE_ENTRIES_def)

lemma demo_access_verified:
  "verifyAccessToken demo_access_jose ''jwt'' demo_config (Reads (Whole 1700000500000)) =
     Inr \<lparr>as_subject = ''user-1'', as_clientId = ''mcpdc_1'', as_scopes = [''mcp:read''], as_credentialKind = Interactive\<rparr>"
proof -
  let ?p = "access_payload demo_config demo_access_claims ''mcp:read'' 1700000000"
  have "jwt_accepts (access_options demo_config 1700000500000) (access_header demo_config) ?p"
    by (simp add: jwt_accepts_def access_options_def access_header_def access_payload_own own_Cons live_at_def demo_config_fields)
  moreover have "own (json_members ?p) ''aud'' = Str (cfg_resource demo_config)"
    by (simp add: own_json_members [OF access_payload_distinct] access_payload_own)
  moreover have "accessClaims (json_members ?p) =
      Inr \<lparr>as_subject = ''user-1'', as_clientId = ''mcpdc_1'', as_scopes = [''mcp:read''], as_credentialKind = Interactive\<rparr>"
    using accessClaims_minted [of demo_access_claims demo_config 1700000000] demo_scope demo_subject
    by (simp add: claims_coherent_def demo_access_claims_def scopeString_def MAX_SCOPE_ENTRIES_def)
  ultimately show ?thesis
    by (simp add: verifyAccessToken_Inr demo_access_jose_def one_token_jose_def key_pair_access canonical_def
        MIN_CANONICAL_MS_def MAX_CANONICAL_MS_def)
qed

theorem access_token_roundtrip_witness:
  "verifyAccessToken demo_access_jose ''jwt'' demo_config (Reads (Whole 1700000500000)) =
     Inr \<lparr>as_subject = ''user-1'', as_clientId = ''mcpdc_1'', as_scopes = [''mcp:read''], as_credentialKind = Interactive\<rparr>"
  using access_token_roundtrip [of demo_access_jose demo_access_claims demo_config 1700000000000 "''jwt''" 1700000500000]
  by (simp add: demo_access_signed demo_config_fields canonical_def MIN_CANONICAL_MS_def MAX_CANONICAL_MS_def
      claims_coherent_def) (simp add: demo_access_claims_def demo_access_jose_def one_token_jose_roundtrip)

definition demo_consent :: consent_claims where
  "demo_consent =
     \<lparr>cc_clientId = ''mcpdc_1'', cc_redirectUri = ''https://claude.ai/cb'', cc_resource = ''https://mcp.example/mcp'',
      cc_scopes = [''mcp:read''], cc_codeChallenge = ''challenge'', cc_state = Some ''s'', cc_subject = ''user-1'',
      cc_allowedScopes = None, cc_cimdVerified = False, cc_storeInstanceId = Some ''AAAAAAAAAAAAAAAAAAAAAA''\<rparr>"

definition demo_bytes :: string where "demo_bytes = replicate 18 (CHR ''A'')"

definition demo_consent_payload :: members where
  "demo_consent_payload =
     consent_payload demo_config demo_consent ''user-1'' (base64url demo_bytes) (Some ''AAAAAAAAAAAAAAAAAAAAAA'') 1700000000"

definition demo_consent_jose :: jose where
  "demo_consent_jose = one_token_jose (consentSecret demo_config) consent_header demo_consent_payload"

definition demo_env :: "unit env" where
  "demo_env = \<lparr>on_call = (\<lambda>c w. (Inr Undefined, w)), on_clock = (\<lambda>w. (ClockThrows, w)),
               on_random = (\<lambda>w. (RandomBytes demo_bytes, w))\<rparr>"

lemma demo_consent_signed:
  "perform demo_env (signConsentToken demo_consent_jose True demo_consent demo_config (Reads (Whole 1700000000000))) ()
     = (Inr ''jwt'', [], [], ())"
proof -
  have "nowSeconds (Reads (Whole 1700000000000)) 300 = Inr 1700000000"
    by (simp add: nowSeconds_Inr canonical_def MIN_CANONICAL_MS_def MAX_CANONICAL_MS_def safe_int_def MAX_SAFE_INTEGER_def)
  moreover have "identitySubject (Str ''user-1'') = Inr ''user-1''" using demo_subject by (simp add: subject_ok_def)
  moreover have "generateConsentJti (RandomBytes demo_bytes) = Inr (base64url demo_bytes)"
    by (simp add: generateConsentJti_def randomBytesFrom_def demo_bytes_def)
  moreover have "cc_subject demo_consent = ''user-1''" "cc_storeInstanceId demo_consent = Some ''AAAAAAAAAAAAAAAAAAAAAA''"
    by (simp_all add: demo_consent_def)
  ultimately show ?thesis
    by (simp add: signConsentToken_def pass_def demo_env_def seal_consent_def demo_consent_jose_def one_token_jose_def
        demo_consent_payload_def MAX_CONSENT_TOKEN_BYTES_def demo_config_fields)
qed

theorem consent_token_roundtrip_witness:
  "\<exists>jti. verifyConsentToken demo_consent_jose ''jwt'' demo_config (Reads (Whole 1700000100000)) =
     Inr (consent_claims.extend
            (demo_consent\<lparr>cc_scopes := sort (cc_scopes demo_consent),
                          cc_allowedScopes := map_option sort (cc_allowedScopes demo_consent)\<rparr>)
            \<lparr>vc_jti = jti, vc_expiresAt = toISOString ((1700000000000 div 1000 + cfg_consentTokenTtlSeconds demo_config) * 1000)\<rparr>)"
proof (rule consent_token_roundtrip [OF _ _ _ _ demo_consent_signed])
  show "jose_roundtrip demo_consent_jose" by (simp add: demo_consent_jose_def one_token_jose_roundtrip)
  show "consent_ok demo_consent" using demo_scope by (simp add: consent_ok_def demo_consent_def)
  show "cc_storeInstanceId demo_consent = Some ''AAAAAAAAAAAAAAAAAAAAAA''" "''AAAAAAAAAAAAAAAAAAAAAA'' \<noteq> []"
    by (simp_all add: demo_consent_def)
qed (simp_all add: canonical_def MIN_CANONICAL_MS_def MAX_CANONICAL_MS_def demo_config_fields)

lemma demo_consent_verified:
  "verifyConsentToken demo_consent_jose ''jwt'' demo_config (Reads (Whole 1700000100000)) =
     Inr (consent_claims.extend demo_consent
            \<lparr>vc_jti = base64url demo_bytes, vc_expiresAt = toISOString 1700000300000\<rparr>)"
proof -
  let ?p = demo_consent_payload
  have d: "own (json_members ?p) k = own ?p k" for k
    unfolding demo_consent_payload_def by (rule own_json_members [OF consent_payload_distinct])
  have a: "jwt_accepts (consent_options demo_config 1700000100000) consent_header ?p"
    by (simp add: jwt_accepts_def consent_options_def consent_header_def demo_consent_payload_def consent_payload_own
        own_Cons live_at_def demo_config_fields)
  have k: "key_pair (consentSecret demo_config) (consentSecret demo_config)" by (simp add: consentSecret_def)
  have "consentClaims (json_members ?p) = Inr demo_consent"
    using consentClaims_minted [of demo_consent "''AAAAAAAAAAAAAAAAAAAAAA''" demo_config "base64url demo_bytes" 1700000000]
      demo_scope demo_subject by (simp add: demo_consent_payload_def consent_ok_def demo_consent_def)
  moreover have "requiredString (own ?p ''jti'') ''jti'' = Inr (base64url demo_bytes)"
    using length_base64url [of demo_bytes]
    by (auto simp: demo_consent_payload_def consent_payload_own requiredString_def demo_bytes_def)
  moreover have "numericDateIso (own ?p ''exp'') ''exp'' = Inr (toISOString 1700000300000)"
    by (simp add: numericDateIso_Inr demo_consent_payload_def consent_payload_own demo_config_fields canonical_def
        MIN_CANONICAL_MS_def MAX_CANONICAL_MS_def)
  ultimately show ?thesis
    using a k by (simp add: verifyConsentToken_Inr demo_consent_jose_def one_token_jose_def d canonical_def
        MIN_CANONICAL_MS_def MAX_CANONICAL_MS_def)
qed

theorem consent_token_unexpired_witness:
  "toISOString 1700000100000 < toISOString 1700000300000 \<and> subject_ok ''user-1'' \<and> base64url demo_bytes \<noteq> []"
proof -
  have "jose_checks demo_consent_jose"
    unfolding demo_consent_jose_def demo_consent_payload_def
    by (rule one_token_jose_checks [OF consent_payload_distinct])
  from consent_token_unexpired [OF this demo_consent_verified] show ?thesis
    by (simp add: consent_claims.defs demo_consent_def)
qed

end
