(* ===== verification/Resource_Server.thy ===== *)
theory Resource_Server
  imports Token_Laws
begin

section \<open>The resource server: bearer verification, challenges and metadata\<close>

text \<open>
  \<open>src/verifier.ts\<close>, \<open>src/challenge.ts\<close> and \<open>src/metadata.ts\<close>, with \<open>originOf\<close> and \<open>pathAfterOrigin\<close>
  of \<open>src/config.ts\<close>. The two builders of error redirects edit the query of a URL in place, which is
  the URL library's business; they are parameters of the authorization endpoint.
\<close>

subsection \<open>The verifier\<close>

datatype authorization_header = NoHeader | OneHeader string | HeaderList "string list"

definition bearer_error :: "string \<Rightarrow> failure" where
  "bearer_error m = oauthError ''invalid_token'' m 401"

text \<open>\<open>/^Bearer\s+(\S+)$/i\<close> on the trimmed value: the captured token, if it matches.\<close>

definition bearer_capture :: "string \<Rightarrow> string option" where
  "bearer_capture value =
     (let t = trim value; rest = drop 6 t; token = trim_start rest
      in if map ascii_lower_char (take 6 t) = ''bearer'' \<and> ws_len rest \<noteq> 0 \<and> token \<noteq> [] \<and> split_ws token = [token]
         then Some token else None)"

definition bearerToken :: "authorization_header \<Rightarrow> string outcome" where
  "bearerToken header =
     chain (case header of
              HeaderList vs \<Rightarrow>
                (case vs of [v] \<Rightarrow> Inr v | _ \<Rightarrow> Inl (bearer_error ''Authorization header must occur exactly once''))
            | OneHeader v \<Rightarrow> Inr v
            | NoHeader \<Rightarrow> Inr []) (\<lambda>v.
     if v = [] then Inl (bearer_error ''Bearer token is required'')
     else case bearer_capture v of
            None \<Rightarrow> Inl (bearer_error ''Bearer token is required'')
          | Some t \<Rightarrow> Inr t)"

definition auth_failure_reason :: "failure \<Rightarrow> string" where
  "auth_failure_reason e = (case e of OAuth oe \<Rightarrow> code oe | _ \<Rightarrow> ''invalid_token'')"

text \<open>What is decided once the clock has been read: an absent or empty required scope asks for none.\<close>

definition decide_request ::
  "jose \<Rightarrow> bridge_config \<Rightarrow> authorization_header \<Rightarrow> string option \<Rightarrow> clock_reading \<Rightarrow> authorizedSubject outcome" where
  "decide_request J config header required clock =
     chain (bearerToken header) (\<lambda>token.
     chain (verifyAccessToken J token config clock) (\<lambda>verified.
     chain (case required of
              None \<Rightarrow> Inr ()
            | Some s \<Rightarrow> if s = [] then Inr () else requireScope verified s (cfg_scopeHierarchy config)) (\<lambda>_.
     Inr verified)))"

definition request_audit :: "string \<Rightarrow> string option \<Rightarrow> authorizedSubject outcome \<Rightarrow> audit_event" where
  "request_audit occurredAt required result =
     (case result of
        Inr v \<Rightarrow>
          \<lparr>ae_event = ''auth.request'', ae_status = ''success'', ae_occurredAt = occurredAt,
           ae_clientId = Some (as_clientId v), ae_subject = Some (as_subject v), ae_resource = None,
           ae_scopes = Some (as_scopes v), ae_redirectHost = None, ae_reason = required, ae_ip = None,
      ae_selectedClientAuthMethod = None\<rparr>
      | Inl e \<Rightarrow>
          \<lparr>ae_event = ''auth.request'', ae_status = ''failure'', ae_occurredAt = occurredAt,
           ae_clientId = None, ae_subject = None, ae_resource = None, ae_scopes = None, ae_redirectHost = None,
           ae_reason = Some (auth_failure_reason e), ae_ip = None,
      ae_selectedClientAuthMethod = None\<rparr>)"

definition authorizeRequest ::
  "jose \<Rightarrow> bridge_config \<Rightarrow> authorization_header \<Rightarrow> string option \<Rightarrow> authorizedSubject io" where
  "authorizeRequest J config header required =
     Now (\<lambda>r. case finiteClockSnapshot r 0 of
       Inl _ \<Rightarrow> fail invalid_bearer
     | Inr t \<Rightarrow>
         (let result = decide_request J config header required (fixedClockSnapshot t)
          in Audit (request_audit (toISOString t) required result) (Return result)))"

subsection \<open>Challenges\<close>

definition originOf :: "url_parser \<Rightarrow> string \<Rightarrow> string outcome" where
  "originOf parseUrl v =
     (case parseUrl v of
        None \<Rightarrow> Inl (Thrown ''TypeError'' ''Invalid URL'')
      | Some u \<Rightarrow> Inr (url_protocol u @ ''//'' @ url_host u))"

definition pathAfterOrigin :: "url_parser \<Rightarrow> string \<Rightarrow> string outcome" where
  "pathAfterOrigin parseUrl v =
     (case parseUrl v of None \<Rightarrow> Inl (Thrown ''TypeError'' ''Invalid URL'') | Some u \<Rightarrow> Inr (url_pathname u))"

definition protectedResourceMetadataUrl :: "url_parser \<Rightarrow> bridge_config \<Rightarrow> string outcome" where
  "protectedResourceMetadataUrl parseUrl config =
     chain (originOf parseUrl (cfg_resource config)) (\<lambda>o'. Inr (o' @ ''/.well-known/oauth-protected-resource''))"

fun escapeQuoted :: "string \<Rightarrow> string" where
  "escapeQuoted [] = []"
| "escapeQuoted (c # s) =
     (if c = CHR 0x5C \<or> c = CHR 0x22 then CHR 0x5C # c # escapeQuoted s else c # escapeQuoted s)"

definition quoted_param :: "string \<Rightarrow> string \<Rightarrow> string" where
  "quoted_param name value = name @ CHR ''='' # CHR 0x22 # value @ [CHR 0x22]"

definition nonempty :: "string option \<Rightarrow> bool" where
  "nonempty v = (case v of None \<Rightarrow> False | Some s \<Rightarrow> s \<noteq> [])"

definition challenge_params :: "string \<Rightarrow> string list \<Rightarrow> string option \<Rightarrow> string option \<Rightarrow> string list" where
  "challenge_params metadata scopes err errorDescription =
     [quoted_param ''Bearer resource_metadata'' metadata]
     @ (if scopes \<noteq> [] then [quoted_param ''scope'' (join '' '' scopes)] else [])
     @ (if nonempty err then [quoted_param ''error'' (the err)] else [])
     @ (if nonempty err \<and> nonempty errorDescription
        then [quoted_param ''error_description'' (escapeQuoted (the errorDescription))] else [])"

definition buildUnauthorizedChallenge ::
  "url_parser \<Rightarrow> bridge_config \<Rightarrow> jsval \<Rightarrow> string option \<Rightarrow> string option \<Rightarrow> string outcome" where
  "buildUnauthorizedChallenge parseUrl config selected err errorDescription =
     (case snapshotBoundedScopeList (if selected = Undefined then Arr (map Str (cfg_scopeCatalog config)) else selected) of
        Inl _ \<Rightarrow> Inl (oauth400 ''invalid_scope'' ''Challenge scopes are malformed'')
      | Inr scopes \<Rightarrow>
          chain (protectedResourceMetadataUrl parseUrl config) (\<lambda>metadata.
          Inr (join '', '' (challenge_params metadata scopes err errorDescription))))"

definition buildBasicClientChallenge :: "bridge_config \<Rightarrow> string" where
  "buildBasicClientChallenge config =
     quoted_param ''Basic realm'' (escapeQuoted (cfg_issuer config)) @ '', '' @ quoted_param ''charset'' ''UTF-8''"

subsection \<open>Metadata\<close>

definition strings :: "string list \<Rightarrow> jsval" where
  "strings ss = Arr (map Str ss)"

definition authorizationServerMetadata :: "bridge_config \<Rightarrow> members" where
  "authorizationServerMetadata config =
     (let ccEnabled = cfg_clientCredentials config = Some True; issuer = cfg_issuer config in
      [(''issuer'', Str issuer), (''authorization_endpoint'', Str (issuer @ ''/oauth/authorize'')),
       (''token_endpoint'', Str (issuer @ ''/oauth/token'')), (''jwks_uri'', Str (issuer @ ''/oauth/jwks'')),
       (''registration_endpoint'', Str (issuer @ ''/oauth/register'')),
       (''revocation_endpoint'', Str (issuer @ ''/oauth/revoke'')),
       (''response_types_supported'', strings [''code'']),
       (''grant_types_supported'',
          strings (if ccEnabled then [''authorization_code'', ''refresh_token'', ''client_credentials'']
                   else [''authorization_code'', ''refresh_token''])),
       (''code_challenge_methods_supported'', strings [''S256'']),
       (''token_endpoint_auth_methods_supported'',
          strings (if ccEnabled then [''none'', ''client_secret_basic'', ''client_secret_post''] else [''none''])),
       (''scopes_supported'', strings (cfg_scopeCatalog config)),
       (''authorization_response_iss_parameter_supported'', Boolean True)]
      @ (if cfg_cimd config \<noteq> None then [(''client_id_metadata_document_supported'', Boolean True)] else []))"

definition protectedResourceMetadata :: "bridge_config \<Rightarrow> members" where
  "protectedResourceMetadata config =
     [(''resource'', Str (cfg_resource config)), (''authorization_servers'', strings [cfg_issuer config]),
      (''scopes_supported'', strings (cfg_scopeCatalog config))]"

definition strip_slashes :: "string \<Rightarrow> string" where
  "strip_slashes s = rev (dropWhile (\<lambda>c. c = CHR ''/'') (rev (dropWhile (\<lambda>c. c = CHR ''/'') s)))"

definition protectedResourceMetadataUrls :: "url_parser \<Rightarrow> bridge_config \<Rightarrow> (string \<times> string) outcome" where
  "protectedResourceMetadataUrls parseUrl config =
     chain (originOf parseUrl (cfg_resource config)) (\<lambda>origin.
     chain (pathAfterOrigin parseUrl (cfg_resource config)) (\<lambda>p.
     let path = strip_slashes p; root = origin @ ''/.well-known/oauth-protected-resource''
     in Inr (root, if path \<noteq> [] then root @ ''/'' @ path else root)))"

definition jwks :: "bridge_config \<Rightarrow> members" where
  "jwks config = [(''keys'', Arr [Obj (publicJwk config)])]"

subsection \<open>Properties\<close>

lemma bearerToken_Inl: "bearerToken header = Inl e \<Longrightarrow> failureCode e = ''invalid_token''"
  by (auto simp: bearerToken_def bearer_error_def oauthError_def result_simps
      split: authorization_header.split_asm list.split_asm if_split_asm option.split_asm)

lemma decide_request_Inr:
  "decide_request J config header required clock = Inr v \<longleftrightarrow>
     (\<exists>token. bearerToken header = Inr token \<and> verifyAccessToken J token config clock = Inr v
        \<and> (case required of None \<Rightarrow> True | Some s \<Rightarrow> s = [] \<or> requireScope v s (cfg_scopeHierarchy config) = Inr ()))"
  by (cases required) (auto simp: decide_request_def result_simps)

lemma perform_authorizeRequest:
  "perform env (authorizeRequest J config header required) w = (Inr v, tr, au, w') \<Longrightarrow>
     \<exists>t. canonical t \<and> decide_request J config header required (Reads (Whole t)) = Inr v
       \<and> au = [request_audit (toISOString t) required (Inr v)]"
  by (auto simp: authorizeRequest_def fail_def fixedClockSnapshot_def Let_def dest: finiteClockSnapshot_canonical
      split: prod.split_asm sum.split_asm)

text \<open>
  C37. There is no way around the verifier. A request is authorized only if it carries exactly one
  bearer token, the JWT library verified that token under the bridge's own public key with ES256, the
  issuer and the resource, its audience is the resource itself (not a list that contains it), the
  subject and client are those of the token, and the required scope is granted or implied by the
  configured hierarchy. A machine credential is one whose subject is in the reserved name space, and
  then it speaks for itself only.
\<close>

theorem authorizeRequest_fail_closed:
  assumes "perform env (authorizeRequest J config header required) w = (Inr v, tr, au, w')"
  shows "\<exists>t token payload. bearerToken header = Inr token
     \<and> jose_verify J token (verifyKey config) (access_options config t) = Inr payload
     \<and> own payload ''aud'' = Str (cfg_resource config)
     \<and> own payload ''sub'' = Str (as_subject v) \<and> own payload ''client_id'' = Str (as_clientId v)
     \<and> incomingAccessScopes (own payload ''scope'') = Inr (as_scopes v)
     \<and> (as_credentialKind v = Machine \<longleftrightarrow> startsWith (as_subject v) ''mcc_'')
     \<and> (as_credentialKind v = Machine \<longrightarrow> as_clientId v = as_subject v)
     \<and> (case required of None \<Rightarrow> True
        | Some s \<Rightarrow> s = [] \<or> s \<in> set (as_scopes v) \<or> hierarchyImplies (cfg_scopeHierarchy config) (as_scopes v) s)"
proof -
  from perform_authorizeRequest [OF assms] obtain t token where
    d: "bearerToken header = Inr token" "verifyAccessToken J token config (Reads (Whole t)) = Inr v"
    "case required of None \<Rightarrow> True | Some s \<Rightarrow> s = [] \<or> requireScope v s (cfg_scopeHierarchy config) = Inr ()"
    by (auto simp: decide_request_Inr)
  from d(2) obtain payload where
    v: "jose_verify J token (verifyKey config) (access_options config t) = Inr payload"
    "own payload ''aud'' = Str (cfg_resource config)" "accessClaims payload = Inr v"
    by (auto simp: verifyAccessToken_Inr)
  from accessClaims_Inr [OF v(3)] have
    "credentialKindClaim payload (as_subject v) (as_clientId v) = Inr (as_credentialKind v)" by simp
  from credentialKindClaim_Inr [OF this] accessClaims_Inr [OF v(3)] d(1,3) v(1,2) show ?thesis
    by (intro exI [of _ t] exI [of _ token] exI [of _ payload])
      (auto simp: requireScope_def split: option.splits if_split_asm)
qed

text \<open>The reader of an RFC 7230 quoted string, just after its opening quote.\<close>

fun read_quoted :: "string \<Rightarrow> (string \<times> string) option" where
  "read_quoted [] = None"
| "read_quoted (c # s) =
     (if c = CHR 0x22 then Some ([], s)
      else if c = CHR 0x5C then
        (case s of [] \<Rightarrow> None | d # t \<Rightarrow> map_option (\<lambda>(v, r). (d # v, r)) (read_quoted t))
      else map_option (\<lambda>(v, r). (c # v, r)) (read_quoted s))"

lemma read_escapeQuoted: "read_quoted (escapeQuoted s @ CHR 0x22 # rest) = Some (s, rest)"
  by (induction s) auto

lemma join_Cons_if: "join sep (x # xs) = (if xs = [] then x else x @ sep @ join sep xs)"
  by (cases xs) simp_all

lemma join_snoc: "xs \<noteq> [] \<Longrightarrow> join sep (xs @ [y]) = join sep xs @ sep @ y"
  by (induction xs) (auto simp: join_Cons_if)

lemma nqchar_plain: "nqchar c \<Longrightarrow> c \<noteq> CHR 0x22 \<and> c \<noteq> CHR 0x5C"
  by (auto simp: nqchar_def byte_def)

lemma read_scopes:
  "list_all isBoundedScopeToken ss \<Longrightarrow> read_quoted (join '' '' ss @ CHR 0x22 # rest) = Some (join '' '' ss, rest)"
proof -
  have tok: "read_quoted (t @ u) = map_option (\<lambda>(v, r). (t @ v, r)) (read_quoted u)"
    if "list_all (\<lambda>c. c \<noteq> CHR 0x22 \<and> c \<noteq> CHR 0x5C) t" for t u
    using that by (induction t; cases "read_quoted u") auto
  have plain: "list_all (\<lambda>c. c \<noteq> CHR 0x22 \<and> c \<noteq> CHR 0x5C) t" if "isBoundedScopeToken t" for t
    using that nqchar_plain by (auto simp: isBoundedScopeToken_def isScopeToken_def list_all_iff)
  assume "list_all isBoundedScopeToken ss"
  then have "list_all (\<lambda>c. c \<noteq> CHR 0x22 \<and> c \<noteq> CHR 0x5C) (join '' '' ss)"
    by (induction ss) (simp_all add: join_Cons_if plain)
  from tok [OF this] show ?thesis by simp
qed

text \<open>
  No challenge can be broken out of: what a client reads back from the quoted parameters is what was
  put in, whatever the issuer or the description contains.
\<close>

lemma challenge_realm:
  "\<exists>q. buildBasicClientChallenge config = ''Basic realm='' @ CHR 0x22 # q
     \<and> read_quoted q = Some (cfg_issuer config, '', '' @ quoted_param ''charset'' ''UTF-8'')"
  by (simp add: buildBasicClientChallenge_def quoted_param_def read_escapeQuoted)

lemma challenge_description:
  assumes "buildUnauthorizedChallenge parseUrl config selected (Some err) (Some d) = Inr text"
    and "err \<noteq> []" and "d \<noteq> []"
  shows "\<exists>before q. text = before @ ''error_description='' @ CHR 0x22 # q \<and> read_quoted q = Some (d, [])"
proof -
  from assms(1) obtain metadata scopes where t: "text = join '', '' (challenge_params metadata scopes (Some err) (Some d))"
    by (auto simp: buildUnauthorizedChallenge_def result_simps split: sum.split_asm)
  let ?ps = "challenge_params metadata scopes (Some err) None"
  have "challenge_params metadata scopes (Some err) (Some d) = ?ps @ [quoted_param ''error_description'' (escapeQuoted d)]"
    using assms(2,3) by (simp add: challenge_params_def nonempty_def)
  moreover have "?ps \<noteq> []" by (simp add: challenge_params_def)
  ultimately show ?thesis using read_escapeQuoted [of d "[]"]
    by (intro exI [of _ "join '', '' ?ps @ '', ''"] exI [of _ "escapeQuoted d @ [CHR 0x22]"])
      (simp add: t quoted_param_def join_snoc)
qed

text \<open>The published documents: the machine grant is advertised exactly when it is enabled, and no private key member leaves.\<close>

lemma metadata_machine_grant:
  "own (authorizationServerMetadata config) ''grant_types_supported'' = strings gs \<Longrightarrow>
     ''client_credentials'' \<in> set gs \<longleftrightarrow> cfg_clientCredentials config = Some True"
  by (auto simp: authorizationServerMetadata_def own_Cons own_append map_has_def Let_def strings_def Str_list_eq
      map_eq_Cons_conv split: if_split_asm)

lemma publicJwk_public: "own (publicJwk config) ''d'' = Undefined"
  by (simp add: publicJwk_def own_Cons Let_def)

subsection \<open>Witness\<close>

definition demo_request_env :: "unit env" where
  "demo_request_env = demo_env\<lparr>on_clock := (\<lambda>w. (Reads (Whole 1700000500000), w))\<rparr>"

lemma demo_bearer: "bearerToken (OneHeader ''Bearer jwt'') = Inr ''jwt''"
  by code_simp

lemma demo_request_run:
  "perform demo_request_env (authorizeRequest demo_access_jose demo_config (OneHeader ''Bearer jwt'') (Some ''mcp:read'')) ()
     = (Inr \<lparr>as_subject = ''user-1'', as_clientId = ''mcpdc_1'', as_scopes = [''mcp:read''], as_credentialKind = Interactive\<rparr>,
        [], [request_audit (toISOString 1700000500000) (Some ''mcp:read'')
               (Inr \<lparr>as_subject = ''user-1'', as_clientId = ''mcpdc_1'', as_scopes = [''mcp:read''], as_credentialKind = Interactive\<rparr>)], ())"
proof -
  have f: "finiteClockSnapshot (Reads (Whole 1700000500000)) 0 = Inr 1700000500000"
    by (simp add: finiteClockSnapshot_Inr safe_int_def MAX_SAFE_INTEGER_def MIN_CANONICAL_MS_def MAX_CANONICAL_MS_def)
  have "decide_request demo_access_jose demo_config (OneHeader ''Bearer jwt'') (Some ''mcp:read'') (Reads (Whole 1700000500000))
      = Inr \<lparr>as_subject = ''user-1'', as_clientId = ''mcpdc_1'', as_scopes = [''mcp:read''], as_credentialKind = Interactive\<rparr>"
    unfolding decide_request_Inr using demo_bearer demo_access_verified by (simp add: requireScope_def)
  then show ?thesis
    by (simp add: authorizeRequest_def demo_request_env_def demo_env_def f fixedClockSnapshot_def Let_def)
qed

theorem authorizeRequest_fail_closed_witness:
  "\<exists>t token payload. bearerToken (OneHeader ''Bearer jwt'') = Inr token
     \<and> jose_verify demo_access_jose token (verifyKey demo_config) (access_options demo_config t) = Inr payload
     \<and> own payload ''aud'' = Str (cfg_resource demo_config) \<and> own payload ''sub'' = Str ''user-1''"
  using authorizeRequest_fail_closed [OF demo_request_run] by auto

end
