(* ===== verification/Task_Laws.thy ===== *)
theory Task_Laws
  imports Port_Results
begin

section \<open>Running tasks\<close>

text \<open>
  Elimination rules for the runs of sequenced tasks: what a successful run of a use-case says about
  each of its steps, in order, and about the trace of port calls. \<open>lift\<close> makes a task of a computed
  outcome.
\<close>

definition lift :: "'a outcome \<Rightarrow> 'a io" where "lift m = Return m"

lemma lift_Inr [simp]: "perform env (lift m) w = (Inr x, tr, au, w') \<longleftrightarrow> m = Inr x \<and> tr = [] \<and> au = [] \<and> w' = w"
  by (auto simp: lift_def)

lemma perform_bind:
  "perform env (bind_task m f) w =
     (let (x, tr, au, w1) = perform env m w; (y, tr', au', w2) = perform env (f x) w1 in (y, tr @ tr', au @ au', w2))"
  by (induction m arbitrary: w) (auto simp: split_beta Let_def)

lemma perform_andThen_Inr:
  assumes "perform env (andThen m f) w = (Inr y, tr, au, w')"
  obtains x tr1 au1 w1 tr2 au2 where "perform env m w = (Inr x, tr1, au1, w1)"
    and "perform env (f x) w1 = (Inr y, tr2, au2, w')" and "tr = tr1 @ tr2" and "au = au1 @ au2"
  using assms by (auto simp: andThen_def perform_bind Let_def split: prod.split_asm sum.split_asm)

lemma perform_catch_Inr:
  assumes "perform env (catch m h) w = (Inr y, tr, au, w')"
  obtains "perform env m w = (Inr y, tr, au, w')"
  | e tr1 au1 w1 tr2 au2 where "perform env m w = (Inl e, tr1, au1, w1)"
    and "perform env (h e) w1 = (Inr y, tr2, au2, w')" and "tr = tr1 @ tr2" and "au = au1 @ au2"
  using assms by (auto simp: catch_def perform_bind Let_def split: prod.split_asm sum.split_asm)

lemma perform_askPort_Inr:
  "perform env (askPort p op c read) w = (Inr x, tr, au, w') \<longleftrightarrow>
     (\<exists>v. on_call env c w = (Inr v, w') \<and> read v = Inr x \<and> tr = [(c, Inr v)] \<and> au = [])"
proof -
  obtain r w1 where r: "on_call env c w = (r, w1)" by (cases "on_call env c w")
  show ?thesis by (cases r) (auto simp: askPort_def r)
qed

lemma perform_pass [simp]: "perform env (pass x) w = (Inr x, [], [], w)"
  by (simp add: pass_def)

lemma perform_fail [simp]: "perform env (fail e) w = (Inl e, [], [], w)"
  by (simp add: fail_def)

lemma perform_check_Inr:
  "perform env (check b e) w = (Inr u, tr, au, w') \<longleftrightarrow> b \<and> tr = [] \<and> au = [] \<and> w' = w"
  by (auto simp: check_def)

lemma perform_Return_Inr [simp]:
  "perform env (Return m) w = (x, tr, au, w') \<longleftrightarrow> x = m \<and> tr = [] \<and> au = [] \<and> w' = w"
  by auto

lemma perform_readClock_Inr:
  "perform env (readClock off) w = (Inr ms, tr, au, w') \<longleftrightarrow>
     (\<exists>r. on_clock env w = (r, w') \<and> finiteClockSnapshot r off = Inr ms) \<and> tr = [] \<and> au = []"
  by (auto simp: readClock_def split: prod.splits)

lemma perform_Now:
  "perform env (Now k) w = (x, tr, au, w') \<longleftrightarrow>
     (\<exists>r w1. on_clock env w = (r, w1) \<and> perform env (k r) w1 = (x, tr, au, w'))"
  by (cases "on_clock env w") auto

lemma perform_Draw:
  "perform env (Draw k) w = (x, tr, au, w') \<longleftrightarrow>
     (\<exists>r w1. on_random env w = (r, w1) \<and> perform env (k r) w1 = (x, tr, au, w'))"
  by (cases "on_random env w") auto

lemma perform_Audit:
  "perform env (Audit e t) w = (x, tr, au, w') \<longleftrightarrow> (\<exists>au1. perform env t w = (x, tr, au1, w') \<and> au = e # au1)"
  by (cases "perform env t w") auto

lemma perform_rethrown:
  assumes "perform env (catch m (\<lambda>e. andThen (g e) (\<lambda>x. k e x))) w = (Inr y, tr, au, w')"
    and "\<And>e x w1 tr1 au1 w2. perform env (k e x) w1 \<noteq> (Inr y, tr1, au1, w2)"
  shows "perform env m w = (Inr y, tr, au, w')"
  using assms(1)
proof (rule perform_catch_Inr)
  fix e tr1 au1 w1 tr2 au2
  assume "perform env (andThen (g e) (\<lambda>x. k e x)) w1 = (Inr y, tr2, au2, w')"
  then show ?thesis by (rule perform_andThen_Inr) (use assms(2) in blast)
qed

lemmas perform_simps = perform_askPort_Inr perform_check_Inr perform_readClock_Inr perform_Now perform_Draw perform_Audit

text \<open>Runs to any end.\<close>

lemma perform_audited:
  assumes "perform env (catch m (\<lambda>e. Audit (ev e) (fail e))) w = (Inr y, tr, au, w')"
  shows "perform env m w = (Inr y, tr, au, w')"
  using assms by (rule perform_catch_Inr) (auto simp: perform_Audit)

lemma perform_andThenE:
  assumes "perform env (andThen m f) w = (r, tr, au, w')"
  obtains (stop) e where "perform env m w = (Inl e, tr, au, w')" and "r = Inl e"
  | (go) x tr1 au1 w1 tr2 au2 where "perform env m w = (Inr x, tr1, au1, w1)"
    and "perform env (f x) w1 = (r, tr2, au2, w')" and "tr = tr1 @ tr2" and "au = au1 @ au2"
  using assms by (auto simp: andThen_def perform_bind Let_def split: prod.split_asm sum.split_asm)

lemma perform_catchE:
  assumes "perform env (catch m h) w = (r, tr, au, w')"
  obtains (good) x where "perform env m w = (Inr x, tr, au, w')" and "r = Inr x"
  | (bad) e tr1 au1 w1 tr2 au2 where "perform env m w = (Inl e, tr1, au1, w1)"
    and "perform env (h e) w1 = (r, tr2, au2, w')" and "tr = tr1 @ tr2" and "au = au1 @ au2"
  using assms by (auto simp: catch_def perform_bind Let_def split: prod.split_asm sum.split_asm)

lemma quiet_clock: "perform env (readClock off) w = (x, tr, au, w') \<Longrightarrow> tr = []"
  by (auto simp: readClock_def split: prod.split_asm)

lemma perform_lift: "perform env (lift m) w = (x, tr, au, w') \<longleftrightarrow> m = x \<and> tr = [] \<and> au = [] \<and> w' = w"
  by (auto simp: lift_def)

lemma perform_check: "perform env (check b e) w = (x, tr, au, w') \<longleftrightarrow>
    x = (if b then Inr () else Inl e) \<and> tr = [] \<and> au = [] \<and> w' = w"
  by (auto simp: check_def pass_def fail_def)

end
