(* ===== verification/Machine_Records.thy ===== *)
theory Machine_Records
  imports Task_Laws Redirects
begin

section \<open>Machine clients: records and secrets\<close>

text \<open>
  \<open>src/machine-client-record.ts\<close>, \<open>src/machine-client-secret.ts\<close> and \<open>src/machine-client-auth.ts\<close>: the
  parser of a stored machine client, the rotation of its secrets and the verification of a presented
  one. A stored row is untyped. A client has at most two live secrets.
\<close>

record ClientSecret =
  cs_hash :: string
  cs_createdAtEpoch :: int
  cs_expiresAtEpoch :: "int option"

datatype machine_status = Active_client "ClientSecret list" | Disabled_client int

record machine_client =
  mc_clientId :: string
  mc_issuedAtEpoch :: int
  mc_name :: "string option"
  mc_allowedScopes :: "string list"
  mc_resource :: string
  mc_version :: int
  mc_status :: machine_status

definition MAX_ACTIVE_SECRETS :: nat where "MAX_ACTIVE_SECRETS = 2"

definition ZERO_HASH :: string where "ZERO_HASH = replicate 64 (CHR ''0'')"

subsection \<open>Parsing a stored row\<close>

definition isEpoch :: "jsval \<Rightarrow> bool" where
  "isEpoch v = (case v of Number (Whole i) \<Rightarrow> safe_int i \<and> 0 \<le> i | _ \<Rightarrow> False)"

definition isVersion :: "jsval \<Rightarrow> bool" where
  "isVersion v = (case v of Number (Whole i) \<Rightarrow> safe_int i \<and> 0 < i | _ \<Rightarrow> False)"

definition int_val :: "jsval \<Rightarrow> int" where
  "int_val v = (case v of Number (Whole i) \<Rightarrow> i | _ \<Rightarrow> 0)"

definition is_sha256_lower :: "string \<Rightarrow> bool" where
  "is_sha256_lower s = (length s = 64 \<and> list_all is_hex_lower s)"

definition secret_live :: "int \<Rightarrow> ClientSecret \<Rightarrow> bool" where
  "secret_live now s = (case cs_expiresAtEpoch s of None \<Rightarrow> True | Some e \<Rightarrow> now < e)"

definition parse_secret :: "jsval \<Rightarrow> ClientSecret option" where
  "parse_secret v =
     (case v of
        Obj kvs \<Rightarrow>
          (case own kvs ''hash'' of
             Str h \<Rightarrow>
               if is_sha256_lower h \<and> isEpoch (own kvs ''createdAtEpoch'')
                  \<and> (own kvs ''expiresAtEpoch'' = Undefined \<or> isEpoch (own kvs ''expiresAtEpoch''))
               then Some \<lparr>cs_hash = h, cs_createdAtEpoch = int_val (own kvs ''createdAtEpoch''),
                          cs_expiresAtEpoch = (if own kvs ''expiresAtEpoch'' = Undefined then None
                                               else Some (int_val (own kvs ''expiresAtEpoch'')))\<rparr>
               else None
           | _ \<Rightarrow> None)
      | _ \<Rightarrow> None)"

text \<open>The loop of \<open>parseSecrets\<close>, with its two counters.\<close>

fun secrets_loop :: "int \<Rightarrow> nat \<Rightarrow> nat \<Rightarrow> ClientSecret list \<Rightarrow> jsval list \<Rightarrow> ClientSecret list option" where
  "secrets_loop now withoutExpiry active out [] = Some out"
| "secrets_loop now withoutExpiry active out (v # vs) =
     (case parse_secret v of
        None \<Rightarrow> None
      | Some s \<Rightarrow>
          (let w = (if cs_expiresAtEpoch s = None then withoutExpiry + 1 else withoutExpiry);
               a = (if secret_live now s then active + 1 else active)
           in if w > 1 \<or> a > MAX_ACTIVE_SECRETS then None
              else secrets_loop now w a (out @ [s]) vs))"

definition parseSecrets :: "jsval \<Rightarrow> int \<Rightarrow> ClientSecret list option" where
  "parseSecrets v now = (case v of Arr (x # xs) \<Rightarrow> secrets_loop now 0 0 [] (x # xs) | _ \<Rightarrow> None)"

definition parseAllowedScopes :: "jsval \<Rightarrow> string list option" where
  "parseAllowedScopes v = (case snapshotBoundedScopeList v of Inl _ \<Rightarrow> None | Inr ss \<Rightarrow> if ss = [] then None else Some ss)"

definition isMachineClientResource :: "url_parser \<Rightarrow> jsval \<Rightarrow> bool" where
  "isMachineClientResource parseUrl v =
     (case v of
        Str s \<Rightarrow>
          trim s \<noteq> []
          \<and> (case parseUrl s of
               None \<Rightarrow> False
             | Some u \<Rightarrow> url_protocol u = ''https:'' \<or> url_protocol u = ''http:'' \<and> url_hostname u \<in> set LOOPBACK_HOSTS)
      | _ \<Rightarrow> False)"

text \<open>
  The lifecycle part: no markers at all is a legacy row, active at version 0; otherwise both markers
  are there and fit each other.
\<close>

definition parse_status :: "(string \<times> jsval) list \<Rightarrow> int \<Rightarrow> (int \<times> machine_status) option" where
  "parse_status kvs now =
     (if \<not> map_has ''status'' kvs \<and> \<not> map_has ''version'' kvs
      then map_option (\<lambda>ss. (0, Active_client ss)) (parseSecrets (own kvs ''secrets'') now)
      else if \<not> map_has ''status'' kvs \<or> \<not> map_has ''version'' kvs \<or> \<not> isVersion (own kvs ''version'') then None
      else if own kvs ''status'' = Str ''active''
      then (if map_has ''disabledAtEpoch'' kvs then None
            else case parseSecrets (own kvs ''secrets'') now of
                   None \<Rightarrow> None
                 | Some ss \<Rightarrow>
                     if length ss < 1 \<or> length ss > MAX_ACTIVE_SECRETS then None
                     else Some (int_val (own kvs ''version''), Active_client ss))
      else if own kvs ''status'' = Str ''disabled''
      then (if own kvs ''secrets'' \<noteq> Arr [] \<or> \<not> isEpoch (own kvs ''disabledAtEpoch'') then None
            else Some (int_val (own kvs ''version''), Disabled_client (int_val (own kvs ''disabledAtEpoch''))))
      else None)"

definition parseMachineClientRegistration ::
  "url_parser \<Rightarrow> jsval \<Rightarrow> string \<Rightarrow> int \<Rightarrow> machine_client option" where
  "parseMachineClientRegistration parseUrl v expectedClientId now =
     (case v of
        Obj kvs \<Rightarrow>
          if \<not> isEpoch (Number (Whole now)) then None
          else if own kvs ''clientId'' \<noteq> Str expectedClientId \<or> \<not> startsWith expectedClientId ''mcc_''
             \<or> own kvs ''applicationType'' \<noteq> Str ''machine'' \<or> own kvs ''redirectUris'' \<noteq> Arr []
             \<or> \<not> isEpoch (own kvs ''issuedAtEpoch'')
             \<or> \<not> (own kvs ''name'' = Undefined \<or> nonEmptyString (own kvs ''name'')) then None
          else (case parseAllowedScopes (own kvs ''allowedScopes'') of
                  None \<Rightarrow> None
                | Some scopes \<Rightarrow>
                    if \<not> isMachineClientResource parseUrl (own kvs ''resource'') then None
                    else map_option (\<lambda>(ver, st).
                      \<lparr>mc_clientId = expectedClientId, mc_issuedAtEpoch = int_val (own kvs ''issuedAtEpoch''),
                       mc_name = opt_str_of (own kvs ''name''), mc_allowedScopes = scopes,
                       mc_resource = str_of (own kvs ''resource''), mc_version = ver, mc_status = st\<rparr>)
                      (parse_status kvs now))
      | _ \<Rightarrow> None)"

subsection \<open>Secrets\<close>

fun validate_loop :: "string list \<Rightarrow> string list \<Rightarrow> string list \<Rightarrow> string list outcome" where
  "validate_loop catalog out [] = Inr out"
| "validate_loop catalog out (s # ss) =
     (if \<not> isScopeToken s
      then Inl (oauth400 ''invalid_scope'' ''allowedScopes entries must be single RFC 6749 scope tokens'')
      else if s \<notin> set catalog
      then Inl (oauth400 ''invalid_scope'' ''allowedScopes must be a subset of scopeCatalog'')
      else validate_loop catalog (push_new out s) ss)"

definition validateAllowedScopes :: "jsval \<Rightarrow> string list \<Rightarrow> string list outcome" where
  "validateAllowedScopes v catalog =
     (case snapshotBoundedScopeList v of
        Inl _ \<Rightarrow> Inl (oauth400 ''invalid_scope'' ''allowedScopes must be a bounded RFC 6749 scope list'')
      | Inr ss \<Rightarrow>
          if ss = [] then Inl (oauth400 ''invalid_scope'' ''allowedScopes must be a non-empty array'')
          else validate_loop catalog [] ss)"

text \<open>
  The secret a rotation demotes: the one without expiry, else the newest by expiry, then creation; the
  sort of the source is stable, so the first of equals wins.
\<close>

definition newest :: "ClientSecret list \<Rightarrow> ClientSecret" where
  "newest ss =
     hd (sort_key (\<lambda>s. - the (cs_expiresAtEpoch s)) (sort_key (\<lambda>s. - cs_createdAtEpoch s) ss))"

definition rotateSecrets :: "ClientSecret list \<Rightarrow> int \<Rightarrow> int \<Rightarrow> string \<Rightarrow> ClientSecret list" where
  "rotateSecrets existing now graceSeconds newHash =
     (let unexpired = filter (secret_live now) existing;
          fresh = \<lparr>cs_hash = newHash, cs_createdAtEpoch = now, cs_expiresAtEpoch = None\<rparr>
      in if unexpired = [] then [fresh]
         else let source = (case find (\<lambda>s. cs_expiresAtEpoch s = None) unexpired of
                              Some s \<Rightarrow> s | None \<Rightarrow> newest unexpired)
              in [source\<lparr>cs_expiresAtEpoch := Some (now + graceSeconds)\<rparr>, fresh])"

definition timingSafeHexEqual :: "string \<Rightarrow> string \<Rightarrow> bool" where
  "timingSafeHexEqual l r = (length l = length r \<and> l = r)"

text \<open>Two comparisons whatever the record: a missing secret is compared with \<open>ZERO_HASH\<close>.\<close>

definition verifyPresentedHash :: "string \<Rightarrow> ClientSecret list \<Rightarrow> int \<Rightarrow> bool" where
  "verifyPresentedHash presented secrets now =
     (let active = map cs_hash (filter (secret_live now) secrets);
          slot = (\<lambda>i. if i < length active then active ! i else ZERO_HASH)
      in timingSafeHexEqual presented (slot 0) \<or> timingSafeHexEqual presented (slot 1))"

definition isPositiveInteger :: "num \<Rightarrow> bool" where
  "isPositiveInteger n = (case n of Whole i \<Rightarrow> safe_int i \<and> 0 < i | _ \<Rightarrow> False)"

definition epochSeconds :: "clock_reading \<Rightarrow> int outcome" where
  "epochSeconds r =
     chain (finiteClockSnapshot r 0) (\<lambda>ms.
       if ms div 1000 < 0
       then Inl (Thrown ''RangeError'' ''ClockPort timestamp must not precede the Unix epoch for machine-client records'')
       else Inr (ms div 1000))"

definition mintMachineClientId :: "random_reply \<Rightarrow> string outcome" where
  "mintMachineClientId r = chain (randomBytesFrom r 16) (\<lambda>b. Inr (''mcc_'' @ base64url b))"

definition mintClientSecret :: "random_reply \<Rightarrow> string outcome" where
  "mintClientSecret r = chain (randomBytesFrom r 32) (\<lambda>b. Inr (''mcs_'' @ base64url b))"

definition hashMachineClientSecret :: "string \<Rightarrow> string" where
  "hashMachineClientSecret s = sha256Hex s"

subsection \<open>Authentication\<close>

definition active_secrets :: "machine_client \<Rightarrow> ClientSecret list" where
  "active_secrets c = (case mc_status c of Active_client ss \<Rightarrow> ss | Disabled_client _ \<Rightarrow> [])"

definition is_active :: "machine_client \<Rightarrow> bool" where
  "is_active c = (case mc_status c of Active_client _ \<Rightarrow> True | Disabled_client _ \<Rightarrow> False)"

definition judge_machine_client ::
  "url_parser \<Rightarrow> string \<Rightarrow> string \<Rightarrow> string \<Rightarrow> int \<Rightarrow> jsval \<Rightarrow> machine_client option" where
  "judge_machine_client parseUrl res clientId presentedSecret now row =
     (let client = parseMachineClientRegistration parseUrl row clientId now;
          activeClient = (case client of
              Some c \<Rightarrow> if is_active c \<and> mc_resource c = res then Some c else None | None \<Rightarrow> None);
          matched = verifyPresentedHash (hashMachineClientSecret presentedSecret)
                      (case activeClient of None \<Rightarrow> [] | Some c \<Rightarrow> active_secrets c) now
      in if matched then activeClient else None)"

definition authenticateMachineClientSecret ::
  "url_parser \<Rightarrow> string \<Rightarrow> clock_reading \<Rightarrow> string \<Rightarrow> string \<Rightarrow> machine_client option io" where
  "authenticateMachineClientSecret parseUrl res clock clientId presentedSecret =
     (if presentedSecret = [] then pass None
      else case finiteClockSnapshot clock 0 of
        Inl e \<Rightarrow> fail e
      | Inr ms \<Rightarrow>
          andThen (askPort ''ClientStore'' ''find'' (FindClient clientId) Inr)
            (\<lambda>row. pass (judge_machine_client parseUrl res clientId presentedSecret (ms div 1000) row)))"

definition verifyMachineClientSecret :: "url_parser \<Rightarrow> string \<Rightarrow> clock_reading \<Rightarrow> string \<Rightarrow> string \<Rightarrow> bool io" where
  "verifyMachineClientSecret parseUrl res clock clientId presentedSecret =
     andThen (authenticateMachineClientSecret parseUrl res clock clientId presentedSecret) (\<lambda>client. pass (client \<noteq> None))"

end
