(* ===== verification/Machine_Clients.thy ===== *)
theory Machine_Clients
  imports Machine_Records
begin

section \<open>The machine-client lifecycle\<close>

text \<open>
  \<open>src/machine-client.ts\<close> over \<open>src/ports/client-store.ts\<close>: provisioning, secret rotation and disabling.
  Each mutation is one atomic call on the client store, with its audit record; rotation and disabling
  are compare-and-swap on the version. The error path reads the clock again for its audit event, so a
  clock that fails there replaces the error. A reply is taken by its truth value; the port's type makes
  it a boolean.
\<close>

record machine_deps =
  md_parseUrl :: url_parser
  md_catalog :: "string list"
  md_resource :: string

definition DEFAULT_ROTATION_GRACE_SECONDS :: int where "DEFAULT_ROTATION_GRACE_SECONDS = 86400"

definition MAX_ROTATION_GRACE_SECONDS :: int where "MAX_ROTATION_GRACE_SECONDS = 86400"

definition truthy_value :: "jsval \<Rightarrow> bool" where
  "truthy_value v =
     (v \<notin> {Undefined, Null, Boolean False, Number (Whole 0), Number NotFinite, Str []})"

definition opt_member :: "string \<Rightarrow> jsval option \<Rightarrow> (string \<times> jsval) list" where
  "opt_member k v = (case v of None \<Rightarrow> [] | Some x \<Rightarrow> [(k, x)])"

definition whole :: "int \<Rightarrow> jsval" where "whole i = Number (Whole i)"

definition secret_value :: "ClientSecret \<Rightarrow> jsval" where
  "secret_value s =
     Obj ([(''hash'', Str (cs_hash s)), (''createdAtEpoch'', whole (cs_createdAtEpoch s))]
          @ opt_member ''expiresAtEpoch'' (map_option whole (cs_expiresAtEpoch s)))"

text \<open>The versioned row that is written.\<close>

definition machine_value :: "machine_client \<Rightarrow> jsval" where
  "machine_value c =
     Obj ([(''clientId'', Str (mc_clientId c)), (''redirectUris'', Arr []), (''applicationType'', Str ''machine''),
           (''issuedAtEpoch'', whole (mc_issuedAtEpoch c))]
          @ opt_member ''name'' (map_option Str (mc_name c))
          @ [(''allowedScopes'', Arr (map Str (mc_allowedScopes c))), (''resource'', Str (mc_resource c))]
          @ (case mc_status c of
               Active_client ss \<Rightarrow>
                 [(''status'', Str ''active''), (''version'', whole (mc_version c)), (''secrets'', Arr (map secret_value ss))]
             | Disabled_client at \<Rightarrow>
                 [(''status'', Str ''disabled''), (''version'', whole (mc_version c)), (''secrets'', Arr []),
                  (''disabledAtEpoch'', whole at)]))"

definition requireMachineClientResource :: "machine_deps \<Rightarrow> string outcome" where
  "requireMachineClientResource deps =
     (if isMachineClientResource (md_parseUrl deps) (Str (md_resource deps)) then Inr (md_resource deps)
      else Inl (oauth400 ''invalid_request'' ''resource must be https:// or http:// loopback for development''))"

definition requireMachineClientStore :: "unit io" where
  "requireMachineClientStore =
     andThen (askPort ''ClientStore'' ''resolveMutationMethods'' ResolveMutationMethods Inr) (\<lambda>v.
       check (case v of Obj kvs \<Rightarrow> own kvs ''create'' = Opaque \<and> own kvs ''cas'' = Opaque | _ \<Rightarrow> False)
         (oauthError ''server_error'' ''MachineClientStore atomic mutations are required'' 500))"

definition validateExpiryOffset :: "int \<Rightarrow> int \<Rightarrow> string \<Rightarrow> unit outcome" where
  "validateExpiryOffset now seconds field =
     require (safe_int (now + seconds) \<and> 0 \<le> now + seconds)
       (oauth400 ''invalid_request'' (field @ '' produces an invalid expiry''))"

definition mutationAudit :: "string \<Rightarrow> machine_client \<Rightarrow> mutation_audit io" where
  "mutationAudit event c =
     andThen (readClock 0) (\<lambda>ms. pass
       \<lparr>ma_occurredAt = toISOString ms, ma_event = event, ma_clientId = mc_clientId c,
        ma_scopes = mc_allowedScopes c, ma_resource = mc_resource c\<rparr>)"

definition mutation_success :: "mutation_audit \<Rightarrow> audit_event" where
  "mutation_success m =
     \<lparr>ae_event = ma_event m, ae_status = ''success'', ae_occurredAt = ma_occurredAt m, ae_clientId = Some (ma_clientId m),
      ae_subject = None, ae_resource = Some (ma_resource m), ae_scopes = Some (ma_scopes m), ae_redirectHost = None,
      ae_reason = None, ae_ip = None, ae_selectedClientAuthMethod = None\<rparr>"

definition failureAudit :: "string \<Rightarrow> failure \<Rightarrow> string option \<Rightarrow> 'a io" where
  "failureAudit event e clientId =
     andThen (readClock 0) (\<lambda>ms. Audit
       \<lparr>ae_event = event, ae_status = ''failure'', ae_occurredAt = toISOString ms, ae_clientId = clientId,
        ae_subject = None, ae_resource = None, ae_scopes = None, ae_redirectHost = None,
        ae_reason = Some (failureCode e), ae_ip = None, ae_selectedClientAuthMethod = None\<rparr> (fail e))"

subsection \<open>Provisioning\<close>

record provision_input =
  pi_name :: "string option"
  pi_allowedScopes :: jsval
  pi_secretTtlSeconds :: "num option"

definition whole_of :: "num \<Rightarrow> int" where
  "whole_of n = (case n of Whole i \<Rightarrow> i | _ \<Rightarrow> 0)"

definition provision_checks :: "machine_deps \<Rightarrow> provision_input \<Rightarrow> string list outcome" where
  "provision_checks deps input =
     chain (validateAllowedScopes (pi_allowedScopes input) (md_catalog deps)) (\<lambda>scopes.
     chain (require (pi_name input \<noteq> Some [])
              (oauth400 ''invalid_request'' ''name must be a non-empty string when provided'')) (\<lambda>_.
     chain (require (case pi_secretTtlSeconds input of None \<Rightarrow> True | Some n \<Rightarrow> isPositiveInteger n)
              (oauth400 ''invalid_request'' ''secretTtlSeconds must be a positive integer (seconds)'')) (\<lambda>_.
     Inr scopes)))"

definition provision_expiry :: "provision_input \<Rightarrow> int \<Rightarrow> int option outcome" where
  "provision_expiry input now =
     (case pi_secretTtlSeconds input of
        None \<Rightarrow> Inr None
      | Some n \<Rightarrow> chain (validateExpiryOffset now (whole_of n) ''secretTtlSeconds'') (\<lambda>_. Inr (Some (now + whole_of n))))"

definition new_machine_client ::
  "string \<Rightarrow> int \<Rightarrow> provision_input \<Rightarrow> string list \<Rightarrow> string \<Rightarrow> string \<Rightarrow> int option \<Rightarrow> machine_client" where
  "new_machine_client clientId now input scopes res secret expiry =
     \<lparr>mc_clientId = clientId, mc_issuedAtEpoch = now, mc_name = pi_name input, mc_allowedScopes = scopes,
      mc_resource = res, mc_version = 1,
      mc_status = Active_client [\<lparr>cs_hash = hashMachineClientSecret secret, cs_createdAtEpoch = now,
                                  cs_expiresAtEpoch = expiry\<rparr>]\<rparr>"

text \<open>From the minted identifier on; its name is in the failure event from here.\<close>

definition provision_commit ::
  "provision_input \<Rightarrow> int \<Rightarrow> string list \<Rightarrow> string \<Rightarrow> int option \<Rightarrow> string \<Rightarrow> (string \<times> string) io" where
  "provision_commit input now scopes res expiry clientId =
     andThen (Draw (\<lambda>r. Return (mintClientSecret r))) (\<lambda>secret.
     let c = new_machine_client clientId now input scopes res secret expiry in
     andThen (mutationAudit ''oauth.client.provision'' c) (\<lambda>durable.
     andThen (askPort ''ClientStore'' ''createMachineClient'' (CreateMachineClient (machine_value c) durable) Inr) (\<lambda>ok.
     andThen (check (truthy_value ok) (oauthError ''server_error'' ''Machine client identifier collision'' 500)) (\<lambda>_.
     Audit (mutation_success durable) (pass (clientId, secret))))))"

definition provisionMachineClient :: "machine_deps \<Rightarrow> provision_input \<Rightarrow> (string \<times> string) io" where
  "provisionMachineClient deps input =
     (let failed = (\<lambda>clientId e. failureAudit ''oauth.client.provision'' e clientId) in
      bind_task
        (andThen (lift (requireMachineClientResource deps)) (\<lambda>res.
         andThen requireMachineClientStore (\<lambda>_.
         andThen (lift (provision_checks deps input)) (\<lambda>scopes.
         andThen (Now (\<lambda>r. Return (epochSeconds r))) (\<lambda>now.
         andThen (lift (provision_expiry input now)) (\<lambda>expiry.
         andThen (Draw (\<lambda>r. Return (mintMachineClientId r))) (\<lambda>clientId.
         pass (res, scopes, now, expiry, clientId))))))))
        (\<lambda>r. case r of
           Inl e \<Rightarrow> failed None e
         | Inr (res, scopes, now, expiry, clientId) \<Rightarrow>
             catch (provision_commit input now scopes res expiry clientId) (failed (Some clientId))))"

subsection \<open>Rotation and disabling\<close>

definition requireMutableActive :: "machine_client option \<Rightarrow> string \<Rightarrow> machine_client outcome" where
  "requireMutableActive client res =
     (case client of
        Some c \<Rightarrow>
          if \<not> is_active c \<or> mc_resource c \<noteq> res \<or> mc_version c \<ge> MAX_SAFE_INTEGER
          then Inl (oauthError ''invalid_client'' ''Machine client record is invalid or inactive'' 401) else Inr c
      | None \<Rightarrow> Inl (oauthError ''invalid_client'' ''Machine client record is invalid or inactive'' 401))"

definition current_machine_client :: "machine_deps \<Rightarrow> string \<Rightarrow> string \<Rightarrow> int \<Rightarrow> machine_client io" where
  "current_machine_client deps res clientId now =
     andThen (askPort ''ClientStore'' ''find'' (FindClient clientId) Inr) (\<lambda>row.
       lift (requireMutableActive (parseMachineClientRegistration (md_parseUrl deps) row clientId now) res))"

definition swap_machine_client :: "int \<Rightarrow> machine_client \<Rightarrow> string \<Rightarrow> string \<Rightarrow> unit io" where
  "swap_machine_client expected c event conflict =
     andThen (mutationAudit event c) (\<lambda>durable.
     andThen (askPort ''ClientStore'' ''compareAndSwapMachineClient''
               (SwapMachineClient expected (machine_value c) durable) Inr) (\<lambda>ok.
     andThen (check (truthy_value ok) (oauthError ''invalid_request'' conflict 409)) (\<lambda>_.
     Audit (mutation_success durable) (pass ()))))"

definition grace_seconds :: "num option \<Rightarrow> int outcome" where
  "grace_seconds opt =
     (let g = (case opt of None \<Rightarrow> Whole DEFAULT_ROTATION_GRACE_SECONDS | Some n \<Rightarrow> n) in
      if \<not> isPositiveInteger g \<or> whole_of g > MAX_ROTATION_GRACE_SECONDS
      then Inl (oauth400 ''invalid_request'' ''graceSeconds must be an integer between 1 and 86400'')
      else Inr (whole_of g))"

definition rotated_client :: "machine_client \<Rightarrow> int \<Rightarrow> int \<Rightarrow> string \<Rightarrow> machine_client" where
  "rotated_client current now grace secret =
     current\<lparr>mc_version := mc_version current + 1,
             mc_status := Active_client (rotateSecrets (active_secrets current) now grace (hashMachineClientSecret secret))\<rparr>"

definition rotateMachineClientSecret :: "machine_deps \<Rightarrow> string \<Rightarrow> num option \<Rightarrow> (string \<times> int) io" where
  "rotateMachineClientSecret deps clientId graceSeconds =
     catch
       (andThen (lift (requireMachineClientResource deps)) (\<lambda>res.
        andThen requireMachineClientStore (\<lambda>_.
        andThen (lift (grace_seconds graceSeconds)) (\<lambda>grace.
        andThen (Now (\<lambda>r. Return (epochSeconds r))) (\<lambda>now.
        andThen (lift (validateExpiryOffset now grace ''graceSeconds'')) (\<lambda>_.
        andThen (current_machine_client deps res clientId now) (\<lambda>current.
        andThen (Draw (\<lambda>r. Return (mintClientSecret r))) (\<lambda>secret.
        let c = rotated_client current now grace secret in
        andThen (swap_machine_client (mc_version current) c ''oauth.client.rotate_secret''
                   ''Machine client changed; retry rotation'') (\<lambda>_.
        pass (secret, mc_version c))))))))))
       (\<lambda>e. failureAudit ''oauth.client.rotate_secret'' e (Some clientId))"

definition disabled_client :: "machine_client \<Rightarrow> int \<Rightarrow> machine_client" where
  "disabled_client current now =
     current\<lparr>mc_version := mc_version current + 1, mc_status := Disabled_client now\<rparr>"

definition disableMachineClient :: "machine_deps \<Rightarrow> string \<Rightarrow> (int \<times> int) io" where
  "disableMachineClient deps clientId =
     catch
       (andThen (lift (requireMachineClientResource deps)) (\<lambda>res.
        andThen requireMachineClientStore (\<lambda>_.
        andThen (Now (\<lambda>r. Return (epochSeconds r))) (\<lambda>now.
        andThen (current_machine_client deps res clientId now) (\<lambda>current.
        let c = disabled_client current now in
        andThen (swap_machine_client (mc_version current) c ''oauth.client.disable''
                   ''Machine client changed; retry disable'') (\<lambda>_.
        pass (now, mc_version c)))))))
       (\<lambda>e. failureAudit ''oauth.client.disable'' e (Some clientId))"

end
