(* ===== verification/Machine_Laws.thy ===== *)
theory Machine_Laws
  imports Machine_Clients Token_Laws
begin

section \<open>What the machine-client lifecycle guarantees\<close>

text \<open>
  Parsing is exact and undoes writing; a rotation leaves one permanent secret and at most one in its
  grace window; a lifecycle call returns only what its store call committed, and what it returned
  authenticates, or no longer does, against the committed row.
\<close>

subsection \<open>Secrets\<close>

definition secret_ok :: "ClientSecret \<Rightarrow> bool" where
  "secret_ok s =
     (is_sha256_lower (cs_hash s) \<and> isEpoch (whole (cs_createdAtEpoch s))
      \<and> (case cs_expiresAtEpoch s of None \<Rightarrow> True | Some e \<Rightarrow> isEpoch (whole e)))"

definition permanent :: "ClientSecret \<Rightarrow> bool" where
  "permanent s = (cs_expiresAtEpoch s = None)"

definition secrets_ok :: "int \<Rightarrow> ClientSecret list \<Rightarrow> bool" where
  "secrets_ok now ss =
     (ss \<noteq> [] \<and> list_all secret_ok ss \<and> length (filter permanent ss) \<le> 1
      \<and> length (filter (secret_live now) ss) \<le> MAX_ACTIVE_SECRETS)"

lemma epoch_value: "isEpoch v \<Longrightarrow> v = whole (int_val v)"
  by (auto simp: isEpoch_def int_val_def whole_def split: jsval.splits num.splits)

lemma int_val_whole [simp]: "int_val (whole i) = i"
  by (simp add: int_val_def whole_def)

lemma whole_not_Undefined [simp]: "whole i \<noteq> Undefined"
  by (simp add: whole_def)

lemma parse_secret_ok: "parse_secret v = Some s \<Longrightarrow> secret_ok s"
  by (auto simp: parse_secret_def secret_ok_def epoch_value [symmetric] split: jsval.split_asm if_split_asm)

lemma parse_secret_value: "secret_ok s \<Longrightarrow> parse_secret (secret_value s) = Some s"
  by (cases s; cases "cs_expiresAtEpoch s")
    (auto simp: parse_secret_def secret_value_def secret_ok_def opt_member_def own_Cons own_append map_has_def)

lemma secrets_loop_iff:
  "w \<le> 1 \<Longrightarrow> a \<le> MAX_ACTIVE_SECRETS \<Longrightarrow>
   secrets_loop now w a out vs = Some ss \<longleftrightarrow>
     (\<exists>new. ss = out @ new \<and> map parse_secret vs = map Some new
        \<and> w + length (filter permanent new) \<le> 1 \<and> a + length (filter (secret_live now) new) \<le> MAX_ACTIVE_SECRETS)"
proof (induction vs arbitrary: w a out)
  case (Cons v vs)
  show ?case
  proof (cases "parse_secret v")
    case None
    then show ?thesis by (auto simp: Cons_eq_map_conv)
  next
    case (Some s)
    let ?w = "if cs_expiresAtEpoch s = None then w + 1 else w" and ?a = "if secret_live now s then a + 1 else a"
    show ?thesis
    proof (cases "?w > 1 \<or> ?a > MAX_ACTIVE_SECRETS")
      case True
      then have "secrets_loop now w a out (v # vs) = None" using Some by (simp add: Let_def)
      then show ?thesis using True Some by (auto simp: Cons_eq_map_conv permanent_def split: if_split_asm)
    next
      case False
      then have "secrets_loop now w a out (v # vs) = secrets_loop now ?w ?a (out @ [s]) vs" using Some by (simp add: Let_def)
      also have "\<dots> = Some ss \<longleftrightarrow> (\<exists>new. ss = (out @ [s]) @ new \<and> map parse_secret vs = map Some new
          \<and> ?w + length (filter permanent new) \<le> 1 \<and> ?a + length (filter (secret_live now) new) \<le> MAX_ACTIVE_SECRETS)"
        using False by (intro Cons.IH) auto
      also have "\<dots> \<longleftrightarrow> (\<exists>new. ss = out @ new \<and> map parse_secret (v # vs) = map Some new
          \<and> w + length (filter permanent new) \<le> 1 \<and> a + length (filter (secret_live now) new) \<le> MAX_ACTIVE_SECRETS)"
        using Some by (force simp: Cons_eq_map_conv permanent_def)
      finally show ?thesis .
    qed
  qed
qed auto

lemma parseSecrets_Some:
  "parseSecrets v now = Some ss \<longleftrightarrow>
     (\<exists>vs. v = Arr vs \<and> ss \<noteq> [] \<and> map parse_secret vs = map Some ss \<and> length (filter permanent ss) \<le> 1
        \<and> length (filter (secret_live now) ss) \<le> MAX_ACTIVE_SECRETS)"
  by (auto simp: parseSecrets_def secrets_loop_iff simp del: secrets_loop.simps split: jsval.splits list.splits)

lemma parsed_all_ok: "map parse_secret vs = map Some ss \<Longrightarrow> list_all secret_ok ss"
  by (induction ss arbitrary: vs) (auto simp: map_eq_Cons_conv parse_secret_ok)

lemma parseSecrets_ok: "parseSecrets v now = Some ss \<Longrightarrow> secrets_ok now ss"
  by (auto simp: parseSecrets_Some secrets_ok_def dest: parsed_all_ok)

lemma parseSecrets_written:
  assumes "secrets_ok now ss"
  shows "parseSecrets (Arr (map secret_value ss)) now = Some ss"
proof -
  have "map parse_secret (map secret_value ss) = map Some ss"
    using assms by (auto simp: secrets_ok_def list_all_iff parse_secret_value)
  with assms show ?thesis by (auto simp: parseSecrets_Some secrets_ok_def)
qed

lemma newest_in: "ss \<noteq> [] \<Longrightarrow> newest ss \<in> set ss"
  unfolding newest_def by (metis hd_in_set length_0_conv length_sort set_sort)

lemma newest_latest:
  assumes "s \<in> set ss"
  shows "the (cs_expiresAtEpoch s) \<le> the (cs_expiresAtEpoch (newest ss))"
proof -
  let ?k = "\<lambda>s. - the (cs_expiresAtEpoch s)" and ?l = "sort_key (\<lambda>s. - the (cs_expiresAtEpoch s)) (sort_key (\<lambda>s. - cs_createdAtEpoch s) ss)"
  have "sorted (map ?k ?l)" by (rule sorted_sort_key)
  moreover have "s \<in> set ?l" using assms by simp
  ultimately have "?k (hd ?l) \<le> ?k s" by (cases ?l) auto
  then show ?thesis by (simp add: newest_def)
qed

text \<open>
  A rotation leaves exactly one permanent secret, the new one, and at most one other: a secret
  that was live, preferably the permanent one and otherwise one that would have lived longest, which
  now ends with the grace period. When no secret was live, nothing else remains.
\<close>

theorem rotateSecrets_spec:
  "(let live = filter (secret_live now) ss;
        fresh = \<lparr>cs_hash = h, cs_createdAtEpoch = now, cs_expiresAtEpoch = None\<rparr>
    in if live = [] then rotateSecrets ss now g h = [fresh]
       else \<exists>s \<in> set live. rotateSecrets ss now g h = [s\<lparr>cs_expiresAtEpoch := Some (now + g)\<rparr>, fresh]
              \<and> (if cs_expiresAtEpoch s = None then True
                 else \<exists>bound. cs_expiresAtEpoch s = Some bound
                        \<and> filter (\<lambda>t. cs_expiresAtEpoch t = None \<or> bound < the (cs_expiresAtEpoch t)) live = []))"
proof (cases "filter (secret_live now) ss = []")
  case False
  let ?live = "filter (secret_live now) ss"
  show ?thesis
  proof (cases "find (\<lambda>s. cs_expiresAtEpoch s = None) ?live")
    case None
    then have all: "\<forall>t \<in> set ?live. cs_expiresAtEpoch t \<noteq> None" by (simp add: find_None_iff)
    have n: "newest ?live \<in> set ?live" using False by (rule newest_in)
    then obtain b where b: "cs_expiresAtEpoch (newest ?live) = Some b" using all by auto
    have "filter (\<lambda>t. cs_expiresAtEpoch t = None \<or> b < the (cs_expiresAtEpoch t)) ?live = []"
      using all newest_latest [of _ ?live] b by (force simp: filter_empty_conv)
    with False None n b show ?thesis by (auto simp: rotateSecrets_def Let_def intro!: bexI [of _ "newest ?live"])
  next
    case (Some s)
    then have "s \<in> set ?live" "cs_expiresAtEpoch s = None" by (auto simp: find_Some_iff) (metis nth_mem set_filter mem_Collect_eq)+
    with False Some show ?thesis by (auto simp: rotateSecrets_def Let_def intro!: bexI [of _ s])
  qed
qed (simp add: rotateSecrets_def Let_def)

subsection \<open>Rows\<close>

definition client_ok :: "url_parser \<Rightarrow> machine_client \<Rightarrow> bool" where
  "client_ok parseUrl c =
     (startsWith (mc_clientId c) ''mcc_'' \<and> isEpoch (whole (mc_issuedAtEpoch c)) \<and> mc_name c \<noteq> Some []
      \<and> mc_allowedScopes c \<noteq> [] \<and> list_all isBoundedScopeToken (mc_allowedScopes c)
      \<and> length (mc_allowedScopes c) \<le> MAX_SCOPE_ENTRIES
      \<and> isMachineClientResource parseUrl (Str (mc_resource c)))"

definition writable_at :: "int \<Rightarrow> machine_client \<Rightarrow> bool" where
  "writable_at now c =
     (isVersion (whole (mc_version c))
      \<and> (case mc_status c of
           Active_client ss \<Rightarrow> secrets_ok now ss \<and> length ss \<le> MAX_ACTIVE_SECRETS
         | Disabled_client at \<Rightarrow> isEpoch (whole at)))"

lemma machine_value_own:
  "\<exists>kvs. machine_value c = Obj kvs \<and> own kvs ''clientId'' = Str (mc_clientId c) \<and> own kvs ''redirectUris'' = Arr []
     \<and> own kvs ''applicationType'' = Str ''machine'' \<and> own kvs ''issuedAtEpoch'' = whole (mc_issuedAtEpoch c)
     \<and> own kvs ''name'' = opt_value (mc_name c) \<and> own kvs ''allowedScopes'' = Arr (map Str (mc_allowedScopes c))
     \<and> own kvs ''resource'' = Str (mc_resource c) \<and> map_has ''status'' kvs \<and> map_has ''version'' kvs
     \<and> own kvs ''version'' = whole (mc_version c)
     \<and> (case mc_status c of
          Active_client ss \<Rightarrow> own kvs ''status'' = Str ''active'' \<and> own kvs ''secrets'' = Arr (map secret_value ss)
            \<and> \<not> map_has ''disabledAtEpoch'' kvs
        | Disabled_client at \<Rightarrow> own kvs ''status'' = Str ''disabled'' \<and> own kvs ''secrets'' = Arr []
            \<and> own kvs ''disabledAtEpoch'' = whole at)"
  by (cases "mc_name c"; cases "mc_status c")
    (simp_all add: machine_value_def opt_member_def own_Cons own_append map_has_def opt_value_def)

lemma parse_status_written:
  assumes "writable_at now c" and "machine_value c = Obj kvs"
    and f: "map_has ''status'' kvs" "map_has ''version'' kvs" "own kvs ''version'' = whole (mc_version c)"
      "case mc_status c of
          Active_client ss \<Rightarrow> own kvs ''status'' = Str ''active'' \<and> own kvs ''secrets'' = Arr (map secret_value ss)
            \<and> \<not> map_has ''disabledAtEpoch'' kvs
        | Disabled_client at \<Rightarrow> own kvs ''status'' = Str ''disabled'' \<and> own kvs ''secrets'' = Arr []
            \<and> own kvs ''disabledAtEpoch'' = whole at"
  shows "parse_status kvs now = Some (mc_version c, mc_status c)"
proof (cases "mc_status c")
  case (Active_client ss)
  with assms(1) have "secrets_ok now ss" "ss \<noteq> []" "length ss \<le> MAX_ACTIVE_SECRETS"
    by (auto simp: writable_at_def secrets_ok_def)
  with Active_client assms(1) f parseSecrets_written [of now ss] show ?thesis
    by (simp add: parse_status_def writable_at_def Suc_le_eq)
next
  case (Disabled_client at)
  with assms(1) f show ?thesis by (simp add: parse_status_def writable_at_def)
qed

lemma parse_written:
  assumes "client_ok parseUrl c" and "writable_at now c" and "isEpoch (whole now)"
  shows "parseMachineClientRegistration parseUrl (machine_value c) (mc_clientId c) now = Some c"
proof -
  from machine_value_own [of c] obtain kvs where k: "machine_value c = Obj kvs"
    and o: "own kvs ''clientId'' = Str (mc_clientId c)" "own kvs ''redirectUris'' = Arr []"
      "own kvs ''applicationType'' = Str ''machine''" "own kvs ''issuedAtEpoch'' = whole (mc_issuedAtEpoch c)"
      "own kvs ''name'' = opt_value (mc_name c)" "own kvs ''allowedScopes'' = Arr (map Str (mc_allowedScopes c))"
      "own kvs ''resource'' = Str (mc_resource c)"
    and st: "parse_status kvs now = Some (mc_version c, mc_status c)"
    using parse_status_written [OF assms(2)] by blast
  have n: "opt_str_of (opt_value (mc_name c)) = mc_name c"
    "opt_value (mc_name c) = Undefined \<or> nonEmptyString (opt_value (mc_name c))"
    using assms(1) by (auto simp: client_ok_def opt_value_def opt_str_of_def nonEmptyString_def split: option.splits)
  have "snapshotBoundedScopeList (Arr (map Str (mc_allowedScopes c))) = Inr (mc_allowedScopes c)"
    using assms(1) by (simp add: client_ok_def snapshotBoundedScopeList_iff)
  then have "parseAllowedScopes (Arr (map Str (mc_allowedScopes c))) = Some (mc_allowedScopes c)"
    using assms(1) by (simp add: parseAllowedScopes_def client_ok_def)
  moreover have "isEpoch (Number (Whole now))" using assms(3) by (simp add: whole_def)
  ultimately show ?thesis
    using assms(1) n(2) by (simp add: parseMachineClientRegistration_def k o st n client_ok_def str_of_def)
qed

text \<open>
  A machine-client row reads back as it was written: whatever well-formed active or disabled client
  is committed, the parser returns that client at any later time it is read.
\<close>

theorem machine_row_roundtrip:
  assumes "client_ok parseUrl c" and "writable_at now c" and "isEpoch (whole now)"
  shows "parseMachineClientRegistration parseUrl (machine_value c) (mc_clientId c) now = Some c"
  using assms by (rule parse_written)

lemma parse_status_Some:
  "parse_status kvs now = Some (ver, st) \<Longrightarrow>
     (ver = 0 \<or> isVersion (whole ver)) \<and> (case st of Active_client ss \<Rightarrow> secrets_ok now ss | Disabled_client at \<Rightarrow> isEpoch (whole at))"
  using epoch_value [of "own kvs ''disabledAtEpoch''"]
  by (auto simp: parse_status_def parseSecrets_ok isVersion_def int_val_def whole_def
      split: if_split_asm option.split_asm jsval.split_asm num.split_asm)

lemma parse_sound:
  assumes "parseMachineClientRegistration parseUrl v cid now = Some c"
  shows "client_ok parseUrl c \<and> mc_clientId c = cid \<and> isEpoch (whole now) \<and> (mc_version c = 0 \<or> isVersion (whole (mc_version c)))
     \<and> (case mc_status c of Active_client ss \<Rightarrow> secrets_ok now ss | Disabled_client at \<Rightarrow> isEpoch (whole at))"
proof -
  from assms obtain kvs scopes ver st where v: "v = Obj kvs" and e: "isEpoch (Number (Whole now))"
    and k: "startsWith cid ''mcc_''" "isEpoch (own kvs ''issuedAtEpoch'')" "own kvs ''name'' = Undefined \<or> nonEmptyString (own kvs ''name'')"
    and a: "parseAllowedScopes (own kvs ''allowedScopes'') = Some scopes" and r: "isMachineClientResource parseUrl (own kvs ''resource'')"
    and s: "parse_status kvs now = Some (ver, st)"
    and c: "c = \<lparr>mc_clientId = cid, mc_issuedAtEpoch = int_val (own kvs ''issuedAtEpoch''),
                 mc_name = opt_str_of (own kvs ''name''), mc_allowedScopes = scopes,
                 mc_resource = str_of (own kvs ''resource''), mc_version = ver, mc_status = st\<rparr>"
    by (auto simp: parseMachineClientRegistration_def split: jsval.split_asm if_split_asm option.split_asm)
  from r obtain res where res: "own kvs ''resource'' = Str res"
    by (auto simp: isMachineClientResource_def split: jsval.split_asm)
  have "scopes \<noteq> [] \<and> list_all isBoundedScopeToken scopes \<and> length scopes \<le> MAX_SCOPE_ENTRIES"
    using a by (auto simp: parseAllowedScopes_def snapshotBoundedScopeList_iff split: sum.split_asm if_split_asm)
  moreover have "opt_str_of (own kvs ''name'') \<noteq> Some []"
    using k(3) by (auto simp: opt_str_of_def nonEmptyString_def split: jsval.split_asm)
  ultimately show ?thesis
    using e k r parse_status_Some [OF s] by (simp add: c res client_ok_def str_of_def epoch_value [symmetric] whole_def [symmetric])
qed

subsection \<open>Authentication\<close>

lemma verifyPresentedHash_iff:
  assumes "length (filter (secret_live now) ss) \<le> MAX_ACTIVE_SECRETS"
  shows "verifyPresentedHash h ss now \<longleftrightarrow>
     h \<in> cs_hash ` set (filter (secret_live now) ss)
     \<or> (length (filter (secret_live now) ss) < MAX_ACTIVE_SECRETS \<and> h = ZERO_HASH)"
proof -
  have slots: "h = (if 0 < length hs then hs ! 0 else z) \<or> h = (if 1 < length hs then hs ! 1 else z)
      \<longleftrightarrow> h \<in> set hs \<or> (length hs < 2 \<and> h = z)" if "length hs \<le> 2" for hs :: "string list" and z
  proof -
    show ?thesis using that by (cases hs; cases "tl hs"; cases "tl (tl hs)") auto
  qed
  show ?thesis
    using slots [of "map cs_hash (filter (secret_live now) ss)" ZERO_HASH] assms
    unfolding verifyPresentedHash_def Let_def timingSafeHexEqual_def MAX_ACTIVE_SECRETS_def by auto
qed

lemma judge_iff:
  "judge_machine_client parseUrl res cid secret now row = Some c \<longleftrightarrow>
     (\<exists>ss. parseMachineClientRegistration parseUrl row cid now = Some c \<and> mc_status c = Active_client ss
        \<and> mc_resource c = res
        \<and> (sha256Hex secret \<in> cs_hash ` set (filter (secret_live now) ss)
           \<or> \<not> 2 \<le> length (filter (secret_live now) ss) \<and> sha256Hex secret = ZERO_HASH))"
proof -
  have l: "length (filter (secret_live now) ss) \<le> MAX_ACTIVE_SECRETS"
    if "parseMachineClientRegistration parseUrl row cid now = Some d" "mc_status d = Active_client ss" for d ss
    using parse_sound [OF that(1)] that(2) by (simp add: secrets_ok_def)
  have z: "\<not> 2 \<le> n \<longleftrightarrow> n < MAX_ACTIVE_SECRETS" for n by (auto simp: MAX_ACTIVE_SECRETS_def)
  show ?thesis
    unfolding judge_machine_client_def z
    by (auto simp: Let_def is_active_def active_secrets_def hashMachineClientSecret_def verifyPresentedHash_iff [OF l]
        split: option.splits machine_status.splits if_split_asm)
qed

text \<open>
  A presented machine secret is accepted exactly when the stored row parses to an active client of
  this resource and the digest of the secret is that of one of its live secrets (a row with a single
  live secret is padded with the all-zero digest, of which no secret is known). No expired secret, no
  disabled client and no malformed row is ever accepted.
\<close>

theorem judge_machine_client_iff:
  "judge_machine_client parseUrl res cid secret now row = Some c \<longleftrightarrow>
     (\<exists>ss. parseMachineClientRegistration parseUrl row cid now = Some c \<and> mc_status c = Active_client ss
        \<and> mc_resource c = res
        \<and> (sha256Hex secret \<in> cs_hash ` set (filter (secret_live now) ss)
           \<or> \<not> 2 \<le> length (filter (secret_live now) ss) \<and> sha256Hex secret = ZERO_HASH))"
  by (rule judge_iff)

subsection \<open>The lifecycle\<close>

lemma failureAudit_fails: "perform env (failureAudit event e cid) w \<noteq> (Inr y, tr, au, w')"
  by (auto simp: failureAudit_def perform_Audit elim!: perform_andThen_Inr)

lemma perform_guarded:
  assumes "perform env (catch m (\<lambda>e. failureAudit event e cid)) w = (Inr y, tr, au, w')"
  shows "perform env m w = (Inr y, tr, au, w')"
  using assms by (rule perform_catch_Inr) (auto simp: failureAudit_fails)

definition committed_swap :: "trace \<Rightarrow> int \<Rightarrow> machine_client \<Rightarrow> bool" where
  "committed_swap tr expected c =
     (\<exists>durable ok. (SwapMachineClient expected (machine_value c) durable, Inr ok) \<in> set tr \<and> truthy_value ok)"

lemma swap_committed:
  assumes "perform env (swap_machine_client expected c event conflict) w = (Inr u, tr, au, w')"
  shows "committed_swap tr expected c"
  using assms unfolding swap_machine_client_def committed_swap_def
  by (auto elim!: perform_andThen_Inr simp: perform_simps) blast

lemma current_client:
  assumes "perform env (current_machine_client deps res cid now) w = (Inr c, tr, au, w')"
  shows "client_ok (md_parseUrl deps) c \<and> mc_clientId c = cid \<and> mc_resource c = res \<and> mc_version c < MAX_SAFE_INTEGER
     \<and> (mc_version c = 0 \<or> isVersion (whole (mc_version c))) \<and> isEpoch (whole now)
     \<and> (\<exists>ss. mc_status c = Active_client ss \<and> secrets_ok now ss)"
proof -
  from assms obtain row where "parseMachineClientRegistration (md_parseUrl deps) row cid now = Some c"
    and "is_active c" "mc_resource c = res" "mc_version c < MAX_SAFE_INTEGER"
    unfolding current_machine_client_def
    by (auto elim!: perform_andThen_Inr simp: perform_simps requireMutableActive_def split: option.split_asm if_split_asm)
  with parse_sound [OF this(1)] show ?thesis by (auto simp: is_active_def split: machine_status.split_asm)
qed

lemma sha256Hex_lower: "is_sha256_lower (sha256Hex s)"
  unfolding is_sha256_lower_def by (simp add: sha256Hex_def hex_text_hex)

lemma next_version: "mc_version c < MAX_SAFE_INTEGER \<Longrightarrow> mc_version c = 0 \<or> isVersion (whole (mc_version c)) \<Longrightarrow>
   isVersion (whole (mc_version c + 1))"
  by (auto simp: isVersion_def whole_def safe_int_def)

lemma rotateSecrets_cases:
  obtains "rotateSecrets ss now g h = [\<lparr>cs_hash = h, cs_createdAtEpoch = now, cs_expiresAtEpoch = None\<rparr>]"
  | s where "s \<in> set ss" and "rotateSecrets ss now g h =
      [s\<lparr>cs_expiresAtEpoch := Some (now + g)\<rparr>, \<lparr>cs_hash = h, cs_createdAtEpoch = now, cs_expiresAtEpoch = None\<rparr>]"
proof (cases "filter (secret_live now) ss = []")
  case True
  then show thesis by (intro that(1)) (simp add: rotateSecrets_def)
next
  case False
  let ?live = "filter (secret_live now) ss"
  show thesis
  proof (cases "find (\<lambda>s. cs_expiresAtEpoch s = None) ?live")
    case None
    with False newest_in [OF False] show thesis by (intro that(2) [of "newest ?live"]) (auto simp: rotateSecrets_def)
  next
    case (Some s)
    then have "s \<in> set ?live" unfolding find_Some_iff by (metis nth_mem)
    with False Some show thesis by (intro that(2) [of s]) (auto simp: rotateSecrets_def)
  qed
qed

lemma rotateSecrets_ok:
  assumes "list_all secret_ok ss" and "is_sha256_lower h" and "isEpoch (whole now)" and "isEpoch (whole (now + g))"
  shows "secrets_ok t (rotateSecrets ss now g h) \<and> length (rotateSecrets ss now g h) \<le> MAX_ACTIVE_SECRETS
     \<and> h \<in> cs_hash ` set (filter (secret_live t) (rotateSecrets ss now g h))"
proof (rule rotateSecrets_cases [of ss now g h])
  assume r: "rotateSecrets ss now g h = [\<lparr>cs_hash = h, cs_createdAtEpoch = now, cs_expiresAtEpoch = None\<rparr>]"
  show ?thesis unfolding r using assms
    by (simp add: secrets_ok_def secret_ok_def permanent_def secret_live_def MAX_ACTIVE_SECRETS_def)
next
  fix s
  assume "s \<in> set ss" and r: "rotateSecrets ss now g h =
      [s\<lparr>cs_expiresAtEpoch := Some (now + g)\<rparr>, \<lparr>cs_hash = h, cs_createdAtEpoch = now, cs_expiresAtEpoch = None\<rparr>]"
  then have "secret_ok s" using assms(1) by (auto simp: list_all_iff)
  then show ?thesis unfolding r using assms
    by (simp add: secrets_ok_def secret_ok_def permanent_def secret_live_def MAX_ACTIVE_SECRETS_def)
qed

lemma rotated_accepts:
  assumes "client_ok parseUrl c" and "mc_version c < MAX_SAFE_INTEGER" and "mc_version c = 0 \<or> isVersion (whole (mc_version c))"
    and "mc_status c = Active_client ss" and "secrets_ok now ss" and "isEpoch (whole now)" and "isEpoch (whole (now + g))"
    and "isEpoch (whole t)"
  shows "judge_machine_client parseUrl (mc_resource c) (mc_clientId c) secret t (machine_value (rotated_client c now g secret))
     = Some (rotated_client c now g secret)"
proof -
  let ?c = "rotated_client c now g secret" and ?ss = "rotateSecrets ss now g (sha256Hex secret)"
  have o: "secrets_ok t ?ss \<and> length ?ss \<le> MAX_ACTIVE_SECRETS \<and> sha256Hex secret \<in> cs_hash ` set (filter (secret_live t) ?ss)"
    using assms(5) by (intro rotateSecrets_ok sha256Hex_lower assms(6,7)) (simp add: secrets_ok_def)
  have st: "mc_status ?c = Active_client ?ss"
    using assms(4) by (simp add: rotated_client_def active_secrets_def hashMachineClientSecret_def)
  have "client_ok parseUrl ?c" using assms(1) by (simp add: client_ok_def rotated_client_def)
  moreover have "isVersion (whole (mc_version ?c))" using next_version assms(2,3) by (simp add: rotated_client_def)
  then have "writable_at t ?c" using o st by (simp add: writable_at_def)
  ultimately have "parseMachineClientRegistration parseUrl (machine_value ?c) (mc_clientId ?c) t = Some ?c"
    using assms(8) by (rule parse_written)
  moreover have "mc_clientId ?c = mc_clientId c" "mc_resource ?c = mc_resource c" by (simp_all add: rotated_client_def)
  ultimately show ?thesis
    using o st unfolding judge_machine_client_def
    by (auto simp: Let_def is_active_def active_secrets_def hashMachineClientSecret_def secrets_ok_def verifyPresentedHash_iff)
qed

text \<open>
  A rotated secret is returned only with its commitment, and it works: when a rotation returns a
  secret, the client store accepted a compare-and-swap from the version that was read to the version
  that is returned, and the committed row authenticates the returned secret at every later time. A lost
  compare-and-swap returns no secret.
\<close>

theorem rotated_secret_authenticates:
  assumes "perform env (rotateMachineClientSecret deps cid graceSeconds) w = (Inr (secret, ver), tr, au, w')"
  shows "\<exists>c. committed_swap tr (ver - 1) c \<and> mc_version c = ver \<and> mc_clientId c = cid
     \<and> (\<forall>t. judge_machine_client (md_parseUrl deps) (md_resource deps) cid secret t (machine_value c)
              = (if isEpoch (whole t) then Some c else None))"
proof -
  from perform_guarded [OF assms [unfolded rotateMachineClientSecret_def]]
  obtain res grace now current w1 tr1 au1 w2 tr2 au2 w3 tr3 where
    r: "requireMachineClientResource deps = Inr res"
    and o: "validateExpiryOffset now grace ''graceSeconds'' = Inr ()" "grace_seconds graceSeconds = Inr grace"
    and cur: "perform env (current_machine_client deps res cid now) w1 = (Inr current, tr1, au1, w2)"
    and sw: "perform env (swap_machine_client (mc_version current) (rotated_client current now grace secret)
        ''oauth.client.rotate_secret'' ''Machine client changed; retry rotation'') w3 = (Inr (), tr2, au2, w')"
    and v: "ver = mc_version (rotated_client current now grace secret)" and t: "set tr2 \<subseteq> set tr"
    by (auto simp: Let_def perform_simps simp del: andThen_simps perform.simps elim!: perform_andThen_Inr) blast
  from current_client [OF cur] obtain ss where c: "client_ok (md_parseUrl deps) current" "mc_clientId current = cid"
    "mc_resource current = res" "mc_version current < MAX_SAFE_INTEGER"
    "mc_version current = 0 \<or> isVersion (whole (mc_version current))" "isEpoch (whole now)"
    "mc_status current = Active_client ss" "secrets_ok now ss" by auto
  let ?c = "rotated_client current now grace secret"
  have rd: "res = md_resource deps" using r by (simp add: requireMachineClientResource_def split: if_split_asm)
  have "isEpoch (whole (now + grace))"
    using o(1) by (simp add: validateExpiryOffset_def isEpoch_def whole_def)
  then have "judge_machine_client (md_parseUrl deps) (md_resource deps) cid secret t (machine_value ?c) = Some ?c"
    if "isEpoch (whole t)" for t
    using rotated_accepts [OF c(1,4,5,7,8,6) _ that, of grace secret] c(2,3) rd by simp
  moreover have "judge_machine_client (md_parseUrl deps) (md_resource deps) cid secret t (machine_value ?c) = None"
    if "\<not> isEpoch (whole t)" for t
    using that parse_sound [of "md_parseUrl deps" "machine_value ?c" cid t]
    by (cases "judge_machine_client (md_parseUrl deps) (md_resource deps) cid secret t (machine_value ?c)")
      (auto simp: judge_iff)
  moreover have "committed_swap tr (ver - 1) ?c"
    using swap_committed [OF sw] t v by (auto simp: committed_swap_def rotated_client_def)
  ultimately show ?thesis using v c(2) by (intro exI [of _ ?c]) (simp add: rotated_client_def)
qed

text \<open>
  A disabled client is dead: when disabling returns, the client store accepted a compare-and-swap to
  a row that holds no secret and that no presented secret authenticates, at any time.
\<close>

theorem disabled_client_rejects:
  assumes "perform env (disableMachineClient deps cid) w = (Inr (at, ver), tr, au, w')"
  shows "\<exists>c. committed_swap tr (ver - 1) c \<and> mc_version c = ver \<and> mc_clientId c = cid \<and> mc_status c = Disabled_client at
     \<and> (\<forall>secret t. judge_machine_client (md_parseUrl deps) (md_resource deps) cid secret t (machine_value c) = None)"
proof -
  from perform_guarded [OF assms [unfolded disableMachineClient_def]]
  obtain res current w1 tr1 au1 w2 tr2 au2 w3 where
    cur: "perform env (current_machine_client deps res cid at) w1 = (Inr current, tr1, au1, w2)"
    and sw: "perform env (swap_machine_client (mc_version current) (disabled_client current at)
        ''oauth.client.disable'' ''Machine client changed; retry disable'') w3 = (Inr (), tr2, au2, w')"
    and v: "ver = mc_version (disabled_client current at)" and t: "set tr2 \<subseteq> set tr"
    by (auto simp: Let_def perform_simps simp del: andThen_simps perform.simps elim!: perform_andThen_Inr) blast
  from current_client [OF cur] have c: "client_ok (md_parseUrl deps) current" "mc_clientId current = cid"
    "mc_version current < MAX_SAFE_INTEGER" "mc_version current = 0 \<or> isVersion (whole (mc_version current))"
    "isEpoch (whole at)" by auto
  let ?c = "disabled_client current at"
  have i: "mc_clientId ?c = cid" "mc_status ?c = Disabled_client at" "client_ok (md_parseUrl deps) ?c" "writable_at u ?c" for u
    using c next_version [OF c(3,4)] by (auto simp: disabled_client_def client_ok_def writable_at_def)
  have "judge_machine_client (md_parseUrl deps) (md_resource deps) cid secret u (machine_value ?c) = None" for secret u
  proof (cases "isEpoch (whole u)")
    case True
    then have "parseMachineClientRegistration (md_parseUrl deps) (machine_value ?c) cid u = Some ?c"
      using parse_written [OF i(3) i(4) True] i(1) by simp
    then show ?thesis
      using i(2) by (cases "judge_machine_client (md_parseUrl deps) (md_resource deps) cid secret u (machine_value ?c)")
        (auto simp: judge_iff)
  next
    case False
    then show ?thesis
      using parse_sound [of "md_parseUrl deps" "machine_value ?c" cid u]
      by (cases "judge_machine_client (md_parseUrl deps) (md_resource deps) cid secret u (machine_value ?c)")
        (auto simp: judge_iff)
  qed
  moreover have "committed_swap tr (ver - 1) ?c"
    using swap_committed [OF sw] t v by (auto simp: committed_swap_def disabled_client_def)
  ultimately show ?thesis using v i by (intro exI [of _ ?c]) (simp add: disabled_client_def)
qed

subsection \<open>Witnesses\<close>

definition demo_machine :: machine_client where
  "demo_machine =
     \<lparr>mc_clientId = ''mcc_demo'', mc_issuedAtEpoch = 1600000000, mc_name = Some ''ci'', mc_allowedScopes = [''read''],
      mc_resource = ''https://app.example/cb'', mc_version = 1,
      mc_status = Active_client [\<lparr>cs_hash = replicate 64 (CHR ''a''), cs_createdAtEpoch = 1600000000, cs_expiresAtEpoch = None\<rparr>]\<rparr>"

lemma demo_machine_ok: "client_ok demo_parser demo_machine" "writable_at t demo_machine"
proof -
  have "isMachineClientResource demo_parser (Str ''https://app.example/cb'')" by code_simp
  then show "client_ok demo_parser demo_machine"
    by (simp add: client_ok_def demo_machine_def isEpoch_def whole_def safe_int_def MAX_SAFE_INTEGER_def scope_evals)
  have "is_sha256_lower (replicate 64 (CHR ''a''))" by code_simp
  then show "writable_at t demo_machine"
    by (simp add: writable_at_def demo_machine_def isVersion_def isEpoch_def whole_def safe_int_def MAX_SAFE_INTEGER_def
        secrets_ok_def secret_ok_def permanent_def secret_live_def MAX_ACTIVE_SECRETS_def)
qed

lemma demo_epoch: "isEpoch (whole 1700000000)"
  by (simp add: isEpoch_def whole_def safe_int_def MAX_SAFE_INTEGER_def)

theorem machine_row_roundtrip_witness:
  "parseMachineClientRegistration demo_parser (machine_value demo_machine) (mc_clientId demo_machine) 1700000000 = Some demo_machine"
  by (rule machine_row_roundtrip [OF demo_machine_ok demo_epoch])

lemma demo_machine_parsed:
  "parseMachineClientRegistration demo_parser (machine_value demo_machine) ''mcc_demo'' 1700000000 = Some demo_machine"
  using parse_written [OF demo_machine_ok demo_epoch] by (simp add: demo_machine_def)

definition demo_machine_env :: "unit env" where
  "demo_machine_env =
     \<lparr>on_call = (\<lambda>c w. (Inr (case c of
          ResolveMutationMethods \<Rightarrow> Obj [(''create'', Opaque), (''cas'', Opaque)]
        | FindClient _ \<Rightarrow> machine_value demo_machine | _ \<Rightarrow> Boolean True), w)),
      on_clock = (\<lambda>w. (Reads (Whole 1700000000000), w)), on_random = (\<lambda>w. (RandomBytes (replicate 32 (CHR ''A'')), w))\<rparr>"

definition demo_machine_deps :: machine_deps where
  "demo_machine_deps = \<lparr>md_parseUrl = demo_parser, md_catalog = [''read''], md_resource = ''https://app.example/cb''\<rparr>"

definition demo_secret :: string where
  "demo_secret = ''mcs_'' @ base64url (replicate 32 (CHR ''A''))"

lemma demo_machine_steps:
  "requireMachineClientResource demo_machine_deps = Inr ''https://app.example/cb''"
  "epochSeconds (Reads (Whole 1700000000000)) = Inr 1700000000"
  "grace_seconds None = Inr 86400" "validateExpiryOffset 1700000000 86400 ''graceSeconds'' = Inr ()"
  "mintClientSecret (RandomBytes (replicate 32 (CHR ''A''))) = Inr demo_secret"
  "requireMutableActive (Some demo_machine) ''https://app.example/cb'' = Inr demo_machine"
  "finiteClockSnapshot (Reads (Whole 1700000000000)) 0 = Inr 1700000000000"
proof -
  have "isMachineClientResource demo_parser (Str ''https://app.example/cb'')" by code_simp
  then show "requireMachineClientResource demo_machine_deps = Inr ''https://app.example/cb''"
    by (simp add: requireMachineClientResource_def demo_machine_deps_def)
  show f: "finiteClockSnapshot (Reads (Whole 1700000000000)) 0 = Inr 1700000000000"
    by (simp add: finiteClockSnapshot_Inr safe_int_def MAX_SAFE_INTEGER_def MIN_CANONICAL_MS_def MAX_CANONICAL_MS_def)
  then show "epochSeconds (Reads (Whole 1700000000000)) = Inr 1700000000" by (simp add: epochSeconds_def)
  show "grace_seconds None = Inr 86400"
    by (simp add: grace_seconds_def isPositiveInteger_def safe_int_def MAX_SAFE_INTEGER_def whole_of_def
        DEFAULT_ROTATION_GRACE_SECONDS_def MAX_ROTATION_GRACE_SECONDS_def)
  show "validateExpiryOffset 1700000000 86400 ''graceSeconds'' = Inr ()"
    by (simp add: validateExpiryOffset_def safe_int_def MAX_SAFE_INTEGER_def)
  show "mintClientSecret (RandomBytes (replicate 32 (CHR ''A''))) = Inr demo_secret"
    by (simp add: mintClientSecret_def randomBytesFrom_def demo_secret_def)
  show "requireMutableActive (Some demo_machine) ''https://app.example/cb'' = Inr demo_machine"
    by (simp add: requireMutableActive_def is_active_def demo_machine_def MAX_SAFE_INTEGER_def)
qed

lemma demo_env_calls:
  "on_call demo_machine_env ResolveMutationMethods w = (Inr (Obj [(''create'', Opaque), (''cas'', Opaque)]), w)"
  "on_call demo_machine_env (FindClient x) w = (Inr (machine_value demo_machine), w)"
  "on_call demo_machine_env (SwapMachineClient e r d) w = (Inr (Boolean True), w)"
  "on_clock demo_machine_env w = (Reads (Whole 1700000000000), w)"
  "on_random demo_machine_env w = (RandomBytes (replicate 32 (CHR ''A'')), w)"
  by (simp_all add: demo_machine_env_def)

lemma demo_deps_fields: "md_parseUrl demo_machine_deps = demo_parser" "md_resource demo_machine_deps = ''https://app.example/cb''"
  by (simp_all add: demo_machine_deps_def)

lemma demo_store_ok:
  "perform demo_machine_env requireMachineClientStore () =
     (Inr (), [(ResolveMutationMethods, Inr (Obj [(''create'', Opaque), (''cas'', Opaque)]))], [], ())"
  by (simp add: requireMachineClientStore_def askPort_def demo_env_calls check_def pass_def own_Cons)

lemma demo_swap_ok:
  "\<exists>tr au. perform demo_machine_env (swap_machine_client e c ev m) () = (Inr (), tr, au, ())"
  by (simp add: swap_machine_client_def mutationAudit_def readClock_def askPort_def demo_env_calls demo_machine_steps
      pass_def check_def truthy_value_def)

lemma demo_current_ok:
  "\<exists>tr. perform demo_machine_env (current_machine_client demo_machine_deps ''https://app.example/cb'' ''mcc_demo'' 1700000000) ()
     = (Inr demo_machine, tr, [], ())"
  by (simp add: current_machine_client_def askPort_def demo_env_calls demo_machine_parsed demo_machine_steps lift_def
      demo_deps_fields)

lemma andThen_run:
  "perform env m w = (Inr x, tr, au, w1) \<Longrightarrow> perform env (andThen m f) w =
     (let (y, tr', au', w2) = perform env (f x) w1 in (y, tr @ tr', au @ au', w2))"
  by (simp add: andThen_def perform_bind)

lemma demo_rotation:
  "\<exists>tr au. perform demo_machine_env (rotateMachineClientSecret demo_machine_deps ''mcc_demo'' None) () = (Inr (demo_secret, 2), tr, au, ())"
proof -
  let ?c = "rotated_client demo_machine 1700000000 86400 demo_secret"
  obtain tr1 where c: "perform demo_machine_env (current_machine_client demo_machine_deps ''https://app.example/cb'' ''mcc_demo'' 1700000000) ()
     = (Inr demo_machine, tr1, [], ())" using demo_current_ok by blast
  obtain tr2 au2 where s: "perform demo_machine_env (swap_machine_client (mc_version demo_machine) ?c ''oauth.client.rotate_secret''
      ''Machine client changed; retry rotation'') () = (Inr (), tr2, au2, ())" using demo_swap_ok by blast
  have v: "mc_version ?c = 2" by (simp add: rotated_client_def demo_machine_def)
  show ?thesis
    unfolding rotateMachineClientSecret_def catch_def perform_bind
    by (simp add: lift_def demo_machine_steps demo_env_calls Let_def v andThen_run [OF demo_store_ok] andThen_run [OF c]
        andThen_run [OF s])
qed

theorem rotated_secret_authenticates_witness:
  "\<exists>tr c. committed_swap tr 1 c \<and> mc_version c = 2 \<and> mc_clientId c = ''mcc_demo''
     \<and> judge_machine_client demo_parser ''https://app.example/cb'' ''mcc_demo'' demo_secret 1700000000 (machine_value c) = Some c"
proof -
  from demo_rotation obtain tr au where "perform demo_machine_env (rotateMachineClientSecret demo_machine_deps ''mcc_demo'' None) ()
     = (Inr (demo_secret, 2), tr, au, ())" by blast
  from rotated_secret_authenticates [OF this] demo_epoch show ?thesis by (fastforce simp: demo_deps_fields)
qed

lemma demo_disabling:
  "\<exists>tr au. perform demo_machine_env (disableMachineClient demo_machine_deps ''mcc_demo'') () = (Inr (1700000000, 2), tr, au, ())"
proof -
  let ?c = "disabled_client demo_machine 1700000000"
  obtain tr1 where c: "perform demo_machine_env (current_machine_client demo_machine_deps ''https://app.example/cb'' ''mcc_demo'' 1700000000) ()
     = (Inr demo_machine, tr1, [], ())" using demo_current_ok by blast
  obtain tr2 au2 where s: "perform demo_machine_env (swap_machine_client (mc_version demo_machine) ?c ''oauth.client.disable''
      ''Machine client changed; retry disable'') () = (Inr (), tr2, au2, ())" using demo_swap_ok by blast
  have v: "mc_version ?c = 2" by (simp add: disabled_client_def demo_machine_def)
  show ?thesis
    unfolding disableMachineClient_def catch_def perform_bind
    by (simp add: lift_def demo_machine_steps demo_env_calls Let_def v andThen_run [OF demo_store_ok] andThen_run [OF c]
        andThen_run [OF s])
qed

theorem disabled_client_rejects_witness:
  "\<exists>tr c. committed_swap tr 1 c \<and> mc_version c = 2 \<and> mc_status c = Disabled_client 1700000000
     \<and> judge_machine_client demo_parser ''https://app.example/cb'' ''mcc_demo'' demo_secret 1700000000 (machine_value c) = None"
proof -
  from demo_disabling obtain tr au where "perform demo_machine_env (disableMachineClient demo_machine_deps ''mcc_demo'') ()
     = (Inr (1700000000, 2), tr, au, ())" by blast
  from disabled_client_rejects [OF this] show ?thesis by (fastforce simp: demo_deps_fields)
qed

end
