(* ===== verification/Cimd_Blocklist.thy ===== *)
theory Cimd_Blocklist
  imports Credentials Redirect_Entry
begin

section \<open>IP addresses and the blocklist\<close>

text \<open>
  \<open>src/cimd/blocklist.ts\<close>: the strict parsers of IPv4 and IPv6 texts, the CIDR membership test and
  the tables of ranges no client document is ever fetched from. Octets are \<open>8 word\<close>, the groups of
  an IPv6 address \<open>16 word\<close>; shifts and masks are the bit operations of the source.
\<close>

unbundle bit_operations_syntax

type_synonym octet = "8 word"

datatype ip_family = V4 | V6

record ParsedIp =
  ip_family :: ip_family
  ip_bytes :: "octet list"

record CidrRange =
  cidr_network :: "octet list"
  cidr_prefix :: nat

subsection \<open>Parsing\<close>

definition digits_value :: "nat \<Rightarrow> string \<Rightarrow> nat" where
  "digits_value base = foldl (\<lambda>n c. base * n + hex_value c) 0"

text \<open>\<open>/^(?:0|[1-9][0-9]{0,2})$/\<close> and at most 255.\<close>

definition ipv4_part :: "string \<Rightarrow> octet option" where
  "ipv4_part part =
     (if part \<noteq> ''0'' \<and> \<not> (part \<noteq> [] \<and> list_all is_digit part \<and> hd part \<noteq> CHR ''0'' \<and> length part \<le> 3) then None
      else if digits_value 10 part > 255 then None
      else Some (of_nat (digits_value 10 part)))"

fun all_some :: "'a option list \<Rightarrow> 'a list option" where
  "all_some [] = Some []"
| "all_some (x # xs) = (case x of None \<Rightarrow> None | Some y \<Rightarrow> map_option ((#) y) (all_some xs))"

definition parseIpv4 :: "string \<Rightarrow> octet list option" where
  "parseIpv4 text =
     (let parts = split_on (CHR ''.'') text in
      if length parts \<noteq> 4 then None else all_some (map ipv4_part parts))"

text \<open>\<open>n.toString(16)\<close>\<close>

fun hex_number :: "nat \<Rightarrow> string" where
  "hex_number n = (if n < 16 then [nibble n] else hex_number (n div 16) @ [nibble (n mod 16)])"

declare hex_number.simps [simp del]

text \<open>\<open>lastIndexOf\<close> of one character: what precedes its last occurrence and what follows it.\<close>

fun split_last :: "char \<Rightarrow> string \<Rightarrow> (string \<times> string) option" where
  "split_last c [] = None"
| "split_last c (d # s) =
     (case split_last c s of
        Some (a, b) \<Rightarrow> Some (d # a, b)
      | None \<Rightarrow> if d = c then Some ([], s) else None)"

fun index_of :: "string \<Rightarrow> string \<Rightarrow> nat option" where
  "index_of needle [] = (if needle = [] then Some 0 else None)"
| "index_of needle (c # s) = (if startsWith (c # s) needle then Some 0 else map_option Suc (index_of needle s))"

fun last_index_of :: "string \<Rightarrow> string \<Rightarrow> nat option" where
  "last_index_of needle [] = (if needle = [] then Some 0 else None)"
| "last_index_of needle (c # s) =
     (case last_index_of needle s of
        Some i \<Rightarrow> Some (Suc i)
      | None \<Rightarrow> if startsWith (c # s) needle then Some 0 else None)"

definition is_ipv6_char :: "char \<Rightarrow> bool" where
  "is_ipv6_char c = (is_hex c \<or> c = CHR '':'' \<or> c = CHR ''.'')"

text \<open>A dotted tail is rewritten as its two groups.\<close>

definition dotted_tail :: "string \<Rightarrow> string option" where
  "dotted_tail text =
     (if CHR ''.'' \<notin> set text then Some text
      else case split_last (CHR '':'') text of
        None \<Rightarrow> None
      | Some (front, tail) \<Rightarrow>
          (case parseIpv4 tail of
             Some [a, b, c, d] \<Rightarrow>
               (let high = hex_number (unat (push_bit 8 (ucast a) OR ucast b :: 16 word));
                    low = hex_number (unat (push_bit 8 (ucast c) OR ucast d :: 16 word))
                in Some (front @ '':'' @ high @ '':'' @ low))
           | _ \<Rightarrow> None))"

text \<open>\<open>/^[0-9a-f]{1,4}$/i\<close>\<close>

definition hextet :: "string \<Rightarrow> 16 word option" where
  "hextet part =
     (if part \<noteq> [] \<and> length part \<le> 4 \<and> list_all is_hex part
      then Some (of_nat (digits_value 16 (map ascii_lower_char part))) else None)"

definition parseHextets :: "string \<Rightarrow> 16 word list option" where
  "parseHextets text = (if text = [] then Some [] else all_some (map hextet (split_on (CHR '':'') text)))"

definition word_octets :: "16 word \<Rightarrow> octet list" where
  "word_octets w = [ucast (drop_bit 8 w), ucast (w AND 0xff)]"

definition join_groups :: "bool \<Rightarrow> 16 word list \<Rightarrow> 16 word list \<Rightarrow> octet list option" where
  "join_groups compressed left right =
     (let missing = 8 - int (length left) - int (length right) in
      if compressed \<and> missing < 1 \<or> \<not> compressed \<and> missing \<noteq> 0 then None
      else let groups = left @ replicate (nat missing) 0 @ right in
           if length groups \<noteq> 8 then None else Some (concat (map word_octets groups)))"

definition parseIpv6 :: "string \<Rightarrow> octet list option" where
  "parseIpv6 input =
     (if input = [] \<or> \<not> list_all is_ipv6_char input then None
      else case dotted_tail input of
        None \<Rightarrow> None
      | Some text \<Rightarrow>
          if index_of ''::'' text \<noteq> last_index_of ''::'' text then None
          else (case split_at ''::'' text of
                  None \<Rightarrow>
                    (case parseHextets text of None \<Rightarrow> None | Some left \<Rightarrow> join_groups False left [])
                | Some (l, r) \<Rightarrow>
                    (case (parseHextets l, parseHextets r) of
                       (Some left, Some right) \<Rightarrow> join_groups True left right
                     | _ \<Rightarrow> None)))"

definition parseIp :: "string \<Rightarrow> ParsedIp option" where
  "parseIp text =
     (if text = [] \<or> CHR ''%'' \<in> set text then None
      else case parseIpv4 text of
        Some v4 \<Rightarrow> Some \<lparr>ip_family = V4, ip_bytes = v4\<rparr>
      | None \<Rightarrow>
          if CHR '':'' \<notin> set text then None
          else map_option (\<lambda>v6. \<lparr>ip_family = V6, ip_bytes = v6\<rparr>) (parseIpv6 text))"

subsection \<open>Membership of a range\<close>

text \<open>
  The loop over the whole octets, then the masked comparison of the next one; an index past the end
  of an array reads \<open>undefined\<close>, which only equals itself and counts as 0 in \<open>&\<close>.
\<close>

definition octet_at :: "octet list \<Rightarrow> nat \<Rightarrow> octet option" where
  "octet_at bs i = (if i < length bs then Some (bs ! i) else None)"

definition masked :: "octet option \<Rightarrow> octet \<Rightarrow> octet" where
  "masked b m = (case b of None \<Rightarrow> 0 | Some w \<Rightarrow> w AND m)"

definition contains :: "CidrRange \<Rightarrow> octet list \<Rightarrow> bool" where
  "contains r address =
     (let whole = cidr_prefix r div 8; remaining = cidr_prefix r mod 8 in
      list_all (\<lambda>i. octet_at (cidr_network r) i = octet_at address i) [0..<whole]
      \<and> (remaining = 0
         \<or> masked (octet_at (cidr_network r) whole) (push_bit (8 - remaining) 0xff)
           = masked (octet_at address whole) (push_bit (8 - remaining) 0xff)))"

text \<open>One entry of a table; the module would throw while loading on \<open>None\<close>. Its prefixes are decimal.\<close>

definition cidr :: "ip_family \<Rightarrow> string \<Rightarrow> CidrRange option" where
  "cidr family text =
     (case split_last (CHR ''/'') text of
        None \<Rightarrow> None
      | Some (net, len) \<Rightarrow>
          (case parseIp net of
             None \<Rightarrow> None
           | Some ip \<Rightarrow>
               if ip_family ip \<noteq> family \<or> len = [] \<or> \<not> list_all is_digit len
                  \<or> digits_value 10 len > (case family of V4 \<Rightarrow> 32 | V6 \<Rightarrow> 128) then None
               else Some \<lparr>cidr_network = ip_bytes ip, cidr_prefix = digits_value 10 len\<rparr>))"

definition cidrs :: "ip_family \<Rightarrow> string list \<Rightarrow> CidrRange list option" where
  "cidrs family values = all_some (map (cidr family) values)"

definition ipv4_table :: "string list" where
  "ipv4_table =
     [''0.0.0.0/8'', ''10.0.0.0/8'', ''100.64.0.0/10'', ''127.0.0.0/8'',
      ''169.254.0.0/16'', ''172.16.0.0/12'', ''192.0.0.0/24'', ''192.0.2.0/24'',
      ''192.31.196.0/24'', ''192.52.193.0/24'', ''192.88.99.0/24'', ''192.168.0.0/16'',
      ''192.175.48.0/24'', ''198.18.0.0/15'', ''198.51.100.0/24'', ''203.0.113.0/24'',
      ''224.0.0.0/4'', ''240.0.0.0/4'']"

definition ipv6_table :: "string list" where
  "ipv6_table =
     [''::/128'', ''::1/128'', ''::/96'', ''::ffff:0:0/96'', ''64:ff9b::/96'',
      ''64:ff9b:1::/48'', ''100::/64'', ''100:0:0:1::/64'', ''2001::/23'',
      ''2001:db8::/32'', ''2002::/16'', ''2620:4f:8000::/48'', ''3fff::/20'',
      ''5f00::/16'', ''fc00::/7'', ''fe80::/10'', ''fec0::/10'', ''ff00::/8'']"

definition IPV4_RANGES :: "CidrRange list" where "IPV4_RANGES = the (cidrs V4 ipv4_table)"

definition IPV6_RANGES :: "CidrRange list" where "IPV6_RANGES = the (cidrs V6 ipv6_table)"

definition isParsedIp :: "ParsedIp \<Rightarrow> bool" where
  "isParsedIp ip = (length (ip_bytes ip) = (case ip_family ip of V4 \<Rightarrow> 4 | V6 \<Rightarrow> 16))"

definition isIpv6Loopback :: "octet list \<Rightarrow> bool" where
  "isIpv6Loopback bs = (list_all (\<lambda>i. octet_at bs i = Some 0) [0..<15] \<and> octet_at bs 15 = Some 1)"

definition loopback_ip :: "ParsedIp \<Rightarrow> bool" where
  "loopback_ip ip =
     (case ip_family ip of V4 \<Rightarrow> octet_at (ip_bytes ip) 0 = Some 127 | V6 \<Rightarrow> isIpv6Loopback (ip_bytes ip))"

definition isBlockedIp :: "ParsedIp \<Rightarrow> bool \<Rightarrow> bool" where
  "isBlockedIp ip allowLoopback =
     (if \<not> isParsedIp ip then True
      else if allowLoopback \<and> loopback_ip ip then False
      else list_ex (\<lambda>r. contains r (ip_bytes ip))
             (case ip_family ip of V4 \<Rightarrow> IPV4_RANGES | V6 \<Rightarrow> IPV6_RANGES))"

definition isBlockedAddress :: "string \<Rightarrow> bool \<Rightarrow> bool" where
  "isBlockedAddress text allowLoopback =
     (case parseIp text of None \<Rightarrow> True | Some ip \<Rightarrow> isBlockedIp ip allowLoopback)"

end
