(* ===== verification/Cimd_Document.thy ===== *)
theory Cimd_Document
  imports Redirects
begin

section \<open>Client ID metadata documents\<close>

text \<open>
  \<open>src/cimd/document.ts\<close>, \<open>src/cimd/registration.ts\<close>, \<open>src/cimd/errors.ts\<close> and
  \<open>src/cimd/anti-oracle.ts\<close>: which fetched documents are accepted, the projection of one that is
  carried on, the matching of redirect URIs against it, and the one error every failure becomes.
  \<open>JSON.parse\<close> is a parameter: the plain value it returns, or \<open>None\<close> when it throws.
\<close>

type_synonym json_parser = "string \<Rightarrow> jsval option"

text \<open>A \<open>CimdError\<close>, whose message is its reason.\<close>

definition cimdError :: "string \<Rightarrow> failure" where "cimdError reason = Thrown ''CimdError'' reason"

record CimdDocument =
  cd_client_id :: string
  cd_client_name :: string
  cd_redirect_uris :: "string list"
  cd_application_type :: "ApplicationType option"
  cd_selectedClientAuthMethod :: "string option"
  cd_raw :: "(string \<times> jsval) list"

record CimdRegistration =
  cimd_client_id :: string
  cimd_client_name :: string
  cimd_redirect_uris :: "string list"
  cimd_application_type :: "ApplicationType option"

subsection \<open>The validation of a document\<close>

definition PRIVATE_JWK_MEMBERS :: "string list" where
  "PRIVATE_JWK_MEMBERS = [''d'', ''p'', ''q'', ''dp'', ''dq'', ''qi'', ''oth'', ''k'']"

definition invalid_document :: failure where "invalid_document = cimdError ''document_invalid''"

definition assertCimdRedirectUri :: "url_parser \<Rightarrow> jsval \<Rightarrow> unit outcome" where
  "assertCimdRedirectUri parseUrl raw =
     (case parseRedirectEntry parseUrl False raw of Inl _ \<Rightarrow> Inl invalid_document | Inr _ \<Rightarrow> Inr ())"

fun text_of :: "jsval \<Rightarrow> string option" where
  "text_of (Str s) = Some s"
| "text_of _ = None"

definition nonempty_text :: "jsval \<Rightarrow> bool" where
  "nonempty_text v = (case v of Str s \<Rightarrow> s \<noteq> [] | _ \<Rightarrow> False)"

definition is_text :: "jsval \<Rightarrow> bool" where
  "is_text v = (case v of Str _ \<Rightarrow> True | _ \<Rightarrow> False)"

text \<open>
  Only a public client: no method or \<open>none\<close>, or a document that prefers \<open>private_key_jwt\<close> but offers
  \<open>none\<close>, which is then selected.
\<close>

definition selectClientAuthMethod :: "(string \<times> jsval) list \<Rightarrow> string option outcome" where
  "selectClientAuthMethod doc =
     (let hasMethod = map_has ''token_endpoint_auth_method'' doc;
          hasChoices = map_has ''token_endpoint_auth_methods_supported'' doc;
          method = own doc ''token_endpoint_auth_method'';
          choices = own doc ''token_endpoint_auth_methods_supported''
      in chain (if \<not> hasChoices then Inr ()
                else case choices of
                  Arr cs \<Rightarrow>
                    if \<not> list_all nonempty_text cs \<or> Str ''none'' \<notin> set cs then Inl invalid_document
                    else if hasMethod \<and> (\<not> is_text method \<or> method \<notin> set cs) then Inl invalid_document
                    else Inr ()
                | _ \<Rightarrow> Inl invalid_document) (\<lambda>_.
         if \<not> hasMethod \<or> method = Str ''none'' then Inr None
         else if method = Str ''private_key_jwt'' \<and> hasChoices then Inr (Some ''none'')
         else Inl invalid_document))"

definition public_jwk :: "jsval \<Rightarrow> bool" where
  "public_jwk key = (case key of Obj kvs \<Rightarrow> \<not> list_ex (\<lambda>m. map_has m kvs) PRIVATE_JWK_MEMBERS | _ \<Rightarrow> False)"

definition assertPublicJwks :: "jsval \<Rightarrow> unit outcome" where
  "assertPublicJwks v =
     (case v of
        Obj kvs \<Rightarrow> (case own kvs ''keys'' of Arr keys \<Rightarrow> require (list_all public_jwk keys) invalid_document
                     | _ \<Rightarrow> Inl invalid_document)
      | _ \<Rightarrow> Inl invalid_document)"

definition assertResponseTypes :: "jsval \<Rightarrow> unit outcome" where
  "assertResponseTypes v =
     (case v of Arr xs \<Rightarrow> require (list_all is_text xs \<and> Str ''code'' \<in> set xs) invalid_document
      | _ \<Rightarrow> Inl invalid_document)"

definition assertGrantTypes :: "jsval \<Rightarrow> unit outcome" where
  "assertGrantTypes v =
     (case v of Arr xs \<Rightarrow> require (list_all nonempty_text xs \<and> Str ''authorization_code'' \<in> set xs) invalid_document
      | _ \<Rightarrow> Inl invalid_document)"

text \<open>\<open>application_type\<close>, when the member is there at all.\<close>

definition document_application_type :: "(string \<times> jsval) list \<Rightarrow> failure \<Rightarrow> ApplicationType option outcome" where
  "document_application_type doc e =
     (if \<not> map_has ''application_type'' doc then Inr None
      else if own doc ''application_type'' = Str ''native'' then Inr (Some Native_app)
      else if own doc ''application_type'' = Str ''web'' then Inr (Some Web_app)
      else Inl e)"

definition when_present :: "string \<Rightarrow> (jsval \<Rightarrow> unit outcome) \<Rightarrow> (string \<times> jsval) list \<Rightarrow> unit outcome" where
  "when_present k f doc = (if map_has k doc then f (own doc k) else Inr ())"

definition document_redirects :: "url_parser \<Rightarrow> jsval \<Rightarrow> string list outcome" where
  "document_redirects parseUrl v =
     (case v of
        Arr xs \<Rightarrow>
          if length xs < 1 \<or> length xs > 16 then Inl invalid_document
          else chain (collect (assertCimdRedirectUri parseUrl) xs) (\<lambda>_. Inr (map (the o text_of) xs))
      | _ \<Rightarrow> Inl invalid_document)"

definition validate_members :: "url_parser \<Rightarrow> (string \<times> jsval) list \<Rightarrow> string \<Rightarrow> CimdDocument outcome" where
  "validate_members parseUrl doc rawClientId =
     (if own doc ''client_id'' \<noteq> Str rawClientId then Inl invalid_document
      else case own doc ''client_name'' of
        Str name \<Rightarrow>
          if name = [] \<or> utf16_length name > 256 then Inl invalid_document
          else chain (document_redirects parseUrl (own doc ''redirect_uris'')) (\<lambda>uris.
               chain (document_application_type doc invalid_document) (\<lambda>t.
               chain (selectClientAuthMethod doc) (\<lambda>selected.
               if map_has ''client_secret'' doc \<or> map_has ''client_secret_expires_at'' doc then Inl invalid_document
               else chain (when_present ''jwks'' assertPublicJwks doc) (\<lambda>_.
                    chain (when_present ''response_types'' assertResponseTypes doc) (\<lambda>_.
                    chain (when_present ''grant_types'' assertGrantTypes doc) (\<lambda>_.
                    Inr \<lparr>cd_client_id = rawClientId, cd_client_name = name, cd_redirect_uris = uris,
                         cd_application_type = t, cd_selectedClientAuthMethod = selected, cd_raw = doc\<rparr>))))))
      | _ \<Rightarrow> Inl invalid_document)"

definition validateCimdDocument :: "url_parser \<Rightarrow> json_parser \<Rightarrow> string \<Rightarrow> string \<Rightarrow> CimdDocument outcome" where
  "validateCimdDocument parseUrl parseJson rawBody rawClientId =
     (case parseJson rawBody of
        Some (Obj doc) \<Rightarrow> validate_members parseUrl doc rawClientId
      | _ \<Rightarrow> Inl invalid_document)"

subsection \<open>The registration that is carried on\<close>

text \<open>\<open>/^[A-Za-z][A-Za-z0-9+.-]*:\/\//\<close>\<close>

definition isSchemeShaped :: "string \<Rightarrow> bool" where
  "isSchemeShaped clientId =
     (takeWhile is_scheme_char clientId \<noteq> [] \<and> is_alpha (hd clientId)
      \<and> startsWith (dropWhile is_scheme_char clientId) ''://'')"

definition isCimdClientId :: "string \<Rightarrow> bool" where
  "isCimdClientId clientId = startsWith clientId ''https://''"

definition projectCimdRegistration :: "url_parser \<Rightarrow> CimdDocument \<Rightarrow> CimdRegistration outcome" where
  "projectCimdRegistration parseUrl d =
     chain (collect (assertCimdRedirectUri parseUrl) (map Str (cd_redirect_uris d))) (\<lambda>_.
     Inr \<lparr>cimd_client_id = cd_client_id d, cimd_client_name = cd_client_name d,
          cimd_redirect_uris = cd_redirect_uris d, cimd_application_type = cd_application_type d\<rparr>)"

definition claim_error :: "string \<Rightarrow> failure" where "claim_error m = Thrown ''Error'' m"

definition MAX_REDIRECT_URIS :: nat where "MAX_REDIRECT_URIS = 16"

definition MAX_CLIENT_NAME :: nat where "MAX_CLIENT_NAME = 256"

definition claim_redirect :: "jsval \<Rightarrow> string outcome" where
  "claim_redirect v =
     (if nonempty_text v then Inr (the (text_of v)) else Inl (claim_error ''cimd claim redirect_uris entry is invalid''))"

definition parse_claim_members :: "(string \<times> jsval) list \<Rightarrow> string option \<Rightarrow> CimdRegistration outcome" where
  "parse_claim_members raw expected =
     (case own raw ''client_id'' of
        Str cid \<Rightarrow>
          if Some cid \<noteq> expected then Inl (claim_error ''cimd claim client_id does not match the flow params'')
          else (case own raw ''client_name'' of
            Str name \<Rightarrow>
              if name = [] \<or> utf16_length name > MAX_CLIENT_NAME then Inl (claim_error ''cimd claim client_name is invalid'')
              else (case own raw ''redirect_uris'' of
                Arr us \<Rightarrow>
                  if length us < 1 \<or> length us > MAX_REDIRECT_URIS
                  then Inl (claim_error ''cimd claim redirect_uris is invalid'')
                  else chain (document_application_type raw (claim_error ''cimd claim application_type is invalid'')) (\<lambda>t.
                       chain (collect claim_redirect us) (\<lambda>uris.
                       Inr \<lparr>cimd_client_id = cid, cimd_client_name = name, cimd_redirect_uris = uris,
                            cimd_application_type = t\<rparr>))
              | RevokedProxy \<Rightarrow> Inl proxy_type_error
              | _ \<Rightarrow> Inl (claim_error ''cimd claim redirect_uris is invalid''))
          | _ \<Rightarrow> Inl (claim_error ''cimd claim client_name is invalid''))
      | _ \<Rightarrow> Inl (claim_error ''cimd claim client_id does not match the flow params''))"

text \<open>The expected identifier is the flow's, absent when the flow's parameters hold no string there.\<close>

definition parseCimdRegistrationClaim :: "jsval \<Rightarrow> string option \<Rightarrow> CimdRegistration outcome" where
  "parseCimdRegistrationClaim v expected =
     (case v of
        Obj raw \<Rightarrow> parse_claim_members raw expected
      | RevokedProxy \<Rightarrow> Inl proxy_type_error
      | _ \<Rightarrow> Inl (claim_error ''cimd claim must be an object''))"

definition cimd_entry_matches :: "ApplicationType option \<Rightarrow> redirect_entry \<Rightarrow> redirect_entry \<Rightarrow> bool" where
  "cimd_entry_matches t candidate entry =
     (re_raw entry = re_raw candidate
      \<or> t \<noteq> Some Web_app \<and> url_protocol (re_url entry) = ''http:'' \<and> isLoopbackRedirect entry
        \<and> url_protocol (re_url candidate) = url_protocol (re_url entry)
        \<and> url_hostname (re_url candidate) = url_hostname (re_url entry)
        \<and> url_pathname (re_url candidate) = url_pathname (re_url entry)
        \<and> url_search (re_url candidate) = url_search (re_url entry))"

text \<open>Any entry that does not parse makes the whole comparison fail.\<close>

definition cimdRedirectMatches :: "url_parser \<Rightarrow> string \<Rightarrow> CimdRegistration \<Rightarrow> bool" where
  "cimdRedirectMatches parseUrl presented r =
     (case parseRedirectEntry parseUrl False (Str presented) of
        Inl _ \<Rightarrow> False
      | Inr candidate \<Rightarrow>
          (case collect (parseRedirectEntry parseUrl False) (map Str (cimd_redirect_uris r)) of
             Inl _ \<Rightarrow> False
           | Inr entries \<Rightarrow> list_ex (cimd_entry_matches (cimd_application_type r) candidate) entries))"

definition everyRedirectIsLoopback :: "url_parser \<Rightarrow> string list \<Rightarrow> bool" where
  "everyRedirectIsLoopback parseUrl uris =
     (uris \<noteq> [] \<and> list_all (\<lambda>u. case parseUrl u of
          None \<Rightarrow> False | Some p \<Rightarrow> url_protocol p = ''http:'' \<and> url_hostname p \<in> set LOOPBACK_HOSTS) uris)"

definition displayHost :: "url_parser \<Rightarrow> string \<Rightarrow> string" where
  "displayHost parseUrl v = (case parseUrl v of None \<Rightarrow> v | Some u \<Rightarrow> url_host u)"

subsection \<open>The one error a client sees\<close>

definition AUDIT_REASONS :: "string list" where
  "AUDIT_REASONS =
     [''url_admission_denied'', ''dns_failed'', ''ip_blocked'', ''redirect_refused'', ''status_not_200'', ''content_type'',
      ''encoding'', ''size_exceeded'', ''timeout'', ''fetch_failed'', ''document_invalid'', ''overloaded'']"

definition cimdGenericError :: failure where
  "cimdGenericError = oauthError ''invalid_client'' ''client_id could not be resolved'' 401"

text \<open>Every branch of the switch, its default and anything that is no \<open>CimdError\<close> give the same error.\<close>

definition mapCimdError :: "failure \<Rightarrow> failure" where
  "mapCimdError e =
     (case e of
        Thrown name reason \<Rightarrow>
          if name = ''CimdError'' then (if reason \<in> set AUDIT_REASONS then cimdGenericError else cimdGenericError)
          else cimdGenericError
      | _ \<Rightarrow> cimdGenericError)"

definition auditReason :: "failure \<Rightarrow> string" where
  "auditReason e =
     (case e of
        Thrown name reason \<Rightarrow> if name = ''CimdError'' \<and> reason \<in> set AUDIT_REASONS then reason else ''fetch_failed''
      | _ \<Rightarrow> ''fetch_failed'')"

end
