(* ===== verification/Cimd_Admission.thy ===== *)
theory Cimd_Admission
  imports Cimd_Blocklist Cimd_Document
begin

section \<open>Admission of a client identifier that is a URL\<close>

text \<open>
  \<open>src/cimd/admission.ts\<close>: which presented identifiers may be fetched at all, decided on the raw text
  and on the components the WHATWG parser gives. That parser is the parameter \<open>parseFull\<close>, whose record
  adds to \<open>url\<close> the components only this file reads; hosts and ports of a parsed URL are ASCII and a
  port is empty or decimal, as the URL standard serialises them.
\<close>

record full_url = url +
  url_username :: string
  url_password :: string
  url_port :: string
  url_hash :: string

type_synonym full_url_parser = "string \<Rightarrow> full_url option"

text \<open>The same parser, for the code that reads only the shared components.\<close>

definition shared_parser :: "full_url_parser \<Rightarrow> url_parser" where
  "shared_parser parseFull s = map_option url.truncate (parseFull s)"

record AdmittedUrl =
  au_raw :: string
  au_hostname :: string
  au_port :: nat

definition DENIED_PORTS :: "nat list" where
  "DENIED_PORTS =
     [22, 25, 465, 587, 993, 995, 1433, 1521, 3306, 3389, 5432, 6379, 9200, 11211, 27017]"

definition denied :: failure where "denied = cimdError ''url_admission_denied''"

definition to_lower :: "string \<Rightarrow> string" where "to_lower = map ascii_lower_char"

text \<open>\<open>/%0[ad]/i\<close>\<close>

fun percent_newline :: "string \<Rightarrow> bool" where
  "percent_newline (c # h # l # s) =
     (c = CHR ''%'' \<and> h = CHR ''0'' \<and> ascii_lower_char l \<in> {CHR ''a'', CHR ''d''} \<or> percent_newline (h # l # s))"
| "percent_newline _ = False"

definition outer_blank :: "string \<Rightarrow> bool" where
  "outer_blank raw = (raw \<noteq> [] \<and> (ws1 (byte (hd raw)) \<or> ws1 (byte (last raw))))"

definition assertNoDotSegments :: "string \<Rightarrow> unit outcome" where
  "assertNoDotSegments rawPath =
     chain (collect (\<lambda>segment. case decodeURIComponent segment of
              None \<Rightarrow> Inl denied
            | Some d \<Rightarrow> require (d \<noteq> ''.'' \<and> d \<noteq> ''..'') denied) (split_on (CHR ''/'') rawPath)) (\<lambda>_. Inr ())"

definition extractRawHost :: "string \<Rightarrow> string option" where
  "extractRawHost authority =
     (if authority = [] then None
      else if startsWith authority ''[''
      then (if CHR '']'' \<in> set authority then Some (takeWhile (\<lambda>c. c \<noteq> CHR '']'') authority @ '']'') else None)
      else (case split_last (CHR '':'') authority of None \<Rightarrow> Some authority | Some (host, _) \<Rightarrow> Some host))"

text \<open>\<open>/(^|\.)xn--/i\<close>: some label of the host is an A-label.\<close>

definition has_a_label :: "string \<Rightarrow> bool" where
  "has_a_label host = list_ex (\<lambda>label. startsWith (to_lower label) ''xn--'') (split_on (CHR ''.'') host)"

definition localhost_name :: "string \<Rightarrow> bool" where
  "localhost_name host = (host = ''localhost'' \<or> endsWith host ''.localhost'')"

definition port_of :: "full_url \<Rightarrow> nat option" where
  "port_of u = (if url_port u = [] then Some 443
                else if list_all is_digit (url_port u) then Some (digits_value 10 (url_port u)) else None)"

definition raw_spelling_ok :: "string \<Rightarrow> bool" where
  "raw_spelling_ok raw =
     (raw \<noteq> [] \<and> length raw \<le> 2048 \<and> startsWith raw ''https://''
      \<and> CHR 0x5C \<notin> set raw \<and> CHR ''?'' \<notin> set raw \<and> CHR ''#'' \<notin> set raw
      \<and> \<not> outer_blank raw \<and> \<not> list_ex is_control raw \<and> \<not> percent_newline raw)"

text \<open>The checks on the parsed URL, against the authority as it was written.\<close>

definition admit_parsed :: "string \<Rightarrow> string \<Rightarrow> bool \<Rightarrow> full_url \<Rightarrow> AdmittedUrl outcome" where
  "admit_parsed raw authority allowLoopback u =
     (let host = url_hostname u in
      chain (require (url_protocol u = ''https:'' \<and> utf16_length (url_pathname u) > 1
                      \<and> url_search u = [] \<and> url_hash u = []) denied) (\<lambda>_.
      chain (require (url_username u = [] \<and> url_password u = [] \<and> host \<noteq> []) denied) (\<lambda>_.
      case extractRawHost authority of
        None \<Rightarrow> Inl denied
      | Some rawHost \<Rightarrow>
          chain (require (rawHost \<noteq> [] \<and> list_all is_ascii rawHost) denied) (\<lambda>_.
          chain (require (to_lower rawHost = to_lower host) denied) (\<lambda>_.
          chain (require (\<not> has_a_label host) denied) (\<lambda>_.
          chain (require (\<not> startsWith host ''['' \<and> parseIp host = None) denied) (\<lambda>_.
          chain (require (\<not> endsWith host ''.'') denied) (\<lambda>_.
          chain (require (localhost_name host \<longrightarrow> allowLoopback) denied) (\<lambda>_.
          case port_of u of
            None \<Rightarrow> Inl denied
          | Some port \<Rightarrow>
              if port < 1 \<or> port > 65535 \<or> port \<in> set DENIED_PORTS then Inl denied
              else Inr \<lparr>au_raw = raw, au_hostname = host, au_port = port\<rparr>))))))))) "

definition admit :: "full_url_parser \<Rightarrow> string \<Rightarrow> bool \<Rightarrow> AdmittedUrl outcome" where
  "admit parseFull raw allowLoopback =
     (if \<not> raw_spelling_ok raw then Inl denied
      else let rest = drop 8 raw; authority = takeWhile (\<lambda>c. c \<noteq> CHR ''/'') rest; path = dropWhile (\<lambda>c. c \<noteq> CHR ''/'') rest
        in if path = [] then Inl denied
           else if CHR ''@'' \<in> set authority then Inl denied
           else chain (assertNoDotSegments path) (\<lambda>_.
             case parseFull raw of
               None \<Rightarrow> Inl denied
             | Some u \<Rightarrow> admit_parsed raw authority allowLoopback u))"

text \<open>Nothing but its own error leaves the function: everything thrown inside already is that error.\<close>

definition admitCimdUrl :: "full_url_parser \<Rightarrow> string \<Rightarrow> bool \<Rightarrow> AdmittedUrl outcome" where
  "admitCimdUrl parseFull rawClientId allowLoopback =
     rethrow (\<lambda>e. case e of Thrown name _ \<Rightarrow> if name = ''CimdError'' then e else denied | _ \<Rightarrow> denied)
       (admit parseFull rawClientId allowLoopback)"

subsection \<open>What an admitted identifier is\<close>

lemma admit_parsed_Inr:
  "admit_parsed raw authority allow u = Inr a \<longleftrightarrow>
     url_protocol u = ''https:'' \<and> utf16_length (url_pathname u) > 1 \<and> url_search u = [] \<and> url_hash u = []
     \<and> url_username u = [] \<and> url_password u = [] \<and> url_hostname u \<noteq> []
     \<and> (\<exists>h. extractRawHost authority = Some h \<and> h \<noteq> [] \<and> list_all is_ascii h \<and> to_lower h = to_lower (url_hostname u))
     \<and> \<not> has_a_label (url_hostname u) \<and> \<not> startsWith (url_hostname u) ''['' \<and> parseIp (url_hostname u) = None
     \<and> \<not> endsWith (url_hostname u) ''.'' \<and> (localhost_name (url_hostname u) \<longrightarrow> allow)
     \<and> (\<exists>p. port_of u = Some p \<and> 1 \<le> p \<and> p \<le> 65535 \<and> p \<notin> set DENIED_PORTS
            \<and> a = \<lparr>au_raw = raw, au_hostname = url_hostname u, au_port = p\<rparr>)"
  by (auto simp: admit_parsed_def Let_def result_simps split: option.splits if_splits)

lemma collect_Inl: "collect f xs = Inl e \<Longrightarrow> \<exists>x \<in> set xs. f x = Inl e"
  by (induction xs) (auto simp: result_simps)

lemma admit_failure: "admit parseFull raw allow = Inl e \<Longrightarrow> e = denied"
  by (auto simp: admit_def admit_parsed_def assertNoDotSegments_def Let_def result_simps
      split: option.splits if_splits dest!: collect_Inl)

end
