(* ===== verification/Cimd_Cache.thy ===== *)
theory Cimd_Cache
  imports Cimd_Admission Clock
begin

section \<open>How long a fetched document may be kept\<close>

text \<open>
  \<open>src/cimd/cache.ts\<close>: the freshness of a response computed from its headers, and the bounded cache of
  validated documents with its order of use. Header values are texts of the response; a clock reading that is unusable is
  \<open>None\<close> (\<open>cacheClockObservation\<close>, NaN in the source).
\<close>

definition MIN_CACHEABLE_MAX_AGE :: int where "MIN_CACHEABLE_MAX_AGE = 60"

definition DEFAULT_MAX_ENTRIES :: nat where "DEFAULT_MAX_ENTRIES = 256"

definition MONTHS :: "string list" where
  "MONTHS = [''jan'', ''feb'', ''mar'', ''apr'', ''may'', ''jun'', ''jul'', ''aug'', ''sep'', ''oct'', ''nov'', ''dec'']"

text \<open>
  \<open>toLowerCase\<close>, for texts that are then compared with ASCII: besides A to Z only U+212A becomes an
  ASCII letter; what stays outside ASCII is left as it is.
\<close>

fun lower_case :: "string \<Rightarrow> string" where
  "lower_case (a # b # c # s) =
     (if byte a = 0xE2 \<and> byte b = 0x84 \<and> byte c = 0xAA then CHR ''k'' # lower_case s
      else ascii_lower_char a # lower_case (b # c # s))"
| "lower_case s = map ascii_lower_char s"

subsection \<open>Directives\<close>

text \<open>The loop over the characters: whether it is inside quotes, and the piece read so far, reversed.\<close>

fun split_loop :: "bool \<Rightarrow> string \<Rightarrow> string \<Rightarrow> string list" where
  "split_loop quoted piece [] = [rev piece]"
| "split_loop quoted piece (c # s) =
     (if quoted \<and> c = CHR 0x5C
      then (case s of [] \<Rightarrow> [rev (c # piece)] | d # t \<Rightarrow> split_loop quoted (d # c # piece) t)
      else if c = CHR 0x22 then split_loop (\<not> quoted) (c # piece) s
      else if c = CHR '','' \<and> \<not> quoted then rev piece # split_loop quoted [] s
      else split_loop quoted (c # piece) s)"

definition splitDirectives :: "string \<Rightarrow> string list" where
  "splitDirectives header = split_loop False [] header"

definition token_char :: "char \<Rightarrow> bool" where
  "token_char c = (is_digit c \<or> 97 \<le> byte c \<and> byte c \<le> 122
     \<or> c \<in> set ''!#$%&*+.^_`|~-'' \<or> byte c = 0x27)"

definition directive_name_ok :: "string \<Rightarrow> bool" where
  "directive_name_ok s = (s \<noteq> [] \<and> list_all token_char s)"

text \<open>A header character U+0080 to U+00FF is two bytes here, the first C2 or C3.\<close>

fun quoted_rest :: "string \<Rightarrow> bool" where
  "quoted_rest [] = False"
| "quoted_rest (c # t) =
     (if byte c = 0x22 then t = []
      else if byte c = 0x5C then
        (case t of
           [] \<Rightarrow> False
         | d # u \<Rightarrow> if byte d = 9 \<or> 0x20 \<le> byte d \<and> byte d \<le> 0x7E then quoted_rest u
                    else (case u of e # v \<Rightarrow> byte d \<in> {0xC2, 0xC3} \<and> quoted_rest v | [] \<Rightarrow> False))
      else if byte c = 9 \<or> 0x20 \<le> byte c \<and> byte c \<le> 0x7E then quoted_rest t
      else (case t of e # u \<Rightarrow> byte c \<in> {0xC2, 0xC3} \<and> quoted_rest u | [] \<Rightarrow> False))"

definition quoted_string :: "string \<Rightarrow> bool" where
  "quoted_string s = (case s of [] \<Rightarrow> False | c # t \<Rightarrow> byte c = 0x22 \<and> quoted_rest t)"

definition isWellFormedDirectiveValue :: "string \<Rightarrow> bool" where
  "isWellFormedDirectiveValue v = (directive_name_ok (lower_case v) \<or> quoted_string v)"

text \<open>\<open>/^[0-9]+$/\<close> and \<open>Number.isSafeInteger\<close>\<close>

definition unsigned_decimal :: "string \<Rightarrow> int option" where
  "unsigned_decimal s =
     (if s \<noteq> [] \<and> list_all is_digit s \<and> safe_int (int (digits_value 10 s))
      then Some (int (digits_value 10 s)) else None)"

text \<open>
  What one directive does to the two ages found so far: \<open>None\<close> when it makes the header unusable. An
  age found twice does.
\<close>

definition directive_step :: "int option \<times> int option \<Rightarrow> string \<Rightarrow> (int option \<times> int option) option" where
  "directive_step ages raw =
     (let directive = trim raw; parts = split_first (CHR ''='') directive;
          name = lower_case (trim (case parts of None \<Rightarrow> directive | Some (n, _) \<Rightarrow> n))
      in if directive = [] then Some ages
         else if \<not> directive_name_ok name then None
         else if (case parts of None \<Rightarrow> False | Some (_, v) \<Rightarrow> \<not> isWellFormedDirectiveValue v) then None
         else if name \<in> {''no-store'', ''no-cache'', ''private''} then None
         else if name \<noteq> ''max-age'' \<and> name \<noteq> ''s-maxage'' then Some ages
         else (case parts of
                 None \<Rightarrow> None
               | Some (_, v) \<Rightarrow>
                   (case unsigned_decimal v of
                      None \<Rightarrow> None
                    | Some n \<Rightarrow>
                        if name = ''max-age''
                        then (if fst ages \<noteq> None then None else Some (Some n, snd ages))
                        else if snd ages \<noteq> None then None else Some (fst ages, Some n))))"

fun directives :: "int option \<times> int option \<Rightarrow> string list \<Rightarrow> (int option \<times> int option) option" where
  "directives ages [] = Some ages"
| "directives ages (d # ds) = (case directive_step ages d of None \<Rightarrow> None | Some a \<Rightarrow> directives a ds)"

definition parseMaxAge :: "string list option \<Rightarrow> int option" where
  "parseMaxAge values =
     (case values of
        Some [header] \<Rightarrow>
          (case directives (None, None) (splitDirectives header) of
             None \<Rightarrow> None
           | Some (maxAge, sMaxage) \<Rightarrow>
               (case (if sMaxage = None then maxAge else sMaxage) of
                  None \<Rightarrow> None
                | Some lifetime \<Rightarrow> if lifetime \<ge> MIN_CACHEABLE_MAX_AGE then Some lifetime else None))
      | _ \<Rightarrow> None)"

subsection \<open>The age and the date of a response\<close>

definition parseAge :: "string list option \<Rightarrow> int option" where
  "parseAge values =
     (case values of None \<Rightarrow> Some 0 | Some [v] \<Rightarrow> unsigned_decimal v | _ \<Rightarrow> None)"

definition hasVaryStar :: "string list option \<Rightarrow> bool" where
  "hasVaryStar values =
     (case values of None \<Rightarrow> False
      | Some vs \<Rightarrow> list_ex (\<lambda>v. list_ex (\<lambda>part. trim part = ''*'') (split_on (CHR '','') v)) vs)"

definition make_ms :: "int \<Rightarrow> int \<Rightarrow> int \<Rightarrow> int \<Rightarrow> int" where
  "make_ms y m d ms_of_day = (DayFromYear y + MonthStart (InLeapYear y) m + d) * msPerDay + ms_of_day"

definition month_index :: "string \<Rightarrow> int option" where
  "month_index name = map_option (int \<circ> fst) (find (\<lambda>(i, m). m = to_lower name) (enumerate 0 MONTHS))"

text \<open>A calendar date and time as milliseconds; a date that does not exist is refused.\<close>

definition dateMs :: "int \<Rightarrow> string \<Rightarrow> int \<Rightarrow> int \<Rightarrow> int \<Rightarrow> int \<Rightarrow> int option" where
  "dateMs y monthName d h mi s =
     (case month_index monthName of
        None \<Rightarrow> None
      | Some m \<Rightarrow>
          if d < 1 \<or> h > 23 \<or> mi > 59 \<or> s > 60 \<or> s < 0 then None
          else if s = 60 \<and> (h \<noteq> 23 \<or> mi \<noteq> 59) then None
          else let t = make_ms y m (d - 1) (h * 3600000 + mi * 60000 + min s 59 * 1000); c = civil_of_ms t
            in if year c \<noteq> y \<or> month c \<noteq> m \<or> day c \<noteq> d - 1 \<or> hour c \<noteq> h \<or> minute c \<noteq> mi then None
               else Some (t + (if s = 60 then 1000 else 0)))"

text \<open>
  The three date forms. A reader consumes its part of the text and gives what it read and the rest;
  letters are compared without case, and the text must end where the form does.
\<close>

definition literal :: "string \<Rightarrow> string \<Rightarrow> string option" where
  "literal p s = (if to_lower (take (length p) s) = to_lower p then Some (drop (length p) s) else None)"

fun one_of :: "string list \<Rightarrow> string \<Rightarrow> (string \<times> string) option" where
  "one_of [] s = None"
| "one_of (n # ns) s = (case literal n s of Some r \<Rightarrow> Some (n, r) | None \<Rightarrow> one_of ns s)"

definition digits :: "nat \<Rightarrow> string \<Rightarrow> (int \<times> string) option" where
  "digits n s =
     (if length s \<ge> n \<and> list_all is_digit (take n s) then Some (int (digits_value 10 (take n s)), drop n s) else None)"

definition short_days :: "string list" where
  "short_days = [''Mon'', ''Tue'', ''Wed'', ''Thu'', ''Fri'', ''Sat'', ''Sun'']"

definition long_days :: "string list" where
  "long_days = [''Monday'', ''Tuesday'', ''Wednesday'', ''Thursday'', ''Friday'', ''Saturday'', ''Sunday'']"

definition time_of_day :: "string \<Rightarrow> ((int \<times> int \<times> int) \<times> string) option" where
  "time_of_day s =
     Option.bind (digits 2 s) (\<lambda>(h, s). Option.bind (literal '':'' s) (\<lambda>s.
     Option.bind (digits 2 s) (\<lambda>(mi, s). Option.bind (literal '':'' s) (\<lambda>s.
     Option.bind (digits 2 s) (\<lambda>(sec, s). Some ((h, mi, sec), s))))))"

text \<open>Day of the month, month and year, each form in its own order.\<close>

definition day_month_year :: "string \<Rightarrow> nat \<Rightarrow> string \<Rightarrow> ((int \<times> string \<times> int) \<times> string) option" where
  "day_month_year sep year_digits s =
     Option.bind (digits 2 s) (\<lambda>(d, s). Option.bind (literal sep s) (\<lambda>s.
     Option.bind (one_of MONTHS s) (\<lambda>(m, s). Option.bind (literal sep s) (\<lambda>s.
     Option.bind (digits year_digits s) (\<lambda>(y, s). Some ((d, m, y), s))))))"

definition dated :: "string list \<Rightarrow> string \<Rightarrow> nat \<Rightarrow> string \<Rightarrow> ((int \<times> string \<times> int) \<times> int \<times> int \<times> int) option" where
  "dated days sep year_digits s =
     Option.bind (one_of days s) (\<lambda>(_, s). Option.bind (literal '', '' s) (\<lambda>s.
     Option.bind (day_month_year sep year_digits s) (\<lambda>(dmy, s). Option.bind (literal '' '' s) (\<lambda>s.
     Option.bind (time_of_day s) (\<lambda>(t, s). Option.bind (literal '' GMT'' s) (\<lambda>s.
     if s = [] then Some (dmy, t) else None))))))"

definition asctime_day :: "string \<Rightarrow> (int \<times> string) option" where
  "asctime_day s = (case digits 2 s of Some r \<Rightarrow> Some r | None \<Rightarrow> Option.bind (literal '' '' s) (digits 1))"

definition asctime :: "string \<Rightarrow> ((int \<times> string \<times> int) \<times> int \<times> int \<times> int) option" where
  "asctime s =
     Option.bind (one_of short_days s) (\<lambda>(_, s). Option.bind (literal '' '' s) (\<lambda>s.
     Option.bind (one_of MONTHS s) (\<lambda>(m, s). Option.bind (literal '' '' s) (\<lambda>s.
     Option.bind (asctime_day s) (\<lambda>(d, s). Option.bind (literal '' '' s) (\<lambda>s.
     Option.bind (time_of_day s) (\<lambda>(t, s). Option.bind (literal '' '' s) (\<lambda>s.
     Option.bind (digits 4 s) (\<lambda>(y, s). if s = [] then Some ((d, m, y), t) else None)))))))))"

definition MAX_TIME :: int where "MAX_TIME = 8640000000000000"

text \<open>A year of two digits is in the century of the clock, unless that is more than fifty years ahead.\<close>

definition rfc850_ms :: "int \<Rightarrow> (int \<times> string \<times> int) \<Rightarrow> int \<times> int \<times> int \<Rightarrow> int option" where
  "rfc850_ms nowMs dmy t =
     (case (dmy, t) of ((d, m, yy), (h, mi, s)) \<Rightarrow>
        if \<bar>nowMs\<bar> > MAX_TIME then None
        else let c = civil_of_ms nowMs; y = year c div 100 * 100 + yy; parsed = dateMs y m d h mi s;
                 cutoff = make_ms (year c + 50) (month c) (day c) (nowMs mod msPerDay)
          in case parsed of
               Some p \<Rightarrow> if \<bar>cutoff\<bar> \<le> MAX_TIME \<and> p > cutoff then dateMs (y - 100) m d h mi s else Some p
             | None \<Rightarrow> None)"

text \<open>\<open>None\<close> for an unusable date (\<open>null\<close>), \<open>Some None\<close> for an absent one (\<open>undefined\<close>).\<close>

definition parseDate :: "string list option \<Rightarrow> int \<Rightarrow> int option option" where
  "parseDate values nowMs =
     (case values of
        None \<Rightarrow> Some None
      | Some [v] \<Rightarrow>
          map_option Some
            (case dated short_days '' '' 4 v of
               Some ((d, m, y), (h, mi, s)) \<Rightarrow> dateMs y m d h mi s
             | None \<Rightarrow>
                 (case dated long_days ''-'' 2 v of
                    Some (dmy, t) \<Rightarrow> rfc850_ms nowMs dmy t
                  | None \<Rightarrow>
                      (case asctime v of
                         Some ((d, m, y), (h, mi, s)) \<Rightarrow> dateMs y m d h mi s
                       | None \<Rightarrow> None)))
      | Some _ \<Rightarrow> None)"

subsection \<open>The expiry of a response\<close>

record CimdCacheView =
  cv_valid :: bool
  cv_cacheControl :: "string list option"
  cv_age :: "string list option"
  cv_date :: "string list option"
  cv_vary :: "string list option"

text \<open>
  The numbers of the source are doubles: an age whose thousandfold is beyond the exact integers only
  makes the remaining time negative, as it is here.
\<close>

definition computeCacheExpiryMs ::
    "CimdCacheView option \<Rightarrow> int \<Rightarrow> int option \<Rightarrow> int option \<Rightarrow> int option" where
  "computeCacheExpiryMs view capSeconds t0 t1 =
     (case view of
        None \<Rightarrow> None
      | Some v \<Rightarrow>
          if \<not> cv_valid v then None
          else (case parseMaxAge (cv_cacheControl v) of
            None \<Rightarrow> None
          | Some maxAge \<Rightarrow>
              if hasVaryStar (cv_vary v) then None
              else (case (parseAge (cv_age v), t0, t1) of
                (Some age, Some t0Ms, Some t1Ms) \<Rightarrow>
                  let responseDelay = t1Ms - t0Ms in
                  if responseDelay < 0 then None
                  else (case parseDate (cv_date v) t1Ms of
                    None \<Rightarrow> None
                  | Some date \<Rightarrow>
                      let apparentAge = (case date of None \<Rightarrow> 0 | Some d \<Rightarrow> max 0 (t1Ms - d));
                          correctedInitialAge = max apparentAge (age * 1000 + responseDelay);
                          ttlMs = min maxAge capSeconds * 1000 - correctedInitialAge
                      in if ttlMs \<le> 0 then None else Some (t1Ms + ttlMs))
              | _ \<Rightarrow> None)))"

subsection \<open>The cache of validated documents\<close>

text \<open>Entries in the order of their last use, oldest first, with their expiry.\<close>

record 'a success_cache =
  sc_entries :: "('a \<times> int) jsmap"
  sc_maxEntries :: nat
  sc_lastObserved :: "int option"

definition new_cache :: "nat \<Rightarrow> 'a success_cache" where
  "new_cache maxEntries = \<lparr>sc_entries = [], sc_maxEntries = maxEntries, sc_lastObserved = None\<rparr>"

text \<open>An unusable reading or one before the last clears the cache, and is refused.\<close>

definition cache_observe :: "int option \<Rightarrow> 'a success_cache \<Rightarrow> bool \<times> 'a success_cache" where
  "cache_observe now c =
     (let c' = c\<lparr>sc_lastObserved := now\<rparr> in
      if now = None \<or> (case sc_lastObserved c of None \<Rightarrow> False | Some prior \<Rightarrow> the now < prior)
      then (False, c'\<lparr>sc_entries := []\<rparr>) else (True, c'))"

definition cache_get :: "string \<Rightarrow> int option \<Rightarrow> 'a success_cache \<Rightarrow> 'a option \<times> 'a success_cache" where
  "cache_get key now c =
     (case cache_observe now c of
        (False, c') \<Rightarrow> (None, c')
      | (True, c') \<Rightarrow>
          (case map_of (sc_entries c') key of
             None \<Rightarrow> (None, c')
           | Some (registration, expires) \<Rightarrow>
               let without = map_del key (sc_entries c') in
               if \<not> the now < expires then (None, c'\<lparr>sc_entries := without\<rparr>)
               else (Some registration,
                     c'\<lparr>sc_entries := map_set key (registration, expires) without\<rparr>)))"

text \<open>\<open>while (size >= max)\<close>: the oldest entries go until there is room, or none is left.\<close>

fun evict :: "nat \<Rightarrow> 'v jsmap \<Rightarrow> 'v jsmap" where
  "evict mx [] = []"
| "evict mx (e # m) = (if length (e # m) \<ge> mx then evict mx m else e # m)"

definition cache_set :: "string \<Rightarrow> 'a \<Rightarrow> int \<Rightarrow> int option \<Rightarrow> 'a success_cache \<Rightarrow> 'a success_cache" where
  "cache_set key registration expires now c =
     (case cache_observe now c of
        (False, c') \<Rightarrow> c'
      | (True, c') \<Rightarrow>
          c'\<lparr>sc_entries := map_set key (registration, expires)
                           (evict (sc_maxEntries c') (map_del key (sc_entries c')))\<rparr>)"

end
