(* ===== verification/Cimd_Fetch.thy ===== *)
theory Cimd_Fetch
  imports Cimd_Cache
begin

section \<open>The guarded fetch of a document\<close>

text \<open>
  \<open>src/cimd/guarded-fetcher.ts\<close>: admission, one DNS answer of which every address is checked, one
  connection to the address that was checked, and the checks of the response. The resolver and the
  transport are caller-supplied: their replies are the fields of a \<open>fetch_world\<close>, untyped as they
  arrive; a call of the transport is recorded, so that what is connected to is part of the result.
\<close>

text \<open>The body: its chunks in order, then its end or the failure the stream throws.\<close>

datatype chunk = Bytes string | Not_bytes

datatype body_stream = Not_a_stream | Stream "chunk list" "failure option"

record transport_response =
  tr_status :: jsval
  tr_redirected :: jsval
  tr_finalUrl :: jsval
  tr_headers :: jsval
  tr_body :: body_stream

record connect_request =
  cr_connectIp :: string
  cr_family :: ip_family
  cr_port :: nat
  cr_servername :: string
  cr_hostHeader :: string
  cr_requestTarget :: string

text \<open>
  \<open>fw_expired\<close>: the deadline passes before the pipeline settles, whatever the pipeline then does.
\<close>

record fetch_world =
  fw_resolve :: "string \<Rightarrow> jsval outcome"
  fw_connect :: "connect_request \<Rightarrow> transport_response outcome"
  fw_expired :: bool

record ResolvedAddress =
  ra_address :: string
  ra_family :: ip_family
  ra_parsed :: ParsedIp

subsection \<open>The DNS answer\<close>

definition dns_failed :: failure where "dns_failed = cimdError ''dns_failed''"

definition family_of :: "jsval \<Rightarrow> ip_family option" where
  "family_of v = (if v = Number (Whole 4) then Some V4 else if v = Number (Whole 6) then Some V6 else None)"

definition resolved_entry :: "jsval \<Rightarrow> ResolvedAddress outcome" where
  "resolved_entry entry =
     (case entry of
        RevokedProxy \<Rightarrow> Inl proxy_type_error
      | Obj kvs \<Rightarrow>
          (case (own kvs ''address'', family_of (own kvs ''family'')) of
             (Str address, Some family) \<Rightarrow>
               (case parseIp address of
                  Some ip \<Rightarrow> if ip_family ip = family
                             then Inr \<lparr>ra_address = address, ra_family = family, ra_parsed = ip\<rparr> else Inl dns_failed
                | None \<Rightarrow> Inl dns_failed)
           | _ \<Rightarrow> Inl dns_failed)
      | _ \<Rightarrow> Inl dns_failed)"

definition validateAnswer :: "jsval \<Rightarrow> ResolvedAddress list outcome" where
  "validateAnswer answer =
     (case answer of
        Arr entries \<Rightarrow> if length entries < 1 \<or> length entries > 64 then Inl dns_failed else collect resolved_entry entries
      | RevokedProxy \<Rightarrow> Inl proxy_type_error
      | _ \<Rightarrow> Inl dns_failed)"

definition isLoopback :: "ResolvedAddress \<Rightarrow> bool" where
  "isLoopback a =
     (case ra_family a of
        V4 \<Rightarrow> octet_at (ip_bytes (ra_parsed a)) 0 = Some 127
      | V6 \<Rightarrow> list_all (\<lambda>b. b = 0) (take 15 (ip_bytes (ra_parsed a))) \<and> octet_at (ip_bytes (ra_parsed a)) 15 = Some 1)"

definition check_addresses :: "bool \<Rightarrow> string \<Rightarrow> ResolvedAddress list \<Rightarrow> unit outcome" where
  "check_addresses allowLoopback hostname addresses =
     (if allowLoopback \<and> localhost_name hostname
      then require (list_all isLoopback addresses) dns_failed
      else require (\<not> list_ex (\<lambda>a. isBlockedIp (ra_parsed a) False) addresses) (cimdError ''ip_blocked''))"

subsection \<open>The headers\<close>

text \<open>\<open>null\<close>, \<open>undefined\<close> or the values of every header of that name, in order.\<close>

datatype header_values = Malformed_header | Absent_header | Header_values "string list"

definition text_values :: "jsval \<Rightarrow> string list option" where
  "text_values v = (case v of Arr (x # xs) \<Rightarrow> if list_all is_text (x # xs) then Some (map (the \<circ> text_of) (x # xs)) else None
                    | _ \<Rightarrow> None)"

fun header_loop :: "string \<Rightarrow> header_values \<Rightarrow> (string \<times> jsval) list \<Rightarrow> header_values outcome" where
  "header_loop name found [] = Inr found"
| "header_loop name found ((k, v) # kvs) =
     (if lower_case k \<noteq> name then header_loop name found kvs
      else if v = RevokedProxy then Inl proxy_type_error
      else case text_values v of
             None \<Rightarrow> Inr Malformed_header
           | Some vs \<Rightarrow>
               header_loop name (Header_values ((case found of Header_values old \<Rightarrow> old | _ \<Rightarrow> []) @ vs)) kvs)"

definition headerValues :: "jsval \<Rightarrow> string \<Rightarrow> header_values outcome" where
  "headerValues headers name =
     (case headers of
        Obj kvs \<Rightarrow> header_loop name Absent_header kvs
      | RevokedProxy \<Rightarrow> Inl proxy_type_error
      | _ \<Rightarrow> Inr Malformed_header)"

definition subtype_char :: "char \<Rightarrow> bool" where
  "subtype_char c = (is_digit c \<or> 97 \<le> byte c \<and> byte c \<le> 122 \<or> c \<in> set ''!#$&^_.+-'')"

text \<open>\<open>/^application\/[0-9a-z][!#$&^_.+0-9a-z-]*\+json$/\<close>\<close>

definition structured_json :: "string \<Rightarrow> bool" where
  "structured_json essence =
     (let sub = drop 12 essence in
      startsWith essence ''application/'' \<and> endsWith sub ''+json'' \<and> length sub > 5
      \<and> (is_digit (hd sub) \<or> 97 \<le> byte (hd sub) \<and> byte (hd sub) \<le> 122) \<and> list_all subtype_char sub)"

definition isJsonMediaType :: "string \<Rightarrow> bool" where
  "isJsonMediaType value =
     (CHR '','' \<notin> set value
      \<and> (let essence = lower_case (trim (hd (split_on (CHR '';'') value)));
             parts = split_on (CHR ''/'') essence
         in length parts = 2 \<and> list_all directive_name_ok parts
            \<and> (essence = ''application/json'' \<or> structured_json essence)))"

definition optional_values :: "header_values \<Rightarrow> string list option" where
  "optional_values h = (case h of Header_values vs \<Rightarrow> Some vs | _ \<Rightarrow> None)"

definition cacheView :: "jsval \<Rightarrow> CimdCacheView outcome" where
  "cacheView headers =
     chain (headerValues headers ''cache-control'') (\<lambda>cc.
     chain (headerValues headers ''age'') (\<lambda>age.
     chain (headerValues headers ''date'') (\<lambda>date.
     chain (headerValues headers ''vary'') (\<lambda>vary.
     Inr \<lparr>cv_valid = Malformed_header \<notin> {cc, age, date, vary}, cv_cacheControl = optional_values cc,
          cv_age = optional_values age, cv_date = optional_values date, cv_vary = optional_values vary\<rparr>))))"

subsection \<open>The body\<close>

fun read_chunks :: "int \<Rightarrow> string \<Rightarrow> chunk list \<Rightarrow> string outcome" where
  "read_chunks maxBytes sofar [] = Inr sofar"
| "read_chunks maxBytes sofar (Not_bytes # cs) = Inl (cimdError ''fetch_failed'')"
| "read_chunks maxBytes sofar (Bytes b # cs) =
     (if int (length sofar + length b) > maxBytes then Inl (cimdError ''size_exceeded'')
      else read_chunks maxBytes (sofar @ b) cs)"

text \<open>\<open>TextDecoder("utf-8", { fatal: true })\<close>, which drops a byte order mark.\<close>

function valid_utf8 :: "string \<Rightarrow> bool" where
  "valid_utf8 s =
     (case s of
        [] \<Rightarrow> True
      | c # t \<Rightarrow>
          (case utf8_extra (byte c) of
             None \<Rightarrow> False
           | Some k \<Rightarrow> length t \<ge> k \<and> utf8_tail_ok (byte c) (map byte (take k t)) \<and> valid_utf8 (drop k t)))"
  by pat_completeness auto
termination
  by (relation "measure length") auto

declare valid_utf8.simps [simp del]

definition byte_order_mark :: string where "byte_order_mark = [CHR 0xEF, CHR 0xBB, CHR 0xBF]"

definition decode_body :: "string \<Rightarrow> string option" where
  "decode_body bytes =
     (if \<not> valid_utf8 bytes then None
      else if startsWith bytes byte_order_mark then Some (drop 3 bytes) else Some bytes)"

definition readBody :: "int \<Rightarrow> body_stream \<Rightarrow> string outcome" where
  "readBody maxBytes body =
     (case body of
        Not_a_stream \<Rightarrow> Inl (cimdError ''fetch_failed'')
      | Stream chunks end \<Rightarrow>
          chain (read_chunks maxBytes [] chunks) (\<lambda>bytes.
          case end of
            Some e \<Rightarrow> Inl e
          | None \<Rightarrow> (case decode_body bytes of None \<Rightarrow> Inl (cimdError ''document_invalid'') | Some t \<Rightarrow> Inr t)))"

subsection \<open>The pipeline\<close>

record CimdFetchResult =
  fr_document :: CimdDocument
  fr_cacheView :: "CimdCacheView option"

text \<open>A \<open>===\<close> of two strings; the final URL must serialise as the requested one does.\<close>

definition sameSerializedUrl :: "full_url_parser \<Rightarrow> jsval \<Rightarrow> string \<Rightarrow> bool" where
  "sameSerializedUrl parseFull finalUrl requested =
     (case finalUrl of
        Str f \<Rightarrow> (case (parseFull f, parseFull requested) of
                    (Some u, Some v) \<Rightarrow> url_href u = url_href v
                  | _ \<Rightarrow> False)
      | _ \<Rightarrow> False)"

definition one_json_type :: "header_values \<Rightarrow> bool" where
  "one_json_type h = (case h of Header_values [v] \<Rightarrow> isJsonMediaType v | _ \<Rightarrow> False)"

definition check_response ::
    "full_url_parser \<Rightarrow> json_parser \<Rightarrow> int \<Rightarrow> AdmittedUrl \<Rightarrow> transport_response \<Rightarrow> CimdFetchResult outcome" where
  "check_response parseFull parseJson maxBytes admitted response =
     chain (require (tr_redirected response = Boolean False
                     \<and> sameSerializedUrl parseFull (tr_finalUrl response) (au_raw admitted))
              (cimdError ''redirect_refused'')) (\<lambda>_.
     chain (require (tr_status response = Number (Whole 200)) (cimdError ''status_not_200'')) (\<lambda>_.
     chain (headerValues (tr_headers response) ''content-type'') (\<lambda>contentType.
     chain (require (one_json_type contentType) (cimdError ''content_type'')) (\<lambda>_.
     chain (headerValues (tr_headers response) ''content-encoding'') (\<lambda>encoding.
     chain (require (encoding = Absent_header) (cimdError ''encoding'')) (\<lambda>_.
     chain (readBody maxBytes (tr_body response)) (\<lambda>body.
     chain (validateCimdDocument (shared_parser parseFull) parseJson body (au_raw admitted)) (\<lambda>document.
     chain (cacheView (tr_headers response)) (\<lambda>view.
     Inr \<lparr>fr_document = document, fr_cacheView = Some view\<rparr>)))))))))"

text \<open>The first of the checked addresses is the one connected to.\<close>

definition connect_to :: "AdmittedUrl \<Rightarrow> full_url \<Rightarrow> ResolvedAddress \<Rightarrow> connect_request" where
  "connect_to admitted u target =
     \<lparr>cr_connectIp = ra_address target, cr_family = ra_family target, cr_port = au_port admitted,
      cr_servername = au_hostname admitted,
      cr_hostHeader = au_hostname admitted @ (if url_port u = [] then [] else '':'' @ url_port u),
      cr_requestTarget = url_pathname u @ url_search u\<rparr>"

definition checked_target :: "bool \<Rightarrow> AdmittedUrl \<Rightarrow> fetch_world \<Rightarrow> ResolvedAddress outcome" where
  "checked_target allowLoopback admitted w =
     chain (rethrow (\<lambda>_. if fw_expired w then cimdError ''timeout'' else dns_failed) (fw_resolve w (au_hostname admitted)))
       (\<lambda>answer.
     chain (validateAnswer answer) (\<lambda>addresses.
     chain (check_addresses allowLoopback (au_hostname admitted) addresses) (\<lambda>_. Inr (hd addresses))))"

text \<open>The requests made to the transport, and the outcome.\<close>

definition fetchOnce ::
    "full_url_parser \<Rightarrow> json_parser \<Rightarrow> bool \<Rightarrow> int \<Rightarrow> AdmittedUrl \<Rightarrow> fetch_world
       \<Rightarrow> connect_request list \<times> CimdFetchResult outcome" where
  "fetchOnce parseFull parseJson allowLoopback maxBytes admitted w =
     (case checked_target allowLoopback admitted w of
        Inl e \<Rightarrow> ([], Inl e)
      | Inr target \<Rightarrow>
          (case parseFull (au_raw admitted) of
             None \<Rightarrow> ([], Inl (Thrown ''TypeError'' ''Invalid URL''))
           | Some u \<Rightarrow>
               let request = connect_to admitted u target in
               ([request], chain (fw_connect w request) (check_response parseFull parseJson maxBytes admitted))))"

definition is_cimd_error :: "failure \<Rightarrow> bool" where
  "is_cimd_error e = (case e of Thrown name _ \<Rightarrow> name = ''CimdError'' | _ \<Rightarrow> False)"

definition fetchWithDeadline ::
    "full_url_parser \<Rightarrow> json_parser \<Rightarrow> bool \<Rightarrow> int \<Rightarrow> AdmittedUrl \<Rightarrow> fetch_world
       \<Rightarrow> connect_request list \<times> CimdFetchResult outcome" where
  "fetchWithDeadline parseFull parseJson allowLoopback maxBytes admitted w =
     (let (requests, result) = fetchOnce parseFull parseJson allowLoopback maxBytes admitted w
      in (requests,
          if fw_expired w then Inl (cimdError ''timeout'')
          else rethrow (\<lambda>e. if is_cimd_error e then e else cimdError ''fetch_failed'') result))"

text \<open>\<open>fetch\<close> of the guarded fetcher, with the options it was created with.\<close>

definition guarded_fetch ::
    "full_url_parser \<Rightarrow> json_parser \<Rightarrow> bool \<Rightarrow> int \<Rightarrow> string \<Rightarrow> fetch_world
       \<Rightarrow> connect_request list \<times> CimdFetchResult outcome" where
  "guarded_fetch parseFull parseJson allowLoopback maxBytes rawClientId w =
     (case admitCimdUrl parseFull rawClientId allowLoopback of
        Inl e \<Rightarrow> ([], Inl e)
      | Inr admitted \<Rightarrow> fetchWithDeadline parseFull parseJson allowLoopback maxBytes admitted w)"

definition integerOption :: "jsval \<Rightarrow> int \<Rightarrow> int \<Rightarrow> int \<Rightarrow> string \<Rightarrow> int outcome" where
  "integerOption v fallback lo hi name =
     (case (if v = Undefined then Number (Whole fallback) else v) of
        Number (Whole n) \<Rightarrow> if n < lo \<or> n > hi then Inl (Thrown ''TypeError'' (name @ '' is out of range'')) else Inr n
      | _ \<Rightarrow> Inl (Thrown ''TypeError'' (name @ '' is out of range'')))"

subsection \<open>No request to an internal address\<close>

lemma validateAnswer_Inr:
  assumes "validateAnswer answer = Inr addresses"
  obtains entries where "answer = Arr entries" and "1 \<le> length entries" and "length entries \<le> 64"
    and "length addresses = length entries" and "collect resolved_entry entries = Inr addresses"
  using assms by (auto simp: validateAnswer_def not_less Suc_le_eq dest: collect_Inr_length split: jsval.splits if_splits)

lemma resolved_entry_Inr:
  "resolved_entry entry = Inr a \<Longrightarrow> parseIp (ra_address a) = Some (ra_parsed a) \<and> ip_family (ra_parsed a) = ra_family a"
  by (auto simp: resolved_entry_def split: jsval.splits option.splits if_splits)

lemma all_some_length: "all_some xs = Some ys \<Longrightarrow> length ys = length xs"
  by (induction xs arbitrary: ys) (auto split: option.splits)

lemma parseIp_wf: "parseIp s = Some ip \<Longrightarrow> isParsedIp ip"
proof -
  have v4: "parseIpv4 t = Some bs \<Longrightarrow> length bs = 4" for t bs
    by (auto simp: parseIpv4_def Let_def dest: all_some_length split: if_splits)
  have groups: "length (concat (map word_octets ws)) = 2 * length ws" for ws
    by (induction ws) (simp_all add: word_octets_def)
  have "join_groups compressed l r = Some bs \<Longrightarrow> length bs = 16" for compressed l r bs
    by (auto simp: join_groups_def Let_def groups simp del: concat_append map_append length_append split: if_splits)
  then have v6: "parseIpv6 t = Some bs \<Longrightarrow> length bs = 16" for t bs
    by (auto simp: parseIpv6_def split: if_splits option.splits prod.splits)
  show "parseIp s = Some ip \<Longrightarrow> isParsedIp ip"
    by (auto simp: parseIp_def isParsedIp_def dest: v4 v6 split: if_splits option.splits)
qed

lemma checked_target_Inr:
  assumes "checked_target allow admitted w = Inr target"
  obtains answer addresses where "fw_resolve w (au_hostname admitted) = Inr answer"
    and "validateAnswer answer = Inr addresses" and "addresses \<noteq> []" and "target = hd addresses"
    and "\<And>a. a \<in> set addresses \<Longrightarrow> parseIp (ra_address a) = Some (ra_parsed a)"
    and "\<And>a. a \<in> set addresses \<Longrightarrow>
           \<not> isBlockedIp (ra_parsed a) False \<or> allow \<and> localhost_name (au_hostname admitted) \<and> loopback_ip (ra_parsed a)"
proof -
  from assms obtain answer addresses where answer: "fw_resolve w (au_hostname admitted) = Inr answer"
    and addresses: "validateAnswer answer = Inr addresses"
    and check: "check_addresses allow (au_hostname admitted) addresses = Inr ()" and hd: "target = hd addresses"
    unfolding checked_target_def by (elim chain_InrE) (auto simp: result_simps)
  obtain entries where entries: "1 \<le> length entries" "length addresses = length entries"
    "collect resolved_entry entries = Inr addresses"
    using validateAnswer_Inr [OF addresses] by metis
  have parsed: "parseIp (ra_address a) = Some (ra_parsed a) \<and> ip_family (ra_parsed a) = ra_family a"
    if "a \<in> set addresses" for a
    using collect_Inr_back [OF entries(3)] that resolved_entry_Inr by blast
  have "isLoopback a \<Longrightarrow> loopback_ip (ra_parsed a)" if "a \<in> set addresses" for a
    using parsed [OF that] parseIp_wf [of "ra_address a" "ra_parsed a"]
    by (auto simp: isLoopback_def loopback_ip_def isIpv6Loopback_def isParsedIp_def octet_at_def list_all_length
        split: ip_family.splits)
  then have "\<not> isBlockedIp (ra_parsed a) False \<or> allow \<and> localhost_name (au_hostname admitted) \<and> loopback_ip (ra_parsed a)"
    if "a \<in> set addresses" for a
    using check that by (auto simp: check_addresses_def list_all_iff list_ex_iff split: if_splits)
  then show ?thesis using that answer addresses entries hd parsed by fastforce
qed

end
