(* ===== verification/Cimd_Resolver.thy ===== *)
theory Cimd_Resolver
  imports Cimd_Fetch Tasks Bridge_Config
begin

section \<open>Resolution of client metadata documents\<close>

text \<open>
  \<open>src/cimd/resolve.ts\<close> and \<open>src/cimd/waiters.ts\<close>: one shared service whose callers interleave. A caller
  runs without interruption up to its next \<open>await\<close>, so the model's steps are: a call of
  \<open>registrationFor\<close> up to the point where it waits (\<open>registration_begin\<close>), the settling of a fetch with
  the storing of its document (\<open>fetch_settle\<close>), and the resumption of one waiting caller (\<open>wake\<close>). The
  promise of a fetch is its number in \<open>rs_fetches\<close>; a caller is its number in \<open>rs_callers\<close>.
\<close>

subsection \<open>Follower slots\<close>

definition waiting_count :: "nat jsmap \<Rightarrow> string \<Rightarrow> nat" where
  "waiting_count counts key = (case map_of counts key of None \<Rightarrow> 0 | Some n \<Rightarrow> n)"

definition tryAcquire :: "string \<Rightarrow> nat \<Rightarrow> nat jsmap \<Rightarrow> bool \<times> nat jsmap" where
  "tryAcquire key mx counts =
     (let parked = waiting_count counts key
      in if parked \<ge> mx then (False, counts) else (True, map_set key (parked + 1) counts))"

definition release :: "string \<Rightarrow> nat jsmap \<Rightarrow> nat jsmap" where
  "release key counts =
     (let left = int (case map_of counts key of None \<Rightarrow> 1 | Some n \<Rightarrow> n) - 1
      in if left \<le> 0 then map_del key counts else map_set key (nat left) counts)"

subsection \<open>The service\<close>

record resolved_registration =
  rr_registration :: CimdRegistration
  rr_selectedClientAuthMethod :: "string option"

record resolver_config =
  rc_parse :: full_url_parser
  rc_json :: json_parser
  rc_enabled :: bool
  rc_maxInFlight :: nat
  rc_maxWaitersPerFetch :: nat
  rc_cacheTtlCapSeconds :: int
  rc_allowLoopback :: bool
  rc_maxDocumentBytes :: int

text \<open>The constructor: the validated options of the configuration, or their defaults.\<close>

definition option_or :: "int \<Rightarrow> int option \<Rightarrow> int" where
  "option_or d v = (case v of None \<Rightarrow> d | Some n \<Rightarrow> n)"

definition resolver_for :: "full_url_parser \<Rightarrow> json_parser \<Rightarrow> cimd_options option \<Rightarrow> bool \<Rightarrow> resolver_config" where
  "resolver_for parseFull parseJson cimd allowInsecureLocalhost =
     (let get = (\<lambda>d field. case cimd of None \<Rightarrow> d | Some options \<Rightarrow> option_or d (field options))
      in \<lparr>rc_parse = parseFull, rc_json = parseJson, rc_enabled = (cimd \<noteq> None),
          rc_maxInFlight = nat (get 8 maxInFlight), rc_maxWaitersPerFetch = nat (get 256 maxWaitersPerFetch),
          rc_cacheTtlCapSeconds = get 3600 cacheTtlCapSeconds, rc_allowLoopback = allowInsecureLocalhost,
          rc_maxDocumentBytes = get 5120 maxDocumentBytes\<rparr>)"

text \<open>A fetch: its identifier, the reading before it, and its outcome once it settled.\<close>

record cimd_fetch =
  cf_clientId :: string
  cf_t0 :: "int option"
  cf_outcome :: "resolved_registration outcome option"

datatype cimd_caller = Leading nat | Following nat | Finished "resolved_registration outcome"

record resolver_state =
  rs_cache :: "resolved_registration success_cache"
  rs_inFlight :: "nat jsmap"
  rs_waiters :: "nat jsmap"
  rs_fetches :: "cimd_fetch list"
  rs_callers :: "(string \<times> cimd_caller) list"

definition new_resolver :: resolver_state where
  "new_resolver = \<lparr>rs_cache = new_cache DEFAULT_MAX_ENTRIES, rs_inFlight = [], rs_waiters = [], rs_fetches = [], rs_callers = []\<rparr>"

definition too_busy :: failure where "too_busy = cimdError ''overloaded''"

text \<open>A caller keeps the identifier it presented.\<close>

definition add_caller :: "string \<Rightarrow> cimd_caller \<Rightarrow> resolver_state \<Rightarrow> resolver_state" where
  "add_caller raw c st = st\<lparr>rs_callers := rs_callers st @ [(raw, c)]\<rparr>"

text \<open>
  A call: a fresh cached document, a slot behind a fetch under way, or a fetch of its own. The second
  reading is the one the new fetch takes.
\<close>

definition registration_begin ::
    "resolver_config \<Rightarrow> string \<Rightarrow> int option \<Rightarrow> int option \<Rightarrow> resolver_state \<Rightarrow> resolver_state" where
  "registration_begin cfg raw now t0 st =
     (case cache_get raw now (rs_cache st) of
        (Some hit, cache) \<Rightarrow> add_caller raw (Finished (Inr hit)) (st\<lparr>rs_cache := cache\<rparr>)
      | (None, cache) \<Rightarrow>
          let st = st\<lparr>rs_cache := cache\<rparr> in
          (case map_of (rs_inFlight st) raw of
             Some p \<Rightarrow>
               (case tryAcquire raw (rc_maxWaitersPerFetch cfg) (rs_waiters st) of
                  (False, _) \<Rightarrow> add_caller raw (Finished (Inl too_busy)) st
                | (True, counts) \<Rightarrow> add_caller raw (Following p) (st\<lparr>rs_waiters := counts\<rparr>))
           | None \<Rightarrow>
               if length (rs_inFlight st) \<ge> rc_maxInFlight cfg then add_caller raw (Finished (Inl too_busy)) st
               else let p = length (rs_fetches st) in
                    add_caller raw (Leading p)
                      (st\<lparr>rs_fetches := rs_fetches st @ [\<lparr>cf_clientId = raw, cf_t0 = t0, cf_outcome = None\<rparr>],
                          rs_inFlight := map_set raw p (rs_inFlight st)\<rparr>)))"

text \<open>What becomes of a settled fetch: only the projection of its document is kept, and cached.\<close>

definition fetch_outcome ::
    "resolver_config \<Rightarrow> string \<Rightarrow> int option \<Rightarrow> int option \<Rightarrow> CimdFetchResult outcome
       \<Rightarrow> resolved_registration success_cache \<Rightarrow> resolved_registration outcome \<times> resolved_registration success_cache" where
  "fetch_outcome cfg raw t0 t1 fetched cache =
     (case chain fetched (\<lambda>f. chain (projectCimdRegistration (shared_parser (rc_parse cfg)) (fr_document f)) (\<lambda>r. Inr (f, r))) of
        Inl e \<Rightarrow> (Inl e, cache)
      | Inr (f, registration) \<Rightarrow>
          let resolved = \<lparr>rr_registration = registration,
                          rr_selectedClientAuthMethod = cd_selectedClientAuthMethod (fr_document f)\<rparr>
          in (Inr resolved,
              case computeCacheExpiryMs (fr_cacheView f) (rc_cacheTtlCapSeconds cfg) t0 t1 of
                None \<Rightarrow> cache
              | Some expires \<Rightarrow> cache_set raw resolved expires t1 cache))"

definition fetch_settle ::
    "resolver_config \<Rightarrow> nat \<Rightarrow> int option \<Rightarrow> CimdFetchResult outcome \<Rightarrow> resolver_state \<Rightarrow> resolver_state" where
  "fetch_settle cfg p t1 fetched st =
     (let f = rs_fetches st ! p;
          (outcome, cache) = fetch_outcome cfg (cf_clientId f) (cf_t0 f) t1 fetched (rs_cache st)
      in st\<lparr>rs_fetches := (rs_fetches st)[p := f\<lparr>cf_outcome := Some outcome\<rparr>], rs_cache := cache\<rparr>)"

text \<open>A caller goes on once the fetch it waits for has settled: the leader ends its flight, a follower leaves its slot.\<close>

definition wake :: "nat \<Rightarrow> resolver_state \<Rightarrow> resolver_state option" where
  "wake i st =
     (case rs_callers st ! i of
        (raw, Finished _) \<Rightarrow> None
      | (raw, Leading p) \<Rightarrow>
          map_option (\<lambda>out. st\<lparr>rs_inFlight := map_del raw (rs_inFlight st),
                               rs_callers := (rs_callers st)[i := (raw, Finished out)]\<rparr>)
            (cf_outcome (rs_fetches st ! p))
      | (raw, Following p) \<Rightarrow>
          map_option (\<lambda>out. st\<lparr>rs_waiters := release raw (rs_waiters st),
                               rs_callers := (rs_callers st)[i := (raw, Finished out)]\<rparr>)
            (cf_outcome (rs_fetches st ! p)))"

text \<open>The steps. A fetch settles with what the guarded fetcher makes of some behaviour of the network.\<close>

inductive drain_step :: "resolver_config \<Rightarrow> resolver_state \<Rightarrow> resolver_state \<Rightarrow> bool" for cfg where
  settles: "p < length (rs_fetches st) \<Longrightarrow> cf_outcome (rs_fetches st ! p) = None \<Longrightarrow>
    drain_step cfg st
      (fetch_settle cfg p t1
         (snd (guarded_fetch (rc_parse cfg) (rc_json cfg) (rc_allowLoopback cfg) (rc_maxDocumentBytes cfg)
                 (cf_clientId (rs_fetches st ! p)) w)) st)"
| wakes: "i < length (rs_callers st) \<Longrightarrow> wake i st = Some st' \<Longrightarrow> drain_step cfg st st'"

inductive resolver_step :: "resolver_config \<Rightarrow> resolver_state \<Rightarrow> resolver_state \<Rightarrow> bool" for cfg where
  begins: "resolver_step cfg st (registration_begin cfg raw now t0 st)"
| drains: "drain_step cfg st st' \<Longrightarrow> resolver_step cfg st st'"

inductive reachable :: "resolver_config \<Rightarrow> resolver_state \<Rightarrow> bool" for cfg where
  start: "reachable cfg new_resolver"
| step: "reachable cfg st \<Longrightarrow> resolver_step cfg st st' \<Longrightarrow> reachable cfg st'"

inductive_cases drain_stepE: "drain_step cfg st st'"
inductive_cases resolver_stepE: "resolver_step cfg st st'"

subsection \<open>One resolution\<close>

text \<open>
  The rate guard: every port the call is charged to, in order; a port that fails allows. The caller's own
  limiter is charged besides the configured one, unless it is the same port.
\<close>

definition rate_exceeded :: failure where
  "rate_exceeded = oauthError ''temporarily_unavailable'' ''Rate limit exceeded; retry later'' 429"

definition charged_ports :: "'p \<Rightarrow> 'p option \<Rightarrow> 'p list" where
  "charged_ports own_port limiter =
     (case limiter of None \<Rightarrow> [own_port] | Some l \<Rightarrow> if l = own_port then [own_port] else [own_port, l])"

fun rateGuard :: "('p \<Rightarrow> string \<Rightarrow> bool outcome) \<Rightarrow> string \<Rightarrow> 'p list \<Rightarrow> unit outcome" where
  "rateGuard ask key [] = Inr ()"
| "rateGuard ask key (port # ports) =
     (if (case ask port key of Inl _ \<Rightarrow> True | Inr allowed \<Rightarrow> allowed) then rateGuard ask key ports else Inl rate_exceeded)"

definition rate_key :: "string option \<Rightarrow> string" where
  "rate_key ip = ''cimd:'' @ (case ip of None \<Rightarrow> ''unknown'' | Some a \<Rightarrow> a)"

text \<open>\<open>writeCimdAudit\<close>: its time needs a usable clock, the sink itself never fails the call.\<close>

definition cimd_audit ::
    "clock_reading \<Rightarrow> string \<Rightarrow> string option \<Rightarrow> string \<Rightarrow> string option \<Rightarrow> string option \<Rightarrow> audit_event outcome" where
  "cimd_audit clock outcome reason clientId ip authMethod =
     chain (finiteClockSnapshot clock 0) (\<lambda>now.
     Inr \<lparr>ae_event = ''oauth.cimd.fetch'', ae_status = outcome, ae_occurredAt = toISOString now,
          ae_clientId = Some clientId, ae_subject = None, ae_resource = None, ae_scopes = None,
          ae_redirectHost = None, ae_reason = reason, ae_ip = ip, ae_selectedClientAuthMethod = authMethod\<rparr>)"

definition is_oauth :: "failure \<Rightarrow> bool" where
  "is_oauth e = (case e of OAuth _ \<Rightarrow> True | _ \<Rightarrow> False)"

text \<open>
  After the wait: the redirect URI is matched against the document on every request, cached or not; any
  failure is audited with an allowlisted reason and becomes the one generic error.
\<close>

definition resolve_end ::
    "resolver_config \<Rightarrow> string option \<Rightarrow> clock_reading \<Rightarrow> string \<Rightarrow> string \<Rightarrow> resolved_registration outcome
       \<Rightarrow> CimdRegistration outcome \<times> audit_event list" where
  "resolve_end cfg ip clock clientId redirectUri waited =
     (case chain waited (\<lambda>r. if cimdRedirectMatches (shared_parser (rc_parse cfg)) redirectUri (rr_registration r)
                            then Inr (rr_registration r) else Inl (cimdError ''document_invalid'')) of
        Inr registration \<Rightarrow> (Inr registration, [])
      | Inl e \<Rightarrow>
          if is_oauth e then (Inl e, [])
          else (case cimd_audit clock ''failure'' (Some (auditReason e)) clientId ip None of
                  Inl broken \<Rightarrow> (Inl broken, [])
                | Inr entry \<Rightarrow> (Inl (mapCimdError e), [entry])))"

text \<open>\<open>resolve\<close>, given what the wait for the registration came to.\<close>

definition cimd_resolve ::
    "resolver_config \<Rightarrow> ('p \<Rightarrow> string \<Rightarrow> bool outcome) \<Rightarrow> 'p \<Rightarrow> 'p option \<Rightarrow> string option \<Rightarrow> clock_reading \<Rightarrow> string
       \<Rightarrow> string \<Rightarrow> resolved_registration outcome \<Rightarrow> CimdRegistration outcome \<times> audit_event list" where
  "cimd_resolve cfg ask own_port limiter ip clock clientId redirectUri waited =
     (if \<not> rc_enabled cfg then (Inl cimdGenericError, [])
      else case rateGuard ask (rate_key ip) (charged_ports own_port limiter) of
        Inl e \<Rightarrow> (Inl e, [])
      | Inr _ \<Rightarrow> resolve_end cfg ip clock clientId redirectUri waited)"

definition emitSuccess :: "clock_reading \<Rightarrow> string \<Rightarrow> string option \<Rightarrow> string option \<Rightarrow> audit_event outcome" where
  "emitSuccess clock clientId ip authMethod = cimd_audit clock ''success'' None clientId ip authMethod"

definition rejectAfterResolve :: "clock_reading \<Rightarrow> string \<Rightarrow> string option \<Rightarrow> failure \<times> audit_event list" where
  "rejectAfterResolve clock clientId ip =
     (case cimd_audit clock ''failure'' (Some ''oversize'') clientId ip None of
        Inl broken \<Rightarrow> (broken, []) | Inr entry \<Rightarrow> (cimdGenericError, [entry]))"

end
