(* ===== verification/Cimd_Cache_Laws.thy ===== *)
theory Cimd_Cache_Laws
  imports Cimd_Cache
begin

section \<open>What the cache guarantees\<close>

text \<open>
  A response is kept no longer than its own freshness and the configured cap allow; the cache stays
  within its bound, evicts in the order of last use, and a hit is the last document put under that
  identifier, still fresh on a clock that has not gone back since.
\<close>

subsection \<open>Lifetimes\<close>

definition directive_name :: "string \<Rightarrow> string" where
  "directive_name raw =
     lower_case (trim (case split_first (CHR ''='') (trim raw) of None \<Rightarrow> trim raw | Some (n, _) \<Rightarrow> n))"

lemma directive_step_allows:
  "directive_step ages raw = Some ages' \<Longrightarrow> trim raw = [] \<or> directive_name raw \<notin> {''no-store'', ''no-cache'', ''private''}"
  by (auto simp: directive_step_def directive_name_def Let_def split: if_split_asm)

lemma directives_allow:
  "directives ages ds = Some ages' \<Longrightarrow> d \<in> set ds \<Longrightarrow>
     trim d = [] \<or> directive_name d \<notin> {''no-store'', ''no-cache'', ''private''}"
  by (induction ages ds rule: directives.induct) (auto split: option.splits dest: directive_step_allows)

lemma parseMaxAge_allows:
  assumes "parseMaxAge values = Some m"
  obtains header where "values = Some [header]" and "60 \<le> m"
    and "\<forall>d \<in> set (splitDirectives header).
           trim d = [] \<or> directive_name d \<notin> {''no-store'', ''no-cache'', ''private''}"
  using assms directives_allow [of "(None, None)"]
  by (auto simp: parseMaxAge_def MIN_CACHEABLE_MAX_AGE_def split: option.splits list.splits if_splits)

text \<open>
  A response is stored only when its one Cache-Control header gives an age of at least sixty seconds and no
  directive forbids storing, it does not vary on everything, and the clock did not go back during the
  fetch; it then expires in the future, but no later than that age and the configured cap allow.
\<close>

theorem cache_expiry_bound:
  assumes "computeCacheExpiryMs view capSeconds t0 t1 = Some e"
  shows "\<exists>v header m start now. view = Some v \<and> cv_valid v \<and> cv_cacheControl v = Some [header]
    \<and> (\<forall>d \<in> set (splitDirectives header). trim d = [] \<or> directive_name d \<notin> {''no-store'', ''no-cache'', ''private''})
    \<and> parseMaxAge (Some [header]) = Some m \<and> 60 \<le> m \<and> \<not> hasVaryStar (cv_vary v)
    \<and> t0 = Some start \<and> t1 = Some now \<and> start \<le> now \<and> now < e \<and> e \<le> now + min m capSeconds * 1000"
proof -
  obtain v where v: "view = Some v" "cv_valid v"
    using assms by (auto simp: computeCacheExpiryMs_def split: option.splits if_splits)
  obtain m where m: "parseMaxAge (cv_cacheControl v) = Some m"
    using assms v by (auto simp: computeCacheExpiryMs_def split: option.splits if_splits)
  have rest: "\<not> hasVaryStar (cv_vary v) \<and> (\<exists>start now. t0 = Some start \<and> t1 = Some now \<and> start \<le> now
      \<and> now < e \<and> e \<le> now + min m capSeconds * 1000)"
    using assms v m
    by (auto simp: computeCacheExpiryMs_def Let_def split: option.splits if_splits)
  obtain header where "cv_cacheControl v = Some [header]" "60 \<le> m"
    and "\<forall>d \<in> set (splitDirectives header).
           trim d = [] \<or> directive_name d \<notin> {''no-store'', ''no-cache'', ''private''}"
    by (rule parseMaxAge_allows [OF m])
  with v m rest show ?thesis by auto
qed

subsection \<open>The order of use\<close>

lemma evict_drop: "1 \<le> mx \<Longrightarrow> evict mx m = drop (length m - (mx - 1)) m"
proof (induction mx m rule: evict.induct)
  case (2 mx e m)
  show ?case
  proof (cases "length (e # m) \<ge> mx")
    case True
    then have "length (e # m) - (mx - 1) = Suc (length m - (mx - 1))" using 2 by simp
    with True 2 show ?thesis by simp
  qed simp
qed simp

lemma map_of_filter_None: "map_of (filter (\<lambda>p. fst p \<noteq> k) m) k = None"
  by (induction m) auto

lemma map_set_after_del: "map_set k v (map_del k m) = map_del k m @ [(k, v)]"
  by (rule map_set_new) simp

lemma length_map_del_less: "map_of m k \<noteq> None \<Longrightarrow> length (map_del k m) < length m"
  by (induction m) (auto simp: map_del_def less_Suc_eq_le split: if_split_asm)

lemma evict_subset: "set (evict mx m) \<subseteq> set m"
  by (induction mx m rule: evict.induct) auto

lemma map_of_evict: "wf_map m \<Longrightarrow> map_of (evict mx m) k = Some v \<Longrightarrow> map_of m k = Some v"
  by (meson evict_subset map_of_in_set map_of_SomeD subsetD)

lemma wf_evict [intro]: "wf_map m \<Longrightarrow> wf_map (evict mx m)"
  by (induction mx m rule: evict.induct) auto

lemma length_evict: "1 \<le> mx \<Longrightarrow> length (evict mx m) < mx"
  by (induction mx m rule: evict.induct) auto

lemma evict_keeps_key: "map_of m k = None \<Longrightarrow> map_of (evict mx m) k = None"
  by (induction mx m rule: evict.induct) (auto split: if_splits)

subsection \<open>Histories of a cache\<close>

datatype 'a cache_call = Get string "int option" | Put string 'a int "int option"

fun cache_step :: "'a cache_call \<Rightarrow> 'a success_cache \<Rightarrow> 'a success_cache" where
  "cache_step (Get k now) c = snd (cache_get k now c)"
| "cache_step (Put k r e now) c = cache_set k r e now c"

definition cache_run :: "nat \<Rightarrow> 'a cache_call list \<Rightarrow> 'a success_cache" where
  "cache_run mx calls = foldl (\<lambda>c call. cache_step call c) (new_cache mx) calls"

text \<open>The last call that put something under the key, and the reading it made.\<close>

definition last_put :: "string \<Rightarrow> 'a \<Rightarrow> int \<Rightarrow> int \<Rightarrow> 'a cache_call list \<Rightarrow> bool" where
  "last_put k r e t calls =
     (\<exists>before after. calls = before @ Put k r e (Some t) # after \<and> (\<forall>r' e' now. Put k r' e' now \<notin> set after))"

definition cache_inv :: "nat \<Rightarrow> 'a cache_call list \<Rightarrow> 'a success_cache \<Rightarrow> bool" where
  "cache_inv mx calls c =
     (sc_maxEntries c = mx \<and> wf_map (sc_entries c) \<and> length (sc_entries c) \<le> mx
      \<and> (\<forall>k r e. map_of (sc_entries c) k = Some (r, e) \<longrightarrow>
            (\<exists>t l. last_put k r e t calls \<and> sc_lastObserved c = Some l \<and> t \<le> l)))"

lemma last_put_Get: "last_put k r e t calls \<Longrightarrow> last_put k r e t (calls @ [Get k' now])"
  unfolding last_put_def by (elim exE conjE) (auto intro!: exI)

lemma last_put_other: "last_put k r e t calls \<Longrightarrow> k' \<noteq> k \<Longrightarrow> last_put k r e t (calls @ [Put k' r' e' now])"
  unfolding last_put_def by (elim exE conjE) (auto intro!: exI)

lemma last_put_now: "last_put k r e t (calls @ [Put k r e (Some t)])"
  unfolding last_put_def by (rule exI [of _ calls], rule exI [of _ "[]"]) simp

lemma observe_refused: "cache_observe now c = (False, c') \<Longrightarrow> sc_entries c' = [] \<and> sc_maxEntries c' = sc_maxEntries c"
  by (auto simp: cache_observe_def Let_def split: if_splits)

lemma observe_accepted:
  "cache_observe now c = (True, c') \<Longrightarrow>
     \<exists>n. now = Some n \<and> c' = c\<lparr>sc_lastObserved := Some n\<rparr> \<and> (\<forall>l. sc_lastObserved c = Some l \<longrightarrow> l \<le> n)"
  by (auto simp: cache_observe_def Let_def split: if_splits option.splits)

lemma cache_inv_step:
  assumes mx: "1 \<le> mx" and inv: "cache_inv mx calls c"
  shows "cache_inv mx (calls @ [call]) (cache_step call c)"
proof (cases call)
  case (Get k now)
  obtain ok c' where obs: "cache_observe now c = (ok, c')" by fastforce
  show ?thesis
  proof (cases ok)
    case False
    with obs observe_refused [of now c c'] inv show ?thesis by (simp add: Get cache_get_def cache_inv_def)
  next
    case True
    with obs obtain n where n: "c' = c\<lparr>sc_lastObserved := Some n\<rparr>" "\<forall>l. sc_lastObserved c = Some l \<longrightarrow> l \<le> n"
      using observe_accepted [of now c c'] by auto
    have len: "length (map_del k (sc_entries c)) \<le> mx" and len': "map_of (sc_entries c) k \<noteq> None \<Longrightarrow> length (map_del k (sc_entries c)) < mx"
    proof -
      show "length (map_del k (sc_entries c)) \<le> mx"
        using inv length_filter_le [of _ "sc_entries c"] unfolding cache_inv_def map_del_def by (meson le_trans)
      assume "map_of (sc_entries c) k \<noteq> None"
      from length_map_del_less [OF this] show "length (map_del k (sc_entries c)) < mx"
        using inv by (simp add: cache_inv_def)
    qed
    have old: "\<exists>t l. last_put k' r e t (calls @ [Get k now]) \<and> t \<le> n" if "map_of (sc_entries c) k' = Some (r, e)" for k' r e
      using inv that n last_put_Get unfolding cache_inv_def by (metis order_trans)
    have wf: "wf_map (sc_entries c)" and max: "sc_maxEntries c = mx" using inv by (simp_all add: cache_inv_def)
    show ?thesis
    proof (cases "map_of (sc_entries c) k")
      case None
      then show ?thesis using inv wf max n(1) obs True old by (simp add: Get cache_get_def cache_inv_def)
    next
      case (Some entry)
      obtain r e where entry: "entry = (r, e)" by fastforce
      have wf': "wf_map (map_set k (r, e) (map_del k (sc_entries c)))" using wf by blast
      have same: "map_of (sc_entries c) k' = Some x"
        if "map_of (map_set k (r, e) (map_del k (sc_entries c))) k' = Some x \<or> map_of (map_del k (sc_entries c)) k' = Some x"
        for k' x using that Some entry by (auto split: if_split_asm)
      have short: "length (map_set k (r, e) (map_del k (sc_entries c))) \<le> mx"
        using len' Some by (simp add: map_set_after_del)
      have result: "\<exists>es. cache_step call c = c\<lparr>sc_lastObserved := Some n, sc_entries := es\<rparr>
          \<and> (es = map_del k (sc_entries c) \<or> es = map_set k (r, e) (map_del k (sc_entries c)))"
        using Some entry n(1) obs True by (auto simp: Get cache_get_def Let_def)
      then obtain es where es: "cache_step call c = c\<lparr>sc_lastObserved := Some n, sc_entries := es\<rparr>"
        and "es = map_del k (sc_entries c) \<or> es = map_set k (r, e) (map_del k (sc_entries c))" by blast
      then have "wf_map es" "length es \<le> mx" "\<And>k' x. map_of es k' = Some x \<Longrightarrow> map_of (sc_entries c) k' = Some x"
        using wf wf' len short same by blast+
      with es max old show ?thesis by (simp add: cache_inv_def Get)
    qed
  qed
next
  case (Put k r e now)
  obtain ok c' where obs: "cache_observe now c = (ok, c')" by fastforce
  show ?thesis
  proof (cases ok)
    case False
    with obs observe_refused [of now c c'] inv show ?thesis by (simp add: Put cache_set_def cache_inv_def)
  next
    case True
    with obs obtain n where n: "now = Some n" "c' = c\<lparr>sc_lastObserved := Some n\<rparr>" "\<forall>l. sc_lastObserved c = Some l \<longrightarrow> l \<le> n"
      using observe_accepted [of now c c'] by auto
    let ?m = "evict mx (map_del k (sc_entries c))"
    have wf: "wf_map (sc_entries c)" and max: "sc_maxEntries c = mx" using inv by (simp_all add: cache_inv_def)
    then have none: "map_of ?m k = None" by (intro evict_keeps_key) simp
    have old: "\<exists>t l. last_put k' r' e' t (calls @ [Put k r e now]) \<and> t \<le> n"
      if "k' \<noteq> k" and "map_of ?m k' = Some (r', e')" for k' r' e'
    proof -
      have "map_of (map_del k (sc_entries c)) k' = Some (r', e')" using that(2) wf by (meson map_of_evict wf_map_del)
      then have "map_of (sc_entries c) k' = Some (r', e')" using that(1) by simp
      then show ?thesis using inv n last_put_other that(1) unfolding cache_inv_def by (metis order_trans)
    qed
    have "length (map_set k (r, e) ?m) \<le> mx"
      using length_evict [OF mx, of "map_del k (sc_entries c)"] none by (simp add: map_set_new)
    moreover have "wf_map (map_set k (r, e) ?m)" using wf by blast
    ultimately show ?thesis using obs True n max none old last_put_now [of k r e n calls]
      by (auto simp: Put cache_set_def cache_inv_def simp del: map_of_eq_Some_iff split: if_splits)
  qed
qed

lemma cache_inv_run: "1 \<le> mx \<Longrightarrow> cache_inv mx calls (cache_run mx calls)"
proof (induction calls rule: rev_induct)
  case Nil
  then show ?case by (simp add: cache_run_def new_cache_def cache_inv_def)
next
  case (snoc call calls)
  then show ?case using cache_inv_step [of mx calls "cache_run mx calls" call] by (simp add: cache_run_def)
qed

text \<open>
  Along any history of a cache with room for at least one entry, it never holds more entries than its
  bound and no identifier twice.
\<close>

theorem cache_within_bound:
  assumes "1 \<le> maxEntries"
  shows "length (sc_entries (cache_run maxEntries calls)) \<le> maxEntries \<and> wf_map (sc_entries (cache_run maxEntries calls))"
  using cache_inv_run [OF assms, of calls] by (simp add: cache_inv_def)

theorem cache_within_bound_witness:
  "length (sc_entries (cache_run 1 [Put ''a'' True 9 (Some 1), Put ''b'' True 9 (Some 2)])) \<le> 1"
  using cache_within_bound [of 1 "[Put ''a'' True 9 (Some 1), Put ''b'' True 9 (Some 2)]"] by simp

text \<open>
  A hit is the document last put under that identifier, at a reading no later than the present one, and
  its expiry is still ahead: nothing expired, replaced or stored before the clock went back is served.
\<close>

theorem cache_hit_fresh:
  assumes "1 \<le> maxEntries"
    and "fst (cache_get key now (cache_run maxEntries calls)) = Some registration"
  shows "\<exists>n e t. now = Some n \<and> last_put key registration e t calls \<and> t \<le> n \<and> n < e"
proof -
  let ?c = "cache_run maxEntries calls"
  obtain ok c' where obs: "cache_observe now ?c = (ok, c')" by fastforce
  with assms(2) have ok by (cases ok) (simp_all add: cache_get_def)
  with obs obtain n where n: "now = Some n" "c' = ?c\<lparr>sc_lastObserved := Some n\<rparr>"
    "\<forall>l. sc_lastObserved ?c = Some l \<longrightarrow> l \<le> n"
    using observe_accepted [of now ?c c'] by auto
  obtain e where e: "map_of (sc_entries ?c) key = Some (registration, e)" "n < e"
    using assms(2) obs \<open>ok\<close> n by (auto simp: cache_get_def Let_def simp del: map_of_eq_Some_iff split: option.splits if_splits)
  then obtain t l where "last_put key registration e t calls" "sc_lastObserved ?c = Some l" "t \<le> l"
    using cache_inv_run [OF assms(1), of calls] unfolding cache_inv_def by blast
  moreover from this have "t \<le> n" using n(3) by force
  ultimately show ?thesis using n(1) e(2) by blast
qed

theorem cache_hit_fresh_witness:
  "\<exists>n e t. Some 5 = Some n \<and> last_put ''a'' True e t [Put ''a'' True 9 (Some 1)] \<and> t \<le> n \<and> n < e"
  by (rule cache_hit_fresh [of 1 "''a''" "Some 5" "[Put ''a'' True 9 (Some 1)]"]) (simp, code_simp)

theorem cache_expiry_bound_witness:
  "\<exists>v header m start now. Some \<lparr>cv_valid = True, cv_cacheControl = Some [''max-age=300''], cv_age = None,
       cv_date = None, cv_vary = None\<rparr> = Some v \<and> cv_valid v \<and> cv_cacheControl v = Some [header]
    \<and> (\<forall>d \<in> set (splitDirectives header). trim d = [] \<or> directive_name d \<notin> {''no-store'', ''no-cache'', ''private''})
    \<and> parseMaxAge (Some [header]) = Some m \<and> 60 \<le> m \<and> \<not> hasVaryStar (cv_vary v)
    \<and> Some 0 = Some start \<and> Some 1000 = Some now \<and> start \<le> now \<and> now < 300000 \<and> 300000 \<le> now + min m 3600 * 1000"
  by (rule cache_expiry_bound) code_simp

end
