(* ===== verification/Cimd_Addresses.thy ===== *)
theory Cimd_Addresses
  imports Cimd_Blocklist
begin

section \<open>What the blocklist blocks\<close>

text \<open>
  Membership of a range, computed octet by octet with a mask, is equality of the leading bits of the
  address as one number; the tables, evaluated once; the addresses of internal networks, all blocked;
  the spellings of an address.
\<close>

unbundle bit_operations_syntax

subsection \<open>Membership is a comparison of leading bits\<close>

fun octets_value :: "octet list \<Rightarrow> nat" where
  "octets_value [] = 0"
| "octets_value (b # bs) = unat b * 2 ^ (8 * length bs) + octets_value bs"

lemma octets_value_less: "octets_value bs < 2 ^ (8 * length bs)"
proof (induction bs)
  case (Cons b bs)
  have "unat b < 2 ^ 8" using unsigned_less [of b] by simp
  then have "(unat b + 1) * 2 ^ (8 * length bs) \<le> 2 ^ 8 * 2 ^ (8 * length bs)" by (intro mult_le_mono1) simp
  then have "unat b * 2 ^ (8 * length bs) + 2 ^ (8 * length bs) \<le> 2 ^ (8 * length (b # bs))"
    by (simp only: add_mult_distrib mult_1 length_Cons mult_Suc_right power_add)
  with Cons show ?case by simp
qed simp

lemma masked_octet_eq:
  fixes a b :: octet
  assumes "k \<le> 8"
  shows "a AND push_bit k 0xff = b AND push_bit k 0xff \<longleftrightarrow> unat a div 2 ^ k = unat b div 2 ^ k"
proof -
  have m: "(0xff :: octet) = mask 8" by (simp add: mask_eq_exp_minus_1)
  have "a AND push_bit k 0xff = b AND push_bit k 0xff \<longleftrightarrow> drop_bit k a = drop_bit k b"
  proof
    assume eq: "a AND push_bit k 0xff = b AND push_bit k 0xff"
    show "drop_bit k a = drop_bit k b"
    proof (rule bit_word_eqI)
      fix n assume "n < LENGTH(8)"
      from eq have "bit (a AND push_bit k 0xff) (k + n) = bit (b AND push_bit k 0xff) (k + n)" by simp
      then show "bit (drop_bit k a) n = bit (drop_bit k b) n"
        by (cases "k + n < 8") (auto simp: m bit_simps dest: bit_imp_le_length)
    qed
  next
    assume eq: "drop_bit k a = drop_bit k b"
    show "a AND push_bit k 0xff = b AND push_bit k 0xff"
    proof (rule bit_word_eqI)
      fix n assume "n < LENGTH(8)"
      from eq have "bit (drop_bit k a) (n - k) = bit (drop_bit k b) (n - k)" by simp
      then show "bit (a AND push_bit k 0xff) n = bit (b AND push_bit k 0xff) n"
        by (auto simp: m bit_simps)
    qed
  qed
  also have "\<dots> \<longleftrightarrow> unat a div 2 ^ k = unat b div 2 ^ k"
    by (simp add: word_unat_eq_iff unat_drop_bit_eq flip: drop_bit_eq_div)
  finally show ?thesis .
qed

lemma high_part_div:
  fixes a x :: nat
  assumes "x < 2 ^ n" and "k \<le> n"
  shows "(a * 2 ^ n + x) div 2 ^ k = a * 2 ^ (n - k) + x div 2 ^ k"
proof -
  have "(2 :: nat) ^ n = 2 ^ (n - k) * 2 ^ k" using assms(2) by (simp flip: power_add)
  then show ?thesis by (simp flip: mult.assoc)
qed

lemma high_part_eq:
  fixes a b x y :: nat
  assumes "x < 2 ^ n" and "y < 2 ^ n" and "k \<le> n"
  shows "(a * 2 ^ n + x) div 2 ^ k = (b * 2 ^ n + y) div 2 ^ k \<longleftrightarrow> a = b \<and> x div 2 ^ k = y div 2 ^ k"
proof -
  have less: "z div 2 ^ k < 2 ^ (n - k)" if "z < 2 ^ n" for z :: nat
    using that assms(3) by (simp add: less_mult_imp_div_less flip: power_add)
  have "a = b" if "a * 2 ^ (n - k) + x div 2 ^ k = b * 2 ^ (n - k) + y div 2 ^ k"
  proof -
    have "(a * 2 ^ (n - k) + x div 2 ^ k) div 2 ^ (n - k) = a" using less [OF assms(1)] by simp
    moreover have "(b * 2 ^ (n - k) + y div 2 ^ k) div 2 ^ (n - k) = b" using less [OF assms(2)] by simp
    ultimately show ?thesis using that by simp
  qed
  then show ?thesis using assms by (auto simp: high_part_div)
qed

lemma high_part_only:
  fixes a x :: nat
  assumes "x < 2 ^ n"
  shows "(a * 2 ^ n + x) div 2 ^ (n + k) = a div 2 ^ k"
  using assms by (simp add: power_add div_mult2_eq)

lemma contains_Cons:
  "contains \<lparr>cidr_network = n # ns, cidr_prefix = p\<rparr> (b # bs) \<longleftrightarrow>
     (if 8 \<le> p then n = b \<and> contains \<lparr>cidr_network = ns, cidr_prefix = p - 8\<rparr> bs
      else p = 0 \<or> n AND push_bit (8 - p) 0xff = b AND push_bit (8 - p) 0xff)"
proof (cases "8 \<le> p")
  case True
  then have w: "p div 8 = Suc ((p - 8) div 8)" and r: "p mod 8 = (p - 8) mod 8" by (simp_all add: le_div_geq le_mod_geq)
  have at: "octet_at (c # cs) (Suc i) = octet_at cs i" for c :: octet and cs i by (simp add: octet_at_def)
  have upt: "[0..<Suc k] = 0 # map Suc [0..<k]" for k by (simp add: upt_conv_Cons map_Suc_upt del: upt_Suc)
  show ?thesis using True
    by (simp add: contains_def Let_def w r at upt list.pred_map comp_def del: upt_Suc) (simp add: octet_at_def)
next
  case False
  then show ?thesis by (simp add: contains_def Let_def octet_at_def masked_def)
qed

lemma contains_leading_bits:
  assumes "length ns = length bs" and "p \<le> 8 * length bs"
  shows "contains \<lparr>cidr_network = ns, cidr_prefix = p\<rparr> bs \<longleftrightarrow>
           octets_value bs div 2 ^ (8 * length bs - p) = octets_value ns div 2 ^ (8 * length bs - p)"
  using assms
proof (induction ns bs arbitrary: p rule: list_induct2)
  case Nil
  then show ?case by (simp add: contains_def)
next
  case (Cons n ns b bs)
  have len: "8 * length (b # bs) = 8 * length bs + 8" by simp
  note less = octets_value_less [of ns, unfolded Cons.hyps] octets_value_less [of bs]
  show ?case
  proof (cases "8 \<le> p")
    case True
    then have "8 * length (b # bs) - p \<le> 8 * length bs" and k: "8 * length (b # bs) - p = 8 * length bs - (p - 8)"
      using Cons.prems by simp_all
    then show ?thesis using True Cons.prems Cons.IH [of "p - 8"] less
      by (auto simp: contains_Cons high_part_eq Cons.hyps word_unat_eq_iff)
  next
    case False
    then have k: "8 * length (b # bs) - p = 8 * length bs + (8 - p)" by simp
    have high: "octets_value (c # cs) div 2 ^ (8 * length (b # bs) - p) = unat c div 2 ^ (8 - p)"
      if "length cs = length bs" for c cs
      unfolding k using high_part_only [OF octets_value_less [of cs], of "unat c" "8 - p"] that by simp
    have "unat w div 256 = 0" for w :: octet using unsigned_less [of w, where ?'a = nat] by simp
    then show ?thesis unfolding high [OF Cons.hyps] high [OF refl]
      using False masked_octet_eq [of "8 - p" n b] by (auto simp: contains_Cons)
  qed
qed

subsection \<open>The tables\<close>

lemma replicate_numeral: "replicate (numeral k) x = x # replicate (pred_numeral k) x"
  by (simp add: numeral_eq_Suc)

lemmas character_tests =
  is_ipv6_char_def is_hex_def is_hex_lower_def is_digit_def byte_def hex_value_def ascii_lower_char_def

lemmas address_parsing =
  parseIp_def parseIpv6_def parseIpv4_def ipv4_part_def dotted_tail_def parseHextets_def hextet_def
  digits_value_def join_groups_def word_octets_def Let_def replicate_numeral character_tests

lemma ipv4_ranges:
  "cidrs V4 ipv4_table = Some
     (map (\<lambda>(net, p). \<lparr>cidr_network = net, cidr_prefix = p\<rparr>)
       [([0, 0, 0, 0], 8), ([10, 0, 0, 0], 8), ([100, 64, 0, 0], 10), ([127, 0, 0, 0], 8),
        ([169, 254, 0, 0], 16), ([172, 16, 0, 0], 12), ([192, 0, 0, 0], 24), ([192, 0, 2, 0], 24),
        ([192, 31, 196, 0], 24), ([192, 52, 193, 0], 24), ([192, 88, 99, 0], 24), ([192, 168, 0, 0], 16),
        ([192, 175, 48, 0], 24), ([198, 18, 0, 0], 15), ([198, 51, 100, 0], 24), ([203, 0, 113, 0], 24),
        ([224, 0, 0, 0], 4), ([240, 0, 0, 0], 4)])"
  by (simp add: cidrs_def ipv4_table_def cidr_def address_parsing)

lemma ipv6_ranges:
  "cidrs V6 ipv6_table = Some
     (map (\<lambda>(net, p). \<lparr>cidr_network = net, cidr_prefix = p\<rparr>)
       [(replicate 16 0, 128), (replicate 15 0 @ [1], 128), (replicate 16 0, 96),
        (replicate 10 0 @ [255, 255, 0, 0, 0, 0], 96), ([0, 100, 255, 155] @ replicate 12 0, 96),
        ([0, 100, 255, 155, 0, 1] @ replicate 10 0, 48), (1 # replicate 15 0, 64),
        ([1, 0, 0, 0, 0, 0, 0, 1] @ replicate 8 0, 64), ([32, 1] @ replicate 14 0, 23),
        ([32, 1, 13, 184] @ replicate 12 0, 32), ([32, 2] @ replicate 14 0, 16),
        ([38, 32, 0, 79, 128] @ replicate 11 0, 48), ([63, 255] @ replicate 14 0, 20),
        (95 # replicate 15 0, 16), (252 # replicate 15 0, 7), ([254, 128] @ replicate 14 0, 10),
        ([254, 192] @ replicate 14 0, 10), (255 # replicate 15 0, 8)])"
  by (simp add: cidrs_def ipv6_table_def cidr_def address_parsing)

lemma masked_64: "b AND 16320 = 64 \<longleftrightarrow> 64 \<le> b \<and> b < 128" for b :: octet
  using masked_octet_eq [of 6 b 64] unsigned_less [of b, where ?'a = nat]
  by (simp add: word_le_nat_alt word_less_nat_alt) linarith

lemma masked_16: "b AND 4080 = 16 \<longleftrightarrow> 16 \<le> b \<and> b < 32" for b :: octet
  using masked_octet_eq [of 4 b 16] by (simp add: word_le_nat_alt word_less_nat_alt) linarith

lemma masked_18: "b AND 510 = 18 \<longleftrightarrow> b = 18 \<or> b = 19" for b :: octet
  using masked_octet_eq [of 1 b 18] by (simp add: word_unat_eq_iff) linarith

lemma masked_224: "b AND 4080 = 224 \<or> b AND 4080 = 240 \<longleftrightarrow> 224 \<le> b" for b :: octet
  using masked_octet_eq [of 4 b 224] masked_octet_eq [of 4 b 240] unsigned_less [of b, where ?'a = nat]
  by (simp add: word_le_nat_alt) linarith

lemmas masked_range = masked_64 masked_16 masked_18 masked_224

lemma blocked_ipv4:
  fixes a b c d :: octet
  shows "isBlockedIp \<lparr>ip_family = V4, ip_bytes = [a, b, c, d]\<rparr> False \<longleftrightarrow>
     a = 0 \<or> a = 10 \<or> a = 127 \<or> 224 \<le> a
     \<or> a = 100 \<and> 64 \<le> b \<and> b < 128 \<or> a = 169 \<and> b = 254 \<or> a = 172 \<and> 16 \<le> b \<and> b < 32
     \<or> a = 192 \<and> (b = 0 \<and> (c = 0 \<or> c = 2) \<or> b = 31 \<and> c = 196 \<or> b = 52 \<and> c = 193 \<or> b = 88 \<and> c = 99
                  \<or> b = 168 \<or> b = 175 \<and> c = 48)
     \<or> a = 198 \<and> (b = 18 \<or> b = 19 \<or> b = 51 \<and> c = 100) \<or> a = 203 \<and> b = 0 \<and> c = 113"
proof -
  have "isBlockedIp \<lparr>ip_family = V4, ip_bytes = [a, b, c, d]\<rparr> False \<longleftrightarrow>
     a = 0 \<or> a = 10 \<or> a = 127 \<or> (a AND 4080 = 224 \<or> a AND 4080 = 240)
     \<or> a = 100 \<and> b AND 16320 = 64 \<or> a = 169 \<and> b = 254 \<or> a = 172 \<and> b AND 4080 = 16
     \<or> a = 192 \<and> (b = 0 \<and> (c = 0 \<or> c = 2) \<or> b = 31 \<and> c = 196 \<or> b = 52 \<and> c = 193 \<or> b = 88 \<and> c = 99
                  \<or> b = 168 \<or> b = 175 \<and> c = 48)
     \<or> a = 198 \<and> (b AND 510 = 18 \<or> b = 51 \<and> c = 100) \<or> a = 203 \<and> b = 0 \<and> c = 113"
    by (simp add: isBlockedIp_def isParsedIp_def IPV4_RANGES_def ipv4_ranges contains_Cons) (simp add: contains_def conj_disj_distribL disj_ac)
  then show ?thesis by (simp only: masked_range disj_assoc)
qed

subsection \<open>The texts of an address\<close>

lemma char_of_digit: "n < 10 \<Longrightarrow> hex_value (char_of (48 + n)) = n \<and> is_digit (char_of (48 + n))"
  by (simp add: hex_value_def is_digit_def byte_def)

lemma digit_char_value: "is_digit c \<Longrightarrow> hex_value c < 10 \<and> char_of (48 + hex_value c) = c"
  by (auto simp: hex_value_def is_digit_def byte_def)

lemma zero_digit [simp]: "char_of (48 :: nat) = CHR ''0''"
  by (simp add: char_of_def bit_Suc_0_iff)

lemma digits_value_snoc [simp]: "digits_value base (s @ [c]) = base * digits_value base s + hex_value c"
  by (simp add: digits_value_def)

lemma digits_value_Nil [simp]: "digits_value base [] = 0"
  by (simp add: digits_value_def)

lemma digits_value_decimal [simp]: "digits_value 10 (decimal n) = n"
proof (induction n rule: decimal.induct)
  case (1 n)
  show ?case
  proof (cases "n < 10")
    case True
    then show ?thesis using digits_value_snoc [of 10 "[]" "char_of (48 + n)"]
      by (simp add: decimal.simps [of n] char_of_digit)
  next
    case False
    with 1 show ?thesis by (simp add: decimal.simps [of n] char_of_digit)
  qed
qed

lemma decimal_shape: "decimal n \<noteq> [] \<and> list_all is_digit (decimal n) \<and> (hd (decimal n) = CHR ''0'' \<longleftrightarrow> n = 0)"
proof (induction n rule: decimal.induct)
  case (1 n)
  show ?case
  proof (cases "n < 10")
    case True
    have "char_of (48 + n) = CHR ''0'' \<longleftrightarrow> n = 0" using char_of_digit [OF True] by (cases "n = 0") (auto simp: hex_value_def is_digit_def byte_def)
    then show ?thesis using True by (simp add: decimal.simps [of n] char_of_digit)
  next
    case False
    with 1 show ?thesis by (auto simp: decimal.simps [of n] char_of_digit)
  qed
qed

lemma length_decimal: "n < 1000 \<Longrightarrow> length (decimal n) \<le> 3"
  by (simp add: decimal.simps [of n] decimal.simps [of "n div 10"] decimal.simps [of "n div 10 div 10"])

lemma decimal_digits_value:
  "s \<noteq> [] \<Longrightarrow> list_all is_digit s \<Longrightarrow> hd s \<noteq> CHR ''0'' \<Longrightarrow> decimal (digits_value 10 s) = s"
proof (induction s rule: rev_induct)
  case (snoc c t)
  have c: "hex_value c < 10" "char_of (48 + hex_value c) = c" using snoc.prems digit_char_value [of c] by simp_all
  show ?case
  proof (cases "t = []")
    case True
    then show ?thesis using c digits_value_snoc [of 10 "[]" c] by (simp add: decimal.simps [of "hex_value c"])
  next
    case False
    with snoc have ih: "decimal (digits_value 10 t) = t" by simp
    have "digits_value 10 t \<noteq> 0" using ih False snoc.prems decimal_shape [of 0] by (metis hd_append2)
    then show ?thesis using ih c by (simp add: decimal.simps [of "10 * digits_value 10 t + hex_value c"])
  qed
qed simp

lemma ipv4_part_iff: "ipv4_part part = Some w \<longleftrightarrow> part = decimal (unat w)"
proof
  assume some: "ipv4_part part = Some w"
  then have le: "digits_value 10 part \<le> 255" and w: "w = of_nat (digits_value 10 part)"
    by (auto simp: ipv4_part_def split: if_split_asm)
  then have "unat w = digits_value 10 part" by (simp add: unat_of_nat)
  moreover have "decimal (digits_value 10 part) = part"
  proof (cases "part = ''0''")
    case True
    then show ?thesis by (simp add: digits_value_def hex_value_def is_digit_def byte_def decimal.simps [of 0])
  next
    case False
    then show ?thesis using some by (intro decimal_digits_value) (auto simp: ipv4_part_def split: if_split_asm)
  qed
  ultimately show "part = decimal (unat w)" by simp
next
  assume part: "part = decimal (unat w)"
  have "unat w < 256" using unsigned_less [of w, where ?'a = nat] by simp
  then show "ipv4_part part = Some w"
    using decimal_shape [of "unat w"] length_decimal [of "unat w"]
      digits_value_decimal [of "unat w"]
    by (cases "unat w = 0") (simp_all add: part ipv4_part_def decimal.simps [of 0] word_unat_eq_iff del: digits_value_decimal)
qed

lemma all_some_iff: "all_some xs = Some ys \<longleftrightarrow> xs = map Some ys"
  by (induction xs arbitrary: ys) (auto split: option.splits)

lemma dot_no_digit: "CHR ''.'' \<notin> set (decimal n)"
  using decimal_shape [of n] by (auto simp: list_all_iff is_digit_def byte_def)

lemma parseIpv4_iff:
  "parseIpv4 s = Some bs \<longleftrightarrow> length bs = 4 \<and> s = join ''.'' (map (\<lambda>b. decimal (unat b)) bs)"
proof
  assume "parseIpv4 s = Some bs"
  then have len: "length (split_on (CHR ''.'') s) = 4" and parts: "map ipv4_part (split_on (CHR ''.'') s) = map Some bs"
    by (auto simp: parseIpv4_def Let_def all_some_iff split: if_split_asm)
  have "length bs = 4" using len parts by (metis length_map)
  moreover have "split_on (CHR ''.'') s = map (\<lambda>b. decimal (unat b)) bs"
    using parts by (auto simp: list_eq_iff_nth_eq ipv4_part_iff dest: map_eq_imp_length_eq)
  ultimately show "length bs = 4 \<and> s = join ''.'' (map (\<lambda>b. decimal (unat b)) bs)"
    by (metis join_split_on)
next
  assume "length bs = 4 \<and> s = join ''.'' (map (\<lambda>b. decimal (unat b)) bs)"
  moreover from this have "split_on (CHR ''.'') s = map (\<lambda>b. decimal (unat b)) bs"
    by (auto intro!: split_on_join simp: dot_no_digit)
  ultimately show "parseIpv4 s = Some bs"
    by (simp add: parseIpv4_def all_some_iff ipv4_part_iff)
qed

subsection \<open>IPv4 addresses embedded in IPv6 ones\<close>

lemma hex_number_shape: "hex_number n \<noteq> [] \<and> list_all is_hex_lower (hex_number n)"
proof (induction n rule: hex_number.induct)
  case (1 n)
  then show ?case by (cases "n < 16") (simp_all add: hex_number.simps [of n] nibble_hex)
qed

lemma nibble_value: "n < 16 \<Longrightarrow> hex_value (nibble n) = n"
  by (auto simp: nibble_def hex_value_def is_digit_def byte_def)

lemma digits_value_hex_number [simp]: "digits_value 16 (hex_number n) = n"
proof (induction n rule: hex_number.induct)
  case (1 n)
  show ?case
  proof (cases "n < 16")
    case True
    then show ?thesis using digits_value_snoc [of 16 "[]" "nibble n"] by (simp add: hex_number.simps [of n] nibble_value)
  next
    case False
    with 1 show ?thesis by (simp add: hex_number.simps [of n] nibble_value)
  qed
qed

lemma length_hex_number: "n < 65536 \<Longrightarrow> length (hex_number n) \<le> 4"
  by (simp add: hex_number.simps [of n] hex_number.simps [of "n div 16"] hex_number.simps [of "n div 16 div 16"]
      hex_number.simps [of "n div 16 div 16 div 16"])

lemma lower_hex: "list_all is_hex_lower s \<Longrightarrow> map ascii_lower_char s = s"
  by (induction s) (auto simp: ascii_lower_char_def is_hex_lower_def is_digit_def)

lemma hextet_hex_number: "hextet (hex_number (unat w)) = Some w"
proof -
  have "unat w < 65536" using unsigned_less [of w, where ?'a = nat] by simp
  moreover have "list_all is_hex (hex_number (unat w))"
    using hex_number_shape [of "unat w"] by (auto simp: list_all_iff is_hex_lower_hex)
  ultimately show ?thesis
    using hex_number_shape [of "unat w"] length_hex_number [of "unat w"] by (simp add: hextet_def lower_hex)
qed

lemma hex_no_colon: "CHR '':'' \<notin> set (hex_number n)"
  using hex_number_shape [of n] by (auto simp: list_all_iff is_hex_lower_def is_digit_def byte_def)

lemma split_last_append: "c \<notin> set b \<Longrightarrow> split_last c (a @ c # b) = Some (a, b)"
proof -
  assume "c \<notin> set b"
  then have "split_last c b = None" by (induction b) auto
  then show ?thesis by (induction a) auto
qed

lemma groups_of_octets:
  fixes a b :: octet
  shows "word_octets (push_bit 8 (ucast a) OR ucast b) = [a, b]"
proof -
  have m: "(0xff :: 16 word) = mask 8" by (simp add: mask_eq_exp_minus_1)
  have "ucast (drop_bit 8 (push_bit 8 (ucast a) OR ucast b :: 16 word)) = a"
    by (rule bit_word_eqI) (auto simp: bit_simps dest: bit_imp_le_length)
  moreover have "ucast ((push_bit 8 (ucast a) OR ucast b :: 16 word) AND 0xff) = b"
    by (rule bit_word_eqI) (auto simp: m bit_simps)
  ultimately show ?thesis by (simp add: word_octets_def)
qed

lemma parse_mapped:
  "parseIpv6 (''::ffff:'' @ join ''.'' (map (\<lambda>x. decimal (unat x)) [a, b, c, d]))
     = Some (replicate 10 0 @ [0xff, 0xff, a, b, c, d])"
proof -
  define dotted where "dotted = join ''.'' (map (\<lambda>x. decimal (unat x)) [a, b, c, d])"
  let ?high = "hex_number (unat (push_bit 8 (ucast a) OR ucast b :: 16 word))"
  let ?low = "hex_number (unat (push_bit 8 (ucast c) OR ucast d :: 16 word))"
  let ?text = "''::ffff:'' @ ?high @ '':'' @ ?low"
  have digits: "is_digit x \<or> x = CHR ''.''" if "x \<in> set dotted" for x
    using that decimal_shape by (auto simp: dotted_def list_all_iff)
  then have "CHR '':'' \<notin> set dotted" by (fastforce simp: is_digit_def byte_def)
  then have split: "split_last (CHR '':'') (''::ffff:'' @ dotted) = Some (''::ffff'', dotted)"
    using split_last_append [of "CHR '':''" dotted "''::ffff''"] by simp
  have "parseIpv4 dotted = Some [a, b, c, d]" by (subst parseIpv4_iff) (simp add: dotted_def)
  moreover have "CHR ''.'' \<in> set dotted" by (simp add: dotted_def)
  ultimately have tail: "dotted_tail (''::ffff:'' @ dotted) = Some ?text"
    using split by (simp add: dotted_tail_def Let_def del: split_last.simps)
  have chars: "list_all is_ipv6_char (''::ffff:'' @ dotted)"
    using digits by (fastforce simp: list_all_iff is_ipv6_char_def is_hex_def is_hex_lower_def is_digit_def byte_def)
  have none: "last_index_of ''::'' t = None" if "CHR '':'' \<notin> set t" for t
    using that by (induction t) (auto split: list.splits)
  have front: "last_index_of ''::'' (s @ CHR '':'' # t) = None"
    if "CHR '':'' \<notin> set s" and "last_index_of ''::'' t = None" and "\<not> startsWith t '':''" for s t
    using that by (induction s) (auto split: list.splits)
  have hd: "\<not> startsWith (hex_number n @ t) '':''" for n t
    using hex_number_shape [of n] hex_no_colon [of n] by (cases "hex_number n") auto
  have "last_index_of ''::'' (?high @ '':'' @ ?low) = None"
    using front [OF hex_no_colon none [OF hex_no_colon]] hd [of _ "[]"] by simp
  then have "last_index_of ''::'' (''ffff'' @ CHR '':'' # ?high @ '':'' @ ?low) = None"
    using hd by (intro front) auto
  then have last: "last_index_of ''::'' ?text = Some 0" by simp
  have groups: "parseHextets (''ffff'' @ CHR '':'' # ?high @ CHR '':'' # ?low)
      = Some [0xffff, push_bit 8 (ucast a) OR ucast b, push_bit 8 (ucast c) OR ucast d]"
    by (simp add: parseHextets_def split_on_append split_on_no_sep hex_no_colon hextet_hex_number)
      (simp add: hextet_def digits_value_def character_tests)
  have first: "index_of ''::'' ?text = Some 0"
    and halves: "split_at ''::'' ?text = Some ([], ''ffff'' @ CHR '':'' # ?high @ CHR '':'' # ?low)"
    and empty: "parseHextets [] = Some []" and there: "''::ffff:'' @ dotted \<noteq> []"
    by (simp_all add: parseHextets_def)
  have "parseIpv6 (''::ffff:'' @ dotted)
      = join_groups True [] [0xffff, push_bit 8 (ucast a) OR ucast b, push_bit 8 (ucast c) OR ucast d]"
    unfolding parseIpv6_def
    by (simp only: there chars tail first last halves empty groups option.case prod.case if_False simp_thms)
  then show ?thesis
    unfolding dotted_def [symmetric]
    by (simp add: join_groups_def Let_def groups_of_octets replicate_numeral) (simp add: word_octets_def)
qed

subsection \<open>What is blocked\<close>

definition table_of :: "ip_family \<Rightarrow> CidrRange list" where
  "table_of f = (case f of V4 \<Rightarrow> IPV4_RANGES | V6 \<Rightarrow> IPV6_RANGES)"

definition same_leading_bits :: "nat \<Rightarrow> octet list \<Rightarrow> octet list \<Rightarrow> bool" where
  "same_leading_bits p xs ys =
     (octets_value xs div 2 ^ (8 * length xs - p) = octets_value ys div 2 ^ (8 * length xs - p))"

lemma table_shape:
  "r \<in> set (table_of f) \<Longrightarrow>
     length (cidr_network r) = (case f of V4 \<Rightarrow> 4 | V6 \<Rightarrow> 16) \<and> cidr_prefix r \<le> 8 * length (cidr_network r)"
  by (cases f) (auto simp: table_of_def IPV4_RANGES_def IPV6_RANGES_def ipv4_ranges ipv6_ranges)

lemma contains_in_table:
  assumes "isParsedIp ip" and "r \<in> set (table_of (ip_family ip))"
  shows "contains r (ip_bytes ip) \<longleftrightarrow> same_leading_bits (cidr_prefix r) (ip_bytes ip) (cidr_network r)"
  using table_shape [OF assms(2)] assms(1) contains_leading_bits [of "cidr_network r" "ip_bytes ip" "cidr_prefix r"]
  by (cases r) (auto simp: isParsedIp_def same_leading_bits_def)

text \<open>
  C33. An address is refused exactly when it is in one of the listed ranges: the octet-wise masked comparison
  is equality of the leading bits of the whole 32-bit or 128-bit number, for every range of the tables.
\<close>

theorem blocked_iff_in_range:
  assumes "isParsedIp ip"
  shows "isBlockedIp ip False \<longleftrightarrow>
    (\<exists>r \<in> set (table_of (ip_family ip)). same_leading_bits (cidr_prefix r) (ip_bytes ip) (cidr_network r))"
  using assms contains_in_table [OF assms]
  by (auto simp: isBlockedIp_def list_ex_iff table_of_def)

theorem blocked_iff_in_range_witness:
  "isBlockedIp \<lparr>ip_family = V4, ip_bytes = [169, 254, 169, 254]\<rparr> False \<longleftrightarrow>
    (\<exists>r \<in> set (table_of V4). same_leading_bits (cidr_prefix r) [169, 254, 169, 254] (cidr_network r))"
  using blocked_iff_in_range [of "\<lparr>ip_family = V4, ip_bytes = [169, 254, 169, 254]\<rparr>"] by (simp add: isParsedIp_def)

text \<open>
  The IPv4 addresses refused are exactly those of the special-purpose networks: this host, private,
  shared, loopback unless allowed, link-local, protocol assignments, documentation, benchmarking, relays,
  multicast and reserved.
\<close>

theorem ipv4_refused_networks:
  "isBlockedIp \<lparr>ip_family = V4, ip_bytes = [a, b, c, d]\<rparr> allowLoopback \<longleftrightarrow>
     a = 0 \<or> a = 10 \<or> a = 127 \<and> \<not> allowLoopback \<or> 224 \<le> a
     \<or> a = 100 \<and> 64 \<le> b \<and> b < 128 \<or> a = 169 \<and> b = 254 \<or> a = 172 \<and> 16 \<le> b \<and> b < 32
     \<or> a = 192 \<and> (b = 0 \<and> (c = 0 \<or> c = 2) \<or> b = 31 \<and> c = 196 \<or> b = 52 \<and> c = 193 \<or> b = 88 \<and> c = 99
                  \<or> b = 168 \<or> b = 175 \<and> c = 48)
     \<or> a = 198 \<and> (b = 18 \<or> b = 19 \<or> b = 51 \<and> c = 100) \<or> a = 203 \<and> b = 0 \<and> c = 113"
proof (cases "allowLoopback \<and> a = 127")
  case True
  then show ?thesis by (simp add: isBlockedIp_def isParsedIp_def loopback_ip_def octet_at_def word_le_nat_alt)
next
  case False
  then have "isBlockedIp \<lparr>ip_family = V4, ip_bytes = [a, b, c, d]\<rparr> allowLoopback
      = isBlockedIp \<lparr>ip_family = V4, ip_bytes = [a, b, c, d]\<rparr> False"
    by (auto simp: isBlockedIp_def isParsedIp_def loopback_ip_def octet_at_def)
  moreover have "a = 127 \<and> \<not> allowLoopback \<longleftrightarrow> a = 127" using False by auto
  ultimately show ?thesis by (simp only: blocked_ipv4)
qed

text \<open>
  Each IPv4 address has exactly one accepted text, its four octets in decimal without leading zeros, so
  no other spelling (octal, short, padded) can hide an address from the blocklist.
\<close>

theorem ipv4_text_canonical:
  "parseIpv4 s = Some bs \<longleftrightarrow> length bs = 4 \<and> s = join ''.'' (map (\<lambda>b. decimal (unat b)) bs)"
  by (rule parseIpv4_iff)

lemma mapped_blocked: "isBlockedIp \<lparr>ip_family = V6, ip_bytes = replicate 10 0 @ [0xff, 0xff, a, b, c, d]\<rparr> allow"
  by (simp add: isBlockedIp_def isParsedIp_def loopback_ip_def isIpv6Loopback_def IPV6_RANGES_def ipv6_ranges
      replicate_numeral contains_Cons octet_at_def upt_rec)

text \<open>
  An IPv4 address cannot be smuggled in as an IPv6 one: every IPv4-mapped address, written with its
  dotted tail, parses to the address it denotes and is refused, even when loopback is allowed.
\<close>

theorem mapped_address_refused:
  "parseIp (''::ffff:'' @ join ''.'' (map (\<lambda>x. decimal (unat x)) [a, b, c, d]))
     = Some \<lparr>ip_family = V6, ip_bytes = replicate 10 0 @ [0xff, 0xff, a, b, c, d]\<rparr>
   \<and> isBlockedAddress (''::ffff:'' @ join ''.'' (map (\<lambda>x. decimal (unat x)) [a, b, c, d])) allowLoopback"
proof -
  define spelled where "spelled = ''::ffff:'' @ join ''.'' (map (\<lambda>x. decimal (unat x)) [a, b, c, d])"
  have v6: "parseIpv6 spelled = Some (replicate 10 0 @ [0xff, 0xff, a, b, c, d])"
    unfolding spelled_def by (rule parse_mapped)
  have shape: "CHR '':'' \<in> set spelled \<and> spelled \<noteq> []" by (simp add: spelled_def)
  have digit: "is_digit x" if "x \<in> set (decimal n)" for x n
    using that decimal_shape [of n] by (simp add: list_all_iff)
  have "parseIpv4 spelled = None"
  proof (rule ccontr)
    assume "parseIpv4 spelled \<noteq> None"
    then obtain bs where "parseIpv4 spelled = Some bs" by blast
    then have "spelled = join ''.'' (map (\<lambda>b. decimal (unat b)) bs)" by (simp add: parseIpv4_iff)
    moreover have "set (join ''.'' xs) \<subseteq> insert (CHR ''.'') (\<Union> (set ` set xs))" for xs
      by (induction "''.''" xs rule: join.induct) auto
    ultimately have "set spelled \<subseteq> insert (CHR ''.'') (\<Union> (set ` set (map (\<lambda>b. decimal (unat b)) bs)))"
      by metis
    then have "is_digit x \<or> x = CHR ''.''" if "x \<in> set spelled" for x using that digit by auto
    with shape show False by (fastforce simp: is_digit_def byte_def)
  qed
  moreover have "CHR ''%'' \<notin> set spelled"
    using digit by (fastforce simp: spelled_def is_digit_def byte_def)
  ultimately have "parseIp spelled = Some \<lparr>ip_family = V6, ip_bytes = replicate 10 0 @ [0xff, 0xff, a, b, c, d]\<rparr>"
    using v6 shape by (simp add: parseIp_def)
  then show ?thesis unfolding spelled_def [symmetric] by (simp only: isBlockedAddress_def option.case mapped_blocked)
qed

end
