(* ===== verification/Cimd_Fetch_Laws.thy ===== *)
theory Cimd_Fetch_Laws
  imports Cimd_Fetch Cimd_Addresses
begin

section \<open>What the guarded fetch guarantees\<close>

text \<open>
  Whatever the resolver, the transport and the clock do: where a request can go, what an accepted
  document has passed, and which failures leave the fetcher.
\<close>

lemma admit_Inr:
  assumes "admitCimdUrl parseFull raw allow = Inr admitted"
  shows "au_raw admitted = raw \<and> raw_spelling_ok raw
    \<and> (\<exists>u. parseFull raw = Some u \<and> url_protocol u = ''https:'' \<and> url_username u = [] \<and> url_password u = []
          \<and> url_hostname u = au_hostname admitted)
    \<and> parseIp (au_hostname admitted) = None \<and> (localhost_name (au_hostname admitted) \<longrightarrow> allow)
    \<and> 1 \<le> au_port admitted \<and> au_port admitted \<le> 65535 \<and> au_port admitted \<notin> set DENIED_PORTS"
proof -
  have "admit parseFull raw allow = Inr admitted" using assms by (simp add: admitCimdUrl_def)
  then obtain authority u where "raw_spelling_ok raw" and "parseFull raw = Some u"
    and parsed: "admit_parsed raw authority allow u = Inr admitted"
    by (auto simp: admit_def Let_def result_simps split: if_splits option.splits)
  then show ?thesis unfolding admit_parsed_Inr by (elim conjE exE) simp
qed

lemma guarded_fetch_request:
  assumes "guarded_fetch parseFull parseJson allow maxBytes raw w = (requests, result)" and "request \<in> set requests"
  obtains admitted u target where "admitCimdUrl parseFull raw allow = Inr admitted"
    and "parseFull (au_raw admitted) = Some u" and "checked_target allow admitted w = Inr target"
    and "requests = [connect_to admitted u target]" and "request = connect_to admitted u target"
  using assms
  by (auto simp: guarded_fetch_def fetchWithDeadline_def fetchOnce_def Let_def split: sum.splits option.splits)

text \<open>
  C26. Whatever the DNS answers, at most one request is made, to an admitted https URL on a port that is not
  denied, and the address connected to is the one that was checked: every address of the answer lies
  outside the blocked ranges, or is loopback for a localhost name where the configuration allows it.
\<close>

theorem fetch_stays_outside:
  assumes "guarded_fetch parseFull parseJson allowLoopback maxBytes raw w = (requests, result)"
    and "request \<in> set requests"
  shows "requests = [request] \<and> startsWith raw ''https://''
    \<and> 1 \<le> cr_port request \<and> cr_port request \<le> 65535 \<and> cr_port request \<notin> set DENIED_PORTS
    \<and> parseIp (cr_servername request) = None
    \<and> (\<exists>answer addresses. fw_resolve w (cr_servername request) = Inr answer
        \<and> validateAnswer answer = Inr addresses \<and> addresses \<noteq> []
        \<and> cr_connectIp request = ra_address (hd addresses)
        \<and> (\<forall>a \<in> set addresses. parseIp (ra_address a) = Some (ra_parsed a)
             \<and> (\<not> isBlockedIp (ra_parsed a) False
                \<or> allowLoopback \<and> localhost_name (cr_servername request) \<and> loopback_ip (ra_parsed a))))"
proof -
  obtain admitted u target where admitted: "admitCimdUrl parseFull raw allowLoopback = Inr admitted"
    and target: "checked_target allowLoopback admitted w = Inr target"
    and only: "requests = [connect_to admitted u target]" "request = connect_to admitted u target"
    using guarded_fetch_request [OF assms] by metis
  obtain answer addresses where dns: "fw_resolve w (au_hostname admitted) = Inr answer"
    "validateAnswer answer = Inr addresses" "addresses \<noteq> []" "target = hd addresses"
    and safe: "\<And>a. a \<in> set addresses \<Longrightarrow> parseIp (ra_address a) = Some (ra_parsed a)"
      "\<And>a. a \<in> set addresses \<Longrightarrow>
         \<not> isBlockedIp (ra_parsed a) False \<or> allowLoopback \<and> localhost_name (au_hostname admitted) \<and> loopback_ip (ra_parsed a)"
    using checked_target_Inr [OF target] by metis
  have "cr_servername request = au_hostname admitted" "cr_port request = au_port admitted"
    "cr_connectIp request = ra_address target"
    by (simp_all add: only connect_to_def)
  with admit_Inr [OF admitted] dns safe only show ?thesis by (auto simp: raw_spelling_ok_def)
qed

subsection \<open>An accepted document\<close>

lemma one_json_type_only: "one_json_type h \<Longrightarrow> \<exists>v. h = Header_values [v] \<and> isJsonMediaType v"
  by (cases h) (auto simp: one_json_type_def split: list.splits)

lemma read_chunks_Inr:
  "read_chunks maxBytes sofar chunks = Inr bytes \<Longrightarrow>
     (\<exists>parts. chunks = map Bytes parts \<and> bytes = sofar @ concat parts) \<and> (chunks \<noteq> [] \<longrightarrow> int (length bytes) \<le> maxBytes)"
proof (induction maxBytes sofar chunks rule: read_chunks.induct)
  case (3 maxBytes sofar b cs)
  then have fits: "int (length sofar + length b) \<le> maxBytes" and rest: "read_chunks maxBytes (sofar @ b) cs = Inr bytes"
    by (auto split: if_splits)
  with 3 obtain parts where "cs = map Bytes parts" "bytes = (sofar @ b) @ concat parts"
    and le: "cs \<noteq> [] \<longrightarrow> int (length bytes) \<le> maxBytes" by fastforce
  then have "Bytes b # cs = map Bytes (b # parts) \<and> bytes = sofar @ concat (b # parts)" by simp
  moreover have "int (length bytes) \<le> maxBytes"
    using le fits rest by (cases cs) auto
  ultimately show ?case by (metis (no_types))
qed auto

lemma readBody_Inr:
  assumes "readBody maxBytes body = Inr decoded" and "0 \<le> maxBytes"
  obtains parts where "body = Stream (map Bytes parts) None" and "int (length (concat parts)) \<le> maxBytes"
    and "decode_body (concat parts) = Some decoded"
proof -
  from assms(1) obtain chunks bytes where body: "body = Stream chunks None" "read_chunks maxBytes [] chunks = Inr bytes"
    "decode_body bytes = Some decoded"
    by (auto simp: readBody_def result_simps split: body_stream.splits option.splits)
  from read_chunks_Inr [OF body(2)] obtain parts where "chunks = map Bytes parts" "bytes = concat parts"
    "chunks \<noteq> [] \<longrightarrow> int (length bytes) \<le> maxBytes" by auto
  with body assms(2) show thesis by (intro that [of parts]) auto
qed

lemma validated_client_id: "validateCimdDocument p j b raw = Inr d \<Longrightarrow> cd_client_id d = raw"
  by (auto simp: validateCimdDocument_def validate_members_def result_simps split: option.splits jsval.splits if_splits)

lemma guarded_fetch_client_id:
  assumes "guarded_fetch parseFull parseJson allowLoopback maxBytes raw w = (requests, Inr fetched)"
  shows "cd_client_id (fr_document fetched) = raw"
proof -
  obtain admitted where admitted: "admitCimdUrl parseFull raw allowLoopback = Inr admitted"
    and "fetchWithDeadline parseFull parseJson allowLoopback maxBytes admitted w = (requests, Inr fetched)"
    using assms by (auto simp: guarded_fetch_def split: sum.splits)
  then obtain response where "check_response parseFull parseJson maxBytes admitted response = Inr fetched"
    by (auto simp: fetchWithDeadline_def fetchOnce_def Let_def result_simps split: prod.splits if_splits sum.splits option.splits)
  then have "cd_client_id (fr_document fetched) = au_raw admitted"
    by (auto simp: check_response_def result_simps dest: validated_client_id)
  then show ?thesis using admit_Inr [OF admitted] by simp
qed

text \<open>
  C27. A document is accepted only from a response that was not redirected, has status 200, one JSON content
  type and no content encoding, and a body of at most the configured bytes that is valid UTF-8, before
  the deadline; it is what the validation of that text gives, for the presented identifier.
\<close>

theorem accepted_document_checked:
  assumes "guarded_fetch parseFull parseJson allowLoopback maxBytes raw w = (requests, Inr fetched)"
    and "0 \<le> maxBytes"
  shows "\<not> fw_expired w \<and> cd_client_id (fr_document fetched) = raw
    \<and> (\<exists>request response parts text. requests = [request] \<and> fw_connect w request = Inr response
        \<and> tr_redirected response = Boolean False \<and> tr_status response = Number (Whole 200)
        \<and> (\<exists>v. headerValues (tr_headers response) ''content-type'' = Inr (Header_values [v]) \<and> isJsonMediaType v)
        \<and> headerValues (tr_headers response) ''content-encoding'' = Inr Absent_header
        \<and> tr_body response = Stream (map Bytes parts) None \<and> int (length (concat parts)) \<le> maxBytes
        \<and> decode_body (concat parts) = Some text
        \<and> validateCimdDocument (shared_parser parseFull) parseJson text raw = Inr (fr_document fetched))"
proof -
  obtain admitted where admitted: "admitCimdUrl parseFull raw allowLoopback = Inr admitted"
    and deadline: "fetchWithDeadline parseFull parseJson allowLoopback maxBytes admitted w = (requests, Inr fetched)"
    using assms(1) by (auto simp: guarded_fetch_def split: sum.splits)
  have raw: "au_raw admitted = raw" using admit_Inr [OF admitted] by simp
  have intime: "\<not> fw_expired w" and once: "fetchOnce parseFull parseJson allowLoopback maxBytes admitted w = (requests, Inr fetched)"
    using deadline by (auto simp: fetchWithDeadline_def split: prod.splits if_splits)
  obtain request response where request: "requests = [request]" "fw_connect w request = Inr response"
    and response: "check_response parseFull parseJson maxBytes admitted response = Inr fetched"
    using once by (auto simp: fetchOnce_def Let_def result_simps split: sum.splits option.splits)
  obtain body view where checks: "tr_redirected response = Boolean False" "tr_status response = Number (Whole 200)"
    "\<exists>h. headerValues (tr_headers response) ''content-type'' = Inr h \<and> one_json_type h"
    "headerValues (tr_headers response) ''content-encoding'' = Inr Absent_header"
    and body: "readBody maxBytes (tr_body response) = Inr body"
    and document: "validateCimdDocument (shared_parser parseFull) parseJson body raw = Inr (fr_document fetched)"
    using response unfolding check_response_def by (auto simp: result_simps raw)
  have "cd_client_id (fr_document fetched) = raw" using guarded_fetch_client_id [OF assms(1)] .
  moreover have "\<exists>v. headerValues (tr_headers response) ''content-type'' = Inr (Header_values [v]) \<and> isJsonMediaType v"
    using checks(3) one_json_type_only by fastforce
  moreover obtain parts where "tr_body response = Stream (map Bytes parts) None" "int (length (concat parts)) \<le> maxBytes"
    "decode_body (concat parts) = Some body"
    using readBody_Inr [OF body assms(2)] by metis
  ultimately show ?thesis using intime request checks document by blast
qed

lemma guarded_fetch_errors:
  assumes "guarded_fetch parseFull parseJson allowLoopback maxBytes raw w = (requests, Inl e)"
  shows "is_cimd_error e"
proof (cases "admitCimdUrl parseFull raw allowLoopback")
  case (Inl e')
  then have "e = e'" using assms by (simp add: guarded_fetch_def)
  with Inl show ?thesis
    by (auto simp: admitCimdUrl_def rethrow_def is_cimd_error_def denied_def cimdError_def
        split: sum.splits failure.splits if_splits)
next
  case (Inr admitted)
  then show ?thesis using assms
    by (auto simp: guarded_fetch_def fetchWithDeadline_def is_cimd_error_def cimdError_def rethrow_def
        split: prod.splits if_splits sum.splits failure.splits)
qed

text \<open>
  Every failure that leaves the fetcher is a \<open>CimdError\<close>: whatever the resolver, the transport or the
  body stream threw has been replaced.
\<close>

theorem fetch_failure_is_typed:
  assumes "guarded_fetch parseFull parseJson allowLoopback maxBytes raw w = (requests, Inl e)"
  shows "is_cimd_error e"
  using assms by (rule guarded_fetch_errors)

subsection \<open>A fetch that succeeds\<close>

definition page_url :: full_url where
  "page_url = \<lparr>url_href = ''https://app.example/c'', url_protocol = ''https:'', url_hostname = ''app.example'',
     url_host = ''app.example'', url_pathname = ''/c'', url_search = [], url_origin = ''https://app.example'',
     url_username = [], url_password = [], url_port = [], url_hash = []\<rparr>"

definition page_parser :: full_url_parser where
  "page_parser s =
     (if s = ''https://app.example/c'' then Some page_url
      else if s = ''https://app.example/cb''
      then Some (page_url\<lparr>url_href := ''https://app.example/cb'', url_pathname := ''/cb''\<rparr>) else None)"

definition page_json :: json_parser where
  "page_json s =
     (if s = ''doc'' then Some (Obj [(''client_id'', Str ''https://app.example/c''), (''client_name'', Str ''App''),
                                     (''redirect_uris'', Arr [Str ''https://app.example/cb''])]) else None)"

definition page_world :: fetch_world where
  "page_world =
     \<lparr>fw_resolve = (\<lambda>_. Inr (Arr [Obj [(''address'', Str ''93.184.216.34''), (''family'', Number (Whole 4))]])),
      fw_connect = (\<lambda>_. Inr \<lparr>tr_status = Number (Whole 200), tr_redirected = Boolean False,
        tr_finalUrl = Str ''https://app.example/c'',
        tr_headers = Obj [(''content-type'', Arr [Str ''application/json'']), (''cache-control'', Arr [Str ''max-age=300''])],
        tr_body = Stream [Bytes ''do'', Bytes ''c''] None\<rparr>),
      fw_expired = False\<rparr>"

definition page_request :: connect_request where
  "page_request = \<lparr>cr_connectIp = ''93.184.216.34'', cr_family = V4, cr_port = 443, cr_servername = ''app.example'',
     cr_hostHeader = ''app.example'', cr_requestTarget = ''/c''\<rparr>"

definition page_document :: CimdDocument where
  "page_document = \<lparr>cd_client_id = ''https://app.example/c'', cd_client_name = ''App'',
     cd_redirect_uris = [''https://app.example/cb''], cd_application_type = None, cd_selectedClientAuthMethod = None,
     cd_raw = [(''client_id'', Str ''https://app.example/c''), (''client_name'', Str ''App''),
               (''redirect_uris'', Arr [Str ''https://app.example/cb''])]\<rparr>"

lemma page_admitted:
  "admitCimdUrl page_parser ''https://app.example/c'' False
     = Inr \<lparr>au_raw = ''https://app.example/c'', au_hostname = ''app.example'', au_port = 443\<rparr>"
proof -
  have "raw_spelling_ok ''https://app.example/c''"
    by (simp add: raw_spelling_ok_def outer_blank_def ws1_def is_control_def byte_def ascii_lower_char_def)
  moreover have "assertNoDotSegments ''/c'' = Inr ()"
    by (simp add: assertNoDotSegments_def decodeURIComponent.simps)
  moreover have "admit_parsed ''https://app.example/c'' ''app.example'' False page_url
      = Inr \<lparr>au_raw = ''https://app.example/c'', au_hostname = ''app.example'', au_port = 443\<rparr>"
    by (simp add: admit_parsed_Inr page_url_def utf16_length_def utf16_units_def extractRawHost_def is_ascii_def
        has_a_label_def localhost_name_def endsWith_def port_of_def DENIED_PORTS_def to_lower_def address_parsing)
  ultimately show ?thesis by (simp add: admitCimdUrl_def admit_def Let_def page_parser_def)
qed

lemma page_target:
  "checked_target False \<lparr>au_raw = ''https://app.example/c'', au_hostname = ''app.example'', au_port = 443\<rparr> page_world
     = Inr \<lparr>ra_address = ''93.184.216.34'', ra_family = V4,
           ra_parsed = \<lparr>ip_family = V4, ip_bytes = [93, 184, 216, 34]\<rparr>\<rparr>"
  by (simp add: checked_target_def page_world_def validateAnswer_def resolved_entry_def own_def family_of_def
      check_addresses_def blocked_ipv4 address_parsing)

definition page_result :: CimdFetchResult where
  "page_result = \<lparr>fr_document = page_document,
     fr_cacheView = Some \<lparr>cv_valid = True, cv_cacheControl = Some [''max-age=300''], cv_age = None, cv_date = None, cv_vary = None\<rparr>\<rparr>"

lemma page_response:
  "chain (fw_connect page_world page_request)
     (check_response page_parser page_json 5120
        \<lparr>au_raw = ''https://app.example/c'', au_hostname = ''app.example'', au_port = 443\<rparr>) = Inr page_result"
  by code_simp

lemma page_run: "guarded_fetch page_parser page_json False 5120 ''https://app.example/c'' page_world = ([page_request], Inr page_result)"
proof -
  have "page_parser ''https://app.example/c'' = Some page_url" by (simp add: page_parser_def)
  moreover have "connect_to \<lparr>au_raw = ''https://app.example/c'', au_hostname = ''app.example'', au_port = 443\<rparr> page_url
      \<lparr>ra_address = ''93.184.216.34'', ra_family = V4, ra_parsed = \<lparr>ip_family = V4, ip_bytes = [93, 184, 216, 34]\<rparr>\<rparr>
      = page_request"
    by (simp add: connect_to_def page_url_def page_request_def)
  moreover have "\<not> fw_expired page_world" by (simp add: page_world_def)
  ultimately show ?thesis
    by (simp add: guarded_fetch_def page_admitted fetchWithDeadline_def fetchOnce_def page_target page_response)
qed

theorem fetch_stays_outside_witness:
  "cr_port page_request \<notin> set DENIED_PORTS \<and> startsWith ''https://app.example/c'' ''https://''"
  using fetch_stays_outside [OF page_run] by simp

theorem accepted_document_checked_witness: "cd_client_id (fr_document page_result) = ''https://app.example/c''"
  using accepted_document_checked [OF page_run] by simp

theorem fetch_failure_is_typed_witness: "is_cimd_error (cimdError ''timeout'')"
proof -
  have "guarded_fetch page_parser page_json False 5120 ''https://app.example/c'' (page_world\<lparr>fw_expired := True\<rparr>)
      = (fst (fetchWithDeadline page_parser page_json False 5120
          \<lparr>au_raw = ''https://app.example/c'', au_hostname = ''app.example'', au_port = 443\<rparr> (page_world\<lparr>fw_expired := True\<rparr>)),
         Inl (cimdError ''timeout''))"
    by (simp add: guarded_fetch_def page_admitted fetchWithDeadline_def split: prod.splits)
  then show ?thesis by (rule fetch_failure_is_typed)
qed

end
