(* ===== verification/Cimd_Resolver_Laws.thy ===== *)
theory Cimd_Resolver_Laws
  imports Cimd_Resolver Cimd_Cache_Laws Cimd_Fetch_Laws
begin

section \<open>What the resolution service guarantees\<close>

text \<open>
  Invariants of the reachable states of the service under every interleaving of its callers: one fetch
  per identifier, bounded fetches and followers, exact follower counts, documents that belong to the
  identifier they are kept under; then termination and the absence of leaks once fetches settle, and the
  one error a client sees.
\<close>

subsection \<open>Counting\<close>

definition tally :: "('a \<Rightarrow> bool) \<Rightarrow> 'a list \<Rightarrow> nat" where
  "tally P xs = length (filter P xs)"

lemma tally_simps [simp]:
  "tally P [] = 0" "tally P (x # xs) = (if P x then 1 else 0) + tally P xs"
  "tally P (xs @ ys) = tally P xs + tally P ys"
  by (simp_all add: tally_def)

lemma tally_update:
  "i < length xs \<Longrightarrow> tally P (xs[i := y]) + (if P (xs ! i) then 1 else 0) = tally P xs + (if P y then 1 else 0)"
proof (induction xs arbitrary: i)
  case (Cons x xs)
  show ?case
  proof (cases i)
    case (Suc j)
    then show ?thesis using Cons.IH [of j] Cons.prems by simp
  qed simp
qed simp

lemma tally_positive: "i < length xs \<Longrightarrow> P (xs ! i) \<Longrightarrow> 0 < tally P xs"
  by (auto simp: tally_def filter_empty_conv)

lemma tally_cong: "(\<And>x. x \<in> set xs \<Longrightarrow> P x = Q x) \<Longrightarrow> tally P xs = tally Q xs"
  unfolding tally_def by (metis filter_cong)

lemma tally_mono: "(\<And>x. x \<in> set xs \<Longrightarrow> P x \<Longrightarrow> Q x) \<Longrightarrow> tally P xs \<le> tally Q xs"
  by (induction xs) auto

lemma tally_zero: "tally P xs = 0 \<longleftrightarrow> (\<forall>x \<in> set xs. \<not> P x)"
  by (auto simp: tally_def filter_empty_conv)

subsection \<open>Follower slots\<close>

lemma waiting_count_set [simp]: "waiting_count (map_set k n counts) k' = (if k' = k then n else waiting_count counts k')"
  by (simp add: waiting_count_def)

lemma waiting_count_del [simp]: "waiting_count (map_del k counts) k' = (if k' = k then 0 else waiting_count counts k')"
  by (simp add: waiting_count_def)

lemma waiting_count_release:
  "waiting_count counts k \<ge> 1 \<Longrightarrow>
     waiting_count (release k counts) k' = (if k' = k then waiting_count counts k - 1 else waiting_count counts k')"
  by (auto simp: release_def Let_def waiting_count_def split: option.splits)

definition no_empty_slot :: "nat jsmap \<Rightarrow> bool" where
  "no_empty_slot counts = (wf_map counts \<and> (\<forall>k. map_of counts k \<noteq> Some 0))"

lemma no_empty_slot_release: "no_empty_slot counts \<Longrightarrow> no_empty_slot (release k counts)"
  by (auto simp: no_empty_slot_def release_def Let_def simp del: map_of_eq_Some_iff split: option.splits)

subsection \<open>The invariant of the flights\<close>

abbreviation fetch_id :: "resolver_state \<Rightarrow> nat \<Rightarrow> string" where
  "fetch_id st p \<equiv> cf_clientId (rs_fetches st ! p)"

definition parked :: "resolver_state \<Rightarrow> string \<Rightarrow> nat" where
  "parked st k = tally (\<lambda>(k', c). k' = k \<and> (\<exists>p. c = Following p)) (rs_callers st)"

definition leaders :: "resolver_state \<Rightarrow> nat \<Rightarrow> nat" where
  "leaders st p = tally (\<lambda>(k, c). c = Leading p) (rs_callers st)"

definition caller_ok :: "cimd_fetch list \<Rightarrow> string \<times> cimd_caller \<Rightarrow> bool" where
  "caller_ok fs kc =
     (case kc of (k, Leading p) \<Rightarrow> p < length fs \<and> cf_clientId (fs ! p) = k
               | (k, Following p) \<Rightarrow> p < length fs \<and> cf_clientId (fs ! p) = k
               | (k, Finished _) \<Rightarrow> True)"

definition in_flight :: "resolver_state \<Rightarrow> nat \<Rightarrow> bool" where
  "in_flight st p = (p < length (rs_fetches st) \<and> map_of (rs_inFlight st) (fetch_id st p) = Some p)"

definition flight_inv :: "resolver_config \<Rightarrow> resolver_state \<Rightarrow> bool" where
  "flight_inv cfg st =
     (wf_map (rs_inFlight st) \<and> length (rs_inFlight st) \<le> rc_maxInFlight cfg
      \<and> (\<forall>k p. map_of (rs_inFlight st) k = Some p \<longrightarrow> p < length (rs_fetches st) \<and> fetch_id st p = k)
      \<and> (\<forall>p < length (rs_fetches st). cf_outcome (rs_fetches st ! p) = None \<longrightarrow> in_flight st p)
      \<and> (\<forall>p. leaders st p = (if in_flight st p then 1 else 0))
      \<and> list_all (caller_ok (rs_fetches st)) (rs_callers st)
      \<and> no_empty_slot (rs_waiters st)
      \<and> (\<forall>k. waiting_count (rs_waiters st) k = parked st k)
      \<and> (\<forall>k. parked st k \<le> rc_maxWaitersPerFetch cfg))"

lemma flight_invI:
  assumes "wf_map (rs_inFlight st)" and "length (rs_inFlight st) \<le> rc_maxInFlight cfg"
    and "\<And>k p. map_of (rs_inFlight st) k = Some p \<Longrightarrow> p < length (rs_fetches st) \<and> fetch_id st p = k"
    and "\<And>p. p < length (rs_fetches st) \<Longrightarrow> cf_outcome (rs_fetches st ! p) = None \<Longrightarrow> in_flight st p"
    and "\<And>p. leaders st p = (if in_flight st p then 1 else 0)"
    and "list_all (caller_ok (rs_fetches st)) (rs_callers st)" and "no_empty_slot (rs_waiters st)"
    and "\<And>k. waiting_count (rs_waiters st) k = parked st k" and "\<And>k. parked st k \<le> rc_maxWaitersPerFetch cfg"
  shows "flight_inv cfg st"
  unfolding flight_inv_def using assms by (simp del: map_of_eq_Some_iff)

lemma flight_invD:
  assumes "flight_inv cfg st"
  shows "wf_map (rs_inFlight st)" and "length (rs_inFlight st) \<le> rc_maxInFlight cfg"
    and "map_of (rs_inFlight st) k = Some p \<Longrightarrow> p < length (rs_fetches st) \<and> fetch_id st p = k"
    and "p < length (rs_fetches st) \<Longrightarrow> cf_outcome (rs_fetches st ! p) = None \<Longrightarrow> in_flight st p"
    and "leaders st p = (if in_flight st p then 1 else 0)"
    and "list_all (caller_ok (rs_fetches st)) (rs_callers st)" and "no_empty_slot (rs_waiters st)"
    and "waiting_count (rs_waiters st) k = parked st k" and "parked st k \<le> rc_maxWaitersPerFetch cfg"
  using assms unfolding flight_inv_def by blast+

lemma flight_inv_new: "flight_inv cfg new_resolver"
  by (simp add: flight_inv_def new_resolver_def in_flight_def leaders_def parked_def no_empty_slot_def waiting_count_def)

lemma parked_add [simp]:
  "parked (add_caller raw c st) k = parked st k + (if raw = k \<and> (\<exists>p. c = Following p) then 1 else 0)"
  by (simp add: parked_def add_caller_def)

lemma leaders_add [simp]: "leaders (add_caller raw c st) p = leaders st p + (if c = Leading p then 1 else 0)"
  by (simp add: leaders_def add_caller_def)

lemma add_caller_sel [simp]:
  "rs_cache (add_caller raw c st) = rs_cache st" "rs_inFlight (add_caller raw c st) = rs_inFlight st"
  "rs_waiters (add_caller raw c st) = rs_waiters st" "rs_fetches (add_caller raw c st) = rs_fetches st"
  "rs_callers (add_caller raw c st) = rs_callers st @ [(raw, c)]"
  "in_flight (add_caller raw c st) p = in_flight st p"
  by (simp_all add: add_caller_def in_flight_def)

lemma counts_elsewhere [simp]:
  "parked (st\<lparr>rs_waiters := w\<rparr>) = parked st" "parked (st\<lparr>rs_cache := c\<rparr>) = parked st"
  "parked (st\<lparr>rs_inFlight := m\<rparr>) = parked st" "parked (st\<lparr>rs_fetches := fs\<rparr>) = parked st"
  "leaders (st\<lparr>rs_waiters := w\<rparr>) = leaders st" "leaders (st\<lparr>rs_cache := c\<rparr>) = leaders st"
  "leaders (st\<lparr>rs_inFlight := m\<rparr>) = leaders st" "leaders (st\<lparr>rs_fetches := fs\<rparr>) = leaders st"
  "in_flight (st\<lparr>rs_waiters := w\<rparr>) = in_flight st" "in_flight (st\<lparr>rs_cache := c\<rparr>) = in_flight st"
  by (auto simp: parked_def leaders_def in_flight_def fun_eq_iff)

lemma same_flights:
  "flight_inv cfg st \<Longrightarrow> flight_inv cfg (st\<lparr>rs_cache := c\<rparr>)"
  by (simp add: flight_inv_def)

lemma add_finished: "flight_inv cfg st \<Longrightarrow> flight_inv cfg (add_caller raw (Finished out) st)"
  by (simp add: flight_inv_def caller_ok_def)

lemma add_follower:
  assumes inv: "flight_inv cfg st" and p: "map_of (rs_inFlight st) raw = Some p"
    and slot: "tryAcquire raw (rc_maxWaitersPerFetch cfg) (rs_waiters st) = (True, counts)"
  shows "flight_inv cfg (add_caller raw (Following p) (st\<lparr>rs_waiters := counts\<rparr>))"
proof -
  let ?st = "add_caller raw (Following p) (st\<lparr>rs_waiters := counts\<rparr>)"
  have counts: "counts = map_set raw (Suc (parked st raw)) (rs_waiters st)" and room: "parked st raw < rc_maxWaitersPerFetch cfg"
    using slot inv by (auto simp: tryAcquire_def Let_def flight_inv_def split: if_splits)
  have "no_empty_slot counts" using inv by (auto simp: flight_inv_def counts no_empty_slot_def simp del: map_of_eq_Some_iff)
  moreover have "p < length (rs_fetches st) \<and> fetch_id st p = raw" using inv p unfolding flight_inv_def by blast
  ultimately show ?thesis
    using inv room by (auto simp: flight_inv_def counts caller_ok_def simp del: map_of_eq_Some_iff)
qed

lemma add_leader:
  assumes inv: "flight_inv cfg st" and free: "map_of (rs_inFlight st) raw = None"
    and room: "length (rs_inFlight st) < rc_maxInFlight cfg"
  shows "flight_inv cfg (add_caller raw (Leading (length (rs_fetches st)))
           (st\<lparr>rs_fetches := rs_fetches st @ [\<lparr>cf_clientId = raw, cf_t0 = t0, cf_outcome = None\<rparr>],
               rs_inFlight := map_set raw (length (rs_fetches st)) (rs_inFlight st)\<rparr>))"
    (is "flight_inv cfg (add_caller raw (Leading ?n) ?st)")
proof -
  have fresh: "\<not> in_flight st ?n" by (simp add: in_flight_def)
  have old: "fetch_id ?st p = fetch_id st p" if "p < ?n" for p using that by (simp add: nth_append)
  have flights: "in_flight ?st p \<longleftrightarrow> in_flight st p \<or> p = ?n" for p
    using inv free by (cases "p < ?n") (auto simp: in_flight_def nth_append)
  have ok: "caller_ok (rs_fetches st) kc \<Longrightarrow> caller_ok (rs_fetches ?st) kc" for kc
    using old by (auto simp: caller_ok_def split: prod.splits cimd_caller.splits)
  have len: "length (map_set raw ?n (rs_inFlight st)) = Suc (length (rs_inFlight st))"
    using free by (simp add: map_set_new)
  have new_flight: "p < length (rs_fetches ?st) \<and> fetch_id ?st p = k" if "map_of (rs_inFlight ?st) k = Some p" for k p
    using that inv old by (auto simp: flight_inv_def nth_append split: if_split_asm)
  have pending: "in_flight ?st p" if "p < length (rs_fetches ?st)" "cf_outcome (rs_fetches ?st ! p) = None" for p
    using that inv flights by (cases "p < ?n") (auto simp: flight_inv_def nth_append)
  have lead: "leaders (add_caller raw (Leading ?n) ?st) p = (if in_flight ?st p then 1 else 0)" for p
    using inv fresh flights by (auto simp: flight_inv_def)
  have "list_all (caller_ok (rs_fetches ?st)) (rs_callers st)" using inv ok by (auto simp: flight_inv_def list_all_iff)
  moreover have "caller_ok (rs_fetches ?st) (raw, Leading ?n)" by (simp add: caller_ok_def)
  ultimately show ?thesis
    unfolding flight_inv_def
    using inv room len new_flight pending lead
    by (auto simp: flight_inv_def simp del: map_of_eq_Some_iff)
qed

text \<open>The four ways a call begins.\<close>

lemma begin_cases:
  obtains (Hit) hit cache where "cache_get raw now (rs_cache st) = (Some hit, cache)"
      and "registration_begin cfg raw now t0 st = add_caller raw (Finished (Inr hit)) (st\<lparr>rs_cache := cache\<rparr>)"
  | (Busy) cache where "cache_get raw now (rs_cache st) = (None, cache)"
      and "registration_begin cfg raw now t0 st = add_caller raw (Finished (Inl too_busy)) (st\<lparr>rs_cache := cache\<rparr>)"
  | (Follow) cache p counts where "cache_get raw now (rs_cache st) = (None, cache)"
      and "map_of (rs_inFlight (st\<lparr>rs_cache := cache\<rparr>)) raw = Some p"
      and "tryAcquire raw (rc_maxWaitersPerFetch cfg) (rs_waiters (st\<lparr>rs_cache := cache\<rparr>)) = (True, counts)"
      and "registration_begin cfg raw now t0 st
             = add_caller raw (Following p) ((st\<lparr>rs_cache := cache\<rparr>)\<lparr>rs_waiters := counts\<rparr>)"
  | (Lead) cache where "cache_get raw now (rs_cache st) = (None, cache)"
      and "map_of (rs_inFlight (st\<lparr>rs_cache := cache\<rparr>)) raw = None"
      and "length (rs_inFlight (st\<lparr>rs_cache := cache\<rparr>)) < rc_maxInFlight cfg"
      and "registration_begin cfg raw now t0 st
             = add_caller raw (Leading (length (rs_fetches (st\<lparr>rs_cache := cache\<rparr>))))
                 ((st\<lparr>rs_cache := cache\<rparr>)
                    \<lparr>rs_fetches := rs_fetches (st\<lparr>rs_cache := cache\<rparr>) @ [\<lparr>cf_clientId = raw, cf_t0 = t0, cf_outcome = None\<rparr>],
                     rs_inFlight := map_set raw (length (rs_fetches (st\<lparr>rs_cache := cache\<rparr>))) (rs_inFlight (st\<lparr>rs_cache := cache\<rparr>))\<rparr>)"
proof -
  obtain hit cache where get: "cache_get raw now (rs_cache st) = (hit, cache)" by fastforce
  obtain ok counts where slot: "tryAcquire raw (rc_maxWaitersPerFetch cfg) (rs_waiters st) = (ok, counts)" by fastforce
  note defs = registration_begin_def Let_def get slot
  show thesis
  proof (cases hit)
    case (Some h)
    with get show thesis by (intro Hit) (simp_all add: defs)
  next
    case None
    note no_hit = None
    show thesis
    proof (cases "map_of (rs_inFlight st) raw")
      case (Some p)
      show thesis
      proof (cases ok)
        case True
        then show thesis by (intro Follow [of cache p counts]) (simp_all add: defs Some no_hit)
      next
        case False
        then show thesis by (intro Busy [of cache]) (simp_all add: defs Some no_hit)
      qed
    next
      case None
      show thesis
      proof (cases "length (rs_inFlight st) \<ge> rc_maxInFlight cfg")
        case True
        then show thesis by (intro Busy [of cache]) (simp_all add: defs None no_hit)
      next
        case False
        then show thesis by (intro Lead [of cache]) (simp_all add: defs None no_hit)
      qed
    qed
  qed
qed

lemma begin_flights: "flight_inv cfg st \<Longrightarrow> flight_inv cfg (registration_begin cfg raw now t0 st)"
  by (cases rule: begin_cases [of raw now st cfg t0])
    (simp_all only: add_finished add_follower add_leader same_flights)

lemma nth_settled:
  "p < length fs \<Longrightarrow>
     cf_clientId (fs[p := (fs ! p)\<lparr>cf_outcome := out\<rparr>] ! q) = cf_clientId (fs ! q)
     \<and> cf_outcome (fs[p := (fs ! p)\<lparr>cf_outcome := out\<rparr>] ! q) = (if q = p then out else cf_outcome (fs ! q))"
  by (cases "q = p") auto

lemma settle_shape:
  obtains out cache where "fetch_outcome cfg (fetch_id st p) (cf_t0 (rs_fetches st ! p)) t1 fetched (rs_cache st) = (out, cache)"
    and "fetch_settle cfg p t1 fetched st
           = st\<lparr>rs_fetches := (rs_fetches st)[p := (rs_fetches st ! p)\<lparr>cf_outcome := Some out\<rparr>], rs_cache := cache\<rparr>"
proof -
  obtain out cache where out: "fetch_outcome cfg (fetch_id st p) (cf_t0 (rs_fetches st ! p)) t1 fetched (rs_cache st) = (out, cache)"
    by fastforce
  then show thesis by (rule that) (simp add: fetch_settle_def Let_def out)
qed

lemma settle_flights:
  assumes inv: "flight_inv cfg st" and p: "p < length (rs_fetches st)"
  shows "flight_inv cfg (fetch_settle cfg p t1 fetched st)"
proof (cases rule: settle_shape [of cfg st p t1 fetched])
  case (1 out cache)
  let ?st = "st\<lparr>rs_fetches := (rs_fetches st)[p := (rs_fetches st ! p)\<lparr>cf_outcome := Some out\<rparr>]\<rparr>"
  note nth = nth_settled [OF p]
  have flights: "in_flight ?st q = in_flight st q" for q by (simp add: in_flight_def nth)
  have ok: "caller_ok (rs_fetches ?st) kc = caller_ok (rs_fetches st) kc" for kc
    by (auto simp: caller_ok_def nth split: cimd_caller.splits prod.splits)
  then have callers: "list_all (caller_ok (rs_fetches ?st)) (rs_callers st) = list_all (caller_ok (rs_fetches st)) (rs_callers st)"
    by (metis (no_types, lifting) list.pred_cong)
  have "flight_inv cfg ?st"
    using inv flights callers unfolding flight_inv_def by (simp add: nth del: map_of_eq_Some_iff)
  then show ?thesis using 1(2) same_flights [of cfg ?st cache] by simp
qed

lemma parked_update:
  assumes "i < length (rs_callers st)" and "rs_callers st ! i = (raw, c)"
  shows "parked (st\<lparr>rs_callers := (rs_callers st)[i := (raw, Finished out)]\<rparr>) k + (if raw = k \<and> (\<exists>p. c = Following p) then 1 else 0)
           = parked st k"
  using tally_update [OF assms(1), of "\<lambda>(k', c). k' = k \<and> (\<exists>p. c = Following p)" "(raw, Finished out)"] assms(2)
  by (simp add: parked_def)

lemma leaders_update:
  assumes "i < length (rs_callers st)" and "rs_callers st ! i = (raw, c)"
  shows "leaders (st\<lparr>rs_callers := (rs_callers st)[i := (raw, Finished out)]\<rparr>) p + (if c = Leading p then 1 else 0) = leaders st p"
  using tally_update [OF assms(1), of "\<lambda>(k, c). c = Leading p" "(raw, Finished out)"] assms(2)
  by (simp add: leaders_def)

lemma callers_update:
  "list_all (caller_ok fs) cs \<Longrightarrow> list_all (caller_ok fs) (cs[i := (raw, Finished out)])"
  by (auto simp: list_all_iff caller_ok_def dest!: set_update_subset_insert [THEN subsetD])

text \<open>The two ways a caller wakes.\<close>

lemma wake_cases:
  assumes "wake i st = Some st'" and "i < length (rs_callers st)"
  obtains (Leader) raw p out where "rs_callers st ! i = (raw, Leading p)" and "cf_outcome (rs_fetches st ! p) = Some out"
      and "st' = st\<lparr>rs_inFlight := map_del raw (rs_inFlight st), rs_callers := (rs_callers st)[i := (raw, Finished out)]\<rparr>"
  | (Follower) raw p out where "rs_callers st ! i = (raw, Following p)" and "cf_outcome (rs_fetches st ! p) = Some out"
      and "st' = st\<lparr>rs_waiters := release raw (rs_waiters st), rs_callers := (rs_callers st)[i := (raw, Finished out)]\<rparr>"
  using assms by (auto simp: wake_def split: prod.splits cimd_caller.splits)

lemma caller_at:
  "flight_inv cfg st \<Longrightarrow> i < length (rs_callers st) \<Longrightarrow> caller_ok (rs_fetches st) (rs_callers st ! i)"
  by (simp add: flight_inv_def list_all_length)

lemma wake_follower:
  assumes inv: "flight_inv cfg st" and i: "i < length (rs_callers st)" "rs_callers st ! i = (raw, Following p)"
  shows "flight_inv cfg (st\<lparr>rs_waiters := release raw (rs_waiters st), rs_callers := (rs_callers st)[i := (raw, Finished out)]\<rparr>)"
    (is "flight_inv cfg ?st")
proof -
  note park = parked_update [OF i, of out] and lead = leaders_update [OF i, of out]
  have "1 \<le> parked st raw" using park [of raw] by simp
  then have some: "1 \<le> waiting_count (rs_waiters st) raw" using inv by (simp add: flight_inv_def)
  have "parked ?st k = parked (st\<lparr>rs_callers := (rs_callers st)[i := (raw, Finished out)]\<rparr>) k" for k
    by (simp add: parked_def)
  then have parks: "parked ?st k + (if raw = k then 1 else 0) = parked st k" for k using park [of k] by simp
  have leads: "leaders ?st q = leaders st q" for q using lead [of q] by (simp add: leaders_def)
  have flights: "in_flight ?st q = in_flight st q" for q by (simp add: in_flight_def)
  show ?thesis
  proof (rule flight_invI)
    show "waiting_count (rs_waiters ?st) k = parked ?st k" for k
      using parks [of k] some flight_invD(8) [OF inv, of k] flight_invD(8) [OF inv, of raw] by (auto simp: waiting_count_release)
    show "parked ?st k \<le> rc_maxWaitersPerFetch cfg" for k
      using parks [of k] flight_invD(9) [OF inv, of k] by linarith
    show "leaders ?st q = (if in_flight ?st q then 1 else 0)" for q
      unfolding leads flights by (rule flight_invD(5) [OF inv])
    show "in_flight ?st q" if "q < length (rs_fetches ?st)" "cf_outcome (rs_fetches ?st ! q) = None" for q
      unfolding flights using that by (intro flight_invD(4) [OF inv]) simp_all
  qed (use flight_invD [OF inv] no_empty_slot_release callers_update in \<open>simp_all del: map_of_eq_Some_iff\<close>)
qed

lemma wake_leader:
  assumes inv: "flight_inv cfg st" and i: "i < length (rs_callers st)" "rs_callers st ! i = (raw, Leading p)"
    and settled: "cf_outcome (rs_fetches st ! p) = Some out"
  shows "flight_inv cfg (st\<lparr>rs_inFlight := map_del raw (rs_inFlight st), rs_callers := (rs_callers st)[i := (raw, Finished out)]\<rparr>)"
    (is "flight_inv cfg ?st")
proof -
  note park = parked_update [OF i, of out] and lead = leaders_update [OF i, of out]
  have p: "p < length (rs_fetches st)" "fetch_id st p = raw" using caller_at [OF inv i(1)] i(2) by (simp_all add: caller_ok_def)
  have "1 \<le> leaders st p" using lead [of p] by simp
  then have flight: "in_flight st p" using inv by (metis flight_inv_def not_one_le_zero)
  then have at: "map_of (rs_inFlight st) raw = Some p" using p by (simp add: in_flight_def del: map_of_eq_Some_iff)
  have flights: "in_flight ?st q \<longleftrightarrow> in_flight st q \<and> q \<noteq> p" for q
    using at p by (auto simp: in_flight_def simp del: map_of_eq_Some_iff)
  have "leaders ?st q = leaders (st\<lparr>rs_callers := (rs_callers st)[i := (raw, Finished out)]\<rparr>) q" for q by (simp add: leaders_def)
  then have leads: "leaders ?st q = (if in_flight ?st q then 1 else 0)" for q
    using lead [of q] inv flight flights unfolding flight_inv_def by (cases "q = p") auto
  have "parked ?st k = parked (st\<lparr>rs_callers := (rs_callers st)[i := (raw, Finished out)]\<rparr>) k" for k by (simp add: parked_def)
  then have parks: "parked ?st k = parked st k" for k using park [of k] by simp
  show ?thesis
  proof (rule flight_invI)
    show "in_flight ?st q" if "q < length (rs_fetches ?st)" "cf_outcome (rs_fetches ?st ! q) = None" for q
      using that flight_invD(4) [OF inv, of q] settled unfolding flights by auto
    show "length (rs_inFlight ?st) \<le> rc_maxInFlight cfg"
      using flight_invD(2) [OF inv] le_trans [OF length_filter_le] by (auto simp: map_del_def)
    show "map_of (rs_inFlight ?st) k = Some q \<Longrightarrow> q < length (rs_fetches ?st) \<and> fetch_id ?st q = k" for k q
      using flight_invD(3) [OF inv, of k q] by (simp del: map_of_eq_Some_iff split: if_split_asm)
  qed (use flight_invD [OF inv] leads parks callers_update in \<open>simp_all del: map_of_eq_Some_iff\<close>)
qed

lemma drain_flights: "drain_step cfg st st' \<Longrightarrow> flight_inv cfg st \<Longrightarrow> flight_inv cfg st'"
proof (induction rule: drain_step.induct)
  case (settles p st t1 w)
  then show ?case by (simp add: settle_flights)
next
  case (wakes i st st')
  from wakes(2,1) show ?case by (cases rule: wake_cases) (use wakes wake_leader wake_follower in auto)
qed

lemma reachable_flights: "reachable cfg st \<Longrightarrow> flight_inv cfg st"
  by (induction rule: reachable.induct)
    (auto simp: flight_inv_new elim!: resolver_stepE intro: begin_flights drain_flights)

subsection \<open>Bounded flights\<close>

definition pending :: "resolver_state \<Rightarrow> cimd_fetch list" where
  "pending st = filter (\<lambda>f. cf_outcome f = None) (rs_fetches st)"

lemma distinct_map_filter_nth:
  assumes "\<And>i j. i < length xs \<Longrightarrow> j < length xs \<Longrightarrow> P (xs ! i) \<Longrightarrow> P (xs ! j) \<Longrightarrow> f (xs ! i) = f (xs ! j) \<Longrightarrow> i = j"
  shows "distinct (map f (filter P xs))"
  using assms
proof (induction xs)
  case (Cons x xs)
  have "i = j" if "i < length xs" "j < length xs" "P (xs ! i)" "P (xs ! j)" "f (xs ! i) = f (xs ! j)" for i j
    using Cons.prems [of "Suc i" "Suc j"] that by simp
  then have ih: "distinct (map f (filter P xs))" by (rule Cons.IH)
  have "f x \<notin> f ` {y \<in> set xs. P y}" if "P x"
  proof
    assume "f x \<in> f ` {y \<in> set xs. P y}"
    then obtain j where "j < length xs" "P (xs ! j)" "f x = f (xs ! j)" by (auto simp: in_set_conv_nth)
    then show False using Cons.prems [of 0 "Suc j"] that by simp
  qed
  with ih show ?case by simp
qed simp

lemma pending_distinct:
  assumes "flight_inv cfg st"
  shows "distinct (map cf_clientId (pending st))"
  unfolding pending_def
proof (rule distinct_map_filter_nth)
  fix p q
  assume "p < length (rs_fetches st)" "q < length (rs_fetches st)" "cf_outcome (rs_fetches st ! p) = None"
    "cf_outcome (rs_fetches st ! q) = None" "fetch_id st p = fetch_id st q"
  then show "p = q" using flight_invD(4) [OF assms] by (metis in_flight_def option.inject)
qed

lemma pending_keys:
  assumes "flight_inv cfg st"
  shows "set (map cf_clientId (pending st)) \<subseteq> fst ` set (rs_inFlight st)"
proof
  fix k assume "k \<in> set (map cf_clientId (pending st))"
  then obtain p where "p < length (rs_fetches st)" "cf_outcome (rs_fetches st ! p) = None" "fetch_id st p = k"
    by (auto simp: pending_def in_set_conv_nth)
  then have "map_of (rs_inFlight st) k = Some p" using flight_invD(4) [OF assms] by (auto simp: in_flight_def)
  then show "k \<in> fst ` set (rs_inFlight st)" by (metis map_of_SomeD fst_conv image_eqI)
qed

lemma pending_length:
  assumes "flight_inv cfg st"
  shows "length (pending st) \<le> rc_maxInFlight cfg"
proof -
  have "length (pending st) = card (set (map cf_clientId (pending st)))"
    using distinct_card [OF pending_distinct [OF assms]] by simp
  also have "\<dots> \<le> card (fst ` set (rs_inFlight st))" by (rule card_mono [OF _ pending_keys [OF assms]]) simp
  also have "\<dots> \<le> length (rs_inFlight st)" by (metis card_length length_map list.set_map)
  finally show ?thesis using flight_invD(2) [OF assms] by simp
qed

text \<open>The callers waiting on a fetch that is still under way.\<close>

definition awaits :: "cimd_fetch list \<Rightarrow> cimd_caller \<Rightarrow> bool" where
  "awaits fs c =
     (case c of Leading p \<Rightarrow> cf_outcome (fs ! p) = None | Following p \<Rightarrow> cf_outcome (fs ! p) = None | Finished _ \<Rightarrow> False)"

definition waiting :: "resolver_state \<Rightarrow> nat" where
  "waiting st = tally (\<lambda>kc. awaits (rs_fetches st) (snd kc)) (rs_callers st)"

lemma tally_by_key:
  assumes "finite K"
  shows "(\<And>x. x \<in> set xs \<Longrightarrow> P x \<Longrightarrow> key x \<in> K) \<Longrightarrow> tally P xs = (\<Sum>k \<in> K. tally (\<lambda>x. P x \<and> key x = k) xs)"
proof (induction xs)
  case (Cons x xs)
  have "(\<Sum>k \<in> K. if P x \<and> key x = k then 1 else 0) = (if P x then 1 else 0 :: nat)"
    using Cons.prems [of x] assms by (cases "P x") (simp_all add: sum.delta')
  then show ?case using Cons by (simp add: sum.distrib)
qed simp

lemma tally_disj: "tally (\<lambda>x. P x \<or> Q x) xs \<le> tally P xs + tally Q xs"
  by (induction xs) auto

lemma waiting_bound:
  assumes inv: "flight_inv cfg st"
  shows "waiting st \<le> rc_maxInFlight cfg * (rc_maxWaitersPerFetch cfg + 1)"
proof -
  let ?K = "set (map cf_clientId (pending st))"
  let ?P = "\<lambda>kc. awaits (rs_fetches st) (snd kc)"
  have at: "snd kc = Leading p \<or> snd kc = Following p \<Longrightarrow> p < length (rs_fetches st) \<and> fetch_id st p = fst kc"
    if "kc \<in> set (rs_callers st)" for kc p
  proof -
    have "caller_ok (rs_fetches st) kc" using flight_invD(6) [OF inv] that by (simp add: list_all_iff)
    then show "snd kc = Leading p \<or> snd kc = Following p \<Longrightarrow> p < length (rs_fetches st) \<and> fetch_id st p = fst kc"
      by (cases kc) (auto simp: caller_ok_def)
  qed
  have keys: "fst kc \<in> ?K" if "kc \<in> set (rs_callers st)" "?P kc" for kc
  proof -
    from that(2) obtain p where "snd kc = Leading p \<or> snd kc = Following p" "cf_outcome (rs_fetches st ! p) = None"
      by (auto simp: awaits_def split: cimd_caller.splits)
    moreover from this at [OF that(1)] have "p < length (rs_fetches st)" "fetch_id st p = fst kc" by blast+
    ultimately have "rs_fetches st ! p \<in> set (pending st)" by (simp add: pending_def)
    with \<open>fetch_id st p = fst kc\<close> show ?thesis by force
  qed
  have each: "tally (\<lambda>kc. ?P kc \<and> fst kc = k) (rs_callers st) \<le> rc_maxWaitersPerFetch cfg + 1" for k
  proof -
    let ?p = "the (map_of (rs_inFlight st) k)"
    have "tally (\<lambda>kc. ?P kc \<and> fst kc = k) (rs_callers st)
        \<le> tally (\<lambda>kc. (\<lambda>(k', c). k' = k \<and> (\<exists>p. c = Following p)) kc \<or> (\<lambda>(k', c). c = Leading ?p) kc) (rs_callers st)"
    proof (rule tally_mono)
      fix kc assume kc: "kc \<in> set (rs_callers st)" and waits: "?P kc \<and> fst kc = k"
      show "(\<lambda>(k', c). k' = k \<and> (\<exists>p. c = Following p)) kc \<or> (\<lambda>(k', c). c = Leading ?p) kc"
      proof (cases "snd kc")
        case (Leading p)
        with at [OF kc] waits have "p < length (rs_fetches st)" "fetch_id st p = k" "cf_outcome (rs_fetches st ! p) = None"
          by (auto simp: awaits_def)
        then have "map_of (rs_inFlight st) k = Some p" using flight_invD(4) [OF inv] by (auto simp: in_flight_def)
        then show ?thesis using Leading by (simp add: case_prod_beta)
      qed (use waits in \<open>auto simp: awaits_def case_prod_beta\<close>)
    qed
    also have "\<dots> \<le> parked st k + leaders st ?p" unfolding parked_def leaders_def by (rule tally_disj)
    also have "\<dots> \<le> rc_maxWaitersPerFetch cfg + 1"
      using flight_invD(9) [OF inv, of k] flight_invD(5) [OF inv, of ?p] by simp
    finally show ?thesis .
  qed
  have "waiting st = (\<Sum>k \<in> ?K. tally (\<lambda>kc. ?P kc \<and> fst kc = k) (rs_callers st))"
    unfolding waiting_def by (rule tally_by_key) (use keys in auto)
  also have "\<dots> \<le> card ?K * (rc_maxWaitersPerFetch cfg + 1)"
    using sum_bounded_above [of ?K _ "rc_maxWaitersPerFetch cfg + 1"] each by simp
  also have "\<dots> \<le> rc_maxInFlight cfg * (rc_maxWaitersPerFetch cfg + 1)"
    using pending_length [OF inv] card_length [of "map cf_clientId (pending st)"] by (intro mult_le_mono1) simp
  finally show ?thesis .
qed

text \<open>
  C28. However calls interleave, there is never more than one fetch under way for an identifier, never more
  fetches under way than \<open>maxInFlight\<close>, never more followers of an identifier than \<open>maxWaitersPerFetch\<close>,
  which the counter of that identifier counts exactly, and never more callers waiting on fetches under way
  than \<open>maxInFlight\<close> times one more than that.
\<close>

theorem single_flight_bounded:
  assumes "reachable cfg st"
  shows "distinct (map cf_clientId (pending st)) \<and> length (pending st) \<le> rc_maxInFlight cfg
    \<and> length (rs_inFlight st) \<le> rc_maxInFlight cfg
    \<and> parked st k \<le> rc_maxWaitersPerFetch cfg \<and> waiting_count (rs_waiters st) k = parked st k
    \<and> waiting st \<le> rc_maxInFlight cfg * (rc_maxWaitersPerFetch cfg + 1)"
proof -
  have inv: "flight_inv cfg st" by (rule reachable_flights [OF assms])
  show ?thesis
    using flight_invD(2,8,9) [OF inv] pending_distinct [OF inv] pending_length [OF inv] waiting_bound [OF inv] by blast
qed

subsection \<open>Every caller is answered, and no slot leaks\<close>

lemma drain_star_flights: "(drain_step cfg)\<^sup>*\<^sup>* st st' \<Longrightarrow> flight_inv cfg st \<Longrightarrow> flight_inv cfg st'"
  by (induction rule: rtranclp_induct) (auto intro: drain_flights)

lemma waiting_can_go_on:
  assumes inv: "flight_inv cfg st" and i: "i < length (rs_callers st)" and waiting: "\<forall>out. snd (rs_callers st ! i) \<noteq> Finished out"
  shows "\<exists>st'. drain_step cfg st st'"
proof -
  obtain raw c where c: "rs_callers st ! i = (raw, c)" by fastforce
  with waiting obtain p where p: "c = Leading p \<or> c = Following p" by (cases c) auto
  then have len: "p < length (rs_fetches st)" using caller_at [OF inv i] c by (auto simp: caller_ok_def)
  show ?thesis
  proof (cases "cf_outcome (rs_fetches st ! p)")
    case None
    then show ?thesis using drain_step.settles [OF len] by blast
  next
    case (Some out)
    with c p have "wake i st \<noteq> None" by (auto simp: wake_def)
    then show ?thesis using drain_step.wakes [OF i] by blast
  qed
qed

text \<open>
  C29. Once nothing more can settle or resume, every caller has its answer, and no fetch slot and no follower
  slot is left taken: neither an error nor a deadline leaks one.
\<close>

theorem every_caller_answered:
  assumes "reachable cfg st" and "(drain_step cfg)\<^sup>*\<^sup>* st st'" and "\<nexists>st''. drain_step cfg st' st''"
  shows "(\<forall>(k, c) \<in> set (rs_callers st'). \<exists>out. c = Finished out) \<and> rs_inFlight st' = [] \<and> rs_waiters st' = []"
proof -
  have inv: "flight_inv cfg st'" using drain_star_flights [OF assms(2) reachable_flights [OF assms(1)]] .
  have finished: "\<exists>out. snd (rs_callers st' ! i) = Finished out" if "i < length (rs_callers st')" for i
    using waiting_can_go_on [OF inv that] assms(3) by blast
  then have all: "\<forall>kc \<in> set (rs_callers st'). \<exists>out. snd kc = Finished out" by (metis in_set_conv_nth)
  then have none: "parked st' k = 0" "leaders st' p = 0" for k p
    by (auto simp: parked_def leaders_def tally_zero)
  have "map_of (rs_inFlight st') k = None" for k
  proof (rule ccontr)
    assume "map_of (rs_inFlight st') k \<noteq> None"
    then obtain p where "map_of (rs_inFlight st') k = Some p" by blast
    then have "in_flight st' p" using flight_invD(3) [OF inv] by (auto simp: in_flight_def simp del: map_of_eq_Some_iff)
    then show False using flight_invD(5) [OF inv, of p] none by simp
  qed
  then have flights: "rs_inFlight st' = []" by (metis map_of_eq_empty_iff ext)
  have "map_of (rs_waiters st') k = None" for k
    using flight_invD(7) [OF inv] flight_invD(8) [OF inv, of k] none(1) [of k]
    by (cases "map_of (rs_waiters st') k") (auto simp: no_empty_slot_def waiting_count_def simp del: map_of_eq_Some_iff)
  then have "rs_waiters st' = []" by (metis map_of_eq_empty_iff ext)
  with flights all show ?thesis by auto
qed

subsection \<open>Documents belong to the identifier they are kept under\<close>

definition belongs :: "resolver_config \<Rightarrow> string \<Rightarrow> resolved_registration \<Rightarrow> bool" where
  "belongs cfg raw r =
     (cimd_client_id (rr_registration r) = raw
      \<and> (\<forall>u \<in> set (cimd_redirect_uris (rr_registration r)).
            assertCimdRedirectUri (shared_parser (rc_parse cfg)) (Str u) = Inr ()))"

definition sound_outcome :: "resolver_config \<Rightarrow> string \<Rightarrow> resolved_registration outcome \<Rightarrow> bool" where
  "sound_outcome cfg raw out = (case out of Inr r \<Rightarrow> belongs cfg raw r | Inl e \<Rightarrow> is_cimd_error e)"

definition value_inv :: "resolver_config \<Rightarrow> resolver_state \<Rightarrow> bool" where
  "value_inv cfg st =
     ((\<forall>(k, r, e) \<in> set (sc_entries (rs_cache st)). belongs cfg k r)
      \<and> (\<forall>f \<in> set (rs_fetches st). \<forall>out. cf_outcome f = Some out \<longrightarrow> sound_outcome cfg (cf_clientId f) out)
      \<and> (\<forall>(k, c) \<in> set (rs_callers st). \<forall>out. c = Finished out \<longrightarrow> sound_outcome cfg k out))"

lemma observe_entries: "cache_observe now c = (ok, c') \<Longrightarrow> set (sc_entries c') \<subseteq> set (sc_entries c)"
  by (auto simp: cache_observe_def Let_def split: if_splits)

lemma map_del_subset: "set (map_del k m) \<subseteq> set m"
  by (auto simp: map_del_def)

lemma cache_get_entries:
  assumes "cache_get k now c = (hit, c')"
  shows "set (sc_entries c') \<subseteq> set (sc_entries c) \<and> (\<forall>r. hit = Some r \<longrightarrow> (\<exists>e. (k, r, e) \<in> set (sc_entries c)))"
proof -
  obtain ok c1 where obs: "cache_observe now c = (ok, c1)" by fastforce
  note sub = observe_entries [OF obs] map_del_subset [of k "sc_entries c1"]
  show ?thesis
  proof (cases "ok \<and> map_of (sc_entries c1) k \<noteq> None")
    case True
    then obtain r e where entry: "map_of (sc_entries c1) k = Some (r, e)" by auto
    then have "(k, r, e) \<in> set (sc_entries c1)" by (rule map_of_SomeD)
    moreover from entry have "set (sc_entries c') \<subseteq> insert (k, r, e) (set (map_del k (sc_entries c1)))"
      "hit = Some r \<or> hit = None"
      using assms obs True
      by (auto simp: cache_get_def Let_def map_set_after_del simp del: map_of_eq_Some_iff split: if_splits)
    ultimately show ?thesis using sub by blast
  next
    case False
    then have "ok \<Longrightarrow> map_of (sc_entries c1) k = None" by blast
    then have "hit = None \<and> c' = c1" using assms obs by (cases ok) (simp_all add: cache_get_def)
    then show ?thesis using sub by simp
  qed
qed

lemma cache_set_entries: "set (sc_entries (cache_set k r e now c)) \<subseteq> insert (k, r, e) (set (sc_entries c))"
proof -
  obtain ok c1 where obs: "cache_observe now c = (ok, c1)" by fastforce
  have "map_of (evict n (map_del k m)) k = None" for n and m :: "('a \<times> int) jsmap" by (rule evict_keeps_key) simp
  then have "set (map_set k (r, e) (evict n (map_del k m))) \<subseteq> insert (k, r, e) (set m)" for n m
    using evict_subset [of n "map_del k m"] map_del_subset [of k m] by (auto simp: map_set_new)
  then show ?thesis using obs observe_entries [OF obs] by (cases ok) (fastforce simp: cache_set_def)+
qed

lemma projected_belongs:
  "projectCimdRegistration p d = Inr r \<Longrightarrow>
     cimd_client_id r = cd_client_id d \<and> (\<forall>u \<in> set (cimd_redirect_uris r). assertCimdRedirectUri p (Str u) = Inr ())"
  by (auto simp: projectCimdRegistration_def result_simps dest!: collect_Inr_all)

lemma assert_error: "assertCimdRedirectUri p v = Inl e \<Longrightarrow> is_cimd_error e"
  by (auto simp: assertCimdRedirectUri_def invalid_document_def cimdError_def is_cimd_error_def split: sum.splits)

lemma project_error: "projectCimdRegistration p d = Inl e \<Longrightarrow> is_cimd_error e"
  by (auto simp: projectCimdRegistration_def result_simps dest!: collect_Inl dest: assert_error)

lemma fetch_outcome_sound:
  assumes "fetch_outcome cfg raw t0 t1 (snd (guarded_fetch (rc_parse cfg) j al mb raw w)) cache = (out, cache')"
  shows "sound_outcome cfg raw out \<and> (\<forall>(k, r, e) \<in> set (sc_entries cache'). (k, r, e) \<in> set (sc_entries cache) \<or> k = raw \<and> belongs cfg raw r)"
proof -
  obtain requests result where fetch: "guarded_fetch (rc_parse cfg) j al mb raw w = (requests, result)" by fastforce
  show ?thesis
  proof (cases result)
    case (Inl e)
    then show ?thesis using assms fetch guarded_fetch_errors [of "rc_parse cfg" j al mb raw w requests e]
      by (auto simp: fetch_outcome_def sound_outcome_def)
  next
    case (Inr f)
    then have id: "cd_client_id (fr_document f) = raw" using fetch guarded_fetch_client_id by blast
    show ?thesis
    proof (cases "projectCimdRegistration (shared_parser (rc_parse cfg)) (fr_document f)")
      case (Inl e)
      then show ?thesis using assms fetch Inr project_error [OF Inl] by (auto simp: fetch_outcome_def sound_outcome_def)
    next
      case (Inr r)
      let ?r = "\<lparr>rr_registration = r, rr_selectedClientAuthMethod = cd_selectedClientAuthMethod (fr_document f)\<rparr>"
      have r: "belongs cfg raw ?r" using projected_belongs [OF Inr] id by (simp add: belongs_def)
      show ?thesis using assms fetch \<open>result = Inr f\<close> Inr r cache_set_entries [of raw ?r _ t1 cache]
        by (auto simp: fetch_outcome_def sound_outcome_def Let_def split: option.splits)
    qed
  qed
qed

lemma value_invI:
  assumes "\<And>k r e. (k, r, e) \<in> set (sc_entries (rs_cache st)) \<Longrightarrow> belongs cfg k r"
    and "\<And>f out. f \<in> set (rs_fetches st) \<Longrightarrow> cf_outcome f = Some out \<Longrightarrow> sound_outcome cfg (cf_clientId f) out"
    and "\<And>k out. (k, Finished out) \<in> set (rs_callers st) \<Longrightarrow> sound_outcome cfg k out"
  shows "value_inv cfg st"
  using assms by (auto simp: value_inv_def)

lemma value_invD:
  assumes "value_inv cfg st"
  shows "(k, r, e) \<in> set (sc_entries (rs_cache st)) \<Longrightarrow> belongs cfg k r"
    and "f \<in> set (rs_fetches st) \<Longrightarrow> cf_outcome f = Some out \<Longrightarrow> sound_outcome cfg (cf_clientId f) out"
    and "(k, Finished out) \<in> set (rs_callers st) \<Longrightarrow> sound_outcome cfg k out"
  using assms by (auto simp: value_inv_def)

lemma too_busy_error: "sound_outcome cfg raw (Inl too_busy)"
  by (simp add: sound_outcome_def too_busy_def is_cimd_error_def cimdError_def)

lemma begin_values:
  assumes "value_inv cfg st"
  shows "value_inv cfg (registration_begin cfg raw now t0 st)"
proof (cases rule: begin_cases [of raw now st cfg t0])
  case (Hit hit cache)
  note entries = cache_get_entries [OF Hit(1)]
  then obtain e where "(raw, hit, e) \<in> set (sc_entries (rs_cache st))" by blast
  then have "sound_outcome cfg raw (Inr hit)" using value_invD(1) [OF assms] by (simp add: sound_outcome_def)
  then show ?thesis unfolding Hit(2) using value_invD [OF assms] entries by (intro value_invI) auto
next
  case (Busy cache)
  then show ?thesis
    using value_invD [OF assms] cache_get_entries [OF Busy(1)] too_busy_error [of cfg raw] by (intro value_invI) auto
next
  case (Follow cache p counts)
  then show ?thesis using value_invD [OF assms] cache_get_entries [OF Follow(1)] by (intro value_invI) auto
next
  case (Lead cache)
  then show ?thesis using value_invD [OF assms] cache_get_entries [OF Lead(1)] by (intro value_invI) auto
qed

lemma drain_values:
  assumes "drain_step cfg st st'" and inv: "value_inv cfg st" and flights: "flight_inv cfg st"
  shows "value_inv cfg st'"
  using assms(1)
proof cases
  case (settles p t1 w)
  let ?fetched = "snd (guarded_fetch (rc_parse cfg) (rc_json cfg) (rc_allowLoopback cfg) (rc_maxDocumentBytes cfg) (fetch_id st p) w)"
  obtain out cache where out: "fetch_outcome cfg (fetch_id st p) (cf_t0 (rs_fetches st ! p)) t1 ?fetched (rs_cache st) = (out, cache)"
    and st': "st' = st\<lparr>rs_fetches := (rs_fetches st)[p := (rs_fetches st ! p)\<lparr>cf_outcome := Some out\<rparr>], rs_cache := cache\<rparr>"
    by (rule settle_shape [of cfg st p t1 ?fetched]) (use settles in auto)
  note sound = fetch_outcome_sound [OF out]
  show ?thesis
  proof (rule value_invI)
    show "belongs cfg k r" if "(k, r, e) \<in> set (sc_entries (rs_cache st'))" for k r e
      using that sound value_invD(1) [OF inv, of k r e] by (auto simp: st')
    show "sound_outcome cfg (cf_clientId f) o'" if "f \<in> set (rs_fetches st')" "cf_outcome f = Some o'" for f o'
    proof -
      have "f \<in> insert ((rs_fetches st ! p)\<lparr>cf_outcome := Some out\<rparr>) (set (rs_fetches st))"
        using that(1) set_update_subset_insert [of "rs_fetches st" p] by (auto simp: st')
      then show ?thesis using that(2) sound value_invD(2) [OF inv] by auto
    qed
    show "sound_outcome cfg k o'" if "(k, Finished o') \<in> set (rs_callers st')" for k o'
      using that value_invD(3) [OF inv] by (simp add: st')
  qed
next
  case (wakes i)
  have new: "sound_outcome cfg raw out" if "rs_callers st ! i = (raw, c)" "c = Leading p \<or> c = Following p"
    "cf_outcome (rs_fetches st ! p) = Some out" for raw c p out
  proof -
    have "p < length (rs_fetches st) \<and> fetch_id st p = raw"
      using caller_at [OF flights wakes(1)] that by (auto simp: caller_ok_def)
    then show ?thesis using value_invD(2) [OF inv, of "rs_fetches st ! p" out] that(3) by auto
  qed
  have old: "value_inv cfg st'"
    if "sound_outcome cfg raw out" "rs_callers st' = (rs_callers st)[i := (raw, Finished out)]" "rs_cache st' = rs_cache st"
      "rs_fetches st' = rs_fetches st" for raw out
    using that value_invD [OF inv] set_update_subset_insert [of "rs_callers st" i "(raw, Finished out)"]
    by (intro value_invI) auto
  from wakes(2,1) show ?thesis
  proof (cases rule: wake_cases)
    case (Leader raw p out)
    show ?thesis by (rule old [OF new [OF Leader(1) _ Leader(2)]]) (simp_all add: Leader(3))
  next
    case (Follower raw p out)
    show ?thesis by (rule old [OF new [OF Follower(1) _ Follower(2)]]) (simp_all add: Follower(3))
  qed
qed

lemma reachable_values: "reachable cfg st \<Longrightarrow> value_inv cfg st"
proof (induction rule: reachable.induct)
  case start
  then show ?case by (rule value_invI) (simp_all add: new_resolver_def new_cache_def)
next
  case (step st st')
  from step(2) show ?case
    by (cases rule: resolver_step.cases) (auto intro: begin_values drain_values step(3) reachable_flights step(1))
qed

text \<open>
  C31. A resolution succeeds only when the service is enabled, no limiter it is charged to refused, and the
  presented redirect URI matches the document: whether fetched, shared or cached, that document names the
  presented identifier and holds only acceptable redirect URIs.
\<close>

theorem resolution_sound:
  assumes "reachable cfg st" and "(clientId, Finished waited) \<in> set (rs_callers st)"
    and "cimd_resolve cfg ask own_port limiter ip clock clientId redirectUri waited = (Inr registration, audited)"
  shows "rc_enabled cfg \<and> (\<forall>port \<in> set (charged_ports own_port limiter). ask port (rate_key ip) \<noteq> Inr False)
    \<and> cimd_client_id registration = clientId
    \<and> cimdRedirectMatches (shared_parser (rc_parse cfg)) redirectUri registration
    \<and> (\<forall>u \<in> set (cimd_redirect_uris registration). assertCimdRedirectUri (shared_parser (rc_parse cfg)) (Str u) = Inr ())"
proof -
  have guard: "rateGuard ask key ports = Inr () \<Longrightarrow> \<forall>port \<in> set ports. ask port key \<noteq> Inr False" for key ports
    by (induction ports) (auto split: if_splits)
  from assms(3) obtain r where "rc_enabled cfg" "rateGuard ask (rate_key ip) (charged_ports own_port limiter) = Inr ()"
    and r: "waited = Inr r" "rr_registration r = registration"
    and "cimdRedirectMatches (shared_parser (rc_parse cfg)) redirectUri registration"
    by (auto simp: cimd_resolve_def resolve_end_def result_simps split: if_splits sum.splits)
  moreover have "belongs cfg clientId r"
    using value_invD(3) [OF reachable_values [OF assms(1)] assms(2)] r by (simp add: sound_outcome_def)
  ultimately show ?thesis using guard by (auto simp: belongs_def r)
qed

text \<open>The guard either admits or refuses with the one rate error.\<close>

lemma rateGuard_refuses: "rateGuard ask key ports = Inl e \<Longrightarrow> e = rate_exceeded"
  by (induction ports) (auto split: if_splits)

definition cimd_failure_event :: "string \<Rightarrow> string \<Rightarrow> string option \<Rightarrow> int \<Rightarrow> audit_event" where
  "cimd_failure_event reason clientId ip now =
     \<lparr>ae_event = ''oauth.cimd.fetch'', ae_status = ''failure'', ae_occurredAt = toISOString now, ae_clientId = Some clientId,
      ae_subject = None, ae_resource = None, ae_scopes = None, ae_redirectHost = None, ae_reason = Some reason, ae_ip = ip,
      ae_selectedClientAuthMethod = None\<rparr>"

text \<open>
  C32. No oracle: when the clock can be read, a resolution that its rate limit refuses is the one rate error and
  leaves no event, one of a switched-off resolver is the generic error and leaves none, and whatever else made it
  fail, from the spelling of the identifier to an internal address or the contents of a document, the client is
  told the same generic error, and exactly one failure event is written, for this identifier and address at this
  time, with a reason from the fixed list.
\<close>

theorem resolution_no_oracle:
  assumes "reachable cfg st" and "(clientId, Finished waited) \<in> set (rs_callers st)"
    and "finiteClockSnapshot clock 0 = Inr now"
    and "cimd_resolve cfg ask own_port limiter ip clock clientId redirectUri waited = (Inl e, events)"
  shows "if \<not> rc_enabled cfg then e = cimdGenericError \<and> events = []
    else if rateGuard ask (rate_key ip) (charged_ports own_port limiter) \<noteq> Inr () then e = rate_exceeded \<and> events = []
    else e = cimdGenericError \<and> (\<exists>reason \<in> set AUDIT_REASONS. events = [cimd_failure_event reason clientId ip now])"
proof -
  have generic: "mapCimdError f = cimdGenericError" for f
    by (auto simp: mapCimdError_def split: failure.splits)
  have listed: "auditReason f \<in> set AUDIT_REASONS" for f
    by (auto simp: auditReason_def AUDIT_REASONS_def split: failure.splits)
  have "is_cimd_error f \<Longrightarrow> \<not> is_oauth f" for f by (auto simp: is_oauth_def is_cimd_error_def split: failure.splits)
  moreover have "is_cimd_error f" if "waited = Inl f" for f
    using value_invD(3) [OF reachable_values [OF assms(1)] assms(2)] that by (simp add: sound_outcome_def)
  moreover have "\<not> is_oauth (cimdError m)" for m by (simp add: is_oauth_def cimdError_def)
  moreover have "cimd_audit clock ''failure'' (Some reason) clientId ip None = Inr (cimd_failure_event reason clientId ip now)" for reason
    using assms(3) by (simp add: cimd_audit_def cimd_failure_event_def)
  ultimately show ?thesis
    using assms(4) generic listed
    by (cases waited)
      (auto simp: cimd_resolve_def resolve_end_def dest: rateGuard_refuses split: if_split_asm sum.split_asm)
qed

end
