(* ===== verification/Cimd_Resolver_Runs.thy ===== *)
theory Cimd_Resolver_Runs
  imports Cimd_Resolver_Laws
begin

section \<open>A resolution, run\<close>

text \<open>One call leads a fetch, the fetch settles, the caller resumes: the hypotheses of the laws hold on it.\<close>

definition page_id :: string where "page_id = ''https://app.example/c''"

definition page_config :: resolver_config where
  "page_config = \<lparr>rc_parse = page_parser, rc_json = page_json, rc_enabled = True, rc_maxInFlight = 1, rc_maxWaitersPerFetch = 1,
     rc_cacheTtlCapSeconds = 3600, rc_allowLoopback = False, rc_maxDocumentBytes = 5120\<rparr>"

definition page_registration :: CimdRegistration where
  "page_registration = \<lparr>cimd_client_id = page_id, cimd_client_name = ''App'',
     cimd_redirect_uris = [''https://app.example/cb''], cimd_application_type = None\<rparr>"

definition page_resolved :: resolved_registration where
  "page_resolved = \<lparr>rr_registration = page_registration, rr_selectedClientAuthMethod = None\<rparr>"

definition page_leads :: resolver_state where
  "page_leads = \<lparr>rs_cache = (new_cache DEFAULT_MAX_ENTRIES)\<lparr>sc_lastObserved := Some 0\<rparr>, rs_inFlight = [(page_id, 0)],
     rs_waiters = [], rs_fetches = [\<lparr>cf_clientId = page_id, cf_t0 = Some 0, cf_outcome = None\<rparr>],
     rs_callers = [(page_id, Leading 0)]\<rparr>"

definition page_settled :: resolver_state where
  "page_settled = page_leads\<lparr>rs_fetches := [\<lparr>cf_clientId = page_id, cf_t0 = Some 0, cf_outcome = Some (Inr page_resolved)\<rparr>],
     rs_cache := \<lparr>sc_entries = [(page_id, page_resolved, 300000)], sc_maxEntries = DEFAULT_MAX_ENTRIES, sc_lastObserved = Some 1000\<rparr>\<rparr>"

definition page_answered :: resolver_state where
  "page_answered = page_settled\<lparr>rs_inFlight := [], rs_callers := [(page_id, Finished (Inr page_resolved))]\<rparr>"

lemma page_begins: "registration_begin page_config page_id (Some 0) (Some 0) new_resolver = page_leads"
  by (simp add: registration_begin_def new_resolver_def new_cache_def cache_get_def cache_observe_def Let_def
      page_config_def page_leads_def add_caller_def map_set_def)

lemma page_redirect: "assertCimdRedirectUri (shared_parser page_parser) (Str ''https://app.example/cb'') = Inr ()"
  by code_simp

lemma page_expiry:
  "computeCacheExpiryMs (Some \<lparr>cv_valid = True, cv_cacheControl = Some [''max-age=300''], cv_age = None,
       cv_date = None, cv_vary = None\<rparr>) 3600 (Some 0) (Some 1000) = Some 300000"
  by code_simp

lemma page_settles:
  "fetch_settle page_config 0 (Some 1000)
     (snd (guarded_fetch (rc_parse page_config) (rc_json page_config) (rc_allowLoopback page_config)
        (rc_maxDocumentBytes page_config) (fetch_id page_leads 0) page_world)) page_leads = page_settled"
proof -
  have "fetch_outcome page_config page_id (Some 0) (Some 1000) (Inr page_result) (rs_cache page_leads)
      = (Inr page_resolved, rs_cache page_settled)"
    by (simp add: fetch_outcome_def page_result_def page_document_def page_config_def projectCimdRegistration_def page_redirect
        page_expiry page_resolved_def page_registration_def page_id_def page_leads_def page_settled_def
        cache_set_def cache_observe_def new_cache_def Let_def map_del_def map_set_def)
  then show ?thesis
    using page_run by (simp add: fetch_settle_def page_leads_def page_settled_def page_config_def page_id_def)
qed

lemma page_wakes: "wake 0 page_settled = Some page_answered"
  by (simp add: wake_def page_settled_def page_leads_def page_answered_def map_del_def)

lemma page_reachable: "reachable page_config page_leads" "(drain_step page_config)\<^sup>*\<^sup>* page_leads page_answered"
proof -
  show "reachable page_config page_leads"
    using reachable.step [OF reachable.start resolver_step.begins [of page_config new_resolver page_id "Some 0" "Some 0"]]
    by (simp only: page_begins)
  have "drain_step page_config page_leads page_settled"
    using drain_step.settles [of 0 page_leads page_config "Some 1000" page_world] by (simp add: page_settles) (simp add: page_leads_def)
  moreover have "drain_step page_config page_settled page_answered"
    using drain_step.wakes [of 0 page_settled page_answered page_config] page_wakes by (simp add: page_settled_def page_leads_def)
  ultimately show "(drain_step page_config)\<^sup>*\<^sup>* page_leads page_answered" by (meson rtranclp.simps)
qed

lemma page_answered_reachable: "reachable page_config page_answered"
  using page_reachable(2)
  by (induction rule: rtranclp_induct) (auto intro: page_reachable(1) reachable.step resolver_step.drains)

theorem single_flight_bounded_witness: "length (pending page_leads) = 1 \<and> length (pending page_leads) \<le> 1"
  using single_flight_bounded [OF page_reachable(1)] by (simp add: page_config_def) (simp add: pending_def page_leads_def)

theorem every_caller_answered_witness: "rs_inFlight page_answered = [] \<and> rs_waiters page_answered = []"
proof -
  have "\<nexists>st''. drain_step page_config page_answered st''"
    by (auto elim!: drain_stepE simp: page_answered_def page_settled_def page_leads_def wake_def)
  from every_caller_answered [OF page_reachable this] show ?thesis by simp
qed

lemma page_matches:
  "cimdRedirectMatches (shared_parser page_parser) ''https://app.example/cb'' page_registration"
  "\<not> cimdRedirectMatches (shared_parser page_parser) ''https://evil.example/cb'' page_registration"
  by code_simp+

theorem resolution_sound_witness:
  "cimd_client_id page_registration = page_id
   \<and> cimdRedirectMatches (shared_parser page_parser) ''https://app.example/cb'' page_registration"
proof -
  have "cimd_resolve page_config (\<lambda>_ _. Inr True) () None None (Reads (Whole 0)) page_id ''https://app.example/cb'' (Inr page_resolved)
      = (Inr page_registration, [])"
    by (simp add: cimd_resolve_def resolve_end_def charged_ports_def page_config_def page_resolved_def page_matches)
  from resolution_sound [OF page_answered_reachable _ this] show ?thesis
    by (simp add: page_answered_def page_config_def)
qed

theorem resolution_no_oracle_witness:
  "\<exists>reason \<in> set AUDIT_REASONS.
     cimd_resolve page_config (\<lambda>_ _. Inr True) () None None (Reads (Whole 0)) page_id ''https://evil.example/cb'' (Inr page_resolved)
       = (Inl cimdGenericError, [cimd_failure_event reason page_id None 0])"
proof -
  let ?run = "cimd_resolve page_config (\<lambda>_ _. Inr True) () None None (Reads (Whole 0)) page_id ''https://evil.example/cb'' (Inr page_resolved)"
  have clock: "finiteClockSnapshot (Reads (Whole 0)) 0 = Inr 0"
    by (simp add: finiteClockSnapshot_Inr safe_int_def MAX_SAFE_INTEGER_def MIN_CANONICAL_MS_def MAX_CANONICAL_MS_def)
  have "fst ?run = Inl cimdGenericError"
    by (simp add: cimd_resolve_def resolve_end_def charged_ports_def page_config_def page_resolved_def page_matches
        cimd_audit_def clock is_oauth_def cimdError_def mapCimdError_def)
  then have run: "?run = (Inl cimdGenericError, snd ?run)" by (metis prod.collapse)
  have "(page_id, Finished (Inr page_resolved)) \<in> set (rs_callers page_answered)" by (simp add: page_answered_def)
  moreover have "rateGuard (\<lambda>_ _. Inr True) (rate_key None) (charged_ports () None) = Inr ()" by (simp add: charged_ports_def)
  ultimately show ?thesis
    using resolution_no_oracle [OF page_answered_reachable _ clock run] run by (auto simp: page_config_def)
qed

end
