(* ===== verification/Registration.thy ===== *)
theory Registration
  imports Bridge_Config Task_Laws
begin

section \<open>Dynamic client registration\<close>

text \<open>
  \<open>src/register.ts\<close>: the open registration endpoint. It refuses anything shaped like a machine client,
  puts every redirect URI through the allowlist and, where clients are stored, through the policy of the
  application type, and saves the client. \<open>redirectHost\<close> of the audit event is the origin of the first
  redirect URI.
\<close>

record register_input =
  rg_redirectUris :: jsval
  rg_applicationType :: jsval
  rg_tokenEndpointAuthMethod :: jsval
  rg_grantTypes :: jsval

record RegisteredClient =
  rc_client_id :: string
  rc_client_id_issued_at :: int
  rc_redirect_uris :: "string list"

definition MAX_GRANT_TYPES :: nat where "MAX_GRANT_TYPES = 32"

definition MAX_GRANT_TYPE_BYTES :: nat where "MAX_GRANT_TYPE_BYTES = 256"

definition metadataError :: "string \<Rightarrow> failure" where
  "metadataError m = oauth400 ''invalid_client_metadata'' m"

text \<open>The parenthesis the messages end with: a section sign, in UTF-8, and the number.\<close>

definition section_mark :: string where "section_mark = '' ('' @ [CHR 0xC2, CHR 0xA7] @ ''17.2)''"

definition requiredRedirectArray :: "jsval \<Rightarrow> jsval list outcome" where
  "requiredRedirectArray v =
     (case v of
        Undefined \<Rightarrow> Inl (oauth400 ''invalid_request'' ''redirect_uris is required'')
      | Arr xs \<Rightarrow>
          if length xs < 1 \<or> length xs > 16 then Inl (metadataError ''redirect_uris must contain 1..16 entries'')
          else Inr xs
      | RevokedProxy \<Rightarrow> Inl proxy_type_error
      | _ \<Rightarrow> Inl (metadataError ''redirect_uris must be an array''))"

definition grant_type_entry :: "jsval \<Rightarrow> string outcome" where
  "grant_type_entry v =
     (case v of
        Str s \<Rightarrow>
          if s = [] then Inl (metadataError ''grant_types entries must be non-empty primitive strings'')
          else if length s > MAX_GRANT_TYPE_BYTES
          then Inl (metadataError ''grant_types entries must not exceed 256 UTF-8 bytes'')
          else Inr s
      | _ \<Rightarrow> Inl (metadataError ''grant_types entries must be non-empty primitive strings''))"

definition optionalGrantTypes :: "jsval \<Rightarrow> string list option outcome" where
  "optionalGrantTypes v =
     (case v of
        Undefined \<Rightarrow> Inr None
      | Arr xs \<Rightarrow>
          if length xs > MAX_GRANT_TYPES then Inl (metadataError ''grant_types must contain 0..32 entries'')
          else chain (collect grant_type_entry xs) (\<lambda>ts. Inr (Some ts))
      | RevokedProxy \<Rightarrow> Inl proxy_type_error
      | _ \<Rightarrow> Inl (metadataError ''grant_types must be an array''))"

definition check_auth_method :: "jsval \<Rightarrow> unit outcome" where
  "check_auth_method v =
     (if v = Undefined then Inr ()
      else case v of
        Str s \<Rightarrow>
          if s = [] then Inl (metadataError ''token_endpoint_auth_method must be a non-empty string when present'')
          else if s \<noteq> ''none''
          then Inl (metadataError (''token_endpoint_auth_method other than '' @ [CHR 0x27] @ ''none'' @ [CHR 0x27]
                 @ '' is not accepted via open registration'' @ section_mark))
          else Inr ()
      | _ \<Rightarrow> Inl (metadataError ''token_endpoint_auth_method must be a non-empty string when present''))"

definition check_grant_types :: "jsval \<Rightarrow> unit outcome" where
  "check_grant_types v =
     chain (optionalGrantTypes v) (\<lambda>ts.
       case ts of
         None \<Rightarrow> Inr ()
       | Some l \<Rightarrow>
           if ''client_credentials'' \<in> set l
           then Inl (metadataError (''grant_types containing client_credentials is not accepted via open registration'' @ section_mark))
           else Inr ())"

definition application_type_of_input :: "jsval \<Rightarrow> ApplicationType outcome" where
  "application_type_of_input v =
     (let raw = (if v = Undefined then Str ''web'' else v) in
      if raw = Str ''native'' then Inr Native_app
      else if raw = Str ''web'' then Inr Web_app
      else Inl (oauth400 ''invalid_client_metadata''
             (''application_type must be '' @ [CHR 0x27] @ ''native'' @ [CHR 0x27] @ '' or '' @ [CHR 0x27] @ ''web'' @ [CHR 0x27]
              @ ''; machine clients are provisioned out-of-band'' @ section_mark)))"

definition admit_redirect :: "url_parser \<Rightarrow> bridge_config \<Rightarrow> ApplicationType \<Rightarrow> jsval \<Rightarrow> string outcome" where
  "admit_redirect parseUrl config t entry =
     chain (assertAllowedRedirectUri parseUrl entry (cfg_redirectAllowlist config) (cfg_redirectAllowlistMode config)) (\<lambda>uri.
     chain (if cfg_dcr config = StoredDcr then assertRegistrationRedirectPolicy parseUrl (Str uri) t else Inr uri) (\<lambda>_.
     Inr uri))"

text \<open>All the checks of a registration, in their order.\<close>

definition registration_checks :: "url_parser \<Rightarrow> bridge_config \<Rightarrow> register_input \<Rightarrow> (ApplicationType \<times> string list) outcome" where
  "registration_checks parseUrl config input =
     chain (check_auth_method (rg_tokenEndpointAuthMethod input)) (\<lambda>_.
     chain (check_grant_types (rg_grantTypes input)) (\<lambda>_.
     chain (requiredRedirectArray (rg_redirectUris input)) (\<lambda>entries.
     chain (application_type_of_input (rg_applicationType input)) (\<lambda>t.
     chain (collect (admit_redirect parseUrl config t) entries) (\<lambda>uris.
     Inr (t, uris))))))"

text \<open>A version 4, variant 1 identifier: the two marked bytes are overwritten, then the text is hex.\<close>

definition cryptoRandom :: "random_reply \<Rightarrow> string outcome" where
  "cryptoRandom r =
     chain (randomBytesFrom r 16) (\<lambda>b.
       Inr (hex_text (b[6 := char_of (byte (b ! 6) mod 16 + 64), 8 := char_of (byte (b ! 8) mod 64 + 128)])))"

definition hostOf :: "url_parser \<Rightarrow> string \<Rightarrow> string option" where
  "hostOf parseUrl v = (case parseUrl v of None \<Rightarrow> None | Some u \<Rightarrow> Some (url_protocol u @ ''//'' @ url_host u))"

definition application_type_text :: "ApplicationType \<Rightarrow> string" where
  "application_type_text t = (case t of Native_app \<Rightarrow> ''native'' | Web_app \<Rightarrow> ''web'' | Machine_app \<Rightarrow> ''machine'')"

definition client_value :: "string \<Rightarrow> string list \<Rightarrow> ApplicationType \<Rightarrow> int \<Rightarrow> jsval" where
  "client_value clientId uris t issuedAt =
     Obj [(''clientId'', Str clientId), (''redirectUris'', Arr (map Str uris)),
          (''applicationType'', Str (application_type_text t)), (''issuedAtEpoch'', Number (Whole issuedAt))]"

definition register_event :: "string \<Rightarrow> string option \<Rightarrow> string \<Rightarrow> string option \<Rightarrow> audit_event" where
  "register_event st host at reason =
     \<lparr>ae_event = ''oauth.register'', ae_status = st, ae_occurredAt = at, ae_clientId = None, ae_subject = None,
      ae_resource = None, ae_scopes = None, ae_redirectHost = host, ae_reason = reason, ae_ip = None,
      ae_selectedClientAuthMethod = None\<rparr>"

definition save_registration :: "bridge_config \<Rightarrow> string \<Rightarrow> string list \<Rightarrow> ApplicationType \<Rightarrow> int \<Rightarrow> unit io" where
  "save_registration config clientId uris t issuedAt =
     (if cfg_dcr config = StoredDcr
      then askPort ''ClientStore'' ''save'' (SaveClient (client_value clientId uris t issuedAt)) (\<lambda>_. Inr ())
      else pass ())"

definition registerClient :: "url_parser \<Rightarrow> bridge_config \<Rightarrow> register_input \<Rightarrow> RegisteredClient io" where
  "registerClient parseUrl config input =
     andThen (readClock 0) (\<lambda>now.
     catch
       (andThen (lift (registration_checks parseUrl config input)) (\<lambda>(t, uris).
        andThen (Draw (\<lambda>r. Return (cryptoRandom r))) (\<lambda>random.
        let clientId = ''mcpdc_'' @ random; issuedAt = now div 1000 in
        andThen (save_registration config clientId uris t issuedAt) (\<lambda>_.
        Audit (register_event ''success'' (case uris of [] \<Rightarrow> None | u # _ \<Rightarrow> hostOf parseUrl u) (toISOString now) None)
          (pass \<lparr>rc_client_id = clientId, rc_client_id_issued_at = issuedAt, rc_redirect_uris = uris\<rparr>)))))
       (\<lambda>e. Audit (register_event ''failure'' None (toISOString now) (Some (failureCode e))) (fail e)))"

end
