(* ===== verification/Token_Endpoint.thy ===== *)
theory Token_Endpoint
  imports Machine_Records Signed_Tokens
begin

section \<open>The token endpoint\<close>

text \<open>
  \<open>src/token.ts\<close>, \<open>src/token-revoke.ts\<close> and \<open>src/token-audit.ts\<close>: code exchange, refresh, the machine
  grant and revocation, as tasks. Each operation reads the clock once; everything after runs on that
  instant. What third-party code supplies (the JWT library, the URL parser, the base64 decoder) is in
  the service record.
\<close>

record token_service =
  ts_config :: bridge_config
  ts_jose :: jose
  ts_parseUrl :: url_parser
  ts_decodeBase64 :: "string \<Rightarrow> string"

record code_input =
  ci_grantType :: "string option"
  ci_code :: "string option"
  ci_redirectUri :: "string option"
  ci_clientId :: "string option"
  ci_codeVerifier :: "string option"

record refresh_input =
  ri_grantType :: "string option"
  ri_refreshToken :: "string option"
  ri_clientId :: "string option"

record client_credentials_input =
  cred_grantType :: "string option"
  cred_authorization :: "string option"
  cred_clientId :: "string option"
  cred_clientSecret :: "string option"
  cred_scope :: "string option"
  cred_resource :: "string option"

record machine_response =
  rs_access_token :: string
  rs_token_type :: string
  rs_expires_in :: int
  rs_scope :: string

record user_response = machine_response +
  rs_refresh_token :: string

definition invalid_grant :: "string \<Rightarrow> failure" where "invalid_grant m = oauth400 ''invalid_grant'' m"

definition unsupported_grant_type :: failure where
  "unsupported_grant_type = oauth400 ''unsupported_grant_type'' ''grant_type is not supported''"

definition requiredStr :: "string option \<Rightarrow> string \<Rightarrow> string outcome" where
  "requiredStr v label =
     (case v of
        Some s \<Rightarrow> if s = [] then Inl (oauth400 ''invalid_request'' (label @ '' is required'')) else Inr s
      | None \<Rightarrow> Inl (oauth400 ''invalid_request'' (label @ '' is required'')))"

definition failure_event :: "string \<Rightarrow> string \<Rightarrow> string option \<Rightarrow> failure \<Rightarrow> audit_event" where
  "failure_event event at clientId e =
     \<lparr>ae_event = event, ae_status = ''failure'', ae_occurredAt = at, ae_clientId = clientId, ae_subject = None,
      ae_resource = None, ae_scopes = None, ae_redirectHost = None, ae_reason = Some (failureCode e), ae_ip = None,
      ae_selectedClientAuthMethod = None\<rparr>"

definition grant_event :: "bridge_config \<Rightarrow> string \<Rightarrow> string \<Rightarrow> string \<Rightarrow> string \<Rightarrow> string list \<Rightarrow> audit_event" where
  "grant_event config event at clientId sub scopes =
     \<lparr>ae_event = event, ae_status = ''success'', ae_occurredAt = at, ae_clientId = Some clientId, ae_subject = Some sub,
      ae_resource = Some (cfg_resource config), ae_scopes = Some scopes, ae_redirectHost = None, ae_reason = None, ae_ip = None,
      ae_selectedClientAuthMethod = None\<rparr>"

definition operation_ttl :: "bridge_config \<Rightarrow> int" where
  "operation_ttl config = max (cfg_accessTokenTtlSeconds config) (cfg_refreshTokenTtlSeconds config)"

subsection \<open>The authorization-code grant\<close>

definition check_code :: "token_service \<Rightarrow> code_input \<Rightarrow> SaveAuthCodeInput option \<Rightarrow> SaveAuthCodeInput outcome" where
  "check_code svc input reply =
     (let config = ts_config svc; bad = invalid_grant ''Authorization code is invalid'' in
      case reply of
        None \<Rightarrow> Inl bad
      | Some rec \<Rightarrow>
          if \<not> hasExpectedGrantGeneration (ac_grantGeneration rec) (expectedStoredDcrGrantGeneration config)
             \<or> ac_resource rec \<noteq> cfg_resource config then Inl bad
          else chain (rethrow (\<lambda>_. bad) (assertOAuthRedirectEntry (ts_parseUrl svc) (Str (ac_redirectUri rec)))) (\<lambda>_.
               if ci_clientId input \<noteq> Some (ac_clientId rec) \<or> ci_redirectUri input \<noteq> Some (ac_redirectUri rec) then Inl bad
               else chain (requiredStr (ci_codeVerifier input) ''code_verifier'') (\<lambda>verifier.
                    if \<not> verifyPkceS256 verifier (ac_codeChallenge rec) then Inl bad else Inr rec)))"

definition consumeValidCode :: "token_service \<Rightarrow> code_input \<Rightarrow> int \<Rightarrow> SaveAuthCodeInput io" where
  "consumeValidCode svc input t =
     andThen (lift (requiredStr (ci_code input) ''code'')) (\<lambda>c.
     andThen (askPort ''StorePort'' ''consumeAuthCode''
               (StorePort (Consume_code (sha256Hex c) (toISOString t)
                  (expectedStoredDcrGrantGeneration (ts_config svc)) (Some (cfg_resource (ts_config svc)))))
               snapshotAuthCodeRecord) (\<lambda>reply.
     lift (check_code svc input reply)))"

text \<open>Two draws for a new family, the family first; one for a successor.\<close>

definition drawRefreshToken :: "string option \<Rightarrow> string io" where
  "drawRefreshToken fid =
     (case fid of
        Some f \<Rightarrow> Draw (\<lambda>r. Return (generateRefreshToken (Some f) r r))
      | None \<Rightarrow> Draw (\<lambda>rf. case generateRefreshFamilyId rf of
                  Inl e \<Rightarrow> fail e
                | Inr f \<Rightarrow> Draw (\<lambda>r. Return (generateRefreshToken (Some f) rf r))))"

definition tokenResponse ::
  "token_service \<Rightarrow> string \<Rightarrow> string \<Rightarrow> string list \<Rightarrow> string \<Rightarrow> int \<Rightarrow> (user_response \<times> string list) outcome" where
  "tokenResponse svc sub clientId recordScopes refreshToken t =
     (let config = ts_config svc in
      chain (storedScopes (Arr (map Str recordScopes)) (cfg_scopeCatalog config)) (\<lambda>scopes.
      chain (signAccessToken (ts_jose svc)
               \<lparr>at_subject = sub, at_clientId = clientId, at_scopes = scopes, at_machine = False\<rparr>
               config (fixedClockSnapshot t)) (\<lambda>accessToken.
      Inr (\<lparr>rs_access_token = accessToken, rs_token_type = ''Bearer'', rs_expires_in = cfg_accessTokenTtlSeconds config,
            rs_scope = scopeString scopes, rs_refresh_token = refreshToken\<rparr>, scopes))))"

definition reserved_subject :: failure where
  "reserved_subject = invalid_grant ''Grant subject uses the reserved machine-client namespace''"

definition first_token :: "SaveAuthCodeInput \<Rightarrow> string \<Rightarrow> string \<Rightarrow> string list \<Rightarrow> string \<Rightarrow> SaveRefreshTokenInput" where
  "first_token rec refreshToken fid scopes expiresAt =
     \<lparr>tk_tokenHash = sha256Hex refreshToken, tk_familyId = fid, tk_previousTokenHash = None, tk_clientId = ac_clientId rec,
      tk_subject = ac_subject rec, tk_resource = Str (ac_resource rec), tk_scopes = scopes, tk_expiresAt = expiresAt,
      tk_grantGeneration = ac_grantGeneration rec\<rparr>"

definition saveFirstToken :: "token_service \<Rightarrow> SaveAuthCodeInput \<Rightarrow> string \<Rightarrow> string \<Rightarrow> string list \<Rightarrow> int \<Rightarrow> unit io" where
  "saveFirstToken svc rec refreshToken fid scopes t =
     (case callPort ''StorePort'' ''saveRefreshToken''
             (expiresAtIso (fixedClockSnapshot t) (cfg_refreshTokenTtlSeconds (ts_config svc))) of
        Inl e \<Rightarrow> fail e
      | Inr expiresAt \<Rightarrow>
          askPort ''StorePort'' ''saveRefreshToken''
            (StorePort (Save_token (first_token rec refreshToken fid scopes expiresAt))) (\<lambda>_. Inr ()))"

definition issue_for_code :: "token_service \<Rightarrow> int \<Rightarrow> SaveAuthCodeInput \<Rightarrow> user_response io" where
  "issue_for_code svc t rec =
     andThen (check (\<not> startsWith (ac_subject rec) ''mcc_'') reserved_subject) (\<lambda>_.
     andThen (drawRefreshToken None) (\<lambda>refreshToken.
     case parseRefreshFamilyId refreshToken of
       None \<Rightarrow> fail (oauthError ''server_error'' ''Refresh token generation failed'' 500)
     | Some fid \<Rightarrow>
         andThen (lift (tokenResponse svc (ac_subject rec) (ac_clientId rec) (ac_scopes rec) refreshToken t)) (\<lambda>prepared.
         andThen (saveFirstToken svc rec refreshToken fid (snd prepared) t) (\<lambda>_.
         Audit (grant_event (ts_config svc) ''oauth.token.authorization_code'' (toISOString t)
                  (ac_clientId rec) (ac_subject rec) (ac_scopes rec))
           (pass (fst prepared))))))"

definition exchangeAuthorizationCode :: "token_service \<Rightarrow> code_input \<Rightarrow> user_response io" where
  "exchangeAuthorizationCode svc input =
     andThen (readClock (operation_ttl (ts_config svc) * 1000)) (\<lambda>t.
     catch
       (andThen (check (ci_grantType input = Some ''authorization_code'') unsupported_grant_type) (\<lambda>_.
        andThen (consumeValidCode svc input t) (issue_for_code svc t)))
       (\<lambda>e. Audit (failure_event ''oauth.token.authorization_code'' (toISOString t) (ci_clientId input) e) (fail e)))"

subsection \<open>The refresh grant\<close>

definition successor_token ::
  "token_service \<Rightarrow> refresh_input \<Rightarrow> string \<Rightarrow> string \<Rightarrow> string \<Rightarrow> string \<Rightarrow> SaveRefreshTokenInput" where
  "successor_token svc input nextRaw previousHash fid expiresAt =
     \<lparr>tk_tokenHash = sha256Hex nextRaw, tk_familyId = fid, tk_previousTokenHash = Some previousHash,
      tk_clientId = (case ri_clientId input of None \<Rightarrow> [] | Some c \<Rightarrow> c), tk_subject = [],
      tk_resource = Str (cfg_resource (ts_config svc)), tk_scopes = [], tk_expiresAt = expiresAt,
      tk_grantGeneration = Undefined\<rparr>"

definition check_rotated :: "token_service \<Rightarrow> refresh_input \<Rightarrow> RefreshSnapshot \<Rightarrow> unit outcome" where
  "check_rotated svc input row =
     (let config = ts_config svc in
      if \<not> hasExpectedGrantGeneration (tk_grantGeneration row) (expectedStoredDcrGrantGeneration config)
         \<or> tk_resource row \<noteq> Some (cfg_resource config) then Inl (invalid_grant ''Refresh token is invalid'')
      else if ri_clientId input = None \<or> ri_clientId input = Some [] \<or> ri_clientId input \<noteq> Some (tk_clientId row)
      then Inl (invalid_grant ''Refresh token client binding is invalid'')
      else if startsWith (tk_subject row) ''mcc_'' then Inl reserved_subject
      else Inr ())"

text \<open>After the rotation: any failure revokes the family, whose new token was never handed out.\<close>

definition issue_for_refresh :: "token_service \<Rightarrow> refresh_input \<Rightarrow> int \<Rightarrow> string \<Rightarrow> string \<Rightarrow> RefreshSnapshot \<Rightarrow> user_response io" where
  "issue_for_refresh svc input t fid nextRaw row =
     catch
       (andThen (lift (check_rotated svc input row)) (\<lambda>_.
        andThen (lift (tokenResponse svc (tk_subject row) (tk_clientId row) (tk_scopes row) nextRaw t)) (\<lambda>prepared.
        Audit (grant_event (ts_config svc) ''oauth.token.refresh'' (toISOString t)
                 (tk_clientId row) (tk_subject row) (tk_scopes row))
          (pass (fst prepared)))))
       (\<lambda>e. andThen (revokeFamily fid (toISOString t) None) (\<lambda>_. fail e))"

definition refreshGrant :: "token_service \<Rightarrow> refresh_input \<Rightarrow> int \<Rightarrow> user_response io" where
  "refreshGrant svc input t =
     andThen (lift (requiredStr (ri_refreshToken input) ''refresh_token'')) (\<lambda>raw.
     case parseRefreshFamilyId raw of
       None \<Rightarrow> fail (invalid_grant ''Refresh token is invalid'')
     | Some fid \<Rightarrow>
         andThen (drawRefreshToken (Some fid)) (\<lambda>nextRaw.
         andThen (lift (expiresAtIso (fixedClockSnapshot t) (cfg_refreshTokenTtlSeconds (ts_config svc)))) (\<lambda>expiresAt.
         andThen (rotateRefreshTokenSnapshot (sha256Hex raw)
                    (successor_token svc input nextRaw (sha256Hex raw) fid expiresAt) (toISOString t)
                    (expectedStoredDcrGrantGeneration (ts_config svc)) (cfg_resource (ts_config svc)) fid) (\<lambda>reply.
         case reply of
           None \<Rightarrow> fail (invalid_grant ''Refresh token is invalid'')
         | Some row \<Rightarrow> issue_for_refresh svc input t fid nextRaw row))))"

definition refresh :: "token_service \<Rightarrow> refresh_input \<Rightarrow> user_response io" where
  "refresh svc input =
     andThen (readClock (operation_ttl (ts_config svc) * 1000)) (\<lambda>t.
     catch
       (andThen (check (ri_grantType input = Some ''refresh_token'') unsupported_grant_type) (\<lambda>_. refreshGrant svc input t))
       (\<lambda>e. Audit (failure_event ''oauth.token.refresh'' (toISOString t) (ri_clientId input) e) (fail e)))"

subsection \<open>The client-credentials grant\<close>

definition invalid_client :: "string \<Rightarrow> failure" where
  "invalid_client m = oauthError ''invalid_client'' m 401"

text \<open>Which identifier and secret are presented: a Basic header wins, and excludes a secret in the body.\<close>

definition presented_client :: "token_service \<Rightarrow> client_credentials_input \<Rightarrow> (string option \<times> string option)" where
  "presented_client svc input =
     (case parseBasicAuth (ts_decodeBase64 svc) (cred_authorization input) of
        Some (cid, secret) \<Rightarrow> (Some cid, Some secret)
      | None \<Rightarrow> (cred_clientId input, cred_clientSecret input))"

definition present :: "string option \<Rightarrow> bool" where
  "present v = (v \<noteq> None \<and> v \<noteq> Some [])"

definition machineGrant ::
  "token_service \<Rightarrow> client_credentials_input \<Rightarrow> int \<Rightarrow> string option \<Rightarrow> string option \<Rightarrow> machine_response io" where
  "machineGrant svc input t clientId clientSecret =
     (let config = ts_config svc in
      andThen (check (\<not> (isBasicAttempt (cred_authorization input) \<and> present (cred_clientSecret input)))
                (invalid_client ''Multiple client authentication methods present'')) (\<lambda>_.
      andThen (check (present clientId \<and> present clientSecret \<and> cfg_dcr config = StoredDcr)
                (invalid_client ''Client authentication is required'')) (\<lambda>_.
      andThen (authenticateMachineClientSecret (ts_parseUrl svc) (cfg_resource config) (fixedClockSnapshot t)
                 (the clientId) (the clientSecret)) (\<lambda>client.
      case client of
        None \<Rightarrow> fail (invalid_client ''Client authentication failed'')
      | Some c \<Rightarrow>
          andThen (lift (resolveClientCredentialsScope (opt_value (cred_scope input))
                     (Arr (map Str (mc_allowedScopes c))) (cfg_scopeCatalog config))) (\<lambda>scopes.
          andThen (check (cred_resource input = None \<or> cred_resource input = Some (cfg_resource config))
                    (oauth400 ''invalid_target'' ''resource does not match the configured resource'')) (\<lambda>_.
          andThen (lift (signAccessToken (ts_jose svc)
                     \<lparr>at_subject = the clientId, at_clientId = the clientId, at_scopes = scopes, at_machine = True\<rparr>
                     config (fixedClockSnapshot t))) (\<lambda>accessToken.
          Audit (grant_event config ''oauth.token.client_credentials'' (toISOString t) (the clientId) (the clientId) scopes)
            (pass \<lparr>rs_access_token = accessToken, rs_token_type = ''Bearer'',
                   rs_expires_in = cfg_accessTokenTtlSeconds config, rs_scope = scopeString scopes\<rparr>))))))))"

definition exchangeClientCredentials :: "token_service \<Rightarrow> client_credentials_input \<Rightarrow> machine_response io" where
  "exchangeClientCredentials svc input =
     andThen (readClock (cfg_accessTokenTtlSeconds (ts_config svc) * 1000)) (\<lambda>t.
     let failed = (\<lambda>clientId e. Audit (failure_event ''oauth.token.client_credentials'' (toISOString t) clientId e) (fail e)) in
     if cred_grantType input \<noteq> Some ''client_credentials'' \<or> cfg_clientCredentials (ts_config svc) \<noteq> Some True
     then failed None unsupported_grant_type
     else let (clientId, clientSecret) = presented_client svc input in
          catch (machineGrant svc input t clientId clientSecret) (failed clientId))"

subsection \<open>Revocation\<close>

definition revoke_event :: "string \<Rightarrow> string \<Rightarrow> string option \<Rightarrow> audit_event" where
  "revoke_event at st reason =
     \<lparr>ae_event = ''oauth.revoke'', ae_status = st, ae_occurredAt = at, ae_clientId = None, ae_subject = None,
      ae_resource = None, ae_scopes = None, ae_redirectHost = None, ae_reason = reason, ae_ip = None,
      ae_selectedClientAuthMethod = None\<rparr>"

definition find_and_revoke :: "string \<Rightarrow> string \<Rightarrow> string option \<Rightarrow> bool io" where
  "find_and_revoke res at refreshToken =
     (case refreshToken of
        None \<Rightarrow> pass False
      | Some raw \<Rightarrow>
          if raw = [] then pass False
          else andThen (askPort ''StorePort'' ''findRefreshToken'' (StorePort (Find_token (sha256Hex raw)))
                          snapshotRefreshTokenRecord) (\<lambda>reply.
               case reply of
                 None \<Rightarrow> pass False
               | Some existing \<Rightarrow>
                   if tk_resource existing = Some res
                   then andThen (revokeFamily (tk_familyId existing) at (Some res)) (\<lambda>_. pass True)
                   else pass False))"

definition revokeRefreshToken :: "string \<Rightarrow> string option \<Rightarrow> unit io" where
  "revokeRefreshToken res refreshToken =
     andThen (readClock 0) (\<lambda>t.
     catch
       (andThen (find_and_revoke res (toISOString t) refreshToken) (\<lambda>revoked.
        Audit (revoke_event (toISOString t) ''success'' (if revoked then None else Some ''unrecognized_token'')) (pass ())))
       (\<lambda>e. Audit (revoke_event (toISOString t) ''failure'' (Some ''internal_error'')) (fail e)))"

end
