(* ===== verification/Authorize.thy ===== *)
theory Authorize
  imports Registration Cimd_Document Token_Endpoint Machine_Clients Resource_Server
begin

section \<open>The authorization endpoint\<close>

text \<open>
  \<open>src/authorize.ts\<close>, \<open>src/authorize-internals.ts\<close>, \<open>src/authorize-audit.ts\<close> and the redirect builders
  of \<open>src/challenge.ts\<close>: \<open>prepare\<close> checks an authorization request and signs the consent token,
  \<open>approve\<close> turns an approved consent token into a stored authorization code. Errors before the
  redirect URI is validated go to the caller; later ones carry the redirect target. What the platform
  supplies (the URL parser and the edited URL) and the CIMD resolver are in the service record.
\<close>

subsection \<open>Services, inputs and results\<close>

text \<open>
  \<open>az_editUrl u ps\<close> is \<open>new URL(u)\<close> with each parameter of \<open>ps\<close> set (deleted for \<open>None\<close>), in order, and the
  fragment cleared, as \<open>href\<close>; \<open>None\<close> when \<open>new URL\<close> throws. A CIMD resolver answers with a registration and
  the emission of its success event.
\<close>

type_synonym url_editor = "string \<Rightarrow> (string \<times> string option) list \<Rightarrow> string option"

type_synonym cimd_resolver = "string \<Rightarrow> string \<Rightarrow> string option \<Rightarrow> (CimdRegistration \<times> unit io) io"

record authorize_service =
  az_config :: bridge_config
  az_jose :: jose
  az_parseUrl :: url_parser
  az_editUrl :: url_editor
  az_cimd :: "cimd_resolver option"

record authorize_input =
  ai_clientId :: "string option"
  ai_redirectUri :: "string option"
  ai_responseType :: "string option"
  ai_codeChallenge :: "string option"
  ai_codeChallengeMethod :: "string option"
  ai_resource :: "string option"
  ai_scope :: "string option"
  ai_state :: "string option"
  ai_subject :: "string option"
  ai_allowedScopes :: jsval
  ai_registration :: "CimdRegistration option"
  ai_ip :: "string option"

record approve_input =
  ap_consentToken :: "string option"
  ap_approved :: "bool option"
  ap_origin :: "string option"

record cimd_display =
  cx_clientIdHost :: string
  cx_redirectHost :: string
  cx_clientName :: string
  cx_allRedirectsLoopback :: bool

record prepared_consent = consent_claims +
  pc_consentToken :: string
  pc_priorScopes :: "string list"
  pc_cimd :: "cimd_display option"

record approve_result =
  ar_redirectTo :: string
  ar_code :: "string option"
  ar_state :: "string option"

record resolved_client =
  rv_redirectUri :: string
  rv_registration :: "CimdRegistration option"
  rv_emitCimdSuccess :: "unit io"

subsection \<open>Redirects back to the client\<close>

definition url_type_error :: failure where "url_type_error = Thrown ''TypeError'' ''Invalid URL''"

definition edited :: "authorize_service \<Rightarrow> string \<Rightarrow> (string \<times> string option) list \<Rightarrow> string outcome" where
  "edited svc uri ps = (case az_editUrl svc uri ps of None \<Rightarrow> Inl url_type_error | Some u \<Rightarrow> Inr u)"

definition redirectWithCode :: "authorize_service \<Rightarrow> string \<Rightarrow> string \<Rightarrow> string \<Rightarrow> string option \<Rightarrow> string outcome" where
  "redirectWithCode svc redirectUri c issuer state =
     edited svc redirectUri
       ([(''code'', Some c), (''iss'', Some issuer)] @ (if present state then [(''state'', state)] else []))"

definition buildAuthorizationErrorRedirect ::
  "authorize_service \<Rightarrow> string \<Rightarrow> string \<Rightarrow> string option \<Rightarrow> string option \<Rightarrow> string outcome" where
  "buildAuthorizationErrorRedirect svc redirectUri c state description =
     edited svc redirectUri
       [(''error'', Some c), (''iss'', Some (cfg_issuer (az_config svc))), (''state'', state),
        (''error_description'', description)]"

definition buildErrorRedirect ::
  "authorize_service \<Rightarrow> string \<Rightarrow> string \<Rightarrow> string option \<Rightarrow> string option \<Rightarrow> string outcome" where
  "buildErrorRedirect svc redirectUri c state description =
     edited svc redirectUri
       ([(''error'', Some c)] @ (if present state then [(''state'', state)] else [])
        @ (if present description then [(''error_description'', description)] else []))"

subsection \<open>Audit events\<close>

definition authorize_success :: "authorize_service \<Rightarrow> string \<Rightarrow> int \<Rightarrow> consent_claims \<Rightarrow> string list \<Rightarrow> audit_event" where
  "authorize_success svc event t claims scopes =
     \<lparr>ae_event = event, ae_status = ''success'', ae_occurredAt = toISOString t, ae_clientId = Some (cc_clientId claims),
      ae_subject = Some (cc_subject claims), ae_resource = Some (cc_resource claims), ae_scopes = Some scopes,
      ae_redirectHost = hostOf (az_parseUrl svc) (cc_redirectUri claims), ae_reason = None, ae_ip = None,
      ae_selectedClientAuthMethod = None\<rparr>"

definition authorize_failure ::
  "authorize_service \<Rightarrow> string \<Rightarrow> int \<Rightarrow> failure \<Rightarrow> string option \<Rightarrow> string option \<Rightarrow> string option \<Rightarrow> audit_event" where
  "authorize_failure svc event t e clientId redirectUri sub =
     \<lparr>ae_event = event, ae_status = ''failure'', ae_occurredAt = toISOString t, ae_clientId = clientId,
      ae_subject = sub, ae_resource = None, ae_scopes = None,
      ae_redirectHost = (case redirectUri of None \<Rightarrow> None
        | Some u \<Rightarrow> if u = [] then None else hostOf (az_parseUrl svc) u),
      ae_reason = Some (failureCode e), ae_ip = None,
      ae_selectedClientAuthMethod = None\<rparr>"

subsection \<open>Which client asks, and where its answer may go\<close>

definition resolveOpaqueRedirect :: "authorize_service \<Rightarrow> string \<Rightarrow> string \<Rightarrow> string io" where
  "resolveOpaqueRedirect svc clientId redirectUri =
     (let config = az_config svc;
          allowed = (\<lambda>v. assertAllowedRedirectUri (az_parseUrl svc) v (cfg_redirectAllowlist config)
                       (cfg_redirectAllowlistMode config)) in
      if cfg_dcr config = StoredDcr then
        andThen (askPort ''ClientStore'' ''find'' (FindClient clientId) Inr) (\<lambda>stored.
        andThen (check (truthy_value stored) (oauthError ''invalid_client'' ''Unknown client_id'' 401)) (\<lambda>_.
        case parseAuthorizationClientRegistration stored clientId of
          None \<Rightarrow> fail (oauthError ''invalid_client'' ''Malformed stored client registration'' 401)
        | Some client \<Rightarrow>
            lift (chain (collect allowed (cr_redirectUris client)) (\<lambda>_.
                  assertRedirectAllowedForClient (az_parseUrl svc) (Str redirectUri) client))))
      else lift (allowed (Str redirectUri)))"

definition resolved_by :: "string \<Rightarrow> CimdRegistration option \<Rightarrow> unit io \<Rightarrow> resolved_client" where
  "resolved_by uri reg emit = \<lparr>rv_redirectUri = uri, rv_registration = reg, rv_emitCimdSuccess = emit\<rparr>"

definition resolveAuthorizeClient ::
  "authorize_service \<Rightarrow> string \<Rightarrow> string \<Rightarrow> CimdRegistration option \<Rightarrow> string option \<Rightarrow> resolved_client io" where
  "resolveAuthorizeClient svc clientId redirectUri registration ip =
     (case registration of
        Some reg \<Rightarrow>
          andThen (check (cimd_client_id reg = clientId) cimdGenericError) (\<lambda>_.
          andThen (check (cimdRedirectMatches (az_parseUrl svc) redirectUri reg) cimdGenericError) (\<lambda>_.
          pass (resolved_by redirectUri (Some reg) (pass ()))))
      | None \<Rightarrow>
          if isCimdClientId clientId then
            (case (cfg_cimd (az_config svc), az_cimd svc) of
               (Some _, Some resolve) \<Rightarrow>
                 andThen (resolve clientId redirectUri ip) (\<lambda>r.
                 pass (resolved_by redirectUri (Some (fst r)) (snd r)))
             | _ \<Rightarrow> fail cimdGenericError)
          else if isSchemeShaped clientId then fail cimdGenericError
          else andThen (resolveOpaqueRedirect svc clientId redirectUri) (\<lambda>uri.
               pass (resolved_by uri None (pass ()))))"

definition accumulationAllowed :: "bridge_config \<Rightarrow> string \<Rightarrow> bool" where
  "accumulationAllowed config clientId = (cfg_dcr config = StoredDcr \<and> \<not> isSchemeShaped clientId)"

definition assertApproveCimdGate :: "bridge_config \<Rightarrow> string \<Rightarrow> bool \<Rightarrow> unit outcome" where
  "assertApproveCimdGate config clientId cimdVerified =
     (if isCimdClientId clientId then require (cfg_cimd config \<noteq> None \<and> cimdVerified) invalid_consent
      else require (\<not> isSchemeShaped clientId \<and> \<not> cimdVerified) invalid_consent)"

definition assertCurrentConsentRedirect :: "authorize_service \<Rightarrow> string \<Rightarrow> string \<Rightarrow> unit io" where
  "assertCurrentConsentRedirect svc clientId redirectUri =
     (if isCimdClientId clientId then pass ()
      else andThen (resolveOpaqueRedirect svc clientId redirectUri) (\<lambda>_. pass ()))"

definition cimdDisplay :: "url_parser \<Rightarrow> CimdRegistration \<Rightarrow> string \<Rightarrow> cimd_display" where
  "cimdDisplay parseUrl registration redirectUri =
     \<lparr>cx_clientIdHost = displayHost parseUrl (cimd_client_id registration), cx_redirectHost = displayHost parseUrl redirectUri,
      cx_clientName = cimd_client_name registration,
      cx_allRedirectsLoopback = everyRedirectIsLoopback parseUrl (cimd_redirect_uris registration)\<rparr>"

definition approveOriginAllowed :: "url_parser \<Rightarrow> bridge_config \<Rightarrow> string option \<Rightarrow> bool outcome" where
  "approveOriginAllowed parseUrl config origin =
     chain (originOf parseUrl (cfg_issuer config)) (\<lambda>issuerOrigin.
     Inr (case origin of None \<Rightarrow> False
          | Some o' \<Rightarrow> o' \<noteq> [] \<and> (o' \<in> set (cfg_allowedOrigins config) \<or> o' = issuerOrigin)))"

definition assertApproveOrigin :: "url_parser \<Rightarrow> bridge_config \<Rightarrow> string option \<Rightarrow> unit outcome" where
  "assertApproveOrigin parseUrl config origin =
     chain (approveOriginAllowed parseUrl config origin) (\<lambda>ok.
     require ok (oauthError ''invalid_origin'' ''Origin not allowed'' 403))"

text \<open>Duplicates are dropped where they recur; a ceiling, when there is one, is intersected with.\<close>

definition dedupe :: "string list \<Rightarrow> string list" where
  "dedupe values = foldl push_new [] values"

definition narrow :: "string list option \<Rightarrow> string list \<Rightarrow> string list" where
  "narrow ceiling scopes = (case ceiling of None \<Rightarrow> scopes | Some c \<Rightarrow> filter (\<lambda>s. s \<in> set c) scopes)"

definition readStoreInstanceId :: "string io" where
  "readStoreInstanceId =
     andThen (askPort ''StorePort'' ''getStoreInstanceId'' (StorePort Get_id) Inr) (\<lambda>v. lift (readInstanceId v))"

text \<open>The scopes already granted, read only where accumulation is allowed.\<close>

definition priorGrants :: "bridge_config \<Rightarrow> string \<Rightarrow> string \<Rightarrow> string io \<Rightarrow> string list io" where
  "priorGrants config sub clientId nowIso =
     andThen (if accumulationAllowed config clientId
              then andThen nowIso (\<lambda>at. readGrantedScopeSnapshot sub clientId at
                     (expectedStoredDcrGrantGeneration config) (cfg_resource config))
              else pass (Arr []))
       (\<lambda>raw. lift (storedScopes raw (cfg_scopeCatalog config)))"

subsection \<open>Preparing the consent\<close>

text \<open>An error after the redirect URI is validated carries it, unless it carries a target already.\<close>

definition tag_redirect :: "string \<Rightarrow> string option \<Rightarrow> failure \<Rightarrow> failure" where
  "tag_redirect uri state e =
     (case e of OAuth o' \<Rightarrow> if redirect o' = None then OAuth (withRedirect o' uri state) else e | _ \<Rightarrow> e)"

definition opt_array :: "string list option \<Rightarrow> jsval" where
  "opt_array v = (case v of None \<Rightarrow> Undefined | Some ss \<Rightarrow> Arr (map Str ss))"

definition check_subject :: "string option \<Rightarrow> string outcome" where
  "check_subject v =
     (case v of
        None \<Rightarrow> Inl (oauthError ''access_denied'' ''Authenticated subject is required'' 401)
      | Some s \<Rightarrow>
          if s = [] then Inl (oauthError ''access_denied'' ''Authenticated subject is required'' 401)
          else if startsWith s ''mcc_''
          then Inl (oauthError ''access_denied'' ''Subject uses the reserved machine-client namespace'' 401)
          else Inr s)"

definition requested_scopes :: "bridge_config \<Rightarrow> string option \<Rightarrow> string list option \<Rightarrow> string list outcome" where
  "requested_scopes config scope ceiling =
     chain (normalizeScopes (opt_value scope) (cfg_scopeCatalog config) (cfg_defaultScopes config)) (\<lambda>requested.
     if ceiling \<noteq> None \<and> narrow ceiling requested = []
     then Inl (oauth400 ''access_denied'' ''No requested scopes are within the authorized ceiling'')
     else Inr (narrow ceiling requested))"

definition requested_resource :: "bridge_config \<Rightarrow> string option \<Rightarrow> string outcome" where
  "requested_resource config res =
     (if \<not> present res \<or> res = Some (cfg_resource config) then Inr (cfg_resource config)
      else Inl (oauth400 ''invalid_target'' ''Unknown OAuth resource''))"

definition request_claims ::
  "bridge_config \<Rightarrow> authorize_input \<Rightarrow> string \<Rightarrow> string \<Rightarrow> resolved_client \<Rightarrow> string list option \<Rightarrow> consent_claims outcome" where
  "request_claims config input sub clientId resolved ceiling =
     chain (require (ai_responseType input = Some ''code'')
              (oauth400 ''unsupported_response_type'' ''Only response_type=code is supported'')) (\<lambda>_.
     chain (requested_resource config (ai_resource input)) (\<lambda>res.
     chain (require (ai_codeChallengeMethod input = Some ''S256'')
              (oauth400 ''invalid_request'' ''PKCE code_challenge_method must be S256'')) (\<lambda>_.
     chain (requiredStr (ai_codeChallenge input) ''code_challenge'') (\<lambda>challenge.
     chain (requested_scopes config (ai_scope input) ceiling) (\<lambda>scopes.
     Inr \<lparr>cc_clientId = clientId, cc_redirectUri = rv_redirectUri resolved, cc_resource = res, cc_scopes = scopes,
          cc_codeChallenge = challenge, cc_state = ai_state input, cc_subject = sub, cc_allowedScopes = ceiling,
          cc_cimdVerified = (rv_registration resolved \<noteq> None), cc_storeInstanceId = None\<rparr>)))))"

definition seal_request ::
  "authorize_service \<Rightarrow> authorize_input \<Rightarrow> string \<Rightarrow> string \<Rightarrow> resolved_client \<Rightarrow> string list option \<Rightarrow>
     (consent_claims \<times> string) io" where
  "seal_request svc input sub clientId resolved ceiling =
     andThen (lift (request_claims (az_config svc) input sub clientId resolved ceiling)) (\<lambda>claims.
     andThen readStoreInstanceId (\<lambda>instance.
     let bound = claims\<lparr>cc_storeInstanceId := Some instance\<rparr> in
     Now (\<lambda>clock.
     andThen (signConsentToken (az_jose svc) True bound (az_config svc) clock) (\<lambda>token. pass (bound, token)))))"

definition clock_iso :: "string io" where
  "clock_iso = andThen (readClock 0) (\<lambda>t. pass (toISOString t))"

definition prepared ::
  "authorize_service \<Rightarrow> consent_claims \<Rightarrow> string \<Rightarrow> string list \<Rightarrow> CimdRegistration option \<Rightarrow> prepared_consent" where
  "prepared svc claims token prior registration =
     consent_claims.extend claims
       \<lparr>pc_consentToken = token, pc_priorScopes = narrow (cc_allowedScopes claims) prior,
        pc_cimd = map_option (\<lambda>r. cimdDisplay (az_parseUrl svc) r (cc_redirectUri claims)) registration\<rparr>"

definition AUDIT_PREPARE :: string where "AUDIT_PREPARE = ''oauth.authorize.prepare''"

definition AUDIT_APPROVE :: string where "AUDIT_APPROVE = ''oauth.authorize.approve''"

text \<open>A failure is audited at a fresh clock reading; when that fails, its error is the one raised.\<close>

definition prepare_failed :: "authorize_service \<Rightarrow> authorize_input \<Rightarrow> string option \<Rightarrow> failure \<Rightarrow> 'a io" where
  "prepare_failed svc input clientId e =
     andThen (readClock 0) (\<lambda>t.
     Audit (authorize_failure svc AUDIT_PREPARE t e clientId (ai_redirectUri input) None) (fail e))"

definition prepare_for ::
  "authorize_service \<Rightarrow> authorize_input \<Rightarrow> string \<Rightarrow> string list option \<Rightarrow> string \<Rightarrow> prepared_consent io" where
  "prepare_for svc input sub ceiling clientId =
     andThen (lift (requiredStr (ai_redirectUri input) ''redirect_uri'')) (\<lambda>uri.
     andThen (resolveAuthorizeClient svc clientId uri (ai_registration input) (ai_ip input)) (\<lambda>resolved.
     andThen (rv_emitCimdSuccess resolved) (\<lambda>_.
     andThen (catch (seal_request svc input sub clientId resolved ceiling)
                (\<lambda>e. fail (tag_redirect (rv_redirectUri resolved) (ai_state input) e))) (\<lambda>(claims, token).
     andThen (priorGrants (az_config svc) sub clientId clock_iso) (\<lambda>prior.
     andThen (readClock 0) (\<lambda>t.
     Audit (authorize_success svc AUDIT_PREPARE t claims (cc_scopes claims))
       (pass (prepared svc claims token prior (rv_registration resolved)))))))))"

definition prepare :: "authorize_service \<Rightarrow> authorize_input \<Rightarrow> prepared_consent io" where
  "prepare svc input =
     andThen (catch (lift (chain (check_subject (ai_subject input)) (\<lambda>sub.
                           chain (assertAllowedScopesCeiling (ai_allowedScopes input)) (\<lambda>ceiling.
                           chain (requiredStr (ai_clientId input) ''client_id'') (\<lambda>clientId.
                           Inr (sub, ceiling, clientId))))))
                (prepare_failed svc input None)) (\<lambda>(sub, ceiling, clientId).
     catch (prepare_for svc input sub ceiling clientId) (prepare_failed svc input (Some clientId)))"

subsection \<open>Approving it\<close>

definition open_consent :: "authorize_service \<Rightarrow> approve_input \<Rightarrow> int \<Rightarrow> verified_consent io" where
  "open_consent svc input t =
     (let config = az_config svc in
      andThen (lift (assertApproveOrigin (az_parseUrl svc) config (ap_origin input))) (\<lambda>_.
      andThen (lift (requiredStr (ap_consentToken input) ''consent_token'')) (\<lambda>token.
      andThen (lift (verifyConsentToken (az_jose svc) token config (fixedClockSnapshot t))) (\<lambda>consent.
      andThen (check (cc_resource consent = cfg_resource config) invalid_consent) (\<lambda>_.
      andThen readStoreInstanceId (\<lambda>instance.
      andThen (check (cc_storeInstanceId consent = Some instance) invalid_consent) (\<lambda>_.
      andThen (lift (assertApproveCimdGate config (cc_clientId consent) (cc_cimdVerified consent))) (\<lambda>_.
      andThen (lift (assertOAuthRedirectEntry (az_parseUrl svc) (Str (cc_redirectUri consent)))) (\<lambda>_.
      andThen (assertCurrentConsentRedirect svc (cc_clientId consent) (cc_redirectUri consent)) (\<lambda>_.
      pass consent))))))))))"

definition consent_scopes :: "bridge_config \<Rightarrow> verified_consent \<Rightarrow> int \<Rightarrow> string list io" where
  "consent_scopes config consent t =
     andThen (lift (storedScopes (Arr (map Str (cc_scopes consent))) (cfg_scopeCatalog config))) (\<lambda>own_scopes.
     andThen (lift (assertAllowedScopesCeiling (opt_array (cc_allowedScopes consent)))) (\<lambda>ceiling.
     andThen (priorGrants config (cc_subject consent) (cc_clientId consent) (pass (toISOString t))) (\<lambda>prior.
     pass (narrow ceiling (dedupe (own_scopes @ prior))))))"

text \<open>The commit runs on its own instant, which may not precede the operation's.\<close>

definition approvalCommitClock :: "int \<Rightarrow> int \<Rightarrow> int io" where
  "approvalCommitClock codeTtlSeconds initial =
     catch (andThen (readClock (codeTtlSeconds * 1000)) (\<lambda>t.
              if t < initial then fail (Thrown ''RangeError'' ''approval clock moved backward'') else pass t))
       (\<lambda>_. fail invalid_consent)"

definition consent_denied :: failure where
  "consent_denied = oauth400 ''access_denied'' ''Consent was denied''"

datatype decision =
    Denied approve_result
  | Committing verified_consent "string list" int

definition decide :: "authorize_service \<Rightarrow> approve_input \<Rightarrow> int \<Rightarrow> decision io" where
  "decide svc input t =
     andThen (open_consent svc input t) (\<lambda>consent.
     if ap_approved input \<noteq> Some True then
       andThen (lift (buildAuthorizationErrorRedirect svc (cc_redirectUri consent) ''access_denied'' (cc_state consent) None)) (\<lambda>target.
       Audit (authorize_failure svc AUDIT_APPROVE t consent_denied (Some (cc_clientId consent)) None (Some (cc_subject consent)))
         (pass (Denied \<lparr>ar_redirectTo = target, ar_code = None, ar_state = cc_state consent\<rparr>)))
     else
       andThen (consent_scopes (az_config svc) consent t) (\<lambda>scopes.
       andThen (approvalCommitClock (cfg_authorizationCodeTtlSeconds (az_config svc)) t) (\<lambda>tc.
       pass (Committing consent scopes tc))))"

definition code_for :: "bridge_config \<Rightarrow> verified_consent \<Rightarrow> string list \<Rightarrow> string \<Rightarrow> string \<Rightarrow> SaveAuthCodeInput" where
  "code_for config consent scopes c expiresAt =
     \<lparr>ac_codeHash = sha256Hex c, ac_clientId = cc_clientId consent, ac_subject = cc_subject consent,
      ac_redirectUri = cc_redirectUri consent, ac_resource = cc_resource consent, ac_scopes = scopes,
      ac_codeChallenge = cc_codeChallenge consent, ac_codeChallengeMethod = ''S256'', ac_expiresAt = expiresAt,
      ac_grantGeneration = newGrantGeneration config\<rparr>"

definition commitConsent :: "bridge_config \<Rightarrow> verified_consent \<Rightarrow> string list \<Rightarrow> int \<Rightarrow> string \<Rightarrow> jsval io" where
  "commitConsent config consent scopes tc c =
     (case callPort ''StorePort'' ''commitConsentApproval''
             (expiresAtIso (fixedClockSnapshot tc) (cfg_authorizationCodeTtlSeconds config)) of
        Inl e \<Rightarrow> fail e
      | Inr expiresAt \<Rightarrow>
          askPort ''StorePort'' ''commitConsentApproval''
            (StorePort (Commit (the (cc_storeInstanceId consent)) (vc_jti consent) (vc_expiresAt consent)
               (code_for config consent scopes c expiresAt))) Inr)"

definition check_commit :: "jsval \<Rightarrow> unit outcome" where
  "check_commit v =
     (if v = Str ''binding_mismatch'' then Inl invalid_consent
      else if v = Str ''replayed'' then Inl (invalid_grant ''Consent token has already been used'')
      else if v \<noteq> Str ''stored'' then Inl (oauthError ''server_error'' ''OAuth request failed'' 500)
      else Inr ())"

definition commit :: "authorize_service \<Rightarrow> verified_consent \<Rightarrow> string list \<Rightarrow> int \<Rightarrow> approve_result io" where
  "commit svc consent scopes tc =
     andThen (check (\<not> vc_expiresAt consent \<le> toISOString tc) invalid_consent) (\<lambda>_.
     andThen (Draw (\<lambda>r. Return (generateAuthorizationCode r))) (\<lambda>c.
     andThen (commitConsent (az_config svc) consent scopes tc c) (\<lambda>reply.
     andThen (lift (check_commit reply)) (\<lambda>_.
     Audit (authorize_success svc AUDIT_APPROVE tc (consent_claims.truncate consent) scopes)
       (andThen (lift (redirectWithCode svc (cc_redirectUri consent) c (cfg_issuer (az_config svc)) (cc_state consent))) (\<lambda>target.
        pass \<lparr>ar_redirectTo = target, ar_code = Some c, ar_state = cc_state consent\<rparr>))))))"

definition approve_failed :: "authorize_service \<Rightarrow> int \<Rightarrow> failure \<Rightarrow> 'a io" where
  "approve_failed svc t e = Audit (authorize_failure svc AUDIT_APPROVE t e None None None) (fail e)"

definition approve :: "authorize_service \<Rightarrow> approve_input \<Rightarrow> approve_result io" where
  "approve svc input =
     andThen (catch (readClock 0) (\<lambda>_. fail invalid_consent)) (\<lambda>t.
     andThen (catch (decide svc input t) (approve_failed svc t)) (\<lambda>d.
     case d of
       Denied result \<Rightarrow> pass result
     | Committing consent scopes tc \<Rightarrow> catch (commit svc consent scopes tc) (approve_failed svc tc)))"

end
