(* ===== verification/Port_Contracts.thy ===== *)
theory Port_Contracts
  imports Task_Laws
begin

section \<open>Contracts of ports\<close>

text \<open>
  What a use-case may rely on of a port when other requests run between its awaits. A single-use
  resource (an authorization code, a refresh token, a consent identifier) is a potential of the world:
  a call that spends it lowers the potential, and only a call that mints it raises the potential. The
  locale states that contract, proves once that concurrent tasks cannot win more often than the
  resource was there, and is interpreted on the reference store for each of the three resources.
\<close>

subsection \<open>The calls a task may make\<close>

primrec calls_within :: "(port_call \<Rightarrow> bool) \<Rightarrow> 'a task \<Rightarrow> bool" where
  "calls_within P (Return x) = True"
| "calls_within P (Ask c k) = (P c \<and> (\<forall>r. calls_within P (k r)))"
| "calls_within P (Now k) = (\<forall>r. calls_within P (k r))"
| "calls_within P (Draw k) = (\<forall>r. calls_within P (k r))"
| "calls_within P (Audit e t) = calls_within P t"

named_theorems within_intros \<open>calls of composed tasks\<close>

lemma within_bind: "calls_within P m \<Longrightarrow> (\<And>x. calls_within P (f x)) \<Longrightarrow> calls_within P (bind_task m f)"
  by (induction m) auto

lemma within_andThen [within_intros]:
  "calls_within P m \<Longrightarrow> (\<And>x. calls_within P (f x)) \<Longrightarrow> calls_within P (andThen m f)"
  unfolding andThen_def by (rule within_bind) (auto split: sum.split)

lemma within_catch [within_intros]:
  "calls_within P m \<Longrightarrow> (\<And>e. calls_within P (h e)) \<Longrightarrow> calls_within P (catch m h)"
  unfolding catch_def by (rule within_bind) (auto split: sum.split)

lemma within_basic [simp]:
  "calls_within P (pass x)" "calls_within P (fail e)" "calls_within P (lift m)"
  "calls_within P (askPort p op c read) = P c"
  by (simp_all add: pass_def fail_def lift_def askPort_def)

lemma within_steps [simp]: "calls_within P (check b e)" "calls_within P (readClock off)"
  by (simp_all add: check_def readClock_def)

lemma advance_within:
  "calls_within P t \<Longrightarrow> advance env t w = (t', tr, w') \<Longrightarrow>
     calls_within P t' \<and> list_all (\<lambda>(c, r). P c) tr"
  by (cases t) (auto split: prod.split_asm)

lemma list_all_update: "list_all P xs \<Longrightarrow> P x \<Longrightarrow> list_all P (xs[i := x])"
  by (induction xs arbitrary: i) (auto split: nat.split)

lemma interleave_within:
  "list_all (calls_within P) ts \<Longrightarrow> interleave env picks ts w = (ts', tr, w') \<Longrightarrow> list_all (\<lambda>(c, r). P c) tr"
proof (induction picks arbitrary: ts w ts' tr w')
  case (Cons i picks)
  show ?case
  proof (cases "i < length ts")
    case False
    with Cons show ?thesis by simp
  next
    case True
    obtain t tr1 w1 where a: "advance env (ts ! i) w = (t, tr1, w1)" by (metis prod_cases3)
    obtain ts2 tr2 w2 where r: "interleave env picks (ts[i := t]) w1 = (ts2, tr2, w2)" by (metis prod_cases3)
    have "calls_within P (ts ! i)" using Cons.prems(1) True by (simp add: list_all_length)
    from advance_within [OF this a] Cons.prems(1) have "list_all (calls_within P) (ts[i := t])" "list_all (\<lambda>(c, r). P c) tr1"
      by (auto intro: list_all_update)
    with Cons.IH [OF _ r] Cons.prems(2) True a r show ?thesis by auto
  qed
qed simp

subsection \<open>Results that cost a call, for composed tasks\<close>

definition returned :: "'a outcome \<Rightarrow> bool" where
  "returned r = (case r of Inl _ \<Rightarrow> False | Inr _ \<Rightarrow> True)"

lemma returned_simps [simp]: "\<not> returned (Inl e)" "returned (Inr x)"
  by (simp_all add: returned_def)

lemma free_win_bind:
  "free_win hit good (bind_task m f) \<longleftrightarrow> (\<exists>x. free_win hit ((=) x) m \<and> free_win hit good (f x))"
  by (induction m) auto

lemma free_win_andThen:
  assumes "\<And>e. \<not> good (Inl e)"
  shows "free_win hit good (andThen m f) \<longleftrightarrow> (\<exists>x. free_win hit ((=) (Inr x)) m \<and> free_win hit good (f x))"
proof
  assume "free_win hit good (andThen m f)"
  then obtain r where r: "free_win hit ((=) r) m" "free_win hit good (case r of Inl e \<Rightarrow> Return (Inl e) | Inr x \<Rightarrow> f x)"
    unfolding andThen_def free_win_bind by blast
  with assms show "\<exists>x. free_win hit ((=) (Inr x)) m \<and> free_win hit good (f x)" by (cases r) auto
next
  assume "\<exists>x. free_win hit ((=) (Inr x)) m \<and> free_win hit good (f x)"
  then obtain x where "free_win hit ((=) (Inr x)) m" "free_win hit good (f x)" by blast
  then show "free_win hit good (andThen m f)"
    unfolding andThen_def free_win_bind by (intro exI [of _ "Inr x"]) simp
qed

lemma free_win_catch:
  assumes "\<And>e. \<not> free_win hit good (h e)"
  shows "free_win hit good (catch m h) \<longleftrightarrow> (\<exists>x. free_win hit ((=) (Inr x)) m \<and> good (Inr x))"
proof
  assume "free_win hit good (catch m h)"
  then obtain r where r: "free_win hit ((=) r) m" "free_win hit good (case r of Inl e \<Rightarrow> h e | Inr x \<Rightarrow> Return (Inr x))"
    unfolding catch_def free_win_bind by blast
  with assms show "\<exists>x. free_win hit ((=) (Inr x)) m \<and> good (Inr x)" by (cases r) auto
next
  assume "\<exists>x. free_win hit ((=) (Inr x)) m \<and> good (Inr x)"
  then obtain x where "free_win hit ((=) (Inr x)) m" "good (Inr x)" by blast
  then show "free_win hit good (catch m h)"
    unfolding catch_def free_win_bind by (intro exI [of _ "Inr x"]) simp
qed

lemma free_win_basic [simp]:
  "free_win hit good (pass x) \<longleftrightarrow> good (Inr x)" "free_win hit good (fail e) \<longleftrightarrow> good (Inl e)"
  "free_win hit good (lift m) \<longleftrightarrow> good m"
  by (simp_all add: pass_def fail_def lift_def)

lemma free_win_check [simp]: "free_win hit good (check b e) \<longleftrightarrow> (if b then good (Inr ()) else good (Inl e))"
  by (simp add: check_def pass_def fail_def)

lemma free_win_askPort:
  "free_win hit good (askPort p op c read) \<longleftrightarrow> (\<exists>r. \<not> hit c r \<and> good (callPort p op (chain r read)))"
  by (auto simp: askPort_def)

lemma Inr_callPort: "Inr x = callPort p op m \<longleftrightarrow> m = Inr x"
  using callPort_Inr by (metis (no_types))

subsection \<open>The contract\<close>

definition finished :: "'a io list \<Rightarrow> nat" where
  "finished ts = length (filter (\<lambda>t. case t of Return r \<Rightarrow> returned r | _ \<Rightarrow> False) ts)"

lemma finished_frees: "finished ts \<le> frees hit returned ts"
proof (induction ts)
  case (Cons t ts)
  then show ?case by (cases t) (auto simp: finished_def frees_def)
qed (simp add: finished_def frees_def)

locale spending =
  fixes env :: "'w env"
    and keeps :: "'w \<Rightarrow> bool"
    and spends :: "'k \<Rightarrow> port_call \<Rightarrow> jsval outcome \<Rightarrow> bool"
    and mints :: "'k \<Rightarrow> port_call \<Rightarrow> bool"
    and stock :: "'k \<Rightarrow> 'w \<Rightarrow> nat"
  assumes call_keeps: "keeps w \<Longrightarrow> keeps (snd (on_call env c w))"
    and call_pays: "keeps w \<Longrightarrow>
      (if spends k c (fst (on_call env c w)) then 1 else 0) + stock k (snd (on_call env c w))
        \<le> stock k w + (if mints k c then 1 else 0)"
    and clock_keeps: "keeps w \<Longrightarrow> keeps (snd (on_clock env w)) \<and> stock k (snd (on_clock env w)) = stock k w"
    and random_keeps: "keeps w \<Longrightarrow> keeps (snd (on_random env w)) \<and> stock k (snd (on_random env w)) = stock k w"
begin

lemma advance_pays:
  assumes "keeps w" and "advance env t w = (t', tr, w')" and "list_all (\<lambda>(c, r). \<not> mints k c) tr"
  shows "keeps w' \<and> hits (spends k) tr + stock k w' \<le> stock k w"
proof (cases t)
  case (Ask c k')
  with assms call_pays [of w k c] call_keeps [of w c] show ?thesis by (auto simp: hits_def split: prod.split_asm)
next
  case (Now k')
  with assms clock_keeps [of w k] show ?thesis by (auto simp: hits_def split: prod.split_asm)
next
  case (Draw k')
  with assms random_keeps [of w k] show ?thesis by (auto simp: hits_def split: prod.split_asm)
qed (use assms in \<open>auto simp: hits_def\<close>)

lemma interleave_pays:
  "keeps w \<Longrightarrow> interleave env picks ts w = (ts', tr, w') \<Longrightarrow> list_all (\<lambda>(c, r). \<not> mints k c) tr \<Longrightarrow>
     hits (spends k) tr + stock k w' \<le> stock k w"
proof (induction picks arbitrary: ts w ts' tr w')
  case (Cons i picks)
  show ?case
  proof (cases "i < length ts")
    case False
    with Cons show ?thesis by simp
  next
    case True
    obtain t tr1 w1 where a: "advance env (ts ! i) w = (t, tr1, w1)" by (metis prod_cases3)
    obtain ts2 tr2 w2 where r: "interleave env picks (ts[i := t]) w1 = (ts2, tr2, w2)" by (metis prod_cases3)
    have eq: "w' = w2" "tr = tr1 @ tr2" using Cons.prems True a r by simp_all
    from advance_pays [OF Cons.prems(1) a, of k] Cons.IH [OF _ r] Cons.prems(3) eq show ?thesis by simp
  qed
qed (simp add: hits_def)

text \<open>Tasks that cannot win for free and mint nothing win at most as often as the stock allows.\<close>

lemma wins_bounded:
  assumes "keeps w"
    and "list_all (calls_within (\<lambda>c. \<not> mints k c)) ts" and "list_all (\<lambda>t. \<not> free_win (spends k) returned t) ts"
  shows "finished (fst (interleave env picks ts w)) \<le> stock k w"
proof -
  obtain ts' tr w' where run: "interleave env picks ts w = (ts', tr, w')" by (metis prod_cases3)
  have "frees (spends k) returned ts = 0"
    using assms(3) by (induction ts) (auto simp: frees_def)
  then have "finished ts' \<le> hits (spends k) tr"
    using interleave_free [OF run, of "spends k" returned] finished_frees [of ts' "spends k"] by simp
  also have "\<dots> \<le> stock k w"
    using interleave_pays [OF assms(1) run interleave_within [OF assms(2) run]] by simp
  finally show ?thesis by (simp add: run)
qed

end

subsection \<open>The reference store keeps the contract\<close>

fun spends_code :: "string \<Rightarrow> port_call \<Rightarrow> jsval outcome \<Rightarrow> bool" where
  "spends_code h (StorePort (Consume_code h' n g er)) (Inr v) = (h' = h \<and> v \<noteq> Null)"
| "spends_code h _ _ = False"

fun mints_code :: "string \<Rightarrow> port_call \<Rightarrow> bool" where
  "mints_code h (StorePort c) = issues h c"
| "mints_code h _ = False"

fun spends_token :: "string \<Rightarrow> port_call \<Rightarrow> jsval outcome \<Rightarrow> bool" where
  "spends_token h (StorePort (Rotate_token h' i n g er)) (Inr v) = (h' = h \<and> v \<noteq> Null)"
| "spends_token h _ _ = False"

fun mints_token :: "string \<Rightarrow> port_call \<Rightarrow> bool" where
  "mints_token h (StorePort (Save_token i)) = (tk_tokenHash i = h)"
| "mints_token h (StorePort (Rotate_token h' i n g er)) = (tk_tokenHash i = h \<and> h' \<noteq> h)"
| "mints_token h _ = False"

definition unconsumed :: "string \<Rightarrow> memory_store \<Rightarrow> nat" where
  "unconsumed h s = (case map_of (refreshTokens s) h of None \<Rightarrow> 0 | Some t \<Rightarrow> if consumedAt t = None then 1 else 0)"

fun spends_consent :: "string \<times> string \<Rightarrow> port_call \<Rightarrow> jsval outcome \<Rightarrow> bool" where
  "spends_consent k (StorePort (Consume_jti j x)) (Inr v) = (k = (j, x) \<and> v = Boolean True)"
| "spends_consent k (StorePort (Commit e j x c)) (Inr v) = (k = (j, x) \<and> v = Str ''stored'')"
| "spends_consent k _ _ = False"

definition unspent :: "string \<times> string \<Rightarrow> memory_store \<Rightarrow> nat" where
  "unspent k s = (if spent (fst k) (snd k) s then 0 else 1)"

text \<open>The untyped replies of the store, read back.\<close>

lemma map_outcome_simps [simp]: "map_outcome f (Inl e) = Inl e" "map_outcome f (Inr x) = Inr (f x)"
  by (simp_all add: map_outcome_def)

lemma values_not_null [simp]: "code_value r \<noteq> Null" "token_value t \<noteq> Null"
  by (simp_all add: code_value_def token_value_def)

lemma spends_iff [simp]:
  "spends_code h (StorePort (Consume_code h' n g er)) r \<longleftrightarrow> h' = h \<and> (\<exists>v. r = Inr v \<and> v \<noteq> Null)"
  "spends_token h (StorePort (Rotate_token h' i n g er)) r \<longleftrightarrow> h' = h \<and> (\<exists>v. r = Inr v \<and> v \<noteq> Null)"
  "spends_consent k (StorePort (Consume_jti j x)) r \<longleftrightarrow> k = (j, x) \<and> r = Inr (Boolean True)"
  "spends_consent k (StorePort (Commit e j x c)) r \<longleftrightarrow> k = (j, x) \<and> r = Inr (Str ''stored'')"
  by (cases r; auto)+

lemma option_reply: "(\<exists>v. map_outcome (case_option Null f) m = Inr v \<and> v \<noteq> Null) \<longleftrightarrow> (\<exists>r. m = Inr (Some r))"
  if "\<And>r. f r \<noteq> Null" for f m
  using that by (cases m) (auto split: option.splits)

lemma memory_env_store [simp]:
  "on_call (memory_env other) (StorePort sc) w =
     (reply_value (fst (call sc (w_store w))), w\<lparr>w_store := snd (call sc (w_store w))\<rparr>)"
  by (simp add: memory_env_def case_prod_unfold Let_def)

lemma memory_env_other: "(\<And>sc. c \<noteq> StorePort sc) \<Longrightarrow> on_call (memory_env other) c w = (other c, w)"
  by (cases c) (blast | simp add: memory_env_def)+

lemma memory_env_world [simp]:
  "w_store (snd (on_clock (memory_env other) w)) = w_store w"
  "w_store (snd (on_random (memory_env other) w)) = w_store w"
  by (simp_all add: memory_env_def case_prod_unfold Let_def)

lemma call_code:
  "(if spends_code h c (fst (on_call (memory_env other) c w)) then 1 else 0)
     + outstanding h (w_store (snd (on_call (memory_env other) c w)))
   \<le> outstanding h (w_store w) + (if mints_code h c then 1 else 0)"
proof (cases c)
  case (StorePort sc)
  have "spends_code h (StorePort sc) (reply_value (fst (call sc (w_store w)))) \<longleftrightarrow> redeems h sc (fst (call sc (w_store w)))"
    by (cases sc) (auto simp: redeems_consume option_reply)
  with call_outstanding [of h sc "w_store w"] StorePort show ?thesis by simp
qed (simp_all add: memory_env_other)

lemma unconsumed_set:
  "k \<noteq> h \<Longrightarrow> unconsumed h (s\<lparr>refreshTokens := map_set k v (refreshTokens s)\<rparr>) = unconsumed h s"
  "k \<noteq> h \<Longrightarrow> unconsumed h (s\<lparr>families := fs, refreshTokens := map_set k v (refreshTokens s)\<rparr>) = unconsumed h s"
  by (simp_all add: unconsumed_def del: map_of_eq_Some_iff)

lemma unconsumed_le: "unconsumed h s \<le> Suc n"
  by (simp add: unconsumed_def split: option.split)

lemma save_unconsumed:
  "unconsumed h (snd (saveRefreshToken i s)) \<le> unconsumed h s + (if tk_tokenHash i = h then 1 else 0)"
proof (cases "tk_tokenHash i = h")
  case True
  then show ?thesis by (simp add: unconsumed_le)
next
  case False
  have hash: "tk_tokenHash inp \<noteq> h" if "normalizeRefreshTokenWrite i = Inr inp" for inp
    using that False by (auto simp: normalizeRefreshTokenWrite_Inr)
  show ?thesis
    by (simp add: saveRefreshToken_def Let_def hash False unconsumed_set del: map_of_eq_Some_iff
        split: attempt_split option.split)
qed

lemma rotation_unconsumed:
  assumes "store_wf s"
  shows "(if h' = h \<and> (\<exists>r. fst (rotateRefreshToken h' i n g er s) = Inr (Some r)) then 1 else 0)
     + unconsumed h (snd (rotateRefreshToken h' i n g er s))
     \<le> unconsumed h s + (if tk_tokenHash i = h \<and> h' \<noteq> h then 1 else 0)"
proof (rule rotateE [OF assms, of h' i n g er])
  fix nxt r s'
  assume i: "normalizeRefreshTokenWrite i = Inr nxt" and spec: "rotation_spec h' nxt n g er s = (r, s')"
    and eq: "rotateRefreshToken h' i n g er s = (Inr r, s')"
  have hash: "tk_tokenHash nxt = tk_tokenHash i" using i by (auto simp: normalizeRefreshTokenWrite_Inr)
  from spec show ?thesis
  proof (cases rule: rotation_cases)
    case (success t f)
    then have "map_of (refreshTokens s') = (map_of (refreshTokens s))(h' \<mapsto> t\<lparr>consumedAt := Some n\<rparr>,
        tk_tokenHash nxt \<mapsto> successor nxt t)" and "map_of (refreshTokens s) (tk_tokenHash nxt) = None"
      by (simp_all add: rotated_def Let_def map_has_def)
    with success(1,4,8) show ?thesis
      by (auto simp: eq unconsumed_def hash simp del: map_of_eq_Some_iff)
  qed (auto simp: eq unconsumed_def revoked_def)
qed (simp add: unconsumed_def)

lemma sweep_unconsumed: "store_wf s \<Longrightarrow> unconsumed h (snd (sweepExpired n s)) \<le> unconsumed h s"
  by (auto simp: unconsumed_def sweepExpired_def Let_def map_of_filter_key [OF wf_rows_map] simp del: map_of_eq_Some_iff
      split: attempt_split option.split)

lemma call_token:
  assumes "store_wf (w_store w)"
  shows "(if spends_token h c (fst (on_call (memory_env other) c w)) then 1 else 0)
     + unconsumed h (w_store (snd (on_call (memory_env other) c w)))
   \<le> unconsumed h (w_store w) + (if mints_token h c then 1 else 0)"
proof (cases c)
  case (StorePort sc)
  show ?thesis
  proof (cases sc)
    case (Rotate_token h' i n g er)
    with StorePort rotation_unconsumed [OF assms, of h' h i n g er] show ?thesis
      by (simp add: option_reply)
  qed (use StorePort assms save_unconsumed sweep_unconsumed in
      \<open>simp_all add: unconsumed_def other_tokens other_codes\<close>)
qed (simp_all add: memory_env_other)

lemma spends_consent_reply:
  "spends_consent (j, x) (StorePort sc) (reply_value (fst (call sc s))) \<longleftrightarrow> accepts j x sc (fst (call sc s))"
proof (cases sc)
  case (Commit e j' x' c)
  have "commit_text r = ''stored'' \<longleftrightarrow> r = Stored" for r by (cases r) auto
  then show ?thesis by (cases "fst (commitConsentApproval e j' x' c s)") (auto simp: Commit accepts_iff)
next
  case (Consume_jti j' x')
  show ?thesis by (cases "fst (consumeConsentJti j' x' s)") (auto simp: Consume_jti accepts_iff)
qed auto

lemma call_consent:
  "(if spends_consent k c (fst (on_call (memory_env other) c w)) then 1 else 0)
     + unspent k (w_store (snd (on_call (memory_env other) c w))) \<le> unspent k (w_store w)"
proof (cases c)
  case (StorePort sc)
  with call_spent [of "fst k" "snd k" sc "w_store w"] spends_consent_reply [of "fst k" "snd k" sc "w_store w"]
  show ?thesis by (simp add: unspent_def)
qed (simp_all add: memory_env_other)

interpretation code_store: spending "memory_env other" "\<lambda>_. True" spends_code mints_code "\<lambda>h w. outstanding h (w_store w)"
  for other
  by unfold_locales (use call_code in \<open>simp_all\<close>)

interpretation token_store: spending "memory_env other" "\<lambda>w. store_wf (w_store w)" spends_token mints_token
    "\<lambda>h w. unconsumed h (w_store w)"
  for other
proof unfold_locales
  fix w :: world and c
  assume "store_wf (w_store w)"
  then show "store_wf (w_store (snd (on_call (memory_env other) c w)))"
    by (cases c) (simp_all add: call_wf memory_env_other)
qed (use call_token in \<open>simp_all\<close>)

interpretation consent_store: spending "memory_env other" "\<lambda>_. True" spends_consent "\<lambda>_ _. False"
    "\<lambda>k w. unspent k (w_store w)"
  for other
  by unfold_locales (use call_consent in \<open>simp_all\<close>)

lemma stock_le_1: "outstanding h s \<le> 1" "unconsumed h s \<le> 1" "unspent k s \<le> 1"
  by (simp_all add: outstanding_def unconsumed_def unspent_def split: option.split)

end
