(* ===== verification/Task_Guarantees.thy ===== *)
theory Task_Guarantees
  imports Port_Contracts
begin

section \<open>What a task guarantees whatever its ports answer\<close>

text \<open>
  \<open>gives P Q E m\<close>: with any replies, clock readings and random bytes, the task \<open>m\<close> makes only calls in
  \<open>P\<close>, ends in a result in \<open>Q\<close> or an error in \<open>E\<close>. The rules follow the way use-cases are composed, so
  a guarantee of a use-case is derived from those of its steps; \<open>gives_perform\<close> turns it into a fact of
  every run, \<open>gives_free_win\<close> into a fact of every schedule.
\<close>

primrec ensures :: "(port_call \<Rightarrow> bool) \<Rightarrow> ('a \<Rightarrow> bool) \<Rightarrow> 'a task \<Rightarrow> bool" where
  "ensures P Q (Return x) = Q x"
| "ensures P Q (Ask c k) = (P c \<and> (\<forall>r. ensures P Q (k r)))"
| "ensures P Q (Now k) = (\<forall>r. ensures P Q (k r))"
| "ensures P Q (Draw k) = (\<forall>r. ensures P Q (k r))"
| "ensures P Q (Audit e t) = ensures P Q t"

definition gives :: "(port_call \<Rightarrow> bool) \<Rightarrow> ('a \<Rightarrow> bool) \<Rightarrow> (failure \<Rightarrow> bool) \<Rightarrow> 'a io \<Rightarrow> bool" where
  "gives P Q E m = ensures P (case_sum E Q) m"

named_theorems gives_rules \<open>guarantees of composed tasks\<close>

lemma ensures_mono:
  "ensures P Q t \<Longrightarrow> (\<And>c. P c \<Longrightarrow> P' c) \<Longrightarrow> (\<And>x. Q x \<Longrightarrow> Q' x) \<Longrightarrow> ensures P' Q' t"
  by (induction t) auto

lemma ensures_bind: "ensures P Q m \<Longrightarrow> (\<And>x. Q x \<Longrightarrow> ensures P R (f x)) \<Longrightarrow> ensures P R (bind_task m f)"
  by (induction m) auto

lemma gives_mono:
  assumes "gives P Q E m" and "\<And>c. P c \<Longrightarrow> P' c" and "\<And>x. Q x \<Longrightarrow> Q' x" and "\<And>e. E e \<Longrightarrow> E' e"
  shows "gives P' Q' E' m"
  using assms(1) unfolding gives_def by (rule ensures_mono) (use assms(2-4) in \<open>auto split: sum.split_asm sum.split\<close>)

lemma gives_andThen:
  assumes "gives P Q E m" and "\<And>x. Q x \<Longrightarrow> gives P R E (f x)"
  shows "gives P R E (andThen m f)"
  using assms unfolding gives_def andThen_def by (elim ensures_bind) (auto split: sum.split_asm sum.split)

lemma gives_catch:
  assumes "gives P Q E m" and "\<And>e. E e \<Longrightarrow> gives P Q F (h e)"
  shows "gives P Q F (catch m h)"
  using assms unfolding gives_def catch_def by (elim ensures_bind) (auto split: sum.split_asm sum.split)

lemma gives_pass [simp]: "gives P Q E (pass x) \<longleftrightarrow> Q x"
  by (simp add: gives_def pass_def)

lemma gives_fail [simp]: "gives P Q E (fail e) \<longleftrightarrow> E e"
  by (simp add: gives_def fail_def)

lemma gives_lift: "gives P Q E (lift m) \<longleftrightarrow> (\<forall>x. m = Inr x \<longrightarrow> Q x) \<and> (\<forall>e. m = Inl e \<longrightarrow> E e)"
  by (cases m) (simp_all add: gives_def lift_def)

lemma gives_check [simp]: "gives P Q E (check b e) \<longleftrightarrow> (b \<longrightarrow> Q ()) \<and> (\<not> b \<longrightarrow> E e)"
  by (simp add: check_def)

lemma gives_readClock:
  "gives P Q E (readClock off) \<longleftrightarrow> (\<forall>r. case_sum E Q (finiteClockSnapshot r off))"
  by (simp add: gives_def readClock_def)

lemma gives_askPort:
  "gives P Q E (askPort p op c read) \<longleftrightarrow> P c \<and> (\<forall>r. case_sum E Q (callPort p op (chain r read)))"
  by (simp add: gives_def askPort_def)

lemma gives_steps [simp]:
  "gives P Q E (Audit ev t) \<longleftrightarrow> gives P Q E t"
  "gives P Q E (Now kn) \<longleftrightarrow> (\<forall>r. gives P Q E (kn r))"
  "gives P Q E (Draw kd) \<longleftrightarrow> (\<forall>r. gives P Q E (kd r))"
  "gives P Q E (Return x) \<longleftrightarrow> case_sum E Q x"
  by (simp_all add: gives_def)

text \<open>Sequencing after a step whose results are known.\<close>

lemma gives_then [gives_rules]:
  "(\<And>x. m = Inr x \<Longrightarrow> gives P R E (f x)) \<Longrightarrow> (\<And>e. m = Inl e \<Longrightarrow> E e) \<Longrightarrow> gives P R E (andThen (lift m) f)"
  "(b \<Longrightarrow> gives P R E (f' ())) \<Longrightarrow> (\<not> b \<Longrightarrow> E e) \<Longrightarrow> gives P R E (andThen (check b e) f')"
  by (cases m; simp add: lift_def) (simp add: check_def pass_def fail_def)

lemma gives_then_clock [gives_rules]:
  assumes "\<And>r x. finiteClockSnapshot r off = Inr x \<Longrightarrow> gives P R E (f x)"
    and "\<And>r e. finiteClockSnapshot r off = Inl e \<Longrightarrow> E e"
  shows "gives P R E (andThen (readClock off) f)"
  by (rule gives_andThen [where Q = "\<lambda>x. \<exists>r. finiteClockSnapshot r off = Inr x"])
    (use assms in \<open>auto simp: gives_readClock split: sum.split\<close>)

lemma gives_then_ask [gives_rules]:
  assumes "P c" and "\<And>v x. read v = Inr x \<Longrightarrow> gives P R E (f x)"
    and "\<And>r e. callPort p op (chain r read) = Inl e \<Longrightarrow> E e"
  shows "gives P R E (andThen (askPort p op c read) f)"
  by (rule gives_andThen [where Q = "\<lambda>x. \<exists>v. read v = Inr x"])
    (use assms in \<open>auto simp: gives_askPort result_simps split: sum.split\<close>)

lemma bind_assoc: "bind_task (bind_task m f) g = bind_task m (\<lambda>x. bind_task (f x) g)"
  by (induction m) auto

lemma andThen_assoc: "andThen (andThen m f) g = andThen m (\<lambda>x. andThen (f x) g)"
  unfolding andThen_def bind_assoc
  by (rule arg_cong [of _ _ "bind_task m"]) (auto simp: fun_eq_iff split: sum.split)

lemma gives_nested [gives_rules]:
  "gives P R E (andThen m (\<lambda>x. andThen (f x) g)) \<Longrightarrow> gives P R E (andThen (andThen m f) g)"
  by (simp add: andThen_assoc)

lemma gives_branches [gives_rules]:
  "(b \<Longrightarrow> gives P R E m) \<Longrightarrow> (\<not> b \<Longrightarrow> gives P R E m') \<Longrightarrow> gives P R E (if b then m else m')"
  "(b \<Longrightarrow> gives P R E (andThen n g)) \<Longrightarrow> (\<not> b \<Longrightarrow> gives P R E (andThen n' g)) \<Longrightarrow>
     gives P R E (andThen (if b then n else n') g)"
  by simp_all

lemma gives_pass_then [gives_rules]: "gives P R E (g x) \<Longrightarrow> gives P R E (andThen (pass x) g)"
  by (simp add: pass_def)

lemma gives_step:
  "gives P (\<lambda>_. True) E m \<Longrightarrow> (\<And>x. gives P R E (f x)) \<Longrightarrow> gives P R E (andThen m f)"
  by (rule gives_andThen)

lemma within_True [simp]: "calls_within (\<lambda>_. True) t"
  by (induction t) auto

lemma chain_return [simp]: "chain r Inr = r"
  by (cases r) auto

lemma free_win_mono: "free_win hit good t \<Longrightarrow> (\<And>x. good x \<Longrightarrow> good' x) \<Longrightarrow> free_win hit good' t"
  by (induction rule: free_win.induct) auto

lemma gives_within: "gives P (\<lambda>_. True) (\<lambda>_. True) t \<longleftrightarrow> calls_within P t"
  unfolding gives_def by (induction t) (auto split: sum.split)

text \<open>The guarantee as a fact of a run, of a schedule, and of what is free.\<close>

lemma ensures_perform:
  "ensures P Q t \<Longrightarrow> perform env t w = (x, tr, au, w') \<Longrightarrow> Q x \<and> list_all (\<lambda>(c, r). P c) tr"
proof (induction t arbitrary: w x tr au w')
  case (Ask c k)
  then show ?case using Ask.IH [OF rangeI] by (auto simp: Let_def split: prod.split_asm)
next
  case (Now k)
  then show ?case using Now.IH [OF rangeI] by (auto simp: Let_def split: prod.split_asm)
next
  case (Draw k)
  then show ?case using Draw.IH [OF rangeI] by (auto simp: Let_def split: prod.split_asm)
qed (auto simp: Let_def split: prod.split_asm)

lemma gives_perform:
  assumes "gives P Q E m" and "perform env m w = (r, tr, au, w')"
  shows "(case r of Inl e \<Rightarrow> E e | Inr x \<Rightarrow> Q x) \<and> list_all (\<lambda>(c, r). P c) tr"
  using ensures_perform [OF assms(1) [unfolded gives_def] assms(2)] .

lemma ensures_free_win: "free_win hit good t \<Longrightarrow> ensures P Q t \<Longrightarrow> \<exists>x. good x \<and> Q x"
  by (induction rule: free_win.induct) auto

lemma gives_free_win:
  assumes "gives P Q E m" and "free_win hit ((=) (Inr x)) m"
  shows "Q x"
  using ensures_free_win [OF assms(2) assms(1) [unfolded gives_def]] by auto

text \<open>A run whose calls leave some part of the world alone leaves it alone.\<close>

lemma perform_keeps:
  assumes "\<And>c w. P c \<Longrightarrow> part (snd (on_call env c w)) = part w"
    and "\<And>w. part (snd (on_clock env w)) = part w" and "\<And>w. part (snd (on_random env w)) = part w"
  shows "perform env t w = (x, tr, au, w') \<Longrightarrow> list_all (\<lambda>(c, r). P c) tr \<Longrightarrow> part w' = part w"
proof (induction t arbitrary: w x tr au w')
  case (Ask c k)
  obtain q w1 where q: "on_call env c w = (q, w1)" by fastforce
  with Ask.prems obtain tr1 where "perform env (k q) w1 = (x, tr1, au, w')" "tr = (c, q) # tr1"
    by (auto simp: Let_def split: prod.split_asm)
  with Ask.IH [OF rangeI, of q w1] Ask.prems(2) assms(1) [of c w] q show ?case by simp
next
  case (Now k)
  then show ?case using Now.IH [OF rangeI] assms(2) [of w] by (auto simp: Let_def split: prod.split_asm)
next
  case (Draw k)
  then show ?case using Draw.IH [OF rangeI] assms(3) [of w] by (auto simp: Let_def split: prod.split_asm)
qed (auto simp: Let_def split: prod.split_asm)

subsection \<open>The errors of a computed outcome\<close>

definition errs :: "('e \<Rightarrow> bool) \<Rightarrow> 'e + 'a \<Rightarrow> bool" where
  "errs E m = (\<forall>e. m = Inl e \<longrightarrow> E e)"

lemma errs_True [simp]: "errs (\<lambda>_. True) m"
  by (simp add: errs_def)

named_theorems errs_rules \<open>errors of composed outcomes\<close>

lemma errs_simps [simp]: "errs E (Inr x)" "errs E (Inl e) \<longleftrightarrow> E e" "errs E (require b e) \<longleftrightarrow> (\<not> b \<longrightarrow> E e)"
  by (simp_all add: errs_def)

lemma errs_chain [errs_rules]:
  "errs E m \<Longrightarrow> (\<And>x. m = Inr x \<Longrightarrow> errs E (f x)) \<Longrightarrow> errs E (chain m f)"
  by (auto simp: errs_def chain_eq_Inl)

lemma errs_collect [errs_rules]: "(\<And>x. errs E (f x)) \<Longrightarrow> errs E (collect f xs)"
  by (induction xs) (auto intro!: errs_chain)

lemma errs_rethrow [errs_rules]: "(\<And>e. E (h e)) \<Longrightarrow> errs E (rethrow h m)"
  by (cases m) (auto simp: errs_def)

lemma errs_branches [errs_rules]:
  "(b \<Longrightarrow> errs E m) \<Longrightarrow> (\<not> b \<Longrightarrow> errs E m') \<Longrightarrow> errs E (if b then m else m')"
  by simp

lemma gives_lifted [gives_rules]: "errs E m \<Longrightarrow> (\<And>x. m = Inr x \<Longrightarrow> Q x) \<Longrightarrow> gives P Q E (lift m)"
  by (simp add: gives_lift errs_def)

lemma gives_then_errs: "errs E m \<Longrightarrow> (\<And>x. m = Inr x \<Longrightarrow> gives P R E (f x)) \<Longrightarrow> gives P R E (andThen (lift m) f)"
  by (cases m) (simp_all add: lift_def)

end
