(* ===== verification/Token_Grants.thy ===== *)
theory Token_Grants
  imports Token_Endpoint Port_Contracts Token_Laws
begin

section \<open>What the token endpoint grants\<close>

text \<open>
  The properties of \<open>src/token.ts\<close>: what a successful exchange, refresh or machine grant has checked,
  that concurrent requests cannot share a code or a refresh token, that a refresh whose successor is
  not handed out revokes the family, and that revocation is final.
\<close>

lemmas grant_tasks = exchangeAuthorizationCode_def consumeValidCode_def issue_for_code_def drawRefreshToken_def
  saveFirstToken_def refresh_def refreshGrant_def issue_for_refresh_def rotateRefreshTokenSnapshot_def revokeFamily_def

subsection \<open>Concurrent requests\<close>

lemma snapshotAuthCodeRecord_Null [simp]: "snapshotAuthCodeRecord Null = Inr None"
  by (simp add: snapshotAuthCodeRecord_def)

lemma snapshotRefreshTokenRecord_Null [simp]: "snapshotRefreshTokenRecord Null = Inr None"
  by (simp add: snapshotRefreshTokenRecord_def)

lemma check_code_None [simp]: "check_code svc input None = Inl (invalid_grant ''Authorization code is invalid'')"
  by (simp add: check_code_def Let_def)

lemma exchange_within:
  "calls_within (\<lambda>c. \<not> mints_code h c) (exchangeAuthorizationCode svc input)"
  unfolding grant_tasks by (auto intro!: within_intros split: option.split sum.split)

lemma free_win_guarded:
  "free_win hit returned (catch m (\<lambda>e. Audit (ev e) (fail e))) \<longleftrightarrow> (\<exists>x. free_win hit ((=) (Inr x)) m)"
  by (subst free_win_catch) simp_all

text \<open>A reply that costs nothing is empty.\<close>

lemma free_reply:
  assumes "\<And>v. hit c (Inr v) \<longleftrightarrow> v \<noteq> Null" and "read Null = Inr None"
  shows "free_win hit ((=) (Inr x)) (askPort p op c read) \<longleftrightarrow> x = None"
proof
  assume "free_win hit ((=) (Inr x)) (askPort p op c read)"
  then obtain r where "\<not> hit c r" "chain r read = Inr x" unfolding free_win_askPort Inr_callPort by blast
  with assms show "x = None" by (cases r) auto
next
  assume "x = None"
  then show "free_win hit ((=) (Inr x)) (askPort p op c read)"
    unfolding free_win_askPort Inr_callPort using assms by (intro exI [of _ "Inr Null"]) simp
qed

lemma free_consume:
  "free_win (spends_code h) ((=) (Inr x)) (askPort p op (StorePort (Consume_code h n g er)) snapshotAuthCodeRecord)
     \<longleftrightarrow> x = None"
  by (rule free_reply) simp_all

lemma free_rotate:
  "free_win (spends_token h) ((=) (Inr x)) (askPort p op (StorePort (Rotate_token h i n g er)) snapshotRefreshTokenRecord)
     \<longleftrightarrow> x = None"
  by (rule free_reply) simp_all

lemma exchange_pays:
  "\<not> free_win (spends_code (sha256Hex raw)) returned (exchangeAuthorizationCode svc (input\<lparr>ci_code := Some raw\<rparr>))"
  unfolding exchangeAuthorizationCode_def consumeValidCode_def
  by (auto simp: free_win_andThen free_win_guarded free_consume requiredStr_def split: if_split_asm)

lemma requiredStr_Inr: "requiredStr v label = Inr s \<longleftrightarrow> v = Some s \<and> s \<noteq> []"
  by (auto simp: requiredStr_def split: option.split)

lemma refresh_within:
  "calls_within (\<lambda>c. \<not> mints_token (sha256Hex raw) c) (refresh svc (input\<lparr>ri_refreshToken := Some raw\<rparr>))"
  unfolding grant_tasks requiredStr_def
  by (auto intro!: within_intros simp: lift_def split: option.split sum.split)

text \<open>
  An authorization code is redeemed by at most one of any number of concurrent requests: however
  exchanges that present the same code are interleaved, port call by port call, at most one returns
  tokens, and none does when the code is not outstanding.
\<close>

theorem concurrent_exchanges_single_use:
  "finished (fst (interleave (memory_env other) picks
       (map (\<lambda>input. exchangeAuthorizationCode svc (input\<lparr>ci_code := Some raw\<rparr>)) inputs) w))
     \<le> outstanding (sha256Hex raw) (w_store w)"
  by (rule code_store.wins_bounded) (auto simp: list_all_iff exchange_pays intro: exchange_within)


lemma rotation_pays:
  "\<not> free_win (spends_token (sha256Hex raw)) returned (refresh svc (input\<lparr>ri_refreshToken := Some raw\<rparr>))"
  unfolding refresh_def refreshGrant_def rotateRefreshTokenSnapshot_def
  by (auto simp: free_win_andThen free_win_guarded free_win_catch free_rotate requiredStr_def
      split: if_split_asm option.split_asm)

text \<open>
  A refresh token is rotated by at most one of any number of concurrent requests: however
  refreshes that present the same token are interleaved, at most one returns tokens, and none does when
  the token is already consumed.
\<close>

theorem concurrent_refreshes_single_use:
  assumes "reachable (w_store w)"
  shows "finished (fst (interleave (memory_env other) picks
       (map (\<lambda>input. refresh svc (input\<lparr>ri_refreshToken := Some raw\<rparr>)) inputs) w))
     \<le> unconsumed (sha256Hex raw) (w_store w)"
  using reachable_wf [OF assms]
  by (rule token_store.wins_bounded) (auto simp: list_all_iff rotation_pays intro: refresh_within)

subsection \<open>What a grant has checked\<close>

lemmas grant_run = perform_simps perform_andThen_Inr

lemma check_code_Inr:
  "check_code svc input reply = Inr rec \<longleftrightarrow>
     (\<exists>verifier u. reply = Some rec \<and> hasExpectedGrantGeneration (ac_grantGeneration rec) (expectedStoredDcrGrantGeneration (ts_config svc))
        \<and> ac_resource rec = cfg_resource (ts_config svc)
        \<and> assertOAuthRedirectEntry (ts_parseUrl svc) (Str (ac_redirectUri rec)) = Inr u
        \<and> ci_clientId input = Some (ac_clientId rec) \<and> ci_redirectUri input = Some (ac_redirectUri rec)
        \<and> ci_codeVerifier input = Some verifier \<and> verifier \<noteq> [] \<and> verifyPkceS256 verifier (ac_codeChallenge rec))"
  by (auto simp: check_code_def Let_def chain_eq_Inr requiredStr_Inr split: option.split)

lemma tokenResponse_Inr:
  "tokenResponse svc sub cid ss raw t = Inr p \<longleftrightarrow>
     (\<exists>scopes access. storedScopes (Arr (map Str ss)) (cfg_scopeCatalog (ts_config svc)) = Inr scopes
        \<and> signAccessToken (ts_jose svc) \<lparr>at_subject = sub, at_clientId = cid, at_scopes = scopes, at_machine = False\<rparr>
            (ts_config svc) (fixedClockSnapshot t) = Inr access
        \<and> p = (\<lparr>rs_access_token = access, rs_token_type = ''Bearer'',
               rs_expires_in = cfg_accessTokenTtlSeconds (ts_config svc), rs_scope = scopeString scopes,
               rs_refresh_token = raw\<rparr>, scopes))"
  by (auto simp: tokenResponse_def Let_def chain_eq_Inr)

text \<open>The tokens of a response are for this subject and client, with scopes of the catalog.\<close>

definition tokens_for ::
  "token_service \<Rightarrow> int \<Rightarrow> user_response \<Rightarrow> string \<Rightarrow> string \<Rightarrow> string list \<Rightarrow> string list \<Rightarrow> bool" where
  "tokens_for svc t resp sub cid recorded scopes =
     (storedScopes (Arr (map Str recorded)) (cfg_scopeCatalog (ts_config svc)) = Inr scopes
        \<and> signAccessToken (ts_jose svc) \<lparr>at_subject = sub, at_clientId = cid, at_scopes = scopes, at_machine = False\<rparr>
            (ts_config svc) (fixedClockSnapshot t) = Inr (rs_access_token resp)
        \<and> rs_scope resp = scopeString scopes)"

lemma saveFirstToken_Inr:
  "perform env (saveFirstToken svc rec raw fid scopes t) w = (Inr u, tr, au, w') \<longleftrightarrow>
     (\<exists>x ok. expiresAtIso (fixedClockSnapshot t) (cfg_refreshTokenTtlSeconds (ts_config svc)) = Inr x
        \<and> on_call env (StorePort (Save_token (first_token rec raw fid scopes x))) w = (Inr ok, w')
        \<and> tr = [(StorePort (Save_token (first_token rec raw fid scopes x)), Inr ok)] \<and> au = [])"
  by (auto simp: saveFirstToken_def perform_askPort_Inr callPort_Inr simp del: perform.simps split: sum.split)

lemma issue_for_code_Inr:
  assumes "perform env (issue_for_code svc t rec) w = (Inr resp, tr, au, w')"
  shows "\<exists>fid scopes x ok. \<not> startsWith (ac_subject rec) ''mcc_'' \<and> parseRefreshFamilyId (rs_refresh_token resp) = Some fid
     \<and> tokens_for svc t resp (ac_subject rec) (ac_clientId rec) (ac_scopes rec) scopes
     \<and> expiresAtIso (fixedClockSnapshot t) (cfg_refreshTokenTtlSeconds (ts_config svc)) = Inr x
     \<and> (StorePort (Save_token (first_token rec (rs_refresh_token resp) fid scopes x)), Inr ok) \<in> set tr"
  using assms unfolding issue_for_code_def tokens_for_def
  by (auto simp: Let_def perform_simps tokenResponse_Inr saveFirstToken_Inr simp del: andThen_simps perform.simps
      elim!: perform_andThen_Inr split: option.split_asm) blast

text \<open>
  C5. Tokens are issued only for the request that was authorized. When an exchange returns tokens, the
  store redeemed the digest of the presented code, and its record carries the presented client and
  redirect URI, the challenge of the presented verifier, this server's resource and a subject outside
  the machine namespace; the access token is for the recorded subject and client with recorded scopes
  that are still in the catalog; and the digest of the returned refresh token was saved first.
\<close>

theorem code_exchange_bound:
  assumes "perform env (exchangeAuthorizationCode svc input) w = (Inr resp, tr, au, w')"
  shows "\<exists>raw verifier rec v t fid scopes x ok.
     ci_grantType input = Some ''authorization_code'' \<and> ci_code input = Some raw
     \<and> (StorePort (Consume_code (sha256Hex raw) (toISOString t) (expectedStoredDcrGrantGeneration (ts_config svc))
           (Some (cfg_resource (ts_config svc)))), Inr v) \<in> set tr \<and> snapshotAuthCodeRecord v = Inr (Some rec)
     \<and> hasExpectedGrantGeneration (ac_grantGeneration rec) (expectedStoredDcrGrantGeneration (ts_config svc))
     \<and> ac_resource rec = cfg_resource (ts_config svc)
     \<and> ci_clientId input = Some (ac_clientId rec) \<and> ci_redirectUri input = Some (ac_redirectUri rec)
     \<and> ci_codeVerifier input = Some verifier \<and> verifyPkceS256 verifier (ac_codeChallenge rec)
     \<and> \<not> startsWith (ac_subject rec) ''mcc_''
     \<and> tokens_for svc t resp (ac_subject rec) (ac_clientId rec) (ac_scopes rec) scopes
     \<and> parseRefreshFamilyId (rs_refresh_token resp) = Some fid
     \<and> (StorePort (Save_token (first_token rec (rs_refresh_token resp) fid scopes x)), Inr ok) \<in> set tr"
proof -
  from assms obtain t rec w1 tr1 au1 w2 tr2 au2 where k: "ci_grantType input = Some ''authorization_code''"
    and c: "perform env (consumeValidCode svc input t) w1 = (Inr rec, tr1, au1, w2)"
    and i: "perform env (issue_for_code svc t rec) w2 = (Inr resp, tr2, au2, w')"
    and t: "set tr1 \<subseteq> set tr" "set tr2 \<subseteq> set tr"
    unfolding exchangeAuthorizationCode_def
    by (auto simp: perform_check_Inr simp del: andThen_simps perform.simps elim!: perform_andThen_Inr dest!: perform_audited) blast
  from c obtain raw v where "ci_code input = Some raw" "check_code svc input (Some rec) = Inr rec"
    "snapshotAuthCodeRecord v = Inr (Some rec)"
    "(StorePort (Consume_code (sha256Hex raw) (toISOString t) (expectedStoredDcrGrantGeneration (ts_config svc))
           (Some (cfg_resource (ts_config svc)))), Inr v) \<in> set tr1"
    unfolding consumeValidCode_def
    by (auto simp: perform_askPort_Inr requiredStr_Inr check_code_Inr simp del: andThen_simps perform.simps
        elim!: perform_andThen_Inr)
  moreover from issue_for_code_Inr [OF i] obtain fid scopes x ok where
    "\<not> startsWith (ac_subject rec) ''mcc_''" "parseRefreshFamilyId (rs_refresh_token resp) = Some fid"
    "tokens_for svc t resp (ac_subject rec) (ac_clientId rec) (ac_scopes rec) scopes"
    "(StorePort (Save_token (first_token rec (rs_refresh_token resp) fid scopes x)), Inr ok) \<in> set tr2"
    by blast
  ultimately show ?thesis
    using k t unfolding check_code_Inr by blast
qed

subsection \<open>The refresh grant\<close>

lemma quiet_draw: "perform env (drawRefreshToken fid) w = (x, tr, au, w') \<Longrightarrow> tr = []"
  by (auto simp: drawRefreshToken_def fail_def split: option.split_asm prod.split_asm sum.split_asm)

lemma revokeFamily_trace:
  "perform env (revokeFamily fid at er) w = (x, tr, au, w') \<Longrightarrow> \<exists>r. tr = [(StorePort (Revoke_family fid at er), r)]"
  by (auto simp: revokeFamily_def askPort_def split: prod.split_asm)

lemma snapshotRefreshTokenRecord_None: "snapshotRefreshTokenRecord v = Inr None \<longleftrightarrow> v = Null"
  by (auto simp: snapshotRefreshTokenRecord_def chain_eq_Inr split: if_split_asm)

lemma fail_result: "perform env (andThen m (\<lambda>_. fail e)) w = (Inr x, tr, au, w') \<Longrightarrow> False"
  by (elim perform_andThenE) auto

lemma rotateSnapshot_cases:
  assumes "perform env (rotateRefreshTokenSnapshot h nxt at g res fid) w = (r, tr, au, w')"
  obtains (absent) "r = Inr None" and "tr = [(StorePort (Rotate_token h nxt at g (Some res)), Inr Null)]"
  | (row) v row where "r = Inr (Some row)" and "on_call env (StorePort (Rotate_token h nxt at g (Some res))) w = (Inr v, w')"
      and "snapshotRefreshTokenRecord v = Inr (Some row)"
      and "tr = [(StorePort (Rotate_token h nxt at g (Some res)), Inr v)]"
  | (lost) e q q' where "r = Inl e"
      and "tr = [(StorePort (Rotate_token h nxt at g (Some res)), q), (StorePort (Revoke_family fid at None), q')]"
  using assms unfolding rotateRefreshTokenSnapshot_def
proof (cases rule: perform_catchE)
  case (good x)
  then show ?thesis
    using absent row by (cases x) (auto simp: perform_askPort_Inr snapshotRefreshTokenRecord_None simp del: perform.simps)
next
  case (bad e tr1 au1 w1 tr2 au2)
  from bad(1) obtain q where "tr1 = [(StorePort (Rotate_token h nxt at g (Some res)), q)]"
    by (auto simp: askPort_def split: prod.split_asm)
  moreover from bad(2) obtain e' q' where "r = Inl e'" "tr2 = [(StorePort (Revoke_family fid at None), q')]"
    by (cases r) (auto elim!: perform_andThenE dest: revokeFamily_trace fail_result)
  ultimately show ?thesis using lost bad(3) by simp
qed

lemma issue_for_refresh_cases:
  assumes "perform env (issue_for_refresh svc input t fid raw row) w = (r, tr, au, w')"
  obtains (issued) resp scopes where "r = Inr resp" and "check_rotated svc input row = Inr ()"
      and "rs_refresh_token resp = raw" and "tokens_for svc t resp (tk_subject row) (tk_clientId row) (tk_scopes row) scopes"
      and "tr = []"
  | (recalled) e q where "r = Inl e" and "tr = [(StorePort (Revoke_family fid (toISOString t) None), q)]"
  using assms unfolding issue_for_refresh_def
proof (cases rule: perform_catchE)
  case (good resp)
  then obtain scopes where "check_rotated svc input row = Inr ()" "rs_refresh_token resp = raw" "tr = []"
    "tokens_for svc t resp (tk_subject row) (tk_clientId row) (tk_scopes row) scopes"
    unfolding tokens_for_def
    by (auto simp: perform_lift perform_Audit tokenResponse_Inr simp del: andThen_simps perform.simps elim!: perform_andThenE)
  with issued good(2) show ?thesis by blast
next
  case (bad e tr1 au1 w1 tr2 au2)
  from bad(1) have "tr1 = []"
    by (auto simp: perform_lift perform_Audit simp del: andThen_simps perform.simps elim!: perform_andThenE)
  moreover from bad(2) obtain e' q where "r = Inl e'" "tr2 = [(StorePort (Revoke_family fid (toISOString t) None), q)]"
    by (cases r) (auto elim!: perform_andThenE dest: revokeFamily_trace fail_result)
  ultimately show ?thesis using recalled bad(3) by simp
qed

text \<open>What a refresh asks the store, on every path.\<close>

lemma refreshGrant_cases:
  assumes "perform env (refreshGrant svc input t) w = (r, tr, au, w')"
  obtains (early) e where "r = Inl e" and "tr = []"
  | (rotate) raw fid nextRaw x q tr2 where "ri_refreshToken input = Some raw" and "raw \<noteq> []"
      and "parseRefreshFamilyId raw = Some fid"
      and "tr = (StorePort (Rotate_token (sha256Hex raw) (successor_token svc input nextRaw (sha256Hex raw) fid x)
                   (toISOString t) (expectedStoredDcrGrantGeneration (ts_config svc))
                   (Some (cfg_resource (ts_config svc)))), q) # tr2"
      and "q = Inr Null \<and> r = Inl (invalid_grant ''Refresh token is invalid'') \<and> tr2 = []
           \<or> (\<exists>e q'. r = Inl e \<and> tr2 = [(StorePort (Revoke_family fid (toISOString t) None), q')])
           \<or> (\<exists>v row resp scopes. q = Inr v \<and> snapshotRefreshTokenRecord v = Inr (Some row) \<and> r = Inr resp
                \<and> check_rotated svc input row = Inr () \<and> rs_refresh_token resp = nextRaw
                \<and> tokens_for svc t resp (tk_subject row) (tk_clientId row) (tk_scopes row) scopes \<and> tr2 = [])"
  using assms unfolding refreshGrant_def
proof (cases rule: perform_andThenE)
  case (stop e)
  then show ?thesis using early by (simp add: perform_lift)
next
  case (go raw tr1 au1 w1 tr2 au2)
  then have raw: "ri_refreshToken input = Some raw" "raw \<noteq> []" and tr: "tr = tr2"
    by (simp_all add: perform_lift requiredStr_Inr)
  show ?thesis
  proof (cases "parseRefreshFamilyId raw")
    case None
    with go(2) tr have "tr = []" "r = Inl (invalid_grant ''Refresh token is invalid'')" by (simp_all add: fail_def)
    with early show ?thesis by blast
  next
    case (Some fid)
    with go(2) have g: "perform env (andThen (drawRefreshToken (Some fid)) (\<lambda>nextRaw.
         andThen (lift (expiresAtIso (fixedClockSnapshot t) (cfg_refreshTokenTtlSeconds (ts_config svc)))) (\<lambda>expiresAt.
         andThen (rotateRefreshTokenSnapshot (sha256Hex raw)
                    (successor_token svc input nextRaw (sha256Hex raw) fid expiresAt) (toISOString t)
                    (expectedStoredDcrGrantGeneration (ts_config svc)) (cfg_resource (ts_config svc)) fid) (\<lambda>reply.
         case reply of
           None \<Rightarrow> fail (invalid_grant ''Refresh token is invalid'')
         | Some row \<Rightarrow> issue_for_refresh svc input t fid nextRaw row)))) w1 = (r, tr, au2, w')"
      by (simp add: tr del: andThen_simps)
    then show ?thesis
    proof (cases rule: perform_andThenE)
      case (stop e)
      show ?thesis by (rule early [OF stop(2) quiet_draw [OF stop(1)]])
    next
      case (go nextRaw tr3 au3 w3 tr4 au4)
      note tr3 = quiet_draw [OF go(1)]
      from go(2) show ?thesis
      proof (cases rule: perform_andThenE)
        case (stop e)
        with go(3) tr3 \<open>tr = tr3 @ tr4\<close> have "tr = []" by (simp add: perform_lift)
        with stop(2) show ?thesis by (rule early)
      next
        case (go x tr5 au5 w5 tr6 au6)
        then have tr6: "tr = tr6" using tr3 \<open>tr = tr3 @ tr4\<close> by (simp add: perform_lift)
        from go(2) show ?thesis
        proof (cases rule: perform_andThenE)
          case (stop e)
          from stop(1) show ?thesis
            by (cases rule: rotateSnapshot_cases) (use rotate [OF raw Some] stop(2) tr6 in auto)
        next
          case (go reply tr7 au7 w7 tr8 au8)
          from go(1) show ?thesis
          proof (cases rule: rotateSnapshot_cases)
            case absent
            with go tr6 rotate [OF raw Some] show ?thesis by auto
          next
            case (row v row)
            with go(2) have "perform env (issue_for_refresh svc input t fid nextRaw row) w7 = (r, tr8, au8, w')" by simp
            then show ?thesis
              by (cases rule: issue_for_refresh_cases) (use rotate [OF raw Some] row go(3) tr6 in auto)
          qed simp
        qed
      qed
    qed
  qed
qed

lemma refresh_cases:
  assumes "perform env (refresh svc input) w = (r, tr, au, w')"
  obtains (early) e where "r = Inl e" and "tr = []"
  | (grant) t w1 au1 where "ri_grantType input = Some ''refresh_token''" and "w1 = snd (on_clock env w)"
      and "perform env (refreshGrant svc input t) w1 = (r, tr, au1, w')"
  using assms unfolding refresh_def
proof (cases rule: perform_andThenE)
  case (stop e)
  show ?thesis by (rule early [OF stop(2) quiet_clock [OF stop(1)]])
next
  case (go t tr1 au1 w1 tr2 au2)
  have tr: "tr = tr2" using go(3) quiet_clock [OF go(1)] by simp
  have w1: "w1 = snd (on_clock env w)" using go(1) by (auto simp: readClock_def split: prod.split_asm)
  from go(2) have "(\<exists>e. r = Inl e \<and> tr2 = []) \<or> (ri_grantType input = Some ''refresh_token''
      \<and> (\<exists>au3. perform env (refreshGrant svc input t) w1 = (r, tr2, au3, w')))"
    by (auto simp: perform_check perform_Audit simp del: andThen_simps perform.simps split: if_split_asm
        elim!: perform_catchE perform_andThenE)
  with early grant tr w1 show ?thesis by blast
qed

text \<open>
  A refresh returns tokens only for the grant that was made. When a refresh succeeds, the store
  rotated the digest of the presented token into the digest of the returned one, in the same family;
  the row it returned is for the presented client, this server's resource, the expected generation and
  a subject outside the machine namespace; and the access token is for the subject, client and
  still-catalogued scopes of that row, whatever the request says.
\<close>

theorem refresh_bound:
  assumes "perform env (refresh svc input) w = (Inr resp, tr, au, w')"
  shows "\<exists>raw fid t x v row scopes.
     ri_grantType input = Some ''refresh_token'' \<and> ri_refreshToken input = Some raw \<and> parseRefreshFamilyId raw = Some fid
     \<and> tr = [(StorePort (Rotate_token (sha256Hex raw)
                (successor_token svc input (rs_refresh_token resp) (sha256Hex raw) fid x) (toISOString t)
                (expectedStoredDcrGrantGeneration (ts_config svc)) (Some (cfg_resource (ts_config svc)))), Inr v)]
     \<and> snapshotRefreshTokenRecord v = Inr (Some row)
     \<and> hasExpectedGrantGeneration (tk_grantGeneration row) (expectedStoredDcrGrantGeneration (ts_config svc))
     \<and> tk_resource row = Some (cfg_resource (ts_config svc)) \<and> ri_clientId input = Some (tk_clientId row)
     \<and> \<not> startsWith (tk_subject row) ''mcc_''
     \<and> tokens_for svc t resp (tk_subject row) (tk_clientId row) (tk_scopes row) scopes"
  using assms
proof (cases rule: refresh_cases)
  case (grant t w1 au1)
  from grant(3) show ?thesis
  proof (cases rule: refreshGrant_cases)
    case (rotate raw fid nextRaw x q tr2)
    then obtain v row scopes where "q = Inr v" "snapshotRefreshTokenRecord v = Inr (Some row)" "tr2 = []"
      "check_rotated svc input row = Inr ()" "rs_refresh_token resp = nextRaw"
      "tokens_for svc t resp (tk_subject row) (tk_clientId row) (tk_scopes row) scopes" by auto
    moreover from this(4) have "hasExpectedGrantGeneration (tk_grantGeneration row) (expectedStoredDcrGrantGeneration (ts_config svc))"
      "tk_resource row = Some (cfg_resource (ts_config svc))" "ri_clientId input = Some (tk_clientId row)"
      "\<not> startsWith (tk_subject row) ''mcc_''"
      by (auto simp: check_rotated_def Let_def split: if_split_asm)
    ultimately show ?thesis using grant(1) rotate(1,3,4) by blast
  qed simp
qed simp

text \<open>
  C8. No successor token is lost. When a refresh fails although the store may have rotated (its reply
  was a row, could not be read, or was an error), the family of the successor, which nobody holds, was
  asked to be revoked.
\<close>

theorem refresh_failure_revokes:
  assumes "perform env (refresh svc input) w = (Inl e, tr, au, w')"
    and "(StorePort (Rotate_token h nxt at g er), q) \<in> set tr" and "q \<noteq> Inr Null"
  shows "\<exists>q'. (StorePort (Revoke_family (tk_familyId nxt) at None), q') \<in> set tr"
  using assms(1)
proof (cases rule: refresh_cases)
  case early
  with assms(2) show ?thesis by simp
next
  case (grant t w1 au1)
  from grant(3) show ?thesis
  proof (cases rule: refreshGrant_cases)
    case early
    with assms(2) show ?thesis by simp
  next
    case (rotate raw fid nextRaw x q1 tr2)
    with assms(2,3) show ?thesis by (auto simp: successor_token_def)
  qed
qed

subsection \<open>The client-credentials grant\<close>

lemma perform_authenticate_Inr:
  assumes "perform env (authenticateMachineClientSecret parseUrl res (fixedClockSnapshot t) cid secret) w = (Inr (Some c), tr, au, w')"
  shows "\<exists>row ms. secret \<noteq> [] \<and> tr = [(FindClient cid, Inr row)] \<and> finiteClockSnapshot (fixedClockSnapshot t) 0 = Inr ms
     \<and> judge_machine_client parseUrl res cid secret (ms div 1000) row = Some c"
  using assms unfolding authenticateMachineClientSecret_def
  by (auto simp: perform_askPort_Inr fail_def simp del: andThen_simps perform.simps split: if_split_asm sum.split_asm
      elim!: perform_andThen_Inr)

text \<open>
  C10. A machine token is issued only to an authenticated machine client. When the client-credentials
  grant succeeds, the feature is on and clients are stored; exactly one method of client authentication
  was used; the secret was judged good, at the instant of the request, against the one row that was
  read; the scopes are the requested ones within that client's ceiling and the catalog; a requested
  resource is this server's; and the token's subject and client are the authenticated identifier.
\<close>

theorem machine_grant_bound:
  assumes "perform env (exchangeClientCredentials svc input) w = (Inr resp, tr, au, w')"
  shows "\<exists>cid secret row c scopes t ms.
     cred_grantType input = Some ''client_credentials'' \<and> cfg_clientCredentials (ts_config svc) = Some True
     \<and> cfg_dcr (ts_config svc) = StoredDcr \<and> presented_client svc input = (Some cid, Some secret)
     \<and> \<not> (isBasicAttempt (cred_authorization input) \<and> present (cred_clientSecret input))
     \<and> tr = [(FindClient cid, Inr row)] \<and> finiteClockSnapshot (fixedClockSnapshot t) 0 = Inr ms
     \<and> judge_machine_client (ts_parseUrl svc) (cfg_resource (ts_config svc)) cid secret (ms div 1000) row = Some c
     \<and> resolveClientCredentialsScope (opt_value (cred_scope input)) (Arr (map Str (mc_allowedScopes c)))
          (cfg_scopeCatalog (ts_config svc)) = Inr scopes
     \<and> (cred_resource input = None \<or> cred_resource input = Some (cfg_resource (ts_config svc)))
     \<and> signAccessToken (ts_jose svc) \<lparr>at_subject = cid, at_clientId = cid, at_scopes = scopes, at_machine = True\<rparr>
          (ts_config svc) (fixedClockSnapshot t) = Inr (rs_access_token resp)
     \<and> rs_scope resp = scopeString scopes"
proof -
  obtain idc secr where p: "presented_client svc input = (idc, secr)" by (cases "presented_client svc input")
  from assms obtain t w1 au1 where g: "cred_grantType input = Some ''client_credentials''"
    "cfg_clientCredentials (ts_config svc) = Some True"
    "perform env (machineGrant svc input t idc secr) w1 = (Inr resp, tr, au1, w')"
    unfolding exchangeClientCredentials_def
    by (auto simp: p Let_def perform_Audit simp del: andThen_simps perform.simps split: if_split_asm
        elim!: perform_andThen_Inr dest!: perform_audited quiet_clock)
  from g(3) obtain c tr1 au2 w2 where m: "\<not> (isBasicAttempt (cred_authorization input) \<and> present (cred_clientSecret input))"
    "present idc" "present secr" "cfg_dcr (ts_config svc) = StoredDcr"
    "perform env (authenticateMachineClientSecret (ts_parseUrl svc) (cfg_resource (ts_config svc)) (fixedClockSnapshot t)
       (the idc) (the secr)) w1 = (Inr (Some c), tr, au2, w2)"
    "\<exists>scopes. resolveClientCredentialsScope (opt_value (cred_scope input)) (Arr (map Str (mc_allowedScopes c)))
          (cfg_scopeCatalog (ts_config svc)) = Inr scopes
     \<and> (cred_resource input = None \<or> cred_resource input = Some (cfg_resource (ts_config svc)))
     \<and> signAccessToken (ts_jose svc) \<lparr>at_subject = the idc, at_clientId = the idc, at_scopes = scopes, at_machine = True\<rparr>
          (ts_config svc) (fixedClockSnapshot t) = Inr (rs_access_token resp)
     \<and> rs_scope resp = scopeString scopes"
    unfolding machineGrant_def
    by (auto simp: Let_def perform_check_Inr perform_Audit simp del: andThen_simps perform.simps
        split: option.split_asm elim!: perform_andThen_Inr)
  then obtain cid secret where i: "idc = Some cid" "secr = Some secret" by (auto simp: present_def)
  from perform_authenticate_Inr [OF m(5) [unfolded i option.sel]] obtain row ms where
    "tr = [(FindClient cid, Inr row)]" "finiteClockSnapshot (fixedClockSnapshot t) 0 = Inr ms"
    "judge_machine_client (ts_parseUrl svc) (cfg_resource (ts_config svc)) cid secret (ms div 1000) row = Some c" by blast
  with g(1,2) m(1,4) m(6) [unfolded i option.sel] p [unfolded i] show ?thesis by blast
qed

subsection \<open>Revocation\<close>

lemma dead_after_run:
  "store_wf s \<Longrightarrow> dead fid s \<Longrightarrow> filter (starts fid) cs = [] \<Longrightarrow> store_wf (snd (run cs s)) \<and> dead fid (snd (run cs s))"
  by (induction cs arbitrary: s) (auto simp: call_wf call_dead split: if_split_asm)

lemma first_reply:
  "perform (memory_env other) t w = (x, (StorePort c, q) # tr, au, w') \<Longrightarrow> q = reply_value (fst (call c (w_store w)))"
proof (induction t arbitrary: w au)
  case (Now k)
  obtain r w1 where r: "on_clock (memory_env other) w = (r, w1)" by fastforce
  with memory_env_world(1) [of other w] have "w_store w1 = w_store w" by simp
  moreover from Now.prems r have "perform (memory_env other) (k r) w1 = (x, (StorePort c, q) # tr, au, w')" by simp
  ultimately show ?case using Now.IH [OF rangeI] by metis
next
  case (Draw k)
  obtain r w1 where r: "on_random (memory_env other) w = (r, w1)" by fastforce
  with memory_env_world(2) [of other w] have "w_store w1 = w_store w" by simp
  moreover from Draw.prems r have "perform (memory_env other) (k r) w1 = (x, (StorePort c, q) # tr, au, w')" by simp
  ultimately show ?case using Draw.IH [OF rangeI] by metis
next
  case (Audit e t)
  then show ?case by (auto simp: perform_Audit simp del: perform.simps)
qed (auto split: prod.split_asm)

lemma token_value_snapshot:
  "snapshotRefreshTokenRecord (token_value r) = Inr x \<Longrightarrow>
     \<exists>row. x = Some row \<and> tk_familyId row = tk_familyId r \<and> tk_resource row = tk_resource r"
  by (auto simp: snapshotRefreshTokenRecord_def token_value_def requiredRecord_def chain_eq_Inr own_Cons resource_input_def
      opt_str_of_def str_of_def split: if_split_asm option.split)

lemma dead_refuses:
  assumes "store_wf (w_store w)" and "dead fid (w_store w)" and "ri_refreshToken input = Some raw"
    and "parseRefreshFamilyId raw = Some fid"
  shows "perform (memory_env other) (refresh svc input) w \<noteq> (Inr resp, tr, au, w')"
proof
  assume "perform (memory_env other) (refresh svc input) w = (Inr resp, tr, au, w')"
  then show False
  proof (cases rule: refresh_cases)
    case (grant t w1 au1)
    have w1: "w_store w1 = w_store w" using grant(2) by simp
    from grant(3) show False
    proof (cases rule: refreshGrant_cases)
      case (rotate raw' fid' nextRaw x q tr2)
      let ?nxt = "successor_token svc input nextRaw (sha256Hex raw') fid' x"
      let ?rot = "rotateRefreshToken (sha256Hex raw') ?nxt (toISOString t) (expectedStoredDcrGrantGeneration (ts_config svc))
        (Some (cfg_resource (ts_config svc))) (w_store w)"
      have f: "fid' = fid" using rotate(1,3) assms(3,4) by simp
      from rotate(5) obtain v row where v: "q = Inr v" "snapshotRefreshTokenRecord v = Inr (Some row)" by blast
      then have nn: "v \<noteq> Null" by auto
      have q: "q = map_outcome (case_option Null token_value) (fst ?rot)"
        using first_reply [OF grant(3) [unfolded rotate(4)]] w1 by simp
      then obtain r where r: "fst ?rot = Inr (Some r)"
        using v(1) nn by (cases "fst ?rot") (auto split: option.splits)
      have "tk_familyId r = fid"
      proof (cases rule: rotateE [OF assms(1), of "sha256Hex raw'" ?nxt "toISOString t"
            "expectedStoredDcrGrantGeneration (ts_config svc)" "Some (cfg_resource (ts_config svc))", case_names check run])
        case (run nxt ro s')
        from run(1) have "tk_familyId nxt = fid'"
          by (auto simp: normalizeRefreshTokenWrite_Inr successor_token_def)
        moreover from run(4) have "ro = Some r \<Longrightarrow> tk_familyId r = tk_familyId nxt"
          by (cases rule: rotation_cases) (auto simp: toRecord_def)
        ultimately show ?thesis using r run(5) f by simp
      qed (use r in simp)
      moreover have "tk_familyId r \<noteq> fid" using dead_rotate [OF assms(1,2)] r by blast
      ultimately show False by simp
    qed simp
  qed simp
qed

lemma revoke_dead:
  assumes "map_of (families s) fid = Some f" and "fam_resource f = Some res"
    and "fst (revokeRefreshTokenFamily fid at (Some res) s) = Inr u"
  shows "dead fid (snd (revokeRefreshTokenFamily fid at (Some res) s))"
  using assms by (auto simp: revokeRefreshTokenFamily_def dead_def assertRefreshResource_def simp del: map_of_eq_Some_iff split: attempt_split_asm attempt_split if_split_asm)

lemma revocation_kills:
  assumes wf: "store_wf (w_store w)" and run: "perform (memory_env other) (find_and_revoke res at (Some raw)) w = (Inr b, tr, au, w')"
    and t: "map_of (refreshTokens (w_store w)) (sha256Hex raw) = Some t" and r: "tk_resource t = Some res" and "raw \<noteq> []"
  shows "store_wf (w_store w') \<and> dead (tk_familyId t) (w_store w')"
proof -
  let ?find = "findRefreshToken (sha256Hex raw) (w_store w)"
  from run \<open>raw \<noteq> []\<close> obtain v reply tr1 au1 w1 tr2 au2 where
    f: "map_outcome (case_option Null token_value) (fst ?find) = Inr v" "snapshotRefreshTokenRecord v = Inr reply"
      "w1 = w\<lparr>w_store := snd ?find\<rparr>"
    and g: "perform (memory_env other) (case reply of None \<Rightarrow> pass False
                 | Some existing \<Rightarrow>
                   if tk_resource existing = Some res
                   then andThen (revokeFamily (tk_familyId existing) at (Some res)) (\<lambda>_. pass True)
                   else pass False) w1 = (Inr b, tr2, au2, w')"
    unfolding find_and_revoke_def
    by (auto simp: perform_askPort_Inr simp del: andThen_simps perform.simps elim!: perform_andThen_Inr)
  have s1: "w_store w1 = w_store w" using f(3) by (simp add: other_codes)
  have "fst ?find = Inr (Some (toRecord t))"
    using f(1) t by (auto simp: findRefreshToken_def simp del: map_of_eq_Some_iff split: attempt_split_asm)
  with f(1,2) token_value_snapshot [of "toRecord t" reply] obtain row where
    row: "reply = Some row" "tk_familyId row = tk_familyId t" "tk_resource row = Some res"
    using r by (auto simp: toRecord_def)
  let ?rev = "revokeRefreshTokenFamily (tk_familyId t) at (Some res) (w_store w)"
  from g row obtain v' where "map_outcome (\<lambda>_. Undefined) (fst ?rev) = Inr v'" and w': "w_store w' = snd ?rev"
    unfolding revokeFamily_def
    by (auto simp: perform_askPort_Inr s1 simp del: andThen_simps perform.simps elim!: perform_andThen_Inr)
  then obtain u where "fst ?rev = Inr u" by (cases "fst ?rev") auto
  moreover from wf_row_family [OF wf t] r obtain f where "map_of (families (w_store w)) (tk_familyId t) = Some f" "fam_resource f = Some res"
    by (metis family_matches_def)
  ultimately show ?thesis using revoke_dead revoke_wf [OF wf] w' by metis
qed

text \<open>
  C9. Revocation is final. Once a revocation of a refresh token has returned, no refresh with it
  succeeds, whatever the store is asked in between short of starting the family anew.
\<close>

theorem revocation_is_final:
  assumes "reachable (w_store w)" and "perform (memory_env other) (revokeRefreshToken res (Some raw)) w = (Inr (), tr, au, w1)"
    and "map_of (refreshTokens (w_store w)) (sha256Hex raw) = Some t" and "tk_resource t = Some res"
    and "parseRefreshFamilyId raw = Some (tk_familyId t)"
    and "filter (starts (tk_familyId t)) cs = []" and "w_store w2 = snd (run cs (w_store w1))"
  shows "perform (memory_env other') (refresh svc (input\<lparr>ri_refreshToken := Some raw\<rparr>)) w2 \<noteq> (Inr resp, tr', au', w')"
proof -
  have "raw \<noteq> []" using assms(5) by (auto simp: parseRefreshFamilyId_def)
  from assms(2) obtain at w0 b tr1 au1 where "w0 = snd (on_clock (memory_env other) w)"
    "perform (memory_env other) (find_and_revoke res at (Some raw)) w0 = (Inr b, tr1, au1, w1)"
    unfolding revokeRefreshToken_def readClock_def
    by (auto simp: perform_Now perform_Audit simp del: perform.simps elim!: perform_andThen_Inr dest!: perform_audited)
  then have "w_store w0 = w_store w"
    "perform (memory_env other) (find_and_revoke res at (Some raw)) w0 = (Inr b, tr1, au1, w1)" by simp_all
  with revocation_kills [of w0 other res at raw b tr1 au1 w1 t] reachable_wf [OF assms(1)] assms(3,4) \<open>raw \<noteq> []\<close>
  have "store_wf (w_store w1) \<and> dead (tk_familyId t) (w_store w1)" by simp
  with dead_after_run [of "w_store w1" "tk_familyId t" cs] assms(6,7)
  have "store_wf (w_store w2)" "dead (tk_familyId t) (w_store w2)" by simp_all
  then show ?thesis by (rule dead_refuses [where raw = raw]) (simp_all add: assms(5))
qed

end
