(* ===== verification/Authorize_Laws.thy ===== *)
theory Authorize_Laws
  imports Authorize Task_Guarantees Token_Grants
begin

section \<open>Properties of the authorization endpoint\<close>

text \<open>
  What \<open>prepare\<close> and \<open>approve\<close> return only on: the redirect URI a response goes to was validated, a code
  is stored only for an approved consent and at most once, a denial changes nothing, and a client with
  a URL for its identifier never inherits an earlier grant.
\<close>

subsection \<open>Where a response may go\<close>

definition opaque_admitted :: "authorize_service \<Rightarrow> trace \<Rightarrow> string \<Rightarrow> string \<Rightarrow> bool" where
  "opaque_admitted svc tr clientId uri =
     (let config = az_config svc;
          allowed = (\<lambda>v. assertAllowedRedirectUri (az_parseUrl svc) v (cfg_redirectAllowlist config)
                       (cfg_redirectAllowlistMode config)) in
      if cfg_dcr config = StoredDcr
      then \<exists>row client. (FindClient clientId, Inr row) \<in> set tr
             \<and> parseAuthorizationClientRegistration row clientId = Some client
             \<and> (\<forall>u \<in> set (cr_redirectUris client). \<exists>out. allowed u = Inr out)
             \<and> assertRedirectAllowedForClient (az_parseUrl svc) (Str uri) client = Inr uri
      else allowed (Str uri) = Inr uri)"

definition destination_validated :: "'w env \<Rightarrow> authorize_service \<Rightarrow> authorize_input \<Rightarrow> trace \<Rightarrow> string \<Rightarrow> string \<Rightarrow> bool" where
  "destination_validated env svc input tr clientId uri =
     (case ai_registration input of
        Some reg \<Rightarrow> cimd_client_id reg = clientId \<and> cimdRedirectMatches (az_parseUrl svc) uri reg
      | None \<Rightarrow>
          if isCimdClientId clientId
          then cfg_cimd (az_config svc) \<noteq> None
             \<and> (\<exists>resolve. az_cimd svc = Some resolve
                  \<and> (\<exists>w x tr' au w'. perform env (resolve clientId uri (ai_ip input)) w = (Inr x, tr', au, w')))
          else \<not> isSchemeShaped clientId \<and> opaque_admitted svc tr clientId uri)"

lemma allowlist_same:
  "assertAllowedRedirectUri parseUrl (Str uri) allowlist mode = Inr out \<Longrightarrow> out = uri"
  unfolding assertAllowedRedirectUri_def
  by (erule chain_InrE, erule chain_InrE) (auto dest!: oauthEntry_url split: if_split_asm)

lemma client_redirect_same:
  "assertRedirectAllowedForClient parseUrl (Str uri) client = Inr out \<Longrightarrow> out = uri"
  by (auto simp: assertRedirectAllowedForClient_def elim!: chain_InrE dest!: oauthEntry_url split: if_split_asm)

lemma opaque_admitted_mono: "opaque_admitted svc tr cid uri \<Longrightarrow> set tr \<subseteq> set tr' \<Longrightarrow> opaque_admitted svc tr' cid uri"
  by (simp add: opaque_admitted_def Let_def split: if_split_asm) blast

lemma resolveOpaque_Inr:
  assumes "perform env (resolveOpaqueRedirect svc cid uri) w = (Inr out, tr, au, w')"
  shows "out = uri \<and> opaque_admitted svc tr cid uri"
proof (cases "cfg_dcr (az_config svc) = StoredDcr")
  case False
  with assms show ?thesis
    by (auto simp: resolveOpaqueRedirect_def opaque_admitted_def Let_def perform_lift dest: allowlist_same)
next
  case True
  from assms True obtain row client entries where "(FindClient cid, Inr row) \<in> set tr"
    "parseAuthorizationClientRegistration row cid = Some client"
    "collect (\<lambda>v. assertAllowedRedirectUri (az_parseUrl svc) v (cfg_redirectAllowlist (az_config svc))
        (cfg_redirectAllowlistMode (az_config svc))) (cr_redirectUris client) = Inr entries"
    "assertRedirectAllowedForClient (az_parseUrl svc) (Str uri) client = Inr out"
    by (auto simp: resolveOpaqueRedirect_def Let_def perform_simps simp del: andThen_simps perform.simps
        elim!: perform_andThen_Inr chain_InrE split: option.split_asm)
  with True collect_Inr_all [OF this(3)] client_redirect_same [OF this(4)] show ?thesis
    by (simp add: opaque_admitted_def Let_def) blast
qed

lemma resolveAuthorizeClient_Inr:
  assumes "perform env (resolveAuthorizeClient svc cid uri (ai_registration input) (ai_ip input)) w = (Inr r, tr, au, w')"
  shows "rv_redirectUri r = uri \<and> destination_validated env svc input tr cid uri
     \<and> (rv_registration r \<noteq> None \<longleftrightarrow> ai_registration input \<noteq> None \<or> isCimdClientId cid)
     \<and> (rv_registration r = None \<longrightarrow> rv_emitCimdSuccess r = pass ())"
proof (cases "ai_registration input")
  case (Some reg)
  with assms show ?thesis
    by (auto simp: resolveAuthorizeClient_def destination_validated_def resolved_by_def perform_simps
        simp del: andThen_simps perform.simps elim!: perform_andThen_Inr)
next
  case None
  show ?thesis
  proof (cases "isCimdClientId cid")
    case True
    with None assms obtain resolve x tr1 au1 w1 where "cfg_cimd (az_config svc) \<noteq> None" "az_cimd svc = Some resolve"
      "perform env (resolve cid uri (ai_ip input)) w = (Inr x, tr1, au1, w1)" "r = resolved_by uri (Some (fst x)) (snd x)"
      by (auto simp: resolveAuthorizeClient_def simp del: andThen_simps perform.simps
          elim!: perform_andThen_Inr split: option.split_asm)
    with None True show ?thesis
      by (cases x) (simp add: destination_validated_def resolved_by_def, blast)
  next
    case False
    with None assms obtain out tr1 au1 w1 where "\<not> isSchemeShaped cid"
      "perform env (resolveOpaqueRedirect svc cid uri) w = (Inr out, tr1, au1, w1)" "set tr1 \<subseteq> set tr"
      "r = resolved_by out None (pass ())"
      by (auto simp: resolveAuthorizeClient_def simp del: andThen_simps perform.simps
          elim!: perform_andThen_Inr split: if_split_asm)
    with None False resolveOpaque_Inr [OF this(2)] show ?thesis
      by (auto simp: destination_validated_def resolved_by_def intro: opaque_admitted_mono)
  qed
qed

subsection \<open>What the approval of a consent rests on\<close>

definition current_destination :: "authorize_service \<Rightarrow> trace \<Rightarrow> consent_claims \<Rightarrow> bool" where
  "current_destination svc tr c =
     (isCimdClientId (cc_clientId c) \<or> opaque_admitted svc tr (cc_clientId c) (cc_redirectUri c))"

definition opened :: "authorize_service \<Rightarrow> approve_input \<Rightarrow> int \<Rightarrow> verified_consent \<Rightarrow> bool" where
  "opened svc input t consent =
     (\<exists>token. ap_consentToken input = Some token
        \<and> verifyConsentToken (az_jose svc) token (az_config svc) (fixedClockSnapshot t) = Inr consent
        \<and> approveOriginAllowed (az_parseUrl svc) (az_config svc) (ap_origin input) = Inr True
        \<and> cc_resource consent = cfg_resource (az_config svc) \<and> cc_storeInstanceId consent \<noteq> None
        \<and> assertApproveCimdGate (az_config svc) (cc_clientId consent) (cc_cimdVerified consent) = Inr ())"

lemma resolveOpaque_gives: "gives (\<lambda>c. c = FindClient cid) (\<lambda>_. True) (\<lambda>_. True) (resolveOpaqueRedirect svc cid uri)"
  unfolding resolveOpaqueRedirect_def Let_def
  by (intro gives_rules) (auto simp: gives_lift split: option.split)

lemma open_consent_gives:
  "gives (\<lambda>c. c = StorePort Get_id \<or> (\<exists>cid. c = FindClient cid)) (opened svc input t) (\<lambda>_. True) (open_consent svc input t)"
  unfolding open_consent_def Let_def readStoreInstanceId_def assertCurrentConsentRedirect_def
  by (intro gives_rules gives_step [OF gives_mono [OF resolveOpaque_gives]])
    (auto simp: gives_lift opened_def requiredStr_Inr assertApproveOrigin_def result_simps)

lemma open_consent_Inr:
  assumes "perform env (open_consent svc input t) w = (Inr consent, tr, au, w')"
  shows "opened svc input t consent \<and> current_destination svc tr (consent_claims.truncate consent)"
proof
  show "opened svc input t consent"
    using gives_perform [OF open_consent_gives assms] by simp
  have "cc_redirectUri (consent_claims.truncate consent) = cc_redirectUri consent"
    "cc_clientId (consent_claims.truncate consent) = cc_clientId consent" by (simp_all add: consent_claims.defs)
  moreover from assms obtain w1 tr1 au1 w2 where
    "perform env (assertCurrentConsentRedirect svc (cc_clientId consent) (cc_redirectUri consent)) w1 = (Inr (), tr1, au1, w2)"
    "set tr1 \<subseteq> set tr"
    unfolding open_consent_def Let_def
    by (auto simp del: andThen_simps perform.simps elim!: perform_andThen_Inr) blast
  ultimately show "current_destination svc tr (consent_claims.truncate consent)"
    unfolding current_destination_def assertCurrentConsentRedirect_def
    by (auto simp del: andThen_simps perform.simps elim!: perform_andThen_Inr dest!: resolveOpaque_Inr
        intro: opaque_admitted_mono split: if_split_asm)
qed

lemma narrow_set [simp]:
  "set (narrow ceiling ss) = (case ceiling of None \<Rightarrow> set ss | Some c \<Rightarrow> set ss \<inter> set c)"
  by (auto simp: narrow_def split: option.split)

lemma priorGrants_Inr:
  assumes "perform env (priorGrants config sub cid nowIso) w = (Inr prior, tr, au, w')"
  shows "set prior \<subseteq> set (cfg_scopeCatalog config) \<and> (\<not> accumulationAllowed config cid \<longrightarrow> prior = [])"
  using assms unfolding priorGrants_def
  by (auto simp: storedScopes_iff snapshotBoundedScopeList_iff simp del: andThen_simps perform.simps
      elim!: perform_andThen_Inr split: if_split_asm)

definition scopes_within :: "bridge_config \<Rightarrow> consent_claims \<Rightarrow> string list \<Rightarrow> bool" where
  "scopes_within config c scopes =
     (set scopes \<subseteq> set (cfg_scopeCatalog config)
      \<and> (\<forall>ceiling. cc_allowedScopes c = Some ceiling \<longrightarrow> set scopes \<subseteq> set ceiling)
      \<and> (\<not> accumulationAllowed config (cc_clientId c) \<longrightarrow> set scopes \<subseteq> set (cc_scopes c)))"

lemma opt_array_ceiling: "assertAllowedScopesCeiling (opt_array v) = Inr c \<Longrightarrow> c = v"
  by (cases v; cases c)
    (auto simp: opt_array_def assertAllowedScopesCeiling_Some assertAllowedScopesCeiling_None snapshotBoundedScopeList_iff
      dest: map_injective [OF _ injI])

lemma stored_own: "storedScopes (Arr (map Str ss)) catalog = Inr os \<Longrightarrow> os = ss \<and> set ss \<subseteq> set catalog"
  by (auto simp: storedScopes_iff snapshotBoundedScopeList_iff dest!: map_injective [OF _ injI])

lemma consent_scopes_Inr:
  assumes "perform env (consent_scopes config consent t) w = (Inr scopes, tr, au, w')"
  shows "scopes_within config (consent_claims.truncate consent) scopes"
proof -
  from assms obtain prior w1 tr1 au1 w2 where s: "set (cc_scopes consent) \<subseteq> set (cfg_scopeCatalog config)"
    "scopes = narrow (cc_allowedScopes consent) (dedupe (cc_scopes consent @ prior))"
    and p: "perform env (priorGrants config (cc_subject consent) (cc_clientId consent) (pass (toISOString t))) w1
        = (Inr prior, tr1, au1, w2)"
    unfolding consent_scopes_def
    by (auto simp del: andThen_simps perform.simps elim!: perform_andThen_Inr dest!: stored_own opt_array_ceiling)
  from priorGrants_Inr [OF p] s show ?thesis
    by (auto simp: scopes_within_def dedupe_def consent_claims.defs split: option.split_asm)
qed

lemma approvalCommitClock_Inr:
  "perform env (approvalCommitClock ttl t) w = (Inr tc, tr, au, w') \<Longrightarrow>
     t \<le> tc \<and> (\<exists>r. finiteClockSnapshot r (ttl * 1000) = Inr tc)"
  unfolding approvalCommitClock_def
  by (auto simp: perform_readClock_Inr simp del: andThen_simps perform.simps
      elim!: perform_andThen_Inr perform_catch_Inr split: if_split_asm)

definition consent_opened :: "authorize_service \<Rightarrow> approve_input \<Rightarrow> trace \<Rightarrow> int \<Rightarrow> verified_consent \<Rightarrow> bool" where
  "consent_opened svc input tr t consent =
     (opened svc input t consent \<and> current_destination svc tr (consent_claims.truncate consent))"

lemma decide_Inr:
  assumes "perform env (decide svc input t) w = (Inr d, tr, au, w')"
  obtains (denied) consent target where "ap_approved input \<noteq> Some True" and "consent_opened svc input tr t consent"
      and "d = Denied \<lparr>ar_redirectTo = target, ar_code = None, ar_state = cc_state consent\<rparr>"
      and "buildAuthorizationErrorRedirect svc (cc_redirectUri consent) ''access_denied'' (cc_state consent) None = Inr target"
  | (committing) consent scopes tc where "ap_approved input = Some True" and "consent_opened svc input tr t consent"
      and "d = Committing consent scopes tc" and "t \<le> tc"
      and "scopes_within (az_config svc) (consent_claims.truncate consent) scopes"
proof -
  from assms obtain consent tr1 au1 w1 tr2 au2 where o1: "perform env (open_consent svc input t) w = (Inr consent, tr1, au1, w1)"
    and tr: "set tr1 \<subseteq> set tr"
    and r: "perform env (if ap_approved input \<noteq> Some True then
       andThen (lift (buildAuthorizationErrorRedirect svc (cc_redirectUri consent) ''access_denied'' (cc_state consent) None)) (\<lambda>target.
       Audit (authorize_failure svc AUDIT_APPROVE t consent_denied (Some (cc_clientId consent)) None (Some (cc_subject consent)))
         (pass (Denied \<lparr>ar_redirectTo = target, ar_code = None, ar_state = cc_state consent\<rparr>)))
     else
       andThen (consent_scopes (az_config svc) consent t) (\<lambda>scopes.
       andThen (approvalCommitClock (cfg_authorizationCodeTtlSeconds (az_config svc)) t) (\<lambda>tc.
       pass (Committing consent scopes tc)))) w1 = (Inr d, tr2, au2, w')"
    unfolding decide_def by (elim perform_andThen_Inr) simp
  from open_consent_Inr [OF o1] tr have c: "consent_opened svc input tr t consent"
    by (auto simp: consent_opened_def current_destination_def intro: opaque_admitted_mono)
  show thesis
  proof (cases "ap_approved input = Some True")
    case True
    with r obtain scopes tc where "d = Committing consent scopes tc" "t \<le> tc"
      "scopes_within (az_config svc) (consent_claims.truncate consent) scopes"
      by (auto simp del: andThen_simps perform.simps elim!: perform_andThen_Inr dest!: consent_scopes_Inr approvalCommitClock_Inr)
    with True c show thesis by (rule committing)
  next
    case False
    with r obtain target where "d = Denied \<lparr>ar_redirectTo = target, ar_code = None, ar_state = cc_state consent\<rparr>"
      "buildAuthorizationErrorRedirect svc (cc_redirectUri consent) ''access_denied'' (cc_state consent) None = Inr target"
      by (auto simp: perform_Audit simp del: andThen_simps perform.simps elim!: perform_andThen_Inr)
    with False c show thesis by (rule denied)
  qed
qed

lemma check_commit_Inr: "check_commit v = Inr u \<longleftrightarrow> v = Str ''stored''" "Inr u = check_commit v \<longleftrightarrow> v = Str ''stored''"
  by (auto simp: check_commit_def)

lemma commit_Inr:
  assumes "perform env (commit svc consent scopes tc) w = (Inr r, tr, au, w')"
  shows "\<exists>c x. \<not> vc_expiresAt consent \<le> toISOString tc
     \<and> expiresAtIso (fixedClockSnapshot tc) (cfg_authorizationCodeTtlSeconds (az_config svc)) = Inr x
     \<and> (StorePort (Commit (the (cc_storeInstanceId consent)) (vc_jti consent) (vc_expiresAt consent)
           (code_for (az_config svc) consent scopes c x)), Inr (Str ''stored'')) \<in> set tr
     \<and> ar_code r = Some c \<and> ar_state r = cc_state consent
     \<and> redirectWithCode svc (cc_redirectUri consent) c (cfg_issuer (az_config svc)) (cc_state consent) = Inr (ar_redirectTo r)"
proof -
  from assms obtain c reply w1 tr1 au1 w2 where e: "\<not> vc_expiresAt consent \<le> toISOString tc"
    and k: "perform env (commitConsent (az_config svc) consent scopes tc c) w1 = (Inr reply, tr1, au1, w2)"
    and t: "set tr1 \<subseteq> set tr" and s: "reply = Str ''stored''"
    and r: "ar_code r = Some c" "ar_state r = cc_state consent"
      "redirectWithCode svc (cc_redirectUri consent) c (cfg_issuer (az_config svc)) (cc_state consent) = Inr (ar_redirectTo r)"
    unfolding commit_def
    by (auto simp: perform_simps check_commit_Inr simp del: andThen_simps perform.simps elim!: perform_andThen_Inr)
  from k obtain x where "expiresAtIso (fixedClockSnapshot tc) (cfg_authorizationCodeTtlSeconds (az_config svc)) = Inr x"
    "tr1 = [(StorePort (Commit (the (cc_storeInstanceId consent)) (vc_jti consent) (vc_expiresAt consent)
           (code_for (az_config svc) consent scopes c x)), Inr reply)]"
    unfolding commitConsent_def by (auto simp: perform_askPort_Inr split: sum.split_asm)
  with e s t r show ?thesis by auto
qed

lemma approve_cases:
  assumes "perform env (approve svc input) w = (Inr r, tr, au, w')"
  obtains (denied) t consent where "ap_approved input \<noteq> Some True" and "consent_opened svc input tr t consent"
      and "ar_code r = None"
      and "buildAuthorizationErrorRedirect svc (cc_redirectUri consent) ''access_denied'' (cc_state consent) None
        = Inr (ar_redirectTo r)"
  | (committed) t tc consent scopes w1 tr1 au1 where "ap_approved input = Some True"
      and "consent_opened svc input tr t consent" and "t \<le> tc"
      and "scopes_within (az_config svc) (consent_claims.truncate consent) scopes"
      and "perform env (commit svc consent scopes tc) w1 = (Inr r, tr1, au1, w')" and "set tr1 \<subseteq> set tr"
proof -
  from assms obtain t d w1 tr1 au1 w2 tr2 au2 where d: "perform env (decide svc input t) w1 = (Inr d, tr1, au1, w2)"
    and k: "perform env (case d of Denied result \<Rightarrow> pass result
        | Committing consent scopes tc \<Rightarrow> catch (commit svc consent scopes tc) (approve_failed svc tc)) w2 = (Inr r, tr2, au2, w')"
    and t: "set tr1 \<subseteq> set tr" "set tr2 \<subseteq> set tr"
    unfolding approve_def approve_failed_def
    by (auto simp del: andThen_simps perform.simps elim!: perform_andThen_Inr dest!: perform_audited) blast
  have mono: "consent_opened svc input tr t consent" if "consent_opened svc input tr1 t consent" for consent
    using that t by (auto simp: consent_opened_def current_destination_def intro: opaque_admitted_mono)
  from d show thesis
  proof (cases rule: decide_Inr)
    case (denied consent target)
    with k that(1) [OF denied(1) mono [OF denied(2)]] show thesis by auto
  next
    case (committing consent scopes tc)
    from k have "perform env (commit svc consent scopes tc) w2 = (Inr r, tr2, au2, w')"
      unfolding committing(3) approve_failed_def by (auto simp del: perform.simps dest!: perform_audited)
    from that(2) [OF committing(1) mono [OF committing(2)] committing(4,5) this t(2)] show thesis .
  qed
qed

text \<open>
  C11. A code is handed out only for a consent that was given. When \<open>approve\<close> returns a code, the request
  came from an allowed origin and said yes; its token verifies to a consent for this resource that names
  a store instance, is consistent with the client being a CIMD one, goes to a redirect URI the current
  policy admits and has not expired at the commit; the scopes are in the catalog, within the consent's
  ceiling and, unless earlier grants of that client count, within the consent; and the store answered
  \<open>stored\<close> to the atomic commit of that consent's identifier with the code's digest, bound to the consent.
\<close>

theorem approval_bound:
  assumes "perform env (approve svc input) w = (Inr r, tr, au, w')" and "ar_code r = Some c"
  shows "\<exists>token t tc consent scopes x.
     ap_approved input = Some True \<and> ap_consentToken input = Some token
     \<and> approveOriginAllowed (az_parseUrl svc) (az_config svc) (ap_origin input) = Inr True
     \<and> verifyConsentToken (az_jose svc) token (az_config svc) (fixedClockSnapshot t) = Inr consent
     \<and> cc_resource consent = cfg_resource (az_config svc) \<and> cc_storeInstanceId consent \<noteq> None
     \<and> assertApproveCimdGate (az_config svc) (cc_clientId consent) (cc_cimdVerified consent) = Inr ()
     \<and> current_destination svc tr (consent_claims.truncate consent)
     \<and> t \<le> tc \<and> toISOString tc < vc_expiresAt consent
     \<and> scopes_within (az_config svc) (consent_claims.truncate consent) scopes
     \<and> expiresAtIso (fixedClockSnapshot tc) (cfg_authorizationCodeTtlSeconds (az_config svc)) = Inr x
     \<and> (StorePort (Commit (the (cc_storeInstanceId consent)) (vc_jti consent) (vc_expiresAt consent)
           (code_for (az_config svc) consent scopes c x)), Inr (Str ''stored'')) \<in> set tr
     \<and> redirectWithCode svc (cc_redirectUri consent) c (cfg_issuer (az_config svc)) (cc_state consent) = Inr (ar_redirectTo r)"
  using assms(1)
proof (cases rule: approve_cases)
  case denied
  with assms(2) show ?thesis by simp
next
  case (committed t tc consent scopes w1 tr1 au1)
  from commit_Inr [OF committed(5)] assms(2) committed(6) obtain x where "toISOString tc < vc_expiresAt consent"
    "expiresAtIso (fixedClockSnapshot tc) (cfg_authorizationCodeTtlSeconds (az_config svc)) = Inr x"
    "(StorePort (Commit (the (cc_storeInstanceId consent)) (vc_jti consent) (vc_expiresAt consent)
           (code_for (az_config svc) consent scopes c x)), Inr (Str ''stored'')) \<in> set tr"
    "redirectWithCode svc (cc_redirectUri consent) c (cfg_issuer (az_config svc)) (cc_state consent) = Inr (ar_redirectTo r)"
    by (auto simp: not_le)
  with committed(1-4) show ?thesis unfolding consent_opened_def opened_def by blast
qed

subsection \<open>A denial\<close>

lemma lookups_keep_store:
  "c = StorePort Get_id \<or> (\<exists>cid. c = FindClient cid) \<Longrightarrow> w_store (snd (on_call (memory_env other) c w)) = w_store w"
  by (auto simp: memory_env_other getStoreInstanceId_def split: attempt_split)

text \<open>
  A denial changes nothing. Unless the request says yes, \<open>approve\<close> leaves the store as it was, the
  consent's identifier unspent, so that the user may still approve; and when it answers, it answers with
  the \<open>access_denied\<close> redirect of a verified consent, to a redirect URI that the current policy admits.
\<close>

theorem denial_changes_nothing:
  assumes "perform (memory_env other) (approve svc input) w = (r, tr, au, w')" and "ap_approved input \<noteq> Some True"
  shows "w_store w' = w_store w
     \<and> (\<forall>x. r = Inr x \<longrightarrow> ar_code x = None \<and> (\<exists>t consent. consent_opened svc input tr t consent
          \<and> buildAuthorizationErrorRedirect svc (cc_redirectUri consent) ''access_denied'' (cc_state consent) None
            = Inr (ar_redirectTo x)))"
proof
  let ?P = "\<lambda>c. c = StorePort Get_id \<or> (\<exists>cid. c = FindClient cid)"
  have "gives ?P (\<lambda>d. \<exists>x. d = Denied x) (\<lambda>_. True) (decide svc input t)" for t
    unfolding decide_def using assms(2)
    by (intro gives_step [OF gives_mono [OF open_consent_gives]] gives_rules) auto
  then have "gives ?P (\<lambda>_. True) (\<lambda>_. True) (approve svc input)"
    unfolding approve_def approve_failed_def
    by (intro gives_andThen [where Q = "\<lambda>_. True"] gives_andThen [where Q = "\<lambda>d. \<exists>x. d = Denied x"]
          gives_catch [where E = "\<lambda>_. True"]) (auto simp: gives_readClock split: sum.split)
  from gives_perform [OF this assms(1)] have "list_all (\<lambda>(c, r). ?P c) tr" by simp
  with lookups_keep_store show "w_store w' = w_store w"
    by (intro perform_keeps [where P = ?P and env = "memory_env other" and part = w_store, OF _ _ _ assms(1)]) simp_all
  show "\<forall>x. r = Inr x \<longrightarrow> ar_code x = None \<and> (\<exists>t consent. consent_opened svc input tr t consent
          \<and> buildAuthorizationErrorRedirect svc (cc_redirectUri consent) ''access_denied'' (cc_state consent) None
            = Inr (ar_redirectTo x))"
    using assms by (auto elim!: approve_cases)
qed

subsection \<open>Concurrent approvals\<close>

lemma decide_gives:
  assumes "ap_approved input = Some True"
  shows "gives (\<lambda>_. True) (\<lambda>d. \<exists>consent scopes tc. d = Committing consent scopes tc \<and> opened svc input t consent)
     (\<lambda>_. True) (decide svc input t)"
  unfolding decide_def using assms
  by (intro gives_andThen [OF gives_mono [OF open_consent_gives]] gives_rules gives_step) (auto simp: gives_within)

lemma commit_pays: "\<not> free_win (spends_consent (vc_jti consent, vc_expiresAt consent)) returned (commit svc consent scopes tc)"
  unfolding commit_def commitConsent_def
  by (auto simp: free_win_andThen free_win_askPort Inr_callPort check_commit_Inr split: if_split_asm sum.split_asm)

lemma approve_pays:
  assumes "ap_approved input = Some True"
    and "\<And>t consent. opened svc input t consent \<Longrightarrow> (vc_jti consent, vc_expiresAt consent) = k"
  shows "\<not> free_win (spends_consent k) returned (approve svc input)"
proof
  assume "free_win (spends_consent k) returned (approve svc input)"
  then obtain t d where d: "free_win (spends_consent k) ((=) (Inr d)) (decide svc input t)"
    and f: "free_win (spends_consent k) returned (case d of Denied result \<Rightarrow> pass result
        | Committing consent scopes tc \<Rightarrow> catch (commit svc consent scopes tc) (approve_failed svc tc))"
    unfolding approve_def by (auto simp: free_win_andThen free_win_catch approve_failed_def)
  from gives_free_win [OF decide_gives [OF assms(1)] d] obtain consent scopes tc
    where c: "d = Committing consent scopes tc" "opened svc input t consent" by blast
  with f obtain x where "free_win (spends_consent k) ((=) (Inr x)) (commit svc consent scopes tc)"
    by (auto simp: free_win_catch approve_failed_def)
  then have "free_win (spends_consent k) returned (commit svc consent scopes tc)"
    by (rule free_win_mono) auto
  with commit_pays [of consent svc scopes tc] assms(2) [OF c(2)] show False by simp
qed

text \<open>
  A consent becomes a code at most once: however approvals of one consent are interleaved, with each
  other and with any other requests' effects on clock and randomness, at most one returns a code, and
  none does once its identifier is spent.
\<close>

theorem concurrent_approvals_single_use:
  assumes "\<And>input t consent. input \<in> set inputs \<Longrightarrow> opened svc input t consent \<Longrightarrow>
      (vc_jti consent, vc_expiresAt consent) = k"
    and "\<And>input. input \<in> set inputs \<Longrightarrow> ap_approved input = Some True"
  shows "finished (fst (interleave (memory_env other) picks (map (approve svc) inputs) w)) \<le> unspent k (w_store w)"
proof (rule consent_store.wins_bounded)
  have "\<not> free_win (spends_consent k) returned (approve svc input)" if "input \<in> set inputs" for input
    by (rule approve_pays [OF assms(2) [OF that] assms(1) [OF that]])
  then show "list_all (\<lambda>t. \<not> free_win (spends_consent k) returned t) (map (approve svc) inputs)"
    by (simp add: list_all_iff)
qed (simp_all add: list_all_iff)

subsection \<open>Preparing\<close>

lemma destination_mono:
  "destination_validated env svc input tr cid uri \<Longrightarrow> set tr \<subseteq> set tr' \<Longrightarrow> destination_validated env svc input tr' cid uri"
  by (auto simp: destination_validated_def intro: opaque_admitted_mono split: option.splits)

definition untagged :: "failure \<Rightarrow> bool" where
  "untagged e = (\<forall>o'. e = OAuth o' \<longrightarrow> redirect o' = None)"

text \<open>
  Neither the CIMD resolver nor the JWT library throws an error of this library that already carries a
  redirect target; only \<open>withRedirect\<close> of \<open>prepare\<close> makes one.
\<close>

definition untagged_service :: "authorize_service \<Rightarrow> bool" where
  "untagged_service svc =
     ((\<forall>resolve cid uri ip. az_cimd svc = Some resolve \<longrightarrow>
         gives (\<lambda>_. True) (\<lambda>r. gives (\<lambda>_. True) (\<lambda>_. True) untagged (snd r)) untagged (resolve cid uri ip))
      \<and> (\<forall>key header payload e. jose_sign (az_jose svc) key header payload = Inl e \<longrightarrow> untagged e))"

lemma untagged_simps [simp]:
  "untagged (oauthError c m s)" "untagged (oauth400 c m)" "untagged (Thrown n m)" "untagged (PortFailure p q b st)"
  by (auto simp: untagged_def oauthError_def oauth400_def)

lemma callPort_untagged [simp]: "errs untagged (callPort p op m)"
  unfolding errs_def by (auto dest!: callPort_Inl_form)

lemma clock_untagged [simp]: "errs untagged (finiteClockSnapshot r off)"
  unfolding errs_def by (auto dest!: finiteClockSnapshot_Inl)

lemma entry_untagged [simp]: "errs untagged (oauthEntry parseUrl allow v)"
  by (simp add: oauthEntry_def split: sum.split)

lemma allowlist_untagged [simp]: "errs untagged (assertAllowedRedirectUri parseUrl v allowlist mode)"
  unfolding assertAllowedRedirectUri_def by (intro errs_rules) simp_all

lemma client_redirect_untagged [simp]: "errs untagged (assertRedirectAllowedForClient parseUrl v client)"
  unfolding assertRedirectAllowedForClient_def by (intro errs_rules) simp_all

lemma stored_untagged [simp]: "errs untagged (storedScopes v catalog)" "errs untagged (assertAllowedScopesCeiling c)"
  by (simp_all add: storedScopes_def assertAllowedScopesCeiling_def split: sum.split)

lemma items_untagged [simp]: "errs untagged (scopeItems v defaults)"
  by (cases v) (simp_all add: snapshotScopeItems_def invalidScope_def proxy_type_error_def Let_def)

lemma loop_untagged [simp]: "errs untagged (normalize_loop catalog out items)"
  by (induction items arbitrary: out) (auto simp: invalidScope_def Let_def split: jsval.split)

lemma requested_untagged [simp]: "errs untagged (requested_scopes config scope ceiling)"
  unfolding requested_scopes_def normalizeScopes_def
  by (intro errs_rules) (simp_all add: snapshotScopeItems_def invalidScope_def)

lemma required_untagged [simp]: "errs untagged (requiredStr v label)"
  by (simp add: requiredStr_def split: option.split)

lemma claims_untagged [simp]: "errs untagged (request_claims config input sub cid r ceiling)"
  unfolding request_claims_def requested_resource_def by (intro errs_rules) simp_all

lemma opaque_untagged: "gives (\<lambda>_. True) (\<lambda>_. True) untagged (resolveOpaqueRedirect svc cid uri)"
  unfolding resolveOpaqueRedirect_def Let_def
  by (intro gives_rules errs_rules) (auto intro!: gives_rules errs_rules dest!: callPort_Inl_form split: option.split)

lemma resolve_untagged:
  assumes "untagged_service svc"
  shows "gives (\<lambda>_. True) (\<lambda>r. gives (\<lambda>_. True) (\<lambda>_. True) untagged (rv_emitCimdSuccess r)) untagged
     (resolveAuthorizeClient svc cid uri reg ip)"
proof -
  have "gives (\<lambda>_. True) (\<lambda>r. gives (\<lambda>_. True) (\<lambda>_. True) untagged (snd r)) untagged (resolve cid uri ip)"
    if "az_cimd svc = Some resolve" for resolve
    using assms that by (simp add: untagged_service_def)
  then show ?thesis
    unfolding resolveAuthorizeClient_def resolved_by_def cimdGenericError_def
    by (auto intro!: gives_rules gives_step [OF opaque_untagged] split: option.split elim!: gives_andThen)
qed

lemma priorGrants_untagged:
  assumes "gives (\<lambda>_. True) (\<lambda>_. True) untagged nowIso"
  shows "gives (\<lambda>_. True) (\<lambda>_. True) untagged (priorGrants config sub cid nowIso)"
  unfolding priorGrants_def readGrantedScopeSnapshot_def
  by (intro gives_rules gives_step [OF assms]) (auto dest!: callPort_Inl_form)

lemma subject_untagged [simp]: "errs untagged (identitySubject v)"
  unfolding identitySubject_def by (auto simp: typeError_def split: jsval.split)

lemma instance_untagged [simp]: "errs untagged (readInstanceId v)"
  unfolding readInstanceId_def assertStoreInstanceId_def by (intro errs_rules) (simp_all add: storeInputError_def)

definition untagged_random :: "'w env \<Rightarrow> bool" where
  "untagged_random env = (\<forall>w e. fst (on_random env w) = RandomThrows e \<longrightarrow> untagged e)"

lemma sign_untagged:
  assumes "untagged_service svc" and "untagged_random env" and "cc_storeInstanceId claims = Some i"
    and "perform env (signConsentToken (az_jose svc) True claims config clock) w = (Inl e, tr, au, w')"
  shows "untagged e"
proof (cases "chain (identitySubject (Str (cc_subject claims))) (\<lambda>sub.
           chain (nowSeconds clock (cfg_consentTokenTtlSeconds config)) (\<lambda>now. Inr (sub, now)))")
  case (Inl e')
  have "errs untagged (chain (identitySubject (Str (cc_subject claims))) (\<lambda>sub.
           chain (nowSeconds clock (cfg_consentTokenTtlSeconds config)) (\<lambda>now. Inr (sub, now))))"
    unfolding nowSeconds_def by (intro errs_rules) simp_all
  with Inl assms(4) show ?thesis by (simp add: signConsentToken_def errs_def)
next
  case (Inr p)
  obtain r w1 where r: "on_random env w = (r, w1)" by fastforce
  have "errs untagged (randomBytesFrom r n)" for n
    using assms(2) r unfolding untagged_random_def errs_def
    by (auto simp: randomBytesFrom_def split: random_reply.split_asm if_split_asm) (metis fst_conv)
  moreover have "errs untagged (jose_sign (az_jose svc) k h pl)" for k h pl
    using assms(1) by (simp add: untagged_service_def errs_def)
  ultimately have "errs untagged (seal_consent (az_jose svc) config claims (fst p) (Some i) (snd p) r)"
    unfolding seal_consent_def generateConsentJti_def by (intro errs_rules) simp_all
  with assms(3,4) Inr r show ?thesis
    by (auto simp: signConsentToken_def errs_def pass_def split: prod.split_asm)
qed

lemma seal_untagged:
  assumes "untagged_service svc" and "untagged_random env"
    and "perform env (seal_request svc input sub cid r ceiling) w = (Inl e, tr, au, w')"
  shows "untagged e"
  using assms(3) unfolding seal_request_def
proof (cases rule: perform_andThenE)
  case (stop e')
  then show ?thesis using claims_untagged unfolding errs_def by (auto simp: perform_lift)
next
  case (go claims tr1 au1 w1 tr2 au2)
  from go(2) show ?thesis
  proof (cases rule: perform_andThenE)
    case (stop e')
    have "gives (\<lambda>_. True) (\<lambda>_. True) untagged readStoreInstanceId"
      unfolding readStoreInstanceId_def by (intro gives_rules) (auto intro!: gives_rules dest!: callPort_Inl_form)
    from gives_perform [OF this stop(1)] stop(2) show ?thesis by simp
  next
    case (go i tr3 au3 w3 tr4 au4)
    then show ?thesis
      by (auto simp: perform_Now Let_def simp del: andThen_simps perform.simps elim!: perform_andThenE
          dest!: sign_untagged [OF assms(1,2), rotated])
  qed
qed

lemma clock_iso_untagged: "gives (\<lambda>_. True) (\<lambda>_. True) untagged clock_iso"
  unfolding clock_iso_def by (intro gives_rules) (auto dest!: finiteClockSnapshot_Inl)

lemma prepare_failed_untagged:
  "perform env (prepare_failed svc input cid e) w = (r, tr, au, w') \<Longrightarrow> r = Inl e \<or> (\<exists>e'. r = Inl e' \<and> untagged e')"
  unfolding prepare_failed_def
  by (auto simp: perform_Audit readClock_def perform_Now simp del: andThen_simps perform.simps elim!: perform_andThenE
      dest!: finiteClockSnapshot_Inl [OF sym])

lemma tag_redirect_target:
  "untagged e \<Longrightarrow> tag_redirect uri st e = OAuth o' \<Longrightarrow> redirect o' = Some \<lparr>rt_redirectUri = uri, rt_state = st\<rparr>"
  by (cases e) (auto simp: untagged_def tag_redirect_def withRedirect_def)

lemma prepare_for_tagged:
  assumes "untagged_service svc" and "untagged_random env"
    and "perform env (prepare_for svc input sub ceiling cid) w = (Inl (OAuth o'), tr, au, w')" and "redirect o' = Some target"
  shows "\<exists>uri. ai_redirectUri input = Some uri \<and> target = \<lparr>rt_redirectUri = uri, rt_state = ai_state input\<rparr>
     \<and> destination_validated env svc input tr cid uri"
proof -
  have no: False if "untagged (OAuth o')"
    using that assms(4) by (simp add: untagged_def)
  from assms(3) show ?thesis unfolding prepare_for_def
  proof (cases rule: perform_andThenE)
    case (stop e)
    then show ?thesis using required_untagged no unfolding errs_def by (auto simp: perform_lift)
  next
    case (go uri tr1 au1 w1 tr2 au2)
    then have uri: "ai_redirectUri input = Some uri" "tr = tr2" by (simp_all add: perform_lift requiredStr_Inr)
    note go1 = go
    from go(2) show ?thesis
    proof (cases rule: perform_andThenE)
      case (stop e)
      with gives_perform [OF resolve_untagged [OF assms(1)] stop(1)] no show ?thesis by auto
    next
      case (go resolved tr3 au3 w3 tr4 au4)
      note val = resolveAuthorizeClient_Inr [OF go(1)]
      have emit: "gives (\<lambda>_. True) (\<lambda>_. True) untagged (rv_emitCimdSuccess resolved)"
        using gives_perform [OF resolve_untagged [OF assms(1)] go(1)] by simp
      have dest: "destination_validated env svc input tr cid uri"
        using val go(3) uri(2) by (auto intro: destination_mono)
      from go(2) show ?thesis
      proof (cases rule: perform_andThenE)
        case (stop e)
        with gives_perform [OF emit stop(1)] no show ?thesis by auto
      next
        case (go u tr5 au5 w5 tr6 au6)
        from go(2) show ?thesis
        proof (cases rule: perform_andThenE)
          case (stop e)
          from stop(1) obtain e0 w6 tr7 au7 where "perform env (seal_request svc input sub cid resolved ceiling) w5 = (Inl e0, tr7, au7, w6)"
            "e = tag_redirect (rv_redirectUri resolved) (ai_state input) e0"
            by (auto elim!: perform_catchE)
          with tag_redirect_target [OF seal_untagged [OF assms(1,2)], of _ _ _ _ _ _ _ _ _ _ _ _ o'] stop(2) assms(4) val
          have "target = \<lparr>rt_redirectUri = uri, rt_state = ai_state input\<rparr>" by (metis sum.inject(1) option.inject)
          with uri(1) dest show ?thesis by blast
        next
          case (go p tr7 au7 w7 tr8 au8)
          have "gives (\<lambda>_. True) (\<lambda>_. True) untagged (case p of (claims, token) \<Rightarrow>
              andThen (priorGrants (az_config svc) sub cid clock_iso) (\<lambda>prior. andThen (readClock 0) (\<lambda>t.
              Audit (authorize_success svc AUDIT_PREPARE t claims (cc_scopes claims))
                (pass (prepared svc claims token prior (rv_registration resolved))))))"
            using priorGrants_untagged [of clock_iso] clock_iso_untagged
            by (cases p) (auto intro!: gives_step gives_rules dest!: finiteClockSnapshot_Inl)
          from gives_perform [OF this go(2)] no show ?thesis by simp
        qed
      qed
    qed
  qed
qed

text \<open>
  C25. An error is redirected only to a destination that was validated. When \<open>prepare\<close> fails with an error
  that carries a redirect target, the target is the redirect URI of the request with the state of the
  request, and that URI had been validated by then: against the carried registration, by the CIMD
  resolver, or by the stored client's or the global policy.
\<close>

theorem error_redirect_validated:
  assumes "perform env (prepare svc input) w = (Inl (OAuth o'), tr, au, w')" and "redirect o' = Some target"
    and "untagged_service svc" and "untagged_random env"
  shows "\<exists>cid uri. ai_clientId input = Some cid \<and> ai_redirectUri input = Some uri
     \<and> target = \<lparr>rt_redirectUri = uri, rt_state = ai_state input\<rparr>
     \<and> destination_validated env svc input tr cid uri"
proof -
  have no: False if "untagged (OAuth o')"
    using that assms(2) by (simp add: untagged_def)
  from assms(1) show ?thesis unfolding prepare_def
  proof (cases rule: perform_andThenE)
    case (stop e)
    have "errs untagged (chain (check_subject (ai_subject input)) (\<lambda>sub.
        chain (assertAllowedScopesCeiling (ai_allowedScopes input)) (\<lambda>ceiling.
        chain (requiredStr (ai_clientId input) ''client_id'') (\<lambda>clientId. Inr (sub, ceiling, clientId)))))"
      by (intro errs_rules) (simp_all add: check_subject_def split: option.split)
    with stop no show ?thesis
      by (auto simp: perform_lift errs_def elim!: perform_catchE dest!: prepare_failed_untagged)
  next
    case (go p tr1 au1 w1 tr2 au2)
    obtain sub ceiling cid where p: "p = (sub, ceiling, cid)" by (cases p)
    from go(1) p have tr: "ai_clientId input = Some cid" "tr1 = []"
      by (auto simp: perform_lift result_simps requiredStr_Inr dest!: prepare_failed_untagged elim!: perform_catchE)
    from go(2) show ?thesis unfolding p prod.case
    proof (cases rule: perform_catchE)
      case (bad e tr3 au3 w3 tr4 au4)
      from prepare_failed_untagged [OF bad(2)] no have "e = OAuth o'" by auto
      from prepare_for_tagged [OF assms(3,4) bad(1) [unfolded this] assms(2)] bad(3) go(3) tr show ?thesis
        by (auto elim!: destination_mono)
    qed simp
  qed
qed

subsection \<open>What a prepared consent says\<close>

lemma truncate_sel:
  "cc_subject (consent_claims.truncate x) = cc_subject x"
  "cc_clientId (consent_claims.truncate x) = cc_clientId x"
  "cc_redirectUri (consent_claims.truncate x) = cc_redirectUri x"
  "cc_resource (consent_claims.truncate x) = cc_resource x"
  "cc_scopes (consent_claims.truncate x) = cc_scopes x"
  "cc_codeChallenge (consent_claims.truncate x) = cc_codeChallenge x"
  "cc_state (consent_claims.truncate x) = cc_state x"
  "cc_allowedScopes (consent_claims.truncate x) = cc_allowedScopes x"
  "cc_cimdVerified (consent_claims.truncate x) = cc_cimdVerified x"
  "cc_storeInstanceId (consent_claims.truncate x) = cc_storeInstanceId x"
  by (simp_all add: consent_claims.defs)

lemma sign_Inr:
  assumes "perform env (signConsentToken J True claims config clock) w = (Inr token, tr, au, w')"
    and "cc_storeInstanceId claims = Some i"
  shows "\<exists>sub jti now. identitySubject (Str (cc_subject claims)) = Inr sub
     \<and> jose_sign J (consentSecret config) consent_header (consent_payload config claims sub jti (Some i) now) = Inr token
     \<and> length token \<le> MAX_CONSENT_TOKEN_BYTES"
  using assms
  by (auto simp: signConsentToken_def seal_consent_def fail_def pass_def chain_eq_Inr split: sum.split_asm prod.split_asm if_split_asm)

lemma request_claims_Inr:
  assumes "request_claims config input sub cid r ceiling = Inr claims"
  shows "ai_responseType input = Some ''code'' \<and> ai_codeChallengeMethod input = Some ''S256''
     \<and> ai_codeChallenge input = Some (cc_codeChallenge claims) \<and> cc_codeChallenge claims \<noteq> []
     \<and> cc_resource claims = cfg_resource config
     \<and> set (cc_scopes claims) \<subseteq> set (cfg_scopeCatalog config)
     \<and> (\<forall>c. ceiling = Some c \<longrightarrow> cc_scopes claims \<noteq> [] \<and> set (cc_scopes claims) \<subseteq> set c)
     \<and> cc_clientId claims = cid \<and> cc_subject claims = sub \<and> cc_redirectUri claims = rv_redirectUri r
     \<and> cc_state claims = ai_state input \<and> cc_allowedScopes claims = ceiling
     \<and> (cc_cimdVerified claims \<longleftrightarrow> rv_registration r \<noteq> None)"
proof -
  from assms obtain scopes where "requested_scopes config (ai_scope input) ceiling = Inr scopes" and c: "cc_scopes claims = scopes"
    and rest: "ai_responseType input = Some ''code''" "ai_codeChallengeMethod input = Some ''S256''"
      "ai_codeChallenge input = Some (cc_codeChallenge claims)" "cc_codeChallenge claims \<noteq> []"
      "cc_resource claims = cfg_resource config"
      "cc_clientId claims = cid" "cc_subject claims = sub" "cc_redirectUri claims = rv_redirectUri r"
      "cc_state claims = ai_state input" "cc_allowedScopes claims = ceiling"
      "cc_cimdVerified claims \<longleftrightarrow> rv_registration r \<noteq> None"
    by (auto simp: request_claims_def requested_resource_def requiredStr_Inr elim!: chain_InrE split: if_split_asm)
  from this(1) obtain requested where r: "normalizeScopes (opt_value (ai_scope input)) (cfg_scopeCatalog config) (cfg_defaultScopes config) = Inr requested"
    and n: "scopes = narrow ceiling requested" "ceiling \<noteq> None \<longrightarrow> scopes \<noteq> []"
    by (auto simp: requested_scopes_def elim!: chain_InrE split: if_split_asm)
  from normalizeScopes_sound(2) [OF r] n have "set scopes \<subseteq> set (cfg_scopeCatalog config)"
    "\<forall>c. ceiling = Some c \<longrightarrow> scopes \<noteq> [] \<and> set scopes \<subseteq> set c"
    by (auto split: option.split_asm)
  with c rest show ?thesis by simp
qed

lemma seal_request_Inr:
  assumes "perform env (seal_request svc input sub cid r ceiling) w = (Inr (claims, token), tr, au, w')"
  shows "\<exists>c v i s jti now. request_claims (az_config svc) input sub cid r ceiling = Inr c
     \<and> (StorePort Get_id, Inr v) \<in> set tr \<and> readInstanceId v = Inr i \<and> claims = c\<lparr>cc_storeInstanceId := Some i\<rparr>
     \<and> identitySubject (Str (cc_subject claims)) = Inr s
     \<and> jose_sign (az_jose svc) (consentSecret (az_config svc)) consent_header
          (consent_payload (az_config svc) claims s jti (Some i) now) = Inr token"
proof -
  from assms obtain c v i clock w1 tr1 au1 where c: "request_claims (az_config svc) input sub cid r ceiling = Inr c"
    "(StorePort Get_id, Inr v) \<in> set tr" "readInstanceId v = Inr i" "claims = c\<lparr>cc_storeInstanceId := Some i\<rparr>"
    and s: "perform env (signConsentToken (az_jose svc) True claims (az_config svc) clock) w1 = (Inr token, tr1, au1, w')"
    unfolding seal_request_def readStoreInstanceId_def
    by (auto simp: perform_simps Let_def simp del: andThen_simps perform.simps elim!: perform_andThen_Inr) blast
  from c(4) have "cc_storeInstanceId claims = Some i" by simp
  from sign_Inr [OF s this] c show ?thesis by blast
qed

lemma prepare_for_Inr:
  assumes "perform env (prepare_for svc input sub ceiling cid) w = (Inr pc, tr, au, w')"
  shows "\<exists>uri c v i s jti now r prior. ai_redirectUri input = Some uri \<and> rv_redirectUri r = uri
     \<and> destination_validated env svc input tr cid uri
     \<and> (rv_registration r \<noteq> None \<longleftrightarrow> ai_registration input \<noteq> None \<or> isCimdClientId cid)
     \<and> request_claims (az_config svc) input sub cid r ceiling = Inr c
     \<and> consent_claims.truncate pc = c\<lparr>cc_storeInstanceId := Some i\<rparr>
     \<and> (StorePort Get_id, Inr v) \<in> set tr \<and> readInstanceId v = Inr i
     \<and> identitySubject (Str (cc_subject pc)) = Inr s
     \<and> jose_sign (az_jose svc) (consentSecret (az_config svc)) consent_header
          (consent_payload (az_config svc) (consent_claims.truncate pc) s jti (Some i) now) = Inr (pc_consentToken pc)
     \<and> set prior \<subseteq> set (cfg_scopeCatalog (az_config svc)) \<and> (\<not> accumulationAllowed (az_config svc) cid \<longrightarrow> prior = [])
     \<and> pc_priorScopes pc = narrow (cc_allowedScopes c) prior"
proof -
  from assms obtain uri r claims token prior w1 tr1 au1 w2 w3 tr3 au3 w4 w5 tr5 au5 w6 where
    uri: "ai_redirectUri input = Some uri"
    and r: "perform env (resolveAuthorizeClient svc cid uri (ai_registration input) (ai_ip input)) w1 = (Inr r, tr1, au1, w2)"
    and s: "perform env (seal_request svc input sub cid r ceiling) w3 = (Inr (claims, token), tr3, au3, w4)"
    and p: "perform env (priorGrants (az_config svc) sub cid clock_iso) w5 = (Inr prior, tr5, au5, w6)"
    and pc: "pc = prepared svc claims token prior (rv_registration r)"
    and tr: "set tr1 \<subseteq> set tr" "set tr3 \<subseteq> set tr"
    unfolding prepare_for_def
    by (auto simp: perform_simps requiredStr_Inr simp del: andThen_simps perform.simps
        elim!: perform_andThen_Inr perform_catch_Inr) blast
  from pc have pcs: "consent_claims.truncate pc = claims" "cc_subject pc = cc_subject claims" "pc_consentToken pc = token"
    "pc_priorScopes pc = narrow (cc_allowedScopes claims) prior"
    by (simp_all add: prepared_def consent_claims.defs)
  from seal_request_Inr [OF s] obtain c v i sb jti now where
    c: "request_claims (az_config svc) input sub cid r ceiling = Inr c" "claims = c\<lparr>cc_storeInstanceId := Some i\<rparr>"
    and v: "(StorePort Get_id, Inr v) \<in> set tr3" "readInstanceId v = Inr i"
    and sg: "identitySubject (Str (cc_subject claims)) = Inr sb" "jose_sign (az_jose svc) (consentSecret (az_config svc)) consent_header
          (consent_payload (az_config svc) claims sb jti (Some i) now) = Inr token" by blast
  from resolveAuthorizeClient_Inr [OF r] have "rv_redirectUri r = uri" and d: "destination_validated env svc input tr1 cid uri"
    and "rv_registration r \<noteq> None \<longleftrightarrow> ai_registration input \<noteq> None \<or> isCimdClientId cid" by simp_all
  moreover from destination_mono [OF d tr(1)] have "destination_validated env svc input tr cid uri" .
  moreover have "(StorePort Get_id, Inr v) \<in> set tr" using v(1) tr(2) by blast
  moreover have "pc_priorScopes pc = narrow (cc_allowedScopes c) prior" using pcs(4) c(2) by simp
  ultimately show ?thesis
    using uri c v(2) sg priorGrants_Inr [OF p] unfolding pcs(1-3) by blast
qed

text \<open>
  A prepared consent is the request that was made, narrowed to what is allowed. When \<open>prepare\<close>
  succeeds, the subject is the authenticated one, outside the machine namespace; the redirect URI is the
  request's and was validated; the flow is \<open>code\<close> with an S256 challenge, for this resource; the scopes
  are catalogued and, under a ceiling, nonempty and within it; the consent is bound to the instance the
  store named and marked as CIMD exactly when a client document vouches for it; no earlier grant is shown for
  a client whose identifier is a URL; and the token is these very claims, signed.
\<close>

theorem prepare_bound:
  assumes "perform env (prepare svc input) w = (Inr pc, tr, au, w')"
  shows "\<exists>v s jti now. ai_subject input = Some (cc_subject pc) \<and> cc_subject pc \<noteq> [] \<and> \<not> startsWith (cc_subject pc) ''mcc_''
     \<and> ai_clientId input = Some (cc_clientId pc) \<and> ai_redirectUri input = Some (cc_redirectUri pc)
     \<and> destination_validated env svc input tr (cc_clientId pc) (cc_redirectUri pc)
     \<and> ai_responseType input = Some ''code'' \<and> ai_codeChallengeMethod input = Some ''S256''
     \<and> ai_codeChallenge input = Some (cc_codeChallenge pc) \<and> cc_codeChallenge pc \<noteq> []
     \<and> cc_resource pc = cfg_resource (az_config svc) \<and> cc_state pc = ai_state input
     \<and> set (cc_scopes pc) \<subseteq> set (cfg_scopeCatalog (az_config svc))
     \<and> assertAllowedScopesCeiling (ai_allowedScopes input) = Inr (cc_allowedScopes pc)
     \<and> (\<forall>c. cc_allowedScopes pc = Some c \<longrightarrow> cc_scopes pc \<noteq> [] \<and> set (cc_scopes pc) \<subseteq> set c)
     \<and> (cc_cimdVerified pc \<longleftrightarrow> ai_registration input \<noteq> None \<or> isCimdClientId (cc_clientId pc))
     \<and> (StorePort Get_id, Inr v) \<in> set tr \<and> (\<exists>i. readInstanceId v = Inr i \<and> cc_storeInstanceId pc = Some i)
     \<and> (isSchemeShaped (cc_clientId pc) \<longrightarrow> pc_priorScopes pc = [])
     \<and> jose_sign (az_jose svc) (consentSecret (az_config svc)) consent_header
          (consent_payload (az_config svc) (consent_claims.truncate pc) s jti (cc_storeInstanceId pc) now)
        = Inr (pc_consentToken pc)"
proof -
  from assms obtain sub ceiling cid w1 tr1 au1 w2 tr2 where
    "check_subject (ai_subject input) = Inr sub" and k: "assertAllowedScopesCeiling (ai_allowedScopes input) = Inr ceiling"
    "ai_clientId input = Some cid" and p: "perform env (prepare_for svc input sub ceiling cid) w1 = (Inr pc, tr1, au1, w2)"
    and tr: "set tr1 \<subseteq> set tr"
    unfolding prepare_def
    by (auto simp: result_simps requiredStr_Inr simp del: andThen_simps perform.simps
        elim!: perform_andThen_Inr perform_catch_Inr dest!: prepare_failed_untagged)
  then have sub: "ai_subject input = Some sub" "sub \<noteq> []" "\<not> startsWith sub ''mcc_''"
    by (auto simp: check_subject_def split: option.split_asm if_split_asm)
  from prepare_for_Inr [OF p] obtain uri c v i s jti now r prior where
    uri: "ai_redirectUri input = Some uri" "rv_redirectUri r = uri" and d: "destination_validated env svc input tr1 cid uri"
    and reg: "rv_registration r \<noteq> None \<longleftrightarrow> ai_registration input \<noteq> None \<or> isCimdClientId cid"
    and c: "request_claims (az_config svc) input sub cid r ceiling = Inr c"
    and pc: "consent_claims.truncate pc = c\<lparr>cc_storeInstanceId := Some i\<rparr>"
    and v: "(StorePort Get_id, Inr v) \<in> set tr1" "readInstanceId v = Inr i"
    and sg: "jose_sign (az_jose svc) (consentSecret (az_config svc)) consent_header
          (consent_payload (az_config svc) (consent_claims.truncate pc) s jti (Some i) now) = Inr (pc_consentToken pc)"
    and pr: "\<not> accumulationAllowed (az_config svc) cid \<longrightarrow> prior = []" "pc_priorScopes pc = narrow (cc_allowedScopes c) prior"
    by blast
  have same: "cc_subject pc = cc_subject c" "cc_clientId pc = cc_clientId c" "cc_redirectUri pc = cc_redirectUri c"
    "cc_resource pc = cc_resource c" "cc_scopes pc = cc_scopes c" "cc_codeChallenge pc = cc_codeChallenge c"
    "cc_state pc = cc_state c" "cc_allowedScopes pc = cc_allowedScopes c" "cc_cimdVerified pc = cc_cimdVerified c"
    "cc_storeInstanceId pc = Some i"
    using arg_cong [OF pc, of cc_subject] arg_cong [OF pc, of cc_clientId] arg_cong [OF pc, of cc_redirectUri] arg_cong [OF pc, of cc_resource] arg_cong [OF pc, of cc_scopes]
      arg_cong [OF pc, of cc_codeChallenge] arg_cong [OF pc, of cc_state] arg_cong [OF pc, of cc_allowedScopes] arg_cong [OF pc, of cc_cimdVerified] arg_cong [OF pc, of cc_storeInstanceId]
    by (simp_all add: truncate_sel)
  have "isSchemeShaped cid \<longrightarrow> pc_priorScopes pc = []"
    using pr by (auto simp: accumulationAllowed_def narrow_def split: option.split)
  moreover note q = request_claims_Inr [OF c]
  moreover have "cc_clientId c = cid" "cc_subject c = sub" "cc_redirectUri c = uri" using q uri(2) by simp_all
  moreover have "(StorePort Get_id, Inr v) \<in> set tr" using v(1) tr by blast
  ultimately show ?thesis
    unfolding same using sub k \<open>ai_clientId input = Some cid\<close> uri reg v(2) sg destination_mono [OF d tr]
    by (intro exI [of _ v] exI [of _ s] exI [of _ jti] exI [of _ now]) simp
qed

end
