(* ===== verification/Cimd_Service.thy ===== *)
theory Cimd_Service
  imports Cimd_Resolver_Laws Authorize_Laws
begin

section \<open>The resolver as the authorization endpoint calls it\<close>

text \<open>
  What \<open>prepare\<close> relies on when it hands an identifier to a resolver, as an interface; the resolver of
  this repository as a task over its ports; and the proof that it keeps the contract. What the wait of a
  call comes to is the parameter \<open>wait\<close>; on the model it is the outcome of a guarded fetch, as
  \<open>Cimd_Resolver_Laws\<close> establishes for every caller of the shared service.
\<close>

subsection \<open>The task\<close>

definition checked_registration ::
    "resolver_config \<Rightarrow> string \<Rightarrow> resolved_registration outcome \<Rightarrow> resolved_registration outcome" where
  "checked_registration cfg redirectUri waited =
     chain waited (\<lambda>r. if cimdRedirectMatches (shared_parser (rc_parse cfg)) redirectUri (rr_registration r)
                      then Inr r else Inl (cimdError ''document_invalid''))"

definition audited :: "(clock_reading \<Rightarrow> audit_event outcome) \<Rightarrow> 'a io \<Rightarrow> 'a io" where
  "audited entry t = Now (\<lambda>clock. case entry clock of Inl broken \<Rightarrow> fail broken | Inr e \<Rightarrow> Audit e t)"

definition resolver_task ::
    "resolver_config \<Rightarrow> ('p \<Rightarrow> string \<Rightarrow> bool outcome) \<Rightarrow> 'p \<Rightarrow> 'p option
       \<Rightarrow> (string \<Rightarrow> resolved_registration outcome) \<Rightarrow> cimd_resolver" where
  "resolver_task cfg ask own_port limiter wait clientId redirectUri ip =
     (if \<not> rc_enabled cfg then fail cimdGenericError
      else case rateGuard ask (rate_key ip) (charged_ports own_port limiter) of
        Inl e \<Rightarrow> fail e
      | Inr _ \<Rightarrow>
          (case checked_registration cfg redirectUri (wait clientId) of
             Inr r \<Rightarrow>
               pass (rr_registration r, audited (\<lambda>clock. emitSuccess clock clientId ip (rr_selectedClientAuthMethod r)) (pass ()))
           | Inl e \<Rightarrow>
               if is_oauth e then fail e
               else audited (\<lambda>clock. cimd_audit clock ''failure'' (Some (auditReason e)) clientId ip None) (fail (mapCimdError e))))"

subsection \<open>The interface\<close>

locale cimd_source =
  fixes resolve :: cimd_resolver and parseUrl :: url_parser
  assumes answers:
    "gives (\<lambda>_. True)
       (\<lambda>r. cimd_client_id (fst r) = clientId \<and> cimdRedirectMatches parseUrl redirectUri (fst r)
            \<and> gives (\<lambda>_. True) (\<lambda>_. True) untagged (snd r))
       untagged (resolve clientId redirectUri ip)"
begin

lemma answered:
  assumes "perform env (resolve clientId redirectUri ip) w = (Inr r, tr, au, w')"
  shows "cimd_client_id (fst r) = clientId \<and> cimdRedirectMatches parseUrl redirectUri (fst r)"
  using gives_perform [OF answers [of clientId redirectUri ip] assms] by simp

text \<open>A client resolved through the source is the presented one, with a registration that admits its redirect URI.\<close>

lemma resolved_client:
  assumes source: "az_cimd svc = Some resolve" and "isCimdClientId clientId"
    and run: "perform env (resolveAuthorizeClient svc clientId redirectUri None ip) w = (Inr r, tr, au, w')"
  shows "\<exists>reg. rv_registration r = Some reg \<and> rv_redirectUri r = redirectUri \<and> cimd_client_id reg = clientId
    \<and> cimdRedirectMatches parseUrl redirectUri reg"
proof -
  have "gives (\<lambda>_. True)
      (\<lambda>r. \<exists>reg. rv_registration r = Some reg \<and> rv_redirectUri r = redirectUri \<and> cimd_client_id reg = clientId
         \<and> cimdRedirectMatches parseUrl redirectUri reg)
      (\<lambda>_. True) (resolveAuthorizeClient svc clientId redirectUri None ip)"
  proof (cases "cfg_cimd (az_config svc)")
    case None
    then show ?thesis using assms(2) by (simp add: resolveAuthorizeClient_def)
  next
    case (Some o')
    then show ?thesis using assms(2) source
      by (simp add: resolveAuthorizeClient_def)
        (rule gives_andThen [OF gives_mono [OF answers]], auto simp: resolved_by_def)
  qed
  from gives_perform [OF this run] show ?thesis by simp
qed

lemma untagged_source:
  assumes "az_cimd svc = Some resolve"
    and "\<And>key header payload e. jose_sign (az_jose svc) key header payload = Inl e \<Longrightarrow> untagged e"
  shows "untagged_service svc"
  unfolding untagged_service_def
  using assms gives_mono [OF answers] by fastforce

end

subsection \<open>The resolver keeps the contract\<close>

definition fetched_wait ::
    "resolver_config \<Rightarrow> (string \<Rightarrow> fetch_world) \<Rightarrow> int option \<Rightarrow> int option \<Rightarrow> resolved_registration success_cache
       \<Rightarrow> string \<Rightarrow> resolved_registration outcome" where
  "fetched_wait cfg world t0 t1 cache clientId =
     fst (fetch_outcome cfg clientId t0 t1
            (snd (guarded_fetch (rc_parse cfg) (rc_json cfg) (rc_allowLoopback cfg) (rc_maxDocumentBytes cfg) clientId (world clientId)))
            cache)"

lemma fetched_wait_sound: "sound_outcome cfg clientId (fetched_wait cfg world t0 t1 cache clientId)"
  using fetch_outcome_sound [of cfg clientId t0 t1] unfolding fetched_wait_def by (metis prod.collapse)

lemma untagged_cimd: "is_cimd_error e \<Longrightarrow> untagged e"
  by (auto simp: is_cimd_error_def untagged_def)

lemma untagged_generic [simp]: "untagged cimdGenericError" "untagged rate_exceeded"
  by (simp_all add: cimdGenericError_def rate_exceeded_def)

lemma map_untagged [simp]: "untagged (mapCimdError e)"
  by (auto simp: mapCimdError_def split: failure.splits)

lemma audit_untagged: "cimd_audit clock out reason clientId ip m = Inl e \<Longrightarrow> untagged e"
  by (auto simp: cimd_audit_def result_simps dest!: finiteClockSnapshot_Inl)

lemma guard_untagged: "rateGuard ask key ports = Inl e \<Longrightarrow> untagged e"
  by (induction ports) (auto split: if_splits)

lemma resolver_task_gives:
  assumes sound: "\<And>cid. sound_outcome cfg cid (wait cid)"
  shows "gives (\<lambda>_. True)
       (\<lambda>r. cimd_client_id (fst r) = clientId \<and> cimdRedirectMatches (shared_parser (rc_parse cfg)) redirectUri (fst r)
            \<and> gives (\<lambda>_. True) (\<lambda>_. True) untagged (snd r))
       untagged (resolver_task cfg ask own_port limiter wait clientId redirectUri ip)"
proof -
  have "belongs cfg clientId r" if "wait clientId = Inr r" for r using sound [of clientId] that by (simp add: sound_outcome_def)
  moreover have "untagged e" if "wait clientId = Inl e" for e
    using sound [of clientId] that by (simp add: sound_outcome_def untagged_cimd)
  ultimately show ?thesis
    by (auto simp: resolver_task_def checked_registration_def audited_def emitSuccess_def belongs_def result_simps cimdError_def
        split: sum.split dest: guard_untagged audit_untagged)
qed

interpretation fetched_source: cimd_source
  "resolver_task cfg ask own_port limiter (fetched_wait cfg world t0 t1 cache)" "shared_parser (rc_parse cfg)"
  for cfg ask own_port limiter world t0 t1 cache
  by unfold_locales (rule resolver_task_gives [OF fetched_wait_sound])

text \<open>
  An authorization by a client metadata URL: the client that is resolved is the presented one, and
  its redirect URI is one the fetched document admits.
\<close>

theorem cimd_client_validated:
  assumes "az_cimd svc = Some (resolver_task cfg ask own_port limiter (fetched_wait cfg world t0 t1 cache))"
    and "isCimdClientId clientId"
    and "perform env (resolveAuthorizeClient svc clientId redirectUri None ip) w = (Inr r, tr, au, w')"
  shows "\<exists>reg. rv_registration r = Some reg \<and> rv_redirectUri r = redirectUri \<and> cimd_client_id reg = clientId
    \<and> cimdRedirectMatches (shared_parser (rc_parse cfg)) redirectUri reg"
  using assms by (rule fetched_source.resolved_client)

end
