(* ===== verification/Pairing.thy ===== *)
theory Pairing
  imports Port_Results Clock
begin

section \<open>The console-pairing identity\<close>

text \<open>
  \<open>src/identity/console-pairing.ts\<close>: the identity port of a single-operator deployment. A one-time code
  is printed on the console and pasted at the authorize step. The identity keeps at most one active code,
  in memory; concurrent callers share the generation that is under way; a verification consumes the code,
  or counts against it. Node's \<open>randomBytes\<close> is an argument: the bytes of each draw.
\<close>

subsection \<open>Codes\<close>

definition CHARSET :: string where "CHARSET = ''BCDFGHJKLMNPQRSTVWXZ''"

definition BASE :: nat where "BASE = 20"

definition CODE_LENGTH :: nat where "CODE_LENGTH = 12"

definition REJECT_THRESHOLD :: nat where "REJECT_THRESHOLD = 256 div BASE * BASE"

text \<open>One draw: bytes at or above the threshold are skipped, until the code is complete.\<close>

fun draw_code :: "string \<Rightarrow> string \<Rightarrow> string" where
  "draw_code out [] = out"
| "draw_code out (b # buf) =
     (if length out < CODE_LENGTH
      then draw_code (if byte b \<ge> REJECT_THRESHOLD then out else out @ [CHARSET ! (byte b mod BASE)]) buf
      else out)"

text \<open>
  The generation loop, over the buffers the random source gives in turn: it ends when they have held
  enough acceptable bytes, and may not end. The second component counts the buffers drawn.
\<close>

partial_function (option) code_loop :: "(nat \<Rightarrow> string) \<Rightarrow> nat \<Rightarrow> string \<Rightarrow> (string \<times> nat) option" where
  "code_loop rnd i out =
     (if length out < CODE_LENGTH then code_loop rnd (Suc i) (draw_code out (rnd i)) else Some (out, i))"

definition generatePairingCode :: "(nat \<Rightarrow> string) \<Rightarrow> string option" where
  "generatePairingCode rnd = map_option fst (code_loop rnd 0 [])"

definition formatPairingCode :: "string \<Rightarrow> string" where
  "formatPairingCode plain =
     take 4 plain @ ''-'' @ take 4 (drop 4 plain) @ ''-'' @ take 4 (drop 8 plain)"

text \<open>
  \<open>toUpperCase\<close> as far as ASCII letters come out of it. Besides a to z these are the characters whose
  full uppercase mapping holds ASCII letters: sharp s, dotless i, long s, the letters Unicode decomposes
  and the ligatures of the U+FB00 block.
\<close>

definition ascii_upper_char :: "char \<Rightarrow> char" where
  "ascii_upper_char c = (if 97 \<le> byte c \<and> byte c \<le> 122 then char_of (byte c - 32) else c)"

definition UPPER_2 :: "(nat list \<times> string) list" where
  "UPPER_2 =
     [([0xC3, 0x9F], ''SS''), ([0xC4, 0xB1], ''I''), ([0xC5, 0x89], ''N''), ([0xC5, 0xBF], ''S''),
      ([0xC7, 0xB0], ''J'')]"

definition UPPER_3 :: "(nat list \<times> string) list" where
  "UPPER_3 =
     [([0xE1, 0xBA, 0x96], ''H''), ([0xE1, 0xBA, 0x97], ''T''), ([0xE1, 0xBA, 0x98], ''W''),
      ([0xE1, 0xBA, 0x99], ''Y''), ([0xE1, 0xBA, 0x9A], ''A''), ([0xEF, 0xAC, 0x80], ''FF''),
      ([0xEF, 0xAC, 0x81], ''FI''), ([0xEF, 0xAC, 0x82], ''FL''), ([0xEF, 0xAC, 0x83], ''FFI''),
      ([0xEF, 0xAC, 0x84], ''FFL''), ([0xEF, 0xAC, 0x85], ''ST''), ([0xEF, 0xAC, 0x86], ''ST'')]"

definition upper_of :: "(nat list \<times> string) list \<Rightarrow> string \<Rightarrow> string option" where
  "upper_of table bytes = map_of table (map byte bytes)"

fun upper_ascii :: "string \<Rightarrow> string" where
  "upper_ascii [] = []"
| "upper_ascii (a # s) =
     (if byte a < 128 then [ascii_upper_char a]
      else case upper_of UPPER_2 (take 2 (a # s)) of
        Some u \<Rightarrow> u
      | None \<Rightarrow> (case upper_of UPPER_3 (take 3 (a # s)) of Some u \<Rightarrow> u | None \<Rightarrow> []))
     @ upper_ascii s"

definition canonicalizePairingCode :: "string \<Rightarrow> string" where
  "canonicalizePairingCode input = filter (\<lambda>c. c \<in> set CHARSET) (upper_ascii input)"

text \<open>The comparison is of the UTF-8 encodings.\<close>

definition timingSafeStringEqual :: "string \<Rightarrow> string \<Rightarrow> bool" where
  "timingSafeStringEqual a b = (utf8 a = utf8 b)"

subsection \<open>Options and state\<close>

record pairing_config =
  pc_subject :: string
  pc_codeTtlSeconds :: int
  pc_maxAttempts :: int

definition pairing_type_error :: "string \<Rightarrow> failure" where
  "pairing_type_error name = Thrown ''TypeError'' (name @ '' must be a positive integer'')"

definition positive_integer :: "string \<Rightarrow> num \<Rightarrow> int outcome" where
  "positive_integer name n =
     (case n of Whole i \<Rightarrow> (if 0 < i then Inr i else Inl (pairing_type_error name))
      | _ \<Rightarrow> Inl (pairing_type_error name))"

definition createConsolePairingIdentity ::
    "string option \<Rightarrow> num option \<Rightarrow> num option \<Rightarrow> pairing_config outcome" where
  "createConsolePairingIdentity subject codeTtlSeconds maxAttempts =
     chain (positive_integer ''codeTtlSeconds'' (case codeTtlSeconds of None \<Rightarrow> Whole 600 | Some n \<Rightarrow> n)) (\<lambda>ttl.
     chain (positive_integer ''maxAttempts'' (case maxAttempts of None \<Rightarrow> Whole 5 | Some n \<Rightarrow> n)) (\<lambda>cap.
     Inr \<lparr>pc_subject = (case subject of None \<Rightarrow> ''console-operator'' | Some s \<Rightarrow> s),
          pc_codeTtlSeconds = ttl, pc_maxAttempts = cap\<rparr>))"

record active_code =
  ac_code :: string
  ac_nonce :: string
  ac_expiresAtMs :: int
  ac_wrongAttempts :: nat

record pairing_session =
  se_nonce :: string
  se_expiresAt :: string

definition session_of :: "active_code \<Rightarrow> pairing_session" where
  "session_of a = \<lparr>se_nonce = ac_nonce a, se_expiresAt = toISOString (ac_expiresAtMs a)\<rparr>"

text \<open>
  A generation: the code it drew (or what its synchronous part threw), and its result once the banner
  was written. A caller of \<open>beginSession\<close> leads a generation, shares one, or has its answer.
\<close>

record pairing_generation =
  pg_draft :: "active_code outcome"
  pg_result :: "pairing_session outcome option"

datatype pairing_caller = Generating nat | Sharing nat | Answered "pairing_session outcome"

record pairing_state =
  ps_active :: "active_code option"
  ps_generating :: "nat option"
  ps_generations :: "pairing_generation list"
  ps_callers :: "pairing_caller list"
  ps_console :: "string list"

definition new_pairing :: pairing_state where
  "new_pairing =
     \<lparr>ps_active = None, ps_generating = None, ps_generations = [], ps_callers = [], ps_console = []\<rparr>"

subsection \<open>Beginning a session\<close>

definition reusableSession ::
    "pairing_config \<Rightarrow> clock_reading \<Rightarrow> active_code option \<Rightarrow> pairing_session option outcome" where
  "reusableSession cfg clock active =
     (case active of
        None \<Rightarrow> Inr None
      | Some a \<Rightarrow>
          chain (finiteClockSnapshot clock 0) (\<lambda>now.
            if now \<ge> ac_expiresAtMs a then Inr None
            else if int (ac_wrongAttempts a) \<ge> pc_maxAttempts cfg then Inr None
            else Inr (Some (session_of a))))"

definition newline :: string where "newline = [CHR 0x0A]"

definition pairing_banner :: "string \<Rightarrow> int \<Rightarrow> string" where
  "pairing_banner plain expiresAtMs =
     ''[mcp-sso] Console pairing code: '' @ formatPairingCode plain @ ''  (expires ''
     @ toISOString expiresAtMs @ '')'' @ newline
     @ ''[mcp-sso] Console pairing is for SINGLE-OPERATOR / private-console deployments only.'' @ newline
     @ ''[mcp-sso] Anyone who can read this log is the operator for the code'' @ [CHR 0x27]
     @ ''s lifetime.'' @ newline"

text \<open>\<open>generateFresh\<close> up to the write of the banner.\<close>

definition draft_code ::
    "pairing_config \<Rightarrow> string \<Rightarrow> string \<Rightarrow> clock_reading \<Rightarrow> active_code outcome" where
  "draft_code cfg plain nonceBytes clock =
     chain (finiteClockSnapshot clock (pc_codeTtlSeconds cfg * 1000)) (\<lambda>now.
     Inr \<lparr>ac_code = plain, ac_nonce = base64url nonceBytes,
          ac_expiresAtMs = now + pc_codeTtlSeconds cfg * 1000, ac_wrongAttempts = 0\<rparr>)"

definition add_pairing_caller :: "pairing_caller \<Rightarrow> pairing_state \<Rightarrow> pairing_state" where
  "add_pairing_caller c st = st\<lparr>ps_callers := ps_callers st @ [c]\<rparr>"

definition generateFresh ::
    "pairing_config \<Rightarrow> string \<Rightarrow> string \<Rightarrow> clock_reading \<Rightarrow> pairing_state \<Rightarrow> pairing_state" where
  "generateFresh cfg plain nonceBytes clock st =
     (let draft = draft_code cfg plain nonceBytes clock
      in st\<lparr>ps_generations := ps_generations st @
              [\<lparr>pg_draft = draft, pg_result = (case draft of Inl e \<Rightarrow> Some (Inl e) | Inr _ \<Rightarrow> None)\<rparr>],
            ps_console := ps_console st @
              (case draft of Inl _ \<Rightarrow> [] | Inr a \<Rightarrow> [pairing_banner plain (ac_expiresAtMs a)])\<rparr>)"

text \<open>
  \<open>beginSession\<close> up to its first await. The first reading is the one of \<open>reusableSession\<close>, the second
  the one of the generation.
\<close>

definition beginSession ::
    "pairing_config \<Rightarrow> clock_reading \<Rightarrow> string \<Rightarrow> string \<Rightarrow> clock_reading \<Rightarrow> pairing_state \<Rightarrow> pairing_state" where
  "beginSession cfg clock plain nonceBytes clock' st =
     (case ps_generating st of
        Some g \<Rightarrow> add_pairing_caller (Sharing g) st
      | None \<Rightarrow>
          (case reusableSession cfg clock (ps_active st) of
             Inl e \<Rightarrow> add_pairing_caller (Answered (Inl e)) st
           | Inr (Some s) \<Rightarrow> add_pairing_caller (Answered (Inr s)) st
           | Inr None \<Rightarrow>
               let g = length (ps_generations st) in
               add_pairing_caller (Generating g) (generateFresh cfg plain nonceBytes clock' (st\<lparr>ps_generating := Some g\<rparr>))))"

text \<open>The write ended: the code becomes the active one, or the write failed and nothing does.\<close>

definition banner_written :: "nat \<Rightarrow> unit outcome \<Rightarrow> pairing_state \<Rightarrow> pairing_state" where
  "banner_written g written st =
     (case (pg_draft (ps_generations st ! g), written) of
        (Inr a, Inr _) \<Rightarrow>
          st\<lparr>ps_active := Some a,
             ps_generations := (ps_generations st)[g := (ps_generations st ! g)\<lparr>pg_result := Some (Inr (session_of a))\<rparr>]\<rparr>
      | (Inr _, Inl e) \<Rightarrow>
          st\<lparr>ps_generations := (ps_generations st)[g := (ps_generations st ! g)\<lparr>pg_result := Some (Inl e)\<rparr>]\<rparr>
      | (Inl _, _) \<Rightarrow> st)"

text \<open>A caller goes on once its generation has a result; the leader clears \<open>generating\<close>.\<close>

definition resume :: "nat \<Rightarrow> pairing_state \<Rightarrow> pairing_state option" where
  "resume i st =
     (case ps_callers st ! i of
        Answered _ \<Rightarrow> None
      | Generating g \<Rightarrow>
          map_option (\<lambda>r. st\<lparr>ps_generating := None, ps_callers := (ps_callers st)[i := Answered r]\<rparr>)
            (pg_result (ps_generations st ! g))
      | Sharing g \<Rightarrow>
          map_option (\<lambda>r. st\<lparr>ps_callers := (ps_callers st)[i := Answered r]\<rparr>)
            (pg_result (ps_generations st ! g)))"

subsection \<open>Verifying a code\<close>

record pairing_input =
  pi_code :: "string option"
  pi_nonce :: "string option"
  pi_ip :: "string option"

definition asVerifyInput :: "jsval \<Rightarrow> pairing_input outcome" where
  "asVerifyInput input =
     (case input of
        Str s \<Rightarrow> Inr \<lparr>pi_code = Some s, pi_nonce = Some [], pi_ip = None\<rparr>
      | Obj kvs \<Rightarrow>
          Inr \<lparr>pi_code = opt_str_of (own kvs ''code''), pi_nonce = opt_str_of (own kvs ''nonce''),
               pi_ip = opt_str_of (own kvs ''ip'')\<rparr>
      | RevokedProxy \<Rightarrow> Inl proxy_type_error
      | _ \<Rightarrow> Inr \<lparr>pi_code = None, pi_nonce = None, pi_ip = None\<rparr>)"

datatype pairing_verdict =
  Paired | Invalid_input | Rate_limited | No_active_code | Expired | Attempts_exhausted | Code_mismatch

fun reply_reason :: "pairing_verdict \<Rightarrow> string" where
  "reply_reason Invalid_input = ''pairing_invalid_input''"
| "reply_reason Rate_limited = ''pairing_rate_limited''"
| "reply_reason No_active_code = ''pairing_no_active_code''"
| "reply_reason Expired = ''pairing_expired''"
| "reply_reason _ = ''pairing_wrong_code''"

fun audit_reason :: "pairing_verdict \<Rightarrow> string option" where
  "audit_reason Paired = None"
| "audit_reason Invalid_input = Some ''invalid_input''"
| "audit_reason Rate_limited = Some ''rate_limited''"
| "audit_reason No_active_code = Some ''no_active_code''"
| "audit_reason Expired = Some ''expired''"
| "audit_reason Attempts_exhausted = Some ''attempts_exhausted''"
| "audit_reason Code_mismatch = Some ''code_mismatch''"

text \<open>The part of \<open>verify\<close> between two awaits that reads and changes the active code.\<close>

definition judge_code ::
    "pairing_config \<Rightarrow> clock_reading \<Rightarrow> string \<Rightarrow> string \<Rightarrow> active_code option
       \<Rightarrow> pairing_verdict outcome \<times> active_code option" where
  "judge_code cfg clock rawCode rawNonce active =
     (case active of
        None \<Rightarrow> (Inr No_active_code, None)
      | Some a \<Rightarrow>
          (case finiteClockSnapshot clock 0 of
             Inl e \<Rightarrow> (Inl e, Some a)
           | Inr now \<Rightarrow>
               if now \<ge> ac_expiresAtMs a then (Inr Expired, None)
               else if timingSafeStringEqual (canonicalizePairingCode rawCode) (ac_code a)
                       \<and> timingSafeStringEqual rawNonce (ac_nonce a)
               then (Inr Paired, None)
               else let a' = a\<lparr>ac_wrongAttempts := Suc (ac_wrongAttempts a)\<rparr> in
                    if int (ac_wrongAttempts a') \<ge> pc_maxAttempts cfg then (Inr Attempts_exhausted, None)
                    else (Inr Code_mismatch, Some a')))"

text \<open>\<open>emit\<close>: the event of an attempt.\<close>

definition pairing_emit ::
    "pairing_config \<Rightarrow> clock_reading \<Rightarrow> string option \<Rightarrow> pairing_verdict \<Rightarrow> audit_event outcome" where
  "pairing_emit cfg clock ip v =
     chain (finiteClockSnapshot clock 0) (\<lambda>now.
     Inr \<lparr>ae_event = ''oauth.pairing.attempt'', ae_status = (if v = Paired then ''success'' else ''failure''),
          ae_occurredAt = toISOString now, ae_clientId = None,
          ae_subject = (if v = Paired then Some (pc_subject cfg) else None), ae_resource = None,
          ae_scopes = None, ae_redirectHost = None, ae_reason = audit_reason v, ae_ip = ip,
          ae_selectedClientAuthMethod = None\<rparr>)"

definition pairing_rate_key :: "string option \<Rightarrow> string" where
  "pairing_rate_key ip = ''pairing:'' @ (case ip of None \<Rightarrow> ''unknown'' | Some a \<Rightarrow> a)"

definition pairing_reply :: "pairing_config \<Rightarrow> pairing_verdict \<Rightarrow> identity_result" where
  "pairing_reply cfg v = (if v = Paired then Identified (pc_subject cfg) Undefined else Refused (reply_reason v))"

text \<open>An attempt is audited before it is answered; an event without a usable clock fails the call.\<close>

definition pairing_answer ::
    "pairing_config \<Rightarrow> clock_reading \<Rightarrow> string option \<Rightarrow> pairing_verdict outcome \<times> active_code option
       \<Rightarrow> identity_result outcome \<times> audit_event list \<times> active_code option" where
  "pairing_answer cfg clock ip judged =
     (case judged of
        (Inl e, active) \<Rightarrow> (Inl e, [], active)
      | (Inr v, active) \<Rightarrow>
          (case pairing_emit cfg clock ip v of
             Inl e \<Rightarrow> (Inl e, [], active)
           | Inr ev \<Rightarrow> (Inr (pairing_reply cfg v), [ev], active)))"

text \<open>
  \<open>verify\<close>: a failing limiter allows, and a refusal leaves the code alone. \<open>active\<close> is the code when
  the limiter has answered; the two readings are the ones of the expiry and of the event.
\<close>

definition verify_pairing ::
    "pairing_config \<Rightarrow> (string \<Rightarrow> bool outcome) \<Rightarrow> clock_reading \<Rightarrow> clock_reading \<Rightarrow> jsval \<Rightarrow> active_code option
       \<Rightarrow> identity_result outcome \<times> audit_event list \<times> active_code option" where
  "verify_pairing cfg allows clock clock' input active =
     (case asVerifyInput input of
        Inl e \<Rightarrow> (Inl e, [], active)
      | Inr i \<Rightarrow>
          (case (pi_code i, pi_nonce i) of
             (Some plain, Some nonce) \<Rightarrow>
               if allows (pairing_rate_key (pi_ip i)) = Inr False
               then pairing_answer cfg clock' (pi_ip i) (Inr Rate_limited, active)
               else pairing_answer cfg clock' (pi_ip i) (judge_code cfg clock plain nonce active)
           | _ \<Rightarrow> pairing_answer cfg clock' (pi_ip i) (Inr Invalid_input, active)))"

subsection \<open>The identity as a transition system\<close>

text \<open>
  What can happen between two awaits, with a label for what matters: the publication of a code and the
  verdict on a submitted code and nonce.
\<close>

datatype pairing_label =
    Other
  | Publishes active_code
  | Judges string string clock_reading "pairing_verdict outcome"

inductive pairing_step :: "pairing_config \<Rightarrow> pairing_state \<Rightarrow> pairing_label \<Rightarrow> pairing_state \<Rightarrow> bool" for cfg where
  begins: "generatePairingCode rnd = Some plain \<Longrightarrow> length nonceBytes = 18 \<Longrightarrow>
    pairing_step cfg st Other (beginSession cfg clock plain nonceBytes clock' st)"
| prints: "g < length (ps_generations st) \<Longrightarrow> pg_result (ps_generations st ! g) = None \<Longrightarrow>
    pg_draft (ps_generations st ! g) = Inr a \<Longrightarrow> pairing_step cfg st (Publishes a) (banner_written g (Inr ()) st)"
| write_fails: "g < length (ps_generations st) \<Longrightarrow> pg_result (ps_generations st ! g) = None \<Longrightarrow>
    pairing_step cfg st Other (banner_written g (Inl e) st)"
| resumes: "i < length (ps_callers st) \<Longrightarrow> resume i st = Some st' \<Longrightarrow> pairing_step cfg st Other st'"
| judges: "judge_code cfg clock plain nonce (ps_active st) = (v, active) \<Longrightarrow>
    pairing_step cfg st (Judges plain nonce clock v) (st\<lparr>ps_active := active\<rparr>)"

inductive pairing_run :: "pairing_config \<Rightarrow> pairing_label list \<Rightarrow> pairing_state \<Rightarrow> bool" for cfg where
  fresh: "pairing_run cfg [] new_pairing"
| grows: "pairing_run cfg tr st \<Longrightarrow> pairing_step cfg st l st' \<Longrightarrow> pairing_run cfg (tr @ [l]) st'"

inductive_cases pairing_stepE: "pairing_step cfg st l st'"

end
