(* ===== verification/Pairing_Laws.thy ===== *)
theory Pairing_Laws
  imports Pairing
begin

section \<open>Laws of console pairing\<close>

text \<open>
  What the pairing identity promises: the code is drawn uniformly and has its shape, what the console
  shows canonicalizes to it, a published code is accepted at most once and judged at most the configured
  number of times, an accepted submission is the printed code with its nonce before its expiry, and a
  refusal says nothing about which of the two was wrong.
\<close>

subsection \<open>The generated code\<close>

definition acceptable :: "char \<Rightarrow> bool" where
  "acceptable b = (byte b < REJECT_THRESHOLD)"

definition symbol :: "char \<Rightarrow> char" where
  "symbol b = CHARSET ! (byte b mod BASE)"

text \<open>The symbols the first \<open>n\<close> buffers stand for.\<close>

definition drawn :: "(nat \<Rightarrow> string) \<Rightarrow> nat \<Rightarrow> string" where
  "drawn rnd n = map symbol (filter acceptable (concat (map rnd [0..<n])))"

lemma drawn_0 [simp]: "drawn rnd 0 = []"
  by (simp add: drawn_def)

lemma drawn_Suc: "drawn rnd (Suc n) = drawn rnd n @ map symbol (filter acceptable (rnd n))"
  by (simp add: drawn_def)

lemma length_drawn_mono: "m \<le> n \<Longrightarrow> length (drawn rnd m) \<le> length (drawn rnd n)"
  by (induction n) (auto simp: drawn_Suc le_Suc_eq)

lemma take_drawn_mono: "m \<le> n \<Longrightarrow> k \<le> length (drawn rnd m) \<Longrightarrow> take k (drawn rnd n) = take k (drawn rnd m)"
proof (induction n)
  case (Suc n)
  then show ?case using length_drawn_mono [of m n rnd] by (cases "m = Suc n") (auto simp: drawn_Suc)
qed simp

lemma draw_code_take:
  "length out \<le> CODE_LENGTH \<Longrightarrow> draw_code out buf = take CODE_LENGTH (out @ map symbol (filter acceptable buf))"
  by (induction out buf rule: draw_code.induct)
     (auto simp: acceptable_def symbol_def CODE_LENGTH_def not_less take_Cons' split: if_split_asm)

lemma draw_code_drawn:
  "draw_code (take CODE_LENGTH (drawn rnd i)) (rnd i) = take CODE_LENGTH (drawn rnd (Suc i))"
  by (simp add: draw_code_take drawn_Suc min_def take_append)

lemma code_loop_result:
  "code_loop rnd i out = Some r \<Longrightarrow> out = take CODE_LENGTH (drawn rnd i) \<Longrightarrow>
   fst r = take CODE_LENGTH (drawn rnd (snd r)) \<and> CODE_LENGTH \<le> length (drawn rnd (snd r))"
proof (induction rnd i out r rule: code_loop.raw_induct [rotated, consumes 1])
  case (1 code_loop rnd i out r)
  have step: "draw_code out (rnd i) = take CODE_LENGTH (drawn rnd (Suc i))" using 1(3) draw_code_drawn by simp
  show ?case
  proof (cases "length out < CODE_LENGTH")
    case True
    then have "code_loop rnd (Suc i) (draw_code out (rnd i)) = Some r" using 1(2) by simp
    then show ?thesis using 1(1) step by blast
  next
    case False
    then have "r = (out, i)" using 1(2) by simp
    with False 1(3) show ?thesis by simp
  qed
qed

lemma code_loop_returns:
  "CODE_LENGTH \<le> length (drawn rnd (i + k)) \<Longrightarrow> code_loop rnd i (take CODE_LENGTH (drawn rnd i)) \<noteq> None"
proof (induction k arbitrary: i)
  case 0
  then show ?case by (subst code_loop.simps) simp
next
  case (Suc k)
  then have "code_loop rnd (Suc i) (draw_code (take CODE_LENGTH (drawn rnd i)) (rnd i)) \<noteq> None"
    unfolding draw_code_drawn by (intro Suc.IH) simp
  then show ?case by (subst code_loop.simps) (metis option.distinct(1))
qed

lemma generated_iff:
  "generatePairingCode rnd = Some c \<longleftrightarrow>
     (\<exists>n. CODE_LENGTH \<le> length (drawn rnd n) \<and> c = take CODE_LENGTH (drawn rnd n))"
proof
  assume "generatePairingCode rnd = Some c"
  then obtain n where l: "code_loop rnd 0 [] = Some (c, n)" by (auto simp: generatePairingCode_def)
  from code_loop_result [OF this] show "\<exists>n. CODE_LENGTH \<le> length (drawn rnd n) \<and> c = take CODE_LENGTH (drawn rnd n)"
    by auto
next
  assume "\<exists>n. CODE_LENGTH \<le> length (drawn rnd n) \<and> c = take CODE_LENGTH (drawn rnd n)"
  then obtain n where n: "CODE_LENGTH \<le> length (drawn rnd n)" "c = take CODE_LENGTH (drawn rnd n)" by blast
  obtain d m where l: "code_loop rnd 0 [] = Some (d, m)" using code_loop_returns [of rnd 0 n] n(1) by auto
  have "d = c"
    using code_loop_result [OF l] n take_drawn_mono [of m n CODE_LENGTH rnd] take_drawn_mono [of n m CODE_LENGTH rnd]
    by (cases "m \<le> n") simp_all
  then show "generatePairingCode rnd = Some c" using l by (simp add: generatePairingCode_def)
qed

lemma CHARSET_length: "length CHARSET = BASE"
  by (simp add: CHARSET_def BASE_def)

lemma symbol_in [simp]: "symbol b \<in> set CHARSET"
  unfolding symbol_def by (rule nth_mem) (simp add: CHARSET_length BASE_def)

lemma generated_shape:
  assumes "generatePairingCode rnd = Some c"
  shows "length c = CODE_LENGTH \<and> set c \<subseteq> set CHARSET"
proof -
  obtain n where "CODE_LENGTH \<le> length (drawn rnd n)" "c = take CODE_LENGTH (drawn rnd n)"
    using assms unfolding generated_iff by blast
  then show ?thesis by (auto simp: drawn_def dest!: in_set_takeD)
qed

text \<open>
  The generation loop returns as soon as the random source has given twelve acceptable bytes, and then
  the code is made of the first twelve: it draws no more than it needs and it drops none.
\<close>

theorem pairing_code_drawn:
  "(generatePairingCode rnd \<noteq> None \<longleftrightarrow> (\<exists>n. CODE_LENGTH \<le> length (drawn rnd n)))
   \<and> (\<forall>n. CODE_LENGTH \<le> length (drawn rnd n) \<longrightarrow> generatePairingCode rnd = Some (take CODE_LENGTH (drawn rnd n)))"
  by (metis generated_iff option.exhaust_sel option.distinct(1))

theorem pairing_code_drawn_witness:
  "generatePairingCode (\<lambda>_. replicate 24 (CHR 0x28)) = Some ''BBBBBBBBBBBB''"
proof -
  have "drawn (\<lambda>_. replicate 24 (CHR 0x28)) 1 = replicate 24 (CHR ''B'')"
    by (simp add: drawn_def acceptable_def symbol_def byte_def REJECT_THRESHOLD_def BASE_def CHARSET_def)
  then show ?thesis
    using pairing_code_drawn [of "\<lambda>_. replicate 24 (CHR 0x28)"] by (auto simp: CODE_LENGTH_def numeral_eq_Suc dest!: spec [of _ 1])
qed

text \<open>
  Each symbol of the alphabet stands for exactly twelve of the 256 byte values, and no byte stands for
  anything else: the rejection sampling is uniform.
\<close>

theorem pairing_symbols_uniform:
  "length (filter (\<lambda>b. draw_code [] [b] = [c]) (map char_of [0..<256 :: nat])) = (if c \<in> set CHARSET then 12 else 0)"
proof -
  have one: "draw_code [] [b] = [c] \<longleftrightarrow> acceptable b \<and> symbol b = c" for b c
    by (simp add: CODE_LENGTH_def acceptable_def symbol_def not_le [symmetric])
  have dist: "distinct CHARSET" by (simp add: CHARSET_def)
  have count: "length (filter (\<lambda>n. n < 240 \<and> n mod 20 = k) [0..<256]) = 12" if "k < 20" for k :: nat
  proof -
    have "{n. n < 256 \<and> n < 240 \<and> n mod 20 = k} = (\<lambda>j. 20 * j + k) ` {..<12}"
    proof (intro subset_antisym subsetI)
      fix n assume "n \<in> {n. n < 256 \<and> n < 240 \<and> n mod 20 = k}"
      then have "n = 20 * (n div 20) + k" "n div 20 < 12" by (auto simp: div_less_iff_less_mult)
      then show "n \<in> (\<lambda>j. 20 * j + k) ` {..<12}" by blast
    qed (use that in auto)
    then show ?thesis by (simp add: length_filter_conv_card card_image inj_on_def cong: conj_cong)
  qed
  have sym: "acceptable (char_of n) \<and> symbol (char_of n) = CHARSET ! k \<longleftrightarrow> n < 240 \<and> n mod 20 = k"
    if "n < 256" "k < 20" for n k :: nat
    using that dist
    by (simp add: acceptable_def symbol_def byte_def REJECT_THRESHOLD_def BASE_def nth_eq_iff_index_eq CHARSET_length)
  show ?thesis
  proof (cases "c \<in> set CHARSET")
    case True
    then obtain k where k: "c = CHARSET ! k" "k < 20" by (auto simp: in_set_conv_nth CHARSET_length BASE_def)
    have "filter (\<lambda>n. acceptable (char_of n) \<and> symbol (char_of n) = c) [0..<256]
        = filter (\<lambda>n. n < 240 \<and> n mod 20 = k) [0..<256 :: nat]"
      using sym k by (intro filter_cong) auto
    then show ?thesis using True count [OF k(2)] unfolding one by (simp add: filter_map comp_def)
  next
    case False
    then show ?thesis unfolding one by (auto simp: filter_empty_conv)
  qed
qed

subsection \<open>What the operator types\<close>

lemma upper_ascii_ascii: "list_all is_ascii s \<Longrightarrow> upper_ascii s = map ascii_upper_char s"
  by (induction s) (simp_all add: is_ascii_def)

lemma charset_facts:
  "c \<in> set CHARSET \<Longrightarrow>
     is_ascii c \<and> is_ascii (ascii_lower_char c) \<and> ascii_upper_char c = c \<and> ascii_upper_char (ascii_lower_char c) = c"
  by (auto simp: CHARSET_def is_ascii_def ascii_upper_char_def ascii_lower_char_def byte_def)

lemma hyphen_facts: "is_ascii (CHR ''-'') \<and> ascii_upper_char (CHR ''-'') = CHR ''-'' \<and> CHR ''-'' \<notin> set CHARSET"
  by (simp add: CHARSET_def is_ascii_def ascii_upper_char_def byte_def)

lemma canonicalize_charset:
  assumes "set c \<subseteq> set CHARSET"
  shows "upper_ascii c = c" and "upper_ascii (map ascii_lower_char c) = c" and "filter (\<lambda>x. x \<in> set CHARSET) c = c"
proof -
  have "list_all is_ascii c" "list_all is_ascii (map ascii_lower_char c)"
    "map ascii_upper_char c = c" "map (\<lambda>x. ascii_upper_char (ascii_lower_char x)) c = c"
    using assms charset_facts by (auto simp: list_all_iff intro!: map_idI)
  then show "upper_ascii c = c" and "upper_ascii (map ascii_lower_char c) = c" by (simp_all add: upper_ascii_ascii comp_def)
  show "filter (\<lambda>x. x \<in> set CHARSET) c = c" using assms by (auto simp: filter_id_conv)
qed

lemma upper_ascii_append: "list_all is_ascii s \<Longrightarrow> upper_ascii (s @ t) = upper_ascii s @ upper_ascii t"
  by (induction s) (simp_all add: is_ascii_def)

lemma split_code:
  assumes "length c = CODE_LENGTH"
  shows "take 4 c @ take 4 (drop 4 c) @ take 4 (drop 8 c) = c"
proof -
  have "take (4 + (4 + 4)) c = c" using assms by (simp add: CODE_LENGTH_def)
  then show ?thesis unfolding take_add by simp
qed


lemma canonicalize_format:
  assumes "length c = CODE_LENGTH" and "set c \<subseteq> set CHARSET"
  shows "canonicalizePairingCode (formatPairingCode c) = c"
    and "canonicalizePairingCode (map ascii_lower_char (formatPairingCode c)) = c"
proof -
  let ?p = "take 4 c" and ?q = "take 4 (drop 4 c)" and ?r = "take 4 (drop 8 c)"
  have sub: "set ?p \<subseteq> set CHARSET" "set ?q \<subseteq> set CHARSET" "set ?r \<subseteq> set CHARSET"
    using assms(2) by (auto dest!: in_set_takeD in_set_dropD)
  have asc: "list_all is_ascii x \<and> list_all is_ascii (map ascii_lower_char x)" if "set x \<subseteq> set CHARSET" for x
    using that charset_facts by (auto simp: list_all_iff)
  have low: "ascii_lower_char (CHR ''-'') = CHR ''-''" by (simp add: ascii_lower_char_def byte_def)
  note parts = canonicalize_charset [OF sub(1)] canonicalize_charset [OF sub(2)] canonicalize_charset [OF sub(3)]
  have up: "upper_ascii (CHR ''-'' # s) = CHR ''-'' # upper_ascii s" for s
    using hyphen_facts by (simp add: is_ascii_def)
  show "canonicalizePairingCode (formatPairingCode c) = c"
    and "canonicalizePairingCode (map ascii_lower_char (formatPairingCode c)) = c"
    using hyphen_facts split_code [OF assms(1)]
    by (simp_all add: canonicalizePairingCode_def formatPairingCode_def upper_ascii_append asc sub up parts low
        del: upper_ascii.simps(2))
qed

text \<open>
  What the console shows, typed back in upper or lower case and with its hyphens, canonicalizes to the
  generated code.
\<close>

theorem pairing_code_roundtrip:
  assumes "generatePairingCode rnd = Some c"
  shows "canonicalizePairingCode (formatPairingCode c) = c
         \<and> canonicalizePairingCode (map ascii_lower_char (formatPairingCode c)) = c"
  using canonicalize_format generated_shape [OF assms] by blast

theorem pairing_code_roundtrip_witness:
  "canonicalizePairingCode (formatPairingCode (replicate 12 (CHR ''C''))) = replicate 12 (CHR ''C'')"
proof -
  have "drawn (\<lambda>_. replicate 12 (CHR 0x01)) 1 = replicate 12 (CHR ''C'')"
    by (simp add: drawn_def acceptable_def symbol_def byte_def REJECT_THRESHOLD_def BASE_def CHARSET_def)
  then have "generatePairingCode (\<lambda>_. replicate 12 (CHR 0x01)) = Some (replicate 12 (CHR ''C''))"
    unfolding generated_iff by (intro exI [of _ 1]) (simp add: CODE_LENGTH_def)
  from pairing_code_roundtrip [OF this] show ?thesis by simp
qed

subsection \<open>The comparison\<close>

lemma utf8_eq_ascii: "list_all is_ascii a \<Longrightarrow> utf8 x = utf8 a \<Longrightarrow> x = a"
proof -
  have id: "utf8 a = a" if "list_all is_ascii a" for a
    using that by (induction a rule: utf8.induct) (auto simp: is_ascii_def)
  have kept: "list_all is_ascii (utf8 x) \<Longrightarrow> utf8 x = x" for x
    by (induction x rule: utf8.induct) (auto simp: is_ascii_def byte_def split: if_split_asm)
  show "list_all is_ascii a \<Longrightarrow> utf8 x = utf8 a \<Longrightarrow> x = a" using id kept by metis
qed

lemma base64url_ascii: "list_all is_ascii (base64url bs)"
proof -
  have "is_ascii c" if "is_base64url c" for c
    using that by (auto simp: is_base64url_def is_alpha_def is_digit_def is_ascii_def byte_def)
  then show ?thesis using base64url_ok [of bs] by (auto simp: list_all_iff)
qed

end
