(* ===== verification/Pairing_History.thy ===== *)
theory Pairing_History
  imports Pairing_Laws
begin

section \<open>Histories of a pairing identity\<close>

text \<open>
  The steps of \<open>pairing_step\<close> in any order and number, from a fresh identity: sessions begun concurrently,
  banners that are written or fail, submissions judged in between.
\<close>

definition is_publish :: "pairing_label \<Rightarrow> bool" where
  "is_publish l = (case l of Publishes _ \<Rightarrow> True | _ \<Rightarrow> False)"

definition accepts :: "pairing_label \<Rightarrow> bool" where
  "accepts l = (case l of Judges _ _ _ (Inr Paired) \<Rightarrow> True | _ \<Rightarrow> False)"

definition misses :: "pairing_label \<Rightarrow> bool" where
  "misses l =
     (case l of Judges _ _ _ (Inr Code_mismatch) \<Rightarrow> True | Judges _ _ _ (Inr Attempts_exhausted) \<Rightarrow> True | _ \<Rightarrow> False)"

definition count_of :: "('a \<Rightarrow> bool) \<Rightarrow> 'a list \<Rightarrow> nat" where
  "count_of P ls = length (filter P ls)"

text \<open>The code published last, and what happened since.\<close>

fun published :: "pairing_label list \<Rightarrow> active_code option" where
  "published [] = None"
| "published (Publishes a # back_in_time) = Some a"
| "published (_ # back_in_time) = published back_in_time"

fun since :: "pairing_label list \<Rightarrow> pairing_label list" where
  "since [] = []"
| "since (Publishes a # back_in_time) = []"
| "since (l # back_in_time) = l # since back_in_time"

lemma count_of_simps [simp]:
  "count_of P [] = 0" "count_of P (l # ls) = (if P l then 1 else 0) + count_of P ls"
  by (simp_all add: count_of_def)

lemma label_simps [simp]:
  "is_publish (Publishes a)" "\<not> is_publish Other" "\<not> is_publish (Judges c n k v)"
  "\<not> accepts Other" "\<not> accepts (Publishes a)" "accepts (Judges c n k v) \<longleftrightarrow> v = Inr Paired"
  "\<not> misses Other" "\<not> misses (Publishes a)"
  "misses (Judges c n k v) \<longleftrightarrow> v = Inr Code_mismatch \<or> v = Inr Attempts_exhausted"
  by (auto simp: is_publish_def accepts_def misses_def split: sum.splits pairing_verdict.splits)

text \<open>
  The active code is the one published last, with the misses since; a spent code has been accepted at most
  once and judged at most as often as the cap allows.
\<close>

definition active_inv :: "pairing_config \<Rightarrow> pairing_label list \<Rightarrow> active_code option \<Rightarrow> bool" where
  "active_inv cfg past active =
     (case active of
        Some a \<Rightarrow>
          (\<exists>a0. published past = Some a0 \<and> a = a0\<lparr>ac_wrongAttempts := count_of misses (since past)\<rparr>)
          \<and> int (count_of misses (since past)) < pc_maxAttempts cfg \<and> count_of accepts (since past) = 0
      | None \<Rightarrow>
          count_of accepts (since past) \<le> 1
          \<and> int (count_of accepts (since past) + count_of misses (since past)) \<le> pc_maxAttempts cfg)"

lemma judge_code_inv:
  assumes "active_inv cfg past active" and "judge_code cfg clock raw nonce active = (v, active')"
  shows "active_inv cfg (Judges raw nonce clock v # past) active'"
  using assms
  by (auto simp: active_inv_def judge_code_def Let_def split: option.splits sum.splits if_split_asm)

text \<open>Every draft has the shape, its banner was written before, and it is judged afresh.\<close>

definition draft_ok :: "string list \<Rightarrow> active_code \<Rightarrow> bool" where
  "draft_ok console a =
     (length (ac_code a) = CODE_LENGTH \<and> set (ac_code a) \<subseteq> set CHARSET \<and> list_all is_ascii (ac_nonce a)
      \<and> length (ac_nonce a) = 24 \<and> ac_wrongAttempts a = 0 \<and> canonical (ac_expiresAtMs a)
      \<and> pairing_banner (ac_code a) (ac_expiresAtMs a) \<in> set console)"

definition drafts_inv :: "pairing_generation list \<Rightarrow> string list \<Rightarrow> bool" where
  "drafts_inv gs console =
     (\<forall>p \<in> set gs. (\<forall>a. pg_draft p = Inr a \<longrightarrow> draft_ok console a) \<and> (\<forall>e. pg_draft p = Inl e \<longrightarrow> pg_result p \<noteq> None))"

abbreviation drafts_ok :: "pairing_state \<Rightarrow> bool" where
  "drafts_ok st \<equiv> drafts_inv (ps_generations st) (ps_console st)"

lemma draft_ok_mono: "draft_ok console a \<Longrightarrow> set console \<subseteq> set console' \<Longrightarrow> draft_ok console' a"
  by (auto simp: draft_ok_def)

lemma draft_code_ok:
  assumes "draft_code cfg c nb clock = Inr a" and "generatePairingCode rnd = Some c" and "length nb = 18"
  shows "draft_ok [pairing_banner c (ac_expiresAtMs a)] a"
  using assms generated_shape [OF assms(2)] finiteClockSnapshot_canonical
  by (auto simp: draft_code_def draft_ok_def chain_eq_Inr base64url_ascii length_base64url)

lemma beginSession_active [simp]: "ps_active (beginSession cfg k c nb k' st) = ps_active st"
  by (auto simp: beginSession_def add_pairing_caller_def generateFresh_def Let_def split: option.split sum.split)

lemma resume_active: "resume i st = Some st' \<Longrightarrow> ps_active st' = ps_active st"
  by (auto simp: resume_def split: pairing_caller.splits)

lemma generateFresh_drafts:
  assumes "drafts_ok st" and "generatePairingCode rnd = Some c" and "length nb = 18"
  shows "drafts_ok (generateFresh cfg c nb clock st)"
proof (cases "draft_code cfg c nb clock")
  case (Inl e)
  with assms(1) show ?thesis by (simp add: drafts_inv_def generateFresh_def)
next
  case (Inr a)
  have old: "draft_ok (ps_console st) b \<Longrightarrow> draft_ok (ps_console st @ x) b" for b x by (erule draft_ok_mono) auto
  have new: "draft_ok (ps_console st @ [pairing_banner c (ac_expiresAtMs a)]) a"
    using draft_code_ok [OF Inr assms(2,3)] by (rule draft_ok_mono) auto
  show ?thesis using assms(1) Inr old new by (simp add: drafts_inv_def generateFresh_def)
qed

lemma outcome_option_cases:
  obtains (failed) e where "r = Inl e" | (none) "r = Inr None" | (found) x where "r = Inr (Some x)"
  by (cases r) (auto intro: option.exhaust)

lemma beginSession_drafts:
  assumes "drafts_ok st" and "generatePairingCode rnd = Some c" and "length nb = 18"
  shows "drafts_ok (beginSession cfg clock c nb clock' st)"
proof -
  let ?st = "st\<lparr>ps_generating := Some (length (ps_generations st))\<rparr>"
  have "drafts_ok (generateFresh cfg c nb clock' ?st)" using assms by (intro generateFresh_drafts) simp_all
  moreover have "drafts_ok (add_pairing_caller x s) = drafts_ok s" for x s by (simp add: add_pairing_caller_def)
  ultimately show ?thesis
    using assms(1) by (cases "ps_generating st"; cases "reusableSession cfg clock (ps_active st)" rule: outcome_option_cases)
      (simp_all add: beginSession_def Let_def)
qed

lemma drafts_inv_update:
  assumes "drafts_inv gs console" and "g < length gs"
  shows "drafts_inv (gs[g := (gs ! g)\<lparr>pg_result := Some r\<rparr>]) console"
  unfolding drafts_inv_def
proof
  fix p assume "p \<in> set (gs[g := (gs ! g)\<lparr>pg_result := Some r\<rparr>])"
  then have "p = (gs ! g)\<lparr>pg_result := Some r\<rparr> \<or> p \<in> set gs" using set_update_subset_insert by fast
  then show "(\<forall>a. pg_draft p = Inr a \<longrightarrow> draft_ok console a) \<and> (\<forall>e. pg_draft p = Inl e \<longrightarrow> pg_result p \<noteq> None)"
    using assms(1) nth_mem [OF assms(2)] by (elim disjE) (simp_all add: drafts_inv_def)
qed

lemma banner_written_drafts:
  "drafts_ok st \<Longrightarrow> g < length (ps_generations st) \<Longrightarrow> drafts_ok (banner_written g w st)"
  by (simp add: banner_written_def drafts_inv_update split: sum.split)

lemma pairing_step_inv:
  assumes "pairing_step cfg st l st'" and "0 < pc_maxAttempts cfg"
    and "active_inv cfg past (ps_active st)" and "drafts_ok st"
  shows "active_inv cfg (l # past) (ps_active st') \<and> drafts_ok st'
         \<and> (\<forall>a. l = Publishes a \<longrightarrow> draft_ok (ps_console st') a)"
  using assms(1)
proof (cases rule: pairing_step.cases)
  case (begins rnd c nb k k')
  then show ?thesis using assms(3) beginSession_drafts [OF assms(4) begins(3,4)]
    by (simp add: active_inv_def split: option.splits)
next
  case (prints g a)
  have ok: "draft_ok (ps_console st) a"
    using assms(4) nth_mem [OF prints(3)] prints(5) by (force simp: drafts_inv_def)
  have act: "ps_active st' = Some a" and con: "ps_console st' = ps_console st"
    unfolding prints(2) by (simp_all add: banner_written_def prints(5))
  have "a\<lparr>ac_wrongAttempts := 0\<rparr> = a" using ok by (simp add: draft_ok_def)
  then have "active_inv cfg (l # past) (ps_active st')" unfolding prints(1) act
    using assms(2) by (simp add: active_inv_def)
  moreover have "drafts_ok st'" unfolding prints(2) by (rule banner_written_drafts [OF assms(4) prints(3)])
  ultimately show ?thesis using ok con prints(1) by simp
next
  case (write_fails g e)
  then have "ps_active st' = ps_active st" by (simp add: banner_written_def split: sum.split)
  then show ?thesis using assms(3) banner_written_drafts [OF assms(4) write_fails(3)] write_fails(1,2)
    by (simp add: active_inv_def split: option.splits)
next
  case (resumes i)
  have "drafts_ok st' = drafts_ok st"
    using resumes(3) by (auto simp: resume_def split: pairing_caller.splits)
  then show ?thesis using assms(3,4) resume_active [OF resumes(3)] resumes(1)
    by (simp add: active_inv_def split: option.splits)
next
  case (judges c n k v a)
  then show ?thesis using judge_code_inv [OF assms(3) judges(3)] assms(4) by simp
qed

subsection \<open>What a history shows\<close>

lemma generateFresh_console: "set (ps_console st) \<subseteq> set (ps_console (generateFresh cfg c nb k st))"
  by (auto simp: generateFresh_def Let_def)

lemma pairing_step_console: "pairing_step cfg st l st' \<Longrightarrow> set (ps_console st) \<subseteq> set (ps_console st')"
proof (induction rule: pairing_step.induct)
  case (begins rnd c nb st clock clock')
  let ?st = "st\<lparr>ps_generating := Some (length (ps_generations st))\<rparr>"
  have "set (ps_console st) \<subseteq> set (ps_console (generateFresh cfg c nb clock' ?st))"
    using generateFresh_console [of ?st cfg c nb clock'] by simp
  then show ?case
    by (cases "ps_generating st"; cases "reusableSession cfg clock (ps_active st)" rule: outcome_option_cases)
      (simp_all add: beginSession_def Let_def add_pairing_caller_def)
qed (auto simp: banner_written_def resume_def split: sum.splits pairing_caller.splits)

lemma pairing_run_inv:
  assumes "pairing_run cfg tr st" and "0 < pc_maxAttempts cfg"
  shows "active_inv cfg (rev tr) (ps_active st) \<and> drafts_ok st
         \<and> (\<forall>a. Publishes a \<in> set tr \<longrightarrow> draft_ok (ps_console st) a)"
  using assms
proof (induction rule: pairing_run.induct)
  case fresh
  then show ?case by (simp add: new_pairing_def active_inv_def drafts_inv_def)
next
  case (grows tr st l st')
  then show ?case
    using pairing_step_inv [OF grows(2), of "rev tr"] pairing_step_console [OF grows(2)] draft_ok_mono by fastforce
qed

lemma since_rev_append:
  "list_all (\<lambda>l. \<not> is_publish l) post \<Longrightarrow>
   since (rev post @ Publishes a # past) = rev post \<and> published (rev post @ Publishes a # past) = Some a"
proof (induction post rule: rev_induct)
  case (snoc l post)
  then show ?case by (cases l) simp_all
qed simp

lemma count_of_rev [simp]: "count_of P (rev ls) = count_of P ls"
  by (simp add: count_of_def flip: rev_filter)

lemma judged_paired:
  "judge_code cfg clock raw nonce active = (Inr Paired, active') \<Longrightarrow>
     \<exists>a now. active = Some a \<and> active' = None \<and> finiteClockSnapshot clock 0 = Inr now \<and> now < ac_expiresAtMs a
             \<and> timingSafeStringEqual (canonicalizePairingCode raw) (ac_code a) \<and> timingSafeStringEqual nonce (ac_nonce a)"
  by (auto simp: judge_code_def Let_def split: option.splits sum.splits if_split_asm)

lemma published_in: "published past = Some a \<Longrightarrow> Publishes a \<in> set past"
  by (induction past rule: published.induct) auto

lemma charset_ascii: "set c \<subseteq> set CHARSET \<Longrightarrow> list_all is_ascii c"
  using charset_facts by (auto simp: list_all_iff)

lemma paired_step:
  assumes "pairing_run cfg tr st" and "0 < pc_maxAttempts cfg"
    and "judge_code cfg clock raw nonce (ps_active st) = (Inr Paired, active')"
  obtains a now where "Publishes a \<in> set tr" "canonicalizePairingCode raw = ac_code a" "nonce = ac_nonce a"
    "clock = Reads (Whole now)" "now < ac_expiresAtMs a"
proof -
  obtain a now where a: "ps_active st = Some a" "finiteClockSnapshot clock 0 = Inr now" "now < ac_expiresAtMs a"
    "timingSafeStringEqual (canonicalizePairingCode raw) (ac_code a)" "timingSafeStringEqual nonce (ac_nonce a)"
    using judged_paired [OF assms(3)] by blast
  obtain a0 where a0: "published (rev tr) = Some a0" "a = a0\<lparr>ac_wrongAttempts := count_of misses (since (rev tr))\<rparr>"
    using pairing_run_inv [OF assms(1,2)] a(1) by (auto simp: active_inv_def)
  have mem: "Publishes a0 \<in> set tr" using published_in [OF a0(1)] by simp
  have "draft_ok (ps_console st) a0" using pairing_run_inv [OF assms(1,2)] mem by blast
  then have "list_all is_ascii (ac_code a0)" "list_all is_ascii (ac_nonce a0)"
    by (simp_all add: draft_ok_def charset_ascii)
  then have "canonicalizePairingCode raw = ac_code a0" "nonce = ac_nonce a0"
    using a(4,5) utf8_eq_ascii by (simp_all add: timingSafeStringEqual_def a0(2))
  moreover have "clock = Reads (Whole now)" using a(2) by (simp add: finiteClockSnapshot_Inr)
  ultimately show thesis using that [of a0 now] mem a(3) by (simp add: a0(2))
qed

text \<open>
  C24. A published code admits one identity at most, and at most as many submissions are compared with it as
  the cap allows, whatever sessions, failed banners and submissions are interleaved.
\<close>

theorem pairing_attempts_bounded:
  assumes "pairing_run cfg (before @ Publishes a # later) st" and "0 < pc_maxAttempts cfg"
    and "list_all (\<lambda>l. \<not> is_publish l) later"
  shows "count_of accepts later \<le> 1 \<and> int (count_of accepts later + count_of misses later) \<le> pc_maxAttempts cfg"
proof -
  have "active_inv cfg (rev later @ Publishes a # rev before) (ps_active st)"
    using pairing_run_inv [OF assms(1,2)] by simp
  then show ?thesis using since_rev_append [OF assms(3), of a "rev before"]
    by (auto simp: active_inv_def split: option.splits)
qed

text \<open>
  An accepted submission is, read through the operator's typing, a code this identity published with the
  nonce of its form, before its expiry; that code has the full length, is written in the alphabet, and its
  banner is on the console.
\<close>

theorem pairing_accepts_printed:
  assumes "pairing_run cfg tr st" and "0 < pc_maxAttempts cfg" and "Judges raw nonce clock (Inr Paired) \<in> set tr"
  shows "\<exists>a now. Publishes a \<in> set tr \<and> canonicalizePairingCode raw = ac_code a \<and> nonce = ac_nonce a
           \<and> clock = Reads (Whole now) \<and> now < ac_expiresAtMs a
           \<and> length (ac_code a) = CODE_LENGTH \<and> set (ac_code a) \<subseteq> set CHARSET
           \<and> pairing_banner (ac_code a) (ac_expiresAtMs a) \<in> set (ps_console st)"
  using assms
proof (induction rule: pairing_run.induct)
  case (grows tr st l st')
  have ok: "draft_ok (ps_console st') a" if "Publishes a \<in> set (tr @ [l])" for a
    using pairing_run_inv [OF pairing_run.grows [OF grows.hyps] grows.prems(1)] that by blast
  show ?case
  proof (cases "Judges raw nonce clock (Inr Paired) \<in> set tr")
    case True
    then obtain a now where a: "Publishes a \<in> set tr" "canonicalizePairingCode raw = ac_code a" "nonce = ac_nonce a"
      "clock = Reads (Whole now)" "now < ac_expiresAtMs a"
      using grows.IH [OF grows.prems(1)] by blast
    then show ?thesis using ok [of a] unfolding draft_ok_def by (intro exI [of _ a] exI [of _ now]) simp
  next
    case False
    then have l: "l = Judges raw nonce clock (Inr Paired)" using grows.prems(2) by simp
    then obtain active' where "judge_code cfg clock raw nonce (ps_active st) = (Inr Paired, active')"
      using grows.hyps(2) by (auto elim!: pairing_stepE)
    then obtain a now where a: "Publishes a \<in> set tr" "canonicalizePairingCode raw = ac_code a" "nonce = ac_nonce a"
      "clock = Reads (Whole now)" "now < ac_expiresAtMs a"
      using paired_step [OF grows.hyps(1) grows.prems(1)] by blast
    then show ?thesis using ok [of a] unfolding draft_ok_def by (intro exI [of _ a] exI [of _ now]) simp
  qed
qed simp

subsection \<open>Replies\<close>

lemma pairing_answer_cases:
  "pairing_answer cfg k ip (v, active) =
     (case v of Inl e \<Rightarrow> (Inl e, [], active)
      | Inr w \<Rightarrow> (case pairing_emit cfg k ip w of Inl e \<Rightarrow> (Inl e, [], active) | Inr ev \<Rightarrow> (Inr (pairing_reply cfg w), [ev], active)))"
  by (simp add: pairing_answer_def split: sum.split)

lemma pairing_reply_identified: "pairing_reply cfg v = Identified s al \<longleftrightarrow> v = Paired \<and> s = pc_subject cfg \<and> al = Undefined"
  by (auto simp: pairing_reply_def)

text \<open>
  An identity is answered only for a submission that was judged right; the code is spent by it, and the
  one event of the attempt names the subject.
\<close>

theorem verify_pairing_identified:
  assumes "verify_pairing cfg allows k k' input active = (Inr (Identified s al), evs, active')"
  shows "\<exists>i c n ev. asVerifyInput input = Inr i \<and> pi_code i = Some c \<and> pi_nonce i = Some n
           \<and> judge_code cfg k c n active = (Inr Paired, None) \<and> active' = None \<and> s = pc_subject cfg
           \<and> evs = [ev] \<and> ae_status ev = ''success'' \<and> ae_subject ev = Some s \<and> ae_reason ev = None"
proof -
  obtain i where i: "asVerifyInput input = Inr i"
    using assms by (auto simp: verify_pairing_def split: sum.splits)
  have refused: "pairing_answer cfg k' (pi_ip i) (Inr v, active) \<noteq> (Inr (Identified s al), evs, active')" if "v \<noteq> Paired" for v
    using that by (auto simp: pairing_answer_cases pairing_reply_identified split: sum.split)
  obtain c n where cn: "pi_code i = Some c" "pi_nonce i = Some n"
    using assms refused [of Invalid_input] by (cases "pi_code i"; cases "pi_nonce i") (auto simp: verify_pairing_def i)
  have answered: "pairing_answer cfg k' (pi_ip i) (judge_code cfg k c n active) = (Inr (Identified s al), evs, active')"
    using assms refused [of Rate_limited] by (auto simp: verify_pairing_def i cn split: if_split_asm)
  obtain v b where j: "judge_code cfg k c n active = (v, b)" by fastforce
  have "v = Inr Paired" "b = active'"
    and ev: "\<exists>ev. pairing_emit cfg k' (pi_ip i) Paired = Inr ev \<and> evs = [ev] \<and> s = pc_subject cfg"
    using answered unfolding j by (auto simp: pairing_answer_cases pairing_reply_identified split: sum.splits)
  then show ?thesis using i cn j judged_paired [of cfg k c n active active'] ev
    by (auto simp: pairing_emit_def chain_eq_Inr)
qed

text \<open>
  A wrong code and a wrong nonce cannot be told apart: neither by the reply, nor by the event, nor by what
  becomes of the active code.
\<close>

theorem pairing_no_oracle:
  assumes "asVerifyInput x = Inr i" and "pi_code i = Some c" and "pi_nonce i = Some n"
    and "asVerifyInput y = Inr j" and "pi_code j = Some c'" and "pi_nonce j = Some n'" and "pi_ip i = pi_ip j"
    and "\<not> (timingSafeStringEqual (canonicalizePairingCode c) (ac_code a) \<and> timingSafeStringEqual n (ac_nonce a))"
    and "\<not> (timingSafeStringEqual (canonicalizePairingCode c') (ac_code a) \<and> timingSafeStringEqual n' (ac_nonce a))"
  shows "verify_pairing cfg allows k k' x (Some a) = verify_pairing cfg allows k k' y (Some a)"
proof -
  have "judge_code cfg k c n (Some a) = judge_code cfg k c' n' (Some a)"
    using assms(8,9) by (simp add: judge_code_def split: sum.split)
  then show ?thesis by (simp add: verify_pairing_def assms(1-7))
qed

subsection \<open>Sessions\<close>

text \<open>
  One generation at a time, led by one caller; what a caller is answered belongs to a published code.
\<close>

definition session_inv :: "pairing_label list \<Rightarrow> pairing_session outcome \<Rightarrow> bool" where
  "session_inv past r = (\<forall>s. r = Inr s \<longrightarrow> (\<exists>a. Publishes a \<in> set past \<and> se_nonce s = ac_nonce a \<and> se_expiresAt s = toISOString (ac_expiresAtMs a)))"

definition callers_inv :: "pairing_label list \<Rightarrow> pairing_state \<Rightarrow> bool" where
  "callers_inv past st =
     ((\<forall>g < length (ps_generations st). \<forall>r. pg_result (ps_generations st ! g) = Some r \<longrightarrow> session_inv past r)
      \<and> (\<forall>g < length (ps_generations st). pg_result (ps_generations st ! g) = None \<longrightarrow> ps_generating st = Some g)
      \<and> (\<forall>i < length (ps_callers st). \<forall>g. ps_callers st ! i = Generating g \<longrightarrow>
           ps_generating st = Some g \<and> g < length (ps_generations st))
      \<and> (\<forall>i < length (ps_callers st). \<forall>g. ps_callers st ! i = Sharing g \<longrightarrow> g < length (ps_generations st))
      \<and> (\<forall>i < length (ps_callers st). \<forall>r. ps_callers st ! i = Answered r \<longrightarrow> session_inv past r)
      \<and> (\<forall>i < length (ps_callers st). \<forall>j < length (ps_callers st). \<forall>g h.
           ps_callers st ! i = Generating g \<longrightarrow> ps_callers st ! j = Generating h \<longrightarrow> i = j)
      \<and> (\<forall>g. ps_generating st = Some g \<longrightarrow> g < length (ps_generations st)))"

lemma callers_invI:
  assumes "\<And>g r. g < length (ps_generations st) \<Longrightarrow> pg_result (ps_generations st ! g) = Some r \<Longrightarrow> session_inv past r"
    and "\<And>g. g < length (ps_generations st) \<Longrightarrow> pg_result (ps_generations st ! g) = None \<Longrightarrow> ps_generating st = Some g"
    and "\<And>i g. i < length (ps_callers st) \<Longrightarrow> ps_callers st ! i = Generating g \<Longrightarrow>
           ps_generating st = Some g \<and> g < length (ps_generations st)"
    and "\<And>i g. i < length (ps_callers st) \<Longrightarrow> ps_callers st ! i = Sharing g \<Longrightarrow> g < length (ps_generations st)"
    and "\<And>i r. i < length (ps_callers st) \<Longrightarrow> ps_callers st ! i = Answered r \<Longrightarrow> session_inv past r"
    and "\<And>i j g h. i < length (ps_callers st) \<Longrightarrow> j < length (ps_callers st) \<Longrightarrow>
           ps_callers st ! i = Generating g \<Longrightarrow> ps_callers st ! j = Generating h \<Longrightarrow> i = j"
    and "\<And>g. ps_generating st = Some g \<Longrightarrow> g < length (ps_generations st)"
  shows "callers_inv past st"
  using assms unfolding callers_inv_def by blast

lemma callers_invD:
  assumes "callers_inv past st"
  shows "g < length (ps_generations st) \<Longrightarrow> pg_result (ps_generations st ! g) = Some r \<Longrightarrow> session_inv past r"
    and "g < length (ps_generations st) \<Longrightarrow> pg_result (ps_generations st ! g) = None \<Longrightarrow> ps_generating st = Some g"
    and "i < length (ps_callers st) \<Longrightarrow> ps_callers st ! i = Generating g \<Longrightarrow>
           ps_generating st = Some g \<and> g < length (ps_generations st)"
    and "i < length (ps_callers st) \<Longrightarrow> ps_callers st ! i = Sharing g \<Longrightarrow> g < length (ps_generations st)"
    and "i < length (ps_callers st) \<Longrightarrow> ps_callers st ! i = Answered r \<Longrightarrow> session_inv past r"
    and "i < length (ps_callers st) \<Longrightarrow> j < length (ps_callers st) \<Longrightarrow>
           ps_callers st ! i = Generating g \<Longrightarrow> ps_callers st ! j = Generating h \<Longrightarrow> i = j"
    and "ps_generating st = Some g \<Longrightarrow> g < length (ps_generations st)"
  using assms unfolding callers_inv_def by blast+

lemma session_inv_mono: "session_inv past r \<Longrightarrow> set past \<subseteq> set past' \<Longrightarrow> session_inv past' r"
  by (fastforce simp: session_inv_def)

lemma session_inv_Inl [simp]: "session_inv past (Inl e)"
  by (simp add: session_inv_def)

lemma callers_inv_mono: "callers_inv past st \<Longrightarrow> set past \<subseteq> set past' \<Longrightarrow> callers_inv past' st"
  unfolding callers_inv_def by (meson session_inv_mono)

lemma reusable_session:
  assumes "reusableSession cfg clock active = Inr (Some s)" and "active_inv cfg past active"
  shows "session_inv past (Inr s)"
  using assms published_in
  by (fastforce simp: reusableSession_def session_inv_def session_of_def active_inv_def chain_eq_Inr
      split: option.splits if_split_asm)

lemma add_caller_inv:
  assumes "callers_inv past st"
    and "\<And>g. c = Generating g \<Longrightarrow> False" and "\<And>g. c = Sharing g \<Longrightarrow> g < length (ps_generations st)"
    and "\<And>r. c = Answered r \<Longrightarrow> session_inv past r"
  shows "callers_inv past (add_pairing_caller c st)"
proof (rule callers_invI)
  note d = callers_invD [OF assms(1)]
  let ?s = "add_pairing_caller c st"
  show "session_inv past r" if "g < length (ps_generations ?s)" "pg_result (ps_generations ?s ! g) = Some r" for g r
    using that d(1) by (simp add: add_pairing_caller_def)
  show "ps_generating ?s = Some g" if "g < length (ps_generations ?s)" "pg_result (ps_generations ?s ! g) = None" for g
    using that d(2) by (simp add: add_pairing_caller_def)
  show "ps_generating ?s = Some g \<and> g < length (ps_generations ?s)"
    if "i < length (ps_callers ?s)" "ps_callers ?s ! i = Generating g" for i g
    using that d(3) assms(2) by (auto simp: add_pairing_caller_def nth_append split: if_split_asm)
  show "g < length (ps_generations ?s)" if "i < length (ps_callers ?s)" "ps_callers ?s ! i = Sharing g" for i g
    using that d(4) assms(3) by (auto simp: add_pairing_caller_def nth_append split: if_split_asm)
  show "session_inv past r" if "i < length (ps_callers ?s)" "ps_callers ?s ! i = Answered r" for i r
    using that d(5) assms(4) by (auto simp: add_pairing_caller_def nth_append split: if_split_asm)
  show "i = j" if "i < length (ps_callers ?s)" "j < length (ps_callers ?s)"
    "ps_callers ?s ! i = Generating g" "ps_callers ?s ! j = Generating h" for i j g h
    using that d(6) assms(2) by (auto simp: add_pairing_caller_def nth_append split: if_split_asm)
  show "g < length (ps_generations ?s)" if "ps_generating ?s = Some g" for g
    using that d(7) by (simp add: add_pairing_caller_def)
qed

lemma new_generation_inv:
  assumes "callers_inv past st" and "ps_generating st = None"
  shows "callers_inv past (add_pairing_caller (Generating (length (ps_generations st)))
           (generateFresh cfg c nb clock (st\<lparr>ps_generating := Some (length (ps_generations st))\<rparr>)))"
    (is "callers_inv past ?s")
proof (rule callers_invI)
  note d = callers_invD [OF assms(1)]
  have settled: "pg_result (ps_generations st ! g) \<noteq> None" if "g < length (ps_generations st)" for g
    using d(2) [OF that] assms(2) by auto
  have led: "ps_callers st ! i \<noteq> Generating g" if "i < length (ps_callers st)" for i g
    using d(3) [OF that] assms(2) by auto
  let ?draft = "draft_code cfg c nb clock"
  have s: "ps_generating ?s = Some (length (ps_generations st))"
    "ps_callers ?s = ps_callers st @ [Generating (length (ps_generations st))]"
    "ps_generations ?s = ps_generations st @
       [\<lparr>pg_draft = ?draft, pg_result = (case ?draft of Inl e \<Rightarrow> Some (Inl e) | Inr _ \<Rightarrow> None)\<rparr>]"
    by (simp_all add: add_pairing_caller_def generateFresh_def Let_def)
  show "session_inv past r" if "g < length (ps_generations ?s)" "pg_result (ps_generations ?s ! g) = Some r" for g r
    using that d(1) unfolding s by (auto simp: nth_append less_Suc_eq split: if_split_asm sum.splits)
  show "ps_generating ?s = Some g" if "g < length (ps_generations ?s)" "pg_result (ps_generations ?s ! g) = None" for g
    using that settled [of g] unfolding s by (cases "g < length (ps_generations st)") (auto simp: nth_append less_Suc_eq)
  show "ps_generating ?s = Some g \<and> g < length (ps_generations ?s)"
    if "i < length (ps_callers ?s)" "ps_callers ?s ! i = Generating g" for i g
    using that led unfolding s by (auto simp: nth_append less_Suc_eq split: if_split_asm)
  show "g < length (ps_generations ?s)" if "i < length (ps_callers ?s)" "ps_callers ?s ! i = Sharing g" for i g
    using that d(4) unfolding s by (fastforce simp: nth_append less_Suc_eq split: if_split_asm)
  show "session_inv past r" if "i < length (ps_callers ?s)" "ps_callers ?s ! i = Answered r" for i r
    using that d(5) unfolding s by (auto simp: nth_append less_Suc_eq split: if_split_asm)
  show "i = j" if "i < length (ps_callers ?s)" "j < length (ps_callers ?s)"
    "ps_callers ?s ! i = Generating g" "ps_callers ?s ! j = Generating h" for i j g h
    using that led unfolding s by (auto simp: nth_append less_Suc_eq split: if_split_asm)
  show "g < length (ps_generations ?s)" if "ps_generating ?s = Some g" for g
    using that unfolding s by simp
qed

lemma settle_inv:
  assumes "callers_inv past st" and "g < length (ps_generations st)" and "pg_result (ps_generations st ! g) = None"
    and "session_inv past r"
  shows "callers_inv past (st\<lparr>ps_active := x, ps_generations := (ps_generations st)[g := (ps_generations st ! g)\<lparr>pg_result := Some r\<rparr>]\<rparr>)"
    (is "callers_inv past ?s")
proof (rule callers_invI)
  note d = callers_invD [OF assms(1)]
  show "session_inv past r'" if "h < length (ps_generations ?s)" "pg_result (ps_generations ?s ! h) = Some r'" for h r'
    using that d(1) [of h r'] assms(2,4) by (cases "h = g") simp_all
  show "ps_generating ?s = Some h" if "h < length (ps_generations ?s)" "pg_result (ps_generations ?s ! h) = None" for h
    using that d(2) [of h] assms(2) by (cases "h = g") simp_all
  show "ps_generating ?s = Some h \<and> h < length (ps_generations ?s)"
    if "j < length (ps_callers ?s)" "ps_callers ?s ! j = Generating h" for j h
    using that d(3) [of j h] by simp
  show "h < length (ps_generations ?s)" if "j < length (ps_callers ?s)" "ps_callers ?s ! j = Sharing h" for j h
    using that d(4) [of j h] by simp
  show "session_inv past r'" if "j < length (ps_callers ?s)" "ps_callers ?s ! j = Answered r'" for j r'
    using that d(5) [of j r'] by simp
  show "j = k" if "j < length (ps_callers ?s)" "k < length (ps_callers ?s)"
    "ps_callers ?s ! j = Generating h" "ps_callers ?s ! k = Generating l" for j k h l
    using that d(6) [of j k h l] by simp
  show "h < length (ps_generations ?s)" if "ps_generating ?s = Some h" for h
    using that d(7) [of h] by simp
qed

lemma resume_inv:
  assumes "callers_inv past st" and "i < length (ps_callers st)" and "resume i st = Some st'"
  shows "callers_inv past st'"
proof -
  note d = callers_invD [OF assms(1)]
  obtain g r where g: "ps_callers st ! i = Generating g \<or> ps_callers st ! i = Sharing g"
    and r: "pg_result (ps_generations st ! g) = Some r" and lt: "g < length (ps_generations st)"
    using assms(3) d(3,4) [OF assms(2)] by (auto simp: resume_def split: pairing_caller.splits)
  have ses: "session_inv past r" using d(1) [OF lt r] .
  show ?thesis
  proof (cases "ps_callers st ! i = Generating g")
    case True
    let ?s = "st\<lparr>ps_generating := None, ps_callers := (ps_callers st)[i := Answered r]\<rparr>"
    have gen: "ps_generating st = Some g" using d(3) [OF assms(2) True] by simp
    have "callers_inv past ?s"
    proof (rule callers_invI)
      show "ps_generating ?s = Some h" if "h < length (ps_generations ?s)" "pg_result (ps_generations ?s ! h) = None" for h
        using that d(2) [of h] gen r by simp
      show "ps_generating ?s = Some h \<and> h < length (ps_generations ?s)"
        if "j < length (ps_callers ?s)" "ps_callers ?s ! j = Generating h" for j h
      proof (rule ccontr)
        have "j \<noteq> i" using that by auto
        then have "j < length (ps_callers st)" "ps_callers st ! j = Generating h" using that by simp_all
        from d(6) [OF assms(2) this(1) True this(2)] \<open>j \<noteq> i\<close> show False by blast
      qed
      show "session_inv past r'" if "j < length (ps_callers ?s)" "ps_callers ?s ! j = Answered r'" for j r'
        using that d(5) [of j r'] ses by (cases "j = i") simp_all
      show "h < length (ps_generations ?s)" if "j < length (ps_callers ?s)" "ps_callers ?s ! j = Sharing h" for j h
        using that d(4) [of j h] by (cases "j = i") simp_all
      show "j = k" if "j < length (ps_callers ?s)" "k < length (ps_callers ?s)"
        "ps_callers ?s ! j = Generating h" "ps_callers ?s ! k = Generating l" for j k h l
        using d(6) [of j k h l] assms(2) that by (simp add: nth_list_update split: if_split_asm)
      show "session_inv past r'" if "h < length (ps_generations ?s)" "pg_result (ps_generations ?s ! h) = Some r'" for h r'
        using that d(1) [of h r'] by simp
    qed simp
    moreover have "st' = ?s" using assms(3) True r by (simp add: resume_def)
    ultimately show ?thesis by simp
  next
    case False
    let ?s = "st\<lparr>ps_callers := (ps_callers st)[i := Answered r]\<rparr>"
    have "callers_inv past ?s"
    proof (rule callers_invI)
      show "ps_generating ?s = Some h \<and> h < length (ps_generations ?s)"
        if "j < length (ps_callers ?s)" "ps_callers ?s ! j = Generating h" for j h
        using that d(3) [of j h] by (cases "j = i") simp_all
      show "session_inv past r'" if "j < length (ps_callers ?s)" "ps_callers ?s ! j = Answered r'" for j r'
        using that d(5) [of j r'] ses by (cases "j = i") simp_all
      show "h < length (ps_generations ?s)" if "j < length (ps_callers ?s)" "ps_callers ?s ! j = Sharing h" for j h
        using that d(4) [of j h] by (cases "j = i") simp_all
      show "j = k" if "j < length (ps_callers ?s)" "k < length (ps_callers ?s)"
        "ps_callers ?s ! j = Generating h" "ps_callers ?s ! k = Generating l" for j k h l
        using d(6) [of j k h l] assms(2) that by (simp add: nth_list_update split: if_split_asm)
      show "session_inv past r'" if "h < length (ps_generations ?s)" "pg_result (ps_generations ?s ! h) = Some r'" for h r'
        using that d(1) [of h r'] by simp
      show "ps_generating ?s = Some h" if "h < length (ps_generations ?s)" "pg_result (ps_generations ?s ! h) = None" for h
        using that d(2) [of h] by simp
      show "h < length (ps_generations ?s)" if "ps_generating ?s = Some h" for h using that d(7) [of h] by simp
    qed
    moreover have "st' = ?s" using assms(3) False g r by (auto simp: resume_def)
    ultimately show ?thesis by simp
  qed
qed

lemma pairing_run_callers:
  assumes "pairing_run cfg tr st" and "0 < pc_maxAttempts cfg"
  shows "callers_inv (rev tr) st"
  using assms
proof (induction rule: pairing_run.induct)
  case fresh
  then show ?case by (simp add: callers_inv_def new_pairing_def)
next
  case (grows tr st l st')
  let ?past = "l # rev tr"
  have old: "callers_inv (rev tr) st" using grows by simp
  have inv: "callers_inv ?past st" by (rule callers_inv_mono [OF old]) auto
  have act: "active_inv cfg (rev tr) (ps_active st)" using pairing_run_inv [OF grows(1) grows.prems] by simp
  have "callers_inv ?past st'"
    using grows(2)
  proof (cases rule: pairing_step.cases)
    case (begins rnd c nb k k')
    have add: "callers_inv ?past (add_pairing_caller (Answered r) st)" if "session_inv ?past r" for r
      by (rule add_caller_inv [OF inv]) (use that in auto)
    have join: "callers_inv ?past (add_pairing_caller (Sharing g) st)" if "ps_generating st = Some g" for g
      by (rule add_caller_inv [OF inv]) (use callers_invD(7) [OF inv that] in auto)
    have reuse: "session_inv ?past (Inr s)" if "reusableSession cfg k (ps_active st) = Inr (Some s)" for s
      using reusable_session [OF that act] by (rule session_inv_mono) auto
    show ?thesis unfolding begins(2)
      using add join reuse new_generation_inv [OF inv, of cfg c nb k']
      by (cases "ps_generating st"; cases "reusableSession cfg k (ps_active st)" rule: outcome_option_cases)
        (simp_all add: beginSession_def Let_def)
  next
    case (prints g a)
    have "session_inv ?past (Inr (session_of a))" unfolding prints(1) by (auto simp: session_inv_def session_of_def)
    from settle_inv [OF inv prints(3,4) this] show ?thesis unfolding prints(2) by (simp add: banner_written_def prints(5))
  next
    case (write_fails g e)
    have "callers_inv ?past (st\<lparr>ps_active := ps_active st, ps_generations := (ps_generations st)[g := (ps_generations st ! g)\<lparr>pg_result := Some (Inl e)\<rparr>]\<rparr>)"
      by (rule settle_inv [OF inv write_fails(3,4)]) simp
    then show ?thesis using inv unfolding write_fails(2) by (simp add: banner_written_def split: sum.split)
  next
    case (resumes i)
    then show ?thesis using resume_inv [OF inv] by blast
  next
    case (judges c n k v a)
    have "callers_inv ?past (st\<lparr>ps_active := a\<rparr>) = callers_inv ?past st" by (simp add: callers_inv_def)
    then show ?thesis using inv judges(2) by simp
  qed
  then show ?case by simp
qed

text \<open>
  A session a caller is answered is the form nonce and expiry of a code this identity published; at most one
  banner is being written at a time, and a caller that waits can go on as soon as none is.
\<close>

theorem pairing_sessions_answered:
  assumes "pairing_run cfg tr st" and "0 < pc_maxAttempts cfg"
  shows "(\<forall>i < length (ps_callers st). \<forall>s. ps_callers st ! i = Answered (Inr s) \<longrightarrow>
            (\<exists>a. Publishes a \<in> set tr \<and> se_nonce s = ac_nonce a \<and> se_expiresAt s = toISOString (ac_expiresAtMs a)))
         \<and> (\<forall>g < length (ps_generations st). \<forall>h < length (ps_generations st).
              pg_result (ps_generations st ! g) = None \<longrightarrow> pg_result (ps_generations st ! h) = None \<longrightarrow> g = h)
         \<and> (\<forall>i < length (ps_callers st). (\<exists>r. ps_callers st ! i = Answered r) \<or> resume i st \<noteq> None
              \<or> (\<exists>g < length (ps_generations st). pg_result (ps_generations st ! g) = None))"
proof -
  note inv = callers_invD [OF pairing_run_callers [OF assms]]
  have go: "resume i st \<noteq> None" if "i < length (ps_callers st)" "\<not> (\<exists>r. ps_callers st ! i = Answered r)"
    "\<not> (\<exists>g < length (ps_generations st). pg_result (ps_generations st ! g) = None)" for i
    using that inv(3,4) [of i] by (cases "ps_callers st ! i") (auto simp: resume_def)
  have one: "g = h" if "g < length (ps_generations st)" "h < length (ps_generations st)"
    "pg_result (ps_generations st ! g) = None" "pg_result (ps_generations st ! h) = None" for g h
    using inv(2) [of g] inv(2) [of h] that by simp
  have ses: "\<exists>a. Publishes a \<in> set tr \<and> se_nonce s = ac_nonce a \<and> se_expiresAt s = toISOString (ac_expiresAtMs a)"
    if "i < length (ps_callers st)" "ps_callers st ! i = Answered (Inr s)" for i s
    using inv(5) [OF that] by (simp add: session_inv_def)
  show ?thesis by (intro conjI allI impI) (use ses one go in blast)+
qed

end
