(* ===== verification/Pairing_Port.thy ===== *)
theory Pairing_Port
  imports Pairing_History Cimd_Cache
begin

section \<open>The pairing identity behind its port\<close>

text \<open>
  \<open>src/adapters/pairing-flow-port.ts\<close>: what the pairing page accepts from a \<open>ConsolePairingIdentity\<close>, which
  may be the caller's own. The promise of a provider is a locale; the identity of
  \<open>src/identity/console-pairing.ts\<close> keeps it.
\<close>

subsection \<open>Timestamps\<close>

text \<open>
  \<open>new Date(s)\<close> for a text of the form \<open>YYYY-MM-DDThh:mm:ss.mmmZ\<close>. Fields out of range either make no date or
  one that is written differently, so for the test below it is enough to compute the time they add up to.
\<close>

definition decimal_field :: "string \<Rightarrow> int" where
  "decimal_field s = foldl (\<lambda>n c. 10 * n + (int (byte c) - 48)) 0 s"

definition field :: "nat \<Rightarrow> nat \<Rightarrow> string \<Rightarrow> int" where
  "field i n s = decimal_field (take n (drop i s))"

definition utc_time :: "string \<Rightarrow> int option" where
  "utc_time s =
     (let m = field 5 2 s
      in if 1 \<le> m \<and> m \<le> 12
         then Some (make_ms (field 0 4 s) (m - 1) (field 8 2 s - 1)
                     (3600000 * field 11 2 s + 60000 * field 14 2 s + 1000 * field 17 2 s + field 20 3 s))
         else None)"

definition utc_iso :: "string \<Rightarrow> bool" where
  "utc_iso s = (is_utc_iso s \<and> (case utc_time s of None \<Rightarrow> False | Some t \<Rightarrow> toISOString t = s))"

lemma decimal_field_snoc: "decimal_field (s @ [c]) = 10 * decimal_field s + (int (byte c) - 48)"
  by (simp add: decimal_field_def)

lemma decimal_field_pad: "0 \<le> n \<Longrightarrow> n < 10 ^ k \<Longrightarrow> decimal_field (pad k n) = n"
proof (induction k arbitrary: n)
  case (Suc k)
  have "n div 10 < 10 ^ k" using Suc.prems by (simp add: div_less_iff_less_mult mult.commute)
  then show ?case using Suc.IH [of "n div 10"] Suc.prems by (simp add: decimal_field_snoc byte_digit_char)
qed (simp add: decimal_field_def)

lemma make_ms_civil:
  "make_ms (year (civil_of_ms t)) (month (civil_of_ms t)) (day (civil_of_ms t))
     (3600000 * hour (civil_of_ms t) + 60000 * minute (civil_of_ms t) + 1000 * second (civil_of_ms t) + milli (civil_of_ms t)) = t"
proof -
  define w where "w = t mod msPerDay"
  have "3600000 * (w div 3600000) + 60000 * (w mod 3600000 div 60000) + 1000 * (w mod 60000 div 1000) + w mod 1000 = w"
  proof -
    have "w mod 3600000 = 60000 * (w mod 3600000 div 60000) + w mod 3600000 mod 60000"
      and "w mod 60000 = 1000 * (w mod 60000 div 1000) + w mod 60000 mod 1000" by simp_all
    moreover have "w mod 3600000 mod 60000 = w mod 60000" "w mod 60000 mod 1000 = w mod 1000"
      by (simp_all add: mod_mod_cancel)
    ultimately show ?thesis using mult_div_mod_eq [of 3600000 w] by linarith
  qed
  note time = this
  define d where "d = t div msPerDay"
  have "(DayFromYear y + m + (d - DayFromYear y - m)) * msPerDay + v = d * msPerDay + v" for y m v by simp
  then show ?thesis
    unfolding make_ms_def civil_of_ms_def Let_def civil.sel w_def [symmetric] d_def [symmetric] time
    by (simp add: d_def w_def)
qed

lemma toISOString_reads_back:
  assumes "canonical t"
  shows "utc_iso (toISOString t)"
proof -
  note f = canonical_fields [OF assms]
  let ?c = "civil_of_ms t"
  have s: "toISOString t = pad 4 (year ?c) @ ''-'' @ pad 2 (month ?c + 1) @ ''-'' @ pad 2 (day ?c + 1) @ ''T''
      @ pad 2 (hour ?c) @ '':'' @ pad 2 (minute ?c) @ '':'' @ pad 2 (second ?c) @ ''.'' @ pad 3 (milli ?c) @ ''Z''"
    using f(1) by (simp add: toISOString_def Let_def iso_year_def)
  have fields: "field 0 4 (toISOString t) = year ?c" "field 5 2 (toISOString t) = month ?c + 1"
    "field 8 2 (toISOString t) = day ?c + 1" "field 11 2 (toISOString t) = hour ?c"
    "field 14 2 (toISOString t) = minute ?c" "field 17 2 (toISOString t) = second ?c"
    "field 20 3 (toISOString t) = milli ?c"
    unfolding s field_def using f by (simp_all add: decimal_field_pad del: power_numeral)
  have "0 \<le> month ?c \<and> month ?c \<le> 11"
    using MonthFromDay_range by (simp add: civil_of_ms_def Let_def)
  then have "utc_time (toISOString t) = Some t"
    using make_ms_civil [of t] by (simp add: utc_time_def fields Let_def)
  then show ?thesis using toISOString_utc [OF assms] by (simp add: utc_iso_def)
qed

subsection \<open>The boundary\<close>

definition MAX_PAIRING_NONCE_BYTES :: nat where "MAX_PAIRING_NONCE_BYTES = 256"

definition pairing_port_error :: "string \<Rightarrow> failure" where
  "pairing_port_error what = Thrown ''TypeError'' (''ConsolePairingIdentity.beginSession '' @ what)"

definition snapshotPairingSession :: "jsval \<Rightarrow> pairing_session outcome" where
  "snapshotPairingSession returned =
     (case returned of
        RevokedProxy \<Rightarrow> Inl proxy_type_error
      | Obj kvs \<Rightarrow>
          (case own kvs ''nonce'' of
             Str nonce \<Rightarrow>
               if nonce = [] \<or> length (utf8 nonce) > MAX_PAIRING_NONCE_BYTES
               then Inl (pairing_port_error ''returned an invalid nonce'')
               else (case own kvs ''expiresAt'' of
                       Str expiresAt \<Rightarrow>
                         if utc_iso expiresAt then Inr \<lparr>se_nonce = nonce, se_expiresAt = expiresAt\<rparr>
                         else Inl (pairing_port_error ''returned an invalid expiry'')
                     | _ \<Rightarrow> Inl (pairing_port_error ''returned an invalid expiry''))
           | _ \<Rightarrow> Inl (pairing_port_error ''returned an invalid nonce''))
      | _ \<Rightarrow> Inl (pairing_port_error ''must return an object''))"

definition beginPairingSession :: "pairing_session io" where
  "beginPairingSession = askPort ''ConsolePairingIdentity'' ''beginSession'' BeginPairing snapshotPairingSession"

definition pairing_input_value :: "string \<Rightarrow> string \<Rightarrow> string option \<Rightarrow> jsval" where
  "pairing_input_value c nonce ip =
     Obj [(''code'', Str c), (''nonce'', Str nonce), (''ip'', case ip of None \<Rightarrow> Undefined | Some a \<Rightarrow> Str a)]"

definition verifyPairingIdentity :: "string \<Rightarrow> string \<Rightarrow> string option \<Rightarrow> identity_result io" where
  "verifyPairingIdentity c nonce ip =
     askPort ''ConsolePairingIdentity'' ''verify'' (VerifyPairing (pairing_input_value c nonce ip)) snapshotIdentityResult"

text \<open>The values the identity of this repository returns.\<close>

definition session_value :: "pairing_session \<Rightarrow> jsval" where
  "session_value s = Obj [(''nonce'', Str (se_nonce s)), (''expiresAt'', Str (se_expiresAt s))]"

definition identity_value :: "identity_result \<Rightarrow> jsval" where
  "identity_value r =
     (case r of
        Identified s a \<Rightarrow> Obj [(''ok'', Boolean True), (''identity'', Obj ((''subject'', Str s) # (if a = Undefined then [] else [(''allowedScopes'', a)])))]
      | Refused reason \<Rightarrow> Obj [(''ok'', Boolean False), (''reason'', Str reason)])"

subsection \<open>What a provider promises\<close>

text \<open>
  A provider of pairing: the sessions it may answer, and the identities. Whatever it answers within its
  promise passes the boundary unchanged.
\<close>

locale pairing_provider =
  fixes session :: "pairing_session \<Rightarrow> bool" and identity :: "identity_result \<Rightarrow> bool"
  assumes session_nonce: "session s \<Longrightarrow> se_nonce s \<noteq> [] \<and> length (utf8 (se_nonce s)) \<le> MAX_PAIRING_NONCE_BYTES"
    and session_expiry: "session s \<Longrightarrow> utc_iso (se_expiresAt s)"
    and identity_subject: "identity (Identified sub a) \<Longrightarrow> identitySubject (Str sub) = Inr sub \<and> a = Undefined"
begin

lemma session_passes: "session s \<Longrightarrow> snapshotPairingSession (session_value s) = Inr s"
  using session_nonce [of s] session_expiry [of s]
  by (simp add: snapshotPairingSession_def session_value_def own_def not_less)

lemma identity_passes: "identity r \<Longrightarrow> snapshotIdentityResult (identity_value r) = Inr r"
proof (cases r)
  case (Identified s a)
  moreover assume "identity r"
  ultimately show ?thesis using identity_subject [of s a]
    by (simp add: snapshotIdentityResult_def identity_value_def requiredRecord_def own_def snapshotPortScopeCarrier_def)
next
  case (Refused reason)
  then show ?thesis
    by (simp add: snapshotIdentityResult_def identity_value_def requiredRecord_def own_def reason_of_def)
qed

lemma begin_perform:
  assumes "on_call env BeginPairing w = (Inr (session_value s), w')" and "session s"
  shows "perform env beginPairingSession w = (Inr s, [(BeginPairing, Inr (session_value s))], [], w')"
  using assms session_passes [of s] by (simp add: beginPairingSession_def askPort_def callPort_def)

end

definition issued_session :: "pairing_session \<Rightarrow> bool" where
  "issued_session s =
     (length (se_nonce s) = 24 \<and> list_all is_ascii (se_nonce s) \<and> (\<exists>t. canonical t \<and> se_expiresAt s = toISOString t))"

definition issued_identity :: "identity_result \<Rightarrow> bool" where
  "issued_identity r = (case r of Identified s a \<Rightarrow> identitySubject (Str s) = Inr s \<and> a = Undefined | Refused _ \<Rightarrow> True)"

lemma utf8_ascii: "list_all is_ascii a \<Longrightarrow> utf8 a = a"
  by (induction a rule: utf8.induct) (auto simp: is_ascii_def)

interpretation console_pairing: pairing_provider issued_session issued_identity
proof unfold_locales
  fix s assume s: "issued_session s"
  then show "se_nonce s \<noteq> [] \<and> length (utf8 (se_nonce s)) \<le> MAX_PAIRING_NONCE_BYTES"
    by (auto simp: issued_session_def utf8_ascii MAX_PAIRING_NONCE_BYTES_def)
  show "utc_iso (se_expiresAt s)" using s toISOString_reads_back by (auto simp: issued_session_def)
qed (auto simp: issued_identity_def)

lemma answered_issued:
  assumes "pairing_run cfg tr st" and "0 < pc_maxAttempts cfg" and "i < length (ps_callers st)"
    and "ps_callers st ! i = Answered (Inr s)"
  shows "issued_session s"
proof -
  obtain a where a: "Publishes a \<in> set tr" "se_nonce s = ac_nonce a" "se_expiresAt s = toISOString (ac_expiresAtMs a)"
    using callers_invD(5) [OF pairing_run_callers [OF assms(1,2)] assms(3,4)] by (auto simp: session_inv_def)
  have "draft_ok (ps_console st) a" using pairing_run_inv [OF assms(1,2)] a(1) by blast
  then show ?thesis using a(2,3) by (auto simp: draft_ok_def issued_session_def)
qed

text \<open>
  Every session the console-pairing identity answers, in any history, crosses the port boundary unchanged:
  the page shows the nonce and the expiry of a published code.
\<close>

theorem pairing_session_crosses:
  assumes "pairing_run cfg tr st" and "0 < pc_maxAttempts cfg" and "i < length (ps_callers st)"
    and "ps_callers st ! i = Answered (Inr s)" and "on_call env BeginPairing w = (Inr (session_value s), w')"
  shows "perform env beginPairingSession w = (Inr s, [(BeginPairing, Inr (session_value s))], [], w')"
  by (rule console_pairing.begin_perform [OF assms(5) answered_issued [OF assms(1-4)]])

end
