(* ===== verification/Pairing_Runs.thy ===== *)
theory Pairing_Runs
  imports Pairing_Port
begin

section \<open>A history of console pairing\<close>

text \<open>
  One concrete history, to show that the hypotheses of the theorems about pairing can hold: a session is
  begun, its banner is written, the operator mistypes once, then pastes the code in lower case.
\<close>

definition demo_pairing :: pairing_config where
  "demo_pairing = \<lparr>pc_subject = ''console-operator'', pc_codeTtlSeconds = 600, pc_maxAttempts = 5\<rparr>"

definition demo_plain :: string where "demo_plain = replicate 12 (CHR ''C'')"

definition demo_nonce :: string where "demo_nonce = base64url (replicate 18 (CHR 0x01))"

definition demo_now :: int where "demo_now = 1783083600000"

abbreviation demo_clock :: clock_reading where "demo_clock \<equiv> Reads (Whole demo_now)"

definition demo_active :: active_code where
  "demo_active =
     \<lparr>ac_code = demo_plain, ac_nonce = demo_nonce, ac_expiresAtMs = demo_now + 600000, ac_wrongAttempts = 0\<rparr>"

lemma demo_options: "createConsolePairingIdentity None None None = Inr demo_pairing"
  by (simp add: createConsolePairingIdentity_def positive_integer_def demo_pairing_def chain_def)

lemma demo_generated: "generatePairingCode (\<lambda>_. replicate 12 (CHR 0x01)) = Some demo_plain"
proof -
  have "drawn (\<lambda>_. replicate 12 (CHR 0x01)) 1 = demo_plain"
    by (simp add: demo_plain_def drawn_def acceptable_def symbol_def byte_def REJECT_THRESHOLD_def BASE_def CHARSET_def)
  then show ?thesis unfolding generated_iff by (intro exI [of _ 1]) (simp add: CODE_LENGTH_def demo_plain_def)
qed

lemma demo_clock_reads: "finiteClockSnapshot demo_clock 0 = Inr demo_now" "finiteClockSnapshot demo_clock 600000 = Inr demo_now"
  by (simp_all add: finiteClockSnapshot_Inr safe_int_def MAX_SAFE_INTEGER_def MIN_CANONICAL_MS_def MAX_CANONICAL_MS_def demo_now_def)

definition demo_begun :: pairing_state where
  "demo_begun = beginSession demo_pairing demo_clock demo_plain (replicate 18 (CHR 0x01)) demo_clock new_pairing"

definition demo_printed :: pairing_state where "demo_printed = banner_written 0 (Inr ()) demo_begun"

lemma demo_begun_eq:
  "demo_begun =
     \<lparr>ps_active = None, ps_generating = Some 0, ps_generations = [\<lparr>pg_draft = Inr demo_active, pg_result = None\<rparr>],
      ps_callers = [Generating 0], ps_console = [pairing_banner demo_plain (demo_now + 600000)]\<rparr>"
  by (simp add: demo_begun_def beginSession_def new_pairing_def reusableSession_def generateFresh_def draft_code_def
      add_pairing_caller_def demo_pairing_def demo_clock_reads demo_active_def demo_nonce_def chain_def)

lemma demo_printed_eq:
  "demo_printed =
     \<lparr>ps_active = Some demo_active, ps_generating = Some 0,
      ps_generations = [\<lparr>pg_draft = Inr demo_active, pg_result = Some (Inr (session_of demo_active))\<rparr>],
      ps_callers = [Generating 0], ps_console = [pairing_banner demo_plain (demo_now + 600000)]\<rparr>"
  by (simp add: demo_printed_def demo_begun_eq banner_written_def)

definition demo_answered :: pairing_state where
  "demo_answered = demo_printed\<lparr>ps_generating := None, ps_callers := [Answered (Inr (session_of demo_active))]\<rparr>"

lemma demo_run_printed: "pairing_run demo_pairing [Other, Publishes demo_active] demo_printed"
proof -
  have "pairing_step demo_pairing new_pairing Other demo_begun"
    unfolding demo_begun_def by (rule pairing_step.begins [OF demo_generated]) simp
  from pairing_run.grows [OF pairing_run.fresh this] have 1: "pairing_run demo_pairing [Other] demo_begun" by simp
  have "pairing_step demo_pairing demo_begun (Publishes demo_active) demo_printed"
    unfolding demo_printed_def by (rule pairing_step.prints) (simp_all add: demo_begun_eq)
  from pairing_run.grows [OF 1 this] show ?thesis by simp
qed

lemma demo_run_answered: "pairing_run demo_pairing [Other, Publishes demo_active, Other] demo_answered"
proof -
  have "resume 0 demo_printed = Some demo_answered"
    by (simp add: resume_def demo_printed_eq demo_answered_def)
  then have "pairing_step demo_pairing demo_printed Other demo_answered"
    by (intro pairing_step.resumes [of 0]) (simp_all add: demo_printed_eq)
  from pairing_run.grows [OF demo_run_printed this] show ?thesis by simp
qed

definition demo_wrong :: string where "demo_wrong = ''XXXX-XXXX-XXXX''"

definition demo_right :: string where "demo_right = map ascii_lower_char (formatPairingCode demo_plain)"

definition demo_missed :: active_code where "demo_missed = demo_active\<lparr>ac_wrongAttempts := 1\<rparr>"

lemma demo_right_plain: "canonicalizePairingCode demo_right = demo_plain"
  unfolding demo_right_def by (rule canonicalize_format(2)) (simp_all add: demo_plain_def CODE_LENGTH_def CHARSET_def)

lemma demo_wrong_plain: "canonicalizePairingCode demo_wrong = replicate 12 (CHR ''X'')"
proof -
  have "upper_ascii demo_wrong = demo_wrong"
    by (simp add: demo_wrong_def byte_def ascii_upper_char_def)
  then show ?thesis by (simp add: canonicalizePairingCode_def) (simp add: demo_wrong_def CHARSET_def numeral_eq_Suc)
qed

lemma utf8_plain [simp]: "utf8 demo_plain = demo_plain" "utf8 (replicate 12 (CHR ''X'')) = replicate 12 (CHR ''X'')"
  by (rule utf8_ascii, simp add: demo_plain_def is_ascii_def byte_def list_all_iff)+

lemma demo_mismatch: "utf8 (replicate 12 (CHR ''X'')) \<noteq> utf8 demo_plain"
  by simp (simp add: demo_plain_def)

lemma demo_misses:
  "judge_code demo_pairing demo_clock demo_wrong demo_nonce (Some demo_active) = (Inr Code_mismatch, Some demo_missed)"
  by (simp add: judge_code_def demo_clock_reads demo_wrong_plain timingSafeStringEqual_def demo_active_def
      demo_mismatch demo_pairing_def demo_missed_def del: utf8_plain)

lemma demo_pairs:
  "judge_code demo_pairing demo_clock demo_right demo_nonce (Some demo_missed) = (Inr Paired, None)"
  by (simp add: judge_code_def demo_clock_reads demo_right_plain timingSafeStringEqual_def
      demo_missed_def demo_active_def)

definition demo_history :: "pairing_label list" where
  "demo_history =
     [Judges demo_wrong demo_nonce demo_clock (Inr Code_mismatch), Judges demo_right demo_nonce demo_clock (Inr Paired)]"

lemma demo_run_paired:
  "pairing_run demo_pairing ([Other] @ Publishes demo_active # Other # demo_history) (demo_answered\<lparr>ps_active := None\<rparr>)"
proof -
  have act: "ps_active demo_answered = Some demo_active" by (simp add: demo_answered_def demo_printed_eq)
  note missed = pairing_run.grows [OF demo_run_answered pairing_step.judges [OF demo_misses [folded act]]]
  note paired = pairing_run.grows [OF missed pairing_step.judges, of demo_clock demo_right demo_nonce "Inr Paired" None]
  show ?thesis using paired demo_pairs by (simp add: demo_history_def)
qed

theorem pairing_attempts_bounded_witness:
  "count_of accepts (Other # demo_history) = 1 \<and> int (1 + count_of misses (Other # demo_history)) \<le> 5"
proof -
  have "list_all (\<lambda>l. \<not> is_publish l) (Other # demo_history)" and "0 < pc_maxAttempts demo_pairing"
    by (simp_all add: demo_history_def demo_pairing_def)
  from pairing_attempts_bounded [OF demo_run_paired this(2,1)] show ?thesis
    by (simp add: demo_history_def demo_pairing_def)
qed

theorem pairing_accepts_printed_witness:
  "\<exists>a now. Publishes a \<in> set ([Other] @ Publishes demo_active # Other # demo_history)
     \<and> canonicalizePairingCode demo_right = ac_code a \<and> demo_nonce = ac_nonce a \<and> demo_clock = Reads (Whole now)
     \<and> now < ac_expiresAtMs a \<and> length (ac_code a) = CODE_LENGTH \<and> set (ac_code a) \<subseteq> set CHARSET
     \<and> pairing_banner (ac_code a) (ac_expiresAtMs a) \<in> set (ps_console (demo_answered\<lparr>ps_active := None\<rparr>))"
  by (rule pairing_accepts_printed [OF demo_run_paired]) (simp_all add: demo_history_def demo_pairing_def)

theorem pairing_sessions_answered_witness:
  "\<exists>a. Publishes a \<in> set [Other, Publishes demo_active, Other]
     \<and> se_nonce (session_of demo_active) = ac_nonce a \<and> se_expiresAt (session_of demo_active) = toISOString (ac_expiresAtMs a)"
proof -
  have "0 < pc_maxAttempts demo_pairing" by (simp add: demo_pairing_def)
  from pairing_sessions_answered [OF demo_run_answered this]
  have "ps_callers demo_answered ! 0 = Answered (Inr s) \<Longrightarrow>
      \<exists>a. Publishes a \<in> set [Other, Publishes demo_active, Other] \<and> se_nonce s = ac_nonce a
        \<and> se_expiresAt s = toISOString (ac_expiresAtMs a)" for s
    by (simp add: demo_answered_def)
  then show ?thesis by (simp add: demo_answered_def)
qed

definition demo_submission :: jsval where
  "demo_submission = Obj [(''code'', Str demo_right), (''nonce'', Str demo_nonce)]"

lemma demo_input: "asVerifyInput demo_submission = Inr \<lparr>pi_code = Some demo_right, pi_nonce = Some demo_nonce, pi_ip = None\<rparr>"
  by (simp add: asVerifyInput_def demo_submission_def own_def opt_str_of_def)

lemma demo_operator: "pc_subject demo_pairing = ''console-operator''"
  by (simp add: demo_pairing_def)

theorem verify_pairing_identified_witness:
  "\<exists>evs. verify_pairing demo_pairing (\<lambda>_. Inr True) demo_clock demo_clock demo_submission (Some demo_missed)
     = (Inr (Identified ''console-operator'' Undefined), evs, None) \<and> length evs = 1"
proof -
  obtain evs where run: "verify_pairing demo_pairing (\<lambda>_. Inr True) demo_clock demo_clock demo_submission (Some demo_missed)
     = (Inr (Identified ''console-operator'' Undefined), evs, None)"
    by (simp add: verify_pairing_def demo_input demo_pairs pairing_answer_cases pairing_emit_def demo_clock_reads
        pairing_reply_def demo_operator)
  from verify_pairing_identified [OF this] run show ?thesis by auto
qed

theorem pairing_no_oracle_witness:
  "verify_pairing demo_pairing (\<lambda>_. Inr True) demo_clock demo_clock (Obj [(''code'', Str demo_right), (''nonce'', Str [])]) (Some demo_active)
   = verify_pairing demo_pairing (\<lambda>_. Inr True) demo_clock demo_clock (Obj [(''code'', Str demo_wrong), (''nonce'', Str demo_nonce)])
       (Some demo_active)"
proof (rule pairing_no_oracle)
  show "asVerifyInput (Obj [(''code'', Str demo_right), (''nonce'', Str [])])
      = Inr \<lparr>pi_code = Some demo_right, pi_nonce = Some [], pi_ip = None\<rparr>"
    and "asVerifyInput (Obj [(''code'', Str demo_wrong), (''nonce'', Str demo_nonce)])
      = Inr \<lparr>pi_code = Some demo_wrong, pi_nonce = Some demo_nonce, pi_ip = None\<rparr>"
    by (simp_all add: asVerifyInput_def own_def opt_str_of_def)
  have "utf8 demo_nonce = demo_nonce" unfolding demo_nonce_def by (rule utf8_ascii [OF base64url_ascii])
  moreover have "demo_nonce \<noteq> []" using length_base64url [of "replicate 18 (CHR 0x01)"] by (auto simp: demo_nonce_def)
  ultimately show "\<not> (timingSafeStringEqual (canonicalizePairingCode demo_right) (ac_code demo_active)
      \<and> timingSafeStringEqual [] (ac_nonce demo_active))"
    by (simp add: timingSafeStringEqual_def demo_active_def)
  show "\<not> (timingSafeStringEqual (canonicalizePairingCode demo_wrong) (ac_code demo_active)
      \<and> timingSafeStringEqual demo_nonce (ac_nonce demo_active))"
    unfolding demo_wrong_plain by (simp add: timingSafeStringEqual_def demo_active_def demo_mismatch del: utf8_plain)
qed simp_all

theorem pairing_session_crosses_witness:
  "perform \<lparr>on_call = \<lambda>c w. (Inr (session_value (session_of demo_active)), w), on_clock = \<lambda>w. (demo_clock, w),
            on_random = \<lambda>w. (RandomOther, w)\<rparr> beginPairingSession ()
   = (Inr (session_of demo_active), [(BeginPairing, Inr (session_value (session_of demo_active)))], [], ())"
  by (rule pairing_session_crosses [OF demo_run_answered, of 0]) (simp_all add: demo_pairing_def demo_answered_def)

end
