(* ===== verification/Pages.thy ===== *)
theory Pages
  imports Authorize Pairing
begin

section \<open>The pages a browser is shown\<close>

text \<open>
  \<open>src/adapters/consent-page.ts\<close> and \<open>src/adapters/pairing-page.ts\<close>. A page is a list of pieces: markup of
  the template, and values, which are escaped. What matters is that no value can be read as markup: the
  outline of a page, what is left when the text and the attribute values are dropped, does not depend on
  the values; and that a value is shown as it is.
\<close>

subsection \<open>Escaping\<close>

definition esc_char :: "char \<Rightarrow> string" where
  "esc_char c =
     (if c = CHR ''<'' then ''&lt;'' else if c = CHR ''>'' then ''&gt;'' else if c = CHR ''&'' then ''&amp;''
      else if c = CHR 0x22 then ''&quot;'' else if c = CHR 0x27 then ''&#39;'' else [c])"

definition esc :: "string \<Rightarrow> string" where
  "esc v = concat (map esc_char v)"

datatype piece = Markup string | Shown string

fun render_piece :: "piece \<Rightarrow> string" where
  "render_piece (Markup s) = s"
| "render_piece (Shown v) = esc v"

definition render :: "piece list \<Rightarrow> string" where
  "render ps = concat (map render_piece ps)"

subsection \<open>The consent page\<close>

definition consent_head :: string where
  "consent_head =
     ''<!DOCTYPE html>'' @ newline
     @ ''<html lang=\"en\"><head><meta charset=\"utf-8\"><meta name=\"viewport\" ''
     @ ''content=\"width=device-width,initial-scale=1\"><title>Authorize</title>'' @ newline
     @ ''<style>body{font-family:system-ui,sans-serif;max-width:480px;margin:60px auto;padding:0 ''
     @ ''20px;color:#1a1a1a}h1{font-size:1.3rem}.scope{background:#f4f4f4;padding:8px ''
     @ ''12px;border-radius:6px;font-family:monospace;font-size:.85rem;margin:4px 0}''
     @ ''.tag{font-family:system-ui;font-size:.75rem;color:#666}''
     @ ''.tag.new{color:#2563eb;font-weight:600}.client,.redirect{background:#f9fafb;border:1px ''
     @ ''solid #e5e7eb;border-radius:6px;padding:10px 12px;margin:10px 0}.client p,.redirect ''
     @ ''p{margin:4px 0}.client-label{color:#555;font-size:.75rem;font-weight:600;text-transform:uppe''
     @ ''rcase;letter-spacing:.03em}.client p.client-host{font-size:1rem;font-weight:700;margin-botto''
     @ ''m:10px}.redirect-uri{font-size:.9rem;font-weight:700;overflow-wrap:anywhere}''
     @ ''.client-name,.client-help{font-size:.85rem}.trust-note{color:#666}.client-help{color:#444}''
     @ ''.warn{color:#b45309;font-size:.85rem;font-weight:600}''
     @ ''form{margin-top:24px;display:flex;gap:12px}.approve{margin-left:auto}button{padding:10px ''
     @ ''24px;font-size:1rem;border:none;border-radius:6px;cursor:pointer}''
     @ ''.approve{background:#2563eb;color:#fff}.deny{background:#e5e7eb;color:#1a1a1a}</style>''"

definition loopbackWarning :: "cimd_display \<Rightarrow> piece list" where
  "loopbackWarning c =
     (if cx_allRedirectsLoopback c then [Markup (
     ''<p class=\"warn\">Every registered redirect for this client is a local (loopback) address. ''
     @ ''Any program on this machine could be impersonating it.</p>'')]
      else [])"

definition cimd_hosts :: "cimd_display \<Rightarrow> piece list" where
  "cimd_hosts c =
     [Markup (''<div class=\"client\">'' @ newline @ ''<p class=\"client-label\">Client ID host</p>'' @ newline
        @ ''<p class=\"client-host\"><code>''),
      Shown (cx_clientIdHost c),
      Markup (''</code></p>'' @ newline @ ''<p class=\"client-label\">Redirect destination host</p>'' @ newline
        @ ''<p class=\"client-host\"><code>''),
      Shown (cx_redirectHost c),
      Markup (''</code></p>'' @ newline @ ''<p class=\"client-name\">Self-reported name: <strong>''),
      Shown (cx_clientName c),
      Markup (''</strong> <span class=\"trust-note\">(unverified)</span></p>'' @ newline
        @ ''<p class=\"client-help\">Check the two hosts above before approving.</p>'' @ newline)]"

definition cimdBlock :: "prepared_consent \<Rightarrow> piece list" where
  "cimdBlock p =
     (case pc_cimd p of
        None \<Rightarrow> []
      | Some c \<Rightarrow>
          cimd_hosts c @ loopbackWarning c @ [Markup ''</div>''])"

definition redirectBlock :: "prepared_consent \<Rightarrow> piece list" where
  "redirectBlock p =
     [Markup (''<div class=\"redirect\">'' @ newline
        @ ''<p class=\"client-label\">Authorization code destination</p>'' @ newline
        @ ''<p class=\"redirect-uri\"><code>''),
      Shown (cc_redirectUri p),
      Markup (''</code></p>'' @ newline @ ''</div>'')]"

definition scope_item :: "prepared_consent \<Rightarrow> string \<Rightarrow> piece list" where
  "scope_item p s =
     [Markup ''<div class=\"scope\">'', Shown s,
      Markup ((if s \<in> set (pc_priorScopes p) then '' <span class=\"tag\">(already granted)</span>''
               else '' <span class=\"tag new\">(new)</span>'') @ ''</div>'')]"

definition consent_title :: "prepared_consent \<Rightarrow> piece list" where
  "consent_title p =
     [Markup consent_head,
      Markup (newline @ ''</head><body>'' @ newline @ ''<h1>Authorize access</h1>'' @ newline
        @ ''<p>An application requests access to <strong>''),
      Shown (cc_resource p),
      Markup (''</strong>.</p>'' @ newline)]"

definition consent_form :: "prepared_consent \<Rightarrow> piece list" where
  "consent_form p =
     [Markup (newline @ ''<form method=\"POST\" action=\"/oauth/authorize/approve\">'' @ newline
        @ ''<input type=\"hidden\" name=\"consent_token\" value=\"''),
      Shown (pc_consentToken p),
      Markup (''\">'' @ newline
        @ ''<button type=\"submit\" class=\"deny\" name=\"approved\" value=\"false\">Deny</button>'' @ newline
        @ ''<button type=\"submit\" class=\"approve\" name=\"approved\" value=\"true\">Approve</button>''
        @ newline @ ''</form>'' @ newline @ ''</body></html>'')]"

definition consent_pieces :: "prepared_consent \<Rightarrow> piece list" where
  "consent_pieces p =
     consent_title p @ cimdBlock p @ [Markup newline] @ redirectBlock p
     @ [Markup (newline @ ''<p>Requested scopes:</p>'' @ newline)]
     @ concat (map (scope_item p) (cc_scopes p)) @ consent_form p"

definition renderConsentPage :: "prepared_consent \<Rightarrow> string" where
  "renderConsentPage p = render (consent_pieces p)"

subsection \<open>The pairing page\<close>

datatype page_param = Once string | Repeated "string list"

record pairing_page =
  pp_nonce :: string
  pp_expiresAt :: string
  pp_oauthParams :: "(string \<times> page_param) list"
  pp_error :: "string option"

definition param_values :: "page_param \<Rightarrow> string list" where
  "param_values v = (case v of Once s \<Rightarrow> [s] | Repeated ss \<Rightarrow> ss)"

definition hidden_field :: "string \<times> string \<Rightarrow> piece list" where
  "hidden_field kv =
     [Markup ''<input type=\"hidden\" name=\"'', Shown (fst kv), Markup ''\" value=\"'', Shown (snd kv), Markup ''\">'']"

definition hidden_fields :: "(string \<times> page_param) list \<Rightarrow> piece list" where
  "hidden_fields params =
     concat (map hidden_field (concat (map (\<lambda>(k, v). map (Pair k) (param_values v)) params)))"

definition errorBlock :: "pairing_page \<Rightarrow> piece list" where
  "errorBlock input =
     (if present (pp_error input)
      then [Markup ''<p class=\"error\" role=\"alert\">'', Shown (the (pp_error input)), Markup ''</p>'']
      else [Markup (''<p class=\"hint\">A one-time code has been printed to the server console. Paste it to ''
                    @ ''continue.</p>'')])"

definition resourceBlock :: "pairing_page \<Rightarrow> piece list" where
  "resourceBlock input =
     (case map_of (pp_oauthParams input) ''resource'' of
        Some (Once res) \<Rightarrow>
          if res = [] then []
          else [Markup ''<p class=\"meta\">Authorizing access to <strong>'', Shown res, Markup ''</strong>.</p>'']
      | _ \<Rightarrow> [])"

definition pairing_head :: string where
  "pairing_head =
     ''<!DOCTYPE html>'' @ newline
     @ ''<html lang=\"en\"><head><meta charset=\"utf-8\"><meta name=\"viewport\" ''
     @ ''content=\"width=device-width,initial-scale=1\"><title>Pair</title>'' @ newline
     @ ''<style>body{font-family:system-ui,sans-serif;max-width:480px;margin:60px auto;padding:0 ''
     @ ''20px;color:#1a1a1a}h1{font-size:1.3rem}label{display:block;font-weight:600;margin-top:16px}''
     @ ''#pairing_code{width:100%;padding:10px;font-size:1.1rem;font-family:monospace;letter-spacing:''
     @ ''.1em;border:1px solid #ccc;border-radius:6px;box-sizing:border-box}''
     @ ''button{margin-top:16px;padding:10px 24px;font-size:1rem;border:none;border-radius:6px;backgr''
     @ ''ound:#2563eb;color:#fff;cursor:pointer}.hint{color:#666;font-size:.9rem}''
     @ ''.error{color:#b91c1c;font-size:.9rem}.meta{color:#666;font-size:.8rem;margin-top:24px}''
     @ ''</style>''"

definition pairing_title :: "piece list" where
  "pairing_title =
     [Markup pairing_head, Markup (newline @ ''</head><body>'' @ newline @ ''<h1>Pair this device</h1>'' @ newline)]"

definition pairing_form :: "pairing_page \<Rightarrow> piece list" where
  "pairing_form input =
     [Markup (newline @ ''<form method=\"POST\" action=\"/oauth/authorize\" autocomplete=\"off\">'' @ newline
        @ ''<label for=\"pairing_code\">Pairing code</label>'' @ newline
        @ ''<input id=\"pairing_code\" name=\"pairing_code\" inputmode=\"text\" autocapitalize=\"characters\" ''
        @ ''spellcheck=\"false\" autofocus required>'' @ newline
        @ ''<input type=\"hidden\" name=\"pairing_nonce\" value=\"''),
      Shown (pp_nonce input),
      Markup (''\">'' @ newline)]"

definition pairing_end :: "pairing_page \<Rightarrow> piece list" where
  "pairing_end input =
     [Markup (newline @ ''<button type=\"submit\">Continue</button>'' @ newline @ ''</form>'' @ newline
        @ ''<p class=\"meta\">Code expires ''),
      Shown (pp_expiresAt input),
      Markup (''.</p>'' @ newline @ ''</body></html>'')]"

definition pairing_pieces :: "pairing_page \<Rightarrow> piece list" where
  "pairing_pieces input =
     pairing_title @ errorBlock input @ [Markup newline] @ resourceBlock input @ pairing_form input
     @ hidden_fields (pp_oauthParams input) @ pairing_end input"

definition renderPairingPage :: "pairing_page \<Rightarrow> string" where
  "renderPairingPage input = render (pairing_pieces input)"

subsection \<open>Reading a page\<close>

text \<open>What of HTML the pages use: text, tags, and double-quoted attribute values inside tags.\<close>

datatype html_mode = In_text | In_tag | In_value

fun html_step :: "html_mode \<Rightarrow> char \<Rightarrow> html_mode" where
  "html_step In_text c = (if c = CHR ''<'' then In_tag else In_text)"
| "html_step In_tag c = (if c = CHR ''>'' then In_text else if c = CHR 0x22 then In_value else In_tag)"
| "html_step In_value c = (if c = CHR 0x22 then In_tag else In_value)"

definition html_scan :: "html_mode \<Rightarrow> string \<Rightarrow> html_mode" where
  "html_scan m s = foldl html_step m s"

text \<open>The outline keeps the characters of tags, and the quotes of their attribute values.\<close>

fun outline :: "html_mode \<Rightarrow> string \<Rightarrow> string" where
  "outline m [] = []"
| "outline m (c # s) =
     (let m' = html_step m c in (if m = In_tag \<or> m' = In_tag then [c] else []) @ outline m' s)"

text \<open>How a browser reads a value back.\<close>

fun unescape :: "string \<Rightarrow> string" where
  "unescape [] = []"
| "unescape (c # s) =
     (if c \<noteq> CHR ''&'' then c # unescape s
      else if startsWith s ''lt;'' then CHR ''<'' # unescape (drop 3 s)
      else if startsWith s ''gt;'' then CHR ''>'' # unescape (drop 3 s)
      else if startsWith s ''amp;'' then CHR ''&'' # unescape (drop 4 s)
      else if startsWith s ''quot;'' then CHR 0x22 # unescape (drop 5 s)
      else if startsWith s ''#39;'' then CHR 0x27 # unescape (drop 4 s)
      else c # unescape s)"

lemma scan_simps [simp]:
  "html_scan m [] = m" "html_scan m (c # s) = html_scan (html_step m c) s"
  "html_scan m (s @ t) = html_scan (html_scan m s) t"
  by (simp_all add: html_scan_def)

lemma outline_append: "outline m (s @ t) = outline m s @ outline (html_scan m s) t"
  by (induction m s rule: outline.induct) (simp_all add: Let_def)

lemma esc_simps [simp]: "esc [] = []" "esc (c # v) = esc_char c @ esc v"
  by (simp_all add: esc_def)

lemma esc_char_inert: "m \<noteq> In_tag \<Longrightarrow> html_scan m (esc_char c) = m \<and> outline m (esc_char c) = []"
  by (cases m) (auto simp: esc_char_def)

lemma esc_inert: "m \<noteq> In_tag \<Longrightarrow> html_scan m (esc v) = m \<and> outline m (esc v) = []"
  by (induction v) (simp_all add: esc_char_inert outline_append)

lemma unescape_esc: "unescape (esc v) = v"
proof (induction v)
  case (Cons c v)
  then show ?case
    by (auto simp: esc_char_def)
qed simp

end
