(* ===== verification/Pages_Laws.thy ===== *)
theory Pages_Laws
  imports Pages
begin

section \<open>No value becomes markup\<close>

text \<open>
  The outline of both pages is computed from the markup alone. A piece list is placed well when every value
  stands in text or inside a quoted attribute value.
\<close>

fun placed :: "html_mode \<Rightarrow> piece list \<Rightarrow> bool" where
  "placed m [] = True"
| "placed m (Markup s # ps) = placed (html_scan m s) ps"
| "placed m (Shown v # ps) = (m \<noteq> In_tag \<and> placed m ps)"

text \<open>The mode after a list of pieces, and its outline, from the markup alone.\<close>

fun end_mode :: "html_mode \<Rightarrow> piece list \<Rightarrow> html_mode" where
  "end_mode m [] = m"
| "end_mode m (Markup s # ps) = end_mode (html_scan m s) ps"
| "end_mode m (Shown v # ps) = end_mode m ps"

fun frame :: "html_mode \<Rightarrow> piece list \<Rightarrow> string" where
  "frame m [] = []"
| "frame m (Markup s # ps) = outline m s @ frame (html_scan m s) ps"
| "frame m (Shown v # ps) = frame m ps"

lemma render_simps [simp]: "render [] = []" "render (p # ps) = render_piece p @ render ps" "render (ps @ qs) = render ps @ render qs"
  by (simp_all add: render_def)

lemma placed_scan: "placed m ps \<Longrightarrow> html_scan m (render ps) = end_mode m ps"
  by (induction m ps rule: placed.induct) (auto simp: esc_inert)

lemma placed_outline: "placed m ps \<Longrightarrow> outline m (render ps) = frame m ps"
  by (induction m ps rule: placed.induct) (auto simp: esc_inert outline_append)

lemma placed_append [simp]: "placed m (ps @ qs) \<longleftrightarrow> placed m ps \<and> placed (end_mode m ps) qs"
  by (induction m ps rule: placed.induct) auto

lemma end_mode_append [simp]: "end_mode m (ps @ qs) = end_mode (end_mode m ps) qs"
  by (induction m ps rule: end_mode.induct) auto

lemma frame_append: "frame m (ps @ qs) = frame m ps @ frame (end_mode m ps) qs"
  by (induction m ps rule: frame.induct) auto

text \<open>A list of blocks that each start and end in text and have the same frame.\<close>

definition text_block :: "string \<Rightarrow> piece list \<Rightarrow> bool" where
  "text_block f ps = (placed In_text ps \<and> end_mode In_text ps = In_text \<and> frame In_text ps = f)"

lemma text_blockD:
  assumes "text_block f ps"
  shows "placed In_text ps" and "end_mode In_text ps = In_text" and "frame In_text ps = f"
  using assms by (simp_all add: text_block_def)

lemma text_block_append: "text_block f ps \<Longrightarrow> text_block g qs \<Longrightarrow> text_block (f @ g) (ps @ qs)"
  by (simp add: text_block_def frame_append)

lemma text_block_concat:
  "(\<And>x. x \<in> set xs \<Longrightarrow> text_block f (b x)) \<Longrightarrow> text_block (concat (replicate (length xs) f)) (concat (map b xs))"
proof (induction xs)
  case Nil
  then show ?case by (simp add: text_block_def)
next
  case (Cons x xs)
  then show ?case using text_block_append [of f "b x"] by simp
qed

lemma text_block_outline: "text_block f ps \<Longrightarrow> outline In_text (render ps) = f"
  by (simp add: text_block_def placed_outline)

subsection \<open>The consent page\<close>

lemma newline_scan [simp]: "html_scan m newline = m" "outline In_text newline = []" "outline In_value newline = []"
  by (cases m) (simp_all add: newline_def)

lemma consent_head_scan: "html_scan In_text consent_head = In_text"
  by code_simp

lemma loopback_block: "text_block (frame In_text (loopbackWarning c)) (loopbackWarning c)"
proof (cases "cx_allRedirectsLoopback c")
  case True
  show ?thesis unfolding text_block_def loopbackWarning_def if_P [OF True] by code_simp
next
  case False
  then show ?thesis by (simp add: text_block_def loopbackWarning_def)
qed

lemma scope_block: "text_block ''<div class=\"\"><span class=\"\"></span></div>'' (scope_item p s)"
proof (cases "s \<in> set (pc_priorScopes p)")
  case True
  show ?thesis unfolding text_block_def scope_item_def if_P [OF True] by code_simp
next
  case False
  show ?thesis unfolding text_block_def scope_item_def if_not_P [OF False] by code_simp
qed

lemma text_block_of: "placed In_text ps \<and> end_mode In_text ps = In_text \<Longrightarrow> text_block (frame In_text ps) ps"
  by (simp add: text_block_def)

lemma cimd_hosts_block: "text_block (frame In_text (cimd_hosts c)) (cimd_hosts c)"
  by (rule text_block_of) code_simp

lemma close_block: "text_block ''</div>'' [Markup ''</div>'']"
  unfolding text_block_def by code_simp

lemma redirect_block: "text_block (frame In_text (redirectBlock p)) (redirectBlock p)"
  by (rule text_block_of) code_simp

lemma title_block: "text_block (frame In_text (consent_title p)) (consent_title p)"
  by (rule text_block_of) code_simp

lemma form_block: "text_block (frame In_text (consent_form p)) (consent_form p)"
  by (rule text_block_of) code_simp

lemma newline_block: "text_block [] [Markup newline]"
  unfolding text_block_def by code_simp

lemma heading_block: "text_block ''<p></p>'' [Markup (newline @ ''<p>Requested scopes:</p>'' @ newline)]"
  unfolding text_block_def by code_simp

lemma frame_values:
  "frame In_text (cimd_hosts c) = frame In_text (cimd_hosts c')"
  "frame In_text (redirectBlock p) = frame In_text (redirectBlock q)"
  "frame In_text (consent_title p) = frame In_text (consent_title q)"
  "frame In_text (consent_form p) = frame In_text (consent_form q)"
  by (simp_all only: cimd_hosts_def redirectBlock_def consent_title_def consent_form_def frame.simps)

text \<open>The markup of the host block of a client that was resolved by its metadata document.\<close>

definition hosts_frame :: string where
  "hosts_frame = frame In_text (cimd_hosts \<lparr>cx_clientIdHost = [], cx_redirectHost = [], cx_clientName = [], cx_allRedirectsLoopback = False\<rparr>)"

definition cimd_frame :: "bool option \<Rightarrow> string" where
  "cimd_frame loopback =
     (case loopback of
        None \<Rightarrow> []
      | Some b \<Rightarrow> hosts_frame @ (if b then ''<p class=\"\"></p>'' else []) @ ''</div>'')"

lemma loopback_frame: "frame In_text (loopbackWarning c) = (if cx_allRedirectsLoopback c then ''<p class=\"\"></p>'' else [])"
proof (cases "cx_allRedirectsLoopback c")
  case True
  show ?thesis unfolding loopbackWarning_def if_P [OF True] by code_simp
qed (simp add: loopbackWarning_def)

lemma cimd_block: "text_block (cimd_frame (map_option cx_allRedirectsLoopback (pc_cimd p))) (cimdBlock p)"
proof (cases "pc_cimd p")
  case None
  then show ?thesis by (simp add: text_block_def cimdBlock_def cimd_frame_def)
next
  case (Some c)
  have "frame In_text (cimd_hosts c) = hosts_frame" unfolding hosts_frame_def by (rule frame_values)
  then show ?thesis
    using text_block_append [OF cimd_hosts_block [of c] text_block_append [OF loopback_block [of c] close_block]]
    by (simp add: cimdBlock_def Some cimd_frame_def loopback_frame)
qed

text \<open>The outline of a consent page, from the number of its scopes and the kind of its client.\<close>

definition empty_consent :: prepared_consent where
  "empty_consent =
     \<lparr>cc_clientId = [], cc_redirectUri = [], cc_resource = [], cc_scopes = [], cc_codeChallenge = [], cc_state = None,
      cc_subject = [], cc_allowedScopes = None, cc_cimdVerified = False, cc_storeInstanceId = None,
      pc_consentToken = [], pc_priorScopes = [], pc_cimd = None\<rparr>"

definition consent_outline :: "nat \<Rightarrow> bool option \<Rightarrow> string" where
  "consent_outline n loopback =
     frame In_text (consent_title empty_consent) @ cimd_frame loopback @ frame In_text (redirectBlock empty_consent)
     @ ''<p></p>'' @ concat (replicate n ''<div class=\"\"><span class=\"\"></span></div>'')
     @ frame In_text (consent_form empty_consent)"

lemma consent_block:
  "text_block (consent_outline (length (cc_scopes p)) (map_option cx_allRedirectsLoopback (pc_cimd p))) (consent_pieces p)"
proof -
  note parts = text_block_append [OF title_block [of p] text_block_append [OF cimd_block [of p]
      text_block_append [OF newline_block text_block_append [OF redirect_block [of p] text_block_append [OF heading_block
        text_block_append [OF text_block_concat [OF scope_block [of p], of "cc_scopes p"] form_block [of p]]]]]]]
  have "frame In_text (consent_title p) = frame In_text (consent_title empty_consent)"
    and "frame In_text (redirectBlock p) = frame In_text (redirectBlock empty_consent)"
    and "frame In_text (consent_form p) = frame In_text (consent_form empty_consent)"
    by (rule frame_values)+
  then show ?thesis using parts by (simp add: consent_pieces_def consent_outline_def)
qed

text \<open>
  C22. The tags of a consent page and the order of their attributes are fixed by the number of requested scopes
  and by the kind of client: nothing a client, a metadata document or a request supplies adds, closes or
  changes a tag. What is shown for a value reads back as the value.
\<close>

theorem consent_page_outline:
  "outline In_text (renderConsentPage p)
     = consent_outline (length (cc_scopes p)) (map_option cx_allRedirectsLoopback (pc_cimd p))
   \<and> html_scan In_text (renderConsentPage p) = In_text
   \<and> unescape (esc v) = v"
  using consent_block [of p] text_block_outline [OF consent_block] text_blockD [OF consent_block [of p]]
  by (simp add: renderConsentPage_def placed_scan unescape_esc)

subsection \<open>The pairing page\<close>

lemma hidden_block: "text_block ''<input type=\"\" name=\"\" value=\"\">'' (hidden_field kv)"
  unfolding text_block_def hidden_field_def by code_simp

lemma pairing_parts:
  "text_block (frame In_text pairing_title) pairing_title"
  "text_block (frame In_text (pairing_form i)) (pairing_form i)"
  "text_block (frame In_text (pairing_end i)) (pairing_end i)"
  by (rule text_block_of, code_simp)+

lemma error_block: "text_block (if present (pp_error i) then ''<p class=\"\" role=\"\"></p>'' else ''<p class=\"\"></p>'') (errorBlock i)"
proof (cases "present (pp_error i)")
  case True
  show ?thesis unfolding text_block_def errorBlock_def if_P [OF True] by code_simp
next
  case False
  show ?thesis unfolding text_block_def errorBlock_def if_not_P [OF False] by code_simp
qed

lemma resource_block: "text_block (if resourceBlock i = [] then [] else ''<p class=\"\"><strong></strong></p>'') (resourceBlock i)"
proof (cases "resourceBlock i = []")
  case True
  then show ?thesis by (simp add: text_block_def)
next
  case False
  then obtain res where r: "resourceBlock i =
      [Markup ''<p class=\"meta\">Authorizing access to <strong>'', Shown res, Markup ''</strong>.</p>'']"
    by (auto simp: resourceBlock_def split: option.splits page_param.splits if_splits)
  show ?thesis unfolding text_block_def if_not_P [OF False] unfolding r by code_simp
qed

definition hidden_values :: "(string \<times> page_param) list \<Rightarrow> (string \<times> string) list" where
  "hidden_values params = concat (map (\<lambda>(k, v). map (Pair k) (param_values v)) params)"

definition empty_pairing :: pairing_page where
  "empty_pairing = \<lparr>pp_nonce = [], pp_expiresAt = [], pp_oauthParams = [], pp_error = None\<rparr>"

definition pairing_outline :: "nat \<Rightarrow> bool \<Rightarrow> bool \<Rightarrow> string" where
  "pairing_outline n failed shows_resource =
     frame In_text pairing_title @ (if failed then ''<p class=\"\" role=\"\"></p>'' else ''<p class=\"\"></p>'')
     @ (if shows_resource then ''<p class=\"\"><strong></strong></p>'' else [])
     @ frame In_text (pairing_form empty_pairing) @ concat (replicate n ''<input type=\"\" name=\"\" value=\"\">'')
     @ frame In_text (pairing_end empty_pairing)"

lemma pairing_block:
  "text_block (pairing_outline (length (hidden_values (pp_oauthParams i))) (present (pp_error i)) (resourceBlock i \<noteq> []))
     (pairing_pieces i)"
proof -
  note parts = text_block_append [OF pairing_parts(1) text_block_append [OF error_block [of i] text_block_append
      [OF newline_block text_block_append [OF resource_block [of i] text_block_append [OF pairing_parts(2) [of i]
        text_block_append [OF text_block_concat [OF hidden_block, of "hidden_values (pp_oauthParams i)"] pairing_parts(3) [of i]]]]]]]
  have "frame In_text (pairing_form i) = frame In_text (pairing_form empty_pairing)"
    and "frame In_text (pairing_end i) = frame In_text (pairing_end empty_pairing)"
    by (simp_all only: pairing_form_def pairing_end_def frame.simps)
  moreover have "hidden_fields (pp_oauthParams i) = concat (map hidden_field (hidden_values (pp_oauthParams i)))"
    by (simp only: hidden_fields_def hidden_values_def)
  ultimately show ?thesis using parts unfolding pairing_pieces_def pairing_outline_def
    by (cases "present (pp_error i)"; cases "resourceBlock i = []") simp_all
qed

text \<open>
  Likewise the pairing page: a request's parameters, round-tripped in hidden fields, can neither add a tag
  nor leave the attribute they stand in.
\<close>

theorem pairing_page_outline:
  "outline In_text (renderPairingPage i)
     = pairing_outline (length (hidden_values (pp_oauthParams i))) (present (pp_error i)) (resourceBlock i \<noteq> [])
   \<and> html_scan In_text (renderPairingPage i) = In_text"
  using text_block_outline [OF pairing_block] text_blockD [OF pairing_block [of i]]
  by (simp add: renderPairingPage_def placed_scan)

end
