(* ===== verification/Http.thy ===== *)
theory Http
  imports Authorize Cimd_Cache
begin

section \<open>Normalized requests and responses\<close>

text \<open>
  \<open>src/adapters/http.ts\<close>, \<open>src/adapters/authorize-params.ts\<close> and the pure part of
  \<open>src/adapters/bridge-internals.ts\<close>: how a request is read before any OAuth field is used. A member of a
  query or of the headers is a string, or an array when it occurred more than once; bodies are what a JSON
  or form parser produced. A name that differs from another only by case names the same header.
\<close>

subsection \<open>Requests and responses\<close>

text \<open>
  \<open>formBodySnapshot\<close> answers with a body or with the marker symbol of an ambiguous content type; an absent
  \<open>formBody\<close> is \<open>None\<close>.
\<close>

datatype form_snapshot = Ambiguous_form | Form jsval

record norm_request =
  nq_query :: "(string \<times> jsval) list"
  nq_body :: jsval
  nq_formBody :: "form_snapshot option"
  nq_headers :: "(string \<times> jsval) list"
  nq_ip :: "string option"

datatype response_body = No_body | Json jsval | Html string

record norm_response =
  np_status :: int
  np_headers :: "string jsmap"
  np_setCookies :: "string list"
  np_body :: response_body
  np_redirect :: "string option"

definition respond :: "int \<Rightarrow> string jsmap \<Rightarrow> response_body \<Rightarrow> norm_response" where
  "respond st headers body =
     \<lparr>np_status = st, np_headers = headers, np_setCookies = [], np_body = body, np_redirect = None\<rparr>"

definition redirect_to :: "int \<Rightarrow> string jsmap \<Rightarrow> string \<Rightarrow> norm_response" where
  "redirect_to st headers target =
     \<lparr>np_status = st, np_headers = headers, np_setCookies = [], np_body = No_body, np_redirect = Some target\<rparr>"

definition responseSetCookies :: "norm_response \<Rightarrow> string list" where
  "responseSetCookies r =
     (case find (\<lambda>(name, _). lower_case name = ''set-cookie'') (np_headers r) of None \<Rightarrow> [] | Some (_, v) \<Rightarrow> [v])
     @ np_setCookies r"

definition noStoreHeaders :: "string jsmap \<Rightarrow> string jsmap" where
  "noStoreHeaders headers = map_set ''cache-control'' ''no-store'' headers"

subsection \<open>Headers\<close>

text \<open>
  Node keeps the occurrences of each field: several of a cookie form one string, several of anything else
  stay an array. A framework without that record hands over its own map.
\<close>

definition joined_or :: "(jsval list \<Rightarrow> jsval) \<Rightarrow> string \<Rightarrow> jsval \<Rightarrow> jsval" where
  "joined_or many key raw =
     (case raw of
        Arr vs \<Rightarrow> if lower_case key = ''cookie'' then Str (join ''; '' (map str_of vs)) else many vs
      | _ \<Rightarrow> raw)"

definition headersFromDistinct ::
    "(string \<times> string list option) list option \<Rightarrow> (string \<times> jsval) list option \<Rightarrow> (string \<times> jsval) list outcome" where
  "headersFromDistinct occurrences normalized =
     (case occurrences of
        None \<Rightarrow>
          (case normalized of
             None \<Rightarrow> Inl (Thrown ''TypeError'' ''header occurrence metadata is unavailable'')
           | Some headers \<Rightarrow>
               Inr (foldl (\<lambda>out (key, raw). map_set key (joined_or Arr key raw) out) [] headers))
      | Some lines \<Rightarrow>
          Inr (foldl
            (\<lambda>out (key, values).
               case values of
                 None \<Rightarrow> out
               | Some [] \<Rightarrow> out
               | Some vs \<Rightarrow>
                   map_set (lower_case key)
                     (joined_or (\<lambda>vs. case vs of [v] \<Rightarrow> v | _ \<Rightarrow> Arr vs) key (Arr (map Str vs))) out)
            [] lines))"

text \<open>One header read without choosing among duplicates; outside cookies a comma is a list.\<close>

datatype header_read = Ambiguous | Header "string option"

fun read_header :: "string \<Rightarrow> (string \<times> jsval) list \<Rightarrow> bool \<Rightarrow> string option \<Rightarrow> header_read" where
  "read_header lower [] found v = Header v"
| "read_header lower ((key, raw) # headers) found v =
     (if lower_case key = lower then
        (if found then Ambiguous
         else case raw of
                Arr _ \<Rightarrow> Ambiguous
              | Str s \<Rightarrow>
                  if lower \<noteq> ''cookie'' \<and> CHR '','' \<in> set s then Ambiguous
                  else read_header lower headers True (Some s)
              | _ \<Rightarrow> read_header lower headers True v)
      else read_header lower headers found v)"

definition readHeader :: "(string \<times> jsval) list \<Rightarrow> string \<Rightarrow> header_read" where
  "readHeader headers name = read_header (lower_case name) headers False None"

definition headerString :: "(string \<times> jsval) list \<Rightarrow> string \<Rightarrow> string option" where
  "headerString headers name = (case readHeader headers name of Ambiguous \<Rightarrow> None | Header v \<Rightarrow> v)"

subsection \<open>Media types\<close>

definition FORM_MEDIA_TYPE :: string where "FORM_MEDIA_TYPE = ''application/x-www-form-urlencoded''"

definition JSON_MEDIA_TYPE :: string where "JSON_MEDIA_TYPE = ''application/json''"

definition contentTypeEssence :: "(string \<times> jsval) list \<Rightarrow> header_read" where
  "contentTypeEssence headers =
     (case readHeader headers ''content-type'' of
        Ambiguous \<Rightarrow> Ambiguous
      | Header v \<Rightarrow> Header (map_option (\<lambda>s. lower_case (trim (takeWhile (\<lambda>c. c \<noteq> CHR '';'') s))) v))"

definition formBodySnapshot :: "jsval \<Rightarrow> (string \<times> jsval) list \<Rightarrow> form_snapshot" where
  "formBodySnapshot body headers =
     (case contentTypeEssence headers of
        Ambiguous \<Rightarrow> Ambiguous_form
      | Header essence \<Rightarrow> Form (if essence = Some FORM_MEDIA_TYPE then body else Undefined))"

definition semanticOAuthBody :: "jsval \<Rightarrow> (string \<times> jsval) list \<Rightarrow> jsval" where
  "semanticOAuthBody body headers =
     (case contentTypeEssence headers of
        Ambiguous \<Rightarrow> Undefined
      | Header essence \<Rightarrow> if essence \<in> {Some JSON_MEDIA_TYPE, Some FORM_MEDIA_TYPE} then body else Undefined)"

subsection \<open>Parameters\<close>

text \<open>Occurrences without a value count as omitted.\<close>

definition nonempty_string :: "jsval \<Rightarrow> bool" where
  "nonempty_string v = (case v of Str s \<Rightarrow> s \<noteq> [] | _ \<Rightarrow> False)"

definition queryString :: "(string \<times> jsval) list \<Rightarrow> string \<Rightarrow> string option" where
  "queryString query name =
     (case own query name of
        Arr vs \<Rightarrow> map_option str_of (find nonempty_string vs)
      | v \<Rightarrow> if nonempty_string v then Some (str_of v) else None)"

definition INVALID_RESOURCE :: string where "INVALID_RESOURCE = '' invalid-resource''"

definition resourceParam :: "jsval \<Rightarrow> string option" where
  "resourceParam v =
     (case v of
        Undefined \<Rightarrow> None
      | Str s \<Rightarrow> if s = [] then None else Some s
      | Arr vs \<Rightarrow>
          (case all_strings vs of
             None \<Rightarrow> Some INVALID_RESOURCE
           | Some ss \<Rightarrow>
               (case remdups (filter (\<lambda>s. s \<noteq> []) ss) of [] \<Rightarrow> None | [r] \<Rightarrow> Some r | _ \<Rightarrow> Some INVALID_RESOURCE))
      | _ \<Rightarrow> Some INVALID_RESOURCE)"

definition formObject :: "jsval \<Rightarrow> (string \<times> jsval) list" where
  "formObject body = (case body of Obj kvs \<Rightarrow> kvs | _ \<Rightarrow> [])"

definition formField :: "jsval \<Rightarrow> string \<Rightarrow> string option" where
  "formField body name =
     (let v = own (formObject body) name in if nonempty_string v then Some (str_of v) else None)"

definition isMcpPath :: "(string \<Rightarrow> string option) \<Rightarrow> string \<Rightarrow> bool" where
  "isMcpPath pathnameOf requestUrl = (pathnameOf requestUrl = Some ''/mcp'')"

subsection \<open>Repeated parameters\<close>

definition OAUTH_PARAM_KEYS :: "string list" where
  "OAUTH_PARAM_KEYS =
     [''response_type'', ''client_id'', ''redirect_uri'', ''code_challenge'', ''code_challenge_method'', ''resource'',
      ''scope'', ''state'']"

definition OAUTH_SINGLETON_PARAM_KEYS :: "string list" where
  "OAUTH_SINGLETON_PARAM_KEYS = filter (\<lambda>key. key \<noteq> ''resource'') OAUTH_PARAM_KEYS"

definition APPROVE_SINGLETON_PARAM_KEYS :: "string list" where
  "APPROVE_SINGLETON_PARAM_KEYS = [''consent_token'', ''approved'']"

definition REGISTER_SINGLETON_PARAM_KEYS :: "string list" where
  "REGISTER_SINGLETON_PARAM_KEYS =
     [''redirect_uris'', ''application_type'', ''token_endpoint_auth_method'', ''grant_types'']"

definition REGISTER_JSON_ARRAY_PARAM_KEYS :: "string list" where
  "REGISTER_JSON_ARRAY_PARAM_KEYS = [''redirect_uris'', ''grant_types'']"

definition TOKEN_SINGLETON_PARAM_KEYS :: "string list" where
  "TOKEN_SINGLETON_PARAM_KEYS =
     [''grant_type'', ''code'', ''redirect_uri'', ''client_id'', ''code_verifier'', ''refresh_token'', ''client_secret'',
      ''scope'', ''resource'']"

definition REVOKE_SINGLETON_PARAM_KEYS :: "string list" where
  "REVOKE_SINGLETON_PARAM_KEYS = [''token'', ''token_type_hint'']"

definition PAIRING_BODY_SINGLETON_PARAM_KEYS :: "string list" where
  "PAIRING_BODY_SINGLETON_PARAM_KEYS = OAUTH_SINGLETON_PARAM_KEYS @ [''pairing_code'', ''pairing_nonce'']"

definition findDuplicatedKeys :: "jsval \<Rightarrow> string list \<Rightarrow> string list" where
  "findDuplicatedKeys input keys =
     (case input of
        Obj kvs \<Rightarrow>
          filter (\<lambda>key. case own kvs key of Arr vs \<Rightarrow> 1 < length (filter (\<lambda>v. v \<noteq> Str []) vs) | _ \<Rightarrow> False) keys
      | _ \<Rightarrow> [])"

definition findRepeatedKeys :: "jsval \<Rightarrow> string list \<Rightarrow> string list" where
  "findRepeatedKeys input keys =
     (case input of
        Obj kvs \<Rightarrow> filter (\<lambda>key. case own kvs key of Arr vs \<Rightarrow> 1 < length vs | _ \<Rightarrow> False) keys
      | _ \<Rightarrow> [])"

definition hasDuplicatedAuthorizeParams :: "jsval \<Rightarrow> bool" where
  "hasDuplicatedAuthorizeParams query = (findDuplicatedKeys query OAUTH_SINGLETON_PARAM_KEYS \<noteq> [])"

text \<open>The occurrences of each name, in order, of the parameters the platform parsed.\<close>

definition collectOccurrences :: "(string \<times> string) list \<Rightarrow> (string \<times> jsval) list" where
  "collectOccurrences params =
     foldl (\<lambda>out (key, v).
       case map_of out key of
         None \<Rightarrow> map_set key (Str v) out
       | Some (Arr vs) \<Rightarrow> map_set key (Arr (vs @ [Str v])) out
       | Some existing \<Rightarrow> map_set key (Arr [existing, Str v]) out) [] params"

definition duplicate_parameters :: failure where
  "duplicate_parameters = oauth400 ''invalid_request'' ''duplicate request parameters''"

text \<open>
  \<open>checkedFormObject\<close>: an ambiguous content type or a repeated field is refused; without form provenance and
  without a content type the body itself is looked at, apart from the members JSON writes as arrays.
\<close>

definition checkedFormObject ::
    "norm_request \<Rightarrow> string list \<Rightarrow> string list \<Rightarrow> (string \<times> jsval) list outcome" where
  "checkedFormObject req keys jsonArrayKeys =
     (let headerFormBody = formBodySnapshot (nq_body req) (nq_headers req);
          formBody = (case nq_formBody req of None \<Rightarrow> headerFormBody | Some b \<Rightarrow> b);
          legacyKeys = filter (\<lambda>key. key \<notin> set jsonArrayKeys) keys;
          legacyBodyIsAmbiguous =
            nq_formBody req = None \<and> formBody = Form Undefined
            \<and> headerString (nq_headers req) ''content-type'' = None
            \<and> findRepeatedKeys (nq_body req) legacyKeys \<noteq> []
      in if headerFormBody = Ambiguous_form \<or> formBody = Ambiguous_form
            \<or> (case formBody of Form b \<Rightarrow> findRepeatedKeys b keys \<noteq> [] | Ambiguous_form \<Rightarrow> False)
            \<or> legacyBodyIsAmbiguous
         then Inl duplicate_parameters
         else Inr (formObject (nq_body req)))"

subsection \<open>Errors as responses\<close>

definition asOAuth :: "failure \<Rightarrow> oauth_error" where
  "asOAuth e =
     (case e of
        OAuth o' \<Rightarrow> o'
      | _ \<Rightarrow> \<lparr>code = ''internal_error'', message = ''OAuth request failed'', status = 500, redirect = None\<rparr>)"

definition asDirectOAuth :: "failure \<Rightarrow> oauth_error" where
  "asDirectOAuth e = (asOAuth e)\<lparr>redirect := None\<rparr>"

definition error_body :: "oauth_error \<Rightarrow> jsval" where
  "error_body e = (case oauthErrorBody e of (c, m) \<Rightarrow> Obj [(''error'', Str c), (''error_description'', Str m)])"

text \<open>\<open>oauthErrorResponse\<close>; with a challenge, a 401 carries the bearer challenge of the resource.\<close>

definition oauthErrorResponse ::
    "authorize_service \<Rightarrow> oauth_error \<Rightarrow> string list option option \<Rightarrow> norm_response outcome" where
  "oauthErrorResponse svc e challenge =
     (case redirect e of
        Some target \<Rightarrow>
          chain (buildAuthorizationErrorRedirect svc (rt_redirectUri target) (code e) (rt_state target) (Some (message e))) (\<lambda>location.
          Inr (redirect_to 302 [(''location'', location)] location))
      | None \<Rightarrow>
          (case (challenge, status e = 401) of
             (Some scopes, True) \<Rightarrow>
               chain (buildUnauthorizedChallenge (az_parseUrl svc) (az_config svc) (opt_array scopes) (Some (code e))
                        (Some (message e))) (\<lambda>ch.
               Inr (respond (status e) [(''www-authenticate'', ch)] (Json (error_body e))))
           | _ \<Rightarrow> Inr (respond (status e) [] (Json (error_body e)))))"

definition issuerOrigin :: "authorize_service \<Rightarrow> string outcome" where
  "issuerOrigin svc = originOf (az_parseUrl svc) (cfg_issuer (az_config svc))"

end
