(* ===== verification/Bridge.thy ===== *)
theory Bridge
  imports Http Pages Resource_Server Task_Laws
begin

section \<open>The bridge: one handler per route\<close>

text \<open>
  \<open>src/adapters/bridge.ts\<close> and the tasks of \<open>src/adapters/bridge-internals.ts\<close>: each handler charges the
  limiter, reads the request, runs a use-case and turns its result or its error into a response. A handler
  is a task over the ports of its use-case, the limiter and the identity port. The bridge record holds the
  services of the use-cases over one configuration; the shared CIMD resolver is in the authorization service.
\<close>

record bridge =
  br_auth :: authorize_service
  br_decodeBase64 :: "string \<Rightarrow> string"

definition br_token :: "bridge \<Rightarrow> token_service" where
  "br_token b =
     \<lparr>ts_config = az_config (br_auth b), ts_jose = az_jose (br_auth b), ts_parseUrl = az_parseUrl (br_auth b),
      ts_decodeBase64 = br_decodeBase64 b\<rparr>"

abbreviation br_config :: "bridge \<Rightarrow> bridge_config" where
  "br_config b \<equiv> az_config (br_auth b)"

subsection \<open>The limiter\<close>

text \<open>A refusal is 429; a limiter that fails lets the request through, unless the route fails closed.\<close>

definition rate_refused :: failure where
  "rate_refused = oauthError ''temporarily_unavailable'' ''Rate limit exceeded; retry later'' 429"

definition rate_unavailable :: failure where
  "rate_unavailable = oauthError ''temporarily_unavailable'' ''Rate limiter unavailable; retry later'' 503"

definition guard_key :: "string \<Rightarrow> string option \<Rightarrow> string" where
  "guard_key prefix ip = prefix @ '':'' @ (case ip of None \<Rightarrow> ''unknown'' | Some a \<Rightarrow> a)"

definition guard :: "string \<Rightarrow> string option \<Rightarrow> bool \<Rightarrow> unit io" where
  "guard prefix ip failClosedOnThrow =
     Ask (CheckRate (guard_key prefix ip)) (\<lambda>r.
       case r of
         Inl _ \<Rightarrow> if failClosedOnThrow then fail rate_unavailable else pass ()
       | Inr allowed \<Rightarrow> check (truthy_value allowed) rate_refused)"

subsection \<open>Reading a request\<close>

definition IDENTITY_FAILURE_REASONS :: "string list" where
  "IDENTITY_FAILURE_REASONS =
     [''access_jwt_missing'', ''access_jwt_missing_expiry'', ''access_jwt_email_not_allowed'',
      ''access_jwt_expired'', ''access_jwt_bad_claim'', ''access_jwt_unsupported_alg'',
      ''access_jwt_unknown_key'', ''access_jwt_invalid'', ''access_jwt_verify_failed'',
      ''entra_bad_tid'', ''entra_bad_iss'', ''entra_bad_aud'', ''entra_bad_nonce'',
      ''entra_missing_iat'', ''entra_missing_exp'', ''entra_no_subject'', ''entra_subject_not_allowed'',
      ''entra_groups_overage'', ''entra_no_groups'', ''entra_no_mapped_groups'', ''entra_token_expired'',
      ''entra_bad_claim'', ''entra_unsupported_alg'', ''entra_unknown_key'', ''entra_verify_failed'',
      ''entra_token_invalid'', ''entra_id_token_missing'',
      ''generic_oidc_bad_iss'', ''generic_oidc_bad_aud'', ''generic_oidc_multi_audience'',
      ''generic_oidc_missing_exp'', ''generic_oidc_missing_iat'', ''generic_oidc_bad_nonce'',
      ''generic_oidc_bad_at_hash'', ''generic_oidc_no_subject'', ''generic_oidc_subject_not_allowed'',
      ''generic_oidc_token_expired'', ''generic_oidc_bad_claim'', ''generic_oidc_unsupported_alg'',
      ''generic_oidc_unknown_key'', ''generic_oidc_verify_failed'', ''generic_oidc_token_invalid'',
      ''generic_oidc_id_token_missing'', ''google_bad_hosted_domain'', ''google_missing_hosted_domain'',
      ''pairing_invalid_input'', ''pairing_rate_limited'', ''pairing_no_active_code'',
      ''pairing_expired'', ''pairing_wrong_code'']"

definition normalizedIdentityFailureReason :: "string \<Rightarrow> string" where
  "normalizedIdentityFailureReason reason =
     (if reason \<in> set IDENTITY_FAILURE_REASONS then reason else ''identity_rejected'')"

definition identityRejectionDescription :: "string \<Rightarrow> string" where
  "identityRejectionDescription reason =
     (if reason = ''entra_no_groups'' then ''Entra returned no groups for this account''
      else if reason = ''entra_no_mapped_groups''
      then ''Entra groups do not authorize this account for this resource''
      else if reason = ''entra_groups_overage''
      then ''Entra group claims exceed the supported limit; operator configuration is required''
      else ''upstream identity verification failed'')"

definition occurrences_of :: "jsval \<Rightarrow> jsval list" where
  "occurrences_of raw = (case raw of Arr vs \<Rightarrow> vs | _ \<Rightarrow> [raw])"

definition hasBasicAuthorization :: "(string \<times> jsval) list \<Rightarrow> bool" where
  "hasBasicAuthorization headers =
     list_ex (\<lambda>(key, raw). lower_case key = ''authorization''
       \<and> list_ex (\<lambda>v. case v of
            Str s \<Rightarrow> list_ex (\<lambda>part. isBasicAttempt (Some (trim part))) (split_on (CHR '','') s)
          | _ \<Rightarrow> False) (occurrences_of raw)) headers"

definition parseApproved :: "jsval \<Rightarrow> bool" where
  "parseApproved raw = (raw = Boolean True \<or> raw = Str ''true'')"

definition cookie_prefix :: string where "cookie_prefix = ''mcp_idp_consent=''"

definition consentCookie :: "norm_request \<Rightarrow> string option outcome" where
  "consentCookie req =
     (case headerString (nq_headers req) ''cookie'' of
        None \<Rightarrow> Inr None
      | Some raw \<Rightarrow>
          (case find (\<lambda>p. startsWith p cookie_prefix) (map trim (split_on (CHR '';'') raw)) of
             None \<Rightarrow> Inr None
           | Some found \<Rightarrow>
               (case decodeURIComponent (drop (length cookie_prefix) found) of
                  None \<Rightarrow> Inl invalid_consent
                | Some v \<Rightarrow> Inr (Some v))))"

definition assertStoredRegistrationIp :: "DcrMode \<Rightarrow> string option \<Rightarrow> unit outcome" where
  "assertStoredRegistrationIp mode ip =
     require (\<not> (mode = StoredDcr \<and> (ip = None \<or> ip = Some [] \<or> ip = Some ''unknown'')))
       (oauth400 ''invalid_request'' ''stored registration requires a client IP for rate limiting'')"

subsection \<open>Identity\<close>

definition identity_event :: "string \<Rightarrow> string option \<Rightarrow> string option \<Rightarrow> string option \<Rightarrow> int \<Rightarrow> audit_event" where
  "identity_event st reason sub ip t =
     \<lparr>ae_event = ''identity.verify'', ae_status = st, ae_occurredAt = toISOString t, ae_clientId = None,
      ae_subject = sub, ae_resource = None, ae_scopes = None, ae_redirectHost = None, ae_reason = reason,
      ae_ip = ip, ae_selectedClientAuthMethod = None\<rparr>"

definition emitIdentityVerify :: "string \<Rightarrow> string option \<Rightarrow> string option \<Rightarrow> string option \<Rightarrow> unit io" where
  "emitIdentityVerify st reason sub ip =
     andThen (readClock 0) (\<lambda>t. Audit (identity_event st reason sub ip t) (pass ()))"

record resolved_identity =
  id_subject :: string
  id_allowedScopes :: "string list option"

definition port_reason :: "failure \<Rightarrow> string" where
  "port_reason e = (case e of PortFailure _ _ True _ \<Rightarrow> ''port_error'' | _ \<Rightarrow> ''internal_error'')"

text \<open>A port that threw an OAuth error of its own can choose between 401 and 403, and nothing else.\<close>

definition port_rejection :: "failure \<Rightarrow> failure" where
  "port_rejection e =
     (case e of
        PortFailure _ operation _ (Some st) \<Rightarrow>
          if operation = ''verify'' \<and> (st = 401 \<or> st = 403)
          then oauthError ''access_denied'' ''Identity rejected: port_error'' st else e
      | _ \<Rightarrow> e)"

definition verified_identity :: "jsval \<Rightarrow> identity_result io" where
  "verified_identity input =
     andThen (askPort ''IdentityPort'' ''verify'' (VerifyIdentity input) Inr) (\<lambda>returned.
     lift (callPort ''IdentityPort'' ''verifyResult'' (snapshotIdentityResult returned)))"

definition identity_outcome :: "string option \<Rightarrow> identity_result \<Rightarrow> resolved_identity io" where
  "identity_outcome ip result =
     (case result of
        Refused reason \<Rightarrow>
          andThen (emitIdentityVerify ''failure'' (Some (normalizedIdentityFailureReason reason)) None ip) (\<lambda>_.
          fail (oauthError ''access_denied'' ''Identity rejected'' 401))
      | Identified sub allowed \<Rightarrow>
          andThen (catch (lift (assertAllowedScopesCeiling allowed)) (\<lambda>e.
                     andThen (emitIdentityVerify ''failure'' (Some ''malformed_allowed_scopes'') None ip) (\<lambda>_. fail e))) (\<lambda>ceiling.
          andThen (emitIdentityVerify ''success'' None (Some sub) ip) (\<lambda>_.
          pass \<lparr>id_subject = sub, id_allowedScopes = ceiling\<rparr>)))"

definition resolveIdentityWithAudit :: "jsval \<Rightarrow> string option \<Rightarrow> resolved_identity io" where
  "resolveIdentityWithAudit input ip =
     andThen (catch (verified_identity input) (\<lambda>e.
                andThen (emitIdentityVerify ''failure'' (Some (port_reason e)) None ip) (\<lambda>_. fail (port_rejection e))))
       (identity_outcome ip)"

definition resolveIdentity :: "jsval \<Rightarrow> string option \<Rightarrow> resolved_identity io" where
  "resolveIdentity input ip = andThen (guard ''authorize'' ip False) (\<lambda>_. resolveIdentityWithAudit input ip)"

definition guardPairingAuthorize :: "string option \<Rightarrow> unit io" where
  "guardPairingAuthorize ip = guard ''authorize'' ip False"

subsection \<open>Answers\<close>

definition error_answer :: "bridge \<Rightarrow> failure \<Rightarrow> norm_response io" where
  "error_answer b e = lift (oauthErrorResponse (br_auth b) (asOAuth e) None)"

definition answered :: "bridge \<Rightarrow> 'a io \<Rightarrow> ('a \<Rightarrow> norm_response) \<Rightarrow> norm_response io" where
  "answered b m f = catch (andThen m (\<lambda>x. pass (f x))) (error_answer b)"

definition quoted_none :: string where "quoted_none = [CHR 0x27] @ ''none'' @ [CHR 0x27]"

definition CONSENT_HEADERS :: "string jsmap" where
  "CONSENT_HEADERS = noStoreHeaders
     [(''content-type'', ''text/html; charset=utf-8''), (''x-content-type-options'', ''nosniff''),
      (''content-security-policy'',
         ''default-src '' @ quoted_none @ ''; style-src '' @ [CHR 0x27] @ ''unsafe-inline'' @ [CHR 0x27]
         @ ''; frame-ancestors '' @ quoted_none),
      (''x-frame-options'', ''DENY''), (''referrer-policy'', ''same-origin'')]"

definition token_body :: "machine_response \<Rightarrow> (string \<times> jsval) list" where
  "token_body r =
     [(''access_token'', Str (rs_access_token r)), (''token_type'', Str (rs_token_type r)),
      (''expires_in'', Number (Whole (rs_expires_in r))), (''scope'', Str (rs_scope r))]"

definition user_token_body :: "user_response \<Rightarrow> (string \<times> jsval) list" where
  "user_token_body r = token_body (machine_response.truncate r) @ [(''refresh_token'', Str (rs_refresh_token r))]"

definition token_answer :: "(string \<times> jsval) list \<Rightarrow> norm_response" where
  "token_answer body = respond 200 [(''cache-control'', ''no-store''), (''pragma'', ''no-cache'')] (Json (Obj body))"

definition registered_body :: "RegisteredClient \<Rightarrow> (string \<times> jsval) list" where
  "registered_body r =
     [(''client_id'', Str (rc_client_id r)), (''client_id_issued_at'', Number (Whole (rc_client_id_issued_at r))),
      (''redirect_uris'', strings (rc_redirect_uris r)), (''token_endpoint_auth_method'', Str ''none'')]"

subsection \<open>Discovery\<close>

definition handleAuthorizationServerMetadata :: "bridge \<Rightarrow> norm_response" where
  "handleAuthorizationServerMetadata b =
     respond 200 [(''cache-control'', ''public, max-age=300'')] (Json (Obj (authorizationServerMetadata (br_config b))))"

definition handleProtectedResourceMetadata :: "bridge \<Rightarrow> norm_response" where
  "handleProtectedResourceMetadata b =
     respond 200 [(''cache-control'', ''public, max-age=300'')] (Json (Obj (protectedResourceMetadata (br_config b))))"

definition handleJwks :: "bridge \<Rightarrow> norm_response" where
  "handleJwks b = respond 200 [(''cache-control'', ''public, max-age=60'')] (Json (Obj (jwks (br_config b))))"

subsection \<open>Registration\<close>

definition registration_input :: "(string \<times> jsval) list \<Rightarrow> register_input" where
  "registration_input body =
     \<lparr>rg_redirectUris = own body ''redirect_uris'', rg_applicationType = own body ''application_type'',
      rg_tokenEndpointAuthMethod = own body ''token_endpoint_auth_method'', rg_grantTypes = own body ''grant_types''\<rparr>"

definition handleRegister :: "bridge \<Rightarrow> norm_request \<Rightarrow> norm_response io" where
  "handleRegister b req =
     answered b
       (andThen (lift (assertStoredRegistrationIp (cfg_dcr (br_config b)) (nq_ip req))) (\<lambda>_.
        andThen (guard ''register'' (nq_ip req) (cfg_dcr (br_config b) = StoredDcr)) (\<lambda>_.
        andThen (lift (checkedFormObject req REGISTER_SINGLETON_PARAM_KEYS REGISTER_JSON_ARRAY_PARAM_KEYS)) (\<lambda>body.
        registerClient (az_parseUrl (br_auth b)) (br_config b) (registration_input body)))))
       (\<lambda>r. respond 201 [(''cache-control'', ''no-store'')] (Json (Obj (registered_body r))))"

subsection \<open>Authorization\<close>

record given_identity =
  gi_subject :: string
  gi_allowedScopes :: jsval
  gi_registration :: "CimdRegistration option"

definition authorize_input_of :: "norm_request \<Rightarrow> given_identity \<Rightarrow> authorize_input" where
  "authorize_input_of req who =
     (let q = queryString (nq_query req) in
      \<lparr>ai_clientId = q ''client_id'', ai_redirectUri = q ''redirect_uri'', ai_responseType = q ''response_type'',
       ai_codeChallenge = q ''code_challenge'', ai_codeChallengeMethod = q ''code_challenge_method'',
       ai_resource = resourceParam (own (nq_query req) ''resource''), ai_scope = q ''scope'', ai_state = q ''state'',
       ai_subject = Some (gi_subject who), ai_allowedScopes = gi_allowedScopes who,
       ai_registration = gi_registration who, ai_ip = nq_ip req\<rparr>)"

definition handleAuthorize :: "bridge \<Rightarrow> norm_request \<Rightarrow> given_identity \<Rightarrow> norm_response io" where
  "handleAuthorize b req who =
     answered b
       (andThen (check (findDuplicatedKeys (Obj (nq_query req)) OAUTH_SINGLETON_PARAM_KEYS = []) duplicate_parameters) (\<lambda>_.
        prepare (br_auth b) (authorize_input_of req who)))
       (\<lambda>prepared. respond 200 CONSENT_HEADERS (Html (renderConsentPage prepared)))"

subsection \<open>Approval\<close>

text \<open>The cookie is only looked at for an origin the use-case accepts.\<close>

definition approve_token :: "bridge \<Rightarrow> norm_request \<Rightarrow> (string \<times> jsval) list \<Rightarrow> string option outcome" where
  "approve_token b req body =
     (case formField (Obj body) ''consent_token'' of
        Some t \<Rightarrow> Inr (Some t)
      | None \<Rightarrow>
          chain (approveOriginAllowed (az_parseUrl (br_auth b)) (br_config b) (headerString (nq_headers req) ''origin'')) (\<lambda>allowed.
          if allowed then consentCookie req else Inr None))"

definition approve_answer :: "approve_result \<Rightarrow> norm_response" where
  "approve_answer r =
     redirect_to 302
       (if ar_code r = None then [(''location'', ar_redirectTo r)] else noStoreHeaders [(''location'', ar_redirectTo r)])
       (ar_redirectTo r)"

definition handleApprove :: "bridge \<Rightarrow> norm_request \<Rightarrow> norm_response io" where
  "handleApprove b req =
     answered b
       (andThen (guard ''approve'' (nq_ip req) False) (\<lambda>_.
        andThen (lift (checkedFormObject req APPROVE_SINGLETON_PARAM_KEYS [])) (\<lambda>body.
        andThen (lift (approve_token b req body)) (\<lambda>consentToken.
        approve (br_auth b)
          \<lparr>ap_consentToken = consentToken, ap_approved = Some (parseApproved (own body ''approved'')),
           ap_origin = headerString (nq_headers req) ''origin''\<rparr>))))
       approve_answer"

subsection \<open>Tokens\<close>

definition ambiguous_event :: "string option \<Rightarrow> int \<Rightarrow> audit_event" where
  "ambiguous_event clientId t =
     \<lparr>ae_event = ''oauth.token.client_credentials'', ae_status = ''failure'', ae_occurredAt = toISOString t,
      ae_clientId = clientId, ae_subject = None, ae_resource = None, ae_scopes = None, ae_redirectHost = None,
      ae_reason = Some ''invalid_client'', ae_ip = None, ae_selectedClientAuthMethod = None\<rparr>"

definition assertUnambiguousAuthorization :: "header_read \<Rightarrow> string option \<Rightarrow> string option \<Rightarrow> unit io" where
  "assertUnambiguousAuthorization h grantType clientId =
     (if h \<noteq> Ambiguous then pass ()
      else andThen (if grantType = Some ''client_credentials''
                    then andThen (readClock 0) (\<lambda>t. Audit (ambiguous_event clientId t) (pass ()))
                    else pass ()) (\<lambda>_.
           fail (invalid_client ''Authorization header must occur exactly once'')))"

definition header_value :: "header_read \<Rightarrow> string option" where
  "header_value h = (case h of Ambiguous \<Rightarrow> None | Header v \<Rightarrow> v)"

definition token_grant :: "bridge \<Rightarrow> header_read \<Rightarrow> jsval \<Rightarrow> (string \<times> jsval) list io" where
  "token_grant b authorization body =
     (let f = formField body; grantType = f ''grant_type'' in
      andThen (assertUnambiguousAuthorization authorization grantType (f ''client_id'')) (\<lambda>_.
      if grantType = Some ''refresh_token'' then
        andThen (refresh (br_token b)
          \<lparr>ri_grantType = grantType, ri_refreshToken = f ''refresh_token'', ri_clientId = f ''client_id''\<rparr>) (\<lambda>r.
        pass (user_token_body r))
      else if grantType = Some ''client_credentials'' then
        andThen (exchangeClientCredentials (br_token b)
          \<lparr>cred_grantType = grantType, cred_authorization = header_value authorization,
           cred_clientId = f ''client_id'', cred_clientSecret = f ''client_secret'', cred_scope = f ''scope'',
           cred_resource = f ''resource''\<rparr>) (\<lambda>r.
        pass (token_body r))
      else
        andThen (exchangeAuthorizationCode (br_token b)
          \<lparr>ci_grantType = grantType, ci_code = f ''code'', ci_redirectUri = f ''redirect_uri'',
           ci_clientId = f ''client_id'', ci_codeVerifier = f ''code_verifier''\<rparr>) (\<lambda>r.
        pass (user_token_body r))))"

text \<open>A failed Basic authentication earns the Basic challenge.\<close>

definition token_failure :: "bridge \<Rightarrow> bool \<Rightarrow> failure \<Rightarrow> norm_response io" where
  "token_failure b basicAttempted e =
     (let oauth = asOAuth e in
      lift (chain (oauthErrorResponse (br_auth b) oauth None) (\<lambda>res.
        Inr (if code oauth = ''invalid_client'' \<and> status oauth = 401 \<and> basicAttempted
             then res\<lparr>np_headers := map_set ''www-authenticate'' (buildBasicClientChallenge (br_config b)) (np_headers res)\<rparr>
             else res))))"

definition handleToken :: "bridge \<Rightarrow> norm_request \<Rightarrow> norm_response io" where
  "handleToken b req =
     bind_task
       (andThen (guard ''token'' (nq_ip req) False) (\<lambda>_. lift (checkedFormObject req TOKEN_SINGLETON_PARAM_KEYS [])))
       (\<lambda>r. case r of
          Inl e \<Rightarrow> token_failure b False e
        | Inr body \<Rightarrow>
            catch (andThen (token_grant b (readHeader (nq_headers req) ''authorization'') (Obj body)) (\<lambda>response.
                     pass (token_answer response)))
              (token_failure b (hasBasicAuthorization (nq_headers req))))"

definition handleRevoke :: "bridge \<Rightarrow> norm_request \<Rightarrow> norm_response io" where
  "handleRevoke b req =
     answered b
       (andThen (guard ''revoke'' (nq_ip req) False) (\<lambda>_.
        andThen (lift (checkedFormObject req REVOKE_SINGLETON_PARAM_KEYS [])) (\<lambda>body.
        revokeRefreshToken (cfg_resource (br_config b)) (formField (Obj body) ''token''))))
       (\<lambda>_. respond 200 [(''cache-control'', ''no-store'')] (Json (Obj [])))"

end
