(* ===== verification/Hono_App.thy ===== *)
theory Hono_App
  imports Bridge Cimd_Addresses
begin

section \<open>The Hono application\<close>

text \<open>
  \<open>src/adapters/hono.ts\<close> in its default mode: the body budget, the normalization of a request, the route
  table over the handlers of \<open>Bridge\<close>, and what is sent for a normalized response. The platform is a
  parameter: its JSON and query parsers and Hono's own \<open>bodyLimit\<close>, which is given the budget and answers
  whether a body exceeds it, or throws. A mode that hands the authorize route to an upstream flow is not modelled.
\<close>

record platform =
  pf_parseJson :: "string \<Rightarrow> jsval option"
  pf_searchParams :: "string \<Rightarrow> (string \<times> string) list"
  pf_urlParams :: "string \<Rightarrow> (string \<times> string) list"
  pf_bodyExceeds :: "nat \<Rightarrow> string option \<Rightarrow> bool option"

text \<open>A request as the platform hands it over: header names are in lower case and occur once.\<close>

record raw_request =
  rq_method :: string
  rq_path :: string
  rq_url :: string
  rq_headers :: "(string \<times> string) list"
  rq_text :: "string option"

subsection \<open>The body budget\<close>

definition OAUTH_POST_BODY_MAX_BYTES :: nat where "OAUTH_POST_BODY_MAX_BYTES = 256 * 1024"

fun content_length_ok :: "string \<Rightarrow> bool" where
  "content_length_ok [] = False"
| "content_length_ok (c # s) = (list_all is_digit (c # s) \<and> (c = CHR ''0'' \<longrightarrow> s = []))"

text \<open>A declared length must be a decimal within the budget, and alone.\<close>

definition validateBodyFraming :: "raw_request \<Rightarrow> bool" where
  "validateBodyFraming raw =
     (case map_of (rq_headers raw) ''content-length'' of
        None \<Rightarrow> True
      | Some declared \<Rightarrow>
          content_length_ok declared \<and> map_of (rq_headers raw) ''transfer-encoding'' = None
          \<and> digits_value 10 declared < 2 ^ 53 \<and> digits_value 10 declared \<le> OAUTH_POST_BODY_MAX_BYTES)"

definition payloadTooLarge :: norm_response where
  "payloadTooLarge = respond 413 [] (Html ''Payload Too Large'')"

definition invalidRequest :: norm_response where
  "invalidRequest =
     respond 400 [(''content-type'', ''application/json; charset=utf-8'')]
       (Json (Obj [(''error'', Str ''invalid_request''), (''error_description'', Str ''Invalid request'')]))"

definition honoOAuthBodyLimit :: "platform \<Rightarrow> raw_request \<Rightarrow> norm_response io \<Rightarrow> norm_response io" where
  "honoOAuthBodyLimit pf raw downstream =
     (if \<not> validateBodyFraming raw then pass payloadTooLarge
      else case pf_bodyExceeds pf OAUTH_POST_BODY_MAX_BYTES (rq_text raw) of
             None \<Rightarrow> pass invalidRequest
           | Some exceeds \<Rightarrow> if exceeds then pass payloadTooLarge else downstream)"

subsection \<open>Normalization\<close>

definition queryOccurrencesFromUrl :: "platform \<Rightarrow> string \<Rightarrow> (string \<times> jsval) list" where
  "queryOccurrencesFromUrl pf url = collectOccurrences (pf_urlParams pf url)"

definition formOccurrencesFromUrlEncoded :: "platform \<Rightarrow> string \<Rightarrow> (string \<times> jsval) list" where
  "formOccurrencesFromUrlEncoded pf raw = collectOccurrences (pf_searchParams pf raw)"

text \<open>A body that does not parse is no body.\<close>

definition parsed_body :: "platform \<Rightarrow> raw_request \<Rightarrow> jsval" where
  "parsed_body pf raw =
     (let ct = lower_case (trim (takeWhile (\<lambda>c. c \<noteq> CHR '';'')
                 (case map_of (rq_headers raw) ''content-type'' of None \<Rightarrow> [] | Some s \<Rightarrow> s)));
          body = (case rq_text raw of None \<Rightarrow> [] | Some s \<Rightarrow> s)
      in if ct = ''application/json'' then (case pf_parseJson pf body of None \<Rightarrow> Undefined | Some v \<Rightarrow> v)
         else if ct = ''application/x-www-form-urlencoded'' then Obj (formOccurrencesFromUrlEncoded pf body)
         else Undefined)"

definition toNorm :: "platform \<Rightarrow> (raw_request \<Rightarrow> string option) option \<Rightarrow> raw_request \<Rightarrow> norm_request" where
  "toNorm pf clientIp raw =
     (let headers = foldl (\<lambda>out (key, value). map_set key (Str value) out) [] (rq_headers raw);
          gated = semanticOAuthBody (parsed_body pf raw) headers
      in \<lparr>nq_query = queryOccurrencesFromUrl pf (rq_url raw), nq_body = gated,
          nq_formBody = Some (formBodySnapshot gated headers), nq_headers = headers,
          nq_ip = (case clientIp of None \<Rightarrow> None | Some extract \<Rightarrow> extract raw)\<rparr>)"

subsection \<open>Sending\<close>

record sent_response =
  sr_status :: int
  sr_headers :: "(string \<times> string) list"
  sr_body :: response_body

definition send_response :: "norm_response \<Rightarrow> sent_response" where
  "send_response r =
     (let headers = foldl (\<lambda>out (key, value). map_set (lower_case key) value out) [] (np_headers r)
                    @ map (\<lambda>cookie. (''set-cookie'', cookie)) (np_setCookies r);
          json = (if map_of headers ''content-type'' = None
                  then map_set ''content-type'' ''application/json; charset=utf-8'' headers else headers)
      in case np_redirect r of
           Some (c # target) \<Rightarrow>
             \<lparr>sr_status = np_status r, sr_headers = map_set ''location'' (c # target) headers, sr_body = No_body\<rparr>
         | _ \<Rightarrow>
             (case np_body r of
                Html text \<Rightarrow> \<lparr>sr_status = np_status r, sr_headers = headers, sr_body = Html text\<rparr>
              | No_body \<Rightarrow> \<lparr>sr_status = np_status r, sr_headers = headers, sr_body = No_body\<rparr>
              | Json v \<Rightarrow>
                  \<lparr>sr_status = np_status r, sr_headers = json, sr_body = (if v = Null then No_body else Json v)\<rparr>))"

subsection \<open>Routes\<close>

datatype route =
  Server_metadata | Resource_metadata | Jwks | Register | Authorize_get | Approve | Token | Revoke

definition get_routes :: "url_parser \<Rightarrow> bridge_config \<Rightarrow> ((string \<times> route) list) outcome" where
  "get_routes parseUrl config =
     chain (pathAfterOrigin parseUrl (cfg_resource config)) (\<lambda>resourcePath.
     Inr [(''/.well-known/oauth-authorization-server'', Server_metadata),
          (''/.well-known/oauth-protected-resource'', Resource_metadata),
          (''/.well-known/oauth-protected-resource'' @ resourcePath, Resource_metadata),
          (''/oauth/jwks'', Jwks), (''/oauth/authorize'', Authorize_get)])"

definition post_routes :: "(string \<times> route) list" where
  "post_routes =
     [(''/oauth/register'', Register), (''/oauth/authorize/approve'', Approve), (''/oauth/token'', Token),
      (''/oauth/revoke'', Revoke)]"

text \<open>
  The default authorize route: repeated parameters, then the identity behind the configured header, then the
  handler. Whatever the identity port throws becomes a direct response, never a redirect.
\<close>

definition authorize_route :: "bridge \<Rightarrow> string \<Rightarrow> norm_request \<Rightarrow> norm_response io" where
  "authorize_route b identityHeader req =
     (if hasDuplicatedAuthorizeParams (Obj (nq_query req))
      then lift (oauthErrorResponse (br_auth b)
                  \<lparr>code = ''invalid_request'', message = ''duplicate request parameters'', status = 400, redirect = None\<rparr> None)
      else bind_task (resolveIdentity (opt_value (headerString (nq_headers req) identityHeader)) (nq_ip req)) (\<lambda>r.
        case r of
          Inl e \<Rightarrow> lift (oauthErrorResponse (br_auth b) (asDirectOAuth e) None)
        | Inr who \<Rightarrow>
            handleAuthorize b req
              \<lparr>gi_subject = id_subject who, gi_allowedScopes = opt_array (id_allowedScopes who), gi_registration = None\<rparr>))"

definition serve :: "bridge \<Rightarrow> string \<Rightarrow> route \<Rightarrow> norm_request \<Rightarrow> norm_response io" where
  "serve b identityHeader r req =
     (case r of
        Server_metadata \<Rightarrow> pass (handleAuthorizationServerMetadata b)
      | Resource_metadata \<Rightarrow> pass (handleProtectedResourceMetadata b)
      | Jwks \<Rightarrow> pass (handleJwks b)
      | Register \<Rightarrow> handleRegister b req
      | Authorize_get \<Rightarrow> authorize_route b identityHeader req
      | Approve \<Rightarrow> handleApprove b req
      | Token \<Rightarrow> handleToken b req
      | Revoke \<Rightarrow> handleRevoke b req)"

text \<open>What \<open>createOAuthApp\<close> refuses to build, and the answer of the app to a request; no route is \<open>None\<close>.\<close>

definition createOAuthApp_accepts :: "bridge_config \<Rightarrow> bool \<Rightarrow> bool \<Rightarrow> bool" where
  "createOAuthApp_accepts config hasIdentity hasClientIp \<longleftrightarrow>
     hasIdentity \<and> (cfg_dcr config = StoredDcr \<longrightarrow> hasClientIp)"

definition app_response ::
    "platform \<Rightarrow> bridge \<Rightarrow> string \<Rightarrow> (raw_request \<Rightarrow> string option) option \<Rightarrow> raw_request \<Rightarrow> norm_response io option" where
  "app_response pf b identityHeader clientIp raw =
     (let req = toNorm pf clientIp raw in
      if rq_method raw = ''GET'' then
        (case get_routes (az_parseUrl (br_auth b)) (br_config b) of
           Inl _ \<Rightarrow> None
         | Inr routes \<Rightarrow> map_option (\<lambda>r. serve b identityHeader r req) (map_of routes (rq_path raw)))
      else if rq_method raw = ''POST'' then
        map_option (\<lambda>r. honoOAuthBodyLimit pf raw (serve b identityHeader r req)) (map_of post_routes (rq_path raw))
      else None)"

end
