(* ===== verification/Bridge_Laws.thy ===== *)
theory Bridge_Laws
  imports Bridge Token_Grants Authorize_Laws
begin

section \<open>Guarantees of the routes\<close>

text \<open>
  What holds of a request as it arrives: the limiter is asked first, an ambiguous request reaches no port,
  an identity is only taken from a port that verified it, and the single-use theorems hold of concurrent
  requests, whatever else they carry.
\<close>

subsection \<open>Concurrent tasks that win\<close>

definition won :: "('a \<Rightarrow> bool) \<Rightarrow> 'a task list \<Rightarrow> nat" where
  "won good ts = length (filter (\<lambda>t. case t of Return r \<Rightarrow> good r | _ \<Rightarrow> False) ts)"

lemma won_frees: "won good ts \<le> frees hit good ts"
proof (induction ts)
  case (Cons t ts)
  then show ?case by (cases t) (auto simp: won_def frees_def)
qed (simp add: won_def frees_def)

text \<open>The bound for a run whose trace mints nothing, whatever its tasks could have called.\<close>

context spending
begin

lemma won_bounded_trace:
  assumes "keeps w" and "list_all (\<lambda>(c, r). \<not> mints k c) (fst (snd (interleave env picks ts w)))"
    and "list_all (\<lambda>t. \<not> free_win (spends k) good t) ts"
  shows "won good (fst (interleave env picks ts w)) \<le> stock k w"
proof -
  obtain ts' tr w' where run: "interleave env picks ts w = (ts', tr, w')" by (metis prod_cases3)
  have "frees (spends k) good ts = 0"
    using assms(3) by (induction ts) (auto simp: frees_def)
  then have "won good ts' \<le> hits (spends k) tr"
    using interleave_free [OF run, of "spends k" good] won_frees [of good ts' "spends k"] by simp
  also have "\<dots> \<le> stock k w"
    using interleave_pays [OF assms(1) run, of k] assms(2) run by simp
  finally show ?thesis by (simp add: run)
qed

end

subsection \<open>The limiter comes first\<close>

lemma within_guard [simp]: "calls_within P (guard p ip b) \<longleftrightarrow> P (CheckRate (guard_key p ip))"
  by (simp add: guard_def split: sum.split)

lemma free_win_guard:
  assumes "\<And>c r. hit c r \<Longrightarrow> \<exists>sc. c = StorePort sc"
  shows "free_win hit ((=) (Inr x)) (guard p ip b)"
  unfolding guard_def using assms
  by (auto intro!: exI [of _ "Inr (Boolean True)"] simp: truthy_value_def)

lemma answered_eq: "answered b (andThen m f) g = catch (andThen m (\<lambda>x. andThen (f x) (\<lambda>y. pass (g y)))) (error_answer b)"
  by (simp add: answered_def andThen_assoc)

lemma catch_andThen_fail:
  "catch (andThen (fail e) f) h = h e" "andThen (fail e) f = fail e" "catch (fail e) h = h e"
  by (simp_all add: fail_def)

definition refused_answer :: norm_response where
  "refused_answer = respond 429 []
     (Json (Obj [(''error'', Str ''temporarily_unavailable''), (''error_description'', Str ''Rate limit exceeded; retry later'')]))"

lemma error_answer_refused: "error_answer b rate_refused = pass refused_answer"
  by (simp add: error_answer_def rate_refused_def oauthError_def asOAuth_def oauthErrorResponse_def error_body_def
      oauthErrorBody_def refused_answer_def respond_def lift_def pass_def)

lemma perform_guard_refused:
  assumes "on_call env (CheckRate (guard_key p ip)) w = (Inr v, w')" and "\<not> truthy_value v"
  shows "perform env (guard p ip b) w = (Inl rate_refused, [(CheckRate (guard_key p ip), Inr v)], [], w')"
  using assms by (simp add: guard_def check_def fail_def)

lemma perform_catch_Inl:
  assumes "perform env m w = (Inl e, tr, au, w1)"
  shows "perform env (catch m h) w = (let (y, tr', au', w2) = perform env (h e) w1 in (y, tr @ tr', au @ au', w2))"
  using assms by (simp add: catch_def perform_bind)

lemma perform_andThen_Inl:
  assumes "perform env m w = (Inl e, tr, au, w1)"
  shows "perform env (andThen m f) w = (Inl e, tr, au, w1)"
  using assms by (simp add: andThen_def perform_bind)

lemma refused_route:
  assumes "on_call env (CheckRate (guard_key p ip)) w = (Inr v, w')" and "\<not> truthy_value v"
  shows "perform env (answered b (andThen (guard p ip c) f) g) w
    = (Inr refused_answer, [(CheckRate (guard_key p ip), Inr v)], [], w')"
  unfolding answered_eq
  by (simp add: perform_catch_Inl [OF perform_andThen_Inl [OF perform_guard_refused [OF assms]]] error_answer_refused)

text \<open>
  A request the limiter refuses is answered with 429 on every metered route, and no other port is asked:
  not the store, not the identity port, not the client store.
\<close>

theorem limiter_refusal:
  assumes "\<And>key w. on_call env (CheckRate key) w = (Inr v, w)" and "\<not> truthy_value v"
  shows "perform env (handleToken b req) w = (Inr refused_answer, [(CheckRate (guard_key ''token'' (nq_ip req)), Inr v)], [], w)
    \<and> perform env (handleRevoke b req) w = (Inr refused_answer, [(CheckRate (guard_key ''revoke'' (nq_ip req)), Inr v)], [], w)
    \<and> perform env (handleApprove b req) w = (Inr refused_answer, [(CheckRate (guard_key ''approve'' (nq_ip req)), Inr v)], [], w)
    \<and> (assertStoredRegistrationIp (cfg_dcr (br_config b)) (nq_ip req) = Inr () \<longrightarrow>
        perform env (handleRegister b req) w = (Inr refused_answer, [(CheckRate (guard_key ''register'' (nq_ip req)), Inr v)], [], w))
    \<and> perform env (resolveIdentity input ip) w = (Inl rate_refused, [(CheckRate (guard_key ''authorize'' ip), Inr v)], [], w)"
proof -
  note guard = perform_guard_refused [OF assms(1,2)]
  note route = refused_route [OF assms(1,2)]
  have "perform env (handleToken b req) w = (Inr refused_answer, [(CheckRate (guard_key ''token'' (nq_ip req)), Inr v)], [], w)"
    by (simp add: handleToken_def perform_bind perform_andThen_Inl [OF guard] Let_def token_failure_def rate_refused_def
        oauthError_def asOAuth_def oauthErrorResponse_def error_body_def oauthErrorBody_def refused_answer_def
        respond_def lift_def)
  moreover have "perform env (handleRegister b req) w = (Inr refused_answer, [(CheckRate (guard_key ''register'' (nq_ip req)), Inr v)], [], w)"
    if "assertStoredRegistrationIp (cfg_dcr (br_config b)) (nq_ip req) = Inr ()"
    using route by (simp add: handleRegister_def that lift_def)
  ultimately show ?thesis
    by (simp add: handleRevoke_def handleApprove_def resolveIdentity_def route perform_andThen_Inl [OF guard])
qed

subsection \<open>Anonymous registration is metered\<close>

lemma lift_andThen: "andThen (lift m) f = (case m of Inl e \<Rightarrow> fail e | Inr x \<Rightarrow> f x)"
  by (cases m) (simp_all add: lift_def fail_def)

lemma guard_cases:
  assumes "perform env (guard p ip c) w = (r, tr, au, w')"
  obtains (refused) q e where "r = Inl e" and "tr = [(CheckRate (guard_key p ip), q)]"
  | (failed) e where "r = Inr ()" and "\<not> c" and "tr = [(CheckRate (guard_key p ip), Inl e)]"
  | (allowed) v where "r = Inr ()" and "truthy_value v" and "tr = [(CheckRate (guard_key p ip), Inr v)]"
  using assms by (auto simp: guard_def check_def pass_def fail_def split: prod.split_asm sum.split_asm if_split_asm)

text \<open>
  C39. In stored mode no anonymous request writes a client unless it carries an address of its own and the
  limiter, asked for that address before anything else, allowed it; a limiter that fails does not.
\<close>

theorem stored_registration_metered:
  assumes "cfg_dcr (br_config b) = StoredDcr" and "perform env (handleRegister b req) w = (r, tr, au, w')"
    and "(SaveClient row, q) \<in> set tr"
  shows "\<exists>ip v later. nq_ip req = Some ip \<and> ip \<noteq> [] \<and> ip \<noteq> ''unknown'' \<and> truthy_value v
           \<and> tr = (CheckRate (''register:'' @ ip), Inr v) # later"
proof -
  let ?rest = "\<lambda>_. andThen (lift (checkedFormObject req REGISTER_SINGLETON_PARAM_KEYS REGISTER_JSON_ARRAY_PARAM_KEYS))
      (\<lambda>body. registerClient (az_parseUrl (br_auth b)) (br_config b) (registration_input body))"
  let ?answer = "\<lambda>r. respond 201 [(''cache-control'', ''no-store'')] (Json (Obj (registered_body r)))"
  have quiet: "tr = []" if "perform env (error_answer b e) w = (r, tr, au, w')" for e r tr au w w'
    using that by (auto simp: error_answer_def lift_def)
  show ?thesis
  proof (cases "assertStoredRegistrationIp (cfg_dcr (br_config b)) (nq_ip req)")
    case (Inl e)
    then have "perform env (error_answer b e) w = (r, tr, au, w')"
      using assms(2) by (simp add: handleRegister_def answered_def lift_andThen catch_andThen_fail)
    with quiet assms(3) show ?thesis by fastforce
  next
    case (Inr u)
    then obtain ip where ip: "nq_ip req = Some ip" "ip \<noteq> []" "ip \<noteq> ''unknown''"
      using assms(1) by (cases "nq_ip req") (auto simp: assertStoredRegistrationIp_def require_eq_Inr)
    from assms(2) have run: "perform env (catch (andThen (guard ''register'' (nq_ip req) True)
        (\<lambda>x. andThen (?rest x) (\<lambda>y. pass (?answer y)))) (error_answer b)) w = (r, tr, au, w')"
      by (simp add: handleRegister_def answered_def lift_andThen Inr [unfolded assms(1)] assms(1) andThen_assoc)
    obtain g tr1 au1 w1 where guard: "perform env (guard ''register'' (nq_ip req) True) w = (g, tr1, au1, w1)"
      by (metis prod_cases4)
    from guard show ?thesis
    proof (cases rule: guard_cases)
      case (refused q' e)
      from run have "tr = tr1"
      proof (cases rule: perform_catchE)
        case (good x)
        from good(1) show ?thesis by (rule perform_andThenE) (use guard refused(1) in auto)
      next
        case (bad e' tr3 au3 w3 tr4 au4)
        from bad(1) show ?thesis
          by (rule perform_andThenE) (use guard refused(1) bad(3) quiet [OF bad(2)] in auto)
      qed
      with assms(3) refused show ?thesis by simp
    next
      case failed
      then show ?thesis by simp
    next
      case (allowed v)
      from run obtain later where "tr = tr1 @ later"
      proof (cases rule: perform_catchE)
        case good
        from good(1) show ?thesis
          by (rule perform_andThenE) (use guard that in auto)
      next
        case (bad e tr3 au3 w3 tr4 au4)
        from bad(1) show ?thesis
          by (rule perform_andThenE) (use guard that bad(3) in auto)
      qed
      with allowed ip show ?thesis by (simp add: guard_key_def)
    qed
  qed
qed

subsection \<open>Ambiguous requests\<close>

lemma token_failure_quiet: "perform env (token_failure b basic e) w = (r, tr, au, w') \<Longrightarrow> tr = []"
  by (auto simp: token_failure_def lift_def Let_def)

lemma guard_trace:
  assumes "perform env (guard p ip c) w = (r, tr, au, w')"
  shows "\<exists>q. tr = [(CheckRate (guard_key p ip), q)]"
  using assms by (cases rule: guard_cases) auto

lemma ambiguous_fails:
  assumes "perform env (andThen (assertUnambiguousAuthorization Ambiguous g cid) f) w = (r, tr, au, w')"
  shows "tr = [] \<and> (\<exists>e. r = Inl e)"
  using assms
  by (auto simp: assertUnambiguousAuthorization_def readClock_def andThen_def pass_def fail_def
      split: if_split_asm prod.split_asm sum.split_asm)

text \<open>
  C40. Repeated token parameters, and an \<open>Authorization\<close> header that occurs more than once, end the request before
  a grant is looked at: the limiter is the only port asked.
\<close>

theorem token_request_unambiguous:
  assumes "perform env (handleToken b req) w = (r, tr, au, w')" and "(c, q) \<in> set tr"
    and "c \<noteq> CheckRate (guard_key ''token'' (nq_ip req))"
  shows "readHeader (nq_headers req) ''authorization'' \<noteq> Ambiguous
    \<and> checkedFormObject req TOKEN_SINGLETON_PARAM_KEYS [] = Inr (formObject (nq_body req))
    \<and> formBodySnapshot (nq_body req) (nq_headers req) \<noteq> Ambiguous_form
    \<and> (\<forall>f. nq_formBody req = Some (Form f) \<longrightarrow> findRepeatedKeys f TOKEN_SINGLETON_PARAM_KEYS = [])"
proof -
  let ?first = "andThen (guard ''token'' (nq_ip req) False) (\<lambda>_. lift (checkedFormObject req TOKEN_SINGLETON_PARAM_KEYS []))"
  obtain g tr1 au1 w1 where first: "perform env ?first w = (g, tr1, au1, w1)" by (metis prod_cases4)
  have tr1: "\<exists>q. tr1 = [(CheckRate (guard_key ''token'' (nq_ip req)), q)]"
    using first
  proof (cases rule: perform_andThenE)
    case (go x tr1 au1 w1 tr2 au2)
    then show ?thesis using guard_trace by (auto simp: perform_lift)
  qed (rule guard_trace)
  have body: "\<exists>body. g = Inr body"
  proof (cases g)
    case (Inl e)
    with first assms(1) tr1 token_failure_quiet have "\<exists>q. tr = [(CheckRate (guard_key ''token'' (nq_ip req)), q)]"
      by (fastforce simp: handleToken_def perform_bind Let_def split: prod.split_asm)
    with assms(2,3) show ?thesis by auto
  qed simp
  then obtain body where g: "g = Inr body" by blast
  from first [unfolded g] have chk: "checkedFormObject req TOKEN_SINGLETON_PARAM_KEYS [] = Inr body"
    by (rule perform_andThen_Inr) simp
  then have form: "body = formObject (nq_body req)" "formBodySnapshot (nq_body req) (nq_headers req) \<noteq> Ambiguous_form"
    "\<forall>f. nq_formBody req = Some (Form f) \<longrightarrow> findRepeatedKeys f TOKEN_SINGLETON_PARAM_KEYS = []"
    by (auto simp: checkedFormObject_def Let_def split: if_split_asm)
  obtain tr2 au2 where rest: "perform env (catch (andThen (token_grant b (readHeader (nq_headers req) ''authorization'') (Obj body))
      (\<lambda>response. pass (token_answer response))) (token_failure b (hasBasicAuthorization (nq_headers req)))) w1 = (r, tr2, au2, w')"
    and tr: "tr = tr1 @ tr2"
    using assms(1) first g by (auto simp: handleToken_def perform_bind Let_def split: prod.split_asm)
  have "readHeader (nq_headers req) ''authorization'' \<noteq> Ambiguous"
  proof
    assume amb: "readHeader (nq_headers req) ''authorization'' = Ambiguous"
    have "tr2 = []" using rest
    proof (cases rule: perform_catchE)
      case (good x)
      from good(1) show ?thesis unfolding amb token_grant_def Let_def andThen_assoc by (auto dest: ambiguous_fails)
    next
      case (bad e tr3 au3 w3 tr4 au4)
      from bad(1) have "tr3 = []" unfolding amb token_grant_def Let_def andThen_assoc by (auto dest: ambiguous_fails)
      with bad(2,3) token_failure_quiet show ?thesis by auto
    qed
    with tr tr1 assms(2,3) show False by auto
  qed
  with chk form show ?thesis by simp
qed

subsection \<open>Single use, request by request\<close>

text \<open>A response that hands out tokens.\<close>

definition granted :: "norm_response outcome \<Rightarrow> bool" where
  "granted r =
     (case r of Inl _ \<Rightarrow> False
      | Inr x \<Rightarrow> (case np_body x of Json (Obj kvs) \<Rightarrow> map_of kvs ''access_token'' \<noteq> None | _ \<Rightarrow> False))"

lemma granted_simps [simp]: "\<not> granted (Inl e)"
  by (simp add: granted_def)

lemma error_not_granted: "oauthErrorResponse svc e ch = Inr x \<Longrightarrow> \<not> granted (Inr (x\<lparr>np_headers := hs\<rparr>))"
  "oauthErrorResponse svc e ch = Inr x \<Longrightarrow> \<not> granted (Inr x)"
  by (auto simp: oauthErrorResponse_def result_simps granted_def redirect_to_def respond_def error_body_def oauthErrorBody_def
      split: option.splits if_split_asm prod.splits bool.splits)

lemma failure_not_granted: "\<not> free_win hit granted (token_failure b basic e)"
proof (cases "oauthErrorResponse (br_auth b) (asOAuth e) None")
  case (Inr x)
  then show ?thesis using error_not_granted [OF Inr] error_not_granted(1) [OF Inr] by (simp add: token_failure_def Let_def)
qed (simp add: token_failure_def)

lemma granted_grant:
  assumes "free_win hit granted (handleToken b req)"
  shows "\<exists>x. free_win hit ((=) (Inr x)) (token_grant b (readHeader (nq_headers req) ''authorization'') (Obj (formObject (nq_body req))))"
proof -
  obtain r where r: "free_win hit ((=) r) (andThen (guard ''token'' (nq_ip req) False)
      (\<lambda>_. lift (checkedFormObject req TOKEN_SINGLETON_PARAM_KEYS [])))"
    and rest: "free_win hit granted (case r of Inl e \<Rightarrow> token_failure b False e
        | Inr body \<Rightarrow> catch (andThen (token_grant b (readHeader (nq_headers req) ''authorization'') (Obj body)) (\<lambda>response.
            pass (token_answer response))) (token_failure b (hasBasicAuthorization (nq_headers req))))"
    using assms unfolding handleToken_def free_win_bind by blast
  obtain body where body: "r = Inr body" using rest failure_not_granted by (cases r) auto
  then have "checkedFormObject req TOKEN_SINGLETON_PARAM_KEYS [] = Inr body"
    using r by (auto simp: free_win_andThen)
  then have "body = formObject (nq_body req)" by (auto simp: checkedFormObject_def Let_def split: if_split_asm)
  with rest body show ?thesis
    by (auto simp: free_win_catch failure_not_granted free_win_andThen)
qed

lemma free_unambiguous:
  assumes "free_win hit ((=) (Inr x)) (andThen (assertUnambiguousAuthorization h g cid) f)"
  shows "free_win hit ((=) (Inr x)) (f ())"
  using assms by (auto simp: free_win_andThen)

lemma code_request_pays:
  assumes "formField (nq_body req) ''grant_type'' = Some ''authorization_code''" and "formField (nq_body req) ''code'' = Some raw"
  shows "\<not> free_win (spends_code (sha256Hex raw)) granted (handleToken b req)"
proof
  assume "free_win (spends_code (sha256Hex raw)) granted (handleToken b req)"
  then obtain x where "free_win (spends_code (sha256Hex raw)) ((=) (Inr x))
      (token_grant b (readHeader (nq_headers req) ''authorization'') (Obj (formObject (nq_body req))))"
    using granted_grant by blast
  then have "\<exists>y. free_win (spends_code (sha256Hex raw)) ((=) (Inr y)) (exchangeAuthorizationCode (br_token b)
      \<lparr>ci_grantType = Some ''authorization_code'', ci_code = Some raw, ci_redirectUri = formField (nq_body req) ''redirect_uri'',
       ci_clientId = formField (nq_body req) ''client_id'', ci_codeVerifier = formField (nq_body req) ''code_verifier''\<rparr>)"
    using assms unfolding token_grant_def Let_def
    by (auto simp: formField_def formObject_def free_win_andThen dest!: free_unambiguous split: jsval.splits)
  then have "free_win (spends_code (sha256Hex raw)) returned (exchangeAuthorizationCode (br_token b)
      (\<lparr>ci_grantType = Some ''authorization_code'', ci_code = None, ci_redirectUri = formField (nq_body req) ''redirect_uri'',
       ci_clientId = formField (nq_body req) ''client_id'', ci_codeVerifier = formField (nq_body req) ''code_verifier''\<rparr>
       \<lparr>ci_code := Some raw\<rparr>))"
    by (auto elim: free_win_mono)
  then show False using exchange_pays by blast
qed

lemma machine_within: "calls_within (\<lambda>c. \<not> mints_code h c) (machineGrant svc input t cid secret)"
  unfolding machineGrant_def authenticateMachineClientSecret_def Let_def
  by (auto intro!: within_intros split: option.split sum.split prod.split)

lemma token_within: "calls_within (\<lambda>c. \<not> mints_code h c) (handleToken b req)"
  unfolding handleToken_def token_grant_def token_failure_def assertUnambiguousAuthorization_def Let_def grant_tasks
    exchangeClientCredentials_def
  by (auto intro!: within_intros within_bind machine_within split: option.split sum.split prod.split)

lemma refresh_request_pays:
  assumes "formField (nq_body req) ''grant_type'' = Some ''refresh_token''" and "formField (nq_body req) ''refresh_token'' = Some raw"
  shows "\<not> free_win (spends_token (sha256Hex raw)) granted (handleToken b req)"
proof
  assume "free_win (spends_token (sha256Hex raw)) granted (handleToken b req)"
  then obtain x where "free_win (spends_token (sha256Hex raw)) ((=) (Inr x))
      (token_grant b (readHeader (nq_headers req) ''authorization'') (Obj (formObject (nq_body req))))"
    using granted_grant by blast
  then have "\<exists>y. free_win (spends_token (sha256Hex raw)) ((=) (Inr y)) (refresh (br_token b)
      \<lparr>ri_grantType = Some ''refresh_token'', ri_refreshToken = Some raw, ri_clientId = formField (nq_body req) ''client_id''\<rparr>)"
    using assms unfolding token_grant_def Let_def
    by (auto simp: formField_def formObject_def free_win_andThen dest!: free_unambiguous split: jsval.splits)
  then have "free_win (spends_token (sha256Hex raw)) returned (refresh (br_token b)
      (\<lparr>ri_grantType = Some ''refresh_token'', ri_refreshToken = None, ri_clientId = formField (nq_body req) ''client_id''\<rparr>
       \<lparr>ri_refreshToken := Some raw\<rparr>))"
    by (auto elim: free_win_mono)
  then show False using rotation_pays by blast
qed

end
