(* ===== verification/Route_Laws.thy ===== *)
theory Route_Laws
  imports Hono_App Bridge_Laws Task_Guarantees
begin

section \<open>Guarantees across the routes\<close>

text \<open>
  All routes over one store: the shape of every response the application sends, and single use of codes and
  refresh tokens under any interleaving of any requests.
\<close>

subsection \<open>Every response is well formed\<close>

text \<open>
  A redirect is a 302 whose \<open>location\<close> is the redirect and which has no body; a page comes with the headers
  that keep it out of frames and caches; a body with an access token is not to be stored.
\<close>

definition response_ok :: "norm_response \<Rightarrow> bool" where
  "response_ok r \<longleftrightarrow>
     np_setCookies r = []
     \<and> (case np_redirect r of
          Some u \<Rightarrow> np_status r = 302 \<and> np_body r = No_body \<and> map_of (np_headers r) ''location'' = Some u
        | None \<Rightarrow> np_body r \<noteq> No_body)
     \<and> (\<forall>page. np_body r = Html page \<longrightarrow> np_headers r = CONSENT_HEADERS)
     \<and> (\<forall>kvs. np_body r = Json (Obj kvs) \<longrightarrow> map_of kvs ''access_token'' \<noteq> None \<longrightarrow>
           map_of (np_headers r) ''cache-control'' = Some ''no-store'')"

lemma error_response_shape:
  assumes "oauthErrorResponse svc e ch = Inr r"
  obtains (redirected) u where "r = redirect_to 302 [(''location'', u)] u"
  | (direct) headers where "r = respond (status e) headers (Json (error_body e))"
  using assms by (auto simp: oauthErrorResponse_def result_simps split: option.splits prod.splits bool.splits)

lemma error_body_ok [simp]: "error_body e = Obj kvs \<Longrightarrow> map_of kvs ''access_token'' = None"
  by (auto simp: error_body_def oauthErrorBody_def)

lemma error_response_ok: "oauthErrorResponse svc e ch = Inr r \<Longrightarrow> response_ok r"
  by (erule error_response_shape) (auto simp: response_ok_def redirect_to_def respond_def)

lemma challenged_ok: "oauthErrorResponse svc e ch = Inr r \<Longrightarrow> response_ok (r\<lparr>np_headers := map_set ''www-authenticate'' v (np_headers r)\<rparr>)"
  by (erule error_response_shape) (auto simp: response_ok_def redirect_to_def respond_def)

abbreviation answers :: "norm_response io \<Rightarrow> bool" where
  "answers m \<equiv> gives (\<lambda>_. True) response_ok (\<lambda>_. True) m"

lemma anything: "gives (\<lambda>_. True) (\<lambda>_. True) (\<lambda>_. True) m"
  by (simp add: gives_within)

lemma answers_error: "answers (error_answer b e)"
  by (simp add: error_answer_def gives_lift error_response_ok)

lemma answers_answered: "(\<And>x. response_ok (f x)) \<Longrightarrow> answers (answered b m f)"
  unfolding answered_def
  by (rule gives_catch [OF gives_andThen [OF anything]]) (simp_all add: answers_error)

lemma answers_token_failure: "answers (token_failure b basic e)"
  by (auto simp: token_failure_def gives_lift result_simps Let_def error_response_ok challenged_ok)

lemma ensures_True: "ensures (\<lambda>_. True) (\<lambda>_. True) m"
  by (induction m) auto

lemma answers_bind: "(\<And>x. answers (f x)) \<Longrightarrow> answers (bind_task m f)"
  unfolding gives_def by (rule ensures_bind [OF ensures_True])

lemma token_answer_ok: "response_ok (token_answer kvs)"
  by (simp add: token_answer_def response_ok_def respond_def)

lemma answers_token: "answers (handleToken b req)"
  unfolding handleToken_def
proof (rule answers_bind)
  fix x :: "(string \<times> jsval) list outcome"
  show "answers (case x of Inl e \<Rightarrow> token_failure b False e
      | Inr body \<Rightarrow> catch (andThen (token_grant b (readHeader (nq_headers req) ''authorization'') (Obj body))
            (\<lambda>response. pass (token_answer response))) (token_failure b (hasBasicAuthorization (nq_headers req))))"
    by (auto split: sum.split simp: answers_token_failure token_answer_ok
        intro!: gives_catch [where E = "\<lambda>_. True"] gives_andThen [OF anything])
qed

lemma metadata_ok:
  "response_ok (handleAuthorizationServerMetadata b)" "response_ok (handleProtectedResourceMetadata b)" "response_ok (handleJwks b)"
  by (simp_all add: handleAuthorizationServerMetadata_def handleProtectedResourceMetadata_def handleJwks_def response_ok_def
      respond_def authorizationServerMetadata_def protectedResourceMetadata_def jwks_def Let_def)

lemma answers_authorize: "answers (handleAuthorize b req who)"
  unfolding handleAuthorize_def by (rule answers_answered) (simp add: response_ok_def respond_def)

lemma answers_serve: "answers (serve b h r req)"
proof (cases r)
  case Register
  then show ?thesis unfolding serve_def handleRegister_def
    by (simp add: answers_answered response_ok_def respond_def registered_body_def)
next
  case Authorize_get
  have "answers (lift (oauthErrorResponse (br_auth b) e None))" for e
    by (simp add: gives_lift error_response_ok)
  then show ?thesis using Authorize_get unfolding serve_def authorize_route_def
    by (auto intro!: answers_bind split: sum.split simp: answers_authorize)
next
  case Approve
  have "response_ok (approve_answer x)" for x
    by (simp add: response_ok_def redirect_to_def approve_answer_def noStoreHeaders_def map_set_def)
  with Approve show ?thesis unfolding serve_def handleApprove_def by (simp add: answers_answered)
next
  case Revoke
  then show ?thesis unfolding serve_def handleRevoke_def
    by (simp add: answers_answered response_ok_def respond_def)
qed (simp_all add: serve_def metadata_ok answers_token)

text \<open>What is put on the wire for a page.\<close>

lemma consent_headers_sent:
  "map_of (foldl (\<lambda>out (key, value). map_set (lower_case key) value out) [] CONSENT_HEADERS) ''x-frame-options'' = Some ''DENY''"
  "map_of (foldl (\<lambda>out (key, value). map_set (lower_case key) value out) [] CONSENT_HEADERS) ''cache-control'' = Some ''no-store''"
  by code_simp+

lemma page_sent:
  assumes "response_ok r" and "sr_body (send_response r) = Html page"
  shows "map_of (sr_headers (send_response r)) ''x-frame-options'' = Some ''DENY''
    \<and> map_of (sr_headers (send_response r)) ''cache-control'' = Some ''no-store''"
proof -
  have html: "np_body r = Html page" and no: "np_redirect r = None \<or> np_redirect r = Some []"
    using assms(2) by (auto simp: send_response_def Let_def split: option.splits list.splits response_body.splits if_split_asm)
  have h: "np_headers r = CONSENT_HEADERS" "np_setCookies r = []" using assms(1) html by (auto simp: response_ok_def)
  have "sr_headers (send_response r) = foldl (\<lambda>out (key, value). map_set (lower_case key) value out) [] CONSENT_HEADERS"
    using html no h by (auto simp: send_response_def Let_def)
  then show ?thesis using consent_headers_sent by simp
qed

text \<open>
  C38. Every response of the application is the fixed answer to an oversized body or well formed: redirects are 302 to
  their own \<open>location\<close> and empty, a body with tokens is not to be stored, and a page leaves with the headers
  against framing and caching.
\<close>

theorem responses_well_formed:
  assumes "app_response pf b h clientIp raw = Some m" and "perform env m w = (Inr r, tr, au, w')"
  shows "r = payloadTooLarge
    \<or> response_ok r
      \<and> (\<forall>page. sr_body (send_response r) = Html page \<longrightarrow>
          map_of (sr_headers (send_response r)) ''x-frame-options'' = Some ''DENY''
          \<and> map_of (sr_headers (send_response r)) ''cache-control'' = Some ''no-store'')"
proof -
  have bad: "response_ok invalidRequest" by (simp add: invalidRequest_def response_ok_def respond_def)
  let ?good = "\<lambda>r. r = payloadTooLarge \<or> response_ok r"
  have served: "gives (\<lambda>_. True) ?good (\<lambda>_. True) (serve b h route req)" for route req
    by (rule gives_mono [OF answers_serve]) auto
  have limited: "gives (\<lambda>_. True) ?good (\<lambda>_. True) (honoOAuthBodyLimit pf raw (serve b h route req))" for route req
    using served bad by (simp add: honoOAuthBodyLimit_def split: option.split)
  have "gives (\<lambda>_. True) ?good (\<lambda>_. True) m"
    using assms(1) served limited
    by (auto simp: app_response_def Let_def split: if_split_asm sum.split_asm)
  from gives_perform [OF this assms(2)] have "?good r" by simp
  then show ?thesis using page_sent by blast
qed

subsection \<open>Single use across the routes\<close>

text \<open>A served request is remembered with its response.\<close>

type_synonym served = "(route \<times> norm_request) \<times> norm_response outcome"

definition served :: "bridge \<Rightarrow> string \<Rightarrow> route \<times> norm_request \<Rightarrow> served task" where
  "served b h request = bind_task (serve b h (fst request) (snd request)) (\<lambda>r. Return (request, r))"

definition code_granted :: "string \<Rightarrow> served \<Rightarrow> bool" where
  "code_granted raw s =
     (case s of ((r, req), answer) \<Rightarrow>
        r = Token \<and> formField (nq_body req) ''grant_type'' = Some ''authorization_code''
        \<and> formField (nq_body req) ''code'' = Some raw \<and> granted answer)"

definition refresh_granted :: "string \<Rightarrow> served \<Rightarrow> bool" where
  "refresh_granted raw s =
     (case s of ((r, req), answer) \<Rightarrow>
        r = Token \<and> formField (nq_body req) ''grant_type'' = Some ''refresh_token''
        \<and> formField (nq_body req) ''refresh_token'' = Some raw \<and> granted answer)"

lemma served_pays:
  assumes "\<And>req. presents req \<Longrightarrow> \<not> free_win hit granted (handleToken b req)"
    and "\<And>r req answer. good ((r, req), answer) \<longleftrightarrow> r = Token \<and> presents req \<and> granted answer"
  shows "\<not> free_win hit good (served b h request)"
proof
  obtain r req where request: "request = (r, req)" by (cases request)
  assume "free_win hit good (served b h request)"
  then obtain x where x: "free_win hit ((=) x) (serve b h r req)" "good (request, x)"
    unfolding served_def free_win_bind by (auto simp: request)
  then have "r = Token" "presents req" "granted x" using assms(2) request by simp_all
  moreover have "free_win hit granted (serve b h r req)"
    by (rule free_win_mono [OF x(1)]) (use \<open>granted x\<close> in simp)
  ultimately show False using assms(1) by (simp add: serve_def)
qed

text \<open>
  C6. An authorization code is answered with tokens at most once by the whole server: however any requests to
  any routes are interleaved, port call by port call, and however the ports, the clock and the randomness
  answer, as long as no approval draws that very code again.
\<close>

theorem server_code_single_use:
  assumes "list_all (\<lambda>(c, r). \<not> mints_code (sha256Hex raw) c)
      (fst (snd (interleave (memory_env other) picks (map (served b h) requests) w)))"
  shows "won (code_granted raw) (fst (interleave (memory_env other) picks (map (served b h) requests) w))
    \<le> outstanding (sha256Hex raw) (w_store w)"
proof (rule code_store.won_bounded_trace [OF _ assms])
  have "\<not> free_win (spends_code (sha256Hex raw)) (code_granted raw) (served b h request)" for request
    by (rule served_pays [where presents = "\<lambda>req. formField (nq_body req) ''grant_type'' = Some ''authorization_code''
            \<and> formField (nq_body req) ''code'' = Some raw"])
      (use code_request_pays in \<open>auto simp: code_granted_def\<close>)
  then show "list_all (\<lambda>t. \<not> free_win (spends_code (sha256Hex raw)) (code_granted raw) t) (map (served b h) requests)"
    by (simp add: list_all_iff)
qed simp

text \<open>
  C7. A refresh token is answered with tokens at most once by the whole server, under the same interleavings.
\<close>

theorem server_refresh_single_use:
  assumes "reachable (w_store w)"
    and "list_all (\<lambda>(c, r). \<not> mints_token (sha256Hex raw) c)
      (fst (snd (interleave (memory_env other) picks (map (served b h) requests) w)))"
  shows "won (refresh_granted raw) (fst (interleave (memory_env other) picks (map (served b h) requests) w))
    \<le> unconsumed (sha256Hex raw) (w_store w)"
proof (rule token_store.won_bounded_trace [OF reachable_wf [OF assms(1)] assms(2)])
  have "\<not> free_win (spends_token (sha256Hex raw)) (refresh_granted raw) (served b h request)" for request
    by (rule served_pays [where presents = "\<lambda>req. formField (nq_body req) ''grant_type'' = Some ''refresh_token''
            \<and> formField (nq_body req) ''refresh_token'' = Some raw"])
      (use refresh_request_pays in \<open>auto simp: refresh_granted_def\<close>)
  then show "list_all (\<lambda>t. \<not> free_win (spends_token (sha256Hex raw)) (refresh_granted raw) t) (map (served b h) requests)"
    by (simp add: list_all_iff)
qed

end
