(* ===== verification/Token_Runs.thy ===== *)
theory Token_Runs
  imports Token_Grants Machine_Laws
begin

section \<open>Concrete runs of the token endpoint\<close>

text \<open>
  A scripted environment and one request per grant, run to the end: the hypotheses of the properties of
  \<open>Token_Grants\<close> hold there. The world counts draws: a family identifier takes 18 bytes, a token 32.
\<close>

definition demo_verifier :: string where "demo_verifier = replicate 43 (CHR ''v'')"

definition demo_code_row :: AuthCodeRecord where
  "demo_code_row =
     \<lparr>ac_codeHash = replicate 64 (CHR ''a''), ac_clientId = ''mcpdc_1'', ac_subject = ''user-1'',
      ac_redirectUri = ''https://app.example/cb'', ac_resource = ''https://app.example/cb'', ac_scopes = [''read''],
      ac_codeChallenge = pkceChallenge demo_verifier, ac_codeChallengeMethod = ''S256'',
      ac_expiresAt = ''2026-07-03T13:00:00.000Z'', ac_grantGeneration = Some 1\<rparr>"

definition demo_token_row :: RefreshTokenRecord where
  "demo_token_row =
     \<lparr>tk_tokenHash = replicate 64 (CHR ''b''), tk_familyId = base64url (replicate 18 (CHR ''A'')), tk_previousTokenHash = None,
      tk_clientId = ''mcpdc_1'', tk_subject = ''user-1'', tk_resource = Some ''https://app.example/cb'',
      tk_scopes = [''read''], tk_expiresAt = ''2026-07-03T13:00:00.000Z'', tk_grantGeneration = Some 1\<rparr>"

definition any_jose :: jose where
  "any_jose = \<lparr>jose_sign = (\<lambda>k h p. Inr ''jwt''), jose_verify = (\<lambda>t k opts. Inl (Thrown ''Error'' ''unused''))\<rparr>"

definition demo_service :: token_service where
  "demo_service = \<lparr>ts_config = demo_config, ts_jose = any_jose, ts_parseUrl = demo_parser, ts_decodeBase64 = (\<lambda>s. s)\<rparr>"

definition known_machine :: machine_client where
  "known_machine = demo_machine\<lparr>mc_status := Active_client [\<lparr>cs_hash = sha256Hex ''s3cret'', cs_createdAtEpoch = 1600000000,
      cs_expiresAtEpoch = None\<rparr>]\<rparr>"

definition script_env :: "nat env" where
  "script_env =
     \<lparr>on_call = (\<lambda>c n. (Inr (case c of
          StorePort (Consume_code h t g r) \<Rightarrow> code_value demo_code_row
        | StorePort (Rotate_token h i t g r) \<Rightarrow> token_value demo_token_row
        | FindClient cid \<Rightarrow> machine_value known_machine
        | _ \<Rightarrow> Undefined), n)),
      on_clock = (\<lambda>n. (Reads (Whole 1700000000000), n)),
      on_random = (\<lambda>n. (RandomBytes (replicate (if n = 0 then 18 else 32) (CHR ''A'')), Suc n))\<rparr>"

lemma script_calls [simp]:
  "on_call script_env (StorePort (Consume_code h t g r)) n = (Inr (code_value demo_code_row), n)"
  "on_call script_env (StorePort (Rotate_token h i t g r)) n = (Inr (token_value demo_token_row), n)"
  "on_call script_env (StorePort (Save_token i)) n = (Inr Undefined, n)"
  "on_call script_env (StorePort (Revoke_family f t er)) n = (Inr Undefined, n)"
  "on_call script_env (FindClient cid) n = (Inr (machine_value known_machine), n)"
  "on_clock script_env n = (Reads (Whole 1700000000000), n)"
  "on_random script_env n = (RandomBytes (replicate (if n = 0 then 18 else 32) (CHR ''A'')), Suc n)"
  by (simp_all add: script_env_def)

definition code_record :: SaveAuthCodeInput where
  "code_record = \<lparr>ac_codeHash = ac_codeHash demo_code_row, ac_clientId = ''mcpdc_1'', ac_subject = ''user-1'',
      ac_redirectUri = ''https://app.example/cb'', ac_resource = ''https://app.example/cb'', ac_scopes = [''read''],
      ac_codeChallenge = pkceChallenge demo_verifier, ac_codeChallengeMethod = ''S256'',
      ac_expiresAt = ''2026-07-03T13:00:00.000Z'', ac_grantGeneration = Number (Whole 1)\<rparr>"

definition token_record :: RefreshSnapshot where
  "token_record = \<lparr>tk_tokenHash = replicate 64 (CHR ''b''), tk_familyId = base64url (replicate 18 (CHR ''A'')),
      tk_previousTokenHash = None,
      tk_clientId = ''mcpdc_1'', tk_subject = ''user-1'', tk_resource = Some ''https://app.example/cb'',
      tk_scopes = [''read''], tk_expiresAt = ''2026-07-03T13:00:00.000Z'', tk_grantGeneration = Number (Whole 1)\<rparr>"

lemma demo_snapshots:
  "snapshotAuthCodeRecord (code_value demo_code_row) = Inr (Some code_record)"
  "snapshotRefreshTokenRecord (token_value demo_token_row) = Inr (Some token_record)"
proof -
  have "pkceChallenge demo_verifier \<noteq> []" using pkceChallenge_form [of demo_verifier] by auto
  then show "snapshotAuthCodeRecord (code_value demo_code_row) = Inr (Some code_record)"
    using demo_subject
    by (simp add: snapshotAuthCodeRecord_def code_value_def requiredRecord_def own_Cons demo_code_row_def code_record_def
        nonEmptyString_def str_of_def validIdentitySubject_def subject_ok_def snapshotStringArray_def snapshotPortScopeCarrier_def
        MAX_SCOPE_ENTRIES_def validGrantGeneration_def generation_input_def safe_int_def MAX_SAFE_INTEGER_def)
  have "base64url (replicate 18 CHR ''A'') \<noteq> []" using length_base64url [of "replicate 18 CHR ''A''"] by auto
  then show "snapshotRefreshTokenRecord (token_value demo_token_row) = Inr (Some token_record)"
    using demo_subject
    by (simp add: snapshotRefreshTokenRecord_def token_value_def requiredRecord_def own_Cons demo_token_row_def token_record_def
        nonEmptyString_def str_of_def opt_str_of_def nullable_nonempty_def resource_input_def validIdentitySubject_def subject_ok_def
        snapshotStringArray_def snapshotPortScopeCarrier_def MAX_SCOPE_ENTRIES_def validGrantGeneration_def generation_input_def
        safe_int_def MAX_SAFE_INTEGER_def)
qed

lemma demo_config_sel:
  "cfg_resource demo_config = ''https://app.example/cb''" "cfg_dcr demo_config = StoredDcr"
  "cfg_clientCredentials demo_config = Some True" "cfg_scopeCatalog demo_config = [''read'', ''write'']"
  "cfg_accessTokenTtlSeconds demo_config = 600" "cfg_refreshTokenTtlSeconds demo_config = 86400"
  "operation_ttl demo_config = 86400" "expectedStoredDcrGrantGeneration demo_config = Some 1"
  by (simp_all add: demo_config_def operation_ttl_def expectedStoredDcrGrantGeneration_def)

lemma demo_service_sel [simp]:
  "ts_config demo_service = demo_config" "ts_jose demo_service = any_jose" "ts_parseUrl demo_service = demo_parser"
  "ts_decodeBase64 demo_service = (\<lambda>s. s)"
  by (simp_all add: demo_service_def)

lemma demo_instant:
  "finiteClockSnapshot (Reads (Whole 1700000000000)) 86400000 = Inr 1700000000000"
  "finiteClockSnapshot (Reads (Whole 1700000000000)) 600000 = Inr 1700000000000"
  "canonical 1700000000000"
  by (simp_all add: finiteClockSnapshot_Inr canonical_def safe_int_def MAX_SAFE_INTEGER_def MIN_CANONICAL_MS_def
      MAX_CANONICAL_MS_def)

lemma demo_response:
  "subject_ok sub \<Longrightarrow> signAccessToken any_jose \<lparr>at_subject = sub, at_clientId = cid, at_scopes = [''read''], at_machine = m\<rparr>
     demo_config (fixedClockSnapshot 1700000000000) = Inr ''jwt''"
  "storedScopes (Arr (map Str [''read''])) [''read'', ''write''] = Inr [''read'']"
  by (simp_all add: signAccessToken_Inr fixedClockSnapshot_def nowSeconds_Inr demo_config_sel canonical_def MIN_CANONICAL_MS_def
      MAX_CANONICAL_MS_def safe_int_def MAX_SAFE_INTEGER_def any_jose_def storedScopes_def scope_evals MAX_SCOPE_ENTRIES_def)

subsection \<open>The code exchange\<close>

definition demo_code_input :: code_input where
  "demo_code_input =
     \<lparr>ci_grantType = Some ''authorization_code'', ci_code = Some ''c0de'', ci_redirectUri = Some ''https://app.example/cb'',
      ci_clientId = Some ''mcpdc_1'', ci_codeVerifier = Some demo_verifier\<rparr>"

lemma demo_redirect_ok: "assertOAuthRedirectEntry demo_parser (Str ''https://app.example/cb'') = Inr ''https://app.example/cb''"
  by code_simp

lemma demo_verifier_ok: "demo_verifier \<noteq> []" "verifyPkceS256 demo_verifier (pkceChallenge demo_verifier)"
proof -
  have v: "list_all is_verifier_char demo_verifier" "length demo_verifier = 43" by code_simp+
  with pkceChallenge_form [of demo_verifier] show "verifyPkceS256 demo_verifier (pkceChallenge demo_verifier)"
    by (simp add: verifyPkceS256_def)
  from v(2) show "demo_verifier \<noteq> []" by auto
qed

lemma demo_code_checked: "check_code demo_service demo_code_input (Some code_record) = Inr code_record"
  using demo_redirect_ok demo_verifier_ok
  by (simp add: check_code_Inr demo_config_sel code_record_def demo_code_input_def hasExpectedGrantGeneration_def)

lemma demo_draws:
  "generateRefreshFamilyId (RandomBytes (replicate 18 CHR ''A'')) = Inr (base64url (replicate 18 CHR ''A''))"
  "generateRefreshToken (Some f) r (RandomBytes (replicate 32 CHR ''A'')) = Inr (refresh_token_text f (replicate 32 CHR ''A''))"
  by (simp_all add: generateRefreshFamilyId_def generateRefreshToken_def randomBytesFrom_def)

lemma demo_family: "parseRefreshFamilyId (refresh_token_text (base64url (replicate 18 CHR ''A'')) (replicate 32 CHR ''A''))
    = Some (base64url (replicate 18 CHR ''A''))"
  using base64url_no_dot [OF base64url_ok]
  by (simp add: parse_refresh_token_text is_family_id_def length_base64url base64url_ok)

lemma demo_tokens:
  "\<exists>resp. tokenResponse demo_service ''user-1'' cid [''read''] raw 1700000000000 = Inr (resp, [''read''])"
  using demo_response demo_subject by (simp add: tokenResponse_Inr demo_config_sel)

lemma demo_expiry: "\<exists>x. expiresAtIso (fixedClockSnapshot 1700000000000) 86400 = Inr x"
  by (simp add: expiresAtIso_def fixedClockSnapshot_def demo_instant)

lemma demo_exchange:
  "\<exists>resp tr au n. perform script_env (exchangeAuthorizationCode demo_service demo_code_input) 0 = (Inr resp, tr, au, n)"
proof -
  obtain resp where r: "tokenResponse demo_service ''user-1'' ''mcpdc_1'' [''read'']
      (refresh_token_text (base64url (replicate 18 CHR ''A'')) (replicate 32 CHR ''A'')) 1700000000000 = Inr (resp, [''read''])"
    using demo_tokens by blast
  obtain x where x: "expiresAtIso (fixedClockSnapshot 1700000000000) 86400 = Inr x" using demo_expiry by blast
  have c: "ci_grantType demo_code_input = Some ''authorization_code''" "ci_code demo_code_input = Some ''c0de''"
    by (simp_all add: demo_code_input_def)
  have k: "ac_subject code_record = ''user-1''" "ac_clientId code_record = ''mcpdc_1''" "ac_scopes code_record = [''read'']"
    by (simp_all add: code_record_def)
  show ?thesis
    by (simp add: exchangeAuthorizationCode_def consumeValidCode_def issue_for_code_def drawRefreshToken_def saveFirstToken_def
        readClock_def askPort_def lift_def check_def pass_def demo_config_sel demo_instant c k requiredStr_def demo_snapshots
        demo_code_checked demo_draws demo_family r x)
qed

theorem code_exchange_bound_witness:
  "\<exists>(resp :: user_response) (tr :: trace) rec v fid scopes x ok. snapshotAuthCodeRecord v = Inr (Some rec) \<and> ac_resource rec = cfg_resource demo_config
     \<and> verifyPkceS256 demo_verifier (ac_codeChallenge rec)
     \<and> (StorePort (Save_token (first_token rec (rs_refresh_token resp) fid scopes x)), Inr ok) \<in> set tr"
proof -
  from demo_exchange obtain resp tr au n
    where "perform script_env (exchangeAuthorizationCode demo_service demo_code_input) 0 = (Inr resp, tr, au, n)" by blast
  from code_exchange_bound [OF this] show ?thesis
    unfolding demo_code_input_def code_input.select_convs option.inject demo_service_sel by blast
qed

subsection \<open>The refresh\<close>

definition demo_raw :: string where
  "demo_raw = refresh_token_text (base64url (replicate 18 CHR ''A'')) (replicate 32 CHR ''A'')"

definition demo_refresh_input :: "string \<Rightarrow> refresh_input" where
  "demo_refresh_input cid =
     \<lparr>ri_grantType = Some ''refresh_token'', ri_refreshToken = Some demo_raw, ri_clientId = Some cid\<rparr>"

lemma demo_raw_family: "parseRefreshFamilyId demo_raw = Some (base64url (replicate 18 CHR ''A''))"
  by (simp add: demo_raw_def demo_family)

lemma demo_raw_nonempty: "demo_raw \<noteq> []"
  using demo_raw_family by (auto simp: parseRefreshFamilyId_def)

lemma demo_row_checked:
  "check_rotated demo_service (demo_refresh_input ''mcpdc_1'') token_record = Inr ()"
  "check_rotated demo_service (demo_refresh_input ''intruder'') token_record
     = Inl (invalid_grant ''Refresh token client binding is invalid'')"
  by (simp_all add: check_rotated_def demo_config_sel demo_refresh_input_def token_record_def hasExpectedGrantGeneration_def)

lemma demo_refresh_steps:
  "ri_grantType (demo_refresh_input cid) = Some ''refresh_token''" "ri_refreshToken (demo_refresh_input cid) = Some demo_raw"
  "tk_subject token_record = ''user-1''" "tk_clientId token_record = ''mcpdc_1''" "tk_scopes token_record = [''read'']"
  by (simp_all add: demo_refresh_input_def token_record_def)

lemma demo_refresh:
  "\<exists>resp tr au n. perform script_env (refresh demo_service (demo_refresh_input ''mcpdc_1'')) 1 = (Inr resp, tr, au, n)"
  "\<exists>e nxt at g er q tr au n. perform script_env (refresh demo_service (demo_refresh_input ''intruder'')) 1 = (Inl e, tr, au, n)
     \<and> tk_familyId nxt = base64url (replicate 18 CHR ''A'')
     \<and> (StorePort (Rotate_token (sha256Hex demo_raw) nxt at g er), q) \<in> set tr \<and> q \<noteq> Inr Null"
proof -
  obtain resp where r: "tokenResponse demo_service ''user-1'' ''mcpdc_1'' [''read'']
      (refresh_token_text (base64url (replicate 18 CHR ''A'')) (replicate 32 CHR ''A'')) 1700000000000 = Inr (resp, [''read''])"
    using demo_tokens by blast
  obtain x where x: "expiresAtIso (fixedClockSnapshot 1700000000000) 86400 = Inr x" using demo_expiry by blast
  note run = refresh_def refreshGrant_def drawRefreshToken_def rotateRefreshTokenSnapshot_def issue_for_refresh_def revokeFamily_def
    readClock_def askPort_def lift_def check_def pass_def fail_def demo_config_sel demo_instant demo_refresh_steps requiredStr_def
    demo_snapshots demo_row_checked demo_draws demo_raw_family demo_raw_nonempty
  show "\<exists>resp tr au n. perform script_env (refresh demo_service (demo_refresh_input ''mcpdc_1'')) 1 = (Inr resp, tr, au, n)"
    by (simp add: run r x)
  show "\<exists>e nxt at g er q tr au n. perform script_env (refresh demo_service (demo_refresh_input ''intruder'')) 1 = (Inl e, tr, au, n)
     \<and> tk_familyId nxt = base64url (replicate 18 CHR ''A'')
     \<and> (StorePort (Rotate_token (sha256Hex demo_raw) nxt at g er), q) \<in> set tr \<and> q \<noteq> Inr Null"
    by (simp add: run x) (auto simp: successor_token_def)
qed

theorem refresh_bound_witness:
  "\<exists>t (resp :: user_response) v row scopes. snapshotRefreshTokenRecord v = Inr (Some row) \<and> tk_clientId row = ''mcpdc_1''
     \<and> tokens_for demo_service t resp (tk_subject row) (tk_clientId row) (tk_scopes row) scopes"
proof -
  from demo_refresh(1) obtain resp tr au n
    where "perform script_env (refresh demo_service (demo_refresh_input ''mcpdc_1'')) 1 = (Inr resp, tr, au, n)" by blast
  from refresh_bound [OF this] show ?thesis
    unfolding demo_refresh_input_def refresh_input.select_convs option.inject by metis
qed

theorem refresh_failure_revokes_witness:
  "\<exists>e tr au n at q. perform script_env (refresh demo_service (demo_refresh_input ''intruder'')) 1 = (Inl e, tr, au, n)
     \<and> (StorePort (Revoke_family (base64url (replicate 18 CHR ''A'')) at None), q) \<in> set tr"
proof -
  from demo_refresh(2) obtain e nxt at g er q tr au n where
    "perform script_env (refresh demo_service (demo_refresh_input ''intruder'')) 1 = (Inl e, tr, au, n)"
    "tk_familyId nxt = base64url (replicate 18 CHR ''A'')"
    "(StorePort (Rotate_token (sha256Hex demo_raw) nxt at g er), q) \<in> set tr" "q \<noteq> Inr Null" by blast
  with refresh_failure_revokes [OF this(1,3,4)] show ?thesis by metis
qed

subsection \<open>The machine grant\<close>

lemma known_machine_ok: "client_ok demo_parser known_machine" "writable_at t known_machine"
  using demo_machine_ok(1) demo_machine_ok(2) [of t] sha256Hex_lower [of "''s3cret''"]
  by (simp_all add: client_ok_def known_machine_def writable_at_def secrets_ok_def secret_ok_def permanent_def secret_live_def
      demo_machine_def)

lemma known_machine_judged:
  "judge_machine_client demo_parser ''https://app.example/cb'' ''mcc_demo'' ''s3cret'' 1700000000 (machine_value known_machine)
     = Some known_machine"
proof -
  have "parseMachineClientRegistration demo_parser (machine_value known_machine) ''mcc_demo'' 1700000000 = Some known_machine"
    using parse_written [OF known_machine_ok demo_epoch] by (simp add: known_machine_def demo_machine_def)
  moreover have "secret_live 1700000000 \<lparr>cs_hash = sha256Hex ''s3cret'', cs_createdAtEpoch = 1600000000, cs_expiresAtEpoch = None\<rparr>"
    by (simp add: secret_live_def)
  ultimately show ?thesis by (simp add: judge_iff) (simp add: known_machine_def demo_machine_def)
qed

definition demo_machine_input :: client_credentials_input where
  "demo_machine_input =
     \<lparr>cred_grantType = Some ''client_credentials'', cred_authorization = None, cred_clientId = Some ''mcc_demo'',
      cred_clientSecret = Some ''s3cret'', cred_scope = None, cred_resource = None\<rparr>"

lemma demo_machine_scopes:
  "resolveClientCredentialsScope (opt_value None) (Arr (map Str [''read''])) [''read'', ''write''] = Inr [''read'']"
  by (simp add: resolveClientCredentialsScope_def opt_value_def scope_evals push_new_def)

lemma demo_machine_request:
  "presented_client demo_service demo_machine_input = (Some ''mcc_demo'', Some ''s3cret'')"
  "\<not> isBasicAttempt (cred_authorization demo_machine_input)" "mc_allowedScopes known_machine = [''read'']"
  "cred_grantType demo_machine_input = Some ''client_credentials''" "cred_scope demo_machine_input = None"
  "cred_resource demo_machine_input = None"
  by (simp_all add: presented_client_def demo_machine_input_def parseBasicAuth_def isBasicAttempt_def known_machine_def
      demo_machine_def)

lemma demo_authenticated:
  "perform script_env (authenticateMachineClientSecret demo_parser ''https://app.example/cb'' (fixedClockSnapshot 1700000000000)
      ''mcc_demo'' ''s3cret'') 0
     = (Inr (Some known_machine), [(FindClient ''mcc_demo'', Inr (machine_value known_machine))], [], 0)"
  by (simp add: authenticateMachineClientSecret_def askPort_def demo_instant known_machine_judged)

lemma demo_machine_grant:
  "\<exists>resp tr au n. perform script_env (exchangeClientCredentials demo_service demo_machine_input) 0 = (Inr resp, tr, au, n)"
proof -
  have "subject_ok ''mcc_demo''" by code_simp
  note signed = demo_response(1) [OF this, of "''mcc_demo''" True]
  show ?thesis
    unfolding exchangeClientCredentials_def machineGrant_def Let_def demo_machine_request demo_service_sel demo_config_sel catch_def
    by (simp add: readClock_def demo_instant perform_bind andThen_run [OF demo_authenticated] lift_def check_def pass_def
        present_def demo_machine_request demo_machine_scopes [simplified] signed demo_config_sel)
qed

theorem machine_grant_bound_witness:
  "\<exists>row c ms. judge_machine_client demo_parser ''https://app.example/cb'' ''mcc_demo'' ''s3cret'' (ms div 1000) row = Some c"
proof -
  from demo_machine_grant obtain resp tr au n
    where "perform script_env (exchangeClientCredentials demo_service demo_machine_input) 0 = (Inr resp, tr, au, n)" by blast
  from machine_grant_bound [OF this] have "\<exists>cid secret row c ms. presented_client demo_service demo_machine_input = (Some cid, Some secret)
     \<and> judge_machine_client demo_parser ''https://app.example/cb'' cid secret (ms div 1000) row = Some c"
    unfolding demo_service_sel demo_config_sel by blast
  then show ?thesis by (auto simp: presented_client_def demo_machine_input_def parseBasicAuth_def)
qed

subsection \<open>Over the reference store\<close>

definition demo_saved :: SaveRefreshTokenInput where
  "demo_saved =
     \<lparr>tk_tokenHash = sha256Hex demo_raw, tk_familyId = base64url (replicate 18 CHR ''A''), tk_previousTokenHash = None,
      tk_clientId = ''mcpdc_1'', tk_subject = ''user-1'', tk_resource = Str ''https://app.example/cb'',
      tk_scopes = [''read''], tk_expiresAt = ''2026-07-03T13:00:00.000Z'', tk_grantGeneration = Undefined\<rparr>"

definition demo_world :: world where
  "demo_world =
     \<lparr>w_store = snd (run [Save_token demo_saved] (createMemoryStore ''demo'')),
      w_clock = [Reads (Whole 1700000000000)], w_random = [RandomBytes (replicate 32 (CHR ''A''))]\<rparr>"

definition demo_ports :: "port_call \<Rightarrow> jsval outcome" where "demo_ports c = Inr Undefined"

lemma demo_world_reachable: "reachable (w_store demo_world)"
  unfolding demo_world_def world.select_convs by (rule reachable_run) (rule start)

lemma demo_world_store:
  "w_store demo_world =
     (createMemoryStore ''demo'')\<lparr>
        families := map_set (tk_familyId demo_saved)
          \<lparr>revokedAt = None, fam_grantGeneration = Some 1, fam_resource = Some ''https://app.example/cb''\<rparr> [],
        refreshTokens := map_set (sha256Hex demo_raw) (stored_row demo_saved) []\<rparr>"
proof -
  have u: "is_utc_iso ''2026-07-03T13:00:00.000Z''" by code_simp
  have h: "is_sha256_hex (sha256Hex demo_raw)" by (simp add: is_sha256_hex_def sha256Hex_hex)
  have r: "trim ''https://app.example/cb'' \<noteq> []" "''https://app.example/cb'' \<noteq> UNBOUND_REFRESH_RESOURCE" by code_simp+
  have n: "normalizeRefreshTokenWrite demo_saved = Inr demo_saved"
    using r by (auto simp: normalizeRefreshTokenWrite_Inr demo_saved_def)
  have v: "validateRefreshToken demo_saved True = Inr ()"
    using u h r(1) demo_subject by (simp add: validateRefreshToken_Inr demo_saved_def)
  show ?thesis
    using n v by (simp add: demo_world_def saveRefreshToken_def createMemoryStore_def map_has_def Let_def stored_row_def demo_saved_def
        grantGenerationForWrite_def STORED_DCR_GRANT_GENERATION_def)
qed

lemma demo_world_row: "map_of (refreshTokens (w_store demo_world)) (sha256Hex demo_raw) = Some (stored_row demo_saved)"
  unfolding demo_world_store by simp

theorem concurrent_refreshes_single_use_witness:
  "\<forall>picks. finished (fst (interleave (memory_env demo_ports) picks
       (map (\<lambda>input. refresh demo_service (input\<lparr>ri_refreshToken := Some demo_raw\<rparr>))
          [demo_refresh_input ''mcpdc_1'', demo_refresh_input ''mcpdc_1'']) demo_world)) \<le> 1"
proof
  fix picks
  have "unconsumed (sha256Hex demo_raw) (w_store demo_world) \<le> 1" by (rule stock_le_1)
  with concurrent_refreshes_single_use [OF demo_world_reachable, of demo_ports picks demo_service demo_raw
      "[demo_refresh_input ''mcpdc_1'', demo_refresh_input ''mcpdc_1'']"]
  show "finished (fst (interleave (memory_env demo_ports) picks
       (map (\<lambda>input. refresh demo_service (input\<lparr>ri_refreshToken := Some demo_raw\<rparr>))
          [demo_refresh_input ''mcpdc_1'', demo_refresh_input ''mcpdc_1'']) demo_world)) \<le> 1" by simp
qed

lemma demo_find:
  "findRefreshToken (sha256Hex demo_raw) (w_store demo_world) = (Inr (Some (toRecord (stored_row demo_saved))), w_store demo_world)"
  using demo_subject demo_world_row
  by (simp add: findRefreshToken_def del: map_of_eq_Some_iff) (simp add: demo_world_store createMemoryStore_def stored_row_def demo_saved_def)

definition demo_record :: RefreshSnapshot where
  "demo_record = \<lparr>tk_tokenHash = sha256Hex demo_raw, tk_familyId = base64url (replicate 18 (CHR ''A'')),
      tk_previousTokenHash = None,
      tk_clientId = ''mcpdc_1'', tk_subject = ''user-1'', tk_resource = Some ''https://app.example/cb'',
      tk_scopes = [''read''], tk_expiresAt = ''2026-07-03T13:00:00.000Z'', tk_grantGeneration = Number (Whole 1)\<rparr>"

lemma demo_find_snapshot: "snapshotRefreshTokenRecord (token_value (toRecord (stored_row demo_saved))) = Inr (Some demo_record)"
proof -
  have "base64url (replicate 18 CHR ''A'') \<noteq> []" "sha256Hex demo_raw \<noteq> []"
    using length_base64url [of "replicate 18 CHR ''A''"] length_sha256Hex [of demo_raw] by (auto simp del: length_sha256Hex)
  then show ?thesis
    using demo_subject
    by (simp add: snapshotRefreshTokenRecord_def token_value_def requiredRecord_def own_Cons toRecord_def stored_row_def demo_saved_def
        demo_record_def nonEmptyString_def str_of_def opt_str_of_def nullable_nonempty_def resource_input_def validIdentitySubject_def
        subject_ok_def snapshotStringArray_def snapshotPortScopeCarrier_def MAX_SCOPE_ENTRIES_def validGrantGeneration_def
        generation_input_def grantGenerationForWrite_def STORED_DCR_GRANT_GENERATION_def safe_int_def MAX_SAFE_INTEGER_def)
qed

lemma demo_revoke:
  "\<exists>s. revokeRefreshTokenFamily (base64url (replicate 18 CHR ''A'')) (toISOString 1700000000000) (Some ''https://app.example/cb'')
     (w_store demo_world) = (Inr (), s)"
proof -
  have "trim ''https://app.example/cb'' \<noteq> []" by code_simp
  with toISOString_utc [OF demo_instant(3)] show ?thesis
    by (simp add: revokeRefreshTokenFamily_def demo_world_store createMemoryStore_def demo_saved_def assertRefreshResource_def)
qed

lemma demo_revocation:
  "\<exists>tr au w1. perform (memory_env demo_ports) (revokeRefreshToken ''https://app.example/cb'' (Some demo_raw)) demo_world
     = (Inr (), tr, au, w1)"
proof -
  obtain s where r: "revokeRefreshTokenFamily (base64url (replicate 18 CHR ''A'')) (toISOString 1700000000000)
      (Some ''https://app.example/cb'') (w_store demo_world) = (Inr (), s)" using demo_revoke by blast
  have c: "on_clock (memory_env demo_ports) demo_world = (Reads (Whole 1700000000000), demo_world)"
    by (simp add: memory_env_def demo_world_def next_of_def)
  have t: "finiteClockSnapshot (Reads (Whole 1700000000000)) 0 = Inr 1700000000000"
    using demo_instant(3) fixedClock_finite [of 1700000000000] by (simp add: fixedClockSnapshot_def)
  show ?thesis
    by (simp add: revokeRefreshToken_def find_and_revoke_def revokeFamily_def readClock_def askPort_def pass_def c t demo_find r
        demo_find_snapshot demo_raw_nonempty demo_record_def)
qed

theorem revocation_is_final_witness:
  "\<exists>tr au w1. perform (memory_env demo_ports) (revokeRefreshToken ''https://app.example/cb'' (Some demo_raw)) demo_world
       = (Inr (), tr, au, w1)
     \<and> (\<forall>resp tr' au' w'. perform (memory_env demo_ports)
          (refresh demo_service (demo_refresh_input ''mcpdc_1'' \<lparr>ri_refreshToken := Some demo_raw\<rparr>)) w1 \<noteq> (Inr resp, tr', au', w'))"
proof -
  from demo_revocation obtain tr au w1 where
    r: "perform (memory_env demo_ports) (revokeRefreshToken ''https://app.example/cb'' (Some demo_raw)) demo_world = (Inr (), tr, au, w1)"
    by blast
  have "tk_resource (stored_row demo_saved) = Some ''https://app.example/cb''"
    "parseRefreshFamilyId demo_raw = Some (tk_familyId (stored_row demo_saved))"
    by (simp_all add: stored_row_def demo_saved_def demo_raw_family)
  from revocation_is_final [OF demo_world_reachable r demo_world_row this, of "[]" w1] r show ?thesis by auto
qed

end
