(* ===== verification/Authorize_Runs.thy ===== *)
theory Authorize_Runs
  imports Authorize_Laws Token_Runs
begin

section \<open>Concrete runs of the authorization endpoint\<close>

text \<open>
  One registered web client, one user and a scripted store: a request is prepared, refused, approved and
  denied, so that the hypotheses of the properties of \<open>Authorize_Laws\<close> hold there.
\<close>

definition web_client :: jsval where
  "web_client =
     Obj [(''clientId'', Str ''mcpdc_1''), (''applicationType'', Str ''web''),
          (''redirectUris'', Arr [Str ''https://app.example/cb''])]"

definition instance_text :: string where "instance_text = replicate 22 (CHR ''A'')"

definition consent_members :: members where
  "consent_members =
     [(''typ'', Str CONSENT_TYP), (''jti'', Str ''jti-1''), (''client_id'', Str ''mcpdc_1''),
      (''redirect_uri'', Str ''https://app.example/cb''), (''resource'', Str ''https://app.example/cb''),
      (''scope'', Str ''read''), (''code_challenge'', Str ''challenge''), (''code_challenge_method'', Str ''S256''),
      (''state'', Str ''s''), (''store_instance'', Str instance_text), (''sub'', Str ''user-1''),
      (''exp'', Number (Whole 1700000300))]"

definition consent_jose :: jose where
  "consent_jose = \<lparr>jose_sign = (\<lambda>k h p. Inr ''jwt''), jose_verify = (\<lambda>t k opts. Inr consent_members)\<rparr>"

definition web_config :: bridge_config where
  "web_config = demo_config\<lparr>cfg_redirectAllowlistMode := Replace\<rparr>"

definition web_service :: authorize_service where
  "web_service =
     \<lparr>az_config = web_config, az_jose = consent_jose, az_parseUrl = demo_parser,
      az_editUrl = (\<lambda>u ps. Some (u @ concat (map fst ps))), az_cimd = None\<rparr>"

definition paired_value :: jsval where
  "paired_value =
     Obj [(''ok'', Boolean True),
          (''identity'', Obj [(''subject'', Str ''user-1''), (''allowedScopes'', Arr [Str ''read''])])]"

definition web_env :: "nat \<Rightarrow> unit env" where
  "web_env n =
     \<lparr>on_call = (\<lambda>c w. (Inr (case c of
          StorePort Get_id \<Rightarrow> Str instance_text
        | StorePort (Granted s cl at g r) \<Rightarrow> Arr [Str ''write'']
        | StorePort (Commit e j x cd) \<Rightarrow> Str ''stored''
        | FindClient cid \<Rightarrow> web_client
        | CheckRate key \<Rightarrow> Boolean True
        | VerifyPairing v \<Rightarrow> paired_value
        | _ \<Rightarrow> Undefined), w)),
      on_clock = (\<lambda>w. (Reads (Whole 1700000000000), w)),
      on_random = (\<lambda>w. (RandomBytes (replicate n (CHR ''A'')), w))\<rparr>"

definition yes_input :: "bool \<Rightarrow> approve_input" where
  "yes_input b = \<lparr>ap_consentToken = Some ''jwt'', ap_approved = Some b, ap_origin = Some ''https://app.example''\<rparr>"

definition web_consent :: verified_consent where
  "web_consent =
     consent_claims.extend
       \<lparr>cc_clientId = ''mcpdc_1'', cc_redirectUri = ''https://app.example/cb'', cc_resource = ''https://app.example/cb'',
        cc_scopes = [''read''], cc_codeChallenge = ''challenge'', cc_state = Some ''s'', cc_subject = ''user-1'',
        cc_allowedScopes = None, cc_cimdVerified = False, cc_storeInstanceId = Some instance_text\<rparr>
       \<lparr>vc_jti = ''jti-1'', vc_expiresAt = toISOString 1700000300000\<rparr>"

lemma web_claims:
  "consentClaims consent_members = Inr (consent_claims.truncate web_consent)"
proof -
  have "identitySubject (Str ''user-1'') = Inr ''user-1''" using demo_subject by (simp add: subject_ok_def)
  moreover have "split_ws ''read'' = [''read'']" by code_simp
  ultimately show ?thesis
    by (simp add: consentClaims_def consent_members_def own_Cons requiredString_def primitiveString_def cimdVerifiedClaim_def
        map_has_def claim_scopes_def claim_ceiling_def stringClaim_def web_consent_def consent_claims.defs own_def instance_text_def)
qed

lemma web_verified:
  "verifyConsentToken consent_jose ''jwt'' web_config (fixedClockSnapshot 1700000000000) = Inr web_consent"
proof -
  have "canonical 1700000000000" "canonical 1700000300000"
    by (simp_all add: canonical_def MIN_CANONICAL_MS_def MAX_CANONICAL_MS_def)
  then show ?thesis
    using web_claims
    by (auto simp: verifyConsentToken_Inr fixedClockSnapshot_def consent_jose_def numericDateIso_Inr)
      (simp_all add: consent_members_def own_Cons requiredString_def web_consent_def consent_claims.defs)
qed

lemma web_live: "\<not> toISOString 1700000300000 \<le> toISOString 1700000000000"
  by (simp add: toISOString_le_iff canonical_def MIN_CANONICAL_MS_def MAX_CANONICAL_MS_def)

lemma web_redirect:
  "parseAuthorizationClientRegistration web_client ''mcpdc_1'' = Some
     \<lparr>cr_clientId = ''mcpdc_1'', cr_redirectUris = [Str ''https://app.example/cb''], cr_applicationType = Web_app\<rparr>"
  "assertAllowedRedirectUri demo_parser (Str ''https://app.example/cb'') [Str ''https://app.example/cb''] Replace
     = Inr ''https://app.example/cb''"
  "assertRedirectAllowedForClient demo_parser (Str ''https://app.example/cb'')
     \<lparr>cr_clientId = ''mcpdc_1'', cr_redirectUris = [Str ''https://app.example/cb''], cr_applicationType = Web_app\<rparr>
     = Inr ''https://app.example/cb''"
  "\<not> isCimdClientId ''mcpdc_1''" "\<not> isSchemeShaped ''mcpdc_1''" "truthy_value web_client"
  "approveOriginAllowed demo_parser web_config (Some ''https://app.example'') = Inr True"
  by code_simp+

lemma web_sel [simp]:
  "az_config web_service = web_config" "az_jose web_service = consent_jose" "az_parseUrl web_service = demo_parser"
  "az_cimd web_service = None" "az_editUrl web_service u ps = Some (u @ concat (map fst ps))"
  "cfg_redirectAllowlist web_config = [Str ''https://app.example/cb'']" "cfg_redirectAllowlistMode web_config = Replace"
  "cfg_resource web_config = ''https://app.example/cb''" "cfg_dcr web_config = StoredDcr"
  "cfg_issuer web_config = ''https://app.example''" "cfg_defaultScopes web_config = [''read'']"
  "cfg_scopeCatalog web_config = [''read'', ''write'']"
  "cfg_authorizationCodeTtlSeconds web_config = 60" "cfg_consentTokenTtlSeconds web_config = 300"
  "expectedStoredDcrGrantGeneration web_config = Some 1"
  by (simp_all add: web_service_def web_config_def demo_config_def expectedStoredDcrGrantGeneration_def)

lemma web_calls [simp]:
  "on_call (web_env n) (StorePort Get_id) w = (Inr (Str instance_text), w)"
  "on_call (web_env n) (StorePort (Granted s cl at g r)) w = (Inr (Arr [Str ''write'']), w)"
  "on_call (web_env n) (StorePort (Commit e j x cd)) w = (Inr (Str ''stored''), w)"
  "on_call (web_env n) (FindClient cid) w = (Inr web_client, w)"
  "on_call (web_env n) (CheckRate key) w = (Inr (Boolean True), w)"
  "on_call (web_env n) (VerifyPairing v) w = (Inr paired_value, w)"
  "on_clock (web_env n) w = (Reads (Whole 1700000000000), w)"
  "on_random (web_env n) w = (RandomBytes (replicate n (CHR ''A'')), w)"
  by (simp_all add: web_env_def)

lemma web_opaque:
  "perform (web_env n) (resolveOpaqueRedirect web_service ''mcpdc_1'' ''https://app.example/cb'') () =
     (Inr ''https://app.example/cb'', [(FindClient ''mcpdc_1'', Inr web_client)], [], ())"
  using web_redirect
  by (simp add: resolveOpaqueRedirect_def askPort_def lift_def check_def pass_def demo_config_sel)

lemma yes_input_sel [simp]: "ap_approved (yes_input b) = Some b" "ap_consentToken (yes_input b) = Some ''jwt''"
  "ap_origin (yes_input b) = Some ''https://app.example''"
  by (simp_all add: yes_input_def)

lemma web_opened:
  "perform (web_env n) (open_consent web_service (yes_input b) 1700000000000) () =
     (Inr web_consent,
      [(StorePort Get_id, Inr (Str instance_text)), (FindClient ''mcpdc_1'', Inr web_client)], [], ())"
proof -
  have i: "readInstanceId (Str instance_text) = Inr instance_text" by code_simp
  have r: "assertOAuthRedirectEntry demo_parser (Str ''https://app.example/cb'') = Inr ''https://app.example/cb''"
    by (rule demo_redirect_ok)
  have c: "cc_clientId web_consent = ''mcpdc_1''" "cc_redirectUri web_consent = ''https://app.example/cb''"
    "cc_resource web_consent = ''https://app.example/cb''" "cc_storeInstanceId web_consent = Some instance_text"
    "\<not> cc_cimdVerified web_consent"
    by (simp_all add: web_consent_def consent_claims.defs)
  show ?thesis
    using web_redirect web_verified
    by (simp add: open_consent_def assertApproveOrigin_def requiredStr_def readStoreInstanceId_def
        assertCurrentConsentRedirect_def askPort_def lift_def check_def pass_def i r c assertApproveCimdGate_def
        andThen_assoc andThen_run [OF web_opaque])
qed

lemma web_consent_fields:
  "cc_clientId web_consent = ''mcpdc_1''" "cc_redirectUri web_consent = ''https://app.example/cb''"
  "cc_scopes web_consent = [''read'']" "cc_allowedScopes web_consent = None" "cc_subject web_consent = ''user-1''"
  "cc_state web_consent = Some ''s''" "vc_expiresAt web_consent = toISOString 1700000300000"
  by (simp_all add: web_consent_def consent_claims.defs)

lemma web_scopes:
  "storedScopes (Arr [Str ''read'']) [''read'', ''write''] = Inr [''read'']"
  "storedScopes (Arr [Str ''write'']) [''read'', ''write''] = Inr [''write'']"
  "assertAllowedScopesCeiling Undefined = Inr None" "snapshotPortScopeCarrier (Arr [Str ''write'']) = Inr (Arr [Str ''write''])"
  by (simp_all add: storedScopes_def scope_evals MAX_SCOPE_ENTRIES_def assertAllowedScopesCeiling_def snapshotPortScopeCarrier_def)

lemma web_instant:
  "finiteClockSnapshot (Reads (Whole 1700000000000)) 0 = Inr 1700000000000"
  "finiteClockSnapshot (Reads (Whole 1700000000000)) 60000 = Inr 1700000000000"
  by (simp_all add: finiteClockSnapshot_Inr safe_int_def MAX_SAFE_INTEGER_def MIN_CANONICAL_MS_def MAX_CANONICAL_MS_def)

lemma web_decided:
  "perform (web_env 32) (decide web_service (yes_input True) 1700000000000) () =
     (Inr (Committing web_consent [''read'', ''write''] 1700000000000),
      [(StorePort Get_id, Inr (Str instance_text)), (FindClient ''mcpdc_1'', Inr web_client),
       (StorePort (Granted ''user-1'' ''mcpdc_1'' (toISOString 1700000000000) (Some 1) (Some ''https://app.example/cb'')),
        Inr (Arr [Str ''write'']))], [], ())"
  using web_redirect(5) web_instant
  by (simp add: decide_def andThen_run [OF web_opened]) (simp add: consent_scopes_def web_consent_fields web_scopes lift_def pass_def priorGrants_def accumulationAllowed_def
      readGrantedScopeSnapshot_def askPort_def opt_array_def narrow_def dedupe_def push_new_def approvalCommitClock_def readClock_def)

lemma web_approved:
  "\<exists>r tr au. perform (web_env 32) (approve web_service (yes_input True)) () = (Inr r, tr, au, ())
     \<and> ar_code r = Some (''ac_'' @ base64url (replicate 32 CHR ''A''))"
proof -
  obtain x where x: "expiresAtIso (fixedClockSnapshot 1700000000000) 60 = Inr x"
    by (simp add: expiresAtIso_def fixedClockSnapshot_def web_instant)
  have run: "perform (web_env 32) (catch (decide web_service (yes_input True) 1700000000000) h) () =
      perform (web_env 32) (decide web_service (yes_input True) 1700000000000) ()" for h
    by (simp add: catch_def perform_bind web_decided)
  have c: "generateAuthorizationCode (RandomBytes (replicate 32 CHR ''A'')) = Inr (''ac_'' @ base64url (replicate 32 CHR ''A''))"
    by (simp add: generateAuthorizationCode_def randomBytesFrom_def)
  show ?thesis
    by (simp add: approve_def readClock_def web_instant andThen_run [OF trans [OF run web_decided]] commit_def web_consent_fields
        web_live check_def pass_def c commitConsent_def x askPort_def lift_def check_commit_def redirectWithCode_def edited_def)
qed

theorem approval_bound_witness:
  "\<exists>(tr :: trace) consent scopes c x. scopes_within web_config (consent_claims.truncate consent) scopes
     \<and> (StorePort (Commit (the (cc_storeInstanceId consent)) (vc_jti consent) (vc_expiresAt consent)
           (code_for web_config consent scopes c x)), Inr (Str ''stored'')) \<in> set tr"
proof -
  from web_approved obtain r tr au c
    where "perform (web_env 32) (approve web_service (yes_input True)) () = (Inr r, tr, au, ())" "ar_code r = Some c" by blast
  from approval_bound [OF this] show ?thesis unfolding web_sel by blast
qed

definition demo_world :: world where
  "demo_world = \<lparr>w_store = createMemoryStore instance_text, w_clock = [Reads (Whole 1700000000000)], w_random = []\<rparr>"

theorem denial_changes_nothing_witness:
  "w_store (snd (snd (snd (perform (memory_env (\<lambda>_. Inr web_client)) (approve web_service (yes_input False)) demo_world))))
     = w_store demo_world"
proof -
  obtain r tr au w' where r: "perform (memory_env (\<lambda>_. Inr web_client)) (approve web_service (yes_input False)) demo_world = (r, tr, au, w')"
    by (metis prod_cases4)
  have "ap_approved (yes_input False) \<noteq> Some True" by simp
  from denial_changes_nothing [OF r this] r show ?thesis by simp
qed

lemma web_opened_key:
  assumes "opened web_service (yes_input b) t consent"
  shows "(vc_jti consent, vc_expiresAt consent) = (''jti-1'', toISOString 1700000300000)"
proof -
  from assms have "verifyConsentToken consent_jose ''jwt'' web_config (fixedClockSnapshot t) = Inr consent"
    by (auto simp: opened_def)
  then show ?thesis
    by (auto simp: verifyConsentToken_Inr consent_jose_def numericDateIso_Inr consent_members_def own_Cons requiredString_def
        consent_claims.defs)
qed

theorem concurrent_approvals_single_use_witness:
  "finished (fst (interleave (memory_env (\<lambda>_. Inr web_client)) [0, 1, 0, 1]
       (map (approve web_service) [yes_input True, yes_input True]) demo_world))
     \<le> unspent (''jti-1'', toISOString 1700000300000) (w_store demo_world)"
  by (rule concurrent_approvals_single_use) (use web_opened_key in auto)

subsection \<open>Preparing\<close>

definition web_request :: "string \<Rightarrow> authorize_input" where
  "web_request rt =
     \<lparr>ai_clientId = Some ''mcpdc_1'', ai_redirectUri = Some ''https://app.example/cb'', ai_responseType = Some rt,
      ai_codeChallenge = Some ''challenge'', ai_codeChallengeMethod = Some ''S256'', ai_resource = None, ai_scope = None,
      ai_state = Some ''s'', ai_subject = Some ''user-1'', ai_allowedScopes = Arr [Str ''read''], ai_registration = None,
      ai_ip = None\<rparr>"

lemma web_request_sel [simp]:
  "ai_clientId (web_request rt) = Some ''mcpdc_1''" "ai_redirectUri (web_request rt) = Some ''https://app.example/cb''"
  "ai_responseType (web_request rt) = Some rt" "ai_codeChallenge (web_request rt) = Some ''challenge''"
  "ai_codeChallengeMethod (web_request rt) = Some ''S256''" "ai_resource (web_request rt) = None"
  "ai_scope (web_request rt) = None" "ai_state (web_request rt) = Some ''s''" "ai_subject (web_request rt) = Some ''user-1''"
  "ai_allowedScopes (web_request rt) = Arr [Str ''read'']" "ai_registration (web_request rt) = None"
  "ai_ip (web_request rt) = None"
  by (simp_all add: web_request_def)

lemma web_resolved:
  "perform (web_env 18) (resolveAuthorizeClient web_service ''mcpdc_1'' ''https://app.example/cb'' None None) () =
     (Inr (resolved_by ''https://app.example/cb'' None (pass ())), [(FindClient ''mcpdc_1'', Inr web_client)], [], ())"
  using web_redirect(4,5) by (simp add: resolveAuthorizeClient_def andThen_run [OF web_opaque])

lemma web_checked:
  "check_subject (Some ''user-1'') = Inr ''user-1''" "assertAllowedScopesCeiling (Arr [Str ''read'']) = Inr (Some [''read''])"
  "normalizeScopes Undefined [''read'', ''write''] [''read''] = Inr [''read'']"
  "readInstanceId (Str instance_text) = Inr instance_text"
proof -
  show "check_subject (Some ''user-1'') = Inr ''user-1''" "readInstanceId (Str instance_text) = Inr instance_text"
    by code_simp+
  have "trim ''read'' = ''read''" by code_simp
  then show "normalizeScopes Undefined [''read'', ''write''] [''read''] = Inr [''read'']"
    by (simp add: normalizeScopes_def snapshotScopeItems_def scope_evals MAX_SCOPE_ENTRIES_def push_new_def)
qed (simp add: assertAllowedScopesCeiling_def scope_evals MAX_SCOPE_ENTRIES_def)

lemma catch_run:
  "perform env (catch m h) w =
     (let (r, tr, au, w1) = perform env m w in
      case r of Inr x \<Rightarrow> (Inr x, tr, au, w1)
      | Inl e \<Rightarrow> (let (y, tr', au', w2) = perform env (h e) w1 in (y, tr @ tr', au @ au', w2)))"
  by (cases "perform env m w") (auto simp: catch_def perform_bind Let_def split: sum.split)

lemmas web_prepare = catch_run prepare_def prepare_for_def lift_def requiredStr_def andThen_run [OF web_resolved] resolved_by_def
  seal_request_def request_claims_def web_checked requested_resource_def requested_scopes_def narrow_def opt_value_def present_def

lemma web_refused:
  "\<exists>o' tr au. perform (web_env 18) (prepare web_service (web_request ''token'')) () = (Inl (OAuth o'), tr, au, ())
     \<and> redirect o' = Some \<lparr>rt_redirectUri = ''https://app.example/cb'', rt_state = Some ''s''\<rparr>"
  by (simp add: web_prepare pass_def tag_redirect_def oauth400_def oauthError_def withRedirect_def fail_def
      prepare_failed_def readClock_def web_instant)

lemma web_untagged: "untagged_service web_service" "untagged_random (web_env 18)"
  by (simp_all add: untagged_service_def untagged_random_def consent_jose_def)

theorem error_redirect_validated_witness:
  "\<exists>(tr :: trace) uri. destination_validated (web_env 18) web_service (web_request ''token'') tr ''mcpdc_1'' uri
     \<and> uri = ''https://app.example/cb''"
proof -
  from web_refused obtain o' tr au where r: "perform (web_env 18) (prepare web_service (web_request ''token'')) () = (Inl (OAuth o'), tr, au, ())"
    and t: "redirect o' = Some \<lparr>rt_redirectUri = ''https://app.example/cb'', rt_state = Some ''s''\<rparr>" by blast
  from error_redirect_validated [OF r t web_untagged] show ?thesis by auto
qed

lemma web_signed:
  assumes "cc_subject claims = ''user-1''" and "cc_storeInstanceId claims = Some instance_text"
  shows "perform (web_env 18) (signConsentToken consent_jose True claims web_config (Reads (Whole 1700000000000))) () = (Inr ''jwt'', [], [], ())"
proof -
  have "nowSeconds (Reads (Whole 1700000000000)) 300 = Inr 1700000000"
    by (simp add: nowSeconds_Inr canonical_def MIN_CANONICAL_MS_def MAX_CANONICAL_MS_def safe_int_def MAX_SAFE_INTEGER_def)
  moreover have "identitySubject (Str ''user-1'') = Inr ''user-1''" using demo_subject by (simp add: subject_ok_def)
  moreover have "generateConsentJti (RandomBytes (replicate 18 CHR ''A'')) = Inr (base64url (replicate 18 CHR ''A''))"
    by (simp add: generateConsentJti_def randomBytesFrom_def)
  ultimately show ?thesis
    using assms by (simp add: signConsentToken_def pass_def seal_consent_def consent_jose_def MAX_CONSENT_TOKEN_BYTES_def)
qed

lemma web_sealed:
  "\<exists>claims. perform (web_env 18) (seal_request web_service (web_request ''code'') ''user-1'' ''mcpdc_1''
       (resolved_by ''https://app.example/cb'' None (pass ())) (Some [''read''])) () =
     (Inr (claims, ''jwt''), [(StorePort Get_id, Inr (Str instance_text))], [], ())"
  by (simp add: seal_request_def request_claims_def web_checked requested_resource_def requested_scopes_def narrow_def
      opt_value_def present_def requiredStr_def lift_def resolved_by_def readStoreInstanceId_def askPort_def pass_def
      Let_def andThen_run [OF web_signed])

lemma web_prior:
  "perform (web_env 18) (priorGrants web_config ''user-1'' ''mcpdc_1'' clock_iso) () =
     (Inr [''write''], [(StorePort (Granted ''user-1'' ''mcpdc_1'' (toISOString 1700000000000) (Some 1)
        (Some ''https://app.example/cb'')), Inr (Arr [Str ''write'']))], [], ())"
  using web_redirect(5)
  by (simp add: priorGrants_def accumulationAllowed_def clock_iso_def readClock_def web_instant readGrantedScopeSnapshot_def
      web_scopes askPort_def lift_def pass_def)

lemma web_prepared:
  "\<exists>pc tr au. perform (web_env 18) (prepare web_service (web_request ''code'')) () = (Inr pc, tr, au, ())"
proof -
  obtain claims where s: "perform (web_env 18) (seal_request web_service (web_request ''code'') ''user-1'' ''mcpdc_1''
       (resolved_by ''https://app.example/cb'' None (pass ())) (Some [''read''])) () =
     (Inr (claims, ''jwt''), [(StorePort Get_id, Inr (Str instance_text))], [], ())"
    using web_sealed by blast
  have e: "rv_emitCimdSuccess (resolved_by u r m) = m" "rv_redirectUri (resolved_by u r m) = u"
    "rv_registration (resolved_by u r m) = r" for u r m
    by (simp_all add: resolved_by_def)
  have k: "perform (web_env 18) (catch (seal_request web_service (web_request ''code'') ''user-1'' ''mcpdc_1''
       (resolved_by ''https://app.example/cb'' None (pass ())) (Some [''read''])) h) () =
     (Inr (claims, ''jwt''), [(StorePort Get_id, Inr (Str instance_text))], [], ())" for h
    by (simp add: catch_run s)
  have p: "\<exists>pc tr au. perform (web_env 18) (prepare_for web_service (web_request ''code'') ''user-1'' (Some [''read'']) ''mcpdc_1'') ()
      = (Inr pc, tr, au, ())"
    by (simp add: prepare_for_def lift_def requiredStr_def andThen_run [OF web_resolved] e)
      (simp add: pass_def andThen_run [OF k [unfolded pass_def]] andThen_run [OF web_prior] readClock_def web_instant)
  then show ?thesis
    by (auto simp: prepare_def lift_def requiredStr_def web_checked catch_run)
qed

theorem prepare_bound_witness:
  "\<exists>(pc :: prepared_consent) (tr :: trace) v. cc_subject pc = ''user-1'' \<and> set (cc_scopes pc) \<subseteq> {''read''}
     \<and> destination_validated (web_env 18) web_service (web_request ''code'') tr (cc_clientId pc) (cc_redirectUri pc)
     \<and> (StorePort Get_id, Inr v) \<in> set tr"
proof -
  from web_prepared obtain pc tr au where "perform (web_env 18) (prepare web_service (web_request ''code'')) () = (Inr pc, tr, au, ())"
    by blast
  from prepare_bound [OF this] obtain v where "ai_subject (web_request ''code'') = Some (cc_subject pc)"
    "assertAllowedScopesCeiling (ai_allowedScopes (web_request ''code'')) = Inr (cc_allowedScopes pc)"
    "\<forall>c. cc_allowedScopes pc = Some c \<longrightarrow> cc_scopes pc \<noteq> [] \<and> set (cc_scopes pc) \<subseteq> set c"
    "destination_validated (web_env 18) web_service (web_request ''code'') tr (cc_clientId pc) (cc_redirectUri pc)"
    "(StorePort Get_id, Inr v) \<in> set tr" by (elim exE conjE)
  moreover from this(1-3) have "cc_subject pc = ''user-1''" "set (cc_scopes pc) \<subseteq> {''read''}"
    by (simp_all add: web_checked) (metis list.simps(15) empty_set)
  ultimately show ?thesis by blast
qed

end
