(* ===== verification/Pairing_Flow.thy ===== *)
theory Pairing_Flow
  imports Bridge Pairing_Port
begin

section \<open>The pairing page behind the authorize route\<close>

text \<open>
  \<open>src/adapters/pairing-flow.ts\<close>: the route that shows a code-entry page before an identity is known. A request
  is charged to a window of its own, then to the bridge's limiter; a submitted code is verified, and the
  authorization request travels through the page as hidden fields until it is.
\<close>

subsection \<open>The request window\<close>

definition PAIRING_AUTHORIZE_WINDOW_MS :: int where "PAIRING_AUTHORIZE_WINDOW_MS = 60000"

definition PAIRING_AUTHORIZE_MAX_REQUESTS :: nat where "PAIRING_AUTHORIZE_MAX_REQUESTS = 60"

record request_window =
  rw_startedAtMs :: int
  rw_requests :: nat

definition pairingAuthorizeRateLimitAllows :: "int \<Rightarrow> request_window option \<Rightarrow> bool \<times> request_window option" where
  "pairingAuthorizeRateLimitAllows now window =
     (case window of
        None \<Rightarrow> (True, Some \<lparr>rw_startedAtMs = now, rw_requests = 1\<rparr>)
      | Some v \<Rightarrow>
          if now - rw_startedAtMs v \<ge> PAIRING_AUTHORIZE_WINDOW_MS
          then (True, Some \<lparr>rw_startedAtMs = now, rw_requests = 1\<rparr>)
          else if now < rw_startedAtMs v \<or> rw_requests v \<ge> PAIRING_AUTHORIZE_MAX_REQUESTS then (False, window)
          else (True, Some (v\<lparr>rw_requests := Suc (rw_requests v)\<rparr>)))"

text \<open>The readings of \<open>Date.now()\<close> at which a request was admitted.\<close>

definition admit_step :: "int list \<times> request_window option \<Rightarrow> int \<Rightarrow> int list \<times> request_window option" where
  "admit_step st now =
     (let (ok, window) = pairingAuthorizeRateLimitAllows now (snd st)
      in (if ok then fst st @ [now] else fst st, window))"

definition admissions :: "int list \<Rightarrow> int list \<times> request_window option" where
  "admissions readings = foldl admit_step ([], None) readings"

subsection \<open>The parameters that travel through the page\<close>

definition resourceOccurrences :: "jsval \<Rightarrow> string list" where
  "resourceOccurrences v =
     (case v of
        Str s \<Rightarrow> if s = [] then [] else [s]
      | Arr vs \<Rightarrow> map str_of (filter nonempty_string vs)
      | _ \<Rightarrow> [])"

definition combinedResource :: "jsval \<Rightarrow> jsval \<Rightarrow> string option" where
  "combinedResource queryValue bodyValue =
     (case (resourceParam queryValue, resourceParam bodyValue) of
        (None, body) \<Rightarrow> body
      | (Some q, None) \<Rightarrow> Some q
      | (Some q, Some r) \<Rightarrow>
          if q = INVALID_RESOURCE \<or> r = INVALID_RESOURCE \<or> q \<noteq> r then Some INVALID_RESOURCE else Some q)"

definition page_value :: "norm_request \<Rightarrow> jsval \<Rightarrow> string \<Rightarrow> string option" where
  "page_value req body key =
     (case queryString (nq_query req) key of Some v \<Rightarrow> Some v | None \<Rightarrow> formField body key)"

record gathered =
  ga_page :: "(string \<times> page_param) list"
  ga_query :: "(string \<times> jsval) list"

definition gatherOAuthParams :: "norm_request \<Rightarrow> jsval \<Rightarrow> gathered" where
  "gatherOAuthParams req body =
     (let present = filter (\<lambda>key. page_value req body key \<noteq> None) OAUTH_SINGLETON_PARAM_KEYS;
          value_of = (\<lambda>key. the (page_value req body key));
          queryValue = own (nq_query req) ''resource'';
          bodyValue = own (formObject body) ''resource'';
          raw = resourceOccurrences queryValue @ resourceOccurrences bodyValue
      in \<lparr>ga_page =
            map (\<lambda>key. (key, Once (value_of key))) present
            @ (case raw of [] \<Rightarrow> [] | [r] \<Rightarrow> [(''resource'', Once r)] | _ \<Rightarrow> [(''resource'', Repeated raw)]),
          ga_query =
            map (\<lambda>key. (key, Str (value_of key))) present
            @ (case combinedResource queryValue bodyValue of None \<Rightarrow> [] | Some r \<Rightarrow> [(''resource'', Str r)])\<rparr>)"

subsection \<open>The route\<close>

definition PAIRING_HEADERS :: "string jsmap" where
  "PAIRING_HEADERS =
     [(''content-type'', ''text/html; charset=utf-8''), (''x-content-type-options'', ''nosniff''),
      (''content-security-policy'',
         ''default-src '' @ quoted_none @ ''; style-src '' @ [CHR 0x27] @ ''unsafe-inline'' @ [CHR 0x27]
         @ ''; frame-ancestors '' @ quoted_none @ ''; form-action '' @ [CHR 0x27] @ ''self'' @ [CHR 0x27]),
      (''x-frame-options'', ''DENY''), (''referrer-policy'', ''no-referrer'')]"

definition pairingPage :: "pairing_session \<Rightarrow> (string \<times> page_param) list \<Rightarrow> string option \<Rightarrow> norm_response" where
  "pairingPage s oauthParams err =
     respond 200 PAIRING_HEADERS
       (Html (renderPairingPage
         \<lparr>pp_nonce = se_nonce s, pp_expiresAt = se_expiresAt s, pp_oauthParams = oauthParams, pp_error = err\<rparr>))"

definition direct_error :: "bridge \<Rightarrow> string \<Rightarrow> string \<Rightarrow> int \<Rightarrow> norm_response io" where
  "direct_error b c m st =
     lift (oauthErrorResponse (br_auth b) \<lparr>code = c, message = m, status = st, redirect = None\<rparr> None)"

definition lostResourceResponse :: "bridge \<Rightarrow> norm_response io" where
  "lostResourceResponse b = direct_error b ''invalid_target'' ''Unknown OAuth resource'' 400"

definition show_page :: "bridge \<Rightarrow> (string \<times> page_param) list \<Rightarrow> string option \<Rightarrow> norm_response io" where
  "show_page b oauthParams err = answered b beginPairingSession (\<lambda>s. pairingPage s oauthParams err)"

definition pairing_failed_text :: string where
  "pairing_failed_text = ''Invalid or expired pairing code '' @ map char_of [0xE2, 0x80, 0x94 :: nat]
     @ '' check the server console and try again.''"

text \<open>The request once it was admitted, with the body that was read.\<close>

definition pairing_request :: "bridge \<Rightarrow> bool \<Rightarrow> norm_request \<Rightarrow> jsval \<Rightarrow> norm_response io" where
  "pairing_request b isPost req body =
     (let gathered = gatherOAuthParams req body;
          submittedCode = (if isPost then formField body ''pairing_code'' else None);
          lostInvalidResource =
            map_of (ga_query gathered) ''resource'' = Some (Str INVALID_RESOURCE)
            \<and> map_of (ga_page gathered) ''resource'' = None
      in case submittedCode of
           Some submitted \<Rightarrow>
             bind_task (verifyPairingIdentity submitted
                 (case formField body ''pairing_nonce'' of None \<Rightarrow> [] | Some n \<Rightarrow> n) (nq_ip req)) (\<lambda>r.
               case r of
                 Inl e \<Rightarrow> error_answer b e
               | Inr (Identified sub allowed) \<Rightarrow>
                   handleAuthorize b
                     \<lparr>nq_query = ga_query gathered, nq_body = Undefined, nq_formBody = None, nq_headers = nq_headers req,
                      nq_ip = nq_ip req\<rparr>
                     \<lparr>gi_subject = sub, gi_allowedScopes = allowed, gi_registration = None\<rparr>
               | Inr (Refused _) \<Rightarrow>
                   if lostInvalidResource then lostResourceResponse b
                   else show_page b (ga_page gathered) (Some pairing_failed_text))
         | None \<Rightarrow>
             if lostInvalidResource then lostResourceResponse b else show_page b (ga_page gathered) None)"

definition pairing_body :: "bridge \<Rightarrow> bool \<Rightarrow> norm_request \<Rightarrow> jsval outcome" where
  "pairing_body b isPost req =
     (if isPost
      then chain (checkedFormObject req PAIRING_BODY_SINGLETON_PARAM_KEYS []) (\<lambda>body.
           chain (assertApproveOrigin (az_parseUrl (br_auth b)) (br_config b) (headerString (nq_headers req) ''origin'')) (\<lambda>_.
           Inr (Obj body)))
      else Inr (nq_body req))"

definition handlePairingAuthorize ::
    "bridge \<Rightarrow> int \<Rightarrow> request_window option \<Rightarrow> bool \<Rightarrow> norm_request \<Rightarrow> norm_response io \<times> request_window option" where
  "handlePairingAuthorize b now window isPost req =
     (let (allowed, window') = pairingAuthorizeRateLimitAllows now window
      in (if \<not> allowed then direct_error b ''temporarily_unavailable'' ''Too many requests'' 429
          else if findDuplicatedKeys (Obj (nq_query req)) OAUTH_SINGLETON_PARAM_KEYS \<noteq> []
          then direct_error b ''invalid_request'' ''duplicate request parameters'' 400
          else case pairing_body b isPost req of
                 Inl e \<Rightarrow> error_answer b e
               | Inr body \<Rightarrow>
                   bind_task (guardPairingAuthorize (nq_ip req)) (\<lambda>r.
                     case r of Inl e \<Rightarrow> error_answer b e | Inr _ \<Rightarrow> pairing_request b isPost req body),
          window'))"

end
