(* ===== verification/Page_Forms.thy ===== *)
theory Page_Forms
  imports Pages_Laws
begin

section \<open>Reading the form of a page\<close>

text \<open>
  How a browser reads a rendered page back: its tags with their attributes, and from the input elements the entries
  it submits. As much of HTML as the pages use: text, tags, attributes without or with a double-quoted value, and
  the character references of \<open>unescape\<close>. The normalisation of line breaks in submitted values is left out.
\<close>

subsection \<open>A reader of tags\<close>

text \<open>A tag is the list of its words: the element, and the attributes with their values as they are written.\<close>

type_synonym html_tag = "(string \<times> string) list"

datatype reader = Reading_text | Reading_tag html_tag string | Reading_value html_tag string string

definition tag_word :: "string \<Rightarrow> html_tag" where
  "tag_word w = (if w = [] then [] else [(w, [])])"

fun read_step :: "reader \<Rightarrow> char \<Rightarrow> reader \<times> html_tag list" where
  "read_step Reading_text c = (if c = CHR ''<'' then Reading_tag [] [] else Reading_text, [])"
| "read_step (Reading_tag ws w) c =
     (if c = CHR ''>'' then (Reading_text, [ws @ tag_word w])
      else if c = CHR '' '' then (Reading_tag (ws @ tag_word w) [], [])
      else if c = CHR 0x22 then (Reading_value ws (takeWhile (\<lambda>c. c \<noteq> CHR ''='') w) [], [])
      else (Reading_tag ws (w @ [c]), []))"
| "read_step (Reading_value ws n v) c =
     (if c = CHR 0x22 then (Reading_tag (ws @ [(n, v)]) [], []) else (Reading_value ws n (v @ [c]), []))"

fun read_html :: "html_tag list \<Rightarrow> reader \<Rightarrow> string \<Rightarrow> reader \<times> html_tag list" where
  "read_html tags st [] = (st, tags)"
| "read_html tags st (c # s) = (case read_step st c of (st', ts) \<Rightarrow> read_html (tags @ ts) st' s)"

text \<open>What an input element submits: a hidden one its value, any other what was typed in.\<close>

definition input_entry :: "string \<Rightarrow> html_tag \<Rightarrow> (string \<times> string) list" where
  "input_entry typed tag =
     (case tag of
        [] \<Rightarrow> []
      | (element, _) # attrs \<Rightarrow>
          if element \<noteq> ''input'' then []
          else case map_of attrs ''name'' of
                 None \<Rightarrow> []
               | Some n \<Rightarrow>
                   [(unescape n,
                     if map_of attrs ''type'' = Some ''hidden''
                     then (case map_of attrs ''value'' of None \<Rightarrow> [] | Some v \<Rightarrow> unescape v) else typed)])"

definition form_entries :: "string \<Rightarrow> string \<Rightarrow> (string \<times> string) list" where
  "form_entries typed html = concat (map (input_entry typed) (snd (read_html [] Reading_text html)))"

subsection \<open>Reading pieces\<close>

lemma read_append: "read_html tags st (s @ t) = (case read_html tags st s of (st', ts) \<Rightarrow> read_html ts st' t)"
  by (induction tags st s rule: read_html.induct) (simp_all split: prod.split)

lemma read_tags: "read_html tags st s = (case read_html [] st s of (st', ts) \<Rightarrow> (st', tags @ ts))"
proof (induction s arbitrary: tags st)
  case (Cons c s)
  obtain st' ts where step: "read_step st c = (st', ts)" by fastforce
  show ?case using Cons [of "tags @ ts" st'] Cons [of ts st'] by (simp add: step split: prod.split)
qed simp

lemma read_escaped:
  "read_html tags Reading_text (esc v) = (Reading_text, tags)"
  "read_html tags (Reading_value ws n w) (esc v) = (Reading_value ws n (w @ esc v), tags)"
proof -
  have "read_html tags Reading_text (esc_char c) = (Reading_text, tags)" for c tags by (auto simp: esc_char_def)
  then show "read_html tags Reading_text (esc v) = (Reading_text, tags)" by (induction v) (simp_all add: read_append)
  have "read_html tags (Reading_value ws n w) (esc_char c) = (Reading_value ws n (w @ esc_char c), tags)" for c w
    by (auto simp: esc_char_def)
  then show "read_html tags (Reading_value ws n w) (esc v) = (Reading_value ws n (w @ esc v), tags)"
    by (induction v arbitrary: w) (simp_all add: read_append)
qed

text \<open>A block of a page that starts and ends in text and submits these entries.\<close>

definition submits :: "string \<Rightarrow> piece list \<Rightarrow> (string \<times> string) list \<Rightarrow> bool" where
  "submits typed ps es \<longleftrightarrow>
     (\<exists>ts. read_html [] Reading_text (render ps) = (Reading_text, ts) \<and> concat (map (input_entry typed) ts) = es)"

lemma submits_append:
  assumes "submits typed ps es" and "submits typed qs fs"
  shows "submits typed (ps @ qs) (es @ fs)"
proof -
  obtain ts us where "read_html [] Reading_text (render ps) = (Reading_text, ts)" "concat (map (input_entry typed) ts) = es"
    and "read_html [] Reading_text (render qs) = (Reading_text, us)" "concat (map (input_entry typed) us) = fs"
    using assms by (auto simp: submits_def)
  then show ?thesis
    using read_tags [of ts Reading_text "render qs"] by (auto simp: submits_def read_append intro!: exI [of _ "ts @ us"])
qed

lemma submits_concat:
  assumes "\<And>x. submits typed (b x) (e x)"
  shows "submits typed (concat (map b xs)) (concat (map e xs))"
proof (induction xs)
  case Nil
  then show ?case by (simp add: submits_def)
next
  case (Cons x xs)
  then show ?case using submits_append [OF assms] by simp
qed

lemma submits_entries: "submits typed ps es \<Longrightarrow> form_entries typed (render ps) = es"
  by (auto simp: submits_def form_entries_def)

lemma submits_text: "read_html [] Reading_text (render ps) = (Reading_text, []) \<Longrightarrow> submits typed ps []"
  by (simp add: submits_def)

text \<open>Markup whose tags are not input elements.\<close>

definition without_inputs :: "string \<Rightarrow> bool" where
  "without_inputs s =
     (case read_html [] Reading_text s of (st, ts) \<Rightarrow> st = Reading_text \<and> list_all (\<lambda>t. map_of t ''input'' = None) ts)"

lemma without_inputs_append:
  assumes "without_inputs a" and "without_inputs b"
  shows "without_inputs (a @ b)"
  using assms read_tags [of "snd (read_html [] Reading_text a)" Reading_text b]
  by (auto simp: without_inputs_def read_append split: prod.split_asm)

lemma without_inputs_append2: "without_inputs (a @ b) \<Longrightarrow> without_inputs c \<Longrightarrow> without_inputs (a @ b @ c)"
  using without_inputs_append [of "a @ b" c] by simp

lemma no_entry: "map_of t ''input'' = None \<Longrightarrow> input_entry typed t = []"
  by (auto simp: input_entry_def split: list.split)

lemma submits_markup: "without_inputs s \<Longrightarrow> submits typed [Markup s] []"
  by (auto simp: without_inputs_def submits_def list_all_iff no_entry split: prod.split_asm)

lemma submits_shown: "submits typed [Shown v] []"
  by (simp add: submits_def read_escaped)

lemma submits_two: "submits typed [p] [] \<Longrightarrow> submits typed [q] [] \<Longrightarrow> submits typed [p, q] []"
  using submits_append [of typed "[p]" "[]" "[q]" "[]"] by simp

lemma submits_three:
  "submits typed [p] [] \<Longrightarrow> submits typed [q] [] \<Longrightarrow> submits typed [r] [] \<Longrightarrow> submits typed [p, q, r] []"
  using submits_append [of typed "[p]" "[]" "[q, r]" "[]"] submits_two by simp

subsection \<open>The pairing page\<close>

lemma hidden_submits: "submits typed (hidden_field kv) [kv]"
  by (cases kv)
    (simp add: submits_def hidden_field_def read_append read_escaped tag_word_def input_entry_def unescape_esc)

text \<open>The lines of the head, read one by one; the second tag runs over two of them.\<close>

lemma head_without_inputs: "without_inputs pairing_head"
  unfolding pairing_head_def
  by (rule without_inputs_append, code_simp, rule without_inputs_append, code_simp, rule without_inputs_append2, code_simp,
      (rule without_inputs_append, code_simp)+, code_simp)

lemma title_submits: "submits typed pairing_title []"
proof -
  have "without_inputs (newline @ ''</head><body>'' @ newline @ ''<h1>Pair this device</h1>'' @ newline)"
    by code_simp
  then show ?thesis unfolding pairing_title_def by (intro submits_two submits_markup head_without_inputs)
qed

lemma error_submits: "submits typed (errorBlock i) []"
proof -
  have "without_inputs (''<p class=\"hint\">A one-time code has been printed to the server console. Paste it to '' @ ''continue.</p>'')"
    "without_inputs ''<p class=\"error\" role=\"alert\">''" "without_inputs ''</p>''"
    by code_simp+
  then show ?thesis unfolding errorBlock_def by (auto intro: submits_three submits_markup submits_shown)
qed

lemma resource_submits: "submits typed (resourceBlock i) []"
proof -
  have "without_inputs ''<p class=\"meta\">Authorizing access to <strong>''" "without_inputs ''</strong>.</p>''" by code_simp+
  moreover have "submits typed [] []" by (simp add: submits_def)
  ultimately show ?thesis
    unfolding resourceBlock_def by (auto intro: submits_three submits_markup submits_shown split: option.split page_param.split)
qed

lemma end_submits: "submits typed (pairing_end i) []"
proof -
  have "without_inputs (newline @ ''<button type=\"submit\">Continue</button>'' @ newline @ ''</form>'' @ newline
        @ ''<p class=\"meta\">Code expires '')" "without_inputs (''.</p>'' @ newline @ ''</body></html>'')"
    by code_simp+
  then show ?thesis unfolding pairing_end_def by (intro submits_three submits_markup submits_shown)
qed

lemma form_submits: "submits typed (pairing_form i) [(''pairing_code'', typed), (''pairing_nonce'', pp_nonce i)]"
proof -
  let ?open = "newline @ ''<form method=\"POST\" action=\"/oauth/authorize\" autocomplete=\"off\">'' @ newline
        @ ''<label for=\"pairing_code\">Pairing code</label>'' @ newline
        @ ''<input id=\"pairing_code\" name=\"pairing_code\" inputmode=\"text\" autocapitalize=\"characters\" ''
        @ ''spellcheck=\"false\" autofocus required>'' @ newline
        @ ''<input type=\"hidden\" name=\"pairing_nonce\" value=\"''"
  have read: "read_html [] Reading_text (?open) =
      (Reading_value [(''input'', []), (''type'', ''hidden''), (''name'', ''pairing_nonce'')] ''value'' [],
       [[(''form'', []), (''method'', ''POST''), (''action'', ''/oauth/authorize''), (''autocomplete'', ''off'')],
        [(''label'', []), (''for'', ''pairing_code'')], [(''/label'', [])],
        [(''input'', []), (''id'', ''pairing_code''), (''name'', ''pairing_code''), (''inputmode'', ''text''),
         (''autocapitalize'', ''characters''), (''spellcheck'', ''false''), (''autofocus'', []), (''required'', [])]])"
    by code_simp
  have plain: "unescape ''pairing_code'' = ''pairing_code''" "unescape ''pairing_nonce'' = ''pairing_nonce''" by simp_all
  show ?thesis
    unfolding submits_def pairing_form_def
    by (simp only: render_simps render_piece.simps read_append [of _ _ "?open"] read prod.case)
      (simp add: read_append read_escaped tag_word_def input_entry_def unescape_esc newline_def)
qed

text \<open>What a browser submits from the page: the code that was typed, the nonce, and every parameter, as often as it occurs.\<close>

lemma page_entries:
  "form_entries typed (renderPairingPage i)
     = (''pairing_code'', typed) # (''pairing_nonce'', pp_nonce i) # hidden_values (pp_oauthParams i)"
proof -
  have fields: "submits typed (hidden_fields (pp_oauthParams i)) (hidden_values (pp_oauthParams i))"
    using submits_concat [where b = hidden_field and e = "\<lambda>kv. [kv]", OF hidden_submits, of typed "hidden_values (pp_oauthParams i)"]
    by (simp add: hidden_fields_def hidden_values_def)
  have break: "submits typed [Markup newline] []" by (rule submits_markup) code_simp
  have "submits typed (pairing_pieces i)
      ([] @ [] @ [] @ [] @ [(''pairing_code'', typed), (''pairing_nonce'', pp_nonce i)] @ hidden_values (pp_oauthParams i) @ [])"
    unfolding pairing_pieces_def
    by (intro submits_append title_submits error_submits break resource_submits form_submits fields end_submits)
  from submits_entries [OF this] show ?thesis by (simp add: renderPairingPage_def)
qed

end
