(* ===== verification/Pairing_Flow_Laws.thy ===== *)
theory Pairing_Flow_Laws
  imports Pairing_Flow Bridge_Laws Page_Forms
begin

section \<open>Guarantees of the pairing route\<close>

subsection \<open>The request window\<close>

text \<open>How many of the admitted readings lie in a minute that begins at \<open>t\<close>.\<close>

definition in_minute :: "int \<Rightarrow> int list \<Rightarrow> nat" where
  "in_minute t ns = length (filter (\<lambda>n. t \<le> n \<and> n < t + PAIRING_AUTHORIZE_WINDOW_MS) ns)"

definition from_time :: "int \<Rightarrow> int list \<Rightarrow> nat" where
  "from_time t ns = length (filter (\<lambda>n. t \<le> n) ns)"

lemma counts_append [simp]:
  "in_minute t (ns @ [n]) = in_minute t ns + (if t \<le> n \<and> n < t + PAIRING_AUTHORIZE_WINDOW_MS then 1 else 0)"
  "from_time t (ns @ [n]) = from_time t ns + (if t \<le> n then 1 else 0)"
  by (simp_all add: in_minute_def from_time_def)

lemma in_minute_from: "in_minute t ns \<le> from_time t ns"
  unfolding in_minute_def from_time_def by (induction ns) auto

lemma from_time_mono: "s \<le> t \<Longrightarrow> from_time t ns \<le> from_time s ns"
  unfolding from_time_def by (induction ns) auto

text \<open>
  The window in force began at \<open>s\<close>: nothing was admitted after its end, at most its count since it began, and
  within any minute that overlaps it at most one window's worth before that.
\<close>

definition window_inv :: "int list \<Rightarrow> request_window option \<Rightarrow> bool" where
  "window_inv ns window \<longleftrightarrow>
     (\<forall>t. in_minute t ns \<le> 2 * PAIRING_AUTHORIZE_MAX_REQUESTS)
     \<and> (case window of
          None \<Rightarrow> ns = []
        | Some v \<Rightarrow>
            (\<forall>n \<in> set ns. n < rw_startedAtMs v + PAIRING_AUTHORIZE_WINDOW_MS)
            \<and> rw_requests v \<le> PAIRING_AUTHORIZE_MAX_REQUESTS
            \<and> from_time (rw_startedAtMs v) ns \<le> rw_requests v
            \<and> (\<forall>t. rw_startedAtMs v - PAIRING_AUTHORIZE_WINDOW_MS < t \<longrightarrow>
                 from_time t ns \<le> PAIRING_AUTHORIZE_MAX_REQUESTS + rw_requests v))"

lemma window_inv_new:
  assumes "window_inv ns (Some v)" and "rw_startedAtMs v + PAIRING_AUTHORIZE_WINDOW_MS \<le> now"
  shows "window_inv (ns @ [now]) (Some \<lparr>rw_startedAtMs = now, rw_requests = 1\<rparr>)"
proof -
  have old: "\<forall>n \<in> set ns. n < now" and few: "from_time (rw_startedAtMs v) ns \<le> PAIRING_AUTHORIZE_MAX_REQUESTS"
    and any: "in_minute t ns \<le> 2 * PAIRING_AUTHORIZE_MAX_REQUESTS" for t
    using assms by (auto simp: window_inv_def)
  have none: "from_time now ns = 0" using old by (auto simp: from_time_def filter_empty_conv)
  have late: "from_time t ns \<le> PAIRING_AUTHORIZE_MAX_REQUESTS" if "now - PAIRING_AUTHORIZE_WINDOW_MS < t" for t
    using from_time_mono [of "rw_startedAtMs v" t ns] few that assms(2) by linarith
  have "in_minute t (ns @ [now]) \<le> 2 * PAIRING_AUTHORIZE_MAX_REQUESTS" for t
    using any [of t] late [of t] in_minute_from [of t ns] by (auto simp: PAIRING_AUTHORIZE_MAX_REQUESTS_def)
  moreover have "from_time t (ns @ [now]) \<le> PAIRING_AUTHORIZE_MAX_REQUESTS + 1" if "now - PAIRING_AUTHORIZE_WINDOW_MS < t" for t
    using late [OF that] by simp
  ultimately show ?thesis using old none
    by (auto simp: window_inv_def PAIRING_AUTHORIZE_WINDOW_MS_def PAIRING_AUTHORIZE_MAX_REQUESTS_def)
qed

lemma window_inv_more:
  assumes "window_inv ns (Some v)" and "rw_startedAtMs v \<le> now" and "now < rw_startedAtMs v + PAIRING_AUTHORIZE_WINDOW_MS"
    and "rw_requests v < PAIRING_AUTHORIZE_MAX_REQUESTS"
  shows "window_inv (ns @ [now]) (Some (v\<lparr>rw_requests := Suc (rw_requests v)\<rparr>))"
proof -
  from assms(1) have any: "in_minute t ns \<le> 2 * PAIRING_AUTHORIZE_MAX_REQUESTS" for t
    by (simp add: window_inv_def)
  from assms(1) have late: "from_time t ns \<le> PAIRING_AUTHORIZE_MAX_REQUESTS + rw_requests v"
    if "rw_startedAtMs v - PAIRING_AUTHORIZE_WINDOW_MS < t" for t
    using that by (simp add: window_inv_def)
  have "in_minute t (ns @ [now]) \<le> 2 * PAIRING_AUTHORIZE_MAX_REQUESTS" for t
  proof (cases "t \<le> now \<and> now < t + PAIRING_AUTHORIZE_WINDOW_MS")
    case True
    then have "rw_startedAtMs v - PAIRING_AUTHORIZE_WINDOW_MS < t" using assms(2) by linarith
    with late [of t] in_minute_from [of t ns] assms(4) True show ?thesis by simp
  qed (use any [of t] in auto)
  moreover have "from_time t (ns @ [now]) \<le> PAIRING_AUTHORIZE_MAX_REQUESTS + Suc (rw_requests v)"
    if "rw_startedAtMs v - PAIRING_AUTHORIZE_WINDOW_MS < t" for t
    using late [OF that] by simp
  ultimately show ?thesis using assms by (auto simp: window_inv_def)
qed

lemma window_inv_first: "window_inv [now] (Some \<lparr>rw_startedAtMs = now, rw_requests = 1\<rparr>)"
  by (simp add: window_inv_def in_minute_def from_time_def PAIRING_AUTHORIZE_WINDOW_MS_def PAIRING_AUTHORIZE_MAX_REQUESTS_def)

lemma admit_step_inv:
  assumes "window_inv ns window"
  shows "case admit_step (ns, window) now of (ns', window') \<Rightarrow> window_inv ns' window'"
proof (cases window)
  case None
  with assms window_inv_first show ?thesis
    by (auto simp: admit_step_def pairingAuthorizeRateLimitAllows_def window_inv_def [of ns])
next
  case (Some v)
  with assms window_inv_new [of ns v now] window_inv_more [of ns v now] show ?thesis
    by (auto simp: admit_step_def pairingAuthorizeRateLimitAllows_def not_le not_less)
qed

lemma admissions_inv: "case admissions readings of (ns, window) \<Rightarrow> window_inv ns window"
proof (induction readings rule: rev_induct)
  case Nil
  show ?case by (simp add: admissions_def window_inv_def in_minute_def)
next
  case (snoc now readings)
  obtain ns window where a: "admissions readings = (ns, window)" by fastforce
  with snoc admit_step_inv [of ns window now] show ?case by (simp add: admissions_def)
qed

text \<open>
  In any sixty seconds of the clock the pairing route admits at most 120 requests, two full windows, whatever
  the clock does: when it is set back requests are refused.
\<close>

theorem pairing_window_bound:
  "in_minute t (fst (admissions readings)) \<le> 2 * PAIRING_AUTHORIZE_MAX_REQUESTS"
  using admissions_inv [of readings] by (cases "admissions readings") (simp add: window_inv_def)

subsection \<open>The parameters survive the page\<close>

lemma collect_occurrences:
  "map_of (collectOccurrences params) key =
     (case map snd (filter (\<lambda>p. fst p = key) params) of
        [] \<Rightarrow> None | [v] \<Rightarrow> Some (Str v) | vs \<Rightarrow> Some (Arr (map Str vs)))"
proof (induction params rule: rev_induct)
  case (snoc p params)
  obtain k v where p: "p = (k, v)" by fastforce
  let ?out = "collectOccurrences params"
  have step: "collectOccurrences (params @ [p]) = (case map_of ?out k of
      None \<Rightarrow> map_set k (Str v) ?out
    | Some (Arr vs) \<Rightarrow> map_set k (Arr (vs @ [Str v])) ?out
    | Some existing \<Rightarrow> map_set k (Arr [existing, Str v]) ?out)"
    by (simp only: collectOccurrences_def p foldl_append foldl.simps prod.case)
  show ?case
  proof (cases "k = key")
    case False
    with snoc show ?thesis unfolding step by (auto simp: p split: option.split jsval.split)
  next
    case True
    with snoc show ?thesis unfolding step
      by (auto simp: p split: option.split jsval.split list.splits)
  qed
qed (simp add: collectOccurrences_def)

text \<open>The entries a page with these parameters submits, as the route receives them.\<close>

definition page_submission :: "(string \<times> page_param) list \<Rightarrow> string \<Rightarrow> string \<Rightarrow> jsval" where
  "page_submission page nonce typed =
     Obj (collectOccurrences ((''pairing_code'', typed) # (''pairing_nonce'', nonce) # hidden_values page))"

text \<open>A form is read back from the markup of the page it stands in.\<close>

definition submitted_form :: "string \<Rightarrow> string \<Rightarrow> jsval" where
  "submitted_form typed html = Obj (collectOccurrences (form_entries typed html))"

lemma submitted_page: "submitted_form typed (renderPairingPage i) = page_submission (pp_oauthParams i) (pp_nonce i) typed"
  by (simp add: submitted_form_def page_submission_def page_entries)

definition submission :: "norm_request \<Rightarrow> norm_request" where
  "submission req = req\<lparr>nq_query := []\<rparr>"

text \<open>Parameters of a URL or of a form are strings; a JSON body may hold anything.\<close>

definition plain_resource :: "jsval \<Rightarrow> bool" where
  "plain_resource v =
     (case v of Undefined \<Rightarrow> True | Str s \<Rightarrow> True | Arr vs \<Rightarrow> all_strings vs \<noteq> None | _ \<Rightarrow> False)"

definition one_resource :: "string list \<Rightarrow> string option" where
  "one_resource rs =
     (if rs = [] then None else if list_all (\<lambda>r. r = hd rs) rs then Some (hd rs) else Some INVALID_RESOURCE)"

lemma one_resource_remdups:
  "(case remdups rs of [] \<Rightarrow> None | [r] \<Rightarrow> Some r | _ \<Rightarrow> Some INVALID_RESOURCE) = one_resource rs"
proof (cases "remdups rs")
  case (Cons r rest)
  show ?thesis
  proof (cases rest)
    case Nil
    then have "set rs = {r}" using Cons set_remdups [of rs] by simp
    then show ?thesis using Cons Nil by (cases rs) (auto simp: one_resource_def list_all_iff)
  next
    case (Cons r' rest')
    then have "set rs = insert r (insert r' (set rest'))" "r \<noteq> r'"
      using distinct_remdups [of rs] set_remdups [of rs] \<open>remdups rs = r # rest\<close> by simp_all
    then show ?thesis using \<open>remdups rs = r # rest\<close> Cons by (auto simp: one_resource_def list_all_iff)
  qed
qed (simp add: one_resource_def)

lemma resourceParam_plain: "plain_resource v \<Longrightarrow> resourceParam v = one_resource (resourceOccurrences v)"
proof -
  assume plain: "plain_resource v"
  have strs: "filter nonempty_string (map Str ss) = map Str (filter (\<lambda>s. s \<noteq> []) ss)" for ss
    by (induction ss) (simp_all add: nonempty_string_def)
  have strs_of: "map str_of (map Str ss) = ss" for ss
    by (induction ss) (simp_all add: str_of_def)
  show ?thesis using plain
    by (auto simp: plain_resource_def resourceParam_def resourceOccurrences_def one_resource_remdups all_strings_iff strs strs_of
        one_resource_def simp del: map_map split: jsval.split_asm jsval.split)
qed

lemma one_resource_append:
  "one_resource (qs @ bs) =
     (case (one_resource qs, one_resource bs) of
        (None, b) \<Rightarrow> b
      | (Some q, None) \<Rightarrow> Some q
      | (Some q, Some r) \<Rightarrow>
          if q = INVALID_RESOURCE \<or> r = INVALID_RESOURCE \<or> q \<noteq> r then Some INVALID_RESOURCE else Some q)"
  by (cases qs; cases bs) (auto simp: one_resource_def list_all_iff)

lemma combined_plain:
  "plain_resource q \<Longrightarrow> plain_resource b \<Longrightarrow>
     combinedResource q b = one_resource (resourceOccurrences q @ resourceOccurrences b)"
  by (simp add: combinedResource_def resourceParam_plain one_resource_append split: option.split)

definition resource_value :: "string list \<Rightarrow> jsval" where
  "resource_value raw = (case raw of [] \<Rightarrow> Undefined | [r] \<Rightarrow> Str r | _ \<Rightarrow> Arr (map Str raw))"

lemma occurrences_nonempty: "list_all (\<lambda>r. r \<noteq> []) (resourceOccurrences v)"
  by (auto simp: resourceOccurrences_def list_all_iff nonempty_string_def str_of_def split: jsval.split jsval.split_asm)

lemma resource_value_occurrences:
  assumes "list_all (\<lambda>r. r \<noteq> []) raw"
  shows "resourceOccurrences (resource_value raw) = raw" "plain_resource (resource_value raw)"
proof -
  have "map str_of (filter nonempty_string (map Str rs)) = rs" if "list_all (\<lambda>r. r \<noteq> []) rs" for rs
    using that by (induction rs) (simp_all add: nonempty_string_def str_of_def)
  with assms show "resourceOccurrences (resource_value raw) = raw"
    by (auto simp: resource_value_def resourceOccurrences_def nonempty_string_def str_of_def split: list.split)
  show "plain_resource (resource_value raw)"
    using all_strings_map by (auto simp: resource_value_def plain_resource_def split: list.split)
qed

text \<open>What the form holds under each name.\<close>

lemma filter_keyed:
  "distinct ks \<Longrightarrow> filter (\<lambda>p. fst p = key) (map (\<lambda>k. (k, f k)) ks) = (if key \<in> set ks then [(key, f key)] else [])"
  by (induction ks) auto

lemma hidden_gathered:
  "hidden_values (ga_page (gatherOAuthParams req body)) =
     map (\<lambda>key. (key, the (page_value req body key))) (filter (\<lambda>key. page_value req body key \<noteq> None) OAUTH_SINGLETON_PARAM_KEYS)
     @ map (Pair ''resource'') (resourceOccurrences (own (nq_query req) ''resource'') @ resourceOccurrences (own (formObject body) ''resource''))"
proof -
  have "concat (map (\<lambda>(key, v). map (Pair key) (param_values v)) (map (\<lambda>key. (key, Once (g key))) ks)) = map (\<lambda>key. (key, g key)) ks"
    for g :: "string \<Rightarrow> string" and ks by (induction ks) (simp_all add: param_values_def)
  note single = this
  have many: "concat (map (\<lambda>(key, v). map (Pair key) (param_values v))
      (case raw of [] \<Rightarrow> [] | [r] \<Rightarrow> [(''resource'', Once r)] | _ \<Rightarrow> [(''resource'', Repeated raw)])) = map (Pair ''resource'') raw" for raw
    by (simp add: param_values_def split: list.split)
  show ?thesis
    by (simp only: hidden_values_def gatherOAuthParams_def Let_def gathered.simps map_append [of _ "map _ _"] concat_append single many)
qed

lemma singleton_keys:
  "distinct OAUTH_SINGLETON_PARAM_KEYS" "''resource'' \<notin> set OAUTH_SINGLETON_PARAM_KEYS"
  "''pairing_code'' \<notin> set OAUTH_SINGLETON_PARAM_KEYS" "''pairing_nonce'' \<notin> set OAUTH_SINGLETON_PARAM_KEYS"
  by (simp_all add: OAUTH_SINGLETON_PARAM_KEYS_def OAUTH_PARAM_KEYS_def)

lemma form_member:
  "own (collectOccurrences params) key = resource_value (map snd (filter (\<lambda>p. fst p = key) params))"
  by (simp add: own_def collect_occurrences resource_value_def split: list.split)

lemma submitted_resource:
  "own (formObject (page_submission (ga_page (gatherOAuthParams req body)) nonce typed)) ''resource''
    = resource_value (resourceOccurrences (own (nq_query req) ''resource'') @ resourceOccurrences (own (formObject body) ''resource''))"
proof -
  have none: "filter (\<lambda>p. fst p = ''resource'') (map (\<lambda>key. (key, f key)) (filter P OAUTH_SINGLETON_PARAM_KEYS)) = []"
    for f :: "string \<Rightarrow> string" and P
    using singleton_keys(2) by (auto simp: filter_empty_conv)
  have all: "map snd (filter (\<lambda>p. fst p = ''resource'') (map (Pair ''resource'') rs)) = rs" for rs :: "string list"
    by (induction rs) simp_all
  have "map snd (filter (\<lambda>p. fst p = ''resource'') (hidden_values (ga_page (gatherOAuthParams req body))))
      = resourceOccurrences (own (nq_query req) ''resource'') @ resourceOccurrences (own (formObject body) ''resource'')"
    unfolding hidden_gathered filter_append none append_Nil by (rule all)
  note all_fields = this
  have ne: "(''pairing_code'' = ''resource'') = False" "(''pairing_nonce'' = ''resource'') = False" by simp_all
  show ?thesis
    unfolding page_submission_def formObject_def [of "Obj _"] jsval.case form_member
    by (simp only: filter.simps fst_conv ne if_False all_fields)
qed

lemma nonempty_string_of: "nonempty_string v \<Longrightarrow> str_of v \<noteq> []"
  by (cases v) (simp_all add: nonempty_string_def str_of_def)

lemma find_nonempty: "find nonempty_string vs = Some v \<Longrightarrow> nonempty_string v"
  by (induction vs) (auto split: if_split_asm)

lemma queryString_nonempty: "queryString q key = Some v \<Longrightarrow> v \<noteq> []"
  using nonempty_string_of find_nonempty
  by (auto simp: queryString_def split: jsval.split_asm if_split_asm)

lemma page_value_nonempty: "page_value req body key = Some v \<Longrightarrow> v \<noteq> []"
  using queryString_nonempty nonempty_string_of
  by (auto simp: page_value_def formField_def Let_def split: option.split_asm if_split_asm)

lemma submitted_own:
  assumes "key \<in> set OAUTH_SINGLETON_PARAM_KEYS"
  shows "own (formObject (page_submission (ga_page (gatherOAuthParams req body)) nonce typed)) key
    = (case page_value req body key of None \<Rightarrow> Undefined | Some v \<Rightarrow> Str v)"
proof -
  let ?ks = "filter (\<lambda>key. page_value req body key \<noteq> None) OAUTH_SINGLETON_PARAM_KEYS"
  have other: "key \<noteq> ''resource''" "(''pairing_code'' = key) = False" "(''pairing_nonce'' = key) = False"
    using assms singleton_keys by auto
  have none: "filter (\<lambda>p. fst p = key) (map (Pair ''resource'') rs) = []" for rs :: "string list"
    using other(1) by (auto simp: filter_empty_conv)
  have one: "filter (\<lambda>p. fst p = key) (map (\<lambda>key. (key, the (page_value req body key))) ?ks)
      = (if page_value req body key \<noteq> None then [(key, the (page_value req body key))] else [])"
    using filter_keyed [of ?ks key "\<lambda>key. the (page_value req body key)"] singleton_keys(1) assms by simp
  have "map snd (filter (\<lambda>p. fst p = key) (hidden_values (ga_page (gatherOAuthParams req body))))
      = (case page_value req body key of None \<Rightarrow> [] | Some v \<Rightarrow> [v])"
    unfolding hidden_gathered filter_append none one by (cases "page_value req body key") simp_all
  note one_field = this
  show ?thesis
    unfolding page_submission_def formObject_def [of "Obj _"] jsval.case form_member
    by (cases "page_value req body key") (simp_all only: filter.simps fst_conv other(2,3) if_False one_field resource_value_def option.case list.case)
qed

lemma submitted_value:
  assumes "key \<in> set OAUTH_SINGLETON_PARAM_KEYS"
  shows "page_value (submission req) (page_submission (ga_page (gatherOAuthParams req body)) nonce typed) key = page_value req body key"
proof -
  have "own [] key = Undefined" by (simp add: own_def)
  then have "queryString (nq_query (submission req)) key = None"
    by (simp add: submission_def queryString_def nonempty_string_def)
  then show ?thesis using page_value_nonempty [of req body key]
    by (cases "page_value req body key")
      (simp_all add: page_value_def [of "submission req"] formField_def Let_def nonempty_string_def str_of_def submitted_own [OF assms])
qed

text \<open>The code and the nonce stand in the form once.\<close>

lemma submitted_entry:
  "own (formObject (page_submission (ga_page (gatherOAuthParams req body)) nonce typed)) ''pairing_code'' = Str typed"
  "own (formObject (page_submission (ga_page (gatherOAuthParams req body)) nonce typed)) ''pairing_nonce'' = Str nonce"
proof -
  let ?page = "hidden_values (ga_page (gatherOAuthParams req body))"
  have "fst p \<notin> {''pairing_code'', ''pairing_nonce''}" if "p \<in> set ?page" for p
    using that singleton_keys(3,4) unfolding hidden_gathered by auto
  then have none: "filter (\<lambda>p. fst p = ''pairing_code'') ?page = []" "filter (\<lambda>p. fst p = ''pairing_nonce'') ?page = []"
    by (auto simp: filter_empty_conv)
  show "own (formObject (page_submission (ga_page (gatherOAuthParams req body)) nonce typed)) ''pairing_code'' = Str typed"
    "own (formObject (page_submission (ga_page (gatherOAuthParams req body)) nonce typed)) ''pairing_nonce'' = Str nonce"
    unfolding page_submission_def formObject_def [of "Obj _"] jsval.case form_member
    by (simp_all add: none resource_value_def)
qed

lemma page_resubmitted:
  assumes "plain_resource (own (nq_query req) ''resource'')" and "plain_resource (own (formObject body) ''resource'')"
  shows "gatherOAuthParams (submission req) (page_submission (ga_page (gatherOAuthParams req body)) nonce typed) = gatherOAuthParams req body"
    and "findRepeatedKeys (page_submission (ga_page (gatherOAuthParams req body)) nonce typed) PAIRING_BODY_SINGLETON_PARAM_KEYS = []"
proof -
  let ?form = "page_submission (ga_page (gatherOAuthParams req body)) nonce typed"
  let ?raw = "resourceOccurrences (own (nq_query req) ''resource'') @ resourceOccurrences (own (formObject body) ''resource'')"
  have raw: "list_all (\<lambda>r. r \<noteq> []) ?raw" using occurrences_nonempty by simp
  have resource: "own (formObject ?form) ''resource'' = resource_value ?raw" by (rule submitted_resource)
  have query: "own (nq_query (submission req)) ''resource'' = Undefined" by (simp add: submission_def own_def)
  have plain: "plain_resource Undefined" "resourceOccurrences Undefined = []"
    by (simp_all add: plain_resource_def resourceOccurrences_def)
  have combined: "combinedResource Undefined (resource_value ?raw)
      = combinedResource (own (nq_query req) ''resource'') (own (formObject body) ''resource'')"
    using combined_plain [OF plain(1) resource_value_occurrences(2) [OF raw]] combined_plain [OF assms]
    by (simp add: plain(2) resource_value_occurrences(1) [OF raw])
  have present: "filter (\<lambda>key. page_value (submission req) ?form key \<noteq> None) OAUTH_SINGLETON_PARAM_KEYS
      = filter (\<lambda>key. page_value req body key \<noteq> None) OAUTH_SINGLETON_PARAM_KEYS"
    by (rule filter_cong) (simp_all add: submitted_value)
  have once: "map (\<lambda>key. (key, g (the (page_value (submission req) ?form key))))
        (filter (\<lambda>key. page_value req body key \<noteq> None) OAUTH_SINGLETON_PARAM_KEYS)
      = map (\<lambda>key. (key, g (the (page_value req body key))))
        (filter (\<lambda>key. page_value req body key \<noteq> None) OAUTH_SINGLETON_PARAM_KEYS)" for g :: "string \<Rightarrow> 'b"
    by (rule map_cong) (simp_all add: submitted_value)
  obtain form where form: "?form = form" by simp
  note facts = resource [unfolded form] present [unfolded form] once [unfolded form]
  have "gatherOAuthParams (submission req) form = gatherOAuthParams req body"
    unfolding gatherOAuthParams_def Let_def
    by (simp only: query facts combined plain(2) append_Nil resource_value_occurrences(1) [OF raw])
  then show "gatherOAuthParams (submission req) ?form = gatherOAuthParams req body" by (simp only: form)
  show "findRepeatedKeys ?form PAIRING_BODY_SINGLETON_PARAM_KEYS = []"
    using submitted_own [of _ req body nonce typed] submitted_entry [of req body nonce typed]
    by (auto simp: findRepeatedKeys_def page_submission_def formObject_def filter_empty_conv PAIRING_BODY_SINGLETON_PARAM_KEYS_def
        split: option.split)
qed

text \<open>
  C36. A request survives the code-entry page: the form a browser reads from the markup \<open>pairingPage\<close> answers, hidden
  fields and the code that is typed in, is gathered as the request was, every parameter and every occurrence of
  \<open>resource\<close>, with the code and the nonce of the page, and is not refused for a repeated parameter. The request
  gives \<open>resource\<close> as strings, as every URL and every form does; a JSON body that mixes in other values is left out
  (\<open>mixed_resource_forgotten\<close>), and so is the normalisation of line breaks by the browser.
\<close>

theorem pairing_page_roundtrip:
  assumes "plain_resource (own (nq_query req) ''resource'')" and "plain_resource (own (formObject body) ''resource'')"
    and "np_body (pairingPage s (ga_page (gatherOAuthParams req body)) err) = Html html"
  shows "gatherOAuthParams (submission req) (submitted_form typed html) = gatherOAuthParams req body
    \<and> formField (submitted_form typed html) ''pairing_code'' = (if typed = [] then None else Some typed)
    \<and> formField (submitted_form typed html) ''pairing_nonce'' = (if se_nonce s = [] then None else Some (se_nonce s))
    \<and> findRepeatedKeys (submitted_form typed html) PAIRING_BODY_SINGLETON_PARAM_KEYS = []"
proof -
  have "submitted_form typed html = page_submission (ga_page (gatherOAuthParams req body)) (se_nonce s) typed"
    using assms(3) by (auto simp: pairingPage_def respond_def submitted_page)
  then show ?thesis
    using page_resubmitted [OF assms(1,2), of "se_nonce s" typed] submitted_entry [of req body "se_nonce s" typed]
    by (simp add: formField_def Let_def nonempty_string_def str_of_def)
qed

text \<open>
  A JSON body may carry what no form can: a \<open>resource\<close> array with a member that is not a string makes the
  request invalid, but only the strings travel through the page, and what comes back is a valid request.
\<close>

lemma params_apart: "map_of (map (\<lambda>key. (key, f key)) (filter P OAUTH_SINGLETON_PARAM_KEYS)) ''resource'' = None"
  using singleton_keys(2) by (simp add: map_of_eq_None_iff image_image)

lemma mixed_resource_forgotten:
  "map_of (ga_query (gatherOAuthParams req (Obj [(''resource'', Arr [Str ''https://a'', Null])]))) ''resource'' = Some (Str INVALID_RESOURCE)
    \<and> map_of (ga_page (gatherOAuthParams req (Obj [(''resource'', Arr [Str ''https://a'', Null])]))) ''resource'' = Some (Once ''https://a'')"
  if "nq_query req = []"
proof -
  have "combinedResource Undefined (Arr [Str ''https://a'', Null]) = Some INVALID_RESOURCE"
    by (simp add: combinedResource_def resourceParam_def)
  moreover have "resourceOccurrences Undefined @ resourceOccurrences (Arr [Str ''https://a'', Null]) = [''https://a'']"
    by (simp add: resourceOccurrences_def nonempty_string_def str_of_def)
  ultimately show ?thesis
    by (simp add: gatherOAuthParams_def Let_def that own_def formObject_def map_add_def params_apart)
qed

subsection \<open>Nobody passes unverified\<close>

lemma consent_headers_apart: "oauthErrorResponse svc e ch = Inr resp \<Longrightarrow> np_headers resp \<noteq> CONSENT_HEADERS"
  "PAIRING_HEADERS \<noteq> CONSENT_HEADERS"
  by (auto simp: oauthErrorResponse_def result_simps redirect_to_def respond_def CONSENT_HEADERS_def noStoreHeaders_def map_set_def
      PAIRING_HEADERS_def split: option.split_asm prod.split_asm bool.split_asm)

text \<open>The answers that need no identity: errors and the code-entry page.\<close>

definition entry_calls :: "trace \<Rightarrow> bool" where
  "entry_calls tr = (\<forall>(c, q) \<in> set tr. (\<exists>key. c = CheckRate key) \<or> c = BeginPairing \<or> (\<exists>v. c = VerifyPairing v))"

definition entry_answer :: "norm_response outcome \<Rightarrow> bool" where
  "entry_answer r = (\<forall>resp. r = Inr resp \<longrightarrow> np_headers resp \<noteq> CONSENT_HEADERS)"

lemma entry_errors:
  "perform env (error_answer b e) w = (r, tr, au, w') \<Longrightarrow> entry_calls tr \<and> entry_answer r"
  "perform env (direct_error b c m st) w = (r, tr, au, w') \<Longrightarrow> entry_calls tr \<and> entry_answer r"
  using consent_headers_apart(1) by (auto simp: error_answer_def direct_error_def perform_lift entry_calls_def entry_answer_def)

lemma entry_page:
  assumes "perform env (show_page b params err) w = (r, tr, au, w')"
  shows "entry_calls tr \<and> entry_answer r"
  using assms unfolding show_page_def answered_def
proof (cases rule: perform_catchE)
  case (good x)
  from good(1) show ?thesis using consent_headers_apart(2) good(2)
    by (auto elim!: perform_andThen_Inr simp: beginPairingSession_def perform_askPort_Inr pairingPage_def respond_def
        entry_calls_def entry_answer_def)
next
  case (bad e tr1 au1 w1 tr2 au2)
  from bad(1) have "entry_calls tr1"
    by (rule perform_andThenE)
      (auto simp: beginPairingSession_def askPort_def Let_def entry_calls_def split: prod.split_asm)
  with bad(3) entry_errors(1) [OF bad(2)] show ?thesis by (auto simp: entry_calls_def)
qed

lemma entry_lost: "perform env (lostResourceResponse b) w = (r, tr, au, w') \<Longrightarrow> entry_calls tr \<and> entry_answer r"
  unfolding lostResourceResponse_def by (rule entry_errors)

lemma entry_append [simp]: "entry_calls (tr @ tr') \<longleftrightarrow> entry_calls tr \<and> entry_calls tr'"
  by (auto simp: entry_calls_def)

lemma verify_run:
  assumes "perform env (verifyPairingIdentity typed nonce ip) w = (v, tr, au, w')"
  shows "entry_calls tr \<and> (\<forall>who. v = Inr who \<longrightarrow>
     (\<exists>reply. (VerifyPairing (pairing_input_value typed nonce ip), Inr reply) \<in> set tr \<and> snapshotIdentityResult reply = Inr who))"
  using assms
  by (cases v) (auto simp: verifyPairingIdentity_def perform_askPort_Inr askPort_def Let_def entry_calls_def split: prod.split_asm)

text \<open>A request past the limiter.\<close>

lemma pairing_request_identified:
  assumes run: "perform env (pairing_request b isPost req body) w = (r, tr, au, w')"
    and more: "\<not> (entry_calls tr \<and> entry_answer r)"
  shows "isPost \<and> (\<exists>typed nonce reply sub allowed. formField body ''pairing_code'' = Some typed
      \<and> (VerifyPairing (pairing_input_value typed nonce (nq_ip req)), Inr reply) \<in> set tr
      \<and> snapshotIdentityResult reply = Inr (Identified sub allowed))"
proof -
  obtain typed where typed: "isPost" "formField body ''pairing_code'' = Some typed"
    using run more
    by (cases isPost; cases "formField body ''pairing_code''")
      (auto simp: pairing_request_def Let_def split: if_split_asm dest: entry_lost entry_page)
  let ?nonce = "case formField body ''pairing_nonce'' of None \<Rightarrow> [] | Some n \<Rightarrow> n"
  obtain v tr1 au1 w1 where verify: "perform env (verifyPairingIdentity typed ?nonce (nq_ip req)) w = (v, tr1, au1, w1)"
    by (metis prod_cases4)
  note checked = verify_run [OF verify]
  show ?thesis
  proof (cases "\<exists>sub allowed. v = Inr (Identified sub allowed)")
    case True
    then obtain sub allowed where "v = Inr (Identified sub allowed)" by blast
    moreover have "set tr1 \<subseteq> set tr"
      using run typed verify by (auto simp: pairing_request_def perform_bind Let_def split: prod.split_asm)
    ultimately show ?thesis using checked typed by blast
  next
    case False
    define rest where "rest = (case v of Inl e \<Rightarrow> error_answer b e
        | Inr _ \<Rightarrow> (if map_of (ga_query (gatherOAuthParams req body)) ''resource'' = Some (Str INVALID_RESOURCE)
                     \<and> map_of (ga_page (gatherOAuthParams req body)) ''resource'' = None then lostResourceResponse b
                    else show_page b (ga_page (gatherOAuthParams req body)) (Some pairing_failed_text)))"
    obtain tr2 au2 where "perform env rest w1 = (r, tr2, au2, w')" and tr: "tr = tr1 @ tr2"
      using run typed verify False unfolding rest_def
      by (cases v) (auto simp: pairing_request_def perform_bind Let_def split: prod.split_asm identity_result.split_asm)
    then have "entry_calls tr2 \<and> entry_answer r"
      unfolding rest_def by (auto split: sum.split_asm if_split_asm dest: entry_errors entry_lost entry_page)
    with more checked tr show ?thesis by simp
  qed
qed

text \<open>
  C23. The authorization use-case is only reached, and a consent page only shown, by a submitted code the pairing
  identity accepted in this very request, from an accepted origin, within the request window.
\<close>

theorem pairing_route_identified:
  assumes "perform env (fst (handlePairingAuthorize b now window isPost req)) w = (r, tr, au, w')"
    and "\<not> (entry_calls tr \<and> entry_answer r)"
  shows "isPost \<and> fst (pairingAuthorizeRateLimitAllows now window)
    \<and> approveOriginAllowed (az_parseUrl (br_auth b)) (br_config b) (headerString (nq_headers req) ''origin'') = Inr True
    \<and> (\<exists>typed nonce reply sub allowed. formField (nq_body req) ''pairing_code'' = Some typed
        \<and> (VerifyPairing (pairing_input_value typed nonce (nq_ip req)), Inr reply) \<in> set tr
        \<and> snapshotIdentityResult reply = Inr (Identified sub allowed))"
proof -
  obtain ok window' where ok: "pairingAuthorizeRateLimitAllows now window = (ok, window')" by fastforce
  define past where "past body = bind_task (guardPairingAuthorize (nq_ip req)) (\<lambda>r. case r of Inl e \<Rightarrow> error_answer b e
      | Inr _ \<Rightarrow> pairing_request b isPost req body)" for body
  obtain body where body: "ok" "pairing_body b isPost req = Inr body" "perform env (past body) w = (r, tr, au, w')"
    using assms unfolding handlePairingAuthorize_def ok past_def [symmetric]
    by (auto split: if_split_asm sum.split_asm dest: entry_errors)
  obtain g tr1 au1 w1 where g: "perform env (guardPairingAuthorize (nq_ip req)) w = (g, tr1, au1, w1)" by (metis prod_cases4)
  have tr1: "entry_calls tr1" using guard_trace [OF g [unfolded guardPairingAuthorize_def]] by (auto simp: entry_calls_def)
  obtain tr2 au2 where rest: "perform env (case g of Inl e \<Rightarrow> error_answer b e | Inr _ \<Rightarrow> pairing_request b isPost req body) w1 = (r, tr2, au2, w')"
    and tr: "tr = tr1 @ tr2"
    using body(3) by (auto simp: past_def perform_bind g Let_def split: prod.split_asm)
  have more: "\<not> (entry_calls tr2 \<and> entry_answer r)" using assms(2) tr tr1 by simp
  then obtain u where "g = Inr u" using rest by (cases g) (auto dest: entry_errors)
  with rest have "perform env (pairing_request b isPost req body) w1 = (r, tr2, au2, w')" by simp
  note identified = pairing_request_identified [OF this more]
  then obtain kvs where kvs: "body = Obj kvs" "checkedFormObject req PAIRING_BODY_SINGLETON_PARAM_KEYS [] = Inr kvs"
    "assertApproveOrigin (az_parseUrl (br_auth b)) (br_config b) (headerString (nq_headers req) ''origin'') = Inr ()"
    using body(2) by (auto simp: pairing_body_def result_simps)
  have "kvs = formObject (nq_body req)" using kvs(2) by (auto simp: checkedFormObject_def Let_def split: if_split_asm)
  then have "formField body ''pairing_code'' = formField (nq_body req) ''pairing_code''"
    using kvs(1) by (simp add: formField_def formObject_def)
  moreover have "approveOriginAllowed (az_parseUrl (br_auth b)) (br_config b) (headerString (nq_headers req) ''origin'') = Inr True"
    using kvs(3) by (auto simp: assertApproveOrigin_def result_simps)
  ultimately show ?thesis using identified tr body(1) ok by (simp add: fst_conv) blast
qed

end
