(* ===== verification/Route_Runs.thy ===== *)
theory Route_Runs
  imports Route_Laws Authorize_Runs Pairing_Flow_Laws
begin

section \<open>Concrete requests\<close>

text \<open>
  The client, the configuration and the store of \<open>Authorize_Runs\<close> behind the bridge: requests that are
  refused, registered and served, so that the hypotheses of the properties of the routes hold there.
\<close>

definition web_bridge :: bridge where
  "web_bridge = \<lparr>br_auth = web_service, br_decodeBase64 = (\<lambda>s. s)\<rparr>"

definition post :: "(string \<times> jsval) list \<Rightarrow> norm_request" where
  "post body =
     \<lparr>nq_query = [], nq_body = Obj body, nq_formBody = None,
      nq_headers = [(''content-type'', Str ''application/json''), (''origin'', Str ''https://app.example'')],
      nq_ip = Some ''203.0.113.9''\<rparr>"

definition answering :: "jsval \<Rightarrow> unit env" where
  "answering allowed =
     \<lparr>on_call = (\<lambda>c w. (Inr (case c of CheckRate key \<Rightarrow> allowed | _ \<Rightarrow> Undefined), w)),
      on_clock = (\<lambda>w. (Reads (Whole 1700000000000), w)),
      on_random = (\<lambda>w. (RandomBytes (replicate 16 (CHR ''A'')), w))\<rparr>"

definition register_request :: norm_request where
  "register_request = post [(''redirect_uris'', Arr [Str ''https://app.example/cb''])]"

lemma answering_calls [simp]:
  "on_call (answering allowed) (CheckRate key) w = (Inr allowed, w)"
  "on_call (answering allowed) (SaveClient row) w = (Inr Undefined, w)"
  "on_clock (answering allowed) w = (Reads (Whole 1700000000000), w)"
  "on_random (answering allowed) w = (RandomBytes (replicate 16 (CHR ''A'')), w)"
  by (simp_all add: answering_def)

lemma bridge_sel [simp]: "br_auth web_bridge = web_service"
  by (simp add: web_bridge_def)

lemma register_checked:
  "checkedFormObject register_request REGISTER_SINGLETON_PARAM_KEYS REGISTER_JSON_ARRAY_PARAM_KEYS
     = Inr [(''redirect_uris'', Arr [Str ''https://app.example/cb''])]"
  by code_simp

lemma registration_checked:
  "registration_checks demo_parser web_config (registration_input [(''redirect_uris'', Arr [Str ''https://app.example/cb''])])
     = Inr (Web_app, [''https://app.example/cb''])"
  by code_simp


theorem limiter_refusal_witness:
  "perform (answering (Boolean False)) (handleToken web_bridge (post [])) ()
     = (Inr refused_answer, [(CheckRate ''token:203.0.113.9'', Inr (Boolean False))], [], ())"
proof -
  have "\<not> truthy_value (Boolean False)" by (simp add: truthy_value_def)
  from limiter_refusal [OF answering_calls(1) this, of web_bridge "post []"] show ?thesis
    by (simp add: guard_key_def post_def)
qed

lemma guard_allowed: "perform (answering (Boolean True)) (guard p ip c) ()
    = (Inr (), [(CheckRate (guard_key p ip), Inr (Boolean True))], [], ())"
  by (simp add: guard_def check_def pass_def truthy_value_def)

lemma registered:
  "\<exists>c row au. perform (answering (Boolean True)) (registerClient demo_parser web_config
       (registration_input [(''redirect_uris'', Arr [Str ''https://app.example/cb''])])) ()
     = (Inr c, [(SaveClient row, Inr Undefined)], au, ())"
proof -
  obtain cid where "cryptoRandom (RandomBytes (replicate 16 CHR ''A'')) = Inr cid"
    by (simp add: cryptoRandom_def randomBytesFrom_def)
  then show ?thesis
    by (simp add: registerClient_def registration_checked readClock_def web_instant catch_run save_registration_def lift_def
        askPort_def pass_def Let_def)
qed

lemma handled_registration:
  "\<exists>r row tr au. perform (answering (Boolean True)) (handleRegister web_bridge register_request) () = (r, tr, au, ())
     \<and> (SaveClient row, Inr Undefined) \<in> set tr"
proof -
  from registered obtain c row au where run: "perform (answering (Boolean True)) (registerClient demo_parser web_config
       (registration_input [(''redirect_uris'', Arr [Str ''https://app.example/cb''])])) ()
     = (Inr c, [(SaveClient row, Inr Undefined)], au, ())" by blast
  have ip: "assertStoredRegistrationIp StoredDcr (nq_ip register_request) = Inr ()" by code_simp
  show ?thesis
    by (simp add: handleRegister_def answered_def catch_run ip lift_def register_checked andThen_assoc
        andThen_run [OF guard_allowed] andThen_run [OF run] pass_def)
qed

theorem stored_registration_metered_witness:
  "\<exists>ip v tr later. nq_ip register_request = Some ip \<and> truthy_value v
     \<and> (tr :: trace) = (CheckRate (''register:'' @ ip), Inr v) # later"
proof -
  from handled_registration obtain r row tr au
    where run: "perform (answering (Boolean True)) (handleRegister web_bridge register_request) () = (r, tr, au, ())"
      and saved: "(SaveClient row, Inr Undefined) \<in> set tr" by blast
  have "cfg_dcr (br_config web_bridge) = StoredDcr" by simp
  from stored_registration_metered [OF this run saved] show ?thesis by blast
qed

definition code_request :: norm_request where
  "code_request = post [(''grant_type'', Str ''authorization_code''), (''code'', Str ''c0de'')]"

lemma exchange_reaches:
  assumes "ci_grantType input = Some ''authorization_code''" and "ci_code input = Some ''c0de''"
  shows "\<exists>e c q au. perform (answering (Boolean True)) (exchangeAuthorizationCode (br_token web_bridge) input) ()
     = (Inl e, [(StorePort c, q)], au, ())"
proof -
  have ttl: "operation_ttl web_config = 86400" by (simp add: web_config_def demo_config_def operation_ttl_def)
  have store: "on_call (answering (Boolean True)) (StorePort sc) w = (Inr Undefined, w)" for sc w
    by (simp add: answering_def)
  show ?thesis
    by (simp add: exchangeAuthorizationCode_def consumeValidCode_def readClock_def demo_instant ttl assms requiredStr_def
        catch_run askPort_def check_def lift_def pass_def br_token_def store snapshotAuthCodeRecord_def requiredRecord_def fail_def
        callPort_def rethrow_def)
qed

lemma code_request_reaches:
  "\<exists>r tr au c q. perform (answering (Boolean True)) (handleToken web_bridge code_request) () = (r, tr, au, ())
     \<and> (StorePort c, q) \<in> set tr"
proof -
  let ?kvs = "[(''grant_type'', Str ''authorization_code''), (''code'', Str ''c0de'')]"
  have body: "checkedFormObject code_request TOKEN_SINGLETON_PARAM_KEYS [] = Inr ?kvs"
    and header: "readHeader (nq_headers code_request) ''authorization'' = Header None"
    and form: "formField (Obj ?kvs) ''grant_type'' = Some ''authorization_code''" "formField (Obj ?kvs) ''code'' = Some ''c0de''"
    by code_simp+
  obtain e c q au where run: "perform (answering (Boolean True)) (exchangeAuthorizationCode (br_token web_bridge)
      \<lparr>ci_grantType = Some ''authorization_code'', ci_code = Some ''c0de'', ci_redirectUri = formField (Obj ?kvs) ''redirect_uri'',
       ci_clientId = formField (Obj ?kvs) ''client_id'', ci_codeVerifier = formField (Obj ?kvs) ''code_verifier''\<rparr>) ()
     = (Inl e, [(StorePort c, q)], au, ())"
    using exchange_reaches by fastforce
  have grant: "perform (answering (Boolean True)) (token_grant web_bridge (Header None) (Obj ?kvs)) () = (Inl e, [(StorePort c, q)], au, ())"
    using perform_andThen_Inl [OF run] by (simp add: token_grant_def Let_def form assertUnambiguousAuthorization_def pass_def)
  obtain r tr2 au2 where failed: "perform (answering (Boolean True)) (token_failure web_bridge (hasBasicAuthorization (nq_headers code_request)) e) ()
      = (r, tr2, au2, ())" by (metis prod_cases4 unit.exhaust)
  show ?thesis
    by (simp add: handleToken_def perform_bind andThen_run [OF guard_allowed] body header lift_def catch_run
        perform_andThen_Inl [OF grant] failed) blast
qed

theorem token_request_unambiguous_witness:
  "readHeader (nq_headers code_request) ''authorization'' \<noteq> Ambiguous"
proof -
  from code_request_reaches obtain r tr au c q
    where "perform (answering (Boolean True)) (handleToken web_bridge code_request) () = (r, tr, au, ())"
      and "(StorePort c, q) \<in> set tr" by blast
  from token_request_unambiguous [OF this] show ?thesis by simp
qed

lemma refresh_request_within:
  assumes "formField (nq_body req) ''grant_type'' = Some ''refresh_token''" and "formField (nq_body req) ''refresh_token'' = Some raw"
  shows "calls_within (\<lambda>c. \<not> mints_token (sha256Hex raw) c) (handleToken b req)"
proof -
  let ?P = "\<lambda>c. \<not> mints_token (sha256Hex raw) c"
  have failed: "calls_within ?P (token_failure b basic e)" for basic e
    by (simp add: token_failure_def Let_def)
  have grant: "calls_within ?P (token_grant b h (Obj (formObject (nq_body req))))" for h
    using assms refresh_within [of raw "br_token b" "\<lparr>ri_grantType = Some ''refresh_token'', ri_refreshToken = None,
      ri_clientId = formField (nq_body req) ''client_id''\<rparr>"]
    unfolding token_grant_def assertUnambiguousAuthorization_def Let_def
    by (auto intro!: within_intros simp: formField_def formObject_def split: jsval.splits)
  have "calls_within ?P (case r of Inl e \<Rightarrow> token_failure b False e
      | Inr body \<Rightarrow> catch (andThen (token_grant b h (Obj body)) (\<lambda>response. pass (token_answer response))) (token_failure b basic))"
    if "r = checkedFormObject req TOKEN_SINGLETON_PARAM_KEYS []" for r h basic
  proof (cases r)
    case (Inr body)
    with that have "body = formObject (nq_body req)" by (auto simp: checkedFormObject_def Let_def split: if_split_asm)
    with Inr show ?thesis using grant failed by (auto intro!: within_intros)
  qed (simp add: failed)
  then show ?thesis using failed
    by (auto simp: handleToken_def guard_def check_def pass_def fail_def lift_def split: sum.split)
qed

definition plain_platform :: platform where
  "plain_platform =
     \<lparr>pf_parseJson = (\<lambda>s. None), pf_searchParams = (\<lambda>s. []), pf_urlParams = (\<lambda>s. []), pf_bodyExceeds = (\<lambda>n s. Some False)\<rparr>"

definition jwks_request :: raw_request where
  "jwks_request =
     \<lparr>rq_method = ''GET'', rq_path = ''/oauth/jwks'', rq_url = ''https://app.example/oauth/jwks'', rq_headers = [],
      rq_text = None\<rparr>"

theorem responses_well_formed_witness:
  "response_ok (handleJwks web_bridge)"
proof -
  have routes: "pathAfterOrigin demo_parser ''https://app.example/cb'' = Inr ''/cb''" by code_simp
  have app: "app_response plain_platform web_bridge ''x-identity'' None jwks_request = Some (pass (handleJwks web_bridge))"
    by (simp add: app_response_def jwks_request_def get_routes_def routes serve_def Let_def)
  have run: "perform (answering Undefined) (pass (handleJwks web_bridge)) () = (Inr (handleJwks web_bridge), [], [], ())"
    by (simp add: pass_def)
  have "handleJwks web_bridge = payloadTooLarge \<or> response_ok (handleJwks web_bridge)"
    using responses_well_formed [OF app run] by blast
  then show ?thesis by (simp add: handleJwks_def payloadTooLarge_def respond_def)
qed

subsection \<open>Concurrent requests\<close>

definition refresh_request :: norm_request where
  "refresh_request = post [(''grant_type'', Str ''refresh_token''), (''refresh_token'', Str demo_raw)]"

lemma request_fields:
  "formField (nq_body refresh_request) ''grant_type'' = Some ''refresh_token''"
  "formField (nq_body refresh_request) ''refresh_token'' = Some demo_raw"
  by (simp_all add: refresh_request_def post_def formField_def formObject_def own_def nonempty_string_def str_of_def demo_raw_def
      refresh_token_text_def)

lemma within_served: "calls_within P (serve b h r req) \<Longrightarrow> calls_within P (served b h (r, req))"
  by (simp add: served_def within_bind)

theorem server_code_single_use_witness:
  "\<forall>picks. won (code_granted ''c0de'') (fst (interleave (memory_env demo_ports) picks
      (map (served web_bridge ''x-identity'') [(Token, code_request), (Token, code_request)]) Token_Runs.demo_world)) \<le> 1"
proof
  fix picks
  let ?ts = "map (served web_bridge ''x-identity'') [(Token, code_request), (Token, code_request)]"
  have "list_all (calls_within (\<lambda>c. \<not> mints_code (sha256Hex ''c0de'') c)) ?ts"
    using token_within by (simp add: within_served serve_def)
  then have "list_all (\<lambda>(c, r). \<not> mints_code (sha256Hex ''c0de'') c)
      (fst (snd (interleave (memory_env demo_ports) picks ?ts Token_Runs.demo_world)))"
    by (metis interleave_within prod.collapse)
  from server_code_single_use [OF this] stock_le_1(1) [of "sha256Hex ''c0de''" "w_store Token_Runs.demo_world"]
  show "won (code_granted ''c0de'') (fst (interleave (memory_env demo_ports) picks ?ts Token_Runs.demo_world)) \<le> 1" by simp
qed

theorem server_refresh_single_use_witness:
  "\<forall>picks. won (refresh_granted demo_raw) (fst (interleave (memory_env demo_ports) picks
      (map (served web_bridge ''x-identity'') [(Token, refresh_request), (Token, refresh_request)]) Token_Runs.demo_world)) \<le> 1"
proof
  fix picks
  let ?ts = "map (served web_bridge ''x-identity'') [(Token, refresh_request), (Token, refresh_request)]"
  have "list_all (calls_within (\<lambda>c. \<not> mints_token (sha256Hex demo_raw) c)) ?ts"
    using refresh_request_within [OF request_fields] by (simp add: within_served serve_def)
  then have "list_all (\<lambda>(c, r). \<not> mints_token (sha256Hex demo_raw) c)
      (fst (snd (interleave (memory_env demo_ports) picks ?ts Token_Runs.demo_world)))"
    by (metis interleave_within prod.collapse)
  from server_refresh_single_use [OF demo_world_reachable this]
    stock_le_1(2) [of "sha256Hex demo_raw" "w_store Token_Runs.demo_world"]
  show "won (refresh_granted demo_raw) (fst (interleave (memory_env demo_ports) picks ?ts Token_Runs.demo_world)) \<le> 1" by simp
qed

subsection \<open>The pairing route\<close>

definition pairing_post :: norm_request where
  "pairing_post =
     \<lparr>nq_query =
        [(''client_id'', Str ''mcpdc_1''), (''redirect_uri'', Str ''https://app.example/cb''), (''response_type'', Str ''code''),
         (''code_challenge'', Str ''challenge''), (''code_challenge_method'', Str ''S256''), (''state'', Str ''s'')],
      nq_body = Obj [(''pairing_code'', Str ''BCDF-GHJK-LMNP''), (''pairing_nonce'', Str ''n'')], nq_formBody = None,
      nq_headers = [(''origin'', Str ''https://app.example'')], nq_ip = None\<rparr>"

definition entry_session :: pairing_session where
  "entry_session = \<lparr>se_nonce = ''n'', se_expiresAt = ''2030-01-01T00:00:00.000Z''\<rparr>"

definition code_entry_page :: string where
  "code_entry_page = renderPairingPage
     \<lparr>pp_nonce = ''n'', pp_expiresAt = ''2030-01-01T00:00:00.000Z'',
      pp_oauthParams = ga_page (gatherOAuthParams pairing_post Undefined), pp_error = None\<rparr>"

theorem pairing_page_roundtrip_witness:
  "gatherOAuthParams (submission pairing_post) (submitted_form ''BCDF-GHJK-LMNP'' code_entry_page) = gatherOAuthParams pairing_post Undefined
   \<and> formField (submitted_form ''BCDF-GHJK-LMNP'' code_entry_page) ''pairing_nonce'' = Some ''n''
   \<and> ga_page (gatherOAuthParams pairing_post Undefined) \<noteq> []"
proof -
  have "plain_resource (own (nq_query pairing_post) ''resource'')" "plain_resource (own (formObject Undefined) ''resource'')"
    and "ga_page (gatherOAuthParams pairing_post Undefined) \<noteq> []"
    by code_simp+
  moreover have "np_body (pairingPage entry_session (ga_page (gatherOAuthParams pairing_post Undefined)) None) = Html code_entry_page"
    by (simp add: pairingPage_def respond_def entry_session_def code_entry_page_def)
  ultimately show ?thesis
    using pairing_page_roundtrip [of pairing_post Undefined entry_session None code_entry_page "''BCDF-GHJK-LMNP''"]
    by (simp add: entry_session_def)
qed

definition paired :: given_identity where
  "paired = \<lparr>gi_subject = ''user-1'', gi_allowedScopes = Arr [Str ''read''], gi_registration = None\<rparr>"

definition paired_body :: jsval where
  "paired_body = Obj [(''pairing_code'', Str ''BCDF-GHJK-LMNP''), (''pairing_nonce'', Str ''n'')]"

lemma pairing_checked:
  "pairing_body web_bridge True pairing_post = Inr paired_body"
  "findDuplicatedKeys (Obj (nq_query pairing_post)) OAUTH_SINGLETON_PARAM_KEYS = []"
  "snapshotIdentityResult paired_value = Inr (Identified ''user-1'' (Arr [Str ''read'']))"
  "formField paired_body ''pairing_code'' = Some ''BCDF-GHJK-LMNP''" "formField paired_body ''pairing_nonce'' = Some ''n''"
  by code_simp+

definition paired_request :: norm_request where
  "paired_request = \<lparr>nq_query = ga_query (gatherOAuthParams pairing_post paired_body), nq_body = Undefined, nq_formBody = None,
     nq_headers = nq_headers pairing_post, nq_ip = None\<rparr>"

lemma paired_input:
  "authorize_input_of paired_request paired = web_request ''code''"
  "findDuplicatedKeys (Obj (nq_query paired_request)) OAUTH_SINGLETON_PARAM_KEYS = []"
  by code_simp+

lemma paired_authorized:
  "\<exists>pc tr au. perform (web_env 18) (handleAuthorize web_bridge paired_request paired) ()
     = (Inr (respond 200 CONSENT_HEADERS (Html (renderConsentPage pc))), tr, au, ())"
proof -
  from web_prepared obtain pc tr au
    where run: "perform (web_env 18) (prepare web_service (web_request ''code'')) () = (Inr pc, tr, au, ())" by blast
  show ?thesis
    by (simp add: handleAuthorize_def answered_def catch_run paired_input check_def andThen_run [OF run] pass_def) blast
qed

lemma paired_route:
  "\<exists>resp tr au. perform (web_env 18) (fst (handlePairingAuthorize web_bridge 0 None True pairing_post)) () = (Inr resp, tr, au, ())
     \<and> np_headers resp = CONSENT_HEADERS"
proof -
  from paired_authorized obtain pc tr au where run: "perform (web_env 18) (handleAuthorize web_bridge paired_request paired) ()
     = (Inr (respond 200 CONSENT_HEADERS (Html (renderConsentPage pc))), tr, au, ())" by blast
  have ip: "nq_ip pairing_post = None" by (simp add: pairing_post_def)
  have verified: "perform (web_env 18) (verifyPairingIdentity c n None) ()
      = (Inr (Identified ''user-1'' (Arr [Str ''read''])), [(VerifyPairing (pairing_input_value c n None), Inr paired_value)], [], ())" for c n
    by (simp add: verifyPairingIdentity_def askPort_def pairing_checked(3))
  have guarded: "perform (web_env 18) (guardPairingAuthorize None) ()
      = (Inr (), [(CheckRate (guard_key ''authorize'' None), Inr (Boolean True))], [], ())"
    by (simp add: guardPairingAuthorize_def guard_def check_def pass_def truthy_value_def)
  show ?thesis
    by (simp add: handlePairingAuthorize_def pairingAuthorizeRateLimitAllows_def pairing_checked perform_bind ip guarded
        pairing_request_def Let_def verified run [unfolded paired_request_def paired_def] respond_def)
qed

theorem pairing_route_identified_witness:
  "\<exists>(tr :: trace) typed nonce reply sub allowed. formField (nq_body pairing_post) ''pairing_code'' = Some typed
     \<and> (VerifyPairing (pairing_input_value typed nonce (nq_ip pairing_post)), Inr reply) \<in> set tr
     \<and> snapshotIdentityResult reply = Inr (Identified sub allowed)"
proof -
  from paired_route obtain resp tr au
    where run: "perform (web_env 18) (fst (handlePairingAuthorize web_bridge 0 None True pairing_post)) () = (Inr resp, tr, au, ())"
      and headers: "np_headers resp = CONSENT_HEADERS" by blast
  have "\<not> (entry_calls tr \<and> entry_answer (Inr resp))" using headers by (simp add: entry_answer_def)
  from pairing_route_identified [OF run this] show ?thesis by blast
qed

end
