(* ===== verification/Id_Tokens.thy ===== *)
theory Id_Tokens
  imports Machine_Clients Token_Laws
begin

section \<open>Identity tokens\<close>

text \<open>
  \<open>src/identity/generic-oidc-claims.ts\<close>, \<open>google.ts\<close> and \<open>cloudflare-access.ts\<close>: the claims of a token
  whose signature \<open>jose\<close> has verified, and the identity or the reason that follows. The payload is parsed JSON,
  untyped. \<open>String.prototype.toLowerCase\<close> is a parameter \<open>lower\<close>, because its table for all of Unicode is not
  part of the repository; \<open>jose\<close> is a parameter as well: it answers the payload and the algorithm of the
  protected header, or one of its errors.
\<close>

type_synonym claims = "(string \<times> jsval) list"

datatype id_answer =
    Accepted jsval "string list option" claims
  | Rejected string

text \<open>A dash of the messages, in UTF-8.\<close>

definition em_dash :: string where "em_dash = [CHR 0xE2, CHR 0x80, CHR 0x94]"

text \<open>The \<open>IdentityResult\<close> a port returns for an answer.\<close>

definition id_value :: "id_answer \<Rightarrow> jsval" where
  "id_value a =
     (case a of
        Accepted sub allowed cs \<Rightarrow>
          Obj [(''ok'', Boolean True),
               (''identity'', Obj ((''subject'', sub)
                  # (case allowed of None \<Rightarrow> [] | Some ss \<Rightarrow> [(''allowedScopes'', Arr (map Str ss))])
                  @ [(''claims'', Obj cs)]))]
      | Rejected reason \<Rightarrow> Obj [(''ok'', Boolean False), (''reason'', Str reason)])"

definition opt_string :: "string option \<Rightarrow> jsval" where
  "opt_string v = (case v of None \<Rightarrow> Undefined | Some s \<Rightarrow> Str s)"

subsection \<open>Generic OpenID Connect\<close>

definition MAX_NAME_LENGTH :: nat where "MAX_NAME_LENGTH = 256"

definition displayName :: "claims \<Rightarrow> string option" where
  "displayName payload =
     (if own payload ''email_verified'' \<noteq> Boolean True then None
      else case own payload ''name'' of
             Str v \<Rightarrow> if trim v = [] \<or> utf16_length v > MAX_NAME_LENGTH then None else Some v
           | _ \<Rightarrow> None)"

record oidc_claim_config =
  oc_issuer :: string
  oc_clientId :: string
  oc_subjectAllowlist :: "string list option"
  oc_allowEmailAllowlist :: bool

record validate_opts =
  vo_expectedNonce :: "string option"
  vo_accessToken :: "string option"
  vo_alg :: "string option"

definition PINNED_ALGS :: "string list" where "PINNED_ALGS = [''RS256'', ''ES256'']"

definition resolveAllowedAlgs :: "string list option \<Rightarrow> string list outcome" where
  "resolveAllowedAlgs advertised =
     (case advertised of
        None \<Rightarrow> Inr PINNED_ALGS
      | Some algs \<Rightarrow>
          (case filter (\<lambda>a. a \<in> set PINNED_ALGS) algs of
             [] \<Rightarrow> Inl (Thrown ''Error''
                ''generic_oidc_no_supported_alg: issuer advertises no RS256/ES256 id_token signing alg'')
           | usable \<Rightarrow> Inr usable))"

definition computeAtHash :: "string \<Rightarrow> string \<Rightarrow> string option" where
  "computeAtHash accessToken alg =
     (if alg \<noteq> ''RS256'' \<and> alg \<noteq> ''ES256'' then None
      else let h = sha256 (utf8 accessToken) in Some (base64url (take (length h div 2) h)))"

definition normalizeAud :: "jsval \<Rightarrow> string list option" where
  "normalizeAud aud =
     (case aud of
        Arr vs \<Rightarrow> if vs = [] then None else all_strings vs
      | Str a \<Rightarrow> Some [a]
      | _ \<Rightarrow> None)"

definition subjectAllowedGeneric ::
    "(string \<Rightarrow> string) \<Rightarrow> string \<Rightarrow> string option \<Rightarrow> bool \<Rightarrow> string list \<Rightarrow> bool \<Rightarrow> bool" where
  "subjectAllowedGeneric lower sub email emailVerified allowlist allowEmail \<longleftrightarrow>
     sub \<in> set allowlist
     \<or> allowEmail \<and> emailVerified
       \<and> (case email of None \<Rightarrow> False | Some e \<Rightarrow> list_ex (\<lambda>entry. lower (trim entry) = lower (trim e)) allowlist)"

definition claim_string :: "jsval \<Rightarrow> string option" where
  "claim_string v = (case v of Str s \<Rightarrow> Some s | _ \<Rightarrow> None)"

definition generic_identity :: "oidc_claim_config \<Rightarrow> claims \<Rightarrow> string \<Rightarrow> id_answer" where
  "generic_identity cfg payload sub =
     Accepted (Str (oc_issuer cfg @ ''|'' @ sub)) None
       ([(''email'', opt_string (claim_string (own payload ''email''))),
         (''emailVerified'', Boolean (own payload ''email_verified'' = Boolean True))]
        @ (case displayName payload of None \<Rightarrow> [] | Some name \<Rightarrow> [(''name'', Str name)])
        @ [(''issuer'', Str (oc_issuer cfg)), (''expiresAt'', own payload ''exp''), (''issuedAt'', own payload ''iat'')])"

text \<open>The hash of the access token is only checked when both it and the access token are there.\<close>

definition at_hash_ok :: "claims \<Rightarrow> validate_opts \<Rightarrow> bool" where
  "at_hash_ok payload opts \<longleftrightarrow>
     (case vo_accessToken opts of
        None \<Rightarrow> True
      | Some accessToken \<Rightarrow>
          own payload ''at_hash'' = Undefined
          \<or> (case vo_alg opts of
               None \<Rightarrow> False
             | Some alg \<Rightarrow> (case computeAtHash accessToken alg of None \<Rightarrow> False | Some h \<Rightarrow> own payload ''at_hash'' = Str h)))"

definition validateGenericOidcIdToken ::
    "(string \<Rightarrow> string) \<Rightarrow> oidc_claim_config \<Rightarrow> claims \<Rightarrow> validate_opts \<Rightarrow> id_answer" where
  "validateGenericOidcIdToken lower cfg payload opts =
     (if own payload ''iss'' \<noteq> Str (oc_issuer cfg) then Rejected ''generic_oidc_bad_iss''
      else case normalizeAud (own payload ''aud'') of
        None \<Rightarrow> Rejected ''generic_oidc_bad_aud''
      | Some aud \<Rightarrow>
          if length aud > 1 then Rejected ''generic_oidc_multi_audience''
          else if aud \<noteq> [oc_clientId cfg] then Rejected ''generic_oidc_bad_aud''
          else if \<not> truthy_value (own payload ''exp'') then Rejected ''generic_oidc_missing_exp''
          else if \<not> truthy_value (own payload ''iat'') then Rejected ''generic_oidc_missing_iat''
          else if \<not> (case vo_expectedNonce opts of None \<Rightarrow> True | Some n \<Rightarrow> own payload ''nonce'' = Str n)
          then Rejected ''generic_oidc_bad_nonce''
          else if \<not> at_hash_ok payload opts then Rejected ''generic_oidc_bad_at_hash''
          else case claim_string (own payload ''sub'') of
            None \<Rightarrow> Rejected ''generic_oidc_no_subject''
          | Some sub \<Rightarrow>
              if sub = [] then Rejected ''generic_oidc_no_subject''
              else if (case oc_subjectAllowlist cfg of
                         None \<Rightarrow> True
                       | Some allowlist \<Rightarrow> allowlist = []
                           \<or> subjectAllowedGeneric lower sub (claim_string (own payload ''email''))
                               (own payload ''email_verified'' = Boolean True) allowlist (oc_allowEmailAllowlist cfg))
              then generic_identity cfg payload sub
              else Rejected ''generic_oidc_subject_not_allowed'')"

subsection \<open>Verified tokens\<close>

text \<open>The errors of \<open>jose\<close> the sources tell apart; the last is anything else that was thrown.\<close>

datatype jose_error =
    Jwt_expired | Claim_failed | Alg_not_allowed | No_matching_key | Jwks_timeout | Jwks_invalid | Jose_generic
  | Other_jose | Foreign_error

record verified_jwt =
  vj_payload :: claims
  vj_alg :: jsval

type_synonym jwt_verifier = "string \<Rightarrow> string list \<Rightarrow> jose_error + verified_jwt"

fun jwtErrorReason :: "jose_error \<Rightarrow> string" where
  "jwtErrorReason Jwt_expired = ''generic_oidc_token_expired''"
| "jwtErrorReason Claim_failed = ''generic_oidc_bad_claim''"
| "jwtErrorReason Alg_not_allowed = ''generic_oidc_unsupported_alg''"
| "jwtErrorReason No_matching_key = ''generic_oidc_unknown_key''"
| "jwtErrorReason Other_jose = ''generic_oidc_token_invalid''"
| "jwtErrorReason _ = ''generic_oidc_verify_failed''"

definition verifyIdTokenWithKey ::
    "jwt_verifier \<Rightarrow> string \<Rightarrow> string list \<Rightarrow> (claims \<Rightarrow> validate_opts \<Rightarrow> id_answer)
       \<Rightarrow> string option \<Rightarrow> string option \<Rightarrow> id_answer" where
  "verifyIdTokenWithKey jose token allowedAlgs validate expectedNonce accessToken =
     (case jose token allowedAlgs of
        Inl e \<Rightarrow> Rejected (jwtErrorReason e)
      | Inr v \<Rightarrow>
          validate (vj_payload v)
            \<lparr>vo_expectedNonce = expectedNonce, vo_accessToken = accessToken, vo_alg = claim_string (vj_alg v)\<rparr>)"

text \<open>The \<open>verify\<close> of a generic identity, and of the Google preset with its own validator.\<close>

definition oidc_verify ::
    "jwt_verifier \<Rightarrow> string list \<Rightarrow> (claims \<Rightarrow> validate_opts \<Rightarrow> id_answer)
       \<Rightarrow> string option \<Rightarrow> string option \<Rightarrow> jsval \<Rightarrow> id_answer" where
  "oidc_verify jose allowedAlgs validate expectedNonce accessToken input =
     (case input of
        Str token \<Rightarrow>
          if token = [] then Rejected ''generic_oidc_id_token_missing''
          else verifyIdTokenWithKey jose token allowedAlgs validate expectedNonce accessToken
      | _ \<Rightarrow> Rejected ''generic_oidc_id_token_missing'')"

subsection \<open>Google\<close>

definition GOOGLE_ISSUER :: string where "GOOGLE_ISSUER = ''https://accounts.google.com''"

record google_config =
  gg_clientId :: string
  gg_clientSecret :: string
  gg_hostedDomain :: "string option"
  gg_subjectAllowlist :: "string list option"
  gg_allowEmailAllowlist :: bool

definition google_claim_config :: "google_config \<Rightarrow> oidc_claim_config" where
  "google_claim_config cfg =
     \<lparr>oc_issuer = GOOGLE_ISSUER, oc_clientId = gg_clientId cfg, oc_subjectAllowlist = gg_subjectAllowlist cfg,
      oc_allowEmailAllowlist = gg_allowEmailAllowlist cfg\<rparr>"

text \<open>The reason a hosted domain refuses a payload, if any.\<close>

definition hosted_domain_problem :: "(string \<Rightarrow> string) \<Rightarrow> google_config \<Rightarrow> claims \<Rightarrow> string option" where
  "hosted_domain_problem lower cfg payload =
     (case gg_hostedDomain cfg of
        None \<Rightarrow> None
      | Some domain \<Rightarrow>
          let expected = lower (trim domain) in
          if expected = [] then Some ''google_bad_hosted_domain''
          else case claim_string (own payload ''hd'') of
                 None \<Rightarrow> Some ''google_missing_hosted_domain''
               | Some given \<Rightarrow> if lower (trim given) \<noteq> expected then Some ''google_bad_hosted_domain'' else None)"

definition validateGoogleIdToken ::
    "(string \<Rightarrow> string) \<Rightarrow> google_config \<Rightarrow> claims \<Rightarrow> validate_opts \<Rightarrow> id_answer" where
  "validateGoogleIdToken lower cfg payload opts =
     (case validateGenericOidcIdToken lower (google_claim_config cfg) payload opts of
        Rejected reason \<Rightarrow> Rejected reason
      | Accepted _ allowed cs \<Rightarrow>
          (case claim_string (own payload ''sub'') of
             None \<Rightarrow> Rejected ''generic_oidc_no_subject''
           | Some sub \<Rightarrow>
               (case hosted_domain_problem lower cfg payload of
                  Some reason \<Rightarrow> Rejected reason
                | None \<Rightarrow>
                    Accepted (Str sub) allowed
                      (if own payload ''email_verified'' \<noteq> Boolean True then map_del ''email'' cs else cs))))"

definition apostrophe :: string where "apostrophe = [CHR 0x27]"

definition google_secret_text :: string where
  "google_secret_text =
     ''google_client_secret_required: Google requires a client secret (its token auth methods are secret-based; the docs''
     @ apostrophe @ '' newer '' @ apostrophe @ ''Optional'' @ apostrophe @ '' marking is unverified '' @ em_dash
     @ '' treated as required)''"

definition google_config_ok :: "google_config \<Rightarrow> unit outcome" where
  "google_config_ok cfg =
     chain (require (gg_clientSecret cfg \<noteq> []) (Thrown ''Error'' google_secret_text)) (\<lambda>_.
     require (case gg_hostedDomain cfg of None \<Rightarrow> True | Some d \<Rightarrow> trim d \<noteq> [])
       (Thrown ''Error'' (''google_bad_config: hostedDomain must be a non-empty string ''
          @ ''(a blank value would silently disable the Workspace gate)'')))"

subsection \<open>Cloudflare Access\<close>

record access_config =
  cf_audience :: string
  cf_certsUrl :: string
  cf_issuer :: string
  cf_emailAllowlist :: "string list option"

definition emailAllowed :: "(string \<Rightarrow> string) \<Rightarrow> string \<Rightarrow> string list \<Rightarrow> bool" where
  "emailAllowed lower email allowlist \<longleftrightarrow>
     (let normalized = lower (trim email)
      in normalized \<noteq> [] \<and> list_ex (\<lambda>entry. lower (trim entry) = normalized) allowlist)"

text \<open>An email that is not a string has no \<open>trim\<close>: with an allowlist the call throws.\<close>

definition validateCloudflareAccessClaims ::
    "(string \<Rightarrow> string) \<Rightarrow> access_config \<Rightarrow> claims \<Rightarrow> id_answer outcome" where
  "validateCloudflareAccessClaims lower cfg payload =
     (let email = own payload ''email'';
          answer = Accepted (if own payload ''sub'' \<in> {Undefined, Null} then email else own payload ''sub'') None
            [(''email'', email), (''audience'', Str (cf_audience cfg)), (''expiresAt'', own payload ''exp''),
             (''issuedAt'', own payload ''iat'')]
      in if \<not> truthy_value (own payload ''exp'') then Inr (Rejected ''access_jwt_missing_expiry'')
         else if \<not> truthy_value email then Inr (Rejected ''access_jwt_email_not_allowed'')
         else case cf_emailAllowlist cfg of
                None \<Rightarrow> Inr answer
              | Some allowlist \<Rightarrow>
                  if allowlist = [] then Inr answer
                  else case email of
                         Str e \<Rightarrow> Inr (if emailAllowed lower e allowlist then answer else Rejected ''access_jwt_email_not_allowed'')
                       | _ \<Rightarrow> Inl (typeError ''email.trim is not a function''))"

fun accessErrorReason :: "jose_error \<Rightarrow> string" where
  "accessErrorReason Jwt_expired = ''access_jwt_expired''"
| "accessErrorReason Claim_failed = ''access_jwt_bad_claim''"
| "accessErrorReason Alg_not_allowed = ''access_jwt_unsupported_alg''"
| "accessErrorReason No_matching_key = ''access_jwt_unknown_key''"
| "accessErrorReason Foreign_error = ''access_jwt_verify_failed''"
| "accessErrorReason _ = ''access_jwt_invalid''"

text \<open>
  \<open>jose\<close> is given the audience, the issuer and a clock tolerance with the algorithms; a blank audience would
  make it skip the comparison, so the factory refuses one.
\<close>

definition access_verify ::
    "(string \<Rightarrow> string) \<Rightarrow> (string \<Rightarrow> string list \<Rightarrow> string \<Rightarrow> string \<Rightarrow> jose_error + claims) \<Rightarrow> access_config
       \<Rightarrow> jsval \<Rightarrow> id_answer" where
  "access_verify lower jose cfg input =
     (case input of
        Str token \<Rightarrow>
          if token = [] then Rejected ''access_jwt_missing''
          else (case jose token [''RS256''] (cf_audience cfg) (cf_issuer cfg) of
                  Inl e \<Rightarrow> Rejected (accessErrorReason e)
                | Inr payload \<Rightarrow>
                    (case validateCloudflareAccessClaims lower cfg payload of
                       Inl _ \<Rightarrow> Rejected (accessErrorReason Foreign_error)
                     | Inr answer \<Rightarrow> answer))
      | _ \<Rightarrow> Rejected ''access_jwt_missing'')"

definition assertHttpsRaw :: "string \<Rightarrow> string \<Rightarrow> unit outcome" where
  "assertHttpsRaw value label =
     require (startsWith value ''https://'')
       (Thrown ''Error'' (label @ '' must be an https:// URL (http trust roots allow key substitution)''))"

definition audience_text :: string where
  "audience_text =
     ''audience is required (a non-empty CF Access AUD tag) '' @ em_dash
     @ '' a blank/whitespace audience lets jose enforce aud-presence but skip the value match, ''
     @ ''accepting any CF JWT regardless of app''"

definition access_config_ok :: "access_config \<Rightarrow> unit outcome" where
  "access_config_ok cfg =
     chain (require (trim (cf_audience cfg) \<noteq> []) (Thrown ''Error'' audience_text)) (\<lambda>_.
     chain (assertHttpsRaw (cf_certsUrl cfg) ''certsUrl'') (\<lambda>_.
     assertHttpsRaw (cf_issuer cfg) ''issuer''))"

subsection \<open>Bounded bodies\<close>

text \<open>\<open>readCappedText\<close>: the bytes of the chunks, or nothing as soon as the cap is passed.\<close>

fun readCappedText :: "nat \<Rightarrow> nat \<Rightarrow> string list \<Rightarrow> string option" where
  "readCappedText maxBytes received [] = Some []"
| "readCappedText maxBytes received (chunk # chunks) =
     (if received + length chunk > maxBytes then None
      else map_option (\<lambda>rest. chunk @ rest) (readCappedText maxBytes (received + length chunk) chunks))"

definition DEFAULT_MAX_JWKS_DOCUMENT_BYTES :: int where "DEFAULT_MAX_JWKS_DOCUMENT_BYTES = 65536"

definition capped_integer :: "int \<Rightarrow> jsval \<Rightarrow> failure \<Rightarrow> int outcome" where
  "capped_integer fallback v e =
     (case v of
        Undefined \<Rightarrow> Inr fallback
      | Number (Whole n) \<Rightarrow> if n < 1024 \<or> n > 1048576 then Inl e else Inr n
      | _ \<Rightarrow> Inl e)"

definition jwksDocumentCap :: "jsval \<Rightarrow> int outcome" where
  "jwksDocumentCap v =
     capped_integer DEFAULT_MAX_JWKS_DOCUMENT_BYTES v
       (typeError ''maxJwksDocumentBytes must be an integer in [1024, 1048576]'')"

end
