(* ===== verification/Entra_Tokens.thy ===== *)
theory Entra_Tokens
  imports Id_Tokens
begin

section \<open>Entra identity tokens and the group ceiling\<close>

text \<open>
  \<open>src/identity/entra-groups.ts\<close> and the claim validation of \<open>entra.ts\<close>: a deployer's mapping from group object
  identifiers to scopes is checked at boot, and a verified token's groups become the ceiling of what its
  subject may be granted. The mapping is untyped where it is checked and a record where it is used.
\<close>

subsection \<open>The mapping at boot\<close>

record group_authorization =
  gm_mapping :: "(string \<times> string list) list"
  gm_baseScopes :: "string list option"

definition is_guid :: "string \<Rightarrow> bool" where
  "is_guid s \<longleftrightarrow>
     length s = 36
     \<and> list_all (\<lambda>(i, c). if i \<in> {8, 13, 18, 23} then c = CHR ''-'' else is_hex c) (zip [0..<36] s)"

definition quoted_text :: "string \<Rightarrow> string" where
  "quoted_text s = CHR 0x22 # s @ [CHR 0x22]"

definition token_text :: string where
  "token_text = '' that is not a single RFC 6749 scope token (whitespace/quote/control chars break the allowed_scopes JWT round-trip)''"

definition assertMappedScope :: "string list option \<Rightarrow> string \<Rightarrow> jsval \<Rightarrow> string outcome" where
  "assertMappedScope scopeCatalog key scope =
     (case claim_string scope of
        None \<Rightarrow> Inl (authConfigError (''groupAuthorization mapping for '' @ quoted_text key @ '' has an empty or non-string scope''))
      | Some s \<Rightarrow>
          if s = [] then Inl (authConfigError (''groupAuthorization mapping for '' @ quoted_text key @ '' has an empty or non-string scope''))
          else if \<not> isScopeToken s
          then Inl (authConfigError (''groupAuthorization mapping for '' @ quoted_text key @ '' has scope '' @ quoted_text s @ token_text))
          else if (case scopeCatalog of None \<Rightarrow> False | Some catalog \<Rightarrow> s \<notin> set catalog)
          then Inl (authConfigError (''groupAuthorization mapped scope '' @ quoted_text s @ '' (group '' @ quoted_text key
                 @ '') is not in scopeCatalog''))
          else Inr s)"

definition assertBaseScope :: "string list option \<Rightarrow> jsval \<Rightarrow> string outcome" where
  "assertBaseScope scopeCatalog scope =
     (case claim_string scope of
        None \<Rightarrow> Inl (authConfigError ''groupAuthorization.baseScopes has an empty or non-string entry'')
      | Some s \<Rightarrow>
          if s = [] then Inl (authConfigError ''groupAuthorization.baseScopes has an empty or non-string entry'')
          else if \<not> isScopeToken s
          then Inl (authConfigError (''groupAuthorization baseScope '' @ quoted_text s @ '' is'' @ drop 8 token_text))
          else if (case scopeCatalog of None \<Rightarrow> False | Some catalog \<Rightarrow> s \<notin> set catalog)
          then Inl (authConfigError (''groupAuthorization baseScope '' @ quoted_text s @ '' is not in scopeCatalog''))
          else Inr s)"

definition mapped_scopes :: "string list option \<Rightarrow> string \<Rightarrow> jsval \<Rightarrow> string list outcome" where
  "mapped_scopes scopeCatalog key v =
     (let bad = authConfigError (''groupAuthorization mapping for '' @ quoted_text key @ '' must be a non-empty string[]'') in
      case v of
        Arr xs \<Rightarrow> if xs = [] then Inl bad else collect (assertMappedScope scopeCatalog key) xs
      | RevokedProxy \<Rightarrow> Inl proxy_type_error
      | _ \<Rightarrow> Inl bad)"

fun mapping_entries ::
    "(string \<Rightarrow> string) \<Rightarrow> string list option \<Rightarrow> string list \<Rightarrow> (string \<times> jsval) list
       \<Rightarrow> (string \<times> string list) list outcome" where
  "mapping_entries lower scopeCatalog seenLower [] = Inr []"
| "mapping_entries lower scopeCatalog seenLower ((key, scopes) # entries) =
     (if \<not> is_guid key
      then Inl (authConfigError (''groupAuthorization mapping key '' @ quoted_text key
             @ '' is not a GUID (display names are rejected '' @ em_dash @ '' spoof vector)''))
      else if lower key \<in> set seenLower
      then Inl (authConfigError (''groupAuthorization duplicate (case-insensitive) mapping key '' @ quoted_text key))
      else chain (mapped_scopes scopeCatalog key scopes) (\<lambda>ss.
           chain (mapping_entries lower scopeCatalog (seenLower @ [lower key]) entries) (\<lambda>rest.
           Inr ((key, ss) # rest))))"

definition base_scopes :: "string list option \<Rightarrow> jsval \<Rightarrow> string list option outcome" where
  "base_scopes scopeCatalog v =
     (case v of
        Undefined \<Rightarrow> Inr None
      | Arr xs \<Rightarrow> chain (collect (assertBaseScope scopeCatalog) xs) (\<lambda>ss. Inr (Some ss))
      | RevokedProxy \<Rightarrow> Inl proxy_type_error
      | _ \<Rightarrow> Inl (authConfigError (''groupAuthorization.baseScopes must be a string[] (or omitted) '' @ em_dash
               @ '' a string is iterated char-by-char, producing a nonsensical ceiling'')))"

text \<open>What was checked is what is used: on success the value, read at its declared type.\<close>

definition assertGroupAuthorizationMapping ::
    "(string \<Rightarrow> string) \<Rightarrow> string list option \<Rightarrow> jsval \<Rightarrow> group_authorization option outcome" where
  "assertGroupAuthorizationMapping lower scopeCatalog v =
     (case v of
        Undefined \<Rightarrow> Inr None
      | Obj groupAuth \<Rightarrow>
          (case own groupAuth ''mapping'' of
             Obj mapping \<Rightarrow>
               chain (mapping_entries lower scopeCatalog [] mapping) (\<lambda>entries.
               chain (base_scopes scopeCatalog (own groupAuth ''baseScopes'')) (\<lambda>base.
               Inr (Some \<lparr>gm_mapping = entries, gm_baseScopes = base\<rparr>)))
           | RevokedProxy \<Rightarrow> Inl proxy_type_error
           | _ \<Rightarrow> Inl (authConfigError ''groupAuthorization.mapping must be a Record<GUID, string[]>''))
      | RevokedProxy \<Rightarrow> Inl proxy_type_error
      | _ \<Rightarrow> Inl (authConfigError (''groupAuthorization must be an object (or omitted) '' @ em_dash
               @ '' a falsy/malformed value never degrades to a silent no-ceiling default'')))"

subsection \<open>The ceiling of a token\<close>

definition hasOverageMarker :: "claims \<Rightarrow> bool" where
  "hasOverageMarker payload \<longleftrightarrow>
     (case own payload ''_claim_names'' of Obj names \<Rightarrow> map_has ''groups'' names | _ \<Rightarrow> False)
     \<or> own payload ''hasgroups'' = Boolean True"

definition group_entry :: "string list \<Rightarrow> jsval \<Rightarrow> string list" where
  "group_entry out v = (case v of Str s \<Rightarrow> if s = [] then out else push_new out s | _ \<Rightarrow> out)"

definition normalizeGroups :: "jsval \<Rightarrow> string list" where
  "normalizeGroups raw = (case raw of Arr xs \<Rightarrow> foldl group_entry [] xs | _ \<Rightarrow> [])"

definition opt_list :: "'a list option \<Rightarrow> 'a list" where
  "opt_list v = (case v of None \<Rightarrow> [] | Some xs \<Rightarrow> xs)"

definition lower_mapping :: "(string \<Rightarrow> string) \<Rightarrow> group_authorization \<Rightarrow> (string list) jsmap" where
  "lower_mapping lower groupAuth = foldl (\<lambda>m (key, scopes). map_set (lower key) scopes m) [] (gm_mapping groupAuth)"

definition computeGroupScopes :: "(string \<Rightarrow> string) \<Rightarrow> string list \<Rightarrow> group_authorization \<Rightarrow> string list" where
  "computeGroupScopes lower groups groupAuth =
     foldl (\<lambda>ceiling guid. foldl push_new ceiling (opt_list (map_of (lower_mapping lower groupAuth) (lower guid))))
       (foldl push_new [] (opt_list (gm_baseScopes groupAuth))) groups"

definition resolveGroupCeiling :: "(string \<Rightarrow> string) \<Rightarrow> claims \<Rightarrow> group_authorization \<Rightarrow> string + string list" where
  "resolveGroupCeiling lower payload groupAuth =
     (let groups = normalizeGroups (own payload ''groups'') in
      if groups = [] \<and> hasOverageMarker payload then Inl ''entra_groups_overage''
      else let allowedScopes = computeGroupScopes lower groups groupAuth in
           if allowedScopes = [] then Inl (if groups = [] then ''entra_no_groups'' else ''entra_no_mapped_groups'')
           else Inr allowedScopes)"

subsection \<open>Claims\<close>

record entra_config =
  en_tenantId :: string
  en_clientId :: string
  en_clientSecret :: "string option"
  en_redirectUri :: string
  en_allowedTenantIds :: "string list option"
  en_subjectAllowlist :: "string list option"
  en_allowMutableClaims :: bool
  en_groupAuthorization :: "group_authorization option"

definition ENTRA_BASE :: string where "ENTRA_BASE = ''https://login.microsoftonline.com''"

definition entraIssuer :: "string \<Rightarrow> string" where
  "entraIssuer tenantId = ENTRA_BASE @ ''/'' @ tenantId @ ''/v2.0''"

definition entraAuthorizeEndpoint :: "string \<Rightarrow> string" where
  "entraAuthorizeEndpoint tenantId = ENTRA_BASE @ ''/'' @ tenantId @ ''/oauth2/v2.0/authorize''"

definition entraTokenEndpoint :: "string \<Rightarrow> string" where
  "entraTokenEndpoint tenantId = ENTRA_BASE @ ''/'' @ tenantId @ ''/oauth2/v2.0/token''"

definition entraJwksUrl :: "string \<Rightarrow> string" where
  "entraJwksUrl tenantId = ENTRA_BASE @ ''/'' @ tenantId @ ''/discovery/v2.0/keys''"

definition usableString :: "jsval \<Rightarrow> string option" where
  "usableString v = (case v of Str s \<Rightarrow> if trim s \<noteq> [] then Some s else None | _ \<Rightarrow> None)"

definition subjectAllowed :: "(string \<Rightarrow> string) \<Rightarrow> claims \<Rightarrow> string list \<Rightarrow> bool \<Rightarrow> bool" where
  "subjectAllowed lower payload allowlist allowMutable \<longleftrightarrow>
     (case usableString (own payload ''oid'') of
        Some oid \<Rightarrow> list_ex (\<lambda>entry. lower (trim entry) = lower oid) allowlist
      | None \<Rightarrow>
          (case (usableString (own payload ''sub''), usableString (own payload ''iss'')) of
             (Some sub, Some issuer) \<Rightarrow> issuer @ ''|'' @ sub \<in> set allowlist
           | _ \<Rightarrow> False))
     \<or> allowMutable
       \<and> list_ex (\<lambda>candidate. case candidate of
              None \<Rightarrow> False
            | Some c \<Rightarrow> list_ex (\<lambda>entry. lower entry = lower c) allowlist)
            [usableString (own payload ''preferred_username''), usableString (own payload ''email'')]"

text \<open>The issuer a payload is accepted under, or the reason it is not.\<close>

definition accepted_issuer :: "entra_config \<Rightarrow> claims \<Rightarrow> string + string" where
  "accepted_issuer cfg payload =
     (case opt_list (en_allowedTenantIds cfg) of
        [] \<Rightarrow>
          if own payload ''iss'' \<noteq> Str (entraIssuer (en_tenantId cfg)) then Inl ''entra_bad_iss''
          else if truthy_value (own payload ''tid'') \<and> own payload ''tid'' \<noteq> Str (en_tenantId cfg) then Inl ''entra_bad_tid''
          else Inr (entraIssuer (en_tenantId cfg))
      | allowed \<Rightarrow>
          (case claim_string (own payload ''tid'') of
             None \<Rightarrow> Inl ''entra_bad_tid''
           | Some tid \<Rightarrow>
               if tid = [] \<or> tid \<notin> set allowed then Inl ''entra_bad_tid''
               else if own payload ''iss'' \<noteq> Str (entraIssuer tid) then Inl ''entra_bad_iss''
               else Inr (entraIssuer tid)))"

definition finite_number :: "jsval \<Rightarrow> bool" where
  "finite_number v = (case v of Number x \<Rightarrow> x \<noteq> NotFinite | _ \<Rightarrow> False)"

definition entra_subject :: "string \<Rightarrow> claims \<Rightarrow> string option" where
  "entra_subject issuer payload =
     (case usableString (own payload ''oid'') of
        Some oid \<Rightarrow> Some oid
      | None \<Rightarrow> map_option (\<lambda>sub. issuer @ ''|'' @ sub) (usableString (own payload ''sub'')))"

definition entra_claims :: "claims \<Rightarrow> claims" where
  "entra_claims payload =
     [(''oid'', opt_string (usableString (own payload ''oid''))),
      (''email'', if own payload ''email'' \<in> {Undefined, Null} then own payload ''preferred_username'' else own payload ''email''),
      (''tid'', own payload ''tid''), (''expiresAt'', own payload ''exp'')]"

definition validateEntraIdToken ::
    "(string \<Rightarrow> string) \<Rightarrow> entra_config \<Rightarrow> claims \<Rightarrow> string option \<Rightarrow> id_answer" where
  "validateEntraIdToken lower cfg payload expectedNonce =
     (case accepted_issuer cfg payload of
        Inl reason \<Rightarrow> Rejected reason
      | Inr issuer \<Rightarrow>
          if own payload ''aud'' \<noteq> Str (en_clientId cfg) then Rejected ''entra_bad_aud''
          else if \<not> (case expectedNonce of None \<Rightarrow> True | Some n \<Rightarrow> own payload ''nonce'' = Str n) then Rejected ''entra_bad_nonce''
          else if \<not> finite_number (own payload ''iat'') then Rejected ''entra_missing_iat''
          else if \<not> finite_number (own payload ''exp'') then Rejected ''entra_missing_exp''
          else case entra_subject issuer payload of
            None \<Rightarrow> Rejected ''entra_no_subject''
          | Some subject \<Rightarrow>
              if opt_list (en_subjectAllowlist cfg) \<noteq> []
                 \<and> \<not> subjectAllowed lower payload (opt_list (en_subjectAllowlist cfg)) (en_allowMutableClaims cfg)
              then Rejected ''entra_subject_not_allowed''
              else case en_groupAuthorization cfg of
                     None \<Rightarrow> Accepted (Str subject) None (entra_claims payload)
                   | Some groupAuth \<Rightarrow>
                       (case resolveGroupCeiling lower payload groupAuth of
                          Inl reason \<Rightarrow> Rejected reason
                        | Inr allowed \<Rightarrow> Accepted (Str subject) (Some allowed) (entra_claims payload)))"

fun entraJwtErrorReason :: "jose_error \<Rightarrow> string" where
  "entraJwtErrorReason Jwt_expired = ''entra_token_expired''"
| "entraJwtErrorReason Claim_failed = ''entra_bad_claim''"
| "entraJwtErrorReason Alg_not_allowed = ''entra_unsupported_alg''"
| "entraJwtErrorReason No_matching_key = ''entra_unknown_key''"
| "entraJwtErrorReason Other_jose = ''entra_token_invalid''"
| "entraJwtErrorReason _ = ''entra_verify_failed''"

text \<open>\<open>jose\<close> is given RS256 only and requires \<open>iat\<close>.\<close>

definition entra_verify ::
    "(string \<Rightarrow> string) \<Rightarrow> jwt_verifier \<Rightarrow> entra_config \<Rightarrow> string option \<Rightarrow> jsval \<Rightarrow> id_answer" where
  "entra_verify lower jose cfg expectedNonce input =
     (case input of
        Str token \<Rightarrow>
          if token = [] then Rejected ''entra_id_token_missing''
          else (case jose token [''RS256''] of
                  Inl e \<Rightarrow> Rejected (entraJwtErrorReason e)
                | Inr v \<Rightarrow> validateEntraIdToken lower cfg (vj_payload v) expectedNonce)
      | _ \<Rightarrow> Rejected ''entra_id_token_missing'')"

text \<open>What \<open>createEntraIdentity\<close> refuses to build.\<close>

definition createEntraIdentity ::
    "(string \<Rightarrow> string) \<Rightarrow> string list option \<Rightarrow> entra_config \<Rightarrow> jsval \<Rightarrow> jsval \<Rightarrow> entra_config outcome" where
  "createEntraIdentity lower scopeCatalog cfg groupAuth maxJwksDocumentBytes =
     chain (require (trim (en_tenantId cfg) \<noteq> []) (authConfigError ''tenantId is required (a non-empty Entra tenant id)'')) (\<lambda>_.
     chain (require (trim (en_clientId cfg) \<noteq> []) (authConfigError ''clientId is required (a non-empty Entra app/client id)'')) (\<lambda>_.
     chain (assertGroupAuthorizationMapping lower scopeCatalog groupAuth) (\<lambda>g.
     chain (jwksDocumentCap maxJwksDocumentBytes) (\<lambda>_.
     Inr (cfg\<lparr>en_groupAuthorization := g\<rparr>)))))"

end
