(* ===== verification/Id_Token_Laws.thy ===== *)
theory Id_Token_Laws
  imports Entra_Tokens Cimd_Cache
begin

section \<open>Guarantees of the identity providers\<close>

subsection \<open>Crossing the boundary\<close>

text \<open>What the bridge makes of an answer: the reason, or the subject if it is one, with the ceiling.\<close>

definition carried_ceiling :: "string list option \<Rightarrow> jsval" where
  "carried_ceiling allowed =
     (case allowed of None \<Rightarrow> Undefined | Some ss \<Rightarrow> if length ss > MAX_SCOPE_ENTRIES then Null else Arr (map Str ss))"

lemma id_value_crosses:
  "snapshotIdentityResult (id_value a) =
     (case a of
        Rejected reason \<Rightarrow> Inr (Refused reason)
      | Accepted sub allowed cs \<Rightarrow> chain (identitySubject sub) (\<lambda>s. Inr (Identified s (carried_ceiling allowed))))"
proof (cases a)
  case (Accepted sub allowed cs)
  have "snapshotPortScopeCarrier (case allowed of None \<Rightarrow> Undefined | Some ss \<Rightarrow> Arr (map Str ss)) = Inr (carried_ceiling allowed)"
    by (cases allowed) (simp_all add: snapshotPortScopeCarrier_def carried_ceiling_def)
  then show ?thesis unfolding Accepted
    by (cases allowed) (simp_all add: id_value_def snapshotIdentityResult_def requiredRecord_def own_def)
qed (simp add: id_value_def snapshotIdentityResult_def requiredRecord_def own_def reason_of_def)

subsection \<open>Bodies\<close>

lemma readCappedText_eq:
  "received \<le> maxBytes \<Longrightarrow> readCappedText maxBytes received chunks
     = (if received + length (concat chunks) \<le> maxBytes then Some (concat chunks) else None)"
proof (induction chunks arbitrary: received)
  case (Cons chunk chunks)
  then show ?case by (cases "received + length chunk \<le> maxBytes") auto
qed simp

subsection \<open>Generic tokens\<close>

lemma normalizeAud_single: "normalizeAud aud = Some [a] \<longleftrightarrow> aud = Str a \<or> aud = Arr [Str a]"
  by (auto simp: normalizeAud_def all_strings_iff split: jsval.splits)

lemma claim_string_Some: "claim_string v = Some s \<longleftrightarrow> v = Str s"
  by (cases v) (auto simp: claim_string_def)

lemma claim_string_Str [simp]: "claim_string (Str s) = Some s"
  by (simp add: claim_string_def)

lemma generic_accepts:
  "validateGenericOidcIdToken lower cfg payload opts = Accepted sub allowed cs \<longleftrightarrow>
     own payload ''iss'' = Str (oc_issuer cfg)
     \<and> normalizeAud (own payload ''aud'') = Some [oc_clientId cfg]
     \<and> truthy_value (own payload ''exp'') \<and> truthy_value (own payload ''iat'')
     \<and> (\<forall>n. vo_expectedNonce opts = Some n \<longrightarrow> own payload ''nonce'' = Str n)
     \<and> at_hash_ok payload opts
     \<and> (\<exists>s. own payload ''sub'' = Str s \<and> s \<noteq> []
          \<and> (\<forall>allowlist. oc_subjectAllowlist cfg = Some allowlist \<longrightarrow> allowlist \<noteq> [] \<longrightarrow>
               subjectAllowedGeneric lower s (claim_string (own payload ''email''))
                 (own payload ''email_verified'' = Boolean True) allowlist (oc_allowEmailAllowlist cfg))
          \<and> generic_identity cfg payload s = Accepted sub allowed cs)"
proof -
  have "(length aud > 1 \<or> aud \<noteq> [x]) = (aud \<noteq> [x])" for aud and x :: string by auto
  then show ?thesis
    by (auto simp: validateGenericOidcIdToken_def generic_identity_def claim_string_Some split: option.splits if_splits)
qed

lemma oidc_verify_accepts:
  "oidc_verify jose algs validate nonce access input = Accepted sub allowed cs \<Longrightarrow>
     \<exists>token v. input = Str token \<and> token \<noteq> [] \<and> jose token algs = Inr v
       \<and> validate (vj_payload v) \<lparr>vo_expectedNonce = nonce, vo_accessToken = access, vo_alg = claim_string (vj_alg v)\<rparr>
           = Accepted sub allowed cs"
  by (auto simp: oidc_verify_def verifyIdTokenWithKey_def split: jsval.splits if_splits sum.splits)

lemma pinned_algs:
  assumes "resolveAllowedAlgs advertised = Inr algs"
  shows "algs \<noteq> []" and "a \<in> set algs \<Longrightarrow> a \<in> set PINNED_ALGS"
  using assms by (auto simp: resolveAllowedAlgs_def PINNED_ALGS_def split: option.split_asm list.split_asm)

text \<open>Two texts joined by a bar that agree: the same halves, or one first half goes on with a bar after the other.\<close>

lemma joined_by_bar:
  assumes "a @ ''|'' @ s = b @ ''|'' @ t"
  shows "a = b \<and> s = t \<or> (\<exists>u. a = b @ ''|'' @ u) \<or> (\<exists>u. b = a @ ''|'' @ u)"
proof -
  obtain u where "a = b @ u \<and> u @ ''|'' @ s = ''|'' @ t \<or> b = a @ u \<and> u @ ''|'' @ t = ''|'' @ s"
    using assms unfolding append_eq_append_conv2 by metis
  then show ?thesis by (cases u) auto
qed

text \<open>
  C18. An accepted generic token is one \<open>jose\<close> verified when allowed no algorithm but RS256 and ES256, the ones a boot
  resolves to, of exactly the configured issuer and for this client alone, bound to the nonce of the request and to the access token it came with. Its subject is the
  issuer, a bar and the opaque identifier: within one issuer two tokens have the same subject exactly when they have
  the same identifier, and two providers can only ever share a subject when the issuer of one goes on with a bar
  after the issuer of the other, which nothing in the code rules out.
\<close>

theorem oidc_subject_identifies:
  assumes "oidc_verify jose algs (validateGenericOidcIdToken lower cfg) (Some nonce) (Some access) input = Accepted sub allowed cs"
    and "oidc_verify jose' algs' (validateGenericOidcIdToken lower' cfg') nonce' access' input' = Accepted sub' allowed' cs'"
    and "resolveAllowedAlgs advertised = Inr algs"
  shows "\<exists>token token' v v' s s'. input = Str token \<and> jose token algs = Inr v \<and> input' = Str token' \<and> jose' token' algs' = Inr v'
    \<and> algs \<noteq> [] \<and> set algs \<subseteq> {''RS256'', ''ES256''}
    \<and> own (vj_payload v) ''iss'' = Str (oc_issuer cfg) \<and> own (vj_payload v) ''sub'' = Str s
    \<and> own (vj_payload v) ''aud'' \<in> {Str (oc_clientId cfg), Arr [Str (oc_clientId cfg)]}
    \<and> own (vj_payload v) ''nonce'' = Str nonce
    \<and> (own (vj_payload v) ''at_hash'' \<noteq> Undefined \<longrightarrow>
         (\<exists>alg h. vj_alg v = Str alg \<and> computeAtHash access alg = Some h \<and> own (vj_payload v) ''at_hash'' = Str h))
    \<and> own (vj_payload v') ''iss'' = Str (oc_issuer cfg') \<and> own (vj_payload v') ''sub'' = Str s'
    \<and> (oc_issuer cfg = oc_issuer cfg' \<longrightarrow> (sub = sub' \<longleftrightarrow> s = s'))
    \<and> (sub = sub' \<longrightarrow> oc_issuer cfg = oc_issuer cfg' \<and> s = s'
         \<or> (\<exists>u. oc_issuer cfg = oc_issuer cfg' @ ''|'' @ u) \<or> (\<exists>u. oc_issuer cfg' = oc_issuer cfg @ ''|'' @ u))"
proof -
  obtain token v where t: "input = Str token" "jose token algs = Inr v"
    and ok: "validateGenericOidcIdToken lower cfg (vj_payload v)
      \<lparr>vo_expectedNonce = Some nonce, vo_accessToken = Some access, vo_alg = claim_string (vj_alg v)\<rparr> = Accepted sub allowed cs"
    using oidc_verify_accepts [OF assms(1)] by blast
  obtain token' v' where t': "input' = Str token'" "jose' token' algs' = Inr v'"
    and ok': "validateGenericOidcIdToken lower' cfg' (vj_payload v')
      \<lparr>vo_expectedNonce = nonce', vo_accessToken = access', vo_alg = claim_string (vj_alg v')\<rparr> = Accepted sub' allowed' cs'"
    using oidc_verify_accepts [OF assms(2)] by blast
  from ok obtain s where s: "own (vj_payload v) ''sub'' = Str s" "sub = Str (oc_issuer cfg @ ''|'' @ s)"
    by (auto simp: generic_accepts generic_identity_def)
  from ok' obtain s' where s': "own (vj_payload v') ''sub'' = Str s'" "sub' = Str (oc_issuer cfg' @ ''|'' @ s')"
    by (auto simp: generic_accepts generic_identity_def)
  have "oc_issuer cfg = oc_issuer cfg' \<and> s = s'
      \<or> (\<exists>u. oc_issuer cfg = oc_issuer cfg' @ ''|'' @ u) \<or> (\<exists>u. oc_issuer cfg' = oc_issuer cfg @ ''|'' @ u)" if "sub = sub'"
    using joined_by_bar [of "oc_issuer cfg" s "oc_issuer cfg'" s'] that s(2) s'(2) by simp
  moreover have "sub = sub' \<longleftrightarrow> s = s'" if "oc_issuer cfg = oc_issuer cfg'" using that s(2) s'(2) by simp
  moreover have "own (vj_payload v) ''at_hash'' \<noteq> Undefined \<longrightarrow>
      (\<exists>alg h. vj_alg v = Str alg \<and> computeAtHash access alg = Some h \<and> own (vj_payload v) ''at_hash'' = Str h)"
    using ok by (auto simp: generic_accepts at_hash_ok_def claim_string_def split: option.split_asm jsval.split_asm)
  moreover have "own (vj_payload v) ''iss'' = Str (oc_issuer cfg)" "own (vj_payload v') ''iss'' = Str (oc_issuer cfg')"
    "own (vj_payload v) ''nonce'' = Str nonce" "own (vj_payload v) ''aud'' \<in> {Str (oc_clientId cfg), Arr [Str (oc_clientId cfg)]}"
    using ok ok' by (simp_all add: generic_accepts normalizeAud_single)
  moreover have "algs \<noteq> [] \<and> set algs \<subseteq> {''RS256'', ''ES256''}"
    using pinned_algs [OF assms(3)] by (auto simp: PINNED_ALGS_def)
  ultimately show ?thesis using t t' s(1) s'(1) by simp
qed

subsection \<open>Google\<close>

text \<open>
  With a hosted domain configured nobody outside it is accepted, whatever the email says; the email is shown
  only when it was verified.
\<close>

lemma google_accepts:
  assumes "validateGoogleIdToken lower cfg payload opts = Accepted sub allowed cs"
  shows "own payload ''iss'' = Str GOOGLE_ISSUER \<and> sub = own payload ''sub''
    \<and> (\<forall>domain. gg_hostedDomain cfg = Some domain \<longrightarrow>
         (\<exists>given. own payload ''hd'' = Str given \<and> lower (trim given) = lower (trim domain) \<and> lower (trim domain) \<noteq> []))
    \<and> (own payload ''email_verified'' \<noteq> Boolean True \<longrightarrow> map_of cs ''email'' = None)"
proof -
  obtain sub' allowed' cs' s where g: "validateGenericOidcIdToken lower (google_claim_config cfg) payload opts = Accepted sub' allowed' cs'"
    and s: "own payload ''sub'' = Str s" and domain: "hosted_domain_problem lower cfg payload = None"
    and eq: "sub = Str s" "cs = (if own payload ''email_verified'' \<noteq> Boolean True then map_del ''email'' cs' else cs')"
    using assms by (auto simp: validateGoogleIdToken_def claim_string_Some split: id_answer.split_asm option.split_asm)
  have "\<exists>given. own payload ''hd'' = Str given \<and> lower (trim given) = lower (trim d) \<and> lower (trim d) \<noteq> []"
    if "gg_hostedDomain cfg = Some d" for d
    using domain that by (auto simp: hosted_domain_problem_def Let_def claim_string_Some split: option.split_asm if_split_asm)
  moreover have "own payload ''iss'' = Str GOOGLE_ISSUER"
    using g by (simp add: generic_accepts google_claim_config_def)
  ultimately show ?thesis using eq s by simp
qed

subsection \<open>The group ceiling\<close>

lemma group_entry_set: "set (foldl group_entry out xs) = set out \<union> {s. Str s \<in> set xs \<and> s \<noteq> []}"
  by (induction xs arbitrary: out) (auto simp: group_entry_def split: jsval.split)

lemma normalizeGroups_set: "set (normalizeGroups raw) = {s. \<exists>xs. raw = Arr xs \<and> Str s \<in> set xs \<and> s \<noteq> []}"
  by (auto simp: normalizeGroups_def group_entry_set split: jsval.split)

lemma lower_mapping_of:
  assumes "distinct (map (\<lambda>p. lower (fst p)) entries)"
  shows "map_of (foldl (\<lambda>m (key, scopes). map_set (lower key) scopes m) m entries) g
     = (case find (\<lambda>p. lower (fst p) = g) entries of Some p \<Rightarrow> Some (snd p) | None \<Rightarrow> map_of m g)"
  using assms
proof (induction entries arbitrary: m)
  case (Cons p entries)
  obtain key scopes where p: "p = (key, scopes)" by fastforce
  have none: "lower key = g \<Longrightarrow> find (\<lambda>p. lower (fst p) = g) entries = None"
    using Cons.prems by (force simp: p find_None_iff)
  from Cons.prems have "distinct (map (\<lambda>p. lower (fst p)) entries)" by simp
  from Cons.IH [OF this] show ?case using none by (auto simp: p split: option.split)
qed simp

lemma find_scopes:
  assumes "distinct (map (\<lambda>p. lower (fst p)) entries)"
  shows "(\<exists>p. find (\<lambda>p. lower (fst p) = g) entries = Some p \<and> s \<in> set (snd p))
     \<longleftrightarrow> (\<exists>key ss. (key, ss) \<in> set entries \<and> lower key = g \<and> s \<in> set ss)"
  using assms
proof (induction entries)
  case (Cons p entries)
  obtain key ss where p: "p = (key, ss)" by fastforce
  show ?case
  proof (cases "lower key = g")
    case True
    with Cons.prems have "\<forall>q \<in> set entries. lower (fst q) \<noteq> g" by (force simp: p)
    with True show ?thesis by (fastforce simp: p)
  next
    case False
    with Cons show ?thesis by (simp add: p) blast
  qed
qed simp

lemma foldl_ceiling:
  "set (foldl (\<lambda>ceiling guid. foldl push_new ceiling (f guid)) out groups) = set out \<union> (\<Union>g \<in> set groups. set (f g))"
  by (induction groups arbitrary: out) auto

lemma group_scopes_set:
  assumes "distinct (map (\<lambda>p. lower (fst p)) (gm_mapping groupAuth))"
  shows "set (computeGroupScopes lower groups groupAuth) = set (opt_list (gm_baseScopes groupAuth))
     \<union> {s. \<exists>g key ss. g \<in> set groups \<and> (key, ss) \<in> set (gm_mapping groupAuth) \<and> lower key = lower g \<and> s \<in> set ss}"
proof -
  have "s \<in> set (opt_list (map_of (lower_mapping lower groupAuth) g))
      \<longleftrightarrow> (\<exists>key ss. (key, ss) \<in> set (gm_mapping groupAuth) \<and> lower key = g \<and> s \<in> set ss)" for s g
    unfolding lower_mapping_def lower_mapping_of [OF assms] find_scopes [OF assms, symmetric]
    by (auto simp: opt_list_def split: option.split)
  then show ?thesis by (auto simp: computeGroupScopes_def foldl_ceiling)
qed

lemma group_scopes_distinct: "distinct (computeGroupScopes lower groups groupAuth)"
proof -
  have "distinct out \<Longrightarrow> distinct (foldl (\<lambda>ceiling guid. foldl push_new ceiling (f guid)) out groups)" for f :: "string \<Rightarrow> string list" and out
    by (induction groups arbitrary: out) auto
  then show ?thesis by (simp add: computeGroupScopes_def)
qed

definition scope_admitted :: "string list option \<Rightarrow> string \<Rightarrow> bool" where
  "scope_admitted scopeCatalog s \<longleftrightarrow> isScopeToken s \<and> (\<forall>catalog. scopeCatalog = Some catalog \<longrightarrow> s \<in> set catalog)"

lemma scope_checked:
  "assertMappedScope scopeCatalog key v = Inr s \<Longrightarrow> scope_admitted scopeCatalog s"
  "assertBaseScope scopeCatalog v = Inr s \<Longrightarrow> scope_admitted scopeCatalog s"
  by (auto simp: assertMappedScope_def assertBaseScope_def scope_admitted_def split: option.split_asm if_split_asm)

lemma mapped_scopes_checked: "mapped_scopes scopeCatalog key v = Inr ss \<Longrightarrow> list_all (scope_admitted scopeCatalog) ss"
  using collect_Inr_back [of "assertMappedScope scopeCatalog key"]
  by (fastforce simp: mapped_scopes_def Let_def list_all_iff split: jsval.split_asm if_split_asm dest: scope_checked(1))

lemma base_scopes_checked: "base_scopes scopeCatalog v = Inr base \<Longrightarrow> list_all (scope_admitted scopeCatalog) (opt_list base)"
  using collect_Inr_back [of "assertBaseScope scopeCatalog"]
  by (fastforce simp: base_scopes_def opt_list_def result_simps list_all_iff split: jsval.split_asm dest: scope_checked(2))

lemma mapping_checked:
  "mapping_entries lower scopeCatalog seen kvs = Inr entries \<Longrightarrow>
     distinct (map (\<lambda>p. lower (fst p)) entries) \<and> (\<forall>p \<in> set entries. lower (fst p) \<notin> set seen)
     \<and> (\<forall>p \<in> set entries. is_guid (fst p) \<and> list_all (scope_admitted scopeCatalog) (snd p))"
proof (induction lower scopeCatalog seen kvs arbitrary: entries rule: mapping_entries.induct)
  case (2 lower scopeCatalog seen key scopes kvs)
  from "2.prems" obtain ss rest where k: "is_guid key" "lower key \<notin> set seen" and ss: "mapped_scopes scopeCatalog key scopes = Inr ss"
    and rest: "mapping_entries lower scopeCatalog (seen @ [lower key]) kvs = Inr rest" and e: "entries = (key, ss) # rest"
    by (auto simp: result_simps split: if_split_asm)
  note ih = "2.IH" [OF _ k(2) ss rest]
  show ?case using k mapped_scopes_checked [OF ss] ih by (force simp: e)
qed simp

lemma group_auth_checked:
  assumes "assertGroupAuthorizationMapping lower scopeCatalog v = Inr (Some groupAuth)"
  shows "distinct (map (\<lambda>p. lower (fst p)) (gm_mapping groupAuth))"
    and "\<forall>p \<in> set (gm_mapping groupAuth). is_guid (fst p) \<and> list_all (scope_admitted scopeCatalog) (snd p)"
    and "list_all (scope_admitted scopeCatalog) (opt_list (gm_baseScopes groupAuth))"
proof -
  obtain mapping entries base where m: "mapping_entries lower scopeCatalog [] mapping = Inr entries"
    and b: "base_scopes scopeCatalog base = Inr (gm_baseScopes groupAuth)" and e: "gm_mapping groupAuth = entries"
    using assms by (auto simp: assertGroupAuthorizationMapping_def result_simps split: jsval.split_asm)
  show "distinct (map (\<lambda>p. lower (fst p)) (gm_mapping groupAuth))"
    and "\<forall>p \<in> set (gm_mapping groupAuth). is_guid (fst p) \<and> list_all (scope_admitted scopeCatalog) (snd p)"
    using mapping_checked [OF m] by (simp_all add: e)
  show "list_all (scope_admitted scopeCatalog) (opt_list (gm_baseScopes groupAuth))" by (rule base_scopes_checked [OF b])
qed

lemma resolve_ceiling:
  "resolveGroupCeiling lower payload groupAuth = Inr allowed \<longleftrightarrow>
     allowed = computeGroupScopes lower (normalizeGroups (own payload ''groups'')) groupAuth \<and> allowed \<noteq> []
     \<and> (normalizeGroups (own payload ''groups'') = [] \<longrightarrow> \<not> hasOverageMarker payload)"
proof -
  have "(if groups = [] \<and> h then Inl a else if ceiling = [] then Inl b else Inr ceiling) = Inr allowed
      \<longleftrightarrow> allowed = ceiling \<and> allowed \<noteq> [] \<and> (groups = [] \<longrightarrow> \<not> h)" for groups ceiling :: "string list" and h and a b :: string
    by auto
  then show ?thesis unfolding resolveGroupCeiling_def Let_def by blast
qed

text \<open>
  C19. The ceiling of a subject is exactly the base scopes and the scopes mapped to the groups the token carries,
  compared without case, and never empty; a token whose groups were left out for their number has none. Every
  scope of it is one token of the catalog, and the ceiling passes the boundary of the bridge.
\<close>

theorem group_ceiling_exact:
  assumes "assertGroupAuthorizationMapping lower (Some catalog) v = Inr (Some groupAuth)"
    and "resolveGroupCeiling lower payload groupAuth = Inr allowed"
    and "list_all isBoundedScopeToken catalog" and "distinct catalog" and "length catalog \<le> MAX_SCOPE_ENTRIES"
  shows "set allowed = set (opt_list (gm_baseScopes groupAuth))
           \<union> {s. \<exists>xs g key ss. own payload ''groups'' = Arr xs \<and> Str g \<in> set xs \<and> g \<noteq> []
                  \<and> (key, ss) \<in> set (gm_mapping groupAuth) \<and> lower key = lower g \<and> s \<in> set ss}
    \<and> allowed \<noteq> [] \<and> set allowed \<subseteq> set catalog
    \<and> (hasOverageMarker payload \<longrightarrow> (\<exists>xs g. own payload ''groups'' = Arr xs \<and> Str g \<in> set xs \<and> g \<noteq> []))
    \<and> assertAllowedScopesCeiling (Arr (map Str allowed)) = Inr (Some allowed)"
proof -
  let ?groups = "normalizeGroups (own payload ''groups'')"
  note checked = group_auth_checked [OF assms(1)]
  have allowed: "allowed = computeGroupScopes lower ?groups groupAuth" "allowed \<noteq> []" "?groups = [] \<longrightarrow> \<not> hasOverageMarker payload"
    using assms(2) unfolding resolve_ceiling by blast+
  have exact: "set allowed = set (opt_list (gm_baseScopes groupAuth))
     \<union> {s. \<exists>g key ss. g \<in> set ?groups \<and> (key, ss) \<in> set (gm_mapping groupAuth) \<and> lower key = lower g \<and> s \<in> set ss}"
    using group_scopes_set [OF checked(1)] by (simp add: allowed(1))
  have sub: "set allowed \<subseteq> set catalog"
    using checked(2,3) unfolding exact by (fastforce simp: list_all_iff scope_admitted_def)
  have "distinct allowed" by (simp add: allowed(1) group_scopes_distinct)
  then have "length allowed \<le> MAX_SCOPE_ENTRIES"
    using sub assms(4,5) by (metis card_mono distinct_card finite_set order_trans)
  moreover have "list_all isBoundedScopeToken allowed" using sub assms(3) by (auto simp: list_all_iff)
  ultimately have "snapshotBoundedScopeList (Arr (map Str allowed)) = Inr allowed"
    unfolding snapshotBoundedScopeList_iff by simp
  then have "assertAllowedScopesCeiling (Arr (map Str allowed)) = Inr (Some allowed)"
    by (simp add: assertAllowedScopesCeiling_def del: snapshotBoundedScopeList.simps)
  moreover have "hasOverageMarker payload \<longrightarrow> (\<exists>xs g. own payload ''groups'' = Arr xs \<and> Str g \<in> set xs \<and> g \<noteq> [])"
  proof
    assume "hasOverageMarker payload"
    then obtain g where "g \<in> set ?groups" using allowed(3) by (cases ?groups) auto
    then show "\<exists>xs g. own payload ''groups'' = Arr xs \<and> Str g \<in> set xs \<and> g \<noteq> []"
      unfolding normalizeGroups_set by blast
  qed
  moreover have "set allowed = set (opt_list (gm_baseScopes groupAuth))
      \<union> {s. \<exists>xs g key ss. own payload ''groups'' = Arr xs \<and> Str g \<in> set xs \<and> g \<noteq> []
                  \<and> (key, ss) \<in> set (gm_mapping groupAuth) \<and> lower key = lower g \<and> s \<in> set ss}"
    unfolding exact normalizeGroups_set by blast
  ultimately show ?thesis using sub allowed(2) by blast
qed

subsection \<open>Entra tokens\<close>

lemma entra_accepts:
  "validateEntraIdToken lower cfg payload nonce = Accepted sub allowed cs \<longleftrightarrow>
     (\<exists>issuer s. accepted_issuer cfg payload = Inr issuer \<and> own payload ''aud'' = Str (en_clientId cfg)
        \<and> (\<forall>n. nonce = Some n \<longrightarrow> own payload ''nonce'' = Str n)
        \<and> finite_number (own payload ''iat'') \<and> finite_number (own payload ''exp'')
        \<and> entra_subject issuer payload = Some s \<and> sub = Str s
        \<and> (opt_list (en_subjectAllowlist cfg) \<noteq> [] \<longrightarrow>
             subjectAllowed lower payload (opt_list (en_subjectAllowlist cfg)) (en_allowMutableClaims cfg))
        \<and> (case en_groupAuthorization cfg of
             None \<Rightarrow> allowed = None
           | Some groupAuth \<Rightarrow> \<exists>ceiling. resolveGroupCeiling lower payload groupAuth = Inr ceiling \<and> allowed = Some ceiling)
        \<and> cs = entra_claims payload)"
  by (auto simp: validateEntraIdToken_def split: sum.splits option.splits if_splits)

lemma accepted_issuer_tenant:
  assumes "accepted_issuer cfg payload = Inr issuer"
  shows "\<exists>tid. issuer = entraIssuer tid \<and> own payload ''iss'' = Str issuer
    \<and> tid \<in> (if opt_list (en_allowedTenantIds cfg) = [] then {en_tenantId cfg} else set (opt_list (en_allowedTenantIds cfg)))"
  using assms by (fastforce simp: accepted_issuer_def split: list.split_asm if_split_asm option.split_asm)

text \<open>
  C20. A token is accepted only under the issuer of an admitted tenant, for this client, with the nonce of the
  request; its subject is the object identifier, or the issuer with the pairwise one; and where groups are
  mapped it has a ceiling.
\<close>

theorem entra_identity_bound:
  assumes "entra_verify lower jose cfg nonce input = Accepted sub allowed cs"
  shows "\<exists>token v tid s. input = Str token \<and> jose token [''RS256''] = Inr v
    \<and> tid \<in> (if opt_list (en_allowedTenantIds cfg) = [] then {en_tenantId cfg} else set (opt_list (en_allowedTenantIds cfg)))
    \<and> own (vj_payload v) ''iss'' = Str (entraIssuer tid) \<and> own (vj_payload v) ''aud'' = Str (en_clientId cfg)
    \<and> (\<forall>n. nonce = Some n \<longrightarrow> own (vj_payload v) ''nonce'' = Str n)
    \<and> sub = Str s \<and> (own (vj_payload v) ''oid'' = Str s \<or> (\<exists>p. own (vj_payload v) ''sub'' = Str p \<and> s = entraIssuer tid @ ''|'' @ p))
    \<and> (en_groupAuthorization cfg \<noteq> None \<longleftrightarrow> allowed \<noteq> None)"
proof -
  obtain token v where t: "input = Str token" "jose token [''RS256''] = Inr v"
    and ok: "validateEntraIdToken lower cfg (vj_payload v) nonce = Accepted sub allowed cs"
    using assms by (auto simp: entra_verify_def split: jsval.split_asm if_split_asm sum.split_asm)
  then obtain issuer s where i: "accepted_issuer cfg (vj_payload v) = Inr issuer" and s: "entra_subject issuer (vj_payload v) = Some s" "sub = Str s"
    and rest: "own (vj_payload v) ''aud'' = Str (en_clientId cfg)" "\<forall>n. nonce = Some n \<longrightarrow> own (vj_payload v) ''nonce'' = Str n"
      "en_groupAuthorization cfg \<noteq> None \<longleftrightarrow> allowed \<noteq> None"
    unfolding entra_accepts by (auto split: option.split_asm)
  have usable: "usableString x = Some y \<Longrightarrow> x = Str y" for x y
    by (auto simp: usableString_def split: jsval.split_asm if_split_asm)
  from s(1) have "own (vj_payload v) ''oid'' = Str s \<or> (\<exists>p. own (vj_payload v) ''sub'' = Str p \<and> s = issuer @ ''|'' @ p)"
    by (auto simp: entra_subject_def split: option.split_asm dest: usable)
  moreover obtain tid where "issuer = entraIssuer tid" "own (vj_payload v) ''iss'' = Str issuer"
    "tid \<in> (if opt_list (en_allowedTenantIds cfg) = [] then {en_tenantId cfg} else set (opt_list (en_allowedTenantIds cfg)))"
    using accepted_issuer_tenant [OF i] by blast
  ultimately show ?thesis using t s(2) rest by (intro exI [of _ token] exI [of _ v] exI [of _ tid] exI [of _ s]) simp
qed

subsection \<open>Concrete tokens\<close>

definition demo_claims :: claims where
  "demo_claims =
     [(''iss'', Str ''https://idp.example''), (''aud'', Arr [Str ''app'']), (''sub'', Str ''u1''), (''exp'', Number (Whole 1800000000)),
      (''iat'', Number (Whole 1700000000)), (''nonce'', Str ''n''), (''email'', Str ''u@example''), (''email_verified'', Boolean True),
      (''at_hash'', opt_string (computeAtHash ''at'' ''RS256''))]"

definition demo_oidc :: oidc_claim_config where
  "demo_oidc = \<lparr>oc_issuer = ''https://idp.example'', oc_clientId = ''app'', oc_subjectAllowlist = Some [''u1''],
     oc_allowEmailAllowlist = False\<rparr>"

definition demo_jose :: jwt_verifier where
  "demo_jose token algs = Inr \<lparr>vj_payload = demo_claims, vj_alg = Str ''RS256''\<rparr>"

lemma demo_accepted:
  "\<exists>cs. oidc_verify demo_jose PINNED_ALGS (validateGenericOidcIdToken lower_case demo_oidc) (Some ''n'') (Some ''at'') (Str ''jwt'')
     = Accepted (Str ''https://idp.example|u1'') None cs"
proof -
  obtain h where h: "computeAtHash ''at'' ''RS256'' = Some h" by (simp add: computeAtHash_def)
  have "validateGenericOidcIdToken lower_case demo_oidc demo_claims
      \<lparr>vo_expectedNonce = Some ''n'', vo_accessToken = Some ''at'', vo_alg = Some ''RS256''\<rparr>
     = generic_identity demo_oidc demo_claims ''u1''"
    by (simp add: validateGenericOidcIdToken_def demo_oidc_def demo_claims_def own_Cons normalizeAud_def truthy_value_def
        at_hash_ok_def h opt_string_def subjectAllowedGeneric_def)
  then show ?thesis
    by (simp add: oidc_verify_def verifyIdTokenWithKey_def demo_jose_def generic_identity_def demo_oidc_def)
qed

theorem oidc_subject_identifies_witness:
  "\<exists>v s. demo_jose ''jwt'' PINNED_ALGS = Inr v \<and> own (vj_payload v) ''sub'' = Str s \<and> own (vj_payload v) ''nonce'' = Str ''n''"
proof -
  from demo_accepted obtain cs where run: "oidc_verify demo_jose PINNED_ALGS (validateGenericOidcIdToken lower_case demo_oidc)
      (Some ''n'') (Some ''at'') (Str ''jwt'') = Accepted (Str ''https://idp.example|u1'') None cs" by blast
  have "resolveAllowedAlgs None = Inr PINNED_ALGS" by (simp add: resolveAllowedAlgs_def)
  from oidc_subject_identifies [OF run run this] show ?thesis by auto
qed

definition demo_group :: string where "demo_group = ''0a1b2c3d-0000-4000-8000-00000000000f''"

definition demo_groups :: jsval where
  "demo_groups =
     Obj [(''mapping'', Obj [(''0A1B2C3D-0000-4000-8000-00000000000F'', Arr [Str ''write''])]), (''baseScopes'', Arr [Str ''read''])]"

theorem group_ceiling_exact_witness:
  "assertAllowedScopesCeiling (Arr (map Str [''read'', ''write''])) = Inr (Some [''read'', ''write''])"
proof -
  let ?g = "\<lparr>gm_mapping = [(''0A1B2C3D-0000-4000-8000-00000000000F'', [''write''])], gm_baseScopes = Some [''read'']\<rparr>"
  have boot: "assertGroupAuthorizationMapping lower_case (Some [''read'', ''write'']) demo_groups = Inr (Some ?g)"
    and ceiling: "resolveGroupCeiling lower_case [(''groups'', Arr [Str demo_group])] ?g = Inr [''read'', ''write'']"
    by code_simp+
  have "list_all isBoundedScopeToken [''read'', ''write'']" "distinct [''read'', ''write'']"
    "length [''read'', ''write''] \<le> MAX_SCOPE_ENTRIES"
    by code_simp+
  from group_ceiling_exact [OF boot ceiling this] show ?thesis by blast
qed

definition demo_entra :: entra_config where
  "demo_entra =
     \<lparr>en_tenantId = ''t1'', en_clientId = ''app'', en_clientSecret = None, en_redirectUri = ''https://app.example/cb'',
      en_allowedTenantIds = None, en_subjectAllowlist = None, en_allowMutableClaims = False, en_groupAuthorization = None\<rparr>"

definition demo_entra_claims :: claims where
  "demo_entra_claims =
     [(''iss'', Str (entraIssuer ''t1'')), (''aud'', Str ''app''), (''oid'', Str ''o1''), (''exp'', Number (Whole 1800000000)),
      (''iat'', Number (Whole 1700000000)), (''nonce'', Str ''n'')]"

theorem entra_identity_bound_witness:
  "\<exists>s. own demo_entra_claims ''oid'' = Str s \<or> (\<exists>p. own demo_entra_claims ''sub'' = Str p \<and> s = entraIssuer ''t1'' @ ''|'' @ p)"
proof -
  let ?jose = "\<lambda>token algs. Inr \<lparr>vj_payload = demo_entra_claims, vj_alg = Str ''RS256''\<rparr>"
  have "validateEntraIdToken lower_case demo_entra demo_entra_claims (Some ''n'') = Accepted (Str ''o1'') None (entra_claims demo_entra_claims)"
    by code_simp
  then have run: "entra_verify lower_case ?jose demo_entra (Some ''n'') (Str ''jwt'') = Accepted (Str ''o1'') None (entra_claims demo_entra_claims)"
    by (simp add: entra_verify_def)
  from entra_identity_bound [OF run] show ?thesis by (auto simp: demo_entra_def opt_list_def)
qed

end
