(* ===== verification/Response_Boundary.thy ===== *)
theory Response_Boundary
  imports Http
begin

section \<open>The boundary for responses of a host\<close>

text \<open>
  \<open>src/adapters/response-boundary.ts\<close>: a host that completes an identity flow returns an untyped response,
  and only a bounded, inert copy of it is sent. A record of the model has only enumerable data properties, the
  ones of a plain object; what the source finds out about prototypes and accessors is refused before.
\<close>

definition completion_error :: "string \<Rightarrow> failure" where
  "completion_error m = typeError (''completion '' @ m)"

definition RESPONSE_KEYS :: "string list" where
  "RESPONSE_KEYS = [''status'', ''headers'', ''setCookies'', ''body'', ''redirect'']"

definition FORBIDDEN_HEADERS :: "string list" where
  "FORBIDDEN_HEADERS = [''connection'', ''content-length'', ''trailer'', ''transfer-encoding'', ''upgrade'']"

definition REDIRECT_STATUSES :: "int list" where "REDIRECT_STATUSES = [301, 302, 303, 307, 308]"

definition inspectRecord :: "string \<Rightarrow> jsval \<Rightarrow> (string \<times> jsval) list outcome" where
  "inspectRecord label v = (case v of Obj kvs \<Rightarrow> Inr kvs | _ \<Rightarrow> Inl (completion_error (label @ '' must be a record'')))"

subsection \<open>URI references\<close>

text \<open>
  The expression is anchored and its parts are delimited by characters they cannot hold, so it is matched
  part by part: fragment and query, then the scheme, the authority and the path.
\<close>

definition is_unreserved :: "char \<Rightarrow> bool" where
  "is_unreserved c = (is_alpha c \<or> is_digit c \<or> c \<in> {CHR ''.'', CHR ''_'', CHR ''~'', CHR ''-''})"

definition is_sub_delim :: "char \<Rightarrow> bool" where
  "is_sub_delim c = (c \<in> set (CHR 0x27 # ''!$&()*+,;=''))"

text \<open>Characters of a class, each percent sign followed by two hexadecimal digits.\<close>

fun pct_chars :: "(char \<Rightarrow> bool) \<Rightarrow> string \<Rightarrow> bool" where
  "pct_chars ok [] = True"
| "pct_chars ok (c # s) =
     (if c = CHR ''%'' then (case s of a # b # t \<Rightarrow> is_hex a \<and> is_hex b \<and> pct_chars ok t | _ \<Rightarrow> False)
      else ok c \<and> pct_chars ok s)"

definition is_pchar :: "char \<Rightarrow> bool" where
  "is_pchar c = (is_unreserved c \<or> is_sub_delim c \<or> c = CHR '':'' \<or> c = CHR ''@'')"

definition path_chars :: "string \<Rightarrow> bool" where
  "path_chars s = pct_chars (\<lambda>c. is_pchar c \<or> c = CHR ''/'') s"

definition path_abempty :: "string \<Rightarrow> bool" where
  "path_abempty s = (path_chars s \<and> (s = [] \<or> hd s = CHR ''/''))"

definition path_absolute :: "string \<Rightarrow> bool" where
  "path_absolute s = (path_chars s \<and> startsWith s ''/'' \<and> \<not> startsWith s ''//'')"

definition path_rootless :: "string \<Rightarrow> bool" where
  "path_rootless s = (path_chars s \<and> s \<noteq> [] \<and> hd s \<noteq> CHR ''/'')"

definition path_noscheme :: "string \<Rightarrow> bool" where
  "path_noscheme s = (path_rootless s \<and> CHR '':'' \<notin> set (takeWhile (\<lambda>c. c \<noteq> CHR ''/'') s))"

definition ip_literal_char :: "char \<Rightarrow> bool" where
  "ip_literal_char c = (is_unreserved c \<or> is_sub_delim c \<or> c = CHR '':'')"

definition port_ok :: "string \<Rightarrow> bool" where
  "port_ok s = (case s of [] \<Rightarrow> True | c # ds \<Rightarrow> c = CHR '':'' \<and> list_all is_digit ds)"

definition host_port_ok :: "string \<Rightarrow> bool" where
  "host_port_ok s =
     (if startsWith s ''[''
      then let literal = takeWhile (\<lambda>c. c \<noteq> CHR '']'') (tl s); rest = dropWhile (\<lambda>c. c \<noteq> CHR '']'') (tl s)
           in literal \<noteq> [] \<and> list_all ip_literal_char literal \<and> rest \<noteq> [] \<and> port_ok (tl rest)
      else pct_chars (\<lambda>c. is_unreserved c \<or> is_sub_delim c) (takeWhile (\<lambda>c. c \<noteq> CHR '':'') s)
           \<and> port_ok (dropWhile (\<lambda>c. c \<noteq> CHR '':'') s))"

definition authority_ok :: "string \<Rightarrow> bool" where
  "authority_ok s =
     (if CHR ''@'' \<in> set s
      then pct_chars (\<lambda>c. is_unreserved c \<or> is_sub_delim c \<or> c = CHR '':'') (takeWhile (\<lambda>c. c \<noteq> CHR ''@'') s)
           \<and> host_port_ok (tl (dropWhile (\<lambda>c. c \<noteq> CHR ''@'') s))
      else host_port_ok s)"

definition net_path :: "string \<Rightarrow> bool" where
  "net_path s =
     (startsWith s ''//''
      \<and> authority_ok (takeWhile (\<lambda>c. c \<noteq> CHR ''/'') (drop 2 s)) \<and> path_abempty (dropWhile (\<lambda>c. c \<noteq> CHR ''/'') (drop 2 s)))"

definition scheme_ok :: "string \<Rightarrow> bool" where
  "scheme_ok s =
     (s \<noteq> [] \<and> is_alpha (hd s) \<and> list_all (\<lambda>c. is_alpha c \<or> is_digit c \<or> c \<in> {CHR ''+'', CHR ''.'', CHR ''-''}) s)"

definition hier_part :: "string \<Rightarrow> bool" where
  "hier_part s \<longleftrightarrow>
     (let before = takeWhile (\<lambda>c. c \<noteq> CHR '':'') s; after = dropWhile (\<lambda>c. c \<noteq> CHR '':'') s
      in after \<noteq> [] \<and> scheme_ok before
         \<and> (net_path (tl after) \<or> path_absolute (tl after) \<or> path_rootless (tl after) \<or> tl after = []))
     \<or> net_path s \<or> path_absolute s \<or> path_noscheme s \<or> s = []"

definition query_chars :: "string \<Rightarrow> bool" where
  "query_chars s = pct_chars (\<lambda>c. is_pchar c \<or> c = CHR ''/'' \<or> c = CHR ''?'') s"

definition uri_reference :: "string \<Rightarrow> bool" where
  "uri_reference s =
     (let main = takeWhile (\<lambda>c. c \<noteq> CHR ''#'') s; fragment = dropWhile (\<lambda>c. c \<noteq> CHR ''#'') s;
          path = takeWhile (\<lambda>c. c \<noteq> CHR ''?'') main; query = dropWhile (\<lambda>c. c \<noteq> CHR ''?'') main
      in query_chars (tl fragment) \<and> query_chars (tl query) \<and> hier_part path)"

definition ipv_future :: "string \<Rightarrow> bool" where
  "ipv_future s =
     (case s of
        [] \<Rightarrow> False
      | v # t \<Rightarrow>
          v \<in> {CHR ''v'', CHR ''V''}
          \<and> (let version = takeWhile (\<lambda>c. c \<noteq> CHR ''.'') t; rest = dropWhile (\<lambda>c. c \<noteq> CHR ''.'') t
             in version \<noteq> [] \<and> list_all is_hex version \<and> length rest > 1 \<and> list_all ip_literal_char (tl rest)))"

text \<open>An address literal must be one the URL parser knows.\<close>

definition isUriReference :: "url_parser \<Rightarrow> string \<Rightarrow> bool" where
  "isUriReference parseUrl v =
     (uri_reference v
      \<and> (let literal = takeWhile (\<lambda>c. c \<noteq> CHR '']'') (tl (dropWhile (\<lambda>c. c \<noteq> CHR ''['') v))
         in CHR ''['' \<notin> set v \<or> ipv_future literal \<or> parseUrl (''http://['' @ literal @ '']/'') \<noteq> None))"

subsection \<open>Headers and cookies\<close>

definition is_token_char :: "char \<Rightarrow> bool" where
  "is_token_char c = (is_alpha c \<or> is_digit c \<or> c \<in> set (CHR 0x27 # ''!#$%&*+.^_`|~-''))"

definition printable :: "char \<Rightarrow> bool" where
  "printable c = (byte c = 9 \<or> 0x20 \<le> byte c \<and> byte c \<le> 0x7E)"

definition validateAsciiValue :: "string \<Rightarrow> nat \<Rightarrow> string \<Rightarrow> unit outcome" where
  "validateAsciiValue v limit label =
     require (length v \<le> limit \<and> list_all printable v
              \<and> (v = [] \<or> hd v \<notin> {CHR '' '', CHR 9} \<and> last v \<notin> {CHR '' '', CHR 9}))
       (completion_error (label @ '' is invalid''))"

definition validateCookieValue :: "string \<Rightarrow> unit outcome" where
  "validateCookieValue v =
     chain (validateAsciiValue v 4096 ''cookie'') (\<lambda>_. require (CHR 9 \<notin> set v) (completion_error ''cookie is invalid''))"

definition defineHeader :: "string jsmap \<Rightarrow> string \<Rightarrow> string \<Rightarrow> string jsmap" where
  "defineHeader target key v = filter (\<lambda>p. lower_case (fst p) \<noteq> lower_case key) target @ [(key, v)]"

definition header_name_ok :: "string \<Rightarrow> bool" where
  "header_name_ok key = (key \<noteq> [] \<and> list_all is_token_char key \<and> length key \<le> 256)"

fun header_members ::
    "string list \<Rightarrow> nat \<Rightarrow> string jsmap \<Rightarrow> (string \<times> jsval) list \<Rightarrow> string jsmap outcome" where
  "header_members folded bytes output [] = Inr output"
| "header_members folded bytes output ((key, v) # kvs) =
     chain (require (header_name_ok key) (completion_error ''header name is invalid'')) (\<lambda>_.
     chain (require (lower_case key \<notin> set folded) (completion_error ''header name is duplicated'')) (\<lambda>_.
     chain (require (lower_case key \<notin> set FORBIDDEN_HEADERS) (completion_error ''header is transport-owned'')) (\<lambda>_.
     case v of
       Str item \<Rightarrow>
         chain (if lower_case key = ''set-cookie''
                then chain (require (item \<noteq> []) (completion_error ''cookie is empty'')) (\<lambda>_. validateCookieValue item)
                else validateAsciiValue item 8192 ''header value'') (\<lambda>_.
         chain (require (bytes + length key + length item \<le> 32768) (completion_error ''headers are too large'')) (\<lambda>_.
         header_members (folded @ [lower_case key]) (bytes + length key + length item) (defineHeader output key item) kvs))
     | _ \<Rightarrow> Inl (completion_error ''header value must be a string''))))"

definition snapshotHeaders :: "jsval \<Rightarrow> string jsmap outcome" where
  "snapshotHeaders v =
     chain (inspectRecord ''headers'' v) (\<lambda>kvs.
     chain (require (length kvs \<le> 64) (completion_error ''has too many headers'')) (\<lambda>_.
     header_members [] 0 [] kvs))"

definition cookie_entry :: "jsval \<Rightarrow> string outcome" where
  "cookie_entry v =
     (case v of
        Str item \<Rightarrow>
          if item = [] then Inl (completion_error ''cookie must be a non-empty string'')
          else chain (validateCookieValue item) (\<lambda>_. Inr item)
      | _ \<Rightarrow> Inl (completion_error ''cookie must be a non-empty string''))"

definition snapshotCookies :: "jsval \<Rightarrow> string list outcome" where
  "snapshotCookies v =
     (case v of
        Arr xs \<Rightarrow> if length xs > 15 then Inl (completion_error ''has too many cookies'') else collect cookie_entry xs
      | _ \<Rightarrow> Inl (completion_error ''setCookies must be an array''))"

definition withNoStore :: "string jsmap \<Rightarrow> string jsmap" where
  "withNoStore headers =
     defineHeader (foldl (\<lambda>out (key, v). defineHeader out key v) []
                     (filter (\<lambda>p. lower_case (fst p) \<noteq> ''cache-control'') headers)) ''cache-control'' ''no-store''"

definition headerValue :: "string jsmap \<Rightarrow> string \<Rightarrow> string option" where
  "headerValue headers name = map_option snd (find (\<lambda>p. lower_case (fst p) = name) headers)"

definition hasNonEmptyHeader :: "string jsmap \<Rightarrow> string \<Rightarrow> bool" where
  "hasNonEmptyHeader headers name = (case headerValue headers name of None \<Rightarrow> False | Some v \<Rightarrow> v \<noteq> [])"

subsection \<open>Responses\<close>

definition required_member :: "(string \<times> jsval) list \<Rightarrow> string \<Rightarrow> jsval outcome" where
  "required_member kvs key =
     (case map_of kvs key of None \<Rightarrow> Inl (completion_error (''response missing '' @ key)) | Some v \<Rightarrow> Inr v)"

definition page_response :: "int \<Rightarrow> string jsmap \<Rightarrow> string list \<Rightarrow> jsval option \<Rightarrow> norm_response outcome" where
  "page_response st headers cookies body =
     chain (require (200 \<le> st \<and> st \<le> 299) (completion_error ''body status is invalid'')) (\<lambda>_.
     case body of
       None \<Rightarrow> Inr \<lparr>np_status = st, np_headers = headers, np_setCookies = cookies, np_body = No_body, np_redirect = None\<rparr>
     | Some (Str text) \<Rightarrow>
         chain (require (length text \<le> 65536) (completion_error ''body is too large'')) (\<lambda>_.
         chain (require (hasNonEmptyHeader headers ''content-type'') (completion_error ''string body requires Content-Type'')) (\<lambda>_.
         chain (require (st \<noteq> 204 \<and> st \<noteq> 205) (completion_error ''status cannot carry a body'')) (\<lambda>_.
         Inr \<lparr>np_status = st, np_headers = headers, np_setCookies = cookies, np_body = Html text, np_redirect = None\<rparr>)))
     | Some _ \<Rightarrow> Inl (completion_error ''body must be a string''))"

definition redirect_response ::
    "url_parser \<Rightarrow> int \<Rightarrow> string jsmap \<Rightarrow> string list \<Rightarrow> jsval option \<Rightarrow> jsval \<Rightarrow> norm_response outcome" where
  "redirect_response parseUrl st headers cookies body target =
     (case target of
        Str uri \<Rightarrow>
          chain (require (uri \<noteq> [] \<and> st \<in> set REDIRECT_STATUSES \<and> length uri \<le> 2048 \<and> isUriReference parseUrl uri)
                   (completion_error ''redirect is invalid'')) (\<lambda>_.
          chain (require (body = None) (completion_error ''redirect cannot carry a body'')) (\<lambda>_.
          chain (require (case headerValue headers ''location'' of None \<Rightarrow> True | Some l \<Rightarrow> l = uri)
                   (completion_error ''Location does not match redirect'')) (\<lambda>_.
          Inr \<lparr>np_status = st, np_headers = defineHeader headers ''location'' uri, np_setCookies = cookies,
               np_body = No_body, np_redirect = Some uri\<rparr>)))
      | _ \<Rightarrow> Inl (completion_error ''redirect is invalid''))"

definition snapshotCompletionResponse :: "url_parser \<Rightarrow> jsval \<Rightarrow> norm_response outcome" where
  "snapshotCompletionResponse parseUrl v =
     chain (inspectRecord ''response'' v) (\<lambda>kvs.
     chain (require (list_all (\<lambda>p. fst p \<in> set RESPONSE_KEYS) kvs) (completion_error ''response has an unknown key'')) (\<lambda>_.
     chain (required_member kvs ''status'') (\<lambda>statusValue.
     chain (case statusValue of Number (Whole n) \<Rightarrow> Inr n | _ \<Rightarrow> Inl (completion_error ''status must be an integer'')) (\<lambda>st.
     chain (chain (required_member kvs ''headers'') snapshotHeaders) (\<lambda>headers.
     chain (case map_of kvs ''setCookies'' of None \<Rightarrow> Inr [] | Some c \<Rightarrow> snapshotCookies c) (\<lambda>cookies.
     (case map_of kvs ''redirect'' of
        None \<Rightarrow> page_response st (withNoStore headers) cookies (map_of kvs ''body'')
      | Some target \<Rightarrow> redirect_response parseUrl st (withNoStore headers) cookies (map_of kvs ''body'') target)))))))"

end
