(* ===== verification/Upstream_Token.thy ===== *)
theory Upstream_Token
  imports Response_Boundary Cimd_Document Pairing
begin

section \<open>The cookie of an upstream flow\<close>

text \<open>
  \<open>src/adapters/upstream-flow-jwt.ts\<close> and the pure parts of \<open>upstream-flow-internals.ts\<close>: the state of a redirect
  to an identity provider is a signed token in a cookie, bound by its audience to one flow of the deployment.
  Its expiry is not left to \<open>jose\<close>, so that an expired flow is told apart from a broken one. A token this
  repository signs has a whole expiry; what a fraction of a second would mean is read by \<open>fraction\<close>: whether it is
  positive, and 1000 times it rounded up and down.
\<close>

datatype flow_completion = Bridge_flow | Identity_flow

definition FLOW_AUDIENCE :: string where "FLOW_AUDIENCE = ''mcp-sso/upstream-flow''"

definition IDENTITY_FLOW_AUDIENCE :: string where "IDENTITY_FLOW_AUDIENCE = ''mcp-sso/identity-flow''"

definition flowAudience :: "string \<Rightarrow> flow_completion \<Rightarrow> string" where
  "flowAudience callbackPath complete =
     (case complete of Bridge_flow \<Rightarrow> FLOW_AUDIENCE | Identity_flow \<Rightarrow> IDENTITY_FLOW_AUDIENCE) @ callbackPath"

record flow_client =
  fl_params :: "(string \<times> string) list"
  fl_cimd :: "CimdRegistration option"

record flow_claims =
  fl_jti :: string
  fl_state :: string
  fl_nonce :: string
  fl_codeVerifier :: string
  fl_exp :: num
  fl_client :: "flow_client option"

text \<open>What a cookie is signed for; a flow that ends in an identity carries no client.\<close>

record flow_request =
  fr_issuer :: string
  fr_secret :: string
  fr_callbackPath :: string
  fr_jti :: string
  fr_state :: string
  fr_nonce :: string
  fr_codeVerifier :: string
  fr_ttlSeconds :: int
  fr_client :: "flow_client option"

definition completion_of :: "'a option \<Rightarrow> flow_completion" where
  "completion_of client = (if client = None then Identity_flow else Bridge_flow)"

definition cimd_claim :: "CimdRegistration \<Rightarrow> jsval" where
  "cimd_claim r =
     Obj ([(''client_id'', Str (cimd_client_id r)), (''client_name'', Str (cimd_client_name r)),
           (''redirect_uris'', Arr (map Str (cimd_redirect_uris r)))]
          @ (case cimd_application_type r of None \<Rightarrow> [] | Some t \<Rightarrow> [(''application_type'', Str (application_type_text t))]))"

definition flow_payload :: "flow_request \<Rightarrow> int \<Rightarrow> members" where
  "flow_payload req now =
     [(''jti'', Str (fr_jti req)), (''state'', Str (fr_state req)), (''nonce'', Str (fr_nonce req)),
      (''code_verifier'', Str (fr_codeVerifier req))]
     @ (case fr_client req of
          None \<Rightarrow> []
        | Some client \<Rightarrow>
            (''params'', Obj (map (\<lambda>(k, v). (k, Str v)) (fl_params client)))
            # (case fl_cimd client of None \<Rightarrow> [] | Some r \<Rightarrow> [(''cimd'', cimd_claim r)]))
     @ [(''iss'', Str (fr_issuer req)), (''aud'', Str (flowAudience (fr_callbackPath req) (completion_of (fr_client req)))),
        (''iat'', Number (Whole now)), (''exp'', Number (Whole (now + fr_ttlSeconds req)))]"

definition signFlowToken :: "jose \<Rightarrow> flow_request \<Rightarrow> clock_reading \<Rightarrow> string outcome" where
  "signFlowToken J req clock =
     chain (nowSeconds clock (fr_ttlSeconds req)) (\<lambda>now.
     jose_sign J (ConsentSecret (fr_secret req)) consent_header (flow_payload req now))"

definition flow_error :: "string \<Rightarrow> failure" where "flow_error m = Thrown ''Error'' m"

definition flowString :: "jsval \<Rightarrow> string \<Rightarrow> string outcome" where
  "flowString v label =
     (case v of
        Str s \<Rightarrow> if s = [] then Inl (flow_error (''flow token missing '' @ label)) else Inr s
      | _ \<Rightarrow> Inl (flow_error (''flow token missing '' @ label)))"

type_synonym fraction_reader = "string \<Rightarrow> bool \<times> int \<times> int"

definition requiredPositiveNumber :: "fraction_reader \<Rightarrow> jsval \<Rightarrow> string \<Rightarrow> num outcome" where
  "requiredPositiveNumber fraction v label =
     (case v of
        Number (Whole n) \<Rightarrow> if n > 0 then Inr (Whole n) else Inl (flow_error (''flow token missing '' @ label))
      | Number (Fraction t) \<Rightarrow>
          if fst (fraction t) then Inr (Fraction t) else Inl (flow_error (''flow token missing '' @ label))
      | _ \<Rightarrow> Inl (flow_error (''flow token missing '' @ label)))"

text \<open>The least whole number of milliseconds that is not before the expiry, and the one it is written as.\<close>

definition exp_ceiling :: "fraction_reader \<Rightarrow> num \<Rightarrow> int" where
  "exp_ceiling fraction x = (case x of Whole n \<Rightarrow> n * 1000 | Fraction t \<Rightarrow> fst (snd (fraction t)) | NotFinite \<Rightarrow> 0)"

definition exp_floor :: "fraction_reader \<Rightarrow> num \<Rightarrow> int" where
  "exp_floor fraction x = (case x of Whole n \<Rightarrow> n * 1000 | Fraction t \<Rightarrow> snd (snd (fraction t)) | NotFinite \<Rightarrow> 0)"

definition flow_options :: "string \<Rightarrow> string \<Rightarrow> flow_completion \<Rightarrow> jwt_options" where
  "flow_options issuer callbackPath complete =
     \<lparr>jo_algorithms = [''HS256''], jo_issuer = issuer, jo_audience = flowAudience callbackPath complete,
      jo_requiredClaims = [], jo_currentMs = 0\<rparr>"

definition string_members :: "(string \<times> jsval) list \<Rightarrow> (string \<times> string) list" where
  "string_members kvs = map (\<lambda>(k, v). (k, str_of v)) (filter (\<lambda>(k, v). case v of Str _ \<Rightarrow> True | _ \<Rightarrow> False) kvs)"

definition flow_client_claims :: "members \<Rightarrow> flow_client outcome" where
  "flow_client_claims payload =
     (case own payload ''params'' of
        Obj raw \<Rightarrow>
          (let params = string_members raw in
           chain (if map_has ''cimd'' payload
                  then chain (parseCimdRegistrationClaim (own payload ''cimd'') (map_of params ''client_id'')) (\<lambda>r. Inr (Some r))
                  else Inr None) (\<lambda>cimd.
           Inr \<lparr>fl_params = params, fl_cimd = cimd\<rparr>))
      | RevokedProxy \<Rightarrow> Inl proxy_type_error
      | _ \<Rightarrow> Inl (flow_error ''flow params missing''))"

definition verifyFlowToken ::
    "jose \<Rightarrow> fraction_reader \<Rightarrow> string \<Rightarrow> string \<Rightarrow> string \<Rightarrow> string \<Rightarrow> flow_completion \<Rightarrow> flow_claims outcome" where
  "verifyFlowToken J fraction token secret issuer callbackPath complete =
     chain (jose_verify J token (ConsentSecret secret) (flow_options issuer callbackPath complete)) (\<lambda>payload.
     chain (flowString (own payload ''jti'') ''jti'') (\<lambda>jti.
     chain (flowString (own payload ''state'') ''state'') (\<lambda>state.
     chain (flowString (own payload ''nonce'') ''nonce'') (\<lambda>nonce.
     chain (flowString (own payload ''code_verifier'') ''code_verifier'') (\<lambda>codeVerifier.
     chain (requiredPositiveNumber fraction (own payload ''exp'') ''exp'') (\<lambda>expiry.
     chain (case complete of
              Identity_flow \<Rightarrow>
                if map_has ''params'' payload \<or> map_has ''cimd'' payload
                then Inl (flow_error ''identity flow payload is malformed'') else Inr None
            | Bridge_flow \<Rightarrow> chain (flow_client_claims payload) (\<lambda>client. Inr (Some client))) (\<lambda>client.
     Inr \<lparr>fl_jti = jti, fl_state = state, fl_nonce = nonce, fl_codeVerifier = codeVerifier, fl_exp = expiry,
          fl_client = client\<rparr>)))))))"

subsection \<open>Cookies\<close>

record cookie_profile =
  ck_name :: string
  ck_secure :: bool

definition resolveCookieProfile :: "url_parser \<Rightarrow> string \<Rightarrow> flow_completion \<Rightarrow> cookie_profile" where
  "resolveCookieProfile parseUrl issuer complete =
     (let protocol = (case parseUrl issuer of None \<Rightarrow> ''https:'' | Some u \<Rightarrow> url_protocol u);
          stem = (case complete of Bridge_flow \<Rightarrow> ''upstream'' | Identity_flow \<Rightarrow> ''identity'')
      in if protocol = ''https:'' then \<lparr>ck_name = ''__Host-mcp-sso-'' @ stem, ck_secure = True\<rparr>
         else \<lparr>ck_name = ''mcp-sso-'' @ stem, ck_secure = False\<rparr>)"

definition setCookieValue :: "cookie_profile \<Rightarrow> string \<Rightarrow> int \<Rightarrow> string" where
  "setCookieValue profile v maxAge =
     join ''; '' ([ck_name profile @ ''='' @ v, ''Path=/''] @ (if ck_secure profile then [''Secure''] else [])
                  @ [''HttpOnly'', ''SameSite=Lax'', ''Max-Age='' @ decimal (nat maxAge)])"

definition clearCookieValue :: "cookie_profile \<Rightarrow> string" where
  "clearCookieValue profile = setCookieValue profile [] 0"

definition readFlowCookie :: "(string \<times> jsval) list \<Rightarrow> cookie_profile \<Rightarrow> string option" where
  "readFlowCookie headers profile =
     (case headerString headers ''cookie'' of
        None \<Rightarrow> None
      | Some raw \<Rightarrow>
          if raw = [] then None
          else map_option (\<lambda>part. drop (length (ck_name profile) + 1) (trim part))
                 (find (\<lambda>part. startsWith (trim part) (ck_name profile @ ''='')) (split_on CHR '';'' raw)))"

definition MAX_FLOW_COOKIE_BYTES :: nat where "MAX_FLOW_COOKIE_BYTES = 4096"

definition flowCookieOversized :: "cookie_profile \<Rightarrow> string \<Rightarrow> int \<Rightarrow> bool" where
  "flowCookieOversized profile v maxAge = (length (setCookieValue profile v maxAge) > MAX_FLOW_COOKIE_BYTES)"

subsection \<open>The callback path\<close>

definition RESERVED_CALLBACK_ROUTES :: "string list" where
  "RESERVED_CALLBACK_ROUTES =
     [''/oauth/authorize'', ''/oauth/authorize/approve'', ''/oauth/token'', ''/oauth/register'', ''/oauth/revoke'', ''/oauth/jwks'']"

definition effectiveRouteKey :: "string \<Rightarrow> string" where
  "effectiveRouteKey path =
     (let folded = map ascii_lower_char path in if length folded > 1 \<and> endsWith folded ''/'' then butlast folded else folded)"

definition plain_path_char :: "char \<Rightarrow> bool" where
  "plain_path_char c = (c \<notin> set ''?#%'' \<and> c \<noteq> CHR 0x5C \<and> \<not> ws1 (byte c) \<and> 0x20 \<le> byte c \<and> byte c \<noteq> 0x7F)"

definition callback_segments :: "string list \<Rightarrow> unit outcome" where
  "callback_segments segments =
     (case find (\<lambda>s. s \<in> {[], ''.'', ''..''}) segments of
        None \<Rightarrow> Inr ()
      | Some s \<Rightarrow>
          if s = [] then Inl (authConfigError ''callbackPath must not contain empty (//) segments'')
          else Inl (authConfigError ''callbackPath must not contain dot (./..) segments''))"

definition well_known_route :: "string \<Rightarrow> bool" where
  "well_known_route path =
     (let key = effectiveRouteKey path in key = ''/.well-known'' \<or> startsWith key ''/.well-known/'')"

definition plain_path_text :: string where
  "plain_path_text =
     ''callbackPath must be a plain pathname (no '' @ join '', '' (map (\<lambda>c. [CHR 0x27, c, CHR 0x27]) (''?#%'' @ [CHR 0x5C]))
     @ '', whitespace, or control chars)''"

definition assertCallbackPath :: "url_parser \<Rightarrow> string \<Rightarrow> string \<Rightarrow> string \<Rightarrow> unit outcome" where
  "assertCallbackPath parseUrl path site resourcePath =
     chain (require (startsWith path ''/'') (authConfigError (''callbackPath must start with '' @ [CHR 0x27] @ ''/'' @ [CHR 0x27]))) (\<lambda>_.
     chain (require (list_all plain_path_char path \<and> \<not> has_whitespace path) (authConfigError plain_path_text)) (\<lambda>_.
     chain (callback_segments (tl (split_on CHR ''/'' path))) (\<lambda>_.
     (case parseUrl (site @ path) of
        None \<Rightarrow> Inl (authConfigError ''callbackPath is not a valid path under the issuer origin'')
      | Some u \<Rightarrow>
          chain (require (url_pathname u = path) (authConfigError (''callbackPath must equal its normalized form (got ''
                   @ [CHR 0x27] @ url_pathname u @ [CHR 0x27] @ '')''))) (\<lambda>_.
          require (effectiveRouteKey path \<notin> set (map effectiveRouteKey RESERVED_CALLBACK_ROUTES)
                   \<and> effectiveRouteKey path \<noteq> effectiveRouteKey resourcePath \<and> \<not> well_known_route path)
            (authConfigError (''callbackPath must not be a reserved route: '' @ path)))))))"

text \<open>\<open>upstream-flow-routes.ts\<close>: the routes a flow occupies, and a set of flows that can be mounted together.\<close>

definition ADAPTER_ROUTES :: "string list" where
  "ADAPTER_ROUTES =
     [''/oauth/authorize'', ''/login'', ''/oauth/authorize/approve'', ''/oauth/token'', ''/oauth/register'', ''/oauth/revoke'',
      ''/oauth/jwks'']"

definition initiation_route :: "flow_completion \<Rightarrow> string" where
  "initiation_route complete = (case complete of Bridge_flow \<Rightarrow> ''/oauth/authorize'' | Identity_flow \<Rightarrow> ''/login'')"

definition assertFlowFactoryRoutes :: "string \<Rightarrow> flow_completion \<Rightarrow> string \<Rightarrow> unit outcome" where
  "assertFlowFactoryRoutes resourcePath complete callback =
     chain (require (effectiveRouteKey callback \<noteq> effectiveRouteKey resourcePath
                     \<and> effectiveRouteKey callback \<notin> set (map effectiveRouteKey ADAPTER_ROUTES) \<and> \<not> well_known_route callback)
              (authConfigError (''callbackPath must not alias a reserved route: '' @ callback))) (\<lambda>_.
     require (effectiveRouteKey (initiation_route complete) \<noteq> effectiveRouteKey resourcePath
              \<and> \<not> well_known_route (initiation_route complete))
       (authConfigError (''flow initiation must not alias the resource path: '' @ initiation_route complete)))"

fun distinct_flow_routes :: "string \<Rightarrow> string list \<Rightarrow> string list \<Rightarrow> bool" where
  "distinct_flow_routes resource occupied [] = True"
| "distinct_flow_routes resource occupied (route # routes) =
     (effectiveRouteKey route \<notin> set occupied \<and> effectiveRouteKey route \<noteq> resource \<and> \<not> well_known_route route
      \<and> distinct_flow_routes resource (occupied @ [effectiveRouteKey route]) routes)"

text \<open>The flows of one bridge, by completion and callback path.\<close>

definition assertDistinctUpstreamFlowRoutes :: "string \<Rightarrow> (flow_completion \<times> string) list \<Rightarrow> unit outcome" where
  "assertDistinctUpstreamFlowRoutes resourcePath flows =
     require (length flows \<in> {1, 2} \<and> distinct flows
              \<and> distinct_flow_routes (effectiveRouteKey resourcePath) []
                  (concat (map (\<lambda>(complete, callback). [initiation_route complete, callback]) flows)))
       (authConfigError ''upstream flow route set is invalid or ambiguous'')"

end
