(* ===== verification/Upstream_Flow.thy ===== *)
theory Upstream_Flow
  imports Upstream_Token Bridge Cimd_Resolver
begin

section \<open>Redirect flows through an identity provider\<close>

text \<open>
  \<open>src/adapters/upstream-flow.ts\<close> with \<open>upstream-flow-authorize.ts\<close>, \<open>upstream-flow-cimd.ts\<close>,
  \<open>upstream-flow-port.ts\<close> and \<open>upstream-flow-completion.ts\<close>: the authorization request waits in a signed cookie
  while the browser is at the identity provider; the callback checks its preconditions in a fixed order and only
  then exchanges the provider's code. A flow ends at the bridge's consent page or in a host's own identity.
  The resolver a flow uses is the bridge's, called with the flow's limiter and test seams.
\<close>

record upstream_flow =
  uf_bridge :: bridge
  uf_complete :: flow_completion
  uf_callbackPath :: string
  uf_flowTtlSeconds :: int
  uf_cookie :: cookie_profile
  uf_resolve :: cimd_resolver
  uf_fraction :: fraction_reader
  uf_numText :: "num \<Rightarrow> string"

abbreviation uf_config :: "upstream_flow \<Rightarrow> bridge_config" where
  "uf_config f \<equiv> br_config (uf_bridge f)"

definition uf_secret :: "upstream_flow \<Rightarrow> string" where
  "uf_secret f = cfg_consentSigningSecret (uf_config f)"

definition guard_prefix :: "flow_completion \<Rightarrow> string" where
  "guard_prefix complete = (case complete of Bridge_flow \<Rightarrow> ''upstream'' | Identity_flow \<Rightarrow> ''website-login'')"

definition randomFlowToken :: "string io" where
  "randomFlowToken = Draw (\<lambda>r. Return (chain (randomBytesFrom r 32) (\<lambda>b. Inr (base64url b))))"

subsection \<open>Parameters and errors\<close>

definition oauth_param :: "norm_request \<Rightarrow> string \<Rightarrow> string option" where
  "oauth_param req key =
     (if key = ''resource'' then resourceParam (own (nq_query req) key) else queryString (nq_query req) key)"

definition flowOAuthParams :: "norm_request \<Rightarrow> (string \<times> string) list" where
  "flowOAuthParams req =
     map (\<lambda>key. (key, the (oauth_param req key))) (filter (\<lambda>key. oauth_param req key \<noteq> None) OAUTH_PARAM_KEYS)"

definition pickOAuthParams :: "(string \<times> string) list \<Rightarrow> (string \<times> string) list" where
  "pickOAuthParams params =
     map (\<lambda>key. (key, the (map_of params key))) (filter (\<lambda>key. map_of params key \<noteq> None) OAUTH_PARAM_KEYS)"

definition directErrorResponse :: "string \<Rightarrow> string \<Rightarrow> int \<Rightarrow> norm_response" where
  "directErrorResponse c m st =
     respond st [] (Json (error_body \<lparr>code = c, message = m, status = st, redirect = None\<rparr>))"

definition redirectErrorResponse ::
    "authorize_service \<Rightarrow> string \<Rightarrow> string \<Rightarrow> string option \<Rightarrow> string \<Rightarrow> norm_response outcome" where
  "redirectErrorResponse svc redirectUri c state description =
     chain (buildAuthorizationErrorRedirect svc redirectUri c state (Some description)) (\<lambda>location.
     Inr (redirect_to 302 [(''location'', location)] location))"

definition mapped_error :: "failure \<Rightarrow> norm_response" where
  "mapped_error e = (let o' = asOAuth e in directErrorResponse (code o') (message o') (status o'))"

definition flow_broken :: norm_response where
  "flow_broken = directErrorResponse ''internal_error'' ''OAuth request failed'' 500"

subsection \<open>Initiation\<close>

definition resolveUpstreamAuthorizeClient ::
    "upstream_flow \<Rightarrow> string \<Rightarrow> string \<Rightarrow> string option \<Rightarrow> (CimdRegistration option \<times> unit io) io" where
  "resolveUpstreamAuthorizeClient f clientId redirectUri ip =
     (if isCimdClientId clientId
      then (if cfg_cimd (uf_config f) = None then fail cimdGenericError
            else catch (andThen (uf_resolve f clientId redirectUri ip) (\<lambda>r. pass (Some (fst r), snd r)))
                   (\<lambda>e. fail (if is_oauth e then e else mapCimdError e)))
      else if isSchemeShaped clientId then fail cimdGenericError
      else andThen (resolveOpaqueRedirect (br_auth (uf_bridge f)) clientId redirectUri) (\<lambda>_. pass (None, pass ())))"

definition url_reply :: "jsval \<Rightarrow> string outcome" where
  "url_reply v =
     (case v of
        Str s \<Rightarrow>
          if s = [] then Inl (typeError ''RedirectIdentityPort.buildAuthorizationUrl must return a non-empty string'')
          else Inr s
      | _ \<Rightarrow> Inl (typeError ''RedirectIdentityPort.buildAuthorizationUrl must return a non-empty string''))"

definition buildUpstreamAuthorizationUrl :: "jsval \<Rightarrow> string io" where
  "buildUpstreamAuthorizationUrl v =
     askPort ''RedirectIdentityPort'' ''buildAuthorizationUrl'' (BuildAuthorizationUrl v) url_reply"

definition buildLocation :: "string \<Rightarrow> string \<Rightarrow> string \<Rightarrow> string io" where
  "buildLocation state nonce codeVerifier =
     buildUpstreamAuthorizationUrl
       (Obj [(''state'', Str state), (''nonce'', Str nonce), (''codeChallenge'', Str (pkceChallenge codeVerifier)),
             (''codeChallengeMethod'', Str ''S256'')])"

definition redirectToIdentity :: "string \<Rightarrow> cookie_profile \<Rightarrow> string \<Rightarrow> int \<Rightarrow> norm_response" where
  "redirectToIdentity location cookie token ttl =
     redirect_to 302 (noStoreHeaders [(''location'', location), (''set-cookie'', setCookieValue cookie token ttl)]) location"

record flow_secrets =
  fx_state :: string
  fx_nonce :: string
  fx_codeVerifier :: string
  fx_jti :: string

definition draw_secrets :: "flow_secrets io" where
  "draw_secrets =
     andThen randomFlowToken (\<lambda>state.
     andThen randomFlowToken (\<lambda>nonce.
     andThen randomFlowToken (\<lambda>codeVerifier.
     andThen randomFlowToken (\<lambda>token.
     pass \<lparr>fx_state = state, fx_nonce = nonce, fx_codeVerifier = codeVerifier, fx_jti = ''upf_'' @ token\<rparr>))))"

definition sealed_request :: "upstream_flow \<Rightarrow> flow_secrets \<Rightarrow> flow_client option \<Rightarrow> flow_request" where
  "sealed_request f x client =
     \<lparr>fr_issuer = cfg_issuer (uf_config f), fr_secret = uf_secret f, fr_callbackPath = uf_callbackPath f,
      fr_jti = fx_jti x, fr_state = fx_state x, fr_nonce = fx_nonce x, fr_codeVerifier = fx_codeVerifier x,
      fr_ttlSeconds = uf_flowTtlSeconds f, fr_client = client\<rparr>"

definition seal_flow :: "upstream_flow \<Rightarrow> flow_secrets \<Rightarrow> flow_client option \<Rightarrow> string io" where
  "seal_flow f x client = Now (\<lambda>r. Return (signFlowToken (az_jose (br_auth (uf_bridge f))) (sealed_request f x client) r))"

definition leave_for_identity :: "upstream_flow \<Rightarrow> flow_secrets \<Rightarrow> string \<Rightarrow> norm_response io" where
  "leave_for_identity f x token =
     andThen (buildLocation (fx_state x) (fx_nonce x) (fx_codeVerifier x)) (\<lambda>location.
     pass (redirectToIdentity location (uf_cookie f) token (uf_flowTtlSeconds f)))"

definition too_large :: norm_response where
  "too_large = directErrorResponse ''invalid_request'' ''request parameters too large'' 400"

definition oversize_rejected :: "string \<Rightarrow> string option \<Rightarrow> norm_response io" where
  "oversize_rejected clientId ip =
     Now (\<lambda>r. case rejectAfterResolve r clientId ip of (e, events) \<Rightarrow> foldr Audit events (fail e))"

definition oversized :: "upstream_flow \<Rightarrow> string \<Rightarrow> bool" where
  "oversized f token = flowCookieOversized (uf_cookie f) token (uf_flowTtlSeconds f)"

definition initiate_for_bridge :: "upstream_flow \<Rightarrow> norm_request \<Rightarrow> flow_secrets \<Rightarrow> norm_response io" where
  "initiate_for_bridge f req x =
     (if findDuplicatedKeys (Obj (nq_query req)) OAUTH_SINGLETON_PARAM_KEYS \<noteq> []
      then pass (directErrorResponse ''invalid_request'' ''duplicate request parameters'' 400)
      else case queryString (nq_query req) ''client_id'' of
             None \<Rightarrow> pass (directErrorResponse ''invalid_request'' ''client_id is required'' 400)
           | Some clientId \<Rightarrow>
               andThen (resolveUpstreamAuthorizeClient f clientId
                          (case queryString (nq_query req) ''redirect_uri'' of None \<Rightarrow> [] | Some u \<Rightarrow> u) (nq_ip req)) (\<lambda>resolved.
               andThen (seal_flow f x (Some \<lparr>fl_params = flowOAuthParams req, fl_cimd = fst resolved\<rparr>)) (\<lambda>token.
               if oversized f token
               then (if fst resolved \<noteq> None then oversize_rejected clientId (nq_ip req) else pass too_large)
               else andThen (snd resolved) (\<lambda>_. leave_for_identity f x token))))"

definition initiate_for_identity :: "upstream_flow \<Rightarrow> flow_secrets \<Rightarrow> norm_response io" where
  "initiate_for_identity f x =
     andThen (seal_flow f x None) (\<lambda>token. if oversized f token then pass too_large else leave_for_identity f x token)"

definition flowAuthorize :: "upstream_flow \<Rightarrow> norm_request \<Rightarrow> norm_response io" where
  "flowAuthorize f req =
     catch
       (andThen (guard (guard_prefix (uf_complete f)) (nq_ip req) False) (\<lambda>_.
        andThen draw_secrets (\<lambda>x.
        case uf_complete f of Identity_flow \<Rightarrow> initiate_for_identity f x | Bridge_flow \<Rightarrow> initiate_for_bridge f req x)))
       (\<lambda>e. pass (mapped_error e))"

subsection \<open>Callback\<close>

text \<open>Every way through the callback ends in a response that is audited: the verdict.\<close>

record verdict =
  vd_response :: norm_response
  vd_status :: string
  vd_reason :: "string option"
  vd_clientId :: "string option"

definition CALLBACK_DUP_KEYS :: "string list" where
  "CALLBACK_DUP_KEYS = [''state'', ''code'', ''error'', ''error_description'']"

definition DENIED_ERRORS :: "string list" where
  "DENIED_ERRORS = [''access_denied'', ''consent_required'', ''interaction_required'', ''login_required'']"

definition failed :: "norm_response \<Rightarrow> string \<Rightarrow> string option \<Rightarrow> verdict io" where
  "failed res reason clientId =
     pass \<lparr>vd_response = res, vd_status = ''failure'', vd_reason = Some reason, vd_clientId = clientId\<rparr>"

definition bad_request :: "string \<Rightarrow> string \<Rightarrow> string option \<Rightarrow> verdict io" where
  "bad_request m reason clientId = failed (directErrorResponse ''invalid_request'' m 400) reason clientId"

definition cookie_invalid :: "string option \<Rightarrow> verdict io" where
  "cookie_invalid clientId = bad_request ''flow cookie invalid'' ''flow_cookie_invalid'' clientId"

definition broken :: "string \<Rightarrow> string option \<Rightarrow> verdict io" where
  "broken reason clientId = failed flow_broken reason clientId"

definition client_param :: "flow_claims \<Rightarrow> string \<Rightarrow> string option" where
  "client_param claims key = (case fl_client claims of None \<Rightarrow> None | Some c \<Rightarrow> map_of (fl_params c) key)"

text \<open>An answer to the client's redirect URI, or the direct answer of a flow without one.\<close>

definition answer_client ::
    "upstream_flow \<Rightarrow> flow_claims \<Rightarrow> string \<Rightarrow> string \<Rightarrow> norm_response \<Rightarrow> norm_response outcome" where
  "answer_client f claims c description direct =
     (case uf_complete f of
        Identity_flow \<Rightarrow> Inr direct
      | Bridge_flow \<Rightarrow>
          redirectErrorResponse (br_auth (uf_bridge f)) (the (client_param claims ''redirect_uri'')) c
            (client_param claims ''state'') description)"

definition provider_error :: "upstream_flow \<Rightarrow> flow_claims \<Rightarrow> string \<Rightarrow> verdict io" where
  "provider_error f claims reason =
     andThen (lift (answer_client f claims ''server_error'' ''upstream identity provider error'' flow_broken)) (\<lambda>res.
     failed res reason (client_param claims ''client_id''))"

definition denied_error :: "upstream_flow \<Rightarrow> flow_claims \<Rightarrow> string \<Rightarrow> string \<Rightarrow> verdict io" where
  "denied_error f claims description reason =
     andThen (lift (answer_client f claims ''access_denied'' description
                      (directErrorResponse ''access_denied'' ''Identity verification failed'' 400))) (\<lambda>res.
     failed res reason (client_param claims ''client_id''))"

definition exchangeUpstreamIdentity :: "(num \<Rightarrow> string) \<Rightarrow> jsval \<Rightarrow> bool \<Rightarrow> exchange_result io" where
  "exchangeUpstreamIdentity numText v includeClaims =
     askPort ''RedirectIdentityPort'' ''exchangeAndVerify'' (ExchangeUpstream v)
       (\<lambda>reply. snapshotRedirectExchangeResult numText reply includeClaims)"

definition claims_value :: "identityClaims \<Rightarrow> jsval" where
  "claims_value c =
     Obj ([(''subject'', Str (ic_subject c))]
          @ (case ic_allowedScopes c of None \<Rightarrow> [] | Some ss \<Rightarrow> [(''allowedScopes'', Arr (map Str ss))])
          @ (case ic_claims c of None \<Rightarrow> [] | Some kvs \<Rightarrow> [(''claims'', Obj kvs)]))"

text \<open>A host that does not answer in time is a call that throws.\<close>

definition completeIdentity :: "url_parser \<Rightarrow> identityClaims \<Rightarrow> norm_response io" where
  "completeIdentity parseUrl identity =
     Ask (CompleteIdentity (claims_value identity)) (\<lambda>r. Return (chain r (snapshotCompletionResponse parseUrl)))"

definition host_completion :: "upstream_flow \<Rightarrow> identityClaims \<Rightarrow> verdict io" where
  "host_completion f identity =
     bind_task (completeIdentity (az_parseUrl (br_auth (uf_bridge f))) identity) (\<lambda>r.
       case r of
         Inl _ \<Rightarrow> broken ''completion_failed'' None
       | Inr res \<Rightarrow> pass \<lparr>vd_response = res, vd_status = ''success'', vd_reason = None, vd_clientId = None\<rparr>)"

definition bridge_completion ::
    "upstream_flow \<Rightarrow> norm_request \<Rightarrow> flow_claims \<Rightarrow> flow_client \<Rightarrow> string \<Rightarrow> jsval \<Rightarrow> verdict io" where
  "bridge_completion f req claims client sub allowed =
     (let clientId = client_param claims ''client_id'' in
      bind_task (handleAuthorize (uf_bridge f)
          \<lparr>nq_query = map (\<lambda>(k, v). (k, Str v)) (pickOAuthParams (fl_params client)), nq_body = Undefined,
           nq_formBody = None, nq_headers = nq_headers req, nq_ip = nq_ip req\<rparr>
          \<lparr>gi_subject = sub, gi_allowedScopes = allowed, gi_registration = fl_cimd client\<rparr>) (\<lambda>r.
        case r of
          Inl _ \<Rightarrow> broken ''internal_error'' clientId
        | Inr res \<Rightarrow>
            if np_status res = 200
            then pass \<lparr>vd_response = res, vd_status = ''success'', vd_reason = None, vd_clientId = clientId\<rparr>
            else failed res ''bridge_error'' clientId))"

text \<open>The decision of the identity provider; \<open>now\<close> is the time the callback arrived.\<close>

definition emit_decision :: "int \<Rightarrow> norm_request \<Rightarrow> string \<Rightarrow> string option \<Rightarrow> string option \<Rightarrow> 'a io \<Rightarrow> 'a io" where
  "emit_decision now req st reason sub t = Audit (identity_event st reason sub (nq_ip req) now) t"

definition exchanged :: "upstream_flow \<Rightarrow> int \<Rightarrow> norm_request \<Rightarrow> flow_claims \<Rightarrow> exchange_result \<Rightarrow> verdict io" where
  "exchanged f now req claims result =
     (case result of
        ExchangeFailed kind reason \<Rightarrow>
          if kind = ''exchange_failed'' then provider_error f claims ''exchange_failed''
          else (let r = normalizedIdentityFailureReason reason in
                emit_decision now req ''failure'' (Some r) None
                  (denied_error f claims (identityRejectionDescription r) ''identity_rejected''))
      | ExchangedClaims identity \<Rightarrow>
          emit_decision now req ''success'' None (Some (ic_subject identity)) (host_completion f identity)
      | Exchanged sub allowed \<Rightarrow>
          emit_decision now req ''success'' None (Some sub)
            (case fl_client claims of
               None \<Rightarrow> broken ''internal_error'' None
             | Some client \<Rightarrow> bridge_completion f req claims client sub allowed))"

definition exchange_request :: "flow_claims \<Rightarrow> string \<Rightarrow> jsval" where
  "exchange_request claims c =
     Obj [(''code'', Str c), (''codeVerifier'', Str (fl_codeVerifier claims)), (''nonce'', Str (fl_nonce claims))]"

definition exchange_code :: "upstream_flow \<Rightarrow> int \<Rightarrow> norm_request \<Rightarrow> flow_claims \<Rightarrow> string \<Rightarrow> verdict io" where
  "exchange_code f now req claims c =
     bind_task (exchangeUpstreamIdentity (uf_numText f) (exchange_request claims c) (uf_complete f = Identity_flow)) (\<lambda>r.
       case r of
         Inl _ \<Rightarrow> provider_error f claims ''exchange_failed''
       | Inr result \<Rightarrow> exchanged f now req claims result)"

definition first_use :: "upstream_flow \<Rightarrow> int \<Rightarrow> norm_request \<Rightarrow> flow_claims \<Rightarrow> verdict io" where
  "first_use f now req claims =
     (case queryString (nq_query req) ''error'' of
        Some e \<Rightarrow>
          if e \<in> set DENIED_ERRORS
          then denied_error f claims ''upstream identity provider denied the request'' ''upstream_denied''
          else provider_error f claims ''upstream_error''
      | None \<Rightarrow>
          (case queryString (nq_query req) ''code'' of
             None \<Rightarrow> bad_request ''missing authorization code'' ''missing_code'' (client_param claims ''client_id'')
           | Some c \<Rightarrow> exchange_code f now req claims c))"

definition expiry_iso :: "fraction_reader \<Rightarrow> num \<Rightarrow> string outcome" where
  "expiry_iso fraction x =
     (if exp_floor fraction x \<le> 8640000000000000 then Inr (toISOString (exp_floor fraction x))
      else Inl (Thrown ''RangeError'' ''Invalid time value''))"

definition spend_flow :: "upstream_flow \<Rightarrow> int \<Rightarrow> norm_request \<Rightarrow> flow_claims \<Rightarrow> verdict io" where
  "spend_flow f now req claims =
     bind_task (andThen (lift (expiry_iso (uf_fraction f) (fl_exp claims))) (consumeConsentJtiSnapshot (fl_jti claims))) (\<lambda>r.
       case r of
         Inl _ \<Rightarrow> broken ''internal_error'' (client_param claims ''client_id'')
       | Inr firstUse \<Rightarrow>
           if firstUse then first_use f now req claims
           else bad_request ''flow already used'' ''flow_replayed'' (client_param claims ''client_id''))"

definition registration_refused :: "failure \<Rightarrow> bool" where
  "registration_refused e =
     (case e of OAuth o' \<Rightarrow> code o' = ''invalid_client'' \<or> code o' = ''invalid_redirect_uri'' | _ \<Rightarrow> False)"

text \<open>An opaque client is looked up again: the cookie proves what was registered when the flow began.\<close>

definition recheck_client :: "upstream_flow \<Rightarrow> int \<Rightarrow> norm_request \<Rightarrow> flow_claims \<Rightarrow> verdict io" where
  "recheck_client f now req claims =
     (case client_param claims ''client_id'' of
        None \<Rightarrow> spend_flow f now req claims
      | Some clientId \<Rightarrow>
          if isSchemeShaped clientId then spend_flow f now req claims
          else bind_task (resolveOpaqueRedirect (br_auth (uf_bridge f)) clientId (the (client_param claims ''redirect_uri''))) (\<lambda>r.
            case r of
              Inl e \<Rightarrow>
                if registration_refused e then cookie_invalid (Some clientId) else broken ''internal_error'' (Some clientId)
            | Inr _ \<Rightarrow> spend_flow f now req claims))"

definition assertCallbackCimdPolicy :: "url_parser \<Rightarrow> bridge_config \<Rightarrow> flow_client \<Rightarrow> bool" where
  "assertCallbackCimdPolicy parseUrl config client =
     (case map_of (fl_params client) ''client_id'' of
        None \<Rightarrow> False
      | Some clientId \<Rightarrow>
          clientId \<noteq> []
          \<and> (if isCimdClientId clientId then cfg_cimd config \<noteq> None \<and> fl_cimd client \<noteq> None else fl_cimd client = None)
          \<and> (case fl_cimd client of
               None \<Rightarrow> True
             | Some carried \<Rightarrow>
                 (case map_of (fl_params client) ''redirect_uri'' of
                    None \<Rightarrow> False
                  | Some uri \<Rightarrow> cimdRedirectMatches parseUrl uri carried)))"

definition state_matches :: "norm_request \<Rightarrow> flow_claims \<Rightarrow> bool" where
  "state_matches req claims =
     (case queryString (nq_query req) ''state'' of None \<Rightarrow> False | Some s \<Rightarrow> timingSafeStringEqual s (fl_state claims))"

definition match_state :: "upstream_flow \<Rightarrow> int \<Rightarrow> norm_request \<Rightarrow> flow_claims \<Rightarrow> verdict io" where
  "match_state f now req claims =
     (let clientId = client_param claims ''client_id'' in
      if \<not> state_matches req claims then bad_request ''state mismatch'' ''state_mismatch'' clientId
      else case fl_client claims of
             None \<Rightarrow> recheck_client f now req claims
           | Some client \<Rightarrow>
               if assertCallbackCimdPolicy (az_parseUrl (br_auth (uf_bridge f))) (uf_config f) client
               then recheck_client f now req claims
               else cookie_invalid clientId)"

definition check_redirect :: "upstream_flow \<Rightarrow> int \<Rightarrow> norm_request \<Rightarrow> flow_claims \<Rightarrow> verdict io" where
  "check_redirect f now req claims =
     (case fl_client claims of
        None \<Rightarrow> match_state f now req claims
      | Some client \<Rightarrow>
          (case map_of (fl_params client) ''redirect_uri'' of
             None \<Rightarrow> cookie_invalid None
           | Some uri \<Rightarrow>
               if uri = [] then cookie_invalid None
               else (case assertOAuthRedirectEntry (az_parseUrl (br_auth (uf_bridge f))) (Str uri) of
                       Inl _ \<Rightarrow> cookie_invalid (client_param claims ''client_id'')
                     | Inr _ \<Rightarrow> match_state f now req claims)))"

definition verified_flow :: "upstream_flow \<Rightarrow> string \<Rightarrow> flow_claims outcome" where
  "verified_flow f token =
     verifyFlowToken (az_jose (br_auth (uf_bridge f))) (uf_fraction f) token (uf_secret f) (cfg_issuer (uf_config f))
       (uf_callbackPath f) (uf_complete f)"

definition callback_verdict :: "upstream_flow \<Rightarrow> int \<Rightarrow> norm_request \<Rightarrow> string option \<Rightarrow> verdict io" where
  "callback_verdict f now req cookie =
     (if findRepeatedKeys (Obj (nq_query req)) CALLBACK_DUP_KEYS \<noteq> []
      then bad_request ''duplicate request parameters'' ''duplicate_params'' None
      else case cookie of
        None \<Rightarrow> bad_request ''flow cookie missing'' ''flow_cookie_missing'' None
      | Some token \<Rightarrow>
          (case verified_flow f token of
             Inl _ \<Rightarrow> cookie_invalid None
           | Inr claims \<Rightarrow>
               andThen (readClock 0) (\<lambda>t.
               if exp_ceiling (uf_fraction f) (fl_exp claims) \<le> t
               then bad_request ''flow expired'' ''flow_expired'' (client_param claims ''client_id'')
               else check_redirect f now req claims)))"

definition clear_cookie :: "upstream_flow \<Rightarrow> string option \<Rightarrow> norm_response \<Rightarrow> norm_response" where
  "clear_cookie f cookie res =
     (if cookie = None then res
      else case uf_complete f of
        Bridge_flow \<Rightarrow>
          res\<lparr>np_headers := noStoreHeaders (map_set ''set-cookie'' (clearCookieValue (uf_cookie f)) (np_headers res))\<rparr>
      | Identity_flow \<Rightarrow>
          res\<lparr>np_headers := (if map_of (np_headers res) ''cache-control'' = Some ''no-store'' then np_headers res
                             else noStoreHeaders (np_headers res)),
              np_setCookies := np_setCookies res @ [clearCookieValue (uf_cookie f)]\<rparr>)"

definition callback_event :: "verdict \<Rightarrow> string option \<Rightarrow> int \<Rightarrow> audit_event" where
  "callback_event v ip t =
     \<lparr>ae_event = ''oauth.upstream.callback'', ae_status = vd_status v, ae_occurredAt = toISOString t,
      ae_clientId = vd_clientId v, ae_subject = None, ae_resource = None, ae_scopes = None, ae_redirectHost = None,
      ae_reason = vd_reason v, ae_ip = ip, ae_selectedClientAuthMethod = None\<rparr>"

definition flowCallback :: "upstream_flow \<Rightarrow> norm_request \<Rightarrow> norm_response io" where
  "flowCallback f req =
     bind_task (guard (guard_prefix (uf_complete f)) (nq_ip req) False) (\<lambda>r.
       case r of
         Inl e \<Rightarrow> pass (mapped_error e)
       | Inr _ \<Rightarrow>
           (let cookie = readFlowCookie (nq_headers req) (uf_cookie f) in
            bind_task (readClock 0) (\<lambda>r.
              case r of
                Inl _ \<Rightarrow> pass (clear_cookie f cookie flow_broken)
              | Inr now \<Rightarrow>
                  andThen (catch (callback_verdict f now req cookie) (\<lambda>_. broken ''internal_error'' None)) (\<lambda>v.
                  Audit (callback_event v (nq_ip req) now) (pass (clear_cookie f cookie (vd_response v)))))))"

subsection \<open>Construction\<close>

text \<open>
  \<open>createUpstreamRedirectFlow\<close>: what a host passes, with \<open>Undefined\<close> for what it leaves out; the callback
  of a host is a function or not one.
\<close>

record flow_deps =
  fd_bridge :: bridge
  fd_redirectUri :: string
  fd_resolve :: cimd_resolver
  fd_complete :: jsval
  fd_onIdentity :: "bool option"
  fd_completionTimeoutMs :: "jsval option"
  fd_callbackPath :: "string option"
  fd_flowTtlSeconds :: jsval

definition whole_between :: "int \<Rightarrow> int \<Rightarrow> jsval \<Rightarrow> bool" where
  "whole_between lo hi v = (case v of Number (Whole n) \<Rightarrow> lo \<le> n \<and> n \<le> hi | _ \<Rightarrow> False)"

definition nullish_or :: "jsval \<Rightarrow> jsval \<Rightarrow> jsval" where
  "nullish_or v fallback = (if v = Undefined \<or> v = Null then fallback else v)"

definition flow_complete :: "jsval \<Rightarrow> flow_completion outcome" where
  "flow_complete v =
     (if nullish_or v (Str ''bridge'') = Str ''bridge'' then Inr Bridge_flow
      else if v = Str ''identity'' then Inr Identity_flow
      else Inl (authConfigError (''complete must be '' @ [CHR 0x27] @ ''bridge'' @ [CHR 0x27] @ '' or '' @ [CHR 0x27]
                                 @ ''identity'' @ [CHR 0x27])))"

definition completion_options :: "flow_deps \<Rightarrow> flow_completion \<Rightarrow> unit outcome" where
  "completion_options d complete =
     (case complete of
        Identity_flow \<Rightarrow>
          chain (require (fd_onIdentity d = Some True) (authConfigError ''onIdentity is required for identity completion'')) (\<lambda>_.
          require (whole_between 1000 30000
                     (nullish_or (case fd_completionTimeoutMs d of None \<Rightarrow> Undefined | Some v \<Rightarrow> v) (Number (Whole 10000))))
            (authConfigError ''completionTimeoutMs must be an integer from 1000 through 30000''))
      | Bridge_flow \<Rightarrow>
          require (fd_onIdentity d = None \<and> fd_completionTimeoutMs d = None)
            (authConfigError ''bridge completion does not accept identity completion options''))"

definition default_callback :: "flow_completion \<Rightarrow> string" where
  "default_callback complete = (case complete of Bridge_flow \<Rightarrow> ''/oauth/callback'' | Identity_flow \<Rightarrow> ''/login/callback'')"

definition ttl_of :: "jsval \<Rightarrow> int" where
  "ttl_of v = (case v of Number (Whole n) \<Rightarrow> n | _ \<Rightarrow> 0)"

definition createUpstreamRedirectFlow :: "fraction_reader \<Rightarrow> (num \<Rightarrow> string) \<Rightarrow> flow_deps \<Rightarrow> upstream_flow outcome" where
  "createUpstreamRedirectFlow fraction numText d =
     (let b = fd_bridge d; parse = az_parseUrl (br_auth b); config = br_config b in
      chain (flow_complete (fd_complete d)) (\<lambda>complete.
      chain (completion_options d complete) (\<lambda>_.
      (let callback = (case fd_callbackPath d of None \<Rightarrow> default_callback complete | Some p \<Rightarrow> p);
           ttl = nullish_or (fd_flowTtlSeconds d) (Number (Whole 600)) in
       chain (originOf parse (cfg_issuer config)) (\<lambda>issuerOrigin.
       chain (pathAfterOrigin parse (cfg_resource config)) (\<lambda>resourcePath.
       chain (require (whole_between 1 3600 ttl) (authConfigError ''flowTtlSeconds must be a positive integer <= 3600'')) (\<lambda>_.
       chain (assertCallbackPath parse callback issuerOrigin resourcePath) (\<lambda>_.
       chain (assertFlowFactoryRoutes resourcePath complete callback) (\<lambda>_.
       chain (require (CHR ''?'' \<notin> set (fd_redirectUri d) \<and> CHR ''#'' \<notin> set (fd_redirectUri d))
                (authConfigError ''identity.redirectUri must not contain a query or fragment'')) (\<lambda>_.
       chain (require (fd_redirectUri d = issuerOrigin @ callback)
                (authConfigError (''identity.redirectUri must equal issuerOrigin + callbackPath ('' @ [CHR 0x27]
                   @ issuerOrigin @ callback @ [CHR 0x27] @ '')''))) (\<lambda>_.
       Inr \<lparr>uf_bridge = b, uf_complete = complete, uf_callbackPath = callback, uf_flowTtlSeconds = ttl_of ttl,
            uf_cookie = resolveCookieProfile parse (cfg_issuer config) complete, uf_resolve = fd_resolve d,
            uf_fraction = fraction, uf_numText = numText\<rparr>)))))))))))"

end
