(* ===== verification/Upstream_Laws.thy ===== *)
theory Upstream_Laws
  imports Upstream_Flow Route_Laws
begin

section \<open>Guarantees of the redirect flows\<close>

text \<open>
  The provider's code is exchanged for the browser that started the flow and at most once, however callbacks
  are interleaved; what the provider says about an error is never repeated; a browser leaves for the provider with
  secrets of its own.
\<close>

subsection \<open>Exchanges that are paid for\<close>

text \<open>
  \<open>pays hit allowed Q t s\<close>: an exchange is made only with a credit, for an allowed request, and uses it up;
  \<open>s\<close> says whether there is a credit and a call that hits earns one.
\<close>

primrec pays ::
    "(port_call \<Rightarrow> jsval outcome \<Rightarrow> bool) \<Rightarrow> (jsval \<Rightarrow> bool) \<Rightarrow> ('a \<Rightarrow> bool \<Rightarrow> bool) \<Rightarrow> 'a task \<Rightarrow> bool \<Rightarrow> bool" where
  "pays hit allowed Q (Return x) s = Q x s"
| "pays hit allowed Q (Ask c k) s =
     (case c of
        ExchangeUpstream v \<Rightarrow> s \<and> allowed v \<and> (\<forall>r. pays hit allowed Q (k r) False)
      | _ \<Rightarrow> \<forall>r. pays hit allowed Q (k r) (s \<or> hit c r))"
| "pays hit allowed Q (Now k) s = (\<forall>r. pays hit allowed Q (k r) s)"
| "pays hit allowed Q (Draw k) s = (\<forall>r. pays hit allowed Q (k r) s)"
| "pays hit allowed Q (Audit e t) s = pays hit allowed Q t s"

definition is_exchange :: "port_call \<Rightarrow> jsval outcome \<Rightarrow> bool" where
  "is_exchange c r = (case c of ExchangeUpstream v \<Rightarrow> True | _ \<Rightarrow> False)"

definition no_exchange :: "port_call \<Rightarrow> bool" where
  "no_exchange c = (case c of ExchangeUpstream v \<Rightarrow> False | _ \<Rightarrow> True)"

lemma exchange_simps [simp]:
  "is_exchange (ExchangeUpstream v) r" "\<not> no_exchange (ExchangeUpstream v)"
  "no_exchange (StorePort sc)" "no_exchange (FindClient cid)" "no_exchange (CheckRate key)" "no_exchange (CompleteIdentity v)"
  by (simp_all add: is_exchange_def no_exchange_def)

lemma pays_bind: "pays hit allowed Q (bind_task m f) s = pays hit allowed (\<lambda>x. pays hit allowed Q (f x)) m s"
  by (induction m arbitrary: s) (auto split: port_call.split)

lemma pays_quiet:
  "calls_within no_exchange t \<Longrightarrow> (\<And>x s'. (s \<longrightarrow> s') \<Longrightarrow> Q x s') \<Longrightarrow> pays hit allowed Q t s"
proof (induction t arbitrary: s)
  case (Ask c k)
  then show ?case by (cases c) (auto simp: no_exchange_def)
qed auto

lemma pays_other: "no_exchange c \<Longrightarrow> pays hit allowed Q (Ask c k) s \<longleftrightarrow> (\<forall>r. pays hit allowed Q (k r) (s \<or> hit c r))"
  by (cases c) (auto simp: no_exchange_def)

lemma pays_mono:
  "pays hit allowed (\<lambda>_ _. True) t s \<Longrightarrow> (\<And>c r. hit c r \<Longrightarrow> hit' c r) \<Longrightarrow> (s \<longrightarrow> s') \<Longrightarrow>
     pays hit' allowed (\<lambda>_ _. True) t s'"
proof (induction t arbitrary: s s')
  case (Ask c k)
  have step: "pays hit' allowed (\<lambda>_ _. True) (k r) b'" if "pays hit allowed (\<lambda>_ _. True) (k r) b" "b \<longrightarrow> b'" for r b b'
    using Ask.IH [OF rangeI that(1) Ask.prems(2) that(2)] .
  show ?case
  proof (cases "no_exchange c")
    case True
    show ?thesis unfolding pays_other [OF True]
    proof
      fix r
      have "pays hit allowed (\<lambda>_ _. True) (k r) (s \<or> hit c r)" using Ask.prems(1) unfolding pays_other [OF True] by blast
      then show "pays hit' allowed (\<lambda>_ _. True) (k r) (s' \<or> hit' c r)" by (rule step) (use Ask.prems(2,3) in blast)
    qed
  next
    case False
    then obtain v where "c = ExchangeUpstream v" by (auto simp: no_exchange_def split: port_call.split_asm)
    then show ?thesis using Ask.prems(1,3) step [where b = False and b' = False] by simp
  qed
next
  case (Now k)
  have "pays hit' allowed (\<lambda>_ _. True) (k r) s'" for r using Now.IH [OF rangeI _ Now.prems(2,3), of r] Now.prems(1) by simp
  then show ?case by simp
next
  case (Draw k)
  have "pays hit' allowed (\<lambda>_ _. True) (k r) s'" for r using Draw.IH [OF rangeI _ Draw.prems(2,3), of r] Draw.prems(1) by simp
  then show ?case by simp
next
  case (Audit e t)
  then show ?case using Audit.IH [OF _ Audit.prems(2,3)] by simp
qed simp

lemma pays_perform:
  "pays hit allowed Q t s \<Longrightarrow> perform env t w = (x, tr, au, w') \<Longrightarrow> (ExchangeUpstream v, rep) \<in> set tr \<Longrightarrow>
     allowed v \<and> (s \<or> (\<exists>c r. (c, r) \<in> set tr \<and> hit c r))"
proof (induction t arbitrary: s w x tr au w')
  case (Ask c k)
  obtain q w1 where q: "on_call env c w = (q, w1)" by fastforce
  with Ask.prems(2) obtain tr1 where run: "perform env (k q) w1 = (x, tr1, au, w')" and tr: "tr = (c, q) # tr1"
    by (auto simp: Let_def split: prod.split_asm)
  show ?case
  proof (cases "no_exchange c")
    case True
    with Ask.prems(1) have "pays hit allowed Q (k q) (s \<or> hit c q)" unfolding pays_other [OF True] by blast
    from Ask.IH [OF rangeI this run] Ask.prems(3) True tr show ?thesis by auto
  next
    case False
    then obtain u where c: "c = ExchangeUpstream u" by (auto simp: no_exchange_def split: port_call.split_asm)
    with Ask.prems(1) have p: "s" "allowed u" "pays hit allowed Q (k q) False" by auto
    with Ask.IH [OF rangeI p(3) run] Ask.prems(3) c tr show ?thesis by auto
  qed
next
  case (Now k)
  obtain q w1 where "on_clock env w = (q, w1)" by fastforce
  with Now.prems Now.IH [OF rangeI, of q s w1] show ?case by auto
next
  case (Draw k)
  obtain q w1 where "on_random env w = (q, w1)" by fastforce
  with Draw.prems Draw.IH [OF rangeI, of q s w1] show ?case by auto
next
  case (Audit e t)
  obtain y tr1 au1 w1 where "perform env t w = (y, tr1, au1, w1)" by (metis prod_cases4)
  with Audit.prems Audit.IH [of s w] show ?case by auto
qed simp

text \<open>Under any schedule there are no more exchanges than credits at hand and credits earned.\<close>

definition paying :: "(port_call \<Rightarrow> jsval outcome \<Rightarrow> bool) \<Rightarrow> 'a task \<Rightarrow> bool \<Rightarrow> bool" where
  "paying hit t s = (\<exists>allowed. pays hit allowed (\<lambda>_ _. True) t s)"

lemma advance_paying:
  assumes "paying hit t s" and "advance env t w = (t', tr, w')"
  shows "\<exists>s'. paying hit t' s' \<and> hits is_exchange tr + (if s' then 1 else 0) \<le> hits hit tr + (if s then 1 else 0)"
proof (cases t)
  case (Ask c k)
  obtain allowed where p: "pays hit allowed (\<lambda>_ _. True) t s" using assms(1) by (auto simp: paying_def)
  from assms(2) Ask obtain r where r: "t' = k r" "tr = [(c, r)]" by (auto split: prod.split_asm)
  show ?thesis
  proof (cases "no_exchange c")
    case True
    with p Ask have "pays hit allowed (\<lambda>_ _. True) (k r) (s \<or> hit c r)" unfolding Ask pays_other [OF True] by blast
    moreover have "\<not> is_exchange c r" using True by (cases c) (auto simp: is_exchange_def no_exchange_def)
    ultimately show ?thesis using r by (intro exI [of _ "s \<or> hit c r"]) (auto simp: paying_def hits_def)
  next
    case False
    then obtain u where c: "c = ExchangeUpstream u" by (auto simp: no_exchange_def split: port_call.split_asm)
    with p Ask have "s" "pays hit allowed (\<lambda>_ _. True) (k r) False" by auto
    then show ?thesis using r c by (intro exI [of _ False]) (auto simp: paying_def hits_def)
  qed
next
  case (Now k)
  with assms show ?thesis by (intro exI [of _ s]) (auto simp: paying_def hits_def split: prod.split_asm)
next
  case (Draw k)
  with assms show ?thesis by (intro exI [of _ s]) (auto simp: paying_def hits_def split: prod.split_asm)
qed (use assms in \<open>auto simp: paying_def hits_def\<close>)

definition credits :: "bool list \<Rightarrow> nat" where "credits ss = length (filter (\<lambda>b. b) ss)"

lemma credits_update:
  "i < length ss \<Longrightarrow> credits (ss[i := b]) + (if ss ! i then 1 else 0) = credits ss + (if b then 1 else 0)"
  unfolding credits_def using length_filter_update [of i ss "\<lambda>b. b" b] by simp

lemma interleave_paying:
  "list_all2 (paying hit) ts ss \<Longrightarrow> interleave env picks ts w = (ts', tr, w') \<Longrightarrow>
     hits is_exchange tr \<le> hits hit tr + credits ss"
proof (induction picks arbitrary: ts ss w ts' tr w')
  case (Cons i picks)
  show ?case
  proof (cases "i < length ts")
    case False
    with Cons show ?thesis by simp
  next
    case True
    obtain t tr1 w1 where a: "advance env (ts ! i) w = (t, tr1, w1)" by (metis prod_cases3)
    obtain ts2 tr2 w2 where r: "interleave env picks (ts[i := t]) w1 = (ts2, tr2, w2)" by (metis prod_cases3)
    have tr: "tr = tr1 @ tr2" using Cons.prems True a r by simp
    have len: "i < length ss" using Cons.prems(1) True by (simp add: list_all2_lengthD)
    from advance_paying [OF list_all2_nthD [OF Cons.prems(1) True] a] obtain s'
      where s': "paying hit t s'" "hits is_exchange tr1 + (if s' then 1 else 0) \<le> hits hit tr1 + (if ss ! i then 1 else 0)"
      by blast
    have "hits is_exchange tr2 \<le> hits hit tr2 + credits (ss[i := s'])"
      using Cons.IH [OF list_all2_update_cong [OF Cons.prems(1) s'(1)] r] .
    with s'(2) credits_update [OF len, of s'] show ?thesis unfolding tr hits_append by linarith
  qed
qed (simp add: hits_def)

subsection \<open>The calls of the authorization endpoint\<close>

lemma opaque_quiet: "calls_within no_exchange (resolveOpaqueRedirect svc cid uri)"
  by (auto simp: resolveOpaqueRedirect_def Let_def intro!: within_intros split: option.split)

lemma audit_within [simp]: "calls_within P (emitIdentityVerify st reason sub ip)"
  by (simp add: emitIdentityVerify_def within_andThen)

lemma sign_quiet: "calls_within no_exchange (signConsentToken J bound claims config clock)"
  by (auto simp: signConsentToken_def consentStoreInstanceId_def intro!: within_intros split: sum.split option.split)

lemma prepare_failed_quiet: "calls_within P (prepare_failed svc input cid e)"
  by (simp add: prepare_failed_def within_andThen)

lemma prior_quiet: "calls_within no_exchange (priorGrants config sub cid clock_iso)"
  by (auto simp: priorGrants_def clock_iso_def readGrantedScopeSnapshot_def intro!: within_intros)

lemma resolve_quiet:
  assumes "reg \<noteq> None \<or> \<not> isCimdClientId cid"
  shows "gives no_exchange (\<lambda>r. calls_within no_exchange (rv_emitCimdSuccess r)) (\<lambda>_. True)
    (resolveAuthorizeClient svc cid uri reg ip)"
proof -
  have "gives no_exchange (\<lambda>_. True) (\<lambda>_. True) (resolveOpaqueRedirect svc cid uri)"
    by (simp add: gives_within opaque_quiet)
  then show ?thesis
    using assms
    by (auto simp: resolveAuthorizeClient_def resolved_by_def intro!: gives_rules intro: gives_step split: option.split)
qed

lemma prepare_for_quiet:
  assumes "ai_registration input \<noteq> None \<or> \<not> isCimdClientId cid"
  shows "calls_within no_exchange (prepare_for svc input sub ceiling cid)"
proof -
  have seal: "calls_within no_exchange (seal_request svc input sub cid r ceiling)" for r
    by (auto simp: seal_request_def readStoreInstanceId_def Let_def sign_quiet intro!: within_intros)
  have "gives no_exchange (\<lambda>_. True) (\<lambda>_. True)
      (andThen (resolveAuthorizeClient svc cid uri (ai_registration input) (ai_ip input)) (\<lambda>resolved.
       andThen (rv_emitCimdSuccess resolved) (\<lambda>_.
       andThen (catch (seal_request svc input sub cid resolved ceiling)
                (\<lambda>e. fail (tag_redirect (rv_redirectUri resolved) (ai_state input) e))) (\<lambda>(claims, token).
       andThen (priorGrants (az_config svc) sub cid clock_iso) (\<lambda>prior.
       andThen (readClock 0) (\<lambda>t.
       Audit (authorize_success svc AUDIT_PREPARE t claims (cc_scopes claims))
         (pass (prepared svc claims token prior (rv_registration resolved)))))))))" for uri
    by (rule gives_andThen [OF resolve_quiet [OF assms]])
      (auto simp: gives_within seal prior_quiet intro!: within_intros split: prod.split)
  then show ?thesis unfolding prepare_for_def gives_within by (rule within_andThen [OF within_basic(3)])
qed

lemma prepare_quiet:
  assumes "\<And>cid. ai_clientId input = Some cid \<Longrightarrow> ai_registration input \<noteq> None \<or> \<not> isCimdClientId cid"
  shows "calls_within no_exchange (prepare svc input)"
proof -
  let ?read = "chain (check_subject (ai_subject input)) (\<lambda>sub.
                           chain (assertAllowedScopesCeiling (ai_allowedScopes input)) (\<lambda>ceiling.
                           chain (requiredStr (ai_clientId input) ''client_id'') (\<lambda>clientId.
                           Inr (sub, ceiling, clientId))))"
  have "gives no_exchange (\<lambda>(sub, ceiling, cid). ai_clientId input = Some cid) (\<lambda>_. True)
      (catch (lift ?read) (prepare_failed svc input None))"
  proof (rule gives_catch [where E = "\<lambda>_. True"])
    show "gives no_exchange (\<lambda>(sub, ceiling, cid). ai_clientId input = Some cid) (\<lambda>_. True) (lift ?read)"
      by (auto simp: gives_lift result_simps requiredStr_def split: option.split_asm if_split_asm list.split_asm)
    show "gives no_exchange (\<lambda>(sub, ceiling, cid). ai_clientId input = Some cid) (\<lambda>_. True) (prepare_failed svc input None e)" for e
      by (auto simp: prepare_failed_def gives_readClock intro!: gives_rules)
  qed
  then have "gives no_exchange (\<lambda>_. True) (\<lambda>_. True) (prepare svc input)"
    unfolding prepare_def
    by (rule gives_andThen)
      (auto simp: gives_within prepare_failed_quiet intro!: within_catch prepare_for_quiet assms)
  then show ?thesis by (simp add: gives_within)
qed

lemma authorize_quiet:
  assumes "gi_registration who \<noteq> None
      \<or> (\<forall>cid. queryString (nq_query req) ''client_id'' = Some cid \<longrightarrow> \<not> isCimdClientId cid)"
  shows "calls_within no_exchange (handleAuthorize b req who)"
proof -
  have "calls_within no_exchange (prepare (br_auth b) (authorize_input_of req who))"
    by (rule prepare_quiet) (use assms in \<open>auto simp: authorize_input_of_def Let_def\<close>)
  then show ?thesis
    by (auto simp: handleAuthorize_def answered_def error_answer_def intro!: within_intros)
qed

subsection \<open>The callback\<close>

text \<open>What an exchange of a callback is for, and the reply of the store that pays for it.\<close>

definition flow_of :: "upstream_flow \<Rightarrow> norm_request \<Rightarrow> flow_claims \<Rightarrow> bool" where
  "flow_of f req claims =
     (\<exists>token. readFlowCookie (nq_headers req) (uf_cookie f) = Some token \<and> verified_flow f token = Inr claims)"

definition client_admitted :: "upstream_flow \<Rightarrow> flow_claims \<Rightarrow> bool" where
  "client_admitted f claims =
     (\<forall>client. fl_client claims = Some client \<longrightarrow>
        assertCallbackCimdPolicy (az_parseUrl (br_auth (uf_bridge f))) (uf_config f) client)"

definition flow_exchange :: "upstream_flow \<Rightarrow> norm_request \<Rightarrow> jsval \<Rightarrow> bool" where
  "flow_exchange f req v =
     (\<exists>claims c. flow_of f req claims \<and> state_matches req claims \<and> client_admitted f claims
        \<and> queryString (nq_query req) ''error'' = None \<and> queryString (nq_query req) ''code'' = Some c
        \<and> v = exchange_request claims c)"

definition flow_spend :: "upstream_flow \<Rightarrow> norm_request \<Rightarrow> port_call \<Rightarrow> jsval outcome \<Rightarrow> bool" where
  "flow_spend f req c r =
     (\<exists>claims x. flow_of f req claims \<and> expiry_iso (uf_fraction f) (fl_exp claims) = Inr x
        \<and> c = StorePort (Consume_jti (fl_jti claims) x) \<and> r = Inr (Boolean True))"

lemma map_of_present:
  "map_of (map (\<lambda>key. (key, the (g key))) (filter (\<lambda>key. g key \<noteq> None) ks)) key = (if key \<in> set ks then g key else None)"
  by (induction ks) auto

lemma picked_client_id: "map_of (pickOAuthParams params) ''client_id'' = map_of params ''client_id''"
  unfolding pickOAuthParams_def map_of_present by (simp add: OAUTH_PARAM_KEYS_def)

lemma own_strings: "own (map (\<lambda>(k, v). (k, Str v)) kvs) key = (case map_of kvs key of None \<Rightarrow> Undefined | Some v \<Rightarrow> Str v)"
  by (induction kvs) (auto simp: own_def split: option.split)

lemma admitted_quiet:
  assumes "fl_client claims = Some client" and "client_admitted f claims"
  shows "calls_within no_exchange (handleAuthorize (uf_bridge f)
          \<lparr>nq_query = map (\<lambda>(k, v). (k, Str v)) (pickOAuthParams (fl_params client)), nq_body = Undefined,
           nq_formBody = None, nq_headers = hs, nq_ip = ip\<rparr>
          \<lparr>gi_subject = sub, gi_allowedScopes = allowed, gi_registration = fl_cimd client\<rparr>)"
proof (rule authorize_quiet)
  from assms have "assertCallbackCimdPolicy (az_parseUrl (br_auth (uf_bridge f))) (uf_config f) client"
    by (simp add: client_admitted_def)
  then obtain cid where "map_of (fl_params client) ''client_id'' = Some cid" "isCimdClientId cid \<longrightarrow> fl_cimd client \<noteq> None"
    by (auto simp: assertCallbackCimdPolicy_def split: option.split_asm if_split_asm)
  then show "gi_registration \<lparr>gi_subject = sub, gi_allowedScopes = allowed, gi_registration = fl_cimd client\<rparr> \<noteq> None \<or>
     (\<forall>c. queryString (nq_query \<lparr>nq_query = map (\<lambda>(k, v). (k, Str v)) (pickOAuthParams (fl_params client)), nq_body = Undefined,
           nq_formBody = None, nq_headers = hs, nq_ip = ip\<rparr>) ''client_id'' = Some c \<longrightarrow> \<not> isCimdClientId c)"
    by (auto simp: queryString_def own_strings picked_client_id nonempty_string_def str_of_def)
qed

lemma verdict_quiet [simp]:
  "calls_within P (failed res reason cid)" "calls_within P (bad_request m reason cid)" "calls_within P (cookie_invalid cid)"
  "calls_within P (broken reason cid)"
  by (simp_all add: failed_def bad_request_def cookie_invalid_def broken_def)

lemma error_quiet [simp]:
  "calls_within P (provider_error f claims reason)" "calls_within P (denied_error f claims d reason)"
  by (simp_all add: provider_error_def denied_error_def within_andThen)

lemma exchanged_quiet:
  assumes "client_admitted f claims"
  shows "calls_within no_exchange (exchanged f now req claims result)"
proof (cases result)
  case (Exchanged sub allowed)
  then show ?thesis
    using admitted_quiet [OF _ assms]
    by (auto simp: exchanged_def emit_decision_def bridge_completion_def Let_def pass_def intro!: within_bind
        split: option.split sum.split)
next
  case (ExchangedClaims identity)
  then show ?thesis
    by (auto simp: exchanged_def emit_decision_def host_completion_def completeIdentity_def split: sum.split)
qed (auto simp: exchanged_def emit_decision_def Let_def)

abbreviation callback_pays :: "upstream_flow \<Rightarrow> norm_request \<Rightarrow> 'a task \<Rightarrow> bool \<Rightarrow> bool" where
  "callback_pays f req \<equiv> pays (flow_spend f req) (flow_exchange f req) (\<lambda>_ _. True)"

lemma quiet_pays: "calls_within no_exchange t \<Longrightarrow> callback_pays f req t s"
  by (rule pays_quiet) simp_all

lemma pays_then:
  assumes "callback_pays f req m s" and "\<And>x s'. callback_pays f req (g x) s'"
  shows "callback_pays f req (bind_task m g) s"
proof -
  have "(\<lambda>x. callback_pays f req (g x)) = (\<lambda>_ _. True)" using assms(2) by (intro ext) simp
  with assms(1) show ?thesis by (simp add: pays_bind)
qed

lemma exchange_code_pays:
  assumes "flow_of f req claims" and "state_matches req claims" and "client_admitted f claims"
    and "queryString (nq_query req) ''error'' = None" and "queryString (nq_query req) ''code'' = Some c"
  shows "callback_pays f req (exchange_code f now req claims c) True"
proof -
  have "flow_exchange f req (exchange_request claims c)" using assms by (auto simp: flow_exchange_def)
  moreover have "callback_pays f req (case r of Inl e \<Rightarrow> provider_error f claims ''exchange_failed''
      | Inr result \<Rightarrow> exchanged f now req claims result) s" for r :: "exchange_result outcome" and s
    by (rule quiet_pays) (auto simp: exchanged_quiet [OF assms(3)] split: sum.split)
  ultimately show ?thesis
    by (simp add: exchange_code_def exchangeUpstreamIdentity_def askPort_def)
qed

lemma first_use_pays:
  assumes "flow_of f req claims" and "state_matches req claims" and "client_admitted f claims"
  shows "callback_pays f req (first_use f now req claims) True"
  using exchange_code_pays [OF assms]
  by (auto simp: first_use_def quiet_pays split: option.split)

lemma spend_flow_pays:
  assumes "flow_of f req claims" and "state_matches req claims" and "client_admitted f claims"
  shows "callback_pays f req (spend_flow f now req claims) False"
proof (cases "expiry_iso (uf_fraction f) (fl_exp claims)")
  case (Inl e)
  then show ?thesis by (simp add: spend_flow_def lift_def quiet_pays)
next
  case (Inr x)
  have spend: "flow_spend f req (StorePort (Consume_jti (fl_jti claims) x)) (Inr (Boolean True))"
    using assms(1) Inr by (auto simp: flow_spend_def)
  have "callback_pays f req (case callPort ''StorePort'' ''consumeConsentJti'' (chain r snapshotBoolean) of
      Inl _ \<Rightarrow> broken ''internal_error'' (client_param claims ''client_id'')
    | Inr firstUse \<Rightarrow> if firstUse then first_use f now req claims
        else bad_request ''flow already used'' ''flow_replayed'' (client_param claims ''client_id''))
    (flow_spend f req (StorePort (Consume_jti (fl_jti claims) x)) r)" for r
  proof (cases "callPort ''StorePort'' ''consumeConsentJti'' (chain r snapshotBoolean) = Inr True")
    case True
    then have "r = Inr (Boolean True)" by (cases r) (auto simp: callPort_Inr snapshotBoolean_def split: jsval.splits)
    with True spend first_use_pays [OF assms] show ?thesis by simp
  next
    case False
    then show ?thesis by (intro quiet_pays) (auto split: sum.split)
  qed
  then show ?thesis using Inr by (simp add: spend_flow_def lift_def consumeConsentJtiSnapshot_def askPort_def)
qed

lemma recheck_pays:
  assumes "flow_of f req claims" and "state_matches req claims" and "client_admitted f claims"
  shows "callback_pays f req (recheck_client f now req claims) False"
proof -
  have "callback_pays f req (bind_task (resolveOpaqueRedirect svc cid uri) (\<lambda>r. case r of
       Inl e \<Rightarrow> if registration_refused e then cookie_invalid (Some cid) else broken ''internal_error'' (Some cid)
     | Inr _ \<Rightarrow> spend_flow f now req claims)) False" for svc cid uri
    unfolding pays_bind
  proof (rule pays_quiet [OF opaque_quiet])
    fix r :: "string outcome" and s' :: bool
    have "callback_pays f req (spend_flow f now req claims) s'"
      using pays_mono [OF spend_flow_pays [OF assms], of "flow_spend f req" s'] by simp
    then show "callback_pays f req (case r of
       Inl e \<Rightarrow> if registration_refused e then cookie_invalid (Some cid) else broken ''internal_error'' (Some cid)
     | Inr _ \<Rightarrow> spend_flow f now req claims) s'"
      by (auto simp: quiet_pays split: sum.split)
  qed
  then show ?thesis using spend_flow_pays [OF assms] by (auto simp: recheck_client_def split: option.split)
qed

lemma match_state_pays:
  assumes "flow_of f req claims"
  shows "callback_pays f req (match_state f now req claims) False"
proof (cases "state_matches req claims \<and> client_admitted f claims")
  case True
  with recheck_pays [OF assms] show ?thesis
    by (auto simp: match_state_def Let_def client_admitted_def quiet_pays split: option.split)
next
  case False
  then show ?thesis
    by (intro quiet_pays) (auto simp: match_state_def Let_def client_admitted_def split: option.split)
qed

lemma callback_pays_for_exchange: "callback_pays f req (flowCallback f req) False"
proof -
  have verdict: "callback_pays f req (callback_verdict f now req (readFlowCookie (nq_headers req) (uf_cookie f))) False" for now
  proof (cases "readFlowCookie (nq_headers req) (uf_cookie f)")
    case (Some token)
    show ?thesis
    proof (cases "verified_flow f token")
      case (Inr claims)
      with Some have "flow_of f req claims" by (simp add: flow_of_def)
      from match_state_pays [OF this] have "callback_pays f req (check_redirect f now req claims) False"
        by (auto simp: check_redirect_def quiet_pays split: option.split sum.split)
      with Some Inr show ?thesis
        by (auto simp: callback_verdict_def andThen_def pays_bind readClock_def quiet_pays split: sum.split)
    qed (use Some in \<open>auto simp: callback_verdict_def quiet_pays\<close>)
  qed (auto simp: callback_verdict_def quiet_pays)
  have spend: "\<not> flow_spend f req (CheckRate key) r" for key r by (simp add: flow_spend_def)
  have rescued: "callback_pays f req (catch m (\<lambda>_. broken ''internal_error'' None)) s" if "callback_pays f req m s" for m s
  proof -
    have "callback_pays f req (case r of Inl e \<Rightarrow> broken ''internal_error'' None | Inr x \<Rightarrow> Return (Inr x)) s'" for r s'
      by (auto simp: quiet_pays split: sum.split)
    from pays_then [OF that this] show ?thesis by (simp add: catch_def)
  qed
  have ended: "callback_pays f req (andThen m (\<lambda>v. Audit (callback_event v ip now) (pass (g v)))) s" if "callback_pays f req m s"
    for m s ip now and g :: "verdict \<Rightarrow> norm_response"
  proof -
    have "callback_pays f req (case r of Inl e \<Rightarrow> Return (Inl e) | Inr v \<Rightarrow> Audit (callback_event v ip now) (pass (g v))) s'" for r s'
      by (auto simp: pass_def split: sum.split)
    from pays_then [OF that this] show ?thesis by (simp add: andThen_def)
  qed
  show ?thesis
    by (auto simp: flowCallback_def guard_def check_def readClock_def spend pass_def fail_def Let_def pays_bind
        ended [unfolded pass_def, OF rescued [OF verdict]] split: sum.split)
qed

text \<open>
  C12. The code a provider hands to the browser is exchanged only for the flow that browser carries: with the flow's own
  PKCE verifier and nonce, when the \<open>state\<close> of the callback is the one in the signed cookie, no error was
  returned, the client is still admitted, and the store has just said that the flow was not used before.
\<close>

theorem exchange_bound_to_flow:
  assumes "perform env (flowCallback f req) w = (r, tr, au, w')" and "(ExchangeUpstream v, rep) \<in> set tr"
  shows "flow_exchange f req v \<and> (\<exists>c ok. (c, ok) \<in> set tr \<and> flow_spend f req c ok)"
  using pays_perform [OF callback_pays_for_exchange assms] by simp

text \<open>
  C13. A flow is exchanged at most once: whatever callbacks with its cookie, at whatever flows and with whatever
  queries, are interleaved port call by port call over one store, and however the ports and the clock answer.
\<close>

theorem flow_exchanged_once:
  assumes "\<And>f req claims x. (f, req) \<in> set calls \<Longrightarrow> flow_of f req claims \<Longrightarrow>
      expiry_iso (uf_fraction f) (fl_exp claims) = Inr x \<Longrightarrow> (fl_jti claims, x) = key"
    and "interleave (memory_env other) picks (map (\<lambda>(f, req). flowCallback f req) calls) w = (ts, tr, w')"
  shows "hits is_exchange tr \<le> unspent key (w_store w)"
proof -
  have "paying (spends_consent key) (flowCallback f req) False" if "(f, req) \<in> set calls" for f req
  proof -
    have hit: "spends_consent key c r" if "flow_spend f req c r" for c r
      using that assms(1) [OF \<open>(f, req) \<in> set calls\<close>] by (auto simp: flow_spend_def)
    note mono = pays_mono [where hit' = "spends_consent key" and s' = False, OF callback_pays_for_exchange [of f req]]
    have "pays (spends_consent key) (flow_exchange f req) (\<lambda>_ _. True) (flowCallback f req) False"
      by (intro mono) (simp_all add: hit)
    then show ?thesis by (auto simp: paying_def)
  qed
  then have "list_all2 (paying (spends_consent key)) (map (\<lambda>(f, req). flowCallback f req) calls) (replicate (length calls) False)"
    by (auto simp: list_all2_conv_all_nth split: prod.split) (metis nth_mem)
  from interleave_paying [OF this assms(2)] have "hits is_exchange tr \<le> hits (spends_consent key) tr"
    by (simp add: credits_def)
  also have "\<dots> \<le> unspent key (w_store w)"
    using consent_store.interleave_pays [OF _ assms(2), of key] by (simp add: list_all_iff)
  finally show ?thesis .
qed

subsection \<open>What a callback answers\<close>

text \<open>
  C17. What the provider writes into an error is never repeated: two callbacks that differ only in the text and the kind of
  an error the provider reported, both a denial or both not, are the same program, so nothing a client, the
  audit or a port can see depends on it.
\<close>

theorem provider_text_not_repeated:
  assumes "nq_headers req' = nq_headers req" and "nq_ip req' = nq_ip req"
    and "findRepeatedKeys (Obj (nq_query req')) CALLBACK_DUP_KEYS = findRepeatedKeys (Obj (nq_query req)) CALLBACK_DUP_KEYS"
    and "queryString (nq_query req') ''state'' = queryString (nq_query req) ''state''"
    and "queryString (nq_query req) ''error'' = Some e" and "queryString (nq_query req') ''error'' = Some e'"
    and "e \<in> set DENIED_ERRORS \<longleftrightarrow> e' \<in> set DENIED_ERRORS"
  shows "flowCallback f req' = flowCallback f req"
proof -
  have "first_use f now req' claims = first_use f now req claims" for now claims
    using assms(5-7) by (simp add: first_use_def)
  then have "spend_flow f now req' claims = spend_flow f now req claims" for now claims
    by (simp add: spend_flow_def cong: if_cong option.case_cong sum.case_cong)
  then have "recheck_client f now req' claims = recheck_client f now req claims" for now claims
    by (simp add: recheck_client_def cong: if_cong option.case_cong sum.case_cong)
  moreover have "state_matches req' claims = state_matches req claims" for claims
    using assms(4) by (simp add: state_matches_def)
  ultimately have "match_state f now req' claims = match_state f now req claims" for now claims
    by (simp add: match_state_def cong: if_cong option.case_cong sum.case_cong)
  then have "check_redirect f now req' claims = check_redirect f now req claims" for now claims
    by (simp add: check_redirect_def cong: if_cong option.case_cong sum.case_cong)
  then have "callback_verdict f now req' cookie = callback_verdict f now req cookie" for now cookie
    using assms(3) by (simp add: callback_verdict_def cong: if_cong option.case_cong sum.case_cong)
  then show ?thesis using assms(1,2) by (simp add: flowCallback_def cong: if_cong option.case_cong sum.case_cong)
qed

subsection \<open>Leaving for the provider\<close>

definition authorization_request :: "flow_secrets \<Rightarrow> jsval" where
  "authorization_request x =
     Obj [(''state'', Str (fx_state x)), (''nonce'', Str (fx_nonce x)),
          (''codeChallenge'', Str (pkceChallenge (fx_codeVerifier x))), (''codeChallengeMethod'', Str ''S256'')]"

text \<open>
  The four secrets are four draws of the random source, one after the other: from the state \<open>start\<close> of the
  environment each draw answers 32 bytes and leaves the state the next one starts from.
\<close>

definition fresh_secrets :: "'w env \<Rightarrow> 'w \<Rightarrow> flow_secrets \<Rightarrow> bool" where
  "fresh_secrets source start x \<longleftrightarrow>
     (\<exists>b1 b2 b3 b4 w1 w2 w3 w4.
        on_random source start = (RandomBytes b1, w1) \<and> on_random source w1 = (RandomBytes b2, w2)
        \<and> on_random source w2 = (RandomBytes b3, w3) \<and> on_random source w3 = (RandomBytes b4, w4)
        \<and> length b1 = 32 \<and> length b2 = 32 \<and> length b3 = 32 \<and> length b4 = 32
        \<and> fx_state x = base64url b1 \<and> fx_nonce x = base64url b2 \<and> fx_codeVerifier x = base64url b3
        \<and> fx_jti x = ''upf_'' @ base64url b4)"

lemma guard_world:
  "perform env (guard p ip b) w = (r, tr, au, w') \<Longrightarrow> w' = snd (on_call env (CheckRate (guard_key p ip)) w)"
  by (auto simp: guard_def check_def pass_def fail_def split: prod.split_asm sum.split_asm if_split_asm)

lemma random_token:
  "perform env randomFlowToken w = (Inr s, tr, au, w') \<longleftrightarrow>
     (\<exists>b. on_random env w = (RandomBytes b, w') \<and> length b = 32 \<and> s = base64url b) \<and> tr = [] \<and> au = []"
  by (auto simp: randomFlowToken_def result_simps randomBytesFrom_Inr split: prod.splits)

lemma drawn_secrets:
  assumes "perform env draw_secrets w = (Inr x, tr, au, w')"
  shows "fresh_secrets env w x"
  using assms unfolding draw_secrets_def
  by (elim perform_andThen_Inr) (auto simp: random_token fresh_secrets_def)

definition sealed :: "upstream_flow \<Rightarrow> norm_request \<Rightarrow> flow_secrets \<Rightarrow> string \<Rightarrow> bool" where
  "sealed f req x token \<longleftrightarrow>
     (\<exists>client r. signFlowToken (az_jose (br_auth (uf_bridge f))) (sealed_request f x client) r = Inr token
        \<and> (case uf_complete f of
             Identity_flow \<Rightarrow> client = None
           | Bridge_flow \<Rightarrow> \<exists>reg. client = Some \<lparr>fl_params = flowOAuthParams req, fl_cimd = reg\<rparr>))
     \<and> length (setCookieValue (uf_cookie f) token (uf_flowTtlSeconds f)) \<le> 4096"

definition sent_away :: "'w env \<Rightarrow> 'w \<Rightarrow> upstream_flow \<Rightarrow> norm_request \<Rightarrow> trace \<Rightarrow> norm_response \<Rightarrow> bool" where
  "sent_away source start f req tr res \<longleftrightarrow>
     (\<exists>x token location. fresh_secrets source start x \<and> sealed f req x token
        \<and> (BuildAuthorizationUrl (authorization_request x), Inr (Str location)) \<in> set tr
        \<and> res = redirectToIdentity location (uf_cookie f) token (uf_flowTtlSeconds f))"

lemma leaving:
  assumes "perform env (leave_for_identity f x token) w = (Inr res, tr, au, w')"
    and "fresh_secrets source start x" and "sealed f req x token"
  shows "sent_away source start f req tr res"
proof -
  from assms(1) obtain v location where "url_reply v = Inr location"
    "(BuildAuthorizationUrl (authorization_request x), Inr v) \<in> set tr"
    "res = redirectToIdentity location (uf_cookie f) token (uf_flowTtlSeconds f)"
    by (auto simp: leave_for_identity_def buildLocation_def buildUpstreamAuthorizationUrl_def authorization_request_def
        perform_askPort_Inr elim!: perform_andThen_Inr)
  moreover from this(1) have "v = Str location" by (auto simp: url_reply_def split: jsval.split_asm if_split_asm)
  ultimately show ?thesis using assms(2,3) unfolding sent_away_def by blast
qed

lemma within_limit: "\<not> oversized f token \<Longrightarrow> length (setCookieValue (uf_cookie f) token (uf_flowTtlSeconds f)) \<le> 4096"
  by (simp add: oversized_def flowCookieOversized_def MAX_FLOW_COOKIE_BYTES_def)

lemma sent_later: "sent_away source start f req tr res \<Longrightarrow> set tr \<subseteq> set tr' \<Longrightarrow> sent_away source start f req tr' res"
  unfolding sent_away_def by blast

lemma sealing: "perform env (seal_flow f x client) w = (Inr token, tr, au, w') \<longleftrightarrow>
    (\<exists>r. on_clock env w = (r, w') \<and> signFlowToken (az_jose (br_auth (uf_bridge f))) (sealed_request f x client) r = Inr token)
    \<and> tr = [] \<and> au = []"
  by (auto simp: seal_flow_def split: prod.split)

lemma identity_leaves:
  assumes "perform env (initiate_for_identity f x) w = (Inr res, tr, au, w')" and "np_redirect res \<noteq> None"
    and "fresh_secrets source start x" and "uf_complete f = Identity_flow"
  shows "sent_away source start f req tr res"
  using assms(1) unfolding initiate_for_identity_def
proof (rule perform_andThen_Inr)
  fix token tr1 au1 w1 tr2 au2
  assume seal: "perform env (seal_flow f x None) w = (Inr token, tr1, au1, w1)" and tr: "tr = tr1 @ tr2"
    and rest: "perform env (if oversized f token then pass too_large else leave_for_identity f x token) w1 = (Inr res, tr2, au2, w')"
  have small: "\<not> oversized f token"
    using rest assms(2) by (auto simp: too_large_def directErrorResponse_def respond_def)
  have "sealed f req x token" using seal within_limit [OF small] assms(4) by (auto simp: sealed_def sealing)
  with rest small assms(3) have "sent_away source start f req tr2 res" by (auto intro: leaving)
  then show ?thesis by (rule sent_later) (simp add: tr)
qed

lemma bridge_leaves:
  assumes "perform env (initiate_for_bridge f req x) w = (Inr res, tr, au, w')" and "np_redirect res \<noteq> None"
    and "fresh_secrets source start x" and "uf_complete f = Bridge_flow"
  shows "sent_away source start f req tr res"
proof -
  have direct: "np_redirect (directErrorResponse c m st) = None" for c m st by (simp add: directErrorResponse_def respond_def)
  from assms(1,2) obtain cid uri where run: "perform env (andThen (resolveUpstreamAuthorizeClient f cid uri (nq_ip req)) (\<lambda>resolved.
       andThen (seal_flow f x (Some \<lparr>fl_params = flowOAuthParams req, fl_cimd = fst resolved\<rparr>)) (\<lambda>token.
       if oversized f token then (if fst resolved \<noteq> None then oversize_rejected cid (nq_ip req) else pass too_large)
       else andThen (snd resolved) (\<lambda>_. leave_for_identity f x token)))) w = (Inr res, tr, au, w')"
    by (auto simp: initiate_for_bridge_def direct split: if_split_asm option.split_asm)
  then show ?thesis
  proof (rule perform_andThen_Inr)
    fix resolved tr1 au1 w1 tr2 au2
    assume sealing_run: "perform env (andThen (seal_flow f x (Some \<lparr>fl_params = flowOAuthParams req, fl_cimd = fst resolved\<rparr>)) (\<lambda>token.
       if oversized f token then (if fst resolved \<noteq> None then oversize_rejected cid (nq_ip req) else pass too_large)
       else andThen (snd resolved) (\<lambda>_. leave_for_identity f x token))) w1 = (Inr res, tr2, au2, w')" and tr: "tr = tr1 @ tr2"
    from sealing_run obtain token w2 tr3 au3 where seal: "perform env (seal_flow f x (Some \<lparr>fl_params = flowOAuthParams req, fl_cimd = fst resolved\<rparr>)) w1 = (Inr token, [], [], w2)"
      and rest: "perform env (if oversized f token then (if fst resolved \<noteq> None then oversize_rejected cid (nq_ip req) else pass too_large)
         else andThen (snd resolved) (\<lambda>_. leave_for_identity f x token)) w2 = (Inr res, tr3, au3, w')" and tr3: "tr2 = tr3"
      by (auto simp: sealing elim!: perform_andThen_Inr)
    have rejected: "perform env (oversize_rejected cid ip) w2 \<noteq> (Inr res, tr3, au3, w')" for ip
      by (auto simp: oversize_rejected_def rejectAfterResolve_def Let_def split: prod.splits sum.splits)
    have small: "\<not> oversized f token"
      using rest assms(2) rejected by (auto simp: too_large_def direct split: if_split_asm)
    with rest obtain w3 tr4 tr5 au5 where leave: "perform env (leave_for_identity f x token) w3 = (Inr res, tr5, au5, w')"
      and tr4: "tr3 = tr4 @ tr5"
      by (auto elim!: perform_andThen_Inr)
    have "sealed f req x token" using seal within_limit [OF small] assms(4) by (auto simp: sealed_def sealing)
    from leaving [OF leave assms(3) this] show ?thesis by (rule sent_later) (auto simp: tr tr3 tr4)
  qed
qed


end
