(* ===== verification/Upstream_Callback.thy ===== *)
theory Upstream_Callback
  imports Upstream_Laws
begin

section \<open>Every callback is answered and audited once\<close>

text \<open>
  What a task may write to the audit, and with it that the callback of a flow writes exactly one event of its own,
  after everything else it writes, and answers with its cookie cleared.
\<close>

subsection \<open>What a task writes\<close>

text \<open>Every event a task writes satisfies \<open>P\<close>, and every result it can return satisfies \<open>Q\<close>.\<close>

primrec writes :: "(audit_event \<Rightarrow> bool) \<Rightarrow> ('a \<Rightarrow> bool) \<Rightarrow> 'a task \<Rightarrow> bool" where
  "writes P Q (Return x) = Q x"
| "writes P Q (Ask c k) = (\<forall>r. writes P Q (k r))"
| "writes P Q (Now k) = (\<forall>r. writes P Q (k r))"
| "writes P Q (Draw k) = (\<forall>r. writes P Q (k r))"
| "writes P Q (Audit e t) = (P e \<and> writes P Q t)"

abbreviation audits :: "(audit_event \<Rightarrow> bool) \<Rightarrow> 'a task \<Rightarrow> bool" where
  "audits P \<equiv> writes P (\<lambda>_. True)"

named_theorems audits_rules \<open>what composed tasks write\<close>

lemma writes_bind: "writes P Q m \<Longrightarrow> (\<And>x. Q x \<Longrightarrow> writes P R (f x)) \<Longrightarrow> writes P R (bind_task m f)"
  by (induction m) auto

lemma audits_bind [audits_rules]: "audits P m \<Longrightarrow> (\<And>x. audits P (f x)) \<Longrightarrow> audits P (bind_task m f)"
  by (rule writes_bind)

lemma audits_andThen [audits_rules]: "audits P m \<Longrightarrow> (\<And>x. audits P (f x)) \<Longrightarrow> audits P (andThen m f)"
  unfolding andThen_def by (rule writes_bind) (auto split: sum.split)

lemma audits_catch [audits_rules]: "audits P m \<Longrightarrow> (\<And>e. audits P (h e)) \<Longrightarrow> audits P (catch m h)"
  unfolding catch_def by (rule writes_bind) (auto split: sum.split)

lemma audits_after:
  assumes "writes P (\<lambda>r. \<forall>x. r = Inr x \<longrightarrow> Q x) m" and "\<And>x. Q x \<Longrightarrow> audits P (f x)"
  shows "audits P (andThen m f)"
  unfolding andThen_def by (rule writes_bind [OF assms(1)]) (auto intro: assms(2) split: sum.split)

lemma writes_basic [simp]:
  "writes P Q (pass x) \<longleftrightarrow> Q (Inr x)" "writes P Q (fail e) \<longleftrightarrow> Q (Inl e)" "writes P Q (lift m) \<longleftrightarrow> Q m"
  by (simp_all add: pass_def fail_def lift_def)

lemma audits_basic [simp]:
  "audits P (askPort p op c read)" "audits P (check b e)" "audits P (readClock off)"
  by (simp_all add: askPort_def check_def readClock_def)

lemma writes_andThen:
  assumes "audits P m" and "\<And>x. writes P (\<lambda>r. \<forall>y. r = Inr y \<longrightarrow> Q y) (f x)"
  shows "writes P (\<lambda>r. \<forall>y. r = Inr y \<longrightarrow> Q y) (andThen m f)"
  unfolding andThen_def by (rule writes_bind [OF assms(1)]) (auto simp: assms(2) split: sum.split)

lemma writes_catch:
  assumes "writes P Q m" and "\<And>e. writes P Q (h e)"
  shows "writes P Q (catch m h)"
  unfolding catch_def by (rule writes_bind [OF assms(1)]) (auto simp: assms(2) split: sum.split)

lemma writes_perform:
  "writes P Q t \<Longrightarrow> perform env t w = (x, tr, au, w') \<Longrightarrow> (\<forall>e \<in> set au. P e) \<and> Q x"
  by (induction t arbitrary: w x tr au w') (fastforce split: prod.split_asm)+

subsection \<open>The callback writes its event once\<close>

definition elsewhere :: "audit_event \<Rightarrow> bool" where
  "elsewhere e \<longleftrightarrow> ae_event e \<noteq> ''oauth.upstream.callback''"

lemma client_lookup_audits [simp]: "audits P (resolveOpaqueRedirect svc cid uri)"
  by (auto simp: resolveOpaqueRedirect_def Let_def intro!: audits_rules split: option.split)

text \<open>
  The consent page of a flow whose client was resolved when the flow began: the resolver, which is the host's, is
  not called again.
\<close>

lemma resolved_writes:
  assumes "reg \<noteq> None \<or> \<not> isCimdClientId cid"
  shows "writes P (\<lambda>r. \<forall>x. r = Inr x \<longrightarrow> audits P (rv_emitCimdSuccess x)) (resolveAuthorizeClient svc cid uri reg ip)"
  using assms
  by (auto simp: resolveAuthorizeClient_def resolved_by_def intro!: writes_andThen split: option.split)

lemma seal_audits: "audits P (seal_request svc input sub cid r ceiling)"
  by (auto simp: seal_request_def readStoreInstanceId_def signConsentToken_def consentStoreInstanceId_def Let_def
      intro!: audits_rules split: sum.split option.split)

lemma prior_audits: "audits P (priorGrants config sub cid clock_iso)"
  by (auto simp: priorGrants_def clock_iso_def readGrantedScopeSnapshot_def intro!: audits_rules)

lemma prepare_events [simp]:
  "elsewhere (authorize_success svc AUDIT_PREPARE t claims scopes)"
  "elsewhere (authorize_failure svc AUDIT_PREPARE t e cid uri sub)"
  by (simp_all add: elsewhere_def authorize_success_def authorize_failure_def AUDIT_PREPARE_def)

lemma prepare_failed_writes:
  "(\<And>e. Q (Inl e)) \<Longrightarrow> writes elsewhere Q (prepare_failed svc input cid e)"
  by (auto simp: prepare_failed_def andThen_def readClock_def split: sum.split)

lemma prepare_audits:
  assumes "\<And>cid. ai_clientId input = Some cid \<Longrightarrow> ai_registration input \<noteq> None \<or> \<not> isCimdClientId cid"
  shows "audits elsewhere (prepare svc input)"
  unfolding prepare_def
proof (rule audits_after [where Q = "\<lambda>(sub, ceiling, cid). ai_clientId input = Some cid"])
  show "writes elsewhere (\<lambda>r. \<forall>x. r = Inr x \<longrightarrow> (case x of (sub, ceiling, cid) \<Rightarrow> ai_clientId input = Some cid))
      (catch (lift (chain (check_subject (ai_subject input)) (\<lambda>sub.
                    chain (assertAllowedScopesCeiling (ai_allowedScopes input)) (\<lambda>ceiling.
                    chain (requiredStr (ai_clientId input) ''client_id'') (\<lambda>clientId.
                    Inr (sub, ceiling, clientId))))))
         (prepare_failed svc input None))"
    by (rule writes_catch)
      (auto simp: result_simps requiredStr_def intro: prepare_failed_writes split: option.split_asm if_split_asm list.split_asm)
next
  fix x :: "string \<times> string list option \<times> string"
  obtain sub ceiling cid where x: "x = (sub, ceiling, cid)" by (cases x)
  assume "case x of (sub, ceiling, cid) \<Rightarrow> ai_clientId input = Some cid"
  then have known: "ai_registration input \<noteq> None \<or> \<not> isCimdClientId cid" using assms by (simp add: x)
  have "audits elsewhere (prepare_for svc input sub ceiling cid)"
    unfolding prepare_for_def
    by (rule audits_andThen, simp, rule audits_after [OF resolved_writes [OF known]])
      (auto simp: seal_audits prior_audits intro!: audits_rules)
  then show "audits elsewhere (case x of (sub, ceiling, clientId) \<Rightarrow>
      catch (prepare_for svc input sub ceiling clientId) (prepare_failed svc input (Some clientId)))"
    by (simp add: x audits_catch prepare_failed_writes)
qed

lemma verdict_audits [simp]:
  "audits P (failed res reason cid)" "audits P (bad_request m reason cid)" "audits P (cookie_invalid cid)"
  "audits P (broken reason cid)" "audits P (provider_error f claims reason)" "audits P (denied_error f claims d reason)"
  by (auto simp: failed_def bad_request_def cookie_invalid_def broken_def provider_error_def denied_error_def intro!: audits_rules)

lemma bridge_page_audits:
  assumes "fl_client claims = Some client" and "client_admitted f claims"
  shows "audits elsewhere (bridge_completion f req claims client sub allowed)"
proof -
  from assms have "assertCallbackCimdPolicy (az_parseUrl (br_auth (uf_bridge f))) (uf_config f) client"
    by (simp add: client_admitted_def)
  then obtain cid where "map_of (fl_params client) ''client_id'' = Some cid" "isCimdClientId cid \<longrightarrow> fl_cimd client \<noteq> None"
    by (auto simp: assertCallbackCimdPolicy_def split: option.split_asm if_split_asm)
  then have "audits elsewhere (prepare (br_auth (uf_bridge f)) (authorize_input_of
      \<lparr>nq_query = map (\<lambda>(k, v). (k, Str v)) (pickOAuthParams (fl_params client)), nq_body = Undefined,
       nq_formBody = None, nq_headers = nq_headers req, nq_ip = nq_ip req\<rparr>
      \<lparr>gi_subject = sub, gi_allowedScopes = allowed, gi_registration = fl_cimd client\<rparr>))"
    by (intro prepare_audits)
      (auto simp: authorize_input_of_def Let_def queryString_def own_strings picked_client_id nonempty_string_def str_of_def
        split: if_split_asm)
  then show ?thesis
    by (auto simp: bridge_completion_def handleAuthorize_def answered_def error_answer_def failed_def Let_def
        intro!: audits_rules split: sum.split)
qed

lemma identity_elsewhere [simp]: "elsewhere (identity_event st reason sub ip t)"
  by (simp add: elsewhere_def identity_event_def)

lemma exchanged_audits:
  assumes "client_admitted f claims"
  shows "audits elsewhere (exchanged f now req claims result)"
  using bridge_page_audits [OF _ assms]
  by (auto simp: exchanged_def emit_decision_def host_completion_def completeIdentity_def Let_def
      split: exchange_result.split option.split sum.split)

lemma spent_audits:
  assumes "client_admitted f claims"
  shows "audits elsewhere (recheck_client f now req claims)"
proof -
  have "audits elsewhere (first_use f now req claims)"
    using exchanged_audits [OF assms]
    by (auto simp: first_use_def exchange_code_def exchangeUpstreamIdentity_def intro!: audits_rules split: option.split sum.split)
  then have "audits elsewhere (spend_flow f now req claims)"
    by (auto simp: spend_flow_def consumeConsentJtiSnapshot_def intro!: audits_rules split: sum.split)
  then show ?thesis
    by (auto simp: recheck_client_def intro!: audits_rules split: option.split sum.split)
qed

lemma verdict_writes: "audits elsewhere (callback_verdict f now req cookie)"
proof -
  have "audits elsewhere (match_state f now req claims)" for claims
    using spent_audits [of f claims] by (auto simp: match_state_def client_admitted_def Let_def split: option.split)
  then have "audits elsewhere (check_redirect f now req claims)" for claims
    by (auto simp: check_redirect_def split: option.split sum.split)
  then show ?thesis
    by (auto simp: callback_verdict_def intro!: audits_rules split: option.split sum.split)
qed

subsection \<open>The answer\<close>

definition cleared :: "upstream_flow \<Rightarrow> norm_response \<Rightarrow> bool" where
  "cleared f r \<longleftrightarrow>
     map_of (np_headers r) ''cache-control'' = Some ''no-store''
     \<and> (case uf_complete f of
          Bridge_flow \<Rightarrow> map_of (np_headers r) ''set-cookie'' = Some (clearCookieValue (uf_cookie f))
        | Identity_flow \<Rightarrow> clearCookieValue (uf_cookie f) \<in> set (np_setCookies r))"

lemma clear_cookie_clears: "cookie \<noteq> None \<Longrightarrow> cleared f (clear_cookie f cookie r)"
  by (auto simp: cleared_def clear_cookie_def noStoreHeaders_def split: flow_completion.split)

lemma clear_in_quiet: "clear_cookie f None r = r"
  by (simp add: clear_cookie_def)


end
