(* ===== verification/Upstream_Token_Laws.thy ===== *)
theory Upstream_Token_Laws
  imports Upstream_Token Token_Laws
begin

section \<open>What the flow cookie and the response boundary guarantee\<close>

subsection \<open>The signed flow\<close>

lemma flow_payload_own:
  "own (flow_payload req now) ''jti'' = Str (fr_jti req)" "own (flow_payload req now) ''state'' = Str (fr_state req)"
  "own (flow_payload req now) ''nonce'' = Str (fr_nonce req)"
  "own (flow_payload req now) ''code_verifier'' = Str (fr_codeVerifier req)"
  "own (flow_payload req now) ''iss'' = Str (fr_issuer req)"
  "own (flow_payload req now) ''aud'' = Str (flowAudience (fr_callbackPath req) (completion_of (fr_client req)))"
  "own (flow_payload req now) ''exp'' = Number (Whole (now + fr_ttlSeconds req))"
  "own (flow_payload req now) ''nbf'' = Undefined"
  "own (flow_payload req now) ''params'' =
     (case fr_client req of None \<Rightarrow> Undefined | Some c \<Rightarrow> Obj (map (\<lambda>(k, v). (k, Str v)) (fl_params c)))"
  "own (flow_payload req now) ''cimd'' =
     (case fr_client req of None \<Rightarrow> Undefined
      | Some c \<Rightarrow> (case fl_cimd c of None \<Rightarrow> Undefined | Some r \<Rightarrow> cimd_claim r))"
  by (auto simp: flow_payload_def own_def split: option.split)

lemma flow_payload_json: "json_members (flow_payload req now) = flow_payload req now"
  by (simp add: json_members_def flow_payload_def cimd_claim_def split: option.split)

lemma string_members_strings: "string_members (map (\<lambda>(k, v). (k, Str v)) kvs) = kvs"
  by (induction kvs) (auto simp: string_members_def str_of_def)

lemma has_member: "map_has k kvs \<longleftrightarrow> k \<in> fst ` set kvs"
  by (metis map_has_def map_of_eq_None_iff)

text \<open>A registration as the resolver projects it: its name and its URIs are within the claim's bounds.\<close>

definition registration_bounds :: "CimdRegistration \<Rightarrow> bool" where
  "registration_bounds r \<longleftrightarrow>
     cimd_client_name r \<noteq> [] \<and> utf16_length (cimd_client_name r) \<le> MAX_CLIENT_NAME
     \<and> cimd_redirect_uris r \<noteq> [] \<and> length (cimd_redirect_uris r) \<le> MAX_REDIRECT_URIS
     \<and> list_all (\<lambda>u. nonempty_text (Str u)) (cimd_redirect_uris r) \<and> cimd_application_type r \<noteq> Some Machine_app"

definition client_bounds :: "flow_client option \<Rightarrow> bool" where
  "client_bounds client \<longleftrightarrow>
     (\<forall>c r. client = Some c \<longrightarrow> fl_cimd c = Some r \<longrightarrow>
        registration_bounds r \<and> map_of (fl_params c) ''client_id'' = Some (cimd_client_id r))"

lemma claim_uris: "list_all (\<lambda>u. nonempty_text (Str u)) us \<Longrightarrow> collect claim_redirect (map Str us) = Inr us"
  by (induction us) (auto simp: claim_redirect_def)

lemma claim_type:
  "document_application_type
     (own_members @ (case t of None \<Rightarrow> [] | Some t \<Rightarrow> [(''application_type'', Str (application_type_text t))])) e = Inr t"
  if "''application_type'' \<notin> fst ` set own_members" and "t \<noteq> Some Machine_app"
proof -
  have "map_of own_members ''application_type'' = None" using that by (simp add: map_of_eq_None_iff)
  with that(2) show ?thesis
    by (cases t; cases "the t") (auto simp: document_application_type_def map_has_def own_def map_add_def
        application_type_text_def split: option.split)
qed

lemma cimd_claim_roundtrip:
  assumes "registration_bounds r"
  shows "parseCimdRegistrationClaim (cimd_claim r) (Some (cimd_client_id r)) = Inr r"
proof -
  have "own (own_members @ rest) k = own own_members k" if "map_of own_members k = Some v" for own_members rest k and v :: jsval
    using that by (simp add: own_def map_add_Some_iff)
  have "length (cimd_redirect_uris r) \<ge> 1" using assms by (cases "cimd_redirect_uris r") (auto simp: registration_bounds_def)
  moreover have "document_application_type
      ([(''client_id'', Str (cimd_client_id r)), (''client_name'', Str (cimd_client_name r)),
        (''redirect_uris'', Arr (map Str (cimd_redirect_uris r)))]
       @ (case cimd_application_type r of None \<Rightarrow> [] | Some t \<Rightarrow> [(''application_type'', Str (application_type_text t))])) e
     = Inr (cimd_application_type r)" for e
    by (rule claim_type) (use assms in \<open>auto simp: registration_bounds_def\<close>)
  ultimately show ?thesis
    using assms claim_uris [of "cimd_redirect_uris r"]
    by (simp add: parseCimdRegistrationClaim_def parse_claim_members_def cimd_claim_def own_Cons registration_bounds_def)
qed

definition flow_ok :: "flow_request \<Rightarrow> bool" where
  "flow_ok req \<longleftrightarrow>
     fr_jti req \<noteq> [] \<and> fr_state req \<noteq> [] \<and> fr_nonce req \<noteq> [] \<and> fr_codeVerifier req \<noteq> [] \<and> client_bounds (fr_client req)"

definition signed_flow :: "flow_request \<Rightarrow> int \<Rightarrow> flow_claims" where
  "signed_flow req t =
     \<lparr>fl_jti = fr_jti req, fl_state = fr_state req, fl_nonce = fr_nonce req, fl_codeVerifier = fr_codeVerifier req,
      fl_exp = Whole (t div 1000 + fr_ttlSeconds req), fl_client = fr_client req\<rparr>"

lemma signed_payload:
  assumes "signFlowToken J req (Reads (Whole t)) = Inr token"
  shows "jose_sign J (ConsentSecret (fr_secret req)) consent_header (flow_payload req (t div 1000)) = Inr token"
  using assms by (auto simp: signFlowToken_def result_simps nowSeconds_Inr)

lemma signed_accepted:
  assumes "jose_roundtrip J" and "signFlowToken J req (Reads (Whole t)) = Inr token"
    and "0 < t div 1000 + fr_ttlSeconds req"
  shows "jose_verify J token (ConsentSecret (fr_secret req))
      (flow_options (fr_issuer req) (fr_callbackPath req) (completion_of (fr_client req)))
    = Inr (flow_payload req (t div 1000))"
proof -
  have "jwt_accepts (flow_options (fr_issuer req) (fr_callbackPath req) (completion_of (fr_client req))) consent_header
      (flow_payload req (t div 1000))"
    using assms(3) by (simp add: jwt_accepts_def flow_options_def consent_header_def own_Cons flow_payload_own live_at_def)
  moreover have "key_pair (ConsentSecret (fr_secret req)) (ConsentSecret (fr_secret req))" by simp
  ultimately show ?thesis
    using assms(1) signed_payload [OF assms(2)] unfolding jose_roundtrip_def by (metis flow_payload_json)
qed

text \<open>
  What a flow puts into its cookie comes back: the token that is signed when the browser leaves is verified at the
  same callback as the same state, nonce, PKCE verifier, identifier and client, with the expiry that was
  signed, also after it has passed.
\<close>

theorem flow_token_roundtrip:
  assumes "jose_roundtrip J" and "flow_ok req" and "signFlowToken J req (Reads (Whole t)) = Inr token"
    and "0 < t div 1000 + fr_ttlSeconds req"
  shows "verifyFlowToken J fraction token (fr_secret req) (fr_issuer req) (fr_callbackPath req) (completion_of (fr_client req))
    = Inr (signed_flow req t)"
proof (cases "fr_client req")
  case None
  have "\<not> map_has ''params'' (flow_payload req (t div 1000))" "\<not> map_has ''cimd'' (flow_payload req (t div 1000))"
    by (simp_all add: map_has_def flow_payload_def None)
  with None show ?thesis
    using assms(2,4) signed_accepted [OF assms(1,3,4)]
    by (simp add: verifyFlowToken_def flow_payload_own flowString_def requiredPositiveNumber_def flow_ok_def completion_of_def
        signed_flow_def)
next
  case (Some c)
  have has: "map_has ''cimd'' (flow_payload req (t div 1000)) \<longleftrightarrow> fl_cimd c \<noteq> None"
    by (cases "fl_cimd c") (simp_all add: map_has_def flow_payload_def Some)
  have carried: "parseCimdRegistrationClaim (cimd_claim r) (map_of (fl_params c) ''client_id'') = Inr r" if "fl_cimd c = Some r" for r
    using assms(2) cimd_claim_roundtrip [of r] Some that by (auto simp: flow_ok_def client_bounds_def)
  have "flow_client_claims (flow_payload req (t div 1000)) = Inr c"
    by (cases "fl_cimd c")
      (simp_all add: flow_client_claims_def flow_payload_own Some has carried string_members_strings Let_def)
  with Some show ?thesis
    using assms(2,4) signed_accepted [OF assms(1,3,4)]
    by (simp add: verifyFlowToken_def flow_payload_own flowString_def requiredPositiveNumber_def flow_ok_def completion_of_def
        signed_flow_def)
qed

text \<open>
  What is relied on to tell audiences apart: a token carries one payload, and it is accepted only for an audience
  it names.
\<close>

definition jose_audience :: "jose \<Rightarrow> bool" where
  "jose_audience J \<longleftrightarrow>
     (\<forall>token vk opts payload. jose_verify J token vk opts = Inr payload \<longrightarrow>
        own payload ''aud'' = Str (jo_audience opts)
        \<or> (case own payload ''aud'' of Arr xs \<Rightarrow> Str (jo_audience opts) \<in> set xs | _ \<Rightarrow> False))
     \<and> (\<forall>token vk vk' opts opts' payload payload'.
          jose_verify J token vk opts = Inr payload \<longrightarrow> jose_verify J token vk' opts' = Inr payload' \<longrightarrow> payload = payload')"

lemma audience_injective:
  assumes "flowAudience p complete = flowAudience q complete'" and "startsWith p ''/''" and "startsWith q ''/''"
  shows "p = q \<and> complete = complete'"
  using assms
  by (cases complete; cases complete'; cases p; cases q)
    (auto simp: flowAudience_def FLOW_AUDIENCE_def IDENTITY_FLOW_AUDIENCE_def)

text \<open>
  C15. A cookie of one flow is worth nothing at another: a token that is signed for a callback path and a kind of
  completion is verified only there, even where all flows of a deployment share one secret.
\<close>

theorem flow_token_isolated:
  assumes "jose_roundtrip J" and "jose_audience J" and "signFlowToken J req (Reads (Whole t)) = Inr token"
    and "0 < t div 1000 + fr_ttlSeconds req" and "startsWith (fr_callbackPath req) ''/''" and "startsWith path ''/''"
    and "verifyFlowToken J fraction token key issuer path complete = Inr claims"
  shows "path = fr_callbackPath req \<and> complete = completion_of (fr_client req)"
proof -
  from assms(7) obtain payload where p: "jose_verify J token (ConsentSecret key) (flow_options issuer path complete) = Inr payload"
    by (auto simp: verifyFlowToken_def result_simps)
  have "payload = flow_payload req (t div 1000)"
    using assms(2) p signed_accepted [OF assms(1,3,4)] unfolding jose_audience_def by blast
  moreover have "own payload ''aud'' = Str (flowAudience path complete)
      \<or> (case own payload ''aud'' of Arr xs \<Rightarrow> Str (flowAudience path complete) \<in> set xs | _ \<Rightarrow> False)"
    using assms(2) p unfolding jose_audience_def by (metis flow_options_def jwt_options.select_convs(3))
  ultimately have "flowAudience path complete = flowAudience (fr_callbackPath req) (completion_of (fr_client req))"
    by (simp add: flow_payload_own)
  then show ?thesis by (rule audience_injective) (rule assms(6), rule assms(5))
qed

end
