(* ===== verification/Response_Laws.thy ===== *)
theory Response_Laws
  imports Response_Boundary
begin

section \<open>What the response boundary lets through\<close>

text \<open>
  Whatever a host returns, what is sent is bounded, printable and not to be stored, and its redirect is a URI
  reference that is the response's own \<open>location\<close>.
\<close>

subsection \<open>URI references are printable\<close>

lemma printable_classes:
  "is_unreserved c \<Longrightarrow> printable c" "is_sub_delim c \<Longrightarrow> printable c" "is_hex c \<Longrightarrow> printable c"
  by (auto simp: is_unreserved_def is_sub_delim_def is_alpha_def is_digit_def is_hex_def is_hex_lower_def printable_def byte_def)

lemma split_printable:
  "list_all printable (takeWhile P s) \<Longrightarrow> list_all printable (dropWhile P s) \<Longrightarrow> list_all printable s"
  by (metis list_all_append takeWhile_dropWhile_id)

lemma tail_printable: "printable (hd s) \<Longrightarrow> list_all printable (tl s) \<Longrightarrow> list_all printable s"
  by (cases s) auto

lemma dropped_head: "dropWhile (\<lambda>c. c \<noteq> d) s \<noteq> [] \<Longrightarrow> hd (dropWhile (\<lambda>c. c \<noteq> d) s) = d"
  using hd_dropWhile [of "\<lambda>c. c \<noteq> d" s] by simp

lemma delimited_printable:
  assumes head: "list_all printable (takeWhile (\<lambda>c. c \<noteq> d) s)" and tail: "list_all printable (tl (dropWhile (\<lambda>c. c \<noteq> d) s))"
    and "printable d"
  shows "list_all printable s"
proof (rule split_printable [OF head])
  show "list_all printable (dropWhile (\<lambda>c. c \<noteq> d) s)"
  proof (cases "dropWhile (\<lambda>c. c \<noteq> d) s = []")
    case True
    show ?thesis unfolding True by simp
  next
    case False
    show ?thesis by (rule tail_printable) (simp_all add: dropped_head [OF False] assms(3) tail)
  qed
qed

lemma pct_printable: "pct_chars ok s \<Longrightarrow> (\<And>c. ok c \<Longrightarrow> printable c) \<Longrightarrow> list_all printable s"
proof (induction ok s rule: pct_chars.induct)
  case (2 ok c s)
  show ?case
  proof (cases "c = CHR ''%''")
    case True
    then obtain a b t where t: "s = a # b # t" "is_hex a" "is_hex b" "pct_chars ok t"
      using 2(3) by (auto split: list.split_asm)
    with 2(1) [OF True] 2(4) have "list_all printable t" by auto
    with t True show ?thesis by (simp add: printable_classes) (simp add: printable_def byte_def)
  next
    case False
    with 2 show ?thesis by auto
  qed
qed simp

lemma delims_printable [simp]:
  "printable (CHR ''/'')" "printable (CHR '':'')" "printable (CHR ''@'')" "printable (CHR ''?'')" "printable (CHR ''#'')"
  "printable (CHR '']'')" "printable (CHR ''['')"
  by (simp_all add: printable_def byte_def)

lemma pchar_printable: "is_pchar c \<Longrightarrow> printable c"
  by (auto simp: is_pchar_def printable_classes)

lemma path_printable: "path_chars s \<Longrightarrow> list_all printable s"
  unfolding path_chars_def by (erule pct_printable) (auto simp: pchar_printable)

lemma query_printable: "query_chars s \<Longrightarrow> list_all printable s"
  unfolding query_chars_def by (erule pct_printable) (auto simp: pchar_printable)

lemma port_printable: "port_ok s \<Longrightarrow> list_all printable s"
  by (auto simp: port_ok_def list_all_iff is_digit_def printable_def byte_def split: list.split_asm)

lemma literal_printable: "list_all ip_literal_char s \<Longrightarrow> list_all printable s"
  by (auto simp: list_all_iff ip_literal_char_def printable_classes)

lemma starts_with_char: "startsWith s [c] \<Longrightarrow> \<exists>t. s = c # t"
  by (cases s) auto

lemma host_printable:
  assumes "host_port_ok s"
  shows "list_all printable s"
proof (cases "startsWith s ''[''")
  case True
  then obtain t where s: "s = CHR ''['' # t" using starts_with_char by blast
  from assms True have "list_all ip_literal_char (takeWhile (\<lambda>c. c \<noteq> CHR '']'') t)" "port_ok (tl (dropWhile (\<lambda>c. c \<noteq> CHR '']'') t))"
    by (simp_all add: host_port_ok_def Let_def s)
  from delimited_printable [OF literal_printable [OF this(1)] port_printable [OF this(2)]] s show ?thesis by simp
next
  case False
  with assms have h: "pct_chars (\<lambda>c. is_unreserved c \<or> is_sub_delim c) (takeWhile (\<lambda>c. c \<noteq> CHR '':'') s)"
    and p: "port_ok (dropWhile (\<lambda>c. c \<noteq> CHR '':'') s)" by (simp_all add: host_port_ok_def)
  show ?thesis
    by (rule split_printable [OF pct_printable [OF h] port_printable [OF p]]) (auto simp: printable_classes)
qed

lemma authority_printable:
  assumes "authority_ok s"
  shows "list_all printable s"
proof (cases "CHR ''@'' \<in> set s")
  case True
  with assms have u: "pct_chars (\<lambda>c. is_unreserved c \<or> is_sub_delim c \<or> c = CHR '':'') (takeWhile (\<lambda>c. c \<noteq> CHR ''@'') s)"
    and h: "host_port_ok (tl (dropWhile (\<lambda>c. c \<noteq> CHR ''@'') s))" by (simp_all add: authority_ok_def)
  show ?thesis
    by (rule delimited_printable [OF pct_printable [OF u] host_printable [OF h]]) (auto simp: printable_classes)
next
  case False
  with assms show ?thesis by (simp add: authority_ok_def host_printable)
qed

lemma net_printable:
  assumes "net_path s"
  shows "list_all printable s"
proof -
  from assms have "startsWith s ''//''" by (simp add: net_path_def)
  then obtain t where s: "s = CHR ''/'' # CHR ''/'' # t"
    by (cases s; cases "tl s") auto
  from assms have a: "authority_ok (takeWhile (\<lambda>c. c \<noteq> CHR ''/'') t)" and p: "path_chars (dropWhile (\<lambda>c. c \<noteq> CHR ''/'') t)"
    by (simp_all add: net_path_def path_abempty_def s numeral_2_eq_2)
  from split_printable [OF authority_printable [OF a] path_printable [OF p]] s show ?thesis by simp
qed

lemma hier_printable:
  assumes "hier_part s"
  shows "list_all printable s"
proof -
  have part: "list_all printable u" if "net_path u \<or> path_absolute u \<or> path_rootless u \<or> u = []" for u
    using that net_printable path_printable by (auto simp: path_absolute_def path_rootless_def)
  show ?thesis
  proof (cases "net_path s \<or> path_absolute s \<or> path_noscheme s \<or> s = []")
    case True
    then show ?thesis using part [of s] by (auto simp: path_noscheme_def)
  next
    case False
    with assms have sch: "scheme_ok (takeWhile (\<lambda>c. c \<noteq> CHR '':'') s)"
      and rest: "net_path (tl (dropWhile (\<lambda>c. c \<noteq> CHR '':'') s)) \<or> path_absolute (tl (dropWhile (\<lambda>c. c \<noteq> CHR '':'') s))
        \<or> path_rootless (tl (dropWhile (\<lambda>c. c \<noteq> CHR '':'') s)) \<or> tl (dropWhile (\<lambda>c. c \<noteq> CHR '':'') s) = []"
      unfolding hier_part_def Let_def by blast+
    have "list_all printable (takeWhile (\<lambda>c. c \<noteq> CHR '':'') s)"
      using sch by (auto simp: scheme_ok_def list_all_iff is_alpha_def is_digit_def printable_def byte_def)
    from delimited_printable [OF this part [OF rest]] show ?thesis by simp
  qed
qed

lemma uri_printable:
  assumes "uri_reference s"
  shows "list_all printable s"
proof -
  let ?main = "takeWhile (\<lambda>c. c \<noteq> CHR ''#'') s"
  from assms have f: "query_chars (tl (dropWhile (\<lambda>c. c \<noteq> CHR ''#'') s))"
    and q: "query_chars (tl (dropWhile (\<lambda>c. c \<noteq> CHR ''?'') ?main))" and h: "hier_part (takeWhile (\<lambda>c. c \<noteq> CHR ''?'') ?main)"
    unfolding uri_reference_def Let_def by blast+
  have "list_all printable ?main"
    by (rule delimited_printable [OF hier_printable [OF h] query_printable [OF q]]) simp
  then show ?thesis by (rule delimited_printable [OF _ query_printable [OF f]]) simp
qed

subsection \<open>Headers, cookies and responses\<close>

definition header_sent :: "string \<times> string \<Rightarrow> bool" where
  "header_sent h \<longleftrightarrow>
     header_name_ok (fst h) \<and> lower_case (fst h) \<notin> set FORBIDDEN_HEADERS \<and> length (snd h) \<le> 8192 \<and> list_all printable (snd h)"

definition cookie_sent :: "string \<Rightarrow> bool" where
  "cookie_sent c \<longleftrightarrow> c \<noteq> [] \<and> length c \<le> 4096 \<and> list_all printable c \<and> CHR 9 \<notin> set c"

text \<open>What a host's response becomes.\<close>

definition completion_ok :: "norm_response \<Rightarrow> bool" where
  "completion_ok r \<longleftrightarrow>
     list_all header_sent (np_headers r) \<and> length (np_headers r) \<le> 66
     \<and> distinct (map (lower_case \<circ> fst) (np_headers r))
     \<and> map_of (np_headers r) ''cache-control'' = Some ''no-store''
     \<and> length (np_setCookies r) \<le> 15 \<and> list_all cookie_sent (np_setCookies r)
     \<and> (case np_redirect r of
          Some u \<Rightarrow> np_status r \<in> set REDIRECT_STATUSES \<and> np_body r = No_body \<and> map_of (np_headers r) ''location'' = Some u
        | None \<Rightarrow> 200 \<le> np_status r \<and> np_status r \<le> 299
                  \<and> (np_body r = No_body \<or> (\<exists>text. np_body r = Html text \<and> length text \<le> 65536
                        \<and> hasNonEmptyHeader (np_headers r) ''content-type'')))"

lemma ascii_value: "validateAsciiValue v limit label = Inr u \<longleftrightarrow> length v \<le> limit \<and> list_all printable v
    \<and> (v = [] \<or> hd v \<notin> {CHR '' '', CHR 9} \<and> last v \<notin> {CHR '' '', CHR 9})"
  by (auto simp: validateAsciiValue_def require_def)

lemma cookie_value: "validateCookieValue v = Inr u \<Longrightarrow> length v \<le> 4096 \<and> list_all printable v \<and> CHR 9 \<notin> set v"
  by (auto simp: validateCookieValue_def result_simps ascii_value)

lemma defined_sent: "list_all header_sent hs \<Longrightarrow> header_sent (k, v) \<Longrightarrow> list_all header_sent (defineHeader hs k v)"
  by (auto simp: defineHeader_def list_all_iff)

lemma defined_length: "length (defineHeader hs k v) \<le> Suc (length hs)"
  by (simp add: defineHeader_def)

lemma defined_distinct:
  "distinct (map (lower_case \<circ> fst) hs) \<Longrightarrow> distinct (map (lower_case \<circ> fst) (defineHeader hs k v))"
  by (auto simp: defineHeader_def distinct_map inj_on_def)

lemma defined_get: "map_of (defineHeader hs k v) k = Some v"
  by (auto simp: defineHeader_def map_add_def split: option.split dest!: map_of_SomeD)

lemma defined_other:
  assumes "map_of hs j = Some x" and "lower_case j \<noteq> lower_case k"
  shows "map_of (defineHeader hs k v) j = Some x"
proof -
  have "map_of (filter (\<lambda>p. lower_case (fst p) \<noteq> lower_case k) hs) j = Some x"
    using assms by (induction hs) (auto split: if_split_asm)
  moreover have "j \<noteq> k" using assms(2) by auto
  ultimately show ?thesis by (simp add: defineHeader_def map_add_def)
qed

lemma members_sent:
  assumes "header_members folded bytes out kvs = Inr hs" and "list_all header_sent out" and "distinct (map (lower_case \<circ> fst) out)"
  shows "list_all header_sent hs \<and> distinct (map (lower_case \<circ> fst) hs) \<and> length hs \<le> length out + length kvs"
  using assms
proof (induction kvs arbitrary: folded bytes out)
  case (Cons entry kvs)
  obtain key v where e: "entry = (key, v)" by (cases entry)
  from Cons.prems(1) obtain item where v: "v = Str item" and name: "header_name_ok key" "lower_case key \<notin> set FORBIDDEN_HEADERS"
    and rest: "header_members (folded @ [lower_case key]) (bytes + length key + length item) (defineHeader out key item) kvs = Inr hs"
    and item: "(if lower_case key = ''set-cookie''
                then chain (require (item \<noteq> []) (completion_error ''cookie is empty'')) (\<lambda>_. validateCookieValue item)
                else validateAsciiValue item 8192 ''header value'') = Inr ()"
    by (auto simp: e result_simps split: jsval.split_asm)
  have "header_sent (key, item)"
    using item name by (auto simp: header_sent_def result_simps ascii_value split: if_split_asm dest!: cookie_value)
  from Cons.IH [OF rest defined_sent [OF Cons.prems(2) this] defined_distinct [OF Cons.prems(3)]]
  show ?case using defined_length [of out key item] by simp
qed simp

lemma folded_headers:
  "list_all header_sent out \<Longrightarrow> list_all header_sent hs \<Longrightarrow>
     list_all header_sent (foldl (\<lambda>out (key, v). defineHeader out key v) out hs)"
  by (induction hs arbitrary: out) (auto simp: defined_sent)

lemma folded_length: "length (foldl (\<lambda>out (key, v). defineHeader out key v) out hs) \<le> length out + length hs"
proof (induction hs arbitrary: out)
  case (Cons h hs)
  obtain k v where h: "h = (k, v)" by (cases h)
  show ?case using Cons.IH [of "defineHeader out k v"] defined_length [of out k v] by (simp add: h)
qed simp

lemma folded_distinct:
  "distinct (map (lower_case \<circ> fst) out) \<Longrightarrow>
     distinct (map (lower_case \<circ> fst) (foldl (\<lambda>out (key, v). defineHeader out key v) out hs))"
proof (induction hs arbitrary: out)
  case (Cons h hs)
  obtain k v where h: "h = (k, v)" by (cases h)
  show ?case using Cons.IH [OF defined_distinct [OF Cons.prems, of k v]] by (simp add: h)
qed simp

lemma no_store_sent:
  assumes "list_all header_sent hs" and "length hs \<le> 64"
  shows "list_all header_sent (withNoStore hs) \<and> distinct (map (lower_case \<circ> fst) (withNoStore hs))
    \<and> length (withNoStore hs) \<le> 65 \<and> map_of (withNoStore hs) ''cache-control'' = Some ''no-store''"
proof -
  let ?kept = "filter (\<lambda>p. lower_case (fst p) \<noteq> ''cache-control'') hs"
  let ?out = "foldl (\<lambda>out (key, v). defineHeader out key v) [] ?kept"
  have "header_sent (''cache-control'', ''no-store'')" by code_simp
  moreover have "list_all header_sent ?kept" using assms(1) by (auto simp: list_all_iff)
  ultimately have "list_all header_sent (defineHeader ?out ''cache-control'' ''no-store'')"
    using folded_headers [of "[]" ?kept] by (auto intro: defined_sent)
  moreover have "length ?kept \<le> 64" using assms(2) by (meson le_trans length_filter_le)
  then have "length (defineHeader ?out ''cache-control'' ''no-store'') \<le> 65"
    using folded_length [of "[]" ?kept] defined_length [of ?out "''cache-control''" "''no-store''"] by simp
  moreover have "distinct (map (lower_case \<circ> fst) (defineHeader ?out ''cache-control'' ''no-store''))"
    by (rule defined_distinct [OF folded_distinct]) simp
  ultimately show ?thesis unfolding withNoStore_def using defined_get by blast
qed

lemma headers_sent:
  assumes "snapshotHeaders v = Inr hs"
  shows "list_all header_sent hs \<and> length hs \<le> 64"
proof -
  from assms obtain kvs where "header_members [] 0 [] kvs = Inr hs" "length kvs \<le> 64"
    by (auto simp: snapshotHeaders_def result_simps)
  with members_sent [OF this(1)] show ?thesis by simp
qed

lemma cookies_sent:
  assumes "snapshotCookies v = Inr cs"
  shows "list_all cookie_sent cs \<and> length cs \<le> 15"
proof -
  from assms obtain xs where "length xs \<le> 15" and c: "collect cookie_entry xs = Inr cs"
    by (auto simp: snapshotCookies_def not_less split: jsval.split_asm if_split_asm)
  moreover have "list_all cookie_sent ys \<and> length ys = length us" if "collect cookie_entry us = Inr ys" for us ys
    using that
  proof (induction us arbitrary: ys)
    case (Cons u us)
    then obtain y zs where y: "cookie_entry u = Inr y" "collect cookie_entry us = Inr zs" "ys = y # zs"
      by (auto simp: result_simps)
    then have "cookie_sent y"
      by (auto simp: cookie_entry_def cookie_sent_def result_simps split: jsval.split_asm if_split_asm dest!: cookie_value)
    with y Cons.IH [OF y(2)] show ?case by simp
  qed simp
  ultimately show ?thesis by force
qed

text \<open>
  C21. Nothing unbounded or unprintable of a host's response is sent: whatever value the host returned, an accepted
  response has at most 66 headers with distinct token names, none of them the transport's, printable values
  without line breaks, at most 15 such cookies, is never to be stored, and is either a redirect to its own
  \<open>location\<close> without a body or a success with a bounded, typed body.
\<close>

theorem completion_bounded:
  assumes "snapshotCompletionResponse parseUrl v = Inr r"
  shows "completion_ok r"
proof -
  from assms obtain kvs st hs hv cookies where h: "snapshotHeaders hv = Inr hs"
    and c: "(case map_of kvs ''setCookies'' of None \<Rightarrow> Inr [] | Some c \<Rightarrow> snapshotCookies c) = Inr cookies"
    and r: "(case map_of kvs ''redirect'' of
        None \<Rightarrow> page_response st (withNoStore hs) cookies (map_of kvs ''body'')
      | Some target \<Rightarrow> redirect_response parseUrl st (withNoStore hs) cookies (map_of kvs ''body'') target) = Inr r"
    unfolding snapshotCompletionResponse_def chain_eq_Inr by blast
  from headers_sent [OF h] have hs: "list_all header_sent hs" "length hs \<le> 64" by simp_all
  from c have cookies: "list_all cookie_sent cookies" "length cookies \<le> 15"
    by (auto dest: cookies_sent split: option.split_asm)
  note sent = no_store_sent [OF hs]
  show ?thesis
  proof (cases "map_of kvs ''redirect''")
    case None
    with r sent cookies show ?thesis
      by (auto simp: page_response_def completion_ok_def result_simps split: option.split_asm jsval.split_asm)
  next
    case (Some target)
    with r obtain u where u: "isUriReference parseUrl u" "length u \<le> 2048" "st \<in> set REDIRECT_STATUSES"
      and r: "r = \<lparr>np_status = st, np_headers = defineHeader (withNoStore hs) ''location'' u, np_setCookies = cookies,
               np_body = No_body, np_redirect = Some u\<rparr>"
      by (auto simp: redirect_response_def result_simps split: jsval.split_asm)
    have "header_name_ok ''location''" "lower_case ''location'' \<notin> set FORBIDDEN_HEADERS"
      "lower_case ''cache-control'' \<noteq> lower_case ''location''" by code_simp+
    then have "header_sent (''location'', u)" and other: "lower_case ''cache-control'' \<noteq> lower_case ''location''"
      using u uri_printable by (auto simp: header_sent_def isUriReference_def)
    then have "list_all header_sent (defineHeader (withNoStore hs) ''location'' u)" using sent by (auto intro: defined_sent)
    moreover have "distinct (map (lower_case \<circ> fst) (defineHeader (withNoStore hs) ''location'' u))"
      using sent by (auto intro: defined_distinct simp del: map_map)
    moreover have "length (defineHeader (withNoStore hs) ''location'' u) \<le> 66"
      using sent defined_length [of "withNoStore hs" "''location''" u] by simp
    moreover have "map_of (defineHeader (withNoStore hs) ''location'' u) ''cache-control'' = Some ''no-store''"
      using sent defined_other [OF _ other] by blast
    ultimately show ?thesis using r u cookies defined_get by (simp add: completion_ok_def)
  qed
qed

end
