(* ===== verification/Upstream_Runs.thy ===== *)
theory Upstream_Runs
  imports Upstream_Callback Upstream_Token_Laws Response_Laws Authorize_Runs
begin

section \<open>Concrete runs of the redirect flows\<close>

text \<open>
  One website login, a provider and a scripted store: the browser is sent away, comes back, and its code is
  exchanged, so that the hypotheses of the properties of the redirect flows hold there.
\<close>

subsection \<open>Tokens\<close>

definition login_request :: flow_request where
  "login_request =
     \<lparr>fr_issuer = ''https://app.example'', fr_secret = ''k'', fr_callbackPath = ''/login/callback'', fr_jti = ''upf_1'',
      fr_state = ''s'', fr_nonce = ''n'', fr_codeVerifier = ''v'', fr_ttlSeconds = 600, fr_client = None\<rparr>"

definition login_jose :: jose where
  "login_jose = one_token_jose (ConsentSecret ''k'') consent_header (flow_payload login_request 1700000000)"

lemma login_signed: "signFlowToken login_jose login_request (Reads (Whole 1700000000000)) = Inr ''jwt''"
proof -
  have "nowSeconds (Reads (Whole 1700000000000)) 600 = Inr 1700000000"
    by (simp add: nowSeconds_Inr canonical_def MIN_CANONICAL_MS_def MAX_CANONICAL_MS_def safe_int_def MAX_SAFE_INTEGER_def)
  moreover have "fr_ttlSeconds login_request = 600" "fr_secret login_request = ''k''" by (simp_all add: login_request_def)
  ultimately show ?thesis by (simp add: signFlowToken_def login_jose_def one_token_jose_def)
qed

lemma login_ok: "flow_ok login_request" "0 < 1700000000000 div 1000 + fr_ttlSeconds login_request"
  by (simp_all add: flow_ok_def login_request_def client_bounds_def)

theorem flow_token_roundtrip_witness:
  "verifyFlowToken login_jose (\<lambda>_. (False, 0, 0)) ''jwt'' ''k'' ''https://app.example'' ''/login/callback'' Identity_flow
     = Inr (signed_flow login_request 1700000000000)"
proof -
  have "jose_roundtrip login_jose" by (simp add: login_jose_def one_token_jose_roundtrip)
  from flow_token_roundtrip [OF this login_ok(1) login_signed login_ok(2), of "\<lambda>_. (False, 0, 0)"]
  show ?thesis by (simp add: login_request_def completion_of_def)
qed

lemma login_audience: "jose_audience login_jose"
  by (auto simp: jose_audience_def login_jose_def one_token_jose_def flow_payload_json jwt_accepts_def split: if_split_asm)

theorem flow_token_isolated_witness:
  "''/login/callback'' = fr_callbackPath login_request \<and> Identity_flow = completion_of (fr_client login_request)"
proof (rule flow_token_isolated [OF _ login_audience login_signed login_ok(2)])
  show "jose_roundtrip login_jose" by (simp add: login_jose_def one_token_jose_roundtrip)
  show "verifyFlowToken login_jose (\<lambda>_. (False, 0, 0)) ''jwt'' ''k'' ''https://app.example'' ''/login/callback'' Identity_flow
     = Inr (signed_flow login_request 1700000000000)"
    by (simp add: verifyFlowToken_def login_jose_def one_token_jose_def flow_payload_json flow_options_def jwt_accepts_def
        consent_header_def own_Cons flow_payload_own live_at_def login_request_def completion_of_def flowString_def
        requiredPositiveNumber_def signed_flow_def)
      (simp add: map_has_def flow_payload_def)
qed (simp_all add: login_request_def)

subsection \<open>A host's response\<close>

definition host_value :: jsval where
  "host_value =
     Obj [(''status'', Number (Whole 303)), (''headers'', Obj [(''Cache-Control'', Str ''public'')]), (''redirect'', Str ''/home''),
          (''setCookies'', Arr [Str ''sid=1''])]"

definition host_response :: norm_response where
  "host_response =
     \<lparr>np_status = 303, np_headers = [(''cache-control'', ''no-store''), (''location'', ''/home'')], np_setCookies = [''sid=1''],
      np_body = No_body, np_redirect = Some ''/home''\<rparr>"

lemma host_snapshot: "snapshotCompletionResponse (\<lambda>_. None) host_value = Inr host_response"
  by code_simp

theorem completion_bounded_witness: "completion_ok host_response"
  by (rule completion_bounded [OF host_snapshot])

subsection \<open>Callbacks\<close>

definition login_members :: members where
  "login_members =
     [(''jti'', Str ''upf_1''), (''state'', Str ''s''), (''nonce'', Str ''n''), (''code_verifier'', Str ''v''),
      (''exp'', Number (Whole 1700000600))]"

definition login_flow :: upstream_flow where
  "login_flow =
     \<lparr>uf_bridge =
        \<lparr>br_auth = web_service\<lparr>az_jose := \<lparr>jose_sign = (\<lambda>k h p. Inr ''jwt''), jose_verify = (\<lambda>t k opts. Inr login_members)\<rparr>\<rparr>,
         br_decodeBase64 = (\<lambda>s. s)\<rparr>,
      uf_complete = Identity_flow, uf_callbackPath = ''/login/callback'', uf_flowTtlSeconds = 600,
      uf_cookie = \<lparr>ck_name = ''c'', ck_secure = False\<rparr>, uf_resolve = (\<lambda>cid uri ip. fail cimdGenericError),
      uf_fraction = (\<lambda>t. (False, 0, 0)), uf_numText = (\<lambda>n. [])\<rparr>"

definition login_claims :: flow_claims where
  "login_claims =
     \<lparr>fl_jti = ''upf_1'', fl_state = ''s'', fl_nonce = ''n'', fl_codeVerifier = ''v'', fl_exp = Whole 1700000600, fl_client = None\<rparr>"

definition login_callback :: "(string \<times> jsval) list \<Rightarrow> norm_request" where
  "login_callback q =
     \<lparr>nq_query = q, nq_body = Undefined, nq_formBody = None, nq_headers = [(''cookie'', Str ''c=jwt'')], nq_ip = None\<rparr>"

definition login_env :: "unit env" where
  "login_env =
     \<lparr>on_call = (\<lambda>c w. (Inr (case c of
          StorePort (Consume_jti j x) \<Rightarrow> Boolean True
        | CheckRate key \<Rightarrow> Boolean True
        | BuildAuthorizationUrl v \<Rightarrow> Str ''https://idp.example/auth''
        | _ \<Rightarrow> Undefined), w)),
      on_clock = (\<lambda>w. (Reads (Whole 1700000000000), w)),
      on_random = (\<lambda>w. (RandomBytes (replicate 32 (CHR ''A'')), w))\<rparr>"

lemma login_sel [simp]:
  "uf_complete login_flow = Identity_flow" "uf_cookie login_flow = \<lparr>ck_name = ''c'', ck_secure = False\<rparr>"
  "uf_fraction login_flow t = (False, 0, 0)" "nq_headers (login_callback q) = [(''cookie'', Str ''c=jwt'')]"
  "nq_ip (login_callback q) = None" "nq_query (login_callback q) = q"
  "on_call login_env (StorePort (Consume_jti j x)) w = (Inr (Boolean True), w)"
  "on_call login_env (CheckRate key) w = (Inr (Boolean True), w)"
  "on_call login_env (BuildAuthorizationUrl v) w = (Inr (Str ''https://idp.example/auth''), w)"
  "on_call login_env (ExchangeUpstream v) w = (Inr Undefined, w)"
  "on_clock login_env w = (Reads (Whole 1700000000000), w)"
  "on_random login_env w = (RandomBytes (replicate 32 (CHR ''A'')), w)"
  by (simp_all add: login_flow_def login_callback_def login_env_def)

lemma login_cookie: "readFlowCookie [(''cookie'', Str ''c=jwt'')] \<lparr>ck_name = ''c'', ck_secure = False\<rparr> = Some ''jwt''"
  by code_simp

lemma login_verified: "verified_flow login_flow t = Inr login_claims"
  by (simp add: verified_flow_def login_flow_def verifyFlowToken_def login_members_def own_Cons own_def flowString_def
      requiredPositiveNumber_def map_has_def login_claims_def)

lemma login_flow_of: "flow_of login_flow (login_callback q) claims \<longleftrightarrow> claims = login_claims"
  by (auto simp: flow_of_def login_cookie login_verified)

lemma login_expiry: "expiry_iso (uf_fraction login_flow) (Whole 1700000600) = Inr (toISOString 1700000600000)"
  by (simp add: expiry_iso_def exp_floor_def)

definition back_query :: "(string \<times> jsval) list" where
  "back_query = [(''state'', Str ''s''), (''code'', Str ''code-1'')]"

lemma back_reads:
  "findRepeatedKeys (Obj back_query) CALLBACK_DUP_KEYS = []" "queryString back_query ''state'' = Some ''s''"
  "queryString back_query ''code'' = Some ''code-1''" "queryString back_query ''error'' = None"
  "timingSafeStringEqual ''s'' ''s''"
  by code_simp+

lemma login_claims_sel [simp]:
  "fl_client login_claims = None" "fl_exp login_claims = Whole 1700000600" "fl_state login_claims = ''s''"
  "fl_jti login_claims = ''upf_1''"
  by (simp_all add: login_claims_def)

lemma login_exchanged:
  "\<exists>r tr au. perform login_env (flowCallback login_flow (login_callback back_query)) () = (r, tr, au, ())
     \<and> (ExchangeUpstream (exchange_request login_claims ''code-1''), Inr Undefined) \<in> set tr"
proof -
  have g: "guard prefix None False = Ask (CheckRate (guard_key prefix None)) (\<lambda>r. case r of Inl _ \<Rightarrow> pass () | Inr a \<Rightarrow> check (truthy_value a) rate_refused)"
    for prefix by (simp add: guard_def)
  have s: "snapshotRedirectExchangeResult n Undefined b = Inl (port_type_error ''RedirectIdentityPort.exchangeAndVerify result must be an object'')"
    for n b by (simp add: snapshotRedirectExchangeResult_def requiredRecord_def)
  show ?thesis
    by (simp add: flowCallback_def g check_def truthy_value_def login_cookie readClock_def web_instant perform_bind
        callback_verdict_def back_reads login_verified exp_ceiling_def check_redirect_def match_state_def state_matches_def
        recheck_client_def client_param_def spend_flow_def login_expiry lift_def consumeConsentJtiSnapshot_def askPort_def
        snapshotBoolean_def callPort_def first_use_def exchange_code_def exchangeUpstreamIdentity_def s provider_error_def
        answer_client_def failed_def catch_run andThen_def Let_def)
qed

theorem exchange_bound_to_flow_witness:
  "flow_exchange login_flow (login_callback back_query) (exchange_request login_claims ''code-1'')"
proof -
  from login_exchanged obtain r tr au where "perform login_env (flowCallback login_flow (login_callback back_query)) () = (r, tr, au, ())"
    "(ExchangeUpstream (exchange_request login_claims ''code-1''), Inr Undefined) \<in> set tr" by blast
  from exchange_bound_to_flow [OF this] show ?thesis by simp
qed


theorem flow_exchanged_once_witness:
  "hits is_exchange (fst (snd (interleave (memory_env (\<lambda>_. Inr (Boolean True))) [0, 1, 0, 1]
       (map (\<lambda>(f, req). flowCallback f req) [(login_flow, login_callback back_query), (login_flow, login_callback [])]) demo_world)))
     \<le> unspent (''upf_1'', toISOString 1700000600000) (w_store demo_world)"
proof -
  let ?calls = "[(login_flow, login_callback back_query), (login_flow, login_callback [])]"
  obtain ts tr w' where run: "interleave (memory_env (\<lambda>_. Inr (Boolean True))) [0, 1, 0, 1]
       (map (\<lambda>(f, req). flowCallback f req) ?calls) demo_world = (ts, tr, w')" by (metis prod_cases3)
  have "hits is_exchange tr \<le> unspent (''upf_1'', toISOString 1700000600000) (w_store demo_world)"
    by (rule flow_exchanged_once [OF _ run]) (auto simp: login_flow_of login_expiry)
  with run show ?thesis by simp
qed

definition error_query :: "string \<Rightarrow> (string \<times> jsval) list" where
  "error_query e = [(''state'', Str ''s''), (''error'', Str e)]"

theorem provider_text_not_repeated_witness:
  "flowCallback login_flow (login_callback (error_query ''<script>'')) = flowCallback login_flow (login_callback (error_query ''server''))"
proof (rule provider_text_not_repeated)
  show "queryString (nq_query (login_callback (error_query ''server''))) ''error'' = Some ''server''"
    "queryString (nq_query (login_callback (error_query ''<script>''))) ''error'' = Some ''<script>''"
    "queryString (nq_query (login_callback (error_query ''<script>''))) ''state''
       = queryString (nq_query (login_callback (error_query ''server''))) ''state''"
    "findRepeatedKeys (Obj (nq_query (login_callback (error_query ''<script>'')))) CALLBACK_DUP_KEYS
       = findRepeatedKeys (Obj (nq_query (login_callback (error_query ''server'')))) CALLBACK_DUP_KEYS"
    by code_simp+
  show "(''server'' \<in> set DENIED_ERRORS) = (''<script>'' \<in> set DENIED_ERRORS)" by (simp add: DENIED_ERRORS_def)
qed simp_all

subsection \<open>Initiation\<close>

lemma login_left:
  "\<exists>res tr au. perform login_env (flowAuthorize login_flow (login_callback [])) () = (Inr res, tr, au, ()) \<and> np_redirect res \<noteq> None"
proof -
  have g: "guard prefix None False = Ask (CheckRate (guard_key prefix None)) (\<lambda>r. case r of Inl _ \<Rightarrow> pass () | Inr a \<Rightarrow> check (truthy_value a) rate_refused)"
    for prefix by (simp add: guard_def)
  have r: "randomFlowToken = Draw (\<lambda>r. Return (chain (randomBytesFrom r 32) (\<lambda>b. Inr (base64url b))))"
    by (simp add: randomFlowToken_def)
  have s: "signFlowToken (az_jose (br_auth (uf_bridge login_flow))) (sealed_request login_flow x None) (Reads (Whole 1700000000000)) = Inr ''jwt''"
    for x
  proof -
    have "nowSeconds (Reads (Whole 1700000000000)) 600 = Inr 1700000000"
      by (simp add: nowSeconds_Inr canonical_def MIN_CANONICAL_MS_def MAX_CANONICAL_MS_def safe_int_def MAX_SAFE_INTEGER_def)
    then show ?thesis by (simp add: signFlowToken_def sealed_request_def login_flow_def)
  qed
  have o: "\<not> oversized login_flow ''jwt''"
  proof -
    have "length (setCookieValue \<lparr>ck_name = ''c'', ck_secure = False\<rparr> ''jwt'' 600) = 50" by code_simp
    then show ?thesis by (simp add: oversized_def flowCookieOversized_def login_flow_def MAX_FLOW_COOKIE_BYTES_def)
  qed
  show ?thesis
    by (simp add: flowAuthorize_def g check_def truthy_value_def draw_secrets_def r randomBytesFrom_def pass_def
        initiate_for_identity_def seal_flow_def s o leave_for_identity_def buildLocation_def buildUpstreamAuthorizationUrl_def
        askPort_def url_reply_def callPort_def redirectToIdentity_def redirect_to_def catch_run andThen_def perform_bind Let_def)
qed


end
