(* ===== verification/Oidc_Discovery.thy ===== *)
theory Oidc_Discovery
  imports Id_Tokens
begin

section \<open>Discovery of an OpenID provider\<close>

text \<open>
  \<open>src/identity/generic-oidc-discovery.ts\<close>, the transports of \<open>generic-oidc-transports.ts\<close>, \<open>jwks-fetch.ts\<close> and the
  boot checks of \<open>generic-oidc.ts\<close>: the endpoints an identity holds, from the provider's own document or from the
  configuration. The network is a parameter, a \<open>fetch\<close> that answers a status and the chunks of a body; so are the
  WHATWG URL parser, \<open>JSON.parse\<close> and the lenient UTF-8 decoder. Warnings on the console are not modelled.
\<close>

record oidc_platform =
  ox_parseUrl :: url_parser
  ox_parseJson :: "string \<Rightarrow> jsval option"
  ox_decodeUtf8 :: "string \<Rightarrow> string"

definition plain_error :: "string \<Rightarrow> failure" where "plain_error m = Thrown ''Error'' m"

definition parsed_json :: "oidc_platform \<Rightarrow> string \<Rightarrow> jsval outcome" where
  "parsed_json pf text =
     (case ox_parseJson pf text of None \<Rightarrow> Inl (Thrown ''SyntaxError'' ''invalid JSON'') | Some v \<Rightarrow> Inr v)"

subsection \<open>Configuration\<close>

datatype endpoints_config = Discover | Manual string string string

datatype token_auth = Client_secret_post | Client_secret_basic

record generic_oidc_config =
  go_issuer :: string
  go_clientId :: string
  go_clientSecret :: "string option"
  go_tokenEndpointAuthMethod :: "string option"
  go_redirectUri :: string
  go_endpoints :: endpoints_config
  go_scopes :: "string option"
  go_subjectAllowlist :: "string list option"
  go_allowEmailAllowlist :: bool
  go_allowProviderWithoutPkce :: bool
  go_maxDiscoveryDocumentBytes :: jsval
  go_maxTokenResponseBytes :: jsval
  go_maxJwksDocumentBytes :: jsval

record resolved_endpoints =
  rs_authorizationEndpoint :: string
  rs_tokenEndpoint :: string
  rs_jwksUri :: string
  rs_allowedAlgs :: "string list"
  rs_tokenAuthMethod :: token_auth

subsection \<open>Caps and transports\<close>

definition bad_cap :: "string \<Rightarrow> failure" where
  "bad_cap field = plain_error (''generic_oidc_bad_config: '' @ field @ '' must be an integer in [1024, 1048576]'')"

definition discoveryDocumentCap :: "jsval \<Rightarrow> int outcome" where
  "discoveryDocumentCap v = capped_integer 65536 v (bad_cap ''maxDiscoveryDocumentBytes'')"

definition tokenResponseCap :: "jsval \<Rightarrow> int outcome" where
  "tokenResponseCap v = capped_integer 16384 v (bad_cap ''maxTokenResponseBytes'')"

definition capped_text :: "oidc_platform \<Rightarrow> int \<Rightarrow> string list \<Rightarrow> string \<Rightarrow> string outcome" where
  "capped_text pf cap chunks failureMessage =
     (case readCappedText (nat cap) 0 chunks of
        None \<Rightarrow> Inl (plain_error failureMessage)
      | Some bytes \<Rightarrow> Inr (ox_decodeUtf8 pf bytes))"

type_synonym get_transport = "string \<Rightarrow> (int \<times> jsval outcome) outcome"
type_synonym get_fetch = "string \<Rightarrow> (int \<times> string list) outcome"

definition createDiscoveryTransport :: "oidc_platform \<Rightarrow> get_fetch \<Rightarrow> int \<Rightarrow> get_transport" where
  "createDiscoveryTransport pf fetch cap address =
     chain (fetch address) (\<lambda>(st, chunks).
     Inr (st, chain (capped_text pf cap chunks
                       (''generic_oidc_discovery_failed: discovery document exceeded the '' @ decimal (nat cap) @ ''-byte cap''))
                (parsed_json pf)))"

type_synonym parameters = "(string \<times> string) list"
type_synonym post_transport = "string \<Rightarrow> parameters \<Rightarrow> parameters \<Rightarrow> (int \<times> string outcome) outcome"
type_synonym post_fetch = "string \<Rightarrow> parameters \<Rightarrow> parameters \<Rightarrow> (int \<times> string list) outcome"

text \<open>The headers are the form's content type and then those of the call; \<open>redirect: error\<close> makes a redirect throw.\<close>

definition createTokenTransport :: "oidc_platform \<Rightarrow> post_fetch \<Rightarrow> int \<Rightarrow> post_transport" where
  "createTokenTransport pf fetch cap address body headers =
     chain (fetch address body ((''content-type'', ''application/x-www-form-urlencoded'') # headers)) (\<lambda>(st, chunks).
     Inr (st, capped_text pf cap chunks
                (''generic_oidc_exchange_failed: token response exceeded the '' @ decimal (nat cap) @ ''-byte cap'')))"

text \<open>A key set: what \<open>jose\<close> gets to read of the response; a status other than 200 keeps its body unread.\<close>

datatype jwks_response = Unread int "string list" | Key_set string

definition createCappedJwksFetch :: "oidc_platform \<Rightarrow> get_fetch \<Rightarrow> int \<Rightarrow> string \<Rightarrow> jwks_response outcome" where
  "createCappedJwksFetch pf fetch cap address =
     chain (fetch address) (\<lambda>(st, chunks).
     if st \<noteq> 200 then Inr (Unread st chunks)
     else chain (capped_text pf cap chunks (''remote JWKS document exceeded the '' @ decimal (nat cap) @ ''-byte cap'')) (\<lambda>t.
          Inr (Key_set t)))"

subsection \<open>Endpoints\<close>

definition GOOGLE_DISCOVERY_HOSTS :: "string \<Rightarrow> string" where
  "GOOGLE_DISCOVERY_HOSTS field =
     (if field = ''authorization_endpoint'' then ''accounts.google.com''
      else if field = ''token_endpoint'' then ''oauth2.googleapis.com'' else ''www.googleapis.com'')"

definition invalid_url :: failure where "invalid_url = typeError ''Invalid URL''"

definition hostname_of :: "oidc_platform \<Rightarrow> string \<Rightarrow> string outcome" where
  "hostname_of pf s = (case ox_parseUrl pf s of None \<Rightarrow> Inl invalid_url | Some u \<Rightarrow> Inr (url_hostname u))"

definition assertDiscoveredEndpointHost :: "oidc_platform \<Rightarrow> string \<Rightarrow> string \<Rightarrow> string \<Rightarrow> unit outcome" where
  "assertDiscoveredEndpointHost pf issuer endpoint field =
     chain (if issuer = GOOGLE_ISSUER then Inr (GOOGLE_DISCOVERY_HOSTS field) else hostname_of pf issuer) (\<lambda>expected.
     chain (hostname_of pf endpoint) (\<lambda>host.
     require (host = expected)
       (plain_error (''generic_oidc_discovery_endpoint_host_mismatch: '' @ field
          @ '' hostname is not trusted for the configured issuer''))))"

definition stringField :: "jsval \<Rightarrow> string \<Rightarrow> string outcome" where
  "stringField v label =
     (let missing = plain_error (''generic_oidc_discovery_failed: discovery document missing '' @ label)
      in case v of Str s \<Rightarrow> if s = [] then Inl missing else Inr s | _ \<Rightarrow> Inl missing)"

definition asStringArray :: "jsval \<Rightarrow> string \<Rightarrow> string list option outcome" where
  "asStringArray v label =
     (case v of
        Undefined \<Rightarrow> Inr None
      | Arr vs \<Rightarrow>
          (case all_strings vs of
             Some ss \<Rightarrow> Inr (Some ss)
           | None \<Rightarrow> Inl (plain_error (''generic_oidc_discovery_failed: discovery '' @ apostrophe @ label @ apostrophe
                                         @ '' must contain only strings'')))
      | _ \<Rightarrow> Inl (plain_error (''generic_oidc_discovery_failed: discovery '' @ apostrophe @ label @ apostrophe
                                 @ '' must be an array when present'')))"

definition assertValidHttpsEndpoint :: "oidc_platform \<Rightarrow> string \<Rightarrow> string \<Rightarrow> unit outcome" where
  "assertValidHttpsEndpoint pf value label =
     chain (assertHttpsRaw value label) (\<lambda>_.
     case ox_parseUrl pf value of
       None \<Rightarrow> Inl (plain_error (''generic_oidc_bad_config: '' @ label @ '' must be a valid https URL''))
     | Some u \<Rightarrow>
         require (url_protocol u = ''https:'' \<and> url_hostname u \<noteq> [])
           (plain_error (''generic_oidc_bad_config: '' @ label @ '' must be a valid https URL with a hostname'')))"

definition method_text :: string where
  "method_text =
     ''generic_oidc_bad_config: tokenEndpointAuthMethod must be '' @ apostrophe @ ''client_secret_post'' @ apostrophe @ '' or ''
     @ apostrophe @ ''client_secret_basic'' @ apostrophe"

definition unsupported_text :: string where
  "unsupported_text =
     ''generic_oidc_no_supported_auth_method: the token endpoint advertises neither client_secret_post nor ''
     @ ''client_secret_basic (required for a confidential client)''"

definition resolveTokenAuthMethod :: "string option \<Rightarrow> string option \<Rightarrow> string list option \<Rightarrow> token_auth outcome" where
  "resolveTokenAuthMethod clientSecret chosen advertised =
     (if clientSecret = None \<or> clientSecret = Some [] then Inr Client_secret_post
      else case chosen of
        Some m \<Rightarrow>
          if m = ''client_secret_post'' then Inr Client_secret_post
          else if m = ''client_secret_basic'' then Inr Client_secret_basic
          else Inl (plain_error method_text)
      | None \<Rightarrow>
          (case advertised of
             None \<Rightarrow> Inr Client_secret_basic
           | Some methods \<Rightarrow>
               if ''client_secret_post'' \<in> set methods then Inr Client_secret_post
               else if ''client_secret_basic'' \<in> set methods then Inr Client_secret_basic
               else Inl (plain_error unsupported_text)))"

definition discovery_url :: "string \<Rightarrow> string" where
  "discovery_url issuer = rev (dropWhile (\<lambda>c. c = CHR ''/'') (rev issuer)) @ ''/.well-known/openid-configuration''"

definition document_object :: "jsval \<Rightarrow> claims outcome" where
  "document_object v =
     (case v of
        Obj doc \<Rightarrow> Inr doc
      | RevokedProxy \<Rightarrow> Inl (typeError ''Cannot perform IsArray on a proxy that has been revoked'')
      | _ \<Rightarrow> Inl (plain_error ''generic_oidc_discovery_failed: discovery document must be a JSON object''))"

definition issuer_mismatch :: failure where
  "issuer_mismatch =
     plain_error (''generic_oidc_discovery_issuer_mismatch: the document'' @ apostrophe
       @ ''s `issuer` must exactly equal the configured issuer (OIDC Discovery '' @ [CHR 0xC2, CHR 0xA7] @ ''4.3)'')"

definition no_pkce :: failure where
  "no_pkce =
     plain_error (''generic_oidc_no_pkce: discovery does not advertise PKCE S256 (code_challenge_methods_supported omits S256 ''
       @ em_dash @ '' RFC 8414 '' @ [CHR 0xE2, CHR 0x87, CHR 0x92]
       @ '' no PKCE); set allowProviderWithoutPkce to proceed (state + nonce + client secret still bind the flow)'')"

text \<open>What a fetched document is held to.\<close>

definition read_document :: "oidc_platform \<Rightarrow> generic_oidc_config \<Rightarrow> claims \<Rightarrow> resolved_endpoints outcome" where
  "read_document pf cfg doc =
     chain (require (own doc ''issuer'' = Str (go_issuer cfg)) issuer_mismatch) (\<lambda>_.
     chain (stringField (own doc ''authorization_endpoint'') ''authorization_endpoint'') (\<lambda>authorization.
     chain (stringField (own doc ''token_endpoint'') ''token_endpoint'') (\<lambda>token.
     chain (stringField (own doc ''jwks_uri'') ''jwks_uri'') (\<lambda>jwks.
     chain (assertValidHttpsEndpoint pf authorization ''authorization_endpoint'') (\<lambda>_.
     chain (assertValidHttpsEndpoint pf token ''token_endpoint'') (\<lambda>_.
     chain (assertValidHttpsEndpoint pf jwks ''jwks_uri'') (\<lambda>_.
     chain (assertDiscoveredEndpointHost pf (go_issuer cfg) authorization ''authorization_endpoint'') (\<lambda>_.
     chain (assertDiscoveredEndpointHost pf (go_issuer cfg) token ''token_endpoint'') (\<lambda>_.
     chain (assertDiscoveredEndpointHost pf (go_issuer cfg) jwks ''jwks_uri'') (\<lambda>_.
     chain (chain (asStringArray (own doc ''id_token_signing_alg_values_supported'') ''id_token_signing_alg_values_supported'')
              resolveAllowedAlgs) (\<lambda>algs.
     chain (asStringArray (own doc ''code_challenge_methods_supported'') ''code_challenge_methods_supported'') (\<lambda>methods.
     chain (require (''S256'' \<in> set (case methods of None \<Rightarrow> [] | Some ms \<Rightarrow> ms) \<or> go_allowProviderWithoutPkce cfg) no_pkce) (\<lambda>_.
     chain (asStringArray (own doc ''token_endpoint_auth_methods_supported'') ''token_endpoint_auth_methods_supported'') (\<lambda>advertised.
     chain (resolveTokenAuthMethod (go_clientSecret cfg) (go_tokenEndpointAuthMethod cfg) advertised) (\<lambda>m.
     Inr \<lparr>rs_authorizationEndpoint = authorization, rs_tokenEndpoint = token, rs_jwksUri = jwks, rs_allowedAlgs = algs,
          rs_tokenAuthMethod = m\<rparr>)))))))))))))))"

definition resolveEndpoints ::
    "oidc_platform \<Rightarrow> get_fetch \<Rightarrow> generic_oidc_config \<Rightarrow> get_transport option \<Rightarrow> resolved_endpoints outcome" where
  "resolveEndpoints pf fetch cfg transport =
     (case go_endpoints cfg of
        Discover \<Rightarrow>
          chain (assertValidHttpsEndpoint pf (go_issuer cfg) ''issuer'') (\<lambda>_.
          chain (discoveryDocumentCap (go_maxDiscoveryDocumentBytes cfg)) (\<lambda>cap.
          chain ((case transport of None \<Rightarrow> createDiscoveryTransport pf fetch cap | Some t \<Rightarrow> t) (discovery_url (go_issuer cfg)))
            (\<lambda>(st, body).
          chain (require (st = 200)
                   (plain_error (''generic_oidc_discovery_failed: discovery fetch returned HTTP '' @ decimal (nat st)
                      @ '' (redirects are not followed)''))) (\<lambda>_.
          chain body (\<lambda>v.
          chain (document_object v) (read_document pf cfg))))))
      | Manual authorization token jwks \<Rightarrow>
          chain (assertValidHttpsEndpoint pf authorization ''authorizationEndpoint'') (\<lambda>_.
          chain (assertValidHttpsEndpoint pf token ''tokenEndpoint'') (\<lambda>_.
          chain (assertValidHttpsEndpoint pf jwks ''jwksUri'') (\<lambda>_.
          chain (resolveAllowedAlgs None) (\<lambda>algs.
          chain (resolveTokenAuthMethod (go_clientSecret cfg) (go_tokenEndpointAuthMethod cfg) None) (\<lambda>m.
          Inr \<lparr>rs_authorizationEndpoint = authorization, rs_tokenEndpoint = token, rs_jwksUri = jwks, rs_allowedAlgs = algs,
               rs_tokenAuthMethod = m\<rparr>))))))"

subsection \<open>Boot checks of the identity\<close>

definition opt_nonblank :: "string option \<Rightarrow> bool" where
  "opt_nonblank v \<longleftrightarrow> (case v of None \<Rightarrow> True | Some s \<Rightarrow> trim s \<noteq> [])"

definition bad_config :: "string \<Rightarrow> failure" where
  "bad_config m = plain_error (''generic_oidc_bad_config: '' @ m)"

definition scopes_text :: string where
  "scopes_text =
     ''scopes must be a non-empty, space-separated list including '' @ apostrophe @ ''openid'' @ apostrophe
     @ '' (omit for the default '' @ apostrophe @ ''openid profile email'' @ apostrophe @ '')''"

definition createGenericOidcIdentity ::
    "oidc_platform \<Rightarrow> get_fetch \<Rightarrow> generic_oidc_config \<Rightarrow> get_transport option \<Rightarrow> resolved_endpoints outcome" where
  "createGenericOidcIdentity pf fetch cfg transport =
     chain (assertValidHttpsEndpoint pf (go_issuer cfg) ''issuer'') (\<lambda>_.
     chain (require (trim (go_clientId cfg) \<noteq> [])
              (bad_config ''clientId is required (an empty clientId makes the aud check vacuous)'')) (\<lambda>_.
     chain (require (trim (go_redirectUri cfg) \<noteq> []) (bad_config ''redirectUri is required'')) (\<lambda>_.
     chain (require (opt_nonblank (go_clientSecret cfg))
              (bad_config (''clientSecret must be a non-empty string if set ''
                 @ ''(an empty value would silently use public-client auth)''))) (\<lambda>_.
     chain (require (case go_scopes cfg of None \<Rightarrow> True | Some s \<Rightarrow> trim s \<noteq> [] \<and> ''openid'' \<in> set (split_ws s))
              (bad_config scopes_text)) (\<lambda>_.
     chain (discoveryDocumentCap (go_maxDiscoveryDocumentBytes cfg)) (\<lambda>_.
     chain (tokenResponseCap (go_maxTokenResponseBytes cfg)) (\<lambda>_.
     chain (jwksDocumentCap (go_maxJwksDocumentBytes cfg)) (\<lambda>_.
     resolveEndpoints pf fetch cfg transport))))))))"

end
