(* ===== verification/Oidc_Exchange.thy ===== *)
theory Oidc_Exchange
  imports Oidc_Discovery Entra_Tokens
begin

section \<open>Exchanging a provider's code\<close>

text \<open>
  \<open>exchangeCodeForToken\<close> of \<open>src/identity/generic-oidc-transports.ts\<close> and of \<open>entra.ts\<close>, the authorization URLs of
  \<open>generic-oidc.ts\<close> and \<open>entra.ts\<close>, and the redirect ports of \<open>generic-oidc-redirect.ts\<close>, \<open>google.ts\<close> and
  \<open>entra-redirect.ts\<close>. A form body is the list of its parameters; its serialisation is the platform's. What a
  failure looks like in a log, \<open>redactForStderr\<close>, is a parameter.
\<close>

subsection \<open>Authorization URLs\<close>

definition authorize_params ::
    "string \<Rightarrow> string \<Rightarrow> string \<Rightarrow> string \<Rightarrow> parameters \<Rightarrow> string \<Rightarrow> parameters" where
  "authorize_params clientId redirectUri scope state nonce challenge =
     [(''client_id'', clientId), (''response_type'', ''code''), (''redirect_uri'', redirectUri),
      (''response_mode'', ''query''), (''scope'', scope), (''state'', state)]
     @ nonce @ [(''code_challenge'', challenge), (''code_challenge_method'', ''S256'')]"

text \<open>\<open>withParams\<close> is \<open>new URL(endpoint)\<close> with each parameter set in its query; nothing when the URL does not parse.\<close>

definition getAuthorizationUrl ::
    "(string \<Rightarrow> parameters \<Rightarrow> string option) \<Rightarrow> generic_oidc_config \<Rightarrow> resolved_endpoints \<Rightarrow> string option
       \<Rightarrow> string \<Rightarrow> string \<Rightarrow> string \<Rightarrow> string outcome" where
  "getAuthorizationUrl withParams cfg resolved challengeMethod state nonce challenge =
     chain (require (challengeMethod \<in> {None, Some ''S256''})
              (bad_config (''codeChallengeMethod must be S256 (PKCE plain/other rejected '' @ em_dash @ '' ''
                 @ [CHR 0xC2, CHR 0xA7] @ ''17.6)''))) (\<lambda>_.
     case withParams (rs_authorizationEndpoint resolved)
            (authorize_params (go_clientId cfg) (go_redirectUri cfg)
               (case go_scopes cfg of None \<Rightarrow> ''openid profile email'' | Some s \<Rightarrow> s) state [(''nonce'', nonce)] challenge) of
       None \<Rightarrow> Inl invalid_url
     | Some u \<Rightarrow> Inr u)"

text \<open>
  Entra's parameters in the order of the source: the nonce comes last, and only when there is one. The requested
  scope falls back to one with \<open>offline_access\<close>, which the redirect port never uses.
\<close>

definition entraAuthorizationUrl ::
    "(parameters \<Rightarrow> string) \<Rightarrow> entra_config \<Rightarrow> string option \<Rightarrow> string option \<Rightarrow> string \<Rightarrow> string option \<Rightarrow> string
       \<Rightarrow> string outcome" where
  "entraAuthorizationUrl formEncode cfg challengeMethod scope state nonce challenge =
     chain (require (challengeMethod \<in> {None, Some ''S256''})
              (plain_error (''entra_bad_config: codeChallengeMethod must be S256 (PKCE plain/other rejected '' @ em_dash
                 @ '' sibling of generic-oidc)''))) (\<lambda>_.
     Inr (entraAuthorizeEndpoint (en_tenantId cfg) @ ''?''
       @ formEncode (authorize_params (en_clientId cfg) (en_redirectUri cfg)
           (case scope of None \<Rightarrow> ''openid profile email offline_access'' | Some s \<Rightarrow> s) state [] challenge
           @ (case nonce of None \<Rightarrow> [] | Some n \<Rightarrow> if n = [] then [] else [(''nonce'', n)]))))"

subsection \<open>Client credentials of the exchange\<close>

definition hex_upper :: "nat \<Rightarrow> char" where
  "hex_upper n = (if n < 10 then char_of (48 + n) else char_of (55 + n))"

definition uri_unreserved :: "char \<Rightarrow> bool" where
  "uri_unreserved c \<longleftrightarrow> is_alpha c \<or> is_digit c \<or> c \<in> set ''-_.!~*()'' \<or> byte c = 39"

definition escape_byte :: "char \<Rightarrow> string" where
  "escape_byte c =
     (if uri_unreserved c then [c] else if c = CHR '' '' then ''+''
      else [CHR ''%'', hex_upper (byte c div 16), hex_upper (byte c mod 16)])"

text \<open>\<open>encodeURIComponent\<close>, with the plus sign for a space; a lone surrogate has no encoding.\<close>

definition formUrlEncode :: "string \<Rightarrow> string outcome" where
  "formUrlEncode s =
     (if isWellFormed s then Inr (concat (map escape_byte s)) else Inl (Thrown ''URIError'' ''URI malformed''))"

definition base64 :: "string \<Rightarrow> string" where
  "base64 s =
     (let t = map (\<lambda>c. if c = CHR ''-'' then CHR ''+'' else if c = CHR ''_'' then CHR ''/'' else c) (base64url s)
      in t @ replicate ((4 - length t mod 4) mod 4) (CHR ''=''))"

definition basic_header :: "string \<Rightarrow> string \<Rightarrow> string outcome" where
  "basic_header clientId secret =
     chain (formUrlEncode clientId) (\<lambda>i. chain (formUrlEncode secret) (\<lambda>s. Inr (''Basic '' @ base64 (i @ '':'' @ s))))"

definition held_secret :: "string option \<Rightarrow> string option" where
  "held_secret v = (if v = Some [] then None else v)"

text \<open>The body and the headers of the request.\<close>

definition exchange_form :: "generic_oidc_config \<Rightarrow> resolved_endpoints \<Rightarrow> string \<Rightarrow> string \<Rightarrow> (parameters \<times> parameters) outcome" where
  "exchange_form cfg resolved c codeVerifier =
     (let body = [(''grant_type'', ''authorization_code''), (''code'', c), (''redirect_uri'', go_redirectUri cfg),
                  (''code_verifier'', codeVerifier)]
      in case held_secret (go_clientSecret cfg) of
           None \<Rightarrow> Inr (body @ [(''client_id'', go_clientId cfg)], [])
         | Some secret \<Rightarrow>
             if rs_tokenAuthMethod resolved = Client_secret_basic
             then chain (basic_header (go_clientId cfg) secret) (\<lambda>h. Inr (body, [(''authorization'', h)]))
             else Inr (body @ [(''client_id'', go_clientId cfg), (''client_secret'', secret)], []))"

subsection \<open>Reading the response\<close>

fun collapse_lines :: "bool \<Rightarrow> string \<Rightarrow> string" where
  "collapse_lines inside [] = []"
| "collapse_lines inside (c # s) =
     (if byte c = 10 \<or> byte c = 13 then (if inside then [] else '' '') @ collapse_lines True s
      else c # collapse_lines False s)"

text \<open>The detail of an error response: what the provider said, when its body is a JSON object that says it.\<close>

definition error_detail :: "jsval option \<Rightarrow> string" where
  "error_detail parsed =
     (case parsed of
        Some (Obj e) \<Rightarrow>
          (case own e ''error'' of
             Str err \<Rightarrow> '': '' @ err
               @ (case own e ''error_description'' of
                    Str d \<Rightarrow> '' '' @ em_dash @ '' '' @ collapse_lines False d
                  | _ \<Rightarrow> [])
           | _ \<Rightarrow> [])
      | _ \<Rightarrow> [])"

text \<open>A member of a parsed response; \<open>null\<close> has none and reading one throws.\<close>

definition response_member :: "jsval \<Rightarrow> string \<Rightarrow> jsval outcome" where
  "response_member v key =
     (case v of
        Obj kvs \<Rightarrow> Inr (own kvs key)
      | Null \<Rightarrow> Inl (typeError (''Cannot read properties of null (reading '' @ apostrophe @ key @ apostrophe @ '')''))
      | _ \<Rightarrow> Inr Undefined)"

record token_response =
  tr_id_token :: string
  tr_access_token :: string

definition exchange_failed :: "string \<Rightarrow> failure" where
  "exchange_failed m = plain_error (''generic_oidc_exchange_failed: '' @ m)"

definition nonempty_member :: "jsval \<Rightarrow> string \<Rightarrow> string \<Rightarrow> string outcome" where
  "nonempty_member v key problem =
     chain (response_member v key) (\<lambda>m.
       case m of Str s \<Rightarrow> if s = [] then Inl (exchange_failed problem) else Inr s | _ \<Rightarrow> Inl (exchange_failed problem))"

definition read_token_response :: "oidc_platform \<Rightarrow> int \<Rightarrow> string \<Rightarrow> token_response outcome" where
  "read_token_response pf st text =
     (if st \<noteq> 200
      then Inl (exchange_failed (''token endpoint returned HTTP '' @ decimal (nat st) @ error_detail (ox_parseJson pf text)))
      else chain (parsed_json pf text) (\<lambda>v.
           chain (nonempty_member v ''id_token'' ''token response missing id_token'') (\<lambda>i.
           chain (nonempty_member v ''access_token'' ''token response missing access_token (required in the OIDC code flow)'') (\<lambda>a.
           Inr \<lparr>tr_id_token = i, tr_access_token = a\<rparr>))))"

definition exchangeCodeForToken ::
    "oidc_platform \<Rightarrow> generic_oidc_config \<Rightarrow> resolved_endpoints \<Rightarrow> string \<Rightarrow> string \<Rightarrow> post_transport
       \<Rightarrow> token_response outcome" where
  "exchangeCodeForToken pf cfg resolved c codeVerifier transport =
     chain (exchange_form cfg resolved c codeVerifier) (\<lambda>(body, headers).
     chain (transport (rs_tokenEndpoint resolved) body headers) (\<lambda>(st, text).
     chain text (read_token_response pf st)))"

subsection \<open>Redirect ports\<close>

text \<open>The \<open>RedirectExchangeResult\<close> of a port.\<close>

definition failed_exchange :: "string \<Rightarrow> string \<Rightarrow> jsval" where
  "failed_exchange kind reason = Obj [(''ok'', Boolean False), (''kind'', Str kind), (''reason'', Str reason)]"

definition redirect_outcome :: "string \<Rightarrow> id_answer \<Rightarrow> jsval" where
  "redirect_outcome outage a =
     (case a of
        Rejected reason \<Rightarrow>
          failed_exchange (if reason = outage then ''exchange_failed'' else ''identity_rejected'') reason
      | Accepted _ _ _ \<Rightarrow> id_value a)"

definition wrapRedirectIdentity ::
    "oidc_platform \<Rightarrow> (failure \<Rightarrow> string) \<Rightarrow> jwt_verifier \<Rightarrow> generic_oidc_config \<Rightarrow> resolved_endpoints
       \<Rightarrow> (claims \<Rightarrow> validate_opts \<Rightarrow> id_answer) \<Rightarrow> post_transport \<Rightarrow> string \<Rightarrow> string \<Rightarrow> string \<Rightarrow> jsval" where
  "wrapRedirectIdentity pf redact jose cfg resolved validate transport c codeVerifier nonce =
     (case exchangeCodeForToken pf cfg resolved c codeVerifier transport of
        Inl e \<Rightarrow> failed_exchange ''exchange_failed'' (redact e)
      | Inr tokens \<Rightarrow>
          redirect_outcome ''generic_oidc_verify_failed''
            (oidc_verify jose (rs_allowedAlgs resolved) validate (Some nonce) (Some (tr_access_token tokens))
               (Str (tr_id_token tokens))))"

definition claim_config :: "generic_oidc_config \<Rightarrow> oidc_claim_config" where
  "claim_config cfg =
     \<lparr>oc_issuer = go_issuer cfg, oc_clientId = go_clientId cfg, oc_subjectAllowlist = go_subjectAllowlist cfg,
      oc_allowEmailAllowlist = go_allowEmailAllowlist cfg\<rparr>"

text \<open>\<open>createGenericOidcRedirectIdentity\<close> boots the identity; the port it answers handles one exchange as follows.\<close>

definition generic_redirect_exchange ::
    "oidc_platform \<Rightarrow> (failure \<Rightarrow> string) \<Rightarrow> (string \<Rightarrow> string) \<Rightarrow> jwt_verifier \<Rightarrow> generic_oidc_config \<Rightarrow> resolved_endpoints
       \<Rightarrow> post_transport \<Rightarrow> string \<Rightarrow> string \<Rightarrow> string \<Rightarrow> jsval" where
  "generic_redirect_exchange pf redact lower jose cfg resolved transport =
     wrapRedirectIdentity pf redact jose cfg resolved (validateGenericOidcIdToken lower (claim_config cfg)) transport"

definition google_oidc_config :: "google_config \<Rightarrow> string \<Rightarrow> string option \<Rightarrow> generic_oidc_config" where
  "google_oidc_config cfg redirectUri scopes =
     \<lparr>go_issuer = GOOGLE_ISSUER, go_clientId = gg_clientId cfg, go_clientSecret = Some (gg_clientSecret cfg),
      go_tokenEndpointAuthMethod = None, go_redirectUri = redirectUri, go_endpoints = Discover, go_scopes = scopes,
      go_subjectAllowlist = gg_subjectAllowlist cfg, go_allowEmailAllowlist = gg_allowEmailAllowlist cfg,
      go_allowProviderWithoutPkce = False, go_maxDiscoveryDocumentBytes = Undefined, go_maxTokenResponseBytes = Undefined,
      go_maxJwksDocumentBytes = Undefined\<rparr>"

definition createGoogleIdentity ::
    "oidc_platform \<Rightarrow> get_fetch \<Rightarrow> google_config \<Rightarrow> string \<Rightarrow> string option \<Rightarrow> get_transport option \<Rightarrow> resolved_endpoints outcome" where
  "createGoogleIdentity pf fetch cfg redirectUri scopes transport =
     chain (google_config_ok cfg) (\<lambda>_.
     chain (assertHttpsRaw GOOGLE_ISSUER ''google issuer'') (\<lambda>_.
     createGenericOidcIdentity pf fetch (google_oidc_config cfg redirectUri scopes) transport))"

definition google_redirect_exchange ::
    "oidc_platform \<Rightarrow> (failure \<Rightarrow> string) \<Rightarrow> (string \<Rightarrow> string) \<Rightarrow> jwt_verifier \<Rightarrow> google_config \<Rightarrow> string \<Rightarrow> string option
       \<Rightarrow> resolved_endpoints \<Rightarrow> post_transport \<Rightarrow> string \<Rightarrow> string \<Rightarrow> string \<Rightarrow> jsval" where
  "google_redirect_exchange pf redact lower jose cfg redirectUri scopes resolved transport =
     wrapRedirectIdentity pf redact jose (google_oidc_config cfg redirectUri scopes) resolved
       (validateGoogleIdToken lower cfg) transport"

subsection \<open>Entra\<close>

definition entra_form :: "entra_config \<Rightarrow> string \<Rightarrow> string \<Rightarrow> parameters" where
  "entra_form cfg c codeVerifier =
     [(''client_id'', en_clientId cfg), (''grant_type'', ''authorization_code''), (''code'', c),
      (''redirect_uri'', en_redirectUri cfg), (''code_verifier'', codeVerifier)]
     @ (case held_secret (en_clientSecret cfg) of
          Some secret \<Rightarrow> [(''client_secret'', secret)]
        | None \<Rightarrow> [(''scope'', ''openid profile email'')])"

text \<open>
  The body is read once the status is known; a body that cannot be read is only the missing detail of an error
  status. Any truthy \<open>id_token\<close> is passed on, and one that is not a string is no token to \<open>verify\<close>.
\<close>

definition entraExchangeCodeForToken ::
    "oidc_platform \<Rightarrow> entra_config \<Rightarrow> string \<Rightarrow> string \<Rightarrow> (string \<Rightarrow> parameters \<Rightarrow> (int \<times> string outcome) outcome)
       \<Rightarrow> jsval outcome" where
  "entraExchangeCodeForToken pf cfg c codeVerifier transport =
     chain (transport (entraTokenEndpoint (en_tenantId cfg)) (entra_form cfg c codeVerifier)) (\<lambda>(st, text).
     if st \<noteq> 200
     then Inl (plain_error (''entra token exchange failed: HTTP '' @ decimal (nat st)
                 @ (case text of Inl _ \<Rightarrow> [] | Inr t \<Rightarrow> error_detail (ox_parseJson pf t))))
     else chain text (\<lambda>t.
          chain (parsed_json pf t) (\<lambda>v.
          chain (response_member v ''id_token'') (\<lambda>i.
          if truthy_value i then Inr i else Inl (plain_error ''entra token exchange returned no id_token'')))))"

definition entra_redirect_exchange ::
    "oidc_platform \<Rightarrow> (failure \<Rightarrow> string) \<Rightarrow> (string \<Rightarrow> string) \<Rightarrow> jwt_verifier \<Rightarrow> entra_config
       \<Rightarrow> (string \<Rightarrow> parameters \<Rightarrow> (int \<times> string outcome) outcome) \<Rightarrow> string \<Rightarrow> string \<Rightarrow> string \<Rightarrow> jsval" where
  "entra_redirect_exchange pf redact lower jose cfg transport c codeVerifier nonce =
     (case entraExchangeCodeForToken pf cfg c codeVerifier transport of
        Inl e \<Rightarrow> failed_exchange ''exchange_failed'' (redact e)
      | Inr i \<Rightarrow> redirect_outcome ''entra_verify_failed'' (entra_verify lower jose cfg (Some nonce) i))"

end
