(* ===== verification/Oidc_Laws.thy ===== *)
theory Oidc_Laws
  imports Oidc_Exchange Id_Token_Laws Port_Results
begin

section \<open>Guarantees of discovery and exchange\<close>

subsection \<open>Trusted endpoints\<close>

definition trusted_endpoint :: "oidc_platform \<Rightarrow> string \<Rightarrow> string \<Rightarrow> string \<Rightarrow> bool" where
  "trusted_endpoint pf issuer field endpoint \<longleftrightarrow>
     startsWith endpoint ''https://''
     \<and> (\<exists>u. ox_parseUrl pf endpoint = Some u \<and> url_protocol u = ''https:'' \<and> url_hostname u \<noteq> []
          \<and> (if issuer = GOOGLE_ISSUER then url_hostname u = GOOGLE_DISCOVERY_HOSTS field
             else \<exists>i. ox_parseUrl pf issuer = Some i \<and> url_hostname u = url_hostname i))"

lemma valid_endpoint:
  "assertValidHttpsEndpoint pf v l = Inr x \<longleftrightarrow>
     startsWith v ''https://'' \<and> (\<exists>u. ox_parseUrl pf v = Some u \<and> url_protocol u = ''https:'' \<and> url_hostname u \<noteq> [])"
  by (auto simp: assertValidHttpsEndpoint_def assertHttpsRaw_def result_simps split: option.splits)

lemma hostname_of_Inr: "hostname_of pf s = Inr h \<longleftrightarrow> (\<exists>u. ox_parseUrl pf s = Some u \<and> h = url_hostname u)"
  by (auto simp: hostname_of_def split: option.splits)

lemma discovered_host:
  assumes "assertValidHttpsEndpoint pf v l = Inr x" and "assertDiscoveredEndpointHost pf issuer v field = Inr y"
  shows "trusted_endpoint pf issuer field v"
  using assms unfolding valid_endpoint
  by (auto simp: trusted_endpoint_def assertDiscoveredEndpointHost_def hostname_of_Inr result_simps split: if_splits)

lemma offered_strings: "asStringArray v l = Inr methods \<Longrightarrow> (case methods of None \<Rightarrow> v = Undefined | Some ms \<Rightarrow> v = Arr (map Str ms))"
  by (auto simp: asStringArray_def all_strings_iff split: jsval.split_asm option.split_asm)

lemma document_trusted:
  assumes "read_document pf cfg doc = Inr r"
  shows "own doc ''issuer'' = Str (go_issuer cfg)
    \<and> trusted_endpoint pf (go_issuer cfg) ''authorization_endpoint'' (rs_authorizationEndpoint r)
    \<and> trusted_endpoint pf (go_issuer cfg) ''token_endpoint'' (rs_tokenEndpoint r)
    \<and> trusted_endpoint pf (go_issuer cfg) ''jwks_uri'' (rs_jwksUri r)
    \<and> rs_allowedAlgs r \<noteq> [] \<and> set (rs_allowedAlgs r) \<subseteq> set PINNED_ALGS
    \<and> (go_allowProviderWithoutPkce cfg
       \<or> (\<exists>ms. own doc ''code_challenge_methods_supported'' = Arr (map Str ms) \<and> ''S256'' \<in> set ms))"
  using assms unfolding read_document_def
  by (elim chain_InrE) (auto intro: discovered_host pinned_algs(2) dest: pinned_algs(1) dest!: offered_strings split: option.split_asm)

text \<open>A default transport and what it read.\<close>

lemma capped_text_Inr:
  "capped_text pf cap chunks m = Inr t \<longleftrightarrow> length (concat chunks) \<le> nat cap \<and> t = ox_decodeUtf8 pf (concat chunks)"
  by (auto simp: capped_text_def readCappedText_eq)

lemma parsed_json_Inr: "parsed_json pf t = Inr v \<longleftrightarrow> ox_parseJson pf t = Some v"
  by (auto simp: parsed_json_def split: option.splits)

lemma document_object_Inr: "document_object v = Inr doc \<longleftrightarrow> v = Obj doc"
  by (auto simp: document_object_def split: jsval.splits)

lemma cap_domain: "discoveryDocumentCap v = Inr cap \<Longrightarrow> 1024 \<le> cap \<and> cap \<le> 1048576"
  by (auto simp: discoveryDocumentCap_def capped_integer_def split: jsval.split_asm num.split_asm if_split_asm)

lemma discovery_read:
  assumes "resolveEndpoints pf fetch cfg None = Inr r" and "go_endpoints cfg = Discover"
  shows "\<exists>cap chunks doc. discoveryDocumentCap (go_maxDiscoveryDocumentBytes cfg) = Inr cap
    \<and> fetch (discovery_url (go_issuer cfg)) = Inr (200, chunks) \<and> length (concat chunks) \<le> nat cap
    \<and> ox_parseJson pf (ox_decodeUtf8 pf (concat chunks)) = Some (Obj doc) \<and> read_document pf cfg doc = Inr r"
  using assms unfolding resolveEndpoints_def createDiscoveryTransport_def
  by (auto simp: result_simps capped_text_Inr parsed_json_Inr document_object_Inr split: prod.split_asm)

lemma boot_resolves:
  assumes "createGenericOidcIdentity pf fetch cfg transport = Inr r"
  shows "resolveEndpoints pf fetch cfg transport = Inr r"
  using assms unfolding createGenericOidcIdentity_def by (elim chain_InrE)

text \<open>
  An identity that boots from discovery has read a document of at most the configured number of bytes (never more
  than a mebibyte) from the issuer's own well-known address, without a redirect; the document names exactly the
  configured issuer, every endpoint is an HTTPS URL on the issuer's host (on Google's fixed hosts for Google), only
  pinned signature algorithms are accepted, and PKCE with S256 is offered unless the deployer has waived it.
\<close>

theorem discovered_endpoints_trusted:
  assumes "createGenericOidcIdentity pf fetch cfg None = Inr r" and "go_endpoints cfg = Discover"
  shows "\<exists>chunks doc. fetch (discovery_url (go_issuer cfg)) = Inr (200, chunks)
    \<and> length (concat chunks) \<le> 1048576
    \<and> (\<forall>cap. discoveryDocumentCap (go_maxDiscoveryDocumentBytes cfg) = Inr cap \<longrightarrow> int (length (concat chunks)) \<le> cap)
    \<and> ox_parseJson pf (ox_decodeUtf8 pf (concat chunks)) = Some (Obj doc)
    \<and> own doc ''issuer'' = Str (go_issuer cfg)
    \<and> trusted_endpoint pf (go_issuer cfg) ''authorization_endpoint'' (rs_authorizationEndpoint r)
    \<and> trusted_endpoint pf (go_issuer cfg) ''token_endpoint'' (rs_tokenEndpoint r)
    \<and> trusted_endpoint pf (go_issuer cfg) ''jwks_uri'' (rs_jwksUri r)
    \<and> rs_allowedAlgs r \<noteq> [] \<and> set (rs_allowedAlgs r) \<subseteq> set PINNED_ALGS
    \<and> (go_allowProviderWithoutPkce cfg
       \<or> (\<exists>ms. own doc ''code_challenge_methods_supported'' = Arr (map Str ms) \<and> ''S256'' \<in> set ms))"
proof -
  obtain cap chunks doc where cap: "discoveryDocumentCap (go_maxDiscoveryDocumentBytes cfg) = Inr cap"
    and read: "fetch (discovery_url (go_issuer cfg)) = Inr (200, chunks)" "length (concat chunks) \<le> nat cap"
      "ox_parseJson pf (ox_decodeUtf8 pf (concat chunks)) = Some (Obj doc)" and doc: "read_document pf cfg doc = Inr r"
    using discovery_read [OF boot_resolves [OF assms(1)] assms(2)] by blast
  have "length (concat chunks) \<le> 1048576" and "int (length (concat chunks)) \<le> cap"
    using read(2) cap_domain [OF cap] by linarith+
  then show ?thesis using cap read document_trusted [OF doc] by auto
qed

subsection \<open>What an exchange proves\<close>

lemma outcome_crosses:
  "snapshotRedirectExchangeResult numText (redirect_outcome outage a) False =
     (case a of
        Rejected reason \<Rightarrow>
          Inr (ExchangeFailed (if reason = outage then ''exchange_failed'' else ''identity_rejected'') reason)
      | Accepted sub allowed cs \<Rightarrow> chain (identitySubject sub) (\<lambda>s. Inr (Exchanged s (carried_ceiling allowed))))"
proof (cases a)
  case (Accepted sub allowed cs)
  have "snapshotPortScopeCarrier (case allowed of None \<Rightarrow> Undefined | Some ss \<Rightarrow> Arr (map Str ss)) = Inr (carried_ceiling allowed)"
    by (cases allowed) (simp_all add: snapshotPortScopeCarrier_def carried_ceiling_def)
  then show ?thesis unfolding Accepted
    by (cases allowed)
      (simp_all add: redirect_outcome_def id_value_def snapshotRedirectExchangeResult_def requiredRecord_def own_def)
qed (simp add: redirect_outcome_def failed_exchange_def snapshotRedirectExchangeResult_def requiredRecord_def own_def
       str_of_def reason_of_def)

lemma failed_crosses:
  "kind \<in> {''exchange_failed'', ''identity_rejected''} \<Longrightarrow>
     snapshotRedirectExchangeResult numText (failed_exchange kind reason) b = Inr (ExchangeFailed kind reason)"
  by (auto simp: failed_exchange_def snapshotRedirectExchangeResult_def requiredRecord_def own_def str_of_def reason_of_def)

lemma identitySubject_Str: "identitySubject v = Inr s \<Longrightarrow> v = Str s"
  by (auto simp: identitySubject_def split: jsval.split_asm if_split_asm)

lemma nonempty_member_Inr:
  "nonempty_member v key problem = Inr s \<Longrightarrow> s \<noteq> [] \<and> (\<exists>kvs. v = Obj kvs \<and> own kvs key = Str s)"
  by (auto simp: nonempty_member_def response_member_def result_simps split: jsval.split_asm if_split_asm)

lemma token_response_read:
  assumes "read_token_response pf st t = Inr tokens"
  shows "st = 200 \<and> tr_id_token tokens \<noteq> []
    \<and> (\<exists>kvs. ox_parseJson pf t = Some (Obj kvs) \<and> own kvs ''id_token'' = Str (tr_id_token tokens)
         \<and> own kvs ''access_token'' = Str (tr_access_token tokens))"
  using assms unfolding read_token_response_def
  by (auto simp: result_simps parsed_json_Inr dest!: nonempty_member_Inr split: if_split_asm)

lemma exchange_posts:
  assumes "exchangeCodeForToken pf cfg r c verifier transport = Inr tokens"
  shows "\<exists>body headers t. exchange_form cfg r c verifier = Inr (body, headers)
    \<and> transport (rs_tokenEndpoint r) body headers = Inr (200, Inr t) \<and> read_token_response pf 200 t = Inr tokens"
  using assms token_response_read unfolding exchangeCodeForToken_def
  by (fastforce simp: result_simps split: prod.split_asm)

lemma form_binds:
  assumes "exchange_form cfg r c verifier = Inr (body, headers)"
  shows "map_of body ''grant_type'' = Some ''authorization_code'' \<and> map_of body ''code'' = Some c
    \<and> map_of body ''redirect_uri'' = Some (go_redirectUri cfg) \<and> map_of body ''code_verifier'' = Some verifier"
  using assms by (auto simp: exchange_form_def Let_def result_simps split: option.split_asm if_split_asm)

lemma resolved_algs:
  assumes "resolveEndpoints pf fetch cfg transport = Inr r"
  shows "rs_allowedAlgs r \<noteq> [] \<and> set (rs_allowedAlgs r) \<subseteq> set PINNED_ALGS"
proof (cases "go_endpoints cfg")
  case Discover
  with assms obtain doc where "read_document pf cfg doc = Inr r" unfolding resolveEndpoints_def by (auto elim!: chain_InrE)
  then show ?thesis using document_trusted by blast
next
  case (Manual authorization token jwks)
  with assms show ?thesis
    unfolding resolveEndpoints_def by (auto elim!: chain_InrE dest: pinned_algs)
qed

text \<open>
  C30. A subject that comes out of the redirect port of a generic OpenID identity belongs to the exchange that was
  asked for: the identity booted with at least one signature algorithm, each RS256 or ES256; its token endpoint was sent
  the code, the redirect URI and the PKCE verifier of the flow and answered 200 with an ID token that \<open>jose\<close> verified
  under those algorithms; and that token names the configured issuer, this client as its only audience and the nonce of
  the flow. The subject is the issuer, a bar and the token's own subject, never another claim, and no scope ceiling comes
  with it.
\<close>

theorem exchange_bound_to_provider:
  assumes "createGenericOidcIdentity pf fetch cfg discovery = Inr r"
    and "snapshotRedirectExchangeResult numText
      (generic_redirect_exchange pf redact lower jose cfg r transport c verifier nonce) False = Inr (Exchanged sub allowed)"
  shows "\<exists>body headers t kvs token v s. exchange_form cfg r c verifier = Inr (body, headers)
    \<and> map_of body ''code'' = Some c \<and> map_of body ''redirect_uri'' = Some (go_redirectUri cfg)
    \<and> map_of body ''code_verifier'' = Some verifier
    \<and> transport (rs_tokenEndpoint r) body headers = Inr (200, Inr t)
    \<and> ox_parseJson pf t = Some (Obj kvs) \<and> own kvs ''id_token'' = Str token
    \<and> jose token (rs_allowedAlgs r) = Inr v \<and> rs_allowedAlgs r \<noteq> [] \<and> set (rs_allowedAlgs r) \<subseteq> {''RS256'', ''ES256''}
    \<and> own (vj_payload v) ''iss'' = Str (go_issuer cfg)
    \<and> own (vj_payload v) ''aud'' \<in> {Str (go_clientId cfg), Arr [Str (go_clientId cfg)]}
    \<and> own (vj_payload v) ''nonce'' = Str nonce
    \<and> own (vj_payload v) ''sub'' = Str s \<and> s \<noteq> [] \<and> sub = go_issuer cfg @ ''|'' @ s \<and> allowed = Undefined"
proof -
  let ?validate = "validateGenericOidcIdToken lower (claim_config cfg)"
  obtain tokens where tokens: "exchangeCodeForToken pf cfg r c verifier transport = Inr tokens"
    using assms(2) by (cases "exchangeCodeForToken pf cfg r c verifier transport")
      (auto simp: generic_redirect_exchange_def wrapRedirectIdentity_def failed_crosses)
  let ?answer = "oidc_verify jose (rs_allowedAlgs r) ?validate (Some nonce) (Some (tr_access_token tokens)) (Str (tr_id_token tokens))"
  have crossed: "snapshotRedirectExchangeResult numText (redirect_outcome ''generic_oidc_verify_failed'' ?answer) False
      = Inr (Exchanged sub allowed)"
    using assms(2) by (simp add: generic_redirect_exchange_def wrapRedirectIdentity_def tokens)
  then obtain sub' allowed' cs where answer: "?answer = Accepted sub' allowed' cs"
    by (cases ?answer) (auto simp: outcome_crosses)
  then have sub: "sub' = Str sub" and allowed: "allowed = carried_ceiling allowed'"
    using crossed by (auto simp: outcome_crosses result_simps dest: identitySubject_Str)
  obtain v where v: "jose (tr_id_token tokens) (rs_allowedAlgs r) = Inr v"
    and ok: "?validate (vj_payload v) \<lparr>vo_expectedNonce = Some nonce, vo_accessToken = Some (tr_access_token tokens),
      vo_alg = claim_string (vj_alg v)\<rparr> = Accepted sub' allowed' cs"
    using oidc_verify_accepts [OF answer] by auto
  obtain body headers t where posted: "exchange_form cfg r c verifier = Inr (body, headers)"
    "transport (rs_tokenEndpoint r) body headers = Inr (200, Inr t)" "read_token_response pf 200 t = Inr tokens"
    using exchange_posts [OF tokens] by blast
  show ?thesis
    using ok sub allowed v posted(1,2) resolved_algs [OF boot_resolves [OF assms(1)]] form_binds [OF posted(1)] token_response_read [OF posted(3)]
    by (auto simp: generic_accepts generic_identity_def claim_config_def normalizeAud_single carried_ceiling_def PINNED_ALGS_def)
qed

text \<open>A provider that is discovered and answers one exchange.\<close>

definition demo_document :: claims where
  "demo_document =
     [(''issuer'', Str ''https://idp.example''), (''authorization_endpoint'', Str ''https://idp.example/a''),
      (''token_endpoint'', Str ''https://idp.example/t''), (''jwks_uri'', Str ''https://idp.example/k''),
      (''code_challenge_methods_supported'', Arr [Str ''S256''])]"

definition demo_platform :: oidc_platform where
  "demo_platform =
     \<lparr>ox_parseUrl = (\<lambda>s. Some \<lparr>url_href = s, url_protocol = ''https:'', url_hostname = ''idp.example'', url_host = ''idp.example'',
        url_pathname = ''/'', url_search = [], url_origin = ''https://idp.example''\<rparr>),
      ox_parseJson = (\<lambda>t. Some (Obj (if t = ''d'' then demo_document
        else [(''id_token'', Str ''jwt''), (''access_token'', Str ''at'')]))),
      ox_decodeUtf8 = (\<lambda>s. s)\<rparr>"

definition demo_provider :: generic_oidc_config where
  "demo_provider =
     \<lparr>go_issuer = ''https://idp.example'', go_clientId = ''app'', go_clientSecret = Some ''secret'',
      go_tokenEndpointAuthMethod = None, go_redirectUri = ''https://app.example/cb'', go_endpoints = Discover,
      go_scopes = None, go_subjectAllowlist = Some [''u1''], go_allowEmailAllowlist = False,
      go_allowProviderWithoutPkce = False, go_maxDiscoveryDocumentBytes = Undefined, go_maxTokenResponseBytes = Undefined,
      go_maxJwksDocumentBytes = Undefined\<rparr>"

definition demo_endpoints :: resolved_endpoints where
  "demo_endpoints =
     \<lparr>rs_authorizationEndpoint = ''https://idp.example/a'', rs_tokenEndpoint = ''https://idp.example/t'',
      rs_jwksUri = ''https://idp.example/k'', rs_allowedAlgs = PINNED_ALGS, rs_tokenAuthMethod = Client_secret_basic\<rparr>"

lemma demo_boots: "createGenericOidcIdentity demo_platform (\<lambda>address. Inr (200, [''d''])) demo_provider None = Inr demo_endpoints"
proof -
  have document: "read_document demo_platform demo_provider demo_document = Inr demo_endpoints"
    and issuer: "assertValidHttpsEndpoint demo_platform (go_issuer demo_provider) l = Inr ()"
    and checks: "trim (go_clientId demo_provider) \<noteq> []" "trim (go_redirectUri demo_provider) \<noteq> []"
      "opt_nonblank (go_clientSecret demo_provider)" for l
    by code_simp+
  have caps: "discoveryDocumentCap Undefined = Inr 65536" "tokenResponseCap Undefined = Inr 16384"
    "jwksDocumentCap Undefined = Inr DEFAULT_MAX_JWKS_DOCUMENT_BYTES"
    by (simp_all add: discoveryDocumentCap_def tokenResponseCap_def jwksDocumentCap_def capped_integer_def)
  have read: "capped_text demo_platform 65536 [''d''] m = Inr ''d''" for m
    by (simp add: capped_text_Inr) (simp add: demo_platform_def)
  have parsed: "parsed_json demo_platform ''d'' = Inr (Obj demo_document)" by (simp add: parsed_json_def demo_platform_def)
  have choices: "go_scopes demo_provider = None" "go_endpoints demo_provider = Discover"
    "go_maxDiscoveryDocumentBytes demo_provider = Undefined" "go_maxTokenResponseBytes demo_provider = Undefined"
    "go_maxJwksDocumentBytes demo_provider = Undefined"
    by (simp_all add: demo_provider_def)
  show ?thesis
    by (simp add: createGenericOidcIdentity_def resolveEndpoints_def createDiscoveryTransport_def issuer checks caps read parsed
        choices document document_object_def result_simps)
qed

theorem exchange_bound_to_provider_witness:
  "\<exists>body. exchange_form demo_provider demo_endpoints ''c'' ''v'' = Inr (body, [(''authorization'', ''Basic YXBwOnNlY3JldA=='')])
     \<and> map_of body ''code_verifier'' = Some ''v''
     \<and> own demo_claims ''nonce'' = Str ''n''"
proof -
  let ?fetch = "\<lambda>address. Inr (200, [''d''])" and ?post = "\<lambda>address body headers. Inr (200, Inr ''t'')"
  have boot: "createGenericOidcIdentity demo_platform ?fetch demo_provider None = Inr demo_endpoints"
    by (rule demo_boots)
  have basic: "exchange_form demo_provider demo_endpoints ''c'' ''v'' =
      Inr ([(''grant_type'', ''authorization_code''), (''code'', ''c''), (''redirect_uri'', ''https://app.example/cb''),
            (''code_verifier'', ''v'')],
        [(''authorization'', ''Basic YXBwOnNlY3JldA=='')])"
    by code_simp
  have claims: "claim_config demo_provider = demo_oidc" by (simp add: claim_config_def demo_provider_def demo_oidc_def)
  have tokens: "exchangeCodeForToken demo_platform demo_provider demo_endpoints ''c'' ''v'' ?post
      = Inr \<lparr>tr_id_token = ''jwt'', tr_access_token = ''at''\<rparr>"
    by code_simp
  have subject: "identitySubject (Str ''https://idp.example|u1'') = Inr ''https://idp.example|u1''" by code_simp
  have algs: "rs_allowedAlgs demo_endpoints = PINNED_ALGS" by (simp add: demo_endpoints_def)
  obtain cs where "oidc_verify demo_jose PINNED_ALGS (validateGenericOidcIdToken lower_case demo_oidc) (Some ''n'') (Some ''at'') (Str ''jwt'')
      = Accepted (Str ''https://idp.example|u1'') None cs"
    using demo_accepted by blast
  then have "snapshotRedirectExchangeResult (\<lambda>_. []) (generic_redirect_exchange demo_platform (\<lambda>_. []) lower_case demo_jose
      demo_provider demo_endpoints ?post ''c'' ''v'' ''n'') False = Inr (Exchanged ''https://idp.example|u1'' Undefined)"
    using algs subject by (simp add: generic_redirect_exchange_def wrapRedirectIdentity_def tokens claims outcome_crosses
        carried_ceiling_def)
  from exchange_bound_to_provider [OF boot this] show ?thesis using basic by (auto simp: demo_jose_def)
qed

subsection \<open>Outages decide nothing\<close>

text \<open>The failures of \<open>jose\<close> that are not about the token: the key set could not be had, or something else broke.\<close>

definition outage :: "jose_error \<Rightarrow> bool" where
  "outage e \<longleftrightarrow> e \<in> {Jwks_timeout, Jwks_invalid, Jose_generic, Foreign_error}"

lemma outage_reason:
  "jwtErrorReason e = ''generic_oidc_verify_failed'' \<longleftrightarrow> outage e"
  "entraJwtErrorReason e = ''entra_verify_failed'' \<longleftrightarrow> outage e"
  by (cases e; simp add: outage_def)+

lemma validator_reasons:
  "validateGenericOidcIdToken lower cc payload opts \<noteq> Rejected ''generic_oidc_verify_failed''"
  by (simp add: validateGenericOidcIdToken_def generic_identity_def split: option.split)

lemma kind_of_crossing:
  "(\<exists>reason. snapshotRedirectExchangeResult numText (redirect_outcome out a) False = Inr (ExchangeFailed ''exchange_failed'' reason))
     \<longleftrightarrow> a = Rejected out"
  by (cases a) (auto simp: outcome_crosses chain_def split: sum.split)

text \<open>
  A failure of the provider's infrastructure is never an identity decision, and a decision is never hidden as one:
  the generic port answers \<open>exchange_failed\<close> exactly when the exchange itself threw or the key set could not be had,
  so every other refusal, a bad signature included, is reported as \<open>identity_rejected\<close>.
\<close>

theorem outage_is_no_decision:
  "(\<exists>reason. snapshotRedirectExchangeResult numText
       (generic_redirect_exchange pf redact lower jose cfg r transport c verifier nonce) False
         = Inr (ExchangeFailed ''exchange_failed'' reason))
   \<longleftrightarrow> (case exchangeCodeForToken pf cfg r c verifier transport of
         Inl e \<Rightarrow> True
       | Inr tokens \<Rightarrow> (case jose (tr_id_token tokens) (rs_allowedAlgs r) of Inl e \<Rightarrow> outage e | Inr v \<Rightarrow> False))"
proof (cases "exchangeCodeForToken pf cfg r c verifier transport")
  case (Inl e)
  then show ?thesis by (simp add: generic_redirect_exchange_def wrapRedirectIdentity_def failed_crosses)
next
  case (Inr tokens)
  have "tr_id_token tokens \<noteq> []" using exchange_posts [OF Inr] token_response_read by blast
  then show ?thesis
    by (cases "jose (tr_id_token tokens) (rs_allowedAlgs r)")
      (auto simp: Inr generic_redirect_exchange_def wrapRedirectIdentity_def kind_of_crossing oidc_verify_def
        verifyIdTokenWithKey_def outage_reason validator_reasons)
qed

end
