(* ===== verification/Deployment.thy ===== *)
theory Deployment
  imports Bridge_Config
begin

section \<open>The deployment guard and the Redis limiter\<close>

text \<open>
  \<open>src/deployment-guard.ts\<close>: which combinations of a configuration, a limiter and an acknowledgement may boot;
  \<open>src/rate-limit/redis.ts\<close>: the limiter that counts in fixed windows on a Redis server. The server is a
  parameter; the script it runs is part of the repository and is modelled over the server's \<open>INCR\<close> and
  \<open>EXPIRE\<close>.
\<close>

subsection \<open>URLs the guard tells apart\<close>

text \<open>
  The fragment of a parsed URL, read off its serialisation: a raw number sign only starts a fragment there, and
  a lone one is the empty fragment.
\<close>

definition url_hash :: "url \<Rightarrow> string" where
  "url_hash u = (let f = dropWhile (\<lambda>c. c \<noteq> CHR 0x23) (url_href u) in if length f = 1 then [] else f)"

definition isLoopbackUrl :: "url_parser \<Rightarrow> string \<Rightarrow> bool" where
  "isLoopbackUrl parseUrl value =
     (case parseUrl value of
        None \<Rightarrow> False
      | Some u \<Rightarrow> url_protocol u \<in> {''http:'', ''https:''} \<and> url_hostname u \<in> set LOOPBACK_HOSTS)"

definition isGenericLoopbackRedirect :: "url_parser \<Rightarrow> string \<Rightarrow> bool" where
  "isGenericLoopbackRedirect parseUrl value =
     (case parseUrl value of
        None \<Rightarrow> False
      | Some u \<Rightarrow> url_hostname u \<in> set LOOPBACK_HOSTS \<and> url_search u = [] \<and> url_hash u = [])"

definition isApplicationSpecificHttpsRedirect :: "url_parser \<Rightarrow> string \<Rightarrow> bool" where
  "isApplicationSpecificHttpsRedirect parseUrl value =
     (case parseUrl value of
        None \<Rightarrow> False
      | Some u \<Rightarrow>
          url_protocol u = ''https:'' \<and> url_origin u \<notin> set DEFAULT_ALLOWED_REDIRECT_ORIGINS
          \<and> \<not> isGenericLoopbackRedirect parseUrl value)"

text \<open>An entry of a validated allowlist is a string, because \<open>parseRedirectEntry\<close> accepts nothing else.\<close>

definition on_entry :: "(string \<Rightarrow> bool) \<Rightarrow> jsval \<Rightarrow> bool" where
  "on_entry p v = (case v of Str s \<Rightarrow> p s | _ \<Rightarrow> False)"

subsection \<open>Binding the limiter\<close>

text \<open>
  What a composition passes as its limiter: the exported no-op, a snapshot made earlier (a member of the
  identity map that is not its own identity), or an object whose \<open>check\<close> reads as a value or throws. A snapshot
  of a port calls the function that was read, on the port it was read from.
\<close>

datatype rate_port =
    Noop_port
  | Snapshot_port nat
  | Given_port nat "jsval outcome"

definition limiter_problem :: failure where
  "limiter_problem = authConfigError ''rateLimit must implement an async check(key) method''"

text \<open>
  Functions are \<open>Opaque\<close> values, and so are symbols and bigints, which \<open>typeof\<close> tells apart; the model follows a
  port whose \<open>check\<close> is, when opaque, a function.
\<close>

definition snapshotRateLimit :: "rate_port option \<Rightarrow> rate_port option outcome" where
  "snapshotRateLimit port =
     (case port of
        Some (Given_port i check) \<Rightarrow>
          (case check of
             Inl _ \<Rightarrow> Inl limiter_problem
           | Inr f \<Rightarrow> if f = Opaque then Inr (Some (Snapshot_port i)) else Inl limiter_problem)
      | _ \<Rightarrow> Inr port)"

subsection \<open>The guard\<close>

definition stored_limiter_text :: string where
  "stored_limiter_text =
     ''stored DCR requires a bounded RateLimitPort because anonymous registrations create durable state; ''
     @ ''supply a limiter (mcp-sso/rate-limit/redis ships one)''"

definition unsafe_text :: string where
  "unsafe_text =
     ''stateless DCR with no application-specific HTTPS redirect and no RateLimitPort is unsafe; configure an ''
     @ ''application callback, supply a limiter, or explicitly acknowledge the temporary starter risk''"

definition bounded_port :: "rate_port option \<Rightarrow> bool" where
  "bounded_port p \<longleftrightarrow> p \<noteq> None \<and> p \<noteq> Some Noop_port"

definition loopback_deployment :: "url_parser \<Rightarrow> bridge_config \<Rightarrow> bool" where
  "loopback_deployment parseUrl cfg \<longleftrightarrow> isLoopbackUrl parseUrl (cfg_issuer cfg) \<and> isLoopbackUrl parseUrl (cfg_resource cfg)"

definition application_redirect :: "url_parser \<Rightarrow> bridge_config \<Rightarrow> bool" where
  "application_redirect parseUrl cfg \<longleftrightarrow>
     \<not> list_ex (on_entry (isGenericLoopbackRedirect parseUrl)) (cfg_redirectAllowlist cfg)
     \<and> list_ex (on_entry (isApplicationSpecificHttpsRedirect parseUrl)) (cfg_redirectAllowlist cfg)"

text \<open>The answer is the bound limiter and whether the acknowledgement was warned about.\<close>

definition assertSafeDeploymentCombination ::
    "url_parser \<Rightarrow> bridge_config \<Rightarrow> rate_port option \<Rightarrow> bool \<Rightarrow> bool \<Rightarrow> (rate_port option \<times> bool) outcome" where
  "assertSafeDeploymentCombination parseUrl cfg given acknowledged emitAcknowledgementWarning =
     chain (snapshotRateLimit given) (\<lambda>rateLimit.
     if acknowledged \<and> \<not> loopback_deployment parseUrl cfg
     then Inl (authConfigError ''acknowledgeUnsafeStatelessDefaults is restricted to loopback issuer and resource URLs'')
     else if cfg_dcr cfg = StoredDcr \<and> \<not> bounded_port rateLimit then Inl (authConfigError stored_limiter_text)
     else let warned = (acknowledged \<and> emitAcknowledgementWarning) in
       if bounded_port rateLimit then Inr (rateLimit, warned)
       else if cfg_dev cfg = Some True \<and> loopback_deployment parseUrl cfg then Inr (rateLimit, warned)
       else if \<not> application_redirect parseUrl cfg
       then (if acknowledged then Inr (rateLimit, warned) else Inl (authConfigError unsafe_text))
       else Inr (rateLimit, warned))"

definition assertLoopbackStarterBeforeState :: "url_parser \<Rightarrow> string \<Rightarrow> string \<Rightarrow> unit outcome" where
  "assertLoopbackStarterBeforeState parseUrl issuer res =
     require (isLoopbackUrl parseUrl issuer \<and> isLoopbackUrl parseUrl res)
       (authConfigError ''the console-pairing starter requires loopback issuer and resource URLs'')"

subsection \<open>Fixed windows on Redis\<close>

text \<open>
  The commands of the server the script calls, on its state: \<open>INCR\<close> answers the new count, \<open>EXPIRE\<close> sets the
  lifetime of a key.
\<close>

record 's redis_commands =
  rd_incr :: "string \<Rightarrow> 's \<Rightarrow> int \<times> 's"
  rd_expire :: "string \<Rightarrow> int \<Rightarrow> 's \<Rightarrow> 's"

definition fixedWindowScript :: "'s redis_commands \<Rightarrow> string \<Rightarrow> int \<Rightarrow> 's \<Rightarrow> int \<times> 's" where
  "fixedWindowScript r key window s =
     (let (n, s') = rd_incr r key s in (n, if n = 1 then rd_expire r key window s' else s'))"

text \<open>The client's two calls, each with the key and the window, on the state of the server.\<close>

record 's redis_client =
  rc_evalsha :: "string \<Rightarrow> int \<Rightarrow> 's \<Rightarrow> jsval outcome \<times> 's"
  rc_eval :: "string \<Rightarrow> int \<Rightarrow> 's \<Rightarrow> jsval outcome \<times> 's"

record redis_limit =
  rl_windowSeconds :: int
  rl_limit :: int
  rl_keyPrefix :: string

definition positive_setting :: "jsval \<Rightarrow> string \<Rightarrow> int outcome" where
  "positive_setting v field =
     (let problem = Thrown ''Error'' (''RedisRateLimitConfig.'' @ field @ '' must be a positive integer'')
      in case v of Number (Whole n) \<Rightarrow> if n < 1 then Inl problem else Inr n | _ \<Rightarrow> Inl problem)"

definition createRedisRateLimit :: "jsval \<Rightarrow> jsval \<Rightarrow> string option \<Rightarrow> redis_limit outcome" where
  "createRedisRateLimit windowSeconds limit keyPrefix =
     chain (positive_setting windowSeconds ''windowSeconds'') (\<lambda>w.
     chain (positive_setting limit ''limit'') (\<lambda>l.
     Inr \<lparr>rl_windowSeconds = w, rl_limit = l,
          rl_keyPrefix = (case keyPrefix of None \<Rightarrow> ''mcp-sso:rl:'' | Some p \<Rightarrow> p)\<rparr>))"

fun isNoScript :: "failure \<Rightarrow> bool" where
  "isNoScript (Thrown _ m) = startsWith m ''NOSCRIPT''"
| "isNoScript (OAuth e) = startsWith (message e) ''NOSCRIPT''"
| "isNoScript (PortFailure _ _ _ _) = False"

text \<open>The reply's number; a numeral is read exactly, whatever its length.\<close>

definition numeral_value :: "string \<Rightarrow> int" where
  "numeral_value s = foldl (\<lambda>n c. 10 * n + (int (byte c) - 48)) 0 s"

definition signed_numeral :: "string \<Rightarrow> int option" where
  "signed_numeral s =
     (case s of
        [] \<Rightarrow> None
      | c # ds \<Rightarrow>
          if c = CHR ''-'' then (if ds \<noteq> [] \<and> list_all is_digit ds then Some (- numeral_value ds) else None)
          else if list_all is_digit s then Some (numeral_value s) else None)"

definition non_numeric_text :: "jsval \<Rightarrow> string" where
  "non_numeric_text reply =
     ''RedisRateLimit: non-numeric reply from the fixed-window script (got '' @ js_typeof reply @ '') ''
     @ [CHR 0xE2, CHR 0x80, CHR 0x94] @ '' no quota decision was reached, treated as a limiter outage''"

definition scriptCount :: "jsval \<Rightarrow> int outcome" where
  "scriptCount reply =
     (case reply of
        Number (Whole n) \<Rightarrow> Inr n
      | Str s \<Rightarrow> (case signed_numeral s of Some n \<Rightarrow> Inr n | None \<Rightarrow> Inl (Thrown ''Error'' (non_numeric_text reply)))
      | _ \<Rightarrow> Inl (Thrown ''Error'' (non_numeric_text reply)))"

definition redis_check :: "redis_limit \<Rightarrow> 's redis_client \<Rightarrow> string \<Rightarrow> 's \<Rightarrow> bool outcome \<times> 's" where
  "redis_check rl client key s =
     (let fullKey = rl_keyPrefix rl @ key;
          (reply, s') =
            (case rc_evalsha client fullKey (rl_windowSeconds rl) s of
               (Inl e, s1) \<Rightarrow> if isNoScript e then rc_eval client fullKey (rl_windowSeconds rl) s1 else (Inl e, s1)
             | (Inr v, s1) \<Rightarrow> (Inr v, s1))
      in (chain reply (\<lambda>count. chain (scriptCount count) (\<lambda>n. Inr (n \<le> rl_limit rl))), s'))"

text \<open>The answers to a sequence of checks.\<close>

fun redis_checks :: "redis_limit \<Rightarrow> 's redis_client \<Rightarrow> string list \<Rightarrow> 's \<Rightarrow> (string \<times> bool outcome) list" where
  "redis_checks rl client [] s = []"
| "redis_checks rl client (key # keys) s =
     (let (r, s') = redis_check rl client key s in (key, r) # redis_checks rl client keys s')"

definition allowed_for :: "string \<Rightarrow> (string \<times> bool outcome) list \<Rightarrow> nat" where
  "allowed_for key answers = length (filter (\<lambda>a. a = (key, Inr True)) answers)"

section \<open>What the guard and the limiter promise\<close>

subsection \<open>The guard\<close>

lemma snapshot_bounded: "snapshotRateLimit given = Inr p \<Longrightarrow> bounded_port p = bounded_port given"
  by (auto simp: snapshotRateLimit_def bounded_port_def split: option.splits rate_port.splits sum.splits if_splits)

definition safe_combination :: "url_parser \<Rightarrow> bridge_config \<Rightarrow> rate_port option \<Rightarrow> bool \<Rightarrow> bool" where
  "safe_combination parseUrl cfg given acknowledged \<longleftrightarrow>
     (acknowledged \<longrightarrow> loopback_deployment parseUrl cfg)
     \<and> (bounded_port given
        \<or> cfg_dcr cfg = Stateless
          \<and> (loopback_deployment parseUrl cfg \<and> (acknowledged \<or> cfg_dev cfg = Some True)
             \<or> application_redirect parseUrl cfg))"

text \<open>
  The deployment guard lets a composition boot exactly when its limiter can be bound, an acknowledgement is
  only given for a loopback issuer and resource, and either the limiter is bounded or registration is stateless
  and the deployment is a loopback one that is marked as local or acknowledged, or it has an application's own
  HTTPS redirect and keeps no generic loopback redirect. So no bridge that registers clients durably ever runs
  without a bounded limiter. The limiter it goes on with is the one that was bound, bounded exactly when the
  given one is.
\<close>

theorem guard_exact:
  "(\<exists>answer. assertSafeDeploymentCombination parseUrl cfg given acknowledged warn = Inr answer)
     \<longleftrightarrow> (\<exists>p. snapshotRateLimit given = Inr p) \<and> safe_combination parseUrl cfg given acknowledged"
proof (cases "snapshotRateLimit given")
  case (Inl e)
  then show ?thesis by (simp add: assertSafeDeploymentCombination_def)
next
  case (Inr p)
  have stored: "cfg_dcr cfg = StoredDcr \<longleftrightarrow> cfg_dcr cfg \<noteq> Stateless" by (cases "cfg_dcr cfg") simp_all
  show ?thesis
    using Inr stored by (auto simp: assertSafeDeploymentCombination_def safe_combination_def snapshot_bounded [OF Inr] Let_def)
qed

subsection \<open>The limiter\<close>

text \<open>
  What Redis documents of the commands within one window, \<open>count\<close> reading the counter of a key: \<open>INCR\<close> adds one
  and answers the sum, \<open>EXPIRE\<close> changes no value, and neither touches another key.
\<close>

definition counts_within_window :: "'s redis_commands \<Rightarrow> (string \<Rightarrow> 's \<Rightarrow> int) \<Rightarrow> bool" where
  "counts_within_window r count \<longleftrightarrow>
     (\<forall>key s. fst (rd_incr r key s) = count key s + 1
        \<and> (\<forall>k. count k (snd (rd_incr r key s)) = (if k = key then count key s + 1 else count k s)))
     \<and> (\<forall>key window k s. count k (rd_expire r key window s) = count k s)"

text \<open>
  What the client does with the script: \<open>eval\<close> runs it, \<open>evalsha\<close> runs it or answers that the server does not have
  it and has changed nothing.
\<close>

definition runs_script :: "'s redis_commands \<Rightarrow> 's redis_client \<Rightarrow> bool" where
  "runs_script r client \<longleftrightarrow>
     (\<forall>key window s.
        rc_eval client key window s = map_prod (\<lambda>n. Inr (Number (Whole n))) id (fixedWindowScript r key window s)
        \<and> (rc_evalsha client key window s = rc_eval client key window s
           \<or> rc_evalsha client key window s = (Inl (Thrown ''ReplyError'' ''NOSCRIPT No matching script.''), s)))"

lemma script_counts:
  assumes "counts_within_window r count"
  shows "fst (fixedWindowScript r key window s) = count key s + 1"
    and "count k (snd (fixedWindowScript r key window s)) = (if k = key then count key s + 1 else count k s)"
  using assms by (auto simp: counts_within_window_def fixedWindowScript_def Let_def split: prod.splits)
    (metis fst_conv snd_conv)+

lemma check_counts:
  assumes "runs_script r client" and "counts_within_window r count"
  shows "fst (redis_check rl client key s) = Inr (count (rl_keyPrefix rl @ key) s + 1 \<le> rl_limit rl)"
    and "count k (snd (redis_check rl client key s))
           = (if k = rl_keyPrefix rl @ key then count k s + 1 else count k s)"
proof -
  let ?k = "rl_keyPrefix rl @ key" and ?w = "rl_windowSeconds rl"
  obtain n s' where script: "fixedWindowScript r ?k ?w s = (n, s')" by (cases "fixedWindowScript r ?k ?w s")
  have eval: "rc_eval client ?k ?w s = (Inr (Number (Whole n)), s')"
    using assms(1) script by (simp add: runs_script_def)
  have "rc_evalsha client ?k ?w s = rc_eval client ?k ?w s
      \<or> rc_evalsha client ?k ?w s = (Inl (Thrown ''ReplyError'' ''NOSCRIPT No matching script.''), s)"
    using assms(1) unfolding runs_script_def by blast
  then have checked: "redis_check rl client key s = (Inr (n \<le> rl_limit rl), s')"
    using eval by (auto simp: redis_check_def scriptCount_def)
  show "fst (redis_check rl client key s) = Inr (count ?k s + 1 \<le> rl_limit rl)"
    using script_counts(1) [OF assms(2), of ?k ?w s] script checked by simp
  show "count k (snd (redis_check rl client key s)) = (if k = ?k then count k s + 1 else count k s)"
    using script_counts(2) [OF assms(2), of k ?k ?w s] script checked by simp
qed

lemma allowed_for_Cons:
  "allowed_for key ((k, r) # answers) = (if k = key \<and> r = Inr True then 1 else 0) + allowed_for key answers"
  by (simp add: allowed_for_def)

text \<open>
  Within one window the Redis limiter allows a key at most \<open>limit\<close> requests beyond those already counted, and
  exactly as many as are asked for while there are fewer: of any sequence of checks of any keys, starting from a
  count of zero, the number that answers true for a key is the smaller of the limit and the number of checks of
  that key. The server may lose its compiled scripts at any point; no check is counted twice for it.
\<close>

theorem redis_limit_exact:
  assumes "runs_script r client" and "counts_within_window r count"
    and "count (rl_keyPrefix rl @ key) s = 0" and "0 \<le> rl_limit rl"
  shows "int (allowed_for key (redis_checks rl client keys s)) = min (rl_limit rl) (int (count_list keys key))"
proof -
  have "int (allowed_for key (redis_checks rl client keys s'))
      = min (max 0 (rl_limit rl - count (rl_keyPrefix rl @ key) s')) (int (count_list keys key))" for s'
  proof (induction keys arbitrary: s')
    case Nil
    show ?case by (simp add: allowed_for_def)
  next
    case (Cons k keys)
    obtain r' s'' where checked: "redis_check rl client k s' = (r', s'')" by (cases "redis_check rl client k s'")
    have r': "r' = Inr (count (rl_keyPrefix rl @ k) s' + 1 \<le> rl_limit rl)"
      and counted: "count (rl_keyPrefix rl @ key) s''
        = (if k = key then count (rl_keyPrefix rl @ key) s' + 1 else count (rl_keyPrefix rl @ key) s')"
      using check_counts(1) [OF assms(1,2), of rl k s'] checked
        check_counts(2) [OF assms(1,2), of "rl_keyPrefix rl @ key" rl k s'] by auto
    show ?case using Cons [of s''] by (auto simp: checked allowed_for_Cons r' counted)
  qed
  from this [of s] show ?thesis using assms(3,4) by simp
qed

text \<open>A server for the witness: counters only, and a cache of scripts that is always empty.\<close>

definition counters :: "(string \<Rightarrow> int) redis_commands" where
  "counters = \<lparr>rd_incr = (\<lambda>key s. (s key + 1, s(key := s key + 1))), rd_expire = (\<lambda>key window s. s)\<rparr>"

definition forgetful_client :: "(string \<Rightarrow> int) redis_client" where
  "forgetful_client =
     \<lparr>rc_evalsha = (\<lambda>key window s. (Inl (Thrown ''ReplyError'' ''NOSCRIPT No matching script.''), s)),
      rc_eval = (\<lambda>key window s. map_prod (\<lambda>n. Inr (Number (Whole n))) id (fixedWindowScript counters key window s))\<rparr>"

theorem redis_limit_exact_witness:
  "int (allowed_for ''register:a''
      (redis_checks \<lparr>rl_windowSeconds = 60, rl_limit = 2, rl_keyPrefix = ''rl:''\<rparr> forgetful_client
         [''register:a'', ''register:b'', ''register:a'', ''register:a''] (\<lambda>key. 0))) = 2"
proof -
  have "runs_script counters forgetful_client" by (simp add: runs_script_def forgetful_client_def)
  moreover have "counts_within_window counters (\<lambda>key s. s key)" by (simp add: counts_within_window_def counters_def)
  ultimately show ?thesis
    by (subst redis_limit_exact [of counters forgetful_client "\<lambda>key s. s key"]) simp_all
qed

end
