(* ===== verification/Spec2Isabelle.thy ===== *)
theory Spec2Isabelle
  imports Resource_Server Machine_Laws Cimd_Resolver_Runs Cimd_Service Pairing_Laws Pairing_Runs
    Pages_Laws Route_Runs Id_Token_Laws Upstream_Runs Oidc_Laws Deployment
begin

text \<open>
  A verification development for mcp-sso.

  The program. mcp-sso is an OAuth 2.1 authorization server that a remote MCP server embeds. A bridge
  configuration is validated once (\<open>src/config.ts\<close>). The authorization use-case learns from an identity who the
  user is, shows a consent page and, when it is approved, stores an authorization code; the token use-case
  exchanges codes, refresh tokens and machine credentials for signed access tokens; the resource server verifies
  those. A client is registered beforehand (\<open>src/register.ts\<close>, \<open>src/machine-client.ts\<close>) or is the URL of a document that is
  fetched under guard (\<open>src/cimd\<close>). Everything pluggable (store, client store, clock, random source, limiter,
  identity, audit) is a port, and nothing a port returns is trusted before it was read by a snapshot.

  How it is modelled. A JavaScript string is the list of its bytes in WTF-8, an untyped value a \<open>jsval\<close>, an object or
  a map an association list in insertion order, what is thrown a \<open>failure\<close>, and a fallible function returns
  \<open>failure + 'a\<close>. A use-case that awaits is a \<open>task\<close>: a tree of port calls, clock readings, draws and audit
  events. \<open>perform\<close> runs one to its end in an environment, \<open>interleave\<close> advances several by any schedule over
  one environment, so a theorem about schedules is about concurrent requests. Every definition carries the
  name of its TypeScript original where it has one. Libraries the sources only call are parameters: the JWT library
  (record \<open>jose\<close>), the URL and JSON parsers, base64 decoding to text, lower-casing beyond ASCII, DNS and the HTTP
  transport; what is relied on of them is a hypothesis with a witness that satisfies it.

  Theories, in import order.
  \<^item> \<open>Prelude\<close>: results and their rules (\<open>result_simps\<close>), strings, untyped values, insertion-ordered maps.
  \<^item> \<open>Errors\<close>, \<open>Clock\<close>: \<open>src/errors.ts\<close>, \<open>src/port-failure.ts\<close>, \<open>src/ports/clock.ts\<close>, \<open>src/numeric-date.ts\<close>, with the
    order of timestamps as texts.
  \<^item> \<open>Scope_Hierarchy\<close>, \<open>Scopes\<close>, \<open>Identity_Boundary\<close>: the files of the same names.
  \<^item> \<open>Store_Port\<close>, \<open>Memory_Store\<close>: \<open>src/ports/store.ts\<close>, \<open>src/store/memory.ts\<close>. \<open>Store_Invariants\<close> has the
    well-formedness invariant, its preservation by every operation and the specification that rotation refines;
    \<open>Store_History\<close> and \<open>Store_Families\<close> the theorems about any sequence of calls: single use, no forks, revocation
    for good.
  \<^item> \<open>Digest\<close>, \<open>Credentials\<close>: SHA-256 on 32-bit words and the encodings; identifiers, PKCE and Basic
    authentication of \<open>src/crypto.ts\<close> and \<open>src/client-auth.ts\<close>.
  \<^item> \<open>Redirect_Entry\<close>, \<open>Redirects\<close>, \<open>Bridge_Config\<close>: redirect policy and configuration.
  \<^item> \<open>Tasks\<close>, \<open>Port_Results\<close>, \<open>Task_Laws\<close>, \<open>Port_Contracts\<close>, \<open>Task_Guarantees\<close>: tasks and schedules; the snapshots of
    \<open>src/port-result.ts\<close> and the reference store as an environment; runs of composed tasks; the locale
    \<open>spending\<close> of single-use resources, interpreted on the store for codes, refresh tokens and consent identifiers;
    what a task guarantees whatever its ports answer (\<open>gives\<close>, \<open>within_intros\<close>, \<open>gives_rules\<close>).
  \<^item> \<open>Signed_Tokens\<close>, \<open>Token_Laws\<close>: consent and access tokens over \<open>jose\<close>, with their round trips.
  \<^item> \<open>Token_Endpoint\<close>, \<open>Token_Grants\<close>, \<open>Token_Runs\<close>: the grants and revocation of \<open>src/token.ts\<close> and
    \<open>src/token-revoke.ts\<close>, what each has checked when it succeeds, and concrete runs.
  \<^item> \<open>Resource_Server\<close>: \<open>src/verifier.ts\<close>, \<open>src/challenge.ts\<close>, \<open>src/metadata.ts\<close>.
  \<^item> \<open>Machine_Records\<close>, \<open>Machine_Clients\<close>, \<open>Machine_Laws\<close>, \<open>Registration\<close>: \<open>src/machine-client*.ts\<close>, \<open>src/register.ts\<close>.
  \<^item> \<open>Cimd_Document\<close>, \<open>Cimd_Admission\<close>, \<open>Cimd_Blocklist\<close>, \<open>Cimd_Addresses\<close>, \<open>Cimd_Cache\<close>, \<open>Cimd_Cache_Laws\<close>, \<open>Cimd_Fetch\<close>,
    \<open>Cimd_Fetch_Laws\<close>, \<open>Cimd_Resolver\<close>, \<open>Cimd_Resolver_Laws\<close>, \<open>Cimd_Resolver_Runs\<close>, \<open>Cimd_Service\<close>: the files of
    \<open>src/cimd\<close>. The resolver is a service whose callers interleave: a step relation with its invariants and an
    answer for every caller. \<open>Cimd_Service\<close> states what the authorization endpoint
    relies on as the locale \<open>cimd_source\<close> and interprets it on the resolver.
  \<^item> \<open>Authorize\<close>, \<open>Authorize_Laws\<close>, \<open>Authorize_Runs\<close>: \<open>prepare\<close> and \<open>approve\<close> of \<open>src/authorize.ts\<close>.
  \<^item> \<open>Pairing\<close>, \<open>Pairing_History\<close>, \<open>Pairing_Laws\<close>, \<open>Pairing_Port\<close>, \<open>Pairing_Runs\<close>: the console pairing identity as a step
    relation, its histories, and the locale \<open>pairing_provider\<close> between it and the adapter.
  \<^item> \<open>Http\<close>, \<open>Pages\<close>, \<open>Pages_Laws\<close>, \<open>Bridge\<close>, \<open>Bridge_Laws\<close>, \<open>Hono_App\<close>, \<open>Route_Laws\<close>, \<open>Route_Runs\<close>: reading requests and building
    responses, the two HTML pages as pieces of markup and shown values, one handler per route, the Hono
    application, and the theorems across all routes.
  \<^item> \<open>Pairing_Flow\<close>, \<open>Page_Forms\<close>, \<open>Pairing_Flow_Laws\<close>: the pairing page in front of the authorize route; \<open>Page_Forms\<close> reads
    the form of a rendered page back as a browser does, which is how the round trip of the parameters is stated.
  \<^item> \<open>Id_Tokens\<close>, \<open>Entra_Tokens\<close>, \<open>Id_Token_Laws\<close>: the validation of identity tokens of \<open>src/identity\<close> and the ceiling that
    groups give.
  \<^item> \<open>Oidc_Discovery\<close>, \<open>Oidc_Exchange\<close>, \<open>Oidc_Laws\<close>: discovery and boot checks of a generic OpenID identity, the exchange of a
    code, the redirect ports of generic OpenID, Google and Entra; discovered endpoints stay on the issuer's host, a
    subject belongs to its exchange, and an outage is no identity decision.
  \<^item> \<open>Deployment\<close>: \<open>src/deployment-guard.ts\<close> with exactly the compositions it lets boot, and \<open>src/rate-limit/redis.ts\<close> with
    the exact number of requests it allows in a window.
  \<^item> \<open>Response_Boundary\<close>, \<open>Response_Laws\<close>: \<open>src/adapters/response-boundary.ts\<close>, what of a host's response is sent.
  \<^item> \<open>Upstream_Token\<close>, \<open>Upstream_Token_Laws\<close>, \<open>Upstream_Flow\<close>, \<open>Upstream_Laws\<close>, \<open>Upstream_Callback\<close>, \<open>Upstream_Runs\<close>: the redirect flows of
    \<open>src/adapters/upstream-flow*.ts\<close>: the signed cookie, leaving for the provider, the callback with its checks in
    order, and its ends at the bridge or at the host; \<open>Upstream_Callback\<close> what every callback answers and audits.

  How the parts meet. \<open>Bridge\<close> composes the use-cases over one \<open>authorize_service\<close>; \<open>serve\<close> is the route table; the pairing
  and the redirect flows end in \<open>handleAuthorize\<close>. The store is shared: \<open>Route_Laws\<close> and \<open>Upstream_Laws\<close> prove single use of
  codes, refresh tokens and flows for any interleaving of any requests over it.

  Bounds. Recursion is structural or has a measure; the one loop that may not end, the rejection sampling of a pairing
  code, is a partial function whose termination on a fair source is proved. No fuel is used. Sizes and time-outs are the
  constants of the source. Clock readings are whole milliseconds in the range of \<open>Date\<close>, as the clock's snapshot
  checks.

  Not modelled. The SQLite and MySQL stores are SQL text run by an engine; the reference store is their
  contract. The Express and Fastify mounts repeat the route table over frameworks that are not in the repository.
  The key sets of the identity providers are fetched and held by the JWT library; the node resolver and transport are
  network calls, and so is the \<open>fetch\<close> under discovery and code exchange, a parameter. Expiry collection is timers; audit
  sinks, the command line and the quickstart are process and file-system glue; logging to the console has no effect on a response. Proxies, accessors and unusual prototypes
  of host values are refused before anything is read, and a record of the model has none. Test suites and examples are no part
  of the library.
\<close>

end
